(* ===== verification/Go_Base.thy ===== *)
theory Go_Base
  imports Main "HOL-Library.AList"
begin

text \<open>
  What the components share of the Go language and its standard library: instants and
  durations of the package time, int64 arithmetic with its wrap-around, the few functions of
  the package strings the program uses, the printing of integers, and association lists as
  the model of a Go map or of a database table (the order of the list is the order in which a
  range loop meets the keys; Go does not fix that order, so no theorem may depend on it).
  The theory also declares the collections of rewrite rules the component proofs use.

  A \<open>gotime\<close> counts nanoseconds since Go's zero Time (1 January of year 1, UTC), so the zero
  value of the type is 0 and every clock reading is positive. A \<open>duration\<close> is an int64 number
  of nanoseconds.
\<close>

named_theorems go_time \<open>unfolds instants and durations to linear arithmetic\<close>
named_theorems go_strings \<open>evaluates the functions of the package strings\<close>

section \<open>The package time\<close>

type_synonym gotime = int
type_synonym duration = int

definition maxDuration :: duration where
  "maxDuration = 2 ^ 63 - 1"

definition minDuration :: duration where
  "minDuration = - (2 ^ 63)"

text \<open>\<open>t.Sub(u)\<close> saturates at the ends of the int64 range.\<close>

definition Sub :: "gotime \<Rightarrow> gotime \<Rightarrow> duration" where
  "Sub t u = max minDuration (min maxDuration (t - u))"

definition Add :: "gotime \<Rightarrow> duration \<Rightarrow> gotime" where
  "Add t d = t + d"

definition Before :: "gotime \<Rightarrow> gotime \<Rightarrow> bool" where
  "Before t u \<longleftrightarrow> t < u"

definition After :: "gotime \<Rightarrow> gotime \<Rightarrow> bool" where
  "After t u \<longleftrightarrow> u < t"

definition IsZero :: "gotime \<Rightarrow> bool" where
  "IsZero t \<longleftrightarrow> t = 0"

definition Microsecond :: duration where "Microsecond = 1000"
definition Second :: duration where "Second = 1000000000"
definition Minute :: duration where "Minute = 60 * Second"

text \<open>\<open>t.Truncate(d)\<close> rounds down to a multiple of d since the zero Time.\<close>

definition Truncate :: "gotime \<Rightarrow> duration \<Rightarrow> gotime" where
  "Truncate t d = (if d \<le> 0 then t else t - t mod d)"

lemmas go_time_defs [go_time] =
  Add_def Before_def After_def IsZero_def Microsecond_def Second_def Minute_def

lemma Sub_exact: "minDuration \<le> t - u \<Longrightarrow> t - u \<le> maxDuration \<Longrightarrow> Sub t u = t - u"
  by (simp add: Sub_def)

lemma Sub_le_self: "0 \<le> t - u \<Longrightarrow> Sub t u \<le> t - u"
  by (simp add: Sub_def minDuration_def)

lemma Sub_ge_iff: "minDuration < d \<Longrightarrow> d \<le> maxDuration \<Longrightarrow> d \<le> Sub t u \<longleftrightarrow> d \<le> t - u"
  by (auto simp: Sub_def)

lemma Sub_pos_iff: "0 < Sub t u \<longleftrightarrow> u < t"
  by (auto simp: Sub_def minDuration_def maxDuration_def)

lemma Sub_neg_iff: "Sub t u < 0 \<longleftrightarrow> t < u"
  by (auto simp: Sub_def minDuration_def maxDuration_def)

lemma Truncate_le: "Truncate t d \<le> t"
  by (simp add: Truncate_def)

lemma Truncate_mono: "t \<le> u \<Longrightarrow> Truncate t d \<le> Truncate u d"
proof (cases "d \<le> 0")
  case False
  assume "t \<le> u"
  then have "t div d * d \<le> u div d * d"
    using False by (simp add: zdiv_mono1)
  with False show ?thesis by (simp add: Truncate_def minus_mod_eq_div_mult)
qed (simp add: Truncate_def)

lemma Truncate_idem: "Truncate (Truncate t d) d = Truncate t d"
  by (simp add: Truncate_def minus_mod_eq_div_mult)

section \<open>int64 arithmetic\<close>

definition wrap64 :: "int \<Rightarrow> int" where
  "wrap64 x = (x + 2 ^ 63) mod 2 ^ 64 - 2 ^ 63"

definition shl64 :: "int \<Rightarrow> nat \<Rightarrow> int" where
  "shl64 x n = wrap64 (x * 2 ^ n)"

lemma wrap64_id: "- (2 ^ 63) \<le> x \<Longrightarrow> x < 2 ^ 63 \<Longrightarrow> wrap64 x = x"
  by (simp add: wrap64_def)

lemma shl64_exact: "0 \<le> x \<Longrightarrow> x * 2 ^ n < 2 ^ 63 \<Longrightarrow> shl64 x n = x * 2 ^ n"
proof -
  assume "0 \<le> x" and "x * 2 ^ n < 2 ^ 63"
  then have "0 \<le> x * 2 ^ n" by simp
  with \<open>x * 2 ^ n < 2 ^ 63\<close> show ?thesis by (simp add: shl64_def wrap64_def)
qed

text \<open>Go's integer division truncates towards zero.\<close>

definition quot :: "int \<Rightarrow> int \<Rightarrow> int" where
  "quot a b = sgn a * sgn b * (\<bar>a\<bar> div \<bar>b\<bar>)"

lemma quot_nonneg: "0 \<le> a \<Longrightarrow> 0 < b \<Longrightarrow> quot a b = a div b"
  by (cases "a = 0") (auto simp: quot_def)

section \<open>The package strings\<close>

definition HasPrefix :: "string \<Rightarrow> string \<Rightarrow> bool" where
  "HasPrefix s p \<longleftrightarrow> take (length p) s = p"

definition TrimPrefix :: "string \<Rightarrow> string \<Rightarrow> string" where
  "TrimPrefix s p = (if HasPrefix s p then drop (length p) s else s)"

text \<open>
  Case mapping and white space on bytes below 0x80. Other bytes, parts of a multi-byte
  character, are left alone: the Unicode tables are not modelled.
\<close>

definition is_space :: "char \<Rightarrow> bool" where
  "is_space c \<longleftrightarrow> of_char c \<in> {9, 10, 11, 12, 13, 32 :: nat}"

definition lower_char :: "char \<Rightarrow> char" where
  "lower_char c =
     (if 65 \<le> (of_char c :: nat) \<and> (of_char c :: nat) \<le> 90 then char_of (of_char c + 32 :: nat) else c)"

definition TrimSpace :: "string \<Rightarrow> string" where
  "TrimSpace s = rev (dropWhile is_space (rev (dropWhile is_space s)))"

definition ToLower :: "string \<Rightarrow> string" where
  "ToLower s = map lower_char s"

text \<open>Decimal printing (\<open>%d\<close>).\<close>

fun digits :: "nat \<Rightarrow> string" where
  "digits n = (if n < 10 then [char_of (48 + n)] else digits (n div 10) @ [char_of (48 + n mod 10)])"

declare digits.simps [simp del]

definition Itoa :: "int \<Rightarrow> string" where
  "Itoa i = (if i < 0 then CHR ''-'' # digits (nat (- i)) else digits (nat i))"

lemma HasPrefix_append [go_strings, simp]: "HasPrefix (p @ s) p"
  by (simp add: HasPrefix_def)

lemma TrimPrefix_append [go_strings, simp]: "TrimPrefix (p @ s) p = s"
  by (simp add: TrimPrefix_def)

lemma HasPrefix_iff: "HasPrefix s p \<longleftrightarrow> (\<exists>t. s = p @ t)"
  by (metis HasPrefix_append HasPrefix_def append_take_drop_id)

section \<open>Association lists\<close>

text \<open>Lookup, insertion and deletion are those of AList; the lemmas here count keys.\<close>

lemma distinct_keys_filter: "distinct (map fst m) \<Longrightarrow> distinct (map fst (filter P m))"
  by (simp add: distinct_map_filter)

lemma length_update:
  "length (AList.update k v m) = (if k \<in> fst ` set m then length m else Suc (length m))"
  by (induction m) auto

lemma set_update_subset: "set (AList.update k v m) \<subseteq> insert (k, v) (set m)"
  by (induction m) auto

lemma length_delete_le: "length (AList.delete k m) \<le> length m"
  by (simp add: AList.delete_eq)

lemma length_delete_in: "k \<in> fst ` set m \<Longrightarrow> length (AList.delete k m) < length m"
  by (induction m) (auto simp: AList.delete_eq le_imp_less_Suc)

lemma map_of_filter_distinct:
  "distinct (map fst m) \<Longrightarrow>
   map_of (filter P m) k = (case map_of m k of None \<Rightarrow> None | Some v \<Rightarrow> if P (k, v) then Some v else None)"
proof (induction m)
  case (Cons a m)
  then show ?case
    by (cases a) (auto simp: map_of_eq_None_iff split: option.splits)
qed simp

lemma map_of_in_keys: "map_of m k = Some v \<Longrightarrow> k \<in> fst ` set m"
  by (metis domI dom_map_of_conv_image_fst)

text \<open>A table of rows: the first row that satisfies a condition, and the rows rewritten by an UPDATE.\<close>

definition select1 :: "('r \<Rightarrow> bool) \<Rightarrow> 'r list \<Rightarrow> 'r option" where
  "select1 P rows = find P rows"

definition update_where :: "('r \<Rightarrow> bool) \<Rightarrow> ('r \<Rightarrow> 'r) \<Rightarrow> 'r list \<Rightarrow> 'r list" where
  "update_where P f rows = map (\<lambda>r. if P r then f r else r) rows"

definition count_where :: "('r \<Rightarrow> bool) \<Rightarrow> 'r list \<Rightarrow> nat" where
  "count_where P rows = length (filter P rows)"

definition delete_where :: "('r \<Rightarrow> bool) \<Rightarrow> 'r list \<Rightarrow> 'r list" where
  "delete_where P rows = filter (\<lambda>r. \<not> P r) rows"

named_theorems table_simps \<open>membership and projection facts about the table operations\<close>

lemma select1_Some: "select1 P rows = Some r \<Longrightarrow> r \<in> set rows \<and> P r"
  by (auto simp: select1_def find_Some_iff)

lemma select1_None: "select1 P rows = None \<longleftrightarrow> (\<forall>r\<in>set rows. \<not> P r)"
  by (auto simp: select1_def find_None_iff)

lemma select1_Nil [table_simps]: "select1 P [] = None"
  by (simp add: select1_def)

lemma select1_Cons [table_simps]: "select1 P (r # rows) = (if P r then Some r else select1 P rows)"
  by (simp add: select1_def)

lemma map_update_where [table_simps]:
  "(\<And>r. P r \<Longrightarrow> g (f r) = g r) \<Longrightarrow> map g (update_where P f rows) = map g rows"
  by (auto simp: update_where_def)

lemma set_update_where [table_simps]:
  "set (update_where P f rows) = (\<lambda>r. if P r then f r else r) ` set rows"
  by (simp add: update_where_def)

lemma all_update_where: "(\<forall>r\<in>set (update_where P f rows). Q r) \<longleftrightarrow> (\<forall>r\<in>set rows. Q (if P r then f r else r))"
  unfolding update_where_def set_map by blast

lemma set_delete_where [table_simps]: "set (delete_where P rows) = {r \<in> set rows. \<not> P r}"
  by (auto simp: delete_where_def)

lemma length_update_where [table_simps]: "length (update_where P f rows) = length rows"
  by (simp add: update_where_def)

lemma count_where_0 [table_simps]: "count_where P rows = 0 \<longleftrightarrow> (\<forall>r\<in>set rows. \<not> P r)"
  by (auto simp: count_where_def filter_empty_conv)

lemma distinct_delete_where: "distinct (map g rows) \<Longrightarrow> distinct (map g (delete_where P rows))"
  by (simp add: delete_where_def distinct_map_filter)

text \<open>The row found by its key is the only row with that key.\<close>

lemma select1_key:
  assumes "distinct (map key rows)" and "r \<in> set rows"
  shows "select1 (\<lambda>x. key x = key r) rows = Some r"
  using assms
proof (induction rows)
  case (Cons a rows)
  then show ?case
    by (cases "key a = key r") (auto simp: table_simps rev_image_eqI)
qed simp

lemma select1_update_where:
  assumes "\<And>r. P r \<Longrightarrow> key (f r) = key r"
  shows "select1 (\<lambda>x. key x = k) (update_where P f rows) =
         map_option (\<lambda>r. if P r then f r else r) (select1 (\<lambda>x. key x = k) rows)"
  using assms by (induction rows) (auto simp: table_simps update_where_def)

lemma select1_append:
  "select1 P (rows @ rows') = (case select1 P rows of Some r \<Rightarrow> Some r | None \<Rightarrow> select1 P rows')"
  by (induction rows) (auto simp: table_simps)

lemma select1_delete_other:
  "(\<And>r. Q r \<Longrightarrow> \<not> P r) \<Longrightarrow> select1 P (delete_where Q rows) = select1 P rows"
  by (induction rows) (auto simp: table_simps delete_where_def)

lemma bex_image_cong: "f ` A = f ` B \<Longrightarrow> (\<exists>r\<in>A. P (f r)) \<longleftrightarrow> (\<exists>r\<in>B. P (f r))"
  by (metis (no_types, lifting) imageE imageI)

section \<open>Indexing a table by a key\<close>

text \<open>A map filled row by row holds, when the keys are distinct, exactly the rows of the table.\<close>

lemma foldl_map_upd:
  "foldl (\<lambda>m r. m(key r \<mapsto> val r)) m0 rows = m0 ++ map_of (rev (map (\<lambda>r. (key r, val r)) rows))"
  by (induction rows arbitrary: m0) (auto simp: map_add_def fun_eq_iff split: option.splits)

lemma foldl_map_upd_Some:
  assumes "distinct (map key rows)"
  shows "foldl (\<lambda>m r. m(key r \<mapsto> val r)) Map.empty rows k = Some v \<longleftrightarrow>
         (\<exists>r\<in>set rows. key r = k \<and> val r = v)"
proof -
  have "distinct (map fst (rev (map (\<lambda>r. (key r, val r)) rows)))"
    using assms by (simp add: comp_def rev_map [symmetric])
  then have "map_of (rev (map (\<lambda>r. (key r, val r)) rows)) k = Some v \<longleftrightarrow>
             (k, v) \<in> set (rev (map (\<lambda>r. (key r, val r)) rows))"
    by (rule map_of_eq_Some_iff)
  then show ?thesis by (auto simp: foldl_map_upd)
qed

section \<open>Searching a string\<close>

text \<open>\<open>strings.Index\<close>, with None for -1.\<close>

fun Index :: "string \<Rightarrow> string \<Rightarrow> nat option" where
  "Index [] sub = (if sub = [] then Some 0 else None)"
| "Index (c # s) sub = (if HasPrefix (c # s) sub then Some 0 else map_option Suc (Index s sub))"

lemma Index_Some_split:
  "Index s sub = Some i \<Longrightarrow> s = take i s @ sub @ drop (i + length sub) s"
proof (induction s arbitrary: i)
  case (Cons c s)
  then show ?case
    by (auto simp: HasPrefix_def split: if_splits)
      (metis append_eq_conv_conj append_take_drop_id)
qed (auto split: if_splits)

lemma HasPrefix_same_start:
  assumes "take (length sub) s = take (length sub) t"
  shows "HasPrefix s sub = HasPrefix t sub"
  using assms by (simp add: HasPrefix_def)

lemma Index_here: "HasPrefix s sub \<Longrightarrow> Index s sub = Some 0"
  by (cases s) (auto simp: HasPrefix_def)

lemma drop_two: "drop (length xs + length ys) (xs @ ys @ zs) = zs"
  by simp

lemma take_two: "take (length xs + length ys) (xs @ ys @ zs) = xs @ ys"
  by simp

lemma take_start: "n \<le> length us \<Longrightarrow> take n (us @ vs) = take n (us @ ws)"
  by simp

lemma Index_same_start:
  "Index (xs @ sub @ ys) sub = Some (length xs) \<Longrightarrow> Index (xs @ sub @ zs) sub = Some (length xs)"
proof (induction xs)
  case Nil
  have "HasPrefix (sub @ zs) sub" by (simp add: HasPrefix_def)
  then show ?case by (simp add: Index_here)
next
  case (Cons x xs)
  have same: "HasPrefix (x # xs @ sub @ ys) sub = HasPrefix (x # xs @ sub @ zs) sub"
    by (rule HasPrefix_same_start)
      (use take_start [of "length sub" "x # xs @ sub" ys zs] in \<open>simp del: take_append\<close>)
  then show ?case using Cons by (auto split: if_splits)
qed

lemma Index_char_None: "Index s [c] = None \<longleftrightarrow> c \<notin> set s"
  by (induction s) (auto simp: HasPrefix_def)

lemma Index_char: "c \<notin> set tok \<Longrightarrow> Index (tok @ c # rest) [c] = Some (length tok)"
  by (induction tok) (auto simp: HasPrefix_def)

end
