(* ===== verification/Apierr.thy ===== *)
theory Apierr
  imports Go_Base
begin

text \<open>
  Errors as values (internal/httpapi/apierr: apierr.go, codes.go, problem.go). An \<open>error\<close> is
  the tree Go builds: a package-level sentinel, an error made from text, an error wrapped by
  \<open>fmt.Errorf("...: %w", err)\<close>, an \<open>*apierr.Error\<close>, or \<open>sql.ErrNoRows\<close> of the database layer.
  The theory translates the code table with its refinements, \<open>errors.Is\<close> and \<open>errors.As\<close>
  over that tree, \<open>classify\<close> and \<open>Translate\<close>, which turn any error into the problem document a
  client reads, and the rounding of Retry-After. \<open>translateSpecError\<close> recognises errors of the
  OpenAPI validator, a third-party package: it is an argument of \<open>classify\<close>.
\<close>

section \<open>Codes\<close>

type_synonym Code = string

abbreviation ProblemCodeConflict :: Code where "ProblemCodeConflict \<equiv> ''conflict''"
abbreviation ProblemCodeForbidden :: Code where "ProblemCodeForbidden \<equiv> ''forbidden''"
abbreviation ProblemCodeInternal :: Code where "ProblemCodeInternal \<equiv> ''internal''"
abbreviation ProblemCodeMethodNotAllowed :: Code where "ProblemCodeMethodNotAllowed \<equiv> ''method_not_allowed''"
abbreviation ProblemCodeMfaEnrolmentRequired :: Code where
  "ProblemCodeMfaEnrolmentRequired \<equiv> ''mfa_enrolment_required''"
abbreviation ProblemCodeNotFound :: Code where "ProblemCodeNotFound \<equiv> ''not_found''"
abbreviation ProblemCodePayloadTooLarge :: Code where "ProblemCodePayloadTooLarge \<equiv> ''payload_too_large''"
abbreviation ProblemCodeRateLimited :: Code where "ProblemCodeRateLimited \<equiv> ''rate_limited''"
abbreviation ProblemCodeUnauthenticated :: Code where "ProblemCodeUnauthenticated \<equiv> ''unauthenticated''"
abbreviation ProblemCodeValidationFailed :: Code where "ProblemCodeValidationFailed \<equiv> ''validation_failed''"

text \<open>A sentinel is a package-level \<open>errors.New\<close> value; it is compared by identity, and its text names it.\<close>

abbreviation ErrValidation :: string where "ErrValidation \<equiv> ''validation failed''"
abbreviation ErrUnauthenticated :: string where "ErrUnauthenticated \<equiv> ''unauthenticated''"
abbreviation ErrForbidden :: string where "ErrForbidden \<equiv> ''forbidden''"
abbreviation ErrMFAEnrolmentRequired :: string where "ErrMFAEnrolmentRequired \<equiv> ''MFA enrolment required''"
abbreviation ErrNotFound :: string where "ErrNotFound \<equiv> ''not found''"
abbreviation ErrMethodNotAllowed :: string where "ErrMethodNotAllowed \<equiv> ''method not allowed''"
abbreviation ErrConflict :: string where "ErrConflict \<equiv> ''conflict''"
abbreviation ErrRateLimited :: string where "ErrRateLimited \<equiv> ''rate limited''"
abbreviation ErrInternal :: string where "ErrInternal \<equiv> ''internal error''"
abbreviation ErrPayloadTooLarge :: string where "ErrPayloadTooLarge \<equiv> ''payload too large''"

definition codes :: "(Code \<times> (nat \<times> string)) list" where
  "codes =
    [(ProblemCodeValidationFailed, (400, ErrValidation)),
     (ProblemCodeUnauthenticated, (401, ErrUnauthenticated)),
     (ProblemCodeForbidden, (403, ErrForbidden)),
     (ProblemCodeMfaEnrolmentRequired, (403, ErrMFAEnrolmentRequired)),
     (ProblemCodeNotFound, (404, ErrNotFound)),
     (ProblemCodeMethodNotAllowed, (405, ErrMethodNotAllowed)),
     (ProblemCodeConflict, (409, ErrConflict)),
     (ProblemCodeRateLimited, (429, ErrRateLimited)),
     (ProblemCodeInternal, (500, ErrInternal)),
     (ProblemCodePayloadTooLarge, (413, ErrPayloadTooLarge))]"

definition refinements :: "(Code \<times> Code) list" where
  "refinements = [(ProblemCodeMfaEnrolmentRequired, ProblemCodeForbidden)]"

definition Status :: "Code \<Rightarrow> nat" where
  "Status code = (case map_of codes code of Some c \<Rightarrow> fst c | None \<Rightarrow> 500)"

definition sentinel :: "Code \<Rightarrow> string" where
  "sentinel code = (case map_of codes code of Some c \<Rightarrow> snd c | None \<Rightarrow> ErrInternal)"

section \<open>Errors\<close>

record FieldError =
  FieldError_Field :: string
  FieldError_Message :: string

datatype error =
    Sentinel string
  | ErrorsNew string
  | ErrorfW string error
  | SqlNoRows
  | Api api_error
and api_error =
    ApiError (Error_code: Code) (Error_detail: string) (Error_fields: "FieldError list")
      (Error_cause: "error option") (Error_retryAfter: duration)

text \<open>\<open>errors.Is\<close> walks the wrapped errors; an \<open>*apierr.Error\<close> unwraps to its sentinel and its cause.\<close>

fun errors_Is :: "error \<Rightarrow> string \<Rightarrow> bool" where
  "errors_Is (Sentinel s) target \<longleftrightarrow> s = target"
| "errors_Is (ErrorsNew _) target \<longleftrightarrow> False"
| "errors_Is SqlNoRows target \<longleftrightarrow> False"
| "errors_Is (ErrorfW _ e) target \<longleftrightarrow> errors_Is e target"
| "errors_Is (Api (ApiError code _ _ None _)) target \<longleftrightarrow> sentinel code = target"
| "errors_Is (Api (ApiError code _ _ (Some e) _)) target \<longleftrightarrow> sentinel code = target \<or> errors_Is e target"

text \<open>\<open>errors.As(err, &apiErr)\<close>: the outermost \<open>*apierr.Error\<close>.\<close>

fun errors_As :: "error \<Rightarrow> api_error option" where
  "errors_As (Api e) = Some e"
| "errors_As (ErrorfW _ e) = errors_As e"
| "errors_As (Sentinel _) = None"
| "errors_As (ErrorsNew _) = None"
| "errors_As SqlNoRows = None"

definition NotFound :: "string \<Rightarrow> string \<Rightarrow> error" where
  "NotFound resource rid =
     Api (ApiError ProblemCodeNotFound (''no such '' @ resource) [] (Some (ErrorsNew (''id '' @ rid))) 0)"

definition Conflict :: "string \<Rightarrow> error" where
  "Conflict detail = Api (ApiError ProblemCodeConflict detail [] None 0)"

definition RateLimited :: "string \<Rightarrow> duration \<Rightarrow> error" where
  "RateLimited detail retryAfter = Api (ApiError ProblemCodeRateLimited detail [] None retryAfter)"

definition Validation :: "FieldError list \<Rightarrow> error" where
  "Validation fs = Api (ApiError ProblemCodeValidationFailed ''the request is not valid'' fs None 0)"

definition Field :: "string \<Rightarrow> string \<Rightarrow> FieldError" where
  "Field field message = \<lparr>FieldError_Field = field, FieldError_Message = message\<rparr>"

definition internalDetail :: string where
  "internalDetail = ''the server could not complete the request''"

definition Internal :: "error \<Rightarrow> api_error" where
  "Internal cause = ApiError ProblemCodeInternal internalDetail [] (Some cause) 0"

definition Unauthenticated :: "string \<Rightarrow> error" where
  "Unauthenticated reason =
     Api (ApiError ProblemCodeUnauthenticated ''sign in to continue'' [] (Some (ErrorsNew reason)) 0)"

definition Forbidden :: "string \<Rightarrow> error" where
  "Forbidden action =
     Api (ApiError ProblemCodeForbidden ''you are not permitted to do this'' []
       (Some (ErrorsNew (''attempted '' @ action))) 0)"

definition BadCredentials :: "string \<Rightarrow> error" where
  "BadCredentials reason =
     Api (ApiError ProblemCodeUnauthenticated ''the email address or password is incorrect'' []
       (Some (ErrorsNew reason)) 0)"

definition BadSecondFactor :: "string \<Rightarrow> error" where
  "BadSecondFactor reason =
     Api (ApiError ProblemCodeUnauthenticated
       ''the code is incorrect or the sign-in has expired; sign in again'' []
       (Some (ErrorsNew reason)) 0)"

definition MFAEnrolmentRequired :: "string \<Rightarrow> error" where
  "MFAEnrolmentRequired action =
     Api (ApiError ProblemCodeMfaEnrolmentRequired
       ''a second factor is required of your account; enrol an authenticator to continue'' []
       (Some (ErrorsNew (''attempted '' @ action))) 0)"

definition SignInRefused :: "string \<Rightarrow> string \<Rightarrow> error" where
  "SignInRefused detail reason =
     Api (ApiError ProblemCodeForbidden detail [] (Some (ErrorsNew reason)) 0)"

definition MethodNotAllowed :: "string \<Rightarrow> error" where
  "MethodNotAllowed method =
     Api (ApiError ProblemCodeMethodNotAllowed ''the method is not allowed on this path'' []
       (Some (ErrorsNew (''method '' @ method))) 0)"

definition PayloadTooLarge :: "string \<Rightarrow> error" where
  "PayloadTooLarge detail = Api (ApiError ProblemCodePayloadTooLarge detail [] None 0)"

lemmas apierr_constructors = BadCredentials_def BadSecondFactor_def MFAEnrolmentRequired_def
  SignInRefused_def MethodNotAllowed_def PayloadTooLarge_def NotFound_def Conflict_def RateLimited_def Validation_def
  Internal_def Unauthenticated_def Forbidden_def

section \<open>The problem document\<close>

record Problem =
  Problem_Type :: string
  Problem_Status :: nat
  Problem_Code :: Code
  Problem_Title :: string
  Problem_Detail :: "string option"
  Problem_Errors :: "FieldError list option"
  Problem_Instance :: "string option"

text \<open>\<open>http.StatusText\<close> of the statuses in the table.\<close>

definition StatusText :: "nat \<Rightarrow> string" where
  "StatusText s =
    (if s = 400 then ''Bad Request'' else if s = 401 then ''Unauthorized''
     else if s = 403 then ''Forbidden'' else if s = 404 then ''Not Found''
     else if s = 405 then ''Method Not Allowed'' else if s = 409 then ''Conflict''
     else if s = 413 then ''Request Entity Too Large'' else if s = 429 then ''Too Many Requests''
     else if s = 500 then ''Internal Server Error'' else [])"

definition classify :: "(error \<Rightarrow> api_error option) \<Rightarrow> error \<Rightarrow> api_error" where
  "classify translateSpecError err =
     (case errors_As err of
        Some apiErr \<Rightarrow> apiErr
      | None \<Rightarrow> (case translateSpecError err of
            Some specErr \<Rightarrow> specErr
          | None \<Rightarrow> Internal err))"

definition Translate :: "(error \<Rightarrow> api_error option) \<Rightarrow> error \<Rightarrow> string \<Rightarrow> Problem" where
  "Translate translateSpecError err instance_id =
     (let e = classify translateSpecError err
      in \<lparr>Problem_Type = ''about:blank'',
          Problem_Status = Status (Error_code e),
          Problem_Code = Error_code e,
          Problem_Title = StatusText (Status (Error_code e)),
          Problem_Detail = (if Error_detail e \<noteq> [] then Some (Error_detail e) else None),
          Problem_Errors = (if Error_fields e \<noteq> [] then Some (Error_fields e) else None),
          Problem_Instance = (if instance_id \<noteq> [] then Some instance_id else None)\<rparr>)"

text \<open>The header carries whole seconds, rounded up, and never less than one.\<close>

definition retryAfterSeconds :: "duration \<Rightarrow> int" where
  "retryAfterSeconds d =
     (let seconds = quot d Second;
          seconds' = (if 0 < d - quot d Second * Second then seconds + 1 else seconds)
      in if seconds' < 1 then 1 else seconds')"

section \<open>Lemmas\<close>

lemma errors_As_wrap [simp]: "errors_As (ErrorfW m e) = errors_As e"
  by simp

text \<open>What \<open>errors.As\<close> finds, \<open>errors.Is\<close> recognises by its sentinel.\<close>

lemma errors_Is_self: "errors_Is (Api e) (sentinel (Error_code e))"
proof (cases e)
  case (ApiError code detail fs cause retry)
  then show ?thesis by (cases cause) simp_all
qed

lemma errors_As_Is: "errors_As e = Some a \<Longrightarrow> errors_Is e (sentinel (Error_code a))"
  by (induction e rule: errors_As.induct) (simp_all add: errors_Is_self)

lemma errors_Is_NotFound [simp]: "errors_Is (NotFound r i) ErrNotFound"
  by (simp add: NotFound_def sentinel_def codes_def)

lemma codes_distinct: "distinct (map fst codes)"
  by (simp add: codes_def)

lemma Status_codes: "(code, st, s) \<in> set codes \<Longrightarrow> Status code = st"
  by (simp add: Status_def map_of_is_SomeI [OF codes_distinct])

lemma quot_Second: "0 \<le> d \<Longrightarrow> quot d 1000000000 = d div 1000000000"
  by (rule quot_nonneg) simp_all

text \<open>
  However often an error is wrapped on its way up the stack, the response is the same
  problem document: wrapping never changes what a client sees, provided an \<open>*apierr.Error\<close> is
  somewhere inside; the status is the one the table gives that error's code.
\<close>

theorem Translate_wrap:
  assumes "errors_As err = Some e"
  shows "Translate spec (ErrorfW msg err) inst = Translate spec err inst \<and>
         Problem_Status (Translate spec (ErrorfW msg err) inst) = Status (Error_code e)"
  using assms by (simp add: Translate_def classify_def Let_def)

theorem Translate_wrap_witness:
  "Translate (\<lambda>_. None) (ErrorfW ''load'' (NotFound ''step'' ''x'')) [] =
     Translate (\<lambda>_. None) (NotFound ''step'' ''x'') [] \<and>
   Problem_Status (Translate (\<lambda>_. None) (ErrorfW ''load'' (NotFound ''step'' ''x'')) []) = 404"
  using Translate_wrap [of "NotFound ''step'' ''x''" _ "\<lambda>_. None" "''load''" "[]"]
  by (simp add: NotFound_def Status_def codes_def Translate_def classify_def)

text \<open>
  An error that carries no \<open>*apierr.Error\<close> and that the OpenAPI validator did not produce is
  answered with one fixed document, status 500: nothing of the error's text reaches a client.
\<close>

theorem Translate_conceals:
  assumes "errors_As err = None" and "spec err = None"
  shows "Translate spec err inst =
    \<lparr>Problem_Type = ''about:blank'', Problem_Status = 500, Problem_Code = ProblemCodeInternal,
     Problem_Title = ''Internal Server Error'', Problem_Detail = Some internalDetail,
     Problem_Errors = None, Problem_Instance = (if inst \<noteq> [] then Some inst else None)\<rparr>"
  using assms
  by (simp add: Translate_def classify_def Let_def Internal_def Status_def codes_def StatusText_def
      internalDetail_def)

theorem Translate_conceals_witness:
  "Translate (\<lambda>_. None) (ErrorfW ''read row'' SqlNoRows) [] =
    \<lparr>Problem_Type = ''about:blank'', Problem_Status = 500, Problem_Code = ProblemCodeInternal,
     Problem_Title = ''Internal Server Error'', Problem_Detail = Some internalDetail,
     Problem_Errors = None, Problem_Instance = None\<rparr>"
  using Translate_conceals [of "ErrorfW ''read row'' SqlNoRows" "\<lambda>_. None" "[]"] by simp

text \<open>
  Two codes of the table share a status only when one is declared to refine the other, and
  distinct codes have distinct sentinels, so the status line and the sentinel identify a failure.
\<close>

theorem codes_status_refinement:
  "\<forall>(c, st, s) \<in> set codes. \<forall>(c', st', s') \<in> set codes. c \<noteq> c' \<longrightarrow>
     s \<noteq> s' \<and> (st = st' \<longrightarrow> map_of refinements c = Some c' \<or> map_of refinements c' = Some c)"
  by code_simp

theorem codes_status_refinement_witness:
  "map_of refinements ProblemCodeMfaEnrolmentRequired = Some ProblemCodeForbidden
   \<or> map_of refinements ProblemCodeForbidden = Some ProblemCodeMfaEnrolmentRequired"
proof -
  have "(ProblemCodeMfaEnrolmentRequired, 403, ErrMFAEnrolmentRequired) \<in> set codes"
    and "(ProblemCodeForbidden, 403, ErrForbidden) \<in> set codes"
    by (simp_all add: codes_def)
  then show ?thesis using codes_status_refinement by fastforce
qed

text \<open>
  For a positive wait the Retry-After header is the least number of whole seconds that is not
  shorter than the wait, so a client that obeys it is never turned away again for being early.
\<close>

theorem retryAfterSeconds_least:
  assumes "0 < d"
  shows "d \<le> retryAfterSeconds d * Second \<and> (retryAfterSeconds d - 1) * Second < d \<and>
         1 \<le> retryAfterSeconds d"
proof -
  have q: "quot d 1000000000 = d div 1000000000" using assms by (simp add: quot_Second)
  show ?thesis using assms unfolding retryAfterSeconds_def Let_def Second_def q by auto
qed

theorem retryAfterSeconds_least_witness:
  "retryAfterSeconds 1500000000 = 2 \<and> 1500000000 \<le> retryAfterSeconds 1500000000 * Second"
  using retryAfterSeconds_least [of 1500000000]
  by (simp add: retryAfterSeconds_def quot_def Second_def)

section \<open>Paths in the log (redact.go)\<close>

abbreviation shareViewsPrefix :: string where "shareViewsPrefix \<equiv> ''/report-views/''"

definition RedactPath :: "string \<Rightarrow> string" where
  "RedactPath path =
     (case Index path shareViewsPrefix of
        None \<Rightarrow> path
      | Some i \<Rightarrow>
          (let tail = drop (i + length shareViewsPrefix) path in
           if tail = [] then path
           else if Index tail ''/'' = Some 0 then path
           else (let tokEnd = (case Index tail ''/'' of None \<Rightarrow> length tail | Some e \<Rightarrow> e)
                 in take (i + length shareViewsPrefix) path @ ''[redacted]'' @ drop tokEnd tail)))"

lemma Index_token:
  assumes "tok \<noteq> []" "CHR ''/'' \<notin> set tok" "rest = [] \<or> hd rest = CHR ''/''"
  shows "Index (tok @ rest) ''/'' \<noteq> Some 0"
    and "(case Index (tok @ rest) ''/'' of None \<Rightarrow> length (tok @ rest) | Some e \<Rightarrow> e) = length tok"
proof -
  have "Index (tok @ rest) ''/'' = (if rest = [] then None else Some (length tok))"
  proof (cases rest)
    case Nil
    with assms show ?thesis using Index_char_None [of tok "CHR ''/''"] by simp
  next
    case (Cons c rest')
    with assms show ?thesis using Index_char [of "CHR ''/''" tok rest'] by simp
  qed
  with assms(1) show "Index (tok @ rest) ''/'' \<noteq> Some 0"
    and "(case Index (tok @ rest) ''/'' of None \<Rightarrow> length (tok @ rest) | Some e \<Rightarrow> e) = length tok"
    by simp_all
qed

lemma RedactPath_token:
  assumes "Index (before @ shareViewsPrefix @ tok @ rest) shareViewsPrefix = Some (length before)"
    and "tok \<noteq> []" "CHR ''/'' \<notin> set tok" "rest = [] \<or> hd rest = CHR ''/''"
  shows "RedactPath (before @ shareViewsPrefix @ tok @ rest) =
     before @ shareViewsPrefix @ ''[redacted]'' @ rest"
proof -
  have tail: "drop (length before + length shareViewsPrefix) (before @ shareViewsPrefix @ tok @ rest) = tok @ rest"
    and head: "take (length before + length shareViewsPrefix) (before @ shareViewsPrefix @ tok @ rest) =
      before @ shareViewsPrefix"
    by (rule drop_two, rule take_two)
  have "RedactPath (before @ shareViewsPrefix @ tok @ rest) =
    (let tail = tok @ rest in
     if tail = [] then before @ shareViewsPrefix @ tok @ rest
     else if Index tail ''/'' = Some 0 then before @ shareViewsPrefix @ tok @ rest
     else (let tokEnd = (case Index tail ''/'' of None \<Rightarrow> length tail | Some e \<Rightarrow> e)
           in (before @ shareViewsPrefix) @ ''[redacted]'' @ drop tokEnd tail))"
    unfolding RedactPath_def assms(1) option.case tail head by (simp only: Let_def)
  also have "\<dots> = before @ shareViewsPrefix @ ''[redacted]'' @ rest"
    unfolding Let_def Index_token(2) [OF assms(2-4)]
    using Index_token(1) [OF assms(2-4)] assms(2) by simp
  finally show ?thesis .
qed

text \<open>
  A share token in a path never reaches the log: the segment after the first
  \<open>/report-views/\<close> is replaced whatever its value, everything around it is kept, and scrubbing a
  scrubbed path changes nothing.
\<close>

theorem RedactPath_hides:
  assumes "Index (before @ shareViewsPrefix @ tok @ rest) shareViewsPrefix = Some (length before)"
    and "tok \<noteq> []" "CHR ''/'' \<notin> set tok" "rest = [] \<or> hd rest = CHR ''/''"
  shows "RedactPath (before @ shareViewsPrefix @ tok @ rest) =
       before @ shareViewsPrefix @ ''[redacted]'' @ rest \<and>
     RedactPath (RedactPath (before @ shareViewsPrefix @ tok @ rest)) =
       RedactPath (before @ shareViewsPrefix @ tok @ rest)"
proof -
  have "Index (before @ shareViewsPrefix @ ''[redacted]'' @ rest) shareViewsPrefix = Some (length before)"
    using assms(1) by (rule Index_same_start)
  then have "RedactPath (before @ shareViewsPrefix @ ''[redacted]'' @ rest) =
      before @ shareViewsPrefix @ ''[redacted]'' @ rest"
    using assms(4) by (intro RedactPath_token) simp_all
  with RedactPath_token [OF assms] show ?thesis by simp
qed

theorem RedactPath_hides_witness:
  "RedactPath ''/api/v1/report-views/s3cr3t/claim'' = ''/api/v1/report-views/[redacted]/claim''"
proof -
  have "Index (''/api/v1'' @ shareViewsPrefix @ ''s3cr3t'' @ ''/claim'') shareViewsPrefix = Some (length ''/api/v1'')"
    by code_simp
  from RedactPath_hides [OF this] show ?thesis by simp
qed

end
