(* ===== verification/Authz.thy ===== *)
theory Authz
  imports Go_Base
begin

text \<open>
  The permission model (internal/authz: role.go, action.go, subject.go, resource.go, policy.go,
  decision.go). Roles, methods, scopes, resource types and guards are Go string types, so a
  value outside the named constants exists here too and must hold nothing; an action is an
  integer of the iota block. \<open>rules\<close> is the table of policy.go row by row, \<open>Can\<close> the policy
  function with its early returns in the code's order, \<open>tokenFences\<close>, \<open>grant\<close> and \<open>blocks\<close> its
  helpers. The lemmas characterise a decision declaratively (\<open>may\<close>), branch by branch.
\<close>

section \<open>Roles and methods (role.go)\<close>

type_synonym PlatformRole = string
type_synonym EngagementRole = string
type_synonym Method = string

abbreviation PlatformRoleAdmin :: PlatformRole where "PlatformRoleAdmin \<equiv> ''admin''"
abbreviation PlatformRoleMember :: PlatformRole where "PlatformRoleMember \<equiv> ''member''"

definition PlatformRoles :: "PlatformRole list" where
  "PlatformRoles = [PlatformRoleAdmin, PlatformRoleMember]"

definition PlatformRole_Valid :: "PlatformRole \<Rightarrow> bool" where
  "PlatformRole_Valid r \<longleftrightarrow> r = PlatformRoleAdmin \<or> r = PlatformRoleMember"

abbreviation EngagementRoleLead :: EngagementRole where "EngagementRoleLead \<equiv> ''lead''"
abbreviation EngagementRoleRed :: EngagementRole where "EngagementRoleRed \<equiv> ''red''"
abbreviation EngagementRoleBlue :: EngagementRole where "EngagementRoleBlue \<equiv> ''blue''"
abbreviation EngagementRoleObserver :: EngagementRole where "EngagementRoleObserver \<equiv> ''observer''"

definition EngagementRoles :: "EngagementRole list" where
  "EngagementRoles = [EngagementRoleLead, EngagementRoleRed, EngagementRoleBlue, EngagementRoleObserver]"

definition EngagementRole_Valid :: "EngagementRole \<Rightarrow> bool" where
  "EngagementRole_Valid r \<longleftrightarrow>
     r \<in> {EngagementRoleLead, EngagementRoleRed, EngagementRoleBlue, EngagementRoleObserver}"

abbreviation MethodNone :: Method where "MethodNone \<equiv> []"
abbreviation MethodCookie :: Method where "MethodCookie \<equiv> ''cookie''"
abbreviation MethodServiceToken :: Method where "MethodServiceToken \<equiv> ''service_token''"

section \<open>Actions and scopes (action.go)\<close>

type_synonym Action = int

abbreviation ActionUnknown :: Action where "ActionUnknown \<equiv> 0"
abbreviation ActionUserRead :: Action where "ActionUserRead \<equiv> 1"
abbreviation ActionUserManage :: Action where "ActionUserManage \<equiv> 2"
abbreviation ActionSettingsRead :: Action where "ActionSettingsRead \<equiv> 3"
abbreviation ActionSettingsManage :: Action where "ActionSettingsManage \<equiv> 4"
abbreviation ActionActivityRead :: Action where "ActionActivityRead \<equiv> 5"
abbreviation ActionContentRead :: Action where "ActionContentRead \<equiv> 6"
abbreviation ActionContentSync :: Action where "ActionContentSync \<equiv> 7"
abbreviation ActionContentManage :: Action where "ActionContentManage \<equiv> 8"
abbreviation ActionEngagementCreate :: Action where "ActionEngagementCreate \<equiv> 9"
abbreviation ActionTokenRead :: Action where "ActionTokenRead \<equiv> 10"
abbreviation ActionTokenManage :: Action where "ActionTokenManage \<equiv> 11"
abbreviation ActionTokenAdminRead :: Action where "ActionTokenAdminRead \<equiv> 12"
abbreviation ActionTokenAdminManage :: Action where "ActionTokenAdminManage \<equiv> 13"
abbreviation ActionSessionRead :: Action where "ActionSessionRead \<equiv> 14"
abbreviation ActionSessionManage :: Action where "ActionSessionManage \<equiv> 15"
abbreviation ActionEngagementRead :: Action where "ActionEngagementRead \<equiv> 16"
abbreviation ActionEngagementManage :: Action where "ActionEngagementManage \<equiv> 17"
abbreviation ActionEngagementDelete :: Action where "ActionEngagementDelete \<equiv> 18"
abbreviation ActionMemberRead :: Action where "ActionMemberRead \<equiv> 19"
abbreviation ActionMemberManage :: Action where "ActionMemberManage \<equiv> 20"
abbreviation ActionExecutionRead :: Action where "ActionExecutionRead \<equiv> 21"
abbreviation ActionExecutionWriteRed :: Action where "ActionExecutionWriteRed \<equiv> 22"
abbreviation ActionExecutionWriteBlue :: Action where "ActionExecutionWriteBlue \<equiv> 23"
abbreviation ActionCommentWrite :: Action where "ActionCommentWrite \<equiv> 24"
abbreviation ActionFindingWrite :: Action where "ActionFindingWrite \<equiv> 25"
abbreviation ActionFindingRead :: Action where "ActionFindingRead \<equiv> 26"
abbreviation ActionReportRead :: Action where "ActionReportRead \<equiv> 27"
abbreviation ActionReportPublish :: Action where "ActionReportPublish \<equiv> 28"
abbreviation ActionReportWrite :: Action where "ActionReportWrite \<equiv> 29"
abbreviation ActionWorkbookWrite :: Action where "ActionWorkbookWrite \<equiv> 30"
abbreviation ActionEvidenceRead :: Action where "ActionEvidenceRead \<equiv> 31"
abbreviation ActionEvidenceWrite :: Action where "ActionEvidenceWrite \<equiv> 32"
abbreviation ActionCommentRead :: Action where "ActionCommentRead \<equiv> 33"
abbreviation numActions :: Action where "numActions \<equiv> 34"

text \<open>The loop from \<open>ActionUnknown + 1\<close> to \<open>numActions\<close>.\<close>

definition Actions :: "Action list" where
  "Actions = [ActionUnknown + 1..numActions - 1]"

type_synonym TokenScope = string

abbreviation TokenScopeEngagementsRead :: TokenScope where "TokenScopeEngagementsRead \<equiv> ''engagements:read''"
abbreviation TokenScopeEngagementsWrite :: TokenScope where "TokenScopeEngagementsWrite \<equiv> ''engagements:write''"
abbreviation TokenScopeContentRead :: TokenScope where "TokenScopeContentRead \<equiv> ''content:read''"
abbreviation TokenScopeContentSync :: TokenScope where "TokenScopeContentSync \<equiv> ''content:sync''"
abbreviation TokenScopeContentWrite :: TokenScope where "TokenScopeContentWrite \<equiv> ''content:write''"
abbreviation TokenScopeReportsRead :: TokenScope where "TokenScopeReportsRead \<equiv> ''reports:read''"
abbreviation TokenScopeReportsWrite :: TokenScope where "TokenScopeReportsWrite \<equiv> ''reports:write''"
abbreviation TokenScopeAdminRead :: TokenScope where "TokenScopeAdminRead \<equiv> ''admin:read''"
abbreviation TokenScopeAdminWrite :: TokenScope where "TokenScopeAdminWrite \<equiv> ''admin:write''"

section \<open>Subjects (subject.go)\<close>

text \<open>\<open>Memberships\<close> is a map that is only ever looked up.\<close>

record Subject =
  Subject_UserID :: string
  Subject_PlatformRole :: PlatformRole
  Subject_Memberships :: "(string \<times> EngagementRole) list"
  Subject_Method :: Method
  Subject_TokenScopes :: "TokenScope list"
  Subject_TokenEngagementID :: string
  Subject_MFASatisfied :: bool

definition MembershipIn :: "Subject \<Rightarrow> string \<Rightarrow> EngagementRole \<times> bool" where
  "MembershipIn s engagementID =
     (if engagementID = [] then ([], False)
      else case map_of (Subject_Memberships s) engagementID of
             Some role \<Rightarrow> (role, True)
           | None \<Rightarrow> ([], False))"

definition authenticated :: "Subject \<Rightarrow> bool" where
  "authenticated s \<longleftrightarrow> Subject_UserID s \<noteq> [] \<and> Subject_Method s \<noteq> MethodNone"

fun holdsScope_loop :: "TokenScope list \<Rightarrow> TokenScope \<Rightarrow> bool" where
  "holdsScope_loop [] scope = False"
| "holdsScope_loop (held # rest) scope = (if held = scope then True else holdsScope_loop rest scope)"

definition holdsScope :: "Subject \<Rightarrow> TokenScope \<Rightarrow> bool" where
  "holdsScope s scope = holdsScope_loop (Subject_TokenScopes s) scope"

section \<open>Resources (resource.go)\<close>

type_synonym ResourceType = string

abbreviation ResourcePlatform :: ResourceType where "ResourcePlatform \<equiv> ''platform''"
abbreviation ResourceUser :: ResourceType where "ResourceUser \<equiv> ''user''"
abbreviation ResourceContent :: ResourceType where "ResourceContent \<equiv> ''content''"
abbreviation ResourceServiceToken :: ResourceType where "ResourceServiceToken \<equiv> ''service_token''"
abbreviation ResourceSession :: ResourceType where "ResourceSession \<equiv> ''session''"
abbreviation ResourceEngagement :: ResourceType where "ResourceEngagement \<equiv> ''engagement''"
abbreviation ResourceMember :: ResourceType where "ResourceMember \<equiv> ''member''"
abbreviation ResourceExecution :: ResourceType where "ResourceExecution \<equiv> ''execution''"
abbreviation ResourceComment :: ResourceType where "ResourceComment \<equiv> ''comment''"
abbreviation ResourceFinding :: ResourceType where "ResourceFinding \<equiv> ''finding''"
abbreviation ResourceReport :: ResourceType where "ResourceReport \<equiv> ''report''"
abbreviation ResourceEvidence :: ResourceType where "ResourceEvidence \<equiv> ''evidence''"
abbreviation ResourceScenario :: ResourceType where "ResourceScenario \<equiv> ''scenario''"

datatype owner = ownedByPlatform | ownedByEngagement

definition resourceOwners :: "(ResourceType \<times> owner) list" where
  "resourceOwners =
    [(ResourcePlatform, ownedByPlatform), (ResourceUser, ownedByPlatform),
     (ResourceContent, ownedByPlatform), (ResourceServiceToken, ownedByPlatform),
     (ResourceSession, ownedByPlatform), (ResourceEngagement, ownedByEngagement),
     (ResourceMember, ownedByEngagement), (ResourceExecution, ownedByEngagement),
     (ResourceComment, ownedByEngagement), (ResourceFinding, ownedByEngagement),
     (ResourceEvidence, ownedByEngagement), (ResourceReport, ownedByEngagement),
     (ResourceScenario, ownedByEngagement)]"

text \<open>A type absent from the map reads the zero value of \<open>owner\<close>, which is \<open>ownedByPlatform\<close>.\<close>

definition EngagementScoped :: "ResourceType \<Rightarrow> bool" where
  "EngagementScoped t \<longleftrightarrow>
     (case map_of resourceOwners t of Some ow \<Rightarrow> ow | None \<Rightarrow> ownedByPlatform) = ownedByEngagement"

record Resource =
  Resource_Type :: ResourceType
  Resource_ID :: string
  Resource_EngagementID :: string
  Resource_EngagementBlind :: bool
  Resource_Revealed :: bool

section \<open>Rules and guards (policy.go)\<close>

type_synonym Guard = string

abbreviation GuardNone :: Guard where "GuardNone \<equiv> []"
abbreviation GuardBlindMode :: Guard where "GuardBlindMode \<equiv> ''blind-mode''"
abbreviation GuardSessionOnly :: Guard where "GuardSessionOnly \<equiv> ''session-only''"

record Rule =
  Rule_Action :: Action
  Rule_Name :: string
  Rule_Resource :: ResourceType
  Rule_Platform :: "PlatformRole list"
  Rule_Engagement :: "EngagementRole list"
  Rule_Token :: TokenScope
  Rule_Guard :: Guard
  Rule_Summary :: string

abbreviation admins :: "PlatformRole list" where "admins \<equiv> [PlatformRoleAdmin]"
abbreviation everyone :: "PlatformRole list" where "everyone \<equiv> [PlatformRoleAdmin, PlatformRoleMember]"
abbreviation allMembers :: "EngagementRole list" where
  "allMembers \<equiv> [EngagementRoleLead, EngagementRoleRed, EngagementRoleBlue, EngagementRoleObserver]"
abbreviation leadOnly :: "EngagementRole list" where "leadOnly \<equiv> [EngagementRoleLead]"
abbreviation leadAndRed :: "EngagementRole list" where "leadAndRed \<equiv> [EngagementRoleLead, EngagementRoleRed]"
abbreviation leadAndBlue :: "EngagementRole list" where "leadAndBlue \<equiv> [EngagementRoleLead, EngagementRoleBlue]"
abbreviation writers :: "EngagementRole list" where
  "writers \<equiv> [EngagementRoleLead, EngagementRoleRed, EngagementRoleBlue]"

definition rules :: "Rule list" where
  "rules = [
     \<lparr>Rule_Action = ActionUserRead, Rule_Name = ''user.read'', Rule_Resource = ResourceUser,
      Rule_Platform = admins, Rule_Engagement = [], Rule_Token = TokenScopeAdminRead,
      Rule_Guard = GuardNone, Rule_Summary = ''Read accounts, their platform roles and their status.''\<rparr>,
     \<lparr>Rule_Action = ActionUserManage, Rule_Name = ''user.manage'', Rule_Resource = ResourceUser,
      Rule_Platform = admins, Rule_Engagement = [], Rule_Token = TokenScopeAdminWrite,
      Rule_Guard = GuardNone, Rule_Summary = ''Invite, edit, disable and delete accounts, and set platform roles.''\<rparr>,
     \<lparr>Rule_Action = ActionSettingsRead, Rule_Name = ''settings.read'', Rule_Resource = ResourcePlatform,
      Rule_Platform = admins, Rule_Engagement = [], Rule_Token = TokenScopeAdminRead,
      Rule_Guard = GuardNone, Rule_Summary = ''Read platform settings, including how hard this installation is to sign in to.''\<rparr>,
     \<lparr>Rule_Action = ActionSettingsManage, Rule_Name = ''settings.manage'', Rule_Resource = ResourcePlatform,
      Rule_Platform = admins, Rule_Engagement = [], Rule_Token = TokenScopeAdminWrite,
      Rule_Guard = GuardNone, Rule_Summary = ''Change platform settings, including the MFA policy.''\<rparr>,
     \<lparr>Rule_Action = ActionActivityRead, Rule_Name = ''activity.read'', Rule_Resource = ResourcePlatform,
      Rule_Platform = admins, Rule_Engagement = [], Rule_Token = TokenScopeAdminRead,
      Rule_Guard = GuardNone, Rule_Summary = ''Read the installation-wide activity log.''\<rparr>,
     \<lparr>Rule_Action = ActionContentRead, Rule_Name = ''content.read'', Rule_Resource = ResourceContent,
      Rule_Platform = everyone, Rule_Engagement = [], Rule_Token = TokenScopeContentRead,
      Rule_Guard = GuardNone, Rule_Summary = ''Read the shared technique and test-case library.''\<rparr>,
     \<lparr>Rule_Action = ActionContentSync, Rule_Name = ''content.sync'', Rule_Resource = ResourceContent,
      Rule_Platform = admins, Rule_Engagement = [], Rule_Token = TokenScopeContentSync,
      Rule_Guard = GuardNone, Rule_Summary = ''Sync the library from its upstream sources.''\<rparr>,
     \<lparr>Rule_Action = ActionContentManage, Rule_Name = ''content.manage'', Rule_Resource = ResourceContent,
      Rule_Platform = admins, Rule_Engagement = [], Rule_Token = TokenScopeContentWrite,
      Rule_Guard = GuardNone, Rule_Summary = ''Enable, disable, delete and edit content sources, and author custom content.''\<rparr>,
     \<lparr>Rule_Action = ActionEngagementCreate, Rule_Name = ''engagement.create'', Rule_Resource = ResourcePlatform,
      Rule_Platform = everyone, Rule_Engagement = [], Rule_Token = TokenScopeEngagementsWrite,
      Rule_Guard = GuardNone, Rule_Summary = ''Create an engagement. Acts on the installation, because the engagement does not exist yet.''\<rparr>,
     \<lparr>Rule_Action = ActionTokenRead, Rule_Name = ''token.read'', Rule_Resource = ResourceServiceToken,
      Rule_Platform = everyone, Rule_Engagement = [], Rule_Token = TokenScopeAdminRead,
      Rule_Guard = GuardSessionOnly, Rule_Summary = ''List your own service tokens and when they were last used. Never their secrets.''\<rparr>,
     \<lparr>Rule_Action = ActionTokenManage, Rule_Name = ''token.manage'', Rule_Resource = ResourceServiceToken,
      Rule_Platform = everyone, Rule_Engagement = [], Rule_Token = TokenScopeAdminWrite,
      Rule_Guard = GuardSessionOnly, Rule_Summary = ''Create and revoke your own service tokens. A signed-in session only, never a token itself.''\<rparr>,
     \<lparr>Rule_Action = ActionTokenAdminRead, Rule_Name = ''token.admin_read'', Rule_Resource = ResourceUser,
      Rule_Platform = admins, Rule_Engagement = [], Rule_Token = TokenScopeAdminRead,
      Rule_Guard = GuardSessionOnly, Rule_Summary = ''Read the service tokens one account holds, and when they were last used. Never their secrets.''\<rparr>,
     \<lparr>Rule_Action = ActionTokenAdminManage, Rule_Name = ''token.admin_manage'', Rule_Resource = ResourceUser,
      Rule_Platform = admins, Rule_Engagement = [], Rule_Token = TokenScopeAdminWrite,
      Rule_Guard = GuardSessionOnly, Rule_Summary = ''Revoke somebody else's service token. A signed-in session only, never a token itself.''\<rparr>,
     \<lparr>Rule_Action = ActionSessionRead, Rule_Name = ''session.read'', Rule_Resource = ResourceSession,
      Rule_Platform = everyone, Rule_Engagement = [], Rule_Token = TokenScopeAdminRead,
      Rule_Guard = GuardSessionOnly, Rule_Summary = ''List the browsers you are signed in on. Never the tokens in their cookies.''\<rparr>,
     \<lparr>Rule_Action = ActionSessionManage, Rule_Name = ''session.manage'', Rule_Resource = ResourceSession,
      Rule_Platform = everyone, Rule_Engagement = [], Rule_Token = TokenScopeAdminWrite,
      Rule_Guard = GuardSessionOnly, Rule_Summary = ''Revoke your own sessions, one at a time or everywhere but here. A signed-in session only.''\<rparr>,
     \<lparr>Rule_Action = ActionEngagementRead, Rule_Name = ''engagement.read'', Rule_Resource = ResourceEngagement,
      Rule_Platform = admins, Rule_Engagement = allMembers, Rule_Token = TokenScopeEngagementsRead,
      Rule_Guard = GuardNone, Rule_Summary = ''See that an engagement exists and read its settings.''\<rparr>,
     \<lparr>Rule_Action = ActionEngagementManage, Rule_Name = ''engagement.manage'', Rule_Resource = ResourceEngagement,
      Rule_Platform = admins, Rule_Engagement = leadOnly, Rule_Token = TokenScopeEngagementsWrite,
      Rule_Guard = GuardNone, Rule_Summary = ''Change an engagement's settings, including whether it runs blind.''\<rparr>,
     \<lparr>Rule_Action = ActionEngagementDelete, Rule_Name = ''engagement.delete'', Rule_Resource = ResourceEngagement,
      Rule_Platform = admins, Rule_Engagement = leadOnly, Rule_Token = TokenScopeEngagementsWrite,
      Rule_Guard = GuardNone, Rule_Summary = ''Delete an engagement and everything in it.''\<rparr>,
     \<lparr>Rule_Action = ActionWorkbookWrite, Rule_Name = ''workbook.write'', Rule_Resource = ResourceEngagement,
      Rule_Platform = admins, Rule_Engagement = leadAndRed, Rule_Token = TokenScopeEngagementsWrite,
      Rule_Guard = GuardNone, Rule_Summary = ''Create, edit, reorder and delete scenarios, steps and their contents.''\<rparr>,
     \<lparr>Rule_Action = ActionMemberRead, Rule_Name = ''member.read'', Rule_Resource = ResourceMember,
      Rule_Platform = admins, Rule_Engagement = allMembers, Rule_Token = TokenScopeEngagementsRead,
      Rule_Guard = GuardNone, Rule_Summary = ''Read who is in an engagement and in what seat.''\<rparr>,
     \<lparr>Rule_Action = ActionMemberManage, Rule_Name = ''member.manage'', Rule_Resource = ResourceMember,
      Rule_Platform = admins, Rule_Engagement = leadOnly, Rule_Token = TokenScopeEngagementsWrite,
      Rule_Guard = GuardNone, Rule_Summary = ''Add, remove and re-seat members of one engagement.''\<rparr>,
     \<lparr>Rule_Action = ActionExecutionRead, Rule_Name = ''execution.read'', Rule_Resource = ResourceExecution,
      Rule_Platform = admins, Rule_Engagement = allMembers, Rule_Token = TokenScopeEngagementsRead,
      Rule_Guard = GuardBlindMode, Rule_Summary = ''Read an execution and its steps.''\<rparr>,
     \<lparr>Rule_Action = ActionExecutionWriteRed, Rule_Name = ''execution.write_red'', Rule_Resource = ResourceExecution,
      Rule_Platform = admins, Rule_Engagement = leadAndRed, Rule_Token = TokenScopeEngagementsWrite,
      Rule_Guard = GuardNone, Rule_Summary = ''Write the attack side of an execution: what was run, when, and how.''\<rparr>,
     \<lparr>Rule_Action = ActionExecutionWriteBlue, Rule_Name = ''execution.write_blue'', Rule_Resource = ResourceExecution,
      Rule_Platform = admins, Rule_Engagement = leadAndBlue, Rule_Token = TokenScopeEngagementsWrite,
      Rule_Guard = GuardBlindMode, Rule_Summary = ''Write the detection side of an execution: what was seen, alerted and blocked.''\<rparr>,
     \<lparr>Rule_Action = ActionEvidenceRead, Rule_Name = ''evidence.read'', Rule_Resource = ResourceEvidence,
      Rule_Platform = admins, Rule_Engagement = allMembers, Rule_Token = TokenScopeEngagementsRead,
      Rule_Guard = GuardBlindMode, Rule_Summary = ''Read evidence metadata and content. Same membership as execution.read, blind-mode guarded.''\<rparr>,
     \<lparr>Rule_Action = ActionEvidenceWrite, Rule_Name = ''evidence.write'', Rule_Resource = ResourceEvidence,
      Rule_Platform = admins, Rule_Engagement = writers, Rule_Token = TokenScopeEngagementsWrite,
      Rule_Guard = GuardNone, Rule_Summary = ''Upload and delete evidence: screenshots, logs, packet captures. Lead, red and blue, not observer.''\<rparr>,
     \<lparr>Rule_Action = ActionCommentRead, Rule_Name = ''comment.read'', Rule_Resource = ResourceComment,
      Rule_Platform = admins, Rule_Engagement = allMembers, Rule_Token = TokenScopeEngagementsRead,
      Rule_Guard = GuardNone, Rule_Summary = ''Read comments and their revision history.''\<rparr>,
     \<lparr>Rule_Action = ActionCommentWrite, Rule_Name = ''comment.write'', Rule_Resource = ResourceComment,
      Rule_Platform = admins, Rule_Engagement = allMembers, Rule_Token = TokenScopeEngagementsWrite,
      Rule_Guard = GuardNone, Rule_Summary = ''Comment. The one write an observer holds, because reading and commenting is the seat.''\<rparr>,
     \<lparr>Rule_Action = ActionFindingWrite, Rule_Name = ''finding.write'', Rule_Resource = ResourceFinding,
      Rule_Platform = admins, Rule_Engagement = writers, Rule_Token = TokenScopeEngagementsWrite,
      Rule_Guard = GuardNone, Rule_Summary = ''Raise and edit findings.''\<rparr>,
     \<lparr>Rule_Action = ActionFindingRead, Rule_Name = ''finding.read'', Rule_Resource = ResourceFinding,
      Rule_Platform = admins, Rule_Engagement = allMembers, Rule_Token = TokenScopeEngagementsRead,
      Rule_Guard = GuardNone, Rule_Summary = ''Read findings in an engagement. Same membership as engagement.read.''\<rparr>,
     \<lparr>Rule_Action = ActionReportRead, Rule_Name = ''report.read'', Rule_Resource = ResourceReport,
      Rule_Platform = admins, Rule_Engagement = allMembers, Rule_Token = TokenScopeReportsRead,
      Rule_Guard = GuardNone, Rule_Summary = ''Read and export an engagement's reports.''\<rparr>,
     \<lparr>Rule_Action = ActionReportPublish, Rule_Name = ''report.publish'', Rule_Resource = ResourceReport,
      Rule_Platform = admins, Rule_Engagement = leadOnly, Rule_Token = TokenScopeReportsWrite,
      Rule_Guard = GuardNone, Rule_Summary = ''Publish a report, which is the act that makes it somebody else's evidence.''\<rparr>,
     \<lparr>Rule_Action = ActionReportWrite, Rule_Name = ''report.write'', Rule_Resource = ResourceReport,
      Rule_Platform = admins, Rule_Engagement = allMembers, Rule_Token = TokenScopeReportsWrite,
      Rule_Guard = GuardNone, Rule_Summary = ''Create and edit report drafts. Every member of the engagement may draft.''\<rparr>
   ]"

text \<open>
  \<open>rulesByAction\<close> and \<open>actionsByName\<close> index the table row after row, so a later row with the
  same key replaces an earlier one.
\<close>

definition rulesByAction :: "Action \<rightharpoonup> Rule" where
  "rulesByAction = foldl (\<lambda>byAction rule. byAction(Rule_Action rule \<mapsto> rule)) Map.empty rules"

definition ruleFor :: "Action \<Rightarrow> Rule option" where
  "ruleFor action = rulesByAction action"

definition actionsByName :: "string \<rightharpoonup> Action" where
  "actionsByName = foldl (\<lambda>byName rule. byName(Rule_Name rule \<mapsto> Rule_Action rule)) Map.empty rules"

definition ParseAction :: "string \<Rightarrow> Action option" where
  "ParseAction name = actionsByName name"

definition Action_String :: "Action \<Rightarrow> string" where
  "Action_String a =
     (case ruleFor a of
        Some rule \<Rightarrow> Rule_Name rule
      | None \<Rightarrow> if a = ActionUnknown then ''unknown'' else ''action('' @ Itoa a @ '')'')"

fun TokenScopes_loop :: "TokenScope list \<Rightarrow> TokenScope list \<Rightarrow> Rule list \<Rightarrow> TokenScope list" where
  "TokenScopes_loop seen scopes [] = scopes"
| "TokenScopes_loop seen scopes (rule # rest) =
     (if Rule_Token rule \<notin> set seen
      then TokenScopes_loop (Rule_Token rule # seen) (scopes @ [Rule_Token rule]) rest
      else TokenScopes_loop seen scopes rest)"

definition TokenScopes :: "TokenScope list" where
  "TokenScopes = TokenScopes_loop [] [] rules"

fun ParseTokenScope_loop :: "string \<Rightarrow> TokenScope list \<Rightarrow> TokenScope \<times> bool" where
  "ParseTokenScope_loop name [] = ([], False)"
| "ParseTokenScope_loop name (scope # rest) =
     (if name = scope then (scope, True) else ParseTokenScope_loop name rest)"

definition ParseTokenScope :: "string \<Rightarrow> TokenScope \<times> bool" where
  "ParseTokenScope name = ParseTokenScope_loop name TokenScopes"

section \<open>Decisions (decision.go, policy.go)\<close>

record Decision =
  Decision_Allowed :: bool
  Decision_Reason :: string
  Decision_Conceal :: bool

definition allow :: "string \<Rightarrow> Decision" where
  "allow reason = \<lparr>Decision_Allowed = True, Decision_Reason = reason, Decision_Conceal = False\<rparr>"

definition deny :: "string \<Rightarrow> Decision" where
  "deny reason = \<lparr>Decision_Allowed = False, Decision_Reason = reason, Decision_Conceal = False\<rparr>"

definition concealed :: "string \<Rightarrow> Decision" where
  "concealed reason = \<lparr>Decision_Allowed = False, Decision_Reason = reason, Decision_Conceal = True\<rparr>"

record grantedBy =
  grantedBy_EngagementRole :: EngagementRole

definition tokenFences :: "Subject \<Rightarrow> Rule \<Rightarrow> Resource \<Rightarrow> Decision \<Rightarrow> Decision" where
  "tokenFences subject rule resource decision =
     (let bound = Subject_TokenEngagementID subject in
      if bound \<noteq> [] \<and> \<not> EngagementScoped (Rule_Resource rule) then
        deny (''this token is bound to engagement '' @ bound @ '' and '' @ Rule_Name rule @
              '' acts on the installation'')
      else if bound \<noteq> [] \<and> Resource_EngagementID resource \<noteq> bound then
        concealed (''this token is bound to engagement '' @ bound @ '', and the request named '' @
                   Resource_EngagementID resource)
      else if \<not> holdsScope subject (Rule_Token rule) then
        deny (Rule_Name rule @ '' needs the '' @ Rule_Token rule @
              '' token scope, which this token does not carry'')
      else decision)"

text \<open>The two range loops of \<open>grant\<close>: the first role in the list that the caller holds.\<close>

definition grant :: "Subject \<Rightarrow> Rule \<Rightarrow> Resource \<Rightarrow> grantedBy \<times> Decision" where
  "grant subject rule resource =
     (let (seat, member) = MembershipIn subject (Resource_EngagementID resource) in
      case find (\<lambda>role. Subject_PlatformRole subject = role) (Rule_Platform rule) of
        Some role \<Rightarrow> (\<lparr>grantedBy_EngagementRole = seat\<rparr>,
                      allow (''the '' @ role @ '' platform role holds '' @ Rule_Name rule))
      | None \<Rightarrow>
          if \<not> EngagementScoped (Rule_Resource rule) then
            (\<lparr>grantedBy_EngagementRole = []\<rparr>,
             deny (''the '' @ Subject_PlatformRole subject @ '' platform role does not hold '' @ Rule_Name rule))
          else if \<not> member then
            (\<lparr>grantedBy_EngagementRole = []\<rparr>,
             concealed (''not a member of engagement '' @ Resource_EngagementID resource))
          else (case find (\<lambda>role. seat = role) (Rule_Engagement rule) of
                  Some role \<Rightarrow> (\<lparr>grantedBy_EngagementRole = seat\<rparr>,
                     allow (seat @ '' in engagement '' @ Resource_EngagementID resource @ '' holds '' @
                            Rule_Name rule))
                | None \<Rightarrow> (\<lparr>grantedBy_EngagementRole = []\<rparr>,
                     deny (seat @ '' in engagement '' @ Resource_EngagementID resource @
                           '' does not hold '' @ Rule_Name rule))))"

definition blocks :: "Guard \<Rightarrow> Subject \<Rightarrow> grantedBy \<Rightarrow> Resource \<Rightarrow> Decision option" where
  "blocks g subject by resource =
     (if g = GuardNone then None
      else if g = GuardBlindMode then
        (if grantedBy_EngagementRole by \<noteq> EngagementRoleBlue \<or> \<not> Resource_EngagementBlind resource \<or>
            Resource_Revealed resource
         then None
         else Some (concealed (''engagement '' @ Resource_EngagementID resource @
                '' runs blind and this '' @ Resource_Type resource @ '' has not been revealed'')))
      else if g = GuardSessionOnly then
        (if Subject_Method subject \<noteq> MethodServiceToken then None
         else Some (deny ''this action is not available to a service token, whatever it is scoped for''))
      else Some (deny (''the '' @ g @ '' guard is not implemented in this build'')))"

definition Can :: "Subject \<Rightarrow> Action \<Rightarrow> Resource \<Rightarrow> Decision" where
  "Can subject action resource =
     (case ruleFor action of
        None \<Rightarrow> deny (Action_String action @ '' is not an action this build knows'')
      | Some rule \<Rightarrow>
          if \<not> authenticated subject then
            deny (''nothing authenticated this request, so it holds no '' @ Rule_Name rule)
          else if Resource_Type resource \<noteq> Rule_Resource rule then
            deny (Rule_Name rule @ '' acts on a '' @ Rule_Resource rule @ '', and the request named a '' @
                  Resource_Type resource)
          else if EngagementScoped (Rule_Resource rule) \<and> Resource_EngagementID resource = [] then
            deny (Rule_Name rule @ '' acts on a '' @ Rule_Resource rule @
                  '' belonging to an engagement, and the request named none'')
          else
            (let (by, decision) = grant subject rule resource in
             if \<not> Decision_Allowed decision then decision
             else (case blocks (Rule_Guard rule) subject by resource of
                     Some refusal \<Rightarrow> refusal
                   | None \<Rightarrow>
                       if Subject_Method subject \<noteq> MethodServiceToken then decision
                       else tokenFences subject rule resource decision)))"

section \<open>The table\<close>

lemma rules_actions_distinct: "distinct (map Rule_Action rules)"
  by code_simp

lemma rules_names_distinct: "distinct (map Rule_Name rules)"
  by code_simp

lemma ruleFor_Some: "ruleFor a = Some r \<longleftrightarrow> r \<in> set rules \<and> Rule_Action r = a"
  using foldl_map_upd_Some [OF rules_actions_distinct, of "\<lambda>r. r" a r]
  by (auto simp: ruleFor_def rulesByAction_def)

lemma ParseAction_Some: "ParseAction n = Some a \<longleftrightarrow> (\<exists>r\<in>set rules. Rule_Name r = n \<and> Rule_Action r = a)"
  using foldl_map_upd_Some [OF rules_names_distinct, of "Rule_Action" n a]
  by (simp add: ParseAction_def actionsByName_def)

text \<open>
  The table is exhaustive and free of duplicates: every action of the enumeration has a rule
  and no rule names anything else, and the wire name of every action parses back to it.
\<close>

theorem rules_cover_Actions:
  "set (map Rule_Action rules) = set Actions \<and> length rules = length Actions \<and>
   (\<forall>a\<in>set Actions. ParseAction (Action_String a) = Some a)"
proof -
  have cover: "set (map Rule_Action rules) = set Actions"
    and len: "length rules = length Actions"
    by code_simp+
  have "ParseAction (Action_String a) = Some a" if a: "a \<in> set Actions" for a
  proof -
    from a cover have "a \<in> Rule_Action ` set rules" by (simp only: set_map)
    then obtain r where r: "r \<in> set rules" "Rule_Action r = a" by blast
    then have "Action_String a = Rule_Name r"
      using ruleFor_Some [of a r] by (simp add: Action_String_def)
    with r show ?thesis by (auto simp: ParseAction_Some)
  qed
  with cover len show ?thesis by blast
qed

theorem rules_cover_Actions_witness:
  "ParseAction ''engagement.read'' = Some ActionEngagementRead"
proof -
  have "ActionEngagementRead \<in> set Actions" by code_simp
  then have "ParseAction (Action_String ActionEngagementRead) = Some ActionEngagementRead"
    using rules_cover_Actions by blast
  moreover have "Action_String ActionEngagementRead = ''engagement.read''" by code_simp
  ultimately show ?thesis by simp
qed

section \<open>Decisions, declaratively\<close>

text \<open>What each fence asks, as a predicate: the role half, the guard, and the token's fences.\<close>

definition role_holds :: "Subject \<Rightarrow> Rule \<Rightarrow> Resource \<Rightarrow> bool" where
  "role_holds s rule r \<longleftrightarrow>
     Subject_PlatformRole s \<in> set (Rule_Platform rule) \<or>
     EngagementScoped (Rule_Resource rule) \<and> snd (MembershipIn s (Resource_EngagementID r)) \<and>
     fst (MembershipIn s (Resource_EngagementID r)) \<in> set (Rule_Engagement rule)"

definition blind_to :: "Subject \<Rightarrow> Resource \<Rightarrow> bool" where
  "blind_to s r \<longleftrightarrow>
     fst (MembershipIn s (Resource_EngagementID r)) = EngagementRoleBlue \<and>
     Resource_EngagementBlind r \<and> \<not> Resource_Revealed r"

definition guard_passes :: "Subject \<Rightarrow> Rule \<Rightarrow> Resource \<Rightarrow> bool" where
  "guard_passes s rule r \<longleftrightarrow>
     Rule_Guard rule = GuardNone \<or>
     Rule_Guard rule = GuardBlindMode \<and> \<not> blind_to s r \<or>
     Rule_Guard rule = GuardSessionOnly \<and> Subject_Method s \<noteq> MethodServiceToken"

definition token_reaches :: "Subject \<Rightarrow> Rule \<Rightarrow> Resource \<Rightarrow> bool" where
  "token_reaches s rule r \<longleftrightarrow>
     Rule_Token rule \<in> set (Subject_TokenScopes s) \<and>
     (Subject_TokenEngagementID s = [] \<or>
      EngagementScoped (Rule_Resource rule) \<and> Resource_EngagementID r = Subject_TokenEngagementID s)"

definition may :: "Subject \<Rightarrow> Action \<Rightarrow> Resource \<Rightarrow> bool" where
  "may s a r \<longleftrightarrow>
     (\<exists>rule\<in>set rules. Rule_Action rule = a \<and> authenticated s \<and>
        Resource_Type r = Rule_Resource rule \<and>
        (EngagementScoped (Rule_Resource rule) \<longrightarrow> Resource_EngagementID r \<noteq> []) \<and>
        role_holds s rule r \<and> guard_passes s rule r \<and>
        (Subject_Method s = MethodServiceToken \<longrightarrow> token_reaches s rule r))"

lemma holdsScope_iff: "holdsScope s scope \<longleftrightarrow> scope \<in> set (Subject_TokenScopes s)"
proof -
  have "holdsScope_loop xs scope \<longleftrightarrow> scope \<in> set xs" for xs
    by (induction xs) auto
  then show ?thesis by (simp add: holdsScope_def)
qed

lemmas decision_simps =
  allow_def deny_def concealed_def

lemma grant_seat:
  "Decision_Allowed (snd (grant s rule r)) \<Longrightarrow>
   grantedBy_EngagementRole (fst (grant s rule r)) = fst (MembershipIn s (Resource_EngagementID r))"
  by (auto simp: grant_def decision_simps split: option.splits prod.splits if_splits)

lemma grant_allowed: "Decision_Allowed (snd (grant s rule r)) \<longleftrightarrow> role_holds s rule r"
  by (auto simp: grant_def role_holds_def decision_simps find_None_iff find_Some_iff
      in_set_conv_nth split: option.splits prod.splits)

lemma blocks_None:
  "blocks (Rule_Guard rule) s \<lparr>grantedBy_EngagementRole = fst (MembershipIn s (Resource_EngagementID r))\<rparr> r = None
   \<longleftrightarrow> guard_passes s rule r"
  by (auto simp: blocks_def guard_passes_def blind_to_def)

lemma blocks_denies: "blocks g s by r = Some d \<Longrightarrow> \<not> Decision_Allowed d"
  by (auto simp: blocks_def decision_simps split: if_splits)

lemma tokenFences_allowed:
  "Decision_Allowed d \<Longrightarrow> Decision_Allowed (tokenFences s rule r d) \<longleftrightarrow> token_reaches s rule r"
  by (auto simp: tokenFences_def token_reaches_def holdsScope_iff decision_simps Let_def)

text \<open>One row of the table, once the early returns are past.\<close>

lemma grant_pair:
  "role_holds s rule r \<Longrightarrow> \<exists>reason. grant s rule r =
     (\<lparr>grantedBy_EngagementRole = fst (MembershipIn s (Resource_EngagementID r))\<rparr>, allow reason)"
  by (auto simp: grant_def role_holds_def find_None_iff split: option.splits prod.splits)

lemma Can_row:
  assumes "ruleFor a = Some rule"
  shows "Decision_Allowed (Can s a r) \<longleftrightarrow>
     authenticated s \<and> Resource_Type r = Rule_Resource rule \<and>
     (EngagementScoped (Rule_Resource rule) \<longrightarrow> Resource_EngagementID r \<noteq> []) \<and>
     role_holds s rule r \<and> guard_passes s rule r \<and>
     (Subject_Method s = MethodServiceToken \<longrightarrow> token_reaches s rule r)"
proof (cases "role_holds s rule r")
  case True
  then obtain reason where g: "grant s rule r =
      (\<lparr>grantedBy_EngagementRole = fst (MembershipIn s (Resource_EngagementID r))\<rparr>, allow reason)"
    using grant_pair by blast
  have allowed: "Decision_Allowed (allow reason)" by (simp add: allow_def)
  show ?thesis
    using assms True allowed blocks_None [of rule s r]
    by (auto simp: Can_def g deny_def tokenFences_allowed dest: blocks_denies split: option.splits)
next
  case False
  then have "\<not> Decision_Allowed (snd (grant s rule r))" by (simp add: grant_allowed)
  with False assms show ?thesis
    by (auto simp: Can_def deny_def split: prod.splits)
qed

lemma Can_unknown: "ruleFor a = None \<Longrightarrow> \<not> Decision_Allowed (Can s a r)"
  by (simp add: Can_def deny_def)

lemma bex_unique:
  assumes "\<And>x. x \<in> S \<and> P x \<longleftrightarrow> x = y"
  shows "(\<exists>x\<in>S. P x \<and> Q x) \<longleftrightarrow> Q y"
  using assms by metis

lemma Can_allowed_iff: "Decision_Allowed (Can s a r) \<longleftrightarrow> may s a r"
proof (cases "ruleFor a")
  case None
  then have "\<not> (\<exists>rule\<in>set rules. Rule_Action rule = a)"
    using ruleFor_Some by (metis option.distinct(1))
  with None show ?thesis by (auto simp: Can_unknown may_def)
next
  case (Some rule)
  then have row: "\<And>rule'. rule' \<in> set rules \<and> Rule_Action rule' = a \<longleftrightarrow> rule' = rule"
    by (metis ruleFor_Some option.inject)
  have "may s a r \<longleftrightarrow>
      authenticated s \<and> Resource_Type r = Rule_Resource rule \<and>
      (EngagementScoped (Rule_Resource rule) \<longrightarrow> Resource_EngagementID r \<noteq> []) \<and>
      role_holds s rule r \<and> guard_passes s rule r \<and>
      (Subject_Method s = MethodServiceToken \<longrightarrow> token_reaches s rule r)"
    unfolding may_def by (rule bex_unique [OF row])
  with Can_row [OF Some] show ?thesis by simp
qed

text \<open>
  C2. \<open>Can\<close> permits exactly what the permission model says: a row of the table for this action,
  an authenticated caller, the right type of resource that names its engagement where the type
  belongs to one, a role that holds the action, a guard that does not withhold it, and for a
  service token its scope and binding. Everything else, unknown actions, roles and guards
  included, is denied.
\<close>

theorem Can_iff_may: "Decision_Allowed (Can s a r) \<longleftrightarrow> may s a r"
  by (rule Can_allowed_iff)

section \<open>What the decisions amount to\<close>

lemma blind_rows:
  "\<forall>rule\<in>set rules. Rule_Guard rule = GuardBlindMode \<longrightarrow>
     EngagementScoped (Rule_Resource rule) \<and> EngagementRoleBlue \<in> set (Rule_Engagement rule)"
  by code_simp

lemma known_guards:
  "\<forall>rule\<in>set rules. Rule_Guard rule \<in> {GuardNone, GuardBlindMode, GuardSessionOnly}"
  by code_simp

lemma Can_steps:
  assumes "ruleFor a = Some rule" "authenticated s" "Resource_Type r = Rule_Resource rule"
    "EngagementScoped (Rule_Resource rule)" "Resource_EngagementID r \<noteq> []"
  shows "Can s a r =
    (let (by, decision) = grant s rule r in
     if \<not> Decision_Allowed decision then decision
     else case blocks (Rule_Guard rule) s by r of
            Some refusal \<Rightarrow> refusal
          | None \<Rightarrow> if Subject_Method s \<noteq> MethodServiceToken then decision
                    else tokenFences s rule r decision)"
  using assms by (simp add: Can_def)

lemma Can_denied:
  assumes "ruleFor a = Some rule" "authenticated s" "Resource_Type r = Rule_Resource rule"
    "EngagementScoped (Rule_Resource rule)" "Resource_EngagementID r \<noteq> []"
    "\<not> Decision_Allowed (snd (grant s rule r))"
  shows "Can s a r = snd (grant s rule r)"
  using assms by (simp add: Can_steps split_beta)

lemma Can_blocked:
  assumes "ruleFor a = Some rule" "authenticated s" "Resource_Type r = Rule_Resource rule"
    "EngagementScoped (Rule_Resource rule)" "Resource_EngagementID r \<noteq> []" "role_holds s rule r"
    "blocks (Rule_Guard rule) s
       \<lparr>grantedBy_EngagementRole = fst (MembershipIn s (Resource_EngagementID r))\<rparr> r = Some refusal"
  shows "Can s a r = refusal"
  using assms grant_pair [OF assms(6)] by (auto simp: Can_steps allow_def)

lemma MembershipIn_named: "MembershipIn s e = (seat, True) \<Longrightarrow> e \<noteq> []"
  by (auto simp: MembershipIn_def)

text \<open>
  Blind mode: on an unrevealed resource of a blind engagement, a caller in the blue seat is
  refused every action the table guards for blind mode, whatever the platform role or the
  token, and the refusal is concealed so it is answered like a missing resource. Revealing the
  resource lets the same caller through when signed in by cookie.
\<close>

theorem Can_blind_guard:
  assumes row: "ruleFor a = Some rule" "Rule_Guard rule = GuardBlindMode"
    and s: "authenticated s" "MembershipIn s (Resource_EngagementID r) = (EngagementRoleBlue, True)"
    and r: "Resource_Type r = Rule_Resource rule" "Resource_EngagementBlind r" "\<not> Resource_Revealed r"
  shows "\<not> Decision_Allowed (Can s a r) \<and> Decision_Conceal (Can s a r) \<and>
     (Subject_Method s = MethodCookie \<longrightarrow> Decision_Allowed (Can s a (r\<lparr>Resource_Revealed := True\<rparr>)))"
proof -
  have row': "EngagementScoped (Rule_Resource rule)" "EngagementRoleBlue \<in> set (Rule_Engagement rule)"
    using row blind_rows ruleFor_Some by blast+
  have named: "Resource_EngagementID r \<noteq> []"
    using s(2) by (rule MembershipIn_named)
  have holds: "role_holds s rule r"
    using s row' by (simp add: role_holds_def)
  obtain reason where "blocks (Rule_Guard rule) s
       \<lparr>grantedBy_EngagementRole = fst (MembershipIn s (Resource_EngagementID r))\<rparr> r = Some (concealed reason)"
    using row s r by (simp add: blocks_def)
  from Can_blocked [OF row(1) s(1) r(1) row'(1) named holds this]
  have "Can s a r = concealed reason" .
  moreover have "Decision_Allowed (Can s a (r\<lparr>Resource_Revealed := True\<rparr>))"
    if "Subject_Method s = MethodCookie"
    using that row row' s r named
    by (simp add: Can_row role_holds_def guard_passes_def blind_to_def)
  ultimately show ?thesis by (simp add: concealed_def)
qed

definition sample_subject :: "EngagementRole \<Rightarrow> Subject" where
  "sample_subject seat = \<lparr>Subject_UserID = ''u1'', Subject_PlatformRole = PlatformRoleMember,
     Subject_Memberships = [(''e1'', seat)], Subject_Method = MethodCookie,
     Subject_TokenScopes = [], Subject_TokenEngagementID = [], Subject_MFASatisfied = True\<rparr>"

definition sample_resource :: "ResourceType \<Rightarrow> string \<Rightarrow> Resource" where
  "sample_resource type eng = \<lparr>Resource_Type = type, Resource_ID = ''x1'', Resource_EngagementID = eng,
     Resource_EngagementBlind = True, Resource_Revealed = False\<rparr>"

lemma sample_rows:
  "\<exists>rule. ruleFor ActionExecutionRead = Some rule \<and> Rule_Guard rule = GuardBlindMode \<and>
     Rule_Resource rule = ResourceExecution"
  "\<exists>rule. ruleFor ActionExecutionWriteRed = Some rule \<and> Rule_Guard rule = GuardNone \<and>
     Rule_Resource rule = ResourceExecution \<and> Rule_Platform rule = admins \<and>
     Rule_Engagement rule = leadAndRed \<and> EngagementScoped ResourceExecution \<and>
     Rule_Token rule = TokenScopeEngagementsWrite"
proof -
  have "(case ruleFor ActionExecutionRead of Some rule \<Rightarrow>
     Rule_Guard rule = GuardBlindMode \<and> Rule_Resource rule = ResourceExecution | None \<Rightarrow> False)"
    by code_simp
  then show "\<exists>rule. ruleFor ActionExecutionRead = Some rule \<and> Rule_Guard rule = GuardBlindMode \<and>
     Rule_Resource rule = ResourceExecution"
    by (cases "ruleFor ActionExecutionRead") simp_all
  have "(case ruleFor ActionExecutionWriteRed of Some rule \<Rightarrow> Rule_Guard rule = GuardNone \<and>
     Rule_Resource rule = ResourceExecution \<and> Rule_Platform rule = admins \<and>
     Rule_Engagement rule = leadAndRed \<and> EngagementScoped ResourceExecution \<and>
     Rule_Token rule = TokenScopeEngagementsWrite | None \<Rightarrow> False)"
    by code_simp
  then show "\<exists>rule. ruleFor ActionExecutionWriteRed = Some rule \<and> Rule_Guard rule = GuardNone \<and>
     Rule_Resource rule = ResourceExecution \<and> Rule_Platform rule = admins \<and>
     Rule_Engagement rule = leadAndRed \<and> EngagementScoped ResourceExecution \<and>
     Rule_Token rule = TokenScopeEngagementsWrite"
    by (cases "ruleFor ActionExecutionWriteRed") simp_all
qed

lemma sample_simps:
  "authenticated (sample_subject seat)"
  "MembershipIn (sample_subject seat) ''e1'' = (seat, True)"
  "MembershipIn (sample_subject seat) ''e2'' = ([], False)"
  "Subject_Method (sample_subject seat) = MethodCookie"
  "Subject_PlatformRole (sample_subject seat) = PlatformRoleMember"
  "Resource_Type (sample_resource type eng) = type"
  "Resource_EngagementID (sample_resource type eng) = eng"
  "Resource_EngagementBlind (sample_resource type eng)"
  "\<not> Resource_Revealed (sample_resource type eng)"
  by (simp_all add: sample_subject_def sample_resource_def authenticated_def MembershipIn_def)

theorem Can_blind_guard_witness:
  "Decision_Conceal (Can (sample_subject EngagementRoleBlue) ActionExecutionRead
     (sample_resource ResourceExecution ''e1''))"
proof -
  obtain rule where "ruleFor ActionExecutionRead = Some rule" "Rule_Guard rule = GuardBlindMode"
    "Rule_Resource rule = ResourceExecution"
    using sample_rows(1) by blast
  then show ?thesis
    using Can_blind_guard [of ActionExecutionRead rule "sample_subject EngagementRoleBlue"
        "sample_resource ResourceExecution ''e1''"]
    by (simp add: sample_simps)
qed

lemma Can_outsider_row:
  assumes row: "ruleFor a = Some rule" "EngagementScoped (Rule_Resource rule)"
    and s: "authenticated s" "\<not> snd (MembershipIn s (Resource_EngagementID r))"
      "Subject_PlatformRole s \<notin> set (Rule_Platform rule)"
    and r: "Resource_Type r = Rule_Resource rule" "Resource_EngagementID r \<noteq> []"
  shows "Can s a r = concealed (''not a member of engagement '' @ Resource_EngagementID r)"
proof -
  have "find (\<lambda>role. Subject_PlatformRole s = role) (Rule_Platform rule) = None"
    using s(3) by (auto simp: find_None_iff)
  then have "snd (grant s rule r) = concealed (''not a member of engagement '' @ Resource_EngagementID r)"
    using row s by (simp add: grant_def split_beta)
  then show ?thesis
    using Can_denied [OF row(1) s(1) r(1) row(2) r(2)] by (simp add: concealed_def)
qed

text \<open>
  Somebody outside an engagement learns nothing about it: without a seat in the named
  engagement and without a platform role the rule names, every action on an
  engagement's resource gets one and the same concealed refusal, whatever the resource's
  identity, blind flag or revealed flag, and whatever token carries the request.
\<close>

theorem Can_outsider_concealed:
  assumes row: "ruleFor a = Some rule" "EngagementScoped (Rule_Resource rule)"
    and s: "authenticated s" "\<not> snd (MembershipIn s (Resource_EngagementID r))"
      "Subject_PlatformRole s \<notin> set (Rule_Platform rule)"
    and r: "Resource_Type r = Rule_Resource rule" "Resource_EngagementID r \<noteq> []"
  shows "Can s a r = concealed (''not a member of engagement '' @ Resource_EngagementID r)"
  using Can_outsider_row [OF assms] .

theorem Can_outsider_concealed_witness:
  "Decision_Conceal (Can (sample_subject EngagementRoleRed) ActionExecutionWriteRed
     (sample_resource ResourceExecution ''e2''))"
proof -
  obtain rule where "ruleFor ActionExecutionWriteRed = Some rule" "Rule_Resource rule = ResourceExecution"
    "Rule_Platform rule = admins" "EngagementScoped ResourceExecution"
    using sample_rows(2) by blast
  then show ?thesis
    using Can_outsider_concealed [of ActionExecutionWriteRed rule "sample_subject EngagementRoleRed"
        "sample_resource ResourceExecution ''e2''"]
    by (simp add: sample_simps concealed_def)
qed

text \<open>
  A service token only ever subtracts. What a token request may do is exactly what the same
  subject may do through a browser session, less the session-only rows, and only within the
  token's scopes and its engagement binding.
\<close>

theorem Can_token_subtracts:
  assumes row: "ruleFor a = Some rule" and tok: "Subject_Method s = MethodServiceToken"
  shows "Decision_Allowed (Can s a r) \<longleftrightarrow>
     Decision_Allowed (Can (s\<lparr>Subject_Method := MethodCookie\<rparr>) a r) \<and>
     Rule_Guard rule \<noteq> GuardSessionOnly \<and> token_reaches s rule r"
proof -
  have "MembershipIn (s\<lparr>Subject_Method := m\<rparr>) e = MembershipIn s e" for m e
    by (simp add: MembershipIn_def)
  moreover have "Rule_Guard rule \<in> {GuardNone, GuardBlindMode, GuardSessionOnly}"
    using row known_guards ruleFor_Some by blast
  ultimately show ?thesis
    using tok unfolding Can_row [OF row]
    by (auto simp: role_holds_def guard_passes_def blind_to_def authenticated_def)
qed

definition sample_token :: "EngagementRole \<Rightarrow> TokenScope list \<Rightarrow> string \<Rightarrow> Subject" where
  "sample_token seat scopes bound = (sample_subject seat)
     \<lparr>Subject_Method := MethodServiceToken, Subject_TokenScopes := scopes,
      Subject_TokenEngagementID := bound\<rparr>"

theorem Can_token_subtracts_witness:
  "\<not> Decision_Allowed (Can (sample_token EngagementRoleRed [TokenScopeEngagementsWrite] ''e2'')
       ActionExecutionWriteRed (sample_resource ResourceExecution ''e1''))"
proof -
  obtain rule where rule: "ruleFor ActionExecutionWriteRed = Some rule"
    using sample_rows(2) by blast
  have "\<not> token_reaches (sample_token EngagementRoleRed [TokenScopeEngagementsWrite] ''e2'') rule
      (sample_resource ResourceExecution ''e1'')"
    by (simp add: token_reaches_def sample_token_def sample_resource_def)
  then show ?thesis
    using Can_token_subtracts [OF rule, of "sample_token EngagementRoleRed [TokenScopeEngagementsWrite] ''e2''"
        "sample_resource ResourceExecution ''e1''"]
    by (simp add: sample_token_def)
qed

text \<open>
  The actions a seat holds by itself, and the rows a platform member holds without one.
\<close>

definition seat_actions :: "EngagementRole \<Rightarrow> Action list" where
  "seat_actions seat = map Rule_Action (filter (\<lambda>rule. seat \<in> set (Rule_Engagement rule)) rules)"

lemma seat_rows:
  "\<forall>rule\<in>set rules. EngagementScoped (Rule_Resource rule) \<longrightarrow> PlatformRoleMember \<notin> set (Rule_Platform rule)"
  by code_simp

lemma seat_allowed:
  assumes row: "ruleFor a = Some rule" "EngagementScoped (Rule_Resource rule)"
    and s: "Subject_PlatformRole s = PlatformRoleMember"
      "MembershipIn s (Resource_EngagementID r) = (seat, True)"
    and allowed: "Decision_Allowed (Can s a r)"
  shows "a \<in> set (seat_actions seat)"
proof -
  have "rule \<in> set rules" "Rule_Action rule = a"
    using row ruleFor_Some by blast+
  moreover have "PlatformRoleMember \<notin> set (Rule_Platform rule)"
    using seat_rows row \<open>rule \<in> set rules\<close> by blast
  ultimately show ?thesis
    using allowed s by (auto simp: Can_row [OF row(1)] role_holds_def seat_actions_def)
qed

text \<open>
  Separation of the seats. For a platform member, red never writes the blue side of an
  execution and blue never writes the red side or the workbook; only a lead manages members and
  the engagement, deletes it or publishes a report; and all an observer can do is read,
  comment and draft reports.
\<close>

theorem seat_separation:
  assumes row: "ruleFor a = Some rule" "EngagementScoped (Rule_Resource rule)"
    and s: "Subject_PlatformRole s = PlatformRoleMember"
      "MembershipIn s (Resource_EngagementID r) = (seat, True)"
    and allowed: "Decision_Allowed (Can s a r)"
  shows "(seat = EngagementRoleRed \<longrightarrow> a \<noteq> ActionExecutionWriteBlue) \<and>
     (seat = EngagementRoleBlue \<longrightarrow> a \<notin> {ActionExecutionWriteRed, ActionWorkbookWrite}) \<and>
     (a \<in> {ActionEngagementManage, ActionEngagementDelete, ActionMemberManage, ActionReportPublish} \<longrightarrow>
        seat = EngagementRoleLead) \<and>
     (seat = EngagementRoleObserver \<longrightarrow>
        a \<in> {ActionEngagementRead, ActionMemberRead, ActionExecutionRead, ActionEvidenceRead,
             ActionCommentRead, ActionCommentWrite, ActionFindingRead, ActionReportRead, ActionReportWrite}) \<and>
     EngagementRole_Valid seat"
proof -
  have table: "\<forall>rule\<in>set rules. \<forall>seat\<in>set (Rule_Engagement rule).
     (seat = EngagementRoleRed \<longrightarrow> Rule_Action rule \<noteq> ActionExecutionWriteBlue) \<and>
     (seat = EngagementRoleBlue \<longrightarrow> Rule_Action rule \<notin> {ActionExecutionWriteRed, ActionWorkbookWrite}) \<and>
     (Rule_Action rule \<in> {ActionEngagementManage, ActionEngagementDelete, ActionMemberManage, ActionReportPublish} \<longrightarrow>
        seat = EngagementRoleLead) \<and>
     (seat = EngagementRoleObserver \<longrightarrow>
        Rule_Action rule \<in> {ActionEngagementRead, ActionMemberRead, ActionExecutionRead, ActionEvidenceRead,
             ActionCommentRead, ActionCommentWrite, ActionFindingRead, ActionReportRead, ActionReportWrite}) \<and>
     EngagementRole_Valid seat"
    by code_simp
  obtain rule' where "rule' \<in> set rules" "seat \<in> set (Rule_Engagement rule')" "Rule_Action rule' = a"
    using seat_allowed [OF assms] by (auto simp: seat_actions_def)
  with table show ?thesis by blast
qed

theorem seat_separation_witness:
  "\<not> Decision_Allowed (Can (sample_subject EngagementRoleBlue) ActionExecutionWriteRed
       (sample_resource ResourceExecution ''e1''))"
proof -
  obtain rule where "ruleFor ActionExecutionWriteRed = Some rule" "EngagementScoped (Rule_Resource rule)"
    using sample_rows(2) by auto
  then show ?thesis
    using seat_separation [of ActionExecutionWriteRed rule "sample_subject EngagementRoleBlue"
        "sample_resource ResourceExecution ''e1''" EngagementRoleBlue]
    by (auto simp: sample_simps)
qed

definition decision_wf :: "Decision \<Rightarrow> bool" where
  "decision_wf d \<longleftrightarrow> Decision_Reason d \<noteq> [] \<and> \<not> (Decision_Allowed d \<and> Decision_Conceal d)"

text \<open>
  A decision is well formed whatever is asked: it always gives a reason, and a concealed
  decision is never a permission.
\<close>

theorem Can_decision_wf:
  "Decision_Reason (Can s a r) \<noteq> [] \<and> \<not> (Decision_Allowed (Can s a r) \<and> Decision_Conceal (Can s a r))"
proof -
  have allow: "decision_wf (allow (''the '' @ x))" for x by (simp add: decision_wf_def allow_def)
  have deny: "x \<noteq> [] \<Longrightarrow> decision_wf (deny x)" for x by (simp add: decision_wf_def deny_def)
  have conceal: "x \<noteq> [] \<Longrightarrow> decision_wf (concealed x)" for x by (simp add: decision_wf_def concealed_def)
  have grant: "decision_wf (snd (grant s rule r))" for rule
    by (auto simp: grant_def decision_wf_def decision_simps split: prod.splits option.splits)
  have blocks: "decision_wf d" if "blocks g s seat r = Some d" for g seat d
    using that by (auto simp: blocks_def decision_wf_def decision_simps split: if_splits)
  have fences: "decision_wf (tokenFences s rule r d)" if "decision_wf d" for rule d
    using that by (auto simp: tokenFences_def Let_def deny conceal)
  have "decision_wf (Can s a r)"
    unfolding Can_def using grant
    by (auto simp: Let_def split_beta deny dest: blocks intro: fences split: option.splits)
  then show ?thesis by (simp add: decision_wf_def)
qed

text \<open>
  A token bound to one engagement does tell its holder which other engagements exist: where
  the owner holds a seat that lacks the action, the role half of the decision denies before the
  token's fence conceals, so the refusal is not concealed, while an engagement that does not
  exist or that the owner is not in is concealed.
\<close>

theorem bound_token_distinguishes:
  assumes row: "ruleFor a = Some rule" "EngagementScoped (Rule_Resource rule)"
    and s: "authenticated s" "Subject_PlatformRole s \<notin> set (Rule_Platform rule)"
      "Subject_Method s = MethodServiceToken" "Subject_TokenEngagementID s = bound"
    and r: "Resource_Type r = Rule_Resource rule" "Resource_EngagementID r \<noteq> bound"
      "MembershipIn s (Resource_EngagementID r) = (seat, True)" "seat \<notin> set (Rule_Engagement rule)"
    and r': "Resource_Type r' = Rule_Resource rule" "Resource_EngagementID r' \<noteq> []"
      "\<not> snd (MembershipIn s (Resource_EngagementID r'))"
  shows "\<not> Decision_Allowed (Can s a r) \<and> \<not> Decision_Conceal (Can s a r) \<and>
     \<not> Decision_Allowed (Can s a r') \<and> Decision_Conceal (Can s a r')"
proof -
  have named: "Resource_EngagementID r \<noteq> []"
    using r(3) by (rule MembershipIn_named)
  have "find (\<lambda>role. Subject_PlatformRole s = role) (Rule_Platform rule) = None"
    "find (\<lambda>role. seat = role) (Rule_Engagement rule) = None"
    using s(2) r(4) by (auto simp: find_None_iff)
  then obtain reason where "snd (grant s rule r) = deny reason"
    using row r by (auto simp: grant_def)
  then have "Can s a r = deny reason"
    using Can_denied [OF row(1) s(1) r(1) row(2) named] by (simp add: deny_def)
  moreover have "Can s a r' = concealed (''not a member of engagement '' @ Resource_EngagementID r')"
    using Can_outsider_row [OF row s(1) r'(3) s(2) r'(1,2)] .
  ultimately show ?thesis by (auto simp: deny_def concealed_def)
qed

theorem bound_token_distinguishes_witness:
  "Decision_Conceal (Can (sample_token EngagementRoleBlue [TokenScopeEngagementsWrite] ''e9'')
       ActionExecutionWriteRed (sample_resource ResourceExecution ''e1'')) \<noteq>
   Decision_Conceal (Can (sample_token EngagementRoleBlue [TokenScopeEngagementsWrite] ''e9'')
       ActionExecutionWriteRed (sample_resource ResourceExecution ''e2''))"
proof -
  obtain rule where "ruleFor ActionExecutionWriteRed = Some rule" "EngagementScoped (Rule_Resource rule)"
    "Rule_Resource rule = ResourceExecution" "Rule_Platform rule = admins" "Rule_Engagement rule = leadAndRed"
    using sample_rows(2) by auto
  then show ?thesis
    using bound_token_distinguishes [of ActionExecutionWriteRed rule
        "sample_token EngagementRoleBlue [TokenScopeEngagementsWrite] ''e9''" "''e9''"
        "sample_resource ResourceExecution ''e1''" EngagementRoleBlue "sample_resource ResourceExecution ''e2''"]
    by (simp add: sample_token_def sample_subject_def sample_resource_def MembershipIn_def authenticated_def)
qed

end
