(* ===== verification/Scoring.thy ===== *)
theory Scoring
  imports Go_Base "HOL-Library.Sublist"
begin

text \<open>
  The scoring vocabulary (internal/domain/scoring/scoring.go): detection categories and their
  ordinals, protections, modifiers, the derived outcome and the time to detect. The wire types
  are Go string types, so any string may arrive; the functions that can fail return the error
  they build as a value of \<open>scoring_error\<close>. The detection levels are also given as an ordered
  datatype, the specification the ordinals refine.
\<close>

datatype scoring_error =
    UnknownCategory string
  | UnknownProtection string
  | UnknownModifier string
  | UnhandledProtection string
  | DetectedPrecedesStarted

section \<open>Categories\<close>

type_synonym Category = string

abbreviation CategoryNone :: Category where "CategoryNone \<equiv> ''none''"
abbreviation CategoryTelemetry :: Category where "CategoryTelemetry \<equiv> ''telemetry''"
abbreviation CategoryGeneral :: Category where "CategoryGeneral \<equiv> ''general''"
abbreviation CategoryTactic :: Category where "CategoryTactic \<equiv> ''tactic''"
abbreviation CategoryTechnique :: Category where "CategoryTechnique \<equiv> ''technique''"

definition Category_Valid :: "Category \<Rightarrow> bool" where
  "Category_Valid c \<longleftrightarrow>
     c \<in> {CategoryNone, CategoryTelemetry, CategoryGeneral, CategoryTactic, CategoryTechnique}"

text \<open>On an unknown category the code returns -1 beside the error; the -1 is not read by any caller.\<close>

definition Ordinal :: "Category \<Rightarrow> scoring_error + int" where
  "Ordinal c =
     (if c = CategoryNone then Inr 0
      else if c = CategoryTelemetry then Inr 1
      else if c = CategoryGeneral then Inr 2
      else if c = CategoryTactic then Inr 3
      else if c = CategoryTechnique then Inr 4
      else Inl (UnknownCategory c))"

definition CompareOrdinal :: "Category \<Rightarrow> Category \<Rightarrow> scoring_error + int" where
  "CompareOrdinal a b =
     (case Ordinal a of
        Inl err \<Rightarrow> Inl err
      | Inr oa \<Rightarrow> (case Ordinal b of
            Inl err \<Rightarrow> Inl err
          | Inr ob \<Rightarrow> Inr (oa - ob)))"

definition AllCategories :: "Category list" where
  "AllCategories = [CategoryNone, CategoryTelemetry, CategoryGeneral, CategoryTactic, CategoryTechnique]"

definition ParseCategory :: "string \<Rightarrow> scoring_error + Category" where
  "ParseCategory s = (if \<not> Category_Valid s then Inl (UnknownCategory s) else Inr s)"

section \<open>Protections\<close>

type_synonym Protection = string

abbreviation ProtectionBlocked :: Protection where "ProtectionBlocked \<equiv> ''blocked''"
abbreviation ProtectionPartial :: Protection where "ProtectionPartial \<equiv> ''partial''"
abbreviation ProtectionNotBlocked :: Protection where "ProtectionNotBlocked \<equiv> ''not_blocked''"
abbreviation ProtectionNA :: Protection where "ProtectionNA \<equiv> ''n/a''"

definition Protection_Valid :: "Protection \<Rightarrow> bool" where
  "Protection_Valid p \<longleftrightarrow> p \<in> {ProtectionBlocked, ProtectionPartial, ProtectionNotBlocked, ProtectionNA}"

definition AllProtections :: "Protection list" where
  "AllProtections = [ProtectionBlocked, ProtectionPartial, ProtectionNotBlocked, ProtectionNA]"

definition ParseProtection :: "string \<Rightarrow> scoring_error + Protection" where
  "ParseProtection s = (if \<not> Protection_Valid s then Inl (UnknownProtection s) else Inr s)"

section \<open>Modifiers\<close>

definition KnownModifiers :: "string list" where
  "KnownModifiers = [''alert'', ''correlated'', ''delayed'', ''config_change'', ''residual_artifact'']"

definition knownModifierSet :: "string \<Rightarrow> bool" where
  "knownModifierSet m \<longleftrightarrow> m \<in> set KnownModifiers"

fun ValidateModifiers_loop :: "string list \<Rightarrow> string list \<Rightarrow> string list \<Rightarrow> scoring_error + string list" where
  "ValidateModifiers_loop seen deduped [] = Inr deduped"
| "ValidateModifiers_loop seen deduped (m # mods) =
     (if \<not> knownModifierSet m then Inl (UnknownModifier m)
      else if m \<notin> set seen then ValidateModifiers_loop (m # seen) (deduped @ [m]) mods
      else ValidateModifiers_loop seen deduped mods)"

definition ValidateModifiers :: "string list \<Rightarrow> scoring_error + string list" where
  "ValidateModifiers mods = (if mods = [] then Inr [] else ValidateModifiers_loop [] [] mods)"

definition ParseModifier :: "string \<Rightarrow> scoring_error + string" where
  "ParseModifier s = (if knownModifierSet s then Inr s else Inl (UnknownModifier s))"

section \<open>Outcome and time to detect\<close>

type_synonym Outcome = string

abbreviation OutcomeNotApplicable :: Outcome where "OutcomeNotApplicable \<equiv> ''not_applicable''"
abbreviation OutcomePrevented :: Outcome where "OutcomePrevented \<equiv> ''prevented''"
abbreviation OutcomeDetected :: Outcome where "OutcomeDetected \<equiv> ''detected''"
abbreviation OutcomeNotDetected :: Outcome where "OutcomeNotDetected \<equiv> ''not_detected''"

definition DeriveOutcome :: "Category \<Rightarrow> Protection \<Rightarrow> scoring_error + Outcome" where
  "DeriveOutcome cat prot =
     (if \<not> Category_Valid cat then Inl (UnknownCategory cat)
      else if \<not> Protection_Valid prot then Inl (UnknownProtection prot)
      else if prot = ProtectionBlocked \<or> prot = ProtectionPartial then Inr OutcomePrevented
      else if prot = ProtectionNotBlocked then
        (if cat = CategoryNone then Inr OutcomeNotDetected else Inr OutcomeDetected)
      else if prot = ProtectionNA then Inr OutcomeNotApplicable
      else Inl (UnhandledProtection prot))"

definition DeriveOutcomePtr :: "Category option \<Rightarrow> Protection option \<Rightarrow> scoring_error + Outcome" where
  "DeriveOutcomePtr cat prot =
     (case (cat, prot) of (Some c, Some p) \<Rightarrow> DeriveOutcome c p | _ \<Rightarrow> Inr [])"

text \<open>The duration and the flag; an error comes with a false flag.\<close>

definition MTTD :: "gotime option \<Rightarrow> gotime option \<Rightarrow> scoring_error + (duration \<times> bool)" where
  "MTTD startedAt detectedAt =
     (case (startedAt, detectedAt) of
        (Some started, Some detected) \<Rightarrow>
          (let d = Sub detected started in
           if d < 0 then Inl DetectedPrecedesStarted else Inr (d, True))
      | _ \<Rightarrow> Inr (0, False))"

section \<open>The order of the detection levels\<close>

text \<open>The specification of the ordinals: five levels, each better than the one before.\<close>

datatype level = NoDetection | Telemetry | General | Tactic | Technique

fun rank :: "level \<Rightarrow> int" where
  "rank NoDetection = 0"
| "rank Telemetry = 1"
| "rank General = 2"
| "rank Tactic = 3"
| "rank Technique = 4"

lemma rank_inj: "rank x = rank y \<longleftrightarrow> x = y"
  by (cases x; cases y) simp_all

instantiation level :: linorder
begin

definition less_eq_level :: "level \<Rightarrow> level \<Rightarrow> bool" where
  "less_eq_level x y \<longleftrightarrow> rank x \<le> rank y"

definition less_level :: "level \<Rightarrow> level \<Rightarrow> bool" where
  "less_level x y \<longleftrightarrow> rank x < rank y"

instance
  by standard (auto simp: less_eq_level_def less_level_def rank_inj)

end

fun category :: "level \<Rightarrow> Category" where
  "category NoDetection = CategoryNone"
| "category Telemetry = CategoryTelemetry"
| "category General = CategoryGeneral"
| "category Tactic = CategoryTactic"
| "category Technique = CategoryTechnique"

lemma Ordinal_category [simp]: "Ordinal (category l) = Inr (rank l)"
  by (cases l) (simp_all add: Ordinal_def)

lemma Category_Valid_level: "Category_Valid c \<longleftrightarrow> (\<exists>l. c = category l)"
proof
  assume "\<exists>l. c = category l"
  then obtain l where "c = category l" ..
  then show "Category_Valid c" by (cases l) (simp_all add: Category_Valid_def)
next
  assume "Category_Valid c"
  then have "c \<in> category ` {NoDetection, Telemetry, General, Tactic, Technique}"
    by (simp add: Category_Valid_def)
  then show "\<exists>l. c = category l" by blast
qed

lemma Ordinal_unknown: "\<not> Category_Valid c \<Longrightarrow> Ordinal c = Inl (UnknownCategory c)"
  by (simp add: Ordinal_def Category_Valid_def)

text \<open>
  The ordinals refine the order of the detection levels: \<open>CompareOrdinal\<close> is negative, zero or
  positive exactly as the first level is below, equal to or above the second, stays within -4
  and 4, and is the error naming the unknown category exactly when one is unknown. The value
  is the difference of the ordinals, not its sign as the comment on the function has it.
\<close>

theorem CompareOrdinal_order:
  "CompareOrdinal (category x) (category y) = Inr (rank x - rank y) \<and>
   (rank x - rank y < 0) = (x < y) \<and> (rank x - rank y = 0) = (x = y) \<and>
   \<bar>rank x - rank y\<bar> \<le> 4 \<and>
   CompareOrdinal CategoryTechnique CategoryNone = Inr 4 \<and>
   isl (CompareOrdinal a b) = (\<not> (Category_Valid a \<and> Category_Valid b))"
proof -
  have "\<bar>rank x - rank y\<bar> \<le> 4" by (cases x; cases y) simp_all
  moreover have "isl (CompareOrdinal a b) = (\<not> (Category_Valid a \<and> Category_Valid b))"
  proof (cases "Category_Valid a \<and> Category_Valid b")
    case True
    then obtain l m where "a = category l" "b = category m"
      by (auto simp: Category_Valid_level)
    with True show ?thesis by (simp add: CompareOrdinal_def)
  next
    case False
    then consider "\<not> Category_Valid a" | l where "a = category l" "\<not> Category_Valid b"
      by (auto simp: Category_Valid_level)
    then show ?thesis
      using False by cases (simp_all add: CompareOrdinal_def Ordinal_unknown)
  qed
  moreover have "CompareOrdinal CategoryTechnique CategoryNone = Inr 4"
    by (simp add: CompareOrdinal_def Ordinal_def)
  ultimately show ?thesis
    by (auto simp: CompareOrdinal_def less_level_def rank_inj)
qed

section \<open>Outcomes\<close>

text \<open>The matrix of docs/scoring.md, one row per protection.\<close>

definition outcome_matrix :: "(Protection \<times> (level \<Rightarrow> Outcome)) list" where
  "outcome_matrix =
    [(ProtectionBlocked, \<lambda>_. OutcomePrevented),
     (ProtectionPartial, \<lambda>_. OutcomePrevented),
     (ProtectionNotBlocked, \<lambda>l. if l = NoDetection then OutcomeNotDetected else OutcomeDetected),
     (ProtectionNA, \<lambda>_. OutcomeNotApplicable)]"

lemma category_none: "category l = CategoryNone \<longleftrightarrow> l = NoDetection"
  by (cases l) simp_all

text \<open>
  \<open>DeriveOutcome\<close> computes the documented matrix on every known pair, reports the category
  before the protection when something is unknown, and its last branch (a protection that is
  valid but unhandled) is never reached.
\<close>

theorem DeriveOutcome_matrix:
  "DeriveOutcome (category l) p =
     (case map_of outcome_matrix p of Some row \<Rightarrow> Inr (row l) | None \<Rightarrow> Inl (UnknownProtection p)) \<and>
   DeriveOutcome c q \<noteq> Inl (UnhandledProtection q) \<and>
   (DeriveOutcome c q = Inl (UnknownCategory c)) = (\<not> Category_Valid c)"
proof -
  have valid: "Category_Valid (category l)" by (auto simp: Category_Valid_level)
  have "DeriveOutcome (category l) p =
     (case map_of outcome_matrix p of Some row \<Rightarrow> Inr (row l) | None \<Rightarrow> Inl (UnknownProtection p))"
    using valid by (simp add: DeriveOutcome_def outcome_matrix_def Protection_Valid_def category_none)
  moreover have "DeriveOutcome c q \<noteq> Inl (UnhandledProtection q)"
    by (simp add: DeriveOutcome_def Protection_Valid_def)
  moreover have "(DeriveOutcome c q = Inl (UnknownCategory c)) = (\<not> Category_Valid c)"
    by (simp add: DeriveOutcome_def)
  ultimately show ?thesis by blast
qed

section \<open>Modifiers\<close>

lemma ValidateModifiers_loop_ok:
  assumes "\<forall>m\<in>set mods. knownModifierSet m" and "set seen = set deduped" and "distinct deduped"
  shows "\<exists>extra. ValidateModifiers_loop seen deduped mods = Inr (deduped @ extra) \<and>
     distinct (deduped @ extra) \<and> set (deduped @ extra) = set deduped \<union> set mods \<and> subseq extra mods"
  using assms
proof (induction mods arbitrary: seen deduped)
  case (Cons m mods)
  show ?case
  proof (cases "m \<in> set seen")
    case True
    with Cons.IH [of seen deduped] Cons.prems obtain extra where
      "ValidateModifiers_loop seen deduped mods = Inr (deduped @ extra)"
      "distinct (deduped @ extra)" "set (deduped @ extra) = set deduped \<union> set mods" "subseq extra mods"
      by auto
    with True Cons.prems show ?thesis
      by (intro exI [of _ extra]) (auto intro: subseq_Cons')
  next
    case False
    with Cons.IH [of "m # seen" "deduped @ [m]"] Cons.prems obtain extra where
      "ValidateModifiers_loop (m # seen) (deduped @ [m]) mods = Inr ((deduped @ [m]) @ extra)"
      "distinct ((deduped @ [m]) @ extra)" "set ((deduped @ [m]) @ extra) = set (deduped @ [m]) \<union> set mods"
      "subseq extra mods"
      by auto
    with False Cons.prems show ?thesis
      by (intro exI [of _ "m # extra"]) auto
  qed
qed simp

lemma ValidateModifiers_loop_unknown:
  "\<not> knownModifierSet m \<Longrightarrow> \<forall>k\<in>set ms. knownModifierSet k \<Longrightarrow>
   ValidateModifiers_loop seen deduped (ms @ m # rest) = Inl (UnknownModifier m)"
  by (induction ms arbitrary: seen deduped) auto

lemma ValidateModifiers_known:
  assumes "\<forall>m\<in>set mods. knownModifierSet m"
  shows "\<exists>ms. ValidateModifiers mods = Inr ms \<and> distinct ms \<and> set ms = set mods \<and> subseq ms mods"
  using ValidateModifiers_loop_ok [OF assms, of "[]" "[]"] by (auto simp: ValidateModifiers_def)

lemma ValidateModifiers_unknown:
  assumes "\<not> (\<forall>m\<in>set mods. knownModifierSet m)"
  shows "\<exists>ms m rest. mods = ms @ m # rest \<and> (\<forall>k\<in>set ms. knownModifierSet k) \<and>
     \<not> knownModifierSet m \<and> ValidateModifiers mods = Inl (UnknownModifier m)"
proof -
  from assms have "\<exists>m\<in>set mods. \<not> knownModifierSet m" by blast
  from split_list_first_prop [OF this] obtain ms m rest where
    "mods = ms @ m # rest" "\<not> knownModifierSet m" "\<forall>k\<in>set ms. \<not> \<not> knownModifierSet k"
    by blast
  then show ?thesis
    by (intro exI [of _ ms] exI [of _ m] exI [of _ rest])
      (simp add: ValidateModifiers_def ValidateModifiers_loop_unknown)
qed

text \<open>
  \<open>ValidateModifiers\<close> accepts exactly the lists of known modifiers. What it returns has the
  same elements, each once, in the order of the input, so validating it again accepts it;
  otherwise the error names the first unknown entry.
\<close>

theorem ValidateModifiers_spec:
  "case ValidateModifiers mods of
     Inr ms \<Rightarrow> (\<forall>m\<in>set mods. knownModifierSet m) \<and> distinct ms \<and> set ms = set mods \<and>
        subseq ms mods \<and> (\<exists>ms'. ValidateModifiers ms = Inr ms' \<and> set ms' = set mods)
   | Inl e \<Rightarrow> (\<exists>ms m rest. mods = ms @ m # rest \<and> (\<forall>k\<in>set ms. knownModifierSet k) \<and>
        \<not> knownModifierSet m \<and> e = UnknownModifier m)"
proof (cases "\<forall>m\<in>set mods. knownModifierSet m")
  case True
  then obtain ms where ms: "ValidateModifiers mods = Inr ms" "distinct ms" "set ms = set mods" "subseq ms mods"
    using ValidateModifiers_known by blast
  with True obtain ms' where "ValidateModifiers ms = Inr ms'" "set ms' = set ms"
    using ValidateModifiers_known [of ms] by auto
  with True ms show ?thesis by auto
next
  case False
  from ValidateModifiers_unknown [OF False] show ?thesis by fastforce
qed

theorem ValidateModifiers_spec_witness:
  "set (case ValidateModifiers [''alert'', ''delayed'', ''alert''] of Inr ms \<Rightarrow> ms | Inl _ \<Rightarrow> []) =
   {''alert'', ''delayed''}"
  using ValidateModifiers_spec [of "[''alert'', ''delayed'', ''alert'']"]
  by (simp add: ValidateModifiers_def knownModifierSet_def KnownModifiers_def)

section \<open>Time to detect\<close>

text \<open>
  The time to detect is reported exactly when both instants are set and in order; it is then
  never negative and, below 292 years, the exact difference. A detection before the start is
  an error, never a negative duration.
\<close>

theorem MTTD_spec:
  "MTTD (Some started) (Some detected) =
     (if detected < started then Inl DetectedPrecedesStarted
      else Inr (min maxDuration (detected - started), True)) \<and>
   MTTD None d = Inr (0, False) \<and> MTTD s None = Inr (0, False)"
  by (auto simp: MTTD_def Sub_def minDuration_def maxDuration_def Let_def split: option.splits)

end
