(* ===== verification/Throttle.thy ===== *)
theory Throttle
  imports Apierr
begin

text \<open>
  The sign-in throttle (internal/authn/throttle/throttle.go): two counters, one per account and
  one per source address, each a table of keys with a failure count and a lockout that doubles.
  A counter is a record of its rule, ceiling, table and sweep bookkeeping; a Go map of entry
  pointers is an association list, since an entry is reached only through the map. The clock is
  an argument of every operation that reads it, the mutex makes each operation one step, and the
  log lines are left out. The lemmas keep the invariant, show that no operation shortens a
  lockout, and relate \<open>fail\<close> to an automaton for a single key.
\<close>

section \<open>State\<close>

definition backoffSteps :: nat where "backoffSteps = 3"
definition sweepInterval :: duration where "sweepInterval = Minute"
definition defaultMaxKeys :: int where "defaultMaxKeys = 50000"

definition throttledDetail :: string where
  "throttledDetail = ''too many sign-in attempts; wait before trying again''"

type_synonym Scope = string
abbreviation ScopeAccount :: Scope where "ScopeAccount \<equiv> ''account''"
abbreviation ScopeSource :: Scope where "ScopeSource \<equiv> ''source''"

record throttle_Rule =
  Rule_Failures :: int
  Rule_Lockout :: duration

record Policy =
  Policy_Account :: throttle_Rule
  Policy_Source :: throttle_Rule
  Policy_MaxKeys :: int

record Attempt =
  Attempt_Account :: string
  Attempt_Source :: string

definition accountKey :: "Attempt \<Rightarrow> string" where
  "accountKey a = ToLower (TrimSpace (Attempt_Account a))"

definition sourceKey :: "Attempt \<Rightarrow> string" where
  "sourceKey a = TrimSpace (Attempt_Source a)"

record Lockout =
  Lockout_Scope :: Scope
  Lockout_Key :: string
  Lockout_RetryAfter :: duration

record entry =
  entry_failures :: int
  entry_lockouts :: int
  entry_lastAt :: gotime
  entry_until :: gotime

record counter =
  counter_rule :: throttle_Rule
  counter_maxLockout :: duration
  counter_maxKeys :: int
  counter_entries :: "(string \<times> entry) list"
  counter_sweptAt :: gotime
  counter_full :: bool

record Limiter =
  Limiter_account :: counter
  Limiter_source :: counter

section \<open>One counter\<close>

definition newCounter :: "throttle_Rule \<Rightarrow> int \<Rightarrow> counter" where
  "newCounter rule maxKeys =
     \<lparr>counter_rule = rule, counter_maxLockout = shl64 (Rule_Lockout rule) backoffSteps,
      counter_maxKeys = maxKeys, counter_entries = [], counter_sweptAt = 0, counter_full = False\<rparr>"

definition lockoutFor :: "counter \<Rightarrow> int \<Rightarrow> duration" where
  "lockoutFor c n =
     (let n = (if n > int backoffSteps + 1 then int backoffSteps + 1 else n)
      in shl64 (Rule_Lockout (counter_rule c)) (nat (n - 1)))"

definition stale :: "counter \<Rightarrow> entry \<Rightarrow> gotime \<Rightarrow> bool" where
  "stale c e now \<longleftrightarrow> Sub now (entry_lastAt e) \<ge> counter_maxLockout c"

definition retryAfter :: "counter \<Rightarrow> string \<Rightarrow> gotime \<Rightarrow> duration" where
  "retryAfter c key now =
     (if key = [] then 0
      else case map_of (counter_entries c) key of
             None \<Rightarrow> 0
           | Some e \<Rightarrow>
               if stale c e now \<or> \<not> Before now (entry_until e) then 0
               else Sub (entry_until e) now)"

definition sweep :: "counter \<Rightarrow> gotime \<Rightarrow> counter" where
  "sweep c now =
     (let c1 = c\<lparr>counter_sweptAt := now,
                 counter_entries := filter (\<lambda>(key, e). \<not> stale c e now) (counter_entries c)\<rparr>
      in if counter_full c1 \<and> int (length (counter_entries c1)) < counter_maxKeys c1
         then c1\<lparr>counter_full := False\<rparr> else c1)"

text \<open>\<open>admit\<close> returns the new entry, or None for the nil the code returns when the table is full.\<close>

definition admit :: "counter \<Rightarrow> string \<Rightarrow> gotime \<Rightarrow> entry option \<times> counter" where
  "admit c key now =
     (let c1 = (if int (length (counter_entries c)) \<ge> counter_maxKeys c \<and> \<not> counter_full c
                then (let c2 = sweep c now in
                      if int (length (counter_entries c2)) \<ge> counter_maxKeys c2
                      then c2\<lparr>counter_full := True\<rparr> else c2)
                else c)
      in if int (length (counter_entries c1)) \<ge> counter_maxKeys c1 then (None, c1)
         else (let e = \<lparr>entry_failures = 0, entry_lockouts = 0, entry_lastAt = now, entry_until = 0\<rparr>
               in (Some e, c1\<lparr>counter_entries := AList.update key e (counter_entries c1)\<rparr>)))"

definition put :: "counter \<Rightarrow> string \<Rightarrow> entry \<Rightarrow> counter" where
  "put c key e = c\<lparr>counter_entries := AList.update key e (counter_entries c)\<rparr>"

text \<open>The part of \<open>fail\<close> after the entry is found or admitted; it writes through the pointer.\<close>

definition fail_entry :: "counter \<Rightarrow> string \<Rightarrow> gotime \<Rightarrow> entry \<Rightarrow> duration \<times> counter" where
  "fail_entry c key now e =
     (if Before now (entry_until e) then (0, c)
      else
        (let e1 = e\<lparr>entry_failures := entry_failures e + 1, entry_lastAt := now\<rparr> in
         if entry_failures e1 < Rule_Failures (counter_rule c) then (0, put c key e1)
         else
           (let n = entry_lockouts e1 + 1;
                e2 = e1\<lparr>entry_failures := 0, entry_lockouts := n,
                        entry_until := Add now (lockoutFor c n)\<rparr>
            in (Sub (entry_until e2) now, put c key e2))))"

text \<open>The start of \<open>fail\<close>: the periodic sweep, then the entry of the key, a fresh one if need be.\<close>

definition periodic_sweep :: "counter \<Rightarrow> gotime \<Rightarrow> counter" where
  "periodic_sweep c now = (if Sub now (counter_sweptAt c) \<ge> sweepInterval then sweep c now else c)"

definition find_entry :: "counter \<Rightarrow> string \<Rightarrow> gotime \<Rightarrow> entry option \<times> counter" where
  "find_entry c key now =
     (case map_of (counter_entries c) key of
        Some e \<Rightarrow>
          if stale c e now
          then admit (c\<lparr>counter_entries := AList.delete key (counter_entries c)\<rparr>) key now
          else (Some e, c)
      | None \<Rightarrow> admit c key now)"

definition fail :: "counter \<Rightarrow> string \<Rightarrow> gotime \<Rightarrow> duration \<times> counter" where
  "fail c key now =
     (if key = [] then (0, c)
      else
        (let (found, c1) = find_entry (periodic_sweep c now) key now in
         case found of
           None \<Rightarrow> (0, c1)
         | Some e \<Rightarrow> fail_entry c1 key now e))"

definition succeed :: "counter \<Rightarrow> string \<Rightarrow> gotime \<Rightarrow> counter" where
  "succeed c key now =
     (if key = [] then c
      else case map_of (counter_entries c) key of
             Some e \<Rightarrow> if Before now (entry_until e) then c
                       else c\<lparr>counter_entries := AList.delete key (counter_entries c)\<rparr>
           | None \<Rightarrow> c\<lparr>counter_entries := AList.delete key (counter_entries c)\<rparr>)"

section \<open>The limiter\<close>

datatype rule_error = FailuresBelowOne string int | LockoutNotPositive string duration

definition validate :: "string \<Rightarrow> throttle_Rule \<Rightarrow> rule_error option" where
  "validate name r =
     (if Rule_Failures r < 1 then Some (FailuresBelowOne name (Rule_Failures r))
      else if Rule_Lockout r \<le> 0 then Some (LockoutNotPositive name (Rule_Lockout r))
      else None)"

text \<open>\<open>New\<close> joins the errors of both rules and stops on any.\<close>

definition New :: "Policy \<Rightarrow> rule_error list + Limiter" where
  "New p =
     (let errs = List.map_filter id [validate ''account'' (Policy_Account p), validate ''source'' (Policy_Source p)];
          maxKeys = (if Policy_MaxKeys p \<le> 0 then defaultMaxKeys else Policy_MaxKeys p)
      in if errs \<noteq> [] then Inl errs
         else Inr \<lparr>Limiter_account = newCounter (Policy_Account p) maxKeys,
                   Limiter_source = newCounter (Policy_Source p) maxKeys\<rparr>)"

text \<open>Each counter reads the clock itself, so an operation takes one reading per counter.\<close>

definition Check :: "Limiter \<Rightarrow> Attempt \<Rightarrow> gotime \<Rightarrow> gotime \<Rightarrow> error option" where
  "Check l a nowA nowS =
     (let waitA = retryAfter (Limiter_account l) (accountKey a) nowA in
      if waitA > 0 then Some (RateLimited throttledDetail waitA)
      else
        (let waitS = retryAfter (Limiter_source l) (sourceKey a) nowS in
         if waitS > 0 then Some (RateLimited throttledDetail waitS) else None))"

definition Failed :: "Limiter \<Rightarrow> Attempt \<Rightarrow> gotime \<Rightarrow> gotime \<Rightarrow> Lockout list \<times> Limiter" where
  "Failed l a nowA nowS =
     (let (waitA, ca) = fail (Limiter_account l) (accountKey a) nowA;
          (waitS, cs) = fail (Limiter_source l) (sourceKey a) nowS;
          lockedA = (if waitA > 0 then
             [\<lparr>Lockout_Scope = ScopeAccount, Lockout_Key = accountKey a, Lockout_RetryAfter = waitA\<rparr>] else []);
          lockedS = (if waitS > 0 then
             [\<lparr>Lockout_Scope = ScopeSource, Lockout_Key = sourceKey a, Lockout_RetryAfter = waitS\<rparr>] else [])
      in (lockedA @ lockedS, \<lparr>Limiter_account = ca, Limiter_source = cs\<rparr>))"

definition Succeeded :: "Limiter \<Rightarrow> Attempt \<Rightarrow> gotime \<Rightarrow> Limiter" where
  "Succeeded l a nowA =
     l\<lparr>Limiter_account := succeed (Limiter_account l) (accountKey a) nowA\<rparr>"

section \<open>The invariant\<close>

definition rule_ok :: "throttle_Rule \<Rightarrow> bool" where
  "rule_ok r \<longleftrightarrow> 1 \<le> Rule_Failures r \<and> 0 < Rule_Lockout r \<and> Rule_Lockout r * 8 < 2 ^ 63"

definition entry_inv :: "counter \<Rightarrow> entry \<Rightarrow> bool" where
  "entry_inv c e \<longleftrightarrow>
     0 \<le> entry_failures e \<and> entry_failures e < Rule_Failures (counter_rule c) \<and>
     0 \<le> entry_lockouts e \<and> entry_until e \<le> entry_lastAt e + counter_maxLockout c"

definition counter_inv :: "counter \<Rightarrow> bool" where
  "counter_inv c \<longleftrightarrow>
     rule_ok (counter_rule c) \<and> counter_maxLockout c = Rule_Lockout (counter_rule c) * 8 \<and>
     0 < counter_maxKeys c \<and> int (length (counter_entries c)) \<le> counter_maxKeys c \<and>
     distinct (map fst (counter_entries c)) \<and> (\<forall>(k, e)\<in>set (counter_entries c). entry_inv c e)"

lemma rule_ok_bounds: "rule_ok r \<Longrightarrow> 8 \<le> Rule_Lockout r * 8 \<and> Rule_Lockout r * 8 < maxDuration"
  by (auto simp: rule_ok_def maxDuration_def)

lemma counter_inv_newCounter: "rule_ok r \<Longrightarrow> 0 < n \<Longrightarrow> counter_inv (newCounter r n)"
  using shl64_exact [of "Rule_Lockout r" 3]
  by (simp add: counter_inv_def newCounter_def backoffSteps_def rule_ok_def)

lemma stale_iff: "counter_inv c \<Longrightarrow> stale c e now \<longleftrightarrow> counter_maxLockout c \<le> now - entry_lastAt e"
  using rule_ok_bounds [of "counter_rule c"]
  by (simp add: stale_def counter_inv_def Sub_ge_iff minDuration_def)

lemma stale_mono: "counter_inv c \<Longrightarrow> stale c e now \<Longrightarrow> now \<le> t \<Longrightarrow> stale c e t"
  by (simp add: stale_iff)

lemma locked_not_stale: "counter_inv c \<Longrightarrow> entry_inv c e \<Longrightarrow> now < entry_until e \<Longrightarrow> \<not> stale c e now"
  by (auto simp: stale_iff entry_inv_def)

lemma lookup_inv: "counter_inv c \<Longrightarrow> map_of (counter_entries c) k = Some e \<Longrightarrow> entry_inv c e"
  by (auto simp: counter_inv_def dest: map_of_SomeD)

text \<open>The cooldowns: 1, 2, 4 and 8 times the first one.\<close>

lemma lockoutFor_ladder:
  assumes "rule_ok (counter_rule c)" "1 \<le> n"
  shows "lockoutFor c n = Rule_Lockout (counter_rule c) * 2 ^ min (nat (n - 1)) backoffSteps"
proof -
  have "Rule_Lockout (counter_rule c) * 2 ^ min (nat (n - 1)) 3 \<le> Rule_Lockout (counter_rule c) * 2 ^ 3"
    using assms by (intro mult_left_mono power_increasing) (auto simp: rule_ok_def)
  also have "\<dots> < 2 ^ 63"
    using assms by (simp add: rule_ok_def)
  finally have "Rule_Lockout (counter_rule c) * 2 ^ min (nat (n - 1)) 3 < 2 ^ 63" .
  moreover have "nat ((if n > 4 then 4 else n) - 1) = min (nat (n - 1)) 3" by auto
  ultimately show ?thesis
    using assms by (simp add: lockoutFor_def backoffSteps_def Let_def shl64_exact rule_ok_def)
qed

lemma lockoutFor_bounds:
  assumes "counter_inv c" "1 \<le> n"
  shows "0 < lockoutFor c n" "lockoutFor c n \<le> counter_maxLockout c" "lockoutFor c n < maxDuration"
proof -
  have ok: "rule_ok (counter_rule c)" and pos: "0 < Rule_Lockout (counter_rule c)"
    using assms by (auto simp: counter_inv_def rule_ok_def)
  have "(2 :: int) ^ min (nat (n - 1)) backoffSteps \<le> 2 ^ 3"
    by (intro power_increasing) (auto simp: backoffSteps_def)
  then have "Rule_Lockout (counter_rule c) * 2 ^ min (nat (n - 1)) backoffSteps \<le> Rule_Lockout (counter_rule c) * 8"
    using pos by simp
  then show "lockoutFor c n \<le> counter_maxLockout c"
    using assms by (simp add: lockoutFor_ladder [OF ok] counter_inv_def)
  then show "lockoutFor c n < maxDuration"
    using rule_ok_bounds [OF ok] assms by (simp add: counter_inv_def)
  show "0 < lockoutFor c n"
    using pos assms by (simp add: lockoutFor_ladder [OF ok])
qed

text \<open>
  While the invariant holds eviction never matters to a lockout: what a key must wait is the time
  to the end of its lockout, whether or not the entry is stale.
\<close>

lemma retryAfter_lock:
  assumes "counter_inv c"
  shows "retryAfter c k now =
    (if k = [] then 0
     else case map_of (counter_entries c) k of
            Some e \<Rightarrow> if now < entry_until e then Sub (entry_until e) now else 0
          | None \<Rightarrow> 0)"
  using locked_not_stale [OF assms] lookup_inv [OF assms]
  by (auto simp: retryAfter_def Before_def split: option.splits)

lemma retryAfter_pos:
  "counter_inv c \<Longrightarrow> 0 < retryAfter c k now \<longleftrightarrow>
     k \<noteq> [] \<and> (\<exists>e. map_of (counter_entries c) k = Some e \<and> now < entry_until e)"
  by (auto simp: retryAfter_lock Sub_pos_iff split: option.splits)

section \<open>Every operation keeps the invariant and every running lockout\<close>

lemma sweep_simps [simp]:
  "counter_rule (sweep c now) = counter_rule c"
  "counter_maxLockout (sweep c now) = counter_maxLockout c"
  "counter_maxKeys (sweep c now) = counter_maxKeys c"
  "counter_entries (sweep c now) = filter (\<lambda>(key, e). \<not> stale c e now) (counter_entries c)"
  by (simp_all add: sweep_def Let_def)

lemma counter_inv_filter:
  assumes "counter_inv c"
    and "counter_rule c' = counter_rule c" "counter_maxLockout c' = counter_maxLockout c"
      "counter_maxKeys c' = counter_maxKeys c" "counter_entries c' = filter P (counter_entries c)"
  shows "counter_inv c'"
proof -
  have "int (length (filter P (counter_entries c))) \<le> int (length (counter_entries c))" by simp
  also have "\<dots> \<le> counter_maxKeys c" using assms(1) by (simp add: counter_inv_def)
  finally show ?thesis
    using assms by (auto simp: counter_inv_def entry_inv_def distinct_keys_filter)
qed

lemma counter_inv_sweep: "counter_inv c \<Longrightarrow> counter_inv (sweep c now)"
  by (rule counter_inv_filter [where P = "\<lambda>(key, e). \<not> stale c e now"]) simp_all

lemma counter_inv_delete:
  "counter_inv c \<Longrightarrow> counter_inv (c\<lparr>counter_entries := AList.delete k (counter_entries c)\<rparr>)"
  by (rule counter_inv_filter [where P = "\<lambda>(k', e). k \<noteq> k'"]) (simp_all add: AList.delete_eq)

lemma counter_inv_put:
  assumes "counter_inv c" "entry_inv c e"
    and "k \<in> fst ` set (counter_entries c) \<or> int (length (counter_entries c)) < counter_maxKeys c"
  shows "counter_inv (put c k e)"
proof -
  have "set (AList.update k e (counter_entries c)) \<subseteq> insert (k, e) (set (counter_entries c))"
    by (rule set_update_subset)
  then have "\<forall>(k', e')\<in>set (AList.update k e (counter_entries c)). entry_inv c e'"
    using assms by (auto simp: counter_inv_def)
  then show ?thesis
    using assms by (auto simp: counter_inv_def put_def entry_inv_def length_update distinct_update)
qed

lemma put_simps [simp]:
  "counter_rule (put c k e) = counter_rule c" "counter_maxLockout (put c k e) = counter_maxLockout c"
  "counter_maxKeys (put c k e) = counter_maxKeys c"
  "map_of (counter_entries (put c k e)) k' = (if k' = k then Some e else map_of (counter_entries c) k')"
  by (simp_all add: put_def update_conv')

lemma sweep_lookup:
  assumes "counter_inv c"
  shows "map_of (counter_entries (sweep c now)) k =
    (case map_of (counter_entries c) k of None \<Rightarrow> None | Some e \<Rightarrow> if stale c e now then None else Some e)"
proof -
  have "distinct (map fst (counter_entries c))" using assms by (simp add: counter_inv_def)
  from map_of_filter_distinct [OF this, of "\<lambda>(key, e). \<not> stale c e now" k]
  show ?thesis by (simp split: option.splits)
qed

text \<open>
  What an operation at \<open>now\<close> may do to the table: keep the invariant and every lockout that is
  still running at \<open>now\<close>, for every key, and leave a key it is not about as it was or dropped.
\<close>

definition keeps :: "gotime \<Rightarrow> counter \<Rightarrow> counter \<Rightarrow> bool" where
  "keeps now c c' \<longleftrightarrow> counter_inv c' \<and> counter_rule c' = counter_rule c \<and>
     (\<forall>k e. map_of (counter_entries c) k = Some e \<longrightarrow> now < entry_until e \<longrightarrow>
        map_of (counter_entries c') k = Some e)"

lemma keeps_refl: "counter_inv c \<Longrightarrow> keeps now c c"
  by (simp add: keeps_def)

lemma keeps_trans: "keeps now c c' \<Longrightarrow> keeps now c' c'' \<Longrightarrow> keeps now c c''"
  by (auto simp: keeps_def)

lemma keeps_full: "counter_inv c \<Longrightarrow> keeps now c (c\<lparr>counter_full := b\<rparr>)"
  by (auto simp: keeps_def counter_inv_def entry_inv_def)

lemma keeps_sweep: "counter_inv c \<Longrightarrow> keeps now c (sweep c now)"
  using locked_not_stale lookup_inv
  by (auto simp: keeps_def counter_inv_sweep sweep_lookup split: option.splits simp del: sweep_simps(4))

lemma keeps_delete:
  "counter_inv c \<Longrightarrow> (\<And>e. map_of (counter_entries c) k = Some e \<Longrightarrow> \<not> now < entry_until e) \<Longrightarrow>
   keeps now c (c\<lparr>counter_entries := AList.delete k (counter_entries c)\<rparr>)"
  by (auto simp: keeps_def counter_inv_delete delete_conv')

lemma keeps_put:
  assumes "counter_inv c" "entry_inv c e'"
    and "k \<in> fst ` set (counter_entries c) \<or> int (length (counter_entries c)) < counter_maxKeys c"
    and "\<And>e. map_of (counter_entries c) k = Some e \<Longrightarrow> \<not> now < entry_until e"
  shows "keeps now c (put c k e')"
  using assms by (auto simp: keeps_def counter_inv_put)

definition fresh :: "gotime \<Rightarrow> entry" where
  "fresh now = \<lparr>entry_failures = 0, entry_lockouts = 0, entry_lastAt = now, entry_until = 0\<rparr>"

text \<open>An entry admitted now is fresh; a clock reading is never negative.\<close>

lemma entry_inv_fresh: "counter_inv c \<Longrightarrow> 0 \<le> now \<Longrightarrow> entry_inv c (fresh now)"
  using rule_ok_bounds [of "counter_rule c"]
  by (auto simp: entry_inv_def fresh_def counter_inv_def rule_ok_def)

lemma admit_put:
  assumes "counter_inv c"
  shows "\<exists>c1. keeps now c c1 \<and> (map_of (counter_entries c) k = None \<longrightarrow> map_of (counter_entries c1) k = None) \<and>
     (admit c k now = (None, c1) \<and> counter_maxKeys c1 \<le> int (length (counter_entries c1)) \<or>
      admit c k now = (Some (fresh now), put c1 k (fresh now)) \<and>
      int (length (counter_entries c1)) < counter_maxKeys c1)"
proof -
  obtain c1 where c1_def: "c1 = (if int (length (counter_entries c)) \<ge> counter_maxKeys c \<and> \<not> counter_full c
                then (let c2 = sweep c now in
                      if int (length (counter_entries c2)) \<ge> counter_maxKeys c2
                      then c2\<lparr>counter_full := True\<rparr> else c2)
                else c)"
    by blast
  have "keeps now c c1"
    using assms keeps_trans [OF keeps_sweep keeps_full] counter_inv_sweep
    by (auto simp: c1_def Let_def keeps_refl keeps_sweep)
  moreover have "map_of (counter_entries c) k = None \<Longrightarrow> map_of (counter_entries c1) k = None"
    using sweep_lookup [OF assms] by (simp add: c1_def Let_def del: sweep_simps)
  moreover have "admit c k now = (if int (length (counter_entries c1)) \<ge> counter_maxKeys c1 then (None, c1)
      else (Some (fresh now), put c1 k (fresh now)))"
    unfolding admit_def c1_def [symmetric] by (simp add: Let_def fresh_def put_def)
  ultimately show ?thesis by (intro exI [of _ c1]) auto
qed

definition key_view :: "counter \<Rightarrow> string \<Rightarrow> gotime \<Rightarrow> entry option" where
  "key_view c k now =
     (case map_of (counter_entries c) k of
        Some e \<Rightarrow> if stale c e now then None else Some e
      | None \<Rightarrow> None)"

lemma admit_cases:
  assumes c: "counter_inv c" "0 \<le> now" "map_of (counter_entries c) k = None"
  obtains (none) c1 where "admit c k now = (None, c1)" "keeps now c c1"
      "counter_maxKeys c1 \<le> int (length (counter_entries c1))"
  | (admitted) c1 where "admit c k now = (Some (fresh now), c1)" "keeps now c c1"
      "map_of (counter_entries c1) k = Some (fresh now)"
proof -
  obtain c1 where c1: "keeps now c c1" "map_of (counter_entries c1) k = None"
    and "admit c k now = (None, c1) \<and> counter_maxKeys c1 \<le> int (length (counter_entries c1)) \<or>
      admit c k now = (Some (fresh now), put c1 k (fresh now)) \<and>
      int (length (counter_entries c1)) < counter_maxKeys c1"
    using admit_put [OF c(1)] c(3) by blast
  then consider "admit c k now = (None, c1)" "counter_maxKeys c1 \<le> int (length (counter_entries c1))"
    | "admit c k now = (Some (fresh now), put c1 k (fresh now))"
      "int (length (counter_entries c1)) < counter_maxKeys c1" by blast
  then show thesis
  proof cases
    case 1
    then show ?thesis using c1 none by blast
  next
    case 2
    have inv: "counter_inv c1" using c1 by (simp add: keeps_def)
    have "keeps now c1 (put c1 k (fresh now))"
      using inv entry_inv_fresh [OF inv c(2)] 2(2) c1(2) by (intro keeps_put) auto
    then show ?thesis
      using c1 2(1) admitted by (auto intro: keeps_trans)
  qed
qed

lemma find_entry_cases:
  assumes c: "counter_inv c" "0 \<le> now"
  obtains (full) c1 where "find_entry c k now = (None, c1)" "keeps now c c1" "key_view c k now = None"
      "counter_maxKeys c1 \<le> int (length (counter_entries c1))"
  | (found) c1 e where "find_entry c k now = (Some e, c1)" "keeps now c c1"
      "map_of (counter_entries c1) k = Some e"
      "e = (case key_view c k now of Some e' \<Rightarrow> e' | None \<Rightarrow> fresh now)"
proof (cases "map_of (counter_entries c) k")
  case None
  then have eq: "find_entry c k now = admit c k now" "key_view c k now = None"
    by (simp_all add: find_entry_def key_view_def)
  show thesis
  proof (cases rule: admit_cases [OF c None, case_names none admitted])
    case (none c1)
    then show thesis using full [of c1] eq by simp
  next
    case (admitted c1)
    then show thesis using found [of "fresh now" c1] eq by simp
  qed
next
  case (Some e)
  show thesis
  proof (cases "stale c e now")
    case False
    show thesis
      by (rule found [of e c])
        (use Some False keeps_refl [OF c(1)] in \<open>simp_all add: find_entry_def key_view_def\<close>)
  next
    case True
    let ?d = "c\<lparr>counter_entries := AList.delete k (counter_entries c)\<rparr>"
    have d: "keeps now c ?d"
      using Some True locked_not_stale [OF c(1)] lookup_inv [OF c(1)] by (intro keeps_delete [OF c(1)]) auto
    have none: "map_of (counter_entries ?d) k = None"
      by (simp add: delete_conv')
    have eq: "find_entry c k now = admit ?d k now" "key_view c k now = None"
      using Some True by (simp_all add: find_entry_def key_view_def)
    show thesis
    proof (cases rule: admit_cases [OF counter_inv_delete [OF c(1)] c(2) none, case_names none admitted])
      case (none c1)
      then show thesis using full [of c1] eq keeps_trans [OF d] by simp
    next
      case (admitted c1)
      then show thesis using found [of "fresh now" c1] eq keeps_trans [OF d] by simp
    qed
  qed
qed

lemma periodic_sweep_keeps: "counter_inv c \<Longrightarrow> keeps now c (periodic_sweep c now)"
  by (simp add: periodic_sweep_def keeps_sweep keeps_refl)

lemma periodic_sweep_view: "counter_inv c \<Longrightarrow> key_view (periodic_sweep c now) k now = key_view c k now"
  by (auto simp: periodic_sweep_def key_view_def sweep_lookup stale_def split: option.splits
      simp del: sweep_simps(4))

text \<open>One failure seen from the key alone: the wait it starts and the state it leaves.\<close>

definition fail_key :: "counter \<Rightarrow> gotime \<Rightarrow> entry \<Rightarrow> duration \<times> entry" where
  "fail_key c now e =
     (if now < entry_until e then (0, e)
      else if entry_failures e + 1 < Rule_Failures (counter_rule c) then
        (0, e\<lparr>entry_failures := entry_failures e + 1, entry_lastAt := now\<rparr>)
      else
        (lockoutFor c (entry_lockouts e + 1),
         \<lparr>entry_failures = 0, entry_lockouts = entry_lockouts e + 1, entry_lastAt = now,
          entry_until = now + lockoutFor c (entry_lockouts e + 1)\<rparr>))"

lemma fail_entry_key:
  assumes c: "counter_inv c" and e: "map_of (counter_entries c) k = Some e"
  shows "fst (fail_entry c k now e) = fst (fail_key c now e)"
    and "map_of (counter_entries (snd (fail_entry c k now e))) k = Some (snd (fail_key c now e))"
    and "keeps now c (snd (fail_entry c k now e))"
proof -
  have inv: "entry_inv c e" using c e by (rule lookup_inv)
  then have n: "1 \<le> entry_lockouts e + 1" by (simp add: entry_inv_def)
  note bounds = lockoutFor_bounds [OF c n]
  have key: "k \<in> fst ` set (counter_entries c)" using e by (rule map_of_in_keys)
  have sub: "Sub (now + lockoutFor c (entry_lockouts e + 1)) now = lockoutFor c (entry_lockouts e + 1)"
    using bounds by (intro trans [OF Sub_exact]) (auto simp: minDuration_def)
  show "fst (fail_entry c k now e) = fst (fail_key c now e)"
    using sub by (simp add: fail_entry_def fail_key_def Before_def Add_def Let_def)
  show "map_of (counter_entries (snd (fail_entry c k now e))) k = Some (snd (fail_key c now e))"
    using e by (simp add: fail_entry_def fail_key_def Before_def Add_def Let_def)
  show "keeps now c (snd (fail_entry c k now e))"
  proof (cases "now < entry_until e")
    case True
    then show ?thesis using c by (simp add: fail_entry_def Before_def keeps_refl)
  next
    case False
    have "entry_inv c (snd (fail_key c now e))"
      using False inv bounds c
      by (auto simp: fail_key_def entry_inv_def counter_inv_def rule_ok_def)
    then have "keeps now c (put c k (snd (fail_key c now e)))"
      using c key e False by (intro keeps_put) auto
    moreover have "snd (fail_entry c k now e) = put c k (snd (fail_key c now e))"
      using False by (cases e) (simp add: fail_entry_def fail_key_def Before_def Add_def Let_def)
    ultimately show ?thesis by simp
  qed
qed

lemma fail_key_rule: "counter_rule c' = counter_rule c \<Longrightarrow> fail_key c' now e = fail_key c now e"
  by (simp add: fail_key_def lockoutFor_def)

definition tracked :: "counter \<Rightarrow> string \<Rightarrow> gotime \<Rightarrow> entry" where
  "tracked c k now = (case key_view c k now of Some e \<Rightarrow> e | None \<Rightarrow> fresh now)"

lemma fail_cases:
  assumes c: "counter_inv c" "0 \<le> now" "k \<noteq> []"
  obtains (full) c1 where "fail c k now = (0, c1)" "keeps now c c1" "key_view c k now = None"
      "counter_maxKeys c1 \<le> int (length (counter_entries c1))"
  | (counted) c1 where "fail c k now = (fst (fail_key c now (tracked c k now)), c1)" "keeps now c c1"
      "map_of (counter_entries c1) k = Some (snd (fail_key c now (tracked c k now)))"
proof -
  let ?s = "periodic_sweep c now"
  have s: "keeps now c ?s" using c(1) by (rule periodic_sweep_keeps)
  then have inv: "counter_inv ?s" by (simp add: keeps_def)
  note view = periodic_sweep_view [OF c(1), of now k]
  show thesis
  proof (cases rule: find_entry_cases [OF inv c(2), of k, case_names full found])
    case (full c1)
    then show thesis
      using that(1) [of c1] c(3) view keeps_trans [OF s] by (simp add: fail_def)
  next
    case (found c1 e)
    have e: "e = tracked c k now" using found(4) view by (simp add: tracked_def)
    have c1: "counter_inv c1" "counter_rule c1 = counter_rule c"
      using found(2) s by (simp_all add: keeps_def)
    note step = fail_entry_key [OF c1(1) found(3), of now]
    have run: "fail c k now = fail_entry c1 k now e"
      using c(3) found(1) by (simp add: fail_def)
    show thesis
    proof (rule that(2))
      show "fail c k now = (fst (fail_key c now (tracked c k now)), snd (fail_entry c1 k now e))"
        using run step(1) fail_key_rule [OF c1(2)] e by (simp add: prod_eq_iff)
      show "keeps now c (snd (fail_entry c1 k now e))"
        using s found(2) step(3) by (blast intro: keeps_trans)
      show "map_of (counter_entries (snd (fail_entry c1 k now e))) k =
          Some (snd (fail_key c now (tracked c k now)))"
        using step(2) fail_key_rule [OF c1(2)] e by simp
    qed
  qed
qed

lemma fail_keeps: "counter_inv c \<Longrightarrow> 0 \<le> now \<Longrightarrow> keeps now c (snd (fail c k now))"
  by (cases "k = []") (simp add: fail_def keeps_refl, rule fail_cases, auto)

lemma succeed_keeps: "counter_inv c \<Longrightarrow> keeps now c (succeed c k now)"
  by (auto simp: succeed_def Before_def keeps_refl intro!: keeps_delete split: option.splits)

section \<open>The interface the limiter relies on\<close>

text \<open>The operations of a counter, as a history of failures and successes at instants.\<close>

datatype attempt_op = Fail_at string gotime | Succeed_at string gotime

fun op_time :: "attempt_op \<Rightarrow> gotime" where
  "op_time (Fail_at k t) = t"
| "op_time (Succeed_at k t) = t"

fun op_step :: "('c \<Rightarrow> string \<Rightarrow> gotime \<Rightarrow> duration \<times> 'c) \<Rightarrow> ('c \<Rightarrow> string \<Rightarrow> gotime \<Rightarrow> 'c) \<Rightarrow>
    'c \<Rightarrow> attempt_op \<Rightarrow> 'c" where
  "op_step fl su c (Fail_at k t) = snd (fl c k t)"
| "op_step fl su c (Succeed_at k t) = su c k t"

locale attempt_counter =
  fixes inv :: "'c \<Rightarrow> bool"
    and wait :: "'c \<Rightarrow> string \<Rightarrow> gotime \<Rightarrow> duration"
    and fl :: "'c \<Rightarrow> string \<Rightarrow> gotime \<Rightarrow> duration \<times> 'c"
    and su :: "'c \<Rightarrow> string \<Rightarrow> gotime \<Rightarrow> 'c"
  assumes fl_inv: "inv c \<Longrightarrow> 0 \<le> now \<Longrightarrow> inv (snd (fl c k now))"
    and su_inv: "inv c \<Longrightarrow> 0 \<le> now \<Longrightarrow> inv (su c k now)"
    and fl_lock: "inv c \<Longrightarrow> 0 \<le> now \<Longrightarrow> now \<le> t \<Longrightarrow> 0 < wait c k' t \<Longrightarrow>
      wait (snd (fl c k now)) k' t = wait c k' t"
    and su_lock: "inv c \<Longrightarrow> 0 \<le> now \<Longrightarrow> now \<le> t \<Longrightarrow> 0 < wait c k' t \<Longrightarrow>
      wait (su c k now) k' t = wait c k' t"
    and fl_wait: "inv c \<Longrightarrow> 0 \<le> now \<Longrightarrow> 0 < fst (fl c k now) \<Longrightarrow>
      wait (snd (fl c k now)) k now = fst (fl c k now) \<and> fst (fl c k now) < maxDuration"
    and wait_runs: "inv c \<Longrightarrow> wait c k t < maxDuration \<Longrightarrow> t \<le> t' \<Longrightarrow> t' < t + wait c k t \<Longrightarrow>
      wait c k t' = wait c k t - (t' - t)"
begin

lemma step_inv: "inv c \<Longrightarrow> 0 \<le> op_time op \<Longrightarrow> inv (op_step fl su c op)"
  by (cases op) (simp_all add: fl_inv su_inv)

lemma step_lock:
  "inv c \<Longrightarrow> 0 \<le> op_time op \<Longrightarrow> op_time op \<le> t \<Longrightarrow> 0 < wait c k t \<Longrightarrow>
   wait (op_step fl su c op) k t = wait c k t"
  by (cases op) (simp_all add: fl_lock su_lock)

lemma run_lock:
  "inv c \<Longrightarrow> 0 < wait c k t \<Longrightarrow> \<forall>op\<in>set ops. 0 \<le> op_time op \<and> op_time op \<le> t \<Longrightarrow>
   wait (foldl (op_step fl su) c ops) k t = wait c k t"
  by (induction ops arbitrary: c) (simp_all add: step_inv step_lock)

lemma lockout_runs_out:
  assumes "inv c" "0 \<le> now" "0 < fst (fl c k now)" "now \<le> t" "t < now + fst (fl c k now)"
    and "\<forall>op\<in>set ops. 0 \<le> op_time op \<and> op_time op \<le> t"
  shows "wait (foldl (op_step fl su) (snd (fl c k now)) ops) k t = fst (fl c k now) - (t - now)"
proof -
  let ?c = "snd (fl c k now)"
  have inv: "inv ?c" using assms by (simp add: fl_inv)
  have now: "wait ?c k now = fst (fl c k now)" "fst (fl c k now) < maxDuration"
    using assms fl_wait by auto
  then have "wait ?c k t = fst (fl c k now) - (t - now)"
    using wait_runs [OF inv, of k now t] assms by simp
  moreover from this have "0 < wait ?c k t" using assms by simp
  ultimately show ?thesis using run_lock [OF inv, of k t ops] assms by simp
qed

end

lemma keeps_wait:
  assumes "counter_inv c" "keeps now c c'" "now \<le> t" "0 < retryAfter c k t"
  shows "retryAfter c' k t = retryAfter c k t"
proof -
  obtain e where e: "k \<noteq> []" "map_of (counter_entries c) k = Some e" "t < entry_until e"
    using assms retryAfter_pos by blast
  then have "map_of (counter_entries c') k = Some e" "counter_inv c'"
    using assms by (auto simp: keeps_def)
  with e assms(1) show ?thesis by (simp add: retryAfter_lock)
qed

lemma fail_wait:
  assumes c: "counter_inv c" "0 \<le> now" "0 < fst (fail c k now)"
  shows "retryAfter (snd (fail c k now)) k now = fst (fail c k now) \<and> fst (fail c k now) < maxDuration"
proof -
  have k: "k \<noteq> []" using c(3) by (auto simp: fail_def)
  show ?thesis
  proof (cases rule: fail_cases [OF c(1,2) k, case_names full counted])
    case (full c1)
    with c(3) show ?thesis by simp
  next
    case (counted c1)
    let ?e = "tracked c k now"
    have "entry_lockouts ?e \<ge> 0"
      using lookup_inv [OF c(1), of k]
      by (auto simp: tracked_def key_view_def fresh_def entry_inv_def split: option.splits)
    then have b: "0 < lockoutFor c (entry_lockouts ?e + 1)" "lockoutFor c (entry_lockouts ?e + 1) < maxDuration"
      using lockoutFor_bounds [OF c(1), of "entry_lockouts ?e + 1"] by simp_all
    have w: "fst (fail_key c now ?e) = lockoutFor c (entry_lockouts ?e + 1)"
      "entry_until (snd (fail_key c now ?e)) = now + lockoutFor c (entry_lockouts ?e + 1)"
      using c(3) counted(1) by (auto simp: fail_key_def split: if_splits)
    have "counter_inv c1" using counted(2) by (simp add: keeps_def)
    moreover have "Sub (now + lockoutFor c (entry_lockouts ?e + 1)) now = lockoutFor c (entry_lockouts ?e + 1)"
      using b by (intro trans [OF Sub_exact]) (auto simp: minDuration_def)
    ultimately show ?thesis
      using counted(1,3) w b k by (simp add: retryAfter_lock)
  qed
qed

lemma wait_runs_down:
  assumes "counter_inv c" "retryAfter c k t < maxDuration" "t \<le> t'" "t' < t + retryAfter c k t"
  shows "retryAfter c k t' = retryAfter c k t - (t' - t)"
proof -
  obtain e where e: "k \<noteq> []" "map_of (counter_entries c) k = Some e" "t < entry_until e"
    using assms retryAfter_pos [of c k t] by auto
  then have "retryAfter c k t = entry_until e - t"
    using assms by (auto simp: retryAfter_lock Sub_def minDuration_def min_def)
  then show ?thesis
    using e assms Sub_exact [of "entry_until e" t']
    by (simp add: retryAfter_lock minDuration_def)
qed

interpretation attempts: attempt_counter counter_inv retryAfter fail succeed
proof
  show "counter_inv (snd (fail c k now))" if "counter_inv c" "0 \<le> now" for c k now
    using fail_keeps [OF that] by (simp add: keeps_def)
  show "counter_inv (succeed c k now)" if "counter_inv c" "0 \<le> now" for c k now
    using succeed_keeps [OF that(1)] by (simp add: keeps_def)
  show "retryAfter (snd (fail c k now)) k' t = retryAfter c k' t"
    if "counter_inv c" "0 \<le> now" "now \<le> t" "0 < retryAfter c k' t" for c k k' now t
    using that fail_keeps keeps_wait by blast
  show "retryAfter (succeed c k now) k' t = retryAfter c k' t"
    if "counter_inv c" "0 \<le> now" "now \<le> t" "0 < retryAfter c k' t" for c k k' now t
    using that succeed_keeps keeps_wait by blast
qed (rule fail_wait, assumption+, rule wait_runs_down, assumption+)

section \<open>What the throttle promises\<close>

text \<open>
  C14. No one can end a lockout early. Once a failure at \<open>now\<close> has locked a key, then whatever
  failures and successes follow, on this key or any other and however many entries they push
  through the table, the key stays refused at every instant before the lockout's end, and the
  wait reported is exactly the time that is left.
\<close>

theorem lockout_holds:
  assumes "counter_inv c" "0 \<le> now" "0 < fst (fail c k now)"
    and "now \<le> t" "t < now + fst (fail c k now)"
    and "\<forall>op\<in>set ops. 0 \<le> op_time op \<and> op_time op \<le> t"
  shows "retryAfter (foldl (op_step fail succeed) (snd (fail c k now)) ops) k t =
     now + fst (fail c k now) - t"
  using attempts.lockout_runs_out [OF assms] by simp

definition sample_rule :: throttle_Rule where
  "sample_rule = \<lparr>Rule_Failures = 1, Rule_Lockout = 60\<rparr>"

lemma sample_inv: "counter_inv (newCounter sample_rule 2)"
  by (rule counter_inv_newCounter) (simp_all add: sample_rule_def rule_ok_def)

theorem lockout_holds_witness:
  "retryAfter (foldl (op_step fail succeed) (snd (fail (newCounter sample_rule 2) ''a'' 100))
     [Fail_at ''b'' 110, Succeed_at ''a'' 120, Fail_at ''c'' 130]) ''a'' 140 = 20"
proof -
  have w: "fst (fail (newCounter sample_rule 2) ''a'' 100) = 60"
    by code_simp
  show ?thesis
    using lockout_holds [OF sample_inv, of 100 "''a''" 140
        "[Fail_at ''b'' 110, Succeed_at ''a'' 120, Fail_at ''c'' 130]"]
    unfolding w by simp
qed

text \<open>
  One failure does to its own key what the single-key automaton says (ignored while locked,
  counted below the threshold, a doubled lockout at it, a fresh start for an entry gone stale)
  or, for a key not yet tracked and only with the table at its ceiling, nothing. It shortens no
  lockout of any other key, and the table stays within its ceiling.
\<close>

theorem fail_refines_key:
  assumes c: "counter_inv c" "0 \<le> now" "k \<noteq> []"
  shows "case fail c k now of (w, c') \<Rightarrow>
     (w = fst (fail_key c now (tracked c k now)) \<and>
      map_of (counter_entries c') k = Some (snd (fail_key c now (tracked c k now))) \<or>
      w = 0 \<and> key_view c k now = None \<and> int (length (counter_entries c')) = counter_maxKeys c') \<and>
     counter_inv c' \<and> int (length (counter_entries c')) \<le> counter_maxKeys c' \<and>
     (\<forall>k' t. now \<le> t \<longrightarrow> 0 < retryAfter c k' t \<longrightarrow> retryAfter c' k' t = retryAfter c k' t)"
proof -
  obtain w c' where f: "fail c k now = (w, c')" by fastforce
  have keeps: "keeps now c c'" using fail_keeps [OF c(1,2), of k] f by simp
  then have inv: "counter_inv c'" by (simp add: keeps_def)
  then have len: "int (length (counter_entries c')) \<le> counter_maxKeys c'" by (simp add: counter_inv_def)
  have "w = fst (fail_key c now (tracked c k now)) \<and>
      map_of (counter_entries c') k = Some (snd (fail_key c now (tracked c k now))) \<or>
      w = 0 \<and> key_view c k now = None \<and> int (length (counter_entries c')) = counter_maxKeys c'"
    by (rule fail_cases [OF c]) (use f len in auto)
  then show ?thesis
    using f inv len keeps_wait [OF c(1) keeps] by auto
qed

theorem fail_refines_key_witness:
  "fst (fail (newCounter sample_rule 2) ''a'' 100) = 60 \<or>
   int (length (counter_entries (snd (fail (newCounter sample_rule 2) ''a'' 100)))) = 2"
proof -
  have "fst (fail_key (newCounter sample_rule 2) 100 (tracked (newCounter sample_rule 2) ''a'' 100)) = 60"
    by code_simp
  moreover have "counter_maxKeys (snd (fail (newCounter sample_rule 2) ''a'' 100)) = 2"
    by code_simp
  ultimately show ?thesis
    using fail_refines_key [OF sample_inv, of 100 "''a''"] by (auto split: prod.splits)
qed

text \<open>A run of failures of one key, with the waits they report.\<close>

fun fail_run :: "counter \<Rightarrow> string \<Rightarrow> gotime list \<Rightarrow> duration list \<times> counter" where
  "fail_run c k [] = ([], c)"
| "fail_run c k (t # ts) =
     (let (w, c1) = fail c k t; (ws, c2) = fail_run c1 k ts in (w # ws, c2))"

lemma fail_tracked:
  assumes c: "counter_inv c" "0 \<le> now" "k \<noteq> []" and e: "key_view c k now = Some e"
  obtains c1 where "fail c k now = (fst (fail_key c now e), c1)" "keeps now c c1"
    "map_of (counter_entries c1) k = Some (snd (fail_key c now e))"
  by (rule fail_cases [OF c]) (use e in \<open>auto simp: tracked_def\<close>)

lemma counting_run:
  assumes "counter_inv c" "k \<noteq> []" "map_of (counter_entries c) k = Some e"
    and "entry_failures e + int (length ts) + 1 = Rule_Failures (counter_rule c)"
    and "entry_until e \<le> t0" "0 \<le> t0" "t0 \<le> entry_lastAt e"
    and "\<forall>t\<in>set (ts @ [t']). t0 \<le> t \<and> t < t0 + counter_maxLockout c"
  shows "fst (fail_run c k (ts @ [t'])) =
     replicate (length ts) 0 @ [lockoutFor c (entry_lockouts e + 1)]"
  using assms
proof (induction ts arbitrary: c e)
  case Nil
  have "key_view c k t' = Some e"
    using Nil.prems by (auto simp: key_view_def stale_iff)
  moreover have "0 \<le> t'" using Nil.prems by auto
  ultimately obtain c1 where "fail c k t' = (fst (fail_key c t' e), c1)"
    using Nil.prems fail_tracked by metis
  then show ?case using Nil.prems by (auto simp: fail_key_def)
next
  case (Cons t ts)
  have view: "key_view c k t = Some e"
    using Cons.prems by (auto simp: key_view_def stale_iff)
  have t: "0 \<le> t" "t0 \<le> t" using Cons.prems by auto
  let ?e = "e\<lparr>entry_failures := entry_failures e + 1, entry_lastAt := t\<rparr>"
  have step: "fail_key c t e = (0, ?e)"
    using Cons.prems t by (auto simp: fail_key_def)
  obtain c1 where c1: "fail c k t = (0, c1)" "keeps t c c1" "map_of (counter_entries c1) k = Some ?e"
    using fail_tracked [OF Cons.prems(1) t(1) Cons.prems(2) view] step by auto
  have rule: "counter_inv c1" "counter_rule c1 = counter_rule c"
    "counter_maxLockout c1 = counter_maxLockout c"
    using c1(2) Cons.prems(1) by (auto simp: keeps_def counter_inv_def)
  have "fst (fail_run c1 k (ts @ [t'])) =
      replicate (length ts) 0 @ [lockoutFor c1 (entry_lockouts ?e + 1)]"
    using Cons.prems t rule c1(3) by (intro Cons.IH) auto
  moreover have "lockoutFor c1 n = lockoutFor c n" for n
    using rule by (simp add: lockoutFor_def)
  ultimately show ?case using c1(1) by (simp add: split_beta)
qed

text \<open>
  The threshold and the ladder. A tracked key that is not locked and has no failure counted
  takes exactly \<open>Failures\<close> further failures within one window to lock: all but the last report
  no wait, and the last one locks for the first cooldown times 1, 2, 4 and from then on 8,
  according to how often the key was locked before.
\<close>

theorem lockout_threshold:
  assumes "counter_inv c" "k \<noteq> []" "map_of (counter_entries c) k = Some e" "entry_failures e = 0"
    and "Rule_Failures (counter_rule c) = int (length ts) + 1"
    and "entry_until e \<le> t0" "0 \<le> t0" "t0 \<le> entry_lastAt e"
    and "\<forall>t\<in>set (ts @ [t']). t0 \<le> t \<and> t < t0 + counter_maxLockout c"
  shows "fst (fail_run c k (ts @ [t'])) = replicate (length ts) 0 @
     [Rule_Lockout (counter_rule c) * 2 ^ min (nat (entry_lockouts e)) 3]"
proof -
  have "1 \<le> entry_lockouts e + 1" "rule_ok (counter_rule c)"
    using lookup_inv [OF assms(1,3)] assms(1) by (simp_all add: entry_inv_def counter_inv_def)
  then show ?thesis
    using counting_run [OF assms(1-3) _ assms(6-9)] assms(4,5)
    by (simp add: lockoutFor_ladder backoffSteps_def)
qed

definition sample_counter :: counter where
  "sample_counter = put (newCounter \<lparr>Rule_Failures = 3, Rule_Lockout = 60\<rparr> 2) ''a''
     \<lparr>entry_failures = 0, entry_lockouts = 2, entry_lastAt = 100, entry_until = 90\<rparr>"

lemma sample_counter_inv: "counter_inv sample_counter"
  unfolding sample_counter_def
  by (rule counter_inv_put, rule counter_inv_newCounter)
    (simp_all add: rule_ok_def entry_inv_def newCounter_def shl64_def wrap64_def backoffSteps_def)

theorem lockout_threshold_witness:
  "fst (fail_run sample_counter ''a'' [110, 120, 130]) = [0, 0, 240]"
  using lockout_threshold [OF sample_counter_inv, of "''a''" _ "[110, 120]" 100 130]
  by (simp add: sample_counter_def newCounter_def shl64_def wrap64_def backoffSteps_def
      put_def eval_nat_numeral)

section \<open>The limiter\<close>

definition limiter_inv :: "Limiter \<Rightarrow> bool" where
  "limiter_inv l \<longleftrightarrow> counter_inv (Limiter_account l) \<and> counter_inv (Limiter_source l)"

lemma limiter_inv_Failed:
  "limiter_inv l \<Longrightarrow> 0 \<le> nowA \<Longrightarrow> 0 \<le> nowS \<Longrightarrow> limiter_inv (snd (Failed l a nowA nowS))"
  by (simp add: limiter_inv_def Failed_def split_beta attempts.fl_inv)

lemma limiter_inv_Succeeded: "limiter_inv l \<Longrightarrow> 0 \<le> nowA \<Longrightarrow> limiter_inv (Succeeded l a nowA)"
  by (simp add: limiter_inv_def Succeeded_def attempts.su_inv)

lemma Check_None:
  "Check l a nowA nowS = None \<longleftrightarrow>
     \<not> 0 < retryAfter (Limiter_account l) (accountKey a) nowA \<and>
     \<not> 0 < retryAfter (Limiter_source l) (sourceKey a) nowS"
  by (simp add: Check_def Let_def)

lemma Check_Some: "Check l a nowA nowS = Some e \<Longrightarrow> \<exists>w > 0. e = RateLimited throttledDetail w"
  by (auto simp: Check_def Let_def split: if_splits)

text \<open>
  Every lockout that \<open>Failed\<close> reports is enforced: right after it, \<open>Check\<close> refuses the same
  attempt with the one fixed detail, whichever of the two keys closed; and the next success of
  that attempt does not lift the refusal.
\<close>

theorem Failed_then_Check:
  assumes inv: "limiter_inv l" and t: "0 \<le> nowA" "0 \<le> nowS"
    and locked: "fst (Failed l a nowA nowS) \<noteq> []"
  shows "\<exists>w > 0. Check (snd (Failed l a nowA nowS)) a nowA nowS = Some (RateLimited throttledDetail w) \<and>
     (\<exists>w' > 0. Check (Succeeded (snd (Failed l a nowA nowS)) a nowA) a nowA nowS =
        Some (RateLimited throttledDetail w'))"
proof -
  let ?l = "snd (Failed l a nowA nowS)"
  have inv': "limiter_inv ?l" using limiter_inv_Failed [OF inv t] .
  have parts: "Limiter_account ?l = snd (fail (Limiter_account l) (accountKey a) nowA)"
    "Limiter_source ?l = snd (fail (Limiter_source l) (sourceKey a) nowS)"
    by (simp_all add: Failed_def split_beta)
  have "0 < fst (fail (Limiter_account l) (accountKey a) nowA) \<or>
      0 < fst (fail (Limiter_source l) (sourceKey a) nowS)"
    using locked by (auto simp: Failed_def split_beta Let_def split: if_splits)
  then have wait: "0 < retryAfter (Limiter_account ?l) (accountKey a) nowA \<or>
      0 < retryAfter (Limiter_source ?l) (sourceKey a) nowS"
    using inv t parts attempts.fl_wait by (metis limiter_inv_def)
  then have "Check ?l a nowA nowS \<noteq> None" by (auto simp: Check_None)
  moreover have "Check (Succeeded ?l a nowA) a nowA nowS \<noteq> None"
    using wait attempts.su_lock [of "Limiter_account ?l" nowA nowA "accountKey a"] inv' t(1)
    by (auto simp: Check_None Succeeded_def limiter_inv_def)
  ultimately show ?thesis using Check_Some by blast
qed

definition sample_policy :: Policy where
  "sample_policy = \<lparr>Policy_Account = sample_rule, Policy_Source = sample_rule, Policy_MaxKeys = 2\<rparr>"

definition sample_attempt :: Attempt where
  "sample_attempt = \<lparr>Attempt_Account = '' Ann@x '', Attempt_Source = ''10.0.0.1''\<rparr>"

theorem Failed_then_Check_witness:
  "\<exists>w > 0. Check (snd (Failed \<lparr>Limiter_account = newCounter sample_rule 2,
       Limiter_source = newCounter sample_rule 2\<rparr> sample_attempt 100 100)) sample_attempt 100 100 =
     Some (RateLimited throttledDetail w)"
proof -
  let ?l = "\<lparr>Limiter_account = newCounter sample_rule 2, Limiter_source = newCounter sample_rule 2\<rparr>"
  have "limiter_inv ?l" by (simp add: limiter_inv_def sample_inv)
  moreover have "length (fst (Failed ?l sample_attempt 100 100)) = 2" by code_simp
  ultimately show ?thesis
    using Failed_then_Check [of ?l 100 100 sample_attempt] by fastforce
qed

text \<open>
  \<open>New\<close> accepts a policy exactly when both rules would limit something, names every rule
  that would not, and (for lockouts that stay within an int64 when doubled three times) starts a
  limiter that satisfies the invariant and refuses nobody.
\<close>

theorem New_spec:
  assumes "Rule_Lockout (Policy_Account p) * 8 < 2 ^ 63" "Rule_Lockout (Policy_Source p) * 8 < 2 ^ 63"
  shows "case New p of
     Inr l \<Rightarrow> rule_ok (Policy_Account p) \<and> rule_ok (Policy_Source p) \<and> limiter_inv l \<and>
       Check l a nowA nowS = None
   | Inl errs \<Rightarrow> \<not> (rule_ok (Policy_Account p) \<and> rule_ok (Policy_Source p)) \<and>
       set errs = set_option (validate ''account'' (Policy_Account p)) \<union>
                  set_option (validate ''source'' (Policy_Source p))"
proof -
  have valid: "validate n r = None \<longleftrightarrow> rule_ok r" if "Rule_Lockout r * 8 < 2 ^ 63" for n r
    using that by (auto simp: validate_def rule_ok_def)
  have "retryAfter (newCounter r n) k now = 0" for r n k now
    by (simp add: retryAfter_def newCounter_def)
  then show ?thesis
    using valid [OF assms(1), of "''account''"] valid [OF assms(2), of "''source''"]
    by (cases "validate ''account'' (Policy_Account p)"; cases "validate ''source'' (Policy_Source p)")
      (auto simp: New_def Let_def List.map_filter_simps limiter_inv_def defaultMaxKeys_def Check_None
        intro!: counter_inv_newCounter)
qed

theorem New_spec_witness: "\<exists>l. New sample_policy = Inr l \<and> limiter_inv l"
proof -
  have "\<not> isl (New sample_policy)" by code_simp
  then show ?thesis
    using New_spec [of sample_policy sample_attempt 0 0]
    by (cases "New sample_policy") (simp_all add: sample_policy_def sample_rule_def)
qed

end
