(* ===== verification/Activity.thy ===== *)
theory Activity
  imports Go_Base
begin

text \<open>
  The activity log's entries (internal/events/activity.go): the entry a mutation records, the
  filter that keeps secrets out of its delta, and the fields of the event a subscriber is
  sent. A delta is an association list from names to values, with the only value the filter
  looks into, a string, told apart from the others; the JSON encoding is left out.
\<close>

type_synonym Verb = string

abbreviation VerbSessionLogin :: Verb where "VerbSessionLogin \<equiv> ''session.login''"
abbreviation VerbSessionLogout :: Verb where "VerbSessionLogout \<equiv> ''session.logout''"
abbreviation VerbMFARecoveryUsed :: Verb where "VerbMFARecoveryUsed \<equiv> ''mfa.recovery_used''"
abbreviation VerbEngagementCreated :: Verb where "VerbEngagementCreated \<equiv> ''engagement.created''"
abbreviation VerbEngagementUpdated :: Verb where "VerbEngagementUpdated \<equiv> ''engagement.updated''"
abbreviation VerbEngagementStatusChanged :: Verb where "VerbEngagementStatusChanged \<equiv> ''engagement.status_changed''"
abbreviation VerbEngagementDeleted :: Verb where "VerbEngagementDeleted \<equiv> ''engagement.deleted''"
abbreviation VerbMemberAdded :: Verb where "VerbMemberAdded \<equiv> ''member.added''"
abbreviation VerbMemberRoleChanged :: Verb where "VerbMemberRoleChanged \<equiv> ''member.role_changed''"
abbreviation VerbMemberRemoved :: Verb where "VerbMemberRemoved \<equiv> ''member.removed''"
abbreviation VerbScenarioCreated :: Verb where "VerbScenarioCreated \<equiv> ''scenario.created''"
abbreviation VerbScenarioUpdated :: Verb where "VerbScenarioUpdated \<equiv> ''scenario.updated''"
abbreviation VerbScenarioReordered :: Verb where "VerbScenarioReordered \<equiv> ''scenario.reordered''"
abbreviation VerbStepReordered :: Verb where "VerbStepReordered \<equiv> ''step.reordered''"
abbreviation VerbStepCreated :: Verb where "VerbStepCreated \<equiv> ''step.created''"
abbreviation VerbStepUpdated :: Verb where "VerbStepUpdated \<equiv> ''step.updated''"
abbreviation VerbStepDeleted :: Verb where "VerbStepDeleted \<equiv> ''step.deleted''"
abbreviation VerbStepRevealed :: Verb where "VerbStepRevealed \<equiv> ''step.revealed''"
abbreviation VerbExecutionRedUpdated :: Verb where "VerbExecutionRedUpdated \<equiv> ''execution.red_updated''"
abbreviation VerbExecutionBlueUpdated :: Verb where "VerbExecutionBlueUpdated \<equiv> ''execution.blue_updated''"

abbreviation ObjectSession :: string where "ObjectSession \<equiv> ''session''"
abbreviation ObjectRecoveryCode :: string where "ObjectRecoveryCode \<equiv> ''recovery_code''"
abbreviation ObjectEngagement :: string where "ObjectEngagement \<equiv> ''engagement''"
abbreviation ObjectMember :: string where "ObjectMember \<equiv> ''member''"
abbreviation ObjectExecution :: string where "ObjectExecution \<equiv> ''execution''"
abbreviation ObjectEvidence :: string where "ObjectEvidence \<equiv> ''evidence''"
abbreviation ObjectScenario :: string where "ObjectScenario \<equiv> ''scenario''"
abbreviation ObjectStep :: string where "ObjectStep \<equiv> ''step''"
abbreviation ObjectComment :: string where "ObjectComment \<equiv> ''comment''"

datatype delta_value = DString string | DBool bool | DInt int | DNull | DList "string list" | DMap "(string \<times> delta_value) list"

record Entry =
  Entry_EngagementID :: string
  Entry_ActorID :: string
  Entry_Verb :: Verb
  Entry_ObjectType :: string
  Entry_ObjectID :: string
  Entry_ParentIDs :: "(string \<times> string) list"
  Entry_Delta :: "(string \<times> delta_value) list"

definition secretKey :: "string \<Rightarrow> bool" where
  "secretKey k \<longleftrightarrow>
     k \<in> {''password'', ''password_hash'', ''current_password'', ''new_password'',
          ''token'', ''token_hash'', ''secret'', ''totp_secret'', ''shared_secret'',
          ''recovery_code'', ''recovery_codes'', ''session_token'', ''code''}"

definition hasPrefix :: "string \<Rightarrow> string \<Rightarrow> bool" where
  "hasPrefix s prefix \<longleftrightarrow> length s \<ge> length prefix \<and> take (length prefix) s = prefix"

definition secretValue :: "string \<Rightarrow> bool" where
  "secretValue s \<longleftrightarrow> length s \<ge> 20 \<and> (hasPrefix s ''$argon2'' \<or> hasPrefix s ''bl_'')"

text \<open>A nil delta is the empty one: both record nothing.\<close>

fun Delta_loop :: "(string \<times> delta_value) list \<Rightarrow> (string \<times> delta_value) list" where
  "Delta_loop [] = []"
| "Delta_loop ((k, v) # rest) =
     (if secretKey k then Delta_loop rest
      else case v of
             DString s \<Rightarrow> if secretValue s then Delta_loop rest else (k, v) # Delta_loop rest
           | _ \<Rightarrow> (k, v) # Delta_loop rest)"

definition Delta :: "(string \<times> delta_value) list \<Rightarrow> (string \<times> delta_value) list" where
  "Delta fs = (if fs = [] then [] else Delta_loop fs)"

section \<open>The event a subscriber is sent\<close>

text \<open>A missing key of the parents map reads as the empty string.\<close>

definition stepIDForEntry :: "Entry \<Rightarrow> string" where
  "stepIDForEntry e =
     (if Entry_ObjectType e = ObjectStep then Entry_ObjectID e
      else if Entry_ObjectType e \<in> {ObjectExecution, ObjectEvidence, ObjectComment} then
        (case map_of (Entry_ParentIDs e) ''stepId'' of Some s \<Rightarrow> s | None \<Rightarrow> [])
      else [])"

text \<open>
  \<open>RevealLookup\<close> is an interface: whether a step is revealed, or an error. A log without one
  answers nothing.
\<close>

type_synonym 'e reveal_lookup = "string \<Rightarrow> 'e + bool"

definition lookupRevealed :: "'e reveal_lookup option \<Rightarrow> Entry \<Rightarrow> bool option" where
  "lookupRevealed reveal e =
     (case reveal of
        None \<Rightarrow> None
      | Some isRevealed \<Rightarrow>
          (let stepID = stepIDForEntry e in
           if stepID = [] then None
           else case isRevealed stepID of Inl err \<Rightarrow> None | Inr revealed \<Rightarrow> Some revealed))"

text \<open>The object of the event, built by assignment: a parent id may replace a field of the row.\<close>

definition buildEventData :: "Entry \<Rightarrow> bool option \<Rightarrow> (string \<times> delta_value) list" where
  "buildEventData e revealed =
     (let m = [(''engagementId'', DString (Entry_EngagementID e)), (''actorId'', DString (Entry_ActorID e)),
               (''verb'', DString (Entry_Verb e)), (''objectType'', DString (Entry_ObjectType e)),
               (''objectId'', DString (Entry_ObjectID e))];
          m = foldl (\<lambda>m (k, v). AList.update k (DString v) m) m (Entry_ParentIDs e)
      in case revealed of Some b \<Rightarrow> AList.update ''revealed'' (DBool b) m | None \<Rightarrow> m)"

section \<open>Lemmas\<close>

lemma Delta_loop_filter:
  "Delta_loop fs = filter (\<lambda>(k, v). \<not> secretKey k \<and> (case v of DString s \<Rightarrow> \<not> secretValue s | _ \<Rightarrow> True)) fs"
  by (induction fs rule: Delta_loop.induct) (auto split: delta_value.splits)

lemma Delta_filter:
  "Delta fs = filter (\<lambda>(k, v). \<not> secretKey k \<and> (case v of DString s \<Rightarrow> \<not> secretValue s | _ \<Rightarrow> True)) fs"
  by (simp add: Delta_def Delta_loop_filter)

text \<open>
  What \<open>Delta\<close> lets into the activity log carries no secret: no entry has a name on the secret
  list or a value that is a password hash or one of the server's own tokens; every other entry
  is kept in order, and filtering twice changes nothing.
\<close>

theorem Delta_no_secrets:
  "((k, v) \<in> set (Delta fs)) =
     ((k, v) \<in> set fs \<and> \<not> secretKey k \<and> v \<notin> DString ` {s. secretValue s}) \<and>
   Delta (Delta fs) = Delta fs"
  by (auto simp: Delta_filter split: delta_value.splits)

lemma bl_token_secret: "length s \<ge> 17 \<Longrightarrow> secretValue (''bl_'' @ s)"
  by (simp add: secretValue_def hasPrefix_def)

end
