(* ===== verification/Identity.thy ===== *)
theory Identity
  imports Apierr Authz Activity "HOL-Library.Char_ord" "HOL-Library.List_Lexorder"
begin

text \<open>
  The identity store (internal/store/identity: identity.go, sessions.go, totp.go,
  recoverycodes.go, mfachallenges.go, memberships.go). \<open>IDB\<close> is the part of the database these
  repositories use and the activity log they append to, one list of rows per table; a row is the Go struct the scan function builds,
  with None for a NULL timestamp (the zero time in Go). Every operation is one serialized
  transaction: it returns the answer and the database after it, and a database error rolls
  back to the database before it. The model's statements fail only as the schema makes them
  fail (a primary key or UNIQUE column already taken); driver failures are not modelled. Fresh
  identifiers and clock readings are arguments, and \<open>after\<close> hooks are functions on the database.
\<close>

section \<open>Rows\<close>

record User =
  User_ID :: string
  User_Email :: string
  User_DisplayName :: string
  User_PasswordHash :: string
  User_PlatformRole :: PlatformRole
  User_Status :: string
  User_MFAEnforced :: bool
  User_CreatedAt :: gotime
  User_UpdatedAt :: gotime
  User_LastLoginAt :: "gotime option"

abbreviation StatusInvited :: string where "StatusInvited \<equiv> ''invited''"
abbreviation StatusActive :: string where "StatusActive \<equiv> ''active''"
abbreviation StatusDisabled :: string where "StatusDisabled \<equiv> ''disabled''"

record Session =
  Session_ID :: string
  Session_UserID :: string
  Session_TokenHash :: string
  Session_CreatedAt :: gotime
  Session_LastSeenAt :: gotime
  Session_ExpiresAt :: gotime
  Session_RevokedAt :: "gotime option"
  Session_IP :: string
  Session_UserAgent :: string
  Session_MFASatisfied :: bool

record NewSession =
  NewSession_UserID :: string
  NewSession_TokenHash :: string
  NewSession_ExpiresAt :: gotime
  NewSession_IP :: string
  NewSession_UserAgent :: string
  NewSession_MFASatisfied :: bool

record TOTP =
  TOTP_UserID :: string
  TOTP_SecretEncrypted :: string
  TOTP_ConfirmedAt :: "gotime option"
  TOTP_LastUsedStep :: int
  TOTP_CreatedAt :: gotime

record NewTOTP =
  NewTOTP_UserID :: string
  NewTOTP_SecretEncrypted :: string

record RecoveryCode =
  RecoveryCode_ID :: string
  RecoveryCode_UserID :: string
  RecoveryCode_CodeHash :: string
  RecoveryCode_UsedAt :: "gotime option"
  RecoveryCode_CreatedAt :: gotime

record MFAChallenge =
  MFAChallenge_ID :: string
  MFAChallenge_UserID :: string
  MFAChallenge_TokenHash :: string
  MFAChallenge_CreatedAt :: gotime
  MFAChallenge_ExpiresAt :: gotime
  MFAChallenge_ConsumedAt :: "gotime option"

record NewMFAChallenge =
  NewMFAChallenge_UserID :: string
  NewMFAChallenge_TokenHash :: string
  NewMFAChallenge_ExpiresAt :: gotime

record Membership =
  Membership_EngagementID :: string
  Membership_UserID :: string
  Membership_Role :: EngagementRole
  Membership_AddedBy :: string
  Membership_AddedAt :: gotime

record NewMembership =
  NewMembership_EngagementID :: string
  NewMembership_UserID :: string
  NewMembership_Role :: EngagementRole
  NewMembership_AddedBy :: string

record Identity_row =
  Identity_ID :: string
  Identity_UserID :: string
  Identity_Provider :: string
  Identity_Subject :: string
  Identity_CreatedAt :: gotime

text \<open>A row of the platform settings (internal/store/settings).\<close>

record Setting =
  Setting_Key :: string
  Setting_Value :: string
  Setting_UpdatedAt :: gotime
  Setting_UpdatedBy :: string

record IDB =
  IDB_users :: "User list"
  IDB_sessions :: "Session list"
  IDB_totps :: "TOTP list"
  IDB_recovery :: "RecoveryCode list"
  IDB_challenges :: "MFAChallenge list"
  IDB_members :: "Membership list"
  IDB_activity :: "Entry list"
  IDB_identities :: "Identity_row list"
  IDB_settings :: "Setting list"

definition TOTP_Confirmed :: "TOTP \<Rightarrow> bool" where
  "TOTP_Confirmed t \<longleftrightarrow> TOTP_ConfirmedAt t \<noteq> None"

definition RecoveryCode_Used :: "RecoveryCode \<Rightarrow> bool" where
  "RecoveryCode_Used c \<longleftrightarrow> RecoveryCode_UsedAt c \<noteq> None"

section \<open>Shared helpers (identity.go)\<close>

definition Quote :: "string \<Rightarrow> string" where
  "Quote s = CHR 0x22 # s @ [CHR 0x22]"

definition toStorage :: "gotime \<Rightarrow> gotime" where
  "toStorage t = Truncate t Microsecond"

definition requireUser :: "IDB \<Rightarrow> string \<Rightarrow> error option" where
  "requireUser db userID =
     (if userID \<in> set (map User_ID (IDB_users db)) then None else Some (NotFound ''user'' userID))"

definition requireOneRow :: "nat \<Rightarrow> string \<Rightarrow> string \<Rightarrow> error option" where
  "requireOneRow affected res rid =
     (if affected = 0 then Some (NotFound res rid)
      else if affected > 1 then
        Some (ErrorsNew (''the write matched '' @ Itoa (int affected) @ '' '' @ res @ '' rows keyed on '' @
          Quote rid @ '', want at most 1''))
      else None)"

type_synonym 'd after = "string \<Rightarrow> 'd \<Rightarrow> error + 'd"

text \<open>The hooks in order, each told the entity just written; a nil hook is not in the list.\<close>

fun runAfter :: "string \<Rightarrow> 'd after list \<Rightarrow> 'd \<Rightarrow> error + 'd" where
  "runAfter entity [] db = Inr db"
| "runAfter entity (fn # after) db =
     (case fn entity db of Inl err \<Rightarrow> Inl err | Inr db' \<Rightarrow> runAfter entity after db')"

text \<open>A transaction: its error, wrapped, with the database as before, or its answer.\<close>

definition transact :: "string \<Rightarrow> error + ('a \<times> 'd) \<Rightarrow> 'd \<Rightarrow> (error + 'a) \<times> 'd" where
  "transact what body db =
     (case body of
        Inl err \<Rightarrow> (Inl (ErrorfW what err), db)
      | Inr (a, db') \<Rightarrow> (Inr a, db'))"

lemma transact_simps [simp]:
  "transact what (Inl err) db = (Inl (ErrorfW what err), db)"
  "transact what (Inr (a, db')) db = (Inr a, db')"
  by (simp_all add: transact_def)

section \<open>Sessions (sessions.go)\<close>

definition Sessions_Create :: "string \<Rightarrow> gotime \<Rightarrow> NewSession \<Rightarrow> IDB after list \<Rightarrow> IDB \<Rightarrow>
    (error + Session) \<times> IDB" where
  "Sessions_Create newID clock inp after db =
     (let at = toStorage clock;
          what = ''identity: create session for user '' @ Quote (NewSession_UserID inp) in
      case requireUser db (NewSession_UserID inp) of
        Some err \<Rightarrow> (Inl (ErrorfW what err), db)
      | None \<Rightarrow>
          if newID \<in> set (map Session_ID (IDB_sessions db)) \<or>
             NewSession_TokenHash inp \<in> set (map Session_TokenHash (IDB_sessions db))
          then (Inl (Conflict ''that session token is already in use''), db)
          else
            (let created = \<lparr>Session_ID = newID, Session_UserID = NewSession_UserID inp,
                   Session_TokenHash = NewSession_TokenHash inp, Session_CreatedAt = at,
                   Session_LastSeenAt = at, Session_ExpiresAt = toStorage (NewSession_ExpiresAt inp),
                   Session_RevokedAt = None, Session_IP = NewSession_IP inp,
                   Session_UserAgent = NewSession_UserAgent inp,
                   Session_MFASatisfied = NewSession_MFASatisfied inp\<rparr>;
                 db1 = db\<lparr>IDB_sessions := IDB_sessions db @ [created]\<rparr>
             in transact what
                  (case runAfter newID after db1 of Inl err \<Rightarrow> Inl err | Inr db2 \<Rightarrow> Inr (created, db2)) db))"

definition Sessions_ByTokenHash :: "string \<Rightarrow> IDB \<Rightarrow> error + Session" where
  "Sessions_ByTokenHash hash db =
     (case select1 (\<lambda>s. Session_TokenHash s = hash) (IDB_sessions db) of
        None \<Rightarrow> Inl (NotFound ''session'' ''(token hash)'')
      | Some s \<Rightarrow> Inr s)"

text \<open>ORDER BY id DESC.\<close>

definition Sessions_ListByUser :: "string \<Rightarrow> IDB \<Rightarrow> Session list" where
  "Sessions_ListByUser userID db =
     rev (sort_key Session_ID (filter (\<lambda>s. Session_UserID s = userID) (IDB_sessions db)))"

abbreviation live_row :: "string \<Rightarrow> Session \<Rightarrow> bool" where
  "live_row sid s \<equiv> Session_ID s = sid \<and> Session_RevokedAt s = None"

definition Sessions_Rotate :: "string \<Rightarrow> string \<Rightarrow> gotime \<Rightarrow> IDB \<Rightarrow> (error + Session) \<times> IDB" where
  "Sessions_Rotate sid tokenHash at db =
     (let what = ''identity: rotate session '' @ Quote sid;
          rows = update_where (live_row sid)
            (\<lambda>s. s\<lparr>Session_TokenHash := tokenHash, Session_LastSeenAt := toStorage at\<rparr>) (IDB_sessions db);
          affected = count_where (live_row sid) (IDB_sessions db)
      in if affected > 0 \<and> (\<exists>s\<in>set (IDB_sessions db). Session_ID s \<noteq> sid \<and> Session_TokenHash s = tokenHash)
         then (Inl (Conflict ''that session token is already in use''), db)
         else case requireOneRow affected ''session'' sid of
                Some err \<Rightarrow> (Inl (ErrorfW what err), db)
              | None \<Rightarrow>
                  (case select1 (\<lambda>s. Session_ID s = sid) rows of
                     None \<Rightarrow> (Inl (ErrorfW what SqlNoRows), db)
                   | Some rotated \<Rightarrow> (Inr rotated, db\<lparr>IDB_sessions := rows\<rparr>)))"

definition Sessions_SetMFASatisfied :: "string \<Rightarrow> IDB \<Rightarrow> error option \<times> IDB" where
  "Sessions_SetMFASatisfied sid db =
     (case requireOneRow (count_where (live_row sid) (IDB_sessions db)) ''session'' sid of
        Some err \<Rightarrow>
          (Some (ErrorfW (''identity: mark session '' @ Quote sid @ '' as having satisfied MFA'') err), db)
      | None \<Rightarrow>
          (None, db\<lparr>IDB_sessions :=
             update_where (live_row sid) (\<lambda>s. s\<lparr>Session_MFASatisfied := True\<rparr>) (IDB_sessions db)\<rparr>))"

definition Sessions_SetLastSeenAt :: "string \<Rightarrow> gotime \<Rightarrow> IDB \<Rightarrow> error option \<times> IDB" where
  "Sessions_SetLastSeenAt sid at db =
     (case requireOneRow (count_where (\<lambda>s. Session_ID s = sid) (IDB_sessions db)) ''session'' sid of
        Some err \<Rightarrow> (Some (ErrorfW (''identity: touch session '' @ Quote sid) err), db)
      | None \<Rightarrow>
          (None, db\<lparr>IDB_sessions :=
             update_where (\<lambda>s. Session_ID s = sid) (\<lambda>s. s\<lparr>Session_LastSeenAt := toStorage at\<rparr>)
               (IDB_sessions db)\<rparr>))"

definition confirmSessionExists :: "string \<Rightarrow> IDB \<Rightarrow> error option" where
  "confirmSessionExists sid db =
     (if sid \<in> set (map Session_ID (IDB_sessions db)) then None else Some (NotFound ''session'' sid))"

definition Sessions_Revoke :: "string \<Rightarrow> gotime \<Rightarrow> IDB after list \<Rightarrow> IDB \<Rightarrow> error option \<times> IDB" where
  "Sessions_Revoke sid at after db =
     (let what = ''identity: revoke session '' @ Quote sid;
          affected = count_where (live_row sid) (IDB_sessions db);
          db1 = db\<lparr>IDB_sessions := update_where (live_row sid)
                    (\<lambda>s. s\<lparr>Session_RevokedAt := Some (toStorage at)\<rparr>) (IDB_sessions db)\<rparr>
      in if affected = 1
         then (case runAfter sid after db1 of
                 Inl err \<Rightarrow> (Some (ErrorfW what err), db)
               | Inr db2 \<Rightarrow> (None, db2))
         else (case confirmSessionExists sid db1 of
                 Some err \<Rightarrow> (Some (ErrorfW what err), db)
               | None \<Rightarrow> (None, db1)))"

definition Sessions_RevokeAllForUser :: "string \<Rightarrow> gotime \<Rightarrow> IDB \<Rightarrow> nat \<times> IDB" where
  "Sessions_RevokeAllForUser userID at db =
     (let sel = (\<lambda>s. Session_UserID s = userID \<and> Session_RevokedAt s = None) in
      (count_where sel (IDB_sessions db),
       db\<lparr>IDB_sessions := update_where sel (\<lambda>s. s\<lparr>Session_RevokedAt := Some (toStorage at)\<rparr>) (IDB_sessions db)\<rparr>))"

definition Sessions_RevokeOthersForUser :: "string \<Rightarrow> string \<Rightarrow> gotime \<Rightarrow> IDB \<Rightarrow> nat \<times> IDB" where
  "Sessions_RevokeOthersForUser userID keepID at db =
     (let sel = (\<lambda>s. Session_UserID s = userID \<and> Session_ID s \<noteq> keepID \<and> Session_RevokedAt s = None) in
      (count_where sel (IDB_sessions db),
       db\<lparr>IDB_sessions := update_where sel (\<lambda>s. s\<lparr>Session_RevokedAt := Some (toStorage at)\<rparr>) (IDB_sessions db)\<rparr>))"

definition Sessions_DeleteExpired :: "gotime \<Rightarrow> IDB \<Rightarrow> nat \<times> IDB" where
  "Sessions_DeleteExpired before db =
     (let sel = (\<lambda>s. Session_ExpiresAt s < toStorage before) in
      (count_where sel (IDB_sessions db), db\<lparr>IDB_sessions := delete_where sel (IDB_sessions db)\<rparr>))"

section \<open>Users (users.go)\<close>

definition Users_ByID :: "string \<Rightarrow> IDB \<Rightarrow> error + User" where
  "Users_ByID uid db =
     (case select1 (\<lambda>u. User_ID u = uid) (IDB_users db) of
        None \<Rightarrow> Inl (NotFound ''user'' uid)
      | Some u \<Rightarrow> Inr u)"

definition Users_SetLastLoginAt :: "string \<Rightarrow> gotime \<Rightarrow> IDB \<Rightarrow> error option \<times> IDB" where
  "Users_SetLastLoginAt uid at db =
     (case requireOneRow (count_where (\<lambda>u. User_ID u = uid) (IDB_users db)) ''user'' uid of
        Some err \<Rightarrow> (Some (ErrorfW (''identity: record login for user '' @ Quote uid) err), db)
      | None \<Rightarrow>
          (None, db\<lparr>IDB_users := update_where (\<lambda>u. User_ID u = uid)
             (\<lambda>u. u\<lparr>User_LastLoginAt := Some (toStorage at)\<rparr>) (IDB_users db)\<rparr>))"

section \<open>Pending second factors (mfachallenges.go)\<close>

definition MFAChallenges_Open :: "string \<Rightarrow> gotime \<Rightarrow> NewMFAChallenge \<Rightarrow> IDB \<Rightarrow>
    (error + MFAChallenge) \<times> IDB" where
  "MFAChallenges_Open newID clock inp db =
     (let at = toStorage clock;
          what = ''identity: open an MFA challenge for user '' @ Quote (NewMFAChallenge_UserID inp) in
      case requireUser db (NewMFAChallenge_UserID inp) of
        Some err \<Rightarrow> (Inl (ErrorfW what err), db)
      | None \<Rightarrow>
          (let rows = delete_where (\<lambda>c. MFAChallenge_UserID c = NewMFAChallenge_UserID inp) (IDB_challenges db);
               created = \<lparr>MFAChallenge_ID = newID, MFAChallenge_UserID = NewMFAChallenge_UserID inp,
                 MFAChallenge_TokenHash = NewMFAChallenge_TokenHash inp, MFAChallenge_CreatedAt = at,
                 MFAChallenge_ExpiresAt = toStorage (NewMFAChallenge_ExpiresAt inp),
                 MFAChallenge_ConsumedAt = None\<rparr>
           in if newID \<in> set (map MFAChallenge_ID rows) \<or>
                 NewMFAChallenge_TokenHash inp \<in> set (map MFAChallenge_TokenHash rows)
              then (Inl (Conflict ''that challenge token is already in use''), db)
              else (Inr created, db\<lparr>IDB_challenges := rows @ [created]\<rparr>)))"

definition MFAChallenges_ByTokenHash :: "string \<Rightarrow> IDB \<Rightarrow> error + MFAChallenge" where
  "MFAChallenges_ByTokenHash hash db =
     (case select1 (\<lambda>c. MFAChallenge_TokenHash c = hash) (IDB_challenges db) of
        None \<Rightarrow> Inl (NotFound ''MFA challenge'' ''(token hash)'')
      | Some c \<Rightarrow> Inr c)"

definition confirmMFAChallengeExists :: "string \<Rightarrow> IDB \<Rightarrow> error option" where
  "confirmMFAChallengeExists cid db =
     (if cid \<in> set (map MFAChallenge_ID (IDB_challenges db)) then None
      else Some (NotFound ''MFA challenge'' cid))"

definition MFAChallenges_Consume :: "string \<Rightarrow> gotime \<Rightarrow> IDB \<Rightarrow> (error + bool) \<times> IDB" where
  "MFAChallenges_Consume cid at db =
     (let what = ''identity: consume the MFA challenge '' @ Quote cid;
          sel = (\<lambda>c. MFAChallenge_ID c = cid \<and> MFAChallenge_ConsumedAt c = None);
          db1 = db\<lparr>IDB_challenges := update_where sel
                     (\<lambda>c. c\<lparr>MFAChallenge_ConsumedAt := Some (toStorage at)\<rparr>) (IDB_challenges db)\<rparr>
      in if count_where sel (IDB_challenges db) = 1 then (Inr True, db1)
         else case confirmMFAChallengeExists cid db1 of
                Some err \<Rightarrow> (Inl (ErrorfW what err), db)
              | None \<Rightarrow> (Inr False, db1))"

definition MFAChallenges_DeleteForUser :: "string \<Rightarrow> IDB \<Rightarrow> IDB" where
  "MFAChallenges_DeleteForUser userID db =
     db\<lparr>IDB_challenges := delete_where (\<lambda>c. MFAChallenge_UserID c = userID) (IDB_challenges db)\<rparr>"

section \<open>Authenticators (totp.go)\<close>

definition TOTPs_ByUserID :: "string \<Rightarrow> IDB \<Rightarrow> error + TOTP" where
  "TOTPs_ByUserID userID db =
     (case select1 (\<lambda>t. TOTP_UserID t = userID) (IDB_totps db) of
        None \<Rightarrow> Inl (NotFound ''authenticator enrolment'' userID)
      | Some t \<Rightarrow> Inr t)"

definition TOTPs_Enroll :: "gotime \<Rightarrow> NewTOTP \<Rightarrow> IDB \<Rightarrow> (error + TOTP) \<times> IDB" where
  "TOTPs_Enroll clock inp db =
     (let at = toStorage clock in
      case requireUser db (NewTOTP_UserID inp) of
        Some err \<Rightarrow>
          (Inl (ErrorfW (''identity: enrol an authenticator for user '' @ Quote (NewTOTP_UserID inp)) err), db)
      | None \<Rightarrow>
          (let created = \<lparr>TOTP_UserID = NewTOTP_UserID inp, TOTP_SecretEncrypted = NewTOTP_SecretEncrypted inp,
                 TOTP_ConfirmedAt = None, TOTP_LastUsedStep = 0, TOTP_CreatedAt = at\<rparr>
           in (Inr created,
               db\<lparr>IDB_totps := delete_where (\<lambda>t. TOTP_UserID t = NewTOTP_UserID inp) (IDB_totps db) @ [created]\<rparr>)))"

definition confirmTOTPExists :: "string \<Rightarrow> IDB \<Rightarrow> error option" where
  "confirmTOTPExists userID db =
     (if userID \<in> set (map TOTP_UserID (IDB_totps db)) then None
      else Some (NotFound ''authenticator enrolment'' userID))"

definition TOTPs_Accept :: "string \<Rightarrow> int \<Rightarrow> gotime \<Rightarrow> IDB \<Rightarrow> (error + bool) \<times> IDB" where
  "TOTPs_Accept userID step at db =
     (let sel = (\<lambda>t. TOTP_UserID t = userID \<and> TOTP_LastUsedStep t < step);
          db1 = db\<lparr>IDB_totps := update_where sel
                     (\<lambda>t. t\<lparr>TOTP_LastUsedStep := step,
                            TOTP_ConfirmedAt := (case TOTP_ConfirmedAt t of
                               Some c \<Rightarrow> Some c | None \<Rightarrow> Some (toStorage at))\<rparr>) (IDB_totps db)\<rparr>
      in if count_where sel (IDB_totps db) = 1 then (Inr True, db1)
         else case confirmTOTPExists userID db1 of
                Some err \<Rightarrow> (Inl (ErrorfW (''identity: accept a code for user '' @ Quote userID) err), db)
              | None \<Rightarrow> (Inr False, db1))"

definition TOTPs_Delete :: "string \<Rightarrow> IDB \<Rightarrow> IDB" where
  "TOTPs_Delete userID db =
     db\<lparr>IDB_totps := delete_where (\<lambda>t. TOTP_UserID t = userID) (IDB_totps db)\<rparr>"

section \<open>Recovery codes (recoverycodes.go)\<close>

text \<open>
  The identifiers are minted before the transaction, one per hash. The statements insert row by
  row, so the first duplicate of an existing hash or of an earlier one of the same set fails.
\<close>

definition RecoveryCodes_rows :: "string \<Rightarrow> gotime \<Rightarrow> string list \<Rightarrow> string list \<Rightarrow> RecoveryCode list" where
  "RecoveryCodes_rows userID at ids hashes =
     map (\<lambda>(rid, hash). \<lparr>RecoveryCode_ID = rid, RecoveryCode_UserID = userID, RecoveryCode_CodeHash = hash,
            RecoveryCode_UsedAt = None, RecoveryCode_CreatedAt = at\<rparr>) (zip ids hashes)"

definition RecoveryCodes_Replace :: "string list \<Rightarrow> gotime \<Rightarrow> string \<Rightarrow> string list \<Rightarrow> IDB \<Rightarrow>
    (error + RecoveryCode list) \<times> IDB" where
  "RecoveryCodes_Replace newIDs clock userID hashes db =
     (let at = toStorage clock;
          what = ''identity: replace the recovery codes of user '' @ Quote userID in
      case requireUser db userID of
        Some err \<Rightarrow> (Inl (ErrorfW what err), db)
      | None \<Rightarrow>
          (let kept = delete_where (\<lambda>c. RecoveryCode_UserID c = userID) (IDB_recovery db);
               rows = kept @ RecoveryCodes_rows userID at newIDs hashes
           in if \<not> (distinct (map RecoveryCode_CodeHash rows) \<and> distinct (map RecoveryCode_ID rows))
              then (Inl (Conflict ''that recovery code is already in use''), db)
              else (Inr (sort_key RecoveryCode_ID (filter (\<lambda>c. RecoveryCode_UserID c = userID) rows)),
                    db\<lparr>IDB_recovery := rows\<rparr>)))"

definition RecoveryCodes_Unused :: "string \<Rightarrow> IDB \<Rightarrow> RecoveryCode list" where
  "RecoveryCodes_Unused userID db =
     sort_key RecoveryCode_ID
       (filter (\<lambda>c. RecoveryCode_UserID c = userID \<and> RecoveryCode_UsedAt c = None) (IDB_recovery db))"

definition RecoveryCodes_CountUnused :: "string \<Rightarrow> IDB \<Rightarrow> nat" where
  "RecoveryCodes_CountUnused userID db =
     count_where (\<lambda>c. RecoveryCode_UserID c = userID \<and> RecoveryCode_UsedAt c = None) (IDB_recovery db)"

definition RecoveryCodes_Use :: "string \<Rightarrow> gotime \<Rightarrow> IDB \<Rightarrow> bool \<times> IDB" where
  "RecoveryCodes_Use rid at db =
     (let sel = (\<lambda>c. RecoveryCode_ID c = rid \<and> RecoveryCode_UsedAt c = None) in
      (count_where sel (IDB_recovery db) = 1,
       db\<lparr>IDB_recovery := update_where sel
            (\<lambda>c. c\<lparr>RecoveryCode_UsedAt := Some (toStorage at)\<rparr>) (IDB_recovery db)\<rparr>))"

definition RecoveryCodes_DeleteForUser :: "string \<Rightarrow> IDB \<Rightarrow> IDB" where
  "RecoveryCodes_DeleteForUser userID db =
     db\<lparr>IDB_recovery := delete_where (\<lambda>c. RecoveryCode_UserID c = userID) (IDB_recovery db)\<rparr>"

section \<open>Memberships (memberships.go)\<close>

abbreviation seat_of :: "string \<Rightarrow> string \<Rightarrow> Membership \<Rightarrow> bool" where
  "seat_of engagementID userID m \<equiv>
     Membership_EngagementID m = engagementID \<and> Membership_UserID m = userID"

definition Memberships_Add :: "gotime \<Rightarrow> NewMembership \<Rightarrow> IDB \<Rightarrow> (error + Membership) \<times> IDB" where
  "Memberships_Add clock inp db =
     (let what = ''identity: add user '' @ Quote (NewMembership_UserID inp) @ '' to engagement '' @
            Quote (NewMembership_EngagementID inp) in
      case requireUser db (NewMembership_UserID inp) of
        Some err \<Rightarrow> (Inl (ErrorfW what err), db)
      | None \<Rightarrow>
          (case (if NewMembership_AddedBy inp \<noteq> [] then requireUser db (NewMembership_AddedBy inp) else None) of
             Some err \<Rightarrow> (Inl (ErrorfW what err), db)
           | None \<Rightarrow>
               if \<exists>m\<in>set (IDB_members db). seat_of (NewMembership_EngagementID inp) (NewMembership_UserID inp) m
               then (Inl (Conflict ''that user is already a member of this engagement''), db)
               else
                 (let created = \<lparr>Membership_EngagementID = NewMembership_EngagementID inp,
                        Membership_UserID = NewMembership_UserID inp, Membership_Role = NewMembership_Role inp,
                        Membership_AddedBy = NewMembership_AddedBy inp, Membership_AddedAt = toStorage clock\<rparr>
                  in (Inr created, db\<lparr>IDB_members := IDB_members db @ [created]\<rparr>))))"

definition Memberships_Get :: "string \<Rightarrow> string \<Rightarrow> IDB \<Rightarrow> error + Membership" where
  "Memberships_Get engagementID userID db =
     (case select1 (seat_of engagementID userID) (IDB_members db) of
        None \<Rightarrow> Inl (NotFound ''engagement member'' (engagementID @ ''/'' @ userID))
      | Some m \<Rightarrow> Inr m)"

definition Memberships_SetRole :: "string \<Rightarrow> string \<Rightarrow> EngagementRole \<Rightarrow> IDB \<Rightarrow> (error + Membership) \<times> IDB" where
  "Memberships_SetRole engagementID userID role db =
     (let what = ''identity: set role for '' @ Quote userID @ '' in engagement '' @ Quote engagementID;
          rows = update_where (seat_of engagementID userID) (\<lambda>m. m\<lparr>Membership_Role := role\<rparr>) (IDB_members db)
      in case requireOneRow (count_where (seat_of engagementID userID) (IDB_members db))
                ''engagement member'' (engagementID @ ''/'' @ userID) of
           Some err \<Rightarrow> (Inl (ErrorfW what err), db)
         | None \<Rightarrow>
             (case select1 (seat_of engagementID userID) rows of
                None \<Rightarrow> (Inl (ErrorfW what SqlNoRows), db)
              | Some updated \<Rightarrow> (Inr updated, db\<lparr>IDB_members := rows\<rparr>)))"

definition Memberships_Remove :: "string \<Rightarrow> string \<Rightarrow> IDB \<Rightarrow> error option \<times> IDB" where
  "Memberships_Remove engagementID userID db =
     (case requireOneRow (count_where (seat_of engagementID userID) (IDB_members db))
             ''engagement member'' (engagementID @ ''/'' @ userID) of
        Some err \<Rightarrow>
          (Some (ErrorfW (''identity: remove '' @ Quote userID @ '' from engagement '' @ Quote engagementID) err), db)
      | None \<Rightarrow> (None, db\<lparr>IDB_members := delete_where (seat_of engagementID userID) (IDB_members db)\<rparr>))"

text \<open>ORDER BY added_at and then the other key: a stable sort by the first over a sort by the second.\<close>

definition Memberships_ListByUser :: "string \<Rightarrow> IDB \<Rightarrow> Membership list" where
  "Memberships_ListByUser userID db =
     sort_key Membership_AddedAt (sort_key Membership_EngagementID
       (filter (\<lambda>m. Membership_UserID m = userID) (IDB_members db)))"

definition Memberships_ListByEngagement :: "string \<Rightarrow> IDB \<Rightarrow> Membership list" where
  "Memberships_ListByEngagement engagementID db =
     sort_key Membership_AddedAt (sort_key Membership_UserID
       (filter (\<lambda>m. Membership_EngagementID m = engagementID) (IDB_members db)))"

section \<open>Activity rows\<close>

text \<open>\<open>events.Log.Record\<close>: one activity row in the caller's transaction.\<close>

definition Log_Record :: "Entry \<Rightarrow> IDB \<Rightarrow> error + IDB" where
  "Log_Record e db = Inr (db\<lparr>IDB_activity := IDB_activity db @ [e]\<rparr>)"

section \<open>Schema invariants\<close>

definition IDB_ok :: "IDB \<Rightarrow> bool" where
  "IDB_ok db \<longleftrightarrow>
     distinct (map Session_ID (IDB_sessions db)) \<and> distinct (map Session_TokenHash (IDB_sessions db)) \<and>
     distinct (map TOTP_UserID (IDB_totps db)) \<and>
     distinct (map RecoveryCode_ID (IDB_recovery db)) \<and> distinct (map RecoveryCode_CodeHash (IDB_recovery db)) \<and>
     distinct (map MFAChallenge_ID (IDB_challenges db)) \<and>
     distinct (map MFAChallenge_TokenHash (IDB_challenges db)) \<and>
     distinct (map (\<lambda>m. (Membership_EngagementID m, Membership_UserID m)) (IDB_members db))"

text \<open>With a primary key, a statement keyed on it touches at most one row.\<close>

lemma count_where_key:
  assumes "distinct (map key rows)" and "\<And>r. P r \<Longrightarrow> key r = k"
  shows "count_where P rows \<le> 1"
proof -
  have "distinct (map key (filter P rows))" using assms(1) by (simp add: distinct_map_filter)
  moreover have "set (map key (filter P rows)) \<subseteq> {k}" using assms(2) by auto
  ultimately have "card (set (map key (filter P rows))) = length (filter P rows)"
    using distinct_card by fastforce
  moreover have "card (set (map key (filter P rows))) \<le> 1"
    using \<open>set (map key (filter P rows)) \<subseteq> {k}\<close> card_mono [of "{k}"] by fastforce
  ultimately show ?thesis by (simp add: count_where_def)
qed

lemma count_where_1:
  assumes "distinct (map key rows)" "r \<in> set rows" "P r" "\<And>r. P r \<Longrightarrow> key r = k"
  shows "count_where P rows = 1"
proof -
  have "count_where P rows \<noteq> 0" using assms(2,3) by (auto simp: count_where_0)
  with count_where_key [of key rows P k] assms show ?thesis by fastforce
qed

end
