(* ===== verification/Session.thy ===== *)
theory Session
  imports Identity
begin

text \<open>
  Session management (internal/authn/session/manager.go, token.go) over the session store. The
  Go interface \<open>Store\<close> is a record of operations on a state; \<open>Manager\<close> holds one with the keyed
  hash of a token (HMAC-SHA256 over the secret, an argument here), the optional activity
  recorder and the two time limits. Random tokens, identifiers and clock readings are
  arguments, one per reading. The locale \<open>session_store_contract\<close> states what the manager relies
  on, that the store behaves like one table of sessions; its interpretation discharges it for
  the repository of Identity.
\<close>

section \<open>The store interface\<close>

record 's session_store =
  Store_Create :: "string \<Rightarrow> gotime \<Rightarrow> NewSession \<Rightarrow> 's after list \<Rightarrow> 's \<Rightarrow> (error + Session) \<times> 's"
  Store_ByTokenHash :: "string \<Rightarrow> 's \<Rightarrow> error + Session"
  Store_ListByUser :: "string \<Rightarrow> 's \<Rightarrow> error + Session list"
  Store_Rotate :: "string \<Rightarrow> string \<Rightarrow> gotime \<Rightarrow> 's \<Rightarrow> (error + Session) \<times> 's"
  Store_SetLastSeenAt :: "string \<Rightarrow> gotime \<Rightarrow> 's \<Rightarrow> error option \<times> 's"
  Store_SetMFASatisfied :: "string \<Rightarrow> 's \<Rightarrow> error option \<times> 's"
  Store_Revoke :: "string \<Rightarrow> gotime \<Rightarrow> 's after list \<Rightarrow> 's \<Rightarrow> error option \<times> 's"
  Store_RevokeAllForUser :: "string \<Rightarrow> gotime \<Rightarrow> 's \<Rightarrow> (error + nat) \<times> 's"
  Store_RevokeOthersForUser :: "string \<Rightarrow> string \<Rightarrow> gotime \<Rightarrow> 's \<Rightarrow> (error + nat) \<times> 's"

section \<open>The manager\<close>

type_synonym Token = string

definition TokenBytes :: nat where "TokenBytes = 32"

text \<open>The length of the base64url encoding without padding.\<close>

definition tokenLength :: nat where
  "tokenLength = (TokenBytes * 8 + 5) div 6"

abbreviation ErrNoSession :: string where "ErrNoSession \<equiv> ''session: no usable session''"

definition touchInterval :: duration where "touchInterval = Minute"

record 's Manager =
  Manager_store :: "'s session_store"
  Manager_hash :: "Token \<Rightarrow> string"
  Manager_activity :: "(Entry \<Rightarrow> 's \<Rightarrow> error + 's) option"
  Manager_lifetime :: duration
  Manager_idleTimeout :: duration

record Issued =
  Issued_Session :: Session
  Issued_Token :: Token

record Request =
  Request_IP :: string
  Request_UserAgent :: string

text \<open>The options \<open>New\<close> checks before it builds a manager; the secret as its length in bytes.\<close>

definition New_check :: "nat \<Rightarrow> duration \<Rightarrow> duration \<Rightarrow> string option" where
  "New_check secretLen lifetime idleTimeout =
     (if secretLen = 0 then Some ''session: no secret; every token would hash to the same value''
      else if lifetime \<le> 0 then Some ''session: the lifetime must be positive''
      else if idleTimeout \<le> 0 then Some ''session: the idle timeout must be positive''
      else if idleTimeout > lifetime then Some ''session: the idle timeout is longer than the lifetime''
      else None)"

definition loginAfter :: "'s Manager \<Rightarrow> string \<Rightarrow> Request \<Rightarrow> bool \<Rightarrow> 's after list" where
  "loginAfter m userID req mfaSatisfied =
     (case Manager_activity m of
        None \<Rightarrow> []
      | Some rec \<Rightarrow>
          [\<lambda>entity. rec \<lparr>Entry_EngagementID = [], Entry_ActorID = userID, Entry_Verb = VerbSessionLogin,
             Entry_ObjectType = ObjectSession, Entry_ObjectID = entity, Entry_ParentIDs = [],
             Entry_Delta = Delta [(''ip'', DString (Request_IP req)),
               (''user_agent'', DString (Request_UserAgent req)), (''mfa_satisfied'', DBool mfaSatisfied)]\<rparr>])"

definition logoutAfter :: "'s Manager \<Rightarrow> string \<Rightarrow> string \<Rightarrow> 's after list" where
  "logoutAfter m sessionID actorID =
     (case Manager_activity m of
        None \<Rightarrow> []
      | Some rec \<Rightarrow>
          [\<lambda>entity. rec \<lparr>Entry_EngagementID = [], Entry_ActorID = actorID, Entry_Verb = VerbSessionLogout,
             Entry_ObjectType = ObjectSession, Entry_ObjectID = sessionID, Entry_ParentIDs = [],
             Entry_Delta = []\<rparr>])"

definition Issue :: "'s Manager \<Rightarrow> string \<Rightarrow> gotime \<Rightarrow> Token \<Rightarrow> gotime \<Rightarrow> string \<Rightarrow> Request \<Rightarrow> bool \<Rightarrow> 's \<Rightarrow>
    (error + Issued) \<times> 's" where
  "Issue m newID clock token now userID req mfaSatisfied s =
     (let inp = \<lparr>NewSession_UserID = userID, NewSession_TokenHash = Manager_hash m token,
            NewSession_ExpiresAt = Add now (Manager_lifetime m), NewSession_IP = Request_IP req,
            NewSession_UserAgent = Request_UserAgent req, NewSession_MFASatisfied = mfaSatisfied\<rparr>
      in case Store_Create (Manager_store m) newID clock inp (loginAfter m userID req mfaSatisfied) s of
           (Inl err, s') \<Rightarrow> (Inl err, s')
         | (Inr created, s') \<Rightarrow> (Inr \<lparr>Issued_Session = created, Issued_Token = token\<rparr>, s'))"

definition usable :: "'s Manager \<Rightarrow> gotime \<Rightarrow> Session \<Rightarrow> error option" where
  "usable m now s =
     (if Session_RevokedAt s \<noteq> None then
        Some (ErrorfW (''session '' @ Session_ID s @ '' was revoked'') (Sentinel ErrNoSession))
      else if \<not> Before now (Session_ExpiresAt s) then
        Some (ErrorfW (''session '' @ Session_ID s @ '' expired'') (Sentinel ErrNoSession))
      else if Sub now (Session_LastSeenAt s) \<ge> Manager_idleTimeout m then
        Some (ErrorfW (''session '' @ Session_ID s @ '' was last used too long ago'') (Sentinel ErrNoSession))
      else None)"

text \<open>\<open>usable\<close> reads the clock (nowU), then \<open>Resolve\<close> reads it again for the touch (nowT).\<close>

definition Resolve :: "'s Manager \<Rightarrow> Token \<Rightarrow> gotime \<Rightarrow> gotime \<Rightarrow> 's \<Rightarrow> (error + Session) \<times> 's" where
  "Resolve m token nowU nowT s =
     (if length token \<noteq> tokenLength then
        (Inl (ErrorfW ''the cookie is absent or not a token'' (Sentinel ErrNoSession)), s)
      else case Store_ByTokenHash (Manager_store m) (Manager_hash m token) s of
        Inl err \<Rightarrow>
          if errors_Is err ErrNotFound then
            (Inl (ErrorfW ''no session for that token'' (Sentinel ErrNoSession)), s)
          else (Inl err, s)
      | Inr found \<Rightarrow>
          (case usable m nowU found of
             Some err \<Rightarrow> (Inl err, s)
           | None \<Rightarrow>
               if Sub nowT (Session_LastSeenAt found) \<ge> touchInterval then
                 (case Store_SetLastSeenAt (Manager_store m) (Session_ID found) nowT s of
                    (Some err, s') \<Rightarrow> (Inl err, s')
                  | (None, s') \<Rightarrow> (Inr (found\<lparr>Session_LastSeenAt := nowT\<rparr>), s'))
               else (Inr found, s)))"

definition Rotate :: "'s Manager \<Rightarrow> Token \<Rightarrow> gotime \<Rightarrow> string \<Rightarrow> 's \<Rightarrow> (error + Issued) \<times> 's" where
  "Rotate m token now sessionID s =
     (case Store_Rotate (Manager_store m) sessionID (Manager_hash m token) now s of
        (Inl err, s') \<Rightarrow> (Inl err, s')
      | (Inr rotated, s') \<Rightarrow> (Inr \<lparr>Issued_Session = rotated, Issued_Token = token\<rparr>, s'))"

definition SatisfyMFA :: "'s Manager \<Rightarrow> Token \<Rightarrow> gotime \<Rightarrow> string \<Rightarrow> 's \<Rightarrow> (error + Issued) \<times> 's" where
  "SatisfyMFA m token now sessionID s =
     (case Store_SetMFASatisfied (Manager_store m) sessionID s of
        (Some err, s') \<Rightarrow> (Inl err, s')
      | (None, s') \<Rightarrow> Rotate m token now sessionID s')"

text \<open>Every row is judged at the same reading of the clock.\<close>

definition Live :: "'s Manager \<Rightarrow> gotime \<Rightarrow> string \<Rightarrow> 's \<Rightarrow> error + Session list" where
  "Live m now userID s =
     (case Store_ListByUser (Manager_store m) userID s of
        Inl err \<Rightarrow> Inl err
      | Inr rows \<Rightarrow> Inr (filter (\<lambda>r. usable m now r = None) rows))"

definition RevokeAs :: "'s Manager \<Rightarrow> gotime \<Rightarrow> string \<Rightarrow> string \<Rightarrow> 's \<Rightarrow> error option \<times> 's" where
  "RevokeAs m now sessionID actorID s =
     Store_Revoke (Manager_store m) sessionID now (logoutAfter m sessionID actorID) s"

definition Revoke :: "'s Manager \<Rightarrow> gotime \<Rightarrow> string \<Rightarrow> 's \<Rightarrow> error option \<times> 's" where
  "Revoke m now sessionID s = RevokeAs m now sessionID [] s"

definition RevokeOwned :: "'s Manager \<Rightarrow> gotime \<Rightarrow> string \<Rightarrow> string \<Rightarrow> 's \<Rightarrow> error option \<times> 's" where
  "RevokeOwned m now userID sessionID s =
     (case Store_ListByUser (Manager_store m) userID s of
        Inl err \<Rightarrow> (Some err, s)
      | Inr rows \<Rightarrow>
          if \<not> (\<exists>r\<in>set rows. Session_ID r = sessionID)
          then (Some (NotFound ''session'' sessionID), s)
          else RevokeAs m now sessionID userID s)"

definition RevokeAll :: "'s Manager \<Rightarrow> gotime \<Rightarrow> string \<Rightarrow> 's \<Rightarrow> (error + nat) \<times> 's" where
  "RevokeAll m now userID s = Store_RevokeAllForUser (Manager_store m) userID now s"

definition RevokeOthers :: "'s Manager \<Rightarrow> gotime \<Rightarrow> string \<Rightarrow> string \<Rightarrow> 's \<Rightarrow> (error + nat) \<times> 's" where
  "RevokeOthers m now userID keepSessionID s =
     Store_RevokeOthersForUser (Manager_store m) userID keepSessionID now s"

text \<open>The manager's operations as steps of the store's state, whatever their answers.\<close>

inductive manager_step :: "'s Manager \<Rightarrow> 's \<Rightarrow> 's \<Rightarrow> bool" for m where
  issue: "manager_step m s (snd (Issue m newID clock token now userID req mfa s))"
| resolve: "manager_step m s (snd (Resolve m token nowU nowT s))"
| rotate: "manager_step m s (snd (Rotate m token now sessionID s))"
| satisfy: "manager_step m s (snd (SatisfyMFA m token now sessionID s))"
| revoke: "manager_step m s (snd (RevokeAs m now sessionID actorID s))"
| revoke_owned: "manager_step m s (snd (RevokeOwned m now userID sessionID s))"
| revoke_all: "manager_step m s (snd (RevokeAll m now userID s))"
| revoke_others: "manager_step m s (snd (RevokeOthers m now userID keep s))"

inductive_cases manager_stepE: "manager_step m s s'"

section \<open>What may happen to a session\<close>

text \<open>
  A row keeps its identity, owner and absolute expiry for good; once revoked it stays revoked, at
  the first instant, under the same token; a satisfied second factor stays satisfied.
\<close>

definition evolves :: "Session \<Rightarrow> Session \<Rightarrow> bool" where
  "evolves r r' \<longleftrightarrow>
     Session_ID r' = Session_ID r \<and> Session_UserID r' = Session_UserID r \<and>
     Session_CreatedAt r' = Session_CreatedAt r \<and> Session_ExpiresAt r' = Session_ExpiresAt r \<and>
     (Session_RevokedAt r \<noteq> None \<longrightarrow>
        Session_RevokedAt r' = Session_RevokedAt r \<and> Session_TokenHash r' = Session_TokenHash r) \<and>
     (Session_MFASatisfied r \<longrightarrow> Session_MFASatisfied r')"

definition table_step :: "Session list \<Rightarrow> Session list \<Rightarrow> bool" where
  "table_step R R' \<longleftrightarrow>
     (\<forall>r\<in>set R. \<exists>r'\<in>set R'. evolves r r') \<and>
     (\<forall>r'\<in>set R'. (\<exists>r\<in>set R. evolves r r') \<or> Session_ID r' \<notin> Session_ID ` set R)"

lemma evolves_refl [simp]: "evolves r r"
  by (simp add: evolves_def)

lemma evolves_trans: "evolves r r' \<Longrightarrow> evolves r' r'' \<Longrightarrow> evolves r r''"
  by (auto simp: evolves_def)

lemma evolves_id: "evolves r r' \<Longrightarrow> Session_ID r' = Session_ID r"
  by (simp add: evolves_def)

lemma table_step_refl [simp]: "table_step R R"
  unfolding table_step_def using evolves_refl by blast

lemma table_step_trans:
  assumes "table_step R R'" "table_step R' R''"
  shows "table_step R R''"
proof -
  have "\<exists>r''\<in>set R''. evolves r r''" if "r \<in> set R" for r
    using assms that evolves_trans unfolding table_step_def by meson
  moreover have "(\<exists>r\<in>set R. evolves r r'') \<or> Session_ID r'' \<notin> Session_ID ` set R" if r'': "r'' \<in> set R''" for r''
  proof (cases "\<exists>r'\<in>set R'. evolves r' r''")
    case True
    then obtain r' where r': "r' \<in> set R'" "evolves r' r''" by blast
    then consider r where "r \<in> set R" "evolves r r'" | "Session_ID r' \<notin> Session_ID ` set R"
      using assms(1) unfolding table_step_def by blast
    then show ?thesis using r' evolves_trans evolves_id by cases metis+
  next
    case False
    then have "Session_ID r'' \<notin> Session_ID ` set R'"
      using assms(2) r'' unfolding table_step_def by blast
    moreover have "Session_ID r \<in> Session_ID ` set R'" if r: "r \<in> set R" for r
    proof -
      obtain r' where "r' \<in> set R'" "evolves r r'"
        using assms(1) r unfolding table_step_def by blast
      then show ?thesis using evolves_id by (metis imageI)
    qed
    ultimately have "Session_ID r'' \<notin> Session_ID ` set R" by (metis imageE)
    then show ?thesis by blast
  qed
  ultimately show ?thesis unfolding table_step_def by blast
qed

lemma table_step_update:
  assumes "\<And>r. r \<in> set R \<Longrightarrow> P r \<Longrightarrow> evolves r (f r)"
  shows "table_step R (update_where P f R)"
proof -
  have step: "evolves r (if P r then f r else r)" if "r \<in> set R" for r
    using assms that by simp
  then show ?thesis
    unfolding table_step_def set_update_where by blast
qed

lemma table_step_append: "Session_ID c \<notin> Session_ID ` set R \<Longrightarrow> table_step R (R @ [c])"
proof -
  assume new: "Session_ID c \<notin> Session_ID ` set R"
  have "\<exists>r'\<in>set (R @ [c]). evolves r r'" if "r \<in> set R" for r
    using that by (intro bexI [of _ r]) simp_all
  moreover have "(\<exists>r\<in>set R. evolves r r') \<or> Session_ID r' \<notin> Session_ID ` set R"
    if "r' \<in> set (R @ [c])" for r'
  proof (cases "r' \<in> set R")
    case True
    then show ?thesis by (intro disjI1 bexI [of _ r']) simp_all
  next
    case False
    then show ?thesis using that new by simp
  qed
  ultimately show ?thesis unfolding table_step_def by blast
qed

section \<open>The contract of the store\<close>

definition harmless :: "('s \<Rightarrow> bool) \<Rightarrow> ('s \<Rightarrow> Session list) \<Rightarrow> 's after \<Rightarrow> bool" where
  "harmless ok rows h \<longleftrightarrow> (\<forall>entity s s'. ok s \<longrightarrow> h entity s = Inr s' \<longrightarrow> ok s' \<and> rows s' = rows s)"

abbreviation seen_at :: "gotime \<Rightarrow> Session \<Rightarrow> Session" where
  "seen_at at r \<equiv> r\<lparr>Session_LastSeenAt := toStorage at\<rparr>"

abbreviation revoked_at :: "gotime \<Rightarrow> Session \<Rightarrow> Session" where
  "revoked_at at r \<equiv> r\<lparr>Session_RevokedAt := Some (toStorage at)\<rparr>"

locale session_store_contract =
  fixes st :: "'s session_store"
    and rows :: "'s \<Rightarrow> Session list"
    and ok :: "'s \<Rightarrow> bool"
  assumes ok_keys: "ok s \<Longrightarrow> distinct (map Session_ID (rows s)) \<and> distinct (map Session_TokenHash (rows s))"
    and create_law: "ok s \<Longrightarrow> \<forall>h\<in>set after. harmless ok rows h \<Longrightarrow>
      Store_Create st newID clock inp after s = (res, s') \<Longrightarrow>
      ok s' \<and> (case res of Inl err \<Rightarrow> s' = s
             | Inr c \<Rightarrow> rows s' = rows s @ [c] \<and> Session_ID c = newID \<and> newID \<notin> Session_ID ` set (rows s) \<and>
                 Session_UserID c = NewSession_UserID inp \<and> Session_TokenHash c = NewSession_TokenHash inp \<and>
                 Session_ExpiresAt c = toStorage (NewSession_ExpiresAt inp) \<and>
                 Session_CreatedAt c = toStorage clock \<and> Session_LastSeenAt c = toStorage clock \<and>
                 Session_RevokedAt c = None)"
    and hash_law: "ok s \<Longrightarrow> Store_ByTokenHash st h s = Inr r \<longleftrightarrow> r \<in> set (rows s) \<and> Session_TokenHash r = h"
    and hash_error: "ok s \<Longrightarrow> Store_ByTokenHash st h s = Inl err \<Longrightarrow> errors_Is err ErrNotFound"
    and list_law: "ok s \<Longrightarrow> \<exists>l. Store_ListByUser st u s = Inr l \<and> set l = {r \<in> set (rows s). Session_UserID r = u}"
    and rotate_law: "ok s \<Longrightarrow> Store_Rotate st sid h at s = (res, s') \<Longrightarrow>
      ok s' \<and> (case res of Inl err \<Rightarrow> s' = s
             | Inr r \<Rightarrow> r \<in> set (rows s') \<and> live_row sid r \<and> Session_TokenHash r = h \<and>
                 rows s' = update_where (live_row sid)
                   (\<lambda>r. seen_at at (r\<lparr>Session_TokenHash := h\<rparr>)) (rows s))"
    and seen_law: "ok s \<Longrightarrow> Store_SetLastSeenAt st sid at s = (opt, s') \<Longrightarrow>
      ok s' \<and> (case opt of Some err \<Rightarrow> s' = s \<and> sid \<notin> Session_ID ` set (rows s)
             | None \<Rightarrow> rows s' = update_where (\<lambda>r. Session_ID r = sid) (seen_at at) (rows s))"
    and mfa_law: "ok s \<Longrightarrow> Store_SetMFASatisfied st sid s = (opt, s') \<Longrightarrow>
      ok s' \<and> (case opt of Some err \<Rightarrow> s' = s
             | None \<Rightarrow> rows s' = update_where (live_row sid) (\<lambda>r. r\<lparr>Session_MFASatisfied := True\<rparr>) (rows s))"
    and revoke_law: "ok s \<Longrightarrow> \<forall>h\<in>set after. harmless ok rows h \<Longrightarrow>
      Store_Revoke st sid at after s = (opt, s') \<Longrightarrow>
      ok s' \<and> (case opt of Some err \<Rightarrow> s' = s
             | None \<Rightarrow> sid \<in> Session_ID ` set (rows s) \<and>
                 rows s' = update_where (live_row sid) (revoked_at at) (rows s))"
    and revoke_all_law: "ok s \<Longrightarrow> Store_RevokeAllForUser st u at s = (cnt, s') \<Longrightarrow>
      ok s' \<and> (case cnt of Inl err \<Rightarrow> s' = s
             | Inr n \<Rightarrow> rows s' = update_where
                 (\<lambda>r. Session_UserID r = u \<and> Session_RevokedAt r = None) (revoked_at at) (rows s))"
    and revoke_others_law: "ok s \<Longrightarrow> Store_RevokeOthersForUser st u keep at s = (cnt, s') \<Longrightarrow>
      ok s' \<and> (case cnt of Inl err \<Rightarrow> s' = s
             | Inr n \<Rightarrow> rows s' = update_where
                 (\<lambda>r. Session_UserID r = u \<and> Session_ID r \<noteq> keep \<and> Session_RevokedAt r = None)
                 (revoked_at at) (rows s))"
begin

lemma by_hash_row: "ok s \<Longrightarrow> r \<in> set (rows s) \<Longrightarrow> Store_ByTokenHash st (Session_TokenHash r) s = Inr r"
  by (simp add: hash_law)

lemma update_step: 
  assumes "\<And>r. P r \<Longrightarrow> evolves r (f r)"
  shows "table_step R (update_where P f R)"
  using assms by (rule table_step_update)

lemma evolving_updates:
  "evolves r (seen_at at r)" "evolves r (r\<lparr>Session_MFASatisfied := True\<rparr>)"
  "Session_RevokedAt r = None \<Longrightarrow> evolves r (revoked_at at r)"
  "Session_RevokedAt r = None \<Longrightarrow> evolves r (seen_at at (r\<lparr>Session_TokenHash := h\<rparr>))"
  by (simp_all add: evolves_def)

lemma step_laws:
  assumes "ok s"
  shows "Store_Rotate st sid h at s = (res1, s') \<Longrightarrow> ok s' \<and> table_step (rows s) (rows s')"
    and "Store_SetLastSeenAt st sid at s = (res2, s') \<Longrightarrow> ok s' \<and> table_step (rows s) (rows s')"
    and "Store_SetMFASatisfied st sid s = (res3, s') \<Longrightarrow> ok s' \<and> table_step (rows s) (rows s')"
    and "Store_RevokeAllForUser st u at s = (res4, s') \<Longrightarrow> ok s' \<and> table_step (rows s) (rows s')"
    and "Store_RevokeOthersForUser st u keep at s = (res5, s') \<Longrightarrow> ok s' \<and> table_step (rows s) (rows s')"
    and "\<forall>h\<in>set after. harmless ok rows h \<Longrightarrow> Store_Revoke st sid at after s = (res6, s') \<Longrightarrow>
      ok s' \<and> table_step (rows s) (rows s')"
    and "\<forall>h\<in>set after. harmless ok rows h \<Longrightarrow> Store_Create st newID clock inp after s = (res7, s') \<Longrightarrow>
      ok s' \<and> table_step (rows s) (rows s')"
proof -
  show "Store_Rotate st sid h at s = (res1, s') \<Longrightarrow> ok s' \<and> table_step (rows s) (rows s')"
    using rotate_law [OF assms, of sid h at res1 s'] evolving_updates
    by (cases res1) (auto intro!: update_step)
  show "Store_SetLastSeenAt st sid at s = (res2, s') \<Longrightarrow> ok s' \<and> table_step (rows s) (rows s')"
    using seen_law [OF assms, of sid at res2 s'] evolving_updates
    by (cases res2) (auto intro!: update_step)
  show "Store_SetMFASatisfied st sid s = (res3, s') \<Longrightarrow> ok s' \<and> table_step (rows s) (rows s')"
    using mfa_law [OF assms, of sid res3 s'] evolving_updates
    by (cases res3) (auto intro!: update_step)
  show "Store_RevokeAllForUser st u at s = (res4, s') \<Longrightarrow> ok s' \<and> table_step (rows s) (rows s')"
    using revoke_all_law [OF assms, of u at res4 s'] evolving_updates
    by (cases res4) (auto intro!: update_step)
  show "Store_RevokeOthersForUser st u keep at s = (res5, s') \<Longrightarrow> ok s' \<and> table_step (rows s) (rows s')"
    using revoke_others_law [OF assms, of u keep at res5 s'] evolving_updates
    by (cases res5) (auto intro!: update_step)
  show "\<forall>h\<in>set after. harmless ok rows h \<Longrightarrow> Store_Revoke st sid at after s = (res6, s') \<Longrightarrow>
      ok s' \<and> table_step (rows s) (rows s')"
    using revoke_law [OF assms, of after sid at res6 s'] evolving_updates
    by (cases res6) (auto intro!: update_step)
  show "\<forall>h\<in>set after. harmless ok rows h \<Longrightarrow> Store_Create st newID clock inp after s = (res7, s') \<Longrightarrow>
      ok s' \<and> table_step (rows s) (rows s')"
    using create_law [OF assms, of after newID clock inp res7 s']
    by (cases res7) (auto intro!: table_step_append)
qed

end

section \<open>The manager over any store that keeps the contract\<close>

locale session_manager = session_store_contract st rows ok
  for st :: "'s session_store" and rows :: "'s \<Rightarrow> Session list" and ok :: "'s \<Rightarrow> bool" +
  fixes m :: "'s Manager"
  assumes m_store: "Manager_store m = st"
    and m_activity: "Manager_activity m = Some rec \<Longrightarrow> ok s \<Longrightarrow> rec e s = Inr s' \<Longrightarrow> ok s' \<and> rows s' = rows s"
begin

lemma hooks_harmless:
  "\<forall>h\<in>set (loginAfter m u req b). harmless ok rows h" "\<forall>h\<in>set (logoutAfter m sid actor). harmless ok rows h"
  by (cases "Manager_activity m";
      force simp: loginAfter_def logoutAfter_def harmless_def dest: m_activity)+

lemma Resolve_cases:
  assumes "ok s" "Resolve m token nowU nowT s = (Inr found, s')"
  obtains r where "r \<in> set (rows s)" "Session_TokenHash r = Manager_hash m token" "usable m nowU r = None"
    "found = r \<or> found = r\<lparr>Session_LastSeenAt := nowT\<rparr>"
proof -
  obtain r where r: "Store_ByTokenHash st (Manager_hash m token) s = Inr r"
    using assms(2) m_store by (auto simp: Resolve_def split: if_splits sum.splits)
  have "usable m nowU r = None \<and> (found = r \<or> found = r\<lparr>Session_LastSeenAt := nowT\<rparr>)"
    using assms(2) r m_store
    by (auto simp: Resolve_def split: if_splits option.splits prod.splits)
  with r assms(1) that show thesis by (auto simp: hash_law)
qed

lemma Resolve_accepts:
  assumes "ok s" "length token = tokenLength" "r \<in> set (rows s)" "Session_TokenHash r = Manager_hash m token"
    and "usable m nowU r = None"
  shows "\<exists>found. fst (Resolve m token nowU nowT s) = Inr found \<and> Session_ID found = Session_ID r"
proof -
  have by_hash: "Store_ByTokenHash (Manager_store m) (Manager_hash m token) s = Inr r"
    using assms by (simp add: m_store hash_law)
  obtain res s' where seen: "Store_SetLastSeenAt (Manager_store m) (Session_ID r) nowT s = (res, s')"
    by fastforce
  then have "res = None"
    using seen_law [OF assms(1), of "Session_ID r" nowT res s'] assms(3)
    by (cases res) (auto simp: m_store)
  with by_hash seen assms show ?thesis by (simp add: Resolve_def)
qed

lemma Resolve_refuses:
  assumes "ok s" "\<forall>r\<in>set (rows s). Session_TokenHash r = Manager_hash m token \<longrightarrow> usable m nowU r \<noteq> None"
  shows "\<exists>why. Resolve m token nowU nowT s = (Inl (ErrorfW why (Sentinel ErrNoSession)), s)"
proof (cases "length token = tokenLength")
  case True
  show ?thesis
  proof (cases "Store_ByTokenHash (Manager_store m) (Manager_hash m token) s")
    case (Inl err)
    then show ?thesis
      using True hash_error [OF assms(1)] by (simp add: Resolve_def m_store)
  next
    case (Inr r)
    then have "usable m nowU r \<noteq> None"
      using assms by (simp add: m_store hash_law)
    then obtain why where "usable m nowU r = Some (ErrorfW why (Sentinel ErrNoSession))"
      by (auto simp: usable_def split: if_splits)
    with Inr True show ?thesis by (simp add: Resolve_def)
  qed
qed (simp add: Resolve_def)

lemma Rotate_step: "ok s \<Longrightarrow> ok (snd (Rotate m token now sid s)) \<and> table_step (rows s) (rows (snd (Rotate m token now sid s)))"
  using step_laws(1) [of s sid "Manager_hash m token" now]
  by (simp add: Rotate_def m_store split: prod.splits sum.splits)

lemma Revoke_step:
  "ok s \<Longrightarrow> ok (snd (RevokeAs m now sid actor s)) \<and> table_step (rows s) (rows (snd (RevokeAs m now sid actor s)))"
  using step_laws(6) [OF _ hooks_harmless(2), of s sid now]
  by (metis RevokeAs_def m_store prod.exhaust_sel)

text \<open>Every operation of the manager keeps the store in order and its rows evolving.\<close>

lemma manager_step_table:
  assumes "manager_step m s s'" "ok s"
  shows "ok s' \<and> table_step (rows s) (rows s')"
  using assms(1)
proof cases
  case (issue newID clock token now userID req mfa)
  show ?thesis
    unfolding issue
    using step_laws(7) [OF assms(2) hooks_harmless(1)]
    by (auto simp: Issue_def Let_def m_store split: prod.splits sum.splits)
next
  case (resolve token nowU nowT)
  show ?thesis
    unfolding resolve
    using step_laws(2) [OF assms(2)] assms(2)
    by (auto simp: Resolve_def m_store split: prod.splits sum.splits option.splits)
next
  case (rotate token now sessionID)
  then show ?thesis using Rotate_step [OF assms(2)] by simp
next
  case (satisfy token now sessionID)
  obtain res s1 where s1: "Store_SetMFASatisfied (Manager_store m) sessionID s = (res, s1)" by fastforce
  then have "ok s1 \<and> table_step (rows s) (rows s1)"
    using step_laws(3) [OF assms(2)] by (simp add: m_store)
  then show ?thesis
    unfolding satisfy using s1 Rotate_step [of s1] table_step_trans
    by (cases res) (auto simp: SatisfyMFA_def)
next
  case (revoke now sessionID actorID)
  then show ?thesis using Revoke_step [OF assms(2)] by simp
next
  case (revoke_owned now userID sessionID)
  then show ?thesis
    using Revoke_step [OF assms(2)] assms(2) by (auto simp: RevokeOwned_def split: sum.splits)
next
  case (revoke_all now userID)
  then show ?thesis
    using step_laws(4) [OF assms(2)] by (metis RevokeAll_def m_store prod.exhaust_sel)
next
  case (revoke_others now userID keep)
  then show ?thesis
    using step_laws(5) [OF assms(2)] by (metis RevokeOthers_def m_store prod.exhaust_sel)
qed

lemma manager_run_table:
  "(manager_step m)\<^sup>*\<^sup>* s s' \<Longrightarrow> ok s \<Longrightarrow> ok s' \<and> table_step (rows s) (rows s')"
  by (induction rule: rtranclp_induct) (auto dest: manager_step_table intro: table_step_trans)

text \<open>A session that is over for good: no row of that identity can be used at or after t.\<close>

lemma dead_stays_dead:
  assumes run: "(manager_step m)\<^sup>*\<^sup>* s s'" "ok s"
    and r: "r \<in> set (rows s)" "Session_RevokedAt r \<noteq> None \<or> Session_ExpiresAt r \<le> t"
    and res: "fst (Resolve m token nowU nowT s') = Inr found" "t \<le> nowU"
  shows "Session_ID found \<noteq> Session_ID r"
proof
  assume same: "Session_ID found = Session_ID r"
  have ok': "ok s'" and step: "table_step (rows s) (rows s')" using manager_run_table [OF run] by auto
  obtain s'' where "Resolve m token nowU nowT s' = (Inr found, s'')"
    using res(1) by (metis prod.exhaust_sel)
  from Resolve_cases [OF ok' this] obtain r' where r': "r' \<in> set (rows s')" "usable m nowU r' = None"
    and "found = r' \<or> found = r'\<lparr>Session_LastSeenAt := nowT\<rparr>" by blast
  then have id': "Session_ID found = Session_ID r'" by auto
  obtain q where q: "q \<in> set (rows s')" "evolves r q"
    using step r(1) unfolding table_step_def by blast
  have "Session_ID q = Session_ID r'" using q(2) id' same by (simp add: evolves_id)
  then have "q = r'"
    using ok_keys [OF ok'] q(1) r'(1) by (metis distinct_map inj_onD)
  then show False
    using q(2) r(2) r'(2) res(2) by (auto simp: evolves_def usable_def Before_def split: if_splits)
qed

lemma Rotate_kills_token:
  assumes "ok s" "r \<in> set (rows s)" "Session_TokenHash r = Manager_hash m old"
    and "Rotate m new now (Session_ID r) s = (Inr issued, s')" "Manager_hash m new \<noteq> Manager_hash m old"
  shows "\<exists>why. Resolve m old nowU nowT s' = (Inl (ErrorfW why (Sentinel ErrNoSession)), s')"
proof (rule Resolve_refuses)
  obtain q where rot: "Store_Rotate st (Session_ID r) (Manager_hash m new) now s = (Inr q, s')"
    using assms(4) by (auto simp: Rotate_def m_store split: prod.splits sum.splits)
  show "ok s'" using rotate_law [OF assms(1) rot] by simp
  have rows: "rows s' = update_where (live_row (Session_ID r))
      (\<lambda>r. seen_at now (r\<lparr>Session_TokenHash := Manager_hash m new\<rparr>)) (rows s)"
    and q: "q \<in> set (rows s')" "live_row (Session_ID r) q"
    using rotate_law [OF assms(1) rot] by auto
  have keys: "x = r" if "x \<in> set (rows s)" "Session_TokenHash x = Session_TokenHash r \<or> Session_ID x = Session_ID r" for x
    using ok_keys [OF assms(1)] that assms(2) by (metis distinct_map inj_onD)
  have "Session_TokenHash x \<noteq> Manager_hash m old" if x: "x \<in> set (rows s')" for x
  proof
    assume old: "Session_TokenHash x = Manager_hash m old"
    then have "x \<in> set (rows s)" "\<not> live_row (Session_ID r) x"
      using x rows assms(5) by (auto simp: set_update_where split: if_splits)
    then have "x = r" using keys old assms(3) by metis
    then have dead: "Session_RevokedAt r \<noteq> None"
      using \<open>\<not> live_row (Session_ID r) x\<close> by simp
    obtain y where "y \<in> set (rows s)" "live_row (Session_ID r) y"
      using q rows by (auto simp: set_update_where split: if_splits)
    then have "y = r" using keys by blast
    with dead \<open>live_row (Session_ID r) y\<close> show False by simp
  qed
  then show "\<forall>x\<in>set (rows s'). Session_TokenHash x = Manager_hash m old \<longrightarrow> usable m nowU x \<noteq> None"
    by blast
qed

lemma Live_rows:
  "ok s \<Longrightarrow> \<exists>l. Live m now u s = Inr l \<and>
     set l = {r \<in> set (rows s). Session_UserID r = u \<and> usable m now r = None}"
  using list_law [of s u] by (auto simp: Live_def m_store)

lemma RevokeOwned_foreign:
  assumes "ok s" "\<forall>r\<in>set (rows s). Session_ID r = sid \<longrightarrow> Session_UserID r \<noteq> u"
  shows "RevokeOwned m now u sid s = (Some (NotFound ''session'' sid), s)"
  using assms list_law [of s u] by (auto simp: RevokeOwned_def m_store)

lemma RevokeAs_revokes:
  assumes "ok s" "RevokeAs m now sid actor s = (None, s')"
  shows "\<exists>r\<in>set (rows s'). Session_ID r = sid \<and> Session_RevokedAt r \<noteq> None"
proof -
  have law: "sid \<in> Session_ID ` set (rows s)" "rows s' = update_where (live_row sid) (revoked_at now) (rows s)"
    using revoke_law [OF assms(1) hooks_harmless(2), where opt = None and s' = s' and sid = sid and at = now] assms(2)
    by (simp_all add: RevokeAs_def m_store)
  then obtain r where r: "r \<in> set (rows s)" "Session_ID r = sid" by auto
  let ?r = "if live_row sid r then revoked_at now r else r"
  have "?r \<in> set (rows s')" using law(2) r(1) by (auto simp: set_update_where)
  moreover have "Session_ID ?r = sid" "Session_RevokedAt ?r \<noteq> None" using r(2) by auto
  ultimately show ?thesis by blast
qed

end

section \<open>The identity store keeps the contract\<close>

definition session_repo :: "IDB session_store" where
  "session_repo =
     \<lparr>Store_Create = Sessions_Create, Store_ByTokenHash = Sessions_ByTokenHash,
      Store_ListByUser = (\<lambda>u db. Inr (Sessions_ListByUser u db)), Store_Rotate = Sessions_Rotate,
      Store_SetLastSeenAt = Sessions_SetLastSeenAt, Store_SetMFASatisfied = Sessions_SetMFASatisfied,
      Store_Revoke = Sessions_Revoke,
      Store_RevokeAllForUser = (\<lambda>u at db. let (n, db') = Sessions_RevokeAllForUser u at db in (Inr n, db')),
      Store_RevokeOthersForUser =
        (\<lambda>u keep at db. let (n, db') = Sessions_RevokeOthersForUser u keep at db in (Inr n, db'))\<rparr>"

lemma session_repo_simps [simp]:
  "Store_Create session_repo = Sessions_Create" "Store_ByTokenHash session_repo = Sessions_ByTokenHash"
  "Store_ListByUser session_repo u db = Inr (Sessions_ListByUser u db)"
  "Store_Rotate session_repo = Sessions_Rotate" "Store_SetLastSeenAt session_repo = Sessions_SetLastSeenAt"
  "Store_SetMFASatisfied session_repo = Sessions_SetMFASatisfied" "Store_Revoke session_repo = Sessions_Revoke"
  "Store_RevokeAllForUser session_repo u at db =
     (Inr (fst (Sessions_RevokeAllForUser u at db)), snd (Sessions_RevokeAllForUser u at db))"
  "Store_RevokeOthersForUser session_repo u keep at db =
     (Inr (fst (Sessions_RevokeOthersForUser u keep at db)), snd (Sessions_RevokeOthersForUser u keep at db))"
  by (simp_all add: session_repo_def split_beta)

definition sessions_ok :: "IDB \<Rightarrow> bool" where
  "sessions_ok db \<longleftrightarrow>
     distinct (map Session_ID (IDB_sessions db)) \<and> distinct (map Session_TokenHash (IDB_sessions db))"

lemma runAfter_harmless:
  assumes "\<forall>h\<in>set after. harmless ok rows h" "ok db" "runAfter entity after db = Inr db'"
  shows "ok db' \<and> rows db' = rows db"
  using assms
proof (induction after arbitrary: db)
  case (Cons h after)
  then obtain db1 where db1: "h entity db = Inr db1" "runAfter entity after db1 = Inr db'"
    by (auto split: sum.splits)
  then have "ok db1 \<and> rows db1 = rows db" using Cons.prems by (auto simp: harmless_def)
  with Cons.IH [of db1] Cons.prems db1 show ?case by auto
qed simp

lemma sessions_ok_update:
  "sessions_ok db \<Longrightarrow> (\<And>r. P r \<Longrightarrow> Session_ID (f r) = Session_ID r \<and> Session_TokenHash (f r) = Session_TokenHash r) \<Longrightarrow>
   sessions_ok (db\<lparr>IDB_sessions := update_where P f (IDB_sessions db)\<rparr>)"
  by (simp add: sessions_ok_def map_update_where)

lemma live_count:
  "sessions_ok db \<Longrightarrow> count_where (live_row sid) (IDB_sessions db) \<le> 1"
  by (rule count_where_key [of Session_ID _ _ sid]) (auto simp: sessions_ok_def)

lemma live_count_pos:
  "sessions_ok db \<Longrightarrow> requireOneRow (count_where (live_row sid) (IDB_sessions db)) what sid = None \<Longrightarrow>
   \<exists>r\<in>set (IDB_sessions db). live_row sid r"
  using count_where_0 [of "live_row sid" "IDB_sessions db"]
  by (auto simp: requireOneRow_def split: if_splits)

lemma distinct_hash_rotate:
  assumes "sessions_ok db" and "\<not> (\<exists>r\<in>set (IDB_sessions db). Session_ID r \<noteq> sid \<and> Session_TokenHash r = h)"
  shows "sessions_ok (db\<lparr>IDB_sessions := update_where (live_row sid)
     (\<lambda>r. seen_at at (r\<lparr>Session_TokenHash := h\<rparr>)) (IDB_sessions db)\<rparr>)"
proof -
  let ?f = "\<lambda>r. if live_row sid r then seen_at at (r\<lparr>Session_TokenHash := h\<rparr>) else r"
  let ?R = "IDB_sessions db"
  have ids: "inj_on Session_ID (set ?R)" and hashes: "inj_on Session_TokenHash (set ?R)" and d: "distinct ?R"
    using assms(1) by (auto simp: sessions_ok_def distinct_map)
  have "inj_on (\<lambda>r. Session_TokenHash (?f r)) (set ?R)"
  proof (rule inj_onI)
    fix x y
    assume xy: "x \<in> set ?R" "y \<in> set ?R" "Session_TokenHash (?f x) = Session_TokenHash (?f y)"
    show "x = y"
    proof (cases "Session_ID x = Session_ID y")
      case True
      then show ?thesis using ids xy by (meson inj_onD)
    next
      case False
      then have "Session_TokenHash x = Session_TokenHash y"
        using xy assms(2) by (auto split: if_splits)
      then show ?thesis using hashes xy by (meson inj_onD)
    qed
  qed
  then have "distinct (map Session_TokenHash (map ?f ?R))"
    using d by (simp add: distinct_map comp_def)
  moreover have "map Session_ID (map ?f ?R) = map Session_ID ?R" by simp
  ultimately show ?thesis
    using assms(1) by (simp add: sessions_ok_def update_where_def del: map_map list.map_comp)
qed

lemma session_repo_rotate:
  assumes "sessions_ok db" "Store_Rotate session_repo sid h at db = (res, db')"
  shows "sessions_ok db' \<and> (case res of Inl err \<Rightarrow> db' = db
      | Inr r \<Rightarrow> r \<in> set (IDB_sessions db') \<and> live_row sid r \<and> Session_TokenHash r = h \<and>
          IDB_sessions db' = update_where (live_row sid)
            (\<lambda>r. seen_at at (r\<lparr>Session_TokenHash := h\<rparr>)) (IDB_sessions db))"
proof (cases res)
  case (Inl err)
  then show ?thesis
    using assms by (auto simp: Sessions_Rotate_def Let_def split: if_splits option.splits)
next
  case (Inr r)
  let ?rows = "update_where (live_row sid) (\<lambda>r. seen_at at (r\<lparr>Session_TokenHash := h\<rparr>)) (IDB_sessions db)"
  have one: "requireOneRow (count_where (live_row sid) (IDB_sessions db)) ''session'' sid = None"
    and sel: "select1 (\<lambda>s. Session_ID s = sid) ?rows = Some r" and db': "db' = db\<lparr>IDB_sessions := ?rows\<rparr>"
    and free: "\<not> (count_where (live_row sid) (IDB_sessions db) > 0 \<and>
      (\<exists>s\<in>set (IDB_sessions db). Session_ID s \<noteq> sid \<and> Session_TokenHash s = h))"
    using assms(2) Inr by (auto simp: Sessions_Rotate_def Let_def split: if_splits option.splits)
  obtain q where q: "q \<in> set (IDB_sessions db)" "live_row sid q"
    using live_count_pos [OF assms(1) one] by blast
  then have "count_where (live_row sid) (IDB_sessions db) \<noteq> 0" by (auto simp: count_where_0)
  with free have "\<not> (\<exists>s\<in>set (IDB_sessions db). Session_ID s \<noteq> sid \<and> Session_TokenHash s = h)" by blast
  then have "sessions_ok db'"
    using distinct_hash_rotate [OF assms(1)] db' by simp
  moreover have "select1 (\<lambda>s. Session_ID s = sid) (IDB_sessions db) = Some q"
    using q assms(1) select1_key [of Session_ID "IDB_sessions db" q] by (auto simp: sessions_ok_def)
  then have "r = seen_at at (q\<lparr>Session_TokenHash := h\<rparr>)"
    using sel q select1_update_where [of "live_row sid" Session_ID "\<lambda>r. seen_at at (r\<lparr>Session_TokenHash := h\<rparr>)" sid "IDB_sessions db"]
    by simp
  ultimately show ?thesis
    using Inr db' q select1_Some [OF sel] by simp
qed

lemma session_repo_revoke:
  assumes "sessions_ok db" "\<forall>h\<in>set after. harmless sessions_ok IDB_sessions h"
    and "Store_Revoke session_repo sid at after db = (opt, db')"
  shows "sessions_ok db' \<and> (case opt of Some err \<Rightarrow> db' = db
      | None \<Rightarrow> sid \<in> Session_ID ` set (IDB_sessions db) \<and>
          IDB_sessions db' = update_where (live_row sid) (revoked_at at) (IDB_sessions db))"
proof -
  let ?db1 = "db\<lparr>IDB_sessions := update_where (live_row sid) (revoked_at at) (IDB_sessions db)\<rparr>"
  have ok1: "sessions_ok ?db1" using assms(1) by (rule sessions_ok_update) simp
  have ids: "map Session_ID (IDB_sessions ?db1) = map Session_ID (IDB_sessions db)"
    by (simp add: map_update_where)
  show ?thesis
  proof (cases "count_where (live_row sid) (IDB_sessions db) = 1")
    case True
    then obtain q where "q \<in> set (IDB_sessions db)" "live_row sid q"
      using count_where_0 [of "live_row sid" "IDB_sessions db"] by auto
    then have "sid \<in> Session_ID ` set (IDB_sessions db)" by auto
    then show ?thesis
      using True assms(1,3) runAfter_harmless [OF assms(2) ok1, of sid]
      by (auto simp: Sessions_Revoke_def Let_def split: sum.splits)
  next
    case False
    then show ?thesis
      using assms(1,3) ok1 ids
      by (auto simp: Sessions_Revoke_def Let_def confirmSessionExists_def simp flip: set_map split: if_splits)
  qed
qed

lemma session_repo_create:
  assumes "sessions_ok db" "\<forall>h\<in>set after. harmless sessions_ok IDB_sessions h"
    and "Store_Create session_repo newID clock inp after db = (res, db')"
  shows "sessions_ok db' \<and> (case res of Inl err \<Rightarrow> db' = db
      | Inr c \<Rightarrow> IDB_sessions db' = IDB_sessions db @ [c] \<and> Session_ID c = newID \<and>
          newID \<notin> Session_ID ` set (IDB_sessions db) \<and>
          Session_UserID c = NewSession_UserID inp \<and> Session_TokenHash c = NewSession_TokenHash inp \<and>
          Session_ExpiresAt c = toStorage (NewSession_ExpiresAt inp) \<and>
          Session_CreatedAt c = toStorage clock \<and> Session_LastSeenAt c = toStorage clock \<and>
          Session_RevokedAt c = None)"
proof (cases res)
  case (Inl err)
  then show ?thesis
    using assms by (auto simp: Sessions_Create_def Let_def split: if_splits option.splits sum.splits)
next
  case (Inr c)
  then have fresh: "newID \<notin> Session_ID ` set (IDB_sessions db)"
      "NewSession_TokenHash inp \<notin> Session_TokenHash ` set (IDB_sessions db)"
    using assms(3) by (auto simp: Sessions_Create_def Let_def split: if_splits option.splits)
  let ?db1 = "db\<lparr>IDB_sessions := IDB_sessions db @ [c]\<rparr>"
  have c: "c = \<lparr>Session_ID = newID, Session_UserID = NewSession_UserID inp,
      Session_TokenHash = NewSession_TokenHash inp, Session_CreatedAt = toStorage clock,
      Session_LastSeenAt = toStorage clock, Session_ExpiresAt = toStorage (NewSession_ExpiresAt inp),
      Session_RevokedAt = None, Session_IP = NewSession_IP inp,
      Session_UserAgent = NewSession_UserAgent inp, Session_MFASatisfied = NewSession_MFASatisfied inp\<rparr>"
    and run: "runAfter newID after ?db1 = Inr db'"
    using assms(3) Inr by (auto simp: Sessions_Create_def Let_def split: if_splits option.splits sum.splits)
  have "sessions_ok ?db1"
    using assms(1) fresh c by (simp add: sessions_ok_def)
  from runAfter_harmless [OF assms(2) this run] show ?thesis
    using Inr c fresh by simp
qed

interpretation repo: session_store_contract session_repo IDB_sessions sessions_ok
proof
  fix db db' :: IDB and h sid u keep newID :: string and at clock :: gotime
    and inp :: NewSession and after :: "IDB after list" and r :: Session
    and res :: "error + Session" and opt :: "error option" and cnt :: "error + nat" and err :: error
  assume ok: "sessions_ok db"
  show "distinct (map Session_ID (IDB_sessions db)) \<and> distinct (map Session_TokenHash (IDB_sessions db))"
    using ok by (simp add: sessions_ok_def)
  show "(Store_ByTokenHash session_repo h db = Inr r) = (r \<in> set (IDB_sessions db) \<and> Session_TokenHash r = h)"
    using ok select1_key [of Session_TokenHash "IDB_sessions db" r]
    by (auto simp: Sessions_ByTokenHash_def sessions_ok_def dest: select1_Some split: option.splits)
  show "\<exists>l. Store_ListByUser session_repo u db = Inr l \<and> set l = {r \<in> set (IDB_sessions db). Session_UserID r = u}"
    by (auto simp: Sessions_ListByUser_def)
  show "errors_Is err ErrNotFound" if "Store_ByTokenHash session_repo h db = Inl err"
    using that by (auto simp: Sessions_ByTokenHash_def split: option.splits)
  show "sessions_ok db' \<and> (case cnt of Inl err \<Rightarrow> db' = db
      | Inr n \<Rightarrow> IDB_sessions db' = update_where (\<lambda>r. Session_UserID r = u \<and> Session_RevokedAt r = None)
          (revoked_at at) (IDB_sessions db))"
    if "Store_RevokeAllForUser session_repo u at db = (cnt, db')"
    using that ok by (auto simp: Sessions_RevokeAllForUser_def Let_def sessions_ok_update)
  show "sessions_ok db' \<and> (case cnt of Inl err \<Rightarrow> db' = db
      | Inr n \<Rightarrow> IDB_sessions db' = update_where
          (\<lambda>r. Session_UserID r = u \<and> Session_ID r \<noteq> keep \<and> Session_RevokedAt r = None)
          (revoked_at at) (IDB_sessions db))"
    if "Store_RevokeOthersForUser session_repo u keep at db = (cnt, db')"
    using that ok by (auto simp: Sessions_RevokeOthersForUser_def Let_def sessions_ok_update)
  show "sessions_ok db' \<and> (case opt of Some err \<Rightarrow> db' = db \<and> sid \<notin> Session_ID ` set (IDB_sessions db)
      | None \<Rightarrow> IDB_sessions db' = update_where (\<lambda>r. Session_ID r = sid) (seen_at at) (IDB_sessions db))"
    if "Store_SetLastSeenAt session_repo sid at db = (opt, db')"
    using that ok count_where_key [of Session_ID "IDB_sessions db" "\<lambda>r. Session_ID r = sid" sid]
      count_where_0 [of "\<lambda>r. Session_ID r = sid" "IDB_sessions db"]
    by (auto simp: Sessions_SetLastSeenAt_def requireOneRow_def sessions_ok_update sessions_ok_def
        map_update_where split: if_splits)
  show "sessions_ok db' \<and> (case opt of Some err \<Rightarrow> db' = db
      | None \<Rightarrow> IDB_sessions db' = update_where (live_row sid) (\<lambda>r. r\<lparr>Session_MFASatisfied := True\<rparr>) (IDB_sessions db))"
    if "Store_SetMFASatisfied session_repo sid db = (opt, db')"
    using that ok by (auto simp: Sessions_SetMFASatisfied_def sessions_ok_update split: option.splits)
  show "sessions_ok db' \<and> (case res of Inl err \<Rightarrow> db' = db
      | Inr r \<Rightarrow> r \<in> set (IDB_sessions db') \<and> live_row sid r \<and> Session_TokenHash r = h \<and>
          IDB_sessions db' = update_where (live_row sid)
            (\<lambda>r. seen_at at (r\<lparr>Session_TokenHash := h\<rparr>)) (IDB_sessions db))"
    if "Store_Rotate session_repo sid h at db = (res, db')"
    using that ok session_repo_rotate by blast
  show "sessions_ok db' \<and> (case opt of Some err \<Rightarrow> db' = db
      | None \<Rightarrow> sid \<in> Session_ID ` set (IDB_sessions db) \<and>
          IDB_sessions db' = update_where (live_row sid) (revoked_at at) (IDB_sessions db))"
    if "\<forall>h\<in>set after. harmless sessions_ok IDB_sessions h" "Store_Revoke session_repo sid at after db = (opt, db')"
    using that ok session_repo_revoke by blast
  show "sessions_ok db' \<and> (case res of Inl err \<Rightarrow> db' = db
      | Inr c \<Rightarrow> IDB_sessions db' = IDB_sessions db @ [c] \<and> Session_ID c = newID \<and>
          newID \<notin> Session_ID ` set (IDB_sessions db) \<and>
          Session_UserID c = NewSession_UserID inp \<and> Session_TokenHash c = NewSession_TokenHash inp \<and>
          Session_ExpiresAt c = toStorage (NewSession_ExpiresAt inp) \<and>
          Session_CreatedAt c = toStorage clock \<and> Session_LastSeenAt c = toStorage clock \<and>
          Session_RevokedAt c = None)"
    if "\<forall>h\<in>set after. harmless sessions_ok IDB_sessions h"
      "Store_Create session_repo newID clock inp after db = (res, db')"
    using that ok session_repo_create by blast
qed

text \<open>The manager the server runs: over the identity store, recording in the activity log.\<close>

definition identity_manager :: "(Token \<Rightarrow> string) \<Rightarrow> duration \<Rightarrow> duration \<Rightarrow> IDB Manager" where
  "identity_manager hash lifetime idleTimeout =
     \<lparr>Manager_store = session_repo, Manager_hash = hash, Manager_activity = Some Log_Record,
      Manager_lifetime = lifetime, Manager_idleTimeout = idleTimeout\<rparr>"

lemma identity_manager_simps [simp]:
  "Manager_hash (identity_manager hash lifetime idle) = hash"
  "Manager_idleTimeout (identity_manager hash lifetime idle) = idle"
  by (simp_all add: identity_manager_def)

interpretation mgr: session_manager session_repo IDB_sessions sessions_ok
  "identity_manager hash lifetime idle" for hash lifetime idle
  by unfold_locales (auto simp: identity_manager_def Log_Record_def sessions_ok_def)

section \<open>What session management promises\<close>

definition sample_session :: Session where
  "sample_session = \<lparr>Session_ID = ''s1'', Session_UserID = ''u1'', Session_TokenHash = replicate 43 CHR ''a'',
     Session_CreatedAt = 0, Session_LastSeenAt = 0, Session_ExpiresAt = 5000, Session_RevokedAt = None,
     Session_IP = [], Session_UserAgent = [], Session_MFASatisfied = False\<rparr>"

definition sample_db :: IDB where
  "sample_db = \<lparr>IDB_users = [], IDB_sessions = [sample_session], IDB_totps = [], IDB_recovery = [],
     IDB_challenges = [], IDB_members = [], IDB_activity = [], IDB_identities = [], IDB_settings = []\<rparr>"

abbreviation sample_manager :: "IDB Manager" where
  "sample_manager \<equiv> identity_manager (\<lambda>t. t) 9000 4000"

lemma sample_db_ok: "sessions_ok sample_db"
  by (simp add: sessions_ok_def sample_db_def)

text \<open>
  A token signs somebody in exactly when it has the right length and a stored session under
  its hash is not revoked, not past its absolute expiry and not idle for the timeout; in every
  other case the answer is the one error \<open>ErrNoSession\<close> and nothing is written.
\<close>

theorem Resolve_iff_usable:
  assumes "sessions_ok db"
  shows "(if length token = tokenLength \<and>
            (\<exists>r\<in>set (IDB_sessions db). Session_TokenHash r = hash token \<and> Session_RevokedAt r = None \<and>
               nowU < Session_ExpiresAt r \<and> Sub nowU (Session_LastSeenAt r) < idle)
          then \<exists>r\<in>set (IDB_sessions db). Session_TokenHash r = hash token \<and>
                 (\<exists>found. fst (Resolve (identity_manager hash lifetime idle) token nowU nowT db) = Inr found \<and>
                    Session_ID found = Session_ID r)
          else \<exists>why. Resolve (identity_manager hash lifetime idle) token nowU nowT db =
                 (Inl (ErrorfW why (Sentinel ErrNoSession)), db))"
proof -
  let ?m = "identity_manager hash lifetime idle"
  have usable: "usable ?m nowU r = None \<longleftrightarrow>
      Session_RevokedAt r = None \<and> nowU < Session_ExpiresAt r \<and> Sub nowU (Session_LastSeenAt r) < idle" for r
    by (auto simp: usable_def Before_def)
  show ?thesis
  proof (cases "length token = tokenLength \<and> (\<exists>r\<in>set (IDB_sessions db). Session_TokenHash r = hash token \<and>
      usable ?m nowU r = None)")
    case True
    then obtain r where "r \<in> set (IDB_sessions db)" "Session_TokenHash r = hash token" "usable ?m nowU r = None"
      by blast
    with True mgr.Resolve_accepts [OF assms, of token r hash lifetime idle nowU nowT]
    have "\<exists>r\<in>set (IDB_sessions db). Session_TokenHash r = hash token \<and>
        (\<exists>found. fst (Resolve ?m token nowU nowT db) = Inr found \<and> Session_ID found = Session_ID r)"
      by auto
    with True show ?thesis by (simp add: usable)
  next
    case False
    have "\<exists>why. Resolve ?m token nowU nowT db = (Inl (ErrorfW why (Sentinel ErrNoSession)), db)"
    proof (cases "length token = tokenLength")
      case True
      show ?thesis
        by (rule mgr.Resolve_refuses [OF assms]) (use False True in auto)
    qed (simp add: Resolve_def)
    with False show ?thesis by (auto simp: usable)
  qed
qed

theorem Resolve_iff_usable_witness:
  "\<exists>found. fst (Resolve sample_manager (replicate 43 CHR ''a'') 3000 3000 sample_db) = Inr found \<and>
     Session_ID found = ''s1''"
  using Resolve_iff_usable [OF sample_db_ok, of "replicate 43 CHR ''a''" "\<lambda>t. t" 3000 4000 9000 3000]
  by (simp add: sample_db_def sample_session_def tokenLength_def TokenBytes_def Sub_def
      minDuration_def maxDuration_def)

text \<open>
  C5. Revocation is permanent: once a session has been revoked, no sequence of the manager's
  operations (new sign-ins, rotations, second factors and touches included) makes any token
  resolve to it again.
\<close>

theorem revoked_for_good:
  assumes "sessions_ok db"
    and "RevokeAs (identity_manager hash lifetime idle) now sid actor db = (None, db1)"
    and "(manager_step (identity_manager hash lifetime idle))\<^sup>*\<^sup>* db1 db2"
    and "fst (Resolve (identity_manager hash lifetime idle) token nowU nowT db2) = Inr found"
  shows "Session_ID found \<noteq> sid"
proof -
  obtain r where r: "r \<in> set (IDB_sessions db1)" "Session_ID r = sid" "Session_RevokedAt r \<noteq> None"
    using mgr.RevokeAs_revokes [OF assms(1,2)] by blast
  have ok: "sessions_ok db1"
    using mgr.Revoke_step [OF assms(1)] assms(2) by (metis snd_conv)
  show ?thesis
    using mgr.dead_stays_dead [OF assms(3) ok r(1) _ assms(4) order_refl] r(2,3) by simp
qed

theorem revoked_for_good_witness:
  "\<not> (\<exists>found. fst (Resolve sample_manager (replicate 43 CHR ''a'') 3000 3000
       (snd (RevokeAs sample_manager 2000 ''s1'' ''u1'' sample_db))) = Inr found \<and> Session_ID found = ''s1'')"
proof -
  have "fst (RevokeAs sample_manager 2000 ''s1'' ''u1'' sample_db) = None"
    by code_simp
  then have "RevokeAs sample_manager 2000 ''s1'' ''u1'' sample_db =
      (None, snd (RevokeAs sample_manager 2000 ''s1'' ''u1'' sample_db))"
    by (metis prod.collapse)
  from revoked_for_good [OF sample_db_ok this rtranclp.rtrancl_refl] show ?thesis by blast
qed

text \<open>
  No operation extends a session: whatever happens to it, rotation and the second factor
  included, at or after the absolute expiry it was created with no token resolves to it.
\<close>

theorem expiry_is_absolute:
  assumes "sessions_ok db" "r \<in> set (IDB_sessions db)"
    and "(manager_step (identity_manager hash lifetime idle))\<^sup>*\<^sup>* db db1"
    and "fst (Resolve (identity_manager hash lifetime idle) token nowU nowT db1) = Inr found"
    and "Session_ExpiresAt r \<le> nowU"
  shows "Session_ID found \<noteq> Session_ID r"
  using mgr.dead_stays_dead [OF assms(3,1,2) _ assms(4) order_refl] assms(5) by blast

theorem expiry_is_absolute_witness:
  "\<not> (\<exists>found. fst (Resolve sample_manager (replicate 43 CHR ''b'') 5000 5000
       (snd (Rotate sample_manager (replicate 43 CHR ''b'') 4990 ''s1'' sample_db))) = Inr found \<and>
     Session_ID found = ''s1'')"
proof -
  have "(manager_step sample_manager)\<^sup>*\<^sup>* sample_db
      (snd (Rotate sample_manager (replicate 43 CHR ''b'') 4990 ''s1'' sample_db))"
    by (rule r_into_rtranclp) (rule manager_step.rotate)
  from expiry_is_absolute [OF sample_db_ok _ this, of sample_session] show ?thesis
    by (fastforce simp: sample_db_def sample_session_def)
qed

text \<open>
  Rotation is a defence against fixation: after a session moves to a new token, the token it
  had resolves to nothing.
\<close>

theorem rotation_kills_old_token:
  assumes "sessions_ok db" "r \<in> set (IDB_sessions db)" "Session_TokenHash r = hash old"
    and "Rotate (identity_manager hash lifetime idle) new now (Session_ID r) db = (Inr issued, db1)"
    and "hash new \<noteq> hash old"
  shows "\<exists>why. Resolve (identity_manager hash lifetime idle) old nowU nowT db1 =
     (Inl (ErrorfW why (Sentinel ErrNoSession)), db1)"
  using mgr.Rotate_kills_token [OF assms(1,2) _ assms(4)] assms(3,5) by simp

theorem rotation_kills_old_token_witness:
  "\<exists>why. fst (Resolve sample_manager (replicate 43 CHR ''a'') 3000 3000
     (snd (Rotate sample_manager (replicate 43 CHR ''b'') 2000 ''s1'' sample_db))) =
     Inl (ErrorfW why (Sentinel ErrNoSession))"
proof -
  have "\<not> isl (fst (Rotate sample_manager (replicate 43 CHR ''b'') 2000 ''s1'' sample_db))"
    by code_simp
  then obtain issued where "Rotate sample_manager (replicate 43 CHR ''b'') 2000 ''s1'' sample_db =
      (Inr issued, snd (Rotate sample_manager (replicate 43 CHR ''b'') 2000 ''s1'' sample_db))"
    by (metis prod.collapse isl_def sum.exhaust)
  moreover have "sample_session \<in> set (IDB_sessions sample_db)" "Session_ID sample_session = ''s1''"
    "Session_TokenHash sample_session = replicate 43 CHR ''a''"
    by (simp_all add: sample_db_def sample_session_def)
  moreover have "replicate 43 CHR ''b'' \<noteq> replicate 43 CHR ''a''" by simp
  ultimately show ?thesis
    using rotation_kills_old_token [OF sample_db_ok, of sample_session "\<lambda>t. t" "replicate 43 CHR ''a''"]
    by (metis fst_conv)
qed

text \<open>
  Nobody ends somebody else's session through an identifier: \<open>RevokeOwned\<close> on a session of
  another user answers not-found, exactly as for an identifier that names nothing, and changes
  nothing; and \<open>Live\<close> lists exactly the caller's sessions that would still authenticate.
\<close>

theorem RevokeOwned_Live:
  assumes "sessions_ok db"
  shows "((\<forall>r\<in>set (IDB_sessions db). Session_ID r = sid \<longrightarrow> Session_UserID r \<noteq> u) \<longrightarrow>
      RevokeOwned (identity_manager hash lifetime idle) now u sid db = (Some (NotFound ''session'' sid), db)) \<and>
    (\<exists>l. Live (identity_manager hash lifetime idle) now u db = Inr l \<and>
       set l = {r \<in> set (IDB_sessions db). Session_UserID r = u \<and>
                usable (identity_manager hash lifetime idle) now r = None})"
  using mgr.RevokeOwned_foreign [OF assms] mgr.Live_rows [OF assms] by blast

theorem RevokeOwned_Live_witness:
  "RevokeOwned sample_manager 2000 ''u2'' ''s1'' sample_db = (Some (NotFound ''session'' ''s1''), sample_db)"
  using RevokeOwned_Live [OF sample_db_ok, of "''s1''" "''u2''"]
  by (simp add: sample_db_def sample_session_def)

end
