(* ===== verification/Recovery.thy ===== *)
theory Recovery
  imports Go_Base "HOL-Library.Word"
begin

text \<open>
  Recovery codes (internal/authn/recovery/recovery.go): how a code is minted from random bytes,
  printed in groups, and read back from what a person typed. Typed input is a list of runes
  (Unicode code points), so that the two letters outside ASCII whose upper case is an ASCII
  letter are seen; a code is a string over the alphabet. Random bytes are an argument of the
  minting. The keyed hash of a code is HMAC-SHA256, whose definition is not in the repository,
  and is left out; so are the renderings that print a placeholder.
\<close>

section \<open>Codes\<close>

definition SetSize :: nat where "SetSize = 10"
definition Length :: nat where "Length = 20"
definition group_size :: nat where "group_size = 4"
definition separator :: string where "separator = ''-''"
definition alphabet :: string where "alphabet = ''0123456789ABCDEFGHJKMNPQRSTVWXYZ''"
definition mask :: "8 word" where "mask = 0x1f"

type_synonym rune = nat
type_synonym RecoveryToken = string

datatype malformed = NotOneOfItsCharacters rune | WrongLength nat

text \<open>The loop of \<open>Printed\<close>: i runs over the code in steps of a group.\<close>

function Printed_loop :: "nat \<Rightarrow> RecoveryToken \<Rightarrow> string" where
  "Printed_loop i [] = []"
| "Printed_loop i (c # raw) =
     (if i > 0 then separator else []) @ take group_size (c # raw) @
     Printed_loop (i + group_size) (drop group_size (c # raw))"
  by pat_completeness auto
termination
  by (relation "measure (\<lambda>(i, raw). length raw)") (auto simp: group_size_def)

definition Printed :: "RecoveryToken \<Rightarrow> string" where
  "Printed c = (if c = [] then [] else Printed_loop 0 c)"

text \<open>\<open>Length\<close> random bytes make one code; \<open>Generate\<close> mints \<open>SetSize\<close> of them, the i-th from the i-th read.\<close>

definition generateOne :: "8 word list \<Rightarrow> RecoveryToken" where
  "generateOne raw = map (\<lambda>b. alphabet ! unat (and b mask)) raw"

definition Generate :: "(nat \<Rightarrow> 8 word list) \<Rightarrow> RecoveryToken list" where
  "Generate raws = map (\<lambda>i. generateOne (raws i)) [0..<SetSize]"

section \<open>Reading a code back\<close>

text \<open>
  \<open>unicode.IsSpace\<close>, and \<open>strings.ToUpper\<close> as far as the parser can tell: the ASCII letters, the
  dotless i (U+0131) and the long s (U+017F) become ASCII capitals; every other rune outside
  ASCII stays outside it.
\<close>

definition IsSpace :: "rune \<Rightarrow> bool" where
  "IsSpace r \<longleftrightarrow> r \<in> {9, 10, 11, 12, 13, 32, 0x85, 0xA0, 0x1680, 0x2028, 0x2029, 0x202F, 0x205F, 0x3000} \<or>
     0x2000 \<le> r \<and> r \<le> 0x200A"

definition TrimSpace_runes :: "rune list \<Rightarrow> rune list" where
  "TrimSpace_runes s = rev (dropWhile IsSpace (rev (dropWhile IsSpace s)))"

definition ToUpper :: "rune \<Rightarrow> rune" where
  "ToUpper r =
     (if 97 \<le> r \<and> r \<le> 122 then r - 32
      else if r = 0x131 then 0x49
      else if r = 0x17F then 0x53
      else r)"

definition rune_of :: "char \<Rightarrow> rune" where
  "rune_of c = of_char c"

fun Parse_loop :: "string \<Rightarrow> rune list \<Rightarrow> malformed + string" where
  "Parse_loop out [] = Inr out"
| "Parse_loop out (r # rs) =
     (if r = rune_of CHR ''-'' \<or> r = rune_of CHR '' '' then Parse_loop out rs
      else if r = rune_of CHR ''O'' then Parse_loop (out @ ''0'') rs
      else if r = rune_of CHR ''I'' \<or> r = rune_of CHR ''L'' then Parse_loop (out @ ''1'') rs
      else if r \<in> set (map rune_of alphabet) then Parse_loop (out @ [char_of r]) rs
      else Inl (NotOneOfItsCharacters r))"

definition Parse :: "rune list \<Rightarrow> malformed + RecoveryToken" where
  "Parse input =
     (case Parse_loop [] (map ToUpper (TrimSpace_runes input)) of
        Inl err \<Rightarrow> Inl err
      | Inr out \<Rightarrow> if length out \<noteq> Length then Inl (WrongLength (length out)) else Inr out)"

section \<open>What a spelling stands for\<close>

definition code_ok :: "RecoveryToken \<Rightarrow> bool" where
  "code_ok c \<longleftrightarrow> length c = Length \<and> set c \<subseteq> set alphabet"

definition is_separator :: "rune \<Rightarrow> bool" where
  "is_separator r \<longleftrightarrow> r = rune_of CHR ''-'' \<or> r = rune_of CHR '' ''"

text \<open>The runes a reader may take for a character of the alphabet.\<close>

definition resembles :: "rune \<Rightarrow> char \<Rightarrow> bool" where
  "resembles r c \<longleftrightarrow> c \<in> set alphabet \<and>
     (r = rune_of c \<or>
      65 \<le> rune_of c \<and> r = rune_of c + 32 \<or>
      c = CHR ''0'' \<and> r \<in> {rune_of CHR ''O'', rune_of CHR ''o''} \<or>
      c = CHR ''1'' \<and> r \<in> {rune_of CHR ''I'', rune_of CHR ''i'', rune_of CHR ''L'', rune_of CHR ''l'', 0x131} \<or>
      c = CHR ''S'' \<and> r = 0x17F)"

text \<open>What one rune of the upper-cased input contributes.\<close>

definition fold_rune :: "rune \<Rightarrow> char option" where
  "fold_rune r =
     (if r = rune_of CHR ''O'' then Some CHR ''0''
      else if r = rune_of CHR ''I'' \<or> r = rune_of CHR ''L'' then Some CHR ''1''
      else if r \<in> set (map rune_of alphabet) then Some (char_of r)
      else None)"

lemma rune_simps [simp]:
  "rune_of CHR ''O'' = 79" "rune_of CHR ''o'' = 111" "rune_of CHR ''I'' = 73" "rune_of CHR ''i'' = 105"
  "rune_of CHR ''L'' = 76" "rune_of CHR ''l'' = 108" "rune_of CHR ''-'' = 45" "rune_of CHR '' '' = 32"
  "rune_of CHR ''0'' = 48" "rune_of CHR ''1'' = 49" "rune_of CHR ''S'' = 83"
  by (simp_all add: rune_of_def)

lemma rune_of_inj [simp]: "rune_of c = rune_of d \<longleftrightarrow> c = d"
  by (simp add: rune_of_def)

lemma char_rune [simp]: "char_of (rune_of c) = c"
  by (simp add: rune_of_def)

lemma alphabet_runes: "\<forall>c\<in>set alphabet. rune_of c < 91 \<and> rune_of c \<notin> {32, 45, 73, 76, 79}"
  by (simp add: alphabet_def rune_of_def)

lemma digits_alphabet: "CHR ''0'' \<in> set alphabet" "CHR ''1'' \<in> set alphabet"
  by (simp_all add: alphabet_def)

lemma ToUpper_eq:
  "n < 91 \<Longrightarrow> ToUpper r = n \<longleftrightarrow>
     r = n \<or> 65 \<le> n \<and> r = n + 32 \<or> n = 0x49 \<and> r = 0x131 \<or> n = 0x53 \<and> r = 0x17F"
  by (auto simp: ToUpper_def)

lemma fold_rune_Some:
  "fold_rune r = Some c \<longleftrightarrow>
     r = 79 \<and> c = CHR ''0'' \<or> r \<in> {73, 76} \<and> c = CHR ''1'' \<or> c \<in> set alphabet \<and> r = rune_of c"
  using alphabet_runes by (auto simp: fold_rune_def)

lemma resembles_fold: "resembles r c \<longleftrightarrow> fold_rune (ToUpper r) = Some c"
proof (cases "c \<in> set alphabet")
  case True
  then have "rune_of c < 91" "rune_of c \<noteq> 73" using alphabet_runes by auto
  moreover have "rune_of c = 83 \<longleftrightarrow> c = CHR ''S''"
    by (metis rune_of_inj rune_simps(11))
  ultimately show ?thesis
    using True unfolding resembles_def fold_rune_Some
    by (auto simp: ToUpper_eq)
next
  case False
  then show ?thesis
    using digits_alphabet unfolding resembles_def fold_rune_Some by auto
qed

lemma separator_upper: "is_separator r \<longleftrightarrow> ToUpper r = 45 \<or> ToUpper r = 32"
  by (auto simp: is_separator_def ToUpper_eq)

section \<open>The loop\<close>

lemma Parse_loop_step:
  "Parse_loop out (r # rs) =
     (if r = 45 \<or> r = 32 then Parse_loop out rs
      else case fold_rune r of
             Some c \<Rightarrow> Parse_loop (out @ [c]) rs
           | None \<Rightarrow> Inl (NotOneOfItsCharacters r))"
  by (auto simp: fold_rune_def)

lemma Parse_loop_extends: "Parse_loop out rs = Inr res \<Longrightarrow> \<exists>c. res = out @ c"
proof (induction rs arbitrary: out)
  case (Cons r rs)
  then show ?case
    unfolding Parse_loop_step by (fastforce split: if_splits option.splits)
qed simp

lemma Parse_loop_iff:
  "Parse_loop out (map ToUpper rs) = Inr (out @ c) \<longleftrightarrow>
     list_all2 resembles (filter (\<lambda>r. \<not> is_separator r) rs) c"
proof (induction rs arbitrary: out c)
  case (Cons r rs)
  show ?case
  proof (cases "is_separator r")
    case True
    then have "Parse_loop out (map ToUpper (r # rs)) = Parse_loop out (map ToUpper rs)"
      by (simp add: Parse_loop_step separator_upper del: Parse_loop.simps(2))
    then show ?thesis using Cons.IH [of out c] True by simp
  next
    case False
    note step = Parse_loop_step [of out "ToUpper r" "map ToUpper rs"]
    show ?thesis
    proof (cases "fold_rune (ToUpper r)")
      case None
      then have "\<not> resembles r d" for d by (simp add: resembles_fold)
      then show ?thesis
        using False None step by (simp add: separator_upper list_all2_Cons1 del: Parse_loop.simps(2))
    next
      case (Some d)
      then have r: "resembles r e \<longleftrightarrow> e = d" for e by (auto simp: resembles_fold)
      have "Parse_loop out (map ToUpper (r # rs)) = Parse_loop (out @ [d]) (map ToUpper rs)"
        using False Some step by (simp add: separator_upper del: Parse_loop.simps(2))
      moreover have "Parse_loop (out @ [d]) (map ToUpper rs) = Inr (out @ c) \<longleftrightarrow>
          (\<exists>c'. c = d # c' \<and> list_all2 resembles (filter (\<lambda>r. \<not> is_separator r) rs) c')"
        using Cons.IH [of "out @ [d]"] Parse_loop_extends [of "out @ [d]" "map ToUpper rs"] by fastforce
      ultimately show ?thesis
        using False r by (auto simp: list_all2_Cons1 simp del: Parse_loop.simps(2))
    qed
  qed
qed auto

section \<open>Printing\<close>

lemma Printed_loop_chars: "filter (\<lambda>c. c \<noteq> CHR ''-'') (Printed_loop i c) = filter (\<lambda>c. c \<noteq> CHR ''-'') c"
proof (induction i c rule: Printed_loop.induct)
  case (2 i c raw)
  then have "filter (\<lambda>c. c \<noteq> CHR ''-'') (Printed_loop i (c # raw)) =
      filter (\<lambda>c. c \<noteq> CHR ''-'') (take group_size (c # raw) @ drop group_size (c # raw))"
    by (simp add: separator_def del: append_take_drop_id)
  then show ?case by simp
qed simp

lemma set_Printed_loop: "set (Printed_loop i c) \<subseteq> insert CHR ''-'' (set c)"
proof (induction i c rule: Printed_loop.induct)
  case (2 i c raw)
  then show ?case
    using set_take_subset [of group_size "c # raw"] set_drop_subset [of group_size "c # raw"]
    by (auto simp: separator_def)
qed simp

lemma resembles_self: "c \<in> set alphabet \<Longrightarrow> resembles (rune_of c) c"
  by (simp add: resembles_def)

lemma not_space: "c \<in> insert CHR ''-'' (set alphabet) \<Longrightarrow> \<not> IsSpace (rune_of c)"
proof -
  have "\<forall>c\<in>insert CHR ''-'' (set alphabet). rune_of c < 0x80 \<and> 32 < rune_of c"
    by (simp add: alphabet_def rune_of_def)
  moreover assume "c \<in> insert CHR ''-'' (set alphabet)"
  ultimately show ?thesis by (auto simp: IsSpace_def)
qed

lemma dropWhile_pad:
  assumes "\<forall>x\<in>set xs. P x" "\<forall>y\<in>set ys. \<not> P y" "ys \<noteq> []"
  shows "dropWhile P (xs @ ys @ zs) = ys @ zs"
proof -
  obtain y ys' where "ys = y # ys'" using assms(3) by (cases ys) auto
  then show ?thesis using assms(1,2) by (induction xs) auto
qed

lemma TrimSpace_pad:
  assumes "\<forall>r\<in>set before \<union> set after. IsSpace r" "\<forall>r\<in>set s. \<not> IsSpace r" "s \<noteq> []"
  shows "TrimSpace_runes (before @ s @ after) = s"
  using dropWhile_pad [of before IsSpace s after] dropWhile_pad [of "rev after" IsSpace "rev s" "[]"] assms
  by (simp add: TrimSpace_runes_def)

lemma Parse_iff:
  "Parse input = Inr c \<longleftrightarrow>
     length c = Length \<and> list_all2 resembles (filter (\<lambda>r. \<not> is_separator r) (TrimSpace_runes input)) c"
  using Parse_loop_iff [of "[]" "TrimSpace_runes input" c]
  by (auto simp: Parse_def split: sum.splits)

lemma resembles_alphabet: "list_all2 resembles rs c \<Longrightarrow> set c \<subseteq> set alphabet"
  by (auto simp: list_all2_conv_all_nth in_set_conv_nth resembles_def)

text \<open>
  \<open>Parse\<close> accepts exactly the spellings of a code: once surrounding space is trimmed and
  hyphens and blanks are dropped there must be twenty runes, each standing for a character of
  the alphabet (itself, its lower case, O for 0, I or L for 1). The code it answers is the one
  spelled and is always well formed.
\<close>

theorem Parse_spellings:
  "(Parse input = Inr c) =
     (code_ok c \<and> list_all2 resembles (filter (\<lambda>r. \<not> is_separator r) (TrimSpace_runes input)) c)"
  using resembles_alphabet by (auto simp: Parse_iff code_ok_def)

text \<open>
  Printing and parsing: the printed form of a code, five groups of four with hyphens,
  and with any white space around it, parses back to exactly that code.
\<close>

theorem Parse_Printed:
  assumes "code_ok c" and "\<forall>r\<in>set before \<union> set after. IsSpace r"
  shows "Parse (before @ map rune_of (Printed c) @ after) = Inr c"
proof -
  have c: "length c = Length" "set c \<subseteq> set alphabet" using assms by (auto simp: code_ok_def)
  have pr: "Printed c = Printed_loop 0 c" by (simp add: Printed_def)
  have "set (Printed c) \<subseteq> insert CHR ''-'' (set alphabet)"
    using set_Printed_loop [of 0 c] c(2) pr by auto
  then have visible: "\<not> IsSpace r" if "r \<in> set (map rune_of (Printed c))" for r
    using that not_space by auto
  have seps: "\<not> is_separator (rune_of x) \<longleftrightarrow> x \<noteq> CHR ''-''" if x: "x \<in> set (Printed c)" for x
  proof -
    have "rune_of x = 45 \<longleftrightarrow> x = CHR ''-''" by (metis rune_of_inj rune_simps(7))
    moreover have "rune_of x \<noteq> 32" using x visible [of "rune_of x"] by (auto simp: IsSpace_def)
    ultimately show ?thesis by (simp add: is_separator_def)
  qed
  have hyphen: "CHR ''-'' \<notin> set c" using c(2) by (auto simp: alphabet_def)
  have "filter (\<lambda>r. \<not> is_separator r) (map rune_of (Printed c)) = map rune_of (filter (\<lambda>x. x \<noteq> CHR ''-'') (Printed c))"
    using seps by (simp add: filter_map comp_def cong: filter_cong)
  also have same: "filter (\<lambda>x. x \<noteq> CHR ''-'') (Printed c) = c"
    using Printed_loop_chars [of 0 c] hyphen pr filter_id_conv [of "\<lambda>x. x \<noteq> CHR ''-''" c] by auto
  finally have "filter (\<lambda>r. \<not> is_separator r) (map rune_of (Printed c)) = map rune_of c" .
  moreover have "list_all2 resembles (map rune_of c) c"
    using c(2) by (auto simp: list_all2_conv_all_nth intro!: resembles_self)
  moreover have "Printed c \<noteq> []" using same c(1) by (auto simp: Length_def)
  then have "TrimSpace_runes (before @ map rune_of (Printed c) @ after) = map rune_of (Printed c)"
    using assms(2) visible by (intro TrimSpace_pad) auto
  ultimately show ?thesis using c(1) by (simp add: Parse_iff)
qed

definition sample_code :: RecoveryToken where
  "sample_code = ''0123456789ABCDEFGHJK''"

theorem Parse_Printed_witness:
  "Parse ([32] @ map rune_of ''0123-4567-89AB-CDEF-GHJK'' @ [10]) = Inr sample_code"
proof -
  have "code_ok sample_code"
    by (simp add: code_ok_def sample_code_def Length_def alphabet_def)
  moreover have "Printed sample_code = ''0123-4567-89AB-CDEF-GHJK''"
    by (simp add: sample_code_def Printed_def group_size_def separator_def)
  ultimately show ?thesis
    using Parse_Printed [of sample_code "[32]" "[10]"] by (simp add: IsSpace_def)
qed

section \<open>Minting\<close>

lemma and_mask: "unat (and b mask) = unat b mod 32"
proof -
  have "and b mask = take_bit 5 b"
    by (simp add: mask_def take_bit_eq_mask mask_numeral)
  then show ?thesis by (simp add: take_bit_eq_mod unat_mod)
qed

lemma count_mod:
  assumes "i < 32"
  shows "length (filter (\<lambda>n :: nat. n mod 32 = i) [0..<32 * k]) = k"
proof (induction k)
  case (Suc k)
  have block: "length (filter (\<lambda>n. n mod 32 = i) (map (\<lambda>n. n + 32 * k) [0..<32])) = 1"
  proof -
    have "length (filter (\<lambda>n. n mod 32 = i) (map (\<lambda>n. n + 32 * k) [0..<32])) =
        length (filter (\<lambda>n. n mod 32 = i) [0..<32])"
      by (simp only: filter_map comp_def length_map mod_mult_self2 mod_mult_self1)
    also have "\<dots> = card (set (filter (\<lambda>n. n mod 32 = i) [0..<32]))"
      by (rule sym, rule distinct_card) simp
    also have "set (filter (\<lambda>n. n mod 32 = i) [0..<32]) = {i}"
      using assms by (auto simp only: set_filter set_upt atLeastLessThan_iff mod_less)
    finally show ?thesis by simp
  qed
  have "[0..<32 * Suc k] = [0..<32 * k] @ map (\<lambda>n. n + 32 * k) [0..<32]"
    using upt_add_eq_append [of 0 "32 * k" 32] map_add_upt [of "32 * k" 32] by (simp add: add.commute)
  then show ?case using Suc block by (simp only: filter_append length_append)
qed simp

text \<open>
  Minting is sound and unbiased: every twenty bytes give a well formed code, so it parses back
  from its printed form, and each character of the alphabet is the image of exactly eight of
  the 256 bytes.
\<close>

theorem generateOne_uniform:
  "(length raw = Length \<longrightarrow> Parse (map rune_of (Printed (generateOne raw))) = Inr (generateOne raw)) \<and>
   (i < 32 \<longrightarrow> length (filter (\<lambda>b. generateOne [b] = [alphabet ! i]) (map of_nat [0..<256])) = 8)"
proof (intro conjI impI)
  assume raw: "length raw = Length"
  have len: "length alphabet = 32" by (simp add: alphabet_def)
  have "code_ok (generateOne raw)"
    using raw by (auto simp: code_ok_def generateOne_def and_mask len intro!: nth_mem)
  from Parse_Printed [OF this, of "[]" "[]"]
  show "Parse (map rune_of (Printed (generateOne raw))) = Inr (generateOne raw)" by simp
next
  assume i: "i < 32"
  have bytes: "32 * 8 = (256 :: nat)" by simp
  have dist: "distinct alphabet" and len: "length alphabet = 32" by (simp_all add: alphabet_def)
  have "generateOne [of_nat n] = [alphabet ! i] \<longleftrightarrow> n mod 32 = i" if "n < 256" for n
    using that i nth_eq_iff_index_eq [OF dist, of "n mod 32" i] len
    by (simp add: generateOne_def and_mask unat_of_nat)
  then have "filter (\<lambda>n. generateOne [of_nat n] = [alphabet ! i]) [0..<256] = filter (\<lambda>n. n mod 32 = i) [0..<256]"
    by (intro filter_cong) (auto simp only: set_upt atLeastLessThan_iff)
  then have "length (filter (\<lambda>b. generateOne [b] = [alphabet ! i]) (map of_nat [0..<256])) =
      length (filter (\<lambda>n. n mod 32 = i) [0..<256])"
    by (simp only: filter_map comp_def length_map)
  also have "\<dots> = 8"
    using count_mod [OF i, of 8] by (simp only: bytes)
  finally show "length (filter (\<lambda>b. generateOne [b] = [alphabet ! i]) (map of_nat [0..<256])) = 8" .
qed

theorem generateOne_uniform_witness:
  "length (filter (\<lambda>b. generateOne [b] = [CHR ''5'']) (map of_nat [0..<256])) = 8"
proof -
  have "alphabet ! 5 = CHR ''5''" by (simp add: alphabet_def)
  moreover have "length (filter (\<lambda>b. generateOne [b] = [alphabet ! 5]) (map of_nat [0..<256])) = 8"
    using generateOne_uniform [of "[]" 5] by (simp only: rel_simps simp_thms)
  ultimately show ?thesis by (simp only:)
qed

end
