(* ===== verification/Second_Factor.thy ===== *)
theory Second_Factor
  imports Session Recovery
begin

text \<open>
  The second factor (internal/authn/totp/totp.go, internal/authn/challenge/challenge.go,
  \<open>VerifyTOTP\<close> of internal/authn/mfa.go and \<open>VerifyRecoveryCode\<close> of internal/authn/recovery.go).
  The code generator is the third-party package pquerna/otp and the cipher that opens a stored
  secret and the hash of a recovery code are keyed functions: they are arguments. A sign-in is
  the sequence of store calls the code makes; the guard in each statement is what makes it safe
  against others running in between, so the lemmas about spending are stated over arbitrary
  interleavings of the store's operations.
\<close>

section \<open>Time steps and codes (totp.go)\<close>

definition Period :: duration where "Period = 30 * Second"
definition Skew :: int where "Skew = 1"

abbreviation ErrNoMatch :: string where "ErrNoMatch \<equiv> ''totp: the code does not match''"

text \<open>Seconds from year 1 to the Unix epoch; \<open>Unix\<close> rounds down.\<close>

definition unixEpoch :: int where "unixEpoch = 62135596800"

definition Unix :: "gotime \<Rightarrow> int" where
  "Unix t = t div Second - unixEpoch"

definition Step :: "gotime \<Rightarrow> int" where
  "Step at = quot (Unix at) (quot Period Second)"

definition stepTime :: "int \<Rightarrow> gotime" where
  "stepTime step = (step * quot Period Second + unixEpoch) * Second"

type_synonym code_generator = "string \<Rightarrow> gotime \<Rightarrow> error + string"

fun Validate_loop :: "code_generator \<Rightarrow> string \<Rightarrow> string \<Rightarrow> int \<Rightarrow> int list \<Rightarrow> error + int" where
  "Validate_loop gen secret code after [] = Inl (Sentinel ErrNoMatch)"
| "Validate_loop gen secret code after (step # steps) =
     (if step \<le> after then Validate_loop gen secret code after steps
      else case gen secret (stepTime step) of
             Inl err \<Rightarrow> Inl (ErrorfW ''totp: generate the expected code'' err)
           | Inr expected \<Rightarrow>
               if expected = code then Inr step else Validate_loop gen secret code after steps)"

definition Validate :: "code_generator \<Rightarrow> string \<Rightarrow> string \<Rightarrow> gotime \<Rightarrow> int \<Rightarrow> error + int" where
  "Validate gen secret code at after =
     (let code = TrimSpace code in
      if secret = [] \<or> code = [] then
        Inl (ErrorfW ''the secret or the code is empty'' (Sentinel ErrNoMatch))
      else
        (let now = Step at in Validate_loop gen secret code after [now - Skew..now + Skew]))"

section \<open>Pending sign-ins (challenge.go)\<close>

abbreviation ErrNoChallenge :: string where "ErrNoChallenge \<equiv> ''challenge: no usable MFA challenge''"

record Challenges =
  Challenges_hash :: "Token \<Rightarrow> string"
  Challenges_ttl :: duration

record IssuedChallenge =
  IssuedChallenge_Challenge :: MFAChallenge
  IssuedChallenge_Token :: Token

definition Challenge_Open :: "Challenges \<Rightarrow> string \<Rightarrow> gotime \<Rightarrow> Token \<Rightarrow> gotime \<Rightarrow> string \<Rightarrow> IDB \<Rightarrow>
    (error + IssuedChallenge) \<times> IDB" where
  "Challenge_Open c newID clock token now userID db =
     (case MFAChallenges_Open newID clock
             \<lparr>NewMFAChallenge_UserID = userID, NewMFAChallenge_TokenHash = Challenges_hash c token,
              NewMFAChallenge_ExpiresAt = Add now (Challenges_ttl c)\<rparr> db of
        (Inl err, db') \<Rightarrow> (Inl err, db')
      | (Inr opened, db') \<Rightarrow>
          (Inr \<lparr>IssuedChallenge_Challenge = opened, IssuedChallenge_Token = token\<rparr>, db'))"

definition Challenge_Resolve :: "Challenges \<Rightarrow> Token \<Rightarrow> gotime \<Rightarrow> IDB \<Rightarrow> error + MFAChallenge" where
  "Challenge_Resolve c token now db =
     (if length token \<noteq> tokenLength then
        Inl (ErrorfW ''the cookie is absent or not a token'' (Sentinel ErrNoChallenge))
      else case MFAChallenges_ByTokenHash (Challenges_hash c token) db of
        Inl err \<Rightarrow>
          if errors_Is err ErrNotFound then
            Inl (ErrorfW ''no challenge for that token'' (Sentinel ErrNoChallenge))
          else Inl err
      | Inr found \<Rightarrow>
          if MFAChallenge_ConsumedAt found \<noteq> None then
            Inl (ErrorfW (''challenge '' @ MFAChallenge_ID found @ '' was spent'') (Sentinel ErrNoChallenge))
          else if \<not> Before now (MFAChallenge_ExpiresAt found) then
            Inl (ErrorfW (''challenge '' @ MFAChallenge_ID found @ '' expired'') (Sentinel ErrNoChallenge))
          else Inr found)"

definition Challenge_Spend :: "string \<Rightarrow> gotime \<Rightarrow> IDB \<Rightarrow> (error + bool) \<times> IDB" where
  "Challenge_Spend cid now db = MFAChallenges_Consume cid now db"

definition Challenge_Discard :: "string \<Rightarrow> IDB \<Rightarrow> IDB" where
  "Challenge_Discard userID db = MFAChallenges_DeleteForUser userID db"

section \<open>Completing a sign-in (mfa.go, recovery.go)\<close>

record Service =
  Service_gen :: code_generator
  Service_open :: "string \<Rightarrow> error + string"
  Service_codeHash :: "string \<Rightarrow> string"
  Service_challenges :: Challenges
  Service_sessions :: "IDB Manager"

record Caller =
  Caller_UserID :: string
  Caller_Email :: string
  Caller_DisplayName :: string
  Caller_PlatformRole :: PlatformRole
  Caller_Method :: Method
  Caller_SessionID :: string
  Caller_TokenID :: string
  Caller_TokenScopes :: "TokenScope list"
  Caller_TokenEngagementID :: string
  Caller_MFASatisfied :: bool
  Caller_MFAEnrolmentRequired :: bool

definition subjectOf :: "User \<Rightarrow> Session \<Rightarrow> Caller" where
  "subjectOf user sess =
     \<lparr>Caller_UserID = User_ID user, Caller_Email = User_Email user,
      Caller_DisplayName = User_DisplayName user, Caller_PlatformRole = User_PlatformRole user,
      Caller_Method = MethodNone, Caller_SessionID = Session_ID sess, Caller_TokenID = [], Caller_TokenScopes = [],
      Caller_TokenEngagementID = [], Caller_MFASatisfied = Session_MFASatisfied sess,
      Caller_MFAEnrolmentRequired = False\<rparr>"

record VerifyResult =
  VerifyResult_Subject :: Caller
  VerifyResult_Issued :: Issued

text \<open>What one request draws from outside: clock readings in order, the new session's id and token.\<close>

record Draws =
  Draws_resolve :: gotime
  Draws_check :: gotime
  Draws_accept :: gotime
  Draws_spend :: gotime
  Draws_issue :: gotime
  Draws_store :: gotime
  Draws_sessionID :: string
  Draws_token :: Token

definition confirmedTOTP :: "string \<Rightarrow> IDB \<Rightarrow> error + (TOTP \<times> bool)" where
  "confirmedTOTP userID db =
     (case TOTPs_ByUserID userID db of
        Inl err \<Rightarrow>
          if errors_Is err ErrNotFound
          then Inr (\<lparr>TOTP_UserID = [], TOTP_SecretEncrypted = [], TOTP_ConfirmedAt = None,
                     TOTP_LastUsedStep = 0, TOTP_CreatedAt = 0\<rparr>, False)
          else Inl err
      | Inr enrolment \<Rightarrow> Inr (enrolment, TOTP_Confirmed enrolment))"

definition checkCode :: "Service \<Rightarrow> TOTP \<Rightarrow> string \<Rightarrow> gotime \<Rightarrow> error + int" where
  "checkCode svc enrolment code now =
     (case Service_open svc (TOTP_SecretEncrypted enrolment) of
        Inl err \<Rightarrow> Inl (ErrorfW (''authn: read the authenticator secret of user '' @ Quote (TOTP_UserID enrolment)) err)
      | Inr secret \<Rightarrow> Validate (Service_gen svc) secret code now (TOTP_LastUsedStep enrolment))"

text \<open>The user behind a pending state, active: the first checks both verifications make.\<close>

definition pendingUser :: "Service \<Rightarrow> Token \<Rightarrow> gotime \<Rightarrow> IDB \<Rightarrow> error + (MFAChallenge \<times> User)" where
  "pendingUser svc token now db =
     (case Challenge_Resolve (Service_challenges svc) token now db of
        Inl err \<Rightarrow> if errors_Is err ErrNoChallenge then Inl (BadSecondFactor ''no usable challenge'') else Inl err
      | Inr pending \<Rightarrow>
          (case Users_ByID (MFAChallenge_UserID pending) db of
             Inl err \<Rightarrow>
               if errors_Is err ErrNotFound
               then Inl (BadSecondFactor (''challenge '' @ MFAChallenge_ID pending @ '' belongs to user '' @
                      MFAChallenge_UserID pending @ '', which is gone''))
               else Inl err
           | Inr user \<Rightarrow>
               if User_Status user \<noteq> StatusActive
               then Inl (BadSecondFactor (''user '' @ User_ID user @ '' is '' @ User_Status user))
               else Inr (pending, user)))"

text \<open>The end both share: spend the challenge, issue a session with the factor satisfied.\<close>

definition spendAndIssue :: "Service \<Rightarrow> Draws \<Rightarrow> MFAChallenge \<Rightarrow> User \<Rightarrow> Request \<Rightarrow> IDB \<Rightarrow>
    (error + VerifyResult) \<times> IDB" where
  "spendAndIssue svc d pending user req db =
     (case Challenge_Spend (MFAChallenge_ID pending) (Draws_spend d) db of
        (Inl err, db1) \<Rightarrow> (Inl err, db1)
      | (Inr spent, db1) \<Rightarrow>
          if \<not> spent
          then (Inl (BadSecondFactor (''challenge '' @ MFAChallenge_ID pending @ '' was already spent'')), db1)
          else (case Issue (Service_sessions svc) (Draws_sessionID d) (Draws_store d) (Draws_token d)
                       (Draws_issue d) (User_ID user) req True db1 of
                  (Inl err, db2) \<Rightarrow> (Inl err, db2)
                | (Inr issued, db2) \<Rightarrow>
                    (case Users_SetLastLoginAt (User_ID user) (Session_CreatedAt (Issued_Session issued)) db2 of
                       (Some err, db3) \<Rightarrow> (Inl err, db3)
                     | (None, db3) \<Rightarrow>
                         (Inr \<lparr>VerifyResult_Subject = subjectOf user (Issued_Session issued),
                               VerifyResult_Issued = issued\<rparr>, db3))))"

definition VerifyTOTP :: "Service \<Rightarrow> Draws \<Rightarrow> Token \<Rightarrow> string \<Rightarrow> Request \<Rightarrow> IDB \<Rightarrow>
    (error + VerifyResult) \<times> IDB" where
  "VerifyTOTP svc d token code req db =
     (case pendingUser svc token (Draws_resolve d) db of
        Inl err \<Rightarrow> (Inl err, db)
      | Inr (pending, user) \<Rightarrow>
          (case confirmedTOTP (User_ID user) db of
             Inl err \<Rightarrow> (Inl err, db)
           | Inr (enrolment, enrolled) \<Rightarrow>
               if \<not> enrolled
               then (Inl (BadSecondFactor (''user '' @ User_ID user @ '' has no confirmed authenticator'')), db)
               else (case checkCode svc enrolment code (Draws_check d) of
                       Inl err \<Rightarrow>
                         if errors_Is err ErrNoMatch
                         then (Inl (BadSecondFactor (''code mismatch for user '' @ User_ID user)), db)
                         else (Inl err, db)
                     | Inr step \<Rightarrow>
                         (case TOTPs_Accept (User_ID user) step (Draws_accept d) db of
                            (Inl err, db1) \<Rightarrow> (Inl err, db1)
                          | (Inr accepted, db1) \<Rightarrow>
                              if \<not> accepted
                              then (Inl (BadSecondFactor (''step '' @ Itoa step @
                                     '' has already been used by user '' @ User_ID user)), db1)
                              else spendAndIssue svc d pending user req db1))))"

text \<open>The last matching row, as the loop that never stops early leaves it.\<close>

fun matchRecoveryCode_loop :: "string \<Rightarrow> RecoveryCode option \<Rightarrow> RecoveryCode list \<Rightarrow> RecoveryCode option" where
  "matchRecoveryCode_loop hash found [] = found"
| "matchRecoveryCode_loop hash found (candidate # held) =
     matchRecoveryCode_loop hash (if hash = RecoveryCode_CodeHash candidate then Some candidate else found) held"

definition matchRecoveryCode :: "string \<Rightarrow> RecoveryCode list \<Rightarrow> RecoveryCode option" where
  "matchRecoveryCode hash held = matchRecoveryCode_loop hash None held"

text \<open>\<open>recordAlone\<close> with the count of codes left; it cannot fail the sign-in.\<close>

definition recordRecoveryUsed :: "User \<Rightarrow> RecoveryCode \<Rightarrow> VerifyResult \<Rightarrow> IDB \<Rightarrow> IDB" where
  "recordRecoveryUsed user matched res db =
     db\<lparr>IDB_activity := IDB_activity db @
       [\<lparr>Entry_EngagementID = [], Entry_ActorID = User_ID user, Entry_Verb = VerbMFARecoveryUsed,
         Entry_ObjectType = ObjectRecoveryCode, Entry_ObjectID = RecoveryCode_ID matched, Entry_ParentIDs = [],
         Entry_Delta = Delta [(''session_id'', DString (Session_ID (Issued_Session (VerifyResult_Issued res)))),
           (''codes_remaining'', DInt (int (RecoveryCodes_CountUnused (User_ID user) db)))]\<rparr>]\<rparr>"

definition VerifyRecoveryCode :: "Service \<Rightarrow> Draws \<Rightarrow> Token \<Rightarrow> rune list \<Rightarrow> Request \<Rightarrow> IDB \<Rightarrow>
    (error + VerifyResult) \<times> IDB" where
  "VerifyRecoveryCode svc d token presented req db =
     (case pendingUser svc token (Draws_resolve d) db of
        Inl err \<Rightarrow> (Inl err, db)
      | Inr (pending, user) \<Rightarrow>
          (case Parse presented of
             Inl err \<Rightarrow> (Inl (BadSecondFactor (''malformed recovery code for user '' @ User_ID user)), db)
           | Inr code \<Rightarrow>
               (case matchRecoveryCode (Service_codeHash svc code) (RecoveryCodes_Unused (User_ID user) db) of
                  None \<Rightarrow>
                    (Inl (BadSecondFactor (''no unused recovery code matches for user '' @ User_ID user)), db)
                | Some matched \<Rightarrow>
                    (case RecoveryCodes_Use (RecoveryCode_ID matched) (Draws_accept d) db of
                       (spent, db1) \<Rightarrow>
                         if \<not> spent
                         then (Inl (BadSecondFactor (''recovery code '' @ RecoveryCode_ID matched @
                                '' was already spent for user '' @ User_ID user)), db1)
                         else (case spendAndIssue svc d pending user req db1 of
                                 (Inl err, db2) \<Rightarrow> (Inl err, db2)
                               | (Inr res, db2) \<Rightarrow>
                                   (Inr res, recordRecoveryUsed user matched res db2))))))"

section \<open>Lemmas: codes\<close>

lemma period_seconds: "quot Period Second = 30"
  by (simp add: Period_def Second_def quot_def)

lemma second_pos: "0 < Second"
  by (simp add: Second_def)

lemma Step_stepTime: "0 \<le> step \<Longrightarrow> Step (stepTime step) = step"
  using second_pos by (simp add: Step_def stepTime_def Unix_def period_seconds quot_nonneg)

lemma Step_window: "unixEpoch * Second \<le> at \<Longrightarrow> Step at = (at div Second - unixEpoch) div 30"
proof -
  assume "unixEpoch * Second \<le> at"
  then have "unixEpoch * Second div Second \<le> at div Second"
    by (intro zdiv_mono1) (simp_all add: Second_def)
  then have "0 \<le> Unix at" by (simp add: Unix_def Second_def)
  then show ?thesis by (simp add: Step_def period_seconds quot_nonneg Unix_def)
qed

lemma Validate_loop_sound:
  "Validate_loop gen secret code after steps = Inr step \<Longrightarrow>
   step \<in> set steps \<and> after < step \<and> gen secret (stepTime step) = Inr code"
  by (induction steps) (auto split: if_splits sum.splits)

lemma Validate_loop_complete:
  assumes "\<forall>s\<in>set steps. after < s \<longrightarrow> (\<exists>c. gen secret (stepTime s) = Inr c)"
    and "step \<in> set steps" "after < step" "gen secret (stepTime step) = Inr code" "sorted steps"
  shows "\<exists>s \<le> step. Validate_loop gen secret code after steps = Inr s"
  using assms
proof (induction steps)
  case (Cons s steps)
  show ?case
  proof (cases "s \<le> after \<or> gen secret (stepTime s) \<noteq> Inr code")
    case True
    then have "step \<in> set steps" using Cons.prems by auto
    with Cons.IH Cons.prems obtain s' where "s' \<le> step" "Validate_loop gen secret code after steps = Inr s'"
      by auto
    moreover have "Validate_loop gen secret code after (s # steps) = Validate_loop gen secret code after steps"
      using True Cons.prems(1) by (auto split: sum.splits)
    ultimately show ?thesis by auto
  next
    case False
    then show ?thesis using Cons.prems by (auto intro!: exI [of _ s])
  qed
qed simp

text \<open>
  \<open>Validate\<close> answers a step only for the code of that step, within one step of the clock and
  strictly after the last accepted one, so no code is accepted twice; and when the generator
  does not fail, a code that is right for such a step is accepted, for the oldest such step.
\<close>

theorem Validate_spec:
  "(Validate gen secret code at after = Inr step \<longrightarrow>
      after < step \<and> \<bar>step - Step at\<bar> \<le> 1 \<and> gen secret (stepTime step) = Inr (TrimSpace code) \<and>
      Validate gen secret code at step \<noteq> Inr step) \<and>
   (secret \<noteq> [] \<and> TrimSpace code \<noteq> [] \<and> (\<forall>s. \<exists>c. gen secret (stepTime s) = Inr c) \<and>
      after < step \<and> \<bar>step - Step at\<bar> \<le> 1 \<and> gen secret (stepTime step) = Inr (TrimSpace code) \<longrightarrow>
    (\<exists>s \<le> step. Validate gen secret code at after = Inr s))"
proof (intro conjI impI)
  let ?steps = "[Step at - Skew..Step at + Skew]"
  assume ok: "Validate gen secret code at after = Inr step"
  then have "Validate_loop gen secret (TrimSpace code) after ?steps = Inr step"
    by (simp add: Validate_def Let_def split: if_splits)
  then have sound: "step \<in> set ?steps \<and> after < step \<and> gen secret (stepTime step) = Inr (TrimSpace code)"
    by (rule Validate_loop_sound)
  then show "after < step" "\<bar>step - Step at\<bar> \<le> 1" "gen secret (stepTime step) = Inr (TrimSpace code)"
    by (auto simp: Skew_def)
  show "Validate gen secret code at step \<noteq> Inr step"
    using Validate_loop_sound [of gen secret "TrimSpace code" step ?steps step]
    by (auto simp: Validate_def Let_def)
next
  let ?steps = "[Step at - Skew..Step at + Skew]"
  assume a: "secret \<noteq> [] \<and> TrimSpace code \<noteq> [] \<and> (\<forall>s. \<exists>c. gen secret (stepTime s) = Inr c) \<and>
      after < step \<and> \<bar>step - Step at\<bar> \<le> 1 \<and> gen secret (stepTime step) = Inr (TrimSpace code)"
  then have "\<exists>s \<le> step. Validate_loop gen secret (TrimSpace code) after ?steps = Inr s"
    by (intro Validate_loop_complete) (auto simp: Skew_def sorted_upto)
  with a show "\<exists>s \<le> step. Validate gen secret code at after = Inr s"
    by (simp add: Validate_def Let_def)
qed

definition sample_gen :: code_generator where
  "sample_gen secret at = Inr (secret @ Itoa (Step at mod 1000))"

theorem Validate_spec_witness:
  "\<exists>s \<le> 101. Validate sample_gen ''k'' '' k101 '' (stepTime 100) 99 = Inr s"
proof -
  have "sample_gen ''k'' (stepTime 101) = Inr (TrimSpace '' k101 '')"
    by (simp add: sample_gen_def Step_stepTime) code_simp
  moreover have "\<forall>s. \<exists>c. sample_gen ''k'' (stepTime s) = Inr c" by (simp add: sample_gen_def)
  moreover have "TrimSpace '' k101 '' \<noteq> []" by code_simp
  ultimately show ?thesis
    using Validate_spec [of sample_gen "''k''" "'' k101 ''" "stepTime 100" 99 101]
    by (simp add: Step_stepTime)
qed

section \<open>Spent at most once, whatever runs in between\<close>

text \<open>The store's operations on second factors, each one serialized transaction, in any order.\<close>

datatype factor_op =
    OpOpen string gotime NewMFAChallenge
  | OpConsume string gotime
  | OpDiscard string
  | OpEnroll gotime NewTOTP
  | OpAccept string int gotime
  | OpDeleteTOTP string
  | OpReplace "string list" gotime string "string list"
  | OpUse string gotime
  | OpDeleteCodes string

text \<open>The answer that lets the caller go on, and the database after it.\<close>

fun factor_step :: "factor_op \<Rightarrow> IDB \<Rightarrow> bool \<times> IDB" where
  "factor_step (OpOpen newID clock inp) db =
     (let (res, db') = MFAChallenges_Open newID clock inp db in (\<not> isl res, db'))"
| "factor_step (OpConsume cid at) db =
     (let (res, db') = MFAChallenges_Consume cid at db in (res = Inr True, db'))"
| "factor_step (OpDiscard userID) db = (True, MFAChallenges_DeleteForUser userID db)"
| "factor_step (OpEnroll clock inp) db =
     (let (res, db') = TOTPs_Enroll clock inp db in (\<not> isl res, db'))"
| "factor_step (OpAccept userID step at) db =
     (let (res, db') = TOTPs_Accept userID step at db in (res = Inr True, db'))"
| "factor_step (OpDeleteTOTP userID) db = (True, TOTPs_Delete userID db)"
| "factor_step (OpReplace ids clock userID hashes) db =
     (let (res, db') = RecoveryCodes_Replace ids clock userID hashes db in (\<not> isl res, db'))"
| "factor_step (OpUse rid at) db = RecoveryCodes_Use rid at db"
| "factor_step (OpDeleteCodes userID) db = (True, RecoveryCodes_DeleteForUser userID db)"

fun answers :: "('op \<Rightarrow> 's \<Rightarrow> bool \<times> 's) \<Rightarrow> 'op list \<Rightarrow> 's \<Rightarrow> bool list" where
  "answers step [] s = []"
| "answers step (op # ops) s = (let (b, s') = step op s in b # answers step ops s')"

definition wins :: "('op \<Rightarrow> 's \<Rightarrow> bool \<times> 's) \<Rightarrow> ('op \<Rightarrow> bool) \<Rightarrow> 'op list \<Rightarrow> 's \<Rightarrow> nat" where
  "wins step spends ops s = length (filter (\<lambda>(op, b). spends op \<and> b) (zip ops (answers step ops s)))"

lemma wins_Cons:
  "wins step spends (op # ops) s =
     (if spends op \<and> fst (step op s) then 1 else 0) + wins step spends ops (snd (step op s))"
  by (simp add: wins_def split_beta Let_def)

text \<open>A resource that a guarded statement spends: a spent one refuses, and stays spent.\<close>

locale one_shot =
  fixes step :: "'op \<Rightarrow> 's \<Rightarrow> bool \<times> 's"
    and spends :: "'op \<Rightarrow> bool"
    and fine :: "'op \<Rightarrow> bool"
    and spent :: "'s \<Rightarrow> bool"
    and ok :: "'s \<Rightarrow> bool"
  assumes refuses: "ok s \<Longrightarrow> spent s \<Longrightarrow> spends op \<Longrightarrow> \<not> fst (step op s)"
    and wins_spends: "ok s \<Longrightarrow> spends op \<Longrightarrow> fst (step op s) \<Longrightarrow> spent (snd (step op s))"
    and stays: "ok s \<Longrightarrow> spent s \<Longrightarrow> fine op \<Longrightarrow> spent (snd (step op s))"
    and keeps_ok: "ok s \<Longrightarrow> ok (snd (step op s))"
begin

lemma spent_no_wins: "ok s \<Longrightarrow> spent s \<Longrightarrow> \<forall>op\<in>set ops. fine op \<Longrightarrow> wins step spends ops s = 0"
proof (induction ops arbitrary: s)
  case Nil
  then show ?case by (simp add: wins_def)
next
  case (Cons op ops)
  have "wins step spends ops (snd (step op s)) = 0"
    using Cons.prems by (intro Cons.IH) (auto intro: keeps_ok stays)
  then show ?case using Cons.prems refuses by (auto simp: wins_Cons)
qed

lemma at_most_once: "ok s \<Longrightarrow> \<forall>op\<in>set ops. fine op \<Longrightarrow> wins step spends ops s \<le> 1"
proof (induction ops arbitrary: s)
  case Nil
  then show ?case by (simp add: wins_def)
next
  case (Cons op ops)
  have rest: "wins step spends ops (snd (step op s)) \<le> 1"
    using Cons.prems by (intro Cons.IH) (auto intro: keeps_ok)
  show ?case
  proof (cases "spends op \<and> fst (step op s)")
    case True
    then have "wins step spends ops (snd (step op s)) = 0"
      using Cons.prems by (intro spent_no_wins) (auto intro: keeps_ok wins_spends)
    with True show ?thesis by (simp add: wins_Cons)
  next
    case False
    with rest show ?thesis by (auto simp: wins_Cons)
  qed
qed

end

text \<open>The part of the schema the second factors rest on.\<close>

definition factors_ok :: "IDB \<Rightarrow> bool" where
  "factors_ok db \<longleftrightarrow> distinct (map MFAChallenge_ID (IDB_challenges db)) \<and>
     distinct (map TOTP_UserID (IDB_totps db)) \<and> distinct (map RecoveryCode_ID (IDB_recovery db))"

lemma factors_ok_step: "factors_ok db \<Longrightarrow> factors_ok (snd (factor_step op db))"
proof (cases op)
  case (OpOpen newID clock inp)
  then show "factors_ok db \<Longrightarrow> ?thesis"
    by (auto simp: factors_ok_def MFAChallenges_Open_def Let_def distinct_delete_where
        split: option.splits prod.splits if_splits)
next
  case (OpConsume cid at)
  then show "factors_ok db \<Longrightarrow> ?thesis"
    by (auto simp: factors_ok_def MFAChallenges_Consume_def Let_def map_update_where
        split: option.splits prod.splits if_splits)
next
  case (OpEnroll clock inp)
  then show "factors_ok db \<Longrightarrow> ?thesis"
    by (auto simp: factors_ok_def TOTPs_Enroll_def Let_def distinct_delete_where set_delete_where
        split: option.splits prod.splits)
next
  case (OpAccept userID step at)
  then show "factors_ok db \<Longrightarrow> ?thesis"
    by (auto simp: factors_ok_def TOTPs_Accept_def Let_def map_update_where
        split: option.splits prod.splits if_splits)
next
  case (OpReplace ids clock userID hashes)
  then show "factors_ok db \<Longrightarrow> ?thesis"
    by (auto simp: factors_ok_def RecoveryCodes_Replace_def Let_def
        split: option.splits prod.splits if_splits)
qed (auto simp: factors_ok_def MFAChallenges_DeleteForUser_def TOTPs_Delete_def RecoveryCodes_Use_def
    RecoveryCodes_DeleteForUser_def Let_def distinct_delete_where map_update_where)

definition challenge_spent :: "string \<Rightarrow> IDB \<Rightarrow> bool" where
  "challenge_spent cid db \<longleftrightarrow>
     (\<forall>c\<in>set (IDB_challenges db). MFAChallenge_ID c = cid \<longrightarrow> MFAChallenge_ConsumedAt c \<noteq> None)"

definition step_spent :: "string \<Rightarrow> int \<Rightarrow> IDB \<Rightarrow> bool" where
  "step_spent userID step db \<longleftrightarrow>
     (\<forall>t\<in>set (IDB_totps db). TOTP_UserID t = userID \<longrightarrow> step \<le> TOTP_LastUsedStep t)"

definition code_spent :: "string \<Rightarrow> IDB \<Rightarrow> bool" where
  "code_spent rid db \<longleftrightarrow>
     (\<forall>c\<in>set (IDB_recovery db). RecoveryCode_ID c = rid \<longrightarrow> RecoveryCode_UsedAt c \<noteq> None)"

fun consumes :: "string \<Rightarrow> factor_op \<Rightarrow> bool" where
  "consumes cid (OpConsume c at) \<longleftrightarrow> c = cid"
| "consumes cid _ \<longleftrightarrow> False"

fun accepts :: "string \<Rightarrow> int \<Rightarrow> factor_op \<Rightarrow> bool" where
  "accepts userID step (OpAccept u st at) \<longleftrightarrow> u = userID \<and> st = step"
| "accepts userID step _ \<longleftrightarrow> False"

fun uses :: "string \<Rightarrow> factor_op \<Rightarrow> bool" where
  "uses rid (OpUse r at) \<longleftrightarrow> r = rid"
| "uses rid _ \<longleftrightarrow> False"

text \<open>A fresh identifier is never one already handed out, and no new enrolment resets the window.\<close>

fun fresh_challenge :: "string \<Rightarrow> factor_op \<Rightarrow> bool" where
  "fresh_challenge cid (OpOpen newID clock inp) \<longleftrightarrow> newID \<noteq> cid"
| "fresh_challenge cid _ \<longleftrightarrow> True"

fun same_enrolment :: "string \<Rightarrow> factor_op \<Rightarrow> bool" where
  "same_enrolment userID (OpEnroll clock inp) \<longleftrightarrow> NewTOTP_UserID inp \<noteq> userID"
| "same_enrolment userID _ \<longleftrightarrow> True"

fun fresh_codes :: "string \<Rightarrow> factor_op \<Rightarrow> bool" where
  "fresh_codes rid (OpReplace ids clock userID hashes) \<longleftrightarrow> rid \<notin> set ids"
| "fresh_codes rid _ \<longleftrightarrow> True"

lemmas factor_defs =
  MFAChallenges_Open_def MFAChallenges_Consume_def MFAChallenges_DeleteForUser_def
  TOTPs_Enroll_def TOTPs_Accept_def TOTPs_Delete_def
  RecoveryCodes_Replace_def RecoveryCodes_Use_def RecoveryCodes_DeleteForUser_def

lemma factor_step_snd:
  "snd (factor_step (OpOpen newID clock ci) db) = snd (MFAChallenges_Open newID clock ci db)"
  "snd (factor_step (OpConsume cid at) db) = snd (MFAChallenges_Consume cid at db)"
  "snd (factor_step (OpEnroll clock ti) db) = snd (TOTPs_Enroll clock ti db)"
  "snd (factor_step (OpAccept userID st at) db) = snd (TOTPs_Accept userID st at db)"
  "snd (factor_step (OpReplace ids clock userID hashes) db) = snd (RecoveryCodes_Replace ids clock userID hashes db)"
  "snd (factor_step (OpDiscard userID) db) = MFAChallenges_DeleteForUser userID db"
  "snd (factor_step (OpDeleteTOTP userID) db) = TOTPs_Delete userID db"
  "snd (factor_step (OpUse rid at) db) = snd (RecoveryCodes_Use rid at db)"
  "snd (factor_step (OpDeleteCodes userID) db) = RecoveryCodes_DeleteForUser userID db"
  by (simp_all add: split_beta)

lemma factor_step_fst:
  "fst (factor_step (OpConsume cid at) db) \<longleftrightarrow> fst (MFAChallenges_Consume cid at db) = Inr True"
  "fst (factor_step (OpAccept userID st at) db) \<longleftrightarrow> fst (TOTPs_Accept userID st at db) = Inr True"
  "fst (factor_step (OpUse rid at) db) \<longleftrightarrow> fst (RecoveryCodes_Use rid at db)"
  by (simp_all add: split_beta)

text \<open>Each operation writes its own table only.\<close>

lemma factor_frames:
  "IDB_challenges (snd (TOTPs_Enroll clock ti db)) = IDB_challenges db"
  "IDB_challenges (snd (TOTPs_Accept userID st at db)) = IDB_challenges db"
  "IDB_challenges (snd (RecoveryCodes_Replace ids clock userID hashes db)) = IDB_challenges db"
  "IDB_totps (snd (MFAChallenges_Open newID clock ci db)) = IDB_totps db"
  "IDB_totps (snd (MFAChallenges_Consume cid at db)) = IDB_totps db"
  "IDB_totps (snd (RecoveryCodes_Replace ids clock userID hashes db)) = IDB_totps db"
  "IDB_recovery (snd (MFAChallenges_Open newID clock ci db)) = IDB_recovery db"
  "IDB_recovery (snd (MFAChallenges_Consume cid at db)) = IDB_recovery db"
  "IDB_recovery (snd (TOTPs_Enroll clock ti db)) = IDB_recovery db"
  "IDB_recovery (snd (TOTPs_Accept userID st at db)) = IDB_recovery db"
  "IDB_challenges (TOTPs_Delete userID db) = IDB_challenges db"
  "IDB_challenges (snd (RecoveryCodes_Use rid at db)) = IDB_challenges db"
  "IDB_challenges (RecoveryCodes_DeleteForUser userID db) = IDB_challenges db"
  "IDB_totps (MFAChallenges_DeleteForUser userID db) = IDB_totps db"
  "IDB_totps (snd (RecoveryCodes_Use rid at db)) = IDB_totps db"
  "IDB_totps (RecoveryCodes_DeleteForUser userID db) = IDB_totps db"
  "IDB_recovery (MFAChallenges_DeleteForUser userID db) = IDB_recovery db"
  "IDB_recovery (TOTPs_Delete userID db) = IDB_recovery db"
  by (simp_all add: factor_defs Let_def split: option.splits)

lemma consumes_op: "consumes cid op \<Longrightarrow> \<exists>at. op = OpConsume cid at"
  by (cases op) auto

lemma accepts_op: "accepts userID st op \<Longrightarrow> \<exists>at. op = OpAccept userID st at"
  by (cases op) auto

lemma uses_op: "uses rid op \<Longrightarrow> \<exists>at. op = OpUse rid at"
  by (cases op) auto

text \<open>The guarded statements: a spent resource is refused, and a success spends it.\<close>

lemma Consume_guard:
  "challenge_spent cid db \<Longrightarrow> fst (MFAChallenges_Consume cid at db) \<noteq> Inr True"
  "fst (MFAChallenges_Consume cid at db) = Inr True \<Longrightarrow> challenge_spent cid (snd (MFAChallenges_Consume cid at db))"
proof -
  show "fst (MFAChallenges_Consume cid at db) \<noteq> Inr True" if "challenge_spent cid db"
  proof -
    have "count_where (\<lambda>c. MFAChallenge_ID c = cid \<and> MFAChallenge_ConsumedAt c = None) (IDB_challenges db) = 0"
      using that by (auto simp: count_where_0 challenge_spent_def)
    then show ?thesis by (auto simp: MFAChallenges_Consume_def Let_def split: option.splits)
  qed
  assume "fst (MFAChallenges_Consume cid at db) = Inr True"
  then have "IDB_challenges (snd (MFAChallenges_Consume cid at db)) =
      update_where (\<lambda>c. MFAChallenge_ID c = cid \<and> MFAChallenge_ConsumedAt c = None)
        (\<lambda>c. c\<lparr>MFAChallenge_ConsumedAt := Some (toStorage at)\<rparr>) (IDB_challenges db)"
    by (simp add: MFAChallenges_Consume_def Let_def split: option.splits if_splits)
  then show "challenge_spent cid (snd (MFAChallenges_Consume cid at db))"
    by (simp add: challenge_spent_def all_update_where)
qed

lemma Accept_guard:
  "step_spent userID st db \<Longrightarrow> fst (TOTPs_Accept userID st at db) \<noteq> Inr True"
  "fst (TOTPs_Accept userID st at db) = Inr True \<Longrightarrow> step_spent userID st (snd (TOTPs_Accept userID st at db))"
proof -
  show "fst (TOTPs_Accept userID st at db) \<noteq> Inr True" if "step_spent userID st db"
  proof -
    have "count_where (\<lambda>t. TOTP_UserID t = userID \<and> TOTP_LastUsedStep t < st) (IDB_totps db) = 0"
      using that by (fastforce simp: count_where_0 step_spent_def)
    then show ?thesis by (auto simp: TOTPs_Accept_def Let_def split: option.splits)
  qed
  assume "fst (TOTPs_Accept userID st at db) = Inr True"
  then have "IDB_totps (snd (TOTPs_Accept userID st at db)) =
      update_where (\<lambda>t. TOTP_UserID t = userID \<and> TOTP_LastUsedStep t < st)
        (\<lambda>t. t\<lparr>TOTP_LastUsedStep := st, TOTP_ConfirmedAt := (case TOTP_ConfirmedAt t of
           Some c \<Rightarrow> Some c | None \<Rightarrow> Some (toStorage at))\<rparr>) (IDB_totps db)"
    by (simp add: TOTPs_Accept_def Let_def split: option.splits if_splits)
  then show "step_spent userID st (snd (TOTPs_Accept userID st at db))"
    by (simp add: step_spent_def all_update_where not_less)
qed

lemma Use_guard:
  "code_spent rid db \<Longrightarrow> \<not> fst (RecoveryCodes_Use rid at db)"
  "code_spent rid (snd (RecoveryCodes_Use rid at db))"
proof -
  show "\<not> fst (RecoveryCodes_Use rid at db)" if "code_spent rid db"
  proof -
    have "count_where (\<lambda>c. RecoveryCode_ID c = rid \<and> RecoveryCode_UsedAt c = None) (IDB_recovery db) = 0"
      using that by (auto simp: count_where_0 code_spent_def)
    then show ?thesis by (simp add: RecoveryCodes_Use_def Let_def)
  qed
  show "code_spent rid (snd (RecoveryCodes_Use rid at db))"
    by (simp add: RecoveryCodes_Use_def code_spent_def Let_def all_update_where)
qed

lemma challenge_spent_ops:
  assumes "challenge_spent cid db"
  shows "newID \<noteq> cid \<Longrightarrow> challenge_spent cid (snd (MFAChallenges_Open newID clock ci db))"
    and "challenge_spent cid (snd (MFAChallenges_Consume c at db))"
    and "challenge_spent cid (MFAChallenges_DeleteForUser u db)"
  using assms
  by (auto simp: MFAChallenges_Open_def MFAChallenges_Consume_def MFAChallenges_DeleteForUser_def
      challenge_spent_def Let_def set_update_where set_delete_where split: option.splits)

lemma step_spent_ops:
  assumes "step_spent userID st db"
  shows "NewTOTP_UserID ti \<noteq> userID \<Longrightarrow> step_spent userID st (snd (TOTPs_Enroll clock ti db))"
    and "step_spent userID st (snd (TOTPs_Accept u st' at db))"
    and "step_spent userID st (TOTPs_Delete u db)"
  using assms
  by (auto simp: TOTPs_Enroll_def TOTPs_Accept_def TOTPs_Delete_def
      step_spent_def Let_def set_update_where set_delete_where split: option.splits)

lemma code_spent_ops:
  assumes "code_spent rid db"
  shows "rid \<notin> set ids \<Longrightarrow> code_spent rid (snd (RecoveryCodes_Replace ids clock userID hashes db))"
    and "code_spent rid (snd (RecoveryCodes_Use r at db))"
    and "code_spent rid (RecoveryCodes_DeleteForUser u db)"
  using assms
  by (auto simp: RecoveryCodes_Replace_def RecoveryCodes_Use_def RecoveryCodes_DeleteForUser_def
      RecoveryCodes_rows_def code_spent_def Let_def set_update_where set_delete_where
      dest: set_zip_leftD split: option.splits)

lemma challenge_spent_frame: "IDB_challenges db' = IDB_challenges db \<Longrightarrow> challenge_spent cid db' = challenge_spent cid db"
  by (simp add: challenge_spent_def)

lemma challenge_spent_stays:
  assumes "challenge_spent cid db" "fresh_challenge cid op"
  shows "challenge_spent cid (snd (factor_step op db))"
proof (cases op)
  case (OpOpen newID clock ci)
  then show ?thesis
    using assms(2) challenge_spent_ops(1) [OF assms(1)] by (simp add: factor_step_snd del: factor_step.simps)
next
  case (OpConsume c at)
  then show ?thesis
    using assms(2) challenge_spent_ops(2) [OF assms(1)] by (simp add: factor_step_snd del: factor_step.simps)
next
  case (OpDiscard u)
  then show ?thesis
    using assms(2) challenge_spent_ops(3) [OF assms(1)] by (simp add: factor_step_snd del: factor_step.simps)
next
  case (OpEnroll clock ti)
  then have "IDB_challenges (snd (factor_step op db)) = IDB_challenges db"
    by (simp only: factor_step_snd factor_frames)
  then show ?thesis using assms(1) challenge_spent_frame by blast
next
  case (OpAccept u st' at)
  then have "IDB_challenges (snd (factor_step op db)) = IDB_challenges db"
    by (simp only: factor_step_snd factor_frames)
  then show ?thesis using assms(1) challenge_spent_frame by blast
next
  case (OpDeleteTOTP u)
  then have "IDB_challenges (snd (factor_step op db)) = IDB_challenges db"
    by (simp only: factor_step_snd factor_frames)
  then show ?thesis using assms(1) challenge_spent_frame by blast
next
  case (OpReplace ids clock u hashes)
  then have "IDB_challenges (snd (factor_step op db)) = IDB_challenges db"
    by (simp only: factor_step_snd factor_frames)
  then show ?thesis using assms(1) challenge_spent_frame by blast
next
  case (OpUse r at)
  then have "IDB_challenges (snd (factor_step op db)) = IDB_challenges db"
    by (simp only: factor_step_snd factor_frames)
  then show ?thesis using assms(1) challenge_spent_frame by blast
next
  case (OpDeleteCodes u)
  then have "IDB_challenges (snd (factor_step op db)) = IDB_challenges db"
    by (simp only: factor_step_snd factor_frames)
  then show ?thesis using assms(1) challenge_spent_frame by blast
qed

lemma step_spent_frame: "IDB_totps db' = IDB_totps db \<Longrightarrow> step_spent userID st db' = step_spent userID st db"
  by (simp add: step_spent_def)

lemma step_spent_stays:
  assumes "step_spent userID st db" "same_enrolment userID op"
  shows "step_spent userID st (snd (factor_step op db))"
proof (cases op)
  case (OpOpen newID clock ci)
  then have "IDB_totps (snd (factor_step op db)) = IDB_totps db"
    by (simp only: factor_step_snd factor_frames)
  then show ?thesis using assms(1) step_spent_frame by blast
next
  case (OpConsume c at)
  then have "IDB_totps (snd (factor_step op db)) = IDB_totps db"
    by (simp only: factor_step_snd factor_frames)
  then show ?thesis using assms(1) step_spent_frame by blast
next
  case (OpDiscard u)
  then have "IDB_totps (snd (factor_step op db)) = IDB_totps db"
    by (simp only: factor_step_snd factor_frames)
  then show ?thesis using assms(1) step_spent_frame by blast
next
  case (OpEnroll clock ti)
  then show ?thesis
    using assms(2) step_spent_ops(1) [OF assms(1)] by (simp add: factor_step_snd del: factor_step.simps)
next
  case (OpAccept u st' at)
  then show ?thesis
    using assms(2) step_spent_ops(2) [OF assms(1)] by (simp add: factor_step_snd del: factor_step.simps)
next
  case (OpDeleteTOTP u)
  then show ?thesis
    using assms(2) step_spent_ops(3) [OF assms(1)] by (simp add: factor_step_snd del: factor_step.simps)
next
  case (OpReplace ids clock u hashes)
  then have "IDB_totps (snd (factor_step op db)) = IDB_totps db"
    by (simp only: factor_step_snd factor_frames)
  then show ?thesis using assms(1) step_spent_frame by blast
next
  case (OpUse r at)
  then have "IDB_totps (snd (factor_step op db)) = IDB_totps db"
    by (simp only: factor_step_snd factor_frames)
  then show ?thesis using assms(1) step_spent_frame by blast
next
  case (OpDeleteCodes u)
  then have "IDB_totps (snd (factor_step op db)) = IDB_totps db"
    by (simp only: factor_step_snd factor_frames)
  then show ?thesis using assms(1) step_spent_frame by blast
qed

lemma code_spent_frame: "IDB_recovery db' = IDB_recovery db \<Longrightarrow> code_spent rid db' = code_spent rid db"
  by (simp add: code_spent_def)

lemma code_spent_stays:
  assumes "code_spent rid db" "fresh_codes rid op"
  shows "code_spent rid (snd (factor_step op db))"
proof (cases op)
  case (OpOpen newID clock ci)
  then have "IDB_recovery (snd (factor_step op db)) = IDB_recovery db"
    by (simp only: factor_step_snd factor_frames)
  then show ?thesis using assms(1) code_spent_frame by blast
next
  case (OpConsume c at)
  then have "IDB_recovery (snd (factor_step op db)) = IDB_recovery db"
    by (simp only: factor_step_snd factor_frames)
  then show ?thesis using assms(1) code_spent_frame by blast
next
  case (OpDiscard u)
  then have "IDB_recovery (snd (factor_step op db)) = IDB_recovery db"
    by (simp only: factor_step_snd factor_frames)
  then show ?thesis using assms(1) code_spent_frame by blast
next
  case (OpEnroll clock ti)
  then have "IDB_recovery (snd (factor_step op db)) = IDB_recovery db"
    by (simp only: factor_step_snd factor_frames)
  then show ?thesis using assms(1) code_spent_frame by blast
next
  case (OpAccept u st' at)
  then have "IDB_recovery (snd (factor_step op db)) = IDB_recovery db"
    by (simp only: factor_step_snd factor_frames)
  then show ?thesis using assms(1) code_spent_frame by blast
next
  case (OpDeleteTOTP u)
  then have "IDB_recovery (snd (factor_step op db)) = IDB_recovery db"
    by (simp only: factor_step_snd factor_frames)
  then show ?thesis using assms(1) code_spent_frame by blast
next
  case (OpReplace ids clock u hashes)
  then show ?thesis
    using assms(2) code_spent_ops(1) [OF assms(1)] by (simp add: factor_step_snd del: factor_step.simps)
next
  case (OpUse r at)
  then show ?thesis
    using assms(2) code_spent_ops(2) [OF assms(1)] by (simp add: factor_step_snd del: factor_step.simps)
next
  case (OpDeleteCodes u)
  then show ?thesis
    using assms(2) code_spent_ops(3) [OF assms(1)] by (simp add: factor_step_snd del: factor_step.simps)
qed

interpretation challenge_once:
  one_shot factor_step "consumes cid" "fresh_challenge cid" "challenge_spent cid" factors_ok for cid
proof
  fix db op
  assume "factors_ok db"
  show "\<not> fst (factor_step op db)" if before: "challenge_spent cid db" and attempt: "consumes cid op"
  proof -
    obtain at where "op = OpConsume cid at" using attempt consumes_op by blast
    then show ?thesis using Consume_guard(1) [OF before] by (simp only: factor_step_fst) simp
  qed
  show "challenge_spent cid (snd (factor_step op db))" if attempt: "consumes cid op" and won: "fst (factor_step op db)"
  proof -
    obtain at where "op = OpConsume cid at" using attempt consumes_op by blast
    then show ?thesis using won Consume_guard(2) by (simp only: factor_step_fst factor_step_snd)
  qed
  show "challenge_spent cid (snd (factor_step op db))" if "challenge_spent cid db" "fresh_challenge cid op"
    using that by (rule challenge_spent_stays)
  show "factors_ok (snd (factor_step op db))" using \<open>factors_ok db\<close> by (rule factors_ok_step)
qed

interpretation step_once:
  one_shot factor_step "accepts userID st" "same_enrolment userID" "step_spent userID st" factors_ok for userID st
proof
  fix db op
  assume "factors_ok db"
  show "\<not> fst (factor_step op db)" if before: "step_spent userID st db" and attempt: "accepts userID st op"
  proof -
    obtain at where "op = OpAccept userID st at" using attempt accepts_op by blast
    then show ?thesis using Accept_guard(1) [OF before] by (simp only: factor_step_fst) simp
  qed
  show "step_spent userID st (snd (factor_step op db))" if attempt: "accepts userID st op" and won: "fst (factor_step op db)"
  proof -
    obtain at where "op = OpAccept userID st at" using attempt accepts_op by blast
    then show ?thesis using won Accept_guard(2) by (simp only: factor_step_fst factor_step_snd)
  qed
  show "step_spent userID st (snd (factor_step op db))" if "step_spent userID st db" "same_enrolment userID op"
    using that by (rule step_spent_stays)
  show "factors_ok (snd (factor_step op db))" using \<open>factors_ok db\<close> by (rule factors_ok_step)
qed

interpretation code_once:
  one_shot factor_step "uses rid" "fresh_codes rid" "code_spent rid" factors_ok for rid
proof
  fix db op
  assume "factors_ok db"
  show "\<not> fst (factor_step op db)" if before: "code_spent rid db" and attempt: "uses rid op"
  proof -
    obtain at where "op = OpUse rid at" using attempt uses_op by blast
    then show ?thesis using Use_guard(1) [OF before] by (simp only: factor_step_fst) simp
  qed
  show "code_spent rid (snd (factor_step op db))" if attempt: "uses rid op" and won: "fst (factor_step op db)"
  proof -
    obtain at where "op = OpUse rid at" using attempt uses_op by blast
    then show ?thesis using won Use_guard(2) by (simp only: factor_step_fst factor_step_snd)
  qed
  show "code_spent rid (snd (factor_step op db))" if "code_spent rid db" "fresh_codes rid op"
    using that by (rule code_spent_stays)
  show "factors_ok (snd (factor_step op db))" using \<open>factors_ok db\<close> by (rule factors_ok_step)
qed

text \<open>
  C6. Nothing is spent twice, in any interleaving: of all the attempts on one challenge, one TOTP
  step of one enrolment, or one recovery code, at most one is answered with success, whatever
  other sign-ins, enrolments and regenerations run in between (a fresh identifier never
  being one already handed out, and no new enrolment of the same person for the step).
\<close>

theorem factors_spent_once:
  assumes "factors_ok db"
  shows "((\<forall>op\<in>set ops. fresh_challenge cid op) \<longrightarrow> wins factor_step (consumes cid) ops db \<le> 1) \<and>
     ((\<forall>op\<in>set ops. same_enrolment userID op) \<longrightarrow> wins factor_step (accepts userID st) ops db \<le> 1) \<and>
     ((\<forall>op\<in>set ops. fresh_codes rid op) \<longrightarrow> wins factor_step (uses rid) ops db \<le> 1)"
  using challenge_once.at_most_once [OF assms] step_once.at_most_once [OF assms]
    code_once.at_most_once [OF assms] by blast

definition sample_factors :: IDB where
  "sample_factors = sample_db\<lparr>IDB_totps := [\<lparr>TOTP_UserID = ''u1'', TOTP_SecretEncrypted = ''k'',
     TOTP_ConfirmedAt = Some 5, TOTP_LastUsedStep = 7, TOTP_CreatedAt = 1\<rparr>]\<rparr>"

theorem factors_spent_once_witness:
  "wins factor_step (accepts ''u1'' 9) [OpAccept ''u1'' 9 10, OpAccept ''u1'' 8 11, OpAccept ''u1'' 9 12] sample_factors \<le> 1"
proof -
  have "factors_ok sample_factors" by (simp add: factors_ok_def sample_factors_def sample_db_def)
  from factors_spent_once [OF this, where ops = "[OpAccept ''u1'' 9 10, OpAccept ''u1'' 8 11, OpAccept ''u1'' 9 12]"]
  show ?thesis by simp
qed

section \<open>A completed sign-in\<close>

definition runs_identity :: "Service \<Rightarrow> bool" where
  "runs_identity svc \<longleftrightarrow> (\<exists>h l i. Service_sessions svc = identity_manager h l i)"

lemma Issue_identity:
  assumes "Issue (identity_manager h l i) newID clock token now u req mfa db = (Inr issued, db')"
  shows "IDB_challenges db' = IDB_challenges db \<and> IDB_users db' = IDB_users db \<and>
    Issued_Session issued \<in> set (IDB_sessions db') \<and> Session_UserID (Issued_Session issued) = u \<and>
    Session_MFASatisfied (Issued_Session issued) = mfa \<and> Issued_Token issued = token"
  using assms
  by (auto simp: Issue_def identity_manager_def Sessions_Create_def loginAfter_def Log_Record_def Let_def
      split: prod.splits sum.splits option.splits if_splits)

lemma SetLastLoginAt_frame:
  "IDB_challenges (snd (Users_SetLastLoginAt u at db)) = IDB_challenges db"
  "IDB_sessions (snd (Users_SetLastLoginAt u at db)) = IDB_sessions db"
  by (simp_all add: Users_SetLastLoginAt_def split: option.splits)

lemma spendAndIssue_success:
  assumes "runs_identity svc" "spendAndIssue svc d pending user req db = (Inr res, db')"
  shows "Issued_Session (VerifyResult_Issued res) \<in> set (IDB_sessions db') \<and>
    Session_UserID (Issued_Session (VerifyResult_Issued res)) = User_ID user \<and>
    Session_MFASatisfied (Issued_Session (VerifyResult_Issued res)) \<and>
    IDB_challenges db' = update_where (\<lambda>c. MFAChallenge_ID c = MFAChallenge_ID pending \<and> MFAChallenge_ConsumedAt c = None)
      (\<lambda>c. c\<lparr>MFAChallenge_ConsumedAt := Some (toStorage (Draws_spend d))\<rparr>) (IDB_challenges db)"
proof -
  obtain h l i where svc: "Service_sessions svc = identity_manager h l i"
    using assms(1) by (auto simp: runs_identity_def)
  obtain db1 where db1: "MFAChallenges_Consume (MFAChallenge_ID pending) (Draws_spend d) db = (Inr True, db1)"
    using assms(2) by (auto simp: spendAndIssue_def Challenge_Spend_def split: prod.splits sum.splits if_splits)
  then have consumed: "IDB_challenges db1 = update_where
      (\<lambda>c. MFAChallenge_ID c = MFAChallenge_ID pending \<and> MFAChallenge_ConsumedAt c = None)
      (\<lambda>c. c\<lparr>MFAChallenge_ConsumedAt := Some (toStorage (Draws_spend d))\<rparr>) (IDB_challenges db)"
    by (auto simp: MFAChallenges_Consume_def Let_def split: option.splits if_splits)
  obtain issued db2 where issue: "Issue (identity_manager h l i) (Draws_sessionID d) (Draws_store d) (Draws_token d)
      (Draws_issue d) (User_ID user) req True db1 = (Inr issued, db2)"
    and rest: "db' = snd (Users_SetLastLoginAt (User_ID user) (Session_CreatedAt (Issued_Session issued)) db2)"
      "VerifyResult_Issued res = issued"
    using assms(2) db1 by (auto simp: spendAndIssue_def Challenge_Spend_def svc split: prod.splits sum.splits option.splits)
  show ?thesis
    using Issue_identity [OF issue] rest consumed by (simp add: SetLastLoginAt_frame)
qed

lemma pendingUser_found:
  "pendingUser svc token now db = Inr (pending, user) \<Longrightarrow>
   select1 (\<lambda>c. MFAChallenge_TokenHash c = Challenges_hash (Service_challenges svc) token) (IDB_challenges db) = Some pending \<and>
   MFAChallenge_ConsumedAt pending = None \<and> now < MFAChallenge_ExpiresAt pending \<and>
   User_ID user = MFAChallenge_UserID pending \<and> User_Status user = StatusActive"
  by (auto simp: pendingUser_def Challenge_Resolve_def MFAChallenges_ByTokenHash_def Users_ByID_def Before_def
      split: sum.splits if_splits option.splits dest: select1_Some)

lemma sentinel_no_challenge: "errors_Is (ErrorfW w (Sentinel ErrNoChallenge)) ErrNoChallenge"
  by simp

text \<open>Once the challenge a token stands for is spent, the token gets nowhere.\<close>

lemma pendingUser_spent:
  assumes "select1 (\<lambda>c. MFAChallenge_TokenHash c = Challenges_hash (Service_challenges svc) token) (IDB_challenges db) = Some c"
    and "MFAChallenge_ConsumedAt c \<noteq> None"
  shows "\<exists>detail. pendingUser svc token now db = Inl (BadSecondFactor detail)"
  using assms
  by (auto simp: pendingUser_def Challenge_Resolve_def MFAChallenges_ByTokenHash_def)

lemma token_spent_after:
  assumes "runs_identity svc" "spendAndIssue svc d pending user req db = (Inr res, db')"
    and "select1 (\<lambda>c. MFAChallenge_TokenHash c = h) (IDB_challenges db) = Some pending"
    and "MFAChallenge_ConsumedAt pending = None"
  shows "\<exists>c. select1 (\<lambda>c. MFAChallenge_TokenHash c = h) (IDB_challenges db') = Some c \<and>
    MFAChallenge_ConsumedAt c \<noteq> None"
proof -
  let ?P = "\<lambda>c. MFAChallenge_ID c = MFAChallenge_ID pending \<and> MFAChallenge_ConsumedAt c = None"
  let ?f = "\<lambda>c. c\<lparr>MFAChallenge_ConsumedAt := Some (toStorage (Draws_spend d))\<rparr>"
  have "select1 (\<lambda>c. MFAChallenge_TokenHash c = h) (update_where ?P ?f (IDB_challenges db)) =
      map_option (\<lambda>c. if ?P c then ?f c else c) (select1 (\<lambda>c. MFAChallenge_TokenHash c = h) (IDB_challenges db))"
    by (rule select1_update_where) simp
  then show ?thesis using spendAndIssue_success [OF assms(1,2)] assms(3,4) by simp
qed

text \<open>
  A correct code buys exactly one session: when \<open>VerifyTOTP\<close> succeeds, the challenge was live,
  its user active with a confirmed authenticator, and the code right for a step after the last
  one used; the session it stored belongs to that user and counts as having satisfied the
  second factor. Presenting the same pending token again, with any code of either kind and at
  any time, is then refused and changes nothing.
\<close>

theorem VerifyTOTP_once:
  assumes "runs_identity svc" "VerifyTOTP svc d token code req db = (Inr res, db')"
  shows "(\<exists>pending user enrolment step. pendingUser svc token (Draws_resolve d) db = Inr (pending, user) \<and>
       TOTPs_ByUserID (User_ID user) db = Inr enrolment \<and> TOTP_ConfirmedAt enrolment \<noteq> None \<and>
       checkCode svc enrolment code (Draws_check d) = Inr step \<and> TOTP_LastUsedStep enrolment < step \<and>
       Session_UserID (Issued_Session (VerifyResult_Issued res)) = User_ID user) \<and>
     Issued_Session (VerifyResult_Issued res) \<in> set (IDB_sessions db') \<and>
     Session_MFASatisfied (Issued_Session (VerifyResult_Issued res)) \<and>
     (\<forall>d' code' req'. \<exists>detail. VerifyTOTP svc d' token code' req' db' = (Inl (BadSecondFactor detail), db')) \<and>
     (\<forall>d' code' req'. \<exists>detail. VerifyRecoveryCode svc d' token code' req' db' = (Inl (BadSecondFactor detail), db'))"
proof -
  obtain pending user where p: "pendingUser svc token (Draws_resolve d) db = Inr (pending, user)"
    using assms(2) by (auto simp: VerifyTOTP_def split: sum.splits)
  obtain enrolment where enr: "confirmedTOTP (User_ID user) db = Inr (enrolment, True)"
    using assms(2) p by (auto simp: VerifyTOTP_def split: sum.splits if_splits)
  obtain step where step: "checkCode svc enrolment code (Draws_check d) = Inr step"
    using assms(2) p enr by (auto simp: VerifyTOTP_def split: sum.splits if_splits)
  obtain db1 where acc: "TOTPs_Accept (User_ID user) step (Draws_accept d) db = (Inr True, db1)"
    using assms(2) p enr step by (auto simp: VerifyTOTP_def split: prod.splits sum.splits if_splits)
  then have fin: "spendAndIssue svc d pending user req db1 = (Inr res, db')"
    using assms(2) p enr step by (simp add: VerifyTOTP_def)
  have "TOTPs_ByUserID (User_ID user) db = Inr enrolment \<and> TOTP_ConfirmedAt enrolment \<noteq> None"
    using enr by (auto simp: confirmedTOTP_def TOTP_Confirmed_def split: sum.splits if_splits)
  moreover have "TOTP_LastUsedStep enrolment < step"
    using step by (auto simp: checkCode_def Validate_def Let_def split: sum.splits if_splits dest!: Validate_loop_sound)
  moreover have "IDB_challenges db1 = IDB_challenges db"
    using factor_frames(2) [of "User_ID user" step "Draws_accept d" db] acc by simp
  then obtain c where "select1 (\<lambda>c. MFAChallenge_TokenHash c = Challenges_hash (Service_challenges svc) token)
      (IDB_challenges db') = Some c" "MFAChallenge_ConsumedAt c \<noteq> None"
    using token_spent_after [OF assms(1) fin] pendingUser_found [OF p] by metis
  then have refused: "\<exists>detail. pendingUser svc token now db' = Inl (BadSecondFactor detail)" for now
    by (rule pendingUser_spent)
  have "\<exists>detail. VerifyTOTP svc d' token code' req' db' = (Inl (BadSecondFactor detail), db')" for d' code' req'
    using refused [of "Draws_resolve d'"] by (auto simp: VerifyTOTP_def)
  moreover have "\<exists>detail. VerifyRecoveryCode svc d' token rs req' db' = (Inl (BadSecondFactor detail), db')" for d' rs req'
    using refused [of "Draws_resolve d'"] by (auto simp: VerifyRecoveryCode_def)
  ultimately show ?thesis
    using p step spendAndIssue_success [OF assms(1) fin] by blast
qed

definition sample_service :: Service where
  "sample_service = \<lparr>Service_gen = (\<lambda>secret t. Inr ''123456''), Service_open = Inr,
     Service_codeHash = (\<lambda>c. c), Service_challenges = \<lparr>Challenges_hash = (\<lambda>t. t), Challenges_ttl = 300\<rparr>,
     Service_sessions = identity_manager (\<lambda>t. t) 9000 4000\<rparr>"

definition sample_draws :: Draws where
  "sample_draws = \<lparr>Draws_resolve = 3000, Draws_check = 62135597400 * 1000000000, Draws_accept = 3001,
     Draws_spend = 3002, Draws_issue = 3003, Draws_store = 3004, Draws_sessionID = ''s2'',
     Draws_token = replicate 43 CHR ''b''\<rparr>"

definition sample_pending :: IDB where
  "sample_pending = sample_factors
     \<lparr>IDB_users := [\<lparr>User_ID = ''u1'', User_Email = ''u1@x'', User_DisplayName = ''U'', User_PasswordHash = ''h'',
        User_PlatformRole = PlatformRoleMember, User_Status = ''active'', User_MFAEnforced = True, User_CreatedAt = 1,
        User_UpdatedAt = 1, User_LastLoginAt = None\<rparr>],
      IDB_challenges := [\<lparr>MFAChallenge_ID = ''c1'', MFAChallenge_UserID = ''u1'',
        MFAChallenge_TokenHash = replicate 43 CHR ''a'', MFAChallenge_CreatedAt = 2900,
        MFAChallenge_ExpiresAt = 5000, MFAChallenge_ConsumedAt = None\<rparr>]\<rparr>"

abbreviation sample_signin :: "(error + VerifyResult) \<times> IDB" where
  "sample_signin \<equiv> VerifyTOTP sample_service sample_draws (replicate 43 CHR ''a'') ''123456''
     \<lparr>Request_IP = ''ip'', Request_UserAgent = ''ua''\<rparr> sample_pending"

lemma sample_signin_succeeds: "\<not> isl (fst sample_signin)"
  by code_simp

theorem VerifyTOTP_once_witness:
  "\<exists>detail. fst (VerifyTOTP sample_service sample_draws (replicate 43 CHR ''a'') ''123456''
     \<lparr>Request_IP = ''ip'', Request_UserAgent = ''ua''\<rparr> (snd sample_signin)) = Inl (BadSecondFactor detail)"
proof -
  obtain res where "sample_signin = (Inr res, snd sample_signin)"
    using sample_signin_succeeds by (metis isl_def prod.collapse sum.collapse(2))
  moreover have "runs_identity sample_service"
    by (auto simp: runs_identity_def sample_service_def)
  ultimately show ?thesis using VerifyTOTP_once by (metis fst_conv)
qed

end
