(* ===== verification/Go_Text.thy ===== *)
theory Go_Text
  imports Go_Base "HOL-Library.Word"
begin

text \<open>
  Texts as the Go standard library cuts, prints and encodes them: \<open>strings.SplitN\<close>, \<open>Split\<close>,
  \<open>Cut\<close> and \<open>CutPrefix\<close>, \<open>strconv.ParseUint\<close> in base ten, and the encodings of
  encoding/base32 and encoding/base64 without padding, over one alphabet of 2^k characters. With
  them the lemmas the components rest on: cutting loses nothing, a printed number is read back,
  and what is encoded is decoded to itself.
\<close>

section \<open>Cutting\<close>

text \<open>At most k cuts.\<close>

fun split_cuts :: "char \<Rightarrow> nat \<Rightarrow> string \<Rightarrow> string list" where
  "split_cuts sep 0 s = [s]"
| "split_cuts sep (Suc k) s =
     (case dropWhile (\<lambda>c. c \<noteq> sep) s of
        [] \<Rightarrow> [s]
      | c # rest \<Rightarrow> takeWhile (\<lambda>c. c \<noteq> sep) s # split_cuts sep k rest)"

definition SplitN :: "string \<Rightarrow> char \<Rightarrow> nat \<Rightarrow> string list" where
  "SplitN s sep n = split_cuts sep (n - 1) s"

text \<open>A text has no more separators than characters.\<close>

definition Split :: "string \<Rightarrow> char \<Rightarrow> string list" where
  "Split s sep = split_cuts sep (length s) s"

text \<open>\<open>strings.Cut\<close> at one character: None when it is absent.\<close>

definition Cut :: "string \<Rightarrow> char \<Rightarrow> (string \<times> string) option" where
  "Cut s sep =
     (case dropWhile (\<lambda>c. c \<noteq> sep) s of
        [] \<Rightarrow> None
      | c # rest \<Rightarrow> Some (takeWhile (\<lambda>c. c \<noteq> sep) s, rest))"

definition CutPrefix :: "string \<Rightarrow> string \<Rightarrow> string option" where
  "CutPrefix s prefix = (if HasPrefix s prefix then Some (drop (length prefix) s) else None)"

text \<open>\<open>strings.Join\<close>, the way back.\<close>

fun Join :: "string list \<Rightarrow> string \<Rightarrow> string" where
  "Join [] sep = []"
| "Join [x] sep = x"
| "Join (x # y # xs) sep = x @ sep @ Join (y # xs) sep"

lemma split_cuts_end: "dropWhile (\<lambda>c. c \<noteq> sep) s = [] \<Longrightarrow> split_cuts sep k s = [s]"
  by (cases k) (simp_all only: split_cuts.simps list.case)

lemma split_cuts_one: "sep \<notin> set s \<Longrightarrow> split_cuts sep k s = [s]"
  by (rule split_cuts_end) (auto simp: dropWhile_eq_Nil_conv)

lemma cut_at:
  assumes "sep \<notin> set p"
  shows "dropWhile (\<lambda>c. c \<noteq> sep) (p @ sep # rest) = sep # rest" "takeWhile (\<lambda>c. c \<noteq> sep) (p @ sep # rest) = p"
proof -
  have "\<And>c. c \<in> set p \<Longrightarrow> c \<noteq> sep" using assms by blast
  then show "dropWhile (\<lambda>c. c \<noteq> sep) (p @ sep # rest) = sep # rest" "takeWhile (\<lambda>c. c \<noteq> sep) (p @ sep # rest) = p"
    by (simp_all add: dropWhile_append2 takeWhile_append2)
qed

lemma split_cuts_cons: "sep \<notin> set p \<Longrightarrow> split_cuts sep (Suc k) (p @ sep # rest) = p # split_cuts sep k rest"
  by (simp add: cut_at)

lemma Cut_at: "sep \<notin> set p \<Longrightarrow> Cut (p @ sep # rest) sep = Some (p, rest)"
  by (simp add: Cut_def cut_at)

text \<open>Cutting at the separator loses nothing: the pieces joined again are the text.\<close>

fun join_cuts :: "char \<Rightarrow> string list \<Rightarrow> string" where
  "join_cuts sep [] = []"
| "join_cuts sep [p] = p"
| "join_cuts sep (p # ps) = p @ sep # join_cuts sep ps"

lemma split_cuts_nonempty: "split_cuts sep k s \<noteq> []"
  by (cases k) (auto split: list.split)

lemma join_split: "join_cuts sep (split_cuts sep k s) = s"
proof (induction k arbitrary: s)
  case (Suc k)
  show ?case
  proof (cases "dropWhile (\<lambda>c. c \<noteq> sep) s")
    case (Cons c rest)
    have c: "c = sep" using Cons hd_dropWhile [of "\<lambda>c. c \<noteq> sep" s] by auto
    have "join_cuts sep (split_cuts sep (Suc k) s) = takeWhile (\<lambda>c. c \<noteq> sep) s @ sep # join_cuts sep (split_cuts sep k rest)"
      using Cons split_cuts_nonempty [of sep k rest] by (cases "split_cuts sep k rest") simp_all
    also have "\<dots> = takeWhile (\<lambda>c. c \<noteq> sep) s @ dropWhile (\<lambda>c. c \<noteq> sep) s" using Suc Cons c by simp
    finally show ?thesis by simp
  qed (simp only: split_cuts_end join_cuts.simps)
qed simp

lemma split_cuts_clean: "ps = split_cuts sep k s \<Longrightarrow> length ps \<le> k \<Longrightarrow> p \<in> set ps \<Longrightarrow> sep \<notin> set p"
proof (induction k arbitrary: s ps)
  case (Suc k)
  show ?case
  proof (cases "dropWhile (\<lambda>c. c \<noteq> sep) s")
    case Nil
    then have "sep \<notin> set s" by (auto simp: dropWhile_eq_Nil_conv)
    then show ?thesis using Suc.prems Nil by simp
  next
    case (Cons c rest)
    then show ?thesis using Suc.IH [OF refl, of rest] Suc.prems by (auto dest: set_takeWhileD)
  qed
qed simp

text \<open>Splitting what was joined from clean pieces.\<close>

lemma split_join_cuts:
  "ps \<noteq> [] \<Longrightarrow> \<forall>p\<in>set ps. sep \<notin> set p \<Longrightarrow> length ps \<le> Suc k \<Longrightarrow> split_cuts sep k (join_cuts sep ps) = ps"
proof (induction sep ps arbitrary: k rule: join_cuts.induct)
  case (3 sep p q ps)
  then obtain k' where k: "k = Suc k'" by (cases k) auto
  have "split_cuts sep k (join_cuts sep (p # q # ps)) = p # split_cuts sep k' (join_cuts sep (q # ps))"
    using 3 k split_cuts_cons [of sep p k' "join_cuts sep (q # ps)"] by simp
  then show ?case using 3 k by simp
qed (auto simp: split_cuts_one)

lemma join_cuts_length: "ps \<noteq> [] \<Longrightarrow> length ps \<le> Suc (length (join_cuts sep ps))"
  by (induction sep ps rule: join_cuts.induct) auto

lemma Split_join: "ps \<noteq> [] \<Longrightarrow> \<forall>p\<in>set ps. sep \<notin> set p \<Longrightarrow> Split (join_cuts sep ps) sep = ps"
  by (simp add: Split_def split_join_cuts join_cuts_length)

section \<open>Decimal numbers\<close>

definition digit_value :: "char \<Rightarrow> nat option" where
  "digit_value c =
     (let n = of_char c :: nat in if 48 \<le> n \<and> n \<le> 57 then Some (n - 48) else None)"

fun ParseUint_loop :: "nat \<Rightarrow> string \<Rightarrow> nat option" where
  "ParseUint_loop acc [] = Some acc"
| "ParseUint_loop acc (c # cs) =
     (case digit_value c of None \<Rightarrow> None | Some d \<Rightarrow> ParseUint_loop (10 * acc + d) cs)"

text \<open>\<open>strconv.ParseUint(s, 10, bits)\<close>, with None for a syntax or a range error.\<close>

definition ParseUint :: "string \<Rightarrow> nat \<Rightarrow> nat option" where
  "ParseUint s bits =
     (if s = [] then None
      else case ParseUint_loop 0 s of
        None \<Rightarrow> None | Some n \<Rightarrow> if n < 2 ^ bits then Some n else None)"

lemma digit_value_digit: "d < 10 \<Longrightarrow> digit_value (char_of (48 + d)) = Some d"
  by (simp add: digit_value_def Let_def)

lemma ParseUint_loop_append:
  "ParseUint_loop acc (s @ t) = (case ParseUint_loop acc s of None \<Rightarrow> None | Some n \<Rightarrow> ParseUint_loop n t)"
  by (induction acc s rule: ParseUint_loop.induct) (auto split: option.splits)

lemma ParseUint_loop_digits: "ParseUint_loop 0 (digits n) = Some n"
proof (induction n rule: digits.induct)
  case (1 n)
  show ?case
  proof (cases "n < 10")
    case True
    then show ?thesis by (simp add: digits.simps [of n] digit_value_digit)
  next
    case False
    then show ?thesis using 1 by (simp add: digits.simps [of n] ParseUint_loop_append digit_value_digit)
  qed
qed

lemma digits_nonempty: "digits n \<noteq> []"
  by (simp add: digits.simps [of n])

lemma digits_are_digits: "c \<in> set (digits n) \<Longrightarrow> 48 \<le> (of_char c :: nat) \<and> (of_char c :: nat) \<le> 57"
proof (induction n rule: digits.induct)
  case (1 n)
  then show ?case by (cases "n < 10") (auto simp: digits.simps [of n])
qed

lemma ParseUint_digits: "n < 2 ^ bits \<Longrightarrow> ParseUint (digits n) bits = Some n"
  by (simp add: ParseUint_def digits_nonempty ParseUint_loop_digits)

lemma Itoa_nat: "Itoa (int n) = digits n"
  by (simp add: Itoa_def)

section \<open>Bits and encodings\<close>

definition byte_bits :: "8 word \<Rightarrow> bool list" where
  "byte_bits b = map (\<lambda>i. bit b i) [7, 6, 5, 4, 3, 2, 1, 0]"

text \<open>Pieces of k bits, the last one perhaps shorter.\<close>

function chunks :: "nat \<Rightarrow> bool list \<Rightarrow> bool list list" where
  "chunks k bs = (if bs = [] \<or> k = 0 then [] else take k bs # chunks k (drop k bs))"
  by pat_completeness auto
termination
  by (relation "measure (\<lambda>(k, bs). length bs)") auto

declare chunks.simps [simp del]

lemma chunks_Nil [simp]: "chunks k [] = []"
  by (simp add: chunks.simps)

definition pad :: "nat \<Rightarrow> bool list \<Rightarrow> bool list" where
  "pad k g = g @ replicate (k - length g) False"

definition bits_value :: "bool list \<Rightarrow> nat" where
  "bits_value g = foldl (\<lambda>n b. 2 * n + of_bool b) 0 g"

definition encode_bits :: "string \<Rightarrow> nat \<Rightarrow> 8 word list \<Rightarrow> string" where
  "encode_bits alphabet k raw =
     map (\<lambda>g. alphabet ! bits_value (pad k g)) (chunks k (concat (map byte_bits raw)))"

text \<open>\<open>base32.StdEncoding.WithPadding(base32.NoPadding)\<close>, \<open>base64.RawStdEncoding\<close>, \<open>base64.RawURLEncoding\<close>.\<close>

definition base32_alphabet :: string where
  "base32_alphabet = ''ABCDEFGHIJKLMNOPQRSTUVWXYZ234567''"

definition base64_alphabet :: string where
  "base64_alphabet = ''ABCDEFGHIJKLMNOPQRSTUVWXYZabcdefghijklmnopqrstuvwxyz0123456789+/''"

definition base64url_alphabet :: string where
  "base64url_alphabet = ''ABCDEFGHIJKLMNOPQRSTUVWXYZabcdefghijklmnopqrstuvwxyz0123456789-_''"

fun value_bits :: "nat \<Rightarrow> nat \<Rightarrow> bool list" where
  "value_bits 0 v = []"
| "value_bits (Suc k) v = value_bits k (v div 2) @ [odd v]"

definition index_of :: "string \<Rightarrow> char \<Rightarrow> nat" where
  "index_of alphabet c = length (takeWhile (\<lambda>x. x \<noteq> c) alphabet)"

definition bits_byte :: "bool list \<Rightarrow> 8 word" where
  "bits_byte g = word_of_nat (bits_value g)"

text \<open>
  \<open>DecodeString\<close> of the unpadded base64 encodings: line breaks are skipped, a foreign character
  or a lone last character is an error, and the bits left over at the end are dropped.
\<close>

definition decode64 :: "string \<Rightarrow> string \<Rightarrow> 8 word list option" where
  "decode64 alphabet s =
     (let cs = filter (\<lambda>c. c \<noteq> CHR 0x0A \<and> c \<noteq> CHR 0x0D) s in
      if \<not> set cs \<subseteq> set alphabet \<or> length cs mod 4 = 1 then None
      else Some (map bits_byte (filter (\<lambda>g. length g = 8)
                   (chunks 8 (concat (map (\<lambda>c. value_bits 6 (index_of alphabet c)) cs))))))"

definition EncodedLen :: "nat \<Rightarrow> nat" where
  "EncodedLen n = n div 5 * 8 + (n mod 5 * 8 + 4) div 5"

section \<open>Lemmas: encodings\<close>

lemma chunks_cons: "bs \<noteq> [] \<Longrightarrow> 0 < k \<Longrightarrow> chunks k bs = take k bs # chunks k (drop k bs)"
  by (simp add: chunks.simps)

lemma chunks_append: "0 < k \<Longrightarrow> length g = k \<Longrightarrow> chunks k (g @ bs) = g # chunks k bs"
  by (subst chunks_cons) auto

lemma chunks_length: "0 < k \<Longrightarrow> length (chunks k bs) = (length bs + k - 1) div k"
proof (induction k bs rule: chunks.induct)
  case (1 k bs)
  show ?case
  proof (cases "bs = []")
    case False
    then have "length (chunks k bs) = 1 + (length (drop k bs) + k - 1) div k" using 1 by (simp add: chunks_cons)
    also have "\<dots> = (length bs + k - 1) div k"
    proof (cases "length bs < k")
      case True
      moreover have "1 \<le> length bs" using False by (cases bs) auto
      ultimately have "(length bs + k - 1) div k = 1" using 1(2) by (intro div_nat_eqI) auto
      then show ?thesis using True 1(2) by simp
    next
      case False
      then have "length bs + k - 1 = (length bs - k + k - 1) + k" using 1(2) by simp
      then show ?thesis using 1(2) by (simp only: div_add_self2 length_drop)
    qed
    finally show ?thesis .
  qed (use 1 in simp)
qed

lemma chunks_short: "g \<in> set (chunks k bs) \<Longrightarrow> length g \<le> k"
proof (induction k bs rule: chunks.induct)
  case (1 k bs)
  then show ?case by (cases "bs = [] \<or> k = 0") (auto simp: chunks.simps [of k bs])
qed

lemma pad_length: "length g \<le> k \<Longrightarrow> length (pad k g) = k"
  by (simp add: pad_def)

lemma bits_value_snoc: "bits_value (g @ [b]) = 2 * bits_value g + of_bool b"
  by (simp add: bits_value_def)

lemma bits_value_Nil [simp]: "bits_value [] = 0"
  by (simp add: bits_value_def)

lemma bits_value_bound: "bits_value g < 2 ^ length g"
  by (induction g rule: rev_induct) (auto simp: bits_value_snoc)

lemma value_bits_value: "value_bits (length g) (bits_value g) = g"
  by (induction g rule: rev_induct) (auto simp: bits_value_snoc)

lemma byte_bits_length [simp]: "length (byte_bits b) = 8"
  by (simp add: byte_bits_def)

lemma bits_length [simp]: "length (concat (map byte_bits raw)) = 8 * length raw"
  by (induction raw) auto

lemma encode_bits_length: "0 < k \<Longrightarrow> length (encode_bits alphabet k raw) = (8 * length raw + k - 1) div k"
  by (simp add: encode_bits_def chunks_length)

lemma encode_bits_alphabet:
  assumes "2 ^ k \<le> length alphabet" "c \<in> set (encode_bits alphabet k raw)" shows "c \<in> set alphabet"
proof -
  obtain g where g: "g \<in> set (chunks k (concat (map byte_bits raw)))" "c = alphabet ! bits_value (pad k g)"
    using assms(2) by (auto simp: encode_bits_def)
  then show ?thesis
    using bits_value_bound [of "pad k g"] pad_length [OF chunks_short [OF g(1)]] assms(1) by simp
qed

lemma bits_value_cons: "bits_value (b # g) = of_bool b * 2 ^ length g + bits_value g"
proof (induction g rule: rev_induct)
  case Nil
  show ?case using bits_value_snoc [of "[]" b] by simp
next
  case (snoc x g)
  then show ?case using bits_value_snoc [of "b # g" x] by (simp add: bits_value_snoc)
qed

lemma bits_value_bits: "bits_value (map (bit a) (rev [0..<n])) = take_bit n a" for a :: nat
  by (induction n) (simp_all add: bits_value_cons take_bit_Suc_from_most)

lemma bits_byte_bits: "bits_byte (byte_bits b) = b"
proof -
  have "byte_bits b = map (bit (unat b)) (rev [0..<8])"
    by (simp add: byte_bits_def bit_unsigned_iff upt_rec numeral_eq_Suc)
  moreover have "unat b < 2 ^ 8" using unsigned_less [of b] by simp
  ultimately have "bits_value (byte_bits b) = unat b"
    by (simp only: bits_value_bits) (simp add: take_bit_nat_eq_self)
  then show ?thesis by (simp add: bits_byte_def)
qed

text \<open>The bits that encoding and decoding go through: the raw bits and fewer than k zeros.\<close>

lemma encoded_bits:
  assumes "0 < k"
  shows "\<exists>z < k. concat (map (\<lambda>g. value_bits k (bits_value (pad k g))) (chunks k bs)) = bs @ replicate z False"
  using assms
proof (induction k bs rule: chunks.induct)
  case (1 k bs)
  have bits: "value_bits k (bits_value (pad k g)) = pad k g" if "length g \<le> k" for g
    using value_bits_value [of "pad k g"] pad_length [OF that] by simp
  show ?case
  proof (cases "bs = []")
    case True
    then show ?thesis using 1 by (auto intro!: exI [of _ 0])
  next
    case False
    show ?thesis
    proof (cases "length bs \<le> k")
      case True
      then have "concat (map (\<lambda>g. value_bits k (bits_value (pad k g))) (chunks k bs)) = pad k bs"
        using False 1(2) by (simp add: chunks_cons bits)
      moreover have "1 \<le> length bs" using False by (cases bs) auto
      ultimately show ?thesis using 1(2) by (auto simp: pad_def intro!: exI [of _ "k - length bs"])
    next
      case long: False
      then obtain z where z: "z < k" "concat (map (\<lambda>g. value_bits k (bits_value (pad k g))) (chunks k (drop k bs))) =
          drop k bs @ replicate z False" using 1 False by auto
      have "value_bits k (bits_value (pad k (take k bs))) = take k bs"
        using long bits [of "take k bs"] by (simp add: pad_def)
      then show ?thesis using z False 1(2) by (auto simp: chunks_cons intro!: exI [of _ z])
    qed
  qed
qed

lemma index_of_nth: "distinct alphabet \<Longrightarrow> i < length alphabet \<Longrightarrow> index_of alphabet (alphabet ! i) = i"
proof (induction alphabet arbitrary: i)
  case (Cons a alphabet)
  then show ?case by (cases i) (auto simp: index_of_def)
qed simp

lemma chunks_bytes: "chunks 8 (concat (map byte_bits raw)) = map byte_bits raw"
  by (induction raw) (simp_all add: chunks_append)

lemma full_chunks: "z < 8 \<Longrightarrow> filter (\<lambda>g. length g = 8) (chunks 8 (concat (map byte_bits raw) @ replicate z False)) = map byte_bits raw"
proof (induction raw)
  case Nil
  then show ?case by (cases "z = 0") (auto simp: chunks_cons)
qed (simp add: chunks_append)

text \<open>An alphabet of the base64 family.\<close>

definition alphabet64 :: "string \<Rightarrow> bool" where
  "alphabet64 alphabet \<longleftrightarrow> length alphabet = 64 \<and> distinct alphabet \<and> CHR 0x0A \<notin> set alphabet \<and> CHR 0x0D \<notin> set alphabet"

lemma alphabets64: "alphabet64 base64_alphabet" "alphabet64 base64url_alphabet"
  by code_simp+

lemma decode_encode:
  assumes "alphabet64 alphabet"
  shows "decode64 alphabet (encode_bits alphabet 6 raw) = Some raw"
proof -
  let ?e = "encode_bits alphabet 6 raw" and ?bs = "concat (map byte_bits raw)"
  have chars: "set ?e \<subseteq> set alphabet" using encode_bits_alphabet [of 6 alphabet _ raw] assms by (auto simp: alphabet64_def)
  then have kept: "filter (\<lambda>c. c \<noteq> CHR 0x0A \<and> c \<noteq> CHR 0x0D) ?e = ?e" using assms by (auto simp: filter_id_conv alphabet64_def)
  have len: "length ?e mod 4 \<noteq> 1" by (simp add: encode_bits_length) presburger
  have "index_of alphabet (alphabet ! bits_value (pad 6 g)) = bits_value (pad 6 g)" if "g \<in> set (chunks 6 ?bs)" for g
    using index_of_nth [of alphabet] assms bits_value_bound [of "pad 6 g"] pad_length [OF chunks_short [OF that]]
    by (simp add: alphabet64_def)
  then have "concat (map (\<lambda>c. value_bits 6 (index_of alphabet c)) ?e) =
      concat (map (\<lambda>g. value_bits 6 (bits_value (pad 6 g))) (chunks 6 ?bs))"
    by (simp add: encode_bits_def comp_def cong: map_cong)
  then obtain z where "z < 6" "concat (map (\<lambda>c. value_bits 6 (index_of alphabet c)) ?e) = ?bs @ replicate z False"
    using encoded_bits [of 6 ?bs] by auto
  then show ?thesis using chars kept len full_chunks [of z raw] by (simp add: decode64_def Let_def bits_byte_bits comp_def)
qed

end
