(* ===== verification/Service_Tokens.thy ===== *)
theory Service_Tokens
  imports Second_Factor Go_Text
begin

text \<open>
  Service tokens (internal/authn/servicetoken: token.go, manager.go; internal/store/identity:
  servicetokens.go; internal/authn/servicetokens.go): what automation presents instead of a
  session. \<open>TDB\<close> adds the token table to the identity database; the keyed hash of a secret
  (HMAC-SHA256 under a derived key) is an argument, and so is the printed form of times and durations. The manager's own state is the map of the
  last writes of a token's use and the background jobs that are still to run; \<open>token_step\<close> lets
  them run in any order between the requests. Random bytes, identifiers and clock readings are
  arguments. Where Go wraps two errors, the value keeps the one that callers test for.
\<close>

section \<open>The text of a token (token.go)\<close>

abbreviation Marker :: string where "Marker \<equiv> ''bl''"
abbreviation token_separator :: char where "token_separator \<equiv> CHR ''_''"

definition PrefixBytes :: nat where "PrefixBytes = 6"
definition SecretBytes :: nat where "SecretBytes = 32"

definition EncodeToString :: "8 word list \<Rightarrow> string" where
  "EncodeToString raw = encode_bits base32_alphabet 5 raw"

definition prefixLength :: nat where "prefixLength = EncodedLen PrefixBytes"
definition secretLength :: nat where "secretLength = EncodedLen SecretBytes"

abbreviation ErrMalformed :: string where "ErrMalformed \<equiv> ''servicetoken: the value is not a service token''"

record parts =
  parts_prefix :: string
  parts_secret :: string

text \<open>The two readings of the random source; that reading fails is not modelled.\<close>

definition mint :: "8 word list \<Rightarrow> 8 word list \<Rightarrow> Token \<times> parts" where
  "mint rawPrefix rawSecret =
     (let prefix = EncodeToString rawPrefix; secret = EncodeToString rawSecret
      in (Marker @ [token_separator] @ prefix @ [token_separator] @ secret,
          \<lparr>parts_prefix = prefix, parts_secret = secret\<rparr>))"

definition token_malformed :: "string \<Rightarrow> error + parts" where
  "token_malformed why = Inl (ErrorfW why (Sentinel ErrMalformed))"

definition token_parse :: "Token \<Rightarrow> error + parts" where
  "token_parse token =
     (let fields = SplitN token token_separator 4 in
      if length fields \<noteq> 3 then token_malformed (''it has '' @ Itoa (int (length fields)) @ '' parts, want 3'')
      else if fields ! 0 \<noteq> Marker then token_malformed (''it does not begin with '' @ Quote (Marker @ [token_separator]))
      else if length (fields ! 1) \<noteq> prefixLength
      then token_malformed (''its prefix has '' @ Itoa (int (length (fields ! 1))) @ '' characters, want '' @ Itoa (int prefixLength))
      else if length (fields ! 2) \<noteq> secretLength
      then token_malformed (''its secret has '' @ Itoa (int (length (fields ! 2))) @ '' characters, want '' @ Itoa (int secretLength))
      else Inr \<lparr>parts_prefix = fields ! 1, parts_secret = fields ! 2\<rparr>)"

section \<open>The table (store/identity/servicetokens.go)\<close>

record ServiceToken =
  ServiceToken_ID :: string
  ServiceToken_Name :: string
  ServiceToken_Prefix :: string
  ServiceToken_TokenHash :: string
  ServiceToken_OwnerUserID :: string
  ServiceToken_CreatedBy :: string
  ServiceToken_Scopes :: "TokenScope list"
  ServiceToken_EngagementID :: string
  ServiceToken_CreatedAt :: gotime
  ServiceToken_ExpiresAt :: gotime
  ServiceToken_LastUsedAt :: "gotime option"
  ServiceToken_RevokedAt :: "gotime option"
  ServiceToken_RevokedBy :: string

record NewServiceToken =
  NewServiceToken_Name :: string
  NewServiceToken_Prefix :: string
  NewServiceToken_TokenHash :: string
  NewServiceToken_OwnerUserID :: string
  NewServiceToken_CreatedBy :: string
  NewServiceToken_Scopes :: "TokenScope list"
  NewServiceToken_EngagementID :: string
  NewServiceToken_ExpiresAt :: gotime

record TDB =
  TDB_identity :: IDB
  TDB_tokens :: "ServiceToken list"

text \<open>The column of scopes: words with one space between, read back with \<open>strings.Fields\<close>.\<close>

fun joinScopes :: "TokenScope list \<Rightarrow> string" where
  "joinScopes [] = []"
| "joinScopes [scope] = scope"
| "joinScopes (scope # rest) = scope @ '' '' @ joinScopes rest"

function splitScopes :: "string \<Rightarrow> TokenScope list" where
  "splitScopes column =
     (case dropWhile is_space column of
        [] \<Rightarrow> []
      | c # rest \<Rightarrow> takeWhile (\<lambda>c. \<not> is_space c) (c # rest) # splitScopes (dropWhile (\<lambda>c. \<not> is_space c) (c # rest)))"
  by pat_completeness auto
termination
proof (relation "measure length", simp)
  fix column c rest
  assume column: "dropWhile is_space column = c # rest"
  then have "\<not> is_space c" by (metis hd_dropWhile list.distinct(1) list.sel(1))
  then have "length (dropWhile (\<lambda>c. \<not> is_space c) (c # rest)) \<le> length rest" by (simp add: length_dropWhile_le)
  also have "length rest < length column" using length_dropWhile_le [of is_space column] column by simp
  finally show "(dropWhile (\<lambda>c. \<not> is_space c) (c # rest), column) \<in> measure length" by simp
qed

declare splitScopes.simps [simp del]

definition ServiceTokens_Create :: "string \<Rightarrow> gotime \<Rightarrow> NewServiceToken \<Rightarrow> TDB after list \<Rightarrow> TDB \<Rightarrow>
    (error + ServiceToken) \<times> TDB" where
  "ServiceTokens_Create newID clock inp after db =
     (let what = ''identity: create service token for user '' @ Quote (NewServiceToken_OwnerUserID inp);
          row = \<lparr>ServiceToken_ID = newID, ServiceToken_Name = NewServiceToken_Name inp,
            ServiceToken_Prefix = NewServiceToken_Prefix inp, ServiceToken_TokenHash = NewServiceToken_TokenHash inp,
            ServiceToken_OwnerUserID = NewServiceToken_OwnerUserID inp, ServiceToken_CreatedBy = NewServiceToken_CreatedBy inp,
            ServiceToken_Scopes = splitScopes (joinScopes (NewServiceToken_Scopes inp)),
            ServiceToken_EngagementID = NewServiceToken_EngagementID inp, ServiceToken_CreatedAt = toStorage clock,
            ServiceToken_ExpiresAt = toStorage (NewServiceToken_ExpiresAt inp), ServiceToken_LastUsedAt = None,
            ServiceToken_RevokedAt = None, ServiceToken_RevokedBy = []\<rparr>
      in case requireUser (TDB_identity db) (NewServiceToken_OwnerUserID inp) of
           Some err \<Rightarrow> (Inl (ErrorfW what err), db)
         | None \<Rightarrow>
             (case (if NewServiceToken_CreatedBy inp \<noteq> NewServiceToken_OwnerUserID inp
                    then requireUser (TDB_identity db) (NewServiceToken_CreatedBy inp) else None) of
                Some err \<Rightarrow> (Inl (ErrorfW what err), db)
              | None \<Rightarrow>
                  if newID \<in> ServiceToken_ID ` set (TDB_tokens db) \<or>
                     NewServiceToken_Prefix inp \<in> ServiceToken_Prefix ` set (TDB_tokens db)
                  then (Inl (Conflict ''that token prefix is already in use''), db)
                  else case runAfter newID after (db\<lparr>TDB_tokens := TDB_tokens db @ [row]\<rparr>) of
                         Inl err \<Rightarrow> (Inl (ErrorfW what err), db)
                       | Inr db' \<Rightarrow> (Inr row, db')))"

definition ServiceTokens_ByPrefix :: "string \<Rightarrow> TDB \<Rightarrow> error + ServiceToken" where
  "ServiceTokens_ByPrefix prefix db =
     (case select1 (\<lambda>t. ServiceToken_Prefix t = prefix) (TDB_tokens db) of
        None \<Rightarrow> Inl (NotFound ''service token'' ''(prefix)'')
      | Some t \<Rightarrow> Inr t)"

text \<open>ORDER BY id DESC.\<close>

definition ServiceTokens_ListByOwner :: "string \<Rightarrow> TDB \<Rightarrow> ServiceToken list" where
  "ServiceTokens_ListByOwner ownerUserID db =
     rev (sort_key ServiceToken_ID (filter (\<lambda>t. ServiceToken_OwnerUserID t = ownerUserID) (TDB_tokens db)))"

definition ServiceTokens_Revoke :: "string \<Rightarrow> string \<Rightarrow> string \<Rightarrow> gotime \<Rightarrow> TDB after list \<Rightarrow> TDB \<Rightarrow>
    (error + ServiceToken) \<times> TDB" where
  "ServiceTokens_Revoke tid ownerUserID revokedBy at after db =
     (let what = ''identity: revoke service token '' @ Quote tid;
          sel = (\<lambda>t. ServiceToken_ID t = tid \<and> ServiceToken_OwnerUserID t = ownerUserID \<and> ServiceToken_RevokedAt t = None);
          affected = count_where sel (TDB_tokens db);
          db1 = db\<lparr>TDB_tokens := update_where sel
            (\<lambda>t. t\<lparr>ServiceToken_RevokedAt := Some (toStorage at), ServiceToken_RevokedBy := revokedBy\<rparr>) (TDB_tokens db)\<rparr>
      in case requireUser (TDB_identity db) revokedBy of
           Some err \<Rightarrow> (Inl (ErrorfW what err), db)
         | None \<Rightarrow>
             (case select1 (\<lambda>t. ServiceToken_ID t = tid \<and> ServiceToken_OwnerUserID t = ownerUserID) (TDB_tokens db1) of
                None \<Rightarrow> (Inl (ErrorfW what (NotFound ''service token'' tid)), db)
              | Some revoked \<Rightarrow>
                  if affected = 1 then
                    (case runAfter (ServiceToken_ID revoked) after db1 of
                       Inl err \<Rightarrow> (Inl (ErrorfW what err), db)
                     | Inr db2 \<Rightarrow> (Inr revoked, db2))
                  else (Inr revoked, db1)))"

definition ServiceTokens_SetLastUsedAt :: "string \<Rightarrow> gotime \<Rightarrow> TDB \<Rightarrow> error option \<times> TDB" where
  "ServiceTokens_SetLastUsedAt tid at db =
     (case requireOneRow (count_where (\<lambda>t. ServiceToken_ID t = tid) (TDB_tokens db)) ''service token'' tid of
        Some err \<Rightarrow> (Some (ErrorfW (''identity: touch service token '' @ Quote tid) err), db)
      | None \<Rightarrow> (None, db\<lparr>TDB_tokens := update_where (\<lambda>t. ServiceToken_ID t = tid)
                    (\<lambda>t. t\<lparr>ServiceToken_LastUsedAt := Some (toStorage at)\<rparr>) (TDB_tokens db)\<rparr>))"

definition ServiceTokens_DeleteExpired :: "gotime \<Rightarrow> TDB \<Rightarrow> nat \<times> TDB" where
  "ServiceTokens_DeleteExpired before db =
     (let sel = (\<lambda>t. ServiceToken_ExpiresAt t < toStorage before)
      in (count_where sel (TDB_tokens db), db\<lparr>TDB_tokens := delete_where sel (TDB_tokens db)\<rparr>))"

section \<open>The manager (manager.go)\<close>

abbreviation ErrNoToken :: string where "ErrNoToken \<equiv> ''servicetoken: no usable service token''"

definition token_MaxLifetime :: duration where "token_MaxLifetime = 365 * 24 * 60 * Minute"
definition token_touchInterval :: duration where "token_touchInterval = Minute"
definition nameLimit :: nat where "nameLimit = 100"

abbreviation VerbTokenCreated :: Verb where "VerbTokenCreated \<equiv> ''token.created''"
abbreviation VerbTokenRevoked :: Verb where "VerbTokenRevoked \<equiv> ''token.revoked''"
abbreviation VerbTokenFirstUsed :: Verb where "VerbTokenFirstUsed \<equiv> ''token.first_used''"
abbreviation VerbTokenAdminRevoked :: Verb where "VerbTokenAdminRevoked \<equiv> ''token.admin_revoked''"
abbreviation ObjectToken :: string where "ObjectToken \<equiv> ''service_token''"

record Token_Manager =
  TM_hash :: "string \<Rightarrow> string"
  TM_activity :: bool
  TM_maxLifetime :: duration
  TM_formatTime :: "gotime \<Rightarrow> string"
  TM_formatDuration :: "duration \<Rightarrow> string"

text \<open>What \<open>New\<close> refuses, and the maximum lifetime it settles on.\<close>

definition New_Token_Manager :: "(duration \<Rightarrow> string) \<Rightarrow> bool \<Rightarrow> bool \<Rightarrow> duration \<Rightarrow> string + duration" where
  "New_Token_Manager formatDuration hasStore hasHasher maxLifetime =
     (if \<not> hasStore then Inl ''servicetoken: no store; there is nowhere to keep a token''
      else if \<not> hasHasher then Inl ''servicetoken: no hasher; a presented token could not be checked''
      else if maxLifetime < 0
      then Inl (''servicetoken: the maximum lifetime is '' @ formatDuration maxLifetime @ '', which is not a duration a token can have'')
      else Inr (if maxLifetime = 0 then token_MaxLifetime else maxLifetime))"

text \<open>The database, the map of last writes under its mutex, and the background jobs not yet run.\<close>

record Token_State =
  TS_db :: TDB
  TS_touched :: "(string \<times> gotime) list"
  TS_jobs :: "(string \<times> gotime) list"

definition TDB_record :: "Entry \<Rightarrow> TDB \<Rightarrow> error + TDB" where
  "TDB_record e db =
     (case Log_Record e (TDB_identity db) of
        Inl err \<Rightarrow> Inl err | Inr i \<Rightarrow> Inr (db\<lparr>TDB_identity := i\<rparr>))"

definition token_entry :: "string \<Rightarrow> Verb \<Rightarrow> string \<Rightarrow> (string \<times> delta_value) list \<Rightarrow> Entry" where
  "token_entry actorID verb tid delta =
     \<lparr>Entry_EngagementID = [], Entry_ActorID = actorID, Entry_Verb = verb, Entry_ObjectType = ObjectToken,
      Entry_ObjectID = tid, Entry_ParentIDs = [], Entry_Delta = Delta delta\<rparr>"

record NewToken =
  NewToken_Name :: string
  NewToken_OwnerUserID :: string
  NewToken_CreatedBy :: string
  NewToken_Scopes :: "string list"
  NewToken_EngagementID :: string
  NewToken_ExpiresAt :: gotime

record IssuedToken =
  IssuedToken_ServiceToken :: ServiceToken
  IssuedToken_Token :: Token

definition checkName :: "string \<Rightarrow> error + string" where
  "checkName name =
     (let trimmed = TrimSpace name in
      if trimmed = []
      then Inl (Validation [Field ''name'' ''is required: it is how you will recognise this token when you come to revoke it''])
      else if length trimmed > nameLimit
      then Inl (Validation [Field ''name'' (''is '' @ Itoa (int (length trimmed)) @ '' characters; the limit is '' @ Itoa (int nameLimit))])
      else Inr trimmed)"

fun checkScopes_loop :: "TokenScope list \<Rightarrow> string list \<Rightarrow> error + TokenScope list" where
  "checkScopes_loop scopes [] = Inr scopes"
| "checkScopes_loop scopes (scope # rest) =
     (case ParseTokenScope scope of
        (known, False) \<Rightarrow>
          Inl (Validation [Field ''scopes'' (''contains '' @ Quote scope @ '', which is not a scope this server defines'')])
      | (known, True) \<Rightarrow> checkScopes_loop (if known \<in> set scopes then scopes else scopes @ [known]) rest)"

definition checkScopes :: "string list \<Rightarrow> error + TokenScope list" where
  "checkScopes requested =
     (if requested = []
      then Inl (Validation [Field ''scopes'' ''is required: a token with no scopes could not do anything''])
      else checkScopes_loop [] requested)"

definition checkExpiry :: "Token_Manager \<Rightarrow> gotime \<Rightarrow> gotime \<Rightarrow> error + gotime" where
  "checkExpiry m now expires =
     (if IsZero expires
      then Inl (Validation [Field ''expiresAt'' ''is required: a token that never expires is a token nobody remembers to revoke''])
      else if \<not> After expires now
      then Inl (Validation [Field ''expiresAt'' ''is in the past, so the token would be born expired''])
      else if Sub expires now > TM_maxLifetime m
      then Inl (Validation [Field ''expiresAt'' (''is further away than the maximum lifetime of '' @ TM_formatDuration m (TM_maxLifetime m))])
      else Inr expires)"

definition createdAfter :: "Token_Manager \<Rightarrow> NewToken \<Rightarrow> string \<Rightarrow> string \<Rightarrow> TokenScope list \<Rightarrow> gotime \<Rightarrow> TDB after list" where
  "createdAfter m inp name prefix scopes expires =
     (if \<not> TM_activity m then []
      else [\<lambda>entity. TDB_record (token_entry (NewToken_CreatedBy inp) VerbTokenCreated entity
              [(''name'', DString name), (''scopes'', DList scopes), (''prefix'', DString prefix),
               (''expires_at'', DString (TM_formatTime m expires)), (''owner_user_id'', DString (NewToken_OwnerUserID inp)),
               (''engagement_id'', DString (NewToken_EngagementID inp))])])"

definition Token_Issue :: "Token_Manager \<Rightarrow> gotime \<Rightarrow> 8 word list \<Rightarrow> 8 word list \<Rightarrow> string \<Rightarrow> gotime \<Rightarrow> NewToken \<Rightarrow>
    Token_State \<Rightarrow> (error + IssuedToken) \<times> Token_State" where
  "Token_Issue m now rawPrefix rawSecret newID clock inp st =
     (case checkName (NewToken_Name inp) of
        Inl err \<Rightarrow> (Inl err, st)
      | Inr name \<Rightarrow>
          (case checkScopes (NewToken_Scopes inp) of
             Inl err \<Rightarrow> (Inl err, st)
           | Inr scopes \<Rightarrow>
               (case checkExpiry m now (NewToken_ExpiresAt inp) of
                  Inl err \<Rightarrow> (Inl err, st)
                | Inr expires \<Rightarrow>
                    (let (secret, p) = mint rawPrefix rawSecret in
                     case ServiceTokens_Create newID clock
                            \<lparr>NewServiceToken_Name = name, NewServiceToken_Prefix = parts_prefix p,
                             NewServiceToken_TokenHash = TM_hash m (parts_secret p),
                             NewServiceToken_OwnerUserID = NewToken_OwnerUserID inp,
                             NewServiceToken_CreatedBy = NewToken_CreatedBy inp, NewServiceToken_Scopes = scopes,
                             NewServiceToken_EngagementID = NewToken_EngagementID inp,
                             NewServiceToken_ExpiresAt = expires\<rparr>
                            (createdAfter m inp name (parts_prefix p) scopes expires) (TS_db st) of
                       (Inl err, db') \<Rightarrow> (Inl err, st\<lparr>TS_db := db'\<rparr>)
                     | (Inr created, db') \<Rightarrow>
                         (Inr \<lparr>IssuedToken_ServiceToken = created, IssuedToken_Token = secret\<rparr>, st\<lparr>TS_db := db'\<rparr>)))))"

definition Token_usable :: "Token_Manager \<Rightarrow> gotime \<Rightarrow> ServiceToken \<Rightarrow> error option" where
  "Token_usable m now t =
     (case ServiceToken_RevokedAt t of
        Some at \<Rightarrow> Some (ErrorfW (''token '' @ ServiceToken_ID t @ '' was revoked at '' @ TM_formatTime m at) (Sentinel ErrNoToken))
      | None \<Rightarrow>
          if \<not> Before now (ServiceToken_ExpiresAt t)
          then Some (ErrorfW (''token '' @ ServiceToken_ID t @ '' expired at '' @ TM_formatTime m (ServiceToken_ExpiresAt t))
                 (Sentinel ErrNoToken))
          else None)"

text \<open>A NULL time is the zero time.\<close>

definition time_or_zero :: "gotime option \<Rightarrow> gotime" where
  "time_or_zero t = (case t of None \<Rightarrow> 0 | Some t \<Rightarrow> t)"

definition token_prune :: "gotime \<Rightarrow> (string \<times> gotime) list \<Rightarrow> (string \<times> gotime) list" where
  "token_prune now touched = filter (\<lambda>(tid, written). \<not> Sub now written \<ge> token_touchInterval) touched"

definition recordUse :: "Token_Manager \<Rightarrow> gotime \<Rightarrow> ServiceToken \<Rightarrow> Token_State \<Rightarrow> Token_State" where
  "recordUse m now t st =
     (if Sub now (time_or_zero (ServiceToken_LastUsedAt t)) < token_touchInterval then st
      else
        (let tid = ServiceToken_ID t; seen = map_of (TS_touched st) tid in
         if (case seen of Some written \<Rightarrow> Sub now written < token_touchInterval | None \<Rightarrow> False) then st
         else
           (let st1 = st\<lparr>TS_touched := token_prune now (AList.update tid now (TS_touched st))\<rparr>;
                st2 = (if seen = None \<and> ServiceToken_LastUsedAt t = None \<and> TM_activity m then
                         (case TDB_record (token_entry (ServiceToken_OwnerUserID t) VerbTokenFirstUsed tid
                                 [(''prefix'', DString (ServiceToken_Prefix t)),
                                  (''owner_user_id'', DString (ServiceToken_OwnerUserID t))]) (TS_db st1) of
                            Inl err \<Rightarrow> st1 | Inr db' \<Rightarrow> st1\<lparr>TS_db := db'\<rparr>)
                       else st1)
            in st2\<lparr>TS_jobs := TS_jobs st2 @ [(tid, now)]\<rparr>)))"

text \<open>\<open>usable\<close> reads the clock, then \<open>recordUse\<close> reads it again.\<close>

definition Token_Resolve :: "Token_Manager \<Rightarrow> gotime \<Rightarrow> gotime \<Rightarrow> Token \<Rightarrow> Token_State \<Rightarrow>
    (error + ServiceToken) \<times> Token_State" where
  "Token_Resolve m nowU nowR presented st =
     (case token_parse presented of
        Inl err \<Rightarrow> (Inl (ErrorfW ''the value is not a service token'' (Sentinel ErrNoToken)), st)
      | Inr p \<Rightarrow>
          (case ServiceTokens_ByPrefix (parts_prefix p) (TS_db st) of
             Inl err \<Rightarrow>
               if errors_Is err ErrNotFound then (Inl (ErrorfW ''no token has that prefix'' (Sentinel ErrNoToken)), st)
               else (Inl err, st)
           | Inr found \<Rightarrow>
               if TM_hash m (parts_secret p) \<noteq> ServiceToken_TokenHash found
               then (Inl (ErrorfW (''the secret presented for token '' @ ServiceToken_ID found @ '' does not match'')
                       (Sentinel ErrNoToken)), st)
               else (case Token_usable m nowU found of
                       Some err \<Rightarrow> (Inl err, st)
                     | None \<Rightarrow> (Inr found, recordUse m nowR found st))))"

definition Token_List :: "string \<Rightarrow> Token_State \<Rightarrow> ServiceToken list" where
  "Token_List ownerUserID st = ServiceTokens_ListByOwner ownerUserID (TS_db st)"

definition revokedAfter :: "Token_Manager \<Rightarrow> string \<Rightarrow> string \<Rightarrow> TDB after list" where
  "revokedAfter m ownerUserID revokedBy =
     (if \<not> TM_activity m then []
      else [\<lambda>entity. TDB_record (token_entry revokedBy
              (if revokedBy \<noteq> ownerUserID then VerbTokenAdminRevoked else VerbTokenRevoked) entity
              (if revokedBy \<noteq> ownerUserID then [(''owner_user_id'', DString ownerUserID)] else []))])"

definition Token_Revoke :: "Token_Manager \<Rightarrow> gotime \<Rightarrow> string \<Rightarrow> string \<Rightarrow> string \<Rightarrow> Token_State \<Rightarrow>
    (error + ServiceToken) \<times> Token_State" where
  "Token_Revoke m now tid ownerUserID revokedBy st =
     (case ServiceTokens_Revoke tid ownerUserID revokedBy now (revokedAfter m ownerUserID revokedBy) (TS_db st) of
        (res, db') \<Rightarrow> (res, st\<lparr>TS_db := db'\<rparr>))"

text \<open>One background job runs; its error is only logged.\<close>

definition run_job :: "nat \<Rightarrow> Token_State \<Rightarrow> Token_State" where
  "run_job k st =
     (if k < length (TS_jobs st) then
        (let (tid, at) = TS_jobs st ! k
         in st\<lparr>TS_db := snd (ServiceTokens_SetLastUsedAt tid at (TS_db st)),
               TS_jobs := take k (TS_jobs st) @ drop (Suc k) (TS_jobs st)\<rparr>)
      else st)"

section \<open>The service's operations (authn/servicetokens.go)\<close>

definition AuthenticateToken :: "Token_Manager \<Rightarrow> gotime \<Rightarrow> gotime \<Rightarrow> Token \<Rightarrow> Token_State \<Rightarrow>
    (error + Caller) \<times> Token_State" where
  "AuthenticateToken m nowU nowR presented st =
     (case Token_Resolve m nowU nowR presented st of
        (Inl err, st') \<Rightarrow> (Inl err, st')
      | (Inr found, st') \<Rightarrow>
          (case Users_ByID (ServiceToken_OwnerUserID found) (TDB_identity (TS_db st')) of
             Inl err \<Rightarrow>
               if errors_Is err ErrNotFound
               then (Inl (ErrorfW (''token '' @ ServiceToken_ID found @ '' belongs to user '' @
                       ServiceToken_OwnerUserID found @ '', which is gone'') (Sentinel ErrNoToken)), st')
               else (Inl err, st')
           | Inr user \<Rightarrow>
               if User_Status user \<noteq> StatusActive
               then (Inl (ErrorfW (''token '' @ ServiceToken_ID found @ '' belongs to user '' @ User_ID user @ '', who is '' @
                       User_Status user) (Sentinel ErrNoToken)), st')
               else (Inr \<lparr>Caller_UserID = User_ID user, Caller_Email = User_Email user,
                       Caller_DisplayName = User_DisplayName user, Caller_PlatformRole = User_PlatformRole user,
                       Caller_Method = MethodServiceToken, Caller_SessionID = [], Caller_TokenID = ServiceToken_ID found,
                       Caller_TokenScopes = ServiceToken_Scopes found,
                       Caller_TokenEngagementID = ServiceToken_EngagementID found, Caller_MFASatisfied = False,
                       Caller_MFAEnrolmentRequired = False\<rparr>, st')))"

text \<open>The caller names no owner: the token is theirs.\<close>

definition CreateToken :: "Token_Manager \<Rightarrow> gotime \<Rightarrow> 8 word list \<Rightarrow> 8 word list \<Rightarrow> string \<Rightarrow> gotime \<Rightarrow> Caller \<Rightarrow> NewToken \<Rightarrow>
    Token_State \<Rightarrow> (error + IssuedToken) \<times> Token_State" where
  "CreateToken m now rawPrefix rawSecret newID clock subject inp st =
     Token_Issue m now rawPrefix rawSecret newID clock
       (inp\<lparr>NewToken_OwnerUserID := Caller_UserID subject, NewToken_CreatedBy := Caller_UserID subject\<rparr>) st"

definition ListTokens :: "Caller \<Rightarrow> Token_State \<Rightarrow> ServiceToken list" where
  "ListTokens subject st = Token_List (Caller_UserID subject) st"

definition RevokeToken :: "Token_Manager \<Rightarrow> gotime \<Rightarrow> Caller \<Rightarrow> string \<Rightarrow> Token_State \<Rightarrow>
    (error + ServiceToken) \<times> Token_State" where
  "RevokeToken m now subject tid st = Token_Revoke m now tid (Caller_UserID subject) (Caller_UserID subject) st"

definition AccountTokens :: "string \<Rightarrow> Token_State \<Rightarrow> error + ServiceToken list" where
  "AccountTokens userID st =
     (case Users_ByID userID (TDB_identity (TS_db st)) of Inl err \<Rightarrow> Inl err | Inr user \<Rightarrow> Inr (Token_List userID st))"

definition RevokeAccountToken :: "Token_Manager \<Rightarrow> gotime \<Rightarrow> Caller \<Rightarrow> string \<Rightarrow> string \<Rightarrow> Token_State \<Rightarrow>
    (error + ServiceToken) \<times> Token_State" where
  "RevokeAccountToken m now actor userID tokenID st =
     (case Users_ByID userID (TDB_identity (TS_db st)) of
        Inl err \<Rightarrow> (Inl err, st)
      | Inr user \<Rightarrow> Token_Revoke m now tokenID userID (Caller_UserID actor) st)"

section \<open>Lemmas: the text of a token\<close>

lemma EncodeToString_length: "length (EncodeToString raw) = (8 * length raw + 4) div 5"
  by (simp add: EncodeToString_def encode_bits_length)

lemma EncodeToString_no_separator: "token_separator \<notin> set (EncodeToString raw)"
proof
  assume "token_separator \<in> set (EncodeToString raw)"
  then have "token_separator \<in> set base32_alphabet"
    unfolding EncodeToString_def by (intro encode_bits_alphabet [of 5 base32_alphabet]) (simp_all add: base32_alphabet_def)
  then show False by (simp add: base32_alphabet_def)
qed

lemma minted_parses:
  assumes "length rawPrefix = PrefixBytes" "length rawSecret = SecretBytes"
  shows "token_parse (fst (mint rawPrefix rawSecret)) = Inr (snd (mint rawPrefix rawSecret))"
proof -
  let ?p = "EncodeToString rawPrefix" and ?s = "EncodeToString rawSecret"
  have lengths: "prefixLength = length ?p" "secretLength = length ?s"
    using assms by (simp_all add: prefixLength_def secretLength_def EncodedLen_def PrefixBytes_def SecretBytes_def EncodeToString_length)
  have "SplitN (Marker @ [token_separator] @ ?p @ [token_separator] @ ?s) token_separator 4 = [Marker, ?p, ?s]"
    using split_cuts_cons [of token_separator Marker 2 "?p @ token_separator # ?s"]
      split_cuts_cons [of token_separator ?p 1 ?s] split_cuts_one [of token_separator ?s 1] EncodeToString_no_separator
    by (simp add: SplitN_def numeral_eq_Suc)
  then show ?thesis by (simp add: mint_def Let_def token_parse_def lengths)
qed

text \<open>
  The parser accepts exactly the texts bl_PREFIX_SECRET whose two parts have the lengths of a
  minted token and no separator inside, and answers those parts; every minted token is such a
  text, and parses to what it was minted from.
\<close>

theorem token_parse_spec:
  "(token_parse t = Inr p \<longleftrightarrow>
      t = Marker @ [token_separator] @ parts_prefix p @ [token_separator] @ parts_secret p \<and>
      length (parts_prefix p) = 10 \<and> length (parts_secret p) = 52 \<and>
      token_separator \<notin> set (parts_prefix p) \<and> token_separator \<notin> set (parts_secret p)) \<and>
   (length rawPrefix = PrefixBytes \<and> length rawSecret = SecretBytes \<longrightarrow>
      token_parse (fst (mint rawPrefix rawSecret)) = Inr (snd (mint rawPrefix rawSecret)))"
proof -
  let ?ok = "\<lambda>t p. t = Marker @ [token_separator] @ parts_prefix p @ [token_separator] @ parts_secret p \<and>
      length (parts_prefix p) = 10 \<and> length (parts_secret p) = 52 \<and>
      token_separator \<notin> set (parts_prefix p) \<and> token_separator \<notin> set (parts_secret p)"
  have lengths: "prefixLength = 10" "secretLength = 52"
    by (simp_all add: prefixLength_def secretLength_def EncodedLen_def PrefixBytes_def SecretBytes_def)
  have accepts: "token_parse t = Inr p" if "?ok t p" for t p
  proof -
    have "SplitN t token_separator 4 = [Marker, parts_prefix p, parts_secret p]"
      using that split_cuts_cons [of token_separator Marker 2 "parts_prefix p @ token_separator # parts_secret p"]
        split_cuts_cons [of token_separator "parts_prefix p" 1 "parts_secret p"] split_cuts_one [of token_separator "parts_secret p" 1]
      by (simp add: SplitN_def numeral_eq_Suc)
    then show ?thesis using that by (simp add: token_parse_def Let_def lengths)
  qed
  have "?ok t p" if parse: "token_parse t = Inr p"
  proof -
    let ?f = "SplitN t token_separator 4"
    have f: "length ?f = 3" "?f ! 0 = Marker" "length (?f ! 1) = 10" "length (?f ! 2) = 52"
      "p = \<lparr>parts_prefix = ?f ! 1, parts_secret = ?f ! 2\<rparr>"
      using parse by (auto simp: token_parse_def token_malformed_def Let_def lengths split: if_splits)
    then obtain a b c where abc: "?f = [a, b, c]" by (auto simp: length_Suc_conv numeral_3_eq_3)
    have "token_separator \<notin> set q" if "q \<in> set ?f" for q
      using split_cuts_clean [of ?f token_separator 3 t q] that f(1) by (simp add: SplitN_def)
    moreover have "t = join_cuts token_separator ?f" by (simp add: SplitN_def join_split)
    ultimately show ?thesis using f abc by simp
  qed
  moreover have "?ok (fst (mint rawPrefix rawSecret)) (snd (mint rawPrefix rawSecret))"
    if "length rawPrefix = PrefixBytes \<and> length rawSecret = SecretBytes"
    using that EncodeToString_no_separator
    by (simp add: mint_def Let_def EncodeToString_length PrefixBytes_def SecretBytes_def)
  ultimately show ?thesis using accepts by blast
qed

end
