(* ===== verification/Token_Props.thy ===== *)
theory Token_Props
  imports Service_Tokens
begin

text \<open>
  What service tokens promise: which presented texts are resolved to a row, that what is issued
  works until it expires and carries no more than was asked for, and that a revoked token is
  refused for good, whatever else happens in between.
\<close>

section \<open>The table\<close>

definition tokens_ok :: "TDB \<Rightarrow> bool" where
  "tokens_ok db \<longleftrightarrow> distinct (map ServiceToken_ID (TDB_tokens db)) \<and> distinct (map ServiceToken_Prefix (TDB_tokens db))"

lemma by_prefix:
  assumes "tokens_ok db"
  shows "ServiceTokens_ByPrefix p db = Inr t \<longleftrightarrow> t \<in> set (TDB_tokens db) \<and> ServiceToken_Prefix t = p"
proof
  assume "ServiceTokens_ByPrefix p db = Inr t"
  then show "t \<in> set (TDB_tokens db) \<and> ServiceToken_Prefix t = p"
    by (auto simp: ServiceTokens_ByPrefix_def split: option.splits dest: select1_Some)
next
  assume t: "t \<in> set (TDB_tokens db) \<and> ServiceToken_Prefix t = p"
  then have "select1 (\<lambda>x. ServiceToken_Prefix x = p) (TDB_tokens db) = Some t"
    using select1_key [of ServiceToken_Prefix "TDB_tokens db" t] assms by (simp add: tokens_ok_def)
  then show "ServiceTokens_ByPrefix p db = Inr t" by (simp add: ServiceTokens_ByPrefix_def)
qed

lemma by_prefix_Inl: "ServiceTokens_ByPrefix p db = Inl err \<Longrightarrow> errors_Is err ErrNotFound"
  by (auto simp: ServiceTokens_ByPrefix_def split: option.splits)

lemma Token_usable_None:
  "Token_usable m now t = None \<longleftrightarrow> ServiceToken_RevokedAt t = None \<and> now < ServiceToken_ExpiresAt t"
  by (auto simp: Token_usable_def Before_def split: option.splits)

lemma Token_usable_Some: "Token_usable m now t = Some err \<Longrightarrow> errors_Is err ErrNoToken"
  by (auto simp: Token_usable_def split: option.splits if_splits)

lemma resolves_iff:
  assumes "tokens_ok (TS_db st)"
  shows "fst (Token_Resolve m nowU nowR presented st) = Inr t \<longleftrightarrow>
      (\<exists>p. token_parse presented = Inr p \<and> t \<in> set (TDB_tokens (TS_db st)) \<and> ServiceToken_Prefix t = parts_prefix p \<and>
         ServiceToken_TokenHash t = TM_hash m (parts_secret p) \<and> ServiceToken_RevokedAt t = None \<and>
         nowU < ServiceToken_ExpiresAt t)"
proof (cases "token_parse presented")
  case (Inr p)
  show ?thesis
  proof (cases "ServiceTokens_ByPrefix (parts_prefix p) (TS_db st)")
    case (Inl e)
    then have "\<not> (t \<in> set (TDB_tokens (TS_db st)) \<and> ServiceToken_Prefix t = parts_prefix p)"
      using by_prefix [OF assms, of "parts_prefix p" t] by auto
    then show ?thesis using Inl Inr by_prefix_Inl by (auto simp: Token_Resolve_def)
  next
    case (Inr found)
    have same: "t \<in> set (TDB_tokens (TS_db st)) \<and> ServiceToken_Prefix t = parts_prefix p \<longleftrightarrow> t = found"
      using by_prefix [OF assms, of "parts_prefix p" t] Inr by auto
    show ?thesis
    proof (cases "TM_hash m (parts_secret p) = ServiceToken_TokenHash found")
      case True
      show ?thesis
      proof (cases "Token_usable m nowU found")
        case None
        then have "ServiceToken_RevokedAt found = None \<and> nowU < ServiceToken_ExpiresAt found"
          using Token_usable_None [of m nowU found] by simp
        then show ?thesis
          using \<open>token_parse presented = Inr p\<close> Inr True same None by (auto simp: Token_Resolve_def)
      next
        case (Some e)
        then have "\<not> (ServiceToken_RevokedAt found = None \<and> nowU < ServiceToken_ExpiresAt found)"
          using Token_usable_None [of m nowU found] by simp
        then show ?thesis
          using \<open>token_parse presented = Inr p\<close> Inr True same Some Token_usable_Some [OF Some]
          by (auto simp: Token_Resolve_def)
      qed
    next
      case False
      then show ?thesis using \<open>token_parse presented = Inr p\<close> Inr same by (auto simp: Token_Resolve_def)
    qed
  qed
qed (auto simp: Token_Resolve_def)

text \<open>
  A presented text resolves to a row exactly when it is a well-formed token, the row has its
  prefix and the hash of its secret, is not revoked and has not expired; anything else is the one
  error of a request without a usable token, and changes nothing.
\<close>

theorem Token_Resolve_spec:
  assumes "tokens_ok (TS_db st)"
  shows "(fst (Token_Resolve m nowU nowR presented st) = Inr t \<longleftrightarrow>
      (\<exists>p. token_parse presented = Inr p \<and> t \<in> set (TDB_tokens (TS_db st)) \<and> ServiceToken_Prefix t = parts_prefix p \<and>
         ServiceToken_TokenHash t = TM_hash m (parts_secret p) \<and> ServiceToken_RevokedAt t = None \<and>
         nowU < ServiceToken_ExpiresAt t)) \<and>
    (fst (Token_Resolve m nowU nowR presented st) = Inl err \<longrightarrow>
      errors_Is err ErrNoToken \<and> snd (Token_Resolve m nowU nowR presented st) = st)"
proof (intro conjI impI)
  show "fst (Token_Resolve m nowU nowR presented st) = Inr t \<longleftrightarrow>
      (\<exists>p. token_parse presented = Inr p \<and> t \<in> set (TDB_tokens (TS_db st)) \<and> ServiceToken_Prefix t = parts_prefix p \<and>
         ServiceToken_TokenHash t = TM_hash m (parts_secret p) \<and> ServiceToken_RevokedAt t = None \<and>
         nowU < ServiceToken_ExpiresAt t)"
    by (rule resolves_iff [OF assms])
  assume "fst (Token_Resolve m nowU nowR presented st) = Inl err"
  then show "errors_Is err ErrNoToken" "snd (Token_Resolve m nowU nowR presented st) = st"
    using Token_usable_Some by_prefix_Inl unfolding Token_Resolve_def
    by (auto split: sum.splits option.splits if_splits)
qed

section \<open>Issuing\<close>

lemma split_word:
  assumes "scope \<noteq> []" "\<forall>c\<in>set scope. \<not> is_space c" "rest = [] \<or> is_space (hd rest)"
  shows "splitScopes (scope @ rest) = scope # splitScopes rest"
proof -
  obtain c cs where scope: "scope = c # cs" using assms(1) by (cases scope) auto
  have "dropWhile is_space (scope @ rest) = c # (cs @ rest)" using assms(2) scope by simp
  moreover have "takeWhile (\<lambda>c. \<not> is_space c) (scope @ rest) = scope" "dropWhile (\<lambda>c. \<not> is_space c) (scope @ rest) = rest"
    using assms(2,3) by (cases rest; auto simp: takeWhile_append dropWhile_append)+
  ultimately show ?thesis
    by (subst splitScopes.simps) (simp only: list.case, simp only: append_Cons [symmetric] scope [symmetric])
qed

lemma split_space: "splitScopes (CHR '' '' # rest) = splitScopes rest"
  by (subst (1 2) splitScopes.simps) (simp add: is_space_def)

lemma no_spaces_fields:
  assumes "\<forall>s\<in>set scopes. s \<noteq> [] \<and> (\<forall>c\<in>set s. \<not> is_space c)"
  shows "splitScopes (joinScopes scopes) = scopes"
  using assms
proof (induction scopes rule: joinScopes.induct)
  case 1
  then show ?case by (simp add: splitScopes.simps [of "[]"])
next
  case (2 scope)
  then show ?case using split_word [of scope "[]"] by (simp add: splitScopes.simps [of "[]"])
next
  case (3 scope s2 rest)
  have "is_space CHR '' ''" by (simp add: is_space_def)
  then show ?case using 3 split_word [of scope "CHR '' '' # joinScopes (s2 # rest)"] by (simp add: split_space)
qed

lemma ParseTokenScope_known: "ParseTokenScope name = (scope, True) \<Longrightarrow> scope = name \<and> name \<in> set TokenScopes"
proof -
  have "ParseTokenScope_loop name l = (scope, True) \<Longrightarrow> scope = name \<and> name \<in> set l" for l
    by (induction l) (auto split: if_splits)
  then show "ParseTokenScope name = (scope, True) \<Longrightarrow> scope = name \<and> name \<in> set TokenScopes"
    by (simp add: ParseTokenScope_def)
qed

lemma checkScopes_loop_Inr:
  "checkScopes_loop acc requested = Inr scopes \<Longrightarrow> distinct acc \<Longrightarrow> set acc \<subseteq> set TokenScopes \<Longrightarrow>
   distinct scopes \<and> set scopes = set acc \<union> set requested \<and> set scopes \<subseteq> set TokenScopes"
proof (induction requested arbitrary: acc)
  case (Cons scope rest)
  obtain known ok where parse: "ParseTokenScope scope = (known, ok)" by (cases "ParseTokenScope scope")
  then have ok: "ok" using Cons.prems(1) by (cases ok) auto
  then have known: "known = scope" "scope \<in> set TokenScopes" using ParseTokenScope_known parse by auto
  let ?acc = "if scope \<in> set acc then acc else acc @ [scope]"
  have run: "checkScopes_loop ?acc rest = Inr scopes" using Cons.prems(1) parse ok known(1) by simp
  have "distinct ?acc" "set ?acc \<subseteq> set TokenScopes" and grown: "set ?acc = insert scope (set acc)"
    using Cons.prems(2,3) known(2) by auto
  then have "distinct scopes \<and> set scopes = set ?acc \<union> set rest \<and> set scopes \<subseteq> set TokenScopes"
    using Cons.IH [OF run] by blast
  then show ?case unfolding grown by (elim conjE) (intro conjI; simp)
qed simp

lemma TokenScopes_clean: "s \<in> set TokenScopes \<Longrightarrow> s \<noteq> [] \<and> (\<forall>c\<in>set s. \<not> is_space c)"
proof -
  have "list_all (\<lambda>s. s \<noteq> [] \<and> list_all (\<lambda>c. \<not> is_space c) s) TokenScopes" by code_simp
  then show "s \<in> set TokenScopes \<Longrightarrow> s \<noteq> [] \<and> (\<forall>c\<in>set s. \<not> is_space c)" by (simp add: list_all_iff)
qed

lemma checkScopes_Inr:
  "checkScopes requested = Inr scopes \<Longrightarrow> distinct scopes \<and> set scopes = set requested \<and> set scopes \<subseteq> set TokenScopes"
proof -
  assume "checkScopes requested = Inr scopes"
  then have run: "checkScopes_loop [] requested = Inr scopes" by (simp only: checkScopes_def split: if_splits) simp_all
  have nil: "distinct ([] :: TokenScope list)" "set [] \<subseteq> set TokenScopes" by simp_all
  show ?thesis using checkScopes_loop_Inr [OF run nil] unfolding list.set(1) Un_empty_left .
qed

lemma TDB_record_tokens: "TDB_record e db = Inr db' \<Longrightarrow> TDB_tokens db' = TDB_tokens db"
  by (auto simp: TDB_record_def Log_Record_def)

lemma createdAfter_tokens:
  "runAfter entity (createdAfter m inp name prefix scopes expires) db = Inr db' \<Longrightarrow> TDB_tokens db' = TDB_tokens db"
  by (auto simp: createdAfter_def split: if_splits sum.splits dest: TDB_record_tokens)

lemma revokedAfter_tokens: "runAfter entity (revokedAfter m owner by) db = Inr db' \<Longrightarrow> TDB_tokens db' = TDB_tokens db"
  by (auto simp: revokedAfter_def split: if_splits sum.splits dest: TDB_record_tokens)

lemma ServiceTokens_Create_effect:
  assumes "ServiceTokens_Create newID clock inp after db = (res, db')"
    and "\<And>d d'. runAfter newID after d = Inr d' \<Longrightarrow> TDB_tokens d' = TDB_tokens d"
  shows "(\<exists>err. res = Inl err \<and> db' = db) \<or>
    (\<exists>row. res = Inr row \<and> TDB_tokens db' = TDB_tokens db @ [row] \<and> ServiceToken_ID row = newID \<and>
       newID \<notin> ServiceToken_ID ` set (TDB_tokens db) \<and>
       NewServiceToken_Prefix inp \<notin> ServiceToken_Prefix ` set (TDB_tokens db) \<and>
       ServiceToken_Prefix row = NewServiceToken_Prefix inp \<and> ServiceToken_TokenHash row = NewServiceToken_TokenHash inp \<and>
       ServiceToken_OwnerUserID row = NewServiceToken_OwnerUserID inp \<and>
       ServiceToken_Scopes row = splitScopes (joinScopes (NewServiceToken_Scopes inp)) \<and>
       ServiceToken_EngagementID row = NewServiceToken_EngagementID inp \<and>
       ServiceToken_ExpiresAt row = toStorage (NewServiceToken_ExpiresAt inp) \<and> ServiceToken_RevokedAt row = None)"
  using assms(1) unfolding ServiceTokens_Create_def Let_def
  by (auto split: option.splits if_splits sum.splits dest!: assms(2))

lemma checkExpiry_Inr:
  "checkExpiry m now expires = Inr e \<Longrightarrow> e = expires \<and> now < expires \<and> Sub expires now \<le> TM_maxLifetime m"
  by (auto simp: checkExpiry_def After_def split: if_splits)

lemma Token_Issue_effect:
  assumes "Token_Issue m now rawPrefix rawSecret newID clock inp st = (res, st')"
  shows "(\<exists>err. res = Inl err \<and> st' = st) \<or>
    (\<exists>row. res = Inr \<lparr>IssuedToken_ServiceToken = row, IssuedToken_Token = fst (mint rawPrefix rawSecret)\<rparr> \<and>
       TDB_tokens (TS_db st') = TDB_tokens (TS_db st) @ [row] \<and> TS_touched st' = TS_touched st \<and> TS_jobs st' = TS_jobs st \<and>
       ServiceToken_ID row = newID \<and> newID \<notin> ServiceToken_ID ` set (TDB_tokens (TS_db st)) \<and>
       ServiceToken_Prefix row \<notin> ServiceToken_Prefix ` set (TDB_tokens (TS_db st)) \<and>
       ServiceToken_Prefix row = parts_prefix (snd (mint rawPrefix rawSecret)) \<and>
       ServiceToken_TokenHash row = TM_hash m (parts_secret (snd (mint rawPrefix rawSecret))) \<and>
       ServiceToken_OwnerUserID row = NewToken_OwnerUserID inp \<and>
       distinct (ServiceToken_Scopes row) \<and> set (ServiceToken_Scopes row) = set (NewToken_Scopes inp) \<and>
       set (NewToken_Scopes inp) \<subseteq> set TokenScopes \<and> ServiceToken_EngagementID row = NewToken_EngagementID inp \<and>
       ServiceToken_ExpiresAt row = toStorage (NewToken_ExpiresAt inp) \<and> now < NewToken_ExpiresAt inp \<and>
       Sub (NewToken_ExpiresAt inp) now \<le> TM_maxLifetime m \<and> ServiceToken_RevokedAt row = None)"
proof (cases "checkName (NewToken_Name inp)")
  case (Inr name)
  show ?thesis
  proof (cases "checkScopes (NewToken_Scopes inp)")
    case scopes: (Inr scopes)
    note sc = checkScopes_Inr [OF scopes]
    have fields: "splitScopes (joinScopes scopes) = scopes"
      using no_spaces_fields TokenScopes_clean sc by blast
    show ?thesis
    proof (cases "checkExpiry m now (NewToken_ExpiresAt inp)")
      case expires: (Inr expires)
      note ex = checkExpiry_Inr [OF expires]
      let ?p = "snd (mint rawPrefix rawSecret)"
      let ?new = "\<lparr>NewServiceToken_Name = name, NewServiceToken_Prefix = parts_prefix ?p,
                   NewServiceToken_TokenHash = TM_hash m (parts_secret ?p),
                   NewServiceToken_OwnerUserID = NewToken_OwnerUserID inp,
                   NewServiceToken_CreatedBy = NewToken_CreatedBy inp, NewServiceToken_Scopes = scopes,
                   NewServiceToken_EngagementID = NewToken_EngagementID inp, NewServiceToken_ExpiresAt = expires\<rparr>"
      obtain r db' where run: "ServiceTokens_Create newID clock ?new
          (createdAfter m inp name (parts_prefix ?p) scopes expires) (TS_db st) = (r, db')" by (meson surj_pair)
      have "(\<exists>err. r = Inl err \<and> res = Inl err \<and> st' = st\<lparr>TS_db := db'\<rparr>) \<or> (\<exists>row. r = Inr row \<and>
          res = Inr \<lparr>IssuedToken_ServiceToken = row, IssuedToken_Token = fst (mint rawPrefix rawSecret)\<rparr> \<and>
          st' = st\<lparr>TS_db := db'\<rparr>)"
        using assms unfolding Token_Issue_def Inr scopes expires Let_def
        by (cases "mint rawPrefix rawSecret") (use run in \<open>auto split: sum.splits\<close>)
      then show ?thesis
        using ServiceTokens_Create_effect [OF run createdAfter_tokens] sc ex fields by (elim disjE exE conjE) simp_all
    qed (use assms Inr scopes in \<open>auto simp: Token_Issue_def\<close>)
  qed (use assms Inr in \<open>auto simp: Token_Issue_def\<close>)
qed (use assms in \<open>auto simp: Token_Issue_def\<close>)

text \<open>
  A token that is issued is the one thing its row answers to: it resolves to that row from the
  next request until the stored expiry and not after, with exactly the scopes that were asked for,
  each once and each known, for the owner and the engagement asked for, and not beyond the maximum
  lifetime. A refused issue changes nothing.
\<close>

theorem Token_Issue_works:
  assumes "Token_Issue m now rawPrefix rawSecret newID clock inp st = (res, st')" "tokens_ok (TS_db st)"
    and "length rawPrefix = PrefixBytes" "length rawSecret = SecretBytes"
  shows "case res of
      Inl err \<Rightarrow> st' = st
    | Inr issued \<Rightarrow>
        (fst (Token_Resolve m nowU nowR (IssuedToken_Token issued) st') = Inr (IssuedToken_ServiceToken issued)) =
          (nowU < toStorage (NewToken_ExpiresAt inp)) \<and>
        distinct (ServiceToken_Scopes (IssuedToken_ServiceToken issued)) \<and>
        set (ServiceToken_Scopes (IssuedToken_ServiceToken issued)) = set (NewToken_Scopes inp) \<and>
        set (NewToken_Scopes inp) \<subseteq> set TokenScopes \<and>
        ServiceToken_OwnerUserID (IssuedToken_ServiceToken issued) = NewToken_OwnerUserID inp \<and>
        ServiceToken_EngagementID (IssuedToken_ServiceToken issued) = NewToken_EngagementID inp \<and>
        now < NewToken_ExpiresAt inp \<and> Sub (NewToken_ExpiresAt inp) now \<le> TM_maxLifetime m"
  using Token_Issue_effect [OF assms(1)]
proof (elim disjE exE conjE)
  fix err assume "res = Inl err" "st' = st" then show ?thesis by simp
next
  fix row
  assume res: "res = Inr \<lparr>IssuedToken_ServiceToken = row, IssuedToken_Token = fst (mint rawPrefix rawSecret)\<rparr>"
    and rows: "TDB_tokens (TS_db st') = TDB_tokens (TS_db st) @ [row]"
    and row: "ServiceToken_ID row = newID" "newID \<notin> ServiceToken_ID ` set (TDB_tokens (TS_db st))"
       "ServiceToken_Prefix row \<notin> ServiceToken_Prefix ` set (TDB_tokens (TS_db st))"
       "ServiceToken_Prefix row = parts_prefix (snd (mint rawPrefix rawSecret))"
       "ServiceToken_TokenHash row = TM_hash m (parts_secret (snd (mint rawPrefix rawSecret)))"
       "ServiceToken_OwnerUserID row = NewToken_OwnerUserID inp"
       "distinct (ServiceToken_Scopes row)" "set (ServiceToken_Scopes row) = set (NewToken_Scopes inp)"
       "set (NewToken_Scopes inp) \<subseteq> set TokenScopes" "ServiceToken_EngagementID row = NewToken_EngagementID inp"
       "ServiceToken_ExpiresAt row = toStorage (NewToken_ExpiresAt inp)" "now < NewToken_ExpiresAt inp"
       "Sub (NewToken_ExpiresAt inp) now \<le> TM_maxLifetime m" "ServiceToken_RevokedAt row = None"
  have ok: "tokens_ok (TS_db st')" using assms(2) row(1-3) rows by (simp add: tokens_ok_def)
  have parse: "token_parse (fst (mint rawPrefix rawSecret)) = Inr (snd (mint rawPrefix rawSecret))"
    using minted_parses assms(3,4) by blast
  have "fst (Token_Resolve m nowU nowR (fst (mint rawPrefix rawSecret)) st') = Inr row \<longleftrightarrow> nowU < toStorage (NewToken_ExpiresAt inp)"
    using resolves_iff [OF ok, of m nowU nowR "fst (mint rawPrefix rawSecret)" row] parse row rows by simp
  then show ?thesis using res row by simp
qed

section \<open>Revocation\<close>

text \<open>
  What can happen to the tokens between two looks at the token \<open>tid\<close>: somebody issues another one
  (identifiers are fresh), presents, revokes, an expired row is deleted, a job runs, accounts
  change, the server restarts and forgets what it holds in memory.
\<close>

inductive token_step :: "Token_Manager \<Rightarrow> string \<Rightarrow> Token_State \<Rightarrow> Token_State \<Rightarrow> bool" for m tid where
  issue: "Token_Issue m now rawPrefix rawSecret newID clock inp st = (res, st') \<Longrightarrow> newID \<noteq> tid \<Longrightarrow> token_step m tid st st'"
| present: "AuthenticateToken m nowU nowR presented st = (res, st') \<Longrightarrow> token_step m tid st st'"
| revoke: "Token_Revoke m now anyID owner by st = (res, st') \<Longrightarrow> token_step m tid st st'"
| expire: "ServiceTokens_DeleteExpired before (TS_db st) = (n, db) \<Longrightarrow> token_step m tid st (st\<lparr>TS_db := db\<rparr>)"
| job: "token_step m tid st (run_job k st)"
| accounts: "token_step m tid st (st\<lparr>TS_db := TS_db st\<lparr>TDB_identity := ids\<rparr>\<rparr>)"
| restart: "token_step m tid st (st\<lparr>TS_touched := [], TS_jobs := []\<rparr>)"

text \<open>Unique identifiers and prefixes, and no live row of the token.\<close>

definition token_dead :: "string \<Rightarrow> TDB \<Rightarrow> bool" where
  "token_dead tid db \<longleftrightarrow> tokens_ok db \<and> (\<forall>t\<in>set (TDB_tokens db). ServiceToken_ID t = tid \<longrightarrow> ServiceToken_RevokedAt t \<noteq> None)"

lemma token_dead_same: "TDB_tokens db' = TDB_tokens db \<Longrightarrow> token_dead tid db' = token_dead tid db"
  by (simp add: token_dead_def tokens_ok_def)

lemma token_dead_update:
  assumes "token_dead tid db" "TDB_tokens db' = update_where sel f (TDB_tokens db)"
    and "\<And>t. ServiceToken_ID (f t) = ServiceToken_ID t \<and> ServiceToken_Prefix (f t) = ServiceToken_Prefix t"
    and "\<And>t. ServiceToken_RevokedAt t \<noteq> None \<Longrightarrow> ServiceToken_RevokedAt (f t) \<noteq> None"
  shows "token_dead tid db'"
proof -
  have ids: "map ServiceToken_ID (TDB_tokens db') = map ServiceToken_ID (TDB_tokens db)"
    "map ServiceToken_Prefix (TDB_tokens db') = map ServiceToken_Prefix (TDB_tokens db)"
    using assms(2,3) by (auto simp: update_where_def)
  moreover have "ServiceToken_RevokedAt t \<noteq> None" if t: "t \<in> set (TDB_tokens db')" "ServiceToken_ID t = tid" for t
  proof -
    obtain r where r: "r \<in> set (TDB_tokens db)" "t = (if sel r then f r else r)"
      using t(1) assms(2) by (auto simp: update_where_def)
    have "ServiceToken_ID r = tid" using r(2) t(2) assms(3) by (cases "sel r") auto
    then have "ServiceToken_RevokedAt r \<noteq> None" using assms(1) r(1) by (auto simp: token_dead_def)
    then show ?thesis using r(2) assms(4) by (cases "sel r") auto
  qed
  ultimately show ?thesis using assms(1) by (simp add: token_dead_def tokens_ok_def)
qed

lemma recordUse_tokens: "TDB_tokens (TS_db (recordUse m now t st)) = TDB_tokens (TS_db st)"
  by (auto simp: recordUse_def Let_def split: sum.splits option.splits dest: TDB_record_tokens)

lemma Token_Resolve_tokens: "TDB_tokens (TS_db (snd (Token_Resolve m nowU nowR presented st))) = TDB_tokens (TS_db st)"
  by (auto simp: Token_Resolve_def recordUse_tokens split: sum.splits option.splits)

lemma AuthenticateToken_tokens:
  "TDB_tokens (TS_db (snd (AuthenticateToken m nowU nowR presented st))) = TDB_tokens (TS_db st)"
  using Token_Resolve_tokens [of m nowU nowR presented st]
  by (auto simp: AuthenticateToken_def split: prod.splits sum.splits)

lemma ServiceTokens_Revoke_effect:
  assumes "ServiceTokens_Revoke tid owner by now after db = (res, db')"
    and "\<And>entity d d'. runAfter entity after d = Inr d' \<Longrightarrow> TDB_tokens d' = TDB_tokens d"
  shows "TDB_tokens db' = TDB_tokens db \<and> (\<exists>err. res = Inl err) \<or>
    TDB_tokens db' = update_where (\<lambda>t. ServiceToken_ID t = tid \<and> ServiceToken_OwnerUserID t = owner \<and> ServiceToken_RevokedAt t = None)
      (\<lambda>t. t\<lparr>ServiceToken_RevokedAt := Some (toStorage now), ServiceToken_RevokedBy := by\<rparr>) (TDB_tokens db) \<and>
    (\<exists>row. res = Inr row \<and> row \<in> set (TDB_tokens db') \<and> ServiceToken_ID row = tid \<and> ServiceToken_OwnerUserID row = owner)"
  using assms(1) unfolding ServiceTokens_Revoke_def Let_def
  by (auto split: option.splits if_splits sum.splits dest!: assms(2) select1_Some)

lemma Token_Revoke_effect:
  assumes "Token_Revoke m now tid owner by st = (res, st')"
  shows "TDB_tokens (TS_db st') = TDB_tokens (TS_db st) \<and> (\<exists>err. res = Inl err) \<or>
    TDB_tokens (TS_db st') = update_where (\<lambda>t. ServiceToken_ID t = tid \<and> ServiceToken_OwnerUserID t = owner \<and> ServiceToken_RevokedAt t = None)
      (\<lambda>t. t\<lparr>ServiceToken_RevokedAt := Some (toStorage now), ServiceToken_RevokedBy := by\<rparr>) (TDB_tokens (TS_db st)) \<and>
    (\<exists>row. res = Inr row \<and> row \<in> set (TDB_tokens (TS_db st')) \<and> ServiceToken_ID row = tid \<and> ServiceToken_OwnerUserID row = owner)"
proof -
  obtain db' where run: "ServiceTokens_Revoke tid owner by now (revokedAfter m owner by) (TS_db st) = (res, db')" "st' = st\<lparr>TS_db := db'\<rparr>"
    using assms by (auto simp: Token_Revoke_def split: prod.splits)
  show ?thesis using ServiceTokens_Revoke_effect [OF run(1) revokedAfter_tokens] run(2) by simp
qed

lemma Token_Revoke_dead:
  assumes "tokens_ok (TS_db st)" "Token_Revoke m now tid owner by st = (Inr row, st')"
  shows "token_dead tid (TS_db st')"
proof -
  let ?sel = "\<lambda>t. ServiceToken_ID t = tid \<and> ServiceToken_OwnerUserID t = owner \<and> ServiceToken_RevokedAt t = None"
  let ?f = "\<lambda>t. t\<lparr>ServiceToken_RevokedAt := Some (toStorage now), ServiceToken_RevokedBy := by\<rparr>"
  have rows: "TDB_tokens (TS_db st') = update_where ?sel ?f (TDB_tokens (TS_db st))"
    and row: "row \<in> set (TDB_tokens (TS_db st'))" "ServiceToken_ID row = tid" "ServiceToken_OwnerUserID row = owner"
    using Token_Revoke_effect [OF assms(2)] by auto
  have ids: "map ServiceToken_ID (TDB_tokens (TS_db st')) = map ServiceToken_ID (TDB_tokens (TS_db st))"
    "map ServiceToken_Prefix (TDB_tokens (TS_db st')) = map ServiceToken_Prefix (TDB_tokens (TS_db st))"
    unfolding rows by (auto simp: update_where_def)
  then have ok: "tokens_ok (TS_db st')" using assms(1) by (simp add: tokens_ok_def)
  obtain r where r: "row = (if ?sel r then ?f r else r)" using row(1) unfolding rows update_where_def set_map by blast
  have "ServiceToken_RevokedAt row \<noteq> None"
  proof (cases "?sel r")
    case False then show ?thesis using r row(2,3) by (simp only: if_False simp_thms)
  qed (use r in simp)
  moreover have "t = row" if "t \<in> set (TDB_tokens (TS_db st'))" "ServiceToken_ID t = tid" for t
    using ok that row(1,2) by (auto simp: tokens_ok_def distinct_map inj_on_def)
  ultimately show ?thesis using ok by (auto simp: token_dead_def)
qed

lemma token_step_dead: "token_step m tid st st' \<Longrightarrow> token_dead tid (TS_db st) \<Longrightarrow> token_dead tid (TS_db st')"
proof (induction rule: token_step.induct)
  case (issue now rawPrefix rawSecret newID clock inp st res st')
  from Token_Issue_effect [OF issue.hyps(1)] show ?case
  proof (elim disjE exE conjE)
    fix err assume "st' = st" then show ?thesis using issue.prems by simp
  next
    fix row assume "TDB_tokens (TS_db st') = TDB_tokens (TS_db st) @ [row]" "ServiceToken_ID row = newID"
      "newID \<notin> ServiceToken_ID ` set (TDB_tokens (TS_db st))" "ServiceToken_Prefix row \<notin> ServiceToken_Prefix ` set (TDB_tokens (TS_db st))"
    then show ?thesis using issue.prems issue.hyps(2) by (simp add: token_dead_def tokens_ok_def)
  qed
next
  case (present nowU nowR presented st res st')
  then show ?case
    using token_dead_same [OF AuthenticateToken_tokens [of m nowU nowR presented st], of tid] by simp
next
  case (revoke now anyID owner "by" st res st')
  from Token_Revoke_effect [OF revoke.hyps] show ?case
  proof (elim disjE conjE)
    assume "TDB_tokens (TS_db st') = TDB_tokens (TS_db st)"
    then show ?thesis using revoke.prems token_dead_same by blast
  next
    assume "TDB_tokens (TS_db st') = update_where (\<lambda>t. ServiceToken_ID t = anyID \<and> ServiceToken_OwnerUserID t = owner \<and> ServiceToken_RevokedAt t = None)
      (\<lambda>t. t\<lparr>ServiceToken_RevokedAt := Some (toStorage now), ServiceToken_RevokedBy := by\<rparr>) (TDB_tokens (TS_db st))"
    from token_dead_update [OF revoke.prems this] show ?thesis by simp
  qed
next
  case (expire before st n db)
  then have "TDB_tokens db = filter (\<lambda>t. \<not> ServiceToken_ExpiresAt t < toStorage before) (TDB_tokens (TS_db st))"
    by (auto simp: ServiceTokens_DeleteExpired_def delete_where_def)
  then show ?case using expire.prems by (auto simp: token_dead_def tokens_ok_def distinct_map_filter)
next
  case (job st k)
  show ?case
  proof (cases "k < length (TS_jobs st)")
    case True
    obtain jid at where j: "TS_jobs st ! k = (jid, at)" by (cases "TS_jobs st ! k")
    have db: "TS_db (run_job k st) = snd (ServiceTokens_SetLastUsedAt jid at (TS_db st))" using True j by (simp add: run_job_def)
    show ?thesis
    proof (cases "requireOneRow (count_where (\<lambda>t. ServiceToken_ID t = jid) (TDB_tokens (TS_db st))) ''service token'' jid")
      case None
      have rows: "TDB_tokens (TS_db (run_job k st)) = update_where (\<lambda>t. ServiceToken_ID t = jid)
          (\<lambda>t. t\<lparr>ServiceToken_LastUsedAt := Some (toStorage at)\<rparr>) (TDB_tokens (TS_db st))"
        unfolding db by (simp add: ServiceTokens_SetLastUsedAt_def None)
      from token_dead_update [OF job.prems rows] show ?thesis by simp
    next
      case (Some err)
      then show ?thesis unfolding db using job.prems by (simp add: ServiceTokens_SetLastUsedAt_def)
    qed
  qed (use job in \<open>simp add: run_job_def\<close>)
qed (simp_all add: token_dead_def tokens_ok_def)

lemma AuthenticateToken_Inr:
  assumes "AuthenticateToken m nowU nowR presented st = (Inr c, st')"
  shows "\<exists>t u. fst (Token_Resolve m nowU nowR presented st) = Inr t \<and>
    Users_ByID (ServiceToken_OwnerUserID t) (TDB_identity (TS_db st')) = Inr u \<and> User_Status u = StatusActive \<and>
    Caller_UserID c = User_ID u \<and> Caller_PlatformRole c = User_PlatformRole u \<and> Caller_Method c = MethodServiceToken \<and>
    Caller_SessionID c = [] \<and> Caller_TokenID c = ServiceToken_ID t \<and> Caller_TokenScopes c = ServiceToken_Scopes t \<and>
    Caller_TokenEngagementID c = ServiceToken_EngagementID t"
  using assms unfolding AuthenticateToken_def by (auto split: prod.splits sum.splits if_splits)

text \<open>
  A token is its owner: the caller it authenticates is the owner's account as it stands at
  that request, active and with the role it has now, holding the token's scopes and engagement and
  no session, and only for a text that resolves.
\<close>

theorem AuthenticateToken_is_owner:
  assumes "AuthenticateToken m nowU nowR presented st = (Inr c, st')" "tokens_ok (TS_db st)"
  shows "\<exists>t\<in>set (TDB_tokens (TS_db st)). \<exists>u.
    ServiceToken_RevokedAt t = None \<and> nowU < ServiceToken_ExpiresAt t \<and>
    Users_ByID (ServiceToken_OwnerUserID t) (TDB_identity (TS_db st')) = Inr u \<and> User_Status u = StatusActive \<and>
    Caller_UserID c = User_ID u \<and> Caller_PlatformRole c = User_PlatformRole u \<and> Caller_Method c = MethodServiceToken \<and>
    Caller_SessionID c = [] \<and> Caller_TokenID c = ServiceToken_ID t \<and> Caller_TokenScopes c = ServiceToken_Scopes t \<and>
    Caller_TokenEngagementID c = ServiceToken_EngagementID t"
  using AuthenticateToken_Inr [OF assms(1)] resolves_iff [OF assms(2)] by metis

text \<open>
  C7. Revoked for good: once a revocation has succeeded, nothing that happens to tokens, accounts
  or the server (with fresh identifiers for new tokens) makes any text authenticate as that token
  again.
\<close>

theorem token_revoked_for_good:
  assumes "Token_Revoke m now tid owner by st = (Inr row, st1)" "tokens_ok (TS_db st)"
    and "(token_step m tid)\<^sup>*\<^sup>* st1 st2"
    and "AuthenticateToken m nowU nowR presented st2 = (Inr c, st3)"
  shows "Caller_TokenID c \<noteq> tid"
proof -
  have "token_dead tid (TS_db st2)"
    using assms(3) Token_Revoke_dead [OF assms(2,1)] token_step_dead by (induction rule: rtranclp_induct) blast+
  then have dead: "tokens_ok (TS_db st2)"
    "\<And>t. t \<in> set (TDB_tokens (TS_db st2)) \<Longrightarrow> ServiceToken_ID t = tid \<Longrightarrow> ServiceToken_RevokedAt t \<noteq> None"
    by (auto simp: token_dead_def)
  obtain t where "fst (Token_Resolve m nowU nowR presented st2) = Inr t" "Caller_TokenID c = ServiceToken_ID t"
    using AuthenticateToken_Inr [OF assms(4)] by blast
  then show ?thesis using resolves_iff [OF dead(1), of m nowU nowR presented t] dead(2) by metis
qed

section \<open>A sample token\<close>

definition sample_owner :: User where
  "sample_owner = \<lparr>User_ID = ''u1'', User_Email = ''u1@lab'', User_DisplayName = ''Robot'', User_PasswordHash = [],
     User_PlatformRole = PlatformRoleMember, User_Status = StatusActive, User_MFAEnforced = False, User_CreatedAt = 1,
     User_UpdatedAt = 1, User_LastLoginAt = None\<rparr>"

definition sample_parts :: parts where
  "sample_parts = \<lparr>parts_prefix = replicate 10 CHR ''A'', parts_secret = replicate 52 CHR ''B''\<rparr>"

definition sample_token_text :: Token where
  "sample_token_text = Marker @ [token_separator] @ parts_prefix sample_parts @ [token_separator] @ parts_secret sample_parts"

definition sample_service_token :: ServiceToken where
  "sample_service_token = \<lparr>ServiceToken_ID = ''k1'', ServiceToken_Name = ''ci'', ServiceToken_Prefix = parts_prefix sample_parts,
     ServiceToken_TokenHash = parts_secret sample_parts, ServiceToken_OwnerUserID = ''u1'', ServiceToken_CreatedBy = ''u1'',
     ServiceToken_Scopes = [], ServiceToken_EngagementID = ''e1'', ServiceToken_CreatedAt = 1, ServiceToken_ExpiresAt = 900000,
     ServiceToken_LastUsedAt = None, ServiceToken_RevokedAt = None, ServiceToken_RevokedBy = []\<rparr>"

definition sample_token_manager :: Token_Manager where
  "sample_token_manager = \<lparr>TM_hash = (\<lambda>t. t), TM_activity = False, TM_maxLifetime = token_MaxLifetime, TM_formatTime = (\<lambda>t. []), TM_formatDuration = (\<lambda>d. [])\<rparr>"

definition sample_tokens :: Token_State where
  "sample_tokens = \<lparr>TS_db = \<lparr>TDB_identity = sample_db\<lparr>IDB_users := [sample_owner]\<rparr>, TDB_tokens = [sample_service_token]\<rparr>,
     TS_touched = [], TS_jobs = []\<rparr>"

lemma sample_tokens_ok: "tokens_ok (TS_db sample_tokens)"
  by (simp add: tokens_ok_def sample_tokens_def)

lemma sample_parses: "token_parse sample_token_text = Inr sample_parts"
  by code_simp

theorem token_parse_spec_witness:
  "token_parse (fst (mint (replicate 6 0) (replicate 32 7))) = Inr (snd (mint (replicate 6 0) (replicate 32 7)))"
  using token_parse_spec [of sample_token_text sample_parts "replicate 6 0" "replicate 32 7"]
  by (simp add: PrefixBytes_def SecretBytes_def)

theorem Token_Resolve_spec_witness:
  "fst (Token_Resolve sample_token_manager 5000 5000 sample_token_text sample_tokens) = Inr sample_service_token"
  using Token_Resolve_spec [OF sample_tokens_ok, of sample_token_manager 5000 5000 sample_token_text sample_service_token] sample_parses
  by (simp add: sample_tokens_def sample_service_token_def sample_token_manager_def)

definition sample_new_token :: NewToken where
  "sample_new_token = \<lparr>NewToken_Name = ''ci'', NewToken_OwnerUserID = ''u1'', NewToken_CreatedBy = ''u1'',
     NewToken_Scopes = [hd TokenScopes], NewToken_EngagementID = ''e1'', NewToken_ExpiresAt = 900000\<rparr>"

lemma sample_checks: "checkName ''ci'' = Inr ''ci''" "checkScopes [hd TokenScopes] = Inr [hd TokenScopes]"
  "checkExpiry sample_token_manager 5000 900000 = Inr 900000"
  by code_simp+

lemma sample_fresh: "parts_prefix (snd (mint (replicate 6 7) (replicate 32 7))) \<noteq> replicate 10 CHR ''A''"
  by code_simp

lemma sample_issued: "\<exists>issued st'. Token_Issue sample_token_manager 5000 (replicate 6 7) (replicate 32 7) ''k2'' 5000
    sample_new_token sample_tokens = (Inr issued, st')"
proof -
  obtain t p where mint: "mint (replicate 6 7) (replicate 32 7) = (t, p)" by (meson surj_pair)
  then have "parts_prefix p \<noteq> replicate 10 CHR ''A''" using sample_fresh by simp
  then show ?thesis
    by (simp add: Token_Issue_def sample_new_token_def sample_checks mint ServiceTokens_Create_def Let_def requireUser_def
        createdAfter_def sample_token_manager_def [THEN arg_cong, where f = TM_activity] sample_tokens_def sample_owner_def
        sample_service_token_def sample_parts_def)
qed

theorem Token_Issue_works_witness:
  "\<exists>issued st'. Token_Issue sample_token_manager 5000 (replicate 6 7) (replicate 32 7) ''k2'' 5000 sample_new_token sample_tokens
      = (Inr issued, st') \<and>
    fst (Token_Resolve sample_token_manager 899000 899000 (IssuedToken_Token issued) st') = Inr (IssuedToken_ServiceToken issued) \<and>
    fst (Token_Resolve sample_token_manager 900000 900000 (IssuedToken_Token issued) st') \<noteq> Inr (IssuedToken_ServiceToken issued)"
proof -
  obtain issued st' where run: "Token_Issue sample_token_manager 5000 (replicate 6 7) (replicate 32 7) ''k2'' 5000
      sample_new_token sample_tokens = (Inr issued, st')" using sample_issued by blast
  note works = Token_Issue_works [OF run sample_tokens_ok]
  show ?thesis
    using run works [of 899000 899000] works [of 900000 900000]
    by (simp add: PrefixBytes_def SecretBytes_def sample_new_token_def toStorage_def Truncate_def Microsecond_def)
qed

lemma sample_authenticates:
  assumes "tokens_ok (TS_db st)" "sample_service_token \<in> set (TDB_tokens (TS_db st))" "IDB_users (TDB_identity (TS_db st)) = [sample_owner]"
  shows "\<exists>c st'. AuthenticateToken sample_token_manager 5000 5000 sample_token_text st = (Inr c, st')"
proof -
  have "fst (Token_Resolve sample_token_manager 5000 5000 sample_token_text st) = Inr sample_service_token"
    using resolves_iff [OF assms(1), of sample_token_manager 5000 5000 sample_token_text sample_service_token] sample_parses assms(2)
    by (simp add: sample_service_token_def sample_token_manager_def)
  then obtain st' where run: "Token_Resolve sample_token_manager 5000 5000 sample_token_text st = (Inr sample_service_token, st')"
    by (metis prod.collapse)
  then have "st' = recordUse sample_token_manager 5000 sample_service_token st"
    by (auto simp: Token_Resolve_def split: sum.splits option.splits if_splits)
  then have "TDB_identity (TS_db st') = TDB_identity (TS_db st)"
    by (auto simp: recordUse_def Let_def sample_token_manager_def split: option.splits)
  then show ?thesis
    using run assms(3) by (simp add: AuthenticateToken_def Users_ByID_def sample_service_token_def sample_owner_def select1_def)
qed

theorem AuthenticateToken_is_owner_witness:
  "\<exists>c st'. AuthenticateToken sample_token_manager 5000 5000 sample_token_text sample_tokens = (Inr c, st') \<and>
     Caller_TokenID c = ''k1'' \<and> Caller_TokenEngagementID c = ''e1''"
proof -
  obtain c st' where run: "AuthenticateToken sample_token_manager 5000 5000 sample_token_text sample_tokens = (Inr c, st')"
    using sample_authenticates [OF sample_tokens_ok] by (auto simp: sample_tokens_def)
  show ?thesis using run AuthenticateToken_is_owner [OF run sample_tokens_ok]
    by (auto simp: sample_tokens_def sample_service_token_def)
qed

definition two_tokens :: Token_State where
  "two_tokens = sample_tokens\<lparr>TS_db := TS_db sample_tokens\<lparr>TDB_tokens := [sample_service_token,
     sample_service_token\<lparr>ServiceToken_ID := ''k0'', ServiceToken_Prefix := []\<rparr>]\<rparr>\<rparr>"

lemma two_tokens_ok: "tokens_ok (TS_db two_tokens)"
  by (simp add: tokens_ok_def two_tokens_def sample_tokens_def sample_service_token_def sample_parts_def)

lemma two_tokens_revoked: "\<exists>row st1. Token_Revoke sample_token_manager 4000 ''k0'' ''u1'' ''u1'' two_tokens = (Inr row, st1) \<and>
    tokens_ok (TS_db st1) \<and> sample_service_token \<in> set (TDB_tokens (TS_db st1)) \<and> IDB_users (TDB_identity (TS_db st1)) = [sample_owner] \<and>
    run_job 0 st1 = st1"
  by (simp add: Token_Revoke_def ServiceTokens_Revoke_def Let_def requireUser_def two_tokens_def sample_tokens_def sample_service_token_def
      sample_owner_def revokedAfter_def sample_token_manager_def select1_def update_where_def count_where_def tokens_ok_def
      sample_parts_def run_job_def)

theorem token_revoked_for_good_witness:
  "\<exists>row st1 c st3. Token_Revoke sample_token_manager 4000 ''k0'' ''u1'' ''u1'' two_tokens = (Inr row, st1) \<and>
     AuthenticateToken sample_token_manager 5000 5000 sample_token_text (run_job 0 st1) = (Inr c, st3) \<and> Caller_TokenID c \<noteq> ''k0''"
proof -
  obtain row st1 where run: "Token_Revoke sample_token_manager 4000 ''k0'' ''u1'' ''u1'' two_tokens = (Inr row, st1)"
    and st1: "tokens_ok (TS_db st1)" "sample_service_token \<in> set (TDB_tokens (TS_db st1))" "IDB_users (TDB_identity (TS_db st1)) = [sample_owner]"
      "run_job 0 st1 = st1"
    using two_tokens_revoked by blast
  obtain c st3 where auth: "AuthenticateToken sample_token_manager 5000 5000 sample_token_text (run_job 0 st1) = (Inr c, st3)"
    using sample_authenticates [OF st1(1-3)] st1(4) by auto
  have "(token_step sample_token_manager ''k0'')\<^sup>*\<^sup>* st1 (run_job 0 st1)" by (blast intro: token_step.job)
  from token_revoked_for_good [OF run two_tokens_ok this auth] show ?thesis using run auth by blast
qed

end
