(* ===== verification/Accounts_Store.thy ===== *)
theory Accounts_Store
  imports Second_Factor Go_Text "HOL-Library.Sublist"
begin

text \<open>
  The rest of the identity store that the sign-in service and account administration use
  (internal/store/identity: users.go, identities.go; internal/store/settings): accounts with their
  unique normalised address, the pages of the account listing with their cursor and their search,
  login methods, and platform settings. The SQL functions \<open>trim\<close> and \<open>lower\<close> of the database engine
  are an argument; LIKE with ESCAPE is SQL's.
\<close>

section \<open>Accounts (users.go)\<close>

record sql_text =
  SQL_trim :: "string \<Rightarrow> string"
  SQL_lower :: "string \<Rightarrow> string"

definition email_normalized :: "sql_text \<Rightarrow> string \<Rightarrow> string" where
  "email_normalized sql email = SQL_lower sql (SQL_trim sql email)"

record NewUser =
  NewUser_Email :: string
  NewUser_DisplayName :: string
  NewUser_PasswordHash :: string
  NewUser_PlatformRole :: PlatformRole
  NewUser_Status :: string
  NewUser_MFAEnforced :: bool

text \<open>The table's CHECK constraints on the two vocabularies.\<close>

definition user_known :: "PlatformRole \<Rightarrow> string \<Rightarrow> bool" where
  "user_known role status \<longleftrightarrow> PlatformRole_Valid role \<and> status \<in> {StatusActive, StatusDisabled, StatusInvited}"

definition Users_Create :: "sql_text \<Rightarrow> string \<Rightarrow> gotime \<Rightarrow> NewUser \<Rightarrow> IDB after list \<Rightarrow> IDB \<Rightarrow> (error + User) \<times> IDB" where
  "Users_Create sql newID clock u after db =
     (let what = ''identity: create user '' @ Quote (NewUser_Email u);
          created = \<lparr>User_ID = newID, User_Email = SQL_trim sql (NewUser_Email u), User_DisplayName = NewUser_DisplayName u,
            User_PasswordHash = NewUser_PasswordHash u, User_PlatformRole = NewUser_PlatformRole u,
            User_Status = NewUser_Status u, User_MFAEnforced = NewUser_MFAEnforced u, User_CreatedAt = toStorage clock,
            User_UpdatedAt = toStorage clock, User_LastLoginAt = None\<rparr>
      in if newID \<in> User_ID ` set (IDB_users db) \<or>
            email_normalized sql (NewUser_Email u) \<in> (\<lambda>x. email_normalized sql (User_Email x)) ` set (IDB_users db)
         then (Inl (Conflict ''that email address is already in use''), db)
         else if \<not> user_known (NewUser_PlatformRole u) (NewUser_Status u)
         then (Inl (ErrorfW what (ErrorsNew ''CHECK constraint failed'')), db)
         else case runAfter newID after (db\<lparr>IDB_users := IDB_users db @ [created]\<rparr>) of
                Inl err \<Rightarrow> (Inl (ErrorfW what err), db)
              | Inr db' \<Rightarrow> (Inr created, db'))"

definition Users_ByEmail :: "sql_text \<Rightarrow> string \<Rightarrow> IDB \<Rightarrow> error + User" where
  "Users_ByEmail sql email db =
     (case select1 (\<lambda>u. email_normalized sql (User_Email u) = email_normalized sql email) (IDB_users db) of
        None \<Rightarrow> Inl (NotFound ''user'' email)
      | Some u \<Rightarrow> Inr u)"

definition Users_Count :: "IDB \<Rightarrow> nat" where
  "Users_Count db = length (IDB_users db)"

definition active_admin :: "User \<Rightarrow> bool" where
  "active_admin u \<longleftrightarrow> User_PlatformRole u = PlatformRoleAdmin \<and> User_Status u = StatusActive"

definition CountActiveAdmins :: "IDB \<Rightarrow> nat" where
  "CountActiveAdmins db = count_where active_admin (IDB_users db)"

text \<open>The columns an UPDATE of an account writes.\<close>

definition user_row :: "sql_text \<Rightarrow> gotime \<Rightarrow> User \<Rightarrow> User \<Rightarrow> User" where
  "user_row sql clock u stored =
     stored\<lparr>User_Email := SQL_trim sql (User_Email u), User_DisplayName := User_DisplayName u,
       User_PasswordHash := User_PasswordHash u, User_PlatformRole := User_PlatformRole u, User_Status := User_Status u,
       User_MFAEnforced := User_MFAEnforced u, User_UpdatedAt := toStorage clock\<rparr>"

definition Users_Update :: "sql_text \<Rightarrow> gotime \<Rightarrow> User \<Rightarrow> IDB after list \<Rightarrow> IDB \<Rightarrow> (error + User) \<times> IDB" where
  "Users_Update sql clock u after db =
     (let what = ''identity: update user '' @ Quote (User_ID u);
          sel = (\<lambda>x. User_ID x = User_ID u);
          affected = count_where sel (IDB_users db);
          rows = update_where sel (user_row sql clock u) (IDB_users db)
      in if affected > 0 \<and> (\<exists>x\<in>set (IDB_users db). User_ID x \<noteq> User_ID u \<and>
              email_normalized sql (User_Email x) = email_normalized sql (User_Email u))
         then (Inl (Conflict ''that email address is already in use''), db)
         else if affected > 0 \<and> \<not> user_known (User_PlatformRole u) (User_Status u)
         then (Inl (ErrorfW what (ErrorsNew ''CHECK constraint failed'')), db)
         else case requireOneRow affected ''user'' (User_ID u) of
                Some err \<Rightarrow> (Inl (ErrorfW what err), db)
              | None \<Rightarrow>
                  (case select1 sel rows of
                     None \<Rightarrow> (Inl (ErrorfW what SqlNoRows), db)
                   | Some updated \<Rightarrow>
                       (case runAfter (User_ID updated) after (db\<lparr>IDB_users := rows\<rparr>) of
                          Inl err \<Rightarrow> (Inl (ErrorfW what err), db)
                        | Inr db' \<Rightarrow> (Inr updated, db'))))"

section \<open>The account listing (users.go)\<close>

abbreviation likeEscape :: char where "likeEscape \<equiv> CHR 0x5C"

definition escapeLike :: "string \<Rightarrow> string" where
  "escapeLike s =
     concat (map (\<lambda>c. if c = likeEscape \<or> c = CHR ''%'' \<or> c = CHR ''_'' then [likeEscape, c] else [c]) s)"

text \<open>SQL's LIKE with an ESCAPE character: does the pattern match the whole text?\<close>

function sql_like :: "char \<Rightarrow> string \<Rightarrow> string \<Rightarrow> bool" where
  "sql_like esc [] t = (t = [])"
| "sql_like esc (p # ps) t =
     (if p = esc then
        (case ps of
           [] \<Rightarrow> False
         | q # qs \<Rightarrow> (case t of [] \<Rightarrow> False | c # cs \<Rightarrow> c = q \<and> sql_like esc qs cs))
      else if p = CHR ''%'' then list_ex (\<lambda>k. sql_like esc ps (drop k t)) [0..<Suc (length t)]
      else if p = CHR ''_'' then t \<noteq> [] \<and> sql_like esc ps (tl t)
      else (case t of [] \<Rightarrow> False | c # cs \<Rightarrow> c = p \<and> sql_like esc ps cs))"
  by pat_completeness auto
termination
  by (relation "measure (\<lambda>(esc, p, t). length p)") auto

declare sql_like.simps [simp del]

definition string_bytes :: "string \<Rightarrow> 8 word list" where
  "string_bytes s = map (\<lambda>c. word_of_nat (of_char c)) s"

definition bytes_string :: "8 word list \<Rightarrow> string" where
  "bytes_string raw = map (\<lambda>w. char_of (unat w)) raw"

definition encodeUserCursor :: "string \<Rightarrow> string" where
  "encodeUserCursor uid = encode_bits base64url_alphabet 6 (string_bytes uid)"

definition decodeUserCursor :: "string \<Rightarrow> string option" where
  "decodeUserCursor cursor =
     (case decode64 base64url_alphabet cursor of
        None \<Rightarrow> None
      | Some raw \<Rightarrow> if raw = [] then None else Some (bytes_string raw))"

record PageFilter =
  PageFilter_Status :: string
  PageFilter_Role :: PlatformRole
  PageFilter_Search :: string
  PageFilter_Cursor :: string
  PageFilter_Limit :: int

definition defaultPageSize :: int where "defaultPageSize = 50"
definition maxPageSize :: int where "maxPageSize = 200"

definition page_limit :: "int \<Rightarrow> int" where
  "page_limit limit = (if limit \<le> 0 then defaultPageSize else if limit > maxPageSize then maxPageSize else limit)"

text \<open>The WHERE clause without the cursor.\<close>

definition page_matches :: "sql_text \<Rightarrow> PageFilter \<Rightarrow> User \<Rightarrow> bool" where
  "page_matches sql f u \<longleftrightarrow>
     (PageFilter_Status f = [] \<or> User_Status u = PageFilter_Status f) \<and>
     (PageFilter_Role f = [] \<or> User_PlatformRole u = PageFilter_Role f) \<and>
     (let search = TrimSpace (PageFilter_Search f);
          pattern = SQL_lower sql (''%'' @ escapeLike search @ ''%'')
      in search = [] \<or> sql_like likeEscape pattern (SQL_lower sql (User_DisplayName u)) \<or>
         sql_like likeEscape pattern (email_normalized sql (User_Email u)))"

definition Users_Page :: "sql_text \<Rightarrow> PageFilter \<Rightarrow> IDB \<Rightarrow> error + (User list \<times> string)" where
  "Users_Page sql f db =
     (let limit = nat (page_limit (PageFilter_Limit f));
          cursor = (if PageFilter_Cursor f = [] then Some None else map_option Some (decodeUserCursor (PageFilter_Cursor f)))
      in case cursor of
           None \<Rightarrow> Inl (Validation [Field ''cursor'' ''is not a cursor this server issued''])
         | Some after \<Rightarrow>
             (let rows = take (limit + 1) (sort_key User_ID (filter (\<lambda>u. page_matches sql f u \<and>
                    (case after of None \<Rightarrow> True | Some a \<Rightarrow> User_ID u > a)) (IDB_users db)))
              in if length rows > limit
                 then Inr (take limit rows, encodeUserCursor (User_ID (rows ! (limit - 1))))
                 else Inr (rows, [])))"

section \<open>Login methods (identities.go)\<close>

abbreviation ProviderLocal :: string where "ProviderLocal \<equiv> ''local''"
abbreviation ProviderOIDC :: string where "ProviderOIDC \<equiv> ''oidc''"
abbreviation ProviderSAML :: string where "ProviderSAML \<equiv> ''saml''"

record NewIdentity =
  NewIdentity_UserID :: string
  NewIdentity_Provider :: string
  NewIdentity_Subject :: string

definition Identities_Create :: "string \<Rightarrow> gotime \<Rightarrow> NewIdentity \<Rightarrow> IDB \<Rightarrow> (error + Identity_row) \<times> IDB" where
  "Identities_Create newID clock inp db =
     (let what = ''identity: create '' @ NewIdentity_Provider inp @ '' identity for user '' @ Quote (NewIdentity_UserID inp);
          created = \<lparr>Identity_ID = newID, Identity_UserID = NewIdentity_UserID inp, Identity_Provider = NewIdentity_Provider inp,
            Identity_Subject = NewIdentity_Subject inp, Identity_CreatedAt = toStorage clock\<rparr>
      in case requireUser db (NewIdentity_UserID inp) of
           Some err \<Rightarrow> (Inl (ErrorfW what err), db)
         | None \<Rightarrow>
             if newID \<in> Identity_ID ` set (IDB_identities db) \<or>
                (\<exists>i\<in>set (IDB_identities db). Identity_Provider i = NewIdentity_Provider inp \<and>
                   Identity_Subject i = NewIdentity_Subject inp)
             then (Inl (Conflict ''that login is already attached to an account''), db)
             else if NewIdentity_Provider inp \<notin> {ProviderLocal, ProviderOIDC, ProviderSAML}
             then (Inl (ErrorfW what (ErrorsNew ''CHECK constraint failed'')), db)
             else (Inr created, db\<lparr>IDB_identities := IDB_identities db @ [created]\<rparr>))"

definition Identities_BySubject :: "string \<Rightarrow> string \<Rightarrow> IDB \<Rightarrow> error + Identity_row" where
  "Identities_BySubject provider subject db =
     (case select1 (\<lambda>i. Identity_Provider i = provider \<and> Identity_Subject i = subject) (IDB_identities db) of
        None \<Rightarrow> Inl (NotFound ''identity'' (provider @ '':'' @ subject))
      | Some i \<Rightarrow> Inr i)"

definition Identities_ListByUser :: "string \<Rightarrow> IDB \<Rightarrow> Identity_row list" where
  "Identities_ListByUser userID db =
     sort_key Identity_ID (filter (\<lambda>i. Identity_UserID i = userID) (IDB_identities db))"

definition Identities_Delete :: "string \<Rightarrow> IDB \<Rightarrow> error option \<times> IDB" where
  "Identities_Delete iid db =
     (case requireOneRow (count_where (\<lambda>i. Identity_ID i = iid) (IDB_identities db)) ''identity'' iid of
        Some err \<Rightarrow> (Some (ErrorfW (''identity: delete identity '' @ Quote iid) err), db)
      | None \<Rightarrow> (None, db\<lparr>IDB_identities := delete_where (\<lambda>i. Identity_ID i = iid) (IDB_identities db)\<rparr>))"

text \<open>The account and its local login method, in two writes.\<close>

definition CreateWithLocalLogin :: "sql_text \<Rightarrow> string \<Rightarrow> string \<Rightarrow> gotime \<Rightarrow> gotime \<Rightarrow> NewUser \<Rightarrow> IDB \<Rightarrow>
    (error + User) \<times> IDB" where
  "CreateWithLocalLogin sql newID identityID clock clock2 inp db =
     (case Users_Create sql newID clock inp [] db of
        (Inl err, db') \<Rightarrow> (Inl err, db')
      | (Inr created, db') \<Rightarrow>
          (case Identities_Create identityID clock2
                  \<lparr>NewIdentity_UserID = User_ID created, NewIdentity_Provider = ProviderLocal,
                   NewIdentity_Subject = ToLower (TrimSpace (User_Email created))\<rparr> db' of
             (Inl err, db'') \<Rightarrow>
               (Inl (ErrorfW (''the account '' @ User_Email created @ '' was created (id '' @ User_ID created @
                  '') but its local login method was not'') err), db'')
           | (Inr i, db'') \<Rightarrow> (Inr created, db'')))"

section \<open>Platform settings (store/settings)\<close>

definition Settings_All :: "IDB \<Rightarrow> string \<Rightarrow> Setting option" where
  "Settings_All db key = select1 (\<lambda>s. Setting_Key s = key) (IDB_settings db)"

text \<open>Delete and insert, key by key; an empty updatedBy is stored as NULL and read back as empty.\<close>

definition Settings_put1 :: "gotime \<Rightarrow> string \<Rightarrow> Setting list \<Rightarrow> string \<times> string \<Rightarrow> Setting list" where
  "Settings_put1 at updatedBy rows kv =
     delete_where (\<lambda>s. Setting_Key s = fst kv) rows @
       [\<lparr>Setting_Key = fst kv, Setting_Value = snd kv, Setting_UpdatedAt = at, Setting_UpdatedBy = updatedBy\<rparr>]"

definition Settings_Put :: "gotime \<Rightarrow> (string \<times> string) list \<Rightarrow> string \<Rightarrow> IDB \<Rightarrow> IDB" where
  "Settings_Put clock values updatedBy db =
     (if values = [] then db
      else db\<lparr>IDB_settings := foldl (Settings_put1 (toStorage clock) updatedBy) (IDB_settings db) values\<rparr>)"

definition Settings_Delete :: "string list \<Rightarrow> IDB \<Rightarrow> IDB" where
  "Settings_Delete keys db =
     db\<lparr>IDB_settings := foldl (\<lambda>rows key. delete_where (\<lambda>s. Setting_Key s = key) rows) (IDB_settings db) keys\<rparr>"

section \<open>Lemmas: search\<close>

lemma like_escaped: "sql_like likeEscape (escapeLike s @ ps) t \<longleftrightarrow> (\<exists>rest. t = s @ rest \<and> sql_like likeEscape ps rest)"
proof (induction s arbitrary: t)
  case Nil
  then show ?case by (simp add: escapeLike_def)
next
  case (Cons c s)
  have "sql_like likeEscape (escapeLike (c # s) @ ps) t \<longleftrightarrow>
      (\<exists>cs. t = c # cs \<and> sql_like likeEscape (escapeLike s @ ps) cs)"
    by (cases t) (auto simp: escapeLike_def sql_like.simps)
  then show ?case using Cons by auto
qed

lemma like_percent: "sql_like likeEscape (CHR ''%'' # ps) t \<longleftrightarrow> (\<exists>pre rest. t = pre @ rest \<and> sql_like likeEscape ps rest)"
proof -
  have "sql_like likeEscape (CHR ''%'' # ps) t \<longleftrightarrow> (\<exists>k\<le>length t. sql_like likeEscape ps (drop k t))"
    by (auto simp: sql_like.simps(2) [of _ "CHR ''%''"] list_ex_iff atLeastLessThanSuc_atLeastAtMost simp del: upt_Suc)
  also have "\<dots> \<longleftrightarrow> (\<exists>pre rest. t = pre @ rest \<and> sql_like likeEscape ps rest)"
  proof
    assume "\<exists>k\<le>length t. sql_like likeEscape ps (drop k t)"
    then show "\<exists>pre rest. t = pre @ rest \<and> sql_like likeEscape ps rest" by (metis append_take_drop_id)
  next
    assume "\<exists>pre rest. t = pre @ rest \<and> sql_like likeEscape ps rest"
    then obtain pre rest where "t = pre @ rest" "sql_like likeEscape ps rest" by blast
    then show "\<exists>k\<le>length t. sql_like likeEscape ps (drop k t)" by (auto intro!: exI [of _ "length pre"])
  qed
  finally show ?thesis .
qed

text \<open>The pattern of a search matches the texts that hold it as a piece, whatever characters it is made of.\<close>

lemma like_search: "sql_like likeEscape (''%'' @ escapeLike s @ ''%'') t \<longleftrightarrow> sublist s t"
proof -
  have "sql_like likeEscape ''%'' rest" for rest
    using like_percent [of "[]" rest] by (auto simp: sql_like.simps)
  then show ?thesis by (auto simp: like_percent like_escaped sublist_def)
qed

section \<open>Lemmas: cursors\<close>

lemma bytes_roundtrip: "bytes_string (string_bytes s) = s"
proof -
  have "char_of (unat (word_of_nat (of_char c) :: 8 word)) = c" for c by (simp add: unat_of_nat)
  then show ?thesis by (simp add: bytes_string_def string_bytes_def comp_def)
qed

lemma cursor_roundtrip: "uid \<noteq> [] \<Longrightarrow> decodeUserCursor (encodeUserCursor uid) = Some uid"
  by (simp add: decodeUserCursor_def encodeUserCursor_def decode_encode alphabets64 bytes_roundtrip)
    (simp add: string_bytes_def)

lemma cursor_nonempty: "uid \<noteq> [] \<Longrightarrow> encodeUserCursor uid \<noteq> []"
  using cursor_roundtrip [of uid] by (auto simp: decodeUserCursor_def decode64_def Let_def split: if_splits)

section \<open>Walking the listing\<close>

text \<open>What a client does: ask for the next page until there is none; fuel bounds the number of pages.\<close>

fun Page_walk :: "nat \<Rightarrow> sql_text \<Rightarrow> PageFilter \<Rightarrow> IDB \<Rightarrow> User list option" where
  "Page_walk 0 sql f db = None"
| "Page_walk (Suc n) sql f db =
     (case Users_Page sql f db of
        Inl err \<Rightarrow> None
      | Inr (users, next) \<Rightarrow>
          if next = [] then Some users
          else map_option ((@) users) (Page_walk n sql (f\<lparr>PageFilter_Cursor := next\<rparr>) db))"

lemma page_limit_range: "1 \<le> page_limit n" "page_limit n \<le> maxPageSize"
  by (simp_all add: page_limit_def defaultPageSize_def maxPageSize_def)

lemma page_matches_cursor [simp]: "page_matches sql (f\<lparr>PageFilter_Cursor := c\<rparr>) = page_matches sql f"
  by (simp add: page_matches_def fun_eq_iff)

text \<open>In a table sorted by distinct keys, the rows past the last of the first n are the rest.\<close>

lemma rows_after:
  assumes "sorted (map key rows)" "distinct (map key rows)" "0 < n" "n \<le> length rows"
  shows "filter (\<lambda>r. key r > key (rows ! (n - 1))) rows = drop n rows"
proof -
  have low: "key r \<le> key (rows ! (n - 1))" if r: "r \<in> set (take n rows)" for r
  proof -
    obtain i where "i < n" "r = rows ! i" using r assms(4) by (auto simp: in_set_conv_nth)
    then show ?thesis using assms(1,3,4) sorted_nth_mono [of "map key rows" i "n - 1"] by simp
  qed
  have high: "key (rows ! (n - 1)) < key r" if r: "r \<in> set (drop n rows)" for r
  proof -
    obtain i where "i < length (drop n rows)" "r = drop n rows ! i" using r unfolding in_set_conv_nth by blast
    then have i: "n + i < length rows" "r = rows ! (n + i)" using assms(4) by auto
    then have "key (rows ! (n - 1)) \<le> key r" using assms(1,3) sorted_nth_mono [of "map key rows" "n - 1" "n + i"] by simp
    moreover have "key (rows ! (n - 1)) \<noteq> key r"
      using i assms(2,3,4) nth_eq_iff_index_eq [of "map key rows" "n - 1" "n + i"] by simp
    ultimately show ?thesis by simp
  qed
  have "filter (\<lambda>r. key r > key (rows ! (n - 1))) (take n rows @ drop n rows) = drop n rows"
    unfolding filter_append using low high by (auto simp: filter_empty_conv filter_id_conv leD)
  then show ?thesis by simp
qed

definition page_after :: "string \<Rightarrow> string option option" where
  "page_after cursor = (if cursor = [] then Some None else map_option Some (decodeUserCursor cursor))"

definition page_rows :: "sql_text \<Rightarrow> PageFilter \<Rightarrow> string option \<Rightarrow> IDB \<Rightarrow> User list" where
  "page_rows sql f after db = sort_key User_ID (filter (\<lambda>u. page_matches sql f u \<and>
     (case after of None \<Rightarrow> True | Some a \<Rightarrow> User_ID u > a)) (IDB_users db))"

lemma Users_Page_rows:
  assumes "page_after (PageFilter_Cursor f) = Some after"
  shows "Users_Page sql f db =
    (let limit = nat (page_limit (PageFilter_Limit f)); rows = page_rows sql f after db
     in Inr (take limit rows, if length rows > limit then encodeUserCursor (User_ID (rows ! (limit - 1))) else []))"
proof -
  have "(if PageFilter_Cursor f = [] then Some None else map_option Some (decodeUserCursor (PageFilter_Cursor f))) = Some after"
    using assms by (simp add: page_after_def)
  then show ?thesis by (auto simp: Users_Page_def Let_def page_rows_def min_def nth_take)
qed

lemma page_filter_sort_key: "filter P (sort_key k xs) = sort_key k (filter P xs)"
  by (rule filter_sort)

lemma page_rows_next:
  assumes ids: "distinct (map User_ID (IDB_users db))"
    and n: "0 < n" "n \<le> length (page_rows sql f after db)"
  shows "page_rows sql f (Some (User_ID (page_rows sql f after db ! (n - 1)))) db = drop n (page_rows sql f after db)"
proof -
  let ?R = "page_rows sql f after db" and ?P = "\<lambda>u. page_matches sql f u \<and> (case after of None \<Rightarrow> True | Some a \<Rightarrow> User_ID u > a)"
  let ?last = "User_ID (?R ! (n - 1))"
  have sorted: "sorted (map User_ID ?R)" by (simp add: page_rows_def)
  have "distinct (map User_ID (filter ?P (IDB_users db)))" using ids by (simp add: distinct_map_filter)
  then have "distinct (map User_ID ?R)" by (simp add: page_rows_def distinct_map)
  from rows_after [OF sorted this n] have rest: "filter (\<lambda>r. User_ID r > ?last) ?R = drop n ?R" .
  have "?R ! (n - 1) \<in> set ?R" using n by simp
  moreover have "x \<in> set ?R \<Longrightarrow> ?P x" for x by (simp add: page_rows_def)
  ultimately have last: "case after of None \<Rightarrow> True | Some a \<Rightarrow> ?last > a" by blast
  have "page_rows sql f (Some ?last) db = sort_key User_ID (filter (\<lambda>r. User_ID r > ?last) (filter ?P (IDB_users db)))"
    using last unfolding page_rows_def
    by (intro arg_cong [of _ _ "sort_key User_ID"]) (auto split: option.splits intro!: filter_cong)
  also have "\<dots> = filter (\<lambda>r. User_ID r > ?last) ?R" by (simp add: page_rows_def filter_sort)
  finally show ?thesis using rest by simp
qed

lemma Page_walk_rows:
  assumes "distinct (map User_ID (IDB_users db))" "\<forall>u\<in>set (IDB_users db). User_ID u \<noteq> []"
    and "page_after (PageFilter_Cursor f) = Some after" "length (page_rows sql f after db) < n"
  shows "Page_walk n sql f db = Some (page_rows sql f after db)"
  using assms(3,4)
proof (induction n arbitrary: f after)
  case (Suc n)
  let ?R = "page_rows sql f after db" and ?limit = "nat (page_limit (PageFilter_Limit f))"
  have limit: "0 < ?limit" using page_limit_range(1) [of "PageFilter_Limit f"] by simp
  show ?case
  proof (cases "length ?R > ?limit")
    case False
    then show ?thesis using Suc.prems(1) by (simp add: Users_Page_rows Let_def)
  next
    case True
    let ?last = "User_ID (?R ! (?limit - 1))" and ?f = "f\<lparr>PageFilter_Cursor := encodeUserCursor (User_ID (?R ! (?limit - 1)))\<rparr>"
    have "?R ! (?limit - 1) \<in> set ?R" using True by simp
    then have last: "?last \<noteq> []" using assms(2) by (auto simp: page_rows_def)
    then have cursor: "page_after (PageFilter_Cursor ?f) = Some (Some ?last)"
      using cursor_roundtrip [OF last] cursor_nonempty [OF last] by (simp add: page_after_def)
    have rows: "page_rows sql ?f (Some ?last) db = drop ?limit ?R"
      using page_rows_next [OF assms(1) limit, of sql f after] True by (simp add: page_rows_def)
    have "length (page_rows sql ?f (Some ?last) db) < n" using rows Suc.prems(2) limit True by simp
    from Suc.IH [OF cursor this] show ?thesis
      using Suc.prems(1) True cursor_nonempty [OF last] rows by (simp add: Users_Page_rows Let_def)
  qed
qed simp


text \<open>
  The search of the account listing is for the text typed: when lowering leaves the escaped
  pattern's metacharacters alone, an account matches exactly when its lowered display name or its
  normalised address contains the lowered text, wildcards and backslashes included.
\<close>

theorem search_is_literal:
  assumes "SQL_lower sql (''%'' @ escapeLike (TrimSpace (PageFilter_Search f)) @ ''%'') =
      ''%'' @ escapeLike (SQL_lower sql (TrimSpace (PageFilter_Search f))) @ ''%''"
    and "PageFilter_Status f = []" "PageFilter_Role f = []" "TrimSpace (PageFilter_Search f) \<noteq> []"
  shows "page_matches sql f u \<longleftrightarrow>
    sublist (SQL_lower sql (TrimSpace (PageFilter_Search f))) (SQL_lower sql (User_DisplayName u)) \<or>
    sublist (SQL_lower sql (TrimSpace (PageFilter_Search f))) (email_normalized sql (User_Email u))"
  using assms(2-4) unfolding page_matches_def Let_def assms(1) like_search by simp

section \<open>Sample accounts\<close>

definition plain_sql :: sql_text where
  "plain_sql = \<lparr>SQL_trim = TrimSpace, SQL_lower = ToLower\<rparr>"

definition sample_account :: "string \<Rightarrow> PlatformRole \<Rightarrow> string \<Rightarrow> User" where
  "sample_account uid role status = \<lparr>User_ID = uid, User_Email = uid @ ''@lab'', User_DisplayName = ''50%_Off '' @ uid, User_PasswordHash = [],
     User_PlatformRole = role, User_Status = status, User_MFAEnforced = False, User_CreatedAt = 1, User_UpdatedAt = 1,
     User_LastLoginAt = None\<rparr>"

definition accounts_db :: "User list \<Rightarrow> IDB" where
  "accounts_db users = \<lparr>IDB_users = users, IDB_sessions = [], IDB_totps = [], IDB_recovery = [], IDB_challenges = [],
     IDB_members = [], IDB_activity = [], IDB_identities = [], IDB_settings = []\<rparr>"

abbreviation three_accounts :: "User list" where
  "three_accounts \<equiv> [sample_account ''c'' PlatformRoleAdmin StatusActive, sample_account ''a'' PlatformRoleMember StatusActive,
     sample_account ''b'' PlatformRoleMember StatusDisabled]"

definition sample_filter :: "string \<Rightarrow> PageFilter" where
  "sample_filter search = \<lparr>PageFilter_Status = [], PageFilter_Role = [], PageFilter_Search = search, PageFilter_Cursor = [],
     PageFilter_Limit = 2\<rparr>"


theorem search_is_literal_witness:
  "page_matches plain_sql (sample_filter '' 50%_o'') (sample_account ''a'' PlatformRoleMember StatusActive)"
proof -
  have trim: "TrimSpace (PageFilter_Search (sample_filter '' 50%_o'')) = ''50%_o''" by (simp add: sample_filter_def) code_simp
  have lower: "SQL_lower plain_sql (''%'' @ escapeLike ''50%_o'' @ ''%'') = ''%'' @ escapeLike (SQL_lower plain_sql ''50%_o'') @ ''%''"
    by code_simp
  have "SQL_lower plain_sql (User_DisplayName (sample_account ''a'' PlatformRoleMember StatusActive)) = ''50%_off a''"
    "SQL_lower plain_sql ''50%_o'' = ''50%_o''" by code_simp+
  moreover have "sublist ''50%_o'' (''50%_o'' @ ''ff a'')" by blast
  ultimately show ?thesis
    using search_is_literal [of plain_sql "sample_filter '' 50%_o''" "sample_account ''a'' PlatformRoleMember StatusActive"] lower
    unfolding trim by (simp add: sample_filter_def)
qed

end
