(* ===== verification/Password.thy ===== *)
theory Password
  imports Identity Go_Text
begin

text \<open>
  Passwords (internal/authn/password: hash.go, policy.go): what a new password must be, and how a
  hash is printed, read back and checked. Argon2id is the third-party function \<open>IDKey\<close>, an argument
  \<open>argon2\<close> of the definitions that derive a key; the random salt is an argument, and so is the
  embedded list of common passwords. Integers have their width.
\<close>

section \<open>Counting characters\<close>

text \<open>
  \<open>utf8.RuneCountInString\<close>: the width in bytes of the first character, 1 for a byte that begins no
  valid encoding. The second byte has the narrower range that excludes overlong forms, surrogates
  and values past U+10FFFF.
\<close>

definition continuation :: "nat \<Rightarrow> nat \<Rightarrow> char \<Rightarrow> bool" where
  "continuation lo hi c \<longleftrightarrow> lo \<le> (of_char c :: nat) \<and> (of_char c :: nat) \<le> hi"

definition rune_width :: "char \<Rightarrow> string \<Rightarrow> nat" where
  "rune_width c rest =
     (let b = of_char c :: nat;
          tail = (\<lambda>k lo hi. k \<le> length rest \<and> continuation lo hi (hd rest) \<and>
                    list_all (continuation 0x80 0xBF) (take (k - 1) (tl rest)))
      in if 0xC2 \<le> b \<and> b \<le> 0xDF \<and> tail 1 0x80 0xBF then 2
         else if b = 0xE0 \<and> tail 2 0xA0 0xBF then 3
         else if b = 0xED \<and> tail 2 0x80 0x9F then 3
         else if 0xE1 \<le> b \<and> b \<le> 0xEF \<and> b \<noteq> 0xED \<and> tail 2 0x80 0xBF then 3
         else if b = 0xF0 \<and> tail 3 0x90 0xBF then 4
         else if 0xF1 \<le> b \<and> b \<le> 0xF3 \<and> tail 3 0x80 0xBF then 4
         else if b = 0xF4 \<and> tail 3 0x80 0x8F then 4
         else 1)"

function RuneCountInString :: "string \<Rightarrow> nat" where
  "RuneCountInString [] = 0"
| "RuneCountInString (c # rest) = Suc (RuneCountInString (drop (rune_width c rest - 1) rest))"
  by pat_completeness auto
termination
  by (relation "measure length") auto

section \<open>The policy (policy.go)\<close>

definition MinLength :: nat where "MinLength = 12"
definition MaxLength :: nat where "MaxLength = 128"

text \<open>\<open>strings.Lines\<close>, without the line ends that \<open>TrimSpace\<close> drops anyway.\<close>

definition parseCommonPasswords :: "string \<Rightarrow> string list" where
  "parseCommonPasswords list =
     map ToLower (filter (\<lambda>entry. entry \<noteq> [] \<and> \<not> HasPrefix entry ''#'')
       (map TrimSpace (Split list (CHR 0x0A))))"

definition isCommon :: "string list \<Rightarrow> string \<Rightarrow> bool" where
  "isCommon commonPasswords plaintext \<longleftrightarrow> ToLower plaintext \<in> set commonPasswords"

definition password_Validate :: "string list \<Rightarrow> string \<Rightarrow> string \<Rightarrow> error option" where
  "password_Validate commonPasswords field plaintext =
     (let fail = (\<lambda>message. Some (Validation [Field field message])) in
      if length plaintext = 0 then fail ''is required''
      else if TrimSpace plaintext = [] then fail ''must be more than spaces''
      else if RuneCountInString plaintext < MinLength
      then fail (''must be at least 12 characters '' @ map char_of [0xE2, 0x80, 0x94 :: nat] @ '' a passphrase of a few words is ideal'')
      else if RuneCountInString plaintext > MaxLength then fail ''must be at most 128 characters''
      else if isCommon commonPasswords plaintext
      then fail (''is one of the passwords attackers try first '' @ map char_of [0xE2, 0x80, 0x94 :: nat] @ '' choose something less predictable'')
      else None)"

section \<open>Hashes (hash.go)\<close>

record Params =
  Params_Memory :: "32 word"
  Params_Time :: "32 word"
  Params_Parallelism :: "8 word"
  Params_SaltLength :: "32 word"
  Params_KeyLength :: "32 word"

definition Production :: Params where
  "Production = \<lparr>Params_Memory = 64 * 1024, Params_Time = 3, Params_Parallelism = 1, Params_SaltLength = 16,
     Params_KeyLength = 32\<rparr>"

definition testCost :: Params where
  "testCost = \<lparr>Params_Memory = 64, Params_Time = 2, Params_Parallelism = 1, Params_SaltLength = 16, Params_KeyLength = 32\<rparr>"

text \<open>\<open>testing.Testing()\<close> is an argument.\<close>

definition Default :: "bool \<Rightarrow> Params" where
  "Default testing = (if testing then testCost else Production)"

definition MaxPlaintextBytes :: nat where "MaxPlaintextBytes = 1024"

abbreviation ErrMalformedHash :: string where "ErrMalformedHash \<equiv> ''password: malformed stored hash''"
abbreviation ErrTooLong :: string where "ErrTooLong \<equiv> ''password: plaintext is too long to hash''"
abbreviation ErrInvalidParams :: string where "ErrInvalidParams \<equiv> ''password: invalid Argon2id parameters''"

definition minStoredSaltBytes :: nat where "minStoredSaltBytes = 8"
definition minStoredKeyBytes :: nat where "minStoredKeyBytes = 16"
definition maxStoredBytes :: nat where "maxStoredBytes = 256"
definition maxStoredMemory :: "32 word" where "maxStoredMemory = 1048576"

text \<open>Password, salt, passes, memory, lanes and the length of the key.\<close>

type_synonym argon2 = "string \<Rightarrow> 8 word list \<Rightarrow> 32 word \<Rightarrow> 32 word \<Rightarrow> 8 word \<Rightarrow> 32 word \<Rightarrow> 8 word list"

definition argon2_Version :: nat where "argon2_Version = 0x13"

definition Params_validate :: "Params \<Rightarrow> error option" where
  "Params_validate p =
     (let invalid = (\<lambda>why. Some (ErrorfW why (Sentinel ErrInvalidParams))) in
      if Params_Time p = 0 then invalid ''time must be at least 1''
      else if Params_Parallelism p = 0 then invalid ''parallelism must be at least 1''
      else if Params_Memory p < 8 * ucast (Params_Parallelism p) then invalid ''memory must be at least 8 KiB per lane''
      else if Params_SaltLength p < word_of_nat minStoredSaltBytes \<or> Params_KeyLength p < word_of_nat minStoredKeyBytes
      then invalid ''salt or key is shorter than Decode accepts''
      else if Params_SaltLength p > word_of_nat maxStoredBytes \<or> Params_KeyLength p > word_of_nat maxStoredBytes
      then invalid ''salt or key is longer than Decode accepts''
      else None)"

abbreviation phcAlgorithm :: string where "phcAlgorithm \<equiv> ''argon2id''"

definition b64_EncodeToString :: "8 word list \<Rightarrow> string" where
  "b64_EncodeToString raw = encode_bits base64_alphabet 6 raw"

definition b64_DecodeString :: "string \<Rightarrow> 8 word list option" where
  "b64_DecodeString s = decode64 base64_alphabet s"

definition hash_encode :: "Params \<Rightarrow> 8 word list \<Rightarrow> 8 word list \<Rightarrow> string" where
  "hash_encode p salt key =
     ''$'' @ phcAlgorithm @ ''$v='' @ digits argon2_Version @ ''$m='' @ digits (unat (Params_Memory p)) @ '',t='' @
     digits (unat (Params_Time p)) @ '',p='' @ digits (unat (Params_Parallelism p)) @ ''$'' @ b64_EncodeToString salt @
     ''$'' @ b64_EncodeToString key"

definition malformedHash :: "string \<Rightarrow> error" where
  "malformedHash why = ErrorfW why (Sentinel ErrMalformedHash)"

definition zeroParams :: Params where
  "zeroParams = \<lparr>Params_Memory = 0, Params_Time = 0, Params_Parallelism = 0, Params_SaltLength = 0, Params_KeyLength = 0\<rparr>"

fun decodeParams_loop :: "Params \<Rightarrow> string list \<Rightarrow> string list \<Rightarrow> error + (Params \<times> string list)" where
  "decodeParams_loop p seen [] = Inr (p, seen)"
| "decodeParams_loop p seen (pair # pairs) =
     (case Cut pair CHR ''='' of
        None \<Rightarrow> Inl (malformedHash ''parameters are not name=value pairs'')
      | Some (name, value) \<Rightarrow>
          if name \<in> set seen then Inl (malformedHash ''parameters are not name=value pairs'')
          else (case ParseUint value 32 of
                  None \<Rightarrow> Inl (malformedHash (''parameter '' @ Quote name @ '' is not a number''))
                | Some n \<Rightarrow>
                    if name = ''m'' then decodeParams_loop (p\<lparr>Params_Memory := word_of_nat n\<rparr>) (name # seen) pairs
                    else if name = ''t'' then decodeParams_loop (p\<lparr>Params_Time := word_of_nat n\<rparr>) (name # seen) pairs
                    else if name = ''p'' then
                      (if n = 0 \<or> n > 255 then Inl (malformedHash ''parallelism out of range'')
                       else decodeParams_loop (p\<lparr>Params_Parallelism := word_of_nat n\<rparr>) (name # seen) pairs)
                    else Inl (malformedHash (''unknown parameter '' @ Quote name))))"

definition decodeParams :: "string \<Rightarrow> error + Params" where
  "decodeParams field =
     (case decodeParams_loop zeroParams [] (Split field CHR '','') of
        Inl err \<Rightarrow> Inl err
      | Inr (p, seen) \<Rightarrow>
          if ''m'' \<notin> set seen \<or> ''t'' \<notin> set seen \<or> ''p'' \<notin> set seen
          then Inl (malformedHash ''missing one of m, t, p'')
          else if Params_Memory p = 0 \<or> Params_Time p = 0 then Inl (malformedHash ''zero memory or time'')
          else if Params_Memory p > maxStoredMemory then Inl (malformedHash ''memory parameter is implausibly large'')
          else Inr p)"

definition storedLength :: "nat \<Rightarrow> 32 word" where
  "storedLength n = (if n > maxStoredBytes then word_of_nat maxStoredBytes else word_of_nat n)"

definition Decode :: "string \<Rightarrow> error + (Params \<times> 8 word list \<times> 8 word list)" where
  "Decode encoded =
     (let parts = Split encoded CHR ''$'' in
      if length parts \<noteq> 6 \<or> parts ! 0 \<noteq> []
      then Inl (malformedHash (''want 5 $-separated fields, got '' @ Itoa (int (length parts) - 1)))
      else if parts ! 1 \<noteq> phcAlgorithm then Inl (malformedHash (''algorithm is not '' @ phcAlgorithm))
      else (case CutPrefix (parts ! 2) ''v='' of
        None \<Rightarrow> Inl (malformedHash ''no version field'')
      | Some versionField \<Rightarrow>
          (case ParseUint versionField 32 of
             None \<Rightarrow> Inl (malformedHash ''unreadable version field'')
           | Some version \<Rightarrow>
               if version \<noteq> argon2_Version
               then Inl (malformedHash (''version '' @ digits version @ '', want '' @ digits argon2_Version))
               else (case decodeParams (parts ! 3) of
                 Inl err \<Rightarrow> Inl err
               | Inr p \<Rightarrow>
                   (case b64_DecodeString (parts ! 4) of
                      None \<Rightarrow> Inl (malformedHash ''salt is not base64'')
                    | Some salt \<Rightarrow>
                        (case b64_DecodeString (parts ! 5) of
                           None \<Rightarrow> Inl (malformedHash ''hash is not base64'')
                         | Some key \<Rightarrow>
                             if length salt < minStoredSaltBytes \<or> length key < minStoredKeyBytes
                             then Inl (malformedHash ''salt or hash is too short to be one'')
                             else if length salt > maxStoredBytes \<or> length key > maxStoredBytes
                             then Inl (malformedHash ''salt or hash is implausibly long'')
                             else Inr (p\<lparr>Params_SaltLength := storedLength (length salt),
                                         Params_KeyLength := storedLength (length key)\<rparr>, salt, key)))))))"

text \<open>The salt is what \<open>rand.Read\<close> filled: as many bytes as the parameters say.\<close>

definition Params_Hash :: "argon2 \<Rightarrow> Params \<Rightarrow> 8 word list \<Rightarrow> string \<Rightarrow> error + string" where
  "Params_Hash argon2 p salt plaintext =
     (case Params_validate p of
        Some err \<Rightarrow> Inl err
      | None \<Rightarrow>
          if length plaintext > MaxPlaintextBytes then Inl (Sentinel ErrTooLong)
          else Inr (hash_encode p salt
                 (argon2 plaintext salt (Params_Time p) (Params_Memory p) (Params_Parallelism p) (Params_KeyLength p))))"

definition strongerThan :: "Params \<Rightarrow> Params \<Rightarrow> bool" where
  "strongerThan p stored \<longleftrightarrow>
     Params_Memory stored < Params_Memory p \<or> Params_Time stored < Params_Time p \<or>
     Params_Parallelism stored > Params_Parallelism p \<or> Params_SaltLength stored < Params_SaltLength p \<or>
     Params_KeyLength stored < Params_KeyLength p"

text \<open>Whether the password is right, and whether its hash should be made anew.\<close>

definition Params_Verify :: "argon2 \<Rightarrow> Params \<Rightarrow> string \<Rightarrow> string \<Rightarrow> error + (bool \<times> bool)" where
  "Params_Verify argon2 p plaintext encoded =
     (case Decode encoded of
        Inl err \<Rightarrow> Inl err
      | Inr (stored, salt, key) \<Rightarrow>
          if length plaintext > MaxPlaintextBytes then Inr (False, False)
          else if argon2 plaintext salt (Params_Time stored) (Params_Memory stored) (Params_Parallelism stored)
                    (Params_KeyLength stored) \<noteq> key
          then Inr (False, False)
          else Inr (True, strongerThan p stored))"

definition password_Hash :: "argon2 \<Rightarrow> bool \<Rightarrow> 8 word list \<Rightarrow> string \<Rightarrow> error + string" where
  "password_Hash argon2 testing salt plaintext = Params_Hash argon2 (Default testing) salt plaintext"

definition password_Verify :: "argon2 \<Rightarrow> bool \<Rightarrow> string \<Rightarrow> string \<Rightarrow> error + (bool \<times> bool)" where
  "password_Verify argon2 testing plaintext encoded = Params_Verify argon2 (Default testing) plaintext encoded"

section \<open>Lemmas: hashes\<close>

lemma b64_roundtrip: "b64_DecodeString (b64_EncodeToString raw) = Some raw"
  by (simp add: b64_DecodeString_def b64_EncodeToString_def decode_encode alphabets64)

lemma b64_clean: "CHR ''$'' \<notin> set (b64_EncodeToString raw)"
proof
  assume "CHR ''$'' \<in> set (b64_EncodeToString raw)"
  then have "CHR ''$'' \<in> set base64_alphabet"
    unfolding b64_EncodeToString_def by (rule encode_bits_alphabet [rotated]) (simp add: base64_alphabet_def)
  then show False by (simp add: base64_alphabet_def)
qed

lemma digits_clean: "c \<in> set (digits n) \<Longrightarrow> c \<noteq> CHR ''$'' \<and> c \<noteq> CHR '','' \<and> c \<noteq> CHR ''=''"
  by (drule digits_are_digits) auto

lemma hash_parts:
  "Split (hash_encode p salt key) CHR ''$'' =
     [[], phcAlgorithm, ''v='' @ digits argon2_Version,
      ''m='' @ digits (unat (Params_Memory p)) @ '',t='' @ digits (unat (Params_Time p)) @ '',p='' @
        digits (unat (Params_Parallelism p)),
      b64_EncodeToString salt, b64_EncodeToString key]"
proof -
  let ?ps = "[[], phcAlgorithm, ''v='' @ digits argon2_Version,
      ''m='' @ digits (unat (Params_Memory p)) @ '',t='' @ digits (unat (Params_Time p)) @ '',p='' @
        digits (unat (Params_Parallelism p)), b64_EncodeToString salt, b64_EncodeToString key]"
  have "hash_encode p salt key = join_cuts CHR ''$'' ?ps" by (simp add: hash_encode_def)
  moreover have "\<forall>q\<in>set ?ps. CHR ''$'' \<notin> set q" using b64_clean digits_clean by auto
  ultimately show ?thesis using Split_join [of ?ps "CHR ''$''"] by simp
qed

lemma params_read:
  assumes "Params_Parallelism p \<noteq> 0"
  shows "decodeParams (''m='' @ digits (unat (Params_Memory p)) @ '',t='' @ digits (unat (Params_Time p)) @ '',p='' @
      digits (unat (Params_Parallelism p))) =
    (if Params_Memory p = 0 \<or> Params_Time p = 0 then Inl (malformedHash ''zero memory or time'')
     else if Params_Memory p > maxStoredMemory then Inl (malformedHash ''memory parameter is implausibly large'')
     else Inr (p\<lparr>Params_SaltLength := 0, Params_KeyLength := 0\<rparr>))"
proof -
  let ?m = "''m='' @ digits (unat (Params_Memory p))" and ?t = "''t='' @ digits (unat (Params_Time p))"
    and ?p = "''p='' @ digits (unat (Params_Parallelism p))"
  have "\<forall>q\<in>set [?m, ?t, ?p]. CHR '','' \<notin> set q" using digits_clean by auto
  then have split: "Split (?m @ '','' @ ?t @ '','' @ ?p) CHR '','' = [?m, ?t, ?p]"
    using Split_join [of "[?m, ?t, ?p]" "CHR '',''"] by simp
  have cut: "Cut ?m CHR ''='' = Some (''m'', digits (unat (Params_Memory p)))"
    "Cut ?t CHR ''='' = Some (''t'', digits (unat (Params_Time p)))"
    "Cut ?p CHR ''='' = Some (''p'', digits (unat (Params_Parallelism p)))"
    using Cut_at [of "CHR ''=''" "''m''"] Cut_at [of "CHR ''=''" "''t''"] Cut_at [of "CHR ''=''" "''p''"] by simp_all
  have read: "ParseUint (digits (unat w)) 32 = Some (unat w)" for w :: "32 word"
    using unsigned_less [of w] by (intro ParseUint_digits) simp
  have lanes: "unat (Params_Parallelism p) < 256" using unsigned_less [of "Params_Parallelism p"] by simp
  then have readp: "ParseUint (digits (unat (Params_Parallelism p))) 32 = Some (unat (Params_Parallelism p))"
    by (intro ParseUint_digits) simp
  have "unat (Params_Parallelism p) \<noteq> 0" using assms by (simp add: unat_eq_0)
  then have "decodeParams_loop zeroParams [] [?m, ?t, ?p] =
      Inr (p\<lparr>Params_SaltLength := 0, Params_KeyLength := 0\<rparr>, [''p'', ''t'', ''m''])"
    using lanes by (simp add: cut [unfolded append_Cons append_Nil] read readp zeroParams_def)
  then show ?thesis using split by (simp add: decodeParams_def)
qed

lemma validated:
  assumes "Params_validate p = None"
  shows "Params_Time p \<noteq> 0" "Params_Parallelism p \<noteq> 0" "Params_Memory p \<noteq> 0"
    "8 \<le> unat (Params_SaltLength p)" "unat (Params_SaltLength p) \<le> 256"
    "16 \<le> unat (Params_KeyLength p)" "unat (Params_KeyLength p) \<le> 256"
proof -
  let ?par = "Params_Parallelism p"
  have v: "Params_Time p \<noteq> 0" "?par \<noteq> 0" "\<not> Params_Memory p < 8 * ucast ?par"
    "\<not> Params_SaltLength p < 8" "\<not> Params_KeyLength p < 16" "\<not> Params_SaltLength p > 256" "\<not> Params_KeyLength p > 256"
    using assms by (simp_all add: Params_validate_def Let_def minStoredSaltBytes_def minStoredKeyBytes_def maxStoredBytes_def
        split: if_splits)
  then show "Params_Time p \<noteq> 0" "?par \<noteq> 0" by blast+
  have lanes: "unat ?par < 256" "unat ?par \<noteq> 0" using unsigned_less [of ?par] v(2) by (simp_all add: unat_eq_0)
  then have "unat (8 * ucast ?par :: 32 word) = 8 * unat ?par" by (simp add: unat_word_ariths unsigned_ucast_eq take_bit_nat_eq_self)
  then show "Params_Memory p \<noteq> 0" using v(3) lanes by (auto simp: word_less_nat_alt)
  show "8 \<le> unat (Params_SaltLength p)" "unat (Params_SaltLength p) \<le> 256"
    "16 \<le> unat (Params_KeyLength p)" "unat (Params_KeyLength p) \<le> 256"
    using v(4-7) by (simp_all add: word_less_nat_alt)
qed

lemma Decode_parts:
  assumes "Split e CHR ''$'' = [[], phcAlgorithm, ver, field, s, k]" "CutPrefix ver ''v='' = Some vf"
    and "ParseUint vf 32 = Some argon2_Version" "b64_DecodeString s = Some salt" "b64_DecodeString k = Some key"
    and "8 \<le> length salt" "length salt \<le> 256" "16 \<le> length key" "length key \<le> 256"
  shows "Decode e = (case decodeParams field of Inl err \<Rightarrow> Inl err
    | Inr p \<Rightarrow> Inr (p\<lparr>Params_SaltLength := word_of_nat (length salt), Params_KeyLength := word_of_nat (length key)\<rparr>, salt, key))"
  using assms
  by (simp add: Decode_def minStoredSaltBytes_def minStoredKeyBytes_def maxStoredBytes_def storedLength_def split: sum.splits)

lemma Decode_encode:
  assumes "Params_validate p = None" "length salt = unat (Params_SaltLength p)" "length key = unat (Params_KeyLength p)"
  shows "Decode (hash_encode p salt key) =
    (if Params_Memory p \<le> maxStoredMemory then Inr (p, salt, key)
     else Inl (malformedHash ''memory parameter is implausibly large''))"
proof -
  note v = validated [OF assms(1)]
  have version: "CutPrefix (''v='' @ digits argon2_Version) ''v='' = Some (digits argon2_Version)"
    "ParseUint (digits argon2_Version) 32 = Some argon2_Version"
    by (simp_all only: CutPrefix_def HasPrefix_append if_True) (simp_all add: ParseUint_digits argon2_Version_def)
  have lengths: "8 \<le> length salt" "length salt \<le> 256" "16 \<le> length key" "length key \<le> 256" using v assms(2,3) by simp_all
  show ?thesis
    unfolding Decode_parts [OF hash_parts version b64_roundtrip b64_roundtrip lengths] params_read [OF v(2)]
    using v(1,3) assms(2,3) by (auto simp: not_less)
qed

lemma verify_hash:
  assumes "Params_Hash argon2 p salt plaintext = Inr encoded" "length salt = unat (Params_SaltLength p)"
    and "\<forall>pw s t m l k. length (argon2 pw s t m l k) = unat k"
  shows "Params_Verify argon2 current presented encoded =
    (if Params_Memory p \<le> maxStoredMemory then
       (let derive = (\<lambda>pw. argon2 pw salt (Params_Time p) (Params_Memory p) (Params_Parallelism p) (Params_KeyLength p));
            right = (length presented \<le> MaxPlaintextBytes \<and> derive presented = derive plaintext)
        in Inr (right, right \<and> strongerThan current p))
     else Inl (malformedHash ''memory parameter is implausibly large''))"
proof -
  have v: "Params_validate p = None" and encoded: "encoded = hash_encode p salt
      (argon2 plaintext salt (Params_Time p) (Params_Memory p) (Params_Parallelism p) (Params_KeyLength p))"
    using assms(1) by (simp_all add: Params_Hash_def split: option.splits if_splits)
  show ?thesis
    using Decode_encode [OF v assms(2)] assms(3) by (simp add: Params_Verify_def encoded Let_def)
qed

text \<open>
  C12. A password and its hash: what \<open>Hash\<close> returns is verified, under whatever settings are current,
  for exactly the passwords within the length limit from which Argon2id derives the same key with the
  stored salt and settings, and a new hash is asked for exactly when the current settings are
  stronger. Settings with more memory than the reader accepts pass the check on settings, and
  then no password is ever verified: the stored hash is reported as damaged.
\<close>

theorem Verify_Hash:
  assumes "Params_Hash argon2 p salt plaintext = Inr encoded" "length salt = unat (Params_SaltLength p)"
    and "\<forall>pw s t m l k. length (argon2 pw s t m l k) = unat k"
  shows "Params_Verify argon2 current presented encoded =
    (if Params_Memory p \<le> maxStoredMemory then
       (let derive = (\<lambda>pw. argon2 pw salt (Params_Time p) (Params_Memory p) (Params_Parallelism p) (Params_KeyLength p));
            right = (length presented \<le> MaxPlaintextBytes \<and> derive presented = derive plaintext)
        in Inr (right, right \<and> strongerThan current p))
     else Inl (malformedHash ''memory parameter is implausibly large''))"
  by (rule verify_hash [OF assms])

definition sample_argon2 :: argon2 where
  "sample_argon2 pw salt t m l k = replicate (unat k) (of_char (hd (pw @ ''x'')))"

theorem Verify_Hash_witness:
  "\<exists>encoded. Params_Hash sample_argon2 testCost (replicate 16 3) ''correct horse'' = Inr encoded \<and>
     Params_Verify sample_argon2 Production ''correct horse'' encoded = Inr (True, True) \<and>
     Params_Verify sample_argon2 Production ''wrong horse'' encoded = Inr (False, False)"
proof -
  have hash: "Params_Hash sample_argon2 testCost (replicate 16 3) ''correct horse'' =
      Inr (hash_encode testCost (replicate 16 3) (sample_argon2 ''correct horse'' (replicate 16 3) 2 64 1 32))"
    by (simp add: Params_Hash_def Params_validate_def testCost_def minStoredSaltBytes_def minStoredKeyBytes_def
        maxStoredBytes_def MaxPlaintextBytes_def)
  have len: "\<forall>pw s t m l k. length (sample_argon2 pw s t m l k) = unat k" by (simp add: sample_argon2_def)
  have salt: "length (replicate 16 (3 :: 8 word)) = unat (Params_SaltLength testCost)" by (simp add: testCost_def)
  let ?h = "hash_encode testCost (replicate 16 3) (sample_argon2 ''correct horse'' (replicate 16 3) 2 64 1 32)"
  have "Params_Verify sample_argon2 Production ''correct horse'' ?h = Inr (True, True)"
    unfolding Verify_Hash [OF hash salt len]
    by (simp add: testCost_def Production_def maxStoredMemory_def strongerThan_def MaxPlaintextBytes_def Let_def)
  moreover have "Params_Verify sample_argon2 Production ''wrong horse'' ?h = Inr (False, False)"
    unfolding Verify_Hash [OF hash salt len]
    by (simp add: testCost_def maxStoredMemory_def sample_argon2_def Let_def)
  ultimately show ?thesis using hash by blast
qed

end
