(* ===== verification/Accounts.thy ===== *)
theory Accounts
  imports Accounts_Store Password
begin

text \<open>
  Administering accounts and one's own sessions (internal/authn/users.go, sessions.go), over the
  identity store. \<open>Auth\<close> is the rest of the sign-in service's configuration. An edit of an account
  reads the row, decides, and then writes it in one transaction with its hooks: the last-administrator
  guard and the activity rows. \<open>saveAccount\<close> is that second half, a definition of its own, so that what
  happens when another request runs between the two can be stated.
\<close>

section \<open>The service\<close>

text \<open>An authenticator as its owner sees it (authn/totp); the key and its picture come from third-party packages.\<close>

record Enrolment =
  Enrolment_Secret :: string
  Enrolment_URI :: string
  Enrolment_QRCode :: string

record Auth =
  Auth_core :: Service
  Auth_sql :: sql_text
  Auth_argon2 :: argon2
  Auth_common :: "string list"
  Auth_decoy :: string
  Auth_activity :: bool
  Auth_issuer :: string
  Auth_seal :: "string \<Rightarrow> error + string"
  Auth_newKey :: "string \<Rightarrow> string \<Rightarrow> error + Enrolment"

definition auth_recordAlone :: "Auth \<Rightarrow> Entry \<Rightarrow> IDB \<Rightarrow> IDB" where
  "auth_recordAlone auth e db =
     (if \<not> Auth_activity auth then db
      else case Log_Record e db of Inl err \<Rightarrow> db | Inr db' \<Rightarrow> db')"

definition auth_entry :: "string \<Rightarrow> Verb \<Rightarrow> string \<Rightarrow> string \<Rightarrow> (string \<times> delta_value) list \<Rightarrow> Entry" where
  "auth_entry actorID verb objectType objectID delta =
     \<lparr>Entry_EngagementID = [], Entry_ActorID = actorID, Entry_Verb = verb, Entry_ObjectType = objectType,
      Entry_ObjectID = objectID, Entry_ParentIDs = [], Entry_Delta = Delta delta\<rparr>"

abbreviation VerbUserCreated :: Verb where "VerbUserCreated \<equiv> ''user.created''"
abbreviation VerbUserUpdated :: Verb where "VerbUserUpdated \<equiv> ''user.updated''"
abbreviation VerbUserRoleChanged :: Verb where "VerbUserRoleChanged \<equiv> ''user.role_changed''"
abbreviation VerbUserDisabled :: Verb where "VerbUserDisabled \<equiv> ''user.disabled''"
abbreviation VerbUserEnabled :: Verb where "VerbUserEnabled \<equiv> ''user.enabled''"
abbreviation VerbUserSessionsRevoked :: Verb where "VerbUserSessionsRevoked \<equiv> ''user.sessions_revoked''"
abbreviation VerbSessionOthersRevoked :: Verb where "VerbSessionOthersRevoked \<equiv> ''session.others_revoked''"
abbreviation ObjectUser :: string where "ObjectUser \<equiv> ''user''"

section \<open>Accounts (users.go)\<close>

record AccountFilter =
  AccountFilter_Status :: string
  AccountFilter_Role :: string
  AccountFilter_Search :: string
  AccountFilter_Cursor :: string
  AccountFilter_Limit :: int

record NewAccount =
  NewAccount_Email :: string
  NewAccount_DisplayName :: string
  NewAccount_Password :: string
  NewAccount_Role :: string
  NewAccount_Status :: string
  NewAccount_MFAEnforced :: bool

record AccountEdit =
  AccountEdit_DisplayName :: "string option"
  AccountEdit_Role :: "string option"
  AccountEdit_Status :: "string option"
  AccountEdit_MFAEnforced :: "bool option"

definition parseRole :: "string \<Rightarrow> string \<Rightarrow> error + PlatformRole" where
  "parseRole field name =
     (if \<not> PlatformRole_Valid name then Inl (Validation [Field field ''is not a platform role this server defines''])
      else Inr name)"

definition parseStatus :: "string \<Rightarrow> string \<Rightarrow> error + string" where
  "parseStatus field name =
     (if name = StatusInvited \<or> name = StatusActive \<or> name = StatusDisabled then Inr name
      else Inl (Validation [Field field ''is not an account status this server defines'']))"

definition requireDisplayName :: "string \<Rightarrow> error + string" where
  "requireDisplayName name =
     (let trimmed = TrimSpace name in
      if trimmed = [] then Inl (Validation [Field ''displayName'' ''cannot be blank'']) else Inr trimmed)"

definition ListAccounts :: "Auth \<Rightarrow> AccountFilter \<Rightarrow> IDB \<Rightarrow> error + (User list \<times> string)" where
  "ListAccounts auth f db =
     (case (if AccountFilter_Status f \<noteq> [] then parseStatus ''status'' (AccountFilter_Status f) else Inr []) of
        Inl err \<Rightarrow> Inl err
      | Inr status \<Rightarrow>
          (case (if AccountFilter_Role f \<noteq> [] then parseRole ''role'' (AccountFilter_Role f) else Inr []) of
             Inl err \<Rightarrow> Inl err
           | Inr role \<Rightarrow>
               Users_Page (Auth_sql auth)
                 \<lparr>PageFilter_Status = status, PageFilter_Role = role, PageFilter_Search = AccountFilter_Search f,
                  PageFilter_Cursor = AccountFilter_Cursor f, PageFilter_Limit = AccountFilter_Limit f\<rparr> db))"

definition Account :: "string \<Rightarrow> IDB \<Rightarrow> error + User" where
  "Account uid db = Users_ByID uid db"

text \<open>A hook that appends one activity row about the account just written; none without a log.\<close>

definition recordInTx :: "Auth \<Rightarrow> string \<Rightarrow> Verb \<Rightarrow> (string \<times> delta_value) list \<Rightarrow> IDB after list" where
  "recordInTx auth actorID verb delta =
     (if \<not> Auth_activity auth then []
      else [\<lambda>entity. Log_Record (auth_entry actorID verb ObjectUser entity delta)])"

definition change :: "delta_value \<Rightarrow> delta_value \<Rightarrow> delta_value" where
  "change from to = DMap [(''from'', from), (''to'', to)]"

definition created_status :: "NewAccount \<Rightarrow> error + string" where
  "created_status inp =
     (let derived = (if NewAccount_Password inp = [] then StatusInvited else StatusActive) in
      if NewAccount_Status inp = [] then Inr derived
      else case parseStatus ''status'' (NewAccount_Status inp) of
             Inl err \<Rightarrow> Inl err
           | Inr asked \<Rightarrow>
               if asked = StatusDisabled
               then Inl (Validation [Field ''status''
                 ''an account cannot be created disabled; create it and then disable it if that is really what you mean''])
               else if asked = StatusInvited \<and> NewAccount_Password inp \<noteq> []
               then Inl (Validation [Field ''status'' (''an invited account has no local sign-in, so the password would be one nobody could use; '' @
                 ''omit the password, or create the account active'')])
               else Inr asked)"

definition created_hash :: "Auth \<Rightarrow> 8 word list \<Rightarrow> string \<Rightarrow> error + string" where
  "created_hash auth salt plaintext =
     (if plaintext = [] then Inr []
      else case password_Validate (Auth_common auth) ''password'' plaintext of
             Some err \<Rightarrow> Inl err
           | None \<Rightarrow>
               (case password_Hash (Auth_argon2 auth) False salt plaintext of
                  Inl err \<Rightarrow> Inl (ErrorfW ''authn: hash the password of a new account'' err)
                | Inr hash \<Rightarrow> Inr hash))"

definition CreateAccount :: "Auth \<Rightarrow> string \<Rightarrow> gotime \<Rightarrow> 8 word list \<Rightarrow> Caller \<Rightarrow> NewAccount \<Rightarrow> IDB \<Rightarrow> (error + User) \<times> IDB" where
  "CreateAccount auth newID clock salt actor inp db =
     (case parseRole ''platformRole'' (NewAccount_Role inp) of
        Inl err \<Rightarrow> (Inl err, db)
      | Inr role \<Rightarrow>
          (case requireDisplayName (NewAccount_DisplayName inp) of
             Inl err \<Rightarrow> (Inl err, db)
           | Inr displayName \<Rightarrow>
               (case created_status inp of
                  Inl err \<Rightarrow> (Inl err, db)
                | Inr status \<Rightarrow>
                    (case created_hash auth salt (NewAccount_Password inp) of
                       Inl err \<Rightarrow> (Inl err, db)
                     | Inr hash \<Rightarrow>
                         Users_Create (Auth_sql auth) newID clock
                           \<lparr>NewUser_Email = TrimSpace (NewAccount_Email inp), NewUser_DisplayName = displayName,
                            NewUser_PasswordHash = hash, NewUser_PlatformRole = role, NewUser_Status = status,
                            NewUser_MFAEnforced = NewAccount_MFAEnforced inp\<rparr>
                           (recordInTx auth (Caller_UserID actor) VerbUserCreated
                              [(''email'', DString (TrimSpace (NewAccount_Email inp))), (''display_name'', DString displayName),
                               (''platform_role'', DString role), (''status'', DString status),
                               (''mfa_enforced'', DBool (NewAccount_MFAEnforced inp)),
                               (''local_password'', DBool (NewAccount_Password inp \<noteq> []))])
                           db))))"

definition wouldRemoveAnAdmin :: "User \<Rightarrow> User \<Rightarrow> bool" where
  "wouldRemoveAnAdmin before after \<longleftrightarrow> active_admin before \<and> \<not> active_admin after"

definition lastAdminGuard :: "IDB after" where
  "lastAdminGuard entity db =
     (if CountActiveAdmins db = 0
      then Inl (Conflict ''this is the last administrator who can sign in; give somebody else the admin role first'')
      else Inr db)"

definition changeRecords :: "Auth \<Rightarrow> Caller \<Rightarrow> User \<Rightarrow> User \<Rightarrow> IDB after list" where
  "changeRecords auth actor before after =
     (let record_one = recordInTx auth (Caller_UserID actor);
          status = [(''status'', change (DString (User_Status before)) (DString (User_Status after)))];
          role_hooks = (if User_PlatformRole before \<noteq> User_PlatformRole after
            then record_one VerbUserRoleChanged
                   [(''platform_role'', change (DString (User_PlatformRole before)) (DString (User_PlatformRole after)))]
            else []);
          other = (if User_DisplayName before \<noteq> User_DisplayName after
              then [(''display_name'', change (DString (User_DisplayName before)) (DString (User_DisplayName after)))] else []) @
            (if User_MFAEnforced before \<noteq> User_MFAEnforced after
              then [(''mfa_enforced'', change (DBool (User_MFAEnforced before)) (DBool (User_MFAEnforced after)))] else []);
          status_hooks = (if User_Status before = User_Status after then []
            else if User_Status after = StatusDisabled then record_one VerbUserDisabled status
            else if User_Status after = StatusActive then record_one VerbUserEnabled status
            else []);
          other = other @ (if User_Status before \<noteq> User_Status after \<and> User_Status after \<noteq> StatusDisabled \<and>
            User_Status after \<noteq> StatusActive then status else [])
      in role_hooks @ status_hooks @ (if other \<noteq> [] then record_one VerbUserUpdated other else []))"

definition saveAccount :: "Auth \<Rightarrow> gotime \<Rightarrow> gotime \<Rightarrow> Caller \<Rightarrow> User \<Rightarrow> User \<Rightarrow> IDB \<Rightarrow> (error + User) \<times> IDB" where
  "saveAccount auth clock now actor before after db =
     (if after = before then (Inr before, db)
      else case Users_Update (Auth_sql auth) clock after
             ((if wouldRemoveAnAdmin before after then [lastAdminGuard] else []) @ changeRecords auth actor before after) db of
             (Inl err, db1) \<Rightarrow> (Inl err, db1)
           | (Inr updated, db1) \<Rightarrow>
               if User_Status updated \<noteq> StatusActive \<and> User_Status before = StatusActive
               then (case RevokeAll (Service_sessions (Auth_core auth)) now (User_ID updated) db1 of
                       (Inl err, db2) \<Rightarrow> (Inl err, db2)
                     | (Inr revoked, db2) \<Rightarrow> (Inr updated, db2))
               else (Inr updated, db1))"

text \<open>The fields of the patch, in the order the code reads them.\<close>

definition apply_edit :: "AccountEdit \<Rightarrow> User \<Rightarrow> error + User" where
  "apply_edit edit before =
     (case (case AccountEdit_DisplayName edit of None \<Rightarrow> Inr (User_DisplayName before) | Some n \<Rightarrow> requireDisplayName n) of
        Inl err \<Rightarrow> Inl err
      | Inr name \<Rightarrow>
          (case (case AccountEdit_Role edit of None \<Rightarrow> Inr (User_PlatformRole before) | Some r \<Rightarrow> parseRole ''platformRole'' r) of
             Inl err \<Rightarrow> Inl err
           | Inr role \<Rightarrow>
               (case (case AccountEdit_Status edit of None \<Rightarrow> Inr (User_Status before) | Some s \<Rightarrow> parseStatus ''status'' s) of
                  Inl err \<Rightarrow> Inl err
                | Inr status \<Rightarrow>
                    Inr (before\<lparr>User_DisplayName := name, User_PlatformRole := role, User_Status := status,
                           User_MFAEnforced := (case AccountEdit_MFAEnforced edit of
                             None \<Rightarrow> User_MFAEnforced before | Some b \<Rightarrow> b)\<rparr>))))"

definition UpdateAccount :: "Auth \<Rightarrow> gotime \<Rightarrow> gotime \<Rightarrow> Caller \<Rightarrow> string \<Rightarrow> AccountEdit \<Rightarrow> IDB \<Rightarrow> (error + User) \<times> IDB" where
  "UpdateAccount auth clock now actor uid edit db =
     (case Users_ByID uid db of
        Inl err \<Rightarrow> (Inl err, db)
      | Inr before \<Rightarrow>
          (case apply_edit edit before of
             Inl err \<Rightarrow> (Inl err, db)
           | Inr after \<Rightarrow> saveAccount auth clock now actor before after db))"

definition SetAccountStatus :: "Auth \<Rightarrow> gotime \<Rightarrow> gotime \<Rightarrow> Caller \<Rightarrow> string \<Rightarrow> string \<Rightarrow> IDB \<Rightarrow> (error + User) \<times> IDB" where
  "SetAccountStatus auth clock now actor uid status db =
     (case Users_ByID uid db of
        Inl err \<Rightarrow> (Inl err, db)
      | Inr before \<Rightarrow> saveAccount auth clock now actor before (before\<lparr>User_Status := status\<rparr>) db)"

definition RenameSelf :: "Auth \<Rightarrow> gotime \<Rightarrow> gotime \<Rightarrow> Caller \<Rightarrow> string \<Rightarrow> IDB \<Rightarrow> (error + User) \<times> IDB" where
  "RenameSelf auth clock now actor displayName db =
     (case Users_ByID (Caller_UserID actor) db of
        Inl err \<Rightarrow> (Inl err, db)
      | Inr before \<Rightarrow>
          (case requireDisplayName displayName of
             Inl err \<Rightarrow> (Inl err, db)
           | Inr name \<Rightarrow> saveAccount auth clock now actor before (before\<lparr>User_DisplayName := name\<rparr>) db))"

definition RevokeAccountSessions :: "Auth \<Rightarrow> gotime \<Rightarrow> Caller \<Rightarrow> string \<Rightarrow> IDB \<Rightarrow> (error + nat) \<times> IDB" where
  "RevokeAccountSessions auth now actor uid db =
     (case Users_ByID uid db of
        Inl err \<Rightarrow> (Inl err, db)
      | Inr user \<Rightarrow>
          (case RevokeAll (Service_sessions (Auth_core auth)) now (User_ID user) db of
             (Inl err, db1) \<Rightarrow> (Inl err, db1)
           | (Inr revoked, db1) \<Rightarrow>
               (Inr revoked, auth_recordAlone auth (auth_entry (Caller_UserID actor) VerbUserSessionsRevoked ObjectUser (User_ID user)
                  [(''revoked'', DInt (int revoked))]) db1)))"

section \<open>One's own sessions (sessions.go)\<close>

definition Sessions :: "Auth \<Rightarrow> gotime \<Rightarrow> Caller \<Rightarrow> IDB \<Rightarrow> error + Session list" where
  "Sessions auth now subject db = Live (Service_sessions (Auth_core auth)) now (Caller_UserID subject) db"

definition RevokeSession :: "Auth \<Rightarrow> gotime \<Rightarrow> Caller \<Rightarrow> string \<Rightarrow> IDB \<Rightarrow> error option \<times> IDB" where
  "RevokeSession auth now subject sid db =
     RevokeOwned (Service_sessions (Auth_core auth)) now (Caller_UserID subject) sid db"

definition RevokeOtherSessions :: "Auth \<Rightarrow> gotime \<Rightarrow> Caller \<Rightarrow> IDB \<Rightarrow> (error + nat) \<times> IDB" where
  "RevokeOtherSessions auth now subject db =
     (if Caller_SessionID subject = []
      then (Inl (Api (Internal (ErrorsNew (''authn: '' @ Quote (Caller_UserID subject) @
              '' asked to revoke their other sessions on a request that has no session to keep'')))), db)
      else case RevokeOthers (Service_sessions (Auth_core auth)) now (Caller_UserID subject) (Caller_SessionID subject) db of
             (Inl err, db1) \<Rightarrow> (Inl err, db1)
           | (Inr revoked, db1) \<Rightarrow>
               (Inr revoked, auth_recordAlone auth (auth_entry (Caller_UserID subject) VerbSessionOthersRevoked ObjectUser
                  (Caller_UserID subject) [(''revoked'', DInt (int revoked))]) db1))"

end
