(* ===== verification/Sign_In.thy ===== *)
theory Sign_In
  imports Accounts
begin

text \<open>
  Signing in and what a signed-in caller may do to their own account (internal/authn/service.go,
  mfapolicy.go, mfa.go, recovery.go, federated.go): passwords, the MFA policy, sessions confined to
  enrolment, authenticators and recovery codes, and identities that a provider vouched for. Draws
  from outside (clock readings, identifiers, tokens, salts) are records or arguments. A change that
  checks first and writes later is split where the code stops reading.
\<close>

abbreviation VerbSessionLoginFailed :: Verb where "VerbSessionLoginFailed \<equiv> ''session.login_failed''"
abbreviation VerbUserPasswordChanged :: Verb where "VerbUserPasswordChanged \<equiv> ''user.password_changed''"
abbreviation VerbMFAEnrolled :: Verb where "VerbMFAEnrolled \<equiv> ''mfa.enrolled''"
abbreviation VerbMFADisabled :: Verb where "VerbMFADisabled \<equiv> ''mfa.disabled''"
abbreviation VerbMFARecoveryIssued :: Verb where "VerbMFARecoveryIssued \<equiv> ''mfa.recovery_issued''"
abbreviation VerbSSOProvisioned :: Verb where "VerbSSOProvisioned \<equiv> ''sso.provisioned''"
abbreviation VerbSSOLinked :: Verb where "VerbSSOLinked \<equiv> ''sso.linked''"
abbreviation ObjectLogin :: string where "ObjectLogin \<equiv> ''login''"
abbreviation ObjectTOTP :: string where "ObjectTOTP \<equiv> ''totp''"
abbreviation ObjectIdentity :: string where "ObjectIdentity \<equiv> ''identity''"

section \<open>The MFA policy (mfapolicy.go)\<close>

abbreviation keyMFARequiredForAll :: string where "keyMFARequiredForAll \<equiv> ''mfa.required_for_all''"
abbreviation keyMFARequiredForAdmins :: string where "keyMFARequiredForAdmins \<equiv> ''mfa.required_for_admins''"

record MFAPolicy =
  MFAPolicy_RequiredForAll :: bool
  MFAPolicy_RequiredForAdmins :: bool

definition Requires :: "MFAPolicy \<Rightarrow> User \<Rightarrow> bool" where
  "Requires p user \<longleftrightarrow>
     (if User_PasswordHash user = [] then False
      else MFAPolicy_RequiredForAll p \<or>
        (MFAPolicy_RequiredForAdmins p \<and> User_PlatformRole user = PlatformRoleAdmin) \<or> User_MFAEnforced user)"

text \<open>\<open>strconv.ParseBool\<close> and \<open>strconv.FormatBool\<close>.\<close>

definition ParseBool :: "string \<Rightarrow> bool option" where
  "ParseBool s =
     (if s \<in> {''1'', ''t'', ''T'', ''true'', ''TRUE'', ''True''} then Some True
      else if s \<in> {''0'', ''f'', ''F'', ''false'', ''FALSE'', ''False''} then Some False else None)"

definition FormatBool :: "bool \<Rightarrow> string" where
  "FormatBool b = (if b then ''true'' else ''false'')"

definition storedBool :: "(string \<Rightarrow> Setting option) \<Rightarrow> string \<Rightarrow> error + bool" where
  "storedBool stored key =
     (case stored key of
        None \<Rightarrow> Inr False
      | Some setting \<Rightarrow>
          (case ParseBool (Setting_Value setting) of
             None \<Rightarrow> Inl (ErrorfW (''authn: the platform setting '' @ Quote key @ '' holds '' @ Quote (Setting_Value setting) @
                '', which is not true or false'') (ErrorsNew ''invalid syntax''))
           | Some value \<Rightarrow> Inr value))"

definition DecodeMFAPolicy :: "(string \<Rightarrow> Setting option) \<Rightarrow> error + MFAPolicy" where
  "DecodeMFAPolicy stored =
     (case storedBool stored keyMFARequiredForAll of
        Inl err \<Rightarrow> Inl err
      | Inr forAll \<Rightarrow>
          (case storedBool stored keyMFARequiredForAdmins of
             Inl err \<Rightarrow> Inl err
           | Inr forAdmins \<Rightarrow> Inr \<lparr>MFAPolicy_RequiredForAll = forAll, MFAPolicy_RequiredForAdmins = forAdmins\<rparr>))"

definition mfaPolicy :: "IDB \<Rightarrow> error + MFAPolicy" where
  "mfaPolicy db = DecodeMFAPolicy (Settings_All db)"

definition SetMFAPolicy :: "gotime \<Rightarrow> Caller \<Rightarrow> MFAPolicy \<Rightarrow> IDB \<Rightarrow> (error + MFAPolicy) \<times> IDB" where
  "SetMFAPolicy clock subject policy db =
     (Inr policy, Settings_Put clock
        [(keyMFARequiredForAll, FormatBool (MFAPolicy_RequiredForAll policy)),
         (keyMFARequiredForAdmins, FormatBool (MFAPolicy_RequiredForAdmins policy))] (Caller_UserID subject) db)"

datatype loginOutcome = outcomeSession | outcomeChallenge | outcomeEnrolment

definition decideLogin :: "bool \<Rightarrow> bool \<Rightarrow> loginOutcome" where
  "decideLogin required enrolled =
     (if enrolled then outcomeChallenge else if required then outcomeEnrolment else outcomeSession)"

section \<open>Signing in (service.go)\<close>

datatype LoginStatus = LoginAuthenticated | LoginMFARequired | LoginMFAEnrolmentRequired

record Login_input =
  Login_Email :: string
  Login_Password :: string
  Login_Request :: Request

text \<open>The zero values of the parts a status does not use are None.\<close>

record LoginResult =
  LoginResult_Status :: LoginStatus
  LoginResult_Subject :: "Caller option"
  LoginResult_Issued :: "Issued option"
  LoginResult_Challenge :: "IssuedChallenge option"

record SignIn_Draws =
  SD_salt :: "8 word list"
  SD_rehash :: gotime
  SD_challengeID :: string
  SD_challengeToken :: Token
  SD_challengeClock :: gotime
  SD_challengeNow :: gotime
  SD_sessionID :: string
  SD_token :: Token
  SD_sessionClock :: gotime
  SD_sessionNow :: gotime

definition issueSession :: "Auth \<Rightarrow> SignIn_Draws \<Rightarrow> User \<Rightarrow> Request \<Rightarrow> IDB \<Rightarrow> (error + Issued) \<times> IDB" where
  "issueSession auth d user req db =
     (case Issue (Service_sessions (Auth_core auth)) (SD_sessionID d) (SD_sessionClock d) (SD_token d) (SD_sessionNow d)
             (User_ID user) req False db of
        (Inl err, db1) \<Rightarrow> (Inl err, db1)
      | (Inr issued, db1) \<Rightarrow>
          (case Users_SetLastLoginAt (User_ID user) (Session_CreatedAt (Issued_Session issued)) db1 of
             (Some err, db2) \<Rightarrow> (Inl err, db2)
           | (None, db2) \<Rightarrow> (Inr issued, db2)))"

definition completeSignIn :: "Auth \<Rightarrow> SignIn_Draws \<Rightarrow> User \<Rightarrow> Request \<Rightarrow> IDB \<Rightarrow> (error + LoginResult) \<times> IDB" where
  "completeSignIn auth d user req db =
     (case mfaPolicy db of
        Inl err \<Rightarrow> (Inl err, db)
      | Inr policy \<Rightarrow>
          (case confirmedTOTP (User_ID user) db of
             Inl err \<Rightarrow> (Inl err, db)
           | Inr (enrolment, enrolled) \<Rightarrow>
               (case decideLogin (Requires policy user) enrolled of
                  outcomeChallenge \<Rightarrow>
                    (case Challenge_Open (Service_challenges (Auth_core auth)) (SD_challengeID d) (SD_challengeClock d)
                            (SD_challengeToken d) (SD_challengeNow d) (User_ID user) db of
                       (Inl err, db1) \<Rightarrow> (Inl err, db1)
                     | (Inr issued, db1) \<Rightarrow>
                         (Inr \<lparr>LoginResult_Status = LoginMFARequired, LoginResult_Subject = None,
                               LoginResult_Issued = None, LoginResult_Challenge = Some issued\<rparr>, db1))
                | outcomeEnrolment \<Rightarrow>
                    (case issueSession auth d user req db of
                       (Inl err, db1) \<Rightarrow> (Inl err, db1)
                     | (Inr issued, db1) \<Rightarrow>
                         (Inr \<lparr>LoginResult_Status = LoginMFAEnrolmentRequired,
                               LoginResult_Subject = Some ((subjectOf user (Issued_Session issued))
                                 \<lparr>Caller_MFAEnrolmentRequired := True\<rparr>),
                               LoginResult_Issued = Some issued, LoginResult_Challenge = None\<rparr>, db1))
                | outcomeSession \<Rightarrow>
                    (case issueSession auth d user req db of
                       (Inl err, db1) \<Rightarrow> (Inl err, db1)
                     | (Inr issued, db1) \<Rightarrow>
                         (Inr \<lparr>LoginResult_Status = LoginAuthenticated,
                               LoginResult_Subject = Some (subjectOf user (Issued_Session issued)),
                               LoginResult_Issued = Some issued, LoginResult_Challenge = None\<rparr>, db1)))))"

definition recordLoginFailed :: "Auth \<Rightarrow> Login_input \<Rightarrow> string \<Rightarrow> IDB \<Rightarrow> IDB" where
  "recordLoginFailed auth inp reason db =
     auth_recordAlone auth (auth_entry [] VerbSessionLoginFailed ObjectLogin ''unknown''
       [(''email'', DString (Login_Email inp)), (''ip'', DString (Request_IP (Login_Request inp))),
        (''reason'', DString reason)]) db"

text \<open>The account as it was read for the sign-in, with the new hash; a failure is only logged.\<close>

definition upgradeHash :: "Auth \<Rightarrow> 8 word list \<Rightarrow> gotime \<Rightarrow> User \<Rightarrow> string \<Rightarrow> IDB \<Rightarrow> IDB" where
  "upgradeHash auth salt clock user plaintext db =
     (case password_Hash (Auth_argon2 auth) False salt plaintext of
        Inl err \<Rightarrow> db
      | Inr hash \<Rightarrow> snd (Users_Update (Auth_sql auth) clock (user\<lparr>User_PasswordHash := hash\<rparr>) [] db))"

definition Login :: "Auth \<Rightarrow> SignIn_Draws \<Rightarrow> Login_input \<Rightarrow> IDB \<Rightarrow> (error + LoginResult) \<times> IDB" where
  "Login auth d inp db =
     (case Users_ByEmail (Auth_sql auth) (Login_Email inp) db of
        Inl err \<Rightarrow>
          if errors_Is err ErrNotFound then
            (case password_Verify (Auth_argon2 auth) False (Login_Password inp) (Auth_decoy auth) of
               Inl decoyErr \<Rightarrow> (Inl (ErrorfW ''authn: verify against the decoy hash'' decoyErr), db)
             | Inr v \<Rightarrow> (Inl (BadCredentials ''no account holds that address''), recordLoginFailed auth inp ''unknown_email'' db))
          else (Inl err, db)
      | Inr user \<Rightarrow>
          (let stored = (if User_PasswordHash user = [] then Auth_decoy auth else User_PasswordHash user) in
           case password_Verify (Auth_argon2 auth) False (Login_Password inp) stored of
             Inl err \<Rightarrow> (Inl (ErrorfW (''authn: verify the password of user '' @ Quote (User_ID user)) err), db)
           | Inr (ok, needsRehash) \<Rightarrow>
               if User_PasswordHash user = []
               then (Inl (BadCredentials (''user '' @ User_ID user @ '' has no local password'')),
                     recordLoginFailed auth inp ''no_local_password'' db)
               else if \<not> ok
               then (Inl (BadCredentials (''password mismatch for user '' @ User_ID user)),
                     recordLoginFailed auth inp ''password_mismatch'' db)
               else if User_Status user \<noteq> StatusActive
               then (Inl (BadCredentials (''user '' @ User_ID user @ '' is '' @ User_Status user)),
                     recordLoginFailed auth inp (''account_'' @ User_Status user) db)
               else completeSignIn auth d user (Login_Request inp)
                      (if needsRehash then upgradeHash auth (SD_salt d) (SD_rehash d) user (Login_Password inp) db else db)))"

section \<open>Every request (service.go)\<close>

definition confineToEnrolment :: "User \<Rightarrow> Session \<Rightarrow> IDB \<Rightarrow> error + bool" where
  "confineToEnrolment user sess db =
     (if Session_MFASatisfied sess then Inr False
      else case mfaPolicy db of
        Inl err \<Rightarrow> Inl err
      | Inr policy \<Rightarrow>
          if \<not> Requires policy user then Inr False
          else (case confirmedTOTP (User_ID user) db of
                  Inl err \<Rightarrow> Inl err
                | Inr (enrolment, enrolled) \<Rightarrow>
                    if enrolled
                    then Inl (ErrorfW (''session '' @ Session_ID sess @ '' of user '' @ User_ID user @
                           '' never presented the second factor now required of them'') (Sentinel ErrNoSession))
                    else Inr True))"

definition Authenticate :: "Auth \<Rightarrow> gotime \<Rightarrow> gotime \<Rightarrow> Token \<Rightarrow> IDB \<Rightarrow> (error + Caller) \<times> IDB" where
  "Authenticate auth nowU nowT token db =
     (case Resolve (Service_sessions (Auth_core auth)) token nowU nowT db of
        (Inl err, db1) \<Rightarrow> (Inl err, db1)
      | (Inr found, db1) \<Rightarrow>
          (case Users_ByID (Session_UserID found) db1 of
             Inl err \<Rightarrow>
               if errors_Is err ErrNotFound
               then (Inl (ErrorfW (''session '' @ Session_ID found @ '' belongs to user '' @ Session_UserID found @
                       '', which is gone'') (Sentinel ErrNoSession)), db1)
               else (Inl err, db1)
           | Inr user \<Rightarrow>
               if User_Status user \<noteq> StatusActive
               then (Inl (ErrorfW (''user '' @ User_ID user @ '' is '' @ User_Status user) (Sentinel ErrNoSession)), db1)
               else (case confineToEnrolment user found db1 of
                       Inl err \<Rightarrow> (Inl err, db1)
                     | Inr confined \<Rightarrow>
                         (Inr ((subjectOf user found)\<lparr>Caller_MFAEnrolmentRequired := confined,
                                 Caller_Method := MethodCookie\<rparr>), db1))))"

definition Logout :: "Auth \<Rightarrow> gotime \<Rightarrow> Caller \<Rightarrow> IDB \<Rightarrow> error option \<times> IDB" where
  "Logout auth now subject db =
     (if Caller_SessionID subject = [] then (None, db)
      else RevokeAs (Service_sessions (Auth_core auth)) now (Caller_SessionID subject) (Caller_UserID subject) db)"

record Profile =
  Profile_User :: User
  Profile_Memberships :: "Membership list"
  Profile_MFAEnrolled :: bool
  Profile_MFARequired :: bool
  Profile_MFASatisfied :: bool
  Profile_RecoveryCodesRemaining :: nat

definition profile_of :: "Caller \<Rightarrow> IDB \<Rightarrow> error + Profile" where
  "profile_of subject db =
     (case Users_ByID (Caller_UserID subject) db of
        Inl err \<Rightarrow> Inl err
      | Inr user \<Rightarrow>
          (case confirmedTOTP (Caller_UserID subject) db of
             Inl err \<Rightarrow> Inl err
           | Inr (enrolment, enrolled) \<Rightarrow>
               (case mfaPolicy db of
                  Inl err \<Rightarrow> Inl err
                | Inr policy \<Rightarrow>
                    Inr \<lparr>Profile_User = user, Profile_Memberships = Memberships_ListByUser (Caller_UserID subject) db,
                         Profile_MFAEnrolled = enrolled, Profile_MFARequired = Requires policy user,
                         Profile_MFASatisfied = Caller_MFASatisfied subject,
                         Profile_RecoveryCodesRemaining = RecoveryCodes_CountUnused (Caller_UserID subject) db\<rparr>)))"

section \<open>Changing one's password (service.go)\<close>

definition noLocalPassword :: error where
  "noLocalPassword = Validation [Field ''currentPassword''
     ''this account signs in through an identity provider and has no password here'']"

definition current_password :: "Auth \<Rightarrow> string \<Rightarrow> User \<Rightarrow> error option" where
  "current_password auth current user =
     (case password_Verify (Auth_argon2 auth) False current (User_PasswordHash user) of
        Inl err \<Rightarrow> Some (ErrorfW (''authn: verify the password of user '' @ Quote (User_ID user)) err)
      | Inr (ok, needsRehash) \<Rightarrow> if \<not> ok then Some (Validation [Field ''currentPassword'' ''is not correct'']) else None)"

text \<open>Up to the write: the account as read, with the hash of the new password.\<close>

definition ChangePassword_check :: "Auth \<Rightarrow> 8 word list \<Rightarrow> Caller \<Rightarrow> string \<Rightarrow> string \<Rightarrow> IDB \<Rightarrow> error + User" where
  "ChangePassword_check auth salt subject current new db =
     (case Users_ByID (Caller_UserID subject) db of
        Inl err \<Rightarrow> Inl err
      | Inr user \<Rightarrow>
          if User_PasswordHash user = [] then Inl noLocalPassword
          else (case current_password auth current user of
            Some err \<Rightarrow> Inl err
          | None \<Rightarrow>
              (case password_Validate (Auth_common auth) ''newPassword'' new of
                 Some err \<Rightarrow> Inl err
               | None \<Rightarrow>
                   if (case password_Verify (Auth_argon2 auth) False new (User_PasswordHash user) of
                         Inl err \<Rightarrow> False | Inr (same, needsRehash) \<Rightarrow> same)
                   then Inl (Validation [Field ''newPassword'' ''must be different from your current password''])
                   else (case password_Hash (Auth_argon2 auth) False salt new of
                           Inl err \<Rightarrow> Inl (ErrorfW (''authn: hash the new password of user '' @ Quote (User_ID user)) err)
                         | Inr hash \<Rightarrow> Inr (user\<lparr>User_PasswordHash := hash\<rparr>)))))"

record Change_Draws =
  CD_salt :: "8 word list"
  CD_update :: gotime
  CD_revoke :: gotime
  CD_rotate :: gotime
  CD_token :: Token

definition ChangePassword_commit :: "Auth \<Rightarrow> Change_Draws \<Rightarrow> Caller \<Rightarrow> User \<Rightarrow> IDB \<Rightarrow> (error + Issued) \<times> IDB" where
  "ChangePassword_commit auth d subject user db =
     (case Users_Update (Auth_sql auth) (CD_update d) user [] db of
        (Inl err, db1) \<Rightarrow> (Inl err, db1)
      | (Inr updated, db1) \<Rightarrow>
          (case RevokeOthers (Service_sessions (Auth_core auth)) (CD_revoke d) (User_ID user) (Caller_SessionID subject) db1 of
             (Inl err, db2) \<Rightarrow> (Inl err, db2)
           | (Inr revoked, db2) \<Rightarrow>
               (case Rotate (Service_sessions (Auth_core auth)) (CD_token d) (CD_rotate d) (Caller_SessionID subject)
                       (Challenge_Discard (User_ID user) db2) of
                  (Inl err, db3) \<Rightarrow> (Inl err, db3)
                | (Inr issued, db3) \<Rightarrow>
                    (Inr issued, auth_recordAlone auth (auth_entry (User_ID user) VerbUserPasswordChanged ObjectUser (User_ID user) []) db3))))"

definition ChangePassword :: "Auth \<Rightarrow> Change_Draws \<Rightarrow> Caller \<Rightarrow> string \<Rightarrow> string \<Rightarrow> IDB \<Rightarrow> (error + Issued) \<times> IDB" where
  "ChangePassword auth d subject current new db =
     (case ChangePassword_check auth (CD_salt d) subject current new db of
        Inl err \<Rightarrow> (Inl err, db)
      | Inr user \<Rightarrow> ChangePassword_commit auth d subject user db)"

section \<open>One's own authenticator (mfa.go, totp.go)\<close>

text \<open>The checks before the third-party generator.\<close>

definition totp_Generate :: "Auth \<Rightarrow> string \<Rightarrow> string \<Rightarrow> error + Enrolment" where
  "totp_Generate auth issuer account =
     (if TrimSpace issuer = [] then Inl (ErrorsNew ''totp: no issuer; the app would show an unnamed entry'')
      else if TrimSpace account = [] then Inl (ErrorsNew ''totp: no account name; two entries would be indistinguishable'')
      else if CHR '':'' \<in> set issuer \<or> CHR '':'' \<in> set account
      then Inl (ErrorsNew (''totp: the issuer '' @ Quote issuer @ '' and account '' @ Quote account @
             '' must not contain a colon, which separates them in the otpauth label''))
      else case Auth_newKey auth issuer account of
             Inl err \<Rightarrow> Inl (ErrorfW ''totp: generate a key'' err)
           | Inr key \<Rightarrow> Inr key)"

definition EnrollTOTP :: "Auth \<Rightarrow> gotime \<Rightarrow> Caller \<Rightarrow> IDB \<Rightarrow> (error + Enrolment) \<times> IDB" where
  "EnrollTOTP auth clock subject db =
     (case Users_ByID (Caller_UserID subject) db of
        Inl err \<Rightarrow> (Inl err, db)
      | Inr user \<Rightarrow>
          (case confirmedTOTP (User_ID user) db of
             Inl err \<Rightarrow> (Inl err, db)
           | Inr (held, enrolled) \<Rightarrow>
               if enrolled
               then (Inl (Conflict ''an authenticator is already enrolled; remove it before enrolling another''), db)
               else (case totp_Generate auth (Auth_issuer auth) (User_Email user) of
                       Inl err \<Rightarrow> (Inl err, db)
                     | Inr enrolment \<Rightarrow>
                         (case Auth_seal auth (Enrolment_Secret enrolment) of
                            Inl err \<Rightarrow> (Inl err, db)
                          | Inr sealed \<Rightarrow>
                              (case TOTPs_Enroll clock \<lparr>NewTOTP_UserID = User_ID user, NewTOTP_SecretEncrypted = sealed\<rparr> db of
                                 (Inl err, db1) \<Rightarrow> (Inl err, db1)
                               | (Inr t, db1) \<Rightarrow> (Inr enrolment, db1))))))"

record RecoveryCodeSet =
  RecoveryCodeSet_Codes :: "RecoveryToken list"
  RecoveryCodeSet_GeneratedAt :: gotime

text \<open>Fresh codes from ten draws of random bytes, under fresh row identifiers.\<close>

definition issueRecoveryCodes :: "Auth \<Rightarrow> (nat \<Rightarrow> 8 word list) \<Rightarrow> string list \<Rightarrow> gotime \<Rightarrow> string \<Rightarrow> IDB \<Rightarrow>
    (error + RecoveryCodeSet) \<times> IDB" where
  "issueRecoveryCodes auth raws newIDs clock userID db =
     (let fresh_set = Generate raws in
      case RecoveryCodes_Replace newIDs clock userID (map (Service_codeHash (Auth_core auth)) fresh_set) db of
        (Inl err, db1) \<Rightarrow> (Inl err, db1)
      | (Inr stored, db1) \<Rightarrow>
          if length stored \<noteq> length fresh_set
          then (Inl (ErrorsNew (''authn: stored '' @ Itoa (int (length stored)) @ '' recovery codes for user '' @ Quote userID @
                  '', want '' @ Itoa (int (length fresh_set)))), db1)
          else (Inr \<lparr>RecoveryCodeSet_Codes = fresh_set, RecoveryCodeSet_GeneratedAt = RecoveryCode_CreatedAt (stored ! 0)\<rparr>,
                auth_recordAlone auth (auth_entry userID VerbMFARecoveryIssued ObjectRecoveryCode userID
                  [(''count'', DInt (int (length fresh_set)))]) db1))"

record Confirm_Draws =
  FD_check :: gotime
  FD_accept :: gotime
  FD_raws :: "nat \<Rightarrow> 8 word list"
  FD_codeIDs :: "string list"
  FD_codesClock :: gotime
  FD_token :: Token
  FD_rotate :: gotime

record ConfirmResult =
  ConfirmResult_Issued :: Issued
  ConfirmResult_Recovery :: RecoveryCodeSet

definition ConfirmTOTP :: "Auth \<Rightarrow> Confirm_Draws \<Rightarrow> Caller \<Rightarrow> string \<Rightarrow> IDB \<Rightarrow> (error + ConfirmResult) \<times> IDB" where
  "ConfirmTOTP auth d subject code db =
     (case TOTPs_ByUserID (Caller_UserID subject) db of
        Inl err \<Rightarrow> (Inl err, db)
      | Inr enrolment \<Rightarrow>
          (case checkCode (Auth_core auth) enrolment code (FD_check d) of
             Inl err \<Rightarrow>
               if errors_Is err ErrNoMatch
               then (Inl (Validation [Field ''code'' (''is not correct '' @ map char_of [0xE2, 0x80, 0x94 :: nat] @
                       '' check your authenticator and try the current code'')]), db)
               else (Inl err, db)
           | Inr step \<Rightarrow>
               (case TOTPs_Accept (Caller_UserID subject) step (FD_accept d) db of
                  (Inl err, db1) \<Rightarrow> (Inl err, db1)
                | (Inr accepted, db1) \<Rightarrow>
                    if \<not> accepted
                    then (Inl (Validation [Field ''code'' (''has already been used '' @ map char_of [0xE2, 0x80, 0x94 :: nat] @
                            '' wait for the next one'')]), db1)
                    else (case issueRecoveryCodes auth (FD_raws d) (FD_codeIDs d) (FD_codesClock d) (Caller_UserID subject) db1 of
                            (Inl err, db2) \<Rightarrow> (Inl err, db2)
                          | (Inr minted, db2) \<Rightarrow>
                              (case SatisfyMFA (Service_sessions (Auth_core auth)) (FD_token d) (FD_rotate d)
                                      (Caller_SessionID subject) db2 of
                                 (Inl err, db3) \<Rightarrow> (Inl err, db3)
                               | (Inr issued, db3) \<Rightarrow>
                                   (Inr \<lparr>ConfirmResult_Issued = issued, ConfirmResult_Recovery = minted\<rparr>,
                                    auth_recordAlone auth (auth_entry (Caller_UserID subject) VerbMFAEnrolled ObjectTOTP
                                      (Caller_UserID subject) []) db3))))))"

definition DisableTOTP :: "Auth \<Rightarrow> Caller \<Rightarrow> string \<Rightarrow> IDB \<Rightarrow> error option \<times> IDB" where
  "DisableTOTP auth subject current db =
     (case Users_ByID (Caller_UserID subject) db of
        Inl err \<Rightarrow> (Some err, db)
      | Inr user \<Rightarrow>
          (case mfaPolicy db of
             Inl err \<Rightarrow> (Some err, db)
           | Inr policy \<Rightarrow>
               if Requires policy user
               then (Some (Forbidden (''remove the authenticator of user '' @ User_ID user @
                       '', of whom a second factor is required'')), db)
               else if User_PasswordHash user = [] then (Some noLocalPassword, db)
               else (case current_password auth current user of
                       Some err \<Rightarrow> (Some err, db)
                     | None \<Rightarrow>
                         (None, auth_recordAlone auth (auth_entry (User_ID user) VerbMFADisabled ObjectTOTP (User_ID user) [])
                            (RecoveryCodes_DeleteForUser (User_ID user) (TOTPs_Delete (User_ID user) db))))))"

definition AccountForChallenge :: "Auth \<Rightarrow> gotime \<Rightarrow> Token \<Rightarrow> IDB \<Rightarrow> string" where
  "AccountForChallenge auth now token db =
     (case Challenge_Resolve (Service_challenges (Auth_core auth)) token now db of
        Inl err \<Rightarrow> []
      | Inr pending \<Rightarrow>
          (case Users_ByID (MFAChallenge_UserID pending) db of Inl err \<Rightarrow> [] | Inr user \<Rightarrow> User_Email user))"

definition RegenerateRecoveryCodes :: "Auth \<Rightarrow> (nat \<Rightarrow> 8 word list) \<Rightarrow> string list \<Rightarrow> gotime \<Rightarrow> Caller \<Rightarrow> string \<Rightarrow> IDB \<Rightarrow>
    (error + RecoveryCodeSet) \<times> IDB" where
  "RegenerateRecoveryCodes auth raws newIDs clock subject current db =
     (case Users_ByID (Caller_UserID subject) db of
        Inl err \<Rightarrow> (Inl err, db)
      | Inr user \<Rightarrow>
          if \<not> Caller_MFASatisfied subject
          then (Inl (Forbidden (''mint recovery codes for user '' @ User_ID user @
                  '' from a session that has not satisfied MFA'')), db)
          else (case confirmedTOTP (User_ID user) db of
                  Inl err \<Rightarrow> (Inl err, db)
                | Inr (enrolment, enrolled) \<Rightarrow>
                    if \<not> enrolled
                    then (Inl (Conflict (''there is no authenticator enrolled; recovery codes stand in for one, '' @
                            ''and are issued when an enrolment is confirmed'')), db)
                    else if User_PasswordHash user = [] then (Inl noLocalPassword, db)
                    else (case current_password auth current user of
                            Some err \<Rightarrow> (Inl err, db)
                          | None \<Rightarrow> issueRecoveryCodes auth raws newIDs clock (User_ID user) db)))"

section \<open>Signing in with an identity a provider vouched for (federated.go)\<close>

record FederatedLogin =
  FederatedLogin_Provider :: string
  FederatedLogin_Subject :: string
  FederatedLogin_Email :: string
  FederatedLogin_EmailVerified :: bool
  FederatedLogin_DisplayName :: string
  FederatedLogin_Role :: PlatformRole
  FederatedLogin_RoleMapped :: bool
  FederatedLogin_AutoProvision :: bool
  FederatedLogin_Request :: Request

record Federated_Draws =
  GD_userID :: string
  GD_identityID :: string
  GD_create :: gotime
  GD_link :: gotime
  GD_claim :: gotime
  GD_role :: gotime
  GD_signIn :: SignIn_Draws

definition new_identity :: "FederatedLogin \<Rightarrow> User \<Rightarrow> NewIdentity" where
  "new_identity inp user = \<lparr>NewIdentity_UserID = User_ID user, NewIdentity_Provider = FederatedLogin_Provider inp,
     NewIdentity_Subject = FederatedLogin_Subject inp\<rparr>"

definition provision :: "Auth \<Rightarrow> Federated_Draws \<Rightarrow> FederatedLogin \<Rightarrow> IDB \<Rightarrow> (error + User) \<times> IDB" where
  "provision auth d inp db =
     (if FederatedLogin_Email inp = []
      then (Inl (SignInRefused (''the identity provider sent no email address, so no account could be created; '' @
             ''ask an administrator to check the provider's claim mapping'')
             (FederatedLogin_Provider inp @ '' subject '' @ Quote (FederatedLogin_Subject inp) @ '' arrived with no email claim'')), db)
      else
        (let role = (if FederatedLogin_RoleMapped inp then FederatedLogin_Role inp else PlatformRoleMember);
             displayName = (if TrimSpace (FederatedLogin_DisplayName inp) = [] then FederatedLogin_Email inp
               else FederatedLogin_DisplayName inp)
         in case Users_Create (Auth_sql auth) (GD_userID d) (GD_create d)
                   \<lparr>NewUser_Email = FederatedLogin_Email inp, NewUser_DisplayName = displayName, NewUser_PasswordHash = [],
                    NewUser_PlatformRole = role, NewUser_Status = StatusActive, NewUser_MFAEnforced = False\<rparr> [] db of
              (Inl err, db1) \<Rightarrow> (Inl err, db1)
            | (Inr created, db1) \<Rightarrow>
                (case Identities_Create (GD_identityID d) (GD_link d) (new_identity inp created) db1 of
                   (Inl err, db2) \<Rightarrow> (Inl err, db2)
                 | (Inr i, db2) \<Rightarrow>
                     (Inr created,
                      auth_recordAlone auth (auth_entry (User_ID created) VerbSSOProvisioned ObjectIdentity (User_ID created)
                        [(''provider'', DString (FederatedLogin_Provider inp)), (''subject'', DString (FederatedLogin_Subject inp)),
                         (''email'', DString (FederatedLogin_Email inp))])
                     (auth_recordAlone auth (auth_entry (User_ID created) VerbUserCreated ObjectUser (User_ID created)
                        [(''email'', DString (User_Email created)), (''platform_role'', DString (User_PlatformRole created)),
                         (''provider'', DString (FederatedLogin_Provider inp))]) db2)))))"

definition federatedUser :: "Auth \<Rightarrow> Federated_Draws \<Rightarrow> FederatedLogin \<Rightarrow> IDB \<Rightarrow> (error + User) \<times> IDB" where
  "federatedUser auth d inp db =
     (case Identities_BySubject (FederatedLogin_Provider inp) (FederatedLogin_Subject inp) db of
        Inr linked \<Rightarrow> (Users_ByID (Identity_UserID linked) db, db)
      | Inl err \<Rightarrow>
          if \<not> errors_Is err ErrNotFound then (Inl err, db)
          else
            (let absent =
               (if \<not> FederatedLogin_AutoProvision inp
                then (Inl (SignInRefused (''you signed in successfully, but you have no account on this Blacklight; '' @
                       ''ask an administrator to create one'')
                       (''no user is linked to '' @ FederatedLogin_Provider inp @ '' subject '' @
                        Quote (FederatedLogin_Subject inp) @ '' and automatic provisioning is off'')), db)
                else provision auth d inp db)
             in if FederatedLogin_Email inp \<noteq> [] \<and> FederatedLogin_EmailVerified inp then
                  (case Users_ByEmail (Auth_sql auth) (FederatedLogin_Email inp) db of
                     Inr existing \<Rightarrow>
                       (case Identities_Create (GD_identityID d) (GD_link d) (new_identity inp existing) db of
                          (Inl err, db1) \<Rightarrow> (Inl err, db1)
                        | (Inr i, db1) \<Rightarrow>
                            (Inr existing, auth_recordAlone auth (auth_entry (User_ID existing) VerbSSOLinked ObjectIdentity (User_ID existing)
                               [(''provider'', DString (FederatedLogin_Provider inp)), (''subject'', DString (FederatedLogin_Subject inp)),
                                (''email'', DString (User_Email existing))]) db1))
                   | Inl err \<Rightarrow> if errors_Is err ErrNotFound then absent else (Inl err, db))
                else absent))"

definition claimInvitation :: "Auth \<Rightarrow> gotime \<Rightarrow> User \<Rightarrow> IDB \<Rightarrow> (error + User) \<times> IDB" where
  "claimInvitation auth clock user db =
     (if User_Status user \<noteq> StatusInvited then (Inr user, db)
      else Users_Update (Auth_sql auth) clock (user\<lparr>User_Status := StatusActive\<rparr>)
             (recordInTx auth (User_ID user) VerbUserEnabled
                [(''status'', change (DString (User_Status user)) (DString StatusActive)),
                 (''reason'', DString ''claimed by a federated sign-in'')]) db)"

definition applyMappedRole :: "Auth \<Rightarrow> gotime \<Rightarrow> User \<Rightarrow> FederatedLogin \<Rightarrow> IDB \<Rightarrow> (error + User) \<times> IDB" where
  "applyMappedRole auth clock user inp db =
     (if \<not> FederatedLogin_RoleMapped inp \<or> User_PlatformRole user = FederatedLogin_Role inp then (Inr user, db)
      else case Users_Update (Auth_sql auth) clock (user\<lparr>User_PlatformRole := FederatedLogin_Role inp\<rparr>) [] db of
             (Inl err, db1) \<Rightarrow> (Inl err, db1)
           | (Inr updated, db1) \<Rightarrow>
               (Inr updated, auth_recordAlone auth (auth_entry (User_ID updated) VerbUserRoleChanged ObjectUser (User_ID updated)
                  [(''from'', DString (User_PlatformRole user)), (''to'', DString (User_PlatformRole updated)),
                   (''provider'', DString (FederatedLogin_Provider inp))]) db1))"

definition SignInWithFederatedIdentity :: "Auth \<Rightarrow> Federated_Draws \<Rightarrow> FederatedLogin \<Rightarrow> IDB \<Rightarrow> (error + LoginResult) \<times> IDB" where
  "SignInWithFederatedIdentity auth d inp db =
     (if TrimSpace (FederatedLogin_Subject inp) = []
      then (Inl (Api (Internal (ErrorsNew ''authn: a federated sign-in arrived with no subject''))), db)
      else case federatedUser auth d inp db of
        (Inl err, db1) \<Rightarrow> (Inl err, db1)
      | (Inr user, db1) \<Rightarrow>
          (case claimInvitation auth (GD_claim d) user db1 of
             (Inl err, db2) \<Rightarrow> (Inl err, db2)
           | (Inr user, db2) \<Rightarrow>
               if User_Status user \<noteq> StatusActive
               then (Inl (SignInRefused ''this account is not active here; ask an administrator''
                       (''user '' @ User_ID user @ '' is '' @ User_Status user)), db2)
               else (case applyMappedRole auth (GD_role d) user inp db2 of
                       (Inl err, db3) \<Rightarrow> (Inl err, db3)
                     | (Inr user, db3) \<Rightarrow> completeSignIn auth (GD_signIn d) user (FederatedLogin_Request inp) db3)))"

end
