(* ===== verification/Sign_In_Inv.thy ===== *)
theory Sign_In_Inv
  imports Sign_In
begin

text \<open>
  The invariant of accounts: identifiers are unique, some administrator can sign in, and recovery
  codes exist only beside a confirmed authenticator. Every operation of the sign-in service and of
  account administration keeps it when it runs without another one between its reading and its
  writing; \<open>account_request\<close> lists them. The lemmas go table by table: what a statement does to the
  three tables the invariant speaks of, and which operations do not touch them.
\<close>

section \<open>The invariant\<close>

definition accounts_ok :: "IDB \<Rightarrow> bool" where
  "accounts_ok db \<longleftrightarrow>
     distinct (map User_ID (IDB_users db)) \<and> (\<exists>u\<in>set (IDB_users db). active_admin u) \<and>
     distinct (map TOTP_UserID (IDB_totps db)) \<and>
     (\<forall>c\<in>set (IDB_recovery db). \<exists>t\<in>set (IDB_totps db). TOTP_UserID t = RecoveryCode_UserID c \<and> TOTP_Confirmed t)"

definition keeps_accounts :: "IDB \<Rightarrow> IDB \<Rightarrow> bool" where
  "keeps_accounts db db' \<longleftrightarrow> (accounts_ok db \<longrightarrow> accounts_ok db')"

definition same_accounts :: "IDB \<Rightarrow> IDB \<Rightarrow> bool" where
  "same_accounts db db' \<longleftrightarrow>
     IDB_users db' = IDB_users db \<and> IDB_totps db' = IDB_totps db \<and> IDB_recovery db' = IDB_recovery db"

named_theorems account_frames \<open>operations that leave the tables of the account invariant alone, or keep it\<close>

lemma accounts_keeps_refl [simp, account_frames]: "keeps_accounts db db"
  by (simp add: keeps_accounts_def)

lemma accounts_keeps_trans: "keeps_accounts db db1 \<Longrightarrow> keeps_accounts db1 db2 \<Longrightarrow> keeps_accounts db db2"
  by (simp add: keeps_accounts_def)

lemma same_refl [simp]: "same_accounts db db"
  by (simp add: same_accounts_def)

lemma same_trans: "same_accounts db db1 \<Longrightarrow> same_accounts db1 db2 \<Longrightarrow> same_accounts db db2"
  by (simp add: same_accounts_def)

lemma same_keeps: "same_accounts db db' \<Longrightarrow> keeps_accounts db db'"
  by (simp add: same_accounts_def keeps_accounts_def accounts_ok_def)

lemma count_admins: "CountActiveAdmins db = 0 \<longleftrightarrow> (\<forall>u\<in>set (IDB_users db). \<not> active_admin u)"
  by (simp add: CountActiveAdmins_def count_where_0)

section \<open>Sessions, activity, identities, challenges and settings\<close>

lemma recordAlone_same [account_frames]: "same_accounts db (auth_recordAlone auth e db)"
  by (simp add: auth_recordAlone_def Log_Record_def same_accounts_def)

lemma hooks_same:
  "runAfter entity (recordInTx auth actorID verb delta @ after) db = Inr db' \<Longrightarrow>
   \<exists>db1. same_accounts db db1 \<and> runAfter entity after db1 = Inr db'"
proof (cases "Auth_activity auth")
  case True
  let ?db1 = "db\<lparr>IDB_activity := IDB_activity db @ [auth_entry actorID verb ObjectUser entity delta]\<rparr>"
  assume "runAfter entity (recordInTx auth actorID verb delta @ after) db = Inr db'"
  then have "runAfter entity after ?db1 = Inr db'" using True by (simp add: recordInTx_def Log_Record_def)
  moreover have "same_accounts db ?db1" by (simp add: same_accounts_def)
  ultimately show ?thesis by blast
next
  case False
  assume "runAfter entity (recordInTx auth actorID verb delta @ after) db = Inr db'"
  then show ?thesis using False by (auto simp: recordInTx_def intro!: exI [of _ db])
qed

lemma identity_manager_more [simp]:
  "Manager_store (identity_manager h l i) = session_repo" "Manager_activity (identity_manager h l i) = Some Log_Record"
  by (simp_all add: identity_manager_def)

lemma session_operations_same:
  assumes "runs_identity svc"
  shows "Issue (Service_sessions svc) newID clock token now userID req mfa db = (r1, db1) \<Longrightarrow> same_accounts db db1"
    and "Resolve (Service_sessions svc) token nowU nowT db = (r2, db1) \<Longrightarrow> same_accounts db db1"
    and "Rotate (Service_sessions svc) token now sid db = (r1, db1) \<Longrightarrow> same_accounts db db1"
    and "SatisfyMFA (Service_sessions svc) token now sid db = (r1, db1) \<Longrightarrow> same_accounts db db1"
    and "RevokeAs (Service_sessions svc) now sid actorID db = (r3, db1) \<Longrightarrow> same_accounts db db1"
    and "RevokeOwned (Service_sessions svc) now userID sid db = (r3, db1) \<Longrightarrow> same_accounts db db1"
    and "RevokeAll (Service_sessions svc) now userID db = (r4, db1) \<Longrightarrow> same_accounts db db1"
    and "RevokeOthers (Service_sessions svc) now userID sid db = (r4, db1) \<Longrightarrow> same_accounts db db1"
proof -
  obtain h l i where svc: "Service_sessions svc = identity_manager h l i" using assms by (auto simp: runs_identity_def)
  have rotate: "Rotate (identity_manager h l i) token now sid db = (r1, db1) \<Longrightarrow> same_accounts db db1" for db r1
    by (auto simp: Rotate_def Sessions_Rotate_def Let_def same_accounts_def split: prod.splits sum.splits option.splits if_splits)
  have revoke: "RevokeAs (identity_manager h l i) now sid actorID db = (r3, db1) \<Longrightarrow> same_accounts db db1" for actorID r3
    by (auto simp: RevokeAs_def logoutAfter_def Sessions_Revoke_def Log_Record_def Let_def same_accounts_def
        split: prod.splits sum.splits option.splits if_splits)
  show "Issue (Service_sessions svc) newID clock token now userID req mfa db = (r1, db1) \<Longrightarrow> same_accounts db db1"
    by (auto simp: svc Issue_def loginAfter_def Sessions_Create_def Log_Record_def Let_def same_accounts_def transact_def
        split: prod.splits sum.splits option.splits if_splits)
  show "Resolve (Service_sessions svc) token nowU nowT db = (r2, db1) \<Longrightarrow> same_accounts db db1"
    by (auto simp: svc Resolve_def Sessions_SetLastSeenAt_def same_accounts_def
        split: prod.splits sum.splits option.splits if_splits)
  show "Rotate (Service_sessions svc) token now sid db = (r1, db1) \<Longrightarrow> same_accounts db db1" using rotate svc by simp
  show "SatisfyMFA (Service_sessions svc) token now sid db = (r1, db1) \<Longrightarrow> same_accounts db db1"
    using rotate [of "db\<lparr>IDB_sessions := _\<rparr>"]
    by (auto simp: svc SatisfyMFA_def Sessions_SetMFASatisfied_def same_accounts_def split: prod.splits option.splits)
  show "RevokeAs (Service_sessions svc) now sid actorID db = (r3, db1) \<Longrightarrow> same_accounts db db1" using revoke svc by simp
  show "RevokeOwned (Service_sessions svc) now userID sid db = (r3, db1) \<Longrightarrow> same_accounts db db1"
    using revoke by (auto simp: svc RevokeOwned_def split: if_splits)
  show "RevokeAll (Service_sessions svc) now userID db = (r4, db1) \<Longrightarrow> same_accounts db db1"
    by (auto simp: svc RevokeAll_def Sessions_RevokeAllForUser_def Let_def same_accounts_def)
  show "RevokeOthers (Service_sessions svc) now userID sid db = (r4, db1) \<Longrightarrow> same_accounts db db1"
    by (auto simp: svc RevokeOthers_def Sessions_RevokeOthersForUser_def Let_def same_accounts_def)
qed

lemma Identities_Create_same: "Identities_Create newID clock inp db = (r, db1) \<Longrightarrow> same_accounts db db1"
  by (auto simp: Identities_Create_def Let_def same_accounts_def split: option.splits if_splits)

lemma Challenge_Open_same: "Challenge_Open c newID clock token now userID db = (r, db1) \<Longrightarrow> same_accounts db db1"
  by (auto simp: Challenge_Open_def MFAChallenges_Open_def Let_def same_accounts_def split: prod.splits sum.splits option.splits if_splits)

lemma Challenge_Spend_same: "Challenge_Spend cid now db = (r, db1) \<Longrightarrow> same_accounts db db1"
  by (auto simp: Challenge_Spend_def MFAChallenges_Consume_def Let_def same_accounts_def split: option.splits if_splits)

lemma Challenge_Discard_same [account_frames]: "same_accounts db (Challenge_Discard userID db)"
  by (simp add: Challenge_Discard_def MFAChallenges_DeleteForUser_def same_accounts_def)

lemma Settings_Put_same [account_frames]: "same_accounts db (Settings_Put clock values updatedBy db)"
  by (simp add: Settings_Put_def same_accounts_def)

section \<open>Accounts\<close>

lemma user_row_simps [simp]:
  "User_ID (user_row sql clock u stored) = User_ID stored" "User_Status (user_row sql clock u stored) = User_Status u"
  "active_admin (user_row sql clock u stored) = active_admin u"
  by (simp_all add: user_row_def active_admin_def)

text \<open>What an UPDATE of an account and its hooks do when the hooks leave the account tables alone.\<close>

definition quiet :: "IDB after list \<Rightarrow> bool" where
  "quiet after \<longleftrightarrow> (\<forall>entity db db'. runAfter entity after db = Inr db' \<longrightarrow> same_accounts db db')"

lemma quiet_Nil [simp]: "quiet []"
  by (simp add: quiet_def)

lemma quiet_append: "quiet a \<Longrightarrow> quiet b \<Longrightarrow> quiet (a @ b)"
proof -
  have "runAfter entity (a @ b) db = Inr db' \<Longrightarrow> \<exists>db1. runAfter entity a db = Inr db1 \<and> runAfter entity b db1 = Inr db'" for entity db db'
    by (induction a arbitrary: db) (auto split: sum.splits)
  then show "quiet a \<Longrightarrow> quiet b \<Longrightarrow> quiet (a @ b)" unfolding quiet_def using same_trans by meson
qed

lemma quiet_record [simp]: "quiet (recordInTx auth actorID verb delta)"
  using hooks_same [of _ auth actorID verb delta "[]"] by (auto simp: quiet_def)

lemma quiet_changes: "quiet (changeRecords auth actor before after)"
  by (simp add: changeRecords_def Let_def quiet_append)

lemma Users_Update_effect:
  assumes "Users_Update sql clock u after db = (res, db')"
  shows "(\<exists>err. res = Inl err \<and> db' = db) \<or>
    (\<exists>row. res = Inr row \<and> User_ID row = User_ID u \<and> User_Status row = User_Status u \<and> User_PlatformRole row = User_PlatformRole u \<and>
       row \<in> set (update_where (\<lambda>x. User_ID x = User_ID u) (user_row sql clock u) (IDB_users db)) \<and>
       User_ID u \<in> User_ID ` set (IDB_users db) \<and>
       runAfter (User_ID row) after (db\<lparr>IDB_users := update_where (\<lambda>x. User_ID x = User_ID u) (user_row sql clock u) (IDB_users db)\<rparr>) = Inr db')"
proof -
  let ?rows = "update_where (\<lambda>x. User_ID x = User_ID u) (user_row sql clock u) (IDB_users db)"
  have row: "User_ID row = User_ID u \<and> User_Status row = User_Status u \<and> User_PlatformRole row = User_PlatformRole u \<and> row \<in> set ?rows \<and>
      User_ID u \<in> User_ID ` set (IDB_users db)"
    if found: "select1 (\<lambda>x. User_ID x = User_ID u) ?rows = Some row" for row
  proof -
    have "row \<in> set ?rows" "User_ID row = User_ID u" using select1_Some [OF found] by auto
    moreover from this obtain r where "r \<in> set (IDB_users db)" "row = (if User_ID r = User_ID u then user_row sql clock u r else r)"
      unfolding set_update_where by blast
    ultimately show ?thesis by (cases "User_ID r = User_ID u") (auto simp: user_row_def intro: rev_image_eqI)
  qed
  have "(\<exists>err. res = Inl err \<and> db' = db) \<or>
      (\<exists>row. select1 (\<lambda>x. User_ID x = User_ID u) ?rows = Some row \<and> res = Inr row \<and>
         runAfter (User_ID row) after (db\<lparr>IDB_users := ?rows\<rparr>) = Inr db')"
    using assms unfolding Users_Update_def Let_def by (simp split: if_splits option.splits sum.splits) blast+
  then show ?thesis using row by blast
qed

text \<open>
  A row rewritten from a fresh read keeps an administrator when the edit does not take away one, or
  when the guard ran.
\<close>

lemma update_keeps:
  assumes ids: "distinct (map User_ID (IDB_users db))" and u0: "u0 \<in> set (IDB_users db)" "User_ID u = User_ID u0"
    and keep: "active_admin u0 \<longrightarrow> active_admin u"
    and some: "\<exists>a\<in>set (IDB_users db). active_admin a"
  shows "\<exists>a\<in>set (update_where (\<lambda>x. User_ID x = User_ID u) (user_row sql clock u) (IDB_users db)). active_admin a"
proof -
  obtain a where a: "a \<in> set (IDB_users db)" "active_admin a" using some by blast
  let ?a = "if User_ID a = User_ID u then user_row sql clock u a else a"
  have "active_admin ?a"
  proof (cases "User_ID a = User_ID u")
    case True
    then have "a = u0" using ids u0 a(1) by (auto simp: distinct_map inj_on_def)
    then show ?thesis using True keep a(2) by simp
  qed (use a in simp)
  moreover have "?a \<in> set (update_where (\<lambda>x. User_ID x = User_ID u) (user_row sql clock u) (IDB_users db))"
    unfolding set_update_where using a(1) by blast
  ultimately show ?thesis by blast
qed

lemma update_ids: "map User_ID (update_where (\<lambda>x. User_ID x = User_ID u) (user_row sql clock u) rows) = map User_ID rows"
  by (auto simp: update_where_def)

lemma Users_Update_keeps:
  assumes "Users_Update sql clock u after db = (res, db')" "quiet after"
    and "u0 \<in> set (IDB_users db)" "User_ID u = User_ID u0" "active_admin u0 \<longrightarrow> active_admin u"
  shows "keeps_accounts db db' \<and> (\<forall>row. res = Inr row \<longrightarrow> row \<in> set (IDB_users db') \<and> User_ID row = User_ID u0 \<and>
    User_Status row = User_Status u \<and> User_PlatformRole row = User_PlatformRole u)"
  using Users_Update_effect [OF assms(1)]
proof (elim disjE exE conjE)
  let ?rows = "update_where (\<lambda>x. User_ID x = User_ID u) (user_row sql clock u) (IDB_users db)"
  fix row
  assume row: "res = Inr row" "User_ID row = User_ID u" "User_Status row = User_Status u" "User_PlatformRole row = User_PlatformRole u"
      "row \<in> set ?rows" and ran: "runAfter (User_ID row) after (db\<lparr>IDB_users := ?rows\<rparr>) = Inr db'"
  then have same: "same_accounts (db\<lparr>IDB_users := ?rows\<rparr>) db'" using assms(2) by (auto simp: quiet_def)
  have "keeps_accounts db (db\<lparr>IDB_users := ?rows\<rparr>)"
    using update_keeps [OF _ assms(3-5), of sql clock] update_ids [of u sql clock "IDB_users db"]
    unfolding keeps_accounts_def accounts_ok_def by simp
  then have "keeps_accounts db db'" using same same_keeps accounts_keeps_trans by blast
  then show ?thesis using row assms(4) same by (simp add: same_accounts_def)
qed simp

lemma Users_Update_guarded:
  assumes "Users_Update sql clock u (lastAdminGuard # after) db = (res, db')" "quiet after"
  shows "keeps_accounts db db'"
  using Users_Update_effect [OF assms(1)]
proof (elim disjE exE conjE)
  let ?rows = "update_where (\<lambda>x. User_ID x = User_ID u) (user_row sql clock u) (IDB_users db)"
  fix row
  assume ran: "runAfter (User_ID row) (lastAdminGuard # after) (db\<lparr>IDB_users := ?rows\<rparr>) = Inr db'"
  then have some: "\<exists>a\<in>set ?rows. active_admin a" and rest: "runAfter (User_ID row) after (db\<lparr>IDB_users := ?rows\<rparr>) = Inr db'"
    using count_admins [of "db\<lparr>IDB_users := ?rows\<rparr>"] by (auto simp: lastAdminGuard_def split: if_splits)
  have "same_accounts (db\<lparr>IDB_users := ?rows\<rparr>) db'" using rest assms(2) by (auto simp: quiet_def)
  moreover have "keeps_accounts db (db\<lparr>IDB_users := ?rows\<rparr>)"
    using some update_ids [of u sql clock "IDB_users db"] by (simp add: keeps_accounts_def accounts_ok_def)
  ultimately show ?thesis using same_keeps accounts_keeps_trans by blast
qed simp

lemma Users_ByID_row: "Users_ByID uid db = Inr u \<Longrightarrow> u \<in> set (IDB_users db) \<and> User_ID u = uid"
  by (auto simp: Users_ByID_def split: option.splits dest: select1_Some)

lemma Users_ByEmail_row: "Users_ByEmail sql email db = Inr u \<Longrightarrow> u \<in> set (IDB_users db)"
  by (auto simp: Users_ByEmail_def split: option.splits dest: select1_Some)

lemma Users_Create_keeps:
  assumes "Users_Create sql newID clock inp after db = (res, db')" "quiet after"
  shows "keeps_accounts db db' \<and> (\<forall>u. res = Inr u \<longrightarrow> u \<in> set (IDB_users db') \<and> User_Status u = NewUser_Status inp)"
proof (cases res)
  case (Inl err)
  then have "db' = db" using assms(1) by (auto simp: Users_Create_def Let_def split: if_splits sum.splits)
  then show ?thesis using Inl by simp
next
  case (Inr u)
  then have new: "newID \<notin> User_ID ` set (IDB_users db)" and u: "User_ID u = newID" "User_Status u = NewUser_Status inp"
    and ran: "runAfter newID after (db\<lparr>IDB_users := IDB_users db @ [u]\<rparr>) = Inr db'"
    using assms(1) by (auto simp: Users_Create_def Let_def split: if_splits sum.splits)
  have "same_accounts (db\<lparr>IDB_users := IDB_users db @ [u]\<rparr>) db'" using ran assms(2) by (auto simp: quiet_def)
  moreover have "keeps_accounts db (db\<lparr>IDB_users := IDB_users db @ [u]\<rparr>)"
    using new u by (auto simp: keeps_accounts_def accounts_ok_def)
  ultimately show ?thesis using Inr u same_keeps accounts_keeps_trans by (auto simp: same_accounts_def)
qed

lemma SetLastLoginAt_keeps: "Users_SetLastLoginAt uid at db = (res, db') \<Longrightarrow> keeps_accounts db db'"
proof -
  assume run: "Users_SetLastLoginAt uid at db = (res, db')"
  let ?rows = "update_where (\<lambda>u. User_ID u = uid) (\<lambda>u. u\<lparr>User_LastLoginAt := Some (toStorage at)\<rparr>) (IDB_users db)"
  have ids: "map User_ID ?rows = map User_ID (IDB_users db)" by (auto simp: update_where_def)
  have "\<exists>a\<in>set ?rows. active_admin a" if "a \<in> set (IDB_users db)" "active_admin a" for a
  proof -
    let ?a = "if User_ID a = uid then a\<lparr>User_LastLoginAt := Some (toStorage at)\<rparr> else a"
    have "?a \<in> set ?rows" unfolding set_update_where using that(1) by blast
    moreover have "active_admin ?a" using that(2) by (simp add: active_admin_def)
    ultimately show ?thesis by blast
  qed
  then have "keeps_accounts db (db\<lparr>IDB_users := ?rows\<rparr>)" using ids by (auto simp: keeps_accounts_def accounts_ok_def)
  then show ?thesis using run by (auto simp: Users_SetLastLoginAt_def split: option.splits)
qed

section \<open>Authenticators and recovery codes\<close>

definition has_authenticator :: "string \<Rightarrow> IDB \<Rightarrow> bool" where
  "has_authenticator userID db \<longleftrightarrow> (\<exists>t\<in>set (IDB_totps db). TOTP_UserID t = userID \<and> TOTP_Confirmed t)"

lemma accounts_ok_codes:
  "accounts_ok db \<Longrightarrow> c \<in> set (IDB_recovery db) \<Longrightarrow> has_authenticator (RecoveryCode_UserID c) db"
  by (simp add: accounts_ok_def has_authenticator_def)

lemma accounts_okI:
  assumes "accounts_ok db" "IDB_users db' = IDB_users db" "distinct (map TOTP_UserID (IDB_totps db'))"
    and "\<And>c. c \<in> set (IDB_recovery db') \<Longrightarrow> has_authenticator (RecoveryCode_UserID c) db'"
  shows "accounts_ok db'"
  using assms by (simp add: accounts_ok_def has_authenticator_def)

lemma confirmedTOTP_true: "confirmedTOTP userID db = Inr (t, True) \<Longrightarrow> has_authenticator userID db"
  by (auto simp: confirmedTOTP_def TOTPs_ByUserID_def has_authenticator_def split: sum.splits option.splits if_splits
      dest: select1_Some)

lemma confirmedTOTP_false:
  assumes "confirmedTOTP userID db = Inr (t, False)" "accounts_ok db"
  shows "\<not> has_authenticator userID db"
proof (cases "select1 (\<lambda>t. TOTP_UserID t = userID) (IDB_totps db)")
  case None
  then show ?thesis by (auto simp: select1_None has_authenticator_def)
next
  case (Some x)
  then have unconfirmed: "\<not> TOTP_Confirmed x" using assms(1) by (auto simp: confirmedTOTP_def TOTPs_ByUserID_def)
  have "distinct (map TOTP_UserID (IDB_totps db))" using assms(2) by (simp add: accounts_ok_def)
  then have "t' = x" if "t' \<in> set (IDB_totps db)" "TOTP_UserID t' = userID" for t'
    using that select1_key [of TOTP_UserID "IDB_totps db" t'] Some by simp
  then show ?thesis using unconfirmed by (auto simp: has_authenticator_def)
qed

lemma Enroll_keeps:
  assumes "TOTPs_Enroll clock inp db = (res, db')" "\<not> has_authenticator (NewTOTP_UserID inp) db"
  shows "keeps_accounts db db'"
proof (cases res)
  case (Inr t)
  then have db': "db' = db\<lparr>IDB_totps := delete_where (\<lambda>t. TOTP_UserID t = NewTOTP_UserID inp) (IDB_totps db) @ [t]\<rparr>"
    and t: "TOTP_UserID t = NewTOTP_UserID inp"
    using assms(1) by (auto simp: TOTPs_Enroll_def Let_def split: option.splits)
  show ?thesis unfolding keeps_accounts_def
  proof
    assume ok: "accounts_ok db"
    show "accounts_ok db'"
    proof (rule accounts_okI [OF ok])
      show "distinct (map TOTP_UserID (IDB_totps db'))"
        using ok t by (auto simp: db' accounts_ok_def distinct_delete_where set_delete_where)
      fix c assume "c \<in> set (IDB_recovery db')"
      then have "has_authenticator (RecoveryCode_UserID c) db" using accounts_ok_codes [OF ok] db' by simp
      moreover from this have "RecoveryCode_UserID c \<noteq> NewTOTP_UserID inp" using assms(2) by auto
      ultimately show "has_authenticator (RecoveryCode_UserID c) db'"
        by (auto simp: has_authenticator_def db' set_delete_where)
    qed (simp add: db')
  qed
qed (use assms(1) in \<open>auto simp: TOTPs_Enroll_def Let_def split: option.splits\<close>)

lemma Accept_keeps:
  assumes "TOTPs_Accept userID step at db = (res, db')"
  shows "keeps_accounts db db' \<and> (res = Inr True \<longrightarrow> has_authenticator userID db')"
proof -
  let ?sel = "\<lambda>t. TOTP_UserID t = userID \<and> TOTP_LastUsedStep t < step"
  let ?f = "\<lambda>t. t\<lparr>TOTP_LastUsedStep := step, TOTP_ConfirmedAt := (case TOTP_ConfirmedAt t of
      Some c \<Rightarrow> Some c | None \<Rightarrow> Some (toStorage at))\<rparr>"
  let ?db1 = "db\<lparr>IDB_totps := update_where ?sel ?f (IDB_totps db)\<rparr>"
  have rows: "IDB_totps ?db1 = update_where ?sel ?f (IDB_totps db)" by simp
  have ids: "map TOTP_UserID (update_where ?sel ?f (IDB_totps db)) = map TOTP_UserID (IDB_totps db)"
    by (auto simp: update_where_def)
  have stays: "has_authenticator u ?db1" if auth: "has_authenticator u db" for u
  proof -
    obtain t where t: "t \<in> set (IDB_totps db)" "TOTP_UserID t = u" "TOTP_Confirmed t"
      using auth by (auto simp: has_authenticator_def)
    let ?t = "if ?sel t then ?f t else t"
    have "?t \<in> set (IDB_totps ?db1)" unfolding rows set_update_where using t(1) by blast
    moreover have "TOTP_UserID ?t = u" "TOTP_Confirmed ?t" using t(2,3) by (auto simp: TOTP_Confirmed_def split: option.splits)
    ultimately show ?thesis unfolding has_authenticator_def by blast
  qed
  have db1: "keeps_accounts db ?db1" unfolding keeps_accounts_def
  proof
    assume ok: "accounts_ok db"
    show "accounts_ok ?db1"
      by (rule accounts_okI [OF ok]) (use ok ids stays accounts_ok_codes [OF ok] in \<open>auto simp: accounts_ok_def\<close>)
  qed
  have "has_authenticator userID ?db1" if one: "count_where ?sel (IDB_totps db) = 1"
  proof -
    have "\<not> (\<forall>t\<in>set (IDB_totps db). \<not> ?sel t)" using one count_where_0 [of ?sel "IDB_totps db"] by simp
    then obtain t where t: "t \<in> set (IDB_totps db)" "?sel t" by blast
    then have "?f t \<in> set (IDB_totps ?db1)" unfolding rows set_update_where by (auto intro: rev_image_eqI)
    moreover have "TOTP_UserID (?f t) = userID" "TOTP_Confirmed (?f t)" using t(2) by (auto simp: TOTP_Confirmed_def split: option.splits)
    ultimately show ?thesis unfolding has_authenticator_def by blast
  qed
  then show ?thesis
    using assms db1 unfolding TOTPs_Accept_def Let_def by (auto split: if_splits option.splits)
qed

lemma Replace_keeps:
  assumes "RecoveryCodes_Replace newIDs clock userID hashes db = (res, db')" "has_authenticator userID db"
  shows "keeps_accounts db db'"
proof (cases res)
  case (Inr codes)
  then have db': "db' = db\<lparr>IDB_recovery := delete_where (\<lambda>c. RecoveryCode_UserID c = userID) (IDB_recovery db) @
      RecoveryCodes_rows userID (toStorage clock) newIDs hashes\<rparr>"
    using assms(1) by (auto simp: RecoveryCodes_Replace_def Let_def split: option.splits if_splits)
  have new: "RecoveryCode_UserID c = userID" if "c \<in> set (RecoveryCodes_rows userID (toStorage clock) newIDs hashes)" for c
    using that by (auto simp: RecoveryCodes_rows_def)
  show ?thesis unfolding keeps_accounts_def
  proof
    assume ok: "accounts_ok db"
    show "accounts_ok db'"
    proof (rule accounts_okI [OF ok])
      fix c assume "c \<in> set (IDB_recovery db')"
      then have "has_authenticator (RecoveryCode_UserID c) db"
        using accounts_ok_codes [OF ok] new assms(2) by (auto simp: db' set_delete_where)
      then show "has_authenticator (RecoveryCode_UserID c) db'" by (simp add: has_authenticator_def db')
    qed (use ok in \<open>simp_all add: db' accounts_ok_def\<close>)
  qed
qed (use assms(1) in \<open>auto simp: RecoveryCodes_Replace_def Let_def split: option.splits if_splits\<close>)

lemma Use_keeps: "RecoveryCodes_Use rid at db = (b, db') \<Longrightarrow> keeps_accounts db db'"
  by (auto simp: RecoveryCodes_Use_def Let_def keeps_accounts_def accounts_ok_def set_update_where)

lemma remove_authenticator_keeps: "keeps_accounts db (RecoveryCodes_DeleteForUser userID (TOTPs_Delete userID db))"
  unfolding keeps_accounts_def
proof
  let ?db' = "RecoveryCodes_DeleteForUser userID (TOTPs_Delete userID db)"
  assume ok: "accounts_ok db"
  show "accounts_ok ?db'"
  proof (rule accounts_okI [OF ok])
    fix c assume "c \<in> set (IDB_recovery ?db')"
    then have "has_authenticator (RecoveryCode_UserID c) db" "RecoveryCode_UserID c \<noteq> userID"
      using accounts_ok_codes [OF ok] by (auto simp: RecoveryCodes_DeleteForUser_def TOTPs_Delete_def set_delete_where)
    then show "has_authenticator (RecoveryCode_UserID c) ?db'"
      by (auto simp: has_authenticator_def RecoveryCodes_DeleteForUser_def TOTPs_Delete_def set_delete_where)
  qed (use ok in \<open>auto simp: RecoveryCodes_DeleteForUser_def TOTPs_Delete_def accounts_ok_def distinct_delete_where\<close>)
qed

section \<open>Every operation keeps the invariant\<close>

lemma saveAccount_keeps:
  assumes "saveAccount auth clock now actor before after db = (res, db')" "runs_identity (Auth_core auth)"
    and "before \<in> set (IDB_users db)" "User_ID after = User_ID before"
  shows "keeps_accounts db db'"
proof (cases "after = before")
  case True
  then show ?thesis using assms(1) by (simp add: saveAccount_def)
next
  case False
  let ?hooks = "(if wouldRemoveAnAdmin before after then [lastAdminGuard] else []) @ changeRecords auth actor before after"
  obtain r db1 where run: "Users_Update (Auth_sql auth) clock after ?hooks db = (r, db1)" by (meson surj_pair)
  have "keeps_accounts db db1"
  proof (cases "wouldRemoveAnAdmin before after")
    case True
    then show ?thesis using run Users_Update_guarded [OF _ quiet_changes] by fastforce
  next
    case False
    then have "Users_Update (Auth_sql auth) clock after (changeRecords auth actor before after) db = (r, db1)" using run by simp
    from Users_Update_keeps [OF this quiet_changes assms(3,4)] show ?thesis
      using False by (simp add: wouldRemoveAnAdmin_def)
  qed
  moreover have "same_accounts db1 db'"
    using assms(1) False run session_operations_same(7) [OF assms(2)]
    by (auto simp: saveAccount_def split: sum.splits prod.splits if_splits)
  ultimately show ?thesis using same_keeps accounts_keeps_trans by blast
qed

lemma apply_edit_ID: "apply_edit edit before = Inr after \<Longrightarrow> User_ID after = User_ID before"
  by (auto simp: apply_edit_def split: sum.splits)

lemma account_edits_keep:
  assumes "runs_identity (Auth_core auth)"
  shows "UpdateAccount auth clock now actor uid edit db = (r1, db') \<Longrightarrow> keeps_accounts db db'"
    and "SetAccountStatus auth clock now actor uid status db = (r1, db') \<Longrightarrow> keeps_accounts db db'"
    and "RenameSelf auth clock now actor name db = (r1, db') \<Longrightarrow> keeps_accounts db db'"
  using saveAccount_keeps [OF _ assms] Users_ByID_row apply_edit_ID
  by (auto simp: UpdateAccount_def SetAccountStatus_def RenameSelf_def split: sum.splits)

lemma CreateAccount_keeps: "CreateAccount auth newID clock salt actor inp db = (r, db') \<Longrightarrow> keeps_accounts db db'"
  using Users_Create_keeps [OF _ quiet_record] by (auto simp: CreateAccount_def split: sum.splits)

lemma recordAlone_keeps: "keeps_accounts db db1 \<Longrightarrow> keeps_accounts db (auth_recordAlone auth e db1)"
  using recordAlone_same same_keeps accounts_keeps_trans by blast

lemma session_requests_keep:
  assumes "runs_identity (Auth_core auth)"
  shows "RevokeAccountSessions auth now actor uid db = (r4, db') \<Longrightarrow> keeps_accounts db db'"
    and "RevokeOtherSessions auth now subject db = (r4, db') \<Longrightarrow> keeps_accounts db db'"
    and "RevokeSession auth now subject sid db = (r3, db') \<Longrightarrow> keeps_accounts db db'"
    and "Logout auth now subject db = (r3, db') \<Longrightarrow> keeps_accounts db db'"
    and "Authenticate auth nowU nowT token db = (r2, db') \<Longrightarrow> keeps_accounts db db'"
  using session_operations_same [OF assms, THEN same_keeps] recordAlone_keeps
  by (auto simp: RevokeAccountSessions_def RevokeOtherSessions_def RevokeSession_def Logout_def Authenticate_def
      split: sum.splits prod.splits if_splits)

lemma issueSession_keeps:
  assumes "issueSession auth d user req db = (r, db')" "runs_identity (Auth_core auth)" shows "keeps_accounts db db'"
proof -
  obtain r1 db1 where run: "Issue (Service_sessions (Auth_core auth)) (SD_sessionID d) (SD_sessionClock d) (SD_token d)
      (SD_sessionNow d) (User_ID user) req False db = (r1, db1)" by (meson surj_pair)
  have "keeps_accounts db db1" using session_operations_same(1) [OF assms(2) run] same_keeps by blast
  then show ?thesis using assms(1) run SetLastLoginAt_keeps accounts_keeps_trans
    by (auto simp: issueSession_def split: sum.splits prod.splits option.splits)
qed

lemma completeSignIn_keeps:
  assumes "completeSignIn auth d user req db = (r, db')" "runs_identity (Auth_core auth)" shows "keeps_accounts db db'"
  using assms(1) issueSession_keeps [OF _ assms(2)] Challenge_Open_same [THEN same_keeps]
  by (auto simp: completeSignIn_def split: sum.splits prod.splits loginOutcome.splits)

lemma upgradeHash_keeps: "user \<in> set (IDB_users db) \<Longrightarrow> keeps_accounts db (upgradeHash auth salt clock user plaintext db)"
proof (cases "password_Hash (Auth_argon2 auth) False salt plaintext")
  case (Inr hash)
  assume user: "user \<in> set (IDB_users db)"
  obtain r db' where "Users_Update (Auth_sql auth) clock (user\<lparr>User_PasswordHash := hash\<rparr>) [] db = (r, db')" by (meson surj_pair)
  with Users_Update_keeps [OF this quiet_Nil user] Inr show ?thesis by (simp add: upgradeHash_def active_admin_def)
qed (simp add: upgradeHash_def)

lemma Login_keeps:
  assumes "Login auth d inp db = (r, db')" "runs_identity (Auth_core auth)" shows "keeps_accounts db db'"
proof (cases "Users_ByEmail (Auth_sql auth) (Login_Email inp) db")
  case (Inl err)
  then show ?thesis using assms(1) recordAlone_keeps by (auto simp: Login_def recordLoginFailed_def split: sum.splits if_splits)
next
  case (Inr user)
  have user: "user \<in> set (IDB_users db)" using Users_ByEmail_row [OF Inr] .
  show ?thesis
    using assms(1) Inr recordAlone_keeps accounts_keeps_trans [OF upgradeHash_keeps [OF user] completeSignIn_keeps [OF _ assms(2)]]
      completeSignIn_keeps [OF _ assms(2)]
    by (auto simp: Login_def recordLoginFailed_def Let_def split: sum.splits if_splits)
qed

lemma ChangePassword_keeps:
  assumes "ChangePassword auth d subject current new db = (r, db')" "runs_identity (Auth_core auth)"
  shows "keeps_accounts db db'"
proof (cases "ChangePassword_check auth (CD_salt d) subject current new db")
  case (Inr user)
  then obtain u0 where u0: "u0 \<in> set (IDB_users db)" "User_ID user = User_ID u0" "active_admin u0 \<longrightarrow> active_admin user"
    by (auto simp: ChangePassword_check_def active_admin_def split: sum.splits option.splits if_splits dest!: Users_ByID_row)
  obtain r1 db1 where update: "Users_Update (Auth_sql auth) (CD_update d) user [] db = (r1, db1)" by (meson surj_pair)
  have "keeps_accounts db db1" using Users_Update_keeps [OF update quiet_Nil u0] by blast
  moreover have "keeps_accounts db1 db'"
  proof (cases r1)
    case (Inl err)
    then show ?thesis using assms(1) Inr update by (simp add: ChangePassword_def ChangePassword_commit_def)
  next
    case (Inr updated)
    obtain r2 db2 where others: "RevokeOthers (Service_sessions (Auth_core auth)) (CD_revoke d) (User_ID user)
        (Caller_SessionID subject) db1 = (r2, db2)" by (meson surj_pair)
    obtain r3 db3 where rotate: "Rotate (Service_sessions (Auth_core auth)) (CD_token d) (CD_rotate d) (Caller_SessionID subject)
        (Challenge_Discard (User_ID user) db2) = (r3, db3)" by (meson surj_pair)
    have "same_accounts db1 db2" "same_accounts (Challenge_Discard (User_ID user) db2) db3"
      using session_operations_same(8) [OF assms(2) others] session_operations_same(3) [OF assms(2) rotate] by blast+
    then have "keeps_accounts db1 db2" "keeps_accounts db1 db3"
      using Challenge_Discard_same [of db2 "User_ID user"] same_keeps same_trans by blast+
    then show ?thesis
      using assms(1) \<open>ChangePassword_check auth (CD_salt d) subject current new db = Inr user\<close> update Inr others rotate recordAlone_keeps
      by (cases r2; cases r3) (auto simp: ChangePassword_def ChangePassword_commit_def)
  qed
  ultimately show ?thesis using accounts_keeps_trans by blast
qed (use assms(1) in \<open>simp add: ChangePassword_def\<close>)

lemma EnrollTOTP_keeps: "EnrollTOTP auth clock subject db = (r, db') \<Longrightarrow> keeps_accounts db db'"
proof -
  assume run: "EnrollTOTP auth clock subject db = (r, db')"
  show ?thesis unfolding keeps_accounts_def
  proof
    assume ok: "accounts_ok db"
    show "accounts_ok db'"
      using run ok Enroll_keeps confirmedTOTP_false [OF _ ok]
      by (auto simp: EnrollTOTP_def keeps_accounts_def split: sum.splits prod.splits if_splits)
  qed
qed

lemma issueRecoveryCodes_keeps:
  assumes "issueRecoveryCodes auth raws newIDs clock userID db = (r, db')" "has_authenticator userID db"
  shows "keeps_accounts db db'"
  using assms(1) Replace_keeps [OF _ assms(2)] recordAlone_keeps
  by (auto simp: issueRecoveryCodes_def Let_def split: sum.splits prod.splits if_splits)

lemma ConfirmTOTP_keeps:
  assumes "ConfirmTOTP auth d subject code db = (r, db')" "runs_identity (Auth_core auth)" shows "keeps_accounts db db'"
proof (cases "\<exists>enrolment step. TOTPs_ByUserID (Caller_UserID subject) db = Inr enrolment \<and>
    checkCode (Auth_core auth) enrolment code (FD_check d) = Inr step")
  case True
  then obtain enrolment step where checked: "TOTPs_ByUserID (Caller_UserID subject) db = Inr enrolment"
    "checkCode (Auth_core auth) enrolment code (FD_check d) = Inr step" by blast
  obtain a db1 where accept: "TOTPs_Accept (Caller_UserID subject) step (FD_accept d) db = (a, db1)" by (meson surj_pair)
  note kept = Accept_keeps [OF accept]
  show ?thesis
  proof (cases "a = Inr True")
    case True
    obtain m db2 where mint: "issueRecoveryCodes auth (FD_raws d) (FD_codeIDs d) (FD_codesClock d) (Caller_UserID subject) db1 = (m, db2)"
      by (meson surj_pair)
    have "keeps_accounts db db2" using kept True issueRecoveryCodes_keeps [OF mint] accounts_keeps_trans by blast
    then show ?thesis
    proof (cases m)
      case (Inl err)
      then have "db' = db2" using assms(1) checked accept True mint by (simp add: ConfirmTOTP_def)
      then show ?thesis using \<open>keeps_accounts db db2\<close> by simp
    next
      case (Inr minted)
      obtain s db3 where sat: "SatisfyMFA (Service_sessions (Auth_core auth)) (FD_token d) (FD_rotate d)
          (Caller_SessionID subject) db2 = (s, db3)" by (meson surj_pair)
      have db3: "keeps_accounts db db3"
        using \<open>keeps_accounts db db2\<close> session_operations_same(4) [OF assms(2) sat] same_keeps accounts_keeps_trans by blast
      then show ?thesis
        using assms(1) checked accept True mint Inr sat recordAlone_keeps [OF db3] by (cases s) (auto simp: ConfirmTOTP_def)
    qed
  next
    case False
    then show ?thesis using assms(1) checked accept kept by (auto simp: ConfirmTOTP_def split: sum.splits)
  qed
qed (use assms(1) in \<open>auto simp: ConfirmTOTP_def split: sum.splits if_splits\<close>)

lemma RegenerateRecoveryCodes_keeps:
  "RegenerateRecoveryCodes auth raws newIDs clock subject current db = (r, db') \<Longrightarrow> keeps_accounts db db'"
  using issueRecoveryCodes_keeps confirmedTOTP_true
  by (auto simp: RegenerateRecoveryCodes_def split: sum.splits prod.splits if_splits option.splits)

lemma DisableTOTP_keeps: "DisableTOTP auth subject current db = (r, db') \<Longrightarrow> keeps_accounts db db'"
  using recordAlone_keeps [OF remove_authenticator_keeps]
  by (auto simp: DisableTOTP_def split: sum.splits if_splits option.splits)

lemma spendAndIssue_keeps:
  assumes "spendAndIssue svc d pending user req db = (r, db')" "runs_identity svc" shows "keeps_accounts db db'"
proof -
  obtain a db1 where spend: "Challenge_Spend (MFAChallenge_ID pending) (Draws_spend d) db = (a, db1)" by (meson surj_pair)
  obtain b db2 where issue: "Issue (Service_sessions svc) (Draws_sessionID d) (Draws_store d) (Draws_token d) (Draws_issue d)
      (User_ID user) req True db1 = (b, db2)" by (meson surj_pair)
  have same: "same_accounts db db1" "same_accounts db1 db2"
    using Challenge_Spend_same [OF spend] session_operations_same(1) [OF assms(2) issue] by blast+
  then have "keeps_accounts db db1" "keeps_accounts db db2" using same_keeps same_trans by blast+
  moreover have "keeps_accounts db db3" if "Users_SetLastLoginAt uid at db2 = (c, db3)" for uid at c db3
    using that SetLastLoginAt_keeps accounts_keeps_trans \<open>keeps_accounts db db2\<close> by blast
  ultimately show ?thesis using assms(1) spend issue
    by (cases a; cases b) (auto simp: spendAndIssue_def split: prod.splits option.splits if_splits)
qed

lemma VerifyTOTP_keeps:
  assumes "VerifyTOTP svc d token code req db = (r, db')" "runs_identity svc" shows "keeps_accounts db db'"
proof -
  have accept: "keeps_accounts db db1" if "TOTPs_Accept userID step at db = (a, db1)" for userID step at a db1
    using Accept_keeps [OF that] by blast
  then show ?thesis using assms(1) spendAndIssue_keeps [OF _ assms(2)] accounts_keeps_trans
    by (auto simp: VerifyTOTP_def split: sum.splits prod.splits if_splits) blast+
qed

lemma recordRecoveryUsed_same: "same_accounts db (recordRecoveryUsed user matched res db)"
  by (simp add: recordRecoveryUsed_def same_accounts_def)

lemma VerifyRecoveryCode_keeps:
  assumes "VerifyRecoveryCode svc d token presented req db = (r, db')" "runs_identity svc" shows "keeps_accounts db db'"
proof (cases "\<exists>pending user code matched. pendingUser svc token (Draws_resolve d) db = Inr (pending, user) \<and>
    Parse presented = Inr code \<and>
    matchRecoveryCode (Service_codeHash svc code) (RecoveryCodes_Unused (User_ID user) db) = Some matched")
  case True
  then obtain pending user code matched where found: "pendingUser svc token (Draws_resolve d) db = Inr (pending, user)"
    "Parse presented = Inr code" "matchRecoveryCode (Service_codeHash svc code) (RecoveryCodes_Unused (User_ID user) db) = Some matched"
    by blast
  obtain spent db1 where used: "RecoveryCodes_Use (RecoveryCode_ID matched) (Draws_accept d) db = (spent, db1)" by (meson surj_pair)
  obtain a db2 where issue: "spendAndIssue svc d pending user req db1 = (a, db2)" by (meson surj_pair)
  have "keeps_accounts db db1" "keeps_accounts db db2"
    using Use_keeps [OF used] spendAndIssue_keeps [OF issue assms(2)] accounts_keeps_trans by blast+
  moreover have "keeps_accounts db (recordRecoveryUsed user matched res db2)" for res
    using \<open>keeps_accounts db db2\<close> recordRecoveryUsed_same same_keeps accounts_keeps_trans by blast
  ultimately show ?thesis using assms(1) found used issue by (cases a) (auto simp: VerifyRecoveryCode_def split: if_splits)
qed (use assms(1) in \<open>auto simp: VerifyRecoveryCode_def split: sum.splits prod.splits option.splits\<close>)

lemma provision_keeps:
  assumes "provision auth d inp db = (r, db')"
  shows "keeps_accounts db db' \<and> (\<forall>u. r = Inr u \<longrightarrow> u \<in> set (IDB_users db'))"
proof (cases "FederatedLogin_Email inp = []")
  case True
  then show ?thesis using assms by (auto simp: provision_def)
next
  case False
  obtain a db1 where create: "Users_Create (Auth_sql auth) (GD_userID d) (GD_create d)
      \<lparr>NewUser_Email = FederatedLogin_Email inp,
       NewUser_DisplayName = (if TrimSpace (FederatedLogin_DisplayName inp) = [] then FederatedLogin_Email inp
         else FederatedLogin_DisplayName inp), NewUser_PasswordHash = [],
       NewUser_PlatformRole = (if FederatedLogin_RoleMapped inp then FederatedLogin_Role inp else PlatformRoleMember),
       NewUser_Status = StatusActive, NewUser_MFAEnforced = False\<rparr> [] db = (a, db1)" by (meson surj_pair)
  note created = Users_Create_keeps [OF create quiet_Nil]
  show ?thesis
  proof (cases a)
    case (Inl err)
    then show ?thesis using assms False create created by (auto simp: provision_def Let_def)
  next
    case (Inr u)
    obtain b db2 where link: "Identities_Create (GD_identityID d) (GD_link d) (new_identity inp u) db1 = (b, db2)" by (meson surj_pair)
    have same: "same_accounts db1 db2" by (rule Identities_Create_same [OF link])
    have recorded: "same_accounts db2 (auth_recordAlone auth e (auth_recordAlone auth e' db2))" for e e'
      using recordAlone_same same_trans by blast
    have "same_accounts db1 db'" using assms False create Inr link same same_trans recorded
      by (cases b) (auto simp: provision_def Let_def)
    then have "keeps_accounts db db'" "u \<in> set (IDB_users db')"
      using created Inr same_keeps accounts_keeps_trans by (blast, simp add: same_accounts_def)
    then show ?thesis using assms False create Inr link by (cases b) (auto simp: provision_def Let_def)
  qed
qed

lemma federatedUser_keeps:
  assumes "federatedUser auth d inp db = (r, db')"
  shows "keeps_accounts db db' \<and> (\<forall>u. r = Inr u \<longrightarrow> u \<in> set (IDB_users db'))"
proof (cases "Identities_BySubject (FederatedLogin_Provider inp) (FederatedLogin_Subject inp) db")
  case (Inr linked)
  then show ?thesis using assms Users_ByID_row by (auto simp: federatedUser_def)
next
  case (Inl err)
  have link: "keeps_accounts db db1 \<and> keeps_accounts db (auth_recordAlone auth e db1) \<and>
      IDB_users (auth_recordAlone auth e db1) = IDB_users db"
    if "Identities_Create newID clock new db = (b, db1)" for newID clock new b db1 e
    using Identities_Create_same [OF that] same_keeps recordAlone_keeps recordAlone_same [of db1 auth e]
    by (simp add: same_accounts_def)
  show ?thesis
    using assms Inl provision_keeps [of auth d inp db r db'] link Users_ByEmail_row [of "Auth_sql auth" "FederatedLogin_Email inp" db]
    by (auto simp: federatedUser_def Let_def split: sum.splits prod.splits if_splits)
qed

text \<open>A mapped role may take the last administrator away; without one, or with the admin role, it does not.\<close>

lemma federated_keeps:
  assumes run: "SignInWithFederatedIdentity auth d inp db = (r, db')" and svc: "runs_identity (Auth_core auth)"
    and role: "FederatedLogin_RoleMapped inp \<longrightarrow> FederatedLogin_Role inp = PlatformRoleAdmin"
  shows "keeps_accounts db db'"
proof (cases "TrimSpace (FederatedLogin_Subject inp) = []")
  case True
  then show ?thesis using run by (simp add: SignInWithFederatedIdentity_def)
next
  case False
  obtain a db1 where find: "federatedUser auth d inp db = (a, db1)" by (meson surj_pair)
  note found = federatedUser_keeps [OF find]
  show ?thesis
  proof (cases a)
    case (Inl err)
    then show ?thesis using run False find found by (simp add: SignInWithFederatedIdentity_def)
  next
    case (Inr user)
    then have user: "user \<in> set (IDB_users db1)" using found by blast
    obtain b db2 where claim: "claimInvitation auth (GD_claim d) user db1 = (b, db2)" by (meson surj_pair)
    have claimed: "keeps_accounts db1 db2 \<and> (\<forall>u. b = Inr u \<longrightarrow> u \<in> set (IDB_users db2))"
    proof (cases "User_Status user = StatusInvited")
      case True
      then have notadmin: "active_admin user \<longrightarrow> active_admin (user\<lparr>User_Status := StatusActive\<rparr>)" by (simp add: active_admin_def)
      obtain verb delta where "Users_Update (Auth_sql auth) (GD_claim d) (user\<lparr>User_Status := StatusActive\<rparr>)
          (recordInTx auth (User_ID user) verb delta) db1 = (b, db2)"
        using claim True unfolding claimInvitation_def by fastforce
      from Users_Update_keeps [OF this quiet_record user _ notadmin] show ?thesis by simp
    qed (use claim user in \<open>auto simp: claimInvitation_def\<close>)
    then have kept2: "keeps_accounts db db2" using found accounts_keeps_trans by blast
    show ?thesis
    proof (cases b)
      case (Inl err)
      then show ?thesis using run False find \<open>a = Inr user\<close> claim kept2 by (simp add: SignInWithFederatedIdentity_def)
    next
      case (Inr user2)
      then have user2: "user2 \<in> set (IDB_users db2)" using claimed by blast
      obtain c db3 where apply_role: "applyMappedRole auth (GD_role d) user2 inp db2 = (c, db3)" by (meson surj_pair)
      have "keeps_accounts db2 db3"
      proof (cases "\<not> FederatedLogin_RoleMapped inp \<or> User_PlatformRole user2 = FederatedLogin_Role inp")
        case True
        then show ?thesis using apply_role by (auto simp: applyMappedRole_def)
      next
        case False
        let ?u = "user2\<lparr>User_PlatformRole := FederatedLogin_Role inp\<rparr>"
        obtain e db4 where update: "Users_Update (Auth_sql auth) (GD_role d) ?u [] db2 = (e, db4)" by (meson surj_pair)
        have "active_admin user2 \<longrightarrow> active_admin ?u" using False role by (simp add: active_admin_def)
        then have "keeps_accounts db2 db4" using Users_Update_keeps [OF update quiet_Nil user2] by simp
        then show ?thesis using apply_role False update recordAlone_keeps by (cases e) (auto simp: applyMappedRole_def)
      qed
      then have kept3: "keeps_accounts db db3" using kept2 accounts_keeps_trans by blast
      show ?thesis
      proof (cases "User_Status user2 = StatusActive \<and> (\<exists>u3. c = Inr u3)")
        case True
        then obtain u3 where "c = Inr u3" by blast
        then have "completeSignIn auth (GD_signIn d) u3 (FederatedLogin_Request inp) db3 = (r, db')"
          using run False find \<open>a = Inr user\<close> claim Inr True apply_role by (simp add: SignInWithFederatedIdentity_def)
        then show ?thesis using completeSignIn_keeps [OF _ svc] kept3 accounts_keeps_trans by blast
      next
        case False
        then show ?thesis using run \<open>TrimSpace (FederatedLogin_Subject inp) \<noteq> []\<close> find \<open>a = Inr user\<close> claim Inr apply_role kept2 kept3
          by (cases c) (auto simp: SignInWithFederatedIdentity_def split: if_splits)
      qed
    qed
  qed
qed

section \<open>The requests\<close>

text \<open>One request of the sign-in service or of account administration, not interrupted by another.\<close>

inductive account_request :: "Auth \<Rightarrow> IDB \<Rightarrow> IDB \<Rightarrow> bool" for auth where
  create: "CreateAccount auth newID clock salt actor inp db = (r, db') \<Longrightarrow> account_request auth db db'"
| update: "UpdateAccount auth clock now actor uid edit db = (r, db') \<Longrightarrow> account_request auth db db'"
| status: "SetAccountStatus auth clock now actor uid st db = (r, db') \<Longrightarrow> account_request auth db db'"
| rename: "RenameSelf auth clock now actor name db = (r, db') \<Longrightarrow> account_request auth db db'"
| revoke_sessions: "RevokeAccountSessions auth now actor uid db = (rn, db') \<Longrightarrow> account_request auth db db'"
| revoke_others: "RevokeOtherSessions auth now subject db = (rn, db') \<Longrightarrow> account_request auth db db'"
| revoke: "RevokeSession auth now subject sid db = (ro, db') \<Longrightarrow> account_request auth db db'"
| logout: "Logout auth now subject db = (ro, db') \<Longrightarrow> account_request auth db db'"
| authenticate: "Authenticate auth nowU nowT token db = (rc, db') \<Longrightarrow> account_request auth db db'"
| login: "Login auth d inp db = (rl, db') \<Longrightarrow> account_request auth db db'"
| password: "ChangePassword auth cd subject current new db = (ri, db') \<Longrightarrow> account_request auth db db'"
| enroll: "EnrollTOTP auth clock subject db = (re, db') \<Longrightarrow> account_request auth db db'"
| confirm: "ConfirmTOTP auth fd subject code db = (rf, db') \<Longrightarrow> account_request auth db db'"
| disable: "DisableTOTP auth subject current db = (ro, db') \<Longrightarrow> account_request auth db db'"
| regenerate: "RegenerateRecoveryCodes auth raws newIDs clock subject current db = (rs, db') \<Longrightarrow> account_request auth db db'"
| verify: "VerifyTOTP (Auth_core auth) vd token code req db = (rv, db') \<Longrightarrow> account_request auth db db'"
| recover: "VerifyRecoveryCode (Auth_core auth) vd token presented req db = (rv, db') \<Longrightarrow> account_request auth db db'"
| policy: "SetMFAPolicy clock subject p db = (rp, db') \<Longrightarrow> account_request auth db db'"
| federated: "SignInWithFederatedIdentity auth gd fed db = (rl, db') \<Longrightarrow>
    (FederatedLogin_RoleMapped fed \<longrightarrow> FederatedLogin_Role fed = PlatformRoleAdmin) \<Longrightarrow> account_request auth db db'"

lemma account_request_keeps:
  assumes "account_request auth db db'" "runs_identity (Auth_core auth)" shows "keeps_accounts db db'"
  using assms(1)
proof cases
  case create then show ?thesis by (rule CreateAccount_keeps)
next
  case update then show ?thesis by (rule account_edits_keep(1) [OF assms(2)])
next
  case status then show ?thesis by (rule account_edits_keep(2) [OF assms(2)])
next
  case rename then show ?thesis by (rule account_edits_keep(3) [OF assms(2)])
next
  case revoke_sessions then show ?thesis by (rule session_requests_keep(1) [OF assms(2)])
next
  case revoke_others then show ?thesis by (rule session_requests_keep(2) [OF assms(2)])
next
  case revoke then show ?thesis by (rule session_requests_keep(3) [OF assms(2)])
next
  case logout then show ?thesis by (rule session_requests_keep(4) [OF assms(2)])
next
  case authenticate then show ?thesis by (rule session_requests_keep(5) [OF assms(2)])
next
  case login then show ?thesis by (rule Login_keeps [OF _ assms(2)])
next
  case password then show ?thesis by (rule ChangePassword_keeps [OF _ assms(2)])
next
  case enroll then show ?thesis by (rule EnrollTOTP_keeps)
next
  case confirm then show ?thesis by (rule ConfirmTOTP_keeps [OF _ assms(2)])
next
  case disable then show ?thesis by (rule DisableTOTP_keeps)
next
  case regenerate then show ?thesis by (rule RegenerateRecoveryCodes_keeps)
next
  case verify then show ?thesis by (rule VerifyTOTP_keeps [OF _ assms(2)])
next
  case recover then show ?thesis by (rule VerifyRecoveryCode_keeps [OF _ assms(2)])
next
  case policy then show ?thesis using Settings_Put_same same_keeps by (auto simp: SetMFAPolicy_def)
next
  case federated then show ?thesis using federated_keeps [OF _ assms(2)] by blast
qed

lemma account_run_keeps:
  assumes "(account_request auth)\<^sup>*\<^sup>* db db'" "runs_identity (Auth_core auth)" "accounts_ok db" shows "accounts_ok db'"
  using assms(1,3) account_request_keeps [OF _ assms(2)] by (induction rule: rtranclp_induct) (auto simp: keeps_accounts_def)

end
