(* ===== verification/Sign_In_Props.thy ===== *)
theory Sign_In_Props
  imports Sign_In_Inv
begin

text \<open>
  What the sign-in service and account administration promise, over any sequence of requests: an
  administrator who can sign in, the second factor on every path to a session, what a request may do
  under the policy as it stands, what changing a password ends; and where a write made from a row
  read too early, or a role mapped by a provider, breaks the first of them.
\<close>

section \<open>Sample configuration\<close>

definition sample_core :: Service where
  "sample_core = \<lparr>Service_gen = sample_gen, Service_open = Inr, Service_codeHash = (\<lambda>c. c),
     Service_challenges = \<lparr>Challenges_hash = (\<lambda>t. t), Challenges_ttl = 300000\<rparr>,
     Service_sessions = identity_manager (\<lambda>t. t) 9000000 4000000\<rparr>"

definition sample_auth :: Auth where
  "sample_auth = \<lparr>Auth_core = sample_core, Auth_sql = plain_sql, Auth_argon2 = sample_argon2, Auth_common = [],
     Auth_decoy = hash_encode Production (replicate 16 1) (replicate 32 0), Auth_activity = True, Auth_issuer = ''lab'',
     Auth_seal = Inr, Auth_newKey = (\<lambda>i a. Inr \<lparr>Enrolment_Secret = a, Enrolment_URI = [], Enrolment_QRCode = []\<rparr>)\<rparr>"

lemma sample_auth_simps [simp]:
  "Auth_core sample_auth = sample_core" "Auth_sql sample_auth = plain_sql" "Auth_activity sample_auth"
  by (simp_all add: sample_auth_def)

lemma sample_core_identity: "runs_identity sample_core"
  by (auto simp: runs_identity_def sample_core_def)

definition sample_actor :: Caller where
  "sample_actor = \<lparr>Caller_UserID = ''c'', Caller_Email = ''c@lab'', Caller_DisplayName = ''C'', Caller_PlatformRole = PlatformRoleAdmin,
     Caller_Method = MethodCookie, Caller_SessionID = ''s1'', Caller_TokenID = [], Caller_TokenScopes = [],
     Caller_TokenEngagementID = [], Caller_MFASatisfied = False, Caller_MFAEnrolmentRequired = False\<rparr>"

definition sample_accounts :: IDB where
  "sample_accounts = accounts_db three_accounts"

lemma sample_accounts_ok: "accounts_ok sample_accounts"
  by (simp add: accounts_ok_def sample_accounts_def accounts_db_def sample_account_def active_admin_def)

section \<open>There is always an administrator\<close>

text \<open>
  C8. Requests that do not interrupt each other keep the accounts in order: identifiers stay unique,
  some administrator can always sign in, and recovery codes exist only for people with a confirmed
  authenticator, whatever is requested by whomever, as long as no provider maps anybody to a role
  other than administrator.
\<close>

theorem accounts_stay_ok:
  assumes "(account_request auth)\<^sup>*\<^sup>* db db'" "runs_identity (Auth_core auth)" "accounts_ok db"
  shows "distinct (map User_ID (IDB_users db')) \<and> 0 < CountActiveAdmins db' \<and>
    (\<forall>c\<in>set (IDB_recovery db'). \<exists>t\<in>set (IDB_totps db'). TOTP_UserID t = RecoveryCode_UserID c \<and> TOTP_Confirmed t)"
proof -
  have ok: "accounts_ok db'" using account_run_keeps [OF assms] .
  then have "CountActiveAdmins db' \<noteq> 0" using count_admins [of db'] by (auto simp: accounts_ok_def)
  then show ?thesis using ok by (simp add: accounts_ok_def)
qed

theorem accounts_stay_ok_witness:
  "0 < CountActiveAdmins (snd (SetAccountStatus sample_auth 7000 8000 sample_actor ''c'' StatusDisabled sample_accounts))"
proof -
  obtain r db' where run: "SetAccountStatus sample_auth 7000 8000 sample_actor ''c'' StatusDisabled sample_accounts = (r, db')"
    by (meson surj_pair)
  have "(account_request sample_auth)\<^sup>*\<^sup>* sample_accounts db'" using run by (blast intro: account_request.status)
  from accounts_stay_ok [OF this _ sample_accounts_ok] show ?thesis using run sample_core_identity by simp
qed

section \<open>Writes from a row read too early\<close>

lemma no_admin_update:
  assumes "\<forall>a\<in>set (IDB_users db). active_admin a \<longrightarrow> User_ID a = User_ID u" "\<not> active_admin u"
  shows "\<forall>a\<in>set (update_where (\<lambda>x. User_ID x = User_ID u) (user_row sql clock u) (IDB_users db)). \<not> active_admin a"
  using assms by (auto simp: update_where_def)

text \<open>
  The guard looks at the row as the request read it. An edit of an account that was no
  administrator when it was read writes the role it read: if meanwhile that account has become the
  only administrator who can sign in, the edit is accepted and leaves none.
\<close>

theorem stale_edit_removes_last_admin:
  assumes "saveAccount auth clock now actor before after db = (Inr row, db')" "runs_identity (Auth_core auth)"
    and "after \<noteq> before" "\<not> active_admin before" "\<not> active_admin after"
    and "\<forall>u\<in>set (IDB_users db). active_admin u \<longrightarrow> User_ID u = User_ID after"
  shows "CountActiveAdmins db' = 0"
proof -
  let ?rows = "update_where (\<lambda>x. User_ID x = User_ID after) (user_row (Auth_sql auth) clock after) (IDB_users db)"
  obtain r db1 where run: "Users_Update (Auth_sql auth) clock after (changeRecords auth actor before after) db = (r, db1)" by (meson surj_pair)
  have hooks: "(if wouldRemoveAnAdmin before after then [lastAdminGuard] else []) @ changeRecords auth actor before after =
      changeRecords auth actor before after" using assms(4) by (simp add: wouldRemoveAnAdmin_def)
  have r: "\<exists>updated. r = Inr updated" and same1: "same_accounts db1 db'"
    using assms(1,3) run session_operations_same(7) [OF assms(2)]
    by (auto simp: saveAccount_def hooks split: sum.splits prod.splits if_splits)
  obtain e where "runAfter e (changeRecords auth actor before after) (db\<lparr>IDB_users := ?rows\<rparr>) = Inr db1"
    using Users_Update_effect [OF run] r by auto
  then have "same_accounts (db\<lparr>IDB_users := ?rows\<rparr>) db1" using quiet_changes unfolding quiet_def by blast
  then have "IDB_users db' = ?rows" using same1 by (simp add: same_accounts_def)
  then show ?thesis using no_admin_update [OF assms(6,5)] by (simp add: count_admins)
qed

definition edit_role :: "PlatformRole \<Rightarrow> AccountEdit" where
  "edit_role role = \<lparr>AccountEdit_DisplayName = None, AccountEdit_Role = Some role, AccountEdit_Status = None,
     AccountEdit_MFAEnforced = None\<rparr>"

text \<open>While somebody renames the member a, the administrator c makes a an administrator and steps down.\<close>

definition race1 :: "(error + User) \<times> IDB" where
  "race1 = UpdateAccount sample_auth 5000 6000 sample_actor ''a'' (edit_role PlatformRoleAdmin) sample_accounts"

definition race2 :: "(error + User) \<times> IDB" where
  "race2 = UpdateAccount sample_auth 7000 8000 sample_actor ''c'' (edit_role PlatformRoleMember) (snd race1)"

definition race3 :: "(error + User) \<times> IDB" where
  "race3 = saveAccount sample_auth 9000 9000 sample_actor (sample_account ''a'' PlatformRoleMember StatusActive)
     ((sample_account ''a'' PlatformRoleMember StatusActive)\<lparr>User_DisplayName := ''A''\<rparr>) (snd race2)"

lemmas sample_edits = UpdateAccount_def SetAccountStatus_def apply_edit_def edit_role_def parseRole_def saveAccount_def
  wouldRemoveAnAdmin_def active_admin_def Users_ByID_def sample_accounts_def accounts_db_def sample_account_def table_simps
  Users_Update_def Let_def count_where_def plain_sql_def user_known_def email_normalized_def requireOneRow_def update_where_def
  user_row_def lastAdminGuard_def CountActiveAdmins_def PlatformRole_Valid_def ToLower_def TrimSpace_def is_space_def
  lower_char_def changeRecords_def recordInTx_def Log_Record_def toStorage_def Truncate_def Microsecond_def

text \<open>The rename, started when a was a member, leaves nobody.\<close>

lemma race_admins:
  "CountActiveAdmins (snd race2) = 1 \<and> (\<exists>row. fst race3 = Inr row) \<and> CountActiveAdmins (snd race3) = 0"
  by (simp add: race1_def race2_def race3_def sample_edits)

theorem stale_edit_removes_last_admin_witness:
  "CountActiveAdmins (snd race2) = 1 \<and> CountActiveAdmins (snd race3) = 0"
proof -
  let ?a = "sample_account ''a'' PlatformRoleMember StatusActive"
  obtain row where run: "saveAccount sample_auth 9000 9000 sample_actor ?a (?a\<lparr>User_DisplayName := ''A''\<rparr>) (snd race2) =
      (Inr row, snd race3)" using race_admins unfolding race3_def by (metis prod.collapse)
  have "\<forall>u\<in>set (IDB_users (snd race2)). active_admin u \<longrightarrow> User_ID u = User_ID (?a\<lparr>User_DisplayName := ''A''\<rparr>)"
    by (simp add: race2_def race1_def sample_edits)
  from stale_edit_removes_last_admin [OF run _ _ _ _ this] have "CountActiveAdmins (snd race3) = 0"
    using sample_core_identity by (simp add: sample_account_def active_admin_def)
  then show ?thesis using race_admins by blast
qed

section \<open>Roles a provider maps\<close>

text \<open>What decides who administers: the identifiers, roles and statuses of the accounts, in order.\<close>

definition standing :: "IDB \<Rightarrow> (string \<times> PlatformRole \<times> string) list" where
  "standing db = map (\<lambda>u. (User_ID u, User_PlatformRole u, User_Status u)) (IDB_users db)"

lemma standing_same: "same_accounts db db' \<Longrightarrow> standing db' = standing db"
  by (simp add: standing_def same_accounts_def)

lemma standing_admins: "CountActiveAdmins db = 0 \<longleftrightarrow> (\<forall>(uid, role, status) \<in> set (standing db). \<not> (role = PlatformRoleAdmin \<and> status = StatusActive))"
  by (auto simp: count_admins standing_def active_admin_def)

lemma SetLastLoginAt_standing: "Users_SetLastLoginAt uid at db = (res, db') \<Longrightarrow> standing db' = standing db"
  by (auto simp: Users_SetLastLoginAt_def standing_def update_where_def split: option.splits)

lemma issueSession_standing:
  assumes "issueSession auth d user req db = (r, db')" "runs_identity (Auth_core auth)"
  shows "standing db' = standing db"
proof -
  obtain a db1 where issue: "Issue (Service_sessions (Auth_core auth)) (SD_sessionID d) (SD_sessionClock d) (SD_token d)
      (SD_sessionNow d) (User_ID user) req False db = (a, db1)" by (meson surj_pair)
  note same = standing_same [OF session_operations_same(1) [OF assms(2) issue]]
  show ?thesis
  proof (cases a)
    case (Inl err)
    then show ?thesis using assms(1) issue same by (simp add: issueSession_def)
  next
    case (Inr issued)
    obtain b db2 where login: "Users_SetLastLoginAt (User_ID user) (Session_CreatedAt (Issued_Session issued)) db1 = (b, db2)"
      by (meson surj_pair)
    then have "db' = db2" using assms(1) issue Inr by (cases b) (simp_all add: issueSession_def)
    then show ?thesis using same SetLastLoginAt_standing [OF login] by simp
  qed
qed

lemma completeSignIn_standing:
  assumes "completeSignIn auth d user req db = (r, db')" "runs_identity (Auth_core auth)"
  shows "standing db' = standing db"
  using assms(1) issueSession_standing [OF _ assms(2)] standing_same [OF Challenge_Open_same]
  by (auto simp: completeSignIn_def split: sum.splits prod.splits loginOutcome.splits)

definition only_admin :: "string \<Rightarrow> IDB \<Rightarrow> bool" where
  "only_admin uid db \<longleftrightarrow> (\<forall>a\<in>set (IDB_users db). active_admin a \<longrightarrow> User_ID a = uid)"

lemma written_row:
  assumes "Users_Update sql clock u after db = (Inr row, db')" "quiet after" "only_admin (User_ID u) db"
  shows "only_admin (User_ID u) db' \<and> User_ID row = User_ID u \<and> User_Status row = User_Status u \<and>
    User_PlatformRole row = User_PlatformRole u \<and> (\<not> active_admin u \<longrightarrow> CountActiveAdmins db' = 0)"
proof -
  let ?rows = "update_where (\<lambda>x. User_ID x = User_ID u) (user_row sql clock u) (IDB_users db)"
  have row: "User_ID row = User_ID u" "User_Status row = User_Status u" "User_PlatformRole row = User_PlatformRole u"
    and "runAfter (User_ID row) after (db\<lparr>IDB_users := ?rows\<rparr>) = Inr db'"
    using Users_Update_effect [OF assms(1)] by auto
  then have users: "IDB_users db' = ?rows" using assms(2) by (fastforce simp: quiet_def same_accounts_def)
  have "only_admin (User_ID u) db'" using assms(3) by (auto simp: only_admin_def users update_where_def)
  moreover have "\<not> active_admin u \<longrightarrow> CountActiveAdmins db' = 0"
    using no_admin_update [OF assms(3) [unfolded only_admin_def]] by (simp add: count_admins users)
  ultimately show ?thesis using row by blast
qed

text \<open>
  A role mapped by a provider is written without the guard: when the only administrator who can
  sign in comes back through a linked identity and the mapping says anything but administrator, the
  sign-in succeeds and nobody is left who administers the installation.
\<close>

theorem mapped_role_removes_last_admin:
  assumes run: "SignInWithFederatedIdentity auth d inp db = (Inr res, db')" and svc: "runs_identity (Auth_core auth)"
    and linked: "Identities_BySubject (FederatedLogin_Provider inp) (FederatedLogin_Subject inp) db = Inr linked"
    and mapped: "FederatedLogin_RoleMapped inp" "FederatedLogin_Role inp \<noteq> PlatformRoleAdmin"
    and only: "\<forall>a\<in>set (IDB_users db). active_admin a \<longrightarrow> User_ID a = Identity_UserID linked"
    and ids: "distinct (map User_ID (IDB_users db))"
  shows "CountActiveAdmins db' = 0"
proof -
  obtain user where user: "Users_ByID (Identity_UserID linked) db = Inr user"
    and find: "federatedUser auth d inp db = (Inr user, db)"
    using run linked by (cases "Users_ByID (Identity_UserID linked) db")
      (auto simp: SignInWithFederatedIdentity_def federatedUser_def split: if_splits)
  note row = Users_ByID_row [OF user]
  obtain b db2 where claim: "claimInvitation auth (GD_claim d) user db = (b, db2)" by (meson surj_pair)
  obtain user2 where user2: "b = Inr user2" "User_Status user2 = StatusActive"
    using run find claim by (cases b) (auto simp: SignInWithFederatedIdentity_def split: if_splits)
  have claimed: "only_admin (User_ID user) db2 \<and> User_ID user2 = User_ID user \<and>
      (User_PlatformRole user2 \<noteq> PlatformRoleAdmin \<longrightarrow> CountActiveAdmins db2 = 0)"
  proof (cases "User_Status user = StatusInvited")
    case True
    obtain verb delta where "Users_Update (Auth_sql auth) (GD_claim d) (user\<lparr>User_Status := StatusActive\<rparr>)
        (recordInTx auth (User_ID user) verb delta) db = (Inr user2, db2)"
      using claim user2(1) True unfolding claimInvitation_def by fastforce
    from written_row [OF this quiet_record] show ?thesis using only row by (auto simp: only_admin_def active_admin_def)
  next
    case False
    then have same: "user2 = user" "db2 = db" using claim user2(1) by (auto simp: claimInvitation_def)
    have "\<not> active_admin a" if a: "a \<in> set (IDB_users db)" and "User_PlatformRole user \<noteq> PlatformRoleAdmin" for a
    proof
      assume "active_admin a"
      then have "User_ID a = User_ID user" using only row a by auto
      then have "a = user" using ids row a by (auto simp: distinct_map inj_on_def)
      then show False using that(2) \<open>active_admin a\<close> by (simp add: active_admin_def)
    qed
    then show ?thesis using only row same by (auto simp: only_admin_def count_admins)
  qed
  obtain c db3 where apply_role: "applyMappedRole auth (GD_role d) user2 inp db2 = (c, db3)" by (meson surj_pair)
  obtain user3 where user3: "c = Inr user3" and "completeSignIn auth (GD_signIn d) user3 (FederatedLogin_Request inp) db3 = (Inr res, db')"
    using run find claim user2 apply_role by (cases c) (auto simp: SignInWithFederatedIdentity_def split: if_splits)
  then have "standing db' = standing db3" using completeSignIn_standing svc by blast
  moreover have "CountActiveAdmins db3 = 0"
  proof (cases "User_PlatformRole user2 = FederatedLogin_Role inp")
    case True
    then show ?thesis using apply_role claimed mapped by (auto simp: applyMappedRole_def)
  next
    case False
    let ?u = "user2\<lparr>User_PlatformRole := FederatedLogin_Role inp\<rparr>"
    obtain e db4 where update: "Users_Update (Auth_sql auth) (GD_role d) ?u [] db2 = (e, db4)" by (meson surj_pair)
    then obtain updated entry where "e = Inr updated" "db3 = auth_recordAlone auth entry db4"
      using apply_role user3 False mapped by (cases e) (auto simp: applyMappedRole_def)
    then show ?thesis using written_row [OF update [unfolded \<open>e = Inr updated\<close>] quiet_Nil] claimed mapped(2)
        standing_same [OF recordAlone_same] by (simp add: active_admin_def standing_admins)
  qed
  ultimately show ?thesis by (simp add: standing_admins)
qed

definition mapped_login :: FederatedLogin where
  "mapped_login = \<lparr>FederatedLogin_Provider = ''oidc'', FederatedLogin_Subject = ''x7'', FederatedLogin_Email = [],
     FederatedLogin_EmailVerified = False, FederatedLogin_DisplayName = [], FederatedLogin_Role = PlatformRoleMember,
     FederatedLogin_RoleMapped = True, FederatedLogin_AutoProvision = False,
     FederatedLogin_Request = \<lparr>Request_IP = [], Request_UserAgent = []\<rparr>\<rparr>"

definition signin_draws :: SignIn_Draws where
  "signin_draws = \<lparr>SD_salt = replicate 16 2, SD_rehash = 5000, SD_challengeID = ''ch1'', SD_challengeToken = replicate 43 CHR ''h'',
     SD_challengeClock = 5000, SD_challengeNow = 5000, SD_sessionID = ''s1'', SD_token = replicate 43 CHR ''s'',
     SD_sessionClock = 5000, SD_sessionNow = 5000\<rparr>"

definition sample_federated :: Federated_Draws where
  "sample_federated = \<lparr>GD_userID = ''f'', GD_identityID = ''i2'', GD_create = 4000, GD_link = 4000, GD_claim = 4000,
     GD_role = 4000, GD_signIn = signin_draws\<rparr>"

definition linked_accounts :: IDB where
  "linked_accounts = sample_accounts\<lparr>IDB_identities := [\<lparr>Identity_ID = ''i1'', Identity_UserID = ''c'', Identity_Provider = ''oidc'',
     Identity_Subject = ''x7'', Identity_CreatedAt = 1000\<rparr>]\<rparr>"

lemmas sample_sign_in = SignInWithFederatedIdentity_def federatedUser_def Identities_BySubject_def claimInvitation_def
  applyMappedRole_def completeSignIn_def mfaPolicy_def DecodeMFAPolicy_def storedBool_def Settings_All_def confirmedTOTP_def
  TOTPs_ByUserID_def decideLogin_def Requires_def issueSession_def Issue_def identity_manager_def Sessions_Create_def
  loginAfter_def transact_def session_repo_def requireUser_def Users_SetLastLoginAt_def auth_recordAlone_def signin_draws_def sample_core_def

lemma mapped_login_run:
  "\<exists>res. fst (SignInWithFederatedIdentity sample_auth sample_federated mapped_login linked_accounts) = Inr res"
  by (simp add: mapped_login_def sample_federated_def linked_accounts_def sample_edits sample_sign_in)

theorem mapped_role_removes_last_admin_witness:
  "CountActiveAdmins linked_accounts = 1 \<and>
   CountActiveAdmins (snd (SignInWithFederatedIdentity sample_auth sample_federated mapped_login linked_accounts)) = 0"
proof -
  obtain res where run: "SignInWithFederatedIdentity sample_auth sample_federated mapped_login linked_accounts =
      (Inr res, snd (SignInWithFederatedIdentity sample_auth sample_federated mapped_login linked_accounts))"
    using mapped_login_run by (metis prod.collapse)
  have "Identities_BySubject (FederatedLogin_Provider mapped_login) (FederatedLogin_Subject mapped_login) linked_accounts =
      Inr \<lparr>Identity_ID = ''i1'', Identity_UserID = ''c'', Identity_Provider = ''oidc'', Identity_Subject = ''x7'', Identity_CreatedAt = 1000\<rparr>"
    by (simp add: Identities_BySubject_def mapped_login_def linked_accounts_def table_simps)
  from mapped_role_removes_last_admin [OF run _ this] show ?thesis
    by (simp add: sample_core_identity mapped_login_def linked_accounts_def sample_accounts_def accounts_db_def sample_account_def
        active_admin_def CountActiveAdmins_def count_where_def)
qed

section \<open>A password changed from an account read too early\<close>

lemma ChangePassword_check_user:
  assumes "ChangePassword_check auth salt subject current new db = Inr user"
  shows "\<exists>read hash. Users_ByID (Caller_UserID subject) db = Inr read \<and> user = read\<lparr>User_PasswordHash := hash\<rparr> \<and>
    User_PasswordHash read \<noteq> [] \<and> current_password auth current read = None \<and>
    password_Validate (Auth_common auth) ''newPassword'' new = None \<and>
    password_Hash (Auth_argon2 auth) False salt new = Inr hash"
proof (cases "Users_ByID (Caller_UserID subject) db")
  case (Inr read)
  show ?thesis
  proof (cases "User_PasswordHash read = []")
    case False
    then show ?thesis using assms Inr
      by (cases "current_password auth current read"; cases "password_Validate (Auth_common auth) ''newPassword'' new";
          cases "password_Hash (Auth_argon2 auth) False salt new")
        (simp_all add: ChangePassword_check_def split: if_splits)
  qed (use assms Inr in \<open>simp add: ChangePassword_check_def\<close>)
qed (use assms in \<open>simp add: ChangePassword_check_def\<close>)

lemma ChangePassword_commit_same:
  assumes commit: "ChangePassword_commit auth d subject user db = (r, db')" and svc: "runs_identity (Auth_core auth)"
    and update: "Users_Update (Auth_sql auth) (CD_update d) user [] db = (Inr row, db2)"
  shows "same_accounts db2 db'"
proof -
  obtain a db3 where others: "RevokeOthers (Service_sessions (Auth_core auth)) (CD_revoke d) (User_ID user)
      (Caller_SessionID subject) db2 = (a, db3)" by (meson surj_pair)
  note s3 = session_operations_same(8) [OF svc others]
  obtain b db4 where rotate: "Rotate (Service_sessions (Auth_core auth)) (CD_token d) (CD_rotate d) (Caller_SessionID subject)
      (Challenge_Discard (User_ID user) db3) = (b, db4)" by (meson surj_pair)
  note s4 = same_trans [OF s3 same_trans [OF Challenge_Discard_same session_operations_same(3) [OF svc rotate]]]
  have "db' = db3 \<or> db' = db4 \<or>
      db' = auth_recordAlone auth (auth_entry (User_ID user) VerbUserPasswordChanged ObjectUser (User_ID user) []) db4"
    using commit unfolding ChangePassword_commit_def by (simp add: update others rotate split: sum.splits)
  then show ?thesis using s3 s4 same_trans [OF s4 recordAlone_same] by (elim disjE) simp_all
qed

text \<open>
  Changing a password writes back the whole account as it was read for the check. Whatever an
  administrator decided in between is undone: the account stands again with the role and the status
  it had, even when the request then fails because its session is gone.
\<close>

theorem stale_password_change_restores:
  assumes "ChangePassword_check auth salt subject current new db0 = Inr user"
    and "ChangePassword_commit auth d subject user db1 = (r, db')" "runs_identity (Auth_core auth)"
    and "\<exists>row db2. Users_Update (Auth_sql auth) (CD_update d) user [] db1 = (Inr row, db2)"
  shows "\<exists>read row. Users_ByID (Caller_UserID subject) db0 = Inr read \<and> row \<in> set (IDB_users db') \<and>
    User_ID row = User_ID read \<and> User_Status row = User_Status read \<and> User_PlatformRole row = User_PlatformRole read"
proof -
  obtain read hash where read: "Users_ByID (Caller_UserID subject) db0 = Inr read" and user: "user = read\<lparr>User_PasswordHash := hash\<rparr>"
    using ChangePassword_check_user [OF assms(1)] by blast
  obtain row db2 where update: "Users_Update (Auth_sql auth) (CD_update d) user [] db1 = (Inr row, db2)" using assms(4) by blast
  have "row \<in> set (IDB_users db2)" "User_ID row = User_ID read" "User_Status row = User_Status read"
      "User_PlatformRole row = User_PlatformRole read"
    using Users_Update_effect [OF update] user by auto
  then show ?thesis using read ChangePassword_commit_same [OF assms(2,3) update] by (auto simp: same_accounts_def)
qed

end
