(* ===== verification/Sign_In_Gate.thy ===== *)
theory Sign_In_Gate
  imports Sign_In_Props
begin

text \<open>
  The gates of the sign-in service: what a successful sign-in and a successful authentication imply
  about the stored rows and the policy, that refused sign-ins look alike from outside, what changing
  a password ends, and which account a federated sign-in may reach.
\<close>

section \<open>Completing a sign-in\<close>

text \<open>What each status of a completed sign-in says of the policy, the authenticator and the session.\<close>

definition sign_in_sound :: "User \<Rightarrow> MFAPolicy \<Rightarrow> bool \<Rightarrow> LoginResult \<Rightarrow> IDB \<Rightarrow> IDB \<Rightarrow> bool" where
  "sign_in_sound user policy enrolled res db db' \<longleftrightarrow>
     (case LoginResult_Status res of
        LoginMFARequired \<Rightarrow> enrolled \<and> LoginResult_Issued res = None \<and> IDB_sessions db' = IDB_sessions db
      | LoginAuthenticated \<Rightarrow> \<not> enrolled \<and> \<not> Requires policy user \<and>
          (\<exists>i. LoginResult_Issued res = Some i \<and> Session_UserID (Issued_Session i) = User_ID user \<and>
             Issued_Session i \<in> set (IDB_sessions db') \<and> \<not> Session_MFASatisfied (Issued_Session i))
      | LoginMFAEnrolmentRequired \<Rightarrow> \<not> enrolled \<and> Requires policy user \<and>
          (\<exists>i c. LoginResult_Issued res = Some i \<and> Session_UserID (Issued_Session i) = User_ID user \<and>
             Issued_Session i \<in> set (IDB_sessions db') \<and> \<not> Session_MFASatisfied (Issued_Session i) \<and>
             LoginResult_Subject res = Some c \<and> Caller_MFAEnrolmentRequired c))"

lemma sign_in_sound_cong:
  "IDB_sessions db1 = IDB_sessions db \<Longrightarrow> sign_in_sound user policy enrolled res db1 db' = sign_in_sound user policy enrolled res db db'"
  by (simp only: sign_in_sound_def)

lemma issueSession_success:
  assumes "issueSession auth d user req db = (Inr issued, db')" "runs_identity (Auth_core auth)"
  shows "Session_UserID (Issued_Session issued) = User_ID user \<and> Issued_Session issued \<in> set (IDB_sessions db') \<and>
    \<not> Session_MFASatisfied (Issued_Session issued)"
proof -
  obtain h l i where svc: "Service_sessions (Auth_core auth) = identity_manager h l i" using assms(2) by (auto simp: runs_identity_def)
  obtain r db1 where issue: "Issue (identity_manager h l i) (SD_sessionID d) (SD_sessionClock d) (SD_token d)
      (SD_sessionNow d) (User_ID user) req False db = (r, db1)" by (meson surj_pair)
  then obtain db2 where "r = Inr issued" "Users_SetLastLoginAt (User_ID user) (Session_CreatedAt (Issued_Session issued)) db1 = (None, db2)"
      "db' = db2"
    using assms(1) svc by (auto simp: issueSession_def split: sum.splits prod.splits option.splits)
  then show ?thesis
    using Issue_identity issue SetLastLoginAt_frame(2) [of "User_ID user" "Session_CreatedAt (Issued_Session issued)" db1] by fastforce
qed

lemma Challenge_Open_sessions: "Challenge_Open c newID clock token now userID db = (r, db') \<Longrightarrow> IDB_sessions db' = IDB_sessions db"
  by (auto simp: Challenge_Open_def MFAChallenges_Open_def Let_def split: sum.splits prod.splits option.splits if_splits)

lemma completeSignIn_sound:
  assumes "completeSignIn auth d user req db = (Inr res, db')" "runs_identity (Auth_core auth)"
  shows "\<exists>policy t enrolled. mfaPolicy db = Inr policy \<and> confirmedTOTP (User_ID user) db = Inr (t, enrolled) \<and>
    sign_in_sound user policy enrolled res db db'"
proof -
  obtain policy t enrolled where policy: "mfaPolicy db = Inr policy" and totp: "confirmedTOTP (User_ID user) db = Inr (t, enrolled)"
    using assms(1) by (auto simp: completeSignIn_def split: sum.splits)
  have "sign_in_sound user policy enrolled res db db'"
  proof (cases "decideLogin (Requires policy user) enrolled")
    case outcomeChallenge
    then show ?thesis using assms(1) policy totp Challenge_Open_sessions
      by (auto simp: completeSignIn_def sign_in_sound_def decideLogin_def split: sum.splits prod.splits if_splits)
  next
    case outcomeEnrolment
    then obtain i where "issueSession auth d user req db = (Inr i, db')" and res: "LoginResult_Status res = LoginMFAEnrolmentRequired"
        "LoginResult_Issued res = Some i" "\<exists>c. LoginResult_Subject res = Some c \<and> Caller_MFAEnrolmentRequired c"
      using assms(1) policy totp by (auto simp: completeSignIn_def split: sum.splits prod.splits)
    from issueSession_success [OF this(1) assms(2)] show ?thesis
      using outcomeEnrolment res by (auto simp: sign_in_sound_def decideLogin_def split: if_splits)
  next
    case outcomeSession
    then obtain i where "issueSession auth d user req db = (Inr i, db')" and res: "LoginResult_Status res = LoginAuthenticated"
        "LoginResult_Issued res = Some i"
      using assms(1) policy totp by (auto simp: completeSignIn_def split: sum.splits prod.splits)
    from issueSession_success [OF this(1) assms(2)] show ?thesis
      using outcomeSession res by (auto simp: sign_in_sound_def decideLogin_def split: if_splits)
  qed
  then show ?thesis using policy totp by blast
qed

section \<open>Signing in with a password\<close>

lemma upgradeHash_tables:
  "IDB_totps (upgradeHash auth salt clock user plaintext db) = IDB_totps db \<and>
   IDB_settings (upgradeHash auth salt clock user plaintext db) = IDB_settings db \<and>
   IDB_sessions (upgradeHash auth salt clock user plaintext db) = IDB_sessions db"
proof (cases "password_Hash (Auth_argon2 auth) False salt plaintext")
  case (Inr hash)
  obtain r db' where run: "Users_Update (Auth_sql auth) clock (user\<lparr>User_PasswordHash := hash\<rparr>) [] db = (r, db')" by (meson surj_pair)
  show ?thesis using Users_Update_effect [OF run] Inr run by (auto simp: upgradeHash_def)
qed (simp add: upgradeHash_def)

lemma mfaPolicy_cong: "IDB_settings db' = IDB_settings db \<Longrightarrow> mfaPolicy db' = mfaPolicy db"
proof -
  assume "IDB_settings db' = IDB_settings db"
  then have "Settings_All db' = Settings_All db" by (simp add: fun_eq_iff Settings_All_def)
  then show ?thesis by (simp add: mfaPolicy_def)
qed

lemma confirmedTOTP_cong: "IDB_totps db' = IDB_totps db \<Longrightarrow> confirmedTOTP userID db' = confirmedTOTP userID db"
  by (simp add: confirmedTOTP_def TOTPs_ByUserID_def)

lemma Login_success:
  assumes "Login auth d inp db = (Inr res, db')"
  shows "\<exists>user rehash db1. Users_ByEmail (Auth_sql auth) (Login_Email inp) db = Inr user \<and> User_PasswordHash user \<noteq> [] \<and>
    password_Verify (Auth_argon2 auth) False (Login_Password inp) (User_PasswordHash user) = Inr (True, rehash) \<and>
    User_Status user = StatusActive \<and> completeSignIn auth d user (Login_Request inp) db1 = (Inr res, db') \<and>
    IDB_totps db1 = IDB_totps db \<and> IDB_settings db1 = IDB_settings db \<and> IDB_sessions db1 = IDB_sessions db"
proof (cases "Users_ByEmail (Auth_sql auth) (Login_Email inp) db")
  case (Inl err)
  then show ?thesis using assms by (simp add: Login_def split: if_splits sum.splits)
next
  case (Inr user)
  define stored where "stored = (if User_PasswordHash user = [] then Auth_decoy auth else User_PasswordHash user)"
  obtain ok rehash where verify: "password_Verify (Auth_argon2 auth) False (Login_Password inp) stored = Inr (ok, rehash)"
    using assms Inr by (cases "password_Verify (Auth_argon2 auth) False (Login_Password inp) stored")
      (auto simp: Login_def stored_def [symmetric])
  have gates: "User_PasswordHash user \<noteq> []" "ok" "User_Status user = StatusActive"
    and run: "completeSignIn auth d user (Login_Request inp)
      (if rehash then upgradeHash auth (SD_salt d) (SD_rehash d) user (Login_Password inp) db else db) = (Inr res, db')"
    using assms Inr verify by (simp_all add: Login_def stored_def [symmetric] split: if_splits)
  then show ?thesis using Inr verify upgradeHash_tables [of auth "SD_salt d" "SD_rehash d" user "Login_Password inp" db]
    by (cases rehash) (auto simp: stored_def)
qed

text \<open>
  C9. A sign-in that succeeds was made with the password of an active account that has one, and what
  it hands out follows the policy and the stored authenticator: with a confirmed authenticator never
  a session, only a challenge; without one a session that has satisfied no second factor, and if one is
  required of the account the caller is confined to enrolling.
\<close>

theorem Login_gate:
  assumes "Login auth d inp db = (Inr res, db')" "runs_identity (Auth_core auth)" "accounts_ok db"
  shows "\<exists>user rehash policy. Users_ByEmail (Auth_sql auth) (Login_Email inp) db = Inr user \<and> User_PasswordHash user \<noteq> [] \<and>
    password_Verify (Auth_argon2 auth) False (Login_Password inp) (User_PasswordHash user) = Inr (True, rehash) \<and>
    User_Status user = StatusActive \<and> mfaPolicy db = Inr policy \<and>
    sign_in_sound user policy (has_authenticator (User_ID user) db) res db db'"
proof -
  obtain user rehash db1 where login: "Users_ByEmail (Auth_sql auth) (Login_Email inp) db = Inr user" "User_PasswordHash user \<noteq> []"
      "password_Verify (Auth_argon2 auth) False (Login_Password inp) (User_PasswordHash user) = Inr (True, rehash)"
      "User_Status user = StatusActive"
    and run: "completeSignIn auth d user (Login_Request inp) db1 = (Inr res, db')"
    and same: "IDB_totps db1 = IDB_totps db" "IDB_settings db1 = IDB_settings db" "IDB_sessions db1 = IDB_sessions db"
    using Login_success [OF assms(1)] by blast
  obtain policy t enrolled where completed: "mfaPolicy db = Inr policy" "confirmedTOTP (User_ID user) db = Inr (t, enrolled)"
      "sign_in_sound user policy enrolled res db1 db'"
    using completeSignIn_sound [OF run assms(2)] same mfaPolicy_cong confirmedTOTP_cong by metis
  have "has_authenticator (User_ID user) db = enrolled"
    using confirmedTOTP_true confirmedTOTP_false [OF _ assms(3)] completed(2) by (cases enrolled) auto
  then have "sign_in_sound user policy (has_authenticator (User_ID user) db) res db db'"
    using completed(3) sign_in_sound_cong [OF same(3)] by simp
  then show ?thesis using login completed(1) by blast
qed

text \<open>
  To an unknown address, an account without a password, a wrong password and an account that is
  not active, a sign-in gives one and the same answer, and none of them changes an account or a session.
\<close>

theorem Login_refusals_alike:
  assumes "\<forall>u. Users_ByEmail (Auth_sql auth) (Login_Email inp) db = Inr u \<longrightarrow> User_PasswordHash u = [] \<or> User_Status u \<noteq> StatusActive \<or>
      (\<exists>r. password_Verify (Auth_argon2 auth) False (Login_Password inp) (User_PasswordHash u) = Inr (False, r))"
    and "\<exists>v. password_Verify (Auth_argon2 auth) False (Login_Password inp) (Auth_decoy auth) = Inr v"
    and "\<forall>u. Users_ByEmail (Auth_sql auth) (Login_Email inp) db = Inr u \<longrightarrow> User_PasswordHash u = [] \<or>
      (\<exists>v. password_Verify (Auth_argon2 auth) False (Login_Password inp) (User_PasswordHash u) = Inr v)"
  shows "\<exists>err db'. Login auth d inp db = (Inl err, db') \<and>
    Translate tr err instance_id = Translate tr (BadCredentials []) instance_id \<and>
    same_accounts db db' \<and> IDB_sessions db' = IDB_sessions db"
proof -
  have quiet: "same_accounts db (recordLoginFailed auth inp reason db) \<and>
      IDB_sessions (recordLoginFailed auth inp reason db) = IDB_sessions db" for reason
    unfolding recordLoginFailed_def using recordAlone_same by (auto simp: auth_recordAlone_def Log_Record_def)
  have alike: "Translate tr (BadCredentials why) instance_id = Translate tr (BadCredentials []) instance_id" for why
    by (simp add: Translate_def classify_def BadCredentials_def Let_def)
  have "\<exists>why reason. Login auth d inp db = (Inl (BadCredentials why), recordLoginFailed auth inp reason db)"
  proof (cases "Users_ByEmail (Auth_sql auth) (Login_Email inp) db")
    case (Inl err)
    then have "errors_Is err ErrNotFound" by (auto simp: Users_ByEmail_def split: option.splits)
    then show ?thesis using Inl assms(2) by (auto simp: Login_def)
  next
    case (Inr u)
    define stored where "stored = (if User_PasswordHash u = [] then Auth_decoy auth else User_PasswordHash u)"
    obtain ok r where verify: "password_Verify (Auth_argon2 auth) False (Login_Password inp) stored = Inr (ok, r)"
      using assms(2,3) Inr stored_def by (metis surj_pair)
    have "Login auth d inp db =
      (if User_PasswordHash u = []
       then (Inl (BadCredentials (''user '' @ User_ID u @ '' has no local password'')), recordLoginFailed auth inp ''no_local_password'' db)
       else if \<not> ok
       then (Inl (BadCredentials (''password mismatch for user '' @ User_ID u)), recordLoginFailed auth inp ''password_mismatch'' db)
       else if User_Status u \<noteq> StatusActive
       then (Inl (BadCredentials (''user '' @ User_ID u @ '' is '' @ User_Status u)), recordLoginFailed auth inp (''account_'' @ User_Status u) db)
       else completeSignIn auth d u (Login_Request inp)
         (if r then upgradeHash auth (SD_salt d) (SD_rehash d) u (Login_Password inp) db else db))"
      unfolding Login_def using Inr verify by (simp only: sum.case stored_def [symmetric] Let_def prod.case)
    moreover have "User_PasswordHash u = [] \<or> \<not> ok \<or> User_Status u \<noteq> StatusActive"
      using assms(1) Inr verify by (auto simp: stored_def split: if_splits)
    ultimately show ?thesis by (cases "User_PasswordHash u = []"; cases ok) (simp_all only: if_True if_False simp_thms; blast)+
  qed
  then show ?thesis using quiet alike by metis
qed

section \<open>Authenticating a request\<close>

lemma Resolve_settings:
  assumes "Resolve (identity_manager h l i) token nowU nowT db = (r, db')"
  shows "IDB_settings db' = IDB_settings db"
  using assms by (auto simp: Resolve_def Sessions_SetLastSeenAt_def split: prod.splits sum.splits option.splits if_splits)

text \<open>
  C10. A request counts as somebody's only over a live session of an active account, under its present
  role; and the policy is applied as it stands now: a session without a second factor, of an
  account of which one is now required, is refused if the person has an authenticator and confined
  to enrolling if not.
\<close>

theorem Authenticate_gate:
  assumes run: "Authenticate auth nowU nowT token db = (Inr c, db')" and svc: "runs_identity (Auth_core auth)"
    and ok: "sessions_ok db" "accounts_ok db"
  shows "\<exists>s\<in>set (IDB_sessions db). \<exists>u\<in>set (IDB_users db).
    Session_TokenHash s = Manager_hash (Service_sessions (Auth_core auth)) token \<and> Session_RevokedAt s = None \<and>
    nowU < Session_ExpiresAt s \<and> Sub nowU (Session_LastSeenAt s) < Manager_idleTimeout (Service_sessions (Auth_core auth)) \<and>
    User_ID u = Session_UserID s \<and> User_Status u = StatusActive \<and> Caller_UserID c = User_ID u \<and>
    Caller_PlatformRole c = User_PlatformRole u \<and> Caller_SessionID c = Session_ID s \<and>
    Caller_MFASatisfied c = Session_MFASatisfied s \<and>
    (if Session_MFASatisfied s then \<not> Caller_MFAEnrolmentRequired c
     else \<exists>policy. mfaPolicy db = Inr policy \<and> Caller_MFAEnrolmentRequired c = Requires policy u \<and>
       \<not> (Requires policy u \<and> has_authenticator (User_ID u) db))"
proof -
  obtain h l i where m: "Service_sessions (Auth_core auth) = identity_manager h l i" using svc by (auto simp: runs_identity_def)
  obtain found where resolve: "Resolve (identity_manager h l i) token nowU nowT db = (Inr found, db')"
    and rest: "(case Users_ByID (Session_UserID found) db' of Inl err \<Rightarrow> False
      | Inr user \<Rightarrow> User_Status user = StatusActive \<and> (\<exists>confined. confineToEnrolment user found db' = Inr confined \<and>
          c = (subjectOf user found)\<lparr>Caller_MFAEnrolmentRequired := confined, Caller_Method := MethodCookie\<rparr>))"
    using run m by (auto simp: Authenticate_def split: prod.splits sum.splits if_splits)
  obtain s where s: "s \<in> set (IDB_sessions db)" "Session_TokenHash s = h token" "usable (identity_manager h l i) nowU s = None"
      "found = s \<or> found = s\<lparr>Session_LastSeenAt := nowT\<rparr>"
    using mgr.Resolve_cases [OF ok(1) resolve] by auto
  then have ids: "Session_UserID found = Session_UserID s" "Session_ID found = Session_ID s"
      "Session_MFASatisfied found = Session_MFASatisfied s" by auto
  have live: "Session_RevokedAt s = None" "nowU < Session_ExpiresAt s" "Sub nowU (Session_LastSeenAt s) < i"
    using s(3) by (auto simp: usable_def Before_def split: if_splits)
  have same: "same_accounts db db'" using session_operations_same(2) [OF svc] resolve m by simp
  then have ok': "accounts_ok db'" using ok(2) same_keeps by (simp add: keeps_accounts_def)
  obtain u where u: "Users_ByID (Session_UserID s) db' = Inr u" "User_Status u = StatusActive" and
      confined: "\<exists>b. confineToEnrolment u found db' = Inr b \<and>
        c = (subjectOf u found)\<lparr>Caller_MFAEnrolmentRequired := b, Caller_Method := MethodCookie\<rparr>"
    using rest ids by (auto split: sum.splits)
  then obtain b where b: "confineToEnrolment u found db' = Inr b" "Caller_MFAEnrolmentRequired c = b"
      "Caller_UserID c = User_ID u" "Caller_PlatformRole c = User_PlatformRole u" "Caller_SessionID c = Session_ID s"
      "Caller_MFASatisfied c = Session_MFASatisfied s"
    using ids by (auto simp: subjectOf_def)
  have policy: "if Session_MFASatisfied s then \<not> b
     else \<exists>policy. mfaPolicy db = Inr policy \<and> b = Requires policy u \<and> \<not> (Requires policy u \<and> has_authenticator (User_ID u) db)"
  proof (cases "Session_MFASatisfied s")
    case False
    then obtain policy where p: "mfaPolicy db' = Inr policy" "Requires policy u \<longrightarrow>
        (\<exists>t. confirmedTOTP (User_ID u) db' = Inr (t, False)) \<and> b" "\<not> Requires policy u \<longrightarrow> \<not> b"
      using b(1) ids by (auto simp: confineToEnrolment_def split: sum.splits if_splits)
    have "has_authenticator (User_ID u) db = has_authenticator (User_ID u) db'"
      using same by (simp add: has_authenticator_def same_accounts_def)
    then show ?thesis using p False confirmedTOTP_false [OF _ ok'] mfaPolicy_cong [OF Resolve_settings [OF resolve]] by auto
  qed (use b(1) ids in \<open>simp add: confineToEnrolment_def\<close>)
  have "u \<in> set (IDB_users db)" "User_ID u = Session_UserID s"
    using Users_ByID_row [OF u(1)] same by (simp_all add: same_accounts_def)
  then show ?thesis using s(1,2) live u(2) b(3-6) policy [folded b(2)] m
    by (intro bexI [where x = s] bexI [where x = u]) (simp_all only: identity_manager_simps simp_thms)
qed

section \<open>What changing a password ends\<close>

lemma Rotate_identity:
  assumes "Rotate (identity_manager h l i) token now sid db = (Inr issued, db')"
  shows "Session_ID (Issued_Session issued) = sid \<and> IDB_challenges db' = IDB_challenges db \<and>
    Issued_Session issued \<in> set (IDB_sessions db') \<and> Issued_Token issued = token \<and>
    IDB_sessions db' = update_where (live_row sid) (\<lambda>s. s\<lparr>Session_TokenHash := h token, Session_LastSeenAt := toStorage now\<rparr>) (IDB_sessions db)"
  using assms by (auto simp: Rotate_def Sessions_Rotate_def Let_def dest: select1_Some
      split: prod.splits sum.splits option.splits if_splits)

lemma Users_Update_quiet_tables:
  assumes "Users_Update sql clock u [] db = (Inr row, db')"
  shows "IDB_sessions db' = IDB_sessions db \<and> User_PasswordHash row = User_PasswordHash u \<and> User_ID row = User_ID u \<and> row \<in> set (IDB_users db')"
proof -
  have row: "User_ID row = User_ID u" "row \<in> set (update_where (\<lambda>x. User_ID x = User_ID u) (user_row sql clock u) (IDB_users db))"
    and db': "db' = db\<lparr>IDB_users := update_where (\<lambda>x. User_ID x = User_ID u) (user_row sql clock u) (IDB_users db)\<rparr>"
    using Users_Update_effect [OF assms] by auto
  then obtain r where "row = (if User_ID r = User_ID u then user_row sql clock u r else r)" unfolding set_update_where by blast
  then have "User_PasswordHash row = User_PasswordHash u" using row(1) by (auto simp: user_row_def split: if_splits)
  then show ?thesis using row db' by simp
qed

lemma RevokeOthers_ends:
  assumes "RevokeOthers (identity_manager h l i) now userID keep db = (r, db')"
  shows "IDB_users db' = IDB_users db \<and>
    (\<forall>s\<in>set (IDB_sessions db'). Session_UserID s = userID \<longrightarrow> Session_ID s = keep \<or> Session_RevokedAt s \<noteq> None)"
proof -
  let ?sel = "\<lambda>s. Session_UserID s = userID \<and> Session_ID s \<noteq> keep \<and> Session_RevokedAt s = None"
  have db': "db' = db\<lparr>IDB_sessions := update_where ?sel (\<lambda>s. s\<lparr>Session_RevokedAt := Some (toStorage now)\<rparr>) (IDB_sessions db)\<rparr>"
    using assms by (simp add: RevokeOthers_def Sessions_RevokeOthersForUser_def Let_def)
  have "Session_ID s = keep \<or> Session_RevokedAt s \<noteq> None" if s: "s \<in> set (IDB_sessions db')" "Session_UserID s = userID" for s
  proof -
    have "(\<exists>x. s = x\<lparr>Session_RevokedAt := Some (toStorage now)\<rparr>) \<or> Session_ID s = keep \<or> Session_RevokedAt s \<noteq> None"
      using s by (simp add: db' set_update_where image_iff) blast
    then show ?thesis by (elim disjE exE) simp_all
  qed
  then show ?thesis using db' by simp
qed

text \<open>
  A password change that succeeds was made by somebody who knew the current password, stores a
  hash of the new one, and ends everything that the old one opened: every other session of the
  account is revoked, every pending second-factor challenge of it is gone, and the one session that
  goes on has a new token.
\<close>

theorem ChangePassword_ends_others:
  assumes run: "ChangePassword auth d subject current new db = (Inr issued, db')" and svc: "runs_identity (Auth_core auth)"
  shows "(\<forall>s\<in>set (IDB_sessions db'). Session_UserID s = Caller_UserID subject \<longrightarrow>
      Session_ID s = Caller_SessionID subject \<or> Session_RevokedAt s \<noteq> None) \<and>
    (\<forall>c\<in>set (IDB_challenges db'). MFAChallenge_UserID c \<noteq> Caller_UserID subject) \<and>
    Session_ID (Issued_Session issued) = Caller_SessionID subject \<and> Issued_Token issued = CD_token d \<and>
    (\<exists>row read rehash. row \<in> set (IDB_users db') \<and> User_ID row = Caller_UserID subject \<and>
       password_Hash (Auth_argon2 auth) False (CD_salt d) new = Inr (User_PasswordHash row) \<and>
       Users_ByID (Caller_UserID subject) db = Inr read \<and>
       password_Verify (Auth_argon2 auth) False current (User_PasswordHash read) = Inr (True, rehash))"
proof -
  obtain h l i where m: "Service_sessions (Auth_core auth) = identity_manager h l i" using svc by (auto simp: runs_identity_def)
  obtain user where check: "ChangePassword_check auth (CD_salt d) subject current new db = Inr user"
    and commit: "ChangePassword_commit auth d subject user db = (Inr issued, db')"
    using run by (auto simp: ChangePassword_def split: sum.splits)
  obtain read hash where read: "Users_ByID (Caller_UserID subject) db = Inr read" "user = read\<lparr>User_PasswordHash := hash\<rparr>"
      "current_password auth current read = None" and hash: "password_Hash (Auth_argon2 auth) False (CD_salt d) new = Inr hash"
    using ChangePassword_check_user [OF check] by blast
  obtain rehash where verified: "password_Verify (Auth_argon2 auth) False current (User_PasswordHash read) = Inr (True, rehash)"
    using read(3) by (auto simp: current_password_def split: sum.splits if_splits)
  have uid: "User_ID user = Caller_UserID subject" using read Users_ByID_row by simp
  obtain row db1 where update: "Users_Update (Auth_sql auth) (CD_update d) user [] db = (Inr row, db1)"
    using commit by (auto simp: ChangePassword_commit_def split: prod.splits sum.splits)
  obtain n db2 where others: "RevokeOthers (identity_manager h l i) (CD_revoke d) (User_ID user) (Caller_SessionID subject) db1 = (Inr n, db2)"
    using commit update m by (auto simp: ChangePassword_commit_def split: prod.splits sum.splits)
  obtain db3 where rotate: "Rotate (identity_manager h l i) (CD_token d) (CD_rotate d) (Caller_SessionID subject)
      (Challenge_Discard (User_ID user) db2) = (Inr issued, db3)"
    and db': "db' = auth_recordAlone auth (auth_entry (User_ID user) VerbUserPasswordChanged ObjectUser (User_ID user) []) db3"
    using commit update others m by (auto simp: ChangePassword_commit_def split: prod.splits sum.splits)
  note rotated = Rotate_identity [OF rotate]
  have tables: "IDB_sessions db' = IDB_sessions db3" "IDB_challenges db' = IDB_challenges db3"
    by (simp_all add: db' auth_recordAlone_def Log_Record_def)
  have "IDB_sessions db3 = update_where (live_row (Caller_SessionID subject))
      (\<lambda>s. s\<lparr>Session_TokenHash := h (CD_token d), Session_LastSeenAt := toStorage (CD_rotate d)\<rparr>) (IDB_sessions db2)"
    using rotated by (simp add: Challenge_Discard_def MFAChallenges_DeleteForUser_def)
  then have "\<forall>s\<in>set (IDB_sessions db3). Session_UserID s = User_ID user \<longrightarrow>
      Session_ID s = Caller_SessionID subject \<or> Session_RevokedAt s \<noteq> None"
    using RevokeOthers_ends [OF others] by (auto simp: set_update_where split: if_splits)
  moreover have "\<forall>c\<in>set (IDB_challenges db3). MFAChallenge_UserID c \<noteq> User_ID user"
    using rotated by (auto simp: Challenge_Discard_def MFAChallenges_DeleteForUser_def delete_where_def)
  moreover have "row \<in> set (IDB_users db')" "User_ID row = User_ID user" "User_PasswordHash row = hash"
    using Users_Update_quiet_tables [OF update] ChangePassword_commit_same [OF commit svc update] read(2)
    by (simp_all add: same_accounts_def)
  ultimately show ?thesis using tables rotated uid hash read(1) verified by auto
qed

section \<open>Which account a federated sign-in reaches\<close>

text \<open>Linked already; or found by an address the provider verified; or made for the occasion.\<close>

definition reachable_account :: "Auth \<Rightarrow> FederatedLogin \<Rightarrow> IDB \<Rightarrow> string \<Rightarrow> bool" where
  "reachable_account auth inp db uid \<longleftrightarrow>
     (case Identities_BySubject (FederatedLogin_Provider inp) (FederatedLogin_Subject inp) db of
        Inr linked \<Rightarrow> Identity_UserID linked = uid
      | Inl _ \<Rightarrow>
          (FederatedLogin_EmailVerified inp \<and> FederatedLogin_Email inp \<noteq> [] \<and>
             (\<exists>u. Users_ByEmail (Auth_sql auth) (FederatedLogin_Email inp) db = Inr u \<and> User_ID u = uid)) \<or>
          (FederatedLogin_AutoProvision inp \<and> uid \<notin> User_ID ` set (IDB_users db)))"

lemma provision_new:
  assumes "provision auth d inp db = (Inr u, db')"
  shows "User_ID u \<notin> User_ID ` set (IDB_users db)"
proof -
  obtain new db1 where "Users_Create (Auth_sql auth) (GD_userID d) (GD_create d) new [] db = (Inr u, db1)"
    using assms unfolding provision_def Let_def by (auto split: sum.splits prod.splits if_splits)
  then show ?thesis by (auto simp: Users_Create_def Let_def split: if_splits sum.splits)
qed

lemma federatedUser_reachable:
  assumes "federatedUser auth d inp db = (Inr u, db')"
  shows "reachable_account auth inp db (User_ID u)"
proof (cases "Identities_BySubject (FederatedLogin_Provider inp) (FederatedLogin_Subject inp) db")
  case (Inr linked)
  then show ?thesis using assms Users_ByID_row by (auto simp: federatedUser_def reachable_account_def)
next
  case (Inl err)
  then have missing: "errors_Is err ErrNotFound" by (auto simp: Identities_BySubject_def split: option.splits)
  have absent: "reachable_account auth inp db (User_ID u)"
    if "(if \<not> FederatedLogin_AutoProvision inp then (Inl e, db) else provision auth d inp db) = (Inr u, db')" for e
    using that provision_new Inl by (simp add: reachable_account_def split: if_splits)
  show ?thesis
  proof (cases "FederatedLogin_Email inp \<noteq> [] \<and> FederatedLogin_EmailVerified inp")
    case True
    show ?thesis
    proof (cases "Users_ByEmail (Auth_sql auth) (FederatedLogin_Email inp) db")
      case (Inr existing)
      then have "u = existing" using assms Inl missing True
        by (auto simp: federatedUser_def Let_def split: prod.splits sum.splits)
      then show ?thesis using Inl Inr True by (simp add: reachable_account_def)
    next
      case (Inl err2)
      then have "errors_Is err2 ErrNotFound" by (auto simp: Users_ByEmail_def split: option.splits)
      then show ?thesis using assms \<open>Identities_BySubject _ _ _ = Inl err\<close> Inl missing True absent
        unfolding federatedUser_def Let_def by simp
    qed
  next
    case False
    then show ?thesis using assms Inl missing absent unfolding federatedUser_def Let_def by (simp split: if_splits)
  qed
qed

lemma claim_same_user: "claimInvitation auth clock user db = (Inr u, db') \<Longrightarrow> User_ID u = User_ID user"
proof (cases "User_Status user = StatusInvited")
  case True
  assume "claimInvitation auth clock user db = (Inr u, db')"
  then obtain after where "Users_Update (Auth_sql auth) clock (user\<lparr>User_Status := StatusActive\<rparr>) after db = (Inr u, db')"
    using True unfolding claimInvitation_def by fastforce
  from Users_Update_effect [OF this] show ?thesis by auto
qed (simp add: claimInvitation_def)

lemma mapped_same_user:
  assumes "applyMappedRole auth clock user inp db = (Inr u, db')"
  shows "User_ID u = User_ID user"
proof (cases "\<not> FederatedLogin_RoleMapped inp \<or> User_PlatformRole user = FederatedLogin_Role inp")
  case True
  then show ?thesis using assms by (auto simp: applyMappedRole_def)
next
  case False
  then obtain db1 where "Users_Update (Auth_sql auth) clock (user\<lparr>User_PlatformRole := FederatedLogin_Role inp\<rparr>) [] db = (Inr u, db1)"
    using assms by (auto simp: applyMappedRole_def split: prod.splits sum.splits)
  from Users_Update_effect [OF this] show ?thesis by auto
qed

lemma completeSignIn_for:
  assumes "completeSignIn auth d user req db = (Inr res, db')" "runs_identity (Auth_core auth)"
  shows "case LoginResult_Issued res of
      Some i \<Rightarrow> Session_UserID (Issued_Session i) = User_ID user \<and> \<not> Session_MFASatisfied (Issued_Session i)
    | None \<Rightarrow> \<exists>ch. LoginResult_Challenge res = Some ch \<and> MFAChallenge_UserID (IssuedChallenge_Challenge ch) = User_ID user"
proof (cases "LoginResult_Issued res")
  case (Some i)
  obtain policy enrolled where "sign_in_sound user policy enrolled res db db'" using completeSignIn_sound [OF assms] by blast
  then show ?thesis using Some by (auto simp: sign_in_sound_def split: LoginStatus.splits)
next
  case None
  then obtain ch where "Challenge_Open (Service_challenges (Auth_core auth)) (SD_challengeID d) (SD_challengeClock d)
      (SD_challengeToken d) (SD_challengeNow d) (User_ID user) db = (Inr ch, db')" "LoginResult_Challenge res = Some ch"
    using assms(1) by (auto simp: completeSignIn_def split: sum.splits prod.splits loginOutcome.splits)
  then show ?thesis using None
    by (auto simp: Challenge_Open_def MFAChallenges_Open_def Let_def split: sum.splits prod.splits option.splits if_splits)
qed

text \<open>
  C11. A sign-in through a provider reaches no account but the one its subject is linked to; without a
  link, the one whose address the provider verified, or an account made for it where that is allowed.
  What it hands out, a session without a second factor or a pending challenge, is that account's.
\<close>

theorem Federated_gate:
  assumes run: "SignInWithFederatedIdentity auth d inp db = (Inr res, db')" and svc: "runs_identity (Auth_core auth)"
  shows "\<exists>uid. reachable_account auth inp db uid \<and>
    (case LoginResult_Issued res of
       Some i \<Rightarrow> Session_UserID (Issued_Session i) = uid \<and> \<not> Session_MFASatisfied (Issued_Session i)
     | None \<Rightarrow> \<exists>ch. LoginResult_Challenge res = Some ch \<and> MFAChallenge_UserID (IssuedChallenge_Challenge ch) = uid)"
proof -
  obtain u1 db1 where find: "federatedUser auth d inp db = (Inr u1, db1)"
    using run by (auto simp: SignInWithFederatedIdentity_def split: prod.splits sum.splits if_splits)
  obtain u2 db2 where claim: "claimInvitation auth (GD_claim d) u1 db1 = (Inr u2, db2)"
    using run find by (auto simp: SignInWithFederatedIdentity_def split: prod.splits sum.splits if_splits)
  obtain u3 db3 where role: "applyMappedRole auth (GD_role d) u2 inp db2 = (Inr u3, db3)"
    and complete: "completeSignIn auth (GD_signIn d) u3 (FederatedLogin_Request inp) db3 = (Inr res, db')"
    using run find claim by (auto simp: SignInWithFederatedIdentity_def split: prod.splits sum.splits if_splits)
  have "User_ID u3 = User_ID u1" using claim_same_user [OF claim] mapped_same_user [OF role] by simp
  then show ?thesis using federatedUser_reachable [OF find] completeSignIn_for [OF complete svc]
    by (intro exI [where x = "User_ID u1"]) (simp split: option.splits)
qed

theorem Federated_gate_witness:
  "\<exists>res. fst (SignInWithFederatedIdentity sample_auth sample_federated mapped_login linked_accounts) = Inr res \<and>
     (\<exists>uid. reachable_account sample_auth mapped_login linked_accounts uid \<and> uid = ''c'')"
proof -
  obtain res db' where run: "SignInWithFederatedIdentity sample_auth sample_federated mapped_login linked_accounts = (Inr res, db')"
    using mapped_login_run by (metis fst_conv surj_pair)
  have "runs_identity (Auth_core sample_auth)" using sample_core_identity by simp
  from Federated_gate [OF run this] obtain uid where "reachable_account sample_auth mapped_login linked_accounts uid" by blast
  moreover from this have "uid = ''c''"
    by (simp add: reachable_account_def Identities_BySubject_def mapped_login_def linked_accounts_def table_simps)
  ultimately show ?thesis using run by auto
qed

end
