(* ===== verification/Sign_In_Samples.thy ===== *)
theory Sign_In_Samples
  imports Sign_In_Gate
begin

text \<open>
  Concrete sign-ins: an installation with a password and two sessions, on which the gates of the
  sign-in service are applied.
\<close>

definition sample_hash :: "string \<Rightarrow> string" where
  "sample_hash pw = hash_encode Production (replicate 16 1) (sample_argon2 pw (replicate 16 1) 3 65536 1 32)"

lemma sample_verify_key:
  assumes "length presented \<le> 1024" "length key = 32"
  shows "password_Verify sample_argon2 False presented (hash_encode Production (replicate 16 1) key) =
    Inr (sample_argon2 presented (replicate 16 1) 3 65536 1 32 = key, False)"
proof -
  have valid: "Params_validate Production = None"
    by (simp add: Params_validate_def Production_def minStoredSaltBytes_def minStoredKeyBytes_def maxStoredBytes_def Let_def)
  have "Decode (hash_encode Production (replicate 16 1) key) = Inr (Production, replicate 16 1, key)"
    using Decode_encode [OF valid, of "replicate 16 1" key] assms(2) by (simp add: Production_def maxStoredMemory_def)
  then show ?thesis
    using assms(1) by (simp add: password_Verify_def Params_Verify_def Default_def MaxPlaintextBytes_def Production_def strongerThan_def)
qed

lemma sample_verify:
  assumes "length presented \<le> 1024"
  shows "password_Verify sample_argon2 False presented (sample_hash pw) =
    Inr ((of_char (hd (presented @ ''x'')) :: 8 word) = of_char (hd (pw @ ''x'')), False)"
  using sample_verify_key [OF assms, of "sample_argon2 pw (replicate 16 1) 3 65536 1 32"]
  by (simp add: sample_hash_def sample_argon2_def)

definition old_password :: string where "old_password = ''correct horse battery''"
definition new_password :: string where "new_password = ''new horse, new battery''"

definition sample_member :: User where
  "sample_member = (sample_account ''a'' PlatformRoleMember StatusActive)\<lparr>User_PasswordHash := sample_hash old_password\<rparr>"

definition sample_row :: "string \<Rightarrow> char \<Rightarrow> Session" where
  "sample_row sid c = \<lparr>Session_ID = sid, Session_UserID = ''a'', Session_TokenHash = replicate 43 c, Session_CreatedAt = 0,
     Session_LastSeenAt = 0, Session_ExpiresAt = 900000000, Session_RevokedAt = None, Session_IP = [], Session_UserAgent = [],
     Session_MFASatisfied = False\<rparr>"

definition password_accounts :: IDB where
  "password_accounts = (accounts_db [sample_account ''c'' PlatformRoleAdmin StatusActive, sample_member])
     \<lparr>IDB_sessions := [sample_row ''k1'' CHR ''a'', sample_row ''k2'' CHR ''b'']\<rparr>"

definition member_caller :: Caller where
  "member_caller = sample_actor\<lparr>Caller_UserID := ''a'', Caller_PlatformRole := PlatformRoleMember, Caller_SessionID := ''k1''\<rparr>"

definition change_draws :: Change_Draws where
  "change_draws = \<lparr>CD_salt = replicate 16 1, CD_update = 5000, CD_revoke = 5000, CD_rotate = 5000, CD_token = replicate 43 CHR ''r''\<rparr>"

lemma password_accounts_ok: "accounts_ok password_accounts" "sessions_ok password_accounts"
  by (simp_all add: accounts_ok_def sessions_ok_def password_accounts_def accounts_db_def sample_account_def sample_member_def
      sample_row_def active_admin_def)

lemma sample_lookups [simp]:
  "Users_ByID ''a'' password_accounts = Inr sample_member" "mfaPolicy password_accounts = Inr \<lparr>MFAPolicy_RequiredForAll = False, MFAPolicy_RequiredForAdmins = False\<rparr>"
  "Users_ByEmail plain_sql ''a@lab'' password_accounts = Inr sample_member"
  "Users_ByEmail plain_sql ''z@lab'' password_accounts = Inl (NotFound ''user'' ''z@lab'')"
  by (simp_all add: Users_ByID_def Users_ByEmail_def password_accounts_def accounts_db_def sample_account_def sample_member_def table_simps
      mfaPolicy_def DecodeMFAPolicy_def storedBool_def Settings_All_def plain_sql_def
      email_normalized_def ToLower_def TrimSpace_def is_space_def lower_char_def)

lemma Ex_Not [simp]: "Ex Not"
  by (rule exI [of _ False]) simp

definition sample_login :: "string \<Rightarrow> string \<Rightarrow> Login_input" where
  "sample_login email pw = \<lparr>Login_Email = email, Login_Password = pw, Login_Request = \<lparr>Request_IP = [], Request_UserAgent = []\<rparr>\<rparr>"

lemma sample_auth_password [simp]:
  "Auth_argon2 sample_auth = sample_argon2" "Auth_decoy sample_auth = hash_encode Production (replicate 16 1) (replicate 32 0)"
  "Auth_common sample_auth = []"
  by (simp_all add: sample_auth_def)

lemma sample_member_simps [simp]:
  "User_PasswordHash sample_member = sample_hash old_password" "User_Status sample_member = StatusActive" "User_ID sample_member = ''a''"
  by (simp_all add: sample_member_def sample_account_def)

lemma sample_hash_nonempty [simp]: "sample_hash pw \<noteq> []"
  by (simp add: sample_hash_def hash_encode_def)

lemma no_authenticator: "\<not> has_authenticator uid password_accounts"
  "\<exists>t. confirmedTOTP ''a'' password_accounts = Inr (t, False)"
  by (simp_all add: has_authenticator_def confirmedTOTP_def TOTPs_ByUserID_def password_accounts_def accounts_db_def table_simps)

lemma passwords_verify [simp]:
  "password_Verify sample_argon2 False old_password (sample_hash old_password) = Inr (True, False)"
  "password_Verify sample_argon2 False new_password (sample_hash old_password) = Inr (False, False)"
  by (simp_all add: sample_verify old_password_def new_password_def)

lemma sample_login_runs:
  "\<exists>res. fst (Login sample_auth signin_draws (sample_login ''a@lab'' old_password) password_accounts) = Inr res"
proof -
  have "\<exists>res. fst (completeSignIn sample_auth signin_draws sample_member \<lparr>Request_IP = [], Request_UserAgent = []\<rparr> password_accounts) = Inr res"
    using no_authenticator(2)
    by (simp add: sample_sign_in sample_row_def password_accounts_def sample_member_def sample_edits)
  then show ?thesis by (simp add: Login_def sample_login_def)
qed

text \<open>The member signs in: no authenticator and none required, so there is a session without a second factor.\<close>

theorem Login_gate_witness:
  "\<exists>res i. fst (Login sample_auth signin_draws (sample_login ''a@lab'' old_password) password_accounts) = Inr res \<and>
     LoginResult_Status res = LoginAuthenticated \<and> LoginResult_Issued res = Some i \<and> Session_UserID (Issued_Session i) = ''a''"
proof -
  obtain res db' where run: "Login sample_auth signin_draws (sample_login ''a@lab'' old_password) password_accounts = (Inr res, db')"
    using sample_login_runs by (metis fst_conv surj_pair)
  have "runs_identity (Auth_core sample_auth)" using sample_core_identity by simp
  from Login_gate [OF run this password_accounts_ok(1)]
  have "sign_in_sound sample_member \<lparr>MFAPolicy_RequiredForAll = False, MFAPolicy_RequiredForAdmins = False\<rparr> False res password_accounts db'"
    by (simp add: sample_login_def no_authenticator)
  then show ?thesis using run
    by (auto simp: sign_in_sound_def Requires_def sample_member_def sample_account_def split: LoginStatus.splits)
qed

theorem Login_refusals_alike_witness:
  "\<exists>err err' db'. Login sample_auth signin_draws (sample_login ''a@lab'' new_password) password_accounts = (Inl err, db') \<and>
     fst (Login sample_auth signin_draws (sample_login ''z@lab'' new_password) password_accounts) = Inl err' \<and>
     Translate (\<lambda>_. None) err [] = Translate (\<lambda>_. None) err' [] \<and> IDB_sessions db' = IDB_sessions password_accounts"
proof -
  have len: "length new_password \<le> 1024" by (simp add: new_password_def)
  have decoy: "\<exists>v. password_Verify (Auth_argon2 sample_auth) False new_password (Auth_decoy sample_auth) = Inr v"
    using sample_verify_key [OF len length_replicate [of 32 0]] by (simp only: sample_auth_password) blast
  have "\<exists>err db'. Login sample_auth signin_draws (sample_login ''a@lab'' new_password) password_accounts = (Inl err, db') \<and>
      Translate (\<lambda>_. None) err [] = Translate (\<lambda>_. None) (BadCredentials []) [] \<and>
      same_accounts password_accounts db' \<and> IDB_sessions db' = IDB_sessions password_accounts"
    using decoy by (intro Login_refusals_alike) (simp_all add: sample_login_def)
  moreover have "\<exists>err db'. Login sample_auth signin_draws (sample_login ''z@lab'' new_password) password_accounts = (Inl err, db') \<and>
      Translate (\<lambda>_. None) err [] = Translate (\<lambda>_. None) (BadCredentials []) [] \<and>
      same_accounts password_accounts db' \<and> IDB_sessions db' = IDB_sessions password_accounts"
    using decoy by (intro Login_refusals_alike) (simp_all add: sample_login_def)
  ultimately show ?thesis by (metis fst_conv)
qed

text \<open>A request with the first session of the member.\<close>

lemma sample_request: "\<exists>c. fst (Authenticate sample_auth 6000 6000 (replicate 43 CHR ''a'') password_accounts) = Inr c"
proof -
  have "Resolve (Service_sessions sample_core) (replicate 43 CHR ''a'') 6000 6000 password_accounts =
      (Inr (sample_row ''k1'' CHR ''a''), password_accounts)"
    by (simp add: Resolve_def sample_core_def Sessions_ByTokenHash_def password_accounts_def sample_row_def table_simps usable_def
        Before_def Sub_def tokenLength_def TokenBytes_def touchInterval_def Minute_def Second_def minDuration_def maxDuration_def)
  moreover have "\<exists>b. confineToEnrolment sample_member (sample_row ''k1'' CHR ''a'') password_accounts = Inr b"
    by (simp add: confineToEnrolment_def sample_row_def Requires_def sample_member_def sample_account_def)
  ultimately show ?thesis by (auto simp: Authenticate_def sample_row_def)
qed

theorem Authenticate_gate_witness:
  "\<exists>c. fst (Authenticate sample_auth 6000 6000 (replicate 43 CHR ''a'') password_accounts) = Inr c \<and>
     Caller_UserID c = ''a'' \<and> \<not> Caller_MFAEnrolmentRequired c"
proof -
  obtain c db' where run: "Authenticate sample_auth 6000 6000 (replicate 43 CHR ''a'') password_accounts = (Inr c, db')"
    using sample_request by (metis fst_conv surj_pair)
  have "runs_identity (Auth_core sample_auth)" using sample_core_identity by simp
  from Authenticate_gate [OF run this password_accounts_ok(2,1)] obtain s u where
      "s \<in> set (IDB_sessions password_accounts)" "u \<in> set (IDB_users password_accounts)" "User_ID u = Session_UserID s"
      "Caller_UserID c = User_ID u" and confined: "if Session_MFASatisfied s then \<not> Caller_MFAEnrolmentRequired c
       else \<exists>policy. mfaPolicy password_accounts = Inr policy \<and> Caller_MFAEnrolmentRequired c = Requires policy u \<and>
         \<not> (Requires policy u \<and> has_authenticator (User_ID u) password_accounts)" by blast
  then have "u = sample_member" "Caller_UserID c = ''a''" "\<not> Session_MFASatisfied s"
    by (auto simp: password_accounts_def sample_row_def accounts_db_def sample_account_def)
  then have "Caller_UserID c = ''a'' \<and> \<not> Caller_MFAEnrolmentRequired c"
    using confined by (simp add: Requires_def sample_member_def sample_account_def)
  then show ?thesis using run by simp
qed

text \<open>The member changes the password with the first session; meanwhile an administrator may disable the account.\<close>

lemma sample_check:
  "ChangePassword_check sample_auth (replicate 16 1) member_caller old_password new_password password_accounts =
     Inr (sample_member\<lparr>User_PasswordHash := sample_hash new_password\<rparr>)"
proof -
  have "current_password sample_auth old_password sample_member = None" by (simp add: current_password_def)
  moreover have count: "RuneCountInString new_password = 22" "new_password \<noteq> []" "TrimSpace new_password \<noteq> []"
    unfolding new_password_def by code_simp+
  then have "password_Validate [] ''newPassword'' new_password = None"
    using count by (simp add: password_Validate_def isCommon_def MinLength_def MaxLength_def)
  moreover have "password_Hash sample_argon2 False (replicate 16 1) new_password = Inr (sample_hash new_password)"
    by (simp add: password_Hash_def Default_def Params_Hash_def Params_validate_def Production_def sample_hash_def MaxPlaintextBytes_def
        minStoredSaltBytes_def minStoredKeyBytes_def maxStoredBytes_def new_password_def Let_def)
  ultimately show ?thesis by (simp add: ChangePassword_check_def member_caller_def)
qed

lemma sample_change: "\<exists>issued. fst (ChangePassword sample_auth change_draws member_caller old_password new_password password_accounts) = Inr issued"
proof -
  have "\<exists>issued. fst (ChangePassword_commit sample_auth change_draws member_caller
      (sample_member\<lparr>User_PasswordHash := sample_hash new_password\<rparr>) password_accounts) = Inr issued"
    by (simp add: ChangePassword_commit_def change_draws_def member_caller_def password_accounts_def sample_member_def sample_row_def
        sample_edits sample_sign_in RevokeOthers_def Sessions_RevokeOthersForUser_def Rotate_def Sessions_Rotate_def Challenge_Discard_def
        MFAChallenges_DeleteForUser_def delete_where_def)
  then show ?thesis using sample_check by (simp add: ChangePassword_def change_draws_def)
qed

theorem ChangePassword_ends_others_witness:
  "\<exists>issued db'. ChangePassword sample_auth change_draws member_caller old_password new_password password_accounts = (Inr issued, db') \<and>
     (\<exists>row\<in>set (IDB_users db'). User_ID row = ''a'' \<and> Inr (User_PasswordHash row) =
        password_Hash sample_argon2 False (replicate 16 1) new_password)"
proof -
  obtain issued db' where run: "ChangePassword sample_auth change_draws member_caller old_password new_password password_accounts = (Inr issued, db')"
    using sample_change by (metis fst_conv surj_pair)
  have "runs_identity (Auth_core sample_auth)" using sample_core_identity by simp
  from ChangePassword_ends_others [OF run this] obtain row where "row \<in> set (IDB_users db')" "User_ID row = Caller_UserID member_caller"
      "password_Hash (Auth_argon2 sample_auth) False (CD_salt change_draws) new_password = Inr (User_PasswordHash row)" by blast
  then show ?thesis using run by (intro exI [of _ issued] exI [of _ db']) (auto simp: member_caller_def change_draws_def)
qed

definition disabled_accounts :: IDB where
  "disabled_accounts = snd (SetAccountStatus sample_auth 7000 8000 sample_actor ''a'' StatusDisabled password_accounts)"

text \<open>The change fails, since disabling the account revoked the session; and the account is active again.\<close>

lemma disabled_between:
  "(\<forall>u\<in>set (IDB_users disabled_accounts). User_ID u = ''a'' \<longrightarrow> User_Status u = StatusDisabled) \<and>
   (\<exists>err. fst (ChangePassword_commit sample_auth change_draws member_caller
      (sample_member\<lparr>User_PasswordHash := sample_hash new_password\<rparr>) disabled_accounts) = Inl err) \<and>
   (\<exists>row db2. Users_Update plain_sql 5000 (sample_member\<lparr>User_PasswordHash := sample_hash new_password\<rparr>) [] disabled_accounts =
      (Inr row, db2))"
  by (simp add: disabled_accounts_def SetAccountStatus_def RevokeAll_def Sessions_RevokeAllForUser_def
        ChangePassword_commit_def change_draws_def member_caller_def password_accounts_def sample_member_def sample_row_def
        sample_edits sample_sign_in RevokeOthers_def Sessions_RevokeOthersForUser_def Rotate_def Sessions_Rotate_def Challenge_Discard_def
        MFAChallenges_DeleteForUser_def delete_where_def)

theorem stale_password_change_restores_witness:
  "\<not> (\<exists>u\<in>set (IDB_users disabled_accounts). User_ID u = ''a'' \<and> User_Status u \<noteq> StatusDisabled) \<and>
   (\<exists>err db'. ChangePassword_commit sample_auth change_draws member_caller
      (sample_member\<lparr>User_PasswordHash := sample_hash new_password\<rparr>) disabled_accounts = (Inl err, db') \<and>
      (\<exists>row\<in>set (IDB_users db'). User_ID row = ''a'' \<and> User_Status row = StatusActive))"
proof -
  let ?u = "sample_member\<lparr>User_PasswordHash := sample_hash new_password\<rparr>"
  obtain err db' where run: "ChangePassword_commit sample_auth change_draws member_caller ?u disabled_accounts = (Inl err, db')"
    using disabled_between by (metis fst_conv surj_pair)
  have svc: "runs_identity (Auth_core sample_auth)" using sample_core_identity by simp
  have updates: "\<exists>row db2. Users_Update (Auth_sql sample_auth) (CD_update change_draws) ?u [] disabled_accounts = (Inr row, db2)"
    using disabled_between by (simp add: change_draws_def)
  have "\<exists>row\<in>set (IDB_users db'). User_ID row = ''a'' \<and> User_Status row = StatusActive"
    using stale_password_change_restores [OF sample_check run svc updates] by (auto simp: member_caller_def)
  moreover have "\<not> (\<exists>u\<in>set (IDB_users disabled_accounts). User_ID u = ''a'' \<and> User_Status u \<noteq> StatusDisabled)"
    using disabled_between by blast
  ultimately show ?thesis using run by blast
qed

end
