(* ===== verification/Blind.thy ===== *)
theory Blind
  imports Activity Authz
begin

text \<open>
  Blind mode past the permission check: the row filter of a repository
  (internal/store/blind/blind.go), the filter on live and replayed events
  (internal/events/blind.go, \<open>VisibleReplay\<close> and \<open>stampRevealed\<close> of internal/events/replay.go).
  The payload of an event is the JSON object it decodes to, None when the bytes are not one;
  object keys are compared as the program writes them. A lookup of the reveal state is a
  function that may fail, and may be absent (the nil interface).
\<close>

section \<open>The scope of a reader (store/blind)\<close>

record blind_Scope =
  Scope_Blind :: bool
  Scope_Seat :: EngagementRole

definition Withholds :: "blind_Scope \<Rightarrow> bool" where
  "Withholds s \<longleftrightarrow> Scope_Blind s \<and> Scope_Seat s = EngagementRoleBlue"

definition Where :: "blind_Scope \<Rightarrow> string \<Rightarrow> string" where
  "Where s revealedColumn = (if \<not> Withholds s then ''TRUE'' else revealedColumn)"

definition Permits :: "blind_Scope \<Rightarrow> bool \<Rightarrow> bool" where
  "Permits s revealed \<longleftrightarrow> revealed \<or> \<not> Withholds s"

text \<open>What the database makes of the text \<open>Where\<close> returns, on a row whose column test has a value.\<close>

definition sql_holds :: "string \<Rightarrow> string \<Rightarrow> bool \<Rightarrow> bool" where
  "sql_holds predicate column revealed = (if predicate = ''TRUE'' then True else predicate = column \<and> revealed)"

section \<open>Events (events/blind.go)\<close>

type_synonym json_object = "(string \<times> delta_value) list"

abbreviation TypePresenceJoin :: string where "TypePresenceJoin \<equiv> ''presence.join''"
abbreviation TypePresenceLeave :: string where "TypePresenceLeave \<equiv> ''presence.leave''"
abbreviation TypePresenceUpdate :: string where "TypePresenceUpdate \<equiv> ''presence.update''"

record Event =
  Event_ID :: string
  Event_Topic :: string
  Event_Type :: string
  Event_At :: gotime
  Event_Data :: "json_object option"

record EventData =
  EventData_EngagementID :: string
  EventData_ActorID :: string
  EventData_Verb :: string
  EventData_ObjectType :: string
  EventData_ObjectID :: string
  EventData_ExecutionID :: string
  EventData_ScenarioID :: string
  EventData_StepID :: string
  EventData_Revealed :: "bool option"

text \<open>
  Decoding one field of a struct: a missing key and null leave the zero value, a value of another
  kind fails the whole object.
\<close>

definition string_field :: "json_object \<Rightarrow> string \<Rightarrow> string option" where
  "string_field m k =
     (case map_of m k of
        None \<Rightarrow> Some []
      | Some (DString s) \<Rightarrow> Some s
      | Some DNull \<Rightarrow> Some []
      | Some _ \<Rightarrow> None)"

definition bool_field :: "json_object \<Rightarrow> string \<Rightarrow> bool option option" where
  "bool_field m k =
     (case map_of m k of
        None \<Rightarrow> Some None
      | Some (DBool b) \<Rightarrow> Some (Some b)
      | Some DNull \<Rightarrow> Some None
      | Some _ \<Rightarrow> None)"

definition ParseEventData :: "json_object option \<Rightarrow> EventData option" where
  "ParseEventData raw =
     Option.bind raw (\<lambda>m.
     Option.bind (string_field m ''engagementId'') (\<lambda>engagementID.
     Option.bind (string_field m ''actorId'') (\<lambda>actorID.
     Option.bind (string_field m ''verb'') (\<lambda>verb.
     Option.bind (string_field m ''objectType'') (\<lambda>objectType.
     Option.bind (string_field m ''objectId'') (\<lambda>objectID.
     Option.bind (string_field m ''executionId'') (\<lambda>executionID.
     Option.bind (string_field m ''scenarioId'') (\<lambda>scenarioID.
     Option.bind (string_field m ''stepId'') (\<lambda>stepID.
     Option.bind (bool_field m ''revealed'') (\<lambda>revealed.
       Some \<lparr>EventData_EngagementID = engagementID, EventData_ActorID = actorID, EventData_Verb = verb,
         EventData_ObjectType = objectType, EventData_ObjectID = objectID, EventData_ExecutionID = executionID,
         EventData_ScenarioID = scenarioID, EventData_StepID = stepID, EventData_Revealed = revealed\<rparr>))))))))))"

abbreviation step_scoped :: "string \<Rightarrow> bool" where
  "step_scoped t \<equiv> t \<in> {ObjectStep, ObjectExecution, ObjectEvidence, ObjectComment}"

definition visibleEventData :: "blind_Scope \<Rightarrow> EventData \<Rightarrow> bool" where
  "visibleEventData scope d =
     (if \<not> Withholds scope then True
      else if \<not> step_scoped (EventData_ObjectType d) then True
      else case EventData_Revealed d of None \<Rightarrow> True | Some b \<Rightarrow> b)"

definition VisibleActivity :: "blind_Scope \<Rightarrow> Event \<Rightarrow> bool" where
  "VisibleActivity scope ev =
     (case ParseEventData (Event_Data ev) of None \<Rightarrow> True | Some d \<Rightarrow> visibleEventData scope d)"

definition StepIDForEvent :: "EventData option \<Rightarrow> string" where
  "StepIDForEvent d =
     (case d of
        None \<Rightarrow> []
      | Some d \<Rightarrow>
          if EventData_ObjectType d = ObjectStep then EventData_ObjectID d
          else if EventData_ObjectType d \<in> {ObjectExecution, ObjectEvidence, ObjectComment} then EventData_StepID d
          else [])"

record presenceData =
  presenceData_EngagementID :: string
  presenceData_UserID :: string
  presenceData_DisplayName :: string
  presenceData_StepID :: string
  presenceData_ExecutionID :: string

definition parsePresence :: "json_object option \<Rightarrow> presenceData option" where
  "parsePresence raw =
     Option.bind raw (\<lambda>m.
     Option.bind (string_field m ''engagementId'') (\<lambda>engagementID.
     Option.bind (string_field m ''userId'') (\<lambda>userID.
     Option.bind (string_field m ''displayName'') (\<lambda>displayName.
     Option.bind (string_field m ''stepId'') (\<lambda>stepID.
     Option.bind (string_field m ''executionId'') (\<lambda>executionID.
       Some \<lparr>presenceData_EngagementID = engagementID, presenceData_UserID = userID,
         presenceData_DisplayName = displayName, presenceData_StepID = stepID,
         presenceData_ExecutionID = executionID\<rparr>))))))"

definition marshalPresence :: "presenceData \<Rightarrow> json_object" where
  "marshalPresence pd =
     [(''engagementId'', DString (presenceData_EngagementID pd)), (''userId'', DString (presenceData_UserID pd)),
      (''displayName'', DString (presenceData_DisplayName pd)), (''stepId'', DString (presenceData_StepID pd)),
      (''executionId'', DString (presenceData_ExecutionID pd))]"

definition isStepVisible :: "string \<Rightarrow> 'e reveal_lookup option \<Rightarrow> bool" where
  "isStepVisible stepID lookup =
     (case lookup of
        None \<Rightarrow> False
      | Some isRevealed \<Rightarrow> (case isRevealed stepID of Inl err \<Rightarrow> False | Inr revealed \<Rightarrow> revealed))"

definition FilterPresenceEvent :: "blind_Scope \<Rightarrow> Event \<Rightarrow> 'e reveal_lookup option \<Rightarrow> Event" where
  "FilterPresenceEvent scope ev lookup =
     (if \<not> Withholds scope then ev
      else if Event_Type ev \<noteq> TypePresenceJoin \<and> Event_Type ev \<noteq> TypePresenceUpdate then ev
      else case parsePresence (Event_Data ev) of
        None \<Rightarrow> ev
      | Some pd \<Rightarrow>
          if presenceData_StepID pd = [] \<and> presenceData_ExecutionID pd = [] then ev
          else
            (let dropStep = (presenceData_StepID pd \<noteq> [] \<and> \<not> isStepVisible (presenceData_StepID pd) lookup);
                 pd1 = (if dropStep then pd\<lparr>presenceData_StepID := []\<rparr> else pd);
                 dropExec = (presenceData_ExecutionID pd1 \<noteq> [] \<and> \<not> isStepVisible (presenceData_ExecutionID pd1) lookup);
                 pd2 = (if dropExec then pd1\<lparr>presenceData_ExecutionID := []\<rparr> else pd1)
             in if \<not> (dropStep \<or> dropExec) then ev else ev\<lparr>Event_Data := Some (marshalPresence pd2)\<rparr>))"

section \<open>Replay (events/replay.go)\<close>

type_synonym 'e step_resolver = "string \<Rightarrow> string \<Rightarrow> 'e + string"

definition stampRevealed :: "Event \<Rightarrow> Event" where
  "stampRevealed ev =
     (case Event_Data ev of
        None \<Rightarrow> ev
      | Some m \<Rightarrow> ev\<lparr>Event_Data := Some (AList.update ''revealed'' (DBool True) m)\<rparr>)"

text \<open>The lookup at the end: drop, keep on failure, or stamp and keep.\<close>

definition replay_verdict :: "Event \<Rightarrow> 'e reveal_lookup option \<Rightarrow> string \<Rightarrow> Event option" where
  "replay_verdict ev lookup stepID =
     (case lookup of
        None \<Rightarrow> None
      | Some isRevealed \<Rightarrow>
          (case isRevealed stepID of
             Inl err \<Rightarrow> Some ev
           | Inr revealed \<Rightarrow> if \<not> revealed then None else Some (stampRevealed ev)))"

definition VisibleReplay :: "blind_Scope \<Rightarrow> Event \<Rightarrow> 'e step_resolver option \<Rightarrow> 'e reveal_lookup option \<Rightarrow>
    Event option" where
  "VisibleReplay scope ev resolve lookup =
     (if \<not> Withholds scope then Some ev
      else case ParseEventData (Event_Data ev) of
        None \<Rightarrow> Some ev
      | Some d \<Rightarrow>
          if EventData_ObjectType d = ObjectStep then replay_verdict ev lookup (EventData_ObjectID d)
          else if EventData_ObjectType d \<in> {ObjectExecution, ObjectEvidence, ObjectComment} then
            (case resolve of
               None \<Rightarrow> Some ev
             | Some res \<Rightarrow>
                 (case res (EventData_ObjectType d) (EventData_ObjectID d) of
                    Inl err \<Rightarrow> Some ev
                  | Inr resolved \<Rightarrow> if resolved = [] then Some ev else replay_verdict ev lookup resolved))
          else Some ev)"

definition buildReplayData :: "Entry \<Rightarrow> json_object" where
  "buildReplayData row =
     [(''engagementId'', DString (Entry_EngagementID row)), (''actorId'', DString (Entry_ActorID row)),
      (''verb'', DString (Entry_Verb row)), (''objectType'', DString (Entry_ObjectType row)),
      (''objectId'', DString (Entry_ObjectID row))]"

section \<open>Lemmas\<close>

lemma map_of_parents:
  "map_of (foldl (\<lambda>m (k, v). AList.update k (DString v) m) m ps) k =
     (case map_of (rev ps) k of Some v \<Rightarrow> Some (DString v) | None \<Rightarrow> map_of m k)"
proof (induction ps arbitrary: m)
  case (Cons p ps)
  then show ?case
    by (cases p) (auto simp: update_conv' map_add_def split: option.splits)
qed simp

lemma map_of_rev_None: "map_of (rev ps) k = None \<longleftrightarrow> k \<notin> fst ` set ps"
  by (simp add: map_of_eq_None_iff)

definition parent_keys :: "Entry \<Rightarrow> bool" where
  "parent_keys e \<longleftrightarrow> fst ` set (Entry_ParentIDs e) \<subseteq> {''executionId'', ''scenarioId'', ''stepId''}"

lemma parent_keys_None:
  "parent_keys e \<Longrightarrow> k \<notin> {''executionId'', ''scenarioId'', ''stepId''} \<Longrightarrow> map_of (rev (Entry_ParentIDs e)) k = None"
  unfolding parent_keys_def map_of_rev_None by blast

lemma built_lookup:
  "map_of (buildEventData e revealed) k =
     (if k = ''revealed'' \<and> revealed \<noteq> None then map_option DBool revealed
      else case map_of (rev (Entry_ParentIDs e)) k of Some v \<Rightarrow> Some (DString v)
        | None \<Rightarrow> map_of [(''engagementId'', DString (Entry_EngagementID e)), (''actorId'', DString (Entry_ActorID e)),
               (''verb'', DString (Entry_Verb e)), (''objectType'', DString (Entry_ObjectType e)),
               (''objectId'', DString (Entry_ObjectID e))] k)"
  by (auto simp: buildEventData_def Let_def map_of_parents update_conv' split: option.splits)

lemma string_field_parent:
  "k \<in> {''executionId'', ''scenarioId'', ''stepId''} \<Longrightarrow> \<exists>s. string_field (buildEventData e revealed) k = Some s"
  by (auto simp: string_field_def built_lookup split: option.splits)

text \<open>What a subscriber's filter reads back from a payload the log built.\<close>

lemma parse_built:
  assumes "parent_keys e"
  shows "\<exists>d. ParseEventData (Some (buildEventData e revealed)) = Some d \<and>
    EventData_ObjectType d = Entry_ObjectType e \<and> EventData_ObjectID d = Entry_ObjectID e \<and>
    EventData_Revealed d = revealed"
proof -
  have fields: "string_field (buildEventData e revealed) ''engagementId'' = Some (Entry_EngagementID e)"
    "string_field (buildEventData e revealed) ''actorId'' = Some (Entry_ActorID e)"
    "string_field (buildEventData e revealed) ''verb'' = Some (Entry_Verb e)"
    "string_field (buildEventData e revealed) ''objectType'' = Some (Entry_ObjectType e)"
    "string_field (buildEventData e revealed) ''objectId'' = Some (Entry_ObjectID e)"
    by (simp_all add: string_field_def built_lookup parent_keys_None [OF assms])
  have flag: "bool_field (buildEventData e revealed) ''revealed'' = Some revealed"
    by (cases revealed) (simp_all add: bool_field_def built_lookup parent_keys_None [OF assms])
  obtain x sc st where "string_field (buildEventData e revealed) ''executionId'' = Some x"
    "string_field (buildEventData e revealed) ''scenarioId'' = Some sc"
    "string_field (buildEventData e revealed) ''stepId'' = Some st"
    using string_field_parent [of "''executionId''" e revealed] string_field_parent [of "''scenarioId''" e revealed]
      string_field_parent [of "''stepId''" e revealed] by auto
  then show ?thesis by (simp add: ParseEventData_def fields flag)
qed

lemma parse_replay:
  "ParseEventData (Some (buildReplayData row)) = Some \<lparr>EventData_EngagementID = Entry_EngagementID row,
     EventData_ActorID = Entry_ActorID row, EventData_Verb = Entry_Verb row,
     EventData_ObjectType = Entry_ObjectType row, EventData_ObjectID = Entry_ObjectID row,
     EventData_ExecutionID = [], EventData_ScenarioID = [], EventData_StepID = [], EventData_Revealed = None\<rparr>"
  by (simp add: ParseEventData_def buildReplayData_def string_field_def bool_field_def)

lemma string_field_update: "k \<noteq> k' \<Longrightarrow> string_field (AList.update k v m) k' = string_field m k'"
  by (simp add: string_field_def update_conv')

lemma bool_field_update: "bool_field (AList.update k (DBool b) m) k = Some (Some b)"
  by (simp add: bool_field_def update_conv')

lemma ParseEventData_Some:
  "ParseEventData (Some m) = Some d \<longleftrightarrow>
     string_field m ''engagementId'' = Some (EventData_EngagementID d) \<and>
     string_field m ''actorId'' = Some (EventData_ActorID d) \<and>
     string_field m ''verb'' = Some (EventData_Verb d) \<and>
     string_field m ''objectType'' = Some (EventData_ObjectType d) \<and>
     string_field m ''objectId'' = Some (EventData_ObjectID d) \<and>
     string_field m ''executionId'' = Some (EventData_ExecutionID d) \<and>
     string_field m ''scenarioId'' = Some (EventData_ScenarioID d) \<and>
     string_field m ''stepId'' = Some (EventData_StepID d) \<and>
     bool_field m ''revealed'' = Some (EventData_Revealed d)"
  by (cases d) (simp add: ParseEventData_def Option.bind_eq_Some_conv)

lemma parse_stamped:
  assumes "ParseEventData (Some m) = Some d"
  shows "ParseEventData (Some (AList.update ''revealed'' (DBool True) m)) = Some (d\<lparr>EventData_Revealed := Some True\<rparr>)"
  using assms by (simp add: ParseEventData_Some string_field_update bool_field_update)

section \<open>Properties\<close>

text \<open>
  C16. The two fences of blind mode agree: for any reader and step, the predicate the repositories
  put into their queries, the filter on rows already read, and the policy's guard under the
  reader's seat all give the same answer.
\<close>

theorem blind_fences_agree:
  "sql_holds (Where \<lparr>Scope_Blind = Resource_EngagementBlind r,
        Scope_Seat = fst (MembershipIn s (Resource_EngagementID r))\<rparr> ''revealed_at IS NOT NULL'')
      ''revealed_at IS NOT NULL'' (Resource_Revealed r) =
    Permits \<lparr>Scope_Blind = Resource_EngagementBlind r, Scope_Seat = fst (MembershipIn s (Resource_EngagementID r))\<rparr>
      (Resource_Revealed r) \<and>
   Permits \<lparr>Scope_Blind = Resource_EngagementBlind r, Scope_Seat = fst (MembershipIn s (Resource_EngagementID r))\<rparr>
      (Resource_Revealed r) =
    (blocks GuardBlindMode s \<lparr>grantedBy_EngagementRole = fst (MembershipIn s (Resource_EngagementID r))\<rparr> r = None)"
  by (auto simp: sql_holds_def Where_def Permits_def Withholds_def blocks_def)

text \<open>
  C17. The live stream: an event the log fans out is held back from a reader exactly when the
  reader is blue in a blind engagement, the object hangs off a step, and the lookup says the
  step is not revealed. The lookup is only asked when the entry itself leads to a step id:
  for an execution, evidence or comment entry without a \<open>stepId\<close> parent (and the program
  records none) the event reaches the blue side whatever the step's state.
\<close>

theorem live_event_visibility:
  assumes "parent_keys e"
  shows "VisibleActivity scope \<lparr>Event_ID = rid, Event_Topic = topic, Event_Type = Entry_Verb e, Event_At = at,
           Event_Data = Some (buildEventData e (lookupRevealed lookup e))\<rparr> =
         (\<not> (Withholds scope \<and> step_scoped (Entry_ObjectType e) \<and> stepIDForEntry e \<noteq> [] \<and>
            (\<exists>isRevealed. lookup = Some isRevealed \<and> isRevealed (stepIDForEntry e) = Inr False))) \<and>
    (Entry_ObjectType e \<noteq> ObjectStep \<and> ''stepId'' \<notin> fst ` set (Entry_ParentIDs e) \<longrightarrow>
     VisibleActivity scope \<lparr>Event_ID = rid, Event_Topic = topic, Event_Type = Entry_Verb e, Event_At = at,
           Event_Data = Some (buildEventData e (lookupRevealed lookup e))\<rparr>)"
proof -
  obtain d where d: "ParseEventData (Some (buildEventData e (lookupRevealed lookup e))) = Some d"
    "EventData_ObjectType d = Entry_ObjectType e" "EventData_Revealed d = lookupRevealed lookup e"
    using parse_built [OF assms] by blast
  have "''stepId'' \<notin> fst ` set (Entry_ParentIDs e) \<Longrightarrow> map_of (Entry_ParentIDs e) ''stepId'' = None"
    by (simp add: map_of_eq_None_iff)
  moreover have "lookupRevealed lookup e = Some False \<longleftrightarrow> stepIDForEntry e \<noteq> [] \<and>
      (\<exists>isRevealed. lookup = Some isRevealed \<and> isRevealed (stepIDForEntry e) = Inr False)"
    by (auto simp: lookupRevealed_def Let_def split: option.splits sum.splits)
  ultimately show ?thesis
    by (auto simp: VisibleActivity_def visibleEventData_def d stepIDForEntry_def split: option.splits)
qed

definition hidden_execution :: Entry where
  "hidden_execution = \<lparr>Entry_EngagementID = ''e'', Entry_ActorID = ''u1'', Entry_Verb = VerbExecutionRedUpdated,
     Entry_ObjectType = ObjectExecution, Entry_ObjectID = ''x1'', Entry_ParentIDs = [], Entry_Delta = []\<rparr>"

theorem live_event_visibility_witness:
  "VisibleActivity \<lparr>Scope_Blind = True, Scope_Seat = EngagementRoleBlue\<rparr>
     \<lparr>Event_ID = ''1'', Event_Topic = ''t'', Event_Type = VerbExecutionRedUpdated, Event_At = 5,
      Event_Data = Some (buildEventData hidden_execution (lookupRevealed (Some (\<lambda>_. Inr False :: unit + bool)) hidden_execution))\<rparr>"
proof -
  have "parent_keys hidden_execution" by (simp add: parent_keys_def hidden_execution_def)
  moreover have "Entry_ObjectType hidden_execution \<noteq> ObjectStep \<and> ''stepId'' \<notin> fst ` set (Entry_ParentIDs hidden_execution)"
    "Entry_Verb hidden_execution = VerbExecutionRedUpdated"
    by (simp_all add: hidden_execution_def)
  ultimately show ?thesis using live_event_visibility [THEN conjunct2, THEN mp] by metis
qed

definition replay_step :: "Entry \<Rightarrow> 'e step_resolver option \<Rightarrow> string option" where
  "replay_step row resolve =
     (if Entry_ObjectType row = ObjectStep then Some (Entry_ObjectID row)
      else if step_scoped (Entry_ObjectType row) then
        (case resolve of
           Some res \<Rightarrow> (case res (Entry_ObjectType row) (Entry_ObjectID row) of
              Inr st \<Rightarrow> if st = [] then None else Some st | Inl err \<Rightarrow> None)
         | None \<Rightarrow> None)
      else None)"

text \<open>
  Replay, where the step behind a row is resolved and looked up again: an event is dropped
  exactly when the reader is blue in a blind engagement and the step its row resolves to is not
  revealed now (or nothing can look it up); a failed resolution or lookup lets it through. An
  event that passes the lookup carries the stamp, and the live filter agrees with the verdict.
\<close>

theorem replay_visibility:
  assumes "Event_Data ev = Some (buildReplayData row)"
  shows "(VisibleReplay scope ev resolve lookup = None) =
      (Withholds scope \<and> (\<exists>st. replay_step row resolve = Some st \<and>
         (\<forall>isRevealed. lookup = Some isRevealed \<longrightarrow> isRevealed st = Inr False))) \<and>
    (\<forall>ev'. VisibleReplay scope ev resolve lookup = Some ev' \<longrightarrow> VisibleActivity scope ev' \<and>
       ev'\<lparr>Event_Data := None\<rparr> = ev\<lparr>Event_Data := None\<rparr> \<and>
       (Withholds scope \<and> (\<exists>st isRevealed. replay_step row resolve = Some st \<and>
          lookup = Some isRevealed \<and> isRevealed st = Inr True) \<longrightarrow>
        map_option EventData_Revealed (ParseEventData (Event_Data ev')) = Some (Some True)))"
proof -
  let ?d = "\<lparr>EventData_EngagementID = Entry_EngagementID row,
     EventData_ActorID = Entry_ActorID row, EventData_Verb = Entry_Verb row,
     EventData_ObjectType = Entry_ObjectType row, EventData_ObjectID = Entry_ObjectID row,
     EventData_ExecutionID = [], EventData_ScenarioID = [], EventData_StepID = [], EventData_Revealed = None\<rparr>"
  have parse: "ParseEventData (Event_Data ev) = Some ?d"
    using assms by (simp add: parse_replay)
  have stamp: "ParseEventData (Event_Data (stampRevealed ev)) = Some (?d\<lparr>EventData_Revealed := Some True\<rparr>)"
    using parse_stamped [OF parse_replay] assms by (simp add: stampRevealed_def)
  have same: "(stampRevealed ev)\<lparr>Event_Data := None\<rparr> = ev\<lparr>Event_Data := None\<rparr>"
    by (simp add: stampRevealed_def split: option.splits)
  have shape: "VisibleReplay scope ev resolve lookup =
      (if \<not> Withholds scope then Some ev
       else case replay_step row resolve of
         None \<Rightarrow> Some ev
       | Some st \<Rightarrow> replay_verdict ev lookup st)"
  proof (cases "Entry_ObjectType row = ObjectStep \<or> \<not> step_scoped (Entry_ObjectType row)")
    case True
    then show ?thesis by (elim disjE) (simp_all add: VisibleReplay_def parse replay_step_def)
  next
    case False
    then have kind: "Entry_ObjectType row \<noteq> ObjectStep"
      "Entry_ObjectType row \<in> {ObjectExecution, ObjectEvidence, ObjectComment}"
      "step_scoped (Entry_ObjectType row)" by auto
    show ?thesis
    proof (cases resolve)
      case (Some res)
      then show ?thesis
        using kind by (cases "res (Entry_ObjectType row) (Entry_ObjectID row)") (simp_all add: VisibleReplay_def parse replay_step_def)
    qed (use kind in \<open>simp add: VisibleReplay_def parse replay_step_def\<close>)
  qed
  show ?thesis
    unfolding shape
    by (auto simp: replay_verdict_def same stamp parse VisibleActivity_def visibleEventData_def
        split: option.splits sum.splits if_splits)
qed

theorem replay_visibility_witness:
  "VisibleReplay \<lparr>Scope_Blind = True, Scope_Seat = EngagementRoleBlue\<rparr>
     \<lparr>Event_ID = ''1'', Event_Topic = ''t'', Event_Type = VerbExecutionRedUpdated, Event_At = 5,
      Event_Data = Some (buildReplayData hidden_execution)\<rparr>
     (Some (\<lambda>t i. Inr ''s1'' :: unit + string)) (Some (\<lambda>_. Inr False :: unit + bool)) = None"
  using replay_visibility [where ev = "\<lparr>Event_ID = ''1'', Event_Topic = ''t'', Event_Type = VerbExecutionRedUpdated,
      Event_At = 5, Event_Data = Some (buildReplayData hidden_execution)\<rparr>" and row = hidden_execution
      and scope = "\<lparr>Scope_Blind = True, Scope_Seat = EngagementRoleBlue\<rparr>"
      and resolve = "Some (\<lambda>t i. Inr ''s1'' :: unit + string)" and lookup = "Some (\<lambda>_. Inr False :: unit + bool)"]
  by (simp add: replay_step_def hidden_execution_def Withholds_def)

text \<open>
  Presence: after the filter, a blue reader of a blind engagement finds in a join or update
  only a step focus the lookup confirms as revealed. An execution focus survives only when
  the lookup, which answers for steps, confirms the execution's own id.
\<close>

theorem presence_focus_stripped:
  assumes "Withholds scope" "Event_Type ev \<in> {TypePresenceJoin, TypePresenceUpdate}"
    and "parsePresence (Event_Data ev) = Some pd"
  shows "parsePresence (Event_Data (FilterPresenceEvent scope ev lookup)) =
    Some (pd\<lparr>presenceData_StepID :=
               (if isStepVisible (presenceData_StepID pd) lookup then presenceData_StepID pd else []),
             presenceData_ExecutionID :=
               (if isStepVisible (presenceData_ExecutionID pd) lookup then presenceData_ExecutionID pd else [])\<rparr>)"
proof -
  have round_trip: "parsePresence (Some (marshalPresence pd')) = Some pd'" for pd'
    by (simp add: parsePresence_def marshalPresence_def string_field_def)
  have same: "pd\<lparr>presenceData_StepID := presenceData_StepID pd\<rparr> = pd"
    "pd'\<lparr>presenceData_ExecutionID := presenceData_ExecutionID pd'\<rparr> = pd'" for pd'
    by simp_all
  have kind: "(Event_Type ev \<noteq> TypePresenceJoin \<and> Event_Type ev \<noteq> TypePresenceUpdate) = False"
    using assms(2) by auto
  show ?thesis
    using assms(1)
    by (cases "presenceData_StepID pd = []"; cases "presenceData_ExecutionID pd = []";
        cases "isStepVisible (presenceData_StepID pd) lookup"; cases "isStepVisible (presenceData_ExecutionID pd) lookup")
      (simp_all add: FilterPresenceEvent_def Let_def round_trip assms(3) same kind del: de_Morgan_conj)
qed

theorem presence_focus_stripped_witness:
  "map_option presenceData_StepID (parsePresence (Event_Data (FilterPresenceEvent
     \<lparr>Scope_Blind = True, Scope_Seat = EngagementRoleBlue\<rparr>
     \<lparr>Event_ID = ''1'', Event_Topic = ''t'', Event_Type = TypePresenceJoin, Event_At = 5,
      Event_Data = Some [(''userId'', DString ''u1''), (''stepId'', DString ''s1'')]\<rparr>
     (Some (\<lambda>_. Inr False :: unit + bool))))) = Some []"
  using presence_focus_stripped [where scope = "\<lparr>Scope_Blind = True, Scope_Seat = EngagementRoleBlue\<rparr>"
      and ev = "\<lparr>Event_ID = ''1'', Event_Topic = ''t'', Event_Type = TypePresenceJoin, Event_At = 5,
        Event_Data = Some [(''userId'', DString ''u1''), (''stepId'', DString ''s1'')]\<rparr>"
      and lookup = "Some (\<lambda>_. Inr False :: unit + bool)"]
  by (simp add: Withholds_def parsePresence_def string_field_def isStepVisible_def)

end
