(* ===== verification/Workbook_Store.thy ===== *)
theory Workbook_Store
  imports Identity Blind Scoring
begin

text \<open>
  The workbook's tables (internal/store/engagement: engagement.go, engagements.go, scenarios.go,
  steps.go, executions.go). \<open>EDB\<close> adds the four tables to the identity database; a row is the Go
  struct. Writes are serialized transactions: a database error or the error of a hook leaves the
  database before it. A statement fails where the schema (0016_app_domain.sql) makes it fail:
  a primary key or UNIQUE column taken, a missing parent row, a CHECK; the constraints are
  checked as each statement ends. JSON columns hold their text, a list of modifiers its decoded
  array. Fresh identifiers and clock readings are arguments.
\<close>

section \<open>Enumerations (engagement.go)\<close>

type_synonym EngagementStatus = string

abbreviation EngagementStatusDraft :: EngagementStatus where "EngagementStatusDraft \<equiv> ''draft''"
abbreviation EngagementStatusActive :: EngagementStatus where "EngagementStatusActive \<equiv> ''active''"
abbreviation EngagementStatusClosed :: EngagementStatus where "EngagementStatusClosed \<equiv> ''closed''"
abbreviation EngagementStatusArchived :: EngagementStatus where "EngagementStatusArchived \<equiv> ''archived''"

definition EngagementStatus_Valid :: "EngagementStatus \<Rightarrow> bool" where
  "EngagementStatus_Valid s \<longleftrightarrow>
     s \<in> {EngagementStatusDraft, EngagementStatusActive, EngagementStatusClosed, EngagementStatusArchived}"

type_synonym EngagementMode = string

abbreviation EngagementModeStandard :: EngagementMode where "EngagementModeStandard \<equiv> ''standard''"
abbreviation EngagementModeBlind :: EngagementMode where "EngagementModeBlind \<equiv> ''blind''"

definition EngagementMode_Valid :: "EngagementMode \<Rightarrow> bool" where
  "EngagementMode_Valid m \<longleftrightarrow> m = EngagementModeStandard \<or> m = EngagementModeBlind"

type_synonym ScenarioSource = string

abbreviation ScenarioSourceManual :: ScenarioSource where "ScenarioSourceManual \<equiv> ''manual''"
abbreviation ScenarioSourceCTID :: ScenarioSource where "ScenarioSourceCTID \<equiv> ''ctid''"
abbreviation ScenarioSourceImported :: ScenarioSource where "ScenarioSourceImported \<equiv> ''imported''"

definition ScenarioSource_Valid :: "ScenarioSource \<Rightarrow> bool" where
  "ScenarioSource_Valid s \<longleftrightarrow> s \<in> {ScenarioSourceManual, ScenarioSourceCTID, ScenarioSourceImported}"

type_synonym ExecutionStatus = string

abbreviation ExecutionStatusPending :: ExecutionStatus where "ExecutionStatusPending \<equiv> ''pending''"
abbreviation ExecutionStatusRunning :: ExecutionStatus where "ExecutionStatusRunning \<equiv> ''running''"
abbreviation ExecutionStatusComplete :: ExecutionStatus where "ExecutionStatusComplete \<equiv> ''complete''"
abbreviation ExecutionStatusBlocked :: ExecutionStatus where "ExecutionStatusBlocked \<equiv> ''blocked''"
abbreviation ExecutionStatusSkipped :: ExecutionStatus where "ExecutionStatusSkipped \<equiv> ''skipped''"

definition ExecutionStatus_Valid :: "ExecutionStatus \<Rightarrow> bool" where
  "ExecutionStatus_Valid s \<longleftrightarrow> s \<in> {ExecutionStatusPending, ExecutionStatusRunning, ExecutionStatusComplete,
     ExecutionStatusBlocked, ExecutionStatusSkipped}"

section \<open>Rows\<close>

record Engagement =
  Engagement_ID :: string
  Engagement_Name :: string
  Engagement_Client :: string
  Engagement_Description :: string
  Engagement_Status :: EngagementStatus
  Engagement_StartsOn :: gotime
  Engagement_EndsOn :: gotime
  Engagement_AttackVersion :: string
  Engagement_Mode :: EngagementMode
  Engagement_AutoRevealOnStart :: bool
  Engagement_CreatedBy :: string
  Engagement_CreatedAt :: gotime
  Engagement_UpdatedAt :: gotime

record NewEngagement =
  NewEngagement_Name :: string
  NewEngagement_Client :: string
  NewEngagement_Description :: string
  NewEngagement_StartsOn :: gotime
  NewEngagement_EndsOn :: gotime
  NewEngagement_AttackVersion :: string
  NewEngagement_Mode :: EngagementMode
  NewEngagement_AutoRevealOnStart :: bool
  NewEngagement_CreatedBy :: string

record Scenario =
  Scenario_ID :: string
  Scenario_EngagementID :: string
  Scenario_Ordinal :: int
  Scenario_Name :: string
  Scenario_Narrative :: string
  Scenario_Source :: ScenarioSource
  Scenario_ThreatActor :: string
  Scenario_SourceRef :: string
  Scenario_PlanID :: string
  Scenario_CreatedAt :: gotime
  Scenario_UpdatedAt :: gotime

record NewScenario =
  NewScenario_EngagementID :: string
  NewScenario_Ordinal :: int
  NewScenario_Name :: string
  NewScenario_Narrative :: string
  NewScenario_Source :: ScenarioSource
  NewScenario_ThreatActor :: string
  NewScenario_SourceRef :: string
  NewScenario_PlanID :: string

record Step_row =
  Step_ID :: string
  Step_ScenarioID :: string
  Step_Ordinal :: int
  Step_Name :: string
  Step_Objective :: string
  Step_TechniqueID :: string
  Step_SubtechniqueID :: string
  Step_TacticID :: string
  Step_Procedure :: string
  Step_TemplateID :: string
  Step_TargetAsset :: string
  Step_Tools :: string
  Step_ControlsInScope :: string
  Step_AttackVersion :: string
  Step_RevealedAt :: "gotime option"
  Step_CreatedAt :: gotime
  Step_UpdatedAt :: gotime

record NewStep =
  NewStep_ScenarioID :: string
  NewStep_Ordinal :: int
  NewStep_Name :: string
  NewStep_Objective :: string
  NewStep_TechniqueID :: string
  NewStep_SubtechniqueID :: string
  NewStep_TacticID :: string
  NewStep_Procedure :: string
  NewStep_TemplateID :: string
  NewStep_TargetAsset :: string
  NewStep_Tools :: string
  NewStep_ControlsInScope :: string
  NewStep_AttackVersion :: string

record Execution =
  Execution_ID :: string
  Execution_StepID :: string
  Execution_Version :: int
  Execution_Status :: ExecutionStatus
  Execution_ExecutedBy :: string
  Execution_StartedAt :: "gotime option"
  Execution_EndedAt :: "gotime option"
  Execution_CommandRun :: string
  Execution_SourceHost :: string
  Execution_TargetHost :: string
  Execution_RedNotes :: string
  Execution_DetectionCategory :: "Category option"
  Execution_DetectionModifiers :: "string list"
  Execution_Protection :: "Protection option"
  Execution_DetectedAt :: "gotime option"
  Execution_DetectingSource :: string
  Execution_DetectingRuleRef :: string
  Execution_AlertSeverity :: string
  Execution_BlueNotes :: string
  Execution_ScoredBy :: string
  Execution_ScoredAt :: "gotime option"
  Execution_CreatedAt :: gotime
  Execution_UpdatedAt :: gotime

record EDB =
  EDB_identity :: IDB
  EDB_engagements :: "Engagement list"
  EDB_scenarios :: "Scenario list"
  EDB_steps :: "Step_row list"
  EDB_executions :: "Execution list"

section \<open>Shared helpers\<close>

text \<open>A write transaction whose error is passed on as it is.\<close>

definition write_tx :: "error + ('a \<times> 'd) \<Rightarrow> 'd \<Rightarrow> (error + 'a) \<times> 'd" where
  "write_tx body db = (case body of Inl err \<Rightarrow> (Inl err, db) | Inr (a, db') \<Rightarrow> (Inr a, db'))"

lemma write_tx_simps [simp]:
  "write_tx (Inl err) db = (Inl err, db)"
  "write_tx (Inr (a, db')) db = (Inr a, db')"
  by (simp_all add: write_tx_def)

definition constraintError :: "string \<Rightarrow> error" where
  "constraintError what = ErrorsNew (''Constraint Error: '' @ what)"

text \<open>The helper of this package lets more than one row pass.\<close>

definition workbook_requireOneRow :: "nat \<Rightarrow> string \<Rightarrow> string \<Rightarrow> error option" where
  "workbook_requireOneRow affected res rid = (if affected = 0 then Some (NotFound res rid) else None)"

definition bindJSON :: "string \<Rightarrow> string" where
  "bindJSON raw = (if raw = [] then ''[]'' else raw)"

definition bindJSONObject :: "string \<Rightarrow> string" where
  "bindJSONObject raw = (if raw = [] then ''{}'' else raw)"

text \<open>A DATE column keeps the day.\<close>

definition toDate :: "gotime \<Rightarrow> gotime" where
  "toDate t = Truncate t (24 * 60 * Minute)"

text \<open>One row appended to a table with a primary key, or the statement's error.\<close>

definition insert_row :: "('r \<Rightarrow> string) \<Rightarrow> 'r \<Rightarrow> 'r list \<Rightarrow> error + 'r list" where
  "insert_row key r rows =
     (if key r \<in> set (map key rows) then Inl (constraintError ''duplicate key'') else Inr (rows @ [r]))"

section \<open>Engagements (engagements.go)\<close>

definition Engagements_ByID :: "string \<Rightarrow> EDB \<Rightarrow> error + Engagement" where
  "Engagements_ByID eid db =
     (case select1 (\<lambda>e. Engagement_ID e = eid) (EDB_engagements db) of
        None \<Rightarrow> Inl (ErrorfW (''engagement: read '' @ Quote eid) SqlNoRows)
      | Some e \<Rightarrow> Inr e)"

definition Engagements_Create :: "string \<Rightarrow> gotime \<Rightarrow> NewEngagement \<Rightarrow> EDB after list \<Rightarrow> EDB \<Rightarrow>
    (error + Engagement) \<times> EDB" where
  "Engagements_Create newID clock inp after db =
     (let ts = toStorage clock;
          result = \<lparr>Engagement_ID = newID, Engagement_Name = NewEngagement_Name inp,
            Engagement_Client = NewEngagement_Client inp, Engagement_Description = NewEngagement_Description inp,
            Engagement_Status = EngagementStatusDraft, Engagement_StartsOn = toStorage (NewEngagement_StartsOn inp),
            Engagement_EndsOn = toStorage (NewEngagement_EndsOn inp),
            Engagement_AttackVersion = NewEngagement_AttackVersion inp, Engagement_Mode = NewEngagement_Mode inp,
            Engagement_AutoRevealOnStart = NewEngagement_AutoRevealOnStart inp,
            Engagement_CreatedBy = NewEngagement_CreatedBy inp, Engagement_CreatedAt = ts, Engagement_UpdatedAt = ts\<rparr>;
          stored = result\<lparr>Engagement_StartsOn := toDate (Engagement_StartsOn result),
                          Engagement_EndsOn := toDate (Engagement_EndsOn result)\<rparr>
      in write_tx
           (if \<not> EngagementMode_Valid (Engagement_Mode result)
            then Inl (ErrorfW ''engagement: insert'' (constraintError ''engagement_mode_known''))
            else case insert_row Engagement_ID stored (EDB_engagements db) of
              Inl err \<Rightarrow> Inl (ErrorfW ''engagement: insert'' err)
            | Inr rows \<Rightarrow>
                (case runAfter newID after (db\<lparr>EDB_engagements := rows\<rparr>) of
                   Inl err \<Rightarrow> Inl err | Inr db' \<Rightarrow> Inr (result, db'))) db)"

record UpdateChanges =
  UpdateChanges_Name :: string
  UpdateChanges_Client :: string
  UpdateChanges_Description :: string
  UpdateChanges_StartsOn :: gotime
  UpdateChanges_EndsOn :: gotime
  UpdateChanges_AttackVersion :: string
  UpdateChanges_Mode :: EngagementMode
  UpdateChanges_AutoRevealOnStart :: bool

definition Engagements_Update :: "string \<Rightarrow> gotime \<Rightarrow> UpdateChanges \<Rightarrow> EDB after list \<Rightarrow> EDB \<Rightarrow>
    (error + Engagement) \<times> EDB" where
  "Engagements_Update eid clock changes after db =
     (let ts = toStorage clock;
          rows = update_where (\<lambda>e. Engagement_ID e = eid)
            (\<lambda>e. e\<lparr>Engagement_Name := UpdateChanges_Name changes, Engagement_Client := UpdateChanges_Client changes,
                   Engagement_Description := UpdateChanges_Description changes,
                   Engagement_StartsOn := toDate (UpdateChanges_StartsOn changes),
                   Engagement_EndsOn := toDate (UpdateChanges_EndsOn changes),
                   Engagement_AttackVersion := UpdateChanges_AttackVersion changes,
                   Engagement_Mode := UpdateChanges_Mode changes,
                   Engagement_AutoRevealOnStart := UpdateChanges_AutoRevealOnStart changes,
                   Engagement_UpdatedAt := ts\<rparr>) (EDB_engagements db)
      in write_tx
           (if \<not> EngagementMode_Valid (UpdateChanges_Mode changes) \<and>
               count_where (\<lambda>e. Engagement_ID e = eid) (EDB_engagements db) > 0
            then Inl (ErrorfW (''engagement: update '' @ Quote eid) (constraintError ''engagement_mode_known''))
            else case select1 (\<lambda>e. Engagement_ID e = eid) rows of
              None \<Rightarrow> Inl (ErrorfW (''engagement: re-read after update '' @ Quote eid) SqlNoRows)
            | Some result \<Rightarrow>
                (case runAfter eid after (db\<lparr>EDB_engagements := rows\<rparr>) of
                   Inl err \<Rightarrow> Inl err | Inr db' \<Rightarrow> Inr (result, db'))) db)"

definition Engagements_SetStatus :: "string \<Rightarrow> gotime \<Rightarrow> EngagementStatus \<Rightarrow> EDB after list \<Rightarrow> EDB \<Rightarrow>
    (error + Engagement) \<times> EDB" where
  "Engagements_SetStatus eid clock status after db =
     (let ts = toStorage clock;
          affected = count_where (\<lambda>e. Engagement_ID e = eid) (EDB_engagements db);
          rows = update_where (\<lambda>e. Engagement_ID e = eid)
            (\<lambda>e. e\<lparr>Engagement_Status := status, Engagement_UpdatedAt := ts\<rparr>) (EDB_engagements db)
      in write_tx
           (if \<not> EngagementStatus_Valid status \<and> affected > 0
            then Inl (ErrorfW (''engagement: set status '' @ Quote eid) (constraintError ''engagement_status_known''))
            else case workbook_requireOneRow affected ''engagement'' eid of
              Some err \<Rightarrow> Inl err
            | None \<Rightarrow>
                (case select1 (\<lambda>e. Engagement_ID e = eid) rows of
                   None \<Rightarrow> Inl (ErrorfW (''engagement: re-read after set status '' @ Quote eid) SqlNoRows)
                 | Some result \<Rightarrow>
                     (case runAfter eid after (db\<lparr>EDB_engagements := rows\<rparr>) of
                        Inl err \<Rightarrow> Inl err | Inr db' \<Rightarrow> Inr (result, db')))) db)"

text \<open>The scenarios of an engagement and the steps under them.\<close>

definition scenario_ids :: "string \<Rightarrow> EDB \<Rightarrow> string list" where
  "scenario_ids eid db = map Scenario_ID (filter (\<lambda>s. Scenario_EngagementID s = eid) (EDB_scenarios db))"

definition CountSteps :: "string \<Rightarrow> EDB \<Rightarrow> nat" where
  "CountSteps eid db = count_where (\<lambda>s. Step_ScenarioID s \<in> set (scenario_ids eid db)) (EDB_steps db)"

record store_ListFilter =
  ListFilter_Status :: string
  ListFilter_After :: string
  ListFilter_Limit :: int
  ListFilter_MemberID :: string

text \<open>ORDER BY created_at DESC, id DESC, after the cursor's row when it names one.\<close>

definition Engagements_List :: "store_ListFilter \<Rightarrow> EDB \<Rightarrow> Engagement list" where
  "Engagements_List f db =
     (let mine = (\<lambda>e. ListFilter_MemberID f = [] \<or>
            (\<exists>m\<in>set (IDB_members (EDB_identity db)). Membership_UserID m = ListFilter_MemberID f \<and>
               Membership_EngagementID m = Engagement_ID e));
          later = (\<lambda>e. ListFilter_After f = [] \<or>
            (case select1 (\<lambda>c. Engagement_ID c = ListFilter_After f) (EDB_engagements db) of
               None \<Rightarrow> False
             | Some c \<Rightarrow> Engagement_CreatedAt e < Engagement_CreatedAt c \<or>
                 Engagement_CreatedAt e = Engagement_CreatedAt c \<and> Engagement_ID e < ListFilter_After f));
          status = (\<lambda>e. ListFilter_Status f = [] \<or> Engagement_Status e = ListFilter_Status f);
          limit = (if ListFilter_Limit f \<le> 0 then 50 else ListFilter_Limit f)
      in take (nat limit)
           (rev (sort_key Engagement_CreatedAt (sort_key Engagement_ID
              (filter (\<lambda>e. mine e \<and> later e \<and> status e) (EDB_engagements db))))))"

section \<open>Scenarios (scenarios.go)\<close>

text \<open>The UNIQUE constraint on a parent and an ordinal, checked as a statement ends.\<close>

definition ordinals_unique :: "('r \<Rightarrow> string) \<Rightarrow> ('r \<Rightarrow> int) \<Rightarrow> 'r list \<Rightarrow> bool" where
  "ordinals_unique parent ordinal rows \<longleftrightarrow> distinct (map (\<lambda>r. (parent r, ordinal r)) rows)"

text \<open>\<open>MAX(ordinal) + 1\<close>, or 1 when there is none.\<close>

definition next_ordinal :: "int list \<Rightarrow> int" where
  "next_ordinal ords = (if ords = [] then 1 else Max (set ords) + 1)"

definition Scenarios_ByID :: "string \<Rightarrow> EDB \<Rightarrow> error + Scenario" where
  "Scenarios_ByID sid db =
     (case select1 (\<lambda>s. Scenario_ID s = sid) (EDB_scenarios db) of
        None \<Rightarrow> Inl (ErrorfW (''scenario: read '' @ Quote sid) (NotFound ''scenario'' ''(id)''))
      | Some s \<Rightarrow> Inr s)"

definition Scenarios_ListByEngagement :: "string \<Rightarrow> EDB \<Rightarrow> Scenario list" where
  "Scenarios_ListByEngagement eid db =
     sort_key Scenario_Ordinal (filter (\<lambda>s. Scenario_EngagementID s = eid) (EDB_scenarios db))"

definition Scenarios_NextOrdinal :: "string \<Rightarrow> EDB \<Rightarrow> int" where
  "Scenarios_NextOrdinal eid db =
     next_ordinal (map Scenario_Ordinal (filter (\<lambda>s. Scenario_EngagementID s = eid) (EDB_scenarios db)))"

definition Scenarios_Create :: "string \<Rightarrow> gotime \<Rightarrow> NewScenario \<Rightarrow> EDB after list \<Rightarrow> EDB \<Rightarrow>
    (error + Scenario) \<times> EDB" where
  "Scenarios_Create newID clock inp after db =
     (let ts = toStorage clock;
          result = \<lparr>Scenario_ID = newID, Scenario_EngagementID = NewScenario_EngagementID inp,
            Scenario_Ordinal = NewScenario_Ordinal inp, Scenario_Name = NewScenario_Name inp,
            Scenario_Narrative = NewScenario_Narrative inp, Scenario_Source = NewScenario_Source inp,
            Scenario_ThreatActor = NewScenario_ThreatActor inp, Scenario_SourceRef = NewScenario_SourceRef inp,
            Scenario_PlanID = NewScenario_PlanID inp, Scenario_CreatedAt = ts, Scenario_UpdatedAt = ts\<rparr>
      in write_tx
           (case insert_row Scenario_ID result (EDB_scenarios db) of
              Inl err \<Rightarrow> Inl (ErrorfW ''scenario: insert'' err)
            | Inr rows \<Rightarrow>
                if NewScenario_EngagementID inp \<notin> set (map Engagement_ID (EDB_engagements db)) \<or>
                   \<not> ordinals_unique Scenario_EngagementID Scenario_Ordinal rows \<or>
                   \<not> ScenarioSource_Valid (NewScenario_Source inp)
                then Inl (ErrorfW ''scenario: insert'' (constraintError ''app.scenario''))
                else case runAfter newID after (db\<lparr>EDB_scenarios := rows\<rparr>) of
                       Inl err \<Rightarrow> Inl err | Inr db' \<Rightarrow> Inr (result, db')) db)"

record ScenarioUpdateChanges =
  ScenarioUpdateChanges_Name :: string
  ScenarioUpdateChanges_Narrative :: string
  ScenarioUpdateChanges_ThreatActor :: string

definition Scenarios_Update :: "string \<Rightarrow> gotime \<Rightarrow> ScenarioUpdateChanges \<Rightarrow> EDB after list \<Rightarrow> EDB \<Rightarrow>
    (error + Scenario) \<times> EDB" where
  "Scenarios_Update sid clock changes after db =
     (let ts = toStorage clock;
          rows = update_where (\<lambda>s. Scenario_ID s = sid)
            (\<lambda>s. s\<lparr>Scenario_Name := ScenarioUpdateChanges_Name changes,
                   Scenario_Narrative := ScenarioUpdateChanges_Narrative changes,
                   Scenario_ThreatActor := ScenarioUpdateChanges_ThreatActor changes,
                   Scenario_UpdatedAt := ts\<rparr>) (EDB_scenarios db)
      in write_tx
           (case select1 (\<lambda>s. Scenario_ID s = sid) rows of
              None \<Rightarrow> Inl (ErrorfW (''scenario: re-read after update '' @ Quote sid) (NotFound ''scenario'' ''(id)''))
            | Some result \<Rightarrow>
                (case runAfter sid after (db\<lparr>EDB_scenarios := rows\<rparr>) of
                   Inl err \<Rightarrow> Inl err | Inr db' \<Rightarrow> Inr (result, db'))) db)"

text \<open>
  One UPDATE per identifier: position i of the list becomes ordinal i + 1. \<open>Scenarios.Reorder\<close> and
  \<open>Steps.Reorder\<close> run this same loop over their tables; \<open>place\<close> is the SET clause.
\<close>

fun Reorder_loop :: "string \<Rightarrow> ('r \<Rightarrow> string) \<Rightarrow> ('r \<Rightarrow> string) \<Rightarrow> ('r \<Rightarrow> int) \<Rightarrow> (int \<Rightarrow> 'r \<Rightarrow> 'r) \<Rightarrow>
    nat \<Rightarrow> string list \<Rightarrow> 'r list \<Rightarrow> error + 'r list" where
  "Reorder_loop what key parent ord place i [] rows = Inr rows"
| "Reorder_loop what key parent ord place i (rid # ids) rows =
     (let ordinal = int i + 1;
          rows' = update_where (\<lambda>r. key r = rid) (place ordinal) rows
      in if \<not> ordinals_unique parent ord rows'
         then Inl (ErrorfW (what @ '': reorder '' @ Quote rid @ '' -> '' @ Itoa ordinal)
                (constraintError (what @ ''_ordinal_unique'')))
         else Reorder_loop what key parent ord place (Suc i) ids rows')"

definition place_scenario :: "gotime \<Rightarrow> int \<Rightarrow> Scenario \<Rightarrow> Scenario" where
  "place_scenario ts ordinal s = s\<lparr>Scenario_Ordinal := ordinal, Scenario_UpdatedAt := ts\<rparr>"

definition Scenarios_Reorder :: "gotime \<Rightarrow> string list \<Rightarrow> EDB \<Rightarrow> error option \<times> EDB" where
  "Scenarios_Reorder clock ids db =
     (case Reorder_loop ''scenario'' Scenario_ID Scenario_EngagementID Scenario_Ordinal
             (place_scenario (toStorage clock)) 0 ids (EDB_scenarios db) of
        Inl err \<Rightarrow> (Some err, db)
      | Inr rows \<Rightarrow> (None, db\<lparr>EDB_scenarios := rows\<rparr>))"

section \<open>Steps (steps.go)\<close>

definition Steps_ByID :: "string \<Rightarrow> EDB \<Rightarrow> error + Step_row" where
  "Steps_ByID sid db =
     (case select1 (\<lambda>s. Step_ID s = sid) (EDB_steps db) of
        None \<Rightarrow> Inl (ErrorfW (''step: read '' @ Quote sid) SqlNoRows)
      | Some s \<Rightarrow> Inr s)"

abbreviation revealed_column :: string where "revealed_column \<equiv> ''revealed_at IS NOT NULL''"

definition Steps_ListByScenario :: "string \<Rightarrow> blind_Scope \<Rightarrow> EDB \<Rightarrow> Step_row list" where
  "Steps_ListByScenario scenarioID scope db =
     sort_key Step_Ordinal
       (filter (\<lambda>s. Step_ScenarioID s = scenarioID \<and>
            sql_holds (Where scope revealed_column) revealed_column (Step_RevealedAt s \<noteq> None)) (EDB_steps db))"

definition Steps_ListByEngagement :: "string \<Rightarrow> blind_Scope \<Rightarrow> EDB \<Rightarrow> Step_row list" where
  "Steps_ListByEngagement eid scope db =
     concat (map (\<lambda>sc. Steps_ListByScenario (Scenario_ID sc) scope db) (Scenarios_ListByEngagement eid db))"

definition Steps_NextOrdinal :: "string \<Rightarrow> EDB \<Rightarrow> int" where
  "Steps_NextOrdinal scenarioID db =
     next_ordinal (map Step_Ordinal (filter (\<lambda>s. Step_ScenarioID s = scenarioID) (EDB_steps db)))"

definition Steps_CreateWithExecution :: "string \<Rightarrow> string \<Rightarrow> gotime \<Rightarrow> NewStep \<Rightarrow> EDB after list \<Rightarrow> EDB \<Rightarrow>
    (error + (Step_row \<times> Execution)) \<times> EDB" where
  "Steps_CreateWithExecution stepID execID clock inp after db =
     (let ts = toStorage clock;
          step = \<lparr>Step_ID = stepID, Step_ScenarioID = NewStep_ScenarioID inp, Step_Ordinal = NewStep_Ordinal inp,
            Step_Name = NewStep_Name inp, Step_Objective = NewStep_Objective inp,
            Step_TechniqueID = NewStep_TechniqueID inp, Step_SubtechniqueID = NewStep_SubtechniqueID inp,
            Step_TacticID = NewStep_TacticID inp, Step_Procedure = NewStep_Procedure inp,
            Step_TemplateID = NewStep_TemplateID inp, Step_TargetAsset = NewStep_TargetAsset inp,
            Step_Tools = NewStep_Tools inp, Step_ControlsInScope = NewStep_ControlsInScope inp,
            Step_AttackVersion = NewStep_AttackVersion inp, Step_RevealedAt = None,
            Step_CreatedAt = ts, Step_UpdatedAt = ts\<rparr>;
          stored = step\<lparr>Step_Procedure := bindJSONObject (Step_Procedure step),
            Step_Tools := bindJSON (Step_Tools step), Step_ControlsInScope := bindJSON (Step_ControlsInScope step)\<rparr>;
          exec = \<lparr>Execution_ID = execID, Execution_StepID = stepID, Execution_Version = 1,
            Execution_Status = ExecutionStatusPending, Execution_ExecutedBy = [], Execution_StartedAt = None,
            Execution_EndedAt = None, Execution_CommandRun = [], Execution_SourceHost = [],
            Execution_TargetHost = [], Execution_RedNotes = [], Execution_DetectionCategory = None,
            Execution_DetectionModifiers = [], Execution_Protection = None, Execution_DetectedAt = None,
            Execution_DetectingSource = [], Execution_DetectingRuleRef = [], Execution_AlertSeverity = [],
            Execution_BlueNotes = [], Execution_ScoredBy = [], Execution_ScoredAt = None,
            Execution_CreatedAt = ts, Execution_UpdatedAt = ts\<rparr>
      in write_tx
           (case insert_row Step_ID stored (EDB_steps db) of
              Inl err \<Rightarrow> Inl (ErrorfW ''step: insert'' err)
            | Inr steps \<Rightarrow>
                if NewStep_ScenarioID inp \<notin> set (map Scenario_ID (EDB_scenarios db)) \<or>
                   \<not> ordinals_unique Step_ScenarioID Step_Ordinal steps
                then Inl (ErrorfW ''step: insert'' (constraintError ''app.step''))
                else case insert_row Execution_ID exec (EDB_executions db) of
                  Inl err \<Rightarrow> Inl (ErrorfW ''step: insert execution'' err)
                | Inr execs \<Rightarrow>
                    if \<not> distinct (map Execution_StepID execs)
                    then Inl (ErrorfW ''step: insert execution'' (constraintError ''app.execution''))
                    else case runAfter stepID after (db\<lparr>EDB_steps := steps, EDB_executions := execs\<rparr>) of
                           Inl err \<Rightarrow> Inl err | Inr db' \<Rightarrow> Inr ((step, exec), db')) db)"

record StepUpdateChanges =
  StepUpdateChanges_Name :: string
  StepUpdateChanges_Objective :: string
  StepUpdateChanges_TargetAsset :: string
  StepUpdateChanges_Tools :: string
  StepUpdateChanges_ControlsInScope :: string

text \<open>A missing step is not an error of the transaction; the read afterwards reports it.\<close>

definition Steps_Update :: "string \<Rightarrow> gotime \<Rightarrow> StepUpdateChanges \<Rightarrow> EDB after list \<Rightarrow> EDB \<Rightarrow>
    (error + Step_row) \<times> EDB" where
  "Steps_Update sid clock changes after db =
     (let ts = toStorage clock;
          rows = update_where (\<lambda>s. Step_ID s = sid)
            (\<lambda>s. s\<lparr>Step_Name := StepUpdateChanges_Name changes, Step_Objective := StepUpdateChanges_Objective changes,
                   Step_TargetAsset := StepUpdateChanges_TargetAsset changes,
                   Step_Tools := bindJSON (StepUpdateChanges_Tools changes),
                   Step_ControlsInScope := bindJSON (StepUpdateChanges_ControlsInScope changes),
                   Step_UpdatedAt := ts\<rparr>) (EDB_steps db)
      in case runAfter sid after (db\<lparr>EDB_steps := rows\<rparr>) of
           Inl err \<Rightarrow> (Inl err, db)
         | Inr db' \<Rightarrow> (Steps_ByID sid db', db'))"

definition place_step :: "gotime \<Rightarrow> int \<Rightarrow> Step_row \<Rightarrow> Step_row" where
  "place_step ts ordinal s = s\<lparr>Step_Ordinal := ordinal, Step_UpdatedAt := ts\<rparr>"

definition Steps_Reorder :: "gotime \<Rightarrow> string list \<Rightarrow> EDB \<Rightarrow> error option \<times> EDB" where
  "Steps_Reorder clock ids db =
     (case Reorder_loop ''step'' Step_ID Step_ScenarioID Step_Ordinal
             (place_step (toStorage clock)) 0 ids (EDB_steps db) of
        Inl err \<Rightarrow> (Some err, db)
      | Inr rows \<Rightarrow> (None, db\<lparr>EDB_steps := rows\<rparr>))"

definition Steps_Reveal :: "string \<Rightarrow> gotime \<Rightarrow> EDB \<Rightarrow> (error + Step_row) \<times> EDB" where
  "Steps_Reveal sid clock db =
     (let ts = toStorage clock;
          db' = db\<lparr>EDB_steps := update_where (\<lambda>s. Step_ID s = sid \<and> Step_RevealedAt s = None)
                    (\<lambda>s. s\<lparr>Step_RevealedAt := Some ts, Step_UpdatedAt := ts\<rparr>) (EDB_steps db)\<rparr>
      in (Steps_ByID sid db', db'))"

section \<open>Executions (executions.go)\<close>

definition Executions_ByID :: "string \<Rightarrow> EDB \<Rightarrow> error + Execution" where
  "Executions_ByID xid db =
     (case select1 (\<lambda>x. Execution_ID x = xid) (EDB_executions db) of
        None \<Rightarrow> Inl (ErrorfW (''execution: read '' @ Quote xid) (NotFound ''execution'' ''(id)''))
      | Some x \<Rightarrow> Inr x)"

text \<open>The package's own error type; it carries no problem code.\<close>

definition versionConflictError :: error where
  "versionConflictError = ErrorsNew ''version conflict''"

text \<open>A pointer that is nil leaves the column alone.\<close>

definition set_field :: "'v option \<Rightarrow> ('v \<Rightarrow> 'r \<Rightarrow> 'r) \<Rightarrow> 'r \<Rightarrow> 'r" where
  "set_field v f r = (case v of None \<Rightarrow> r | Some x \<Rightarrow> f x r)"

record RedPatchChanges =
  RedPatch_Status :: "ExecutionStatus option"
  RedPatch_StartedAt :: "gotime option"
  RedPatch_EndedAt :: "gotime option"
  RedPatch_CommandRun :: "string option"
  RedPatch_SourceHost :: "string option"
  RedPatch_TargetHost :: "string option"
  RedPatch_RedNotes :: "string option"
  RedPatch_ExecutedBy :: "string option"

definition red_sets :: "RedPatchChanges \<Rightarrow> Execution \<Rightarrow> Execution" where
  "red_sets c x =
     (let x = set_field (RedPatch_Status c) (\<lambda>v x. x\<lparr>Execution_Status := v\<rparr>) x;
          x = set_field (RedPatch_StartedAt c) (\<lambda>v x. x\<lparr>Execution_StartedAt := Some (toStorage v)\<rparr>) x;
          x = set_field (RedPatch_EndedAt c) (\<lambda>v x. x\<lparr>Execution_EndedAt := Some (toStorage v)\<rparr>) x;
          x = set_field (RedPatch_CommandRun c) (\<lambda>v x. x\<lparr>Execution_CommandRun := v\<rparr>) x;
          x = set_field (RedPatch_SourceHost c) (\<lambda>v x. x\<lparr>Execution_SourceHost := v\<rparr>) x;
          x = set_field (RedPatch_TargetHost c) (\<lambda>v x. x\<lparr>Execution_TargetHost := v\<rparr>) x;
          x = set_field (RedPatch_RedNotes c) (\<lambda>v x. x\<lparr>Execution_RedNotes := v\<rparr>) x
      in set_field (RedPatch_ExecutedBy c) (\<lambda>v x. x\<lparr>Execution_ExecutedBy := v\<rparr>) x)"

record BluePatchChanges =
  BluePatch_DetectionCategory :: "Category option"
  BluePatch_DetectionModifiers :: "string list option"
  BluePatch_Protection :: "Protection option"
  BluePatch_DetectedAt :: "gotime option"
  BluePatch_DetectingSource :: "string option"
  BluePatch_DetectingRuleRef :: "string option"
  BluePatch_AlertSeverity :: "string option"
  BluePatch_BlueNotes :: "string option"
  BluePatch_ScoredBy :: "string option"
  BluePatch_ScoredAt :: "gotime option"

definition blue_sets :: "BluePatchChanges \<Rightarrow> Execution \<Rightarrow> Execution" where
  "blue_sets c x =
     (let x = set_field (BluePatch_DetectionCategory c) (\<lambda>v x. x\<lparr>Execution_DetectionCategory := Some v\<rparr>) x;
          x = set_field (BluePatch_DetectionModifiers c) (\<lambda>v x. x\<lparr>Execution_DetectionModifiers := v\<rparr>) x;
          x = set_field (BluePatch_Protection c) (\<lambda>v x. x\<lparr>Execution_Protection := Some v\<rparr>) x;
          x = set_field (BluePatch_DetectedAt c) (\<lambda>v x. x\<lparr>Execution_DetectedAt := Some (toStorage v)\<rparr>) x;
          x = set_field (BluePatch_DetectingSource c) (\<lambda>v x. x\<lparr>Execution_DetectingSource := v\<rparr>) x;
          x = set_field (BluePatch_DetectingRuleRef c) (\<lambda>v x. x\<lparr>Execution_DetectingRuleRef := v\<rparr>) x;
          x = set_field (BluePatch_AlertSeverity c) (\<lambda>v x. x\<lparr>Execution_AlertSeverity := v\<rparr>) x;
          x = set_field (BluePatch_BlueNotes c) (\<lambda>v x. x\<lparr>Execution_BlueNotes := v\<rparr>) x;
          x = set_field (BluePatch_ScoredBy c) (\<lambda>v x. x\<lparr>Execution_ScoredBy := v\<rparr>) x
      in set_field (BluePatch_ScoredAt c) (\<lambda>v x. x\<lparr>Execution_ScoredAt := Some (toStorage v)\<rparr>) x)"

text \<open>The CHECK constraints of the table.\<close>

definition execution_known :: "Execution \<Rightarrow> bool" where
  "execution_known x \<longleftrightarrow> ExecutionStatus_Valid (Execution_Status x) \<and>
     (case Execution_DetectionCategory x of None \<Rightarrow> True | Some c \<Rightarrow> Category_Valid c) \<and>
     (case Execution_Protection x of None \<Rightarrow> True | Some p \<Rightarrow> Protection_Valid p)"

text \<open>
  What \<open>PatchRed\<close> and \<open>PatchBlue\<close> share: the UPDATE keyed on identifier and version, the version
  conflict when it matched nothing, the re-read.
\<close>

definition patch_execution :: "string \<Rightarrow> string \<Rightarrow> int \<Rightarrow> (Execution \<Rightarrow> Execution) \<Rightarrow> gotime \<Rightarrow> EDB after list \<Rightarrow>
    EDB \<Rightarrow> (error + Execution) \<times> EDB" where
  "patch_execution what xid expectedVersion sets clock after db =
     (let sel = (\<lambda>x. Execution_ID x = xid \<and> Execution_Version x = expectedVersion);
          written = (\<lambda>x. (sets x)\<lparr>Execution_Version := Execution_Version x + 1,
                               Execution_UpdatedAt := toStorage clock\<rparr>);
          rows = update_where sel written (EDB_executions db)
      in write_tx
           (if count_where sel (EDB_executions db) = 0
            then (case select1 (\<lambda>x. Execution_ID x = xid) (EDB_executions db) of
                    None \<Rightarrow> Inl (NotFound ''execution'' ''(id)'')
                  | Some current \<Rightarrow>
                      Inl (ErrorfW (''execution '' @ xid @ '': version conflict: expected '' @ Itoa expectedVersion @
                        '', current '' @ Itoa (Execution_Version current)) versionConflictError))
            else if \<exists>x\<in>set (EDB_executions db). sel x \<and> \<not> execution_known (written x)
            then Inl (ErrorfW (what @ Quote xid) (constraintError ''app.execution''))
            else case select1 (\<lambda>x. Execution_ID x = xid) rows of
              None \<Rightarrow> Inl (NotFound ''execution'' ''(id)'')
            | Some x \<Rightarrow>
                (case runAfter xid after (db\<lparr>EDB_executions := rows\<rparr>) of
                   Inl err \<Rightarrow> Inl err | Inr db' \<Rightarrow> Inr (x, db'))) db)"

definition PatchRed :: "string \<Rightarrow> int \<Rightarrow> RedPatchChanges \<Rightarrow> gotime \<Rightarrow> EDB after list \<Rightarrow> EDB \<Rightarrow>
    (error + Execution) \<times> EDB" where
  "PatchRed xid expectedVersion changes clock after db =
     patch_execution ''execution: patch red '' xid expectedVersion (red_sets changes) clock after db"

definition PatchBlue :: "string \<Rightarrow> int \<Rightarrow> BluePatchChanges \<Rightarrow> gotime \<Rightarrow> EDB after list \<Rightarrow> EDB \<Rightarrow>
    (error + Execution) \<times> EDB" where
  "PatchBlue xid expectedVersion changes clock after db =
     patch_execution ''execution: patch blue '' xid expectedVersion (blue_sets changes) clock after db"

text \<open>ORDER BY the scenario's ordinal, then the step's.\<close>

definition Executions_ListByEngagement :: "string \<Rightarrow> string option \<Rightarrow> ExecutionStatus option \<Rightarrow> EDB \<Rightarrow> Execution list" where
  "Executions_ListByEngagement eid scenarioID status db =
     concat (map (\<lambda>sc. concat (map (\<lambda>st.
         filter (\<lambda>x. Execution_StepID x = Step_ID st \<and>
             (case status of None \<Rightarrow> True | Some s \<Rightarrow> Execution_Status x = s)) (EDB_executions db))
         (sort_key Step_Ordinal (filter (\<lambda>s. Step_ScenarioID s = Scenario_ID sc) (EDB_steps db)))))
       (filter (\<lambda>sc. case scenarioID of None \<Rightarrow> True | Some i \<Rightarrow> Scenario_ID sc = i)
          (Scenarios_ListByEngagement eid db)))"

end
