(* ===== verification/Members.thy ===== *)
theory Members
  imports Identity
begin

text \<open>
  Seats of an engagement (internal/engagement/members.go) over the Go interface \<open>MemberStore\<close>, a
  record of operations here. An operation of the service that may take a lead away reads the
  list of members first and writes afterwards, in two transactions; it is composed from its
  check and its write, so that another request can be put between them. The locale
  \<open>member_store_contract\<close> says what the service relies on, one seat per person and engagement;
  its interpretation is the membership repository of Identity.
\<close>

section \<open>The interface and the service\<close>

record 's MemberStore =
  MemberStore_Add :: "gotime \<Rightarrow> NewMembership \<Rightarrow> 's \<Rightarrow> (error + Membership) \<times> 's"
  MemberStore_SetRole :: "string \<Rightarrow> string \<Rightarrow> EngagementRole \<Rightarrow> 's \<Rightarrow> (error + Membership) \<times> 's"
  MemberStore_Remove :: "string \<Rightarrow> string \<Rightarrow> 's \<Rightarrow> error option \<times> 's"
  MemberStore_ListByEngagement :: "string \<Rightarrow> 's \<Rightarrow> error + Membership list"

text \<open>The part of the service these operations use; a nil activity log is None.\<close>

record 's MemberService =
  MemberService_memberships :: "'s MemberStore"
  MemberService_activity :: "(Entry \<Rightarrow> 's \<Rightarrow> error + 's) option"

record AddMemberInput =
  AddMemberInput_UserID :: string
  AddMemberInput_Role :: string

text \<open>Best effort: an error of the log is dropped with its transaction.\<close>

definition recordMemberActivity :: "'s MemberService \<Rightarrow> string \<Rightarrow> string \<Rightarrow> Verb \<Rightarrow> string \<Rightarrow>
    (string \<times> delta_value) list option \<Rightarrow> 's \<Rightarrow> 's" where
  "recordMemberActivity svc actorID engagementID verb objectID delta s =
     (case MemberService_activity svc of
        None \<Rightarrow> s
      | Some rec \<Rightarrow>
          (case rec \<lparr>Entry_EngagementID = engagementID, Entry_ActorID = actorID, Entry_Verb = verb,
                     Entry_ObjectType = ObjectMember, Entry_ObjectID = objectID, Entry_ParentIDs = [],
                     Entry_Delta = (case delta of Some d \<Rightarrow> Delta d | None \<Rightarrow> [])\<rparr> s of
             Inl err \<Rightarrow> s
           | Inr s' \<Rightarrow> s'))"

definition ListMembers :: "'s MemberService \<Rightarrow> string \<Rightarrow> 's \<Rightarrow> error + Membership list" where
  "ListMembers svc engagementID s = MemberStore_ListByEngagement (MemberService_memberships svc) engagementID s"

definition AddMember :: "'s MemberService \<Rightarrow> gotime \<Rightarrow> string \<Rightarrow> string \<Rightarrow> AddMemberInput \<Rightarrow> 's \<Rightarrow>
    (error + Membership) \<times> 's" where
  "AddMember svc clock actorID engagementID inp s =
     (let role = AddMemberInput_Role inp in
      if \<not> EngagementRole_Valid role
      then (Inl (ErrorsNew (''engagement: invalid role '' @ Quote role)), s)
      else
        (case MemberStore_Add (MemberService_memberships svc) clock
                \<lparr>NewMembership_EngagementID = engagementID, NewMembership_UserID = AddMemberInput_UserID inp,
                 NewMembership_Role = role, NewMembership_AddedBy = actorID\<rparr> s of
           (Inl err, s') \<Rightarrow> (Inl err, s')
         | (Inr m, s') \<Rightarrow>
             (Inr m, recordMemberActivity svc actorID engagementID VerbMemberAdded (AddMemberInput_UserID inp)
                (Some [(''role'', DString role)]) s')))"

definition isLead :: "string \<Rightarrow> Membership list \<Rightarrow> bool" where
  "isLead userID members \<longleftrightarrow>
     (\<exists>m\<in>set members. Membership_UserID m = userID \<and> Membership_Role m = EngagementRoleLead)"

definition otherLeads :: "string \<Rightarrow> Membership list \<Rightarrow> nat" where
  "otherLeads userID members =
     length (filter (\<lambda>m. Membership_UserID m \<noteq> userID \<and> Membership_Role m = EngagementRoleLead) members)"

definition checkLastLead :: "'s MemberService \<Rightarrow> string \<Rightarrow> string \<Rightarrow> EngagementRole \<Rightarrow> 's \<Rightarrow> error option" where
  "checkLastLead svc engagementID userID targetRole s =
     (if targetRole = EngagementRoleLead then None
      else case MemberStore_ListByEngagement (MemberService_memberships svc) engagementID s of
             Inl err \<Rightarrow> Some err
           | Inr members \<Rightarrow>
               if \<not> isLead userID members then None
               else if otherLeads userID members = 0
               then Some (Conflict ''cannot remove or demote the last lead of an engagement'')
               else None)"

text \<open>The second halves: the write and the activity row.\<close>

definition PatchMemberRole_write :: "'s MemberService \<Rightarrow> string \<Rightarrow> string \<Rightarrow> string \<Rightarrow> string \<Rightarrow> 's \<Rightarrow>
    (error + Membership) \<times> 's" where
  "PatchMemberRole_write svc actorID engagementID userID role s =
     (case MemberStore_SetRole (MemberService_memberships svc) engagementID userID role s of
        (Inl err, s') \<Rightarrow> (Inl err, s')
      | (Inr updated, s') \<Rightarrow>
          (Inr updated, recordMemberActivity svc actorID engagementID VerbMemberRoleChanged userID
             (Some [(''role'', DString role)]) s'))"

definition PatchMemberRole :: "'s MemberService \<Rightarrow> string \<Rightarrow> string \<Rightarrow> string \<Rightarrow> string \<Rightarrow> 's \<Rightarrow>
    (error + Membership) \<times> 's" where
  "PatchMemberRole svc actorID engagementID userID role s =
     (if \<not> EngagementRole_Valid role
      then (Inl (ErrorsNew (''engagement: invalid role '' @ Quote role)), s)
      else case checkLastLead svc engagementID userID role s of
             Some err \<Rightarrow> (Inl err, s)
           | None \<Rightarrow> PatchMemberRole_write svc actorID engagementID userID role s)"

definition RemoveMember_write :: "'s MemberService \<Rightarrow> string \<Rightarrow> string \<Rightarrow> string \<Rightarrow> 's \<Rightarrow> error option \<times> 's" where
  "RemoveMember_write svc actorID engagementID userID s =
     (case MemberStore_Remove (MemberService_memberships svc) engagementID userID s of
        (Some err, s') \<Rightarrow> (Some err, s')
      | (None, s') \<Rightarrow>
          (None, recordMemberActivity svc actorID engagementID VerbMemberRemoved userID None s'))"

definition RemoveMember :: "'s MemberService \<Rightarrow> string \<Rightarrow> string \<Rightarrow> string \<Rightarrow> 's \<Rightarrow> error option \<times> 's" where
  "RemoveMember svc actorID engagementID userID s =
     (case checkLastLead svc engagementID userID EngagementRoleObserver s of
        Some err \<Rightarrow> (Some err, s)
      | None \<Rightarrow> RemoveMember_write svc actorID engagementID userID s)"

inductive member_step :: "'s MemberService \<Rightarrow> 's \<Rightarrow> 's \<Rightarrow> bool" for svc where
  add: "member_step svc s (snd (AddMember svc clock actorID engagementID inp s))"
| patch: "member_step svc s (snd (PatchMemberRole svc actorID engagementID userID role s))"
| remove: "member_step svc s (snd (RemoveMember svc actorID engagementID userID s))"

section \<open>The contract of the store\<close>

type_synonym seats = "string \<Rightarrow> string \<Rightarrow> EngagementRole option"

definition has_lead :: "seats \<Rightarrow> string \<Rightarrow> bool" where
  "has_lead f e \<longleftrightarrow> (\<exists>u. f e u = Some EngagementRoleLead)"

definition seat_with :: "seats \<Rightarrow> string \<Rightarrow> string \<Rightarrow> EngagementRole option \<Rightarrow> seats" where
  "seat_with f e u r = (\<lambda>e' u'. if e' = e \<and> u' = u then r else f e' u')"

lemma has_lead_seat_with:
  "has_lead (seat_with f e u r) e' \<longleftrightarrow>
     (if e' = e then r = Some EngagementRoleLead \<or> (\<exists>u'. u' \<noteq> u \<and> f e u' = Some EngagementRoleLead)
      else has_lead f e')"
  by (auto simp: has_lead_def seat_with_def)

lemma has_lead_two:
  "f e u = Some r \<Longrightarrow> has_lead f e \<longleftrightarrow>
     r = EngagementRoleLead \<or> (\<exists>u'. u' \<noteq> u \<and> f e u' = Some EngagementRoleLead)"
  unfolding has_lead_def by (metis option.distinct(1) option.inject)

lemma has_lead_none:
  "f e u = None \<Longrightarrow> has_lead f e \<longleftrightarrow> (\<exists>u'. u' \<noteq> u \<and> f e u' = Some EngagementRoleLead)"
  unfolding has_lead_def by (metis option.distinct(1) option.inject)

locale member_store_contract =
  fixes svc :: "'s MemberService"
    and seats :: "'s \<Rightarrow> seats"
    and ok :: "'s \<Rightarrow> bool"
  assumes add_law: "ok s \<Longrightarrow> MemberStore_Add (MemberService_memberships svc) clock inp s = (res, s') \<Longrightarrow>
      ok s' \<and> (case res of Inl err \<Rightarrow> s' = s
        | Inr m \<Rightarrow> seats s (NewMembership_EngagementID inp) (NewMembership_UserID inp) = None \<and>
            seats s' = seat_with (seats s) (NewMembership_EngagementID inp) (NewMembership_UserID inp)
              (Some (NewMembership_Role inp)))"
    and role_law: "ok s \<Longrightarrow> MemberStore_SetRole (MemberService_memberships svc) e u r s = (res, s') \<Longrightarrow>
      ok s' \<and> (case res of Inl err \<Rightarrow> s' = s \<and> seats s e u = None
        | Inr m \<Rightarrow> seats s e u \<noteq> None \<and> seats s' = seat_with (seats s) e u (Some r))"
    and remove_law: "ok s \<Longrightarrow> MemberStore_Remove (MemberService_memberships svc) e u s = (out, s') \<Longrightarrow>
      ok s' \<and> (case out of Some err \<Rightarrow> s' = s \<and> seats s e u = None
        | None \<Rightarrow> seats s e u \<noteq> None \<and> seats s' = seat_with (seats s) e u None)"
    and list_law: "ok s \<Longrightarrow> \<exists>ms. MemberStore_ListByEngagement (MemberService_memberships svc) e s = Inr ms \<and>
      (\<forall>u r. (\<exists>m\<in>set ms. Membership_UserID m = u \<and> Membership_Role m = r) \<longleftrightarrow> seats s e u = Some r)"
    and record_law: "MemberService_activity svc = Some rec \<Longrightarrow> ok s \<Longrightarrow> rec entry s = Inr s' \<Longrightarrow>
      ok s' \<and> seats s' = seats s"
begin

lemma record_seats:
  assumes "ok s"
  shows "ok (recordMemberActivity svc actor e verb obj d s) \<and>
    seats (recordMemberActivity svc actor e verb obj d s) = seats s"
  using assms record_law
  by (auto simp: recordMemberActivity_def split: option.splits sum.splits)

text \<open>What the check lets through, in terms of the seats alone.\<close>

lemma check_law:
  assumes "ok s"
  shows "checkLastLead svc e u r s =
    (if r \<noteq> EngagementRoleLead \<and> seats s e u = Some EngagementRoleLead \<and>
        (\<forall>u'. u' \<noteq> u \<longrightarrow> seats s e u' \<noteq> Some EngagementRoleLead)
     then Some (Conflict ''cannot remove or demote the last lead of an engagement'') else None)"
proof -
  obtain ms where ms: "MemberStore_ListByEngagement (MemberService_memberships svc) e s = Inr ms"
    and set: "\<And>u r. (\<exists>m\<in>set ms. Membership_UserID m = u \<and> Membership_Role m = r) \<longleftrightarrow> seats s e u = Some r"
    using list_law [OF assms] by blast
  have lead: "isLead u ms \<longleftrightarrow> seats s e u = Some EngagementRoleLead"
    unfolding isLead_def set ..
  have others: "otherLeads u ms = 0 \<longleftrightarrow> (\<forall>u'. u' \<noteq> u \<longrightarrow> seats s e u' \<noteq> Some EngagementRoleLead)"
    unfolding otherLeads_def length_0_conv filter_empty_conv set [symmetric] by auto
  show ?thesis
    by (auto simp: checkLastLead_def ms lead others)
qed

lemma add_seats:
  assumes "ok s"
  shows "ok (snd (AddMember svc clock a e inp s)) \<and>
    (seats (snd (AddMember svc clock a e inp s)) = seats s \<or>
     seats s e (AddMemberInput_UserID inp) = None \<and>
     seats (snd (AddMember svc clock a e inp s)) =
       seat_with (seats s) e (AddMemberInput_UserID inp) (Some (AddMemberInput_Role inp)))"
proof (cases "EngagementRole_Valid (AddMemberInput_Role inp)")
  case True
  obtain res s1 where w: "MemberStore_Add (MemberService_memberships svc) clock
      \<lparr>NewMembership_EngagementID = e, NewMembership_UserID = AddMemberInput_UserID inp,
       NewMembership_Role = AddMemberInput_Role inp, NewMembership_AddedBy = a\<rparr> s = (res, s1)" by fastforce
  show ?thesis
    using add_law [OF assms w] True by (cases res) (auto simp: AddMember_def Let_def w record_seats)
next
  case False
  then show ?thesis using assms by (simp add: AddMember_def Let_def)
qed

lemma patch_seats:
  assumes "ok s"
  shows "ok (snd (PatchMemberRole_write svc a e u r s)) \<and>
    (seats (snd (PatchMemberRole_write svc a e u r s)) = seats s \<or>
     seats (snd (PatchMemberRole_write svc a e u r s)) = seat_with (seats s) e u (Some r))"
proof -
  obtain res s1 where w: "MemberStore_SetRole (MemberService_memberships svc) e u r s = (res, s1)" by fastforce
  show ?thesis
    using role_law [OF assms w] by (cases res) (auto simp: PatchMemberRole_write_def w record_seats)
qed

lemma remove_seats:
  assumes "ok s" "RemoveMember_write svc a e u s = (out, s')"
  shows "ok s' \<and> (if seats s e u = None then seats s' = seats s \<and> out \<noteq> None
    else seats s' = seat_with (seats s) e u None \<and> out = None)"
proof -
  obtain out1 s1 where w: "MemberStore_Remove (MemberService_memberships svc) e u s = (out1, s1)" by fastforce
  show ?thesis
    using remove_law [OF assms(1) w] assms(2)
    by (cases out1) (auto simp: RemoveMember_write_def w record_seats)
qed

lemma keep_lead:
  assumes "ok s" "member_step svc s s'" "has_lead (seats s) e"
  shows "ok s' \<and> has_lead (seats s') e"
  using assms(2)
proof cases
  case (add clock a e1 inp)
  have "has_lead (seats s') e"
    using add add_seats [OF assms(1), of clock a e1 inp] assms(3) has_lead_none
    by (metis has_lead_seat_with)
  then show ?thesis using add add_seats [OF assms(1), of clock a e1 inp] by simp
next
  case (patch a e1 u r)
  show ?thesis
  proof (cases "s' = s")
    case False
    then have s': "s' = snd (PatchMemberRole_write svc a e1 u r s)"
      and let_through: "checkLastLead svc e1 u r s = None"
      using patch by (auto simp: PatchMemberRole_def split: if_splits option.splits)
    have "e = e1 \<Longrightarrow> r = EngagementRoleLead \<or> (\<exists>u'. u' \<noteq> u \<and> seats s e u' = Some EngagementRoleLead)"
      using let_through assms(3) unfolding check_law [OF assms(1)] has_lead_def
      by (metis option.distinct(1))
    then show ?thesis
      using s' patch_seats [OF assms(1), of a e1 u r] assms(3) by (metis has_lead_seat_with)
  qed (use assms in simp)
next
  case (remove a e1 u)
  show ?thesis
  proof (cases "s' = s")
    case False
    obtain out s1 where w: "RemoveMember_write svc a e1 u s = (out, s1)" by fastforce
    then have s': "s' = s1" and let_through: "checkLastLead svc e1 u EngagementRoleObserver s = None"
      using False remove by (auto simp: RemoveMember_def split: if_splits option.splits)
    have "e = e1 \<Longrightarrow> (\<exists>u'. u' \<noteq> u \<and> seats s e u' = Some EngagementRoleLead)"
      using let_through assms(3) unfolding check_law [OF assms(1)] has_lead_def
      by (auto split: if_splits)
    then show ?thesis
      using s' remove_seats [OF assms(1) w] assms(3) by (metis has_lead_seat_with)
  qed (use assms in simp)
qed

lemma keep_lead_always:
  "(member_step svc)\<^sup>*\<^sup>* s s' \<Longrightarrow> ok s \<Longrightarrow> has_lead (seats s) e \<Longrightarrow> ok s' \<and> has_lead (seats s') e"
  by (induction rule: rtranclp_induct) (use keep_lead in blast)+

end

section \<open>The repository keeps the contract\<close>

definition seats_of :: "IDB \<Rightarrow> seats" where
  "seats_of db = (\<lambda>e u. map_option Membership_Role (select1 (seat_of e u) (IDB_members db)))"

definition members_ok :: "IDB \<Rightarrow> bool" where
  "members_ok db \<longleftrightarrow> distinct (map (\<lambda>m. (Membership_EngagementID m, Membership_UserID m)) (IDB_members db))"

definition member_repo :: "IDB MemberStore" where
  "member_repo = \<lparr>MemberStore_Add = Memberships_Add, MemberStore_SetRole = Memberships_SetRole,
     MemberStore_Remove = Memberships_Remove,
     MemberStore_ListByEngagement = (\<lambda>e db. Inr (Memberships_ListByEngagement e db))\<rparr>"

definition member_service :: "IDB MemberService" where
  "member_service = \<lparr>MemberService_memberships = member_repo, MemberService_activity = Some Log_Record\<rparr>"

lemma member_service_simps [simp]:
  "MemberStore_Add (MemberService_memberships member_service) = Memberships_Add"
  "MemberStore_SetRole (MemberService_memberships member_service) = Memberships_SetRole"
  "MemberStore_Remove (MemberService_memberships member_service) = Memberships_Remove"
  "MemberStore_ListByEngagement (MemberService_memberships member_service) e db =
     Inr (Memberships_ListByEngagement e db)"
  "MemberService_activity member_service = Some Log_Record"
  by (simp_all add: member_service_def member_repo_def)

lemma seat_key: "seat_of e u = (\<lambda>m. (Membership_EngagementID m, Membership_UserID m) = (e, u))"
  by auto

lemma seats_of_iff:
  assumes "members_ok db"
  shows "seats_of db e u = Some r \<longleftrightarrow> (\<exists>m\<in>set (IDB_members db). seat_of e u m \<and> Membership_Role m = r)"
proof
  assume "seats_of db e u = Some r"
  then obtain m where "select1 (seat_of e u) (IDB_members db) = Some m" "Membership_Role m = r"
    by (auto simp: seats_of_def)
  then show "\<exists>m\<in>set (IDB_members db). seat_of e u m \<and> Membership_Role m = r" using select1_Some by fastforce
next
  assume "\<exists>m\<in>set (IDB_members db). seat_of e u m \<and> Membership_Role m = r"
  then obtain m where m: "m \<in> set (IDB_members db)" "seat_of e u m" "Membership_Role m = r" by blast
  have "select1 (\<lambda>x. (Membership_EngagementID x, Membership_UserID x) = (Membership_EngagementID m, Membership_UserID m))
      (IDB_members db) = Some m"
    using assms m(1) unfolding members_ok_def by (rule select1_key)
  then show "seats_of db e u = Some r" using m by (simp add: seats_of_def)
qed

lemma seats_of_None: "seats_of db e u = None \<longleftrightarrow> (\<forall>m\<in>set (IDB_members db). \<not> seat_of e u m)"
  by (simp add: seats_of_def select1_None)

lemma count_seat_0: "count_where (seat_of e u) (IDB_members db) = 0 \<longleftrightarrow> seats_of db e u = None"
  by (simp add: seats_of_None count_where_0)

lemma count_seat_1: "members_ok db \<Longrightarrow> count_where (seat_of e u) (IDB_members db) \<le> 1"
  using count_where_key [of "\<lambda>m. (Membership_EngagementID m, Membership_UserID m)" "IDB_members db" "seat_of e u" "(e, u)"]
  by (simp add: members_ok_def)

lemma requireOneRow_None: "n \<le> 1 \<Longrightarrow> requireOneRow n res rid = None \<longleftrightarrow> n = 1"
  by (auto simp: requireOneRow_def)

lemma requireUser_frame: "requireUser db u = None \<or> (\<exists>err. requireUser db u = Some err)"
  by (auto simp: requireUser_def)

interpretation seats: member_store_contract member_service seats_of members_ok
proof
  fix db db' :: IDB and clock :: gotime and inp :: NewMembership and e u r rid :: string
  assume ok: "members_ok db"
  show "members_ok db' \<and> (case res of Inl err \<Rightarrow> db' = db
      | Inr m \<Rightarrow> seats_of db (NewMembership_EngagementID inp) (NewMembership_UserID inp) = None \<and>
          seats_of db' = seat_with (seats_of db) (NewMembership_EngagementID inp) (NewMembership_UserID inp)
            (Some (NewMembership_Role inp)))"
    if run: "MemberStore_Add (MemberService_memberships member_service) clock inp db = (res, db')" for res
  proof (cases res)
    case (Inl err)
    then show ?thesis using run ok
      by (auto simp: Memberships_Add_def Let_def split: option.splits if_splits)
  next
    case (Inr m)
    let ?e = "NewMembership_EngagementID inp" and ?u = "NewMembership_UserID inp"
    have new: "\<forall>m\<in>set (IDB_members db). \<not> seat_of ?e ?u m"
      and m: "m = \<lparr>Membership_EngagementID = ?e, Membership_UserID = ?u, Membership_Role = NewMembership_Role inp,
          Membership_AddedBy = NewMembership_AddedBy inp, Membership_AddedAt = toStorage clock\<rparr>"
      and db': "db' = db\<lparr>IDB_members := IDB_members db @ [m]\<rparr>"
      using run Inr by (auto simp: Memberships_Add_def Let_def split: option.splits if_splits)
    have none: "select1 (seat_of ?e ?u) (IDB_members db) = None"
      using new by (simp add: select1_None)
    have "seats_of db' = seat_with (seats_of db) ?e ?u (Some (NewMembership_Role inp))"
    proof (intro ext)
      fix x y
      show "seats_of db' x y = seat_with (seats_of db) ?e ?u (Some (NewMembership_Role inp)) x y"
        using none m
        by (cases "x = ?e \<and> y = ?u"; cases "select1 (seat_of x y) (IDB_members db)")
          (auto simp: seats_of_def seat_with_def db' select1_append table_simps)
    qed
    moreover have "members_ok db'"
      using ok new m by (auto simp: members_ok_def db')
    ultimately show ?thesis using Inr new by (simp add: seats_of_None)
  qed
  show "members_ok db' \<and> (case res of Inl err \<Rightarrow> db' = db \<and> seats_of db e u = None
      | Inr m \<Rightarrow> seats_of db e u \<noteq> None \<and> seats_of db' = seat_with (seats_of db) e u (Some r))"
    if run: "MemberStore_SetRole (MemberService_memberships member_service) e u r db = (res, db')" for res
  proof (cases "seats_of db e u")
    case None
    then show ?thesis using run ok
      by (auto simp: Memberships_SetRole_def Let_def requireOneRow_def count_seat_0 [symmetric])
  next
    case (Some r0)
    then have one: "count_where (seat_of e u) (IDB_members db) = 1"
      using count_seat_0 [of e u db] count_seat_1 [OF ok, of e u] by fastforce
    have look: "map_option Membership_Role (select1 (seat_of x y)
        (update_where (seat_of e u) (\<lambda>m. m\<lparr>Membership_Role := r\<rparr>) (IDB_members db))) =
        seat_with (seats_of db) e u (Some r) x y" for x y
    proof -
      have "select1 (\<lambda>m. (Membership_EngagementID m, Membership_UserID m) = (x, y))
          (update_where (seat_of e u) (\<lambda>m. m\<lparr>Membership_Role := r\<rparr>) (IDB_members db)) =
        map_option (\<lambda>m. if seat_of e u m then m\<lparr>Membership_Role := r\<rparr> else m)
          (select1 (\<lambda>m. (Membership_EngagementID m, Membership_UserID m) = (x, y)) (IDB_members db))"
        by (rule select1_update_where) simp
      then have found: "select1 (seat_of x y) (update_where (seat_of e u) (\<lambda>m. m\<lparr>Membership_Role := r\<rparr>) (IDB_members db)) =
          map_option (\<lambda>m. if seat_of e u m then m\<lparr>Membership_Role := r\<rparr> else m) (select1 (seat_of x y) (IDB_members db))"
        by simp
      show ?thesis
      proof (cases "select1 (seat_of x y) (IDB_members db)")
        case None
        then show ?thesis using Some found by (auto simp: seats_of_def seat_with_def)
      next
        case (Some z)
        then have "seat_of x y z" using select1_Some by fastforce
        then show ?thesis using Some found by (auto simp: seats_of_def seat_with_def)
      qed
    qed
    have "select1 (seat_of e u) (update_where (seat_of e u) (\<lambda>m. m\<lparr>Membership_Role := r\<rparr>) (IDB_members db)) \<noteq> None"
      using look [of e u] by (auto simp: seat_with_def)
    then obtain m where m: "res = Inr m"
      and db': "db' = db\<lparr>IDB_members := update_where (seat_of e u) (\<lambda>m. m\<lparr>Membership_Role := r\<rparr>) (IDB_members db)\<rparr>"
      using run one by (auto simp: Memberships_SetRole_def Let_def requireOneRow_def)
    have "seats_of db' = seat_with (seats_of db) e u (Some r)"
      by (intro ext) (simp add: seats_of_def db' look)
    moreover have "members_ok db'" using ok by (simp add: members_ok_def db' table_simps)
    ultimately show ?thesis using Some m by simp
  qed
  show "members_ok db' \<and> (case out of Some err \<Rightarrow> db' = db \<and> seats_of db e u = None
      | None \<Rightarrow> seats_of db e u \<noteq> None \<and> seats_of db' = seat_with (seats_of db) e u None)"
    if run: "MemberStore_Remove (MemberService_memberships member_service) e u db = (out, db')" for out
  proof (cases "seats_of db e u")
    case None
    then show ?thesis using run ok
      by (auto simp: Memberships_Remove_def Let_def requireOneRow_def count_seat_0 [symmetric])
  next
    case (Some r0)
    then have "count_where (seat_of e u) (IDB_members db) = 1"
      using count_seat_0 [of e u db] count_seat_1 [OF ok, of e u] by fastforce
    then have out: "out = None" and db': "db' = db\<lparr>IDB_members := delete_where (seat_of e u) (IDB_members db)\<rparr>"
      using run by (auto simp: Memberships_Remove_def requireOneRow_def)
    have "seats_of db' = seat_with (seats_of db) e u None"
    proof (intro ext)
      fix x y
      show "seats_of db' x y = seat_with (seats_of db) e u None x y"
      proof (cases "x = e \<and> y = u")
        case True
        then have "select1 (seat_of x y) (delete_where (seat_of e u) (IDB_members db)) = None"
          by (simp add: select1_None table_simps)
        then show ?thesis using True by (simp add: seats_of_def seat_with_def db')
      next
        case False
        then have "select1 (seat_of x y) (delete_where (seat_of e u) (IDB_members db)) =
            select1 (seat_of x y) (IDB_members db)"
          by (intro select1_delete_other) auto
        then show ?thesis using False by (auto simp: seats_of_def seat_with_def db')
      qed
    qed
    moreover have "members_ok db'" using ok by (simp add: members_ok_def db' distinct_delete_where)
    ultimately show ?thesis using Some out by simp
  qed
  show "\<exists>ms. MemberStore_ListByEngagement (MemberService_memberships member_service) e db = Inr ms \<and>
      (\<forall>u r. (\<exists>m\<in>set ms. Membership_UserID m = u \<and> Membership_Role m = r) \<longleftrightarrow> seats_of db e u = Some r)"
    by (auto simp: Memberships_ListByEngagement_def seats_of_iff [OF ok])
  show "members_ok db' \<and> seats_of db' = seats_of db"
    if "MemberService_activity member_service = Some rec" "rec entry db = Inr db'" for rec entry
    using that ok by (auto simp: Log_Record_def members_ok_def seats_of_def)
qed

section \<open>Properties\<close>


definition two_leads :: IDB where
  "two_leads = \<lparr>IDB_users = [], IDB_sessions = [], IDB_totps = [], IDB_recovery = [], IDB_challenges = [],
     IDB_members = [\<lparr>Membership_EngagementID = ''e'', Membership_UserID = ''u1'', Membership_Role = EngagementRoleLead,
         Membership_AddedBy = ''u1'', Membership_AddedAt = 1\<rparr>,
       \<lparr>Membership_EngagementID = ''e'', Membership_UserID = ''u2'', Membership_Role = EngagementRoleLead,
         Membership_AddedBy = ''u1'', Membership_AddedAt = 2\<rparr>],
     IDB_activity = [], IDB_identities = [], IDB_settings = []\<rparr>"

lemma two_leads_ok: "members_ok two_leads" "has_lead (seats_of two_leads) ''e''"
  by (simp_all add: members_ok_def two_leads_def has_lead_def seats_of_def)
    (rule exI [of _ "''u1''"], simp add: table_simps)


text \<open>
  The check and the write are two transactions, and that is not enough: when an engagement has
  exactly two leads and both are being removed at once, both checks pass before either write,
  both writes succeed, and the engagement is left without a lead.
\<close>

theorem last_leads_race:
  assumes "members_ok db" "u1 \<noteq> u2"
    and "\<forall>u. seats_of db e u = Some EngagementRoleLead \<longleftrightarrow> u = u1 \<or> u = u2"
  shows "checkLastLead member_service e u1 EngagementRoleObserver db = None \<and>
    checkLastLead member_service e u2 EngagementRoleObserver db = None \<and>
    fst (RemoveMember_write member_service a1 e u1 db) = None \<and>
    fst (RemoveMember_write member_service a2 e u2 (snd (RemoveMember_write member_service a1 e u1 db))) = None \<and>
    \<not> has_lead (seats_of (snd (RemoveMember_write member_service a2 e u2
        (snd (RemoveMember_write member_service a1 e u1 db))))) e"
proof -
  have lead: "seats_of db e u1 = Some EngagementRoleLead" "seats_of db e u2 = Some EngagementRoleLead"
    using assms(3) by simp_all
  obtain o1 s1 where w1: "RemoveMember_write member_service a1 e u1 db = (o1, s1)" by fastforce
  have r1: "members_ok s1" "o1 = None" "seats_of s1 = seat_with (seats_of db) e u1 None"
    using seats.remove_seats [OF assms(1) w1] lead by simp_all
  obtain o2 s2 where w2: "RemoveMember_write member_service a2 e u2 s1 = (o2, s2)" by fastforce
  have r2: "o2 = None" "seats_of s2 = seat_with (seats_of s1) e u2 None"
    using seats.remove_seats [OF r1(1) w2] assms(2) lead r1(3) by (simp_all add: seat_with_def)
  have "\<not> has_lead (seats_of s2) e"
    using assms(3) r1(3) r2(2) by (auto simp: has_lead_def seat_with_def)
  then show ?thesis
    using w1 w2 r1(2) r2(1) assms(2,3) by (auto simp: seats.check_law [OF assms(1)])
qed

theorem last_leads_race_witness:
  "\<not> has_lead (seats_of (snd (RemoveMember_write member_service ''u2'' ''e'' ''u2''
     (snd (RemoveMember_write member_service ''u1'' ''e'' ''u1'' two_leads))))) ''e''"
proof -
  have "\<forall>u. seats_of two_leads ''e'' u = Some EngagementRoleLead \<longleftrightarrow> u = ''u1'' \<or> u = ''u2''"
    by (auto simp: seats_of_def two_leads_def table_simps)
  then show ?thesis using last_leads_race [OF two_leads_ok(1), of "''u1''" "''u2''"] by simp
qed

end
