(* ===== verification/Workbook.thy ===== *)
theory Workbook
  imports Workbook_Store Members
begin

text \<open>
  The engagement service (internal/engagement: service.go, bind.go, scenarios.go, steps.go,
  executions.go): creation and lifecycle of an engagement, and every write of its workbook
  but the deletions. A handler is a function on the database: the reads and checks in the
  code's order, then one write transaction, then the best-effort activity row. What the service
  calls outside this development (the ATT&CK library, JSON and time formatting) are fields of
  \<open>Workbook_Service\<close>; clock readings and fresh identifiers are arguments.
\<close>

section \<open>The service\<close>

record Technique =
  Technique_ExternalID :: string
  Technique_Name :: string
  Technique_Description :: string

text \<open>\<open>attackpin.Service\<close>: its refusals already mapped to problems.\<close>

record attackpin =
  AssertPinned :: "string \<Rightarrow> error option"
  ResolveTechnique :: "string \<Rightarrow> string \<Rightarrow> error + Technique"

record Workbook_Service =
  Svc_attackpin :: "attackpin option"
  Svc_activity :: bool
  Svc_formatTime :: "gotime \<Rightarrow> string"
  Svc_marshalProcedure :: "string \<Rightarrow> string \<Rightarrow> string"

text \<open>A nil \<open>attackpin\<close> is only checked for by \<open>CreateStep\<close>; elsewhere the call panics.\<close>

definition assert_pinned :: "Workbook_Service \<Rightarrow> string \<Rightarrow> error option" where
  "assert_pinned svc version =
     (case Svc_attackpin svc of
        None \<Rightarrow> Some (ErrorsNew ''invalid memory address or nil pointer dereference'')
      | Some pin \<Rightarrow> AssertPinned pin version)"

definition EDB_record :: "Entry \<Rightarrow> EDB \<Rightarrow> error + EDB" where
  "EDB_record e db =
     (case Log_Record e (EDB_identity db) of
        Inl err \<Rightarrow> Inl err
      | Inr i \<Rightarrow> Inr (db\<lparr>EDB_identity := i\<rparr>))"

definition workbook_entry :: "string \<Rightarrow> string \<Rightarrow> Verb \<Rightarrow> string \<Rightarrow> string \<Rightarrow> (string \<times> delta_value) list \<Rightarrow> Entry" where
  "workbook_entry actorID engagementID verb objectType objectID delta =
     \<lparr>Entry_EngagementID = engagementID, Entry_ActorID = actorID, Entry_Verb = verb, Entry_ObjectType = objectType,
      Entry_ObjectID = objectID, Entry_ParentIDs = [], Entry_Delta = delta\<rparr>"

text \<open>\<open>RecordAlone\<close>, best effort, and \<open>Record\<close> as a hook in the mutation's transaction.\<close>

definition recordAlone :: "Workbook_Service \<Rightarrow> Entry \<Rightarrow> EDB \<Rightarrow> EDB" where
  "recordAlone svc e db =
     (if \<not> Svc_activity svc then db else case EDB_record e db of Inl err \<Rightarrow> db | Inr db' \<Rightarrow> db')"

definition record_hook :: "Workbook_Service \<Rightarrow> Entry \<Rightarrow> EDB after" where
  "record_hook svc e = (\<lambda>entity db. if \<not> Svc_activity svc then Inr db else EDB_record e db)"

section \<open>Binding a child to its engagement (bind.go)\<close>

definition requireSameEngagement :: "string \<Rightarrow> string \<Rightarrow> string \<Rightarrow> string \<Rightarrow> error option" where
  "requireSameEngagement res rid got want = (if got \<noteq> want then Some (NotFound res rid) else None)"

definition ScenarioEngagementID :: "string \<Rightarrow> EDB \<Rightarrow> error + string" where
  "ScenarioEngagementID scenarioID db =
     (case Scenarios_ByID scenarioID db of Inl err \<Rightarrow> Inl err | Inr sc \<Rightarrow> Inr (Scenario_EngagementID sc))"

definition StepEngagementID :: "string \<Rightarrow> EDB \<Rightarrow> error + string" where
  "StepEngagementID stepID db =
     (case Steps_ByID stepID db of Inl err \<Rightarrow> Inl err | Inr step \<Rightarrow> ScenarioEngagementID (Step_ScenarioID step) db)"

definition ExecutionEngagementID :: "string \<Rightarrow> EDB \<Rightarrow> error + string" where
  "ExecutionEngagementID executionID db =
     (case Executions_ByID executionID db of
        Inl err \<Rightarrow> Inl err | Inr exec \<Rightarrow> StepEngagementID (Execution_StepID exec) db)"

text \<open>The guard every write of the workbook repeats.\<close>

definition refuse_closed :: "Engagement \<Rightarrow> error option" where
  "refuse_closed eng =
     (if Engagement_Status eng = EngagementStatusClosed \<or> Engagement_Status eng = EngagementStatusArchived
      then Some (Conflict (''engagement is '' @ Engagement_Status eng)) else None)"

text \<open>The checks \<open>PatchStep\<close> and \<open>RevealStep\<close> start with: the step, its scenario, the engagement.\<close>

definition step_context :: "string \<Rightarrow> string \<Rightarrow> EDB \<Rightarrow> error + (Step_row \<times> Scenario \<times> Engagement)" where
  "step_context engagementID sid db =
     (case Steps_ByID sid db of
        Inl err \<Rightarrow> Inl err
      | Inr current \<Rightarrow>
          (case Scenarios_ByID (Step_ScenarioID current) db of
             Inl err \<Rightarrow> Inl err
           | Inr scenario \<Rightarrow>
               (case requireSameEngagement ''step'' sid (Scenario_EngagementID scenario) engagementID of
                  Some err \<Rightarrow> Inl err
                | None \<Rightarrow>
                    (case Engagements_ByID (Scenario_EngagementID scenario) db of
                       Inl err \<Rightarrow> Inl err
                     | Inr eng \<Rightarrow>
                         (case refuse_closed eng of
                            Some err \<Rightarrow> Inl err
                          | None \<Rightarrow> Inr (current, scenario, eng))))))"

text \<open>The same for an execution.\<close>

definition execution_context :: "string \<Rightarrow> string \<Rightarrow> EDB \<Rightarrow> error + (Execution \<times> Step_row \<times> Scenario \<times> Engagement)" where
  "execution_context engagementID xid db =
     (case Executions_ByID xid db of
        Inl err \<Rightarrow> Inl err
      | Inr exec \<Rightarrow>
          (case Steps_ByID (Execution_StepID exec) db of
             Inl err \<Rightarrow> Inl err
           | Inr step \<Rightarrow>
               (case Scenarios_ByID (Step_ScenarioID step) db of
                  Inl err \<Rightarrow> Inl err
                | Inr scenario \<Rightarrow>
                    (case requireSameEngagement ''execution'' xid (Scenario_EngagementID scenario) engagementID of
                       Some err \<Rightarrow> Inl err
                     | None \<Rightarrow>
                         (case Engagements_ByID (Scenario_EngagementID scenario) db of
                            Inl err \<Rightarrow> Inl err
                          | Inr eng \<Rightarrow>
                              (case refuse_closed eng of
                                 Some err \<Rightarrow> Inl err
                               | None \<Rightarrow> Inr (exec, step, scenario, eng)))))))"

section \<open>Engagements (service.go)\<close>

record CreateInput =
  CreateInput_Name :: string
  CreateInput_Client :: string
  CreateInput_Description :: string
  CreateInput_StartsOn :: gotime
  CreateInput_EndsOn :: gotime
  CreateInput_AttackVersion :: string
  CreateInput_Mode :: EngagementMode
  CreateInput_AutoRevealOnStart :: bool

definition CreateInput_validate :: "CreateInput \<Rightarrow> error + CreateInput" where
  "CreateInput_validate inp =
     (if CreateInput_Name inp = [] then Inl (Validation [Field ''name'' ''required''])
      else
        (let inp = (if CreateInput_Mode inp = [] then inp\<lparr>CreateInput_Mode := EngagementModeStandard\<rparr> else inp)
         in if \<not> EngagementMode_Valid (CreateInput_Mode inp)
            then Inl (Validation [Field ''mode'' ''must be standard or blind''])
            else Inr inp))"

definition leadAfter :: "gotime \<Rightarrow> string \<Rightarrow> EDB after" where
  "leadAfter clock actorID =
     (\<lambda>entity db.
        let i = EDB_identity db in
        if \<exists>m\<in>set (IDB_members i). seat_of entity actorID m
        then Inl (ErrorfW ''engagement: add lead member'' (constraintError ''app.engagement_member''))
        else Inr (db\<lparr>EDB_identity := i\<lparr>IDB_members := IDB_members i @
               [\<lparr>Membership_EngagementID = entity, Membership_UserID = actorID, Membership_Role = EngagementRoleLead,
                 Membership_AddedBy = actorID, Membership_AddedAt = toStorage clock\<rparr>]\<rparr>\<rparr>))"

definition Create :: "Workbook_Service \<Rightarrow> string \<Rightarrow> gotime \<Rightarrow> gotime \<Rightarrow> string \<Rightarrow> CreateInput \<Rightarrow> EDB \<Rightarrow>
    (error + Engagement) \<times> EDB" where
  "Create svc newID clock seatClock actorID inp db =
     (case CreateInput_validate inp of
        Inl err \<Rightarrow> (Inl err, db)
      | Inr inp \<Rightarrow>
          (case assert_pinned svc (CreateInput_AttackVersion inp) of
             Some err \<Rightarrow> (Inl err, db)
           | None \<Rightarrow>
               Engagements_Create newID clock
                 \<lparr>NewEngagement_Name = CreateInput_Name inp, NewEngagement_Client = CreateInput_Client inp,
                  NewEngagement_Description = CreateInput_Description inp,
                  NewEngagement_StartsOn = CreateInput_StartsOn inp, NewEngagement_EndsOn = CreateInput_EndsOn inp,
                  NewEngagement_AttackVersion = CreateInput_AttackVersion inp,
                  NewEngagement_Mode = CreateInput_Mode inp,
                  NewEngagement_AutoRevealOnStart = CreateInput_AutoRevealOnStart inp,
                  NewEngagement_CreatedBy = actorID\<rparr>
                 [leadAfter seatClock actorID,
                  \<lambda>entity. record_hook svc (workbook_entry actorID entity VerbEngagementCreated ObjectEngagement entity
                    (Delta [(''name'', DString (CreateInput_Name inp))])) entity] db))"

definition Get :: "string \<Rightarrow> EDB \<Rightarrow> error + Engagement" where
  "Get eid db = Engagements_ByID eid db"

text \<open>Administrators see every engagement, everybody else their own.\<close>

definition service_List :: "string \<Rightarrow> PlatformRole \<Rightarrow> string \<Rightarrow> string \<Rightarrow> int \<Rightarrow> EDB \<Rightarrow> Engagement list" where
  "service_List actorID role status after limit db =
     Engagements_List \<lparr>ListFilter_Status = status, ListFilter_After = after, ListFilter_Limit = limit,
       ListFilter_MemberID = (if role \<noteq> PlatformRoleAdmin then actorID else [])\<rparr> db"

record UpdateInput =
  UpdateInput_Name :: "string option"
  UpdateInput_Client :: "string option"
  UpdateInput_Description :: "string option"
  UpdateInput_StartsOn :: "gotime option"
  UpdateInput_EndsOn :: "gotime option"
  UpdateInput_AttackVersion :: "string option"
  UpdateInput_Mode :: "EngagementMode option"
  UpdateInput_AutoRevealOnStart :: "bool option"

definition opt_entry :: "string \<Rightarrow> ('v \<Rightarrow> delta_value) \<Rightarrow> 'v option \<Rightarrow> (string \<times> delta_value) list" where
  "opt_entry k f v = (case v of None \<Rightarrow> [] | Some x \<Rightarrow> [(k, f x)])"

definition patchDelta :: "Workbook_Service \<Rightarrow> UpdateInput \<Rightarrow> (string \<times> delta_value) list" where
  "patchDelta svc inp = Delta
     (opt_entry ''name'' DString (UpdateInput_Name inp) @ opt_entry ''client'' DString (UpdateInput_Client inp) @
      opt_entry ''description'' DString (UpdateInput_Description inp) @
      opt_entry ''starts_on'' (\<lambda>t. DString (Svc_formatTime svc t)) (UpdateInput_StartsOn inp) @
      opt_entry ''ends_on'' (\<lambda>t. DString (Svc_formatTime svc t)) (UpdateInput_EndsOn inp) @
      opt_entry ''attack_version'' DString (UpdateInput_AttackVersion inp) @
      opt_entry ''mode'' DString (UpdateInput_Mode inp) @
      opt_entry ''auto_reveal_on_start'' DBool (UpdateInput_AutoRevealOnStart inp))"

definition or_else :: "'v option \<Rightarrow> 'v \<Rightarrow> 'v" where
  "or_else v d = (case v of Some x \<Rightarrow> x | None \<Rightarrow> d)"

text \<open>The pin check: a changed version must be assertable and no step may exist.\<close>

definition pin_change :: "Workbook_Service \<Rightarrow> string \<Rightarrow> Engagement \<Rightarrow> string option \<Rightarrow> EDB \<Rightarrow> error option" where
  "pin_change svc eid current version db =
     (case version of
        None \<Rightarrow> None
      | Some v \<Rightarrow>
          if v = Engagement_AttackVersion current then None
          else case assert_pinned svc v of
                 Some err \<Rightarrow> Some err
               | None \<Rightarrow>
                   if CountSteps eid db > 0
                   then Some (Conflict ''attack_version cannot be changed once steps exist on the engagement'')
                   else None)"

definition Update :: "Workbook_Service \<Rightarrow> gotime \<Rightarrow> string \<Rightarrow> string \<Rightarrow> UpdateInput \<Rightarrow> EDB \<Rightarrow>
    (error + Engagement) \<times> EDB" where
  "Update svc clock actorID eid inp db =
     (case Engagements_ByID eid db of
        Inl err \<Rightarrow> (Inl err, db)
      | Inr current \<Rightarrow>
          if (case UpdateInput_Mode inp of Some m \<Rightarrow> \<not> EngagementMode_Valid m | None \<Rightarrow> False)
          then (Inl (Validation [Field ''mode'' ''must be standard or blind'']), db)
          else case pin_change svc eid current (UpdateInput_AttackVersion inp) db of
            Some err \<Rightarrow> (Inl err, db)
          | None \<Rightarrow>
              Engagements_Update eid clock
                \<lparr>UpdateChanges_Name = or_else (UpdateInput_Name inp) (Engagement_Name current),
                 UpdateChanges_Client = or_else (UpdateInput_Client inp) (Engagement_Client current),
                 UpdateChanges_Description = or_else (UpdateInput_Description inp) (Engagement_Description current),
                 UpdateChanges_StartsOn = or_else (UpdateInput_StartsOn inp) (Engagement_StartsOn current),
                 UpdateChanges_EndsOn = or_else (UpdateInput_EndsOn inp) (Engagement_EndsOn current),
                 UpdateChanges_AttackVersion = or_else (UpdateInput_AttackVersion inp) (Engagement_AttackVersion current),
                 UpdateChanges_Mode = or_else (UpdateInput_Mode inp) (Engagement_Mode current),
                 UpdateChanges_AutoRevealOnStart =
                   or_else (UpdateInput_AutoRevealOnStart inp) (Engagement_AutoRevealOnStart current)\<rparr>
                [record_hook svc (workbook_entry actorID eid VerbEngagementUpdated ObjectEngagement eid (patchDelta svc inp))] db)"

definition validStatusTransitions :: "(EngagementStatus \<times> EngagementStatus list) list" where
  "validStatusTransitions =
     [(EngagementStatusDraft, [EngagementStatusActive, EngagementStatusClosed]),
      (EngagementStatusActive, [EngagementStatusClosed]),
      (EngagementStatusClosed, [EngagementStatusArchived])]"

definition SetStatus :: "Workbook_Service \<Rightarrow> gotime \<Rightarrow> string \<Rightarrow> string \<Rightarrow> EngagementStatus \<Rightarrow> EDB \<Rightarrow>
    (error + Engagement) \<times> EDB" where
  "SetStatus svc clock actorID eid newStatus db =
     (if \<not> EngagementStatus_Valid newStatus
      then (Inl (Validation [Field ''status'' (''unknown status: '' @ Quote newStatus)]), db)
      else case Engagements_ByID eid db of
        Inl err \<Rightarrow> (Inl err, db)
      | Inr current \<Rightarrow>
          if Engagement_Status current = newStatus then (Inr current, db)
          else case map_of validStatusTransitions (Engagement_Status current) of
            None \<Rightarrow>
              (Inl (Conflict (''cannot transition from '' @ Quote (Engagement_Status current) @ '' to '' @ Quote newStatus @
                 '': '' @ Quote (Engagement_Status current) @ '' is a terminal state with no outgoing transitions'')), db)
          | Some allowed \<Rightarrow>
              if newStatus \<notin> set allowed
              then (Inl (Conflict (''cannot transition from '' @ Quote (Engagement_Status current) @ '' to '' @
                     Quote newStatus)), db)
              else Engagements_SetStatus eid clock newStatus
                     [record_hook svc (workbook_entry actorID eid VerbEngagementStatusChanged ObjectEngagement eid
                        (Delta [(''from'', DString (Engagement_Status current)), (''to'', DString newStatus)]))] db)"

section \<open>Scenarios (scenarios.go)\<close>

record CreateScenarioInput =
  CreateScenarioInput_EngagementID :: string
  CreateScenarioInput_Name :: string
  CreateScenarioInput_Narrative :: string
  CreateScenarioInput_ThreatActor :: string
  CreateScenarioInput_Source :: ScenarioSource
  CreateScenarioInput_SourceRef :: string

definition CreateScenario :: "Workbook_Service \<Rightarrow> string \<Rightarrow> gotime \<Rightarrow> string \<Rightarrow> CreateScenarioInput \<Rightarrow> EDB \<Rightarrow>
    (error + Scenario) \<times> EDB" where
  "CreateScenario svc newID clock actorID inp db =
     (let source = (if \<not> ScenarioSource_Valid (CreateScenarioInput_Source inp) \<or> CreateScenarioInput_Source inp = []
                    then ScenarioSourceManual else CreateScenarioInput_Source inp);
          eid = CreateScenarioInput_EngagementID inp
      in case Engagements_ByID eid db of
           Inl err \<Rightarrow> (Inl err, db)
         | Inr eng \<Rightarrow>
             (case refuse_closed eng of
                Some err \<Rightarrow> (Inl err, db)
              | None \<Rightarrow>
                  (case Scenarios_Create newID clock
                          \<lparr>NewScenario_EngagementID = eid, NewScenario_Ordinal = Scenarios_NextOrdinal eid db,
                           NewScenario_Name = CreateScenarioInput_Name inp,
                           NewScenario_Narrative = CreateScenarioInput_Narrative inp, NewScenario_Source = source,
                           NewScenario_ThreatActor = CreateScenarioInput_ThreatActor inp,
                           NewScenario_SourceRef = CreateScenarioInput_SourceRef inp, NewScenario_PlanID = []\<rparr> [] db of
                     (Inl err, db') \<Rightarrow> (Inl (ErrorfW ''scenario: create'' err), db')
                   | (Inr scenario, db') \<Rightarrow>
                       (Inr scenario, recordAlone svc (workbook_entry actorID eid VerbScenarioCreated ObjectScenario
                          (Scenario_ID scenario) (Delta [(''name'', DString (CreateScenarioInput_Name inp))])) db'))))"

record PatchScenarioInput =
  PatchScenarioInput_Name :: "string option"
  PatchScenarioInput_Narrative :: "string option"
  PatchScenarioInput_ThreatActor :: "string option"

definition PatchScenario :: "Workbook_Service \<Rightarrow> gotime \<Rightarrow> string \<Rightarrow> string \<Rightarrow> string \<Rightarrow> PatchScenarioInput \<Rightarrow> EDB \<Rightarrow>
    (error + Scenario) \<times> EDB" where
  "PatchScenario svc clock actorID engagementID sid inp db =
     (case Scenarios_ByID sid db of
        Inl err \<Rightarrow> (Inl err, db)
      | Inr current \<Rightarrow>
          (case requireSameEngagement ''scenario'' sid (Scenario_EngagementID current) engagementID of
             Some err \<Rightarrow> (Inl err, db)
           | None \<Rightarrow>
               (case Engagements_ByID (Scenario_EngagementID current) db of
                  Inl err \<Rightarrow> (Inl err, db)
                | Inr eng \<Rightarrow>
                    (case refuse_closed eng of
                       Some err \<Rightarrow> (Inl err, db)
                     | None \<Rightarrow>
                         (case Scenarios_Update sid clock
                                 \<lparr>ScenarioUpdateChanges_Name = or_else (PatchScenarioInput_Name inp) (Scenario_Name current),
                                  ScenarioUpdateChanges_Narrative =
                                    or_else (PatchScenarioInput_Narrative inp) (Scenario_Narrative current),
                                  ScenarioUpdateChanges_ThreatActor =
                                    or_else (PatchScenarioInput_ThreatActor inp) (Scenario_ThreatActor current)\<rparr>
                                 [record_hook svc (workbook_entry actorID (Scenario_EngagementID current)
                                    VerbScenarioUpdated ObjectScenario sid (Delta
                                      (opt_entry ''name'' DString (PatchScenarioInput_Name inp) @
                                       opt_entry ''narrative'' (\<lambda>_. DString ''[changed]'') (PatchScenarioInput_Narrative inp) @
                                       opt_entry ''threat_actor'' DString (PatchScenarioInput_ThreatActor inp))))] db of
                            (Inl err, db') \<Rightarrow> (Inl (ErrorfW ''scenario: patch'' err), db')
                          | (Inr scenario, db') \<Rightarrow> (Inr scenario, db'))))))"

text \<open>The checks of a reorder, shared by scenarios and steps: the same number of identifiers, all present.\<close>

definition reorder_check :: "string \<Rightarrow> string \<Rightarrow> string \<Rightarrow> string list \<Rightarrow> string list \<Rightarrow> error option" where
  "reorder_check what every foreign existing ids =
     (if length ids \<noteq> length existing then
        Some (Conflict (every @ '' ('' @ Itoa (int (length ids)) @ '' provided, '' @ Itoa (int (length existing)) @ '' exist)''))
      else case find (\<lambda>i. i \<notin> set existing) ids of
             Some i \<Rightarrow> Some (Conflict (what @ '' '' @ Quote i @ foreign))
           | None \<Rightarrow> None)"

definition ReorderScenarios :: "Workbook_Service \<Rightarrow> gotime \<Rightarrow> string \<Rightarrow> string \<Rightarrow> string list \<Rightarrow> EDB \<Rightarrow>
    (error + Scenario list) \<times> EDB" where
  "ReorderScenarios svc clock actorID engagementID ids db =
     (case Engagements_ByID engagementID db of
        Inl err \<Rightarrow> (Inl err, db)
      | Inr eng \<Rightarrow>
          (case refuse_closed eng of
             Some err \<Rightarrow> (Inl err, db)
           | None \<Rightarrow>
               (case reorder_check ''scenario'' ''must include every scenario in the engagement''
                       ('' does not belong to engagement '' @ engagementID)
                       (map Scenario_ID (Scenarios_ListByEngagement engagementID db)) ids of
                  Some err \<Rightarrow> (Inl err, db)
                | None \<Rightarrow>
                    (case Scenarios_Reorder clock ids db of
                       (Some err, db') \<Rightarrow> (Inl (ErrorfW ''scenario: reorder'' err), db')
                     | (None, db') \<Rightarrow>
                         (let db'' = recordAlone svc (workbook_entry actorID engagementID VerbScenarioReordered ObjectScenario
                                engagementID (Delta ([(''order'', DList ids)]))) db'
                          in (Inr (Scenarios_ListByEngagement engagementID db''), db''))))))"

section \<open>Steps (steps.go)\<close>

record CreateStepInput =
  CreateStepInput_EngagementID :: string
  CreateStepInput_ScenarioID :: string
  CreateStepInput_Name :: string
  CreateStepInput_Objective :: string
  CreateStepInput_TechniqueID :: string
  CreateStepInput_SubtechniqueID :: string
  CreateStepInput_TacticID :: string
  CreateStepInput_TechniqueExternalID :: string
  CreateStepInput_Procedure :: string
  CreateStepInput_TemplateID :: string
  CreateStepInput_TargetAsset :: string
  CreateStepInput_Tools :: string
  CreateStepInput_ControlsInScope :: string

definition CreateStepInput_defaults :: "CreateStepInput \<Rightarrow> CreateStepInput" where
  "CreateStepInput_defaults inp =
     (let inp = (if CreateStepInput_Procedure inp = [] then inp\<lparr>CreateStepInput_Procedure := ''{}''\<rparr> else inp);
          inp = (if CreateStepInput_Tools inp = [] then inp\<lparr>CreateStepInput_Tools := ''[]''\<rparr> else inp)
      in if CreateStepInput_ControlsInScope inp = [] then inp\<lparr>CreateStepInput_ControlsInScope := ''[]''\<rparr> else inp)"

text \<open>Resolving the technique against the engagement's pinned version fills what the caller left empty.\<close>

definition resolve_technique :: "Workbook_Service \<Rightarrow> string \<Rightarrow> CreateStepInput \<Rightarrow> error + CreateStepInput" where
  "resolve_technique svc attackVersion inp =
     (if CreateStepInput_TechniqueExternalID inp = [] then Inr inp
      else case Svc_attackpin svc of
        None \<Rightarrow> Inl (Conflict ''attackpin service not available for technique resolution'')
      | Some pin \<Rightarrow>
          (case ResolveTechnique pin attackVersion (CreateStepInput_TechniqueExternalID inp) of
             Inl err \<Rightarrow> Inl err
           | Inr tech \<Rightarrow>
               (let inp = inp\<lparr>CreateStepInput_TechniqueID := Technique_ExternalID tech\<rparr>;
                    inp = (if CreateStepInput_Name inp = [] then inp\<lparr>CreateStepInput_Name := Technique_Name tech\<rparr> else inp)
                in Inr (if CreateStepInput_Procedure inp = ''{}''
                        then inp\<lparr>CreateStepInput_Procedure :=
                               Svc_marshalProcedure svc (Technique_Description tech) (Technique_Name tech)\<rparr>
                        else inp))))"

definition CreateStep :: "Workbook_Service \<Rightarrow> string \<Rightarrow> string \<Rightarrow> gotime \<Rightarrow> string \<Rightarrow> CreateStepInput \<Rightarrow> EDB \<Rightarrow>
    (error + Step_row) \<times> EDB" where
  "CreateStep svc stepID execID clock actorID inp0 db =
     (let inp = CreateStepInput_defaults inp0 in
      case Scenarios_ByID (CreateStepInput_ScenarioID inp) db of
        Inl err \<Rightarrow> (Inl err, db)
      | Inr scenario \<Rightarrow>
          (case requireSameEngagement ''scenario'' (CreateStepInput_ScenarioID inp) (Scenario_EngagementID scenario)
                  (CreateStepInput_EngagementID inp) of
             Some err \<Rightarrow> (Inl err, db)
           | None \<Rightarrow>
               (case Engagements_ByID (Scenario_EngagementID scenario) db of
                  Inl err \<Rightarrow> (Inl err, db)
                | Inr eng \<Rightarrow>
                    (case refuse_closed eng of
                       Some err \<Rightarrow> (Inl err, db)
                     | None \<Rightarrow>
                         (case resolve_technique svc (Engagement_AttackVersion eng) inp of
                            Inl err \<Rightarrow> (Inl err, db)
                          | Inr inp \<Rightarrow>
                              (case Steps_CreateWithExecution stepID execID clock
                                      \<lparr>NewStep_ScenarioID = CreateStepInput_ScenarioID inp,
                                       NewStep_Ordinal = Steps_NextOrdinal (CreateStepInput_ScenarioID inp) db,
                                       NewStep_Name = CreateStepInput_Name inp,
                                       NewStep_Objective = CreateStepInput_Objective inp,
                                       NewStep_TechniqueID = CreateStepInput_TechniqueID inp,
                                       NewStep_SubtechniqueID = CreateStepInput_SubtechniqueID inp,
                                       NewStep_TacticID = CreateStepInput_TacticID inp,
                                       NewStep_Procedure = CreateStepInput_Procedure inp,
                                       NewStep_TemplateID = CreateStepInput_TemplateID inp,
                                       NewStep_TargetAsset = CreateStepInput_TargetAsset inp,
                                       NewStep_Tools = CreateStepInput_Tools inp,
                                       NewStep_ControlsInScope = CreateStepInput_ControlsInScope inp,
                                       NewStep_AttackVersion = Engagement_AttackVersion eng\<rparr> [] db of
                                 (Inl err, db') \<Rightarrow> (Inl (ErrorfW ''step: create'' err), db')
                               | (Inr (step, exec), db') \<Rightarrow>
                                   (Inr step, recordAlone svc (workbook_entry actorID (Scenario_EngagementID scenario)
                                      VerbStepCreated ObjectStep (Step_ID step)
                                      (Delta [(''name'', DString (CreateStepInput_Name inp))])) db')))))))"

definition GetStepInEngagement :: "string \<Rightarrow> string \<Rightarrow> EDB \<Rightarrow> error + Step_row" where
  "GetStepInEngagement engagementID stepID db =
     (case Steps_ByID stepID db of
        Inl err \<Rightarrow> Inl err
      | Inr step \<Rightarrow>
          (case ScenarioEngagementID (Step_ScenarioID step) db of
             Inl err \<Rightarrow> Inl err
           | Inr owner \<Rightarrow>
               (case requireSameEngagement ''step'' stepID owner engagementID of
                  Some err \<Rightarrow> Inl err | None \<Rightarrow> Inr step)))"

definition ListSteps :: "string \<Rightarrow> string \<Rightarrow> blind_Scope \<Rightarrow> EDB \<Rightarrow> error + Step_row list" where
  "ListSteps engagementID scenarioID scope db =
     (case ScenarioEngagementID scenarioID db of
        Inl err \<Rightarrow> Inl err
      | Inr owner \<Rightarrow>
          (case requireSameEngagement ''scenario'' scenarioID owner engagementID of
             Some err \<Rightarrow> Inl err | None \<Rightarrow> Inr (Steps_ListByScenario scenarioID scope db)))"

definition ListEngagementSteps :: "string \<Rightarrow> blind_Scope \<Rightarrow> EDB \<Rightarrow> Step_row list" where
  "ListEngagementSteps engagementID scope db = Steps_ListByEngagement engagementID scope db"

record PatchStepInput =
  PatchStepInput_Name :: "string option"
  PatchStepInput_Objective :: "string option"
  PatchStepInput_TargetAsset :: "string option"
  PatchStepInput_Tools :: "string option"
  PatchStepInput_ControlsInScope :: "string option"

definition PatchStep :: "Workbook_Service \<Rightarrow> gotime \<Rightarrow> string \<Rightarrow> string \<Rightarrow> string \<Rightarrow> PatchStepInput \<Rightarrow> EDB \<Rightarrow>
    (error + Step_row) \<times> EDB" where
  "PatchStep svc clock actorID engagementID sid inp db =
     (case step_context engagementID sid db of
        Inl err \<Rightarrow> (Inl err, db)
      | Inr (current, scenario, eng) \<Rightarrow>
          (case Steps_Update sid clock
                  \<lparr>StepUpdateChanges_Name = or_else (PatchStepInput_Name inp) (Step_Name current),
                   StepUpdateChanges_Objective = or_else (PatchStepInput_Objective inp) (Step_Objective current),
                   StepUpdateChanges_TargetAsset = or_else (PatchStepInput_TargetAsset inp) (Step_TargetAsset current),
                   StepUpdateChanges_Tools = or_else (PatchStepInput_Tools inp) (Step_Tools current),
                   StepUpdateChanges_ControlsInScope =
                     or_else (PatchStepInput_ControlsInScope inp) (Step_ControlsInScope current)\<rparr>
                  [record_hook svc (workbook_entry actorID (Scenario_EngagementID scenario) VerbStepUpdated ObjectStep sid
                     (Delta (opt_entry ''name'' DString (PatchStepInput_Name inp) @
                       opt_entry ''objective'' (\<lambda>_. DString ''[changed]'') (PatchStepInput_Objective inp) @
                       opt_entry ''target_asset'' DString (PatchStepInput_TargetAsset inp) @
                       opt_entry ''tools'' (\<lambda>_. DString ''[changed]'') (PatchStepInput_Tools inp) @
                       opt_entry ''controls_in_scope'' (\<lambda>_. DString ''[changed]'')
                         (PatchStepInput_ControlsInScope inp))))] db of
             (Inl err, db') \<Rightarrow> (Inl (ErrorfW ''step: patch'' err), db')
           | (Inr step, db') \<Rightarrow> (Inr step, db')))"

definition ReorderSteps :: "Workbook_Service \<Rightarrow> gotime \<Rightarrow> string \<Rightarrow> string \<Rightarrow> string \<Rightarrow> string list \<Rightarrow> EDB \<Rightarrow>
    (error + Step_row list) \<times> EDB" where
  "ReorderSteps svc clock actorID engagementID scenarioID ids db =
     (case Scenarios_ByID scenarioID db of
        Inl err \<Rightarrow> (Inl err, db)
      | Inr scenario \<Rightarrow>
          (case requireSameEngagement ''scenario'' scenarioID (Scenario_EngagementID scenario) engagementID of
             Some err \<Rightarrow> (Inl err, db)
           | None \<Rightarrow>
               (case Engagements_ByID (Scenario_EngagementID scenario) db of
                  Inl err \<Rightarrow> (Inl err, db)
                | Inr eng \<Rightarrow>
                    (case refuse_closed eng of
                       Some err \<Rightarrow> (Inl err, db)
                     | None \<Rightarrow>
                         (case reorder_check ''step'' ''must include every step in the scenario''
                                 ('' does not belong to scenario '' @ scenarioID)
                                 (map Step_ID (Steps_ListByScenario scenarioID \<lparr>Scope_Blind = False, Scope_Seat = []\<rparr> db)) ids of
                            Some err \<Rightarrow> (Inl err, db)
                          | None \<Rightarrow>
                              (case Steps_Reorder clock ids db of
                                 (Some err, db') \<Rightarrow> (Inl (ErrorfW ''step: reorder'' err), db')
                               | (None, db') \<Rightarrow>
                                   (let db'' = recordAlone svc (workbook_entry actorID (Scenario_EngagementID scenario)
                                          VerbStepReordered ObjectStep scenarioID (Delta ([(''order'', DList ids)]))) db'
                                    in (Inr (Steps_ListByScenario scenarioID \<lparr>Scope_Blind = False, Scope_Seat = []\<rparr> db''),
                                        db''))))))))"

definition RevealStep :: "Workbook_Service \<Rightarrow> gotime \<Rightarrow> string \<Rightarrow> string \<Rightarrow> string \<Rightarrow> EDB \<Rightarrow>
    (error + Step_row) \<times> EDB" where
  "RevealStep svc clock actorID engagementID sid db =
     (case step_context engagementID sid db of
        Inl err \<Rightarrow> (Inl err, db)
      | Inr (current, scenario, eng) \<Rightarrow>
          (case Steps_Reveal sid clock db of
             (Inl err, db') \<Rightarrow> (Inl (ErrorfW ''step: reveal'' err), db')
           | (Inr step, db') \<Rightarrow>
               (Inr step, recordAlone svc (workbook_entry actorID (Scenario_EngagementID scenario) VerbStepRevealed
                  ObjectStep sid []) db')))"

section \<open>Executions (executions.go)\<close>

record PatchRedExecutionInput =
  RedInput_Version :: int
  RedInput_Status :: "ExecutionStatus option"
  RedInput_StartedAt :: "gotime option"
  RedInput_EndedAt :: "gotime option"
  RedInput_CommandRun :: "string option"
  RedInput_SourceHost :: "string option"
  RedInput_TargetHost :: "string option"
  RedInput_RedNotes :: "string option"

definition validStatusTransitionsExecution :: "(ExecutionStatus \<times> ExecutionStatus list) list" where
  "validStatusTransitionsExecution =
     [(ExecutionStatusPending, [ExecutionStatusRunning, ExecutionStatusSkipped, ExecutionStatusBlocked]),
      (ExecutionStatusRunning, [ExecutionStatusComplete, ExecutionStatusBlocked, ExecutionStatusSkipped])]"

text \<open>The same status is always accepted; any other must be an edge of the table.\<close>

definition execution_transition :: "ExecutionStatus \<Rightarrow> ExecutionStatus \<Rightarrow> error option" where
  "execution_transition old new =
     (if new = old then None
      else case map_of validStatusTransitionsExecution old of
        None \<Rightarrow> Some (Conflict (''illegal status transition: '' @ old @ '' is a terminal state''))
      | Some allowed \<Rightarrow>
          if new \<notin> set allowed
          then Some (Conflict (''illegal status transition from '' @ old @ '' to '' @ new))
          else None)"

definition auto_reveals :: "Engagement \<Rightarrow> Step_row \<Rightarrow> ExecutionStatus \<Rightarrow> ExecutionStatus option \<Rightarrow> bool" where
  "auto_reveals eng step old status \<longleftrightarrow>
     (case status of
        None \<Rightarrow> False
      | Some new \<Rightarrow> new \<noteq> old \<and> (new = ExecutionStatusRunning \<or> new = ExecutionStatusComplete) \<and>
          Engagement_Mode eng = EngagementModeBlind \<and> Engagement_AutoRevealOnStart eng \<and>
          Step_RevealedAt step = None)"

definition redDelta :: "PatchRedExecutionInput \<Rightarrow> Execution \<Rightarrow> Execution \<Rightarrow> (string \<times> delta_value) list" where
  "redDelta inp before after =
     opt_entry ''status'' (\<lambda>_. DMap [(''from'', DString (Execution_Status before)),
       (''to'', DString (Execution_Status after))]) (RedInput_Status inp) @
     opt_entry ''commandRun'' (\<lambda>_. DBool True) (RedInput_CommandRun inp) @
     opt_entry ''sourceHost'' (\<lambda>_. DBool True) (RedInput_SourceHost inp) @
     opt_entry ''targetHost'' (\<lambda>_. DBool True) (RedInput_TargetHost inp) @
     opt_entry ''startedAt'' (\<lambda>_. DBool True) (RedInput_StartedAt inp) @
     opt_entry ''endedAt'' (\<lambda>_. DBool True) (RedInput_EndedAt inp) @
     opt_entry ''redNotes'' (\<lambda>_. DBool True) (RedInput_RedNotes inp)"

text \<open>
  The changes asked of the store: the first move away from pending names who executed, and a move
  to running without a start time takes the clock's.
\<close>

definition red_changes :: "gotime \<Rightarrow> string \<Rightarrow> Execution \<Rightarrow> PatchRedExecutionInput \<Rightarrow> RedPatchChanges" where
  "red_changes now actorID exec inp =
     \<lparr>RedPatch_Status = RedInput_Status inp,
      RedPatch_StartedAt =
        (if RedInput_Status inp = Some ExecutionStatusRunning \<and> RedInput_StartedAt inp = None \<and>
            Execution_StartedAt exec = None
         then Some now else RedInput_StartedAt inp),
      RedPatch_EndedAt = RedInput_EndedAt inp, RedPatch_CommandRun = RedInput_CommandRun inp,
      RedPatch_SourceHost = RedInput_SourceHost inp, RedPatch_TargetHost = RedInput_TargetHost inp,
      RedPatch_RedNotes = RedInput_RedNotes inp,
      RedPatch_ExecutedBy =
        (case RedInput_Status inp of
           None \<Rightarrow> None
         | Some new \<Rightarrow>
             if new \<noteq> Execution_Status exec \<and> Execution_ExecutedBy exec = [] \<and>
                Execution_Status exec = ExecutionStatusPending
             then Some actorID else None)\<rparr>"

text \<open>Clock readings in order: the reveal's, the service's, the store's.\<close>

definition PatchRedExecution :: "Workbook_Service \<Rightarrow> gotime \<Rightarrow> gotime \<Rightarrow> gotime \<Rightarrow> string \<Rightarrow> string \<Rightarrow> string \<Rightarrow>
    PatchRedExecutionInput \<Rightarrow> EDB \<Rightarrow> (error + Execution) \<times> EDB" where
  "PatchRedExecution svc revealClock now clock actorID engagementID xid inp db =
     (case execution_context engagementID xid db of
        Inl err \<Rightarrow> (Inl err, db)
      | Inr (exec, step, scenario, eng) \<Rightarrow>
          (case (case RedInput_Status inp of
                   None \<Rightarrow> None | Some new \<Rightarrow> execution_transition (Execution_Status exec) new) of
             Some err \<Rightarrow> (Inl err, db)
           | None \<Rightarrow>
               (case (if auto_reveals eng step (Execution_Status exec) (RedInput_Status inp)
                      then (case Steps_Reveal (Step_ID step) revealClock db of
                              (Inl err, db') \<Rightarrow> (Some err, db') | (Inr revealed, db') \<Rightarrow> (None, db'))
                      else (None, db)) of
                  (Some err, db1) \<Rightarrow> (Inl (ErrorfW (''execution: auto-reveal step '' @ Quote (Step_ID step)) err), db1)
                | (None, db1) \<Rightarrow>
                    (case PatchRed xid (RedInput_Version inp) (red_changes now actorID exec inp) clock [] db1 of
                       (Inl err, db2) \<Rightarrow> (Inl err, db2)
                     | (Inr patched, db2) \<Rightarrow>
                         (Inr patched, recordAlone svc (workbook_entry actorID (Scenario_EngagementID scenario)
                            VerbExecutionRedUpdated ObjectExecution xid (Delta (redDelta inp exec patched))) db2)))))"

record PatchBlueDetectionInput =
  BlueInput_Version :: int
  BlueInput_DetectionCategory :: "Category option"
  BlueInput_DetectionModifiers :: "string list option"
  BlueInput_Protection :: "Protection option"
  BlueInput_DetectedAt :: "gotime option"
  BlueInput_DetectingSource :: "string option"
  BlueInput_DetectingRuleRef :: "string option"
  BlueInput_AlertSeverity :: "string option"
  BlueInput_BlueNotes :: "string option"

definition blueDelta :: "PatchBlueDetectionInput \<Rightarrow> (string \<times> delta_value) list" where
  "blueDelta inp =
     opt_entry ''detectionCategory'' (\<lambda>_. DBool True) (BlueInput_DetectionCategory inp) @
     opt_entry ''detectionModifiers'' (\<lambda>_. DBool True) (BlueInput_DetectionModifiers inp) @
     opt_entry ''protection'' (\<lambda>_. DBool True) (BlueInput_Protection inp) @
     opt_entry ''detectedAt'' (\<lambda>_. DBool True) (BlueInput_DetectedAt inp) @
     opt_entry ''detectingSource'' (\<lambda>_. DBool True) (BlueInput_DetectingSource inp) @
     opt_entry ''detectingRuleRef'' (\<lambda>_. DBool True) (BlueInput_DetectingRuleRef inp) @
     opt_entry ''alertSeverity'' (\<lambda>_. DBool True) (BlueInput_AlertSeverity inp) @
     opt_entry ''blueNotes'' (\<lambda>_. DBool True) (BlueInput_BlueNotes inp)"

text \<open>The text of the error \<open>ValidateModifiers\<close> returns.\<close>

definition modifier_error :: "scoring_error \<Rightarrow> string" where
  "modifier_error err =
     (case err of UnknownModifier m \<Rightarrow> ''scoring: unknown detection modifier '' @ Quote m | _ \<Rightarrow> [])"

definition blue_changes :: "gotime \<Rightarrow> string \<Rightarrow> string list option \<Rightarrow> PatchBlueDetectionInput \<Rightarrow> BluePatchChanges" where
  "blue_changes now actorID modifiers inp =
     (let scored = (BlueInput_DetectionCategory inp \<noteq> None \<or> BlueInput_Protection inp \<noteq> None) in
      \<lparr>BluePatch_DetectionCategory = BlueInput_DetectionCategory inp, BluePatch_DetectionModifiers = modifiers,
       BluePatch_Protection = BlueInput_Protection inp, BluePatch_DetectedAt = BlueInput_DetectedAt inp,
       BluePatch_DetectingSource = BlueInput_DetectingSource inp,
       BluePatch_DetectingRuleRef = BlueInput_DetectingRuleRef inp,
       BluePatch_AlertSeverity = BlueInput_AlertSeverity inp, BluePatch_BlueNotes = BlueInput_BlueNotes inp,
       BluePatch_ScoredBy = (if scored then Some actorID else None),
       BluePatch_ScoredAt = (if scored then Some now else None)\<rparr>)"

definition PatchBlueDetection :: "Workbook_Service \<Rightarrow> gotime \<Rightarrow> gotime \<Rightarrow> string \<Rightarrow> string \<Rightarrow> string \<Rightarrow>
    PatchBlueDetectionInput \<Rightarrow> EDB \<Rightarrow> (error + Execution) \<times> EDB" where
  "PatchBlueDetection svc now clock actorID engagementID xid inp db =
     (case execution_context engagementID xid db of
        Inl err \<Rightarrow> (Inl err, db)
      | Inr (exec, step, scenario, eng) \<Rightarrow>
          (case (case BlueInput_DetectionModifiers inp of
                   None \<Rightarrow> Inr None
                 | Some mods \<Rightarrow> (case ValidateModifiers mods of Inl err \<Rightarrow> Inl err | Inr deduped \<Rightarrow> Inr (Some deduped))) of
             Inl err \<Rightarrow> (Inl (Validation [Field ''detectionModifiers'' (modifier_error err)]), db)
           | Inr modifiers \<Rightarrow>
               if (case (BlueInput_DetectedAt inp, Execution_StartedAt exec) of
                     (Some detected, Some started) \<Rightarrow> Before detected started | _ \<Rightarrow> False)
               then (Inl (Validation [Field ''detectedAt'' ''must not precede started_at'']), db)
               else (case PatchBlue xid (BlueInput_Version inp) (blue_changes now actorID modifiers inp) clock [] db of
                       (Inl err, db') \<Rightarrow> (Inl err, db')
                     | (Inr patched, db') \<Rightarrow>
                         (Inr patched, recordAlone svc (workbook_entry actorID (Scenario_EngagementID scenario)
                            VerbExecutionBlueUpdated ObjectExecution xid (Delta (blueDelta inp))) db'))))"

definition GetExecutionInEngagement :: "string \<Rightarrow> string \<Rightarrow> EDB \<Rightarrow> error + Execution" where
  "GetExecutionInEngagement engagementID executionID db =
     (case Executions_ByID executionID db of
        Inl err \<Rightarrow> Inl err
      | Inr exec \<Rightarrow>
          (case StepEngagementID (Execution_StepID exec) db of
             Inl err \<Rightarrow> Inl err
           | Inr owner \<Rightarrow>
               (case requireSameEngagement ''execution'' executionID owner engagementID of
                  Some err \<Rightarrow> Inl err | None \<Rightarrow> Inr exec)))"

section \<open>One request after another\<close>

text \<open>
  Whatever it answers, a write request authorised for the engagement e takes the database to the
  one its handler leaves; membership requests are those of Members, and a creation is its own
  engagement's first request.
\<close>

inductive workbook_step :: "Workbook_Service \<Rightarrow> string \<Rightarrow> EDB \<Rightarrow> EDB \<Rightarrow> bool" for svc e where
  create: "workbook_step svc e db (snd (Create svc e c1 c2 a ci db))"
| update: "workbook_step svc e db (snd (Update svc c1 a e ui db))"
| set_status: "workbook_step svc e db (snd (SetStatus svc c1 a e st db))"
| create_scenario: "CreateScenarioInput_EngagementID csi = e \<Longrightarrow>
    workbook_step svc e db (snd (CreateScenario svc nid c1 a csi db))"
| patch_scenario: "workbook_step svc e db (snd (PatchScenario svc c1 a e sid psi db))"
| reorder_scenarios: "workbook_step svc e db (snd (ReorderScenarios svc c1 a e ids db))"
| create_step: "CreateStepInput_EngagementID cti = e \<Longrightarrow>
    workbook_step svc e db (snd (CreateStep svc nid xid c1 a cti db))"
| patch_step: "workbook_step svc e db (snd (PatchStep svc c1 a e sid pti db))"
| reorder_steps: "workbook_step svc e db (snd (ReorderSteps svc c1 a e sid ids db))"
| reveal_step: "workbook_step svc e db (snd (RevealStep svc c1 a e sid db))"
| patch_red: "workbook_step svc e db (snd (PatchRedExecution svc c1 c2 c3 a e xid ri db))"
| patch_blue: "workbook_step svc e db (snd (PatchBlueDetection svc c1 c2 a e xid bi db))"
| seat: "member_step member_service (EDB_identity db) i \<Longrightarrow> workbook_step svc e db (db\<lparr>EDB_identity := i\<rparr>)"

text \<open>Any requests, for any engagements.\<close>

definition workbook_any :: "Workbook_Service \<Rightarrow> EDB \<Rightarrow> EDB \<Rightarrow> bool" where
  "workbook_any svc db db' \<longleftrightarrow> (\<exists>e. workbook_step svc e db db')"

end
