(* ===== verification/Workbook_Order.thy ===== *)
theory Workbook_Order
  imports Workbook
begin

text \<open>
  Ordinals. A table of ordered children (scenarios under an engagement, steps under a scenario)
  has the UNIQUE constraint on parent and ordinal, and \<open>Reorder_loop\<close> assigns 1, 2, ... one UPDATE
  at a time. The locale \<open>ordered_rows\<close> is what the loop uses of such a table; it is interpreted on
  both. Its main lemma is that on dense ordinals the loop can only succeed without moving
  anything: to put a row at a position is to collide with the row that is there.
\<close>

definition group_of :: "('r \<Rightarrow> string) \<Rightarrow> string \<Rightarrow> 'r list \<Rightarrow> 'r list" where
  "group_of parent p rows = filter (\<lambda>r. parent r = p) rows"

text \<open>The ordinals of a group of n rows are 1 to n.\<close>

definition dense :: "('r \<Rightarrow> string) \<Rightarrow> ('r \<Rightarrow> int) \<Rightarrow> string \<Rightarrow> 'r list \<Rightarrow> bool" where
  "dense parent ord p rows \<longleftrightarrow>
     ord ` set (group_of parent p rows) = {1..int (length (group_of parent p rows))}"

locale ordered_rows =
  fixes key :: "'r \<Rightarrow> string"
    and parent :: "'r \<Rightarrow> string"
    and ord :: "'r \<Rightarrow> int"
    and place :: "int \<Rightarrow> 'r \<Rightarrow> 'r"
  assumes key_place [simp]: "key (place i r) = key r"
    and parent_place [simp]: "parent (place i r) = parent r"
    and ord_place [simp]: "ord (place i r) = i"
begin

abbreviation shape :: "'r \<Rightarrow> string \<times> string \<times> int" where
  "shape r \<equiv> (key r, parent r, ord r)"

lemma unique_shape:
  assumes "ordinals_unique parent ord rows" "r \<in> set rows" "r' \<in> set rows" "parent r = parent r'" "ord r = ord r'"
  shows "r = r'"
proof -
  have "inj_on (\<lambda>r. (parent r, ord r)) (set rows)"
    using assms(1) by (simp add: ordinals_unique_def distinct_map)
  then show ?thesis using assms(2-5) by (auto dest: inj_onD)
qed

text \<open>One UPDATE that the constraint lets through, onto an occupied ordinal, hits the row that has it.\<close>

lemma place_occupied:
  assumes unique: "ordinals_unique parent ord (update_where (\<lambda>r. key r = rid) (place i) rows)"
    and there: "r0 \<in> set rows" "parent r0 = p" "ord r0 = i"
    and row: "r1 \<in> set rows" "key r1 = rid" "parent r1 = p"
    and keys: "distinct (map key rows)"
  shows "r1 = r0 \<and> map shape (update_where (\<lambda>r. key r = rid) (place i) rows) = map shape rows"
proof -
  let ?rows' = "update_where (\<lambda>r. key r = rid) (place i) rows"
  have same: "r1 = r0"
  proof (rule ccontr)
    assume neq: "r1 \<noteq> r0"
    then have "key r0 \<noteq> rid"
      using keys there(1) row(1,2) by (auto simp: distinct_map dest: inj_onD)
    then have "r0 \<in> set ?rows'" "place i r1 \<in> set ?rows'"
      using there(1) row(1,2) unfolding set_update_where by force+
    then have "r0 = place i r1"
      using unique_shape [OF unique] there(2,3) row(3) by simp
    then show False using \<open>key r0 \<noteq> rid\<close> row(2) key_place by metis
  qed
  have "shape (if key r = rid then place i r else r) = shape r" if "r \<in> set rows" for r
  proof (cases "key r = rid")
    case True
    then have "r = r1" using keys that row(1,2) by (auto simp: distinct_map dest: inj_onD)
    then show ?thesis using same there(3) by simp
  qed simp
  then show ?thesis using same by (simp add: update_where_def)
qed

text \<open>
  So a whole loop that succeeds, from position i on, leaves every row's ordinal as it was, and
  names the rows in the order they already have.
\<close>

lemma loop_moves_nothing:
  assumes "Reorder_loop what key parent ord place i ids rows = Inr rows'"
    and "distinct (map key rows)"
    and "\<And>j. i < j \<Longrightarrow> j \<le> i + length ids \<Longrightarrow> \<exists>r\<in>set rows. parent r = p \<and> ord r = int j"
    and "\<And>rid. rid \<in> set ids \<Longrightarrow> \<exists>r\<in>set rows. key r = rid \<and> parent r = p"
  shows "map shape rows' = map shape rows \<and>
    (\<forall>k<length ids. \<exists>r\<in>set rows. key r = ids ! k \<and> parent r = p \<and> ord r = int (i + k + 1))"
  using assms
proof (induction ids arbitrary: i rows)
  case (Cons rid ids)
  let ?mid = "update_where (\<lambda>r. key r = rid) (place (int i + 1)) rows"
  have unique: "ordinals_unique parent ord ?mid"
    and rest: "Reorder_loop what key parent ord place (Suc i) ids ?mid = Inr rows'"
    using Cons.prems(1) by (auto simp: Let_def split: if_splits)
  obtain r0 where r0: "r0 \<in> set rows" "parent r0 = p" "ord r0 = int i + 1"
    using Cons.prems(3) [of "Suc i"] by auto
  obtain r1 where r1: "r1 \<in> set rows" "key r1 = rid" "parent r1 = p"
    using Cons.prems(4) [of rid] by auto
  have mid: "r1 = r0" "map shape ?mid = map shape rows"
    using place_occupied [OF unique r0 r1 Cons.prems(2)] by simp_all
  have shapes: "shape ` set ?mid = shape ` set rows"
    by (simp only: list.set_map [symmetric] mid(2))
  have found: "(\<exists>r\<in>set ?mid. P (shape r)) \<longleftrightarrow> (\<exists>r\<in>set rows. P (shape r))" for P
    using bex_image_cong [OF shapes, of P] by simp
  have keys: "distinct (map key ?mid)"
  proof -
    have "map key ?mid = map key rows" by (rule map_update_where) simp
    then show ?thesis using Cons.prems(2) by simp
  qed
  have "map shape rows' = map shape ?mid \<and>
      (\<forall>k<length ids. \<exists>r\<in>set ?mid. key r = ids ! k \<and> parent r = p \<and> ord r = int (Suc i + k + 1))"
  proof (rule Cons.IH [OF rest keys])
    show "\<exists>r\<in>set ?mid. parent r = p \<and> ord r = int j" if "Suc i < j" "j \<le> Suc i + length ids" for j
      using Cons.prems(3) [of j] that found [of "\<lambda>s. fst (snd s) = p \<and> snd (snd s) = int j"] by simp
    show "\<exists>r\<in>set ?mid. key r = x \<and> parent r = p" if "x \<in> set ids" for x
      using Cons.prems(4) [of x] that found [of "\<lambda>s. fst s = x \<and> fst (snd s) = p"] by simp
  qed
  then have later: "map shape rows' = map shape rows"
      "\<forall>k<length ids. \<exists>r\<in>set rows. key r = ids ! k \<and> parent r = p \<and> ord r = int (Suc i + k + 1)"
    using mid(2) found [of "\<lambda>s. fst s = ids ! k \<and> fst (snd s) = p \<and> snd (snd s) = int (Suc i + k + 1)" for k]
    by simp_all
  have "\<exists>r\<in>set rows. key r = (rid # ids) ! k \<and> parent r = p \<and> ord r = int (i + k + 1)"
    if "k < length (rid # ids)" for k
  proof (cases k)
    case 0
    then show ?thesis using r1 mid(1) r0(3) by auto
  next
    case (Suc k')
    then show ?thesis using later(2) that by auto
  qed
  then show ?case using later(1) by blast
qed simp

lemma group_member: "r \<in> set (group_of parent p rows) \<longleftrightarrow> r \<in> set rows \<and> parent r = p"
  by (auto simp: group_of_def)

text \<open>The same for a request: the identifiers of a whole dense group.\<close>

lemma reorder_moves_nothing:
  assumes "Reorder_loop what key parent ord place 0 ids rows = Inr rows'"
    and "distinct (map key rows)" "dense parent ord p rows" "length ids = length (group_of parent p rows)"
    and "set ids \<subseteq> key ` set (group_of parent p rows)"
  shows "map shape rows' = map shape rows \<and>
    (\<forall>k<length ids. \<exists>r\<in>set rows. key r = ids ! k \<and> parent r = p \<and> ord r = int (k + 1))"
proof -
  have there: "\<exists>r\<in>set rows. parent r = p \<and> ord r = int j" if "0 < j" "j \<le> 0 + length ids" for j
  proof -
    have "int j \<in> ord ` set (group_of parent p rows)"
      using assms(3,4) that by (simp add: dense_def)
    then show ?thesis by (auto simp: group_member)
  qed
  have rows: "\<exists>r\<in>set rows. key r = rid \<and> parent r = p" if "rid \<in> set ids" for rid
  proof -
    have "rid \<in> key ` set (group_of parent p rows)" using assms(5) that by (rule subsetD)
    then obtain r where "r \<in> set (group_of parent p rows)" "key r = rid" by (auto simp only: image_iff)
    then show ?thesis by (auto simp: group_member)
  qed
  show ?thesis
    using loop_moves_nothing [OF assms(1,2) there rows] by simp
qed

text \<open>The loop changes only the rows it names, and in them only what \<open>place\<close> changes.\<close>

lemma loop_map:
  assumes "Reorder_loop what key parent ord place i ids rows = Inr rows'"
    and "\<And>i r. h (place i r) = h r"
  shows "\<exists>g. rows' = map g rows \<and> (\<forall>r. key (g r) = key r \<and> h (g r) = h r \<and> (key r \<notin> set ids \<longrightarrow> g r = r))"
  using assms(1)
proof (induction ids arbitrary: i rows)
  case Nil
  then show ?case by (intro exI [of _ id]) simp
next
  case (Cons rid ids)
  let ?w = "\<lambda>r. if key r = rid then place (int i + 1) r else r"
  have "Reorder_loop what key parent ord place (Suc i) ids (map ?w rows) = Inr rows'"
    using Cons.prems by (auto simp: Let_def update_where_def split: if_splits)
  then obtain g where "rows' = map g (map ?w rows)"
      "\<forall>r. key (g r) = key r \<and> h (g r) = h r \<and> (key r \<notin> set ids \<longrightarrow> g r = r)"
    using Cons.IH by blast
  then show ?case using assms(2) by (intro exI [of _ "\<lambda>r. g (?w r)"]) (auto simp: comp_def)
qed

text \<open>The order a group already has is always accepted.\<close>

lemma loop_accepts:
  assumes "\<And>k. k < length ids \<Longrightarrow> \<exists>r\<in>set rows. key r = ids ! k \<and> ord r = int (i + k + 1)"
    and "distinct (map key rows)" "ordinals_unique parent ord rows"
  shows "\<exists>rows'. Reorder_loop what key parent ord place i ids rows = Inr rows'"
  using assms
proof (induction ids arbitrary: i rows)
  case (Cons rid ids)
  let ?mid = "update_where (\<lambda>r. key r = rid) (place (int i + 1)) rows"
  obtain r1 where r1: "r1 \<in> set rows" "key r1 = rid" "ord r1 = int i + 1"
    using Cons.prems(1) [of 0] by auto
  have same: "shape (if key r = rid then place (int i + 1) r else r) = shape r" if "r \<in> set rows" for r
  proof (cases "key r = rid")
    case True
    then have "r = r1" using Cons.prems(2) that r1 by (auto simp: distinct_map dest: inj_onD)
    then show ?thesis using r1 by simp
  qed simp
  have mid: "map shape ?mid = map shape rows" using same by (simp add: update_where_def)
  have keys: "distinct (map key ?mid)"
  proof -
    have "map key ?mid = map key rows" by (rule map_update_where) simp
    then show ?thesis using Cons.prems(2) by simp
  qed
  have unique: "ordinals_unique parent ord ?mid"
  proof -
    have "map (\<lambda>r. (parent r, ord r)) ?mid = map snd (map shape ?mid)" by simp
    also have "\<dots> = map (\<lambda>r. (parent r, ord r)) rows" unfolding mid by simp
    finally show ?thesis using Cons.prems(3) unfolding ordinals_unique_def by metis
  qed
  have "\<exists>r\<in>set ?mid. key r = ids ! k \<and> ord r = int (Suc i + k + 1)" if k: "k < length ids" for k
  proof -
    obtain r where r: "r \<in> set rows" "key r = ids ! k" "ord r = int (Suc i + k + 1)"
      using Cons.prems(1) [of "Suc k"] k by auto
    then show ?thesis using same [OF r(1)] unfolding set_update_where by (intro bexI [OF _ imageI [OF r(1)]]) auto
  qed
  then have "\<exists>rows'. Reorder_loop what key parent ord place (Suc i) ids ?mid = Inr rows'"
    using keys unique by (rule Cons.IH)
  then show ?case using unique by (simp add: Let_def)
qed simp

end

interpretation scenario_order: ordered_rows Scenario_ID Scenario_EngagementID Scenario_Ordinal "place_scenario ts" for ts
  by unfold_locales (simp_all add: place_scenario_def)

interpretation step_order: ordered_rows Step_ID Step_ScenarioID Step_Ordinal "place_step ts" for ts
  by unfold_locales (simp_all add: place_step_def)

end
