(* ===== verification/Workbook_Inv.thy ===== *)
theory Workbook_Inv
  imports Workbook_Order
begin

text \<open>
  What the workbook's tables promise. \<open>workbook_ok\<close> is the schema's invariant; \<open>book_event e\<close> is the
  abstract specification of a write: one row of one table of one engagement, with what may change
  in it. Every request of \<open>Workbook\<close> refines a finite sequence of such events of its own engagement
  (the lemmas \<open>_book\<close>), so a fact about events is a fact about all the requests.
\<close>

section \<open>The invariant\<close>

definition engagement_ok :: "Engagement \<Rightarrow> bool" where
  "engagement_ok r \<longleftrightarrow> EngagementStatus_Valid (Engagement_Status r)"

definition workbook_ok :: "EDB \<Rightarrow> bool" where
  "workbook_ok db \<longleftrightarrow>
     distinct (map Engagement_ID (EDB_engagements db)) \<and>
     distinct (map Scenario_ID (EDB_scenarios db)) \<and>
     distinct (map Step_ID (EDB_steps db)) \<and>
     distinct (map Execution_ID (EDB_executions db)) \<and>
     (\<forall>r\<in>set (EDB_engagements db). engagement_ok r) \<and>
     (\<forall>r\<in>set (EDB_scenarios db). Scenario_EngagementID r \<in> Engagement_ID ` set (EDB_engagements db)) \<and>
     (\<forall>r\<in>set (EDB_steps db). Step_ScenarioID r \<in> Scenario_ID ` set (EDB_scenarios db)) \<and>
     (\<forall>r\<in>set (EDB_executions db). Execution_StepID r \<in> Step_ID ` set (EDB_steps db)) \<and>
     (\<forall>r\<in>set (EDB_executions db). execution_known r) \<and>
     ordinals_unique Scenario_EngagementID Scenario_Ordinal (EDB_scenarios db) \<and>
     ordinals_unique Step_ScenarioID Step_Ordinal (EDB_steps db) \<and>
     (\<forall>r\<in>set (EDB_scenarios db). dense Scenario_EngagementID Scenario_Ordinal (Scenario_EngagementID r) (EDB_scenarios db)) \<and>
     (\<forall>r\<in>set (EDB_steps db). dense Step_ScenarioID Step_Ordinal (Step_ScenarioID r) (EDB_steps db)) \<and>
     distinct (map Execution_StepID (EDB_executions db))"

section \<open>Views of one engagement\<close>

definition is_open :: "string \<Rightarrow> EDB \<Rightarrow> bool" where
  "is_open e db \<longleftrightarrow> (\<exists>r\<in>set (EDB_engagements db). Engagement_ID r = e \<and>
     Engagement_Status r \<in> {EngagementStatusDraft, EngagementStatusActive})"

text \<open>The steps and the executions that the chain of parents puts in the engagement.\<close>

definition owns_scenario :: "EDB \<Rightarrow> string \<Rightarrow> string \<Rightarrow> bool" where
  "owns_scenario db e sid \<longleftrightarrow> (\<exists>r\<in>set (EDB_scenarios db). Scenario_ID r = sid \<and> Scenario_EngagementID r = e)"

definition owns_step :: "EDB \<Rightarrow> string \<Rightarrow> string \<Rightarrow> bool" where
  "owns_step db e sid \<longleftrightarrow> (\<exists>r\<in>set (EDB_steps db). Step_ID r = sid \<and> owns_scenario db e (Step_ScenarioID r))"

definition scenarios_of :: "string \<Rightarrow> EDB \<Rightarrow> Scenario list" where
  "scenarios_of e db = filter (\<lambda>r. Scenario_EngagementID r = e) (EDB_scenarios db)"

definition steps_of :: "string \<Rightarrow> EDB \<Rightarrow> Step_row list" where
  "steps_of e db = filter (\<lambda>r. owns_scenario db e (Step_ScenarioID r)) (EDB_steps db)"

definition executions_of :: "string \<Rightarrow> EDB \<Rightarrow> Execution list" where
  "executions_of e db = filter (\<lambda>r. owns_step db e (Execution_StepID r)) (EDB_executions db)"

text \<open>Everything a reader of the engagement's workbook is answered from.\<close>

definition workbook_of :: "string \<Rightarrow> EDB \<Rightarrow> Scenario list \<times> Step_row list \<times> Execution list" where
  "workbook_of e db = (scenarios_of e db, steps_of e db, executions_of e db)"

section \<open>The abstract writes\<close>

text \<open>The edges of the two status tables, and of the reveal.\<close>

definition status_moves :: "(string \<times> string list) list \<Rightarrow> string \<Rightarrow> string \<Rightarrow> bool" where
  "status_moves table s s' \<longleftrightarrow> s' = s \<or> (\<exists>allowed. map_of table s = Some allowed \<and> s' \<in> set allowed)"

definition scenario_kept :: "string \<Rightarrow> Scenario \<Rightarrow> Scenario \<Rightarrow> bool" where
  "scenario_kept e r r' \<longleftrightarrow> r' = r \<or> Scenario_EngagementID r = e \<and> Scenario_ID r' = Scenario_ID r \<and>
     Scenario_EngagementID r' = Scenario_EngagementID r \<and> Scenario_Ordinal r' = Scenario_Ordinal r"

definition step_kept :: "EDB \<Rightarrow> string \<Rightarrow> Step_row \<Rightarrow> Step_row \<Rightarrow> bool" where
  "step_kept db e r r' \<longleftrightarrow> r' = r \<or> owns_scenario db e (Step_ScenarioID r) \<and> Step_ID r' = Step_ID r \<and>
     Step_ScenarioID r' = Step_ScenarioID r \<and> Step_Ordinal r' = Step_Ordinal r \<and>
     Step_AttackVersion r' = Step_AttackVersion r \<and> Step_TechniqueID r' = Step_TechniqueID r \<and>
     (Step_RevealedAt r' = Step_RevealedAt r \<or> Step_RevealedAt r = None)"

definition execution_patched :: "Execution \<Rightarrow> Execution \<Rightarrow> bool" where
  "execution_patched r r' \<longleftrightarrow> Execution_ID r' = Execution_ID r \<and> Execution_StepID r' = Execution_StepID r \<and>
     Execution_Version r' = Execution_Version r + 1 \<and> execution_known r' \<and>
     status_moves validStatusTransitionsExecution (Execution_Status r) (Execution_Status r')"

inductive book_event :: "string \<Rightarrow> EDB \<Rightarrow> EDB \<Rightarrow> bool" for e where
  identity: "book_event e db (db\<lparr>EDB_identity := i\<rparr>)"
| engagement_new: "Engagement_ID r = e \<Longrightarrow> e \<notin> Engagement_ID ` set (EDB_engagements db) \<Longrightarrow>
    Engagement_Status r = EngagementStatusDraft \<Longrightarrow>
    book_event e db (db\<lparr>EDB_engagements := EDB_engagements db @ [r]\<rparr>)"
| engagement: "\<forall>r\<in>set (EDB_engagements db). Engagement_ID r = e \<longrightarrow> Engagement_ID (f r) = e \<and>
      Engagement_CreatedBy (f r) = Engagement_CreatedBy r \<and>
      (Engagement_AttackVersion (f r) = Engagement_AttackVersion r \<or> CountSteps e db = 0) \<and>
      status_moves validStatusTransitions (Engagement_Status r) (Engagement_Status (f r)) \<Longrightarrow>
    book_event e db (db\<lparr>EDB_engagements := update_where (\<lambda>r. Engagement_ID r = e) f (EDB_engagements db)\<rparr>)"
| scenario_new: "is_open e db \<Longrightarrow> Scenario_EngagementID r = e \<Longrightarrow>
    Scenario_ID r \<notin> Scenario_ID ` set (EDB_scenarios db) \<Longrightarrow> Scenario_Ordinal r = Scenarios_NextOrdinal e db \<Longrightarrow>
    book_event e db (db\<lparr>EDB_scenarios := EDB_scenarios db @ [r]\<rparr>)"
| scenario: "is_open e db \<Longrightarrow> \<forall>r\<in>set (EDB_scenarios db). scenario_kept e r (f r) \<Longrightarrow>
    book_event e db (db\<lparr>EDB_scenarios := map f (EDB_scenarios db)\<rparr>)"
| step_new: "is_open e db \<Longrightarrow> owns_scenario db e (Step_ScenarioID r) \<Longrightarrow>
    Step_ID r \<notin> Step_ID ` set (EDB_steps db) \<Longrightarrow> Step_Ordinal r = Steps_NextOrdinal (Step_ScenarioID r) db \<Longrightarrow>
    Step_RevealedAt r = None \<Longrightarrow>
    \<exists>g\<in>set (EDB_engagements db). Engagement_ID g = e \<and> Engagement_AttackVersion g = Step_AttackVersion r \<Longrightarrow>
    Execution_StepID x = Step_ID r \<Longrightarrow>
    Execution_ID x \<notin> Execution_ID ` set (EDB_executions db) \<Longrightarrow> Execution_Version x = 1 \<Longrightarrow>
    Execution_Status x = ExecutionStatusPending \<Longrightarrow> execution_known x \<Longrightarrow>
    book_event e db (db\<lparr>EDB_steps := EDB_steps db @ [r], EDB_executions := EDB_executions db @ [x]\<rparr>)"
| step: "is_open e db \<Longrightarrow> \<forall>r\<in>set (EDB_steps db). step_kept db e r (f r) \<Longrightarrow>
    book_event e db (db\<lparr>EDB_steps := map f (EDB_steps db)\<rparr>)"
| execution: "is_open e db \<Longrightarrow>
    \<forall>x\<in>set (EDB_executions db). Execution_ID x = xid \<longrightarrow> owns_step db e (Execution_StepID x) \<and> execution_patched x (f x) \<Longrightarrow>
    book_event e db (db\<lparr>EDB_executions := update_where (\<lambda>x. Execution_ID x = xid) f (EDB_executions db)\<rparr>)"

abbreviation book :: "string \<Rightarrow> EDB \<Rightarrow> EDB \<Rightarrow> bool" where
  "book e \<equiv> (book_event e)\<^sup>*\<^sup>*"

section \<open>Ordinals under a write\<close>

lemma dense_map:
  assumes "\<And>r. r \<in> set rows \<Longrightarrow> parent (f r) = parent r \<and> ord (f r) = ord r"
  shows "dense parent ord p (map f rows) = dense parent ord p rows"
proof -
  have "group_of parent p (map f rows) = map f (group_of parent p rows)"
    using assms by (auto simp: group_of_def filter_map comp_def cong: filter_cong)
  moreover have "ord ` f ` set (group_of parent p rows) = ord ` set (group_of parent p rows)"
    unfolding image_image using assms by (intro image_cong refl) (simp add: group_of_def)
  ultimately show ?thesis by (simp add: dense_def)
qed

lemma ordinals_unique_map:
  assumes "\<And>r. r \<in> set rows \<Longrightarrow> parent (f r) = parent r \<and> ord (f r) = ord r"
  shows "ordinals_unique parent ord (map f rows) = ordinals_unique parent ord rows"
proof -
  have "map (\<lambda>r. (parent r, ord r)) (map f rows) = map (\<lambda>r. (parent r, ord r)) rows"
    using assms by simp
  then show ?thesis unfolding ordinals_unique_def by metis
qed

lemma dense_empty: "group_of parent p rows = [] \<Longrightarrow> dense parent ord p rows"
  by (simp add: dense_def)

lemma all_dense:
  assumes "\<forall>r\<in>set rows. dense parent ord (parent r) rows"
  shows "dense parent ord p rows"
proof (cases "group_of parent p rows")
  case (Cons a as)
  then have "a \<in> set (group_of parent p rows)" by simp
  then show ?thesis using assms by (auto simp: group_of_def)
qed (rule dense_empty)

text \<open>The next ordinal of a dense group is one past its size, so appending keeps it dense.\<close>

lemma next_ordinal_dense:
  assumes "dense parent ord p rows"
  shows "next_ordinal (map ord (group_of parent p rows)) = int (length (group_of parent p rows)) + 1"
proof (cases "group_of parent p rows = []")
  case False
  then have "1 \<le> int (length (group_of parent p rows))" by (cases "group_of parent p rows") auto
  then have "Max {1..int (length (group_of parent p rows))} = int (length (group_of parent p rows))"
    by (intro Max_eqI) auto
  then show ?thesis using assms False by (simp add: next_ordinal_def dense_def)
qed (simp add: next_ordinal_def)

lemma dense_snoc:
  assumes "\<forall>x\<in>set rows. dense parent ord (parent x) rows"
    and nxt: "ord r = next_ordinal (map ord (group_of parent (parent r) rows))"
  shows "dense parent ord p (rows @ [r])"
proof (cases "parent r = p")
  case True
  have dense: "dense parent ord p rows" using assms(1) by (rule all_dense)
  then have "ord r = int (length (group_of parent p rows)) + 1"
    using nxt True by (simp add: next_ordinal_dense)
  moreover have "{1..1 + int n} = insert (1 + int n) {1..int n}" for n by auto
  ultimately show ?thesis
    using dense True by (simp add: dense_def group_of_def add.commute)
next
  case False
  then show ?thesis using all_dense [OF assms(1), of p] by (simp add: dense_def group_of_def)
qed

lemma ordinals_unique_snoc:
  assumes "ordinals_unique parent ord rows" "\<forall>x\<in>set rows. dense parent ord (parent x) rows"
    and "ord r = next_ordinal (map ord (group_of parent (parent r) rows))"
  shows "ordinals_unique parent ord (rows @ [r])"
proof -
  have "ord r \<notin> ord ` set (group_of parent (parent r) rows)"
    using next_ordinal_dense [OF all_dense [OF assms(2)], of "parent r"] assms(3)
      all_dense [OF assms(2), of "parent r"] by (simp add: dense_def)
  then show ?thesis using assms(1) by (auto simp: ordinals_unique_def group_of_def)
qed

lemma scenario_next: "Scenarios_NextOrdinal e db = next_ordinal (map Scenario_Ordinal (group_of Scenario_EngagementID e (EDB_scenarios db)))"
  by (simp add: Scenarios_NextOrdinal_def group_of_def)

lemma step_next: "Steps_NextOrdinal sid db = next_ordinal (map Step_Ordinal (group_of Step_ScenarioID sid (EDB_steps db)))"
  by (simp add: Steps_NextOrdinal_def group_of_def)

section \<open>The invariant is kept\<close>

lemma all_rows_map: "(\<forall>r\<in>set (map f rows). P r) \<longleftrightarrow> (\<forall>r\<in>set rows. P (f r))"
  by simp

lemma image_kept: "(\<And>r. r \<in> set rows \<Longrightarrow> key (f r) = key r) \<Longrightarrow> key ` set (map f rows) = key ` set rows"
  unfolding set_map image_image by (rule image_cong [OF refl])

lemma distinct_kept:
  "distinct (map key rows) \<Longrightarrow> (\<And>r. r \<in> set rows \<Longrightarrow> key (f r) = key r) \<Longrightarrow> distinct (map (key \<circ> f) rows)"
  by (metis (no_types, lifting) comp_apply list.map_cong)

lemma status_moves_valid:
  "status_moves validStatusTransitions s s' \<Longrightarrow> EngagementStatus_Valid s \<Longrightarrow> EngagementStatus_Valid s'"
  by (auto simp: status_moves_def validStatusTransitions_def EngagementStatus_Valid_def split: if_splits)

lemma book_event_ok:
  assumes "book_event e db db'" "workbook_ok db"
  shows "workbook_ok db'"
  using assms
proof cases
  case (identity i)
  then show ?thesis using assms(2) by (simp add: workbook_ok_def)
next
  case (engagement_new r)
  then show ?thesis using assms(2) by (auto simp: workbook_ok_def engagement_ok_def EngagementStatus_Valid_def)
next
  case (engagement f)
  let ?rows = "update_where (\<lambda>r. Engagement_ID r = e) f (EDB_engagements db)"
  have ids: "map Engagement_ID ?rows = map Engagement_ID (EDB_engagements db)"
    using engagement(2) by (simp add: update_where_def)
  then have set_ids: "Engagement_ID ` set ?rows = Engagement_ID ` set (EDB_engagements db)"
    by (simp only: list.set_map [symmetric] ids)
  have "\<forall>r\<in>set ?rows. engagement_ok r"
    using engagement(2) assms(2) by (auto simp: all_update_where workbook_ok_def engagement_ok_def intro: status_moves_valid)
  then show ?thesis using assms(2) unfolding engagement(1) by (simp add: workbook_ok_def ids set_ids)
next
  case (scenario_new r)
  have e: "e \<in> Engagement_ID ` set (EDB_engagements db)" using scenario_new(2) by (auto simp: is_open_def)
  have old: "\<forall>r\<in>set (EDB_scenarios db). dense Scenario_EngagementID Scenario_Ordinal (Scenario_EngagementID r) (EDB_scenarios db)"
    "ordinals_unique Scenario_EngagementID Scenario_Ordinal (EDB_scenarios db)"
    using assms(2) by (simp_all add: workbook_ok_def)
  have ord: "Scenario_Ordinal r = next_ordinal (map Scenario_Ordinal (group_of Scenario_EngagementID (Scenario_EngagementID r) (EDB_scenarios db)))"
    using scenario_new(3,5) by (simp add: scenario_next)
  show ?thesis
    using assms(2) scenario_new(3,4) e dense_snoc [OF old(1) ord] ordinals_unique_snoc [OF old(2,1) ord]
    unfolding scenario_new(1) by (auto simp: workbook_ok_def)
next
  case (scenario f)
  have same: "Scenario_ID (f r) = Scenario_ID r" "Scenario_EngagementID (f r) = Scenario_EngagementID r"
    "Scenario_Ordinal (f r) = Scenario_Ordinal r" if "r \<in> set (EDB_scenarios db)" for r
    using scenario(3) that by (auto simp: scenario_kept_def)
  have ids: "distinct (map (Scenario_ID \<circ> f) (EDB_scenarios db))"
    using assms(2) same(1) by (intro distinct_kept) (simp_all add: workbook_ok_def)
  show ?thesis
    using assms(2) same ids image_kept [of "EDB_scenarios db" Scenario_ID f]
      dense_map [of "EDB_scenarios db" Scenario_EngagementID f Scenario_Ordinal]
      ordinals_unique_map [of "EDB_scenarios db" Scenario_EngagementID f Scenario_Ordinal]
    unfolding scenario(1) by (simp add: workbook_ok_def)
next
  case (step_new r x)
  have s: "Step_ScenarioID r \<in> Scenario_ID ` set (EDB_scenarios db)" using step_new(3) unfolding owns_scenario_def by (metis imageI)
  have old: "\<forall>r\<in>set (EDB_steps db). dense Step_ScenarioID Step_Ordinal (Step_ScenarioID r) (EDB_steps db)"
    "ordinals_unique Step_ScenarioID Step_Ordinal (EDB_steps db)"
    using assms(2) by (simp_all add: workbook_ok_def)
  have ord: "Step_Ordinal r = next_ordinal (map Step_Ordinal (group_of Step_ScenarioID (Step_ScenarioID r) (EDB_steps db)))"
    using step_new(5) by (simp add: step_next)
  have fresh: "Step_ID r \<notin> Execution_StepID ` set (EDB_executions db)"
    using step_new(4) assms(2) by (auto simp: workbook_ok_def)
  show ?thesis
    using assms(2) step_new(4,8,9,12) fresh s dense_snoc [OF old(1) ord] ordinals_unique_snoc [OF old(2,1) ord]
    unfolding step_new(1) by (auto simp: workbook_ok_def)
next
  case (step f)
  have same: "Step_ID (f r) = Step_ID r" "Step_ScenarioID (f r) = Step_ScenarioID r"
    "Step_Ordinal (f r) = Step_Ordinal r" if "r \<in> set (EDB_steps db)" for r
    using step(3) that by (auto simp: step_kept_def)
  have ids: "distinct (map (Step_ID \<circ> f) (EDB_steps db))"
    using assms(2) same(1) by (intro distinct_kept) (simp_all add: workbook_ok_def)
  show ?thesis
    using assms(2) same ids image_kept [of "EDB_steps db" Step_ID f]
      dense_map [of "EDB_steps db" Step_ScenarioID f Step_Ordinal]
      ordinals_unique_map [of "EDB_steps db" Step_ScenarioID f Step_Ordinal]
    unfolding step(1) by (simp add: workbook_ok_def)
next
  case (execution xid f)
  let ?rows = "update_where (\<lambda>x. Execution_ID x = xid) f (EDB_executions db)"
  have same: "map Execution_ID ?rows = map Execution_ID (EDB_executions db)"
    "map Execution_StepID ?rows = map Execution_StepID (EDB_executions db)"
    using execution(3) by (simp_all add: update_where_def execution_patched_def)
  have "\<forall>x\<in>set ?rows. execution_known x \<and> Execution_StepID x \<in> Step_ID ` set (EDB_steps db)"
    using execution(3) assms(2) by (auto simp: all_update_where workbook_ok_def execution_patched_def)
  then show ?thesis using assms(2) unfolding execution(1) by (simp add: workbook_ok_def same)
qed

lemma book_ok:
  assumes "book e db db'" "workbook_ok db" shows "workbook_ok db'"
  using assms by (induction rule: rtranclp_induct) (auto intro: book_event_ok)

section \<open>One engagement does not touch another\<close>

lemma owner_unique:
  assumes "workbook_ok db" "owns_scenario db e sid" "owns_scenario db e' sid"
  shows "e = e'"
  using assms by (auto simp: owns_scenario_def workbook_ok_def distinct_map dest: inj_onD)

lemma step_owner_unique:
  assumes "workbook_ok db" "owns_step db e sid" "owns_step db e' sid"
  shows "e = e'"
proof -
  obtain r r' where "r \<in> set (EDB_steps db)" "Step_ID r = sid" "owns_scenario db e (Step_ScenarioID r)"
    "r' \<in> set (EDB_steps db)" "Step_ID r' = sid" "owns_scenario db e' (Step_ScenarioID r')"
    using assms(2,3) by (auto simp: owns_step_def)
  moreover from this have "r = r'" using assms(1) by (auto simp: workbook_ok_def distinct_map dest: inj_onD)
  ultimately show ?thesis using owner_unique [OF assms(1)] by blast
qed

lemma filter_map_kept:
  assumes "\<And>r. r \<in> set rows \<Longrightarrow> P (f r) = P r" "\<And>r. r \<in> set rows \<Longrightarrow> P r \<Longrightarrow> f r = r"
  shows "filter P (map f rows) = filter P rows"
  using assms by (induction rows) auto

lemma book_event_others:
  assumes "book_event e db db'" "workbook_ok db" "e' \<noteq> e"
  shows "workbook_of e' db' = workbook_of e' db"
  using assms(1)
proof cases
  case (scenario_new r)
  have own: "owns_scenario db' e' = owns_scenario db e'"
    using scenario_new(1,3) assms(3) by (auto simp: owns_scenario_def fun_eq_iff)
  then have "owns_step db' e' = owns_step db e'" using scenario_new(1) by (simp add: owns_step_def fun_eq_iff)
  then show ?thesis
    using own scenario_new(1,3) assms(3) by (simp add: workbook_of_def scenarios_of_def steps_of_def executions_of_def)
next
  case (scenario f)
  have kept: "scenario_kept e r (f r)" if "r \<in> set (EDB_scenarios db)" for r using scenario(3) that by simp
  have "owns_scenario db' e' sid = owns_scenario db e' sid" for sid
    using kept by (simp add: scenario(1) owns_scenario_def scenario_kept_def) (metis (lifting))
  then have own: "owns_scenario db' e' = owns_scenario db e'" by (simp add: fun_eq_iff)
  then have own2: "owns_step db' e' = owns_step db e'" using scenario(1) by (simp add: owns_step_def fun_eq_iff)
  have "scenarios_of e' db' = scenarios_of e' db"
    unfolding scenarios_of_def
  proof (simp add: scenario(1), intro filter_map_kept)
    fix r assume r: "r \<in> set (EDB_scenarios db)"
    show "(Scenario_EngagementID (f r) = e') = (Scenario_EngagementID r = e')"
      using kept [OF r] by (auto simp: scenario_kept_def)
    show "f r = r" if "Scenario_EngagementID r = e'"
      using kept [OF r] that assms(3) by (auto simp: scenario_kept_def)
  qed
  then show ?thesis using own own2 scenario(1) by (simp add: workbook_of_def steps_of_def executions_of_def)
next
  case (step_new r x)
  have own: "owns_scenario db' e' = owns_scenario db e'" using step_new(1) by (simp add: owns_scenario_def fun_eq_iff)
  have foreign: "\<not> owns_scenario db e' (Step_ScenarioID r)" using owner_unique [OF assms(2) step_new(3)] assms(3) by blast
  then have own2: "owns_step db' e' = owns_step db e'"
    using own step_new(1) by (auto simp: owns_step_def fun_eq_iff)
  have "\<not> owns_step db e' (Execution_StepID x)" using step_new(4,8) unfolding owns_step_def by (metis imageI)
  then show ?thesis
    using own own2 foreign step_new(1) by (simp add: workbook_of_def scenarios_of_def steps_of_def executions_of_def)
next
  case (step f)
  have own: "owns_scenario db' e' = owns_scenario db e'" using step(1) by (simp add: owns_scenario_def fun_eq_iff)
  have kept: "step_kept db e r (f r)" if "r \<in> set (EDB_steps db)" for r using step(3) that by simp
  have ids: "Step_ID (f r) = Step_ID r \<and> Step_ScenarioID (f r) = Step_ScenarioID r" if "r \<in> set (EDB_steps db)" for r
    using kept [OF that] by (auto simp: step_kept_def)
  then have own2: "owns_step db' e' = owns_step db e'"
    using own by (simp add: owns_step_def fun_eq_iff step(1))
  have "steps_of e' db' = steps_of e' db"
    unfolding steps_of_def own
  proof (simp add: step(1), intro filter_map_kept)
    fix r assume r: "r \<in> set (EDB_steps db)"
    show "owns_scenario db e' (Step_ScenarioID (f r)) = owns_scenario db e' (Step_ScenarioID r)" using ids [OF r] by simp
    show "f r = r" if "owns_scenario db e' (Step_ScenarioID r)"
      using kept [OF r] owner_unique [OF assms(2) _ that] assms(3) by (auto simp: step_kept_def)
  qed
  then show ?thesis using own2 step(1) by (simp add: workbook_of_def scenarios_of_def executions_of_def)
next
  case (execution xid f)
  have own: "owns_step db' e' = owns_step db e'" "owns_scenario db' e' = owns_scenario db e'"
    using execution(1) by (simp_all add: owns_step_def owns_scenario_def fun_eq_iff)
  have "executions_of e' db' = executions_of e' db"
    unfolding executions_of_def own
  proof (simp add: execution(1) update_where_def, intro filter_map_kept)
    fix x assume x: "x \<in> set (EDB_executions db)"
    let ?y = "if Execution_ID x = xid then f x else x"
    show "owns_step db e' (Execution_StepID ?y) = owns_step db e' (Execution_StepID x)"
      using execution(3) x by (auto simp: execution_patched_def)
    show "?y = x" if "owns_step db e' (Execution_StepID x)"
      using execution(3) x step_owner_unique [OF assms(2) _ that] assms(3) by auto
  qed
  then show ?thesis using own execution(1) by (simp add: workbook_of_def scenarios_of_def steps_of_def)
qed (simp_all add: workbook_of_def scenarios_of_def steps_of_def executions_of_def owns_step_def owns_scenario_def)

lemma book_others:
  assumes "book e db db'" "workbook_ok db" "e' \<noteq> e"
  shows "workbook_of e' db' = workbook_of e' db"
  using assms(1)
proof (induction rule: rtranclp_induct)
  case (step y z)
  then show ?case using book_event_others [OF step(2) book_ok [OF step(1) assms(2)] assms(3)] by simp
qed simp

section \<open>A closed engagement is frozen\<close>

definition is_closed :: "string \<Rightarrow> EDB \<Rightarrow> bool" where
  "is_closed e db \<longleftrightarrow> (\<exists>r\<in>set (EDB_engagements db). Engagement_ID r = e \<and>
     Engagement_Status r \<in> {EngagementStatusClosed, EngagementStatusArchived})"

lemma closed_not_open:
  assumes "workbook_ok db" "is_closed e db" shows "\<not> is_open e db"
  using assms by (auto simp: is_closed_def is_open_def workbook_ok_def distinct_map dest: inj_onD)

lemma status_moves_closed:
  "status_moves validStatusTransitions s s' \<Longrightarrow> s \<in> {EngagementStatusClosed, EngagementStatusArchived} \<Longrightarrow>
   s' \<in> {EngagementStatusClosed, EngagementStatusArchived}"
  by (auto simp: status_moves_def validStatusTransitions_def split: if_splits)

lemma book_event_closed:
  assumes "book_event e db db'" "workbook_ok db" "is_closed e db"
  shows "workbook_of e db' = workbook_of e db \<and> is_closed e db'"
  using assms(1)
proof cases
  case (engagement_new r)
  then have False using assms(3) unfolding is_closed_def by (metis imageI)
  then show ?thesis ..
next
  case (engagement f)
  have "is_closed e db'"
  proof -
    obtain r where "r \<in> set (EDB_engagements db)" "Engagement_ID r = e"
      "Engagement_Status r \<in> {EngagementStatusClosed, EngagementStatusArchived}"
      using assms(3) by (auto simp: is_closed_def)
    moreover from this have "Engagement_ID (f r) = e"
      "Engagement_Status (f r) \<in> {EngagementStatusClosed, EngagementStatusArchived}"
      using engagement(2) status_moves_closed by blast+
    ultimately show ?thesis unfolding is_closed_def engagement(1) by (auto simp: set_update_where)
  qed
  then show ?thesis
    using engagement(1)
    by (simp add: workbook_of_def scenarios_of_def steps_of_def executions_of_def owns_step_def owns_scenario_def)
qed (use closed_not_open [OF assms(2,3)] assms(3) in
  \<open>simp_all add: workbook_of_def scenarios_of_def steps_of_def executions_of_def owns_step_def owns_scenario_def is_closed_def\<close>)

lemma book_event_closed_other:
  assumes "book_event e db db'" "e' \<noteq> e" "is_closed e' db"
  shows "is_closed e' db'"
  using assms by cases (auto simp: is_closed_def set_update_where intro: rev_image_eqI)

lemma book_closed:
  assumes "book e db db'" "workbook_ok db" "is_closed e' db"
  shows "workbook_of e' db' = workbook_of e' db \<and> is_closed e' db'"
  using assms(1)
proof (induction rule: rtranclp_induct)
  case (step y z)
  have ok: "workbook_ok y" by (rule book_ok [OF step(1) assms(2)])
  show ?case
  proof (cases "e' = e")
    case True
    then show ?thesis using book_event_closed [OF step(2) ok] step(3) by simp
  next
    case False
    then show ?thesis
      using book_event_others [OF step(2) ok False] book_event_closed_other [OF step(2) False] step(3) by simp
  qed
qed (use assms(3) in simp)

end
