(* ===== verification/Workbook_Refine.thy ===== *)
theory Workbook_Refine
  imports Workbook_Inv
begin

text \<open>
  Every request of the engagement service refines the abstract writes of \<open>Workbook_Inv\<close>: what a
  handler leaves behind, whatever it answers, is a sequence of events of the engagement it was
  authorised for.
\<close>

named_theorems book_intros \<open>how a handler's effect is built from events\<close>

section \<open>Activity rows\<close>

lemma recordAlone_identity: "\<exists>i. recordAlone svc x db = db\<lparr>EDB_identity := i\<rparr>"
proof (cases "Svc_activity svc")
  case False
  have "db = db\<lparr>EDB_identity := EDB_identity db\<rparr>" by simp
  then show ?thesis using False by (simp only: recordAlone_def not_False_eq_True if_True) blast
qed (auto simp: recordAlone_def EDB_record_def Log_Record_def)

lemma record_hook_Inr [simp]: "record_hook svc x entity db = Inr (recordAlone svc x db)"
  by (simp add: record_hook_def recordAlone_def EDB_record_def Log_Record_def)

lemma recordAlone_tables [simp]:
  "EDB_engagements (recordAlone svc x db) = EDB_engagements db"
  "EDB_scenarios (recordAlone svc x db) = EDB_scenarios db"
  "EDB_steps (recordAlone svc x db) = EDB_steps db"
  "EDB_executions (recordAlone svc x db) = EDB_executions db"
  using recordAlone_identity [of svc x db] by auto

lemma book_refl [book_intros]: "book e db db"
  by simp

lemma book_one [book_intros]: "book_event e db db' \<Longrightarrow> book e db db'"
  by (rule r_into_rtranclp)

lemma book_record [book_intros]: "book e db db' \<Longrightarrow> book e db (recordAlone svc x db')"
  using recordAlone_identity [of svc x db'] book_event.identity
  by (metis rtranclp.rtrancl_into_rtrancl)

section \<open>What the guards establish\<close>

lemma Engagements_ByID_Inr: "Engagements_ByID eid db = Inr r \<Longrightarrow> r \<in> set (EDB_engagements db) \<and> Engagement_ID r = eid"
  by (auto simp: Engagements_ByID_def split: option.splits dest: select1_Some)

lemma Scenarios_ByID_Inr: "Scenarios_ByID sid db = Inr r \<Longrightarrow> r \<in> set (EDB_scenarios db) \<and> Scenario_ID r = sid"
  by (auto simp: Scenarios_ByID_def split: option.splits dest: select1_Some)

lemma Steps_ByID_Inr: "Steps_ByID sid db = Inr r \<Longrightarrow> r \<in> set (EDB_steps db) \<and> Step_ID r = sid"
  by (auto simp: Steps_ByID_def split: option.splits dest: select1_Some)

lemma Executions_ByID_Inr: "Executions_ByID xid db = Inr r \<Longrightarrow> r \<in> set (EDB_executions db) \<and> Execution_ID r = xid"
  by (auto simp: Executions_ByID_def split: option.splits dest: select1_Some)

lemma requireSameEngagement_None: "requireSameEngagement res rid got want = None \<longleftrightarrow> got = want"
  by (simp add: requireSameEngagement_def)

text \<open>An engagement that was read and is not refused is open.\<close>

lemma guard_open:
  assumes "workbook_ok db" "Engagements_ByID e db = Inr eng" "refuse_closed eng = None"
  shows "is_open e db"
proof -
  have eng: "eng \<in> set (EDB_engagements db)" "Engagement_ID eng = e"
    using Engagements_ByID_Inr [OF assms(2)] by simp_all
  then have "EngagementStatus_Valid (Engagement_Status eng)"
    using assms(1) by (auto simp: workbook_ok_def engagement_ok_def)
  then show ?thesis
    using eng assms(3) by (auto simp: is_open_def refuse_closed_def EngagementStatus_Valid_def split: if_splits)
qed

lemma step_context_Inr:
  assumes "step_context e sid db = Inr (current, scenario, eng)" "workbook_ok db"
  shows "current \<in> set (EDB_steps db) \<and> Step_ID current = sid \<and> Scenario_EngagementID scenario = e \<and>
    owns_scenario db e (Step_ScenarioID current) \<and> is_open e db"
  using assms
  by (auto simp: step_context_def requireSameEngagement_None owns_scenario_def split: sum.splits option.splits
      dest!: Steps_ByID_Inr Scenarios_ByID_Inr intro: guard_open)

lemma execution_context_Inr:
  assumes "execution_context e xid db = Inr (exec, step, scenario, eng)" "workbook_ok db"
  shows "exec \<in> set (EDB_executions db) \<and> Execution_ID exec = xid \<and> step \<in> set (EDB_steps db) \<and>
    Step_ID step = Execution_StepID exec \<and> Scenario_EngagementID scenario = e \<and>
    owns_scenario db e (Step_ScenarioID step) \<and> is_open e db"
  using assms
  by (auto simp: execution_context_def requireSameEngagement_None owns_scenario_def split: sum.splits option.splits
      dest!: Executions_ByID_Inr Steps_ByID_Inr Scenarios_ByID_Inr intro: guard_open)

text \<open>Rows with the same key are the same row.\<close>

lemma same_engagement:
  "workbook_ok db \<Longrightarrow> r \<in> set (EDB_engagements db) \<Longrightarrow> r' \<in> set (EDB_engagements db) \<Longrightarrow>
   Engagement_ID r = Engagement_ID r' \<Longrightarrow> r = r'"
  by (auto simp: workbook_ok_def distinct_map dest: inj_onD)

lemma same_scenario:
  "workbook_ok db \<Longrightarrow> r \<in> set (EDB_scenarios db) \<Longrightarrow> r' \<in> set (EDB_scenarios db) \<Longrightarrow>
   Scenario_ID r = Scenario_ID r' \<Longrightarrow> r = r'"
  by (auto simp: workbook_ok_def distinct_map dest: inj_onD)

lemma same_step:
  "workbook_ok db \<Longrightarrow> r \<in> set (EDB_steps db) \<Longrightarrow> r' \<in> set (EDB_steps db) \<Longrightarrow> Step_ID r = Step_ID r' \<Longrightarrow> r = r'"
  by (auto simp: workbook_ok_def distinct_map dest: inj_onD)

lemma same_execution:
  "workbook_ok db \<Longrightarrow> r \<in> set (EDB_executions db) \<Longrightarrow> r' \<in> set (EDB_executions db) \<Longrightarrow>
   Execution_ID r = Execution_ID r' \<Longrightarrow> r = r'"
  by (auto simp: workbook_ok_def distinct_map dest: inj_onD)

section \<open>Engagements\<close>

lemma Engagements_Create_book:
  assumes "\<And>d d'. runAfter e after d = Inr d' \<Longrightarrow> \<exists>i. d' = d\<lparr>EDB_identity := i\<rparr>"
  shows "book e db (snd (Engagements_Create e clock inp after db))"
proof -
  let ?r = "\<lparr>Engagement_ID = e, Engagement_Name = NewEngagement_Name inp,
            Engagement_Client = NewEngagement_Client inp, Engagement_Description = NewEngagement_Description inp,
            Engagement_Status = EngagementStatusDraft, Engagement_StartsOn = toDate (toStorage (NewEngagement_StartsOn inp)),
            Engagement_EndsOn = toDate (toStorage (NewEngagement_EndsOn inp)),
            Engagement_AttackVersion = NewEngagement_AttackVersion inp, Engagement_Mode = NewEngagement_Mode inp,
            Engagement_AutoRevealOnStart = NewEngagement_AutoRevealOnStart inp,
            Engagement_CreatedBy = NewEngagement_CreatedBy inp, Engagement_CreatedAt = toStorage clock,
            Engagement_UpdatedAt = toStorage clock\<rparr>"
  let ?d = "db\<lparr>EDB_engagements := EDB_engagements db @ [?r]\<rparr>"
  have "book e db (?d\<lparr>EDB_identity := i\<rparr>)" if "e \<notin> Engagement_ID ` set (EDB_engagements db)" for i
  proof (rule rtranclp_trans [of _ _ ?d])
    show "book e db ?d" by (intro book_one book_event.engagement_new) (use that in simp_all)
    show "book e ?d (?d\<lparr>EDB_identity := i\<rparr>)" by (intro book_one book_event.identity)
  qed
  then show ?thesis
    using assms [of ?d]
    by (cases "runAfter e after ?d") (auto simp: Engagements_Create_def Let_def insert_row_def)
qed

lemma Create_book: "book e db (snd (Create svc e c1 c2 a ci db))"
proof -
  have hooks: "\<exists>i. d' = d\<lparr>EDB_identity := i\<rparr>"
    if run: "runAfter e [leadAfter c2 a, \<lambda>entity. record_hook svc (x entity) entity] d = Inr d'" for d d' x
  proof -
    obtain d1 where "leadAfter c2 a e d = Inr d1" "d' = recordAlone svc (x e) d1"
      using run by (cases "leadAfter c2 a e d") auto
    then obtain i where i: "d1 = d\<lparr>EDB_identity := i\<rparr>" by (auto simp: leadAfter_def Let_def split: if_splits)
    then show ?thesis using recordAlone_identity [of svc "x e" d1] \<open>d' = _\<close> by auto
  qed
  show ?thesis
    unfolding Create_def
    by (auto split: sum.splits option.splits intro!: book_refl Engagements_Create_book hooks)
qed

lemma book_update_engagement:
  assumes "\<forall>r\<in>set (EDB_engagements db). Engagement_ID r = e \<longrightarrow> Engagement_ID (f r) = e \<and>
      Engagement_CreatedBy (f r) = Engagement_CreatedBy r \<and>
      (Engagement_AttackVersion (f r) = Engagement_AttackVersion r \<or> CountSteps e db = 0) \<and>
      status_moves validStatusTransitions (Engagement_Status r) (Engagement_Status (f r))"
  shows "book e db (recordAlone svc x (db\<lparr>EDB_engagements := update_where (\<lambda>r. Engagement_ID r = e) f (EDB_engagements db)\<rparr>))"
  by (intro book_record book_one book_event.engagement) (rule assms)

lemma Update_book:
  assumes "workbook_ok db" shows "book e db (snd (Update svc c1 a e ui db))"
proof (cases "Engagements_ByID e db")
  case (Inr current)
  then have current: "current \<in> set (EDB_engagements db)" "Engagement_ID current = e"
    using Engagements_ByID_Inr by blast+
  have same: "r = current" if "r \<in> set (EDB_engagements db)" "Engagement_ID r = e" for r
    using same_engagement [OF assms that(1) current(1)] that(2) current(2) by simp
  have pin: "or_else (UpdateInput_AttackVersion ui) (Engagement_AttackVersion current) = Engagement_AttackVersion current
      \<or> CountSteps e db = 0" if "pin_change svc e current (UpdateInput_AttackVersion ui) db = None"
    using that by (auto simp: pin_change_def or_else_def split: option.splits if_splits)
  show ?thesis
  proof (cases "pin_change svc e current (UpdateInput_AttackVersion ui) db")
    case None
    then show ?thesis
      unfolding Update_def Inr sum.case Engagements_Update_def Let_def
      using pin by (auto simp: status_moves_def split: option.splits intro!: book_refl book_update_engagement dest: same)
  qed (simp add: Update_def Inr book_refl)
qed (simp add: Update_def book_refl)

lemma SetStatus_book:
  assumes "workbook_ok db" shows "book e db (snd (SetStatus svc c1 a e st db))"
proof (cases "Engagements_ByID e db")
  case (Inr current)
  then have current: "current \<in> set (EDB_engagements db)" "Engagement_ID current = e"
    using Engagements_ByID_Inr by blast+
  have same: "r = current" if "r \<in> set (EDB_engagements db)" "Engagement_ID r = e" for r
    using same_engagement [OF assms that(1) current(1)] that(2) current(2) by simp
  show ?thesis
  proof (cases "map_of validStatusTransitions (Engagement_Status current)")
    case (Some allowed)
    then show ?thesis
      unfolding SetStatus_def Inr sum.case Engagements_SetStatus_def Let_def
      by (auto simp: status_moves_def split: option.splits intro!: book_refl book_update_engagement dest: same)
  qed (simp add: SetStatus_def Inr book_refl)
qed (simp add: SetStatus_def book_refl)

section \<open>Scenarios\<close>

lemma Scenarios_Create_effect:
  assumes "Scenarios_Create newID clock inp [] db = (res, db')"
  shows "(\<exists>err. res = Inl err \<and> db' = db) \<or>
    (\<exists>r. res = Inr r \<and> db' = db\<lparr>EDB_scenarios := EDB_scenarios db @ [r]\<rparr> \<and> Scenario_ID r = newID \<and>
       newID \<notin> Scenario_ID ` set (EDB_scenarios db) \<and>
       Scenario_EngagementID r = NewScenario_EngagementID inp \<and> Scenario_Ordinal r = NewScenario_Ordinal inp)"
  using assms by (auto simp: Scenarios_Create_def Let_def insert_row_def split: if_splits)

lemma CreateScenario_book:
  assumes "workbook_ok db" shows "book (CreateScenarioInput_EngagementID inp) db (snd (CreateScenario svc nid c1 a inp db))"
proof (cases "Engagements_ByID (CreateScenarioInput_EngagementID inp) db")
  case (Inr eng)
  let ?e = "CreateScenarioInput_EngagementID inp"
  show ?thesis
  proof (cases "refuse_closed eng")
    case None
    have "book ?e db (db\<lparr>EDB_scenarios := EDB_scenarios db @ [r]\<rparr>)"
      if "Scenario_ID r \<notin> Scenario_ID ` set (EDB_scenarios db)" "Scenario_EngagementID r = ?e"
        "Scenario_Ordinal r = Scenarios_NextOrdinal ?e db" for r
      using that by (intro book_one book_event.scenario_new guard_open [OF assms Inr None])
    then show ?thesis
      unfolding CreateScenario_def Let_def Inr sum.case None option.case
      by (auto split: prod.splits sum.splits intro!: book_refl book_record dest!: Scenarios_Create_effect)
  qed (simp add: CreateScenario_def Let_def Inr book_refl)
qed (simp add: CreateScenario_def Let_def book_refl)

lemma book_map_scenarios:
  assumes "is_open e db" "\<And>r. r \<in> set (EDB_scenarios db) \<Longrightarrow> scenario_kept e r (f r)"
  shows "book e db (db\<lparr>EDB_scenarios := map f (EDB_scenarios db)\<rparr>)"
  by (intro book_one book_event.scenario assms ballI)

lemma PatchScenario_book:
  assumes "workbook_ok db" shows "book e db (snd (PatchScenario svc c1 a e sid inp db))"
proof (cases "Scenarios_ByID sid db")
  case (Inr current)
  then have current: "current \<in> set (EDB_scenarios db)" "Scenario_ID current = sid"
    using Scenarios_ByID_Inr by blast+
  have same: "r = current" if "r \<in> set (EDB_scenarios db)" "Scenario_ID r = sid" for r
    using same_scenario [OF assms that(1) current(1)] that(2) current(2) by simp
  show ?thesis
  proof (cases "Scenario_EngagementID current = e \<and> (\<exists>eng. Engagements_ByID e db = Inr eng \<and> refuse_closed eng = None)")
    case True
    then obtain eng where eng: "Engagements_ByID e db = Inr eng" "refuse_closed eng = None" by blast
    have opn: "is_open (Scenario_EngagementID current) db" using guard_open [OF assms eng] True by simp
    have "book e db (recordAlone svc x (snd (Scenarios_Update sid c1 ch [] db)))" for x ch
    proof -
      have "book e db (snd (Scenarios_Update sid c1 ch [] db))"
        using True
        by (auto simp: Scenarios_Update_def Let_def update_where_def scenario_kept_def split: option.splits
            intro!: book_refl book_map_scenarios opn dest: same)
      then show ?thesis by (rule book_record)
    qed
    moreover have "snd (Scenarios_Update sid c1 ch [record_hook svc x] db) \<in>
        {db, recordAlone svc x (snd (Scenarios_Update sid c1 ch [] db))}" for ch x
      by (auto simp: Scenarios_Update_def Let_def split: option.splits)
    ultimately have "book e db (snd (Scenarios_Update sid c1 ch [record_hook svc x] db))" for ch x
      by (metis book_refl insertE singletonD)
    then show ?thesis
      using True eng unfolding PatchScenario_def Inr
      by (simp add: requireSameEngagement_def split: prod.splits sum.splits) (metis snd_conv)
  next
    case False
    then show ?thesis
      unfolding PatchScenario_def Inr sum.case
      by (cases "requireSameEngagement ''scenario'' sid (Scenario_EngagementID current) e")
        (auto simp: requireSameEngagement_None split: sum.splits option.splits intro: book_refl)
  qed
qed (simp add: PatchScenario_def book_refl)

text \<open>A reorder that goes through names the members of the group, so it keeps every ordinal.\<close>

lemma reorder_check_None:
  assumes "reorder_check what every foreign existing ids = None"
  shows "length ids = length existing \<and> set ids \<subseteq> set existing"
  using assms by (auto simp: reorder_check_def find_None_iff split: if_splits option.splits)

lemma ReorderScenarios_book:
  assumes "workbook_ok db" shows "book e db (snd (ReorderScenarios svc c1 a e ids db))"
proof (cases "(\<exists>eng. Engagements_ByID e db = Inr eng \<and> refuse_closed eng = None) \<and>
    reorder_check ''scenario'' ''must include every scenario in the engagement'' ('' does not belong to engagement '' @ e)
      (map Scenario_ID (Scenarios_ListByEngagement e db)) ids = None")
  case True
  then obtain eng where eng: "Engagements_ByID e db = Inr eng" "refuse_closed eng = None" by blast
  let ?group = "group_of Scenario_EngagementID e (EDB_scenarios db)"
  have ids: "length ids = length ?group" "set ids \<subseteq> Scenario_ID ` set ?group"
    using reorder_check_None [OF conjunct2 [OF True]] by (simp_all add: Scenarios_ListByEngagement_def group_of_def)
  have keys: "distinct (map Scenario_ID (EDB_scenarios db))" and
    dense: "dense Scenario_EngagementID Scenario_Ordinal e (EDB_scenarios db)"
    using assms by (auto simp: workbook_ok_def intro: all_dense)
  have "book e db (db\<lparr>EDB_scenarios := rows\<rparr>)"
    if run: "Reorder_loop ''scenario'' Scenario_ID Scenario_EngagementID Scenario_Ordinal (place_scenario (toStorage c1)) 0 ids
        (EDB_scenarios db) = Inr rows" for rows
  proof -
    obtain g where g: "rows = map g (EDB_scenarios db)"
        "\<forall>r. Scenario_ID r \<notin> set ids \<longrightarrow> g r = r"
      using scenario_order.loop_map [OF run, of "\<lambda>_. ()"] by blast
    have shapes: "map scenario_order.shape (map g (EDB_scenarios db)) = map scenario_order.shape (EDB_scenarios db)"
      using scenario_order.reorder_moves_nothing [OF run keys dense ids] g(1) by simp
    have "scenario_kept e r (g r)" if r: "r \<in> set (EDB_scenarios db)" for r
    proof (cases "Scenario_ID r \<in> set ids")
      case True
      then obtain r' where "r' \<in> set ?group" "Scenario_ID r' = Scenario_ID r" using ids(2) by (metis imageE subsetD)
      then have "r' \<in> set (EDB_scenarios db)" "Scenario_EngagementID r' = e" "Scenario_ID r' = Scenario_ID r"
        by (auto simp: group_of_def)
      moreover have "r' = r" using keys calculation(1,3) r by (auto simp: distinct_map dest: inj_onD)
      moreover have "scenario_order.shape (g r) = scenario_order.shape r" using shapes r by simp
      ultimately show ?thesis by (simp add: scenario_kept_def)
    qed (simp add: g(2) scenario_kept_def)
    then show ?thesis unfolding g(1) by (rule book_map_scenarios [OF guard_open [OF assms eng]])
  qed
  then show ?thesis
    using True eng unfolding ReorderScenarios_def
    by (auto simp: Scenarios_Reorder_def Let_def split: sum.splits intro!: book_refl book_record)
next
  case False
  then show ?thesis
    by (auto simp: ReorderScenarios_def split: sum.splits option.splits intro: book_refl)
qed

section \<open>Steps\<close>

lemma Steps_Create_effect:
  assumes "Steps_CreateWithExecution stepID execID clock inp [] db = (res, db')" "workbook_ok db"
  shows "(\<exists>err. res = Inl err \<and> db' = db) \<or>
    (\<exists>s r x. res = Inr (s, x) \<and> r = s\<lparr>Step_Procedure := bindJSONObject (Step_Procedure s),
            Step_Tools := bindJSON (Step_Tools s), Step_ControlsInScope := bindJSON (Step_ControlsInScope s)\<rparr> \<and>
       db' = db\<lparr>EDB_steps := EDB_steps db @ [r], EDB_executions := EDB_executions db @ [x]\<rparr> \<and>
       Step_ID r = stepID \<and> stepID \<notin> Step_ID ` set (EDB_steps db) \<and>
       Step_ScenarioID r = NewStep_ScenarioID inp \<and> Step_Ordinal r = NewStep_Ordinal inp \<and>
       Step_AttackVersion r = NewStep_AttackVersion inp \<and> Step_RevealedAt r = None \<and>
       Execution_StepID x = stepID \<and> execID \<notin> Execution_ID ` set (EDB_executions db) \<and> Execution_ID x = execID \<and>
       Execution_Version x = 1 \<and> Execution_Status x = ExecutionStatusPending \<and> execution_known x)"
  using assms(1)
  by (auto simp: Steps_CreateWithExecution_def Let_def insert_row_def execution_known_def ExecutionStatus_Valid_def
      split: if_splits)

lemma defaults_ids [simp]:
  "CreateStepInput_ScenarioID (CreateStepInput_defaults inp) = CreateStepInput_ScenarioID inp"
  "CreateStepInput_EngagementID (CreateStepInput_defaults inp) = CreateStepInput_EngagementID inp"
  by (simp_all add: CreateStepInput_defaults_def Let_def)

lemma resolve_technique_ids:
  assumes "resolve_technique svc v inp = Inr inp'"
  shows "CreateStepInput_ScenarioID inp' = CreateStepInput_ScenarioID inp"
  using assms by (auto simp: resolve_technique_def Let_def split: if_splits option.splits sum.splits)

text \<open>The checks of \<open>CreateStep\<close> up to the write.\<close>

definition create_step_context :: "Workbook_Service \<Rightarrow> CreateStepInput \<Rightarrow> EDB \<Rightarrow>
    error + (CreateStepInput \<times> Scenario \<times> Engagement)" where
  "create_step_context svc inp0 db =
     (let inp = CreateStepInput_defaults inp0 in
      case Scenarios_ByID (CreateStepInput_ScenarioID inp) db of
        Inl err \<Rightarrow> Inl err
      | Inr scenario \<Rightarrow>
          (case requireSameEngagement ''scenario'' (CreateStepInput_ScenarioID inp) (Scenario_EngagementID scenario)
                  (CreateStepInput_EngagementID inp) of
             Some err \<Rightarrow> Inl err
           | None \<Rightarrow>
               (case Engagements_ByID (Scenario_EngagementID scenario) db of
                  Inl err \<Rightarrow> Inl err
                | Inr eng \<Rightarrow>
                    (case refuse_closed eng of
                       Some err \<Rightarrow> Inl err
                     | None \<Rightarrow> (case resolve_technique svc (Engagement_AttackVersion eng) inp of
                                 Inl err \<Rightarrow> Inl err | Inr inp \<Rightarrow> Inr (inp, scenario, eng))))))"

definition new_step :: "CreateStepInput \<Rightarrow> Engagement \<Rightarrow> EDB \<Rightarrow> NewStep" where
  "new_step inp eng db =
     \<lparr>NewStep_ScenarioID = CreateStepInput_ScenarioID inp,
      NewStep_Ordinal = Steps_NextOrdinal (CreateStepInput_ScenarioID inp) db,
      NewStep_Name = CreateStepInput_Name inp,
      NewStep_Objective = CreateStepInput_Objective inp,
      NewStep_TechniqueID = CreateStepInput_TechniqueID inp,
      NewStep_SubtechniqueID = CreateStepInput_SubtechniqueID inp,
      NewStep_TacticID = CreateStepInput_TacticID inp,
      NewStep_Procedure = CreateStepInput_Procedure inp,
      NewStep_TemplateID = CreateStepInput_TemplateID inp,
      NewStep_TargetAsset = CreateStepInput_TargetAsset inp,
      NewStep_Tools = CreateStepInput_Tools inp,
      NewStep_ControlsInScope = CreateStepInput_ControlsInScope inp,
      NewStep_AttackVersion = Engagement_AttackVersion eng\<rparr>"

lemma CreateStep_context:
  "CreateStep svc stepID execID clock a inp0 db =
     (case create_step_context svc inp0 db of
        Inl err \<Rightarrow> (Inl err, db)
      | Inr (inp, scenario, eng) \<Rightarrow>
          (case Steps_CreateWithExecution stepID execID clock (new_step inp eng db) [] db of
             (Inl err, db') \<Rightarrow> (Inl (ErrorfW ''step: create'' err), db')
           | (Inr (step, exec), db') \<Rightarrow>
               (Inr step, recordAlone svc (workbook_entry a (Scenario_EngagementID scenario) VerbStepCreated ObjectStep (Step_ID step)
                  (Delta [(''name'', DString (CreateStepInput_Name inp))])) db')))"
  unfolding CreateStep_def create_step_context_def Let_def new_step_def
  by (auto split: sum.splits option.splits)

lemma create_step_context_Inr:
  assumes "create_step_context svc inp0 db = Inr (inp, scenario, eng)" "workbook_ok db"
  shows "CreateStepInput_ScenarioID inp = CreateStepInput_ScenarioID inp0 \<and>
    scenario \<in> set (EDB_scenarios db) \<and> Scenario_ID scenario = CreateStepInput_ScenarioID inp0 \<and>
    Scenario_EngagementID scenario = CreateStepInput_EngagementID inp0 \<and>
    eng \<in> set (EDB_engagements db) \<and> Engagement_ID eng = CreateStepInput_EngagementID inp0 \<and>
    is_open (CreateStepInput_EngagementID inp0) db"
  using assms
  by (auto simp: create_step_context_def Let_def requireSameEngagement_None split: sum.splits option.splits
      dest!: Scenarios_ByID_Inr resolve_technique_ids dest: Engagements_ByID_Inr intro: guard_open)

lemma CreateStep_book:
  assumes "workbook_ok db"
  shows "book (CreateStepInput_EngagementID inp0) db (snd (CreateStep svc stepID execID clock a inp0 db))"
proof (cases "create_step_context svc inp0 db")
  case (Inr ctx)
  obtain inp scenario eng where ctx: "ctx = (inp, scenario, eng)" by (cases ctx)
  note guards = create_step_context_Inr [OF Inr [unfolded ctx] assms]
  let ?e = "CreateStepInput_EngagementID inp0"
  obtain res db' where run: "Steps_CreateWithExecution stepID execID clock (new_step inp eng db) [] db = (res, db')"
    by (meson surj_pair)
  have "book ?e db db'"
    using Steps_Create_effect [OF run assms]
  proof (elim disjE exE conjE)
    fix err assume "db' = db" then show ?thesis by simp
  next
    fix s r x
    assume db': "db' = db\<lparr>EDB_steps := EDB_steps db @ [r], EDB_executions := EDB_executions db @ [x]\<rparr>"
      and row: "Step_ID r = stepID" "stepID \<notin> Step_ID ` set (EDB_steps db)"
        "Step_ScenarioID r = NewStep_ScenarioID (new_step inp eng db)" "Step_Ordinal r = NewStep_Ordinal (new_step inp eng db)"
        "Step_AttackVersion r = NewStep_AttackVersion (new_step inp eng db)" "Step_RevealedAt r = None"
      and exec: "Execution_StepID x = stepID" "execID \<notin> Execution_ID ` set (EDB_executions db)" "Execution_ID x = execID"
       "Execution_Version x = 1" "Execution_Status x = ExecutionStatusPending" "execution_known x"
    show ?thesis
      unfolding db'
    proof (intro book_one book_event.step_new)
      show "owns_scenario db ?e (Step_ScenarioID r)" using guards row(3) by (auto simp: owns_scenario_def new_step_def)
      show "\<exists>g\<in>set (EDB_engagements db). Engagement_ID g = ?e \<and> Engagement_AttackVersion g = Step_AttackVersion r"
        using guards row(5) by (auto simp: new_step_def)
    qed (use guards row exec in \<open>simp_all add: new_step_def\<close>)
  qed
  then show ?thesis
    unfolding CreateStep_context Inr ctx by (auto simp: run split: sum.splits intro: book_record)
qed (simp add: CreateStep_context book_refl)

lemma book_map_steps:
  assumes "is_open e db" "\<And>r. r \<in> set (EDB_steps db) \<Longrightarrow> step_kept db e r (f r)"
  shows "book e db (db\<lparr>EDB_steps := map f (EDB_steps db)\<rparr>)"
  by (intro book_one book_event.step assms ballI)

lemma PatchStep_book:
  assumes "workbook_ok db" shows "book e db (snd (PatchStep svc c1 a e sid inp db))"
proof (cases "step_context e sid db")
  case (Inr ctx)
  obtain current scenario eng where ctx: "ctx = (current, scenario, eng)" by (cases ctx)
  note guards = step_context_Inr [OF Inr [unfolded ctx] assms]
  have own: "owns_scenario db e (Step_ScenarioID r)" if "r \<in> set (EDB_steps db)" "Step_ID r = sid" for r
    using guards that same_step [OF assms, of r current] by simp
  have opn: "is_open e db" using guards by simp
  have "book e db (snd (Steps_Update sid c1 ch [record_hook svc x] db))" for ch x
    by (auto simp: Steps_Update_def Let_def update_where_def step_kept_def own opn intro!: book_record book_map_steps)
  then show ?thesis
    unfolding PatchStep_def Inr ctx by (auto split: prod.splits sum.splits) (metis snd_conv)+
qed (simp add: PatchStep_def book_refl)

lemma Steps_Reveal_book:
  assumes "workbook_ok db" "current \<in> set (EDB_steps db)" "owns_scenario db e (Step_ScenarioID current)" "is_open e db"
  shows "book e db (snd (Steps_Reveal (Step_ID current) clock db))"
proof -
  have "owns_scenario db e (Step_ScenarioID r)" if "r \<in> set (EDB_steps db)" "Step_ID r = Step_ID current" for r
    using same_step [OF assms(1) that(1) assms(2) that(2)] assms(3) by simp
  then show ?thesis
    using assms(4) by (auto simp: Steps_Reveal_def Let_def update_where_def step_kept_def intro!: book_map_steps)
qed

lemma RevealStep_book:
  assumes "workbook_ok db" shows "book e db (snd (RevealStep svc c1 a e sid db))"
proof (cases "step_context e sid db")
  case (Inr ctx)
  obtain current scenario eng where ctx: "ctx = (current, scenario, eng)" by (cases ctx)
  note guards = step_context_Inr [OF Inr [unfolded ctx] assms]
  then show ?thesis
    using Steps_Reveal_book [OF assms, of current e c1]
    unfolding RevealStep_def Inr ctx by (auto split: prod.splits sum.splits intro: book_record)
qed (simp add: RevealStep_def book_refl)

lemma ReorderSteps_book:
  assumes "workbook_ok db" shows "book e db (snd (ReorderSteps svc c1 a e sid ids db))"
proof (cases "(\<exists>scenario eng. Scenarios_ByID sid db = Inr scenario \<and> Scenario_EngagementID scenario = e \<and>
    Engagements_ByID e db = Inr eng \<and> refuse_closed eng = None) \<and>
    reorder_check ''step'' ''must include every step in the scenario'' ('' does not belong to scenario '' @ sid)
      (map Step_ID (Steps_ListByScenario sid \<lparr>Scope_Blind = False, Scope_Seat = []\<rparr> db)) ids = None")
  case True
  then obtain scenario eng where found: "Scenarios_ByID sid db = Inr scenario" "Scenario_EngagementID scenario = e"
    "Engagements_ByID e db = Inr eng" "refuse_closed eng = None" by blast
  have own: "owns_scenario db e sid" using Scenarios_ByID_Inr [OF found(1)] found(2) by (auto simp: owns_scenario_def)
  let ?group = "group_of Step_ScenarioID sid (EDB_steps db)"
  have ids: "length ids = length ?group" "set ids \<subseteq> Step_ID ` set ?group"
    using reorder_check_None [OF conjunct2 [OF True]]
    by (simp_all add: Steps_ListByScenario_def group_of_def Where_def Withholds_def sql_holds_def)
  have keys: "distinct (map Step_ID (EDB_steps db))" and dense: "dense Step_ScenarioID Step_Ordinal sid (EDB_steps db)"
    using assms by (auto simp: workbook_ok_def intro: all_dense)
  have "book e db (db\<lparr>EDB_steps := rows\<rparr>)"
    if run: "Reorder_loop ''step'' Step_ID Step_ScenarioID Step_Ordinal (place_step (toStorage c1)) 0 ids
        (EDB_steps db) = Inr rows" for rows
  proof -
    obtain g where g: "rows = map g (EDB_steps db)"
        "\<forall>r. (Step_AttackVersion (g r), Step_TechniqueID (g r), Step_RevealedAt (g r)) =
             (Step_AttackVersion r, Step_TechniqueID r, Step_RevealedAt r) \<and> (Step_ID r \<notin> set ids \<longrightarrow> g r = r)"
      using step_order.loop_map [OF run, of "\<lambda>r. (Step_AttackVersion r, Step_TechniqueID r, Step_RevealedAt r)"]
      by (auto simp: place_step_def)
    have shapes: "map step_order.shape (map g (EDB_steps db)) = map step_order.shape (EDB_steps db)"
      using step_order.reorder_moves_nothing [OF run keys dense ids] g(1) by simp
    have "step_kept db e r (g r)" if r: "r \<in> set (EDB_steps db)" for r
    proof (cases "Step_ID r \<in> set ids")
      case True
      then obtain r' where "r' \<in> set ?group" "Step_ID r' = Step_ID r" using ids(2) by (metis imageE subsetD)
      then have "r' \<in> set (EDB_steps db)" "Step_ScenarioID r' = sid" "Step_ID r' = Step_ID r" by (auto simp: group_of_def)
      moreover have "r' = r" using same_step [OF assms calculation(1) r calculation(3)] .
      moreover have "step_order.shape (g r) = step_order.shape r" using shapes r by simp
      ultimately show ?thesis using own g(2) by (simp add: step_kept_def)
    qed (simp add: g(2) step_kept_def)
    then show ?thesis unfolding g(1) by (rule book_map_steps [OF guard_open [OF assms found(3,4)]])
  qed
  then show ?thesis
    using True found unfolding ReorderSteps_def
    by (auto simp: Steps_Reorder_def requireSameEngagement_def Let_def split: sum.splits intro!: book_refl book_record)
next
  case refused: False
  show ?thesis
  proof (cases "Scenarios_ByID sid db")
    case (Inr scenario)
    show ?thesis
    proof (cases "Scenario_EngagementID scenario = e \<and> (\<exists>eng. Engagements_ByID e db = Inr eng \<and> refuse_closed eng = None)")
      case True
      then obtain eng where eng: "Engagements_ByID e db = Inr eng" "refuse_closed eng = None" by blast
      let ?check = "reorder_check ''step'' ''must include every step in the scenario'' ('' does not belong to scenario '' @ sid)
        (map Step_ID (Steps_ListByScenario sid \<lparr>Scope_Blind = False, Scope_Seat = []\<rparr> db)) ids"
      have "?check \<noteq> None"
      proof
        assume passed: "?check = None"
        have ex: "\<exists>scenario eng. Scenarios_ByID sid db = Inr scenario \<and> Scenario_EngagementID scenario = e \<and>
            Engagements_ByID e db = Inr eng \<and> refuse_closed eng = None"
          by (rule exI [of _ scenario], rule exI [of _ eng]) (use Inr True eng in simp)
        show False by (rule notE [OF refused]) (rule conjI [OF ex passed])
      qed
      then obtain err where "?check = Some err" by blast
      then show ?thesis
        using Inr True eng unfolding ReorderSteps_def by (simp add: requireSameEngagement_def book_refl)
    next
      case False
      then show ?thesis
        unfolding ReorderSteps_def Inr
        by (cases "Engagements_ByID (Scenario_EngagementID scenario) db")
          (auto simp: requireSameEngagement_def book_refl split: option.split)
    qed
  qed (simp add: ReorderSteps_def book_refl)
qed

section \<open>Executions\<close>

lemma red_sets_fixed [simp]:
  "Execution_ID (red_sets c x) = Execution_ID x" "Execution_StepID (red_sets c x) = Execution_StepID x"
  "Execution_Version (red_sets c x) = Execution_Version x"
  "Execution_Status (red_sets c x) = (case RedPatch_Status c of None \<Rightarrow> Execution_Status x | Some s \<Rightarrow> s)"
  by (simp_all add: red_sets_def Let_def set_field_def split: option.splits)

lemma blue_sets_fixed [simp]:
  "Execution_ID (blue_sets c x) = Execution_ID x" "Execution_StepID (blue_sets c x) = Execution_StepID x"
  "Execution_Version (blue_sets c x) = Execution_Version x" "Execution_Status (blue_sets c x) = Execution_Status x"
  by (simp_all add: blue_sets_def Let_def set_field_def split: option.splits)

text \<open>A patch either fails and writes nothing, or writes the one row whose version it names.\<close>

lemma patch_effect:
  assumes "workbook_ok db"
    and fixed: "\<And>x. Execution_ID (sets x) = Execution_ID x"
  shows "patch_execution what xid v sets clock [] db = (res, db') \<Longrightarrow>
    (\<exists>err. res = Inl err \<and> db' = db) \<or>
    (\<exists>x\<in>set (EDB_executions db). Execution_ID x = xid \<and> Execution_Version x = v \<and>
       execution_known ((sets x)\<lparr>Execution_Version := v + 1, Execution_UpdatedAt := toStorage clock\<rparr>) \<and>
       res = Inr ((sets x)\<lparr>Execution_Version := v + 1, Execution_UpdatedAt := toStorage clock\<rparr>) \<and>
       db' = db\<lparr>EDB_executions := update_where (\<lambda>x. Execution_ID x = xid)
              (\<lambda>x. (sets x)\<lparr>Execution_Version := v + 1, Execution_UpdatedAt := toStorage clock\<rparr>) (EDB_executions db)\<rparr>)"
proof -
  let ?sel = "\<lambda>x. Execution_ID x = xid \<and> Execution_Version x = v"
  let ?w = "\<lambda>x. (sets x)\<lparr>Execution_Version := Execution_Version x + 1, Execution_UpdatedAt := toStorage clock\<rparr>"
  let ?w' = "\<lambda>x. (sets x)\<lparr>Execution_Version := v + 1, Execution_UpdatedAt := toStorage clock\<rparr>"
  assume run: "patch_execution what xid v sets clock [] db = (res, db')"
  show ?thesis
  proof (cases "\<exists>x\<in>set (EDB_executions db). ?sel x")
    case True
    then obtain x where x: "x \<in> set (EDB_executions db)" "Execution_ID x = xid" "Execution_Version x = v" by blast
    have same: "y = x" if "y \<in> set (EDB_executions db)" "Execution_ID y = xid" for y
      using same_execution [OF assms(1) that(1) x(1)] that(2) x(2) by simp
    have rows: "update_where ?sel ?w (EDB_executions db) = update_where (\<lambda>x. Execution_ID x = xid) ?w' (EDB_executions db)"
      unfolding update_where_def by (rule map_cong [OF refl]) (use same x(3) in auto)
    have "select1 (\<lambda>x. Execution_ID x = xid) (EDB_executions db) = Some x"
      using select1_key [of Execution_ID "EDB_executions db" x] x assms(1) by (simp add: workbook_ok_def)
    then have read: "select1 (\<lambda>x. Execution_ID x = xid) (update_where (\<lambda>x. Execution_ID x = xid) ?w' (EDB_executions db)) = Some (?w' x)"
      using select1_update_where [of "\<lambda>x. Execution_ID x = xid" Execution_ID ?w' xid "EDB_executions db"] fixed x(2) by simp
    have "count_where ?sel (EDB_executions db) \<noteq> 0" using True by (auto simp: count_where_0)
    moreover have "(\<exists>y\<in>set (EDB_executions db). ?sel y \<and> \<not> execution_known (?w y)) \<longleftrightarrow> \<not> execution_known (?w' x)"
      using same x by metis
    ultimately show ?thesis
      using run x unfolding patch_execution_def Let_def rows read by (auto split: if_splits)
  next
    case False
    then have "count_where ?sel (EDB_executions db) = 0" by (auto simp: count_where_0)
    then show ?thesis
      using run by (cases "select1 (\<lambda>x. Execution_ID x = xid) (EDB_executions db)")
        (simp_all add: patch_execution_def Let_def, blast+)
  qed
qed

lemma execution_transition_None:
  "execution_transition old new = None \<Longrightarrow> status_moves validStatusTransitionsExecution old new"
  by (auto simp: execution_transition_def status_moves_def split: if_splits option.splits)

lemma patch_book:
  assumes "workbook_ok db" "is_open e db" "exec \<in> set (EDB_executions db)" "owns_step db e (Execution_StepID exec)"
    and "\<And>x. Execution_ID (sets x) = Execution_ID x" "\<And>x. Execution_StepID (sets x) = Execution_StepID x"
    and "status_moves validStatusTransitionsExecution (Execution_Status exec) (Execution_Status (sets exec))"
  shows "book e db (snd (patch_execution what (Execution_ID exec) v sets clock [] db))"
proof -
  obtain res db' where run: "patch_execution what (Execution_ID exec) v sets clock [] db = (res, db')" by (meson surj_pair)
  have same: "x = exec" if "x \<in> set (EDB_executions db)" "Execution_ID x = Execution_ID exec" for x
    using same_execution [OF assms(1) that(1) assms(3) that(2)] .
  from patch_effect [OF assms(1,5) run] show ?thesis
  proof (elim disjE exE conjE bexE)
    fix err assume "db' = db" then show ?thesis by (simp add: run)
  next
    fix x
    let ?w = "\<lambda>x. (sets x)\<lparr>Execution_Version := v + 1, Execution_UpdatedAt := toStorage clock\<rparr>"
    assume x: "x \<in> set (EDB_executions db)" "Execution_ID x = Execution_ID exec" "Execution_Version x = v"
      "execution_known (?w x)"
      and db': "db' = db\<lparr>EDB_executions := update_where (\<lambda>x. Execution_ID x = Execution_ID exec) ?w (EDB_executions db)\<rparr>"
    have "owns_step db e (Execution_StepID y) \<and> execution_patched y (?w y)"
      if "y \<in> set (EDB_executions db)" "Execution_ID y = Execution_ID exec" for y
      using same [OF that] same [OF x(1,2)] x assms(4-7) by (simp add: execution_patched_def)
    then show ?thesis unfolding run db' by (auto intro!: book_one book_event.execution assms(2))
  qed
qed

lemma Steps_Reveal_tables:
  "EDB_engagements (snd (Steps_Reveal sid clock db)) = EDB_engagements db"
  "EDB_scenarios (snd (Steps_Reveal sid clock db)) = EDB_scenarios db"
  "EDB_executions (snd (Steps_Reveal sid clock db)) = EDB_executions db"
  by (simp_all add: Steps_Reveal_def Let_def)

lemma bex_update_where:
  assumes "\<And>r. P r \<Longrightarrow> Q (f r) = Q r"
  shows "(\<exists>r\<in>set (update_where P f rows). Q r) \<longleftrightarrow> (\<exists>r\<in>set rows. Q r)"
proof -
  have "(\<exists>r\<in>set (update_where P f rows). Q r) \<longleftrightarrow> (\<exists>r\<in>set rows. Q (if P r then f r else r))"
    unfolding update_where_def set_map by blast
  also have "\<dots> \<longleftrightarrow> (\<exists>r\<in>set rows. Q r)" by (rule bex_cong [OF refl]) (simp add: assms)
  finally show ?thesis .
qed

lemma Steps_Reveal_owns: "owns_step (snd (Steps_Reveal sid clock db)) e xid = owns_step db e xid"
  unfolding owns_step_def Steps_Reveal_def Let_def
  by (simp add: owns_scenario_def) (rule bex_update_where, simp)

text \<open>The reveal a red patch may make first, whatever becomes of the patch.\<close>

definition auto_reveal :: "gotime \<Rightarrow> Engagement \<Rightarrow> Step_row \<Rightarrow> ExecutionStatus \<Rightarrow> ExecutionStatus option \<Rightarrow> EDB \<Rightarrow> EDB" where
  "auto_reveal clock eng step old status db =
     (if auto_reveals eng step old status then snd (Steps_Reveal (Step_ID step) clock db) else db)"

text \<open>The step was read in this request, so the reveal finds it.\<close>

lemma Steps_Reveal_Inr:
  assumes "step \<in> set (EDB_steps db)"
  shows "\<exists>r. fst (Steps_Reveal (Step_ID step) clock db) = Inr r"
proof -
  let ?rows = "update_where (\<lambda>s. Step_ID s = Step_ID step \<and> Step_RevealedAt s = None)
                    (\<lambda>s. s\<lparr>Step_RevealedAt := Some (toStorage clock), Step_UpdatedAt := toStorage clock\<rparr>) (EDB_steps db)"
  have "\<exists>r\<in>set ?rows. Step_ID r = Step_ID step"
    using assms unfolding set_update_where by (intro bexI [OF _ imageI [OF assms]]) simp
  then have "select1 (\<lambda>s. Step_ID s = Step_ID step) ?rows \<noteq> None" unfolding select1_None by blast
  then show ?thesis by (auto simp: Steps_Reveal_def Let_def Steps_ByID_def)
qed

lemma PatchRedExecution_cases:
  assumes "execution_context e xid db = Inr (exec, step, scenario, eng)" "workbook_ok db"
    and "(case RedInput_Status inp of None \<Rightarrow> None | Some new \<Rightarrow> execution_transition (Execution_Status exec) new) = None"
  shows "PatchRedExecution svc c1 c2 c3 a e xid inp db =
    (case PatchRed xid (RedInput_Version inp) (red_changes c2 a exec inp) c3 []
            (auto_reveal c1 eng step (Execution_Status exec) (RedInput_Status inp) db) of
       (Inl err, db2) \<Rightarrow> (Inl err, db2)
     | (Inr patched, db2) \<Rightarrow>
         (Inr patched, recordAlone svc (workbook_entry a (Scenario_EngagementID scenario)
            VerbExecutionRedUpdated ObjectExecution xid (Delta (redDelta inp exec patched))) db2))"
proof -
  have "step \<in> set (EDB_steps db)" using execution_context_Inr [OF assms(1,2)] by simp
  then obtain r where "fst (Steps_Reveal (Step_ID step) c1 db) = Inr r" using Steps_Reveal_Inr by blast
  then show ?thesis
    using assms(1,3) unfolding PatchRedExecution_def auto_reveal_def
    by (cases "Steps_Reveal (Step_ID step) c1 db") simp
qed

lemma auto_reveal_book:
  assumes "workbook_ok db" "step \<in> set (EDB_steps db)" "owns_scenario db e (Step_ScenarioID step)" "is_open e db"
  shows "book e db (auto_reveal c eng step old st db)"
  using Steps_Reveal_book [OF assms] by (simp add: auto_reveal_def book_refl)

lemma auto_reveal_tables [simp]:
  "EDB_engagements (auto_reveal c eng step old st db) = EDB_engagements db"
  "EDB_scenarios (auto_reveal c eng step old st db) = EDB_scenarios db"
  "EDB_executions (auto_reveal c eng step old st db) = EDB_executions db"
  "owns_step (auto_reveal c eng step old st db) = owns_step db"
  by (simp_all add: auto_reveal_def Steps_Reveal_tables Steps_Reveal_owns fun_eq_iff)

lemma context_owns_step:
  assumes "execution_context e xid db = Inr (exec, step, scenario, eng)" "workbook_ok db"
  shows "owns_step db e (Execution_StepID exec)"
  using execution_context_Inr [OF assms] unfolding owns_step_def by blast

lemma red_patch_moves:
  assumes "(case RedInput_Status inp of None \<Rightarrow> None | Some new \<Rightarrow> execution_transition (Execution_Status exec) new) = None"
  shows "status_moves validStatusTransitionsExecution (Execution_Status exec)
    (Execution_Status (red_sets (red_changes c a exec inp) exec))"
  using assms execution_transition_None
  by (cases "RedInput_Status inp") (simp_all add: red_changes_def status_moves_def)

lemma PatchRedExecution_book:
  assumes "workbook_ok db" shows "book e db (snd (PatchRedExecution svc c1 c2 c3 a e xid inp db))"
proof (cases "execution_context e xid db")
  case (Inr ctx)
  obtain exec step scenario eng where ctx: "ctx = (exec, step, scenario, eng)" by (cases ctx)
  note guards = execution_context_Inr [OF Inr [unfolded ctx] assms]
  note own = context_owns_step [OF Inr [unfolded ctx] assms]
  show ?thesis
  proof (cases "case RedInput_Status inp of None \<Rightarrow> None | Some new \<Rightarrow> execution_transition (Execution_Status exec) new")
    case None
    let ?d = "auto_reveal c1 eng step (Execution_Status exec) (RedInput_Status inp) db"
    have reveal: "book e db ?d" using guards by (intro auto_reveal_book assms) simp_all
    have "book e ?d (snd (PatchRed xid (RedInput_Version inp) (red_changes c2 a exec inp) c3 [] ?d))"
      unfolding PatchRed_def guards [THEN conjunct2, THEN conjunct1, symmetric]
      using guards own by (intro patch_book book_ok [OF reveal assms] red_patch_moves [OF None])
        (simp_all add: is_open_def)
    then have "book e db (snd (PatchRed xid (RedInput_Version inp) (red_changes c2 a exec inp) c3 [] ?d))"
      by (rule rtranclp_trans [OF reveal])
    then show ?thesis
      unfolding PatchRedExecution_cases [OF Inr [unfolded ctx] assms None]
      by (auto split: prod.splits sum.splits intro: book_record)
  qed (simp add: PatchRedExecution_def Inr ctx book_refl)
qed (simp add: PatchRedExecution_def book_refl)

lemma PatchBlueDetection_book:
  assumes "workbook_ok db" shows "book e db (snd (PatchBlueDetection svc c1 c2 a e xid inp db))"
proof (cases "execution_context e xid db")
  case (Inr ctx)
  obtain exec step scenario eng where ctx: "ctx = (exec, step, scenario, eng)" by (cases ctx)
  note guards = execution_context_Inr [OF Inr [unfolded ctx] assms]
  note own = context_owns_step [OF Inr [unfolded ctx] assms]
  have "book e db (snd (PatchBlue xid v ch c2 [] db))" for v ch
    unfolding PatchBlue_def guards [THEN conjunct2, THEN conjunct1, symmetric]
    using guards own by (intro patch_book assms) (simp_all add: status_moves_def)
  then have patch: "book e db db'" if "PatchBlue xid v ch c2 [] db = (res, db')" for v ch res db' by (metis that snd_conv)
  show ?thesis
    unfolding PatchBlueDetection_def Inr ctx
    by (auto split: sum.split prod.split option.split intro!: book_refl book_record dest: patch)
qed (simp add: PatchBlueDetection_def book_refl)

section \<open>The whole service\<close>

lemma workbook_step_book:
  assumes "workbook_step svc e db db'" "workbook_ok db" shows "book e db db'"
  using assms(1)
proof cases
  case (seat i)
  then show ?thesis by (auto intro: book_one book_event.identity)
qed (auto intro: Create_book Update_book SetStatus_book CreateScenario_book PatchScenario_book ReorderScenarios_book
    CreateStep_book PatchStep_book ReorderSteps_book RevealStep_book PatchRedExecution_book PatchBlueDetection_book assms(2))

text \<open>Induction over a run: what every event keeps is kept.\<close>

lemma workbook_any_ok: "workbook_any svc db db' \<Longrightarrow> workbook_ok db \<Longrightarrow> workbook_ok db'"
  unfolding workbook_any_def using workbook_step_book book_ok by blast

lemma run_ok: "(workbook_any svc)\<^sup>*\<^sup>* db db' \<Longrightarrow> workbook_ok db \<Longrightarrow> workbook_ok db'"
  by (induction rule: rtranclp_induct) (auto intro: workbook_any_ok)

lemma run_induct [consumes 2, case_names refl event]:
  assumes run: "(workbook_any svc)\<^sup>*\<^sup>* db db'" and ok: "workbook_ok db" and base: "P db"
    and event: "\<And>d d' e. workbook_ok d \<Longrightarrow> P d \<Longrightarrow> book_event e d d' \<Longrightarrow> P d'"
  shows "P db'"
  using run
proof (induction rule: rtranclp_induct)
  case (step y z)
  have ok_y: "workbook_ok y" by (rule run_ok [OF step(1) ok])
  obtain e where "workbook_step svc e y z" using step(2) by (auto simp: workbook_any_def)
  then have "book e y z" by (rule workbook_step_book [OF _ ok_y])
  then have "workbook_ok z \<and> P z"
    using step(3) ok_y
  proof (induction rule: rtranclp_induct)
    case (step a b)
    then show ?case using event book_event_ok by blast
  qed simp
  then show ?case ..
qed (rule base)

end
