(* ===== verification/Workbook_Props.thy ===== *)
theory Workbook_Props
  imports Workbook_Refine Apierr
begin

text \<open>
  The properties of the workbook: what holds over every run of requests, proved once on the
  abstract writes (\<open>run_induct\<close>), and what single requests answer. \<open>lab\<close> is a small database on
  which the properties are tried.
\<close>

section \<open>A small database\<close>

definition lab_engagement :: "string \<Rightarrow> EngagementStatus \<Rightarrow> EngagementMode \<Rightarrow> Engagement" where
  "lab_engagement eid status mode =
     \<lparr>Engagement_ID = eid, Engagement_Name = eid, Engagement_Client = [], Engagement_Description = [],
      Engagement_Status = status, Engagement_StartsOn = 0, Engagement_EndsOn = 0, Engagement_AttackVersion = ''18.1'',
      Engagement_Mode = mode, Engagement_AutoRevealOnStart = True, Engagement_CreatedBy = ''u1'',
      Engagement_CreatedAt = 0, Engagement_UpdatedAt = 0\<rparr>"

definition lab_scenario :: "string \<Rightarrow> string \<Rightarrow> Scenario" where
  "lab_scenario sid eid =
     \<lparr>Scenario_ID = sid, Scenario_EngagementID = eid, Scenario_Ordinal = 1, Scenario_Name = [], Scenario_Narrative = [],
      Scenario_Source = ScenarioSourceManual, Scenario_ThreatActor = [], Scenario_SourceRef = [], Scenario_PlanID = [],
      Scenario_CreatedAt = 0, Scenario_UpdatedAt = 0\<rparr>"

definition lab_step :: "string \<Rightarrow> string \<Rightarrow> int \<Rightarrow> gotime option \<Rightarrow> Step_row" where
  "lab_step sid scenarioID ordinal revealed =
     \<lparr>Step_ID = sid, Step_ScenarioID = scenarioID, Step_Ordinal = ordinal, Step_Name = sid, Step_Objective = [],
      Step_TechniqueID = ''T1059'', Step_SubtechniqueID = [], Step_TacticID = [], Step_Procedure = ''{}'',
      Step_TemplateID = [], Step_TargetAsset = [], Step_Tools = ''[]'', Step_ControlsInScope = ''[]'',
      Step_AttackVersion = ''18.1'', Step_RevealedAt = revealed, Step_CreatedAt = 0, Step_UpdatedAt = 0\<rparr>"

definition lab_execution :: "string \<Rightarrow> string \<Rightarrow> gotime option \<Rightarrow> Execution" where
  "lab_execution xid stepID detected =
     \<lparr>Execution_ID = xid, Execution_StepID = stepID, Execution_Version = 1, Execution_Status = ExecutionStatusPending,
      Execution_ExecutedBy = [], Execution_StartedAt = None, Execution_EndedAt = None, Execution_CommandRun = [],
      Execution_SourceHost = [], Execution_TargetHost = [], Execution_RedNotes = [], Execution_DetectionCategory = None,
      Execution_DetectionModifiers = [], Execution_Protection = None, Execution_DetectedAt = detected,
      Execution_DetectingSource = [], Execution_DetectingRuleRef = [], Execution_AlertSeverity = [],
      Execution_BlueNotes = [], Execution_ScoredBy = [], Execution_ScoredAt = None, Execution_CreatedAt = 0,
      Execution_UpdatedAt = 0\<rparr>"

text \<open>An active blind engagement e1 with two steps, and a closed one e2 with one.\<close>

definition lab :: EDB where
  "lab = \<lparr>EDB_identity = \<lparr>IDB_users = [], IDB_sessions = [], IDB_totps = [], IDB_recovery = [], IDB_challenges = [],
           IDB_members = [], IDB_activity = [], IDB_identities = [], IDB_settings = []\<rparr>,
     EDB_engagements = [lab_engagement ''e1'' EngagementStatusActive EngagementModeBlind,
       lab_engagement ''e2'' EngagementStatusClosed EngagementModeStandard],
     EDB_scenarios = [lab_scenario ''s1'' ''e1'', lab_scenario ''s2'' ''e2''],
     EDB_steps = [lab_step ''t1'' ''s1'' 1 (Some 5000), lab_step ''t2'' ''s1'' 2 None, lab_step ''t3'' ''s2'' 1 None],
     EDB_executions = [lab_execution ''x1'' ''t1'' (Some 7000000), lab_execution ''x2'' ''t2'' None, lab_execution ''x3'' ''t3'' None]\<rparr>"

definition lab_service :: Workbook_Service where
  "lab_service = \<lparr>Svc_attackpin = Some \<lparr>AssertPinned = \<lambda>v. None,
       ResolveTechnique = \<lambda>v t. Inr \<lparr>Technique_ExternalID = t, Technique_Name = t, Technique_Description = []\<rparr>\<rparr>,
     Svc_activity = True, Svc_formatTime = \<lambda>t. [], Svc_marshalProcedure = \<lambda>d n. ''{}''\<rparr>"

lemmas lab_defs = lab_def lab_engagement_def lab_scenario_def lab_step_def lab_execution_def lab_service_def

lemma lab_ok: "workbook_ok lab"
proof -
  have one: "{1..1::int} = {1}" "{1..2::int} = {1,2}" by auto
  show ?thesis
    by (simp add: lab_defs workbook_ok_def engagement_ok_def EngagementStatus_Valid_def execution_known_def
        ExecutionStatus_Valid_def ordinals_unique_def dense_def group_of_def one)
qed

text \<open>
  A red patch that starts the execution x1 after the detection blue recorded; what it reads and
  what it writes.
\<close>

definition lab_red :: PatchRedExecutionInput where
  "lab_red = \<lparr>RedInput_Version = 1, RedInput_Status = Some ExecutionStatusRunning, RedInput_StartedAt = Some 9000000,
     RedInput_EndedAt = None, RedInput_CommandRun = None, RedInput_SourceHost = None, RedInput_TargetHost = None,
     RedInput_RedNotes = None\<rparr>"

definition lab_patched :: Execution where
  "lab_patched = (lab_execution ''x1'' ''t1'' (Some 7000000))\<lparr>Execution_Version := 2, Execution_Status := ExecutionStatusRunning,
     Execution_ExecutedBy := ''u1'', Execution_StartedAt := Some 9000000, Execution_UpdatedAt := 5000\<rparr>"

lemmas lab_reads = execution_context_def Executions_ByID_def Steps_ByID_def Scenarios_ByID_def Engagements_ByID_def
  select1_def requireSameEngagement_def refuse_closed_def lab_defs

lemma lab_context1: "execution_context ''e1'' ''x1'' lab = Inr (lab_execution ''x1'' ''t1'' (Some 7000000),
   lab_step ''t1'' ''s1'' 1 (Some 5000), lab_scenario ''s1'' ''e1'', lab_engagement ''e1'' EngagementStatusActive EngagementModeBlind)"
  by (simp add: lab_reads)

lemma lab_context2: "execution_context ''e1'' ''x2'' lab = Inr (lab_execution ''x2'' ''t2'' None,
   lab_step ''t2'' ''s1'' 2 None, lab_scenario ''s1'' ''e1'', lab_engagement ''e1'' EngagementStatusActive EngagementModeBlind)"
  by (simp add: lab_reads)

lemma lab_transition: "execution_transition ExecutionStatusPending ExecutionStatusRunning = None"
  by (simp add: execution_transition_def validStatusTransitionsExecution_def)

lemma lab_patch: "fst (PatchRedExecution lab_service 3000 4000 5000 ''u1'' ''e1'' ''x1'' lab_red lab) = Inr lab_patched"
proof (subst PatchRedExecution_cases [OF lab_context1 lab_ok])
qed (simp_all add: lab_red_def lab_execution_def lab_transition auto_reveal_def auto_reveals_def lab_patched_def
     lab_step_def lab_engagement_def PatchRed_def patch_execution_def Let_def count_where_def lab_def select1_def
     update_where_def red_sets_def red_changes_def set_field_def execution_known_def ExecutionStatus_Valid_def
     toStorage_def Truncate_def Microsecond_def)

definition lab1 :: EDB where
  "lab1 = snd (PatchRedExecution lab_service 3000 4000 5000 ''u1'' ''e1'' ''x1'' lab_red lab)"

lemma lab_request: "workbook_step lab_service ''e1'' lab lab1"
  unfolding lab1_def by (rule workbook_step.patch_red)

lemma lab_run: "(workbook_any lab_service)\<^sup>*\<^sup>* lab lab1"
  by (rule r_into_rtranclp) (unfold workbook_any_def, rule exI, rule lab_request)

section \<open>Every run\<close>

text \<open>
  A run of requests, of any clients and for any engagements, keeps the schema: keys are
  distinct, every row has its parent, statuses and scores are known values, each step has at most
  one execution, and the scenarios of an engagement and the steps of a scenario are numbered 1 to n
  without gaps.
\<close>

theorem workbook_schema_kept:
  assumes "(workbook_any svc)\<^sup>*\<^sup>* db db'" "workbook_ok db"
  shows "workbook_ok db'"
  using assms by (rule run_ok)

theorem workbook_schema_kept_witness: "workbook_ok lab1"
  by (rule workbook_schema_kept [OF lab_run lab_ok])



text \<open>
  C19. A request authorised for one engagement leaves every other engagement's workbook (its
  scenarios, their steps, their executions) as it was, even when the identifiers it names belong
  to the other.
\<close>

theorem workbook_isolation:
  assumes "workbook_step svc e db db'" "workbook_ok db" "e' \<noteq> e"
  shows "workbook_of e' db' = workbook_of e' db"
  using book_others [OF workbook_step_book [OF assms(1,2)] assms(2,3)] .

theorem workbook_isolation_witness: "workbook_of ''e2'' lab1 = workbook_of ''e2'' lab"
  by (rule workbook_isolation [OF lab_request lab_ok]) simp



section \<open>Rows over a run\<close>

text \<open>The order of the engagement's life.\<close>

definition status_rank :: "EngagementStatus \<Rightarrow> nat" where
  "status_rank s = (if s = EngagementStatusDraft then 0 else if s = EngagementStatusActive then 1
     else if s = EngagementStatusClosed then 2 else 3)"

lemma status_moves_rank:
  "status_moves validStatusTransitions s s' \<Longrightarrow> s' = s \<or> status_rank s < status_rank s' \<and> s \<noteq> EngagementStatusArchived"
  by (auto simp: status_moves_def validStatusTransitions_def status_rank_def split: if_splits)

lemma book_event_engagement:
  assumes "book_event e db db'" "r \<in> set (EDB_engagements db)"
  shows "\<exists>r'\<in>set (EDB_engagements db'). Engagement_ID r' = Engagement_ID r \<and>
    Engagement_CreatedBy r' = Engagement_CreatedBy r \<and>
    (Engagement_Status r' = Engagement_Status r \<or> status_rank (Engagement_Status r) < status_rank (Engagement_Status r'))"
  using assms(1)
proof cases
  case (engagement f)
  show ?thesis
  proof (cases "Engagement_ID r = e")
    case True
    then have "f r \<in> set (EDB_engagements db')"
      unfolding engagement(1) using assms(2) by (auto simp: set_update_where)
    then show ?thesis
      using engagement(2) assms(2) True status_moves_rank by (intro bexI [of _ "f r"]) auto
  next
    case False
    then have "r \<in> set (EDB_engagements db')"
      unfolding engagement(1) using assms(2) by (auto simp: set_update_where)
    then show ?thesis by blast
  qed
qed (use assms(2) in auto)



text \<open>What a patch may do to an execution's status: nothing after a terminal state.\<close>

definition terminal :: "ExecutionStatus \<Rightarrow> bool" where
  "terminal s \<longleftrightarrow> s \<in> {ExecutionStatusComplete, ExecutionStatusBlocked, ExecutionStatusSkipped}"

definition pending :: "ExecutionStatus \<Rightarrow> bool" where
  "pending s \<longleftrightarrow> s = ExecutionStatusPending"

definition execution_grows :: "Execution \<Rightarrow> Execution \<Rightarrow> bool" where
  "execution_grows x x' \<longleftrightarrow> Execution_ID x' = Execution_ID x \<and> Execution_StepID x' = Execution_StepID x \<and>
     Execution_Version x \<le> Execution_Version x' \<and> (Execution_Version x' = Execution_Version x \<longrightarrow> x' = x) \<and>
     (pending (Execution_Status x') \<longrightarrow> pending (Execution_Status x)) \<and>
     (terminal (Execution_Status x) \<longrightarrow> Execution_Status x' = Execution_Status x)"

lemma execution_grows_refl: "execution_grows x x"
  by (simp add: execution_grows_def)

lemma execution_grows_trans: "execution_grows x y \<Longrightarrow> execution_grows y z \<Longrightarrow> execution_grows x z"
  unfolding execution_grows_def by (elim conjE) (intro conjI impI; simp)

lemma status_moves_terminal:
  assumes "status_moves validStatusTransitionsExecution s s'"
  shows "(pending s' \<longrightarrow> pending s) \<and> (terminal s \<longrightarrow> s' = s)"
proof (cases "s = ExecutionStatusPending")
  case True
  then show ?thesis using assms by (simp add: pending_def terminal_def)
next
  case not_pending: False
  show ?thesis
  proof (cases "s = ExecutionStatusRunning")
    case True
    then have "s' \<in> {s, ExecutionStatusComplete, ExecutionStatusBlocked, ExecutionStatusSkipped}"
      using assms by (auto simp: status_moves_def validStatusTransitionsExecution_def)
    then show ?thesis using True by (elim insertE) (simp_all add: pending_def terminal_def)
  next
    case False
    then show ?thesis using assms not_pending by (simp add: status_moves_def validStatusTransitionsExecution_def)
  qed
qed

lemma execution_patched_grows: "execution_patched x x' \<Longrightarrow> execution_grows x x'"
  using status_moves_terminal [of "Execution_Status x" "Execution_Status x'"]
  by (simp add: execution_patched_def execution_grows_def)

lemma book_event_execution:
  assumes "book_event e db db'" "x \<in> set (EDB_executions db)"
  shows "\<exists>x'\<in>set (EDB_executions db'). execution_grows x x'"
  using assms(1)
proof cases
  case (execution xid f)
  show ?thesis
  proof (cases "Execution_ID x = xid")
    case True
    then have "f x \<in> set (EDB_executions db')"
      unfolding execution(1) using assms(2) by (auto simp: set_update_where)
    then show ?thesis using execution(3) assms(2) True execution_patched_grows by blast
  next
    case False
    then have "x \<in> set (EDB_executions db')"
      unfolding execution(1) using assms(2) by (auto simp: set_update_where)
    then show ?thesis using execution_grows_refl by blast
  qed
qed (use assms(2) execution_grows_refl in auto)

text \<open>
  An execution's version is its history: over any run of requests the execution stays, its
  version never goes down, the same version means the same row, and its status follows the table:
  never back to pending, never out of complete, blocked or skipped.
\<close>

theorem execution_version_history:
  assumes "(workbook_any svc)\<^sup>*\<^sup>* db db'" "workbook_ok db" "x \<in> set (EDB_executions db)"
  shows "\<exists>x'\<in>set (EDB_executions db'). execution_grows x x'"
  using assms(1,2)
proof (induction rule: run_induct)
  case (event d d' e)
  then show ?case using book_event_execution execution_grows_trans by meson
qed (use assms(3) execution_grows_refl in blast)

theorem execution_version_history_witness:
  "\<exists>x'\<in>set (EDB_executions lab1). execution_grows (lab_execution ''x1'' ''t1'' (Some 7000000)) x'"
  by (rule execution_version_history [OF lab_run lab_ok]) (simp add: lab_def)

lemma book_event_step_row:
  assumes "book_event e db db'" "r \<in> set (EDB_steps db)"
  shows "\<exists>r'\<in>set (EDB_steps db'). Step_ID r' = Step_ID r \<and> Step_ScenarioID r' = Step_ScenarioID r \<and>
    Step_Ordinal r' = Step_Ordinal r \<and> Step_TechniqueID r' = Step_TechniqueID r \<and>
    (Step_RevealedAt r \<noteq> None \<longrightarrow> Step_RevealedAt r' = Step_RevealedAt r)"
  using assms(1)
proof cases
  case (step f)
  then have "step_kept db e r (f r)" "f r \<in> set (EDB_steps db')" using assms(2) by simp_all
  then show ?thesis by (intro bexI [of _ "f r"]) (auto simp: step_kept_def)
qed (use assms(2) in auto)



section \<open>The pin\<close>

text \<open>Every step carries the ATT&CK version of its engagement.\<close>

definition pins_agree :: "EDB \<Rightarrow> bool" where
  "pins_agree db \<longleftrightarrow> (\<forall>st\<in>set (EDB_steps db). \<forall>sc\<in>set (EDB_scenarios db). \<forall>en\<in>set (EDB_engagements db).
     Scenario_ID sc = Step_ScenarioID st \<and> Engagement_ID en = Scenario_EngagementID sc \<longrightarrow>
     Step_AttackVersion st = Engagement_AttackVersion en)"

lemma CountSteps_0:
  "CountSteps e db = 0 \<longleftrightarrow> (\<forall>st\<in>set (EDB_steps db). \<not> owns_scenario db e (Step_ScenarioID st))"
proof -
  have "sid \<in> set (scenario_ids e db) \<longleftrightarrow> owns_scenario db e sid" for sid
    by (auto simp: scenario_ids_def owns_scenario_def image_iff)
  then show ?thesis by (simp add: CountSteps_def count_where_0)
qed

lemma book_event_pins:
  assumes "book_event e db db'" "workbook_ok db" "pins_agree db"
  shows "pins_agree db'"
  using assms(1)
proof cases
  case (engagement_new r)
  have "\<forall>sc\<in>set (EDB_scenarios db). Engagement_ID r \<noteq> Scenario_EngagementID sc"
    using assms(2) engagement_new(2,3) by (auto simp: workbook_ok_def)
  then show ?thesis using assms(3) engagement_new(1,2) by (auto simp: pins_agree_def)
next
  case (engagement f)
  have "Step_AttackVersion st = Engagement_AttackVersion (f en)"
    if "st \<in> set (EDB_steps db)" "sc \<in> set (EDB_scenarios db)" "en \<in> set (EDB_engagements db)" "Engagement_ID en = e"
      "Scenario_ID sc = Step_ScenarioID st" "Scenario_EngagementID sc = e" for st sc en
  proof -
    have "owns_scenario db e (Step_ScenarioID st)" using that by (auto simp: owns_scenario_def)
    then have "Engagement_AttackVersion (f en) = Engagement_AttackVersion en"
      using engagement(2) that(1,3,4) CountSteps_0 by blast
    then show ?thesis using assms(3) that by (simp add: pins_agree_def)
  qed
  then show ?thesis
    using assms(3) engagement(2) unfolding pins_agree_def engagement(1) by (auto simp: all_update_where)
next
  case (scenario_new r)
  have "\<forall>st\<in>set (EDB_steps db). Scenario_ID r \<noteq> Step_ScenarioID st"
    using assms(2) scenario_new(4) unfolding workbook_ok_def by metis
  then show ?thesis using assms(3) scenario_new(1) by (auto simp: pins_agree_def)
next
  case (scenario f)
  have "Scenario_ID (f sc) = Scenario_ID sc \<and> Scenario_EngagementID (f sc) = Scenario_EngagementID sc"
    if "sc \<in> set (EDB_scenarios db)" for sc using scenario(3) that by (auto simp: scenario_kept_def)
  then show ?thesis using assms(3) scenario(1) by (simp add: pins_agree_def)
next
  case (step_new r x)
  have "Step_AttackVersion r = Engagement_AttackVersion en"
    if "sc \<in> set (EDB_scenarios db)" "en \<in> set (EDB_engagements db)" "Scenario_ID sc = Step_ScenarioID r"
      "Engagement_ID en = Scenario_EngagementID sc" for sc en
  proof -
    have "Scenario_EngagementID sc = e"
      using owner_unique [OF assms(2) _ step_new(3)] that(1,3) by (auto simp: owns_scenario_def)
    then show ?thesis using step_new(7) same_engagement [OF assms(2)] that(2,4) by metis
  qed
  then show ?thesis using assms(3) step_new(1) by (auto simp: pins_agree_def)
next
  case (step f)
  have "Step_AttackVersion (f r) = Step_AttackVersion r \<and> Step_ScenarioID (f r) = Step_ScenarioID r"
    if "r \<in> set (EDB_steps db)" for r using step(3) that by (auto simp: step_kept_def)
  then show ?thesis using assms(3) step(1) by (simp add: pins_agree_def)
qed (use assms(3) in \<open>simp_all add: pins_agree_def\<close>)

text \<open>
  The pin freeze: over any run of requests every step carries the ATT&CK version its engagement
  is pinned to, so a pin changes only while the engagement has no steps.
\<close>

theorem pin_freeze:
  assumes "(workbook_any svc)\<^sup>*\<^sup>* db db'" "workbook_ok db" "pins_agree db"
  shows "pins_agree db'"
  using assms(1,2)
proof (induction rule: run_induct)
  case (event d d' e)
  then show ?case using book_event_pins by blast
qed (rule assms(3))

theorem pin_freeze_witness: "pins_agree lab1"
  by (rule pin_freeze [OF lab_run lab_ok]) (simp add: pins_agree_def lab_defs)

section \<open>One request: the lifecycle\<close>

lemma SetStatus_moves:
  assumes "workbook_ok db" "r \<in> set (EDB_engagements db)" "map_of validStatusTransitions (Engagement_Status r) = Some allowed"
    and "st \<in> set allowed" "EngagementStatus_Valid st" "st \<noteq> Engagement_Status r"
  shows "\<exists>r'\<in>set (EDB_engagements (snd (SetStatus svc c a (Engagement_ID r) st db))).
    Engagement_ID r' = Engagement_ID r \<and> Engagement_Status r' = st"
proof -
  let ?f = "\<lambda>e. e\<lparr>Engagement_Status := st, Engagement_UpdatedAt := toStorage c\<rparr>"
  let ?sel = "\<lambda>e. Engagement_ID e = Engagement_ID r"
  have found: "select1 ?sel (EDB_engagements db) = Some r"
    using select1_key [of Engagement_ID "EDB_engagements db" r] assms(1,2) by (simp add: workbook_ok_def)
  have there: "?f r \<in> set (update_where ?sel ?f (EDB_engagements db))"
    using assms(2) by (auto simp: set_update_where)
  have count: "count_where ?sel (EDB_engagements db) \<noteq> 0" using assms(2) by (auto simp: count_where_0)
  have "select1 ?sel (update_where ?sel ?f (EDB_engagements db)) = Some (?f r)"
    using select1_update_where [of ?sel Engagement_ID ?f "Engagement_ID r" "EDB_engagements db"] found by simp
  then have "EDB_engagements (snd (SetStatus svc c a (Engagement_ID r) st db)) = update_where ?sel ?f (EDB_engagements db)"
    unfolding SetStatus_def Engagements_SetStatus_def Let_def
    using assms(3-6) found count by (simp add: Engagements_ByID_def workbook_requireOneRow_def)
  then show ?thesis using there by (intro bexI [of _ "?f r"]) simp_all
qed

lemma SetStatus_run: "workbook_any svc db (snd (SetStatus svc c a e st db))"
  unfolding workbook_any_def by (rule exI [of _ e]) (rule workbook_step.set_status)

lemma close_moves:
  assumes "workbook_ok db" "r \<in> set (EDB_engagements db)" "Engagement_Status r \<in> {EngagementStatusDraft, EngagementStatusActive}"
  shows "\<exists>db'. workbook_any svc db db' \<and> (\<exists>r'\<in>set (EDB_engagements db'). Engagement_ID r' = Engagement_ID r \<and>
    Engagement_Status r' = EngagementStatusClosed)"
proof -
  obtain allowed where "map_of validStatusTransitions (Engagement_Status r) = Some allowed" "EngagementStatusClosed \<in> set allowed"
    using assms(3) by (auto simp: validStatusTransitions_def)
  then show ?thesis
    using SetStatus_moves [OF assms(1,2), of allowed EngagementStatusClosed svc] SetStatus_run assms(3)
    by (fastforce simp: EngagementStatus_Valid_def)
qed

lemma archive_moves:
  assumes "workbook_ok db" "r \<in> set (EDB_engagements db)" "Engagement_Status r = EngagementStatusClosed"
  shows "\<exists>db'. workbook_any svc db db' \<and> (\<exists>r'\<in>set (EDB_engagements db'). Engagement_ID r' = Engagement_ID r \<and>
    Engagement_Status r' = EngagementStatusArchived)"
  using SetStatus_moves [OF assms(1,2), of "[EngagementStatusArchived]" EngagementStatusArchived svc] SetStatus_run assms(3)
  by (fastforce simp: EngagementStatus_Valid_def validStatusTransitions_def)

text \<open>
  No engagement is stuck: from any state of a database in order, some run of requests takes the
  engagement to archived, the end of its life.
\<close>

theorem engagement_can_be_archived:
  assumes "workbook_ok db" "r \<in> set (EDB_engagements db)"
  shows "\<exists>db'. (workbook_any svc)\<^sup>*\<^sup>* db db' \<and> (\<exists>r'\<in>set (EDB_engagements db'). Engagement_ID r' = Engagement_ID r \<and>
    Engagement_Status r' = EngagementStatusArchived)"
proof -
  have closed: ?thesis if run: "(workbook_any svc)\<^sup>*\<^sup>* db d" and r1: "r1 \<in> set (EDB_engagements d)"
      "Engagement_ID r1 = Engagement_ID r" "Engagement_Status r1 = EngagementStatusClosed" for d r1
  proof -
    obtain d' where d': "workbook_any svc d d'" "\<exists>r'\<in>set (EDB_engagements d'). Engagement_ID r' = Engagement_ID r1 \<and>
        Engagement_Status r' = EngagementStatusArchived"
      using archive_moves [OF run_ok [OF run assms(1)] r1(1,3), of svc] by (elim exE conjE)
    have "(workbook_any svc)\<^sup>*\<^sup>* db d'" using run d'(1) by (rule rtranclp.rtrancl_into_rtrancl)
    then show ?thesis using d'(2) unfolding r1(2) by (intro exI [of _ d'] conjI)
  qed
  have "Engagement_Status r \<in> {EngagementStatusDraft, EngagementStatusActive} \<or> Engagement_Status r = EngagementStatusClosed \<or>
      Engagement_Status r = EngagementStatusArchived"
    using assms by (simp add: workbook_ok_def engagement_ok_def EngagementStatus_Valid_def)
  then show ?thesis
  proof (elim disjE)
    assume "Engagement_Status r \<in> {EngagementStatusDraft, EngagementStatusActive}"
    then obtain d r1 where "workbook_any svc db d" "r1 \<in> set (EDB_engagements d)" "Engagement_ID r1 = Engagement_ID r"
      "Engagement_Status r1 = EngagementStatusClosed"
      using close_moves [OF assms] by blast
    then show ?thesis by (intro closed) (rule r_into_rtranclp)
  qed (use closed assms(2) in blast)+
qed

theorem engagement_can_be_archived_witness:
  "\<exists>db'. (workbook_any lab_service)\<^sup>*\<^sup>* lab db' \<and> (\<exists>r'\<in>set (EDB_engagements db'). Engagement_ID r' = ''e1'' \<and>
    Engagement_Status r' = EngagementStatusArchived)"
  using engagement_can_be_archived [OF lab_ok, of "lab_engagement ''e1'' EngagementStatusActive EngagementModeBlind" lab_service]
  by (simp add: lab_def lab_engagement_def)

section \<open>One request: patching an execution\<close>

text \<open>A red or a blue patch of an execution that names the version v, and its answer.\<close>

definition patches :: "Workbook_Service \<Rightarrow> string \<Rightarrow> string \<Rightarrow> int \<Rightarrow> EDB \<Rightarrow> error + Execution \<Rightarrow> EDB \<Rightarrow> bool" where
  "patches svc e xid v db res db' \<longleftrightarrow>
     (\<exists>c1 c2 c3 a inp. RedInput_Version inp = v \<and> PatchRedExecution svc c1 c2 c3 a e xid inp db = (res, db')) \<or>
     (\<exists>c1 c2 a inp. BlueInput_Version inp = v \<and> PatchBlueDetection svc c1 c2 a e xid inp db = (res, db'))"

text \<open>Either it is refused and no execution changes, or it wrote the version it named.\<close>

lemma patch_outcome:
  assumes "patch_execution what xid v sets clock [] db = (res, db')" "workbook_ok db"
    and "\<And>x. Execution_ID (sets x) = Execution_ID x"
  shows "(\<exists>err. res = Inl err) \<and> EDB_executions db' = EDB_executions db \<or>
    (\<exists>x\<in>set (EDB_executions db). Execution_ID x = xid \<and> Execution_Version x = v) \<and>
    (\<exists>p\<in>set (EDB_executions db'). res = Inr p \<and> Execution_ID p = xid \<and> Execution_Version p = v + 1)"
  using patch_effect [OF assms(2,3,1)]
proof (elim disjE exE conjE bexE)
  fix x
  let ?w = "\<lambda>x. (sets x)\<lparr>Execution_Version := v + 1, Execution_UpdatedAt := toStorage clock\<rparr>"
  assume x: "x \<in> set (EDB_executions db)" "Execution_ID x = xid" "Execution_Version x = v" and res: "res = Inr (?w x)"
    and db': "db' = db\<lparr>EDB_executions := update_where (\<lambda>x. Execution_ID x = xid) ?w (EDB_executions db)\<rparr>"
  have "?w x \<in> set (EDB_executions db')" unfolding db' using x(1,2) by (auto simp: set_update_where)
  then show ?thesis using x res assms(3) by (intro disjI2 conjI bexI [of _ x] bexI [of _ "?w x"]) simp_all
qed simp

lemma PatchBlueDetection_cases:
  assumes "execution_context e xid db = Inr (exec, step, scenario, eng)"
  shows "(\<exists>err. PatchBlueDetection svc c1 c2 a e xid inp db = (Inl err, db)) \<or>
    (\<exists>mods. PatchBlueDetection svc c1 c2 a e xid inp db =
       (case PatchBlue xid (BlueInput_Version inp) (blue_changes c1 a mods inp) c2 [] db of
          (Inl err, db') \<Rightarrow> (Inl err, db')
        | (Inr patched, db') \<Rightarrow> (Inr patched, recordAlone svc (workbook_entry a (Scenario_EngagementID scenario)
             VerbExecutionBlueUpdated ObjectExecution xid (Delta (blueDelta inp))) db')))"
proof (cases "case BlueInput_DetectionModifiers inp of
                   None \<Rightarrow> Inr None
                 | Some mods \<Rightarrow> (case ValidateModifiers mods of Inl err \<Rightarrow> Inl err | Inr deduped \<Rightarrow> Inr (Some deduped))")
  case (Inr mods)
  show ?thesis
  proof (cases "case (BlueInput_DetectedAt inp, Execution_StartedAt exec) of
                     (Some detected, Some started) \<Rightarrow> Before detected started | _ \<Rightarrow> False")
    case False
    show ?thesis
      by (rule disjI2, rule exI [of _ mods])
        (use False in \<open>simp only: PatchBlueDetection_def assms sum.case prod.case Inr if_False\<close>)
  qed (simp add: PatchBlueDetection_def assms Inr)
qed (simp add: PatchBlueDetection_def assms)

lemma patches_outcome:
  assumes "patches svc e xid v db res db'" "workbook_ok db"
  shows "(\<exists>err. res = Inl err) \<and> EDB_executions db' = EDB_executions db \<or>
    (\<exists>x\<in>set (EDB_executions db). Execution_ID x = xid \<and> Execution_Version x = v) \<and>
    (\<exists>p\<in>set (EDB_executions db'). res = Inr p \<and> Execution_ID p = xid \<and> Execution_Version p = v + 1)"
  using assms(1) unfolding patches_def
proof (elim disjE exE conjE)
  fix c1 c2 c3 a inp
  assume v: "RedInput_Version inp = v" and run: "PatchRedExecution svc c1 c2 c3 a e xid inp db = (res, db')"
  show ?thesis
  proof (cases "execution_context e xid db")
    case (Inr ctx)
    obtain exec step scenario eng where ctx: "ctx = (exec, step, scenario, eng)" by (cases ctx)
    note guards = execution_context_Inr [OF Inr [unfolded ctx] assms(2)]
    show ?thesis
    proof (cases "case RedInput_Status inp of None \<Rightarrow> None | Some new \<Rightarrow> execution_transition (Execution_Status exec) new")
      case None
      let ?d = "auto_reveal c1 eng step (Execution_Status exec) (RedInput_Status inp) db"
      have ok: "workbook_ok ?d" using guards by (intro book_ok [OF auto_reveal_book [of _ _ e] assms(2)] assms(2)) simp_all
      obtain r d2 where p: "PatchRed xid v (red_changes c2 a exec inp) c3 [] ?d = (r, d2)" by (meson surj_pair)
      have "res = r \<and> EDB_executions db' = EDB_executions d2"
        using run p unfolding PatchRedExecution_cases [OF Inr [unfolded ctx] assms(2) None] v
        by (auto split: sum.splits)
      then show ?thesis using patch_outcome [OF p [unfolded PatchRed_def] ok] by simp
    qed (use run in \<open>auto simp: PatchRedExecution_def Inr ctx\<close>)
  qed (use run in \<open>auto simp: PatchRedExecution_def\<close>)
next
  fix c1 c2 a inp
  assume v: "BlueInput_Version inp = v" and run: "PatchBlueDetection svc c1 c2 a e xid inp db = (res, db')"
  show ?thesis
  proof (cases "execution_context e xid db")
    case (Inr ctx)
    obtain exec step scenario eng where ctx: "ctx = (exec, step, scenario, eng)" by (cases ctx)
    from PatchBlueDetection_cases [OF Inr [unfolded ctx], of svc c1 c2 a inp] show ?thesis
    proof (elim disjE exE)
      fix mods
      obtain r d2 where p: "PatchBlue xid v (blue_changes c1 a mods inp) c2 [] db = (r, d2)" by (meson surj_pair)
      assume "PatchBlueDetection svc c1 c2 a e xid inp db =
        (case PatchBlue xid (BlueInput_Version inp) (blue_changes c1 a mods inp) c2 [] db of
           (Inl err, db') \<Rightarrow> (Inl err, db')
         | (Inr patched, db') \<Rightarrow> (Inr patched, recordAlone svc (workbook_entry a (Scenario_EngagementID scenario)
              VerbExecutionBlueUpdated ObjectExecution xid (Delta (blueDelta inp))) db'))"
      then have "res = r \<and> EDB_executions db' = EDB_executions d2"
        using run p unfolding v by (auto split: sum.splits)
      then show ?thesis using patch_outcome [OF p [unfolded PatchBlue_def] assms(2)] by simp
    qed (use run in simp)
  qed (use run in \<open>auto simp: PatchBlueDetection_def\<close>)
qed

lemma patches_run: "patches svc e xid v db res db' \<Longrightarrow> workbook_any svc db db'"
  unfolding patches_def workbook_any_def
  by (elim disjE exE conjE; metis workbook_step.patch_red workbook_step.patch_blue snd_conv)

text \<open>
  C20. No lost update: when a patch, red or blue, of an execution succeeds, then after any further
  run of requests a second patch that names the same version is refused and changes no execution.
\<close>

theorem no_lost_update:
  assumes "patches svc e xid v db (Inr p) db1" "workbook_ok db"
    and "(workbook_any svc)\<^sup>*\<^sup>* db1 db2" "patches svc e' xid v db2 res db3"
  shows "(\<exists>err. res = Inl err) \<and> EDB_executions db3 = EDB_executions db2"
proof -
  obtain x1 where x1: "x1 \<in> set (EDB_executions db1)" "Execution_ID x1 = xid" "Execution_Version x1 = v + 1"
    using patches_outcome [OF assms(1,2)] by auto
  have ok1: "workbook_ok db1" by (rule workbook_any_ok [OF patches_run [OF assms(1)] assms(2)])
  obtain x2 where x2: "x2 \<in> set (EDB_executions db2)" "Execution_ID x2 = xid" "v + 1 \<le> Execution_Version x2"
    using execution_version_history [OF assms(3) ok1 x1(1)] x1(2,3) by (auto simp: execution_grows_def)
  have ok: "workbook_ok db2" by (rule run_ok [OF assms(3) ok1])
  have "\<not> (\<exists>x\<in>set (EDB_executions db2). Execution_ID x = xid \<and> Execution_Version x = v)"
    using same_execution [OF ok _ x2(1)] x2(2,3) by fastforce
  then show ?thesis using patches_outcome [OF assms(4) ok] by blast
qed

theorem no_lost_update_witness:
  "(\<exists>err. fst (PatchRedExecution lab_service 6000 7000 8000 ''u2'' ''e1'' ''x1'' lab_red lab1) = Inl err) \<and>
   EDB_executions (snd (PatchRedExecution lab_service 6000 7000 8000 ''u2'' ''e1'' ''x1'' lab_red lab1)) = EDB_executions lab1"
proof (rule no_lost_update [OF _ lab_ok rtranclp.rtrancl_refl])
  show "patches lab_service ''e1'' ''x1'' 1 lab (Inr lab_patched) lab1"
    unfolding patches_def lab1_def lab_patch [symmetric]
    by (intro disjI1 exI [of _ "3000::int"] exI [of _ "4000::int"] exI [of _ "5000::int"] exI [of _ "''u1''"] exI [of _ lab_red])
      (simp add: lab_red_def)
  show "patches lab_service ''e1'' ''x1'' 1 lab1
     (fst (PatchRedExecution lab_service 6000 7000 8000 ''u2'' ''e1'' ''x1'' lab_red lab1))
     (snd (PatchRedExecution lab_service 6000 7000 8000 ''u2'' ''e1'' ''x1'' lab_red lab1))"
    unfolding patches_def
    by (intro disjI1 exI [of _ "6000::int"] exI [of _ "7000::int"] exI [of _ "8000::int"] exI [of _ "''u2''"] exI [of _ lab_red])
      (simp add: lab_red_def)
qed

text \<open>What a patch that names another version than the row's answers.\<close>

lemma patch_stale:
  assumes "workbook_ok db" "x \<in> set (EDB_executions db)" "Execution_Version x \<noteq> v"
  shows "\<exists>m. patch_execution what (Execution_ID x) v sets clock after db = (Inl (ErrorfW m versionConflictError), db)"
proof -
  have "\<forall>y\<in>set (EDB_executions db). \<not> (Execution_ID y = Execution_ID x \<and> Execution_Version y = v)"
    using same_execution [OF assms(1) _ assms(2)] assms(3) by blast
  then have none: "count_where (\<lambda>y. Execution_ID y = Execution_ID x \<and> Execution_Version y = v) (EDB_executions db) = 0"
    by (simp add: count_where_0)
  have "select1 (\<lambda>y. Execution_ID y = Execution_ID x) (EDB_executions db) = Some x"
    using select1_key [of Execution_ID "EDB_executions db" x] assms(1,2) by (simp add: workbook_ok_def)
  then show ?thesis by (simp add: patch_execution_def Let_def none)
qed

text \<open>
  A red patch that starts an execution of a blind engagement with automatic reveal, and that
  names a stale version, is refused but has already revealed the step: the executions and the
  activity log are untouched, yet every blue reader can now see the step.
\<close>

theorem stale_patch_reveals:
  assumes "workbook_ok db" "execution_context e xid db = Inr (exec, step, scenario, eng)"
    and "RedInput_Status inp = Some new" "execution_transition (Execution_Status exec) new = None"
    and "auto_reveals eng step (Execution_Status exec) (Some new)" "RedInput_Version inp \<noteq> Execution_Version exec"
  shows "\<exists>m db'. PatchRedExecution svc c1 c2 c3 a e xid inp db = (Inl (ErrorfW m versionConflictError), db') \<and>
    EDB_executions db' = EDB_executions db \<and> EDB_identity db' = EDB_identity db \<and>
    (\<exists>r\<in>set (EDB_steps db'). Step_ID r = Step_ID step \<and> Step_RevealedAt step = None \<and>
       Step_RevealedAt r = Some (toStorage c1))"
proof -
  note guards = execution_context_Inr [OF assms(2,1)]
  let ?d = "auto_reveal c1 eng step (Execution_Status exec) (RedInput_Status inp) db"
  let ?sel = "\<lambda>s. Step_ID s = Step_ID step \<and> Step_RevealedAt s = None"
  let ?f = "\<lambda>s. s\<lparr>Step_RevealedAt := Some (toStorage c1), Step_UpdatedAt := toStorage c1\<rparr>"
  have ok: "workbook_ok ?d" using guards by (intro book_ok [OF auto_reveal_book [of _ _ e] assms(1)] assms(1)) simp_all
  have hidden: "Step_RevealedAt step = None" using assms(5) by (simp add: auto_reveals_def)
  have d: "?d = db\<lparr>EDB_steps := update_where ?sel ?f (EDB_steps db)\<rparr>"
    using assms(3,5) by (simp add: auto_reveal_def Steps_Reveal_def Let_def)
  have "?f step \<in> set (EDB_steps ?d)"
    unfolding d using guards hidden by (auto simp: set_update_where)
  moreover obtain m where "PatchRed xid (RedInput_Version inp) (red_changes c2 a exec inp) c3 [] ?d =
      (Inl (ErrorfW m versionConflictError), ?d)"
    using patch_stale [OF ok, of exec "RedInput_Version inp" "''execution: patch red ''" "red_sets (red_changes c2 a exec inp)" c3 "[]"]
      guards assms(6) unfolding PatchRed_def by auto
  moreover have "EDB_identity ?d = EDB_identity db" unfolding d by simp
  moreover have "(case RedInput_Status inp of None \<Rightarrow> None | Some new \<Rightarrow> execution_transition (Execution_Status exec) new) = None"
    using assms(3,4) by simp
  ultimately show ?thesis
    using hidden unfolding PatchRedExecution_cases [OF assms(2,1) \<open>(case _ of None \<Rightarrow> _ | Some _ \<Rightarrow> _) = None\<close>]
    by (intro exI [of _ m] exI [of _ ?d] conjI bexI [of _ "?f step"]) simp_all
qed

theorem stale_patch_reveals_witness:
  "\<exists>m db'. PatchRedExecution lab_service 3000 4000 5000 ''u1'' ''e1'' ''x2'' (lab_red\<lparr>RedInput_Version := 0\<rparr>) lab =
       (Inl (ErrorfW m versionConflictError), db') \<and>
    EDB_executions db' = EDB_executions lab \<and> EDB_identity db' = EDB_identity lab \<and>
    (\<exists>r\<in>set (EDB_steps db'). Step_ID r = ''t2'' \<and> Step_RevealedAt r = Some (toStorage 3000))"
  using stale_patch_reveals [OF lab_ok lab_context2, of "lab_red\<lparr>RedInput_Version := 0\<rparr>" ExecutionStatusRunning
    lab_service 3000 4000 5000 "''u1''"] lab_transition
  by (simp add: lab_red_def lab_execution_def lab_step_def lab_engagement_def auto_reveals_def)

text \<open>
  The refusal of a stale patch carries no problem code, so the client is answered with an
  internal error, whatever the message.
\<close>

theorem version_conflict_is_internal:
  assumes "translateSpecError (ErrorfW m versionConflictError) = None"
  shows "Problem_Status (Translate translateSpecError (ErrorfW m versionConflictError) inst) = 500 \<and>
    Problem_Code (Translate translateSpecError (ErrorfW m versionConflictError) inst) = ProblemCodeInternal"
  using assms
  by (simp add: Translate_def Let_def classify_def versionConflictError_def Internal_def Status_def codes_def)

theorem version_conflict_is_internal_witness:
  "Problem_Status (Translate (\<lambda>_. None) (ErrorfW ''execution x1: version conflict'' versionConflictError) ''/'') = 500"
  using version_conflict_is_internal [of "\<lambda>_. None" "''execution x1: version conflict''" "''/''"] by simp

text \<open>
  A red patch may set a start after the detection blue recorded: whenever it succeeds with such
  a start, the execution's time to detection is an error from then on.
\<close>

theorem start_after_detection:
  assumes "workbook_ok db" "PatchRedExecution svc c1 c2 c3 a e xid inp db = (Inr p, db')"
    and "x \<in> set (EDB_executions db)" "Execution_ID x = xid" "Execution_DetectedAt x = Some d"
    and "RedInput_StartedAt inp = Some t" "d < toStorage t"
  shows "p \<in> set (EDB_executions db') \<and> MTTD (Execution_StartedAt p) (Execution_DetectedAt p) = Inl DetectedPrecedesStarted"
proof -
  obtain exec step scenario eng where ctx: "execution_context e xid db = Inr (exec, step, scenario, eng)"
    using assms(2) by (cases "execution_context e xid db") (auto simp: PatchRedExecution_def)
  note guards = execution_context_Inr [OF ctx assms(1)]
  have x: "exec = x" using same_execution [OF assms(1) _ assms(3)] guards assms(4) by simp
  have move: "(case RedInput_Status inp of None \<Rightarrow> None | Some new \<Rightarrow> execution_transition (Execution_Status exec) new) = None"
  proof (rule ccontr)
    assume "\<not> ?thesis"
    then show False using assms(2) ctx by (auto simp: PatchRedExecution_def)
  qed
  let ?d = "auto_reveal c1 eng step (Execution_Status exec) (RedInput_Status inp) db"
  let ?w = "\<lambda>y. (red_sets (red_changes c2 a exec inp) y)\<lparr>Execution_Version := RedInput_Version inp + 1, Execution_UpdatedAt := toStorage c3\<rparr>"
  have ok: "workbook_ok ?d" using guards by (intro book_ok [OF auto_reveal_book [of _ _ e] assms(1)] assms(1)) simp_all
  obtain r d2 where run: "PatchRed xid (RedInput_Version inp) (red_changes c2 a exec inp) c3 [] ?d = (r, d2)" by (meson surj_pair)
  then have r: "r = Inr p" "EDB_executions db' = EDB_executions d2"
    using assms(2) unfolding PatchRedExecution_cases [OF ctx assms(1) move] by (auto split: sum.splits)
  obtain y where y: "y \<in> set (EDB_executions db)" "Execution_ID y = xid" "p = ?w y"
    "EDB_executions db' = update_where (\<lambda>x. Execution_ID x = xid) ?w (EDB_executions db)"
    using patch_effect [OF ok _ run [unfolded PatchRed_def]] r by auto
  have "y = x" using same_execution [OF assms(1) y(1) assms(3)] y(2) assms(4) by simp
  then have "p = ?w x" using y(3) by simp
  moreover have "p \<in> set (EDB_executions db')" unfolding y(4) set_update_where using y(1-3) by (intro image_eqI [of _ _ y]) simp_all
  moreover have "Execution_StartedAt (?w x) = Some (toStorage t)" "Execution_DetectedAt (?w x) = Some d"
    using assms(5,6) by (simp_all add: red_sets_def Let_def set_field_def red_changes_def split: option.splits)
  ultimately show ?thesis using assms(7) by (simp add: MTTD_def Let_def Sub_def minDuration_def)
qed

theorem start_after_detection_witness:
  "lab_patched \<in> set (EDB_executions lab1) \<and>
   MTTD (Execution_StartedAt lab_patched) (Execution_DetectedAt lab_patched) = Inl DetectedPrecedesStarted"
proof (rule start_after_detection [where d = 7000000 and t = 9000000, OF lab_ok])
  show "PatchRedExecution lab_service 3000 4000 5000 ''u1'' ''e1'' ''x1'' lab_red lab = (Inr lab_patched, lab1)"
    using lab_patch by (simp add: lab1_def prod_eq_iff)
  show "lab_execution ''x1'' ''t1'' (Some 7000000) \<in> set (EDB_executions lab)" by (simp add: lab_def)
qed (simp_all add: lab_execution_def lab_red_def toStorage_def Truncate_def Microsecond_def)

end
