(* ===== verification/Workbook_Lists.thy ===== *)
theory Workbook_Lists
  imports Workbook_Props
begin

text \<open>
  What readers of a workbook see: the steps of a scenario in order, for a reader of any scope; what
  creating a step, reordering the steps, and creating an engagement answer.
\<close>

section \<open>Listings in order\<close>

abbreviation unblinded :: blind_Scope where
  "unblinded \<equiv> \<lparr>Scope_Blind = False, Scope_Seat = []\<rparr>"

lemma insort_key_snoc: "f y \<le> f x \<Longrightarrow> insort_key f y (ys @ [x]) = insort_key f y ys @ [x]"
  by (induction ys) auto

lemma sort_key_snoc:
  assumes "\<And>y. y \<in> set ys \<Longrightarrow> f y \<le> f x"
  shows "sort_key f (ys @ [x]) = sort_key f ys @ [x]"
  using assms by (induction ys) (auto simp: insort_key_snoc)

lemma filter_insort_key:
  "sorted (map f xs) \<Longrightarrow> filter P (insort_key f x xs) = (if P x then insort_key f x (filter P xs) else filter P xs)"
  by (simp add: filter_insort filter_insort_triv)

lemma filter_sort_key: "filter P (sort_key f xs) = sort_key f (filter P xs)"
  by (induction xs) (simp_all add: filter_insort_key)

text \<open>A dense group listed in order has the ordinals 1, 2, ..., n.\<close>

lemma listing_ordinals:
  assumes "dense parent ord p rows" "ordinals_unique parent ord rows"
  shows "map ord (sort_key ord (group_of parent p rows)) = map (\<lambda>k. int k + 1) [0..<length (group_of parent p rows)]"
proof -
  let ?g = "group_of parent p rows"
  have "distinct (map ord ?g)"
  proof -
    have "distinct (map (\<lambda>r. (parent r, ord r)) ?g)"
      using assms(2) by (simp add: ordinals_unique_def group_of_def distinct_map_filter)
    then show ?thesis by (auto simp: distinct_map inj_on_def group_of_def)
  qed
  then have "distinct (map ord (sort_key ord ?g))" by (simp add: distinct_map)
  moreover have "sorted (map ord (sort_key ord ?g))" by simp
  moreover have "set (map ord (sort_key ord ?g)) = set (map (\<lambda>k. int k + 1) [0..<length ?g])"
  proof -
    have "{1..int n} = (\<lambda>k. int k + 1) ` {0..<n}" for n
    proof (intro set_eqI iffI)
      fix i assume "i \<in> {1..int n}"
      then have "i = int (nat (i - 1)) + 1" "nat (i - 1) \<in> {0..<n}" by auto
      then show "i \<in> (\<lambda>k. int k + 1) ` {0..<n}" by blast
    qed auto
    then show ?thesis using assms(1) by (simp add: dense_def)
  qed
  moreover have "sorted (map (\<lambda>k. int k + 1) [0..<n]) \<and> distinct (map (\<lambda>k. int k + 1) [0..<n])" for n
    by (auto simp: sorted_map distinct_map inj_on_def intro: sorted_wrt_mono_rel [of _ "(\<le>)"])
  ultimately show ?thesis by (intro sorted_distinct_set_unique) blast+
qed

lemma sql_permits: "sql_holds (Where scope revealed_column) revealed_column b = Permits scope b"
  by (simp add: Where_def sql_holds_def Permits_def)

lemma unblinded_permits [simp]: "Permits unblinded b"
  by (simp add: Permits_def Withholds_def)

lemma steps_listing:
  "Steps_ListByScenario sid scope db =
     filter (\<lambda>s. Permits scope (Step_RevealedAt s \<noteq> None)) (Steps_ListByScenario sid unblinded db)"
  by (simp add: Steps_ListByScenario_def sql_permits filter_sort_key conj_commute)

lemma unblinded_listing: "Steps_ListByScenario sid unblinded db = sort_key Step_Ordinal (group_of Step_ScenarioID sid (EDB_steps db))"
  by (simp add: Steps_ListByScenario_def group_of_def sql_permits)

text \<open>
  Listing a scenario's steps answers, to any scope, the rows of the full list that the scope
  permits, in the same order, and the full list's ordinals are 1, 2, ..., n; a scenario of another
  engagement is answered not found.
\<close>

theorem ListSteps_spec:
  assumes "workbook_ok db"
  shows "ListSteps e sid scope db =
      (case Scenarios_ByID sid db of
         Inl err \<Rightarrow> Inl err
       | Inr sc \<Rightarrow> if Scenario_EngagementID sc \<noteq> e then Inl (NotFound ''scenario'' sid)
           else Inr (filter (\<lambda>s. Permits scope (Step_RevealedAt s \<noteq> None)) (Steps_ListByScenario sid unblinded db))) \<and>
    map Step_Ordinal (Steps_ListByScenario sid unblinded db) =
      map (\<lambda>k. int k + 1) [0..<length (Steps_ListByScenario sid unblinded db)]"
proof -
  have "dense Step_ScenarioID Step_Ordinal sid (EDB_steps db)" "ordinals_unique Step_ScenarioID Step_Ordinal (EDB_steps db)"
    using assms by (auto simp: workbook_ok_def intro: all_dense)
  then have "map Step_Ordinal (Steps_ListByScenario sid unblinded db) =
      map (\<lambda>k. int k + 1) [0..<length (Steps_ListByScenario sid unblinded db)]"
    unfolding unblinded_listing by (simp add: listing_ordinals)
  then show ?thesis
    using steps_listing [of sid scope db]
    by (auto simp: ListSteps_def ScenarioEngagementID_def requireSameEngagement_def split: sum.split)
qed

theorem ListSteps_spec_witness:
  "ListSteps ''e1'' ''s1'' \<lparr>Scope_Blind = True, Scope_Seat = EngagementRoleBlue\<rparr> lab = Inr [lab_step ''t1'' ''s1'' 1 (Some 5000)]"
  using ListSteps_spec [OF lab_ok, of "''e1''" "''s1''" "\<lparr>Scope_Blind = True, Scope_Seat = EngagementRoleBlue\<rparr>", THEN conjunct1]
  by (simp add: lab_defs Scenarios_ByID_def select1_def unblinded_listing group_of_def Permits_def Withholds_def)

section \<open>Creating a step\<close>

text \<open>
  A step that is created stands at the end of its scenario: the full list grows by exactly that
  row, unrevealed and with ordinal n + 1, and a blue reader of a blind engagement sees no change; a
  refused creation changes no list.
\<close>

theorem CreateStep_appends:
  assumes "workbook_ok db" "CreateStep svc stepID execID clock a inp db = (res, db')"
    and "sid = CreateStepInput_ScenarioID inp"
  shows "case res of
      Inl err \<Rightarrow> Steps_ListByScenario sid scope db' = Steps_ListByScenario sid scope db
    | Inr st \<Rightarrow> (\<exists>row. Step_ID row = Step_ID st \<and> Step_ID st = stepID \<and> Step_RevealedAt row = None \<and>
        Step_Ordinal row = int (length (Steps_ListByScenario sid unblinded db)) + 1 \<and>
        Steps_ListByScenario sid unblinded db' = Steps_ListByScenario sid unblinded db @ [row]) \<and>
        (Withholds scope \<longrightarrow> Steps_ListByScenario sid scope db' = Steps_ListByScenario sid scope db)"
proof (cases "create_step_context svc inp db")
  case (Inl err)
  then show ?thesis using assms(2) by (auto simp: CreateStep_context)
next
  case (Inr ctx)
  obtain inp' scenario eng where ctx: "ctx = (inp', scenario, eng)" by (cases ctx)
  note guards = create_step_context_Inr [OF Inr [unfolded ctx] assms(1)]
  obtain r d2 where run: "Steps_CreateWithExecution stepID execID clock (new_step inp' eng db) [] db = (r, d2)"
    by (meson surj_pair)
  have dense: "dense Step_ScenarioID Step_Ordinal sid (EDB_steps db)"
    using assms(1) by (auto simp: workbook_ok_def intro: all_dense)
  have steps: "EDB_steps db' = EDB_steps d2" "res = (case r of Inl err \<Rightarrow> Inl (ErrorfW ''step: create'' err) | Inr (st, x) \<Rightarrow> Inr st)"
    using assms(2) unfolding CreateStep_context Inr ctx by (auto simp: run split: sum.splits)
  have same: "Steps_ListByScenario sid sc db' = Steps_ListByScenario sid sc d2" for sc
    by (simp add: Steps_ListByScenario_def steps(1))
  from Steps_Create_effect [OF run assms(1)] show ?thesis
  proof (elim disjE exE conjE)
    fix err assume "r = Inl err" "d2 = db"
    then show ?thesis using same [of scope] steps(2) by simp
  next
    fix s row x
    assume r: "r = Inr (s, x)" "row = s\<lparr>Step_Procedure := bindJSONObject (Step_Procedure s),
            Step_Tools := bindJSON (Step_Tools s), Step_ControlsInScope := bindJSON (Step_ControlsInScope s)\<rparr>"
      and d2: "d2 = db\<lparr>EDB_steps := EDB_steps db @ [row], EDB_executions := EDB_executions db @ [x]\<rparr>"
      and row: "Step_ID row = stepID" "Step_ScenarioID row = NewStep_ScenarioID (new_step inp' eng db)"
        "Step_Ordinal row = NewStep_Ordinal (new_step inp' eng db)" "Step_RevealedAt row = None"
    let ?g = "group_of Step_ScenarioID sid (EDB_steps db)"
    have parent: "Step_ScenarioID row = sid" using row(2) guards assms(3) by (simp add: new_step_def)
    have ord: "Step_Ordinal row = int (length ?g) + 1"
      using row(3) guards assms(3) next_ordinal_dense [OF dense] by (simp add: new_step_def step_next)
    have "Step_Ordinal y \<le> Step_Ordinal row" if "y \<in> set ?g" for y
    proof -
      have "Step_Ordinal y \<in> {1..int (length ?g)}" using dense that by (auto simp: dense_def)
      then show ?thesis using ord by simp
    qed
    moreover have "group_of Step_ScenarioID sid (EDB_steps d2) = ?g @ [row]"
      unfolding d2 using parent by (simp add: group_of_def)
    ultimately have full: "Steps_ListByScenario sid unblinded d2 = Steps_ListByScenario sid unblinded db @ [row]"
      unfolding unblinded_listing by (simp add: sort_key_snoc)
    have "Steps_ListByScenario sid scope d2 = Steps_ListByScenario sid scope db" if "Withholds scope"
      using that row(4) by (simp add: steps_listing [of sid scope] full Permits_def)
    moreover have "int (length (Steps_ListByScenario sid unblinded db)) + 1 = Step_Ordinal row"
      unfolding unblinded_listing ord by simp
    ultimately show ?thesis
      using full same steps(2) r row by simp
  qed
qed

definition lab_new_step :: CreateStepInput where
  "lab_new_step = \<lparr>CreateStepInput_EngagementID = ''e1'', CreateStepInput_ScenarioID = ''s1'', CreateStepInput_Name = ''scan'',
     CreateStepInput_Objective = [], CreateStepInput_TechniqueID = ''T1046'', CreateStepInput_SubtechniqueID = [],
     CreateStepInput_TacticID = [], CreateStepInput_TechniqueExternalID = [], CreateStepInput_Procedure = [],
     CreateStepInput_TemplateID = [], CreateStepInput_TargetAsset = [], CreateStepInput_Tools = [],
     CreateStepInput_ControlsInScope = []\<rparr>"

lemma lab_created: "\<exists>st. fst (CreateStep lab_service ''t9'' ''x9'' 6000 ''u1'' lab_new_step lab) = Inr st"
  by (simp add: CreateStep_context create_step_context_def CreateStepInput_defaults_def lab_new_step_def lab_reads
      resolve_technique_def Steps_CreateWithExecution_def new_step_def Let_def insert_row_def ordinals_unique_def
      Steps_NextOrdinal_def next_ordinal_def)

theorem CreateStep_appends_witness:
  "case fst (CreateStep lab_service ''t9'' ''x9'' 6000 ''u1'' lab_new_step lab) of
      Inl err \<Rightarrow> False
    | Inr st \<Rightarrow> \<exists>row. Step_Ordinal row = 3 \<and>
        Steps_ListByScenario ''s1'' unblinded (snd (CreateStep lab_service ''t9'' ''x9'' 6000 ''u1'' lab_new_step lab)) =
        Steps_ListByScenario ''s1'' unblinded lab @ [row]"
proof -
  have "CreateStepInput_ScenarioID lab_new_step = ''s1''" by (simp add: lab_new_step_def)
  moreover have "length (Steps_ListByScenario ''s1'' unblinded lab) = 2"
    by (simp add: unblinded_listing group_of_def lab_defs)
  moreover have "\<exists>st. fst (CreateStep lab_service ''t9'' ''x9'' 6000 ''u1'' lab_new_step lab) = Inr st"
    by (rule lab_created)
  ultimately show ?thesis
    using CreateStep_appends [where scope = unblinded and sid = "''s1''" and inp = lab_new_step and svc = lab_service and stepID = "''t9''"
      and execID = "''x9''" and clock = 6000 and a = "''u1''", OF lab_ok prod.collapse [symmetric]]
    by auto
qed

section \<open>Reordering steps\<close>

text \<open>Two lists of the same rows, each in its place, are the same list.\<close>

lemma listing_names:
  fixes rows :: "Step_row list"
  assumes "dense Step_ScenarioID Step_Ordinal sid rows" "ordinals_unique Step_ScenarioID Step_Ordinal rows"
    and "length ids = length (group_of Step_ScenarioID sid rows)"
    and there: "\<forall>k<length ids. \<exists>r\<in>set rows. Step_ID r = ids ! k \<and> Step_ScenarioID r = sid \<and> Step_Ordinal r = int (k + 1)"
  shows "map Step_ID (sort_key Step_Ordinal (group_of Step_ScenarioID sid rows)) = ids"
proof (rule nth_equalityI)
  let ?l = "sort_key Step_Ordinal (group_of Step_ScenarioID sid rows)"
  show "length (map Step_ID ?l) = length ids" using assms(3) by simp
  fix k assume "k < length (map Step_ID ?l)"
  then have k: "k < length ?l" "k < length ids" using assms(3) by simp_all
  obtain r where r: "r \<in> set rows" "Step_ID r = ids ! k" "Step_ScenarioID r = sid" "Step_Ordinal r = int (k + 1)"
    using there k(2) by blast
  have "?l ! k \<in> set (group_of Step_ScenarioID sid rows)" using k(1) by (metis nth_mem set_sort)
  then have "?l ! k \<in> set rows" "Step_ScenarioID (?l ! k) = sid" by (auto simp: group_of_def)
  moreover have "Step_Ordinal (?l ! k) = int (k + 1)"
    using arg_cong [OF listing_ordinals [OF assms(1,2)], of "\<lambda>xs. xs ! k"] k by simp
  ultimately have "?l ! k = r" using step_order.unique_shape [OF assms(2)] r by simp
  then show "map Step_ID ?l ! k = ids ! k" using r(2) k(1) by simp
qed

text \<open>
  The steps of a scenario cannot be put in another order: a reorder request that succeeds named
  the steps in the order they already had, and leaves every identifier at its ordinal. The unique
  constraint on scenario and ordinal refuses the first statement that would move a step onto an
  ordinal still taken.
\<close>

theorem ReorderSteps_moves_nothing:
  assumes "workbook_ok db" "ReorderSteps svc clock a e sid ids db = (Inr rows, db')"
  shows "ids = map Step_ID (Steps_ListByScenario sid unblinded db) \<and>
    map (\<lambda>r. (Step_ID r, Step_ScenarioID r, Step_Ordinal r)) (EDB_steps db') =
    map (\<lambda>r. (Step_ID r, Step_ScenarioID r, Step_Ordinal r)) (EDB_steps db)"
proof -
  let ?check = "reorder_check ''step'' ''must include every step in the scenario'' ('' does not belong to scenario '' @ sid)
      (map Step_ID (Steps_ListByScenario sid unblinded db)) ids"
  obtain scenario eng where found: "Scenarios_ByID sid db = Inr scenario" "Scenario_EngagementID scenario = e"
    "Engagements_ByID e db = Inr eng" "refuse_closed eng = None"
    using assms(2) unfolding ReorderSteps_def requireSameEngagement_def
    by (cases "Scenarios_ByID sid db"; cases "Engagements_ByID e db") (auto split: if_splits option.splits)
  have check: "?check = None"
    using assms(2) found unfolding ReorderSteps_def by (cases ?check) (simp_all add: requireSameEngagement_def)
  obtain rows' where run: "Reorder_loop ''step'' Step_ID Step_ScenarioID Step_Ordinal (place_step (toStorage clock)) 0 ids
        (EDB_steps db) = Inr rows'" and steps: "EDB_steps db' = rows'"
    using assms(2) found check unfolding ReorderSteps_def Steps_Reorder_def Let_def
    by (auto simp: requireSameEngagement_def split: sum.splits)
  let ?group = "group_of Step_ScenarioID sid (EDB_steps db)"
  have ids: "length ids = length ?group" "set ids \<subseteq> Step_ID ` set ?group"
    using reorder_check_None [OF check] by (simp_all add: unblinded_listing)
  have keys: "distinct (map Step_ID (EDB_steps db))" and dense: "dense Step_ScenarioID Step_Ordinal sid (EDB_steps db)"
    and unique: "ordinals_unique Step_ScenarioID Step_Ordinal (EDB_steps db)"
    using assms(1) by (auto simp: workbook_ok_def intro: all_dense)
  note moved = step_order.reorder_moves_nothing [OF run keys dense ids]
  have "map Step_ID (Steps_ListByScenario sid unblinded db) = ids"
    unfolding unblinded_listing by (rule listing_names [OF dense unique ids(1) moved [THEN conjunct2]])
  then show ?thesis using moved unfolding steps by simp
qed

lemma lab_reordered:
  "ReorderSteps lab_service 6000 ''u1'' ''e1'' ''s1'' [''t1'', ''t2''] lab =
     (Inr (Steps_ListByScenario ''s1'' unblinded (snd (ReorderSteps lab_service 6000 ''u1'' ''e1'' ''s1'' [''t1'', ''t2''] lab))),
      snd (ReorderSteps lab_service 6000 ''u1'' ''e1'' ''s1'' [''t1'', ''t2''] lab))"
  by (simp add: ReorderSteps_def lab_reads reorder_check_def unblinded_listing group_of_def Steps_Reorder_def
      update_where_def ordinals_unique_def place_step_def Let_def)

theorem ReorderSteps_moves_nothing_witness:
  "[''t1'', ''t2''] = map Step_ID (Steps_ListByScenario ''s1'' unblinded lab)"
  using ReorderSteps_moves_nothing [OF lab_ok lab_reordered] by blast

section \<open>Creating an engagement\<close>

text \<open>
  An engagement that is created is a draft, its creator is its only member and leads it, and no
  other engagement and no other seat changes; a refused creation changes nothing at all.
\<close>

theorem Create_seats_the_lead:
  assumes "Create svc newID clock seatClock a inp db = (res, db')"
    and "\<forall>m\<in>set (IDB_members (EDB_identity db)). Membership_EngagementID m \<noteq> newID"
  shows "case res of
      Inl err \<Rightarrow> db' = db
    | Inr eng \<Rightarrow> Engagement_ID eng = newID \<and> Engagement_Status eng = EngagementStatusDraft \<and>
        newID \<notin> Engagement_ID ` set (EDB_engagements db) \<and>
        (\<exists>row. EDB_engagements db' = EDB_engagements db @ [row] \<and> Engagement_ID row = newID \<and>
           Engagement_Status row = EngagementStatusDraft \<and> EngagementMode_Valid (Engagement_Mode row)) \<and>
        map (\<lambda>m. (Membership_UserID m, Membership_Role m))
          (filter (\<lambda>m. Membership_EngagementID m = newID) (IDB_members (EDB_identity db'))) = [(a, EngagementRoleLead)] \<and>
        filter (\<lambda>m. Membership_EngagementID m \<noteq> newID) (IDB_members (EDB_identity db')) = IDB_members (EDB_identity db)"
proof (cases "CreateInput_validate inp")
  case (Inr inp')
  show ?thesis
  proof (cases "assert_pinned svc (CreateInput_AttackVersion inp')")
    case None
    have old: "filter (\<lambda>m. Membership_EngagementID m = newID) (IDB_members (EDB_identity db)) = []"
      "filter (\<lambda>m. Membership_EngagementID m \<noteq> newID) (IDB_members (EDB_identity db)) = IDB_members (EDB_identity db)"
      "\<not> (\<exists>m\<in>set (IDB_members (EDB_identity db)). seat_of newID a m)"
      using assms(2) by (auto simp: filter_empty_conv intro: filter_True)
    have members: "IDB_members (EDB_identity (recordAlone svc x d)) = IDB_members (EDB_identity d)" for x d
      by (simp add: recordAlone_def EDB_record_def Log_Record_def)
    show ?thesis
    proof (cases "EngagementMode_Valid (CreateInput_Mode inp') \<and> newID \<notin> Engagement_ID ` set (EDB_engagements db)")
      case True
      then show ?thesis
        using assms(1) Inr None old(3)
        by (auto simp: Create_def Engagements_Create_def Let_def insert_row_def leadAfter_def members old)
    next
      case False
      then show ?thesis
        using assms(1) Inr None
        by (auto simp: Create_def Engagements_Create_def Let_def insert_row_def split: if_splits)
    qed
  qed (use assms(1) Inr in \<open>auto simp: Create_def\<close>)
qed (use assms(1) in \<open>auto simp: Create_def\<close>)

definition lab_new_engagement :: CreateInput where
  "lab_new_engagement = \<lparr>CreateInput_Name = ''exercise'', CreateInput_Client = [], CreateInput_Description = [],
     CreateInput_StartsOn = 0, CreateInput_EndsOn = 0, CreateInput_AttackVersion = ''18.1'', CreateInput_Mode = [],
     CreateInput_AutoRevealOnStart = False\<rparr>"

theorem Create_seats_the_lead_witness:
  "case fst (Create lab_service ''e9'' 1000 1000 ''u1'' lab_new_engagement lab) of
     Inl err \<Rightarrow> False
   | Inr eng \<Rightarrow> Engagement_Status eng = EngagementStatusDraft \<and>
       map (\<lambda>m. (Membership_UserID m, Membership_Role m)) (filter (\<lambda>m. Membership_EngagementID m = ''e9'')
         (IDB_members (EDB_identity (snd (Create lab_service ''e9'' 1000 1000 ''u1'' lab_new_engagement lab))))) =
       [(''u1'', EngagementRoleLead)]"
proof -
  have "\<exists>eng. fst (Create lab_service ''e9'' 1000 1000 ''u1'' lab_new_engagement lab) = Inr eng"
    by (simp add: lab_new_engagement_def Create_def CreateInput_validate_def EngagementMode_Valid_def assert_pinned_def
        Engagements_Create_def Let_def insert_row_def leadAfter_def lab_defs)
  then show ?thesis
    using Create_seats_the_lead [OF prod.collapse [symmetric], of lab "''e9''" lab_service 1000 1000 "''u1''" lab_new_engagement]
    by (auto simp: lab_def)
qed

end
