(* ===== verification/Discussion_Store.thy ===== *)
theory Discussion_Store
  imports Workbook
begin

text \<open>
  Comments, findings and evidence as tables (internal/store/engagement: comments.go, findings.go,
  evidence.go, blobs.go, and their rows in engagement.go). \<open>DDB\<close> adds the tables to the workbook's
  database. The conventions are those of \<open>Workbook_Store\<close>: a write is one serialized transaction,
  a statement fails where 0016_app_domain.sql or 0017_finding_status_history.sql make it fail, and
  constraints are checked as each statement ends. Rows with the same value of an ORDER BY column
  come in table order; SQL leaves their order open, and no theorem uses it.
\<close>

section \<open>Rows (engagement.go)\<close>

type_synonym FindingStatus = string

abbreviation FindingStatusOpen :: FindingStatus where "FindingStatusOpen \<equiv> ''open''"
abbreviation FindingStatusInProgress :: FindingStatus where "FindingStatusInProgress \<equiv> ''in_progress''"
abbreviation FindingStatusResolved :: FindingStatus where "FindingStatusResolved \<equiv> ''resolved''"
abbreviation FindingStatusAcceptedRisk :: FindingStatus where "FindingStatusAcceptedRisk \<equiv> ''accepted_risk''"

definition FindingStatus_Valid :: "FindingStatus \<Rightarrow> bool" where
  "FindingStatus_Valid s \<longleftrightarrow>
     s \<in> {FindingStatusOpen, FindingStatusInProgress, FindingStatusResolved, FindingStatusAcceptedRisk}"

type_synonym EvidenceSide = string

abbreviation EvidenceSideRed :: EvidenceSide where "EvidenceSideRed \<equiv> ''red''"
abbreviation EvidenceSideBlue :: EvidenceSide where "EvidenceSideBlue \<equiv> ''blue''"

definition EvidenceSide_Valid :: "EvidenceSide \<Rightarrow> bool" where
  "EvidenceSide_Valid s \<longleftrightarrow> s = EvidenceSideRed \<or> s = EvidenceSideBlue"

record Finding =
  Finding_ID :: string
  Finding_EngagementID :: string
  Finding_Title :: string
  Finding_Description :: string
  Finding_Severity :: string
  Finding_Recommendation :: string
  Finding_Owner :: string
  Finding_Status :: FindingStatus
  Finding_CreatedFromExecution :: string
  Finding_CreatedAt :: gotime
  Finding_UpdatedAt :: gotime

record NewFinding =
  NewFinding_EngagementID :: string
  NewFinding_Title :: string
  NewFinding_Description :: string
  NewFinding_Severity :: string
  NewFinding_Recommendation :: string
  NewFinding_Owner :: string
  NewFinding_CreatedFromExecution :: string
  NewFinding_CreatedBy :: string

record PatchFinding_row =
  PatchFinding_Title :: string
  PatchFinding_Description :: string
  PatchFinding_Severity :: string
  PatchFinding_Recommendation :: string
  PatchFinding_Owner :: string
  PatchFinding_Status :: string
  PatchFinding_ChangedBy :: string

record FindingStatusHistory =
  FSH_ID :: string
  FSH_FindingID :: string
  FSH_EngagementID :: string
  FSH_FromStatus :: "FindingStatus option"
  FSH_ToStatus :: FindingStatus
  FSH_ChangedBy :: string
  FSH_ChangedAt :: gotime

record EvidenceBlob =
  Blob_SHA256 :: string
  Blob_Size :: int
  Blob_MIME :: string
  Blob_StoragePath :: string
  Blob_RefCount :: int
  Blob_CreatedAt :: gotime

record Evidence_row =
  Evidence_ID :: string
  Evidence_BlobSHA256 :: string
  Evidence_Filename :: string
  Evidence_Caption :: string
  Evidence_Side :: EvidenceSide
  Evidence_ExecutionID :: string
  Evidence_CommentID :: string
  Evidence_UploadedBy :: string
  Evidence_UploadedAt :: gotime
  Evidence_Size :: int
  Evidence_MIME :: string

record NewEvidence =
  NewEvidence_BlobSHA256 :: string
  NewEvidence_Filename :: string
  NewEvidence_Caption :: string
  NewEvidence_Side :: EvidenceSide
  NewEvidence_ExecutionID :: string
  NewEvidence_CommentID :: string
  NewEvidence_UploadedBy :: string
  NewEvidence_Size :: int
  NewEvidence_MIME :: string

record Comment =
  Comment_ID :: string
  Comment_ExecutionID :: string
  Comment_AuthorID :: string
  Comment_Body :: string
  Comment_CreatedAt :: gotime
  Comment_EditedAt :: "gotime option"

record NewComment =
  NewComment_ExecutionID :: string
  NewComment_AuthorID :: string
  NewComment_Body :: string

record CommentRevision =
  Revision_ID :: string
  Revision_CommentID :: string
  Revision_Body :: string
  Revision_EditedBy :: string
  Revision_EditedAt :: gotime

record DDB =
  DDB_workbook :: EDB
  DDB_comments :: "Comment list"
  DDB_revisions :: "CommentRevision list"
  DDB_findings :: "Finding list"
  DDB_history :: "FindingStatusHistory list"
  DDB_finding_steps :: "(string \<times> string) list"
  DDB_blobs :: "EvidenceBlob list"
  DDB_evidence :: "Evidence_row list"

section \<open>Comments (comments.go)\<close>

definition Comments_ByID :: "string \<Rightarrow> DDB \<Rightarrow> error + Comment" where
  "Comments_ByID cid db =
     (case select1 (\<lambda>c. Comment_ID c = cid) (DDB_comments db) of
        None \<Rightarrow> Inl (ErrorfW (''comment: read '' @ Quote cid) SqlNoRows)
      | Some c \<Rightarrow> Inr c)"

definition Comments_Create :: "string \<Rightarrow> gotime \<Rightarrow> NewComment \<Rightarrow> DDB after list \<Rightarrow> DDB \<Rightarrow>
    (error + Comment) \<times> DDB" where
  "Comments_Create newID clock inp after db =
     (let result = \<lparr>Comment_ID = newID, Comment_ExecutionID = NewComment_ExecutionID inp,
            Comment_AuthorID = NewComment_AuthorID inp, Comment_Body = NewComment_Body inp,
            Comment_CreatedAt = toStorage clock, Comment_EditedAt = None\<rparr>
      in write_tx
           (case insert_row Comment_ID result (DDB_comments db) of
              Inl err \<Rightarrow> Inl (ErrorfW ''comment: insert'' err)
            | Inr rows \<Rightarrow>
                if NewComment_ExecutionID inp \<notin> set (map Execution_ID (EDB_executions (DDB_workbook db)))
                then Inl (ErrorfW ''comment: insert'' (constraintError ''app.comment''))
                else case runAfter newID after (db\<lparr>DDB_comments := rows\<rparr>) of
                       Inl err \<Rightarrow> Inl err | Inr db' \<Rightarrow> Inr (result, db')) db)"

definition Comments_ListByExecution :: "string \<Rightarrow> DDB \<Rightarrow> Comment list" where
  "Comments_ListByExecution xid db =
     sort_key Comment_CreatedAt (filter (\<lambda>c. Comment_ExecutionID c = xid) (DDB_comments db))"

definition Comments_Edit :: "string \<Rightarrow> gotime \<Rightarrow> string \<Rightarrow> string \<Rightarrow> string \<Rightarrow> DDB \<Rightarrow>
    (error + (Comment \<times> CommentRevision)) \<times> DDB" where
  "Comments_Edit revID clock commentID editedBy newBody db =
     write_tx
       (case select1 (\<lambda>c. Comment_ID c = commentID) (DDB_comments db) of
          None \<Rightarrow> Inl SqlNoRows
        | Some current \<Rightarrow>
            (let ts = toStorage clock;
                 rows = update_where (\<lambda>c. Comment_ID c = commentID)
                   (\<lambda>c. c\<lparr>Comment_Body := newBody, Comment_EditedAt := Some ts\<rparr>) (DDB_comments db);
                 revision = \<lparr>Revision_ID = revID, Revision_CommentID = commentID, Revision_Body = Comment_Body current,
                        Revision_EditedBy = editedBy, Revision_EditedAt = ts\<rparr>
             in case workbook_requireOneRow (count_where (\<lambda>c. Comment_ID c = commentID) (DDB_comments db))
                       ''comment'' commentID of
                  Some err \<Rightarrow> Inl err
                | None \<Rightarrow>
                    (case insert_row Revision_ID revision (DDB_revisions db) of
                       Inl err \<Rightarrow> Inl (ErrorfW ''comment: insert revision'' err)
                     | Inr revs \<Rightarrow>
                         (case select1 (\<lambda>c. Comment_ID c = commentID) rows of
                            None \<Rightarrow> Inl SqlNoRows
                          | Some comment \<Rightarrow>
                              Inr ((comment, revision), db\<lparr>DDB_comments := rows, DDB_revisions := revs\<rparr>))))) db"

definition Comments_Revisions :: "string \<Rightarrow> DDB \<Rightarrow> CommentRevision list" where
  "Comments_Revisions commentID db =
     sort_key Revision_EditedAt (filter (\<lambda>r. Revision_CommentID r = commentID) (DDB_revisions db))"

section \<open>Findings (findings.go)\<close>

definition Findings_ByID :: "string \<Rightarrow> DDB \<Rightarrow> error + Finding" where
  "Findings_ByID fid db =
     (case select1 (\<lambda>f. Finding_ID f = fid) (DDB_findings db) of
        None \<Rightarrow> Inl (ErrorfW (''finding: read '' @ Quote fid) SqlNoRows)
      | Some f \<Rightarrow> Inr f)"

text \<open>One row of the status history, with the table's CHECK.\<close>

definition insert_history :: "FindingStatusHistory \<Rightarrow> FindingStatusHistory list \<Rightarrow>
    error + FindingStatusHistory list" where
  "insert_history h rows =
     (case insert_row FSH_ID h rows of
        Inl err \<Rightarrow> Inl (ErrorfW ''finding: insert history'' err)
      | Inr rows' \<Rightarrow>
          if \<not> FindingStatus_Valid (FSH_ToStatus h)
          then Inl (ErrorfW ''finding: insert history'' (constraintError ''fsh_to_status_known''))
          else Inr rows')"

definition Findings_Create :: "string \<Rightarrow> string \<Rightarrow> gotime \<Rightarrow> NewFinding \<Rightarrow> DDB after list \<Rightarrow> DDB \<Rightarrow>
    (error + Finding) \<times> DDB" where
  "Findings_Create newID histID clock inp after db =
     (let ts = toStorage clock;
          result = \<lparr>Finding_ID = newID, Finding_EngagementID = NewFinding_EngagementID inp,
            Finding_Title = NewFinding_Title inp, Finding_Description = NewFinding_Description inp,
            Finding_Severity = NewFinding_Severity inp, Finding_Recommendation = NewFinding_Recommendation inp,
            Finding_Owner = NewFinding_Owner inp, Finding_Status = FindingStatusOpen,
            Finding_CreatedFromExecution = NewFinding_CreatedFromExecution inp,
            Finding_CreatedAt = ts, Finding_UpdatedAt = ts\<rparr>;
          hist = \<lparr>FSH_ID = histID, FSH_FindingID = newID, FSH_EngagementID = NewFinding_EngagementID inp,
            FSH_FromStatus = None, FSH_ToStatus = FindingStatusOpen, FSH_ChangedBy = NewFinding_CreatedBy inp,
            FSH_ChangedAt = ts\<rparr>
      in write_tx
           (case insert_row Finding_ID result (DDB_findings db) of
              Inl err \<Rightarrow> Inl (ErrorfW ''finding: insert'' err)
            | Inr rows \<Rightarrow>
                if NewFinding_EngagementID inp \<notin> set (map Engagement_ID (EDB_engagements (DDB_workbook db)))
                then Inl (ErrorfW ''finding: insert'' (constraintError ''app.finding''))
                else case insert_history hist (DDB_history db) of
                       Inl err \<Rightarrow> Inl err
                     | Inr hists \<Rightarrow>
                         (case runAfter newID after (db\<lparr>DDB_findings := rows, DDB_history := hists\<rparr>) of
                            Inl err \<Rightarrow> Inl err | Inr db' \<Rightarrow> Inr (result, db'))) db)"

text \<open>\<open>COALESCE(NULLIF(?, ''), column)\<close>.\<close>

definition nonempty_or :: "string \<Rightarrow> string \<Rightarrow> string" where
  "nonempty_or v column = (if v = [] then column else v)"

definition finding_sets :: "gotime \<Rightarrow> PatchFinding_row \<Rightarrow> Finding \<Rightarrow> Finding" where
  "finding_sets ts inp f =
     f\<lparr>Finding_Title := nonempty_or (PatchFinding_Title inp) (Finding_Title f),
       Finding_Description := nonempty_or (PatchFinding_Description inp) (Finding_Description f),
       Finding_Severity := nonempty_or (PatchFinding_Severity inp) (Finding_Severity f),
       Finding_Recommendation := nonempty_or (PatchFinding_Recommendation inp) (Finding_Recommendation f),
       Finding_Owner := nonempty_or (PatchFinding_Owner inp) (Finding_Owner f),
       Finding_Status := nonempty_or (PatchFinding_Status inp) (Finding_Status f),
       Finding_UpdatedAt := ts\<rparr>"

definition Findings_Update :: "string \<Rightarrow> gotime \<Rightarrow> string \<Rightarrow> PatchFinding_row \<Rightarrow> DDB after list \<Rightarrow> DDB \<Rightarrow>
    (error + Finding) \<times> DDB" where
  "Findings_Update histID clock fid inp after db =
     write_tx
       (case select1 (\<lambda>f. Finding_ID f = fid) (DDB_findings db) of
          None \<Rightarrow> Inl (ErrorfW ''finding: read before update'' SqlNoRows)
        | Some current \<Rightarrow>
            (let ts = toStorage clock;
                 moved = PatchFinding_Status inp \<noteq> [] \<and> PatchFinding_Status inp \<noteq> Finding_Status current;
                 hist = \<lparr>FSH_ID = histID, FSH_FindingID = fid, FSH_EngagementID = Finding_EngagementID current,
                   FSH_FromStatus = Some (Finding_Status current), FSH_ToStatus = PatchFinding_Status inp,
                   FSH_ChangedBy = PatchFinding_ChangedBy inp, FSH_ChangedAt = ts\<rparr>;
                 rows = update_where (\<lambda>f. Finding_ID f = fid) (finding_sets ts inp) (DDB_findings db)
             in case (if moved then insert_history hist (DDB_history db) else Inr (DDB_history db)) of
                  Inl err \<Rightarrow> Inl err
                | Inr hists \<Rightarrow>
                    if \<exists>f\<in>set rows. Finding_ID f = fid \<and> \<not> FindingStatus_Valid (Finding_Status f)
                    then Inl (ErrorfW ''finding: update'' (constraintError ''finding_status_known''))
                    else case runAfter fid after (db\<lparr>DDB_findings := rows, DDB_history := hists\<rparr>) of
                           Inl err \<Rightarrow> Inl err
                         | Inr db' \<Rightarrow>
                             (case select1 (\<lambda>f. Finding_ID f = fid) (DDB_findings db') of
                                None \<Rightarrow> Inl SqlNoRows | Some f \<Rightarrow> Inr (f, db')))) db"

text \<open>
  Three transactions: the history and the links are gone before the finding is looked for. Each
  answer is the database as that transaction leaves it.
\<close>

definition Findings_Delete :: "string \<Rightarrow> DDB after list \<Rightarrow> DDB \<Rightarrow> error option \<times> DDB" where
  "Findings_Delete fid after db =
     (let db1 = db\<lparr>DDB_history := delete_where (\<lambda>h. FSH_FindingID h = fid) (DDB_history db)\<rparr>;
          db2 = db1\<lparr>DDB_finding_steps := delete_where (\<lambda>l. fst l = fid) (DDB_finding_steps db1)\<rparr>;
          db3 = db2\<lparr>DDB_findings := delete_where (\<lambda>f. Finding_ID f = fid) (DDB_findings db2)\<rparr>
      in case workbook_requireOneRow (count_where (\<lambda>f. Finding_ID f = fid) (DDB_findings db2)) ''finding'' fid of
           Some err \<Rightarrow> (Some err, db2)
         | None \<Rightarrow>
             (case runAfter fid after db3 of Inl err \<Rightarrow> (Some err, db2) | Inr db' \<Rightarrow> (None, db')))"

text \<open>One link, with the table's primary key and its two foreign keys.\<close>

definition insert_link :: "DDB \<Rightarrow> string \<Rightarrow> string \<Rightarrow> (string \<times> string) list \<Rightarrow> error + (string \<times> string) list" where
  "insert_link db fid sid links =
     (if (fid, sid) \<in> set links \<or> fid \<notin> set (map Finding_ID (DDB_findings db)) \<or>
         sid \<notin> set (map Step_ID (EDB_steps (DDB_workbook db)))
      then Inl (constraintError ''app.finding_step'') else Inr (links @ [(fid, sid)]))"

fun SetSteps_loop :: "DDB \<Rightarrow> string \<Rightarrow> string list \<Rightarrow> (string \<times> string) list \<Rightarrow> error + (string \<times> string) list" where
  "SetSteps_loop db fid [] links = Inr links"
| "SetSteps_loop db fid (sid # ids) links =
     (case insert_link db fid sid links of
        Inl err \<Rightarrow> Inl (ErrorfW ''finding: set steps insert'' err)
      | Inr links' \<Rightarrow> SetSteps_loop db fid ids links')"

definition Findings_SetSteps :: "string \<Rightarrow> string list \<Rightarrow> DDB \<Rightarrow> error option \<times> DDB" where
  "Findings_SetSteps fid stepIDs db =
     (case SetSteps_loop db fid stepIDs (delete_where (\<lambda>l. fst l = fid) (DDB_finding_steps db)) of
        Inl err \<Rightarrow> (Some err, db)
      | Inr links \<Rightarrow> (None, db\<lparr>DDB_finding_steps := links\<rparr>))"

definition Findings_ListByEngagement :: "string \<Rightarrow> DDB \<Rightarrow> Finding list" where
  "Findings_ListByEngagement eid db =
     sort_key (\<lambda>f. - Finding_CreatedAt f) (filter (\<lambda>f. Finding_EngagementID f = eid) (DDB_findings db))"

definition Findings_StatusHistory :: "string \<Rightarrow> DDB \<Rightarrow> FindingStatusHistory list" where
  "Findings_StatusHistory eid db =
     sort_key FSH_ChangedAt (filter (\<lambda>h. FSH_EngagementID h = eid) (DDB_history db))"

text \<open>\<open>INSERT OR IGNORE\<close> ignores a taken primary key, not a missing parent.\<close>

definition Findings_AddStep :: "string \<Rightarrow> string \<Rightarrow> DDB \<Rightarrow> error option \<times> DDB" where
  "Findings_AddStep fid sid db =
     (if (fid, sid) \<in> set (DDB_finding_steps db) then (None, db)
      else case insert_link db fid sid (DDB_finding_steps db) of
             Inl err \<Rightarrow> (Some (ErrorfW ''finding: add step'' err), db)
           | Inr links \<Rightarrow> (None, db\<lparr>DDB_finding_steps := links\<rparr>))"

definition Findings_RemoveStep :: "string \<Rightarrow> string \<Rightarrow> DDB \<Rightarrow> error option \<times> DDB" where
  "Findings_RemoveStep fid sid db =
     (None, db\<lparr>DDB_finding_steps := delete_where (\<lambda>l. l = (fid, sid)) (DDB_finding_steps db)\<rparr>)"

text \<open>The join with the steps, in the order of the scenario's identifier and the ordinal.\<close>

definition Findings_Steps :: "string \<Rightarrow> DDB \<Rightarrow> Step_row list" where
  "Findings_Steps fid db =
     sort_key Step_ScenarioID (sort_key Step_Ordinal
       (filter (\<lambda>s. (fid, Step_ID s) \<in> set (DDB_finding_steps db)) (EDB_steps (DDB_workbook db))))"

section \<open>Evidence rows and blobs (evidence.go, blobs.go)\<close>

definition Evidence_Create :: "string \<Rightarrow> gotime \<Rightarrow> NewEvidence \<Rightarrow> DDB after list \<Rightarrow> DDB \<Rightarrow>
    (error + Evidence_row) \<times> DDB" where
  "Evidence_Create newID clock inp after db =
     (let result = \<lparr>Evidence_ID = newID, Evidence_BlobSHA256 = NewEvidence_BlobSHA256 inp,
            Evidence_Filename = NewEvidence_Filename inp, Evidence_Caption = NewEvidence_Caption inp,
            Evidence_Side = NewEvidence_Side inp, Evidence_ExecutionID = NewEvidence_ExecutionID inp,
            Evidence_CommentID = NewEvidence_CommentID inp, Evidence_UploadedBy = NewEvidence_UploadedBy inp,
            Evidence_UploadedAt = toStorage clock, Evidence_Size = NewEvidence_Size inp,
            Evidence_MIME = NewEvidence_MIME inp\<rparr>;
          has_exec = Evidence_ExecutionID result \<noteq> [];
          has_comment = Evidence_CommentID result \<noteq> []
      in write_tx
           (case insert_row Evidence_ID result (DDB_evidence db) of
              Inl err \<Rightarrow> Inl (ErrorfW ''evidence: insert'' err)
            | Inr rows \<Rightarrow>
                if Evidence_BlobSHA256 result \<notin> set (map Blob_SHA256 (DDB_blobs db)) \<or>
                   (has_exec \<and> Evidence_ExecutionID result \<notin> set (map Execution_ID (EDB_executions (DDB_workbook db)))) \<or>
                   (has_comment \<and> Evidence_CommentID result \<notin> set (map Comment_ID (DDB_comments db))) \<or>
                   has_exec = has_comment \<or> \<not> EvidenceSide_Valid (Evidence_Side result) \<or> Evidence_Size result < 0
                then Inl (ErrorfW ''evidence: insert'' (constraintError ''app.evidence''))
                else case runAfter newID after (db\<lparr>DDB_evidence := rows\<rparr>) of
                       Inl err \<Rightarrow> Inl err | Inr db' \<Rightarrow> Inr (result, db')) db)"

definition Evidence_ByID :: "string \<Rightarrow> DDB \<Rightarrow> error + Evidence_row" where
  "Evidence_ByID vid db =
     (case select1 (\<lambda>v. Evidence_ID v = vid) (DDB_evidence db) of
        None \<Rightarrow> Inl (ErrorfW (''evidence: read '' @ Quote vid) SqlNoRows)
      | Some v \<Rightarrow> Inr v)"

definition Evidence_ListByExecution :: "string \<Rightarrow> DDB \<Rightarrow> Evidence_row list" where
  "Evidence_ListByExecution xid db =
     sort_key (\<lambda>v. - Evidence_UploadedAt v)
       (filter (\<lambda>v. xid \<noteq> [] \<and> Evidence_ExecutionID v = xid) (DDB_evidence db))"

definition Evidence_ListByComment :: "string \<Rightarrow> DDB \<Rightarrow> Evidence_row list" where
  "Evidence_ListByComment cid db =
     sort_key (\<lambda>v. - Evidence_UploadedAt v)
       (filter (\<lambda>v. cid \<noteq> [] \<and> Evidence_CommentID v = cid) (DDB_evidence db))"

definition Evidence_DeleteLink :: "string \<Rightarrow> DDB \<Rightarrow> error option \<times> DDB" where
  "Evidence_DeleteLink vid db =
     (case workbook_requireOneRow (count_where (\<lambda>v. Evidence_ID v = vid) (DDB_evidence db)) ''evidence'' vid of
        Some err \<Rightarrow> (Some err, db)
      | None \<Rightarrow> (None, db\<lparr>DDB_evidence := delete_where (\<lambda>v. Evidence_ID v = vid) (DDB_evidence db)\<rparr>))"

definition GetBlob :: "string \<Rightarrow> DDB \<Rightarrow> error + EvidenceBlob" where
  "GetBlob sha db =
     (case select1 (\<lambda>b. Blob_SHA256 b = sha) (DDB_blobs db) of
        None \<Rightarrow> Inl (ErrorfW (''evidence_blob: read '' @ Quote sha) SqlNoRows)
      | Some b \<Rightarrow> Inr b)"

definition InsertBlob :: "gotime \<Rightarrow> string \<Rightarrow> string \<Rightarrow> string \<Rightarrow> int \<Rightarrow> DDB \<Rightarrow> error option \<times> DDB" where
  "InsertBlob clock sha mime storagePath sz db =
     (let b = \<lparr>Blob_SHA256 = sha, Blob_Size = sz, Blob_MIME = mime, Blob_StoragePath = storagePath,
               Blob_RefCount = 1, Blob_CreatedAt = toStorage clock\<rparr>
      in case insert_row Blob_SHA256 b (DDB_blobs db) of
           Inl err \<Rightarrow> (Some (ErrorfW (''evidence_blob: insert '' @ Quote sha) err), db)
         | Inr rows \<Rightarrow>
             if sz < 0
             then (Some (ErrorfW (''evidence_blob: insert '' @ Quote sha) (constraintError ''evidence_blob_size_nonneg'')), db)
             else (None, db\<lparr>DDB_blobs := rows\<rparr>))"

definition bump_ref :: "string \<Rightarrow> int \<Rightarrow> DDB \<Rightarrow> EvidenceBlob list" where
  "bump_ref sha d db =
     update_where (\<lambda>b. Blob_SHA256 b = sha) (\<lambda>b. b\<lparr>Blob_RefCount := Blob_RefCount b + d\<rparr>) (DDB_blobs db)"

definition IncrementRef :: "string \<Rightarrow> DDB \<Rightarrow> error option \<times> DDB" where
  "IncrementRef sha db =
     (case workbook_requireOneRow (count_where (\<lambda>b. Blob_SHA256 b = sha) (DDB_blobs db)) ''evidence_blob'' sha of
        Some err \<Rightarrow> (Some err, db)
      | None \<Rightarrow> (None, db\<lparr>DDB_blobs := bump_ref sha 1 db\<rparr>))"

definition DecrementRef :: "string \<Rightarrow> DDB \<Rightarrow> (error + bool) \<times> DDB" where
  "DecrementRef sha db =
     (let rows = bump_ref sha (- 1) db
      in write_tx
           (if \<exists>b\<in>set rows. Blob_SHA256 b = sha \<and> Blob_RefCount b < 0
            then Inl (ErrorfW (''evidence_blob: decrement ref '' @ Quote sha)
                       (constraintError ''evidence_blob_ref_count_nonneg''))
            else case workbook_requireOneRow (count_where (\<lambda>b. Blob_SHA256 b = sha) (DDB_blobs db))
                        ''evidence_blob'' sha of
              Some err \<Rightarrow> Inl err
            | None \<Rightarrow>
                (case select1 (\<lambda>b. Blob_SHA256 b = sha) rows of
                   None \<Rightarrow> Inl SqlNoRows
                 | Some b \<Rightarrow> Inr (Blob_RefCount b = 0, db\<lparr>DDB_blobs := rows\<rparr>))) db)"

text \<open>The blobs an execution of the engagement has evidence of, each counted once.\<close>

definition EngagementBlobBytes :: "string \<Rightarrow> DDB \<Rightarrow> int" where
  "EngagementBlobBytes eid db =
     (let w = DDB_workbook db;
          execs = filter (\<lambda>x. \<exists>s\<in>set (EDB_steps w). Step_ID s = Execution_StepID x \<and>
            Step_ScenarioID s \<in> set (scenario_ids eid w)) (EDB_executions w);
          shas = map Evidence_BlobSHA256 (filter (\<lambda>v. Evidence_ExecutionID v \<in> set (map Execution_ID execs)) (DDB_evidence db))
      in sum_list (map Blob_Size (filter (\<lambda>b. Blob_SHA256 b \<in> set shas) (DDB_blobs db))))"

text \<open>A blob row some evidence row still names cannot go.\<close>

definition DeleteBlob :: "string \<Rightarrow> DDB \<Rightarrow> error option \<times> DDB" where
  "DeleteBlob sha db =
     (if sha \<in> set (map Evidence_BlobSHA256 (DDB_evidence db)) \<and> sha \<in> set (map Blob_SHA256 (DDB_blobs db))
      then (Some (ErrorfW (''evidence_blob: delete '' @ Quote sha) (constraintError ''app.evidence'')), db)
      else case workbook_requireOneRow (count_where (\<lambda>b. Blob_SHA256 b = sha) (DDB_blobs db)) ''evidence_blob'' sha of
             Some err \<Rightarrow> (Some err, db)
           | None \<Rightarrow> (None, db\<lparr>DDB_blobs := delete_where (\<lambda>b. Blob_SHA256 b = sha) (DDB_blobs db)\<rparr>))"

end
