(* ===== verification/Discussion.thy ===== *)
theory Discussion
  imports Discussion_Store
begin

text \<open>
  Comments and findings (internal/engagement/comments.go, findings.go, and \<open>CommentEngagementID\<close> of
  bind.go) with their handlers (internal/httpapi/commenthandlers.go, findinghandlers.go,
  \<open>stepBlindScope\<close> of stephandlers.go, \<open>canEditComment\<close> of ownership.go). A request is a function
  on the database: the handler's and the service's checks in the code's order, the store's
  transactions, the best-effort activity row. The conversion to the wire format is left out: a row
  stands for its JSON. An authenticated actor and the middleware's authorization are arguments, None
  where the code finds none in the context.
\<close>

section \<open>Activity\<close>

abbreviation VerbCommentCreated :: Verb where "VerbCommentCreated \<equiv> ''comment.created''"
abbreviation VerbCommentEdited :: Verb where "VerbCommentEdited \<equiv> ''comment.edited''"
abbreviation VerbFindingCreated :: Verb where "VerbFindingCreated \<equiv> ''finding.created''"
abbreviation VerbFindingUpdated :: Verb where "VerbFindingUpdated \<equiv> ''finding.updated''"
abbreviation VerbFindingDeleted :: Verb where "VerbFindingDeleted \<equiv> ''finding.deleted''"
abbreviation VerbFindingStepsChanged :: Verb where "VerbFindingStepsChanged \<equiv> ''finding.steps_changed''"
abbreviation ObjectFinding :: string where "ObjectFinding \<equiv> ''finding''"

definition DDB_recordAlone :: "Workbook_Service \<Rightarrow> Entry \<Rightarrow> DDB \<Rightarrow> DDB" where
  "DDB_recordAlone svc e db = db\<lparr>DDB_workbook := recordAlone svc e (DDB_workbook db)\<rparr>"

definition recordCommentActivity :: "Workbook_Service \<Rightarrow> string \<Rightarrow> string \<Rightarrow> string \<Rightarrow> string \<Rightarrow> Verb \<Rightarrow>
    (string \<times> delta_value) list \<Rightarrow> DDB \<Rightarrow> DDB" where
  "recordCommentActivity svc actorID engagementID executionID objectID verb delta db =
     DDB_recordAlone svc
       \<lparr>Entry_EngagementID = engagementID, Entry_ActorID = actorID, Entry_Verb = verb,
        Entry_ObjectType = ObjectComment, Entry_ObjectID = objectID,
        Entry_ParentIDs = [(''executionId'', executionID)], Entry_Delta = delta\<rparr> db"

definition recordFindingActivity :: "Workbook_Service \<Rightarrow> string \<Rightarrow> string \<Rightarrow> string \<Rightarrow> Verb \<Rightarrow>
    (string \<times> delta_value) list \<Rightarrow> DDB \<Rightarrow> DDB" where
  "recordFindingActivity svc actorID engagementID objectID verb delta db =
     DDB_recordAlone svc (workbook_entry actorID engagementID verb ObjectFinding objectID delta) db"

section \<open>Comments (comments.go)\<close>

definition comment_body_error :: "string \<Rightarrow> error option" where
  "comment_body_error body =
     (if body = [] then Some (ErrorsNew ''engagement: comment body is empty'')
      else if length body > 16384 then Some (ErrorsNew ''engagement: comment body exceeds 16 KiB limit'')
      else None)"

text \<open>The execution's engagement, required to be the one of the path.\<close>

definition bind_execution :: "string \<Rightarrow> string \<Rightarrow> string \<Rightarrow> string \<Rightarrow> EDB \<Rightarrow> error option" where
  "bind_execution res rid executionID engagementID w =
     (case ExecutionEngagementID executionID w of
        Inl err \<Rightarrow> Some err
      | Inr owner \<Rightarrow> requireSameEngagement res rid owner engagementID)"

definition CreateComment :: "Workbook_Service \<Rightarrow> string \<Rightarrow> gotime \<Rightarrow> string \<Rightarrow> string \<Rightarrow> string \<Rightarrow> string \<Rightarrow> DDB \<Rightarrow>
    (error + Comment) \<times> DDB" where
  "CreateComment svc newID clock actorID engagementID executionID body db =
     (case comment_body_error body of
        Some err \<Rightarrow> (Inl err, db)
      | None \<Rightarrow>
          (case bind_execution ''execution'' executionID executionID engagementID (DDB_workbook db) of
             Some err \<Rightarrow> (Inl err, db)
           | None \<Rightarrow>
               (case Comments_Create newID clock
                       \<lparr>NewComment_ExecutionID = executionID, NewComment_AuthorID = actorID, NewComment_Body = body\<rparr>
                       [] db of
                  (Inl err, db') \<Rightarrow> (Inl err, db')
                | (Inr comment, db') \<Rightarrow>
                    (Inr comment, recordCommentActivity svc actorID engagementID executionID (Comment_ID comment)
                       VerbCommentCreated [] db'))))"

record EditCommentInput =
  EditCommentInput_CommentID :: string
  EditCommentInput_EngagementID :: string
  EditCommentInput_ExecutionID :: string
  EditCommentInput_Body :: string

definition EditComment :: "Workbook_Service \<Rightarrow> string \<Rightarrow> gotime \<Rightarrow> string \<Rightarrow> EditCommentInput \<Rightarrow> DDB \<Rightarrow>
    (error + Comment) \<times> DDB" where
  "EditComment svc revID clock actorID inp db =
     (case comment_body_error (EditCommentInput_Body inp) of
        Some err \<Rightarrow> (Inl err, db)
      | None \<Rightarrow>
          (case bind_execution ''comment'' (EditCommentInput_CommentID inp) (EditCommentInput_ExecutionID inp)
                  (EditCommentInput_EngagementID inp) (DDB_workbook db) of
             Some err \<Rightarrow> (Inl err, db)
           | None \<Rightarrow>
               (case Comments_Edit revID clock (EditCommentInput_CommentID inp) actorID (EditCommentInput_Body inp) db of
                  (Inl err, db') \<Rightarrow> (Inl err, db')
                | (Inr (comment, revision), db') \<Rightarrow>
                    (Inr comment, recordCommentActivity svc actorID (EditCommentInput_EngagementID inp)
                       (EditCommentInput_ExecutionID inp) (EditCommentInput_CommentID inp) VerbCommentEdited
                       [(''body'', DString (EditCommentInput_Body inp))] db'))))"

definition ListComments :: "string \<Rightarrow> string \<Rightarrow> DDB \<Rightarrow> error + Comment list" where
  "ListComments engagementID executionID db =
     (case bind_execution ''execution'' executionID executionID engagementID (DDB_workbook db) of
        Some err \<Rightarrow> Inl err
      | None \<Rightarrow> Inr (Comments_ListByExecution executionID db))"

definition GetCommentInEngagement :: "string \<Rightarrow> string \<Rightarrow> DDB \<Rightarrow> error + Comment" where
  "GetCommentInEngagement engagementID commentID db =
     (case Comments_ByID commentID db of
        Inl err \<Rightarrow> Inl err
      | Inr comment \<Rightarrow>
          (case bind_execution ''comment'' commentID (Comment_ExecutionID comment) engagementID (DDB_workbook db) of
             Some err \<Rightarrow> Inl err
           | None \<Rightarrow> Inr comment))"

definition CommentEngagementID :: "string \<Rightarrow> DDB \<Rightarrow> error + string" where
  "CommentEngagementID commentID db =
     (case Comments_ByID commentID db of
        Inl err \<Rightarrow> Inl err
      | Inr c \<Rightarrow> ExecutionEngagementID (Comment_ExecutionID c) (DDB_workbook db))"

definition ListCommentRevisions :: "string \<Rightarrow> string \<Rightarrow> DDB \<Rightarrow> error + CommentRevision list" where
  "ListCommentRevisions engagementID commentID db =
     (case CommentEngagementID commentID db of
        Inl err \<Rightarrow> Inl err
      | Inr owner \<Rightarrow>
          (case requireSameEngagement ''comment'' commentID owner engagementID of
             Some err \<Rightarrow> Inl err
           | None \<Rightarrow> Inr (Comments_Revisions commentID db)))"

section \<open>Findings (findings.go)\<close>

record CreateFindingInput =
  CreateFindingInput_EngagementID :: string
  CreateFindingInput_Title :: string
  CreateFindingInput_Description :: string
  CreateFindingInput_Severity :: string
  CreateFindingInput_Recommendation :: string
  CreateFindingInput_Owner :: string
  CreateFindingInput_Status :: string
  CreateFindingInput_CreatedFromExecution :: string

record UpdateFindingInput =
  UpdateFindingInput_Title :: string
  UpdateFindingInput_Description :: string
  UpdateFindingInput_Severity :: string
  UpdateFindingInput_Recommendation :: string
  UpdateFindingInput_Owner :: string
  UpdateFindingInput_Status :: string

definition is_shut :: "Engagement \<Rightarrow> bool" where
  "is_shut eng \<longleftrightarrow>
     Engagement_Status eng = EngagementStatusClosed \<or> Engagement_Status eng = EngagementStatusArchived"

text \<open>The defaults; the one for the status is set and then not used.\<close>

definition CreateFindingInput_defaults :: "string \<Rightarrow> CreateFindingInput \<Rightarrow> CreateFindingInput" where
  "CreateFindingInput_defaults actorID inp =
     inp\<lparr>CreateFindingInput_Owner := nonempty_or (CreateFindingInput_Owner inp) actorID,
         CreateFindingInput_Severity := nonempty_or (CreateFindingInput_Severity inp) ''medium'',
         CreateFindingInput_Status := nonempty_or (CreateFindingInput_Status inp) FindingStatusOpen\<rparr>"

definition CreateFinding :: "Workbook_Service \<Rightarrow> string \<Rightarrow> string \<Rightarrow> gotime \<Rightarrow> string \<Rightarrow> CreateFindingInput \<Rightarrow> DDB \<Rightarrow>
    (error + Finding) \<times> DDB" where
  "CreateFinding svc newID histID clock actorID inp0 db =
     (if CreateFindingInput_Title inp0 = [] then (Inl (ErrorsNew ''engagement: finding title is required''), db)
      else if CreateFindingInput_EngagementID inp0 = []
      then (Inl (ErrorsNew ''engagement: finding engagement id is required''), db)
      else case Engagements_ByID (CreateFindingInput_EngagementID inp0) (DDB_workbook db) of
        Inl err \<Rightarrow> (Inl err, db)
      | Inr eng \<Rightarrow>
          if is_shut eng
          then (Inl (ErrorsNew ''engagement: cannot create findings on closed/archived engagements''), db)
          else
            (let inp = CreateFindingInput_defaults actorID inp0
             in case Findings_Create newID histID clock
                       \<lparr>NewFinding_EngagementID = CreateFindingInput_EngagementID inp,
                        NewFinding_Title = CreateFindingInput_Title inp,
                        NewFinding_Description = CreateFindingInput_Description inp,
                        NewFinding_Severity = CreateFindingInput_Severity inp,
                        NewFinding_Recommendation = CreateFindingInput_Recommendation inp,
                        NewFinding_Owner = CreateFindingInput_Owner inp,
                        NewFinding_CreatedFromExecution = CreateFindingInput_CreatedFromExecution inp,
                        NewFinding_CreatedBy = actorID\<rparr> [] db of
                  (Inl err, db') \<Rightarrow> (Inl err, db')
                | (Inr finding, db') \<Rightarrow>
                    (Inr finding, recordFindingActivity svc actorID (CreateFindingInput_EngagementID inp)
                       (Finding_ID finding) VerbFindingCreated [] db')))"

text \<open>What a shut engagement refuses of a patch.\<close>

definition edits_text :: "UpdateFindingInput \<Rightarrow> bool" where
  "edits_text inp \<longleftrightarrow>
     UpdateFindingInput_Title inp \<noteq> [] \<or> UpdateFindingInput_Description inp \<noteq> [] \<or>
     UpdateFindingInput_Severity inp \<noteq> [] \<or> UpdateFindingInput_Recommendation inp \<noteq> [] \<or>
     UpdateFindingInput_Owner inp \<noteq> []"

definition finding_patch :: "string \<Rightarrow> UpdateFindingInput \<Rightarrow> PatchFinding_row" where
  "finding_patch actorID inp =
     \<lparr>PatchFinding_Title = UpdateFindingInput_Title inp, PatchFinding_Description = UpdateFindingInput_Description inp,
      PatchFinding_Severity = UpdateFindingInput_Severity inp,
      PatchFinding_Recommendation = UpdateFindingInput_Recommendation inp,
      PatchFinding_Owner = UpdateFindingInput_Owner inp, PatchFinding_Status = UpdateFindingInput_Status inp,
      PatchFinding_ChangedBy = actorID\<rparr>"

definition findingDelta :: "UpdateFindingInput \<Rightarrow> (string \<times> delta_value) list" where
  "findingDelta inp =
     Delta [(''title'', DString (UpdateFindingInput_Title inp)),
            (''description'', DString (UpdateFindingInput_Description inp)),
            (''severity'', DString (UpdateFindingInput_Severity inp)),
            (''recommendation'', DString (UpdateFindingInput_Recommendation inp)),
            (''owner'', DString (UpdateFindingInput_Owner inp)),
            (''status'', DString (UpdateFindingInput_Status inp))]"

definition UpdateFinding :: "Workbook_Service \<Rightarrow> string \<Rightarrow> gotime \<Rightarrow> string \<Rightarrow> string \<Rightarrow> UpdateFindingInput \<Rightarrow> DDB \<Rightarrow>
    (error + Finding) \<times> DDB" where
  "UpdateFinding svc histID clock actorID fid inp db =
     (case Findings_ByID fid db of
        Inl err \<Rightarrow> (Inl err, db)
      | Inr existing \<Rightarrow>
          (case Engagements_ByID (Finding_EngagementID existing) (DDB_workbook db) of
             Inl err \<Rightarrow> (Inl err, db)
           | Inr eng \<Rightarrow>
               if is_shut eng \<and> edits_text inp
               then (Inl (ErrorsNew ''engagement: only status may be changed on closed/archived engagements''), db)
               else case Findings_Update histID clock fid (finding_patch actorID inp) [] db of
                      (Inl err, db') \<Rightarrow> (Inl err, db')
                    | (Inr finding, db') \<Rightarrow>
                        (Inr finding, recordFindingActivity svc actorID (Finding_EngagementID existing)
                           (Finding_ID finding) VerbFindingUpdated (findingDelta inp) db')))"

definition DeleteFinding :: "Workbook_Service \<Rightarrow> string \<Rightarrow> string \<Rightarrow> DDB \<Rightarrow> error option \<times> DDB" where
  "DeleteFinding svc actorID fid db =
     (case Findings_ByID fid db of
        Inl err \<Rightarrow> (Some err, db)
      | Inr existing \<Rightarrow>
          (case Findings_Delete fid [] db of
             (Some err, db') \<Rightarrow> (Some err, db')
           | (None, db') \<Rightarrow>
               (None, recordFindingActivity svc actorID (Finding_EngagementID existing) fid VerbFindingDeleted [] db')))"

fun check_steps :: "string \<Rightarrow> string list \<Rightarrow> EDB \<Rightarrow> error option" where
  "check_steps engagementID [] w = None"
| "check_steps engagementID (sid # ids) w =
     (case Steps_ByID sid w of
        Inl err \<Rightarrow> Some (ErrorfW (''engagement: step '' @ Quote sid) err)
      | Inr step \<Rightarrow>
          (case Scenarios_ByID (Step_ScenarioID step) w of
             Inl err \<Rightarrow> Some (ErrorfW (''engagement: scenario for step '' @ Quote sid) err)
           | Inr scenario \<Rightarrow>
               if Scenario_EngagementID scenario \<noteq> engagementID
               then Some (ErrorsNew (''engagement: step '' @ Quote sid @ '' belongs to engagement '' @
                      Quote (Scenario_EngagementID scenario) @ '', not '' @ Quote engagementID))
               else check_steps engagementID ids w))"

definition SetFindingSteps :: "Workbook_Service \<Rightarrow> string \<Rightarrow> string \<Rightarrow> string list \<Rightarrow> DDB \<Rightarrow> error option \<times> DDB" where
  "SetFindingSteps svc actorID fid stepIDs db =
     (case Findings_ByID fid db of
        Inl err \<Rightarrow> (Some err, db)
      | Inr finding \<Rightarrow>
          (case check_steps (Finding_EngagementID finding) stepIDs (DDB_workbook db) of
             Some err \<Rightarrow> (Some err, db)
           | None \<Rightarrow>
               (case Findings_SetSteps fid stepIDs db of
                  (Some err, db') \<Rightarrow> (Some err, db')
                | (None, db') \<Rightarrow>
                    (None, recordFindingActivity svc actorID (Finding_EngagementID finding) fid
                       VerbFindingStepsChanged [] db'))))"

section \<open>The handlers\<close>

text \<open>\<open>Seat\<close> of ownership.go: the membership row, false when there is none.\<close>

definition Seat :: "string \<Rightarrow> string \<Rightarrow> DDB \<Rightarrow> EngagementRole \<times> bool" where
  "Seat engagementID userID db =
     (case select1 (\<lambda>m. Membership_EngagementID m = engagementID \<and> Membership_UserID m = userID)
             (IDB_members (EDB_identity (DDB_workbook db))) of
        None \<Rightarrow> ([], False)
      | Some m \<Rightarrow> (Membership_Role m, True))"

definition stepBlindScope :: "Subject option \<Rightarrow> string \<Rightarrow> DDB \<Rightarrow> error + blind_Scope" where
  "stepBlindScope auth engagementID db =
     (case Engagements_ByID engagementID (DDB_workbook db) of
        Inl err \<Rightarrow> Inl err
      | Inr eng \<Rightarrow>
          (case auth of
             None \<Rightarrow> Inr \<lparr>Scope_Blind = False, Scope_Seat = []\<rparr>
           | Some subject \<Rightarrow>
               (let (seat, member) = MembershipIn subject engagementID;
                    (stored, found) = Seat engagementID (Subject_UserID subject) db;
                    seat = (if \<not> member \<and> found then stored else seat)
                in Inr \<lparr>Scope_Blind = (Engagement_Mode eng = EngagementModeBlind), Scope_Seat = seat\<rparr>)))"

text \<open>The blind check of a comment's two collection routes: the execution's step has to be visible.\<close>

definition execution_visible :: "Subject option \<Rightarrow> string \<Rightarrow> string \<Rightarrow> DDB \<Rightarrow> error option" where
  "execution_visible auth engagementID executionID db =
     (case Executions_ByID executionID (DDB_workbook db) of
        Inl err \<Rightarrow> Some err
      | Inr exec \<Rightarrow>
          (case Steps_ByID (Execution_StepID exec) (DDB_workbook db) of
             Inl err \<Rightarrow> Some err
           | Inr step \<Rightarrow>
               (case stepBlindScope auth engagementID db of
                  Inl err \<Rightarrow> Some err
                | Inr scope \<Rightarrow>
                    if \<not> Permits scope (Step_RevealedAt step \<noteq> None)
                    then Some (NotFound ''execution'' executionID) else None)))"

definition ListComments_handler :: "Subject option \<Rightarrow> string \<Rightarrow> string \<Rightarrow> DDB \<Rightarrow> error + Comment list" where
  "ListComments_handler auth engagementID executionID db =
     (case execution_visible auth engagementID executionID db of
        Some err \<Rightarrow> Inl err
      | None \<Rightarrow> ListComments engagementID executionID db)"

definition CreateComment_handler :: "Workbook_Service \<Rightarrow> string \<Rightarrow> gotime \<Rightarrow> string option \<Rightarrow> Subject option \<Rightarrow> string \<Rightarrow>
    string \<Rightarrow> string \<Rightarrow> DDB \<Rightarrow> (error + Comment) \<times> DDB" where
  "CreateComment_handler svc newID clock actor auth engagementID executionID body db =
     (case actor of
        None \<Rightarrow> (Inl (Unauthenticated ''no authenticated subject''), db)
      | Some actorID \<Rightarrow>
          (case execution_visible auth engagementID executionID db of
             Some err \<Rightarrow> (Inl err, db)
           | None \<Rightarrow> CreateComment svc newID clock actorID engagementID executionID body db))"

definition canEditComment :: "Subject option \<Rightarrow> string \<Rightarrow> error option" where
  "canEditComment auth engagementID =
     (case auth of
        None \<Rightarrow> Some (Forbidden ''cannot verify authorization'')
      | Some subject \<Rightarrow>
          if Subject_PlatformRole subject = PlatformRoleAdmin then None
          else if fst (MembershipIn subject engagementID) = EngagementRoleLead then None
          else Some (Forbidden ''only the author, lead, or admin may edit a comment''))"

definition PatchComment_handler :: "Workbook_Service \<Rightarrow> string \<Rightarrow> gotime \<Rightarrow> string option \<Rightarrow> Subject option \<Rightarrow> string \<Rightarrow>
    string \<Rightarrow> string \<Rightarrow> DDB \<Rightarrow> (error + Comment) \<times> DDB" where
  "PatchComment_handler svc revID clock actor auth engagementID commentID body db =
     (case actor of
        None \<Rightarrow> (Inl (Unauthenticated ''no authenticated subject''), db)
      | Some actorID \<Rightarrow>
          (case GetCommentInEngagement engagementID commentID db of
             Inl err \<Rightarrow> (Inl err, db)
           | Inr comment \<Rightarrow>
               (case (if actorID \<noteq> Comment_AuthorID comment then canEditComment auth engagementID else None) of
                  Some err \<Rightarrow> (Inl err, db)
                | None \<Rightarrow>
                    EditComment svc revID clock actorID
                      \<lparr>EditCommentInput_CommentID = commentID, EditCommentInput_EngagementID = engagementID,
                       EditCommentInput_ExecutionID = Comment_ExecutionID comment,
                       EditCommentInput_Body = body\<rparr> db)))"

text \<open>The step links a seat is shown with a finding: each looked up again when the scope withholds.\<close>

fun revealed_ids :: "Step_row list \<Rightarrow> EDB \<Rightarrow> error + string list" where
  "revealed_ids [] w = Inr []"
| "revealed_ids (s # ss) w =
     (case Steps_ByID (Step_ID s) w of
        Inl err \<Rightarrow> Inl (ErrorfW ''step visibility'' err)
      | Inr row \<Rightarrow>
          (case revealed_ids ss w of
             Inl err \<Rightarrow> Inl err
           | Inr ids \<Rightarrow> Inr (if Step_RevealedAt row \<noteq> None then Step_ID s # ids else ids)))"

definition visibleFindingStepIDs :: "Subject option \<Rightarrow> string \<Rightarrow> Step_row list \<Rightarrow> DDB \<Rightarrow> error + string list" where
  "visibleFindingStepIDs auth engagementID steps db =
     (case stepBlindScope auth engagementID db of
        Inl err \<Rightarrow> Inl err
      | Inr scope \<Rightarrow>
          if \<not> Withholds scope then Inr (map Step_ID steps) else revealed_ids steps (DDB_workbook db))"

text \<open>\<open>findingToWire\<close>: the finding and the identifiers of its steps.\<close>

definition findingToWire :: "Subject option \<Rightarrow> Finding \<Rightarrow> DDB \<Rightarrow> error + (Finding \<times> string list)" where
  "findingToWire auth f db =
     (case visibleFindingStepIDs auth (Finding_EngagementID f) (Findings_Steps (Finding_ID f) db) db of
        Inl err \<Rightarrow> Inl err
      | Inr ids \<Rightarrow> Inr (f, ids))"

fun wire_all :: "Subject option \<Rightarrow> Finding list \<Rightarrow> DDB \<Rightarrow> error + (Finding \<times> string list) list" where
  "wire_all auth [] db = Inr []"
| "wire_all auth (f # fs) db =
     (case findingToWire auth f db of
        Inl err \<Rightarrow> Inl err
      | Inr w \<Rightarrow> (case wire_all auth fs db of Inl err \<Rightarrow> Inl err | Inr ws \<Rightarrow> Inr (w # ws)))"

definition ListFindings_handler :: "Subject option \<Rightarrow> string \<Rightarrow> DDB \<Rightarrow> error + (Finding \<times> string list) list" where
  "ListFindings_handler auth engagementID db = wire_all auth (Findings_ListByEngagement engagementID db) db"

definition GetFinding_handler :: "Subject option \<Rightarrow> string \<Rightarrow> DDB \<Rightarrow> error + (Finding \<times> string list)" where
  "GetFinding_handler auth fid db =
     (case Findings_ByID fid db of Inl err \<Rightarrow> Inl err | Inr f \<Rightarrow> findingToWire auth f db)"

end
