(* ===== verification/Discussion_Inv.thy ===== *)
theory Discussion_Inv
  imports Discussion Workbook_Refine
begin

text \<open>
  What the tables of comments and findings promise. \<open>disc_event ts\<close> is the abstract specification of
  one write at the storage time ts: a comment is added, or edited with its old body kept; a
  finding is raised, patched, moved to another status with the move written down, or removed with
  everything that names it; the links of a finding are replaced by steps of its own engagement.
  Every request refines a sequence of such events (\<open>discussed_events\<close>), \<open>discussion_ok\<close> is their
  invariant, and time only moves forward.
\<close>

section \<open>The abstract writes\<close>

definition finding_kept :: "Finding \<Rightarrow> Finding \<Rightarrow> bool" where
  "finding_kept f f' \<longleftrightarrow> Finding_ID f' = Finding_ID f \<and> Finding_EngagementID f' = Finding_EngagementID f"

inductive disc_event :: "gotime \<Rightarrow> DDB \<Rightarrow> DDB \<Rightarrow> bool" for ts where
  workbook: "book e (DDB_workbook db) w \<Longrightarrow> disc_event ts db (db\<lparr>DDB_workbook := w\<rparr>)"
| comment_new: "Comment_ID c \<notin> Comment_ID ` set (DDB_comments db) \<Longrightarrow>
    Comment_ExecutionID c \<in> Execution_ID ` set (EDB_executions (DDB_workbook db)) \<Longrightarrow>
    disc_event ts db (db\<lparr>DDB_comments := DDB_comments db @ [c]\<rparr>)"
| comment_edit: "c \<in> set (DDB_comments db) \<Longrightarrow> Comment_ID c = cid \<Longrightarrow>
    Revision_ID r \<notin> Revision_ID ` set (DDB_revisions db) \<Longrightarrow> Revision_CommentID r = cid \<Longrightarrow>
    Revision_Body r = Comment_Body c \<Longrightarrow> Revision_EditedAt r = ts \<Longrightarrow>
    disc_event ts db (db\<lparr>DDB_comments := update_where (\<lambda>c. Comment_ID c = cid)
        (\<lambda>c. c\<lparr>Comment_Body := body, Comment_EditedAt := Some ts\<rparr>) (DDB_comments db),
      DDB_revisions := DDB_revisions db @ [r]\<rparr>)"
| finding_new: "Finding_ID f \<notin> Finding_ID ` set (DDB_findings db) \<Longrightarrow>
    Finding_EngagementID f \<in> Engagement_ID ` set (EDB_engagements (DDB_workbook db)) \<Longrightarrow>
    Finding_Status f = FindingStatusOpen \<Longrightarrow>
    FSH_ID h \<notin> FSH_ID ` set (DDB_history db) \<Longrightarrow> FSH_FindingID h = Finding_ID f \<Longrightarrow>
    FSH_EngagementID h = Finding_EngagementID f \<Longrightarrow> FSH_FromStatus h = None \<Longrightarrow>
    FSH_ToStatus h = FindingStatusOpen \<Longrightarrow> FSH_ChangedAt h = ts \<Longrightarrow>
    disc_event ts db (db\<lparr>DDB_findings := DDB_findings db @ [f], DDB_history := DDB_history db @ [h]\<rparr>)"
| finding_patch: "\<forall>f\<in>set (DDB_findings db). Finding_ID f = fid \<longrightarrow>
      finding_kept f (g f) \<and> Finding_Status (g f) = Finding_Status f \<Longrightarrow>
    disc_event ts db (db\<lparr>DDB_findings := update_where (\<lambda>f. Finding_ID f = fid) g (DDB_findings db)\<rparr>)"
| finding_move: "f \<in> set (DDB_findings db) \<Longrightarrow> Finding_ID f = fid \<Longrightarrow>
    FSH_ID h \<notin> FSH_ID ` set (DDB_history db) \<Longrightarrow> FSH_FindingID h = fid \<Longrightarrow>
    FSH_EngagementID h = Finding_EngagementID f \<Longrightarrow> FSH_FromStatus h = Some (Finding_Status f) \<Longrightarrow>
    FSH_ToStatus h \<noteq> Finding_Status f \<Longrightarrow> FindingStatus_Valid (FSH_ToStatus h) \<Longrightarrow> FSH_ChangedAt h = ts \<Longrightarrow>
    \<forall>f\<in>set (DDB_findings db). Finding_ID f = fid \<longrightarrow>
      finding_kept f (g f) \<and> Finding_Status (g f) = FSH_ToStatus h \<Longrightarrow>
    disc_event ts db (db\<lparr>DDB_findings := update_where (\<lambda>f. Finding_ID f = fid) g (DDB_findings db),
      DDB_history := DDB_history db @ [h]\<rparr>)"
| finding_gone: "disc_event ts db (db\<lparr>DDB_history := delete_where (\<lambda>h. FSH_FindingID h = fid) (DDB_history db),
      DDB_finding_steps := delete_where (\<lambda>l. fst l = fid) (DDB_finding_steps db),
      DDB_findings := delete_where (\<lambda>f. Finding_ID f = fid) (DDB_findings db)\<rparr>)"
| links: "f \<in> set (DDB_findings db) \<Longrightarrow> Finding_ID f = fid \<Longrightarrow> distinct sids \<Longrightarrow>
    \<forall>s\<in>set sids. owns_step (DDB_workbook db) (Finding_EngagementID f) s \<Longrightarrow>
    disc_event ts db (db\<lparr>DDB_finding_steps :=
      delete_where (\<lambda>l. fst l = fid) (DDB_finding_steps db) @ map (Pair fid) sids\<rparr>)"

abbreviation disc :: "gotime \<Rightarrow> DDB \<Rightarrow> DDB \<Rightarrow> bool" where
  "disc ts \<equiv> (disc_event ts)\<^sup>*\<^sup>*"

section \<open>The invariant\<close>

text \<open>The transitions of one finding, and what they have to be: a chain from creation to now.\<close>

definition trail :: "string \<Rightarrow> FindingStatusHistory list \<Rightarrow> FindingStatusHistory list" where
  "trail fid hs = filter (\<lambda>h. FSH_FindingID h = fid) hs"

fun chain :: "FindingStatus option \<Rightarrow> FindingStatusHistory list \<Rightarrow> FindingStatus option \<Rightarrow> bool" where
  "chain s [] s' \<longleftrightarrow> s = s'"
| "chain s (h # hs) s' \<longleftrightarrow>
     FSH_FromStatus h = s \<and> s \<noteq> Some (FSH_ToStatus h) \<and> chain (Some (FSH_ToStatus h)) hs s'"

lemma chain_snoc:
  "chain s (hs @ [h]) s' \<longleftrightarrow> (\<exists>m. chain s hs m \<and> FSH_FromStatus h = m \<and> m \<noteq> Some (FSH_ToStatus h) \<and>
     s' = Some (FSH_ToStatus h))"
  by (induction hs arbitrary: s) auto

definition finding_ok :: "DDB \<Rightarrow> Finding \<Rightarrow> bool" where
  "finding_ok db f \<longleftrightarrow>
     FindingStatus_Valid (Finding_Status f) \<and>
     chain None (trail (Finding_ID f) (DDB_history db)) (Some (Finding_Status f)) \<and>
     (\<forall>h\<in>set (trail (Finding_ID f) (DDB_history db)). FSH_EngagementID h = Finding_EngagementID f)"

definition discussion_ok :: "gotime \<Rightarrow> DDB \<Rightarrow> bool" where
  "discussion_ok ts db \<longleftrightarrow>
     workbook_ok (DDB_workbook db) \<and>
     distinct (map Comment_ID (DDB_comments db)) \<and>
     distinct (map Revision_ID (DDB_revisions db)) \<and>
     distinct (map Finding_ID (DDB_findings db)) \<and>
     distinct (map FSH_ID (DDB_history db)) \<and>
     distinct (DDB_finding_steps db) \<and>
     (\<forall>c\<in>set (DDB_comments db). Comment_ExecutionID c \<in> Execution_ID ` set (EDB_executions (DDB_workbook db))) \<and>
     (\<forall>r\<in>set (DDB_revisions db). Revision_CommentID r \<in> Comment_ID ` set (DDB_comments db)) \<and>
     (\<forall>f\<in>set (DDB_findings db). Finding_EngagementID f \<in> Engagement_ID ` set (EDB_engagements (DDB_workbook db))) \<and>
     (\<forall>f\<in>set (DDB_findings db). finding_ok db f) \<and>
     (\<forall>h\<in>set (DDB_history db). FSH_FindingID h \<in> Finding_ID ` set (DDB_findings db)) \<and>
     (\<forall>(fid, s)\<in>set (DDB_finding_steps db). \<exists>f\<in>set (DDB_findings db).
        Finding_ID f = fid \<and> owns_step (DDB_workbook db) (Finding_EngagementID f) s) \<and>
     sorted (map FSH_ChangedAt (DDB_history db)) \<and> (\<forall>h\<in>set (DDB_history db). FSH_ChangedAt h \<le> ts) \<and>
     sorted (map Revision_EditedAt (DDB_revisions db)) \<and> (\<forall>r\<in>set (DDB_revisions db). Revision_EditedAt r \<le> ts)"

lemma discussion_ok_later: "discussion_ok ts db \<Longrightarrow> ts \<le> ts' \<Longrightarrow> discussion_ok ts' db"
  unfolding discussion_ok_def by (meson order_trans)

section \<open>The workbook only grows\<close>

definition rows_stay :: "EDB \<Rightarrow> EDB \<Rightarrow> bool" where
  "rows_stay w w' \<longleftrightarrow>
     Engagement_ID ` set (EDB_engagements w) \<subseteq> Engagement_ID ` set (EDB_engagements w') \<and>
     Execution_ID ` set (EDB_executions w) \<subseteq> Execution_ID ` set (EDB_executions w') \<and>
     (\<forall>e s. owns_scenario w e s \<longrightarrow> owns_scenario w' e s) \<and>
     (\<forall>e s. owns_step w e s \<longrightarrow> owns_step w' e s)"

lemma rows_stay_trans: "rows_stay a b \<Longrightarrow> rows_stay b c \<Longrightarrow> rows_stay a c"
  unfolding rows_stay_def by (meson order_trans)

lemma image_update_where:
  assumes "\<And>r. r \<in> set rows \<Longrightarrow> P r \<Longrightarrow> k (f r) = k r"
  shows "k ` set (update_where P f rows) = k ` set rows"
  unfolding set_update_where image_image using assms by (intro image_cong) auto

lemma book_event_rows_stay:
  assumes "book_event e w w'" shows "rows_stay w w'"
  using assms
proof cases
  case (scenario f)
  have keep: "Scenario_ID (f r) = Scenario_ID r \<and> Scenario_EngagementID (f r) = Scenario_EngagementID r"
    if "r \<in> set (EDB_scenarios w)" for r
    using that scenario by (auto simp: scenario_kept_def)
  have "owns_scenario w' a s" if own: "owns_scenario w a s" for a s
  proof -
    obtain r where "r \<in> set (EDB_scenarios w)" "Scenario_ID r = s" "Scenario_EngagementID r = a"
      using own by (auto simp: owns_scenario_def)
    then show ?thesis using keep scenario(1) unfolding owns_scenario_def by (intro bexI [of _ "f r"]) auto
  qed
  moreover have "EDB_steps w' = EDB_steps w" using scenario by simp
  ultimately show ?thesis using scenario(1) by (auto simp: rows_stay_def owns_step_def)
next
  case (step f)
  have keep: "Step_ID (f r) = Step_ID r \<and> Step_ScenarioID (f r) = Step_ScenarioID r" if "r \<in> set (EDB_steps w)" for r
    using that step by (auto simp: step_kept_def)
  have scen: "owns_scenario w' = owns_scenario w" using step by (intro ext) (simp add: owns_scenario_def)
  have "owns_step w' a s" if own: "owns_step w a s" for a s
  proof -
    obtain r where "r \<in> set (EDB_steps w)" "Step_ID r = s" "owns_scenario w a (Step_ScenarioID r)"
      using own by (auto simp: owns_step_def)
    then show ?thesis using keep step(1) scen unfolding owns_step_def by (intro bexI [of _ "f r"]) auto
  qed
  then show ?thesis using step(1) by (auto simp: rows_stay_def owns_scenario_def)
next
  case (execution xid f)
  have "Execution_ID (f x) = Execution_ID x" if "x \<in> set (EDB_executions w)" "Execution_ID x = xid" for x
    using that execution(3) by (auto simp: execution_patched_def)
  then have "Execution_ID ` set (EDB_executions w') = Execution_ID ` set (EDB_executions w)"
    using image_update_where [of "EDB_executions w" "\<lambda>x. Execution_ID x = xid" Execution_ID f] execution(1) by simp
  then show ?thesis using execution(1) by (auto simp: rows_stay_def owns_scenario_def owns_step_def)
next
  case (engagement f)
  then have "Engagement_ID ` set (EDB_engagements w') = Engagement_ID ` set (EDB_engagements w)"
    using image_update_where [of "EDB_engagements w" "\<lambda>r. Engagement_ID r = e" Engagement_ID f] by simp
  then show ?thesis using engagement(1) by (auto simp: rows_stay_def owns_scenario_def owns_step_def)
qed (auto simp: rows_stay_def owns_scenario_def owns_step_def)

lemma book_rows_stay: "book e w w' \<Longrightarrow> rows_stay w w'"
proof (induction rule: rtranclp_induct)
  case (step y z)
  then show ?case using book_event_rows_stay rows_stay_trans by blast
qed (simp add: rows_stay_def)

section \<open>The invariant is kept\<close>

lemma trail_append [simp]: "trail fid (hs @ hs') = trail fid hs @ trail fid hs'"
  by (simp add: trail_def)

lemma trail_one [simp]: "trail fid [h] = (if FSH_FindingID h = fid then [h] else [])"
  by (simp add: trail_def)

lemma trail_delete:
  "trail fid (delete_where (\<lambda>h. FSH_FindingID h = k) hs) = (if k = fid then [] else trail fid hs)"
  by (induction hs) (auto simp: trail_def delete_where_def)

lemma sorted_delete_where: "sorted (map k rows) \<Longrightarrow> sorted (map k (delete_where P rows))"
  unfolding delete_where_def by (rule sorted_filter)

lemma sorted_snoc: "sorted (map k rows) \<Longrightarrow> \<forall>r\<in>set rows. k r \<le> k x \<Longrightarrow> sorted (map k (rows @ [x]))"
  by (simp add: sorted_append)

lemma finding_row_unique:
  "discussion_ok ts db \<Longrightarrow> f \<in> set (DDB_findings db) \<Longrightarrow> f' \<in> set (DDB_findings db) \<Longrightarrow>
   Finding_ID f = Finding_ID f' \<Longrightarrow> f = f'"
  by (auto simp: discussion_ok_def distinct_map dest: inj_onD)

lemma comment_row_unique:
  "discussion_ok ts db \<Longrightarrow> c \<in> set (DDB_comments db) \<Longrightarrow> c' \<in> set (DDB_comments db) \<Longrightarrow>
   Comment_ID c = Comment_ID c' \<Longrightarrow> c = c'"
  by (auto simp: discussion_ok_def distinct_map dest: inj_onD)

lemma finding_ok_cong: "DDB_history db' = DDB_history db \<Longrightarrow> finding_ok db' = finding_ok db"
  by (intro ext) (simp add: finding_ok_def)

lemma no_trail: "discussion_ok ts db \<Longrightarrow> fid \<notin> Finding_ID ` set (DDB_findings db) \<Longrightarrow> trail fid (DDB_history db) = []"
  unfolding discussion_ok_def trail_def filter_empty_conv by blast

text \<open>The rows of a table of findings, one of them rewritten.\<close>

abbreviation keeps_finding :: "string \<Rightarrow> (Finding \<Rightarrow> Finding) \<Rightarrow> Finding list \<Rightarrow> bool" where
  "keeps_finding fid g rows \<equiv> \<forall>f\<in>set rows. Finding_ID f = fid \<longrightarrow> finding_kept f (g f)"

lemma finding_ids_update:
  "keeps_finding fid g rows \<Longrightarrow>
   map Finding_ID (update_where (\<lambda>f. Finding_ID f = fid) g rows) = map Finding_ID rows"
  by (auto simp: update_where_def finding_kept_def)

lemma finding_update_in:
  assumes "keeps_finding fid g rows" "f' \<in> set (update_where (\<lambda>f. Finding_ID f = fid) g rows)"
  shows "\<exists>f\<in>set rows. f' = (if Finding_ID f = fid then g f else f) \<and> finding_kept f f'"
  using assms by (auto simp: table_simps finding_kept_def)

lemma links_update:
  assumes "keeps_finding fid g rows"
    and "\<exists>f\<in>set rows. Finding_ID f = k \<and> P (Finding_EngagementID f)"
  shows "\<exists>f\<in>set (update_where (\<lambda>f. Finding_ID f = fid) g rows). Finding_ID f = k \<and> P (Finding_EngagementID f)"
proof -
  obtain f where "f \<in> set rows" "Finding_ID f = k \<and> P (Finding_EngagementID f)" using assms(2) by blast
  then show ?thesis using assms(1)
    by (intro bexI [of _ "if Finding_ID f = fid then g f else f"]) (auto simp: finding_kept_def table_simps)
qed

lemma disc_event_ok:
  assumes ev: "disc_event ts db db'" and ok: "discussion_ok ts db"
  shows "discussion_ok ts db'"
  using ev
proof cases
  case (workbook e w)
  have stay: "rows_stay (DDB_workbook db) w" using workbook(2) by (rule book_rows_stay)
  have "workbook_ok w" using workbook(2) ok by (auto simp: discussion_ok_def intro: book_ok)
  moreover have "\<forall>c\<in>set (DDB_comments db). Comment_ExecutionID c \<in> Execution_ID ` set (EDB_executions w)"
    using ok stay by (simp add: discussion_ok_def rows_stay_def subset_iff)
  moreover have "\<forall>f\<in>set (DDB_findings db). Finding_EngagementID f \<in> Engagement_ID ` set (EDB_engagements w)"
    using ok stay by (simp add: discussion_ok_def rows_stay_def subset_iff)
  moreover have "\<forall>(fid, s)\<in>set (DDB_finding_steps db). \<exists>f\<in>set (DDB_findings db).
      Finding_ID f = fid \<and> owns_step w (Finding_EngagementID f) s"
    using ok stay unfolding discussion_ok_def rows_stay_def by fast
  ultimately show ?thesis using ok workbook(1) finding_ok_cong [of db' db]
    by (simp add: discussion_ok_def)
next
  case (comment_new c)
  then show ?thesis using ok finding_ok_cong [of db' db] by (auto simp: discussion_ok_def)
next
  case (comment_edit c cid r body)
  define edit where "edit = (\<lambda>c. c\<lparr>Comment_Body := body, Comment_EditedAt := Some ts\<rparr> :: Comment)"
  have tables: "db' = db\<lparr>DDB_comments := update_where (\<lambda>c. Comment_ID c = cid) edit (DDB_comments db),
      DDB_revisions := DDB_revisions db @ [r]\<rparr>"
    using comment_edit(1) by (simp add: edit_def)
  have ids: "map Comment_ID (DDB_comments db') = map Comment_ID (DDB_comments db)"
    by (simp add: tables edit_def table_simps)
  have idset: "Comment_ID ` set (DDB_comments db') = Comment_ID ` set (DDB_comments db)"
    by (metis ids set_map)
  have exec: "\<forall>c\<in>set (DDB_comments db'). Comment_ExecutionID c \<in> Execution_ID ` set (EDB_executions (DDB_workbook db))"
    using ok by (auto simp: tables edit_def all_update_where discussion_ok_def)
  have revs: "\<forall>x\<in>set (DDB_revisions db'). Revision_CommentID x \<in> Comment_ID ` set (DDB_comments db')"
    using ok comment_edit(2,3,5) unfolding idset by (auto simp: tables discussion_ok_def)
  have times: "sorted (map Revision_EditedAt (DDB_revisions db'))" "\<forall>x\<in>set (DDB_revisions db'). Revision_EditedAt x \<le> ts"
    using ok comment_edit(7) by (auto simp: tables discussion_ok_def sorted_append)
  have "distinct (map Revision_ID (DDB_revisions db'))"
    using ok comment_edit(4) by (auto simp: tables discussion_ok_def)
  then show ?thesis using ok exec revs times ids finding_ok_cong [of db' db]
    by (simp add: discussion_ok_def tables)
next
  case (finding_new f h)
  have none: "trail (Finding_ID f) (DDB_history db) = []" by (rule no_trail [OF ok finding_new(2)])
  have other: "finding_ok db' x" if "x \<in> set (DDB_findings db)" for x
  proof -
    have "Finding_ID x \<noteq> Finding_ID f" using that finding_new(2) by (metis imageI)
    then show ?thesis using that ok finding_new by (auto simp: discussion_ok_def finding_ok_def)
  qed
  have new: "finding_ok db' f"
    using none finding_new by (simp add: finding_ok_def FindingStatus_Valid_def)
  have "\<exists>x\<in>set (DDB_findings db'). Finding_ID x = fid \<and> owns_step (DDB_workbook db') (Finding_EngagementID x) s"
    if "(fid, s) \<in> set (DDB_finding_steps db')" for fid s
    using that ok finding_new(1) unfolding discussion_ok_def by auto
  then show ?thesis using ok other new finding_new
    by (auto simp: discussion_ok_def sorted_append)
next
  case (finding_patch fid g)
  have kept: "keeps_finding fid g (DDB_findings db)" using finding_patch(2) by blast
  have tables: "DDB_findings db' = update_where (\<lambda>f. Finding_ID f = fid) g (DDB_findings db)"
    by (simp add: finding_patch(1))
  have ids: "map Finding_ID (DDB_findings db') = map Finding_ID (DDB_findings db)"
    unfolding tables by (rule finding_ids_update [OF kept])
  have idset: "Finding_ID ` set (DDB_findings db') = Finding_ID ` set (DDB_findings db)" by (metis ids set_map)
  have rows: "finding_ok db' x \<and> Finding_EngagementID x \<in> Engagement_ID ` set (EDB_engagements (DDB_workbook db))"
    if x_in: "x \<in> set (DDB_findings db')" for x
  proof -
    obtain f where f: "f \<in> set (DDB_findings db)" "x = (if Finding_ID f = fid then g f else f)" "finding_kept f x"
      using finding_update_in [OF kept, of x] x_in tables by metis
    moreover have "Finding_Status x = Finding_Status f" using f(1,2) finding_patch(2) by auto
    ultimately show ?thesis
      using ok finding_patch(1) unfolding discussion_ok_def finding_ok_def finding_kept_def by auto
  qed
  have links: "\<exists>x\<in>set (DDB_findings db'). Finding_ID x = k \<and> owns_step (DDB_workbook db) (Finding_EngagementID x) s"
    if "(k, s) \<in> set (DDB_finding_steps db)" for k s
    using links_update [OF kept, of k "\<lambda>e. owns_step (DDB_workbook db) e s"] that ok
    unfolding tables discussion_ok_def by blast
  show ?thesis using ok rows links ids idset finding_patch(1) unfolding discussion_ok_def by auto
next
  case (finding_move f fid h g)
  have kept: "keeps_finding fid g (DDB_findings db)" using finding_move(11) by blast
  have tables: "DDB_findings db' = update_where (\<lambda>f. Finding_ID f = fid) g (DDB_findings db)"
    by (simp add: finding_move(1))
  have ids: "map Finding_ID (DDB_findings db') = map Finding_ID (DDB_findings db)"
    unfolding tables by (rule finding_ids_update [OF kept])
  have idset: "Finding_ID ` set (DDB_findings db') = Finding_ID ` set (DDB_findings db)" by (metis ids set_map)
  have rows: "finding_ok db' x \<and> Finding_EngagementID x \<in> Engagement_ID ` set (EDB_engagements (DDB_workbook db))"
    if x_in: "x \<in> set (DDB_findings db')" for x
  proof -
    obtain y where y: "y \<in> set (DDB_findings db)" "x = (if Finding_ID y = fid then g y else y)" "finding_kept y x"
      using finding_update_in [OF kept, of x] x_in tables by metis
    have y_ok: "finding_ok db y" "Finding_EngagementID y \<in> Engagement_ID ` set (EDB_engagements (DDB_workbook db))"
      using ok y(1) by (auto simp: discussion_ok_def)
    show ?thesis
    proof (cases "Finding_ID y = fid")
      case True
      then have "y = f" using finding_row_unique [OF ok y(1) finding_move(2)] finding_move(3) by simp
      then show ?thesis using True y y_ok finding_move kept
        by (auto simp: finding_ok_def finding_kept_def chain_snoc)
    next
      case False
      then show ?thesis using y y_ok finding_move(1,5) by (auto simp: finding_ok_def)
    qed
  qed
  have links: "\<exists>x\<in>set (DDB_findings db'). Finding_ID x = k \<and> owns_step (DDB_workbook db) (Finding_EngagementID x) s"
    if "(k, s) \<in> set (DDB_finding_steps db)" for k s
    using links_update [OF kept, of k "\<lambda>e. owns_step (DDB_workbook db) e s"] that ok
    unfolding tables discussion_ok_def by blast
  have hist: "distinct (map FSH_ID (DDB_history db'))" "sorted (map FSH_ChangedAt (DDB_history db'))"
    "\<forall>x\<in>set (DDB_history db'). FSH_ChangedAt x \<le> ts"
    "\<forall>x\<in>set (DDB_history db'). FSH_FindingID x \<in> Finding_ID ` set (DDB_findings db')"
    using ok finding_move unfolding idset by (auto simp: discussion_ok_def sorted_append)
  show ?thesis using ok rows links ids hist finding_move(1) unfolding discussion_ok_def by auto
next
  case (finding_gone fid)
  have rows: "finding_ok db' x" if "x \<in> set (DDB_findings db')" for x
    using that ok finding_gone by (auto simp: discussion_ok_def finding_ok_def trail_delete table_simps)
  have links: "\<exists>x\<in>set (DDB_findings db'). Finding_ID x = k \<and> owns_step (DDB_workbook db) (Finding_EngagementID x) s"
    if "(k, s) \<in> set (DDB_finding_steps db')" for k s
  proof -
    have "(k, s) \<in> set (DDB_finding_steps db)" "k \<noteq> fid" using that finding_gone by (auto simp: table_simps)
    then show ?thesis using ok finding_gone unfolding discussion_ok_def by (auto simp: table_simps)
  qed
  have "distinct (DDB_finding_steps db')"
    using ok finding_gone by (simp add: delete_where_def discussion_ok_def)
  moreover have "DDB_workbook db' = DDB_workbook db" "DDB_comments db' = DDB_comments db"
    "DDB_revisions db' = DDB_revisions db" using finding_gone by simp_all
  moreover have "\<forall>h\<in>set (DDB_history db'). FSH_FindingID h \<in> Finding_ID ` set (DDB_findings db')"
    using ok finding_gone unfolding discussion_ok_def by (auto simp: table_simps)
  ultimately show ?thesis using ok rows links finding_gone
    unfolding discussion_ok_def
    by (auto simp: table_simps intro: distinct_delete_where sorted_delete_where)
next
  case (links f fid sids)
  have "distinct (DDB_finding_steps db')"
    using ok links(1,4) by (auto simp: discussion_ok_def delete_where_def distinct_map inj_on_def)
  moreover have "\<exists>x\<in>set (DDB_findings db). Finding_ID x = k \<and> owns_step (DDB_workbook db) (Finding_EngagementID x) s"
    if "(k, s) \<in> set (DDB_finding_steps db')" for k s
    using that ok links unfolding discussion_ok_def by (auto simp: table_simps)
  ultimately show ?thesis using ok links(1) finding_ok_cong [of db' db]
    unfolding discussion_ok_def by auto
qed

lemma disc_ok: "disc ts db db' \<Longrightarrow> discussion_ok ts db \<Longrightarrow> discussion_ok ts db'"
  by (induction rule: rtranclp_induct) (auto intro: disc_event_ok)

end
