(* ===== verification/Discussion_Props.thy ===== *)
theory Discussion_Props
  imports Discussion_Inv
begin

text \<open>
  Every request on comments and findings refines the events of \<open>Discussion_Inv\<close> (the lemmas \<open>_disc\<close>),
  and what follows for any sequence of requests: a finding's status history replays to its status,
  no body of a comment is lost, a finding links only to steps of its own engagement. The rest is the
  gate of a comment edit, and what a reader held to blind mode is shown.
\<close>

section \<open>Requests as events\<close>

named_theorems disc_intros \<open>how a request's effect is built from events\<close>

lemma disc_refl [disc_intros]: "disc ts db db"
  by simp

lemma disc_one: "disc_event ts db db' \<Longrightarrow> disc ts db db'"
  by (rule r_into_rtranclp)

lemma disc_record [disc_intros]: "disc ts db db' \<Longrightarrow> disc ts db (DDB_recordAlone svc x db')"
  unfolding DDB_recordAlone_def
  by (rule rtranclp.rtrancl_into_rtrancl) (auto intro: disc_event.workbook book_record book_refl)

lemma disc_record_comment [disc_intros]:
  "disc ts db db' \<Longrightarrow> disc ts db (recordCommentActivity svc a e x i v d db')"
  unfolding recordCommentActivity_def by (rule disc_record)

lemma disc_record_finding [disc_intros]:
  "disc ts db db' \<Longrightarrow> disc ts db (recordFindingActivity svc a e i v d db')"
  unfolding recordFindingActivity_def by (rule disc_record)

lemma insert_row_Inr: "insert_row key r rows = Inr rows' \<longleftrightarrow> key r \<notin> key ` set rows \<and> rows' = rows @ [r]"
  by (auto simp: insert_row_def)

lemma insert_history_Inr:
  "insert_history h rows = Inr rows' \<longleftrightarrow>
   FSH_ID h \<notin> FSH_ID ` set rows \<and> FindingStatus_Valid (FSH_ToStatus h) \<and> rows' = rows @ [h]"
  by (auto simp: insert_history_def insert_row_def)

lemma Comments_Create_disc: "disc (toStorage c) db (snd (Comments_Create i c n [] db))"
  unfolding Comments_Create_def Let_def insert_row_def
  by (auto intro!: disc_one disc_event.comment_new)

lemma CreateComment_disc: "disc (toStorage c) db (snd (CreateComment svc i c a e x body db))"
  using Comments_Create_disc [of c db i "\<lparr>NewComment_ExecutionID = x, NewComment_AuthorID = a, NewComment_Body = body\<rparr>"]
  unfolding CreateComment_def by (auto intro: disc_intros split: option.split prod.split sum.split)

lemma CreateComment_handler_disc: "disc (toStorage c) db (snd (CreateComment_handler svc i c actor auth e x body db))"
  unfolding CreateComment_handler_def by (auto intro: disc_intros CreateComment_disc split: option.split)

lemma Comments_Edit_cases:
  "(fst (Comments_Edit i c cid a body db) = Inl err \<longrightarrow> snd (Comments_Edit i c cid a body db) = db) \<and>
   (fst (Comments_Edit i c cid a body db) = Inr (x, r) \<longrightarrow>
     (\<exists>cur. select1 (\<lambda>c. Comment_ID c = cid) (DDB_comments db) = Some cur \<and>
       x = cur\<lparr>Comment_Body := body, Comment_EditedAt := Some (toStorage c)\<rparr> \<and>
       r = \<lparr>Revision_ID = i, Revision_CommentID = cid, Revision_Body = Comment_Body cur, Revision_EditedBy = a,
            Revision_EditedAt = toStorage c\<rparr> \<and>
       i \<notin> Revision_ID ` set (DDB_revisions db) \<and>
       snd (Comments_Edit i c cid a body db) =
         db\<lparr>DDB_comments := update_where (\<lambda>c. Comment_ID c = cid)
              (\<lambda>x. x\<lparr>Comment_Body := body, Comment_EditedAt := Some (toStorage c)\<rparr>) (DDB_comments db),
            DDB_revisions := DDB_revisions db @ [r]\<rparr>))"
proof (cases "select1 (\<lambda>c. Comment_ID c = cid) (DDB_comments db)")
  case (Some cur)
  then have "count_where (\<lambda>c. Comment_ID c = cid) (DDB_comments db) \<noteq> 0"
    by (auto simp: count_where_0 dest: select1_Some)
  moreover have "Comment_ID cur = cid" using Some by (auto dest: select1_Some)
  moreover have "select1 (\<lambda>c. Comment_ID c = cid) (update_where (\<lambda>c. Comment_ID c = cid)
      (\<lambda>x. x\<lparr>Comment_Body := body, Comment_EditedAt := Some (toStorage c)\<rparr>) (DDB_comments db)) =
    Some (cur\<lparr>Comment_Body := body, Comment_EditedAt := Some (toStorage c)\<rparr>)"
    using Some \<open>Comment_ID cur = cid\<close> by (subst select1_update_where) auto
  ultimately show ?thesis using Some
    by (auto simp: Comments_Edit_def Let_def workbook_requireOneRow_def insert_row_def)
qed (simp add: Comments_Edit_def)

lemma Comments_Edit_disc: "disc (toStorage c) db (snd (Comments_Edit i c cid a body db))"
proof (cases "fst (Comments_Edit i c cid a body db)")
  case (Inl err)
  then show ?thesis using Comments_Edit_cases [of i c cid a body db err] by (auto intro: disc_intros)
next
  case (Inr p)
  then obtain x r where "fst (Comments_Edit i c cid a body db) = Inr (x, r)" by (cases p) auto
  then obtain cur where cur: "select1 (\<lambda>c. Comment_ID c = cid) (DDB_comments db) = Some cur"
    and r: "r = \<lparr>Revision_ID = i, Revision_CommentID = cid, Revision_Body = Comment_Body cur, Revision_EditedBy = a,
            Revision_EditedAt = toStorage c\<rparr>" "i \<notin> Revision_ID ` set (DDB_revisions db)"
    and db': "snd (Comments_Edit i c cid a body db) =
         db\<lparr>DDB_comments := update_where (\<lambda>c. Comment_ID c = cid)
              (\<lambda>x. x\<lparr>Comment_Body := body, Comment_EditedAt := Some (toStorage c)\<rparr>) (DDB_comments db),
            DDB_revisions := DDB_revisions db @ [r]\<rparr>"
    using Comments_Edit_cases [of i c cid a body db] by blast
  show ?thesis unfolding db' using select1_Some [OF cur] r
    by (intro disc_one disc_event.comment_edit [where c = cur]) auto
qed

lemma EditComment_disc: "disc (toStorage c) db (snd (EditComment svc i c a inp db))"
  using Comments_Edit_disc [of c db i "EditCommentInput_CommentID inp" a "EditCommentInput_Body inp"]
  unfolding EditComment_def by (auto intro: disc_intros split: option.split prod.split sum.split)

lemma PatchComment_handler_disc: "disc (toStorage c) db (snd (PatchComment_handler svc i c actor auth e cid body db))"
  unfolding PatchComment_handler_def by (auto intro: disc_intros EditComment_disc split: option.split sum.split)

lemma Findings_Create_disc: "disc (toStorage c) db (snd (Findings_Create i hid c n [] db))"
  unfolding Findings_Create_def
  by (auto simp: Let_def insert_row_Inr insert_history_Inr split: sum.split
      intro!: disc_one disc_event.finding_new)

lemma CreateFinding_disc: "disc (toStorage c) db (snd (CreateFinding svc i hid c a inp db))"
proof -
  have "disc (toStorage c) db db'" if "Findings_Create i hid c n [] db = (r, db')" for n r db'
    using Findings_Create_disc [of c db i hid n] that by simp
  then show ?thesis unfolding CreateFinding_def
    by (auto simp: Let_def intro!: disc_intros split: sum.split prod.split)
qed

lemma Findings_Update_disc:
  assumes ok: "discussion_ok ts db"
  shows "disc (toStorage c) db (snd (Findings_Update hid c fid inp [] db))"
proof (cases "select1 (\<lambda>f. Finding_ID f = fid) (DDB_findings db)")
  case (Some cur)
  have cur: "cur \<in> set (DDB_findings db)" "Finding_ID cur = fid" using select1_Some [OF Some] by auto
  have only: "f = cur" if "f \<in> set (DDB_findings db)" "Finding_ID f = fid" for f
    using finding_row_unique [OF ok that(1) cur(1)] that(2) cur(2) by simp
  let ?g = "finding_sets (toStorage c) inp"
  have kept: "finding_kept f (?g f)" for f by (simp add: finding_kept_def finding_sets_def)
  show ?thesis
  proof (cases "PatchFinding_Status inp \<noteq> [] \<and> PatchFinding_Status inp \<noteq> Finding_Status cur")
    case True
    then show ?thesis using Some cur kept
      by (auto simp: Findings_Update_def Let_def insert_history_Inr finding_sets_def nonempty_or_def finding_kept_def
          split: sum.split option.split if_splits intro!: disc_one disc_event.finding_move [where f = cur])
  next
    case False
    then have same: "Finding_Status (?g f) = Finding_Status f" if "f \<in> set (DDB_findings db)" "Finding_ID f = fid" for f
      using only [OF that] by (auto simp: finding_sets_def nonempty_or_def)
    have "disc (toStorage c) db (db\<lparr>DDB_findings := update_where (\<lambda>f. Finding_ID f = fid) ?g (DDB_findings db)\<rparr>)"
      using same kept by (intro disc_one disc_event.finding_patch) auto
    then show ?thesis using Some False
      by (auto simp: Findings_Update_def Let_def split: option.split)
  qed
qed (simp add: Findings_Update_def)

lemma UpdateFinding_disc:
  assumes "discussion_ok ts db" shows "disc (toStorage c) db (snd (UpdateFinding svc hid c a fid inp db))"
  using Findings_Update_disc [OF assms, of c hid fid "finding_patch a inp"]
  unfolding UpdateFinding_def by (auto intro: disc_intros split: sum.split prod.split)

lemma Findings_Delete_disc: "disc ts db (snd (Findings_Delete fid [] db))"
proof (cases "count_where (\<lambda>f. Finding_ID f = fid) (DDB_findings db) = 0")
  case True
  then have "delete_where (\<lambda>f. Finding_ID f = fid) (DDB_findings db) = DDB_findings db"
    by (simp add: count_where_0 delete_where_def filter_id_conv)
  then show ?thesis using True disc_event.finding_gone [of ts db fid]
    by (auto simp: Findings_Delete_def Let_def workbook_requireOneRow_def intro!: disc_one)
next
  case False
  then show ?thesis using disc_event.finding_gone [of ts db fid]
    by (auto simp: Findings_Delete_def Let_def workbook_requireOneRow_def intro!: disc_one)
qed

lemma DeleteFinding_disc: "disc ts db (snd (DeleteFinding svc a fid db))"
  using Findings_Delete_disc [of ts db fid]
  unfolding DeleteFinding_def by (auto intro: disc_intros split: sum.split prod.split option.split)

lemma check_steps_None: "check_steps e ids w = None \<Longrightarrow> s \<in> set ids \<Longrightarrow> owns_step w e s"
proof (induction ids)
  case (Cons a ids)
  obtain row where row: "Steps_ByID a w = Inr row" using Cons.prems(1) by (cases "Steps_ByID a w") auto
  obtain sc where sc: "Scenarios_ByID (Step_ScenarioID row) w = Inr sc"
    using Cons.prems(1) row by (cases "Scenarios_ByID (Step_ScenarioID row) w") auto
  have rest: "Scenario_EngagementID sc = e" "check_steps e ids w = None"
    using Cons.prems(1) row sc by (auto split: if_splits)
  have "owns_step w e a"
    using Steps_ByID_Inr [OF row] Scenarios_ByID_Inr [OF sc] rest(1)
    unfolding owns_step_def owns_scenario_def by blast
  then show ?case using Cons rest(2) by auto
qed simp

lemma SetSteps_loop_Inr:
  "SetSteps_loop db fid ids links = Inr links' \<Longrightarrow>
   links' = links @ map (Pair fid) ids \<and> distinct ids \<and> (\<forall>s\<in>set ids. (fid, s) \<notin> set links)"
proof (induction ids arbitrary: links)
  case (Cons a ids)
  have new: "(fid, a) \<notin> set links" "SetSteps_loop db fid ids (links @ [(fid, a)]) = Inr links'"
    using Cons.prems by (auto simp: insert_link_def split: if_splits)
  show ?case using Cons.IH [OF new(2)] new(1) by auto
qed simp

lemma Findings_ByID_Inr: "Findings_ByID fid db = Inr f \<Longrightarrow> f \<in> set (DDB_findings db) \<and> Finding_ID f = fid"
  by (auto simp: Findings_ByID_def split: option.splits dest: select1_Some)

lemma SetFindingSteps_effect:
  "SetFindingSteps svc a fid ids db = (r, db') \<Longrightarrow>
   (if r = None then \<exists>f. Findings_ByID fid db = Inr f \<and> distinct ids \<and>
        (\<forall>s\<in>set ids. owns_step (DDB_workbook db) (Finding_EngagementID f) s) \<and>
        db' = recordFindingActivity svc a (Finding_EngagementID f) fid VerbFindingStepsChanged []
                (db\<lparr>DDB_finding_steps := delete_where (\<lambda>l. fst l = fid) (DDB_finding_steps db) @ map (Pair fid) ids\<rparr>)
    else db' = db)"
  unfolding SetFindingSteps_def Findings_SetSteps_def
  by (auto split: sum.splits option.splits dest: SetSteps_loop_Inr check_steps_None)

lemma SetFindingSteps_disc: "disc ts db (snd (SetFindingSteps svc a fid ids db))"
proof -
  obtain r db' where eq: "SetFindingSteps svc a fid ids db = (r, db')" by force
  show ?thesis
  proof (cases r)
    case None
    then obtain f where f: "Findings_ByID fid db = Inr f" "distinct ids"
      "\<forall>s\<in>set ids. owns_step (DDB_workbook db) (Finding_EngagementID f) s"
      "db' = recordFindingActivity svc a (Finding_EngagementID f) fid VerbFindingStepsChanged []
         (db\<lparr>DDB_finding_steps := delete_where (\<lambda>l. fst l = fid) (DDB_finding_steps db) @ map (Pair fid) ids\<rparr>)"
      using SetFindingSteps_effect [OF eq] by auto
    have "disc ts db (db\<lparr>DDB_finding_steps :=
        delete_where (\<lambda>l. fst l = fid) (DDB_finding_steps db) @ map (Pair fid) ids\<rparr>)"
      using Findings_ByID_Inr [OF f(1)] f(2,3) by (intro disc_one disc_event.links [of f]) auto
    then show ?thesis unfolding eq snd_conv f(4) by (rule disc_record_finding)
  next
    case (Some err)
    then show ?thesis using SetFindingSteps_effect [OF eq] by (simp add: eq)
  qed
qed

section \<open>One request after another\<close>

text \<open>A configuration is the clock and the database; the clock does not go backwards.\<close>

inductive discussed :: "Workbook_Service \<Rightarrow> gotime \<times> DDB \<Rightarrow> gotime \<times> DDB \<Rightarrow> bool" for svc where
  workbook: "workbook_any svc (DDB_workbook db) w \<Longrightarrow> discussed svc (t, db) (t, db\<lparr>DDB_workbook := w\<rparr>)"
| create_comment: "t \<le> t' \<Longrightarrow>
    discussed svc (t, db) (t', snd (CreateComment_handler svc i t' actor auth e x body db))"
| patch_comment: "t \<le> t' \<Longrightarrow>
    discussed svc (t, db) (t', snd (PatchComment_handler svc i t' actor auth e cid body db))"
| create_finding: "t \<le> t' \<Longrightarrow> discussed svc (t, db) (t', snd (CreateFinding svc i hid t' a cf db))"
| update_finding: "t \<le> t' \<Longrightarrow> discussed svc (t, db) (t', snd (UpdateFinding svc hid t' a fid uf db))"
| delete_finding: "discussed svc (t, db) (t, snd (DeleteFinding svc a fid db))"
| set_steps: "discussed svc (t, db) (t, snd (SetFindingSteps svc a fid ids db))"

lemma toStorage_mono: "t \<le> t' \<Longrightarrow> toStorage t \<le> toStorage t'"
  by (simp add: toStorage_def Truncate_mono)

lemma discussed_disc:
  assumes "discussed svc x y" "discussion_ok (toStorage (fst x)) (snd x)"
  shows "fst x \<le> fst y \<and> disc (toStorage (fst y)) (snd x) (snd y)"
  using assms(1)
proof cases
  case (workbook db w t)
  have "workbook_ok (DDB_workbook db)" using assms(2) workbook(1) by (simp add: discussion_ok_def)
  then have "\<exists>e. book e (DDB_workbook db) w"
    using workbook(3) workbook_step_book unfolding workbook_any_def by blast
  then show ?thesis using workbook(1,2) by (auto intro: disc_one disc_event.workbook)
next
  case (update_finding t t' hid db a fid uf)
  then show ?thesis using assms(2) by (auto intro: UpdateFinding_disc)
qed (auto intro: CreateComment_handler_disc PatchComment_handler_disc CreateFinding_disc DeleteFinding_disc
      SetFindingSteps_disc)

lemma discussed_step_ok:
  assumes "discussed svc x y" "discussion_ok (toStorage (fst x)) (snd x)"
  shows "discussion_ok (toStorage (fst y)) (snd y)"
proof -
  have "discussion_ok (toStorage (fst y)) (snd x)"
    using discussed_disc [OF assms] assms(2) toStorage_mono discussion_ok_later by blast
  then show ?thesis using discussed_disc [OF assms] disc_ok by blast
qed

lemma discussed_ok:
  "(discussed svc)\<^sup>*\<^sup>* x y \<Longrightarrow> discussion_ok (toStorage (fst x)) (snd x) \<Longrightarrow> discussion_ok (toStorage (fst y)) (snd y)"
  by (induction rule: rtranclp_induct) (auto intro: discussed_step_ok)

text \<open>Induction over a run, event by event.\<close>

lemma discussed_induct [consumes 2, case_names refl event]:
  assumes run: "(discussed svc)\<^sup>*\<^sup>* x y" and ok: "discussion_ok (toStorage (fst x)) (snd x)" and base: "P (snd x)"
    and event: "\<And>ts d d'. discussion_ok ts d \<Longrightarrow> P d \<Longrightarrow> disc_event ts d d' \<Longrightarrow> P d'"
  shows "P (snd y)"
  using run
proof (induction rule: rtranclp_induct)
  case (step y z)
  have ok_y: "discussion_ok (toStorage (fst y)) (snd y)" by (rule discussed_ok [OF step(1) ok])
  have d: "fst y \<le> fst z" "disc (toStorage (fst z)) (snd y) (snd z)"
    using discussed_disc [OF step(2) ok_y] by simp_all
  have "discussion_ok (toStorage (fst z)) (snd y)"
    using ok_y d(1) toStorage_mono discussion_ok_later by blast
  with d(2) have "discussion_ok (toStorage (fst z)) (snd z) \<and> P (snd z)"
    using step(3)
  proof (induction rule: rtranclp_induct)
    case (step a b)
    then show ?case using event disc_event_ok by blast
  qed simp
  then show ?case ..
qed (rule base)

section \<open>Listings of sorted tables\<close>

lemma sort_key_sorted: "sorted (map k xs) \<Longrightarrow> sort_key k xs = xs"
proof (induction xs)
  case (Cons x xs)
  then have "insort_key k x xs = x # xs" by (cases xs) auto
  then show ?case using Cons by simp
qed simp

lemma StatusHistory_rows:
  "discussion_ok ts db \<Longrightarrow>
   Findings_StatusHistory e db = filter (\<lambda>h. FSH_EngagementID h = e) (DDB_history db)"
  unfolding Findings_StatusHistory_def discussion_ok_def by (intro sort_key_sorted sorted_filter) blast

lemma Revisions_rows:
  "discussion_ok ts db \<Longrightarrow>
   Comments_Revisions cid db = filter (\<lambda>r. Revision_CommentID r = cid) (DDB_revisions db)"
  unfolding Comments_Revisions_def discussion_ok_def by (intro sort_key_sorted sorted_filter) blast

end
