(* ===== verification/Evidence.thy ===== *)
theory Evidence
  imports Discussion_Props Second_Factor Go_Text
begin

text \<open>
  Evidence: the content-addressed blob store (internal/evidence/store.go) over the tables of
  \<open>Discussion_Store\<close>, and the handlers that upload and delete (internal/httpapi/evidencehandlers.go,
  \<open>enforceEvidenceSide\<close> and \<open>canDeleteEvidence\<close> of ownership.go). The disk is an association list
  from paths below the store's root to bytes; the temporary file an upload is first written to is
  gone when \<open>Put\<close> returns and is left out, as are failures of the disk. SHA-256 in hex and
  \<open>http.DetectContentType\<close> are arguments.
\<close>

section \<open>The blob store (store.go)\<close>

type_synonym disk = "(string \<times> string) list"

record EVS =
  EVS_disk :: disk
  EVS_db :: DDB

record Evidence_config =
  MaxUploadBytes :: int
  MaxEngagementBytes :: int

definition blobPath :: "string \<Rightarrow> string" where
  "blobPath sha = (if length sha < 2 then ''blobs/'' @ sha else ''blobs/'' @ take 2 sha @ ''/'' @ sha)"

datatype put_error = ErrTooLarge int int | ErrEngagementQuota int int int | ErrPut error

text \<open>The bytes a limited reader lets through: one more than the limit tells that there were more.\<close>

definition limited :: "int \<Rightarrow> string \<Rightarrow> string" where
  "limited limit src = take (nat (limit + 1)) src"

definition Put :: "(string \<Rightarrow> string) \<Rightarrow> Evidence_config \<Rightarrow> gotime \<Rightarrow> string \<Rightarrow> string \<Rightarrow> string \<Rightarrow> EVS \<Rightarrow>
    (put_error + (string \<times> bool \<times> int)) \<times> EVS" where
  "Put digest cfg clock src mime engagementID st =
     (let bytes = limited (MaxUploadBytes cfg) src;
          written = int (length bytes);
          sha = digest bytes;
          final = blobPath sha;
          db = EVS_db st
      in if written > MaxUploadBytes cfg then (Inl (ErrTooLarge (MaxUploadBytes cfg) written), st)
         else if written = 0 then (Inl (ErrPut (ErrorsNew ''evidence: put: empty file'')), st)
         else if map_of (EVS_disk st) final \<noteq> None
         then (case IncrementRef sha db of
                 (Some err, db') \<Rightarrow> (Inl (ErrPut (ErrorfW (''evidence: put: increment ref '' @ Quote sha) err)), st\<lparr>EVS_db := db'\<rparr>)
               | (None, db') \<Rightarrow> (Inr (sha, True, written), st\<lparr>EVS_db := db'\<rparr>))
         else if MaxEngagementBytes cfg > 0 \<and>
                 EngagementBlobBytes engagementID db + written > MaxEngagementBytes cfg
         then (Inl (ErrEngagementQuota (MaxEngagementBytes cfg) (EngagementBlobBytes engagementID db) written), st)
         else
           (let disk = AList.update final bytes (EVS_disk st)
            in case InsertBlob clock sha mime final written db of
                 (Some err, db') \<Rightarrow> (Inl (ErrPut (ErrorfW ''evidence: put: insert blob'' err)),
                                   \<lparr>EVS_disk = AList.delete final disk, EVS_db = db'\<rparr>)
               | (None, db') \<Rightarrow> (Inr (sha, False, written), \<lparr>EVS_disk = disk, EVS_db = db'\<rparr>)))"

text \<open>\<open>strings.Contains\<close> for the two things a digest may not hold.\<close>

definition bad_digest :: "string \<Rightarrow> bool" where
  "bad_digest sha \<longleftrightarrow> Index sha ''..'' \<noteq> None \<or> Index sha ''/'' \<noteq> None"

definition Open_blob :: "string \<Rightarrow> disk \<Rightarrow> error + string" where
  "Open_blob sha disk =
     (if bad_digest sha then Inl (ErrorsNew (''evidence: open: invalid sha256 '' @ Quote sha))
      else case map_of disk (blobPath sha) of
             None \<Rightarrow> Inl (ErrorsNew (''evidence: blob '' @ Quote sha @ '' not found''))
           | Some bytes \<Rightarrow> Inr bytes)"

text \<open>Removing a file that is not there is no error.\<close>

definition RemoveBlobFile :: "string \<Rightarrow> disk \<Rightarrow> error option \<times> disk" where
  "RemoveBlobFile sha disk =
     (if bad_digest sha then (Some (ErrorsNew (''evidence: remove: invalid sha256 '' @ Quote sha)), disk)
      else (None, AList.delete (blobPath sha) disk))"

section \<open>The multipart body (mime/multipart)\<close>

text \<open>
  A reader over the parts of a body. A part can be read while it is the current one: \<open>NextPart\<close>
  closes it, also when it finds no further part, and what is left of it is discarded.
  A body that ends without its last boundary gives an error in place of the end.
\<close>

record Part =
  FormName :: string
  FileName :: string
  Content :: string

record multipart_reader =
  MR_parts :: "Part list"
  MR_next :: nat
  MR_closed :: bool
  MR_cut :: bool

datatype next_part = NextIs nat Part | NextEOF | NextError

definition NextPart :: "multipart_reader \<Rightarrow> next_part \<times> multipart_reader" where
  "NextPart mr =
     (if MR_next mr < length (MR_parts mr)
      then (NextIs (MR_next mr) (MR_parts mr ! MR_next mr), mr\<lparr>MR_next := MR_next mr + 1\<rparr>)
      else (if MR_cut mr then NextError else NextEOF, mr\<lparr>MR_closed := True\<rparr>))"

definition read_part :: "multipart_reader \<Rightarrow> nat \<Rightarrow> string" where
  "read_part mr i =
     (if \<not> MR_closed mr \<and> i + 1 = MR_next mr then Content (MR_parts mr ! i) else [])"

section \<open>Upload (evidencehandlers.go)\<close>

record Upload_form =
  Form_file :: "nat option"
  Form_filename :: string
  Form_caption :: string
  Form_side :: string

function Upload_loop :: "multipart_reader \<Rightarrow> Upload_form \<Rightarrow> (error + Upload_form) \<times> multipart_reader" where
  "Upload_loop mr form =
     (case NextPart mr of
        (NextEOF, mr') \<Rightarrow> (Inr form, mr')
      | (NextError, mr') \<Rightarrow> (Inl (Validation [Field ''body'' ''invalid multipart body'']), mr')
      | (NextIs i part, mr') \<Rightarrow>
          Upload_loop mr'
            (if FormName part = ''file'' then form\<lparr>Form_file := Some i, Form_filename := FileName part\<rparr>
             else if FormName part = ''caption'' then form\<lparr>Form_caption := take 4096 (read_part mr' i)\<rparr>
             else if FormName part = ''side'' then form\<lparr>Form_side := TrimSpace (take 16 (read_part mr' i))\<rparr>
             else form))"
  by pat_completeness auto

termination
  by (relation "measure (\<lambda>(mr, form). length (MR_parts mr) - MR_next mr)")
    (auto simp: NextPart_def split: if_splits)

definition mimeAllowed :: "string \<Rightarrow> string list \<Rightarrow> bool" where
  "mimeAllowed mime allowlist =
     (let mime = (case Index mime '';'' of None \<Rightarrow> mime | Some idx \<Rightarrow> TrimSpace (take idx mime));
          mime = ToLower (TrimSpace mime)
      in list_ex (\<lambda>a. ToLower (TrimSpace a) = mime) allowlist)"

text \<open>Seats and sides; an administrator's seat is looked at first, and need not exist.\<close>

definition side_mismatch :: "EngagementRole \<Rightarrow> EvidenceSide \<Rightarrow> error option" where
  "side_mismatch seat side =
     (if seat = EngagementRoleRed \<and> side \<noteq> EvidenceSideRed
      then Some (Forbidden ''red seat may only upload side=red evidence'')
      else if seat = EngagementRoleBlue \<and> side \<noteq> EvidenceSideBlue
      then Some (Forbidden ''blue seat may only upload side=blue evidence'')
      else None)"

definition enforceEvidenceSide :: "PlatformRole \<Rightarrow> string \<Rightarrow> string \<Rightarrow> EvidenceSide \<Rightarrow> DDB \<Rightarrow> error option" where
  "enforceEvidenceSide platformRole userID engagementID side db =
     (let (seat, member) = Seat engagementID userID db
      in if platformRole = PlatformRoleAdmin
         then (if \<not> member \<or> seat = EngagementRoleLead then None else side_mismatch seat side)
         else if \<not> member then Some (Forbidden ''not a member of this engagement'')
         else if seat = EngagementRoleLead then None
         else if seat = EngagementRoleRed \<or> seat = EngagementRoleBlue then side_mismatch seat side
         else Some (Forbidden ''observer cannot upload evidence''))"

definition put_problem :: "put_error \<Rightarrow> error" where
  "put_problem e =
     (case e of
        ErrTooLarge limit got \<Rightarrow> PayloadTooLarge (''file exceeds '' @ Itoa limit @ '' byte upload limit'')
      | ErrEngagementQuota limit used got \<Rightarrow>
          PayloadTooLarge (''engagement quota exceeded ('' @ Itoa used @ '' bytes used, would add '' @ Itoa got @
            '' bytes, limit '' @ Itoa limit @ '' bytes)'')
      | ErrPut err \<Rightarrow> err)"

record Evidence_env =
  Env_service :: Workbook_Service
  Env_config :: Evidence_config
  Env_allowlist :: "string list"
  Env_has_store :: bool
  Env_digest :: "string \<Rightarrow> string"
  Env_detect :: "string \<Rightarrow> string"

abbreviation VerbEvidenceUploaded :: Verb where "VerbEvidenceUploaded \<equiv> ''evidence.uploaded''"
abbreviation VerbEvidenceDeleted :: Verb where "VerbEvidenceDeleted \<equiv> ''evidence.deleted''"

text \<open>From the sniffed stream on: the allowlist, the blob, the metadata row, the activity row.\<close>

definition upload_store :: "Evidence_env \<Rightarrow> string \<Rightarrow> gotime \<Rightarrow> string \<Rightarrow> string \<Rightarrow> Execution \<Rightarrow> Upload_form \<Rightarrow> string \<Rightarrow>
    EVS \<Rightarrow> (error + Evidence_row) \<times> EVS" where
  "upload_store env newID clock actorID engagementID exec form file st =
     (let mime = Env_detect env (take 512 file)
      in if Env_allowlist env \<noteq> [] \<and> \<not> mimeAllowed mime (Env_allowlist env)
         then (Inl (Validation [Field ''file'' (''content type '' @ Quote mime @
                 '' is not allowed; allowed types: '' @ Join (Env_allowlist env) '', '')]), st)
         else if \<not> Env_has_store env
         then (Inl (Api (Internal (ErrorsNew ''httpapi: evidence store is not configured''))), st)
         else case Put (Env_digest env) (Env_config env) clock file mime engagementID st of
           (Inl err, st') \<Rightarrow> (Inl (put_problem err), st')
         | (Inr (sha, existed, sz), st') \<Rightarrow>
             (case Evidence_Create newID clock
                     \<lparr>NewEvidence_BlobSHA256 = [], NewEvidence_Filename = Form_filename form,
                      NewEvidence_Caption = Form_caption form, NewEvidence_Side = Form_side form,
                      NewEvidence_ExecutionID = Execution_ID exec, NewEvidence_CommentID = [],
                      NewEvidence_UploadedBy = actorID, NewEvidence_Size = sz, NewEvidence_MIME = mime\<rparr>
                     [] (EVS_db st') of
                (Inl err, db') \<Rightarrow> (Inl err, st'\<lparr>EVS_db := db'\<rparr>)
              | (Inr ev, db') \<Rightarrow>
                  (Inr ev, st'\<lparr>EVS_db := DDB_recordAlone (Env_service env)
                     (workbook_entry actorID engagementID VerbEvidenceUploaded ObjectEvidence (Evidence_ID ev)
                        (Delta [(''sha256'', DString (take 12 sha)), (''filename'', DString (Evidence_Filename ev)),
                                (''side'', DString (Form_side form)), (''size'', DInt sz)])) db'\<rparr>)))"

definition UploadEvidence :: "Evidence_env \<Rightarrow> string \<Rightarrow> gotime \<Rightarrow> Caller option \<Rightarrow> string \<Rightarrow> Part list \<Rightarrow> bool \<Rightarrow> EVS \<Rightarrow>
    (error + Evidence_row) \<times> EVS" where
  "UploadEvidence env newID clock actor executionID body cut_short st =
     (case actor of
        None \<Rightarrow> (Inl (Unauthenticated ''no subject''), st)
      | Some caller \<Rightarrow>
          (case Upload_loop \<lparr>MR_parts = body, MR_next = 0, MR_closed = False, MR_cut = cut_short\<rparr>
                  \<lparr>Form_file = None, Form_filename = [], Form_caption = [], Form_side = []\<rparr> of
             (Inl err, mr) \<Rightarrow> (Inl err, st)
           | (Inr form, mr) \<Rightarrow>
               (case Form_file form of
                  None \<Rightarrow> (Inl (Validation [Field ''file'' ''is required'']), st)
                | Some file \<Rightarrow>
                    if \<not> EvidenceSide_Valid (Form_side form)
                    then (Inl (Validation [Field ''side'' ''must be red or blue'']), st)
                    else
                      (let w = DDB_workbook (EVS_db st)
                       in case Executions_ByID executionID w of Inl err \<Rightarrow> (Inl err, st) | Inr exec \<Rightarrow>
                         (case Steps_ByID (Execution_StepID exec) w of Inl err \<Rightarrow> (Inl err, st) | Inr step \<Rightarrow>
                           (case Scenarios_ByID (Step_ScenarioID step) w of Inl err \<Rightarrow> (Inl err, st) | Inr scenario \<Rightarrow>
                             (case enforceEvidenceSide (Caller_PlatformRole caller) (Caller_UserID caller)
                                     (Scenario_EngagementID scenario) (Form_side form) (EVS_db st) of
                                Some err \<Rightarrow> (Inl err, st)
                              | None \<Rightarrow>
                                  (case Engagements_ByID (Scenario_EngagementID scenario) w of Inl err \<Rightarrow> (Inl err, st) | Inr eng \<Rightarrow>
                                    (case refuse_closed eng of
                                       Some err \<Rightarrow> (Inl err, st)
                                     | None \<Rightarrow>
                                         upload_store env newID clock (Caller_UserID caller) (Scenario_EngagementID scenario)
                                           exec form (read_part mr file) st)))))))))"

section \<open>Reading and deleting\<close>

text \<open>The engagement of an evidence row, empty when a lookup on the way fails.\<close>

definition evidence_engagement :: "Evidence_row \<Rightarrow> EDB \<Rightarrow> string" where
  "evidence_engagement ev w =
     (if Evidence_ExecutionID ev = [] then []
      else case ExecutionEngagementID (Evidence_ExecutionID ev) w of Inl err \<Rightarrow> [] | Inr e \<Rightarrow> e)"

definition canDeleteEvidence :: "PlatformRole \<Rightarrow> string \<Rightarrow> string \<Rightarrow> string \<Rightarrow> DDB \<Rightarrow> error option" where
  "canDeleteEvidence platformRole userID engagementID uploadedBy db =
     (if userID = uploadedBy then None
      else if platformRole = PlatformRoleAdmin then None
      else if engagementID = [] then Some (Forbidden ''only the uploader, lead, or admin may delete evidence'')
      else let (seat, member) = Seat engagementID userID db
           in if member \<and> seat = EngagementRoleLead then None
              else Some (Forbidden ''only the uploader, lead, or admin may delete evidence''))"

text \<open>The activity row names the first twelve characters of the digest; a shorter one panics there.\<close>

definition DeleteEvidence :: "Evidence_env \<Rightarrow> Caller option \<Rightarrow> string \<Rightarrow> EVS \<Rightarrow> error option \<times> EVS" where
  "DeleteEvidence env actor evidenceID st =
     (case actor of
        None \<Rightarrow> (Some (Unauthenticated ''no subject''), st)
      | Some caller \<Rightarrow>
          (case Evidence_ByID evidenceID (EVS_db st) of
             Inl err \<Rightarrow> (Some err, st)
           | Inr ev \<Rightarrow>
               (case canDeleteEvidence (Caller_PlatformRole caller) (Caller_UserID caller)
                       (evidence_engagement ev (DDB_workbook (EVS_db st))) (Evidence_UploadedBy ev) (EVS_db st) of
                  Some err \<Rightarrow> (Some err, st)
                | None \<Rightarrow>
                    (case Evidence_DeleteLink (Evidence_ID ev) (EVS_db st) of
                       (Some err, db) \<Rightarrow> (Some err, st\<lparr>EVS_db := db\<rparr>)
                     | (None, db) \<Rightarrow>
                         (case DecrementRef (Evidence_BlobSHA256 ev) db of
                            (Inl err, db) \<Rightarrow> (Some err, st\<lparr>EVS_db := db\<rparr>)
                          | (Inr gc, db) \<Rightarrow>
                              (case (if gc then RemoveBlobFile (Evidence_BlobSHA256 ev) (EVS_disk st) else (None, EVS_disk st)) of
                                 (Some err, disk) \<Rightarrow> (Some err, \<lparr>EVS_disk = disk, EVS_db = db\<rparr>)
                               | (None, disk) \<Rightarrow>
                                   (let db = (if gc then snd (DeleteBlob (Evidence_BlobSHA256 ev) db) else db)
                                    in if \<not> Svc_activity (Env_service env) then (None, \<lparr>EVS_disk = disk, EVS_db = db\<rparr>)
                                       else if length (Evidence_BlobSHA256 ev) < 12
                                       then (Some (ErrorsNew ''slice bounds out of range''), \<lparr>EVS_disk = disk, EVS_db = db\<rparr>)
                                       else (None, \<lparr>EVS_disk = disk, EVS_db = DDB_recordAlone (Env_service env)
                                              (workbook_entry (Caller_UserID caller)
                                                 (evidence_engagement ev (DDB_workbook db)) VerbEvidenceDeleted
                                                 ObjectEvidence (Evidence_ID ev)
                                                 (Delta [(''sha256'', DString (take 12 (Evidence_BlobSHA256 ev)))])) db\<rparr>))))))))"

text \<open>\<open>evidenceParent\<close> and \<open>evidenceConcealed\<close>: the step an evidence row belongs to, and whether it is hidden.\<close>

definition evidenceParent :: "Evidence_row \<Rightarrow> DDB \<Rightarrow> error + (string \<times> string)" where
  "evidenceParent ev db =
     (case (if Evidence_ExecutionID ev \<noteq> [] then Executions_ByID (Evidence_ExecutionID ev) (DDB_workbook db)
            else case Comments_ByID (Evidence_CommentID ev) db of
                   Inl err \<Rightarrow> Inl err
                 | Inr c \<Rightarrow> Executions_ByID (Comment_ExecutionID c) (DDB_workbook db)) of
        Inl err \<Rightarrow> Inl err
      | Inr exec \<Rightarrow>
          (case StepEngagementID (Execution_StepID exec) (DDB_workbook db) of
             Inl err \<Rightarrow> Inl err
           | Inr e \<Rightarrow> Inr (e, Execution_StepID exec)))"

definition evidenceConcealed :: "Subject option \<Rightarrow> Evidence_row \<Rightarrow> DDB \<Rightarrow> error + bool" where
  "evidenceConcealed auth ev db =
     (case evidenceParent ev db of
        Inl err \<Rightarrow> Inl err
      | Inr (e, stepID) \<Rightarrow>
          (case Steps_ByID stepID (DDB_workbook db) of
             Inl err \<Rightarrow> Inl err
           | Inr step \<Rightarrow>
               (case stepBlindScope auth e db of
                  Inl err \<Rightarrow> Inl err
                | Inr scope \<Rightarrow> Inr (\<not> Permits scope (Step_RevealedAt step \<noteq> None)))))"

definition visible_evidence :: "Subject option \<Rightarrow> string \<Rightarrow> DDB \<Rightarrow> error + Evidence_row" where
  "visible_evidence auth evidenceID db =
     (case Evidence_ByID evidenceID db of
        Inl err \<Rightarrow> Inl err
      | Inr ev \<Rightarrow>
          (case evidenceConcealed auth ev db of
             Inl err \<Rightarrow> Inl err
           | Inr hidden \<Rightarrow> if hidden then Inl (NotFound ''evidence'' evidenceID) else Inr ev))"

definition GetEvidenceContent :: "Subject option \<Rightarrow> string \<Rightarrow> EVS \<Rightarrow> error + string" where
  "GetEvidenceContent auth evidenceID st =
     (case visible_evidence auth evidenceID (EVS_db st) of
        Inl err \<Rightarrow> Inl err
      | Inr ev \<Rightarrow> Open_blob (Evidence_BlobSHA256 ev) (EVS_disk st))"

section \<open>Uploading\<close>

lemma Upload_loop_closed: "fst (Upload_loop mr form) = Inr f \<Longrightarrow> MR_closed (snd (Upload_loop mr form))"
proof (induction mr form rule: Upload_loop.induct)
  case (1 mr form)
  obtain n mr' where nxt: "NextPart mr = (n, mr')" by force
  show ?case
  proof (cases n)
    case NextEOF
    then show ?thesis using nxt by (auto simp: Upload_loop.simps NextPart_def split: if_splits)
  next
    case NextError
    then show ?thesis using nxt "1.prems" by (auto simp: Upload_loop.simps)
  next
    case (NextIs i part)
    then show ?thesis
      using "1.IH" [OF nxt [symmetric] NextIs] "1.prems" nxt by (simp add: Upload_loop.simps [of mr])
  qed
qed

declare Upload_loop.simps [simp del]

end
