(* ===== verification/Evidence_Props.thy ===== *)
theory Evidence_Props
  imports Evidence
begin

text \<open>
  What the blob store keeps: every evidence row can be read back, because the reference count of
  a blob is at least the number of rows that name it and the file goes only when it is zero. And what
  the upload handler does: it reads the file after the multipart reader has closed it, so no upload
  ever succeeds, and the row it would write does not name the blob.
\<close>

section \<open>Uploads\<close>

lemma read_closed: "MR_closed mr \<Longrightarrow> read_part mr i = []"
  by (simp add: read_part_def)

lemma Put_empty: "\<exists>err. Put digest cfg clock [] mime e st = (Inl err, st)"
  by (simp add: Put_def limited_def Let_def)

lemma upload_empty: "\<exists>err. upload_store env newID clock a e exec form [] st = (Inl err, st)"
proof -
  obtain err where "Put (Env_digest env) (Env_config env) clock [] (Env_detect env (take 512 [])) e st = (Inl err, st)"
    using Put_empty by blast
  then show ?thesis by (simp add: upload_store_def Let_def)
qed

lemma Upload_refused:
  "\<exists>err. UploadEvidence env newID clock actor executionID body cut_short st = (Inl err, st)"
proof (cases actor)
  case (Some caller)
  let ?mr = "\<lparr>MR_parts = body, MR_next = 0, MR_closed = False, MR_cut = cut_short\<rparr>"
  let ?form = "\<lparr>Form_file = None, Form_filename = [], Form_caption = [], Form_side = []\<rparr>"
  obtain r mr where loop: "Upload_loop ?mr ?form = (r, mr)" by force
  show ?thesis
  proof (cases r)
    case (Inr form)
    then have "MR_closed mr" using Upload_loop_closed [of ?mr ?form form] loop by simp
    then have "read_part mr i = []" for i by (rule read_closed)
    then show ?thesis using Some loop Inr upload_empty
      by (auto simp: UploadEvidence_def Let_def split: option.split sum.split)
  qed (use Some loop in \<open>simp add: UploadEvidence_def\<close>)
qed (simp add: UploadEvidence_def)

text \<open>
  C26. No upload succeeds, whatever the body, the caller and the configuration: the loop over the
  parts ends with the file's part closed, so the handler has no bytes to store; it answers with an
  error and leaves everything as it was.
\<close>

theorem UploadEvidence_refuses_all:
  "\<exists>err. UploadEvidence env newID clock actor executionID body cut_short st = (Inl err, st)"
  by (rule Upload_refused)

lemma bump_ref_keys: "Blob_SHA256 ` set (bump_ref sha d db) = Blob_SHA256 ` set (DDB_blobs db)"
  unfolding bump_ref_def by (rule image_update_where) simp

lemma bump_ref_key: "x \<in> set (bump_ref sha d db) \<Longrightarrow> Blob_SHA256 x \<in> Blob_SHA256 ` set (DDB_blobs db)"
  using bump_ref_keys [of sha d db] by blast

lemma Put_effect:
  "Put digest cfg clock src mime e st = (r, st') \<Longrightarrow>
   DDB_evidence (EVS_db st') = DDB_evidence (EVS_db st) \<and> DDB_workbook (EVS_db st') = DDB_workbook (EVS_db st) \<and>
   Blob_SHA256 ` set (DDB_blobs (EVS_db st')) \<subseteq>
     insert (digest (limited (MaxUploadBytes cfg) src)) (Blob_SHA256 ` set (DDB_blobs (EVS_db st)))"
  by (auto simp: Put_def Let_def IncrementRef_def InsertBlob_def insert_row_def
      split: if_splits option.splits dest: bump_ref_key)

text \<open>The row the handler writes names no blob, so the foreign key refuses it.\<close>

lemma Evidence_Create_unnamed:
  "NewEvidence_BlobSHA256 n = [] \<Longrightarrow> [] \<notin> Blob_SHA256 ` set (DDB_blobs db) \<Longrightarrow>
   \<exists>err. Evidence_Create newID clock n [] db = (Inl err, db)"
  by (auto simp: Evidence_Create_def Let_def insert_row_def)

text \<open>
  Even with the file's bytes the upload would fail: the row is written without the digest, which
  the foreign key to the blobs refuses, and a blob that was stored before stays with its
  reference counted and nothing that names it.
\<close>

theorem upload_store_unlinked:
  assumes "Env_has_store env" "Env_allowlist env = []" and "[] \<notin> Blob_SHA256 ` set (DDB_blobs (EVS_db st))"
    and put: "Put (Env_digest env) (Env_config env) clock file (Env_detect env (take 512 file)) e st = (Inr x, stored)"
    and "Env_digest env (limited (MaxUploadBytes (Env_config env)) file) \<noteq> []"
  shows "\<exists>err. upload_store env newID clock a e exec form file st = (Inl err, stored) \<and>
    DDB_evidence (EVS_db stored) = DDB_evidence (EVS_db st)"
proof -
  have keys: "[] \<notin> Blob_SHA256 ` set (DDB_blobs (EVS_db stored))" using Put_effect [OF put] assms by auto
  obtain sha existed sz where x: "x = (sha, existed, sz)" by (cases x)
  define n where "n = \<lparr>NewEvidence_BlobSHA256 = [], NewEvidence_Filename = Form_filename form,
    NewEvidence_Caption = Form_caption form, NewEvidence_Side = Form_side form,
    NewEvidence_ExecutionID = Execution_ID exec, NewEvidence_CommentID = [], NewEvidence_UploadedBy = a,
    NewEvidence_Size = sz, NewEvidence_MIME = Env_detect env (take 512 file)\<rparr>"
  obtain err where "Evidence_Create newID clock n [] (EVS_db stored) = (Inl err, EVS_db stored)"
    using Evidence_Create_unnamed [OF _ keys, of n] by (auto simp: n_def)
  then show ?thesis using assms(1,2) put x Put_effect [OF put] by (auto simp: upload_store_def Let_def n_def)
qed

section \<open>The blob store's invariant\<close>

definition named :: "string \<Rightarrow> Evidence_row list \<Rightarrow> nat" where
  "named sha evs = count_where (\<lambda>v. Evidence_BlobSHA256 v = sha) evs"

text \<open>What the program relies on of SHA-256 in hex.\<close>

definition hex_digest :: "string \<Rightarrow> bool" where
  "hex_digest s \<longleftrightarrow> length s = 64 \<and> CHR ''.'' \<notin> set s \<and> CHR ''/'' \<notin> set s"

definition blob_ok :: "(string \<Rightarrow> string) \<Rightarrow> disk \<Rightarrow> Evidence_row list \<Rightarrow> EvidenceBlob \<Rightarrow> bool" where
  "blob_ok digest disk evs b \<longleftrightarrow>
     (\<exists>bytes. map_of disk (blobPath (Blob_SHA256 b)) = Some bytes \<and> digest bytes = Blob_SHA256 b \<and>
        int (length bytes) = Blob_Size b) \<and>
     int (named (Blob_SHA256 b) evs) \<le> Blob_RefCount b"

definition blobs_ok :: "(string \<Rightarrow> string) \<Rightarrow> EVS \<Rightarrow> bool" where
  "blobs_ok digest st \<longleftrightarrow>
     distinct (map Blob_SHA256 (DDB_blobs (EVS_db st))) \<and>
     distinct (map Evidence_ID (DDB_evidence (EVS_db st))) \<and>
     (\<forall>b\<in>set (DDB_blobs (EVS_db st)). blob_ok digest (EVS_disk st) (DDB_evidence (EVS_db st)) b) \<and>
     (\<forall>v\<in>set (DDB_evidence (EVS_db st)). Evidence_BlobSHA256 v \<in> Blob_SHA256 ` set (DDB_blobs (EVS_db st)))"

text \<open>
  One use of the store: an upload's blob, a row for a reference that is still free, a deletion, rows
  taken away by a cascade, anything else that leaves the two tables alone, and the upload handler.
\<close>

inductive evidence_step :: "Evidence_env \<Rightarrow> EVS \<Rightarrow> EVS \<Rightarrow> bool" for env where
  put: "evidence_step env st (snd (Put (Env_digest env) (Env_config env) clock src mime e st))"
| link: "b \<in> set (DDB_blobs (EVS_db st)) \<Longrightarrow> Blob_SHA256 b = NewEvidence_BlobSHA256 n \<Longrightarrow>
    int (named (Blob_SHA256 b) (DDB_evidence (EVS_db st))) < Blob_RefCount b \<Longrightarrow>
    evidence_step env st (st\<lparr>EVS_db := snd (Evidence_Create newID clock n [] (EVS_db st))\<rparr>)"
| delete: "evidence_step env st (snd (DeleteEvidence env actor evidenceID st))"
| cascade: "evidence_step env st (st\<lparr>EVS_db := (EVS_db st)\<lparr>DDB_evidence := delete_where P (DDB_evidence (EVS_db st))\<rparr>\<rparr>)"
| other: "DDB_blobs db' = DDB_blobs (EVS_db st) \<Longrightarrow> DDB_evidence db' = DDB_evidence (EVS_db st) \<Longrightarrow>
    evidence_step env st (st\<lparr>EVS_db := db'\<rparr>)"
| upload: "evidence_step env st (snd (UploadEvidence env newID clock actor xid body cut_short st))"

lemma blobPath_inj: "hex_digest s \<Longrightarrow> hex_digest t \<Longrightarrow> blobPath s = blobPath t \<Longrightarrow> s = t"
proof -
  assume "hex_digest s" "hex_digest t" "blobPath s = blobPath t"
  then have "take 2 s @ (CHR ''/'' # s) = take 2 t @ (CHR ''/'' # t)" "length (take 2 s) = length (take 2 t)"
    by (simp_all add: blobPath_def hex_digest_def)
  then show "s = t" by (metis append_eq_append_conv list.inject)
qed

lemma hex_not_bad: "hex_digest s \<Longrightarrow> \<not> bad_digest s"
proof -
  assume s: "hex_digest s"
  have "Index s ''..'' = None"
  proof (rule ccontr)
    assume "Index s ''..'' \<noteq> None"
    then obtain i where "Index s ''..'' = Some i" by auto
    then have "s = take i s @ ''..'' @ drop (i + length ''..'') s" by (rule Index_Some_split)
    then have "set s = set (take i s @ ''..'' @ drop (i + length ''..'') s)" by (rule arg_cong)
    then show False using s by (auto simp: hex_digest_def)
  qed
  moreover have "Index s ''/'' = None" using s by (simp add: Index_char_None hex_digest_def)
  ultimately show "\<not> bad_digest s" by (simp add: bad_digest_def)
qed

lemma blob_ok_hex:
  "(\<And>x. hex_digest (digest x)) \<Longrightarrow> blob_ok digest disk evs b \<Longrightarrow> hex_digest (Blob_SHA256 b)"
  by (auto simp: blob_ok_def) (metis)

lemma named_delete_le: "named sha (delete_where P evs) \<le> named sha evs"
  unfolding named_def count_where_def delete_where_def by (induction evs) auto

lemma delete_key_remove1:
  "distinct (map k xs) \<Longrightarrow> x \<in> set xs \<Longrightarrow> delete_where (\<lambda>y. k y = k x) xs = remove1 x xs"
proof (induction xs)
  case (Cons a xs)
  show ?case
  proof (cases "a = x")
    case True
    then have "k x \<notin> k ` set xs" using Cons.prems(1) by simp
    then have "\<forall>y\<in>set xs. k y \<noteq> k x" by (metis imageI)
    then show ?thesis using True by (simp add: delete_where_def filter_id_conv)
  next
    case False
    then have "k a \<noteq> k x" using Cons.prems by auto
    then show ?thesis using False Cons by (simp add: delete_where_def)
  qed
qed simp

lemma named_delete_one:
  assumes "distinct (map Evidence_ID evs)" "v \<in> set evs"
  shows "named sha (delete_where (\<lambda>y. Evidence_ID y = Evidence_ID v) evs) =
         named sha evs - (if Evidence_BlobSHA256 v = sha then 1 else 0)"
  using assms by (simp add: delete_key_remove1 named_def count_where_def filter_remove1 length_remove1)

lemma named_pos: "v \<in> set evs \<Longrightarrow> Evidence_BlobSHA256 v = sha \<Longrightarrow> 0 < named sha evs"
  by (auto simp: named_def count_where_def filter_empty_conv intro!: length_pos_if_in_set)

lemma named_none: "sha \<notin> Evidence_BlobSHA256 ` set evs \<Longrightarrow> named sha evs = 0"
  by (auto simp: named_def count_where_0)

section \<open>The invariant is kept\<close>

lemma keys_bump: "map Blob_SHA256 (bump_ref sha d db) = map Blob_SHA256 (DDB_blobs db)"
  unfolding bump_ref_def by (rule map_update_where) simp

lemma all_bump:
  "(\<forall>b\<in>set (bump_ref sha d db). Q b) \<longleftrightarrow>
   (\<forall>b\<in>set (DDB_blobs db). Q (if Blob_SHA256 b = sha then b\<lparr>Blob_RefCount := Blob_RefCount b + d\<rparr> else b))"
  unfolding bump_ref_def by (rule all_update_where)

lemma IncrementRef_ok:
  assumes "blobs_ok digest st" "IncrementRef sha (EVS_db st) = (r, db')"
  shows "blobs_ok digest (st\<lparr>EVS_db := db'\<rparr>)"
proof (cases r)
  case None
  then have db': "db' = (EVS_db st)\<lparr>DDB_blobs := bump_ref sha 1 (EVS_db st)\<rparr>"
    using assms(2) by (auto simp: IncrementRef_def split: option.splits)
  have "blob_ok digest (EVS_disk st) (DDB_evidence (EVS_db st))
      (if Blob_SHA256 b = sha then b\<lparr>Blob_RefCount := Blob_RefCount b + 1\<rparr> else b)"
    if "b \<in> set (DDB_blobs (EVS_db st))" for b
    using assms(1) that by (auto simp: blobs_ok_def blob_ok_def)
  then show ?thesis using assms(1)
    by (simp add: blobs_ok_def db' keys_bump all_bump bump_ref_keys)
next
  case (Some err)
  then show ?thesis using assms by (auto simp: IncrementRef_def split: option.splits)
qed

lemma Put_ok:
  assumes hex: "\<And>x. hex_digest (digest x)" and ok: "blobs_ok digest st"
  shows "blobs_ok digest (snd (Put digest cfg clock src mime e st))"
proof -
  let ?bytes = "limited (MaxUploadBytes cfg) src"
  let ?sha = "digest ?bytes"
  let ?db = "EVS_db st"
  show ?thesis
  proof (cases "map_of (EVS_disk st) (blobPath ?sha)")
    case (Some old)
    then show ?thesis using ok IncrementRef_ok [OF ok, of ?sha]
      by (auto simp: Put_def Let_def split: prod.split option.split)
  next
    case None
    have fresh: "?sha \<notin> Blob_SHA256 ` set (DDB_blobs ?db)"
    proof
      assume "?sha \<in> Blob_SHA256 ` set (DDB_blobs ?db)"
      then obtain b where b: "b \<in> set (DDB_blobs ?db)" "Blob_SHA256 b = ?sha" by (metis imageE)
      then have "blob_ok digest (EVS_disk st) (DDB_evidence ?db) b" using ok by (simp add: blobs_ok_def)
      then show False using None b(2) by (simp add: blob_ok_def)
    qed
    then have none: "named ?sha (DDB_evidence ?db) = 0" using ok by (intro named_none) (auto simp: blobs_ok_def)
    define row where "row = \<lparr>Blob_SHA256 = ?sha, Blob_Size = int (length ?bytes), Blob_MIME = mime,
      Blob_StoragePath = blobPath ?sha, Blob_RefCount = 1, Blob_CreatedAt = toStorage clock\<rparr>"
    define disk where "disk = AList.update (blobPath ?sha) ?bytes (EVS_disk st)"
    have new: "blob_ok digest disk (DDB_evidence ?db) row"
      using none by (simp add: blob_ok_def row_def disk_def update_conv')
    have old: "blob_ok digest disk (DDB_evidence ?db) b" if b: "b \<in> set (DDB_blobs ?db)" for b
    proof -
      have b_ok: "blob_ok digest (EVS_disk st) (DDB_evidence ?db) b" using ok b by (simp add: blobs_ok_def)
      then have "blobPath (Blob_SHA256 b) \<noteq> blobPath ?sha" using None by (auto simp: blob_ok_def)
      then show ?thesis using b_ok by (simp add: blob_ok_def disk_def update_conv')
    qed
    have "blobs_ok digest \<lparr>EVS_disk = disk, EVS_db = ?db\<lparr>DDB_blobs := DDB_blobs ?db @ [row]\<rparr>\<rparr>"
      using ok new old fresh by (auto simp: blobs_ok_def row_def)
    then show ?thesis using ok None fresh
      by (auto simp: Put_def Let_def InsertBlob_def insert_row_def row_def disk_def)
  qed
qed

lemma link_ok:
  assumes ok: "blobs_ok digest st" and b: "b \<in> set (DDB_blobs (EVS_db st))" "Blob_SHA256 b = NewEvidence_BlobSHA256 n"
    "int (named (Blob_SHA256 b) (DDB_evidence (EVS_db st))) < Blob_RefCount b"
  shows "blobs_ok digest (st\<lparr>EVS_db := snd (Evidence_Create newID clock n [] (EVS_db st))\<rparr>)"
proof -
  obtain r db' where eq: "Evidence_Create newID clock n [] (EVS_db st) = (r, db')" by force
  show ?thesis
  proof (cases r)
    case (Inl err)
    then show ?thesis using eq ok
      by (auto simp: Evidence_Create_def Let_def insert_row_def split: if_splits)
  next
    case (Inr v)
    then have v: "db' = (EVS_db st)\<lparr>DDB_evidence := DDB_evidence (EVS_db st) @ [v]\<rparr>"
      "Evidence_BlobSHA256 v = NewEvidence_BlobSHA256 n" "Evidence_ID v \<notin> Evidence_ID ` set (DDB_evidence (EVS_db st))"
      using eq by (auto simp: Evidence_Create_def Let_def insert_row_def split: if_splits)
    have "blob_ok digest (EVS_disk st) (DDB_evidence (EVS_db st) @ [v]) c" if c: "c \<in> set (DDB_blobs (EVS_db st))" for c
    proof -
      have c_ok: "blob_ok digest (EVS_disk st) (DDB_evidence (EVS_db st)) c" using ok c by (simp add: blobs_ok_def)
      have "c = b" if "Blob_SHA256 c = Blob_SHA256 b"
        using ok c b(1) that by (auto simp: blobs_ok_def distinct_map dest: inj_onD)
      then show ?thesis using c_ok b(2,3) v(2) by (auto simp: blob_ok_def named_def count_where_def)
    qed
    moreover have "Evidence_BlobSHA256 v \<in> Blob_SHA256 ` set (DDB_blobs (EVS_db st))"
      unfolding v(2) b(2) [symmetric] using b(1) by (rule imageI)
    ultimately show ?thesis using ok v by (auto simp: blobs_ok_def eq)
  qed
qed

lemma cascade_ok:
  assumes "blobs_ok digest st"
  shows "blobs_ok digest (st\<lparr>EVS_db := (EVS_db st)\<lparr>DDB_evidence := delete_where P (DDB_evidence (EVS_db st))\<rparr>\<rparr>)"
proof -
  have "blob_ok digest (EVS_disk st) (delete_where P (DDB_evidence (EVS_db st))) b"
    if "b \<in> set (DDB_blobs (EVS_db st))" for b
    using assms that named_delete_le [of "Blob_SHA256 b" P "DDB_evidence (EVS_db st)"]
    by (auto simp: blobs_ok_def blob_ok_def)
  then show ?thesis using assms by (auto simp: blobs_ok_def table_simps intro: distinct_delete_where)
qed

lemma DecrementRef_cases:
  assumes "distinct (map Blob_SHA256 (DDB_blobs db))" "b \<in> set (DDB_blobs db)" "Blob_SHA256 b = sha" "0 < Blob_RefCount b"
  shows "DecrementRef sha db = (Inr (Blob_RefCount b = 1), db\<lparr>DDB_blobs := bump_ref sha (- 1) db\<rparr>)"
proof -
  have sel: "select1 (\<lambda>x. Blob_SHA256 x = sha) (DDB_blobs db) = Some b"
    using select1_key [OF assms(1,2)] assms(3) by simp
  have only: "x = b" if "x \<in> set (DDB_blobs db)" "Blob_SHA256 x = sha" for x
    using assms(1,2,3) that by (auto simp: distinct_map dest: inj_onD)
  have "select1 (\<lambda>x. Blob_SHA256 x = sha) (bump_ref sha (- 1) db) = Some (b\<lparr>Blob_RefCount := Blob_RefCount b - 1\<rparr>)"
    unfolding bump_ref_def using sel assms(3) by (subst select1_update_where) auto
  moreover have "\<forall>x\<in>set (bump_ref sha (- 1) db). \<not> (Blob_SHA256 x = sha \<and> Blob_RefCount x < 0)"
    unfolding all_bump using only assms(4) by auto
  moreover have "count_where (\<lambda>x. Blob_SHA256 x = sha) (DDB_blobs db) \<noteq> 0"
    using assms(2,3) by (auto simp: count_where_0)
  ultimately show ?thesis by (auto simp: DecrementRef_def Let_def workbook_requireOneRow_def)
qed

lemma blobs_ok_activity: "blobs_ok digest \<lparr>EVS_disk = disk, EVS_db = DDB_recordAlone svc x db\<rparr> = blobs_ok digest \<lparr>EVS_disk = disk, EVS_db = db\<rparr>"
  by (simp add: blobs_ok_def DDB_recordAlone_def)

text \<open>What a deletion does once its guards have passed: the row, the reference, and at zero the blob.\<close>

lemma unlink_ok:
  assumes hex: "\<And>x. hex_digest (digest x)" and ok: "blobs_ok digest st"
    and v: "v \<in> set (DDB_evidence (EVS_db st))"
  defines "sha \<equiv> Evidence_BlobSHA256 v"
  defines "db1 \<equiv> (EVS_db st)\<lparr>DDB_evidence := delete_where (\<lambda>x. Evidence_ID x = Evidence_ID v) (DDB_evidence (EVS_db st))\<rparr>"
  shows "\<exists>gc db2. DecrementRef sha db1 = (Inr gc, db2) \<and>
    (\<not> gc \<longrightarrow> blobs_ok digest (st\<lparr>EVS_db := db2\<rparr>)) \<and>
    (gc \<longrightarrow> RemoveBlobFile sha (EVS_disk st) = (None, AList.delete (blobPath sha) (EVS_disk st)) \<and>
       blobs_ok digest \<lparr>EVS_disk = AList.delete (blobPath sha) (EVS_disk st), EVS_db = snd (DeleteBlob sha db2)\<rparr>)"
proof -
  let ?evs = "DDB_evidence (EVS_db st)" and ?evs1 = "DDB_evidence db1" and ?disk = "EVS_disk st"
  obtain b where b: "b \<in> set (DDB_blobs (EVS_db st))" "Blob_SHA256 b = sha"
    using ok v by (auto simp: blobs_ok_def sha_def image_iff)
  have b_ok: "blob_ok digest ?disk ?evs b" using ok b(1) by (simp add: blobs_ok_def)
  have sha_hex: "hex_digest sha" using blob_ok_hex [OF hex b_ok] b(2) by simp
  have pos: "0 < Blob_RefCount b"
    using b_ok named_pos [OF v, of sha] b(2) by (auto simp: blob_ok_def sha_def)
  have ids: "distinct (map Evidence_ID ?evs)" using ok by (simp add: blobs_ok_def)
  have count: "named k ?evs1 = named k ?evs - (if sha = k then 1 else 0)" for k
    using named_delete_one [OF ids v, of k] by (simp add: db1_def sha_def)
  have only: "x = b" if "x \<in> set (DDB_blobs (EVS_db st))" "Blob_SHA256 x = sha" for x
    using ok b that by (auto simp: blobs_ok_def distinct_map dest: inj_onD)
  have evs1_sub: "set ?evs1 \<subseteq> set ?evs" by (auto simp: db1_def table_simps)
  define db2 where "db2 = db1\<lparr>DDB_blobs := bump_ref sha (- 1) db1\<rparr>"
  have dec: "DecrementRef sha db1 = (Inr (Blob_RefCount b = 1), db2)"
    unfolding db2_def using ok b pos by (intro DecrementRef_cases) (simp_all add: db1_def blobs_ok_def)
  have keys2: "map Blob_SHA256 (DDB_blobs db2) = map Blob_SHA256 (DDB_blobs (EVS_db st))"
    by (simp add: db2_def keys_bump) (simp add: db1_def)
  have keyset2: "Blob_SHA256 ` set (DDB_blobs db2) = Blob_SHA256 ` set (DDB_blobs (EVS_db st))"
    by (metis keys2 set_map)
  have rows2: "blob_ok digest ?disk ?evs1 (if Blob_SHA256 x = sha then x\<lparr>Blob_RefCount := Blob_RefCount x + - 1\<rparr> else x)"
    if "x \<in> set (DDB_blobs (EVS_db st))" for x
  proof -
    have x_ok: "blob_ok digest ?disk ?evs x" using ok that by (simp add: blobs_ok_def)
    have "0 < named sha ?evs" using named_pos [OF v] by (simp add: sha_def)
    then show ?thesis using x_ok by (auto simp: blob_ok_def count)
  qed
  have all2: "\<forall>x\<in>set (DDB_blobs db2). blob_ok digest ?disk ?evs1 x"
  proof -
    have "DDB_blobs db2 = bump_ref sha (- 1) db1" "DDB_blobs db1 = DDB_blobs (EVS_db st)"
      by (simp_all add: db2_def db1_def)
    then show ?thesis using rows2 by (simp only: all_bump) blast
  qed
  have evs2: "DDB_evidence db2 = ?evs1" by (simp add: db2_def)
  have ids1: "distinct (map Evidence_ID ?evs1)" using ids by (simp add: db1_def distinct_delete_where)
  have weak: "blobs_ok digest (st\<lparr>EVS_db := db2\<rparr>)"
    unfolding blobs_ok_def
    using ok ids1 all2 evs1_sub keys2 keyset2 evs2 by (auto simp: blobs_ok_def)
  have gone: "blobs_ok digest \<lparr>EVS_disk = AList.delete (blobPath sha) ?disk, EVS_db = snd (DeleteBlob sha db2)\<rparr>"
    if "Blob_RefCount b = 1"
  proof -
    have "int (named sha ?evs) \<le> 1" using b_ok that b(2) by (simp add: blob_ok_def)
    then have "named sha ?evs1 = 0" using count [of sha] by simp
    then have unnamed: "\<forall>x\<in>set ?evs1. Evidence_BlobSHA256 x \<noteq> sha" by (simp add: named_def count_where_0)
    have "sha \<in> Blob_SHA256 ` set (DDB_blobs db2)" unfolding keyset2 using b by (metis imageI)
    then have "count_where (\<lambda>x. Blob_SHA256 x = sha) (DDB_blobs db2) \<noteq> 0" by (auto simp: count_where_0)
    then have del: "snd (DeleteBlob sha db2) = db2\<lparr>DDB_blobs := delete_where (\<lambda>x. Blob_SHA256 x = sha) (DDB_blobs db2)\<rparr>"
      using unnamed by (auto simp: DeleteBlob_def evs2 workbook_requireOneRow_def)
    have "blob_ok digest (AList.delete (blobPath sha) ?disk) ?evs1 x"
      if x: "x \<in> set (DDB_blobs db2)" "Blob_SHA256 x \<noteq> sha" for x
    proof -
      have x_ok: "blob_ok digest ?disk ?evs1 x" using all2 x(1) by blast
      have "blobPath (Blob_SHA256 x) \<noteq> blobPath sha"
        using blobPath_inj [OF blob_ok_hex [OF hex x_ok] sha_hex] x(2) by blast
      then show ?thesis using x_ok by (simp add: blob_ok_def delete_conv')
    qed
    moreover have "Evidence_BlobSHA256 x \<in> Blob_SHA256 ` {y \<in> set (DDB_blobs db2). Blob_SHA256 y \<noteq> sha}" if "x \<in> set ?evs1" for x
    proof -
      have "Evidence_BlobSHA256 x \<in> Blob_SHA256 ` set (DDB_blobs db2)"
        unfolding keyset2 using ok evs1_sub that by (auto simp: blobs_ok_def)
      then show ?thesis using unnamed that by auto
    qed
    ultimately show ?thesis using ids1 ok keys2
      by (auto simp: blobs_ok_def del evs2 table_simps intro: distinct_delete_where)
  qed
  show ?thesis using dec weak gone hex_not_bad [OF sha_hex] by (auto simp: RemoveBlobFile_def)
qed

lemma DeleteEvidence_ok:
  assumes hex: "\<And>x. hex_digest (digest x)" and ok: "blobs_ok digest st"
  shows "blobs_ok digest (snd (DeleteEvidence env actor vid st))"
proof (cases actor)
  case (Some caller)
  show ?thesis
  proof (cases "Evidence_ByID vid (EVS_db st)")
    case (Inl err)
    then show ?thesis using Some ok by (simp add: DeleteEvidence_def)
  next
    case (Inr ev)
    then have ev: "ev \<in> set (DDB_evidence (EVS_db st))"
      by (auto simp: Evidence_ByID_def split: option.splits dest: select1_Some)
    let ?db1 = "(EVS_db st)\<lparr>DDB_evidence := delete_where (\<lambda>x. Evidence_ID x = Evidence_ID ev) (DDB_evidence (EVS_db st))\<rparr>"
    have link: "Evidence_DeleteLink (Evidence_ID ev) (EVS_db st) = (None, ?db1)"
      using ev by (auto simp: Evidence_DeleteLink_def workbook_requireOneRow_def count_where_0)
    obtain gc db2 where dec: "DecrementRef (Evidence_BlobSHA256 ev) ?db1 = (Inr gc, db2)"
      and keep: "\<not> gc \<Longrightarrow> blobs_ok digest (st\<lparr>EVS_db := db2\<rparr>)"
      and gone: "gc \<Longrightarrow> RemoveBlobFile (Evidence_BlobSHA256 ev) (EVS_disk st) =
          (None, AList.delete (blobPath (Evidence_BlobSHA256 ev)) (EVS_disk st)) \<and>
        blobs_ok digest \<lparr>EVS_disk = AList.delete (blobPath (Evidence_BlobSHA256 ev)) (EVS_disk st),
          EVS_db = snd (DeleteBlob (Evidence_BlobSHA256 ev) db2)\<rparr>"
      using unlink_ok [OF hex ok ev] by blast
    have st: "st\<lparr>EVS_db := d\<rparr> = \<lparr>EVS_disk = EVS_disk st, EVS_db = d\<rparr>" for d by simp
    show ?thesis
    proof (cases "canDeleteEvidence (Caller_PlatformRole caller) (Caller_UserID caller)
        (evidence_engagement ev (DDB_workbook (EVS_db st))) (Evidence_UploadedBy ev) (EVS_db st)")
      case None
      then show ?thesis using Some Inr link dec keep gone
        by (cases gc) (auto simp: DeleteEvidence_def Let_def st blobs_ok_activity)
    qed (use Some Inr ok in \<open>simp add: DeleteEvidence_def\<close>)
  qed
qed (use ok in \<open>simp add: DeleteEvidence_def\<close>)

lemma evidence_step_ok:
  assumes hex: "\<And>x. hex_digest (Env_digest env x)" and step: "evidence_step env st st'"
    and ok: "blobs_ok (Env_digest env) st"
  shows "blobs_ok (Env_digest env) st'"
  using step
proof cases
  case (put clock src mime e)
  then show ?thesis using Put_ok [OF hex ok] by simp
next
  case (link b n newID clock)
  then show ?thesis using link_ok [OF ok] by simp
next
  case (delete actor evidenceID)
  then show ?thesis using DeleteEvidence_ok [OF hex ok] by simp
next
  case (cascade P)
  then show ?thesis using cascade_ok [OF ok] by simp
next
  case (other db')
  then show ?thesis using ok by (simp add: blobs_ok_def)
next
  case (upload newID clock actor xid body cut_short)
  have "\<exists>err. UploadEvidence env newID clock actor xid body cut_short st = (Inl err, st)"
    using Upload_refused by blast
  then show ?thesis using ok upload by auto
qed

lemma evidence_run_ok:
  assumes "\<And>x. hex_digest (Env_digest env x)" "(evidence_step env)\<^sup>*\<^sup>* st st'" "blobs_ok (Env_digest env) st"
  shows "blobs_ok (Env_digest env) st'"
  using assms(2,3) by (induction rule: rtranclp_induct) (auto intro: evidence_step_ok [OF assms(1)])


section \<open>Sides and deleters\<close>

text \<open>
  Who uploads on which side: an administrator without a seat on either, a lead on either, red on
  red and blue on blue; any other seat on neither, except that an administrator is not refused for it.
\<close>

theorem enforceEvidenceSide_iff:
  "enforceEvidenceSide role user e side db = None \<longleftrightarrow>
     (let (seat, member) = Seat e user db in
      if seat = EngagementRoleRed \<and> member then side = EvidenceSideRed
      else if seat = EngagementRoleBlue \<and> member then side = EvidenceSideBlue
      else role = PlatformRoleAdmin \<or> member \<and> seat = EngagementRoleLead)"
  by (auto simp: enforceEvidenceSide_def side_mismatch_def Let_def split: prod.splits)

end
