(* ===== verification/Discussion_Gate.thy ===== *)
theory Discussion_Gate
  imports Discussion_Props Workbook_Props
begin

text \<open>
  The properties of comments and findings, tried on a small database: what holds over every run of
  requests, who edits a comment, and what a reader held to blind mode is shown of them.
\<close>

section \<open>A small database\<close>

definition forum_comment :: Comment where
  "forum_comment = \<lparr>Comment_ID = ''c2'', Comment_ExecutionID = ''x2'', Comment_AuthorID = ''u1'',
     Comment_Body = ''dropped a beacon'', Comment_CreatedAt = 0, Comment_EditedAt = None\<rparr>"

definition forum_finding :: Finding where
  "forum_finding = \<lparr>Finding_ID = ''f1'', Finding_EngagementID = ''e1'', Finding_Title = ''no alert'',
     Finding_Description = [], Finding_Severity = ''high'', Finding_Recommendation = [], Finding_Owner = ''u1'',
     Finding_Status = FindingStatusOpen, Finding_CreatedFromExecution = ''x2'', Finding_CreatedAt = 0,
     Finding_UpdatedAt = 0\<rparr>"

text \<open>A comment on the unrevealed step of the blind engagement, and a finding linked to both steps.\<close>

definition forum :: DDB where
  "forum = \<lparr>DDB_workbook = lab, DDB_comments = [forum_comment],
     DDB_revisions = [\<lparr>Revision_ID = ''r1'', Revision_CommentID = ''c2'', Revision_Body = ''first'',
       Revision_EditedBy = ''u1'', Revision_EditedAt = 0\<rparr>],
     DDB_findings = [forum_finding],
     DDB_history = [\<lparr>FSH_ID = ''h1'', FSH_FindingID = ''f1'', FSH_EngagementID = ''e1'', FSH_FromStatus = None,
       FSH_ToStatus = FindingStatusOpen, FSH_ChangedBy = ''u1'', FSH_ChangedAt = 0\<rparr>],
     DDB_finding_steps = [(''f1'', ''t1''), (''f1'', ''t2'')], DDB_blobs = [], DDB_evidence = []\<rparr>"

lemmas forum_defs = forum_def forum_comment_def forum_finding_def lab_defs

lemma forum_ok: "discussion_ok 0 forum"
proof -
  have "workbook_ok (DDB_workbook forum)" by (simp add: forum_def lab_ok)
  then show ?thesis unfolding discussion_ok_def
    by (simp add: forum_def forum_comment_def forum_finding_def finding_ok_def trail_def FindingStatus_Valid_def
      owns_step_def owns_scenario_def lab_defs)
qed

definition forum_reader :: "EngagementRole \<Rightarrow> Subject" where
  "forum_reader role = \<lparr>Subject_UserID = ''u2'', Subject_PlatformRole = ''user'', Subject_Memberships = [(''e1'', role)],
     Subject_Method = ''session'', Subject_TokenScopes = [], Subject_TokenEngagementID = [], Subject_MFASatisfied = True\<rparr>"

text \<open>A second status, and a second edit.\<close>

definition forum_resolve :: UpdateFindingInput where
  "forum_resolve = \<lparr>UpdateFindingInput_Title = [], UpdateFindingInput_Description = [], UpdateFindingInput_Severity = [],
     UpdateFindingInput_Recommendation = [], UpdateFindingInput_Owner = [], UpdateFindingInput_Status = FindingStatusResolved\<rparr>"

definition forum1 :: DDB where
  "forum1 = snd (UpdateFinding lab_service ''h2'' 5000 ''u1'' ''f1'' forum_resolve forum)"

definition forum2 :: DDB where
  "forum2 = snd (PatchComment_handler lab_service ''r2'' 6000 (Some ''u1'') None ''e1'' ''c2'' ''a beacon, again'' forum1)"

lemma forum_run: "(discussed lab_service)\<^sup>*\<^sup>* (0, forum) (6000, forum2)"
proof -
  have "discussed lab_service (0, forum) (5000, forum1)"
    unfolding forum1_def by (rule discussed.update_finding) simp
  moreover have "discussed lab_service (5000, forum1) (6000, forum2)"
    unfolding forum2_def by (rule discussed.patch_comment) simp
  ultimately show ?thesis by (meson converse_rtranclp_into_rtranclp r_into_rtranclp)
qed

lemma forum_findings: "DDB_findings forum2 = [forum_finding\<lparr>Finding_Status := FindingStatusResolved, Finding_UpdatedAt := 5000\<rparr>]"
  by code_simp

lemma forum_start: "discussion_ok (toStorage (fst (0, forum))) (snd (0, forum))"
  using forum_ok by (simp add: toStorage_def Truncate_def)

section \<open>Every run\<close>



text \<open>The bodies a comment has had, oldest first, as the two listings give them.\<close>

definition bodies :: "string \<Rightarrow> DDB \<Rightarrow> string list" where
  "bodies cid db = map Revision_Body (Comments_Revisions cid db) @
     map Comment_Body (filter (\<lambda>c. Comment_ID c = cid) (DDB_comments db))"

definition same_comment :: "Comment \<Rightarrow> Comment \<Rightarrow> bool" where
  "same_comment c c' \<longleftrightarrow> Comment_ID c' = Comment_ID c \<and> Comment_ExecutionID c' = Comment_ExecutionID c \<and>
     Comment_AuthorID c' = Comment_AuthorID c \<and> Comment_CreatedAt c' = Comment_CreatedAt c"

lemma only_comment:
  assumes "distinct (map Comment_ID rows)" "c \<in> set rows"
  shows "filter (\<lambda>x. Comment_ID x = Comment_ID c) rows = [c]"
  using assms by (induction rows) (auto simp: filter_empty_conv rev_image_eqI)

lemma disc_event_bodies:
  assumes ok: "discussion_ok ts db" and ev: "disc_event ts db db'" and c: "c \<in> set (DDB_comments db)"
  shows "\<exists>c'\<in>set (DDB_comments db'). same_comment c c' \<and>
           (\<exists>more. bodies (Comment_ID c) db' = bodies (Comment_ID c) db @ more)"
proof -
  have ok': "discussion_ok ts db'" by (rule disc_event_ok [OF ev ok])
  have same: ?thesis if "DDB_revisions db' = DDB_revisions db"
    "filter (\<lambda>x. Comment_ID x = Comment_ID c) (DDB_comments db') = filter (\<lambda>x. Comment_ID x = Comment_ID c) (DDB_comments db)"
  proof -
    have "c \<in> set (filter (\<lambda>x. Comment_ID x = Comment_ID c) (DDB_comments db))" using c by simp
    then have "c \<in> set (filter (\<lambda>x. Comment_ID x = Comment_ID c) (DDB_comments db'))" using that(2) by argo
    then have "c \<in> set (DDB_comments db')" by simp
    then show ?thesis using that by (intro bexI [of _ c]) (auto simp: same_comment_def bodies_def Comments_Revisions_def)
  qed
  show ?thesis using ev
  proof cases
    case (comment_edit x cid r body)
    have revs: "Comments_Revisions k db' = filter (\<lambda>r. Revision_CommentID r = k) (DDB_revisions db) @
        (if cid = k then [r] else [])" for k
      using comment_edit(5) by (subst Revisions_rows [OF ok']) (simp add: comment_edit(1))
    let ?e = "\<lambda>c. c\<lparr>Comment_Body := body, Comment_EditedAt := Some ts\<rparr> :: Comment"
    show ?thesis
    proof (cases "Comment_ID c = cid")
      case True
      then have x: "x = c" using comment_row_unique [OF ok] comment_edit(2,3) c by simp
      have in': "?e c \<in> set (DDB_comments db')" using comment_edit(1) c True by (auto simp: table_simps)
      have "filter (\<lambda>x. Comment_ID x = cid) (DDB_comments db') = [?e c]"
        using only_comment [OF _ in'] ok' True by (simp add: discussion_ok_def)
      moreover have "filter (\<lambda>x. Comment_ID x = cid) (DDB_comments db) = [c]"
        using only_comment [OF _ c] ok True by (simp add: discussion_ok_def)
      ultimately have "bodies cid db' = bodies cid db @ [body]"
        using comment_edit(6) x by (simp add: bodies_def revs Revisions_rows [OF ok])
      then show ?thesis using in' True by (intro bexI [of _ "?e c"]) (auto simp: same_comment_def)
    next
      case False
      have in': "c \<in> set (DDB_comments db')" using comment_edit(1) c False by (auto simp: table_simps)
      have "filter (\<lambda>x. Comment_ID x = Comment_ID c) (DDB_comments db') = [c]"
        using only_comment [OF _ in'] ok' by (simp add: discussion_ok_def)
      moreover have "filter (\<lambda>x. Comment_ID x = Comment_ID c) (DDB_comments db) = [c]"
        using only_comment [OF _ c] ok by (simp add: discussion_ok_def)
      ultimately have "bodies (Comment_ID c) db' = bodies (Comment_ID c) db"
        using False by (simp add: bodies_def revs Revisions_rows [OF ok])
      then show ?thesis using in' by (intro bexI [of _ c]) (auto simp: same_comment_def)
    qed
  next
    case (comment_new x)
    have "Comment_ID x \<noteq> Comment_ID c" using comment_new(2) c by (metis imageI)
    then show ?thesis using comment_new(1) by (intro same) simp_all
  qed (rule same, simp, simp)+
qed



text \<open>
  A finding links only to steps of its own engagement: over any requests, walking from a linked
  step to its scenario and on arrives at the engagement of the finding.
\<close>

theorem finding_links_home:
  assumes "(discussed svc)\<^sup>*\<^sup>* (t, db) (t', db')" "discussion_ok (toStorage t) db"
    and "(fid, s) \<in> set (DDB_finding_steps db')"
  shows "\<exists>f. Findings_ByID fid db' = Inr f \<and> StepEngagementID s (DDB_workbook db') = Inr (Finding_EngagementID f)"
proof -
  have ok: "discussion_ok (toStorage t') db'" using discussed_ok [OF assms(1)] assms(2) by simp
  then obtain f where f: "f \<in> set (DDB_findings db')" "Finding_ID f = fid"
    "owns_step (DDB_workbook db') (Finding_EngagementID f) s"
    using assms(3) unfolding discussion_ok_def by fast
  have w: "workbook_ok (DDB_workbook db')" using ok by (simp add: discussion_ok_def)
  obtain st sc where st: "st \<in> set (EDB_steps (DDB_workbook db'))" "Step_ID st = s"
    and sc: "sc \<in> set (EDB_scenarios (DDB_workbook db'))" "Scenario_ID sc = Step_ScenarioID st"
      "Scenario_EngagementID sc = Finding_EngagementID f"
    using f(3) by (auto simp: owns_step_def owns_scenario_def)
  have "select1 (\<lambda>x. Step_ID x = s) (EDB_steps (DDB_workbook db')) = Some st"
    using select1_key [of Step_ID _ st] st w by (simp add: workbook_ok_def)
  moreover have "select1 (\<lambda>x. Scenario_ID x = Step_ScenarioID st) (EDB_scenarios (DDB_workbook db')) = Some sc"
    using select1_key [of Scenario_ID _ sc] sc w by (simp add: workbook_ok_def)
  moreover have "select1 (\<lambda>x. Finding_ID x = fid) (DDB_findings db') = Some f"
    using select1_key [of Finding_ID _ f] f ok by (simp add: discussion_ok_def)
  ultimately show ?thesis
    using sc(3) by (simp add: StepEngagementID_def Steps_ByID_def ScenarioEngagementID_def Scenarios_ByID_def Findings_ByID_def)
qed

theorem finding_links_home_witness:
  "\<exists>f. Findings_ByID ''f1'' forum2 = Inr f \<and> StepEngagementID ''t2'' (DDB_workbook forum2) = Inr (Finding_EngagementID f)"
proof (rule finding_links_home [OF forum_run])
  show "discussion_ok (toStorage 0) forum" using forum_start by simp
qed code_simp

section \<open>Editing a comment\<close>

definition may_edit_comment :: "string \<Rightarrow> Subject option \<Rightarrow> string \<Rightarrow> Comment \<Rightarrow> bool" where
  "may_edit_comment actorID auth engagementID c \<longleftrightarrow> actorID = Comment_AuthorID c \<or>
     (\<exists>s. auth = Some s \<and> (Subject_PlatformRole s = PlatformRoleAdmin \<or>
        fst (MembershipIn s engagementID) = EngagementRoleLead))"

lemma bind_execution_None: "bind_execution res rid x e w = None \<longleftrightarrow> ExecutionEngagementID x w = Inr e"
  by (auto simp: bind_execution_def requireSameEngagement_def split: sum.splits)

lemma canEditComment_None:
  "(if a \<noteq> Comment_AuthorID c then canEditComment auth e else None) = None \<longleftrightarrow> may_edit_comment a auth e c"
  by (auto simp: canEditComment_def may_edit_comment_def split: option.splits)

lemma EditComment_refused: "EditComment svc i c a inp db = (Inl err, db') \<Longrightarrow> db' = db"
proof -
  assume eq: "EditComment svc i c a inp db = (Inl err, db')"
  have "d = db" if "Comments_Edit i c (EditCommentInput_CommentID inp) a (EditCommentInput_Body inp) db = (Inl x, d)" for x d
    using Comments_Edit_cases [of i c "EditCommentInput_CommentID inp" a "EditCommentInput_Body inp" db x] that by simp
  then show ?thesis using eq unfolding EditComment_def
    by (auto split: option.splits prod.splits sum.splits)
qed

text \<open>
  Who edits a comment, and what of it: an edit through the API that succeeds was asked by the
  author, an administrator or a lead of the engagement in the path, the comment belongs to that
  engagement, the new body has one to 16384 bytes, and of all comments only the body and the edit
  time of this one change; a refused edit changes nothing.
\<close>

theorem PatchComment_gate:
  "case PatchComment_handler svc i clock actor auth e cid body db of
     (Inl err, db') \<Rightarrow> db' = db
   | (Inr answer, db') \<Rightarrow> \<exists>a c. actor = Some a \<and> Comments_ByID cid db = Inr c \<and>
       CommentEngagementID cid db = Inr e \<and> may_edit_comment a auth e c \<and>
       0 < length body \<and> length body \<le> 16384 \<and>
       answer = c\<lparr>Comment_Body := body, Comment_EditedAt := Some (toStorage clock)\<rparr> \<and>
       DDB_comments db' = update_where (\<lambda>x. Comment_ID x = cid)
         (\<lambda>x. x\<lparr>Comment_Body := body, Comment_EditedAt := Some (toStorage clock)\<rparr>) (DDB_comments db)"
proof -
  obtain r db' where eq: "PatchComment_handler svc i clock actor auth e cid body db = (r, db')" by force
  show ?thesis
  proof (cases r)
    case (Inl err)
    then show ?thesis using eq unfolding PatchComment_handler_def
      by (auto split: option.splits sum.splits dest: EditComment_refused)
  next
    case (Inr x)
    obtain a where a: "actor = Some a" using eq Inr by (cases actor) (auto simp: PatchComment_handler_def)
    obtain c where got: "GetCommentInEngagement e cid db = Inr c"
      using eq Inr a by (cases "GetCommentInEngagement e cid db") (auto simp: PatchComment_handler_def)
    have c: "Comments_ByID cid db = Inr c" "ExecutionEngagementID (Comment_ExecutionID c) (DDB_workbook db) = Inr e"
      using got by (auto simp: GetCommentInEngagement_def bind_execution_None split: sum.splits option.splits)
    have may: "may_edit_comment a auth e c"
    proof (rule ccontr)
      assume "\<not> may_edit_comment a auth e c"
      then have "(if a \<noteq> Comment_AuthorID c then canEditComment auth e else None) \<noteq> None"
        by (simp only: canEditComment_None not_False_eq_True)
      then show False using eq Inr a got by (auto simp: PatchComment_handler_def)
    qed
    then have "(if a \<noteq> Comment_AuthorID c then canEditComment auth e else None) = None"
      by (simp only: canEditComment_None)
    then have edit: "EditComment svc i clock a \<lparr>EditCommentInput_CommentID = cid, EditCommentInput_EngagementID = e,
        EditCommentInput_ExecutionID = Comment_ExecutionID c, EditCommentInput_Body = body\<rparr> db = (Inr x, db')"
      using eq Inr a got by (simp add: PatchComment_handler_def)
    have body: "comment_body_error body = None" using edit by (cases "comment_body_error body") (auto simp: EditComment_def)
    obtain rev d where wrote: "Comments_Edit i clock cid a body db = (Inr (x, rev), d)" "DDB_comments db' = DDB_comments d"
      using edit body c(2)
      by (auto simp: EditComment_def bind_execution_def requireSameEngagement_def recordCommentActivity_def
          DDB_recordAlone_def split: prod.splits sum.splits option.splits)
    have cur: "select1 (\<lambda>c. Comment_ID c = cid) (DDB_comments db) = Some c"
      using c(1) by (auto simp: Comments_ByID_def split: option.splits)
    have "x = c\<lparr>Comment_Body := body, Comment_EditedAt := Some (toStorage clock)\<rparr> \<and>
      DDB_comments d = update_where (\<lambda>x. Comment_ID x = cid)
         (\<lambda>x. x\<lparr>Comment_Body := body, Comment_EditedAt := Some (toStorage clock)\<rparr>) (DDB_comments db)"
      using Comments_Edit_cases [of i clock cid a body db undefined x rev] wrote(1) cur by auto
    then show ?thesis using eq Inr a c may body wrote(2)
      by (auto simp: CommentEngagementID_def comment_body_error_def split: if_splits)
  qed
qed

section \<open>Findings of a shut engagement\<close>

lemma Findings_Update_cases:
  assumes cur: "select1 (\<lambda>f. Finding_ID f = fid) (DDB_findings db) = Some f"
    and res: "Findings_Update hid clock fid inp [] db = (r, db')"
  shows "case r of Inl err \<Rightarrow> db' = db
    | Inr g \<Rightarrow> g = finding_sets (toStorage clock) inp f \<and> DDB_workbook db' = DDB_workbook db \<and>
        DDB_findings db' = update_where (\<lambda>f. Finding_ID f = fid) (finding_sets (toStorage clock) inp) (DDB_findings db)"
proof -
  have "Finding_ID f = fid" using cur by (auto dest: select1_Some)
  moreover have "select1 (\<lambda>f. Finding_ID f = fid)
      (update_where (\<lambda>f. Finding_ID f = fid) (finding_sets (toStorage clock) inp) (DDB_findings db)) =
    Some (finding_sets (toStorage clock) inp f)"
    using cur calculation by (subst select1_update_where) (auto simp: finding_sets_def)
  ultimately show ?thesis using res cur
    by (auto simp: Findings_Update_def Let_def write_tx_def split: sum.splits if_splits)
qed

text \<open>What a patch may change in a shut engagement.\<close>

definition only_status :: "Finding \<Rightarrow> Finding \<Rightarrow> bool" where
  "only_status f g \<longleftrightarrow> g = f\<lparr>Finding_Status := Finding_Status g, Finding_UpdatedAt := Finding_UpdatedAt g\<rparr>"

text \<open>
  A closed or archived engagement takes no new finding, and of an old one a patch changes the
  status at most, to any of the four.
\<close>

theorem shut_findings:
  assumes "Engagements_ByID e (DDB_workbook db) = Inr eng" "is_shut eng"
    and "CreateFindingInput_EngagementID cf = e"
    and f: "Findings_ByID fid db = Inr f" "Finding_EngagementID f = e"
  shows "(\<exists>err. CreateFinding svc i hid clock a cf db = (Inl err, db)) \<and>
    (case UpdateFinding svc hid clock a fid uf db of
       (Inl err, db') \<Rightarrow> DDB_findings db' = DDB_findings db
     | (Inr g, db') \<Rightarrow> only_status f g \<and> \<not> edits_text uf)"
proof
  show "\<exists>err. CreateFinding svc i hid clock a cf db = (Inl err, db)"
    using assms by (auto simp: CreateFinding_def)
  have cur: "select1 (\<lambda>f. Finding_ID f = fid) (DDB_findings db) = Some f"
    using f(1) by (auto simp: Findings_ByID_def split: option.splits)
  show "case UpdateFinding svc hid clock a fid uf db of
       (Inl err, db') \<Rightarrow> DDB_findings db' = DDB_findings db
     | (Inr g, db') \<Rightarrow> only_status f g \<and> \<not> edits_text uf"
  proof (cases "edits_text uf")
    case True
    then show ?thesis using assms by (auto simp: UpdateFinding_def)
  next
    case False
    obtain r d where up: "Findings_Update hid clock fid (finding_patch a uf) [] db = (r, d)" by force
    have "only_status f (finding_sets (toStorage clock) (finding_patch a uf) f)"
      using False by (simp add: only_status_def finding_sets_def finding_patch_def edits_text_def nonempty_or_def)
    then show ?thesis
      using Findings_Update_cases [OF cur up] assms False up
      by (auto simp: UpdateFinding_def split: sum.splits)
  qed
qed

definition forum_shut :: DDB where
  "forum_shut = forum\<lparr>DDB_workbook := lab\<lparr>EDB_engagements := [lab_engagement ''e1'' EngagementStatusClosed EngagementModeBlind]\<rparr>\<rparr>"

definition forum_new :: CreateFindingInput where
  "forum_new = \<lparr>CreateFindingInput_EngagementID = ''e1'', CreateFindingInput_Title = ''gap'',
     CreateFindingInput_Description = [], CreateFindingInput_Severity = [], CreateFindingInput_Recommendation = [],
     CreateFindingInput_Owner = [], CreateFindingInput_Status = FindingStatusResolved,
     CreateFindingInput_CreatedFromExecution = ''x3''\<rparr>"

theorem shut_findings_witness:
  "(\<exists>err. CreateFinding lab_service ''f2'' ''h2'' 5000 ''u1'' forum_new forum_shut = (Inl err, forum_shut)) \<and>
   (case UpdateFinding lab_service ''h2'' 5000 ''u1'' ''f1'' forum_resolve forum_shut of
      (Inl err, db') \<Rightarrow> DDB_findings db' = DDB_findings forum_shut
    | (Inr g, db') \<Rightarrow> only_status forum_finding g \<and> \<not> edits_text forum_resolve)"
proof (rule shut_findings)
  show "Engagements_ByID ''e1'' (DDB_workbook forum_shut) = Inr (lab_engagement ''e1'' EngagementStatusClosed EngagementModeBlind)"
    by code_simp
qed code_simp+

section \<open>What a withheld reader is shown\<close>

lemma revealed_ids_rows:
  assumes "distinct (map Step_ID (EDB_steps w))" "set ss \<subseteq> set (EDB_steps w)"
  shows "revealed_ids ss w = Inr (map Step_ID (filter (\<lambda>s. Step_RevealedAt s \<noteq> None) ss))"
  using assms(2)
proof (induction ss)
  case (Cons s ss)
  then have "Steps_ByID (Step_ID s) w = Inr s"
    using select1_key [OF assms(1), of s] by (simp add: Steps_ByID_def)
  then show ?case using Cons by auto
qed simp

text \<open>
  The steps shown with a finding are the linked ones the caller's scope permits, in the order
  of the scenario and the ordinal: all of them, or for a reader held to blind mode the revealed ones.
\<close>

theorem finding_steps_shown:
  assumes "discussion_ok ts db" "stepBlindScope auth (Finding_EngagementID f) db = Inr scope"
  shows "findingToWire auth f db =
    Inr (f, map Step_ID (filter (\<lambda>s. Permits scope (Step_RevealedAt s \<noteq> None)) (Findings_Steps (Finding_ID f) db)))"
proof -
  have "set (Findings_Steps (Finding_ID f) db) \<subseteq> set (EDB_steps (DDB_workbook db))"
    by (auto simp: Findings_Steps_def)
  then have "revealed_ids (Findings_Steps (Finding_ID f) db) (DDB_workbook db) =
      Inr (map Step_ID (filter (\<lambda>s. Step_RevealedAt s \<noteq> None) (Findings_Steps (Finding_ID f) db)))"
    using assms(1) by (intro revealed_ids_rows) (simp_all add: discussion_ok_def workbook_ok_def)
  then show ?thesis using assms(2)
    by (auto simp: findingToWire_def visibleFindingStepIDs_def Permits_def)
qed

theorem finding_steps_shown_witness:
  "findingToWire (Some (forum_reader EngagementRoleBlue)) forum_finding forum = Inr (forum_finding, [''t1''])"
proof -
  have "stepBlindScope (Some (forum_reader EngagementRoleBlue)) (Finding_EngagementID forum_finding) forum =
      Inr \<lparr>Scope_Blind = True, Scope_Seat = EngagementRoleBlue\<rparr>"
    by code_simp
  moreover have "map Step_ID (filter (\<lambda>s. Permits \<lparr>Scope_Blind = True, Scope_Seat = EngagementRoleBlue\<rparr>
      (Step_RevealedAt s \<noteq> None)) (Findings_Steps (Finding_ID forum_finding) forum)) = [''t1'']"
    by code_simp
  ultimately show ?thesis using finding_steps_shown [OF forum_ok] by metis
qed

text \<open>
  Two answers of the same database that do tell the blue seat of the hidden step: the comments of its
  execution are refused, but the earlier bodies of one of them are not, and the finding names the
  execution it was raised from.
\<close>

lemma hidden_step_told:
  "ListComments_handler (Some (forum_reader EngagementRoleBlue)) ''e1'' ''x2'' forum = Inl (NotFound ''execution'' ''x2'') \<and>
   ListCommentRevisions ''e1'' ''c2'' forum =
     Inr [\<lparr>Revision_ID = ''r1'', Revision_CommentID = ''c2'', Revision_Body = ''first'', Revision_EditedBy = ''u1'',
           Revision_EditedAt = 0\<rparr>] \<and>
   GetFinding_handler (Some (forum_reader EngagementRoleBlue)) ''f1'' forum = Inr (forum_finding, [''t1'']) \<and>
   Finding_CreatedFromExecution forum_finding = ''x2''"
  by code_simp

text \<open>A finding may name an execution of another engagement, even one that does not exist.\<close>

lemma finding_from_elsewhere:
  "map_sum (\<lambda>_. ()) (\<lambda>f. (Finding_Status f, Finding_CreatedFromExecution f, Finding_EngagementID f))
     (fst (CreateFinding lab_service ''f2'' ''h2'' 5000 ''u1'' forum_new forum)) = Inr (FindingStatusOpen, ''x3'', ''e1'') \<and>
   ExecutionEngagementID ''x3'' lab = Inr ''e2''"
  by code_simp

text \<open>
  The service trusts its caller to pair the comment with its execution: asked directly, it edits a
  comment of the engagement e1 for the engagement e2.
\<close>

lemma EditComment_unpaired:
  "fst (EditComment lab_service ''r2'' 5000 ''u9'' \<lparr>EditCommentInput_CommentID = ''c2'', EditCommentInput_EngagementID = ''e2'',
      EditCommentInput_ExecutionID = ''x3'', EditCommentInput_Body = ''mine''\<rparr> forum) =
     Inr (forum_comment\<lparr>Comment_Body := ''mine'', Comment_EditedAt := Some 5000\<rparr>) \<and>
   CommentEngagementID ''c2'' forum = Inr ''e1''"
  by code_simp

end
