(* ===== verification/Evidence_Samples.thy ===== *)
theory Evidence_Samples
  imports Evidence_Props Discussion_Gate
begin

text \<open>The properties of the evidence store on a small database, with a constant in place of SHA-256.\<close>

definition shed_digest :: string where
  "shed_digest = replicate 64 (CHR ''a'')"

definition shed_env :: Evidence_env where
  "shed_env = \<lparr>Env_service = lab_service, Env_config = \<lparr>MaxUploadBytes = 1000, MaxEngagementBytes = 0\<rparr>,
     Env_allowlist = [], Env_has_store = True, Env_digest = \<lambda>_. shed_digest, Env_detect = \<lambda>_. ''text/plain''\<rparr>"

definition shed :: EVS where
  "shed = \<lparr>EVS_disk = [], EVS_db = forum\<rparr>"

definition shed_row :: NewEvidence where
  "shed_row = \<lparr>NewEvidence_BlobSHA256 = shed_digest, NewEvidence_Filename = ''a.log'', NewEvidence_Caption = [],
     NewEvidence_Side = EvidenceSideRed, NewEvidence_ExecutionID = ''x1'', NewEvidence_CommentID = [],
     NewEvidence_UploadedBy = ''u1'', NewEvidence_Size = 3, NewEvidence_MIME = ''text/plain''\<rparr>"

text \<open>The upload of three bytes, and a row for it.\<close>

definition shed1 :: EVS where
  "shed1 = snd (Put (Env_digest shed_env) (Env_config shed_env) 5000 ''log'' ''text/plain'' ''e1'' shed)"

definition shed2 :: EVS where
  "shed2 = shed1\<lparr>EVS_db := snd (Evidence_Create ''v1'' 6000 shed_row [] (EVS_db shed1))\<rparr>"

lemma shed_detect: "Env_detect shed_env x = ''text/plain''"
  by (simp add: shed_env_def)

lemma shed_hex: "hex_digest (Env_digest shed_env x)"
  by (simp add: shed_env_def hex_digest_def shed_digest_def)

lemma shed_ok: "blobs_ok (Env_digest shed_env) shed"
  by (simp add: blobs_ok_def shed_def forum_def)

lemma shed_blobs: "map (\<lambda>b. (Blob_SHA256 b, Blob_RefCount b)) (DDB_blobs (EVS_db shed1)) = [(shed_digest, 1)] \<and>
    DDB_evidence (EVS_db shed1) = []"
  by code_simp

lemma shed_run: "(evidence_step shed_env)\<^sup>*\<^sup>* shed shed2"
proof -
  obtain b where b: "DDB_blobs (EVS_db shed1) = [b]" "Blob_SHA256 b = shed_digest" "Blob_RefCount b = 1"
    using shed_blobs by (auto simp: map_eq_Cons_conv)
  have "evidence_step shed_env shed shed1" unfolding shed1_def by (rule evidence_step.put)
  moreover have "evidence_step shed_env shed1 shed2"
    unfolding shed2_def using b shed_blobs
    by (intro evidence_step.link [of b]) (simp_all add: shed_row_def named_def count_where_def)
  ultimately show ?thesis by (meson converse_rtranclp_into_rtranclp r_into_rtranclp)
qed

lemma shed_evidence: "map Evidence_BlobSHA256 (DDB_evidence (EVS_db shed2)) = [shed_digest]"
  by code_simp


definition shed_form :: Upload_form where
  "shed_form = \<lparr>Form_file = Some 0, Form_filename = ''a.log'', Form_caption = [], Form_side = EvidenceSideRed\<rparr>"

theorem upload_store_unlinked_witness:
  "\<exists>err. upload_store shed_env ''v1'' 5000 ''u1'' ''e1'' (lab_execution ''x1'' ''t1'' None) shed_form ''log'' shed = (Inl err, shed1) \<and>
    DDB_evidence (EVS_db shed1) = DDB_evidence (EVS_db shed)"
proof (rule upload_store_unlinked)
  have "fst (Put (Env_digest shed_env) (Env_config shed_env) 5000 ''log'' ''text/plain'' ''e1'' shed) = Inr (shed_digest, False, 3)"
    by code_simp
  then show "Put (Env_digest shed_env) (Env_config shed_env) 5000 ''log'' (Env_detect shed_env (take 512 ''log'')) ''e1'' shed =
      (Inr (shed_digest, False, 3), shed1)"
    unfolding shed1_def by (metis prod.collapse shed_detect)
qed (simp_all add: shed_env_def shed_def forum_def shed_digest_def)

end
