(* ===== verification/Requirements.thy ===== *)
theory Requirements
  imports Identity Go_Text
begin

text \<open>
  What each operation of the API requires of its caller, read out of the specification
  (api/authz.go). The document is a value of kin-openapi's types: a map is the list of its pairs, visited
  in the order of the keys as the code does; a security alternative is the list of the schemes it
  names. A refusal is a value of \<open>mapping_error\<close>, one for each message of the code: the wording only
  reaches whoever starts the server.
\<close>

section \<open>The document\<close>

datatype ext_value = ExtString string | ExtBool bool | ExtMap "(string \<times> ext_value) list" | ExtOther

record Parameter =
  Param_In :: string
  Param_Name :: string

record Operation =
  Op_OperationID :: string
  Op_Extensions :: "(string \<times> ext_value) list"
  Op_Security :: "string list list option"
  Op_Parameters :: "Parameter option list"

record Path_item =
  Item_Path :: string
  Item_Parameters :: "Parameter option list"
  Item_Operations :: "(string \<times> Operation) list"

definition sorted_keys :: "(string \<times> 'a) list \<Rightarrow> string list" where
  "sorted_keys m = sort (remdups (map fst m))"

abbreviation extAction :: string where "extAction \<equiv> ''x-authz-action''"
abbreviation extResource :: string where "extResource \<equiv> ''x-authz-resource''"
abbreviation extPublic :: string where "extPublic \<equiv> ''x-authz-public''"
abbreviation extSelf :: string where "extSelf \<equiv> ''x-authz-self''"
abbreviation extBecause :: string where "extBecause \<equiv> ''x-authz-because''"

abbreviation resourceType :: string where "resourceType \<equiv> ''type''"
abbreviation resourceParam :: string where "resourceParam \<equiv> ''param''"
abbreviation resourceEngagement :: string where "resourceEngagement \<equiv> ''engagement''"
abbreviation resourceKind :: string where "resourceKind \<equiv> ''kind''"

section \<open>Requirements\<close>

record api_ResourceRef =
  Ref_Type :: ResourceType
  Ref_Param :: string
  Ref_Engagement :: string
  Ref_Kind :: string

record Requirement =
  Requirement_OperationID :: string
  Requirement_Method :: string
  Requirement_Path :: string
  Requirement_Public :: bool
  Requirement_Self :: bool
  Requirement_Because :: string
  Requirement_Action :: Action
  Requirement_Resource :: api_ResourceRef
  Requirement_SessionOnly :: bool

definition noResource :: api_ResourceRef where
  "noResource = \<lparr>Ref_Type = [], Ref_Param = [], Ref_Engagement = [], Ref_Kind = []\<rparr>"

datatype mapping_error =
    NoOperationID string
  | UnknownExtension string string
  | FlagNotBool string string
  | FlagFalse string string
  | BothExemptions string
  | ActionAndExemption string
  | NothingDeclared string
  | NoReason string
  | ReasonNotText string
  | ReasonEmpty string
  | ReasonMultiline string
  | SelfNames string "string list"
  | NoCredential string
  | ActionNotText string
  | ActionNotKnown string string
  | ResourceMissing string
  | ResourceNotMap string
  | ResourceKeyUnknown string string
  | FieldMissing string string
  | FieldEmpty string string
  | ResourceMismatch string ResourceType ResourceType
  | OwnerMissing string ResourceType
  | OwnerOnPlatform string ResourceType
  | KindUnknown string string
  | KindMismatch string string
  | KindUnnamed string string
  | ParameterUndeclared string string string

definition sessionOnlySecurity :: "Operation \<Rightarrow> bool" where
  "sessionOnlySecurity op =
     (case Op_Security op of
        None \<Rightarrow> False
      | Some reqs \<Rightarrow> reqs \<noteq> [] \<and> list_all (\<lambda>req. length req = 1 \<and> ''cookieSession'' \<in> set req) reqs)"

definition hasCredential :: "string \<Rightarrow> Operation \<Rightarrow> mapping_error option" where
  "hasCredential loc op =
     (case Op_Security op of
        None \<Rightarrow> None
      | Some reqs \<Rightarrow> if reqs \<noteq> [] then None else Some (NoCredential loc))"

definition onlyKnownExtensions :: "string \<Rightarrow> (string \<times> ext_value) list \<Rightarrow> mapping_error option" where
  "onlyKnownExtensions loc extensions =
     map_option (UnknownExtension loc)
       (find (\<lambda>key. HasPrefix key ''x-authz'' \<and>
          key \<notin> set [extAction, extResource, extPublic, extSelf, extBecause]) (sorted_keys extensions))"

definition flag :: "string \<Rightarrow> (string \<times> ext_value) list \<Rightarrow> string \<Rightarrow> mapping_error + bool" where
  "flag loc extensions key =
     (case map_of extensions key of
        None \<Rightarrow> Inr False
      | Some (ExtBool b) \<Rightarrow> if b then Inr True else Inl (FlagFalse loc key)
      | Some raw \<Rightarrow> Inl (FlagNotBool loc key))"

definition because :: "string \<Rightarrow> (string \<times> ext_value) list \<Rightarrow> mapping_error + string" where
  "because loc extensions =
     (case map_of extensions extBecause of
        None \<Rightarrow> Inl (NoReason loc)
      | Some (ExtString reason) \<Rightarrow>
          if TrimSpace reason = [] then Inl (ReasonEmpty loc)
          else if CHR 0x0A \<in> set reason then Inl (ReasonMultiline loc)
          else Inr reason
      | Some raw \<Rightarrow> Inl (ReasonNotText loc))"

definition parseAction :: "string \<Rightarrow> ext_value \<Rightarrow> mapping_error + Action" where
  "parseAction loc raw =
     (case raw of
        ExtString name \<Rightarrow>
          (case ParseAction name of None \<Rightarrow> Inl (ActionNotKnown loc name) | Some action \<Rightarrow> Inr action)
      | _ \<Rightarrow> Inl (ActionNotText loc))"

definition resource_field :: "string \<Rightarrow> (string \<times> ext_value) list \<Rightarrow> string \<Rightarrow> bool \<Rightarrow> mapping_error + string" where
  "resource_field loc entries key required =
     (case map_of entries key of
        None \<Rightarrow> if required then Inl (FieldMissing loc key) else Inr []
      | Some (ExtString value) \<Rightarrow> if TrimSpace value = [] then Inl (FieldEmpty loc key) else Inr value
      | Some raw \<Rightarrow> Inl (FieldEmpty loc key))"

definition resourceKinds :: "(string \<times> ResourceType) list" where
  "resourceKinds = [(''report'', ResourceReport), (''template'', ResourceReport), (''version'', ResourceReport),
     (''share'', ResourceReport), (''execution'', ResourceEvidence)]"

definition checkKind :: "string \<Rightarrow> api_ResourceRef \<Rightarrow> mapping_error option" where
  "checkKind loc ref =
     (if Ref_Kind ref = [] then None
      else case map_of resourceKinds (Ref_Kind ref) of
        None \<Rightarrow> Some (KindUnknown loc (Ref_Kind ref))
      | Some want \<Rightarrow>
          if Ref_Type ref \<noteq> want then Some (KindMismatch loc (Ref_Kind ref))
          else if Ref_Param ref = [] then Some (KindUnnamed loc (Ref_Kind ref))
          else None)"

definition resourceOf :: "Action \<Rightarrow> ResourceType" where
  "resourceOf action =
     (case find (\<lambda>rule. Rule_Action rule = action) rules of None \<Rightarrow> [] | Some rule \<Rightarrow> Rule_Resource rule)"

definition path_names :: "Parameter option list \<Rightarrow> string list" where
  "path_names params = [Param_Name p. Some p \<leftarrow> params, Param_In p = ''path'']"

definition pathParameters :: "Path_item \<Rightarrow> Operation \<Rightarrow> string list" where
  "pathParameters item op = sort (remdups (path_names (Item_Parameters item) @ path_names (Op_Parameters op)))"

text \<open>The last checks of \<open>parseResource\<close>: the owner, the kind, the declared parameters.\<close>

definition check_ref :: "string \<Rightarrow> Path_item \<Rightarrow> Operation \<Rightarrow> Action \<Rightarrow> api_ResourceRef \<Rightarrow> mapping_error option" where
  "check_ref loc item op action ref =
     (let scoped = EngagementScoped (Ref_Type ref); declared = pathParameters item op
      in if Ref_Type ref \<noteq> resourceOf action then Some (ResourceMismatch loc (Ref_Type ref) (resourceOf action))
         else if scoped \<and> Ref_Engagement ref = [] \<and> Ref_Param ref = [] then Some (OwnerMissing loc (Ref_Type ref))
         else if \<not> scoped \<and> Ref_Engagement ref \<noteq> [] then Some (OwnerOnPlatform loc (Ref_Type ref))
         else case checkKind loc ref of
                Some err \<Rightarrow> Some err
              | None \<Rightarrow>
                  if Ref_Param ref \<noteq> [] \<and> Ref_Param ref \<notin> set declared
                  then Some (ParameterUndeclared loc resourceParam (Ref_Param ref))
                  else if Ref_Engagement ref \<noteq> [] \<and> Ref_Engagement ref \<notin> set declared
                  then Some (ParameterUndeclared loc resourceEngagement (Ref_Engagement ref))
                  else None)"

definition parseResource :: "string \<Rightarrow> Path_item \<Rightarrow> Operation \<Rightarrow> Action \<Rightarrow> mapping_error + api_ResourceRef" where
  "parseResource loc item op action =
     (case map_of (Op_Extensions op) extResource of
        None \<Rightarrow> Inl (ResourceMissing loc)
      | Some (ExtMap entries) \<Rightarrow>
          (case find (\<lambda>key. key \<notin> set [resourceType, resourceParam, resourceEngagement, resourceKind]) (sorted_keys entries) of
             Some key \<Rightarrow> Inl (ResourceKeyUnknown loc key)
           | None \<Rightarrow>
               (case resource_field loc entries resourceType True of
                  Inl err \<Rightarrow> Inl err
                | Inr name \<Rightarrow>
                    (case resource_field loc entries resourceParam False of
                       Inl err \<Rightarrow> Inl err
                     | Inr param \<Rightarrow>
                         (case resource_field loc entries resourceEngagement False of
                            Inl err \<Rightarrow> Inl err
                          | Inr engagement \<Rightarrow>
                              (case resource_field loc entries resourceKind False of
                                 Inl err \<Rightarrow> Inl err
                               | Inr kind \<Rightarrow>
                                   (let ref = \<lparr>Ref_Type = name, Ref_Param = param, Ref_Engagement = engagement,
                                               Ref_Kind = kind\<rparr>
                                    in case check_ref loc item op action ref of
                                         Some err \<Rightarrow> Inl err
                                       | None \<Rightarrow> Inr ref))))))
      | Some raw \<Rightarrow> Inl (ResourceNotMap loc))"

text \<open>An exempt operation's declaration: it is returned before its security is read.\<close>

definition exempt_requirement :: "string \<Rightarrow> Path_item \<Rightarrow> Operation \<Rightarrow> Requirement \<Rightarrow> mapping_error + Requirement" where
  "exempt_requirement loc item op requirement =
     (case because loc (Op_Extensions op) of
        Inl err \<Rightarrow> Inl err
      | Inr reason \<Rightarrow>
          if Requirement_Self requirement \<and> pathParameters item op \<noteq> []
          then Inl (SelfNames loc (pathParameters item op))
          else Inr (requirement\<lparr>Requirement_Because := reason\<rparr>))"

definition action_requirement :: "string \<Rightarrow> Path_item \<Rightarrow> Operation \<Rightarrow> ext_value \<Rightarrow> Requirement \<Rightarrow> mapping_error + Requirement" where
  "action_requirement loc item op raw requirement =
     (case hasCredential loc op of
        Some err \<Rightarrow> Inl err
      | None \<Rightarrow>
          (case parseAction loc raw of
             Inl err \<Rightarrow> Inl err
           | Inr action \<Rightarrow>
               (case parseResource loc item op action of
                  Inl err \<Rightarrow> Inl err
                | Inr ref \<Rightarrow> Inr (requirement\<lparr>Requirement_Action := action, Requirement_Resource := ref,
                      Requirement_SessionOnly := sessionOnlySecurity op\<rparr>))))"

definition requirementOf :: "string \<Rightarrow> string \<Rightarrow> Path_item \<Rightarrow> Operation \<Rightarrow> mapping_error + Requirement" where
  "requirementOf method path item op =
     (if Op_OperationID op = [] then Inl (NoOperationID (method @ '' '' @ path))
      else
       (let loc = Op_OperationID op @ '' ('' @ method @ '' '' @ path @ '')''; exts = Op_Extensions op
        in case onlyKnownExtensions loc exts of
             Some err \<Rightarrow> Inl err
           | None \<Rightarrow>
               (case flag loc exts extPublic of
                  Inl err \<Rightarrow> Inl err
                | Inr public \<Rightarrow>
                    (case flag loc exts extSelf of
                       Inl err \<Rightarrow> Inl err
                     | Inr self \<Rightarrow>
                         (let requirement = \<lparr>Requirement_OperationID = Op_OperationID op, Requirement_Method = method,
                            Requirement_Path = path, Requirement_Public = public, Requirement_Self = self,
                            Requirement_Because = [], Requirement_Action = ActionUnknown,
                            Requirement_Resource = noResource, Requirement_SessionOnly = False\<rparr>
                          in if public \<and> self then Inl (BothExemptions loc)
                             else case map_of exts extAction of
                               Some raw \<Rightarrow>
                                 if public \<or> self then Inl (ActionAndExemption loc)
                                 else action_requirement loc item op raw requirement
                             | None \<Rightarrow>
                                 if \<not> public \<and> \<not> self then Inl (NothingDeclared loc)
                                 else exempt_requirement loc item op requirement)))))"

text \<open>Every operation is read, and every problem reported; a later operation of the same name replaces.\<close>

definition all_operations :: "Path_item list \<Rightarrow> (string \<times> string \<times> Path_item \<times> Operation) list" where
  "all_operations doc =
     [(method, Item_Path item, item, op). item \<leftarrow> sort_key Item_Path doc, (method, op) \<leftarrow> sort_key fst (Item_Operations item)]"

fun Requirements_loop :: "(string \<times> string \<times> Path_item \<times> Operation) list \<Rightarrow> (string \<rightharpoonup> Requirement) \<Rightarrow>
    mapping_error list \<Rightarrow> (string \<rightharpoonup> Requirement) \<times> mapping_error list" where
  "Requirements_loop [] requirements problems = (requirements, problems)"
| "Requirements_loop ((method, path, item, op) # rest) requirements problems =
     (case requirementOf method path item op of
        Inl err \<Rightarrow> Requirements_loop rest requirements (problems @ [err])
      | Inr req \<Rightarrow> Requirements_loop rest (requirements(Requirement_OperationID req \<mapsto> req)) problems)"

text \<open>The left: an empty document has no problem to list, and is refused all the same.\<close>

definition Requirements :: "Path_item list \<Rightarrow> mapping_error list + (string \<rightharpoonup> Requirement)" where
  "Requirements doc =
     (if doc = [] then Inl []
      else case Requirements_loop (all_operations doc) Map.empty [] of
        (requirements, problems) \<Rightarrow> if problems \<noteq> [] then Inl problems else Inr requirements)"

end
