(* ===== verification/Report_Store.thy ===== *)
theory Report_Store
  imports Discussion_Store
begin

text \<open>
  Reports, their published versions, templates, and the shares of a version with their grants
  (internal/store/report). \<open>RDB\<close> adds these tables to the others. A TIMESTAMP column keeps
  microseconds, so a stored row may differ from the returned one below that. Rows with the same
  value of an ORDER BY column come in table order. Foreign keys are RESTRICT, and the engine checks
  one against the child's rows as the transaction found them (the note on deleteReportGraph in
  reports.go), so a parent cannot go in the transaction that deletes its children.
\<close>

section \<open>Rows (report.go, template.go, version.go, share.go)\<close>

record Report =
  Report_ID :: string
  Report_EngagementID :: string
  Report_Title :: string
  Report_ClientName :: "string option"
  Report_LogoBlobRef :: "string option"
  Report_Colours :: string
  Report_CreatedBy :: string
  Report_CreatedAt :: gotime
  Report_UpdatedBy :: "string option"
  Report_UpdatedAt :: gotime

record ReportBlock =
  Block_ID :: string
  Block_ReportID :: string
  Block_Ordinal :: nat
  Block_BlockID :: string
  Block_Params :: string

record NewReport =
  NewReport_EngagementID :: string
  NewReport_Title :: string
  NewReport_CreatedBy :: string

record ReportUpdate =
  ReportUpdate_Title :: "string option"
  ReportUpdate_ClientName :: "string option option"
  ReportUpdate_LogoBlobRef :: "string option option"
  ReportUpdate_Colours :: "string option"
  ReportUpdate_UpdatedBy :: string

record NewBlock =
  NewBlock_BlockID :: string
  NewBlock_Params :: string

record Template =
  Template_ID :: string
  Template_EngagementID :: string
  Template_Name :: string
  Template_CreatedBy :: string
  Template_CreatedAt :: gotime
  Template_UpdatedAt :: gotime

record TemplateBlock =
  TemplateBlock_TemplateID :: string
  TemplateBlock_Ordinal :: nat
  TemplateBlock_BlockID :: string
  TemplateBlock_Params :: string

record ReportVersion =
  Version_ID :: string
  Version_ReportID :: string
  Version_Ordinal :: int
  Version_Title :: string
  Version_PublishedBy :: string
  Version_PublishedAt :: gotime
  Version_IncludeEvidence :: bool
  Version_BlindScope :: string
  Version_BlocksJSON :: string
  Version_BrandingJSON :: string
  Version_HTML :: string
  Version_ContentSHA256 :: "string option"
  Version_PDFSHA256 :: "string option"

record NewVersion =
  NewVersion_ReportID :: string
  NewVersion_Ordinal :: int
  NewVersion_Title :: string
  NewVersion_PublishedBy :: string
  NewVersion_IncludeEvidence :: bool
  NewVersion_BlindScope :: string
  NewVersion_BlocksJSON :: string
  NewVersion_BrandingJSON :: string
  NewVersion_HTML :: string
  NewVersion_ContentSHA256 :: string

record ReportShare =
  Share_ID :: string
  Share_VersionID :: string
  Share_TokenHash :: string
  Share_PasswordHash :: "string option"
  Share_ExpiresAt :: "gotime option"
  Share_RevokedAt :: "gotime option"
  Share_CreatedBy :: string
  Share_CreatedAt :: gotime
  Share_Label :: "string option"
  Share_MaxGrants :: "int option"

record NewShare =
  NewShare_VersionID :: string
  NewShare_TokenHash :: string
  NewShare_PasswordHash :: "string option"
  NewShare_ExpiresAt :: "gotime option"
  NewShare_CreatedBy :: string
  NewShare_Label :: "string option"
  NewShare_MaxGrants :: "int option"

record ReportShareGrant =
  Grant_ID :: string
  Grant_ShareID :: string
  Grant_UserID :: "string option"
  Grant_InviteCodeHash :: "string option"
  Grant_ClaimedAt :: "gotime option"
  Grant_RevokedAt :: "gotime option"
  Grant_CreatedAt :: gotime

record RDB =
  RDB_discussion :: DDB
  RDB_reports :: "Report list"
  RDB_blocks :: "ReportBlock list"
  RDB_versions :: "ReportVersion list"
  RDB_shares :: "ReportShare list"
  RDB_grants :: "ReportShareGrant list"
  RDB_templates :: "Template list"
  RDB_template_blocks :: "TemplateBlock list"

definition report_requireOneRow :: "nat \<Rightarrow> string \<Rightarrow> string \<Rightarrow> error option" where
  "report_requireOneRow affected res rid = (if affected \<noteq> 1 then Some (NotFound res rid) else None)"

abbreviation RDB_engagements :: "RDB \<Rightarrow> Engagement list" where
  "RDB_engagements db \<equiv> EDB_engagements (DDB_workbook (RDB_discussion db))"

section \<open>Reports (reports.go)\<close>

definition Reports_Create :: "string \<Rightarrow> gotime \<Rightarrow> gotime \<Rightarrow> NewReport \<Rightarrow> RDB after list \<Rightarrow> RDB \<Rightarrow>
    (error + Report) \<times> RDB" where
  "Reports_Create newID created updated inp after db =
     (let rep = \<lparr>Report_ID = newID, Report_EngagementID = NewReport_EngagementID inp, Report_Title = NewReport_Title inp,
            Report_ClientName = None, Report_LogoBlobRef = None, Report_Colours = [],
            Report_CreatedBy = NewReport_CreatedBy inp, Report_CreatedAt = created, Report_UpdatedBy = None,
            Report_UpdatedAt = updated\<rparr>;
          stored = rep\<lparr>Report_CreatedAt := toStorage created, Report_UpdatedAt := toStorage updated\<rparr>
      in write_tx
           (case insert_row Report_ID stored (RDB_reports db) of
              Inl err \<Rightarrow> Inl (ErrorfW ''report: insert'' err)
            | Inr rows \<Rightarrow>
                if NewReport_EngagementID inp \<notin> set (map Engagement_ID (RDB_engagements db))
                then Inl (ErrorfW ''report: insert'' (constraintError ''app.report''))
                else case runAfter newID after (db\<lparr>RDB_reports := rows\<rparr>) of
                       Inl err \<Rightarrow> Inl err | Inr db' \<Rightarrow> Inr (rep, db')) db)"

definition Reports_ByID :: "string \<Rightarrow> RDB \<Rightarrow> error + Report" where
  "Reports_ByID rid db =
     (case select1 (\<lambda>r. Report_ID r = rid) (RDB_reports db) of
        None \<Rightarrow> Inl (NotFound ''report'' rid) | Some r \<Rightarrow> Inr r)"

definition Reports_ListByEngagement :: "string \<Rightarrow> RDB \<Rightarrow> Report list" where
  "Reports_ListByEngagement eid db =
     sort_key (\<lambda>r. - Report_CreatedAt r) (sort_key Report_ID
       (filter (\<lambda>r. Report_EngagementID r = eid) (RDB_reports db)))"

text \<open>The patch is applied to the row as it was read before the transaction, and written back whole.\<close>

definition report_patch :: "gotime \<Rightarrow> ReportUpdate \<Rightarrow> Report \<Rightarrow> Report" where
  "report_patch ts changes r =
     r\<lparr>Report_Title := (case ReportUpdate_Title changes of None \<Rightarrow> Report_Title r | Some v \<Rightarrow> v),
       Report_ClientName := (case ReportUpdate_ClientName changes of None \<Rightarrow> Report_ClientName r | Some v \<Rightarrow> v),
       Report_LogoBlobRef := (case ReportUpdate_LogoBlobRef changes of None \<Rightarrow> Report_LogoBlobRef r | Some v \<Rightarrow> v),
       Report_Colours := (case ReportUpdate_Colours changes of None \<Rightarrow> Report_Colours r | Some v \<Rightarrow> v),
       Report_UpdatedBy := Some (ReportUpdate_UpdatedBy changes), Report_UpdatedAt := ts\<rparr>"

definition Reports_Update :: "string \<Rightarrow> gotime \<Rightarrow> ReportUpdate \<Rightarrow> RDB after list \<Rightarrow> RDB \<Rightarrow> (error + Report) \<times> RDB" where
  "Reports_Update rid ts changes after db =
     (case Reports_ByID rid db of
        Inl err \<Rightarrow> (Inl err, db)
      | Inr current \<Rightarrow>
          (let rep = report_patch ts changes current;
               written = (\<lambda>r. r\<lparr>Report_Title := Report_Title rep, Report_ClientName := Report_ClientName rep,
                 Report_LogoBlobRef := Report_LogoBlobRef rep, Report_Colours := Report_Colours rep,
                 Report_UpdatedBy := Report_UpdatedBy rep, Report_UpdatedAt := toStorage ts\<rparr>);
               rows = update_where (\<lambda>r. Report_ID r = rid) written (RDB_reports db)
           in write_tx
                (case report_requireOneRow (count_where (\<lambda>r. Report_ID r = rid) (RDB_reports db)) ''report'' rid of
                   Some err \<Rightarrow> Inl err
                 | None \<Rightarrow>
                     (case runAfter rid after (db\<lparr>RDB_reports := rows\<rparr>) of
                        Inl err \<Rightarrow> Inl err | Inr db' \<Rightarrow> Inr (rep, db'))) db))"

text \<open>The statements of a report's deletion, each in a transaction of its own; the first error ends it.\<close>

fun run_stmts :: "string \<Rightarrow> ('d \<Rightarrow> error + 'd) list \<Rightarrow> 'd \<Rightarrow> error option \<times> 'd" where
  "run_stmts what [] db = (None, db)"
| "run_stmts what (stmt # stmts) db =
     (case stmt db of Inl err \<Rightarrow> (Some (ErrorfW what err), db) | Inr db' \<Rightarrow> run_stmts what stmts db')"

text \<open>A DELETE under RESTRICT: the rows it selects may not be named by a child.\<close>

definition restrict_delete :: "('r \<Rightarrow> string) \<Rightarrow> ('r \<Rightarrow> bool) \<Rightarrow> string list \<Rightarrow> 'r list \<Rightarrow> error + 'r list" where
  "restrict_delete key sel children rows =
     (if \<exists>r\<in>set rows. sel r \<and> key r \<in> set children
      then Inl (constraintError ''still referenced by a foreign key in a different table'')
      else Inr (delete_where sel rows))"

definition version_ids :: "(string \<Rightarrow> bool) \<Rightarrow> RDB \<Rightarrow> string list" where
  "version_ids sel db = map Version_ID (filter (\<lambda>v. sel (Version_ReportID v)) (RDB_versions db))"

definition share_ids :: "(string \<Rightarrow> bool) \<Rightarrow> RDB \<Rightarrow> string list" where
  "share_ids sel db = map Share_ID (filter (\<lambda>s. Share_VersionID s \<in> set (version_ids sel db)) (RDB_shares db))"

definition delete_grants :: "(string \<Rightarrow> bool) \<Rightarrow> RDB \<Rightarrow> error + RDB" where
  "delete_grants sel db =
     Inr (db\<lparr>RDB_grants := delete_where (\<lambda>g. Grant_ShareID g \<in> set (share_ids sel db)) (RDB_grants db)\<rparr>)"

definition delete_shares :: "(string \<Rightarrow> bool) \<Rightarrow> RDB \<Rightarrow> error + RDB" where
  "delete_shares sel db =
     map_sum id (\<lambda>rows. db\<lparr>RDB_shares := rows\<rparr>)
       (restrict_delete Share_ID (\<lambda>s. Share_VersionID s \<in> set (version_ids sel db)) (map Grant_ShareID (RDB_grants db))
          (RDB_shares db))"

definition delete_versions :: "(string \<Rightarrow> bool) \<Rightarrow> RDB \<Rightarrow> error + RDB" where
  "delete_versions sel db =
     map_sum id (\<lambda>rows. db\<lparr>RDB_versions := rows\<rparr>)
       (restrict_delete Version_ID (\<lambda>v. sel (Version_ReportID v)) (map Share_VersionID (RDB_shares db)) (RDB_versions db))"

definition delete_blocks :: "(string \<Rightarrow> bool) \<Rightarrow> RDB \<Rightarrow> error + RDB" where
  "delete_blocks sel db = Inr (db\<lparr>RDB_blocks := delete_where (\<lambda>b. sel (Block_ReportID b)) (RDB_blocks db)\<rparr>)"

definition deleteReportGraph :: "string \<Rightarrow> (RDB \<Rightarrow> error + RDB) list" where
  "deleteReportGraph rid =
     [delete_grants (\<lambda>r. r = rid), delete_shares (\<lambda>r. r = rid), delete_versions (\<lambda>r. r = rid), delete_blocks (\<lambda>r. r = rid)]"

definition Reports_Delete :: "string \<Rightarrow> RDB \<Rightarrow> error option \<times> RDB" where
  "Reports_Delete rid db =
     (case run_stmts (''report: delete '' @ rid) (deleteReportGraph rid) db of
        (Some err, db') \<Rightarrow> (Some err, db')
      | (None, db') \<Rightarrow>
          (case restrict_delete Report_ID (\<lambda>r. Report_ID r = rid)
                  (map Block_ReportID (RDB_blocks db') @ map Version_ReportID (RDB_versions db')) (RDB_reports db') of
             Inl err \<Rightarrow> (Some (ErrorfW (''report: delete '' @ rid) err), db')
           | Inr rows \<Rightarrow>
               (case report_requireOneRow (count_where (\<lambda>r. Report_ID r = rid) (RDB_reports db')) ''report'' rid of
                  Some err \<Rightarrow> (Some err, db')
                | None \<Rightarrow> (None, db'\<lparr>RDB_reports := rows\<rparr>))))"

definition BlocksByReport :: "string \<Rightarrow> RDB \<Rightarrow> ReportBlock list" where
  "BlocksByReport rid db = sort_key Block_Ordinal (filter (\<lambda>b. Block_ReportID b = rid) (RDB_blocks db))"

definition BlockCountsByEngagement :: "string \<Rightarrow> RDB \<Rightarrow> (string \<times> nat) list" where
  "BlockCountsByEngagement eid db =
     (let mine = filter (\<lambda>b. \<exists>r\<in>set (RDB_reports db). Report_ID r = Block_ReportID b \<and> Report_EngagementID r = eid) (RDB_blocks db)
      in map (\<lambda>rid. (rid, count_where (\<lambda>b. Block_ReportID b = rid) mine)) (remdups (map Block_ReportID mine)))"

text \<open>One insertion after another, with the primary key, the UNIQUE pair and the parent checked at each.\<close>

fun insert_blocks :: "RDB \<Rightarrow> ReportBlock list \<Rightarrow> ReportBlock list \<Rightarrow> error + ReportBlock list" where
  "insert_blocks db [] rows = Inr rows"
| "insert_blocks db (b # bs) rows =
     (case insert_row Block_ID b rows of
        Inl err \<Rightarrow> Inl err
      | Inr rows' \<Rightarrow>
          if \<not> distinct (map (\<lambda>b. (Block_ReportID b, Block_Ordinal b)) rows') \<or>
             Block_ReportID b \<notin> set (map Report_ID (RDB_reports db))
          then Inl (constraintError ''app.report_block'') else insert_blocks db bs rows')"

fun number_blocks :: "string \<Rightarrow> string list \<Rightarrow> nat \<Rightarrow> NewBlock list \<Rightarrow> ReportBlock list" where
  "number_blocks rid (newID # ids) i (nb # nbs) =
     \<lparr>Block_ID = newID, Block_ReportID = rid, Block_Ordinal = i, Block_BlockID = NewBlock_BlockID nb,
      Block_Params = NewBlock_Params nb\<rparr> # number_blocks rid ids (i + 1) nbs"
| "number_blocks rid ids i nbs = []"

definition Reports_ReplaceBlocks :: "string \<Rightarrow> string list \<Rightarrow> NewBlock list \<Rightarrow> RDB \<Rightarrow>
    (error + ReportBlock list) \<times> RDB" where
  "Reports_ReplaceBlocks rid newIDs inp db =
     (let blocks = sort_key Block_Ordinal (number_blocks rid newIDs 0 inp)
      in case insert_blocks db blocks (delete_where (\<lambda>b. Block_ReportID b = rid) (RDB_blocks db)) of
           Inl err \<Rightarrow> (Inl (ErrorfW (''report block: insert '' @ rid) err), db)
         | Inr rows \<Rightarrow> (Inr blocks, db\<lparr>RDB_blocks := rows\<rparr>))"

section \<open>Templates (templates.go)\<close>

definition Templates_Create :: "string \<Rightarrow> gotime \<Rightarrow> gotime \<Rightarrow> string \<Rightarrow> string \<Rightarrow> string \<Rightarrow> RDB after list \<Rightarrow> RDB \<Rightarrow>
    (error + Template) \<times> RDB" where
  "Templates_Create newID created updated engagementID name createdBy after db =
     (let tmpl = \<lparr>Template_ID = newID, Template_EngagementID = engagementID, Template_Name = name,
            Template_CreatedBy = createdBy, Template_CreatedAt = created, Template_UpdatedAt = updated\<rparr>;
          stored = tmpl\<lparr>Template_CreatedAt := toStorage created, Template_UpdatedAt := toStorage updated\<rparr>
      in write_tx
           (case insert_row Template_ID stored (RDB_templates db) of
              Inl err \<Rightarrow> Inl (ErrorfW ''templates: insert'' err)
            | Inr rows \<Rightarrow>
                if engagementID \<notin> set (map Engagement_ID (RDB_engagements db))
                then Inl (ErrorfW ''templates: insert'' (constraintError ''app.report_template''))
                else case runAfter newID after (db\<lparr>RDB_templates := rows\<rparr>) of
                       Inl err \<Rightarrow> Inl err | Inr db' \<Rightarrow> Inr (tmpl, db')) db)"

definition Templates_ByID :: "string \<Rightarrow> RDB \<Rightarrow> error + Template" where
  "Templates_ByID tid db =
     (case select1 (\<lambda>t. Template_ID t = tid) (RDB_templates db) of
        None \<Rightarrow> Inl (NotFound ''template'' tid) | Some t \<Rightarrow> Inr t)"

definition Templates_ListByEngagement :: "string \<Rightarrow> RDB \<Rightarrow> Template list" where
  "Templates_ListByEngagement eid db =
     sort_key (\<lambda>t. - Template_CreatedAt t) (filter (\<lambda>t. Template_EngagementID t = eid) (RDB_templates db))"

definition Templates_Update :: "string \<Rightarrow> gotime \<Rightarrow> string option \<Rightarrow> RDB after list \<Rightarrow> RDB \<Rightarrow> (error + Template) \<times> RDB" where
  "Templates_Update tid ts name after db =
     write_tx
       (case Templates_ByID tid db of
          Inl err \<Rightarrow> Inl err
        | Inr t \<Rightarrow>
            (let tmpl = t\<lparr>Template_Name := (case name of None \<Rightarrow> Template_Name t | Some v \<Rightarrow> v), Template_UpdatedAt := ts\<rparr>;
                 rows = update_where (\<lambda>t. Template_ID t = tid)
                   (\<lambda>t. t\<lparr>Template_Name := Template_Name tmpl, Template_UpdatedAt := toStorage ts\<rparr>) (RDB_templates db)
             in case report_requireOneRow (count_where (\<lambda>t. Template_ID t = tid) (RDB_templates db)) ''template'' tid of
                  Some err \<Rightarrow> Inl err
                | None \<Rightarrow>
                    (case runAfter tid after (db\<lparr>RDB_templates := rows\<rparr>) of
                       Inl err \<Rightarrow> Inl err | Inr db' \<Rightarrow> Inr (tmpl, db')))) db"

text \<open>Blocks and template in one transaction: the foreign key is checked against the blocks it found.\<close>

definition Templates_Delete :: "string \<Rightarrow> RDB \<Rightarrow> error option \<times> RDB" where
  "Templates_Delete tid db =
     (case Templates_ByID tid db of
        Inl err \<Rightarrow> (Some err, db)
      | Inr t \<Rightarrow>
          (let blocks = delete_where (\<lambda>b. TemplateBlock_TemplateID b = tid) (RDB_template_blocks db)
           in case restrict_delete Template_ID (\<lambda>t. Template_ID t = tid)
                     (map TemplateBlock_TemplateID (RDB_template_blocks db)) (RDB_templates db) of
                Inl err \<Rightarrow> (Some (ErrorfW (''templates: delete '' @ tid) err), db)
              | Inr rows \<Rightarrow> (None, db\<lparr>RDB_template_blocks := blocks, RDB_templates := rows\<rparr>)))"

definition BlocksByTemplate :: "string \<Rightarrow> RDB \<Rightarrow> TemplateBlock list" where
  "BlocksByTemplate tid db =
     sort_key TemplateBlock_Ordinal (filter (\<lambda>b. TemplateBlock_TemplateID b = tid) (RDB_template_blocks db))"

text \<open>Empty parameters are bound as NULL, which the column refuses.\<close>

fun template_blocks :: "string \<Rightarrow> nat \<Rightarrow> NewBlock list \<Rightarrow> error + TemplateBlock list" where
  "template_blocks tid i [] = Inr []"
| "template_blocks tid i (nb # nbs) =
     (if NewBlock_Params nb = [] then Inl (constraintError ''report_template_block.params'')
      else case template_blocks tid (i + 1) nbs of
        Inl err \<Rightarrow> Inl err
      | Inr bs \<Rightarrow> Inr (\<lparr>TemplateBlock_TemplateID = tid, TemplateBlock_Ordinal = i,
                       TemplateBlock_BlockID = NewBlock_BlockID nb, TemplateBlock_Params = NewBlock_Params nb\<rparr> # bs))"

definition Templates_ReplaceBlocks :: "string \<Rightarrow> NewBlock list \<Rightarrow> RDB \<Rightarrow> (error + TemplateBlock list) \<times> RDB" where
  "Templates_ReplaceBlocks tid inp db =
     (case Templates_ByID tid db of
        Inl err \<Rightarrow> (Inl err, db)
      | Inr t \<Rightarrow>
          (case template_blocks tid 0 inp of
             Inl err \<Rightarrow> (Inl (ErrorfW ''templates: replace blocks insert'' err), db)
           | Inr bs \<Rightarrow>
               (Inr bs, db\<lparr>RDB_template_blocks :=
                  delete_where (\<lambda>b. TemplateBlock_TemplateID b = tid) (RDB_template_blocks db) @ bs\<rparr>)))"

section \<open>Published versions (versions.go)\<close>

definition jsonOrDefault :: "string \<Rightarrow> string \<Rightarrow> string" where
  "jsonOrDefault raw fallback = (if raw = [] \<or> raw = ''null'' then fallback else raw)"

definition strPtr :: "string \<Rightarrow> string option" where
  "strPtr s = (if s = [] then None else Some s)"

definition Versions_Insert :: "string \<Rightarrow> gotime \<Rightarrow> NewVersion \<Rightarrow> RDB after list \<Rightarrow> RDB \<Rightarrow>
    (error + ReportVersion) \<times> RDB" where
  "Versions_Insert newID clock inp after db =
     (let row = \<lparr>Version_ID = newID, Version_ReportID = NewVersion_ReportID inp, Version_Ordinal = NewVersion_Ordinal inp,
            Version_Title = NewVersion_Title inp, Version_PublishedBy = NewVersion_PublishedBy inp,
            Version_PublishedAt = clock, Version_IncludeEvidence = NewVersion_IncludeEvidence inp,
            Version_BlindScope = NewVersion_BlindScope inp, Version_BlocksJSON = NewVersion_BlocksJSON inp,
            Version_BrandingJSON = NewVersion_BrandingJSON inp, Version_HTML = NewVersion_HTML inp,
            Version_ContentSHA256 = strPtr (NewVersion_ContentSHA256 inp), Version_PDFSHA256 = None\<rparr>;
          stored = row\<lparr>Version_PublishedAt := toStorage clock,
            Version_BlocksJSON := jsonOrDefault (NewVersion_BlocksJSON inp) ''[]'',
            Version_BrandingJSON := jsonOrDefault (NewVersion_BrandingJSON inp) ''{}''\<rparr>
      in write_tx
           (case insert_row Version_ID stored (RDB_versions db) of
              Inl err \<Rightarrow> Inl err
            | Inr rows \<Rightarrow>
                if NewVersion_ReportID inp \<notin> set (map Report_ID (RDB_reports db)) \<or>
                   \<not> distinct (map (\<lambda>v. (Version_ReportID v, Version_Ordinal v)) rows)
                then Inl (constraintError ''app.report_version'')
                else case runAfter newID after (db\<lparr>RDB_versions := rows\<rparr>) of
                       Inl err \<Rightarrow> Inl err | Inr db' \<Rightarrow> Inr (row, db')) db)"

definition Versions_ByID :: "string \<Rightarrow> RDB \<Rightarrow> error + ReportVersion" where
  "Versions_ByID vid db =
     (case select1 (\<lambda>v. Version_ID v = vid) (RDB_versions db) of
        None \<Rightarrow> Inl (NotFound ''report_version'' vid) | Some v \<Rightarrow> Inr v)"

definition Versions_ListByReport :: "string \<Rightarrow> RDB \<Rightarrow> ReportVersion list" where
  "Versions_ListByReport rid db =
     sort_key (\<lambda>v. - Version_Ordinal v) (filter (\<lambda>v. Version_ReportID v = rid) (RDB_versions db))"

definition SetPDFSHA256 :: "string \<Rightarrow> string \<Rightarrow> RDB \<Rightarrow> error option \<times> RDB" where
  "SetPDFSHA256 vid sha db =
     (case report_requireOneRow (count_where (\<lambda>v. Version_ID v = vid) (RDB_versions db)) ''report_version'' vid of
        Some err \<Rightarrow> (Some err, db)
      | None \<Rightarrow> (None, db\<lparr>RDB_versions := update_where (\<lambda>v. Version_ID v = vid)
                    (\<lambda>v. v\<lparr>Version_PDFSHA256 := Some sha\<rparr>) (RDB_versions db)\<rparr>))"

definition Versions_NextOrdinal :: "string \<Rightarrow> RDB \<Rightarrow> int" where
  "Versions_NextOrdinal rid db =
     next_ordinal (map Version_Ordinal (filter (\<lambda>v. Version_ReportID v = rid) (RDB_versions db)))"

definition CountByReport :: "string \<Rightarrow> RDB \<Rightarrow> nat" where
  "CountByReport rid db = count_where (\<lambda>v. Version_ReportID v = rid) (RDB_versions db)"

section \<open>Shares and grants (share.go)\<close>

definition Shares_Insert :: "string \<Rightarrow> gotime \<Rightarrow> NewShare \<Rightarrow> RDB \<Rightarrow> (error + ReportShare) \<times> RDB" where
  "Shares_Insert newID clock inp db =
     (let share = \<lparr>Share_ID = newID, Share_VersionID = NewShare_VersionID inp, Share_TokenHash = NewShare_TokenHash inp,
            Share_PasswordHash = NewShare_PasswordHash inp, Share_ExpiresAt = NewShare_ExpiresAt inp,
            Share_RevokedAt = None, Share_CreatedBy = NewShare_CreatedBy inp, Share_CreatedAt = clock,
            Share_Label = NewShare_Label inp, Share_MaxGrants = NewShare_MaxGrants inp\<rparr>;
          stored = share\<lparr>Share_CreatedAt := toStorage clock,
            Share_ExpiresAt := map_option toStorage (NewShare_ExpiresAt inp)\<rparr>
      in write_tx
           (case insert_row Share_ID stored (RDB_shares db) of
              Inl err \<Rightarrow> Inl err
            | Inr rows \<Rightarrow>
                if NewShare_VersionID inp \<notin> set (map Version_ID (RDB_versions db))
                then Inl (constraintError ''app.report_share'') else Inr (share, db\<lparr>RDB_shares := rows\<rparr>)) db)"

definition Shares_ByTokenHash :: "string \<Rightarrow> RDB \<Rightarrow> ReportShare option" where
  "Shares_ByTokenHash h db = select1 (\<lambda>s. Share_TokenHash s = h) (RDB_shares db)"

definition Shares_ByID :: "string \<Rightarrow> RDB \<Rightarrow> ReportShare option" where
  "Shares_ByID sid db = select1 (\<lambda>s. Share_ID s = sid) (RDB_shares db)"

definition Shares_ListByVersion :: "string \<Rightarrow> RDB \<Rightarrow> ReportShare list" where
  "Shares_ListByVersion vid db =
     sort_key (\<lambda>s. - Share_CreatedAt s) (filter (\<lambda>s. Share_VersionID s = vid) (RDB_shares db))"

definition Shares_Revoke :: "string \<Rightarrow> gotime \<Rightarrow> RDB \<Rightarrow> error option \<times> RDB" where
  "Shares_Revoke sid clock db =
     (let sel = (\<lambda>s. Share_ID s = sid \<and> Share_RevokedAt s = None)
      in case report_requireOneRow (count_where sel (RDB_shares db)) ''report_share'' sid of
           Some err \<Rightarrow> (Some err, db)
         | None \<Rightarrow> (None, db\<lparr>RDB_shares := update_where sel (\<lambda>s. s\<lparr>Share_RevokedAt := Some (toStorage clock)\<rparr>) (RDB_shares db)\<rparr>))"

definition live_grants :: "string \<Rightarrow> RDB \<Rightarrow> nat" where
  "live_grants sid db = count_where (\<lambda>g. Grant_ShareID g = sid \<and> Grant_RevokedAt g = None) (RDB_grants db)"

text \<open>None: the cap was reached, which is not an error of the transaction.\<close>

definition ClaimInsert :: "string \<Rightarrow> gotime \<Rightarrow> string \<Rightarrow> string option \<Rightarrow> int option \<Rightarrow> RDB \<Rightarrow>
    (error + ReportShareGrant option) \<times> RDB" where
  "ClaimInsert newID clock shareID userID maxGrants db =
     (let claimed = (if userID = None then None else Some clock);
          grant = \<lparr>Grant_ID = newID, Grant_ShareID = shareID, Grant_UserID = userID, Grant_InviteCodeHash = None,
            Grant_ClaimedAt = claimed, Grant_RevokedAt = None, Grant_CreatedAt = clock\<rparr>;
          stored = grant\<lparr>Grant_ClaimedAt := map_option toStorage claimed, Grant_CreatedAt := toStorage clock\<rparr>
      in if (case maxGrants of None \<Rightarrow> False | Some m \<Rightarrow> m > 0 \<and> int (live_grants shareID db) \<ge> m)
         then (Inr None, db)
         else write_tx
           (case insert_row Grant_ID stored (RDB_grants db) of
              Inl err \<Rightarrow> Inl err
            | Inr rows \<Rightarrow>
                if shareID \<notin> set (map Share_ID (RDB_shares db))
                then Inl (constraintError ''app.report_share_grant'')
                else Inr (Some grant, db\<lparr>RDB_grants := rows\<rparr>)) db)"

definition ByShareAndUser :: "string \<Rightarrow> string \<Rightarrow> RDB \<Rightarrow> ReportShareGrant option" where
  "ByShareAndUser sid uid db =
     select1 (\<lambda>g. Grant_ShareID g = sid \<and> Grant_UserID g = Some uid \<and> Grant_RevokedAt g = None) (RDB_grants db)"

definition Grants_ListByShare :: "string \<Rightarrow> RDB \<Rightarrow> ReportShareGrant list" where
  "Grants_ListByShare sid db = sort_key Grant_CreatedAt (filter (\<lambda>g. Grant_ShareID g = sid) (RDB_grants db))"

definition Grants_Revoke :: "string \<Rightarrow> gotime \<Rightarrow> RDB \<Rightarrow> error option \<times> RDB" where
  "Grants_Revoke gid clock db =
     (let sel = (\<lambda>g. Grant_ID g = gid \<and> Grant_RevokedAt g = None)
      in case report_requireOneRow (count_where sel (RDB_grants db)) ''report_share_grant'' gid of
           Some err \<Rightarrow> (Some err, db)
         | None \<Rightarrow> (None, db\<lparr>RDB_grants := update_where sel (\<lambda>g. g\<lparr>Grant_RevokedAt := Some (toStorage clock)\<rparr>) (RDB_grants db)\<rparr>))"

end
