(* ===== verification/Shares.thy ===== *)
theory Shares
  imports Report_Store Password
begin

text \<open>
  Share links of a published version (internal/report/share.go) and the handlers that read a shared
  version (internal/httpapi/sharehandlers.go). The keyed hash of a token, the keyed hash behind the
  password cookie and Argon2id are in the environment; the random bytes, identifiers and readings of
  the clock are arguments. A claim is two parts, the checks and the write, because other requests run
  between them. Rows are shown without the wire types of the API.
\<close>

section \<open>Environment and inputs\<close>

record Share_env =
  Shr_service :: Workbook_Service
  Shr_hash :: "string \<Rightarrow> string"
  Shr_cookie :: "string \<Rightarrow> string"
  Shr_argon2 :: argon2
  Shr_testing :: bool
  Shr_common :: "string list"
  Shr_baseURL :: string

record CreateShareInput =
  CreateShareInput_VersionID :: string
  CreateShareInput_Password :: "string option"
  CreateShareInput_ExpiresAt :: "gotime option"
  CreateShareInput_CreatedBy :: string
  CreateShareInput_Label :: "string option"
  CreateShareInput_MaxGrants :: "int option"

record CreateShareResult =
  CreateShareResult_Share :: ReportShare
  CreateShareResult_Token :: string
  CreateShareResult_ClaimURL :: string

record ClaimShareInput =
  ClaimShareInput_Token :: string
  ClaimShareInput_Password :: "string option"
  ClaimShareInput_UserID :: string

record ClaimShareResult =
  ClaimShareResult_Grant :: ReportShareGrant
  ClaimShareResult_VersionID :: string
  ClaimShareResult_ReportID :: string

record ShareWithGrants =
  SWG_Share :: ReportShare
  SWG_Grants :: "ReportShareGrant list"
  SWG_ClaimURL :: string

abbreviation VerbReportShareCreated :: Verb where "VerbReportShareCreated \<equiv> ''report.share_created''"
abbreviation VerbReportShareRevoked :: Verb where "VerbReportShareRevoked \<equiv> ''report.share_revoked''"
abbreviation VerbReportShareClaimed :: Verb where "VerbReportShareClaimed \<equiv> ''report.share_claimed''"

definition share_entry :: "string \<Rightarrow> Verb \<Rightarrow> string \<Rightarrow> string \<Rightarrow> (string \<times> delta_value) list \<Rightarrow> Entry" where
  "share_entry actorID verb objectType objectID delta = workbook_entry actorID [] verb objectType objectID delta"

text \<open>\<open>RecordAlone\<close> where its error is the caller's, and where it is dropped.\<close>

definition RDB_record :: "Share_env \<Rightarrow> Entry \<Rightarrow> RDB \<Rightarrow> error + RDB" where
  "RDB_record env e db =
     (if \<not> Svc_activity (Shr_service env) then Inr db
      else case EDB_record e (DDB_workbook (RDB_discussion db)) of
        Inl err \<Rightarrow> Inl (ErrorfW ''report share: activity'' err)
      | Inr w \<Rightarrow> Inr (db\<lparr>RDB_discussion := (RDB_discussion db)\<lparr>DDB_workbook := w\<rparr>\<rparr>))"

definition RDB_recordAlone :: "Share_env \<Rightarrow> Entry \<Rightarrow> RDB \<Rightarrow> RDB" where
  "RDB_recordAlone env e db = (case RDB_record env e db of Inl err \<Rightarrow> db | Inr db' \<Rightarrow> db')"

section \<open>Tokens and the password cookie\<close>

text \<open>\<open>hex.EncodeToString\<close>.\<close>

definition hex_digit :: "nat \<Rightarrow> char" where
  "hex_digit n = ''0123456789abcdef'' ! n"

definition hex_EncodeToString :: "8 word list \<Rightarrow> string" where
  "hex_EncodeToString bytes = concat (map (\<lambda>b. [hex_digit (unat b div 16), hex_digit (unat b mod 16)]) bytes)"

definition share_Generate :: "Share_env \<Rightarrow> 8 word list \<Rightarrow> string \<times> string" where
  "share_Generate env raw = (let token = hex_EncodeToString raw in (token, Shr_hash env token))"

definition SharePasswordCookie :: "Share_env \<Rightarrow> string \<Rightarrow> string" where
  "SharePasswordCookie env token = Shr_cookie env token"

definition VerifySharePasswordCookie :: "Share_env \<Rightarrow> string \<Rightarrow> string \<Rightarrow> bool" where
  "VerifySharePasswordCookie env cookieValue token \<longleftrightarrow> cookieValue = SharePasswordCookie env token"

section \<open>Creating a share\<close>

definition share_password_hash :: "Share_env \<Rightarrow> 8 word list \<Rightarrow> string option \<Rightarrow> error + string option" where
  "share_password_hash env salt pw =
     (case pw of
        None \<Rightarrow> Inr None
      | Some plain \<Rightarrow>
          (case password_Validate (Shr_common env) ''password'' plain of
             Some err \<Rightarrow> Inl (ErrorfW ''report share: password policy'' err)
           | None \<Rightarrow>
               (case password_Hash (Shr_argon2 env) (Shr_testing env) salt plain of
                  Inl err \<Rightarrow> Inl (ErrorfW ''report share: password hash'' err)
                | Inr h \<Rightarrow> Inr (Some h))))"

definition CreateShare :: "Share_env \<Rightarrow> 8 word list \<Rightarrow> 8 word list \<Rightarrow> string \<Rightarrow> gotime \<Rightarrow> CreateShareInput \<Rightarrow> RDB \<Rightarrow>
    (error + CreateShareResult) \<times> RDB" where
  "CreateShare env raw salt newID clock inp db =
     (case Versions_ByID (CreateShareInput_VersionID inp) db of
        Inl err \<Rightarrow> (Inl (ErrorfW ''report share: version lookup'' err), db)
      | Inr ver \<Rightarrow>
          (let (token, tokenHash) = share_Generate env raw
           in case share_password_hash env salt (CreateShareInput_Password inp) of
                Inl err \<Rightarrow> (Inl err, db)
              | Inr passwordHash \<Rightarrow>
                  (case Shares_Insert newID clock
                          \<lparr>NewShare_VersionID = CreateShareInput_VersionID inp, NewShare_TokenHash = tokenHash,
                           NewShare_PasswordHash = passwordHash, NewShare_ExpiresAt = CreateShareInput_ExpiresAt inp,
                           NewShare_CreatedBy = CreateShareInput_CreatedBy inp,
                           NewShare_Label = CreateShareInput_Label inp,
                           NewShare_MaxGrants = CreateShareInput_MaxGrants inp\<rparr> db of
                     (Inl err, db') \<Rightarrow> (Inl (ErrorfW ''report share: insert'' err), db')
                   | (Inr share, db') \<Rightarrow>
                       (case RDB_record env
                               (share_entry (CreateShareInput_CreatedBy inp) VerbReportShareCreated ''report_share''
                                  (Share_ID share)
                                  [(''version_id'', DString (CreateShareInput_VersionID inp)),
                                   (''report_id'', DString (Version_ReportID ver)),
                                   (''label'', case CreateShareInput_Label inp of None \<Rightarrow> DNull | Some l \<Rightarrow> DString l)])
                               db' of
                          Inl err \<Rightarrow> (Inl err, db')
                        | Inr db'' \<Rightarrow>
                            (Inr \<lparr>CreateShareResult_Share = share, CreateShareResult_Token = token,
                                  CreateShareResult_ClaimURL = Shr_baseURL env @ ''/claim/'' @ token\<rparr>, db'')))))"

section \<open>Claiming a share\<close>

text \<open>What every use of a token starts with.\<close>

definition token_share :: "Share_env \<Rightarrow> gotime \<Rightarrow> string \<Rightarrow> RDB \<Rightarrow> error + ReportShare" where
  "token_share env clock token db =
     (case Shares_ByTokenHash (Shr_hash env token) db of
        None \<Rightarrow> Inl (NotFound ''report_share'' ''token'')
      | Some share \<Rightarrow>
          if Share_RevokedAt share \<noteq> None then Inl (NotFound ''report_share'' ''token'')
          else (case Share_ExpiresAt share of
                  None \<Rightarrow> Inr share
                | Some t \<Rightarrow> if After clock t then Inl (NotFound ''report_share'' ''token'') else Inr share))"

definition check_share_password :: "Share_env \<Rightarrow> string \<Rightarrow> string \<Rightarrow> error option" where
  "check_share_password env plain encoded =
     (case password_Verify (Shr_argon2 env) (Shr_testing env) plain encoded of
        Inl err \<Rightarrow> Some (ErrorfW ''report share: password verify'' err)
      | Inr (ok, rehash) \<Rightarrow> if \<not> ok then Some (Unauthenticated ''the share password is incorrect'') else None)"

definition password_gate :: "Share_env \<Rightarrow> ReportShare \<Rightarrow> string option \<Rightarrow> error option" where
  "password_gate env share pw =
     (case Share_PasswordHash share of
        None \<Rightarrow> None
      | Some h \<Rightarrow>
          if h = [] then None
          else (case pw of
                  None \<Rightarrow> Some (Unauthenticated ''this share requires a password'')
                | Some plain \<Rightarrow>
                    if plain = [] then Some (Unauthenticated ''this share requires a password'')
                    else check_share_password env plain h))"

definition ClaimShare_check :: "Share_env \<Rightarrow> gotime \<Rightarrow> ClaimShareInput \<Rightarrow> RDB \<Rightarrow> error + ReportShare" where
  "ClaimShare_check env clock inp db =
     (case token_share env clock (ClaimShareInput_Token inp) db of
        Inl err \<Rightarrow> Inl err
      | Inr share \<Rightarrow>
          (case password_gate env share (ClaimShareInput_Password inp) of
             Some err \<Rightarrow> Inl err
           | None \<Rightarrow>
               (case ByShareAndUser (Share_ID share) (ClaimShareInput_UserID inp) db of
                  Some existing \<Rightarrow> Inl (Conflict ''share already claimed'')
                | None \<Rightarrow> Inr share)))"

definition ClaimShare_write :: "Share_env \<Rightarrow> string \<Rightarrow> gotime \<Rightarrow> ClaimShareInput \<Rightarrow> ReportShare \<Rightarrow> RDB \<Rightarrow>
    (error + ClaimShareResult) \<times> RDB" where
  "ClaimShare_write env newID clock inp share db =
     (case ClaimInsert newID clock (Share_ID share) (Some (ClaimShareInput_UserID inp)) (Share_MaxGrants share) db of
        (Inl err, db') \<Rightarrow> (Inl (ErrorfW ''report share: grant insert'' err), db')
      | (Inr None, db') \<Rightarrow> (Inl (Forbidden ''share grant limit reached''), db')
      | (Inr (Some made), db') \<Rightarrow>
          (case (if \<not> Svc_activity (Shr_service env) then Inr db'
                 else case Versions_ByID (Share_VersionID share) db' of
                        Inl err \<Rightarrow> Inl (ErrorfW ''report share: version lookup for activity'' err)
                      | Inr ver \<Rightarrow>
                          RDB_record env
                            (share_entry (ClaimShareInput_UserID inp) VerbReportShareClaimed ''report_share_grant''
                               (Grant_ID made)
                               [(''share_id'', DString (Share_ID share)), (''version_id'', DString (Share_VersionID share)),
                                (''report_id'', DString (Version_ReportID ver))]) db') of
             Inl err \<Rightarrow> (Inl err, db')
           | Inr db'' \<Rightarrow>
               (case Versions_ByID (Share_VersionID share) db'' of
                  Inl err \<Rightarrow> (Inl err, db'')
                | Inr ver \<Rightarrow>
                    (Inr \<lparr>ClaimShareResult_Grant = made, ClaimShareResult_VersionID = Share_VersionID share,
                          ClaimShareResult_ReportID = Version_ReportID ver\<rparr>, db''))))"

definition ClaimShare :: "Share_env \<Rightarrow> string \<Rightarrow> gotime \<Rightarrow> gotime \<Rightarrow> ClaimShareInput \<Rightarrow> RDB \<Rightarrow>
    (error + ClaimShareResult) \<times> RDB" where
  "ClaimShare env newID clock claimed inp db =
     (case ClaimShare_check env clock inp db of
        Inl err \<Rightarrow> (Inl err, db)
      | Inr share \<Rightarrow> ClaimShare_write env newID claimed inp share db)"

section \<open>Revoking\<close>

text \<open>\<open>clock\<close> is the reading each revocation makes.\<close>

fun revoke_grants :: "(nat \<Rightarrow> gotime) \<Rightarrow> nat \<Rightarrow> ReportShareGrant list \<Rightarrow> RDB \<Rightarrow> error option \<times> RDB" where
  "revoke_grants clock k [] db = (None, db)"
| "revoke_grants clock k (g # gs) db =
     (if Grant_RevokedAt g = None
      then (case Grants_Revoke (Grant_ID g) (clock k) db of
              (Some err, db') \<Rightarrow> (Some err, db')
            | (None, db') \<Rightarrow> revoke_grants clock (k + 1) gs db')
      else revoke_grants clock k gs db)"

definition RevokeShare :: "Share_env \<Rightarrow> (nat \<Rightarrow> gotime) \<Rightarrow> string \<Rightarrow> string \<Rightarrow> RDB \<Rightarrow> error option \<times> RDB" where
  "RevokeShare env clock shareID revokedBy db =
     (case Shares_ByID shareID db of
        None \<Rightarrow> (Some (NotFound ''report_share'' shareID), db)
      | Some share \<Rightarrow>
          if Share_RevokedAt share \<noteq> None then (Some (NotFound ''report_share'' shareID), db)
          else (case Shares_Revoke shareID (clock 0) db of
                  (Some err, db') \<Rightarrow> (Some err, db')
                | (None, db') \<Rightarrow>
                    (case revoke_grants clock 1 (Grants_ListByShare shareID db') db' of
                       (Some err, db'') \<Rightarrow> (Some err, db'')
                     | (None, db'') \<Rightarrow>
                         (None, RDB_recordAlone env
                            (share_entry revokedBy VerbReportShareRevoked ''report_share'' shareID
                               ((''version_id'', DString (Share_VersionID share)) #
                                (case Versions_ByID (Share_VersionID share) db'' of
                                   Inl err \<Rightarrow> [] | Inr ver \<Rightarrow> [(''report_id'', DString (Version_ReportID ver))]))) db''))))"

definition RevokeGrant :: "gotime \<Rightarrow> string \<Rightarrow> RDB \<Rightarrow> error option \<times> RDB" where
  "RevokeGrant clock grantID db = Grants_Revoke grantID clock db"

section \<open>Reading\<close>

definition ListShares :: "Share_env \<Rightarrow> string \<Rightarrow> RDB \<Rightarrow> ShareWithGrants list" where
  "ListShares env versionID db =
     map (\<lambda>share. \<lparr>SWG_Share = share, SWG_Grants = Grants_ListByShare (Share_ID share) db,
                   SWG_ClaimURL = Shr_baseURL env @ ''/claim/'' @ map char_of [0xE2, 0x80, 0xA6 :: nat]\<rparr>)
       (Shares_ListByVersion versionID db)"

definition FindGrant :: "string \<Rightarrow> string \<Rightarrow> RDB \<Rightarrow> ReportShareGrant option" where
  "FindGrant shareID userID db = ByShareAndUser shareID userID db"

definition VerifySharePassword :: "Share_env \<Rightarrow> gotime \<Rightarrow> string \<Rightarrow> string \<Rightarrow> RDB \<Rightarrow> error + ReportShare" where
  "VerifySharePassword env clock token plain db =
     (case token_share env clock token db of
        Inl err \<Rightarrow> Inl err
      | Inr share \<Rightarrow>
          (case Share_PasswordHash share of
             None \<Rightarrow> Inr share
           | Some h \<Rightarrow>
               if h = [] then Inr share
               else (case check_share_password env plain h of Some err \<Rightarrow> Inl err | None \<Rightarrow> Inr share)))"

definition GetShareVersion :: "Share_env \<Rightarrow> gotime \<Rightarrow> string \<Rightarrow> RDB \<Rightarrow> error + (ReportVersion \<times> ReportShare)" where
  "GetShareVersion env clock token db =
     (case token_share env clock token db of
        Inl err \<Rightarrow> Inl err
      | Inr share \<Rightarrow>
          (case Versions_ByID (Share_VersionID share) db of Inl err \<Rightarrow> Inl err | Inr ver \<Rightarrow> Inr (ver, share)))"

section \<open>The handlers (sharehandlers.go)\<close>

text \<open>The caller is the user of the request, if it has one.\<close>

definition canAccessSharedVersion :: "string option \<Rightarrow> ReportShare \<Rightarrow> RDB \<Rightarrow> bool" where
  "canAccessSharedVersion caller share db =
     (case caller of
        None \<Rightarrow> False
      | Some userID \<Rightarrow>
          userID \<noteq> [] \<and>
          (case FindGrant (Share_ID share) userID db of None \<Rightarrow> False | Some found \<Rightarrow> Grant_RevokedAt found = None))"

definition GetReportShareHtml :: "Share_env \<Rightarrow> gotime \<Rightarrow> string option \<Rightarrow> string \<Rightarrow> RDB \<Rightarrow> error + string" where
  "GetReportShareHtml env clock caller token db =
     (case GetShareVersion env clock token db of
        Inl err \<Rightarrow> Inl err
      | Inr (ver, share) \<Rightarrow>
          if \<not> canAccessSharedVersion caller share db then Inl (NotFound ''report_share'' ''token'')
          else Inr (Version_HTML ver))"

text \<open>The printer turns the frozen page into a PDF; None is a server without one.\<close>

definition GetReportSharePdf :: "Share_env \<Rightarrow> (string \<Rightarrow> error + string) option \<Rightarrow> gotime \<Rightarrow> string option \<Rightarrow> string \<Rightarrow>
    RDB \<Rightarrow> error + string" where
  "GetReportSharePdf env printer clock caller token db =
     (case printer of
        None \<Rightarrow> Inl (ErrorsNew ''PDF rendering is not configured'')
      | Some RenderPDF \<Rightarrow>
          (case GetShareVersion env clock token db of
             Inl err \<Rightarrow> Inl err
           | Inr (ver, share) \<Rightarrow>
               if \<not> canAccessSharedVersion caller share db then Inl (NotFound ''report_share'' ''token'')
               else RenderPDF (Version_HTML ver)))"

record ReportShareInfo =
  Info_Exists :: bool
  Info_PasswordRequired :: "bool option"
  Info_AlreadyClaimed :: "bool option"
  Info_Label :: "string option"

definition GetReportShareInfo :: "Share_env \<Rightarrow> gotime \<Rightarrow> string option \<Rightarrow> string \<Rightarrow> RDB \<Rightarrow> error + ReportShareInfo" where
  "GetReportShareInfo env clock caller token db =
     (case GetShareVersion env clock token db of
        Inl err \<Rightarrow>
          if errors_Is err ErrNotFound
          then Inr \<lparr>Info_Exists = False, Info_PasswordRequired = None, Info_AlreadyClaimed = None, Info_Label = None\<rparr>
          else Inl err
      | Inr (ver, share) \<Rightarrow>
          Inr \<lparr>Info_Exists = True,
               Info_PasswordRequired = Some (case Share_PasswordHash share of None \<Rightarrow> False | Some h \<Rightarrow> h \<noteq> []),
               Info_AlreadyClaimed = Some (case caller of
                   None \<Rightarrow> False
                 | Some userID \<Rightarrow> userID \<noteq> [] \<and> FindGrant (Share_ID share) userID db \<noteq> None),
               Info_Label = Some (case Share_Label share of None \<Rightarrow> [] | Some l \<Rightarrow> l)\<rparr>)"

end
