(* ===== verification/Gate.thy ===== *)
theory Gate
  imports Requirements Shares Discussion Sign_In Service_Tokens
begin

text \<open>
  From a request to its handler: resolving the caller (internal/httpapi/authn.go), the double-submit
  check (csrf.go), the enrolment gate (mfagate.go), the facts about the resource (ownership.go) and the
  authorization decision (authorize.go), composed in the order of server.go over the models of the
  session manager, the service tokens, the policy and the tables. A request is what these steps read
  of one: the validator's route, the cookies and the headers. Logging, the cookies of the response and
  the throttle around the sign-in routes are left out.
\<close>

section \<open>The server's state\<close>

record Server =
  Srv_db :: RDB
  Srv_tokens :: "ServiceToken list"
  Srv_touched :: "(string \<times> gotime) list"
  Srv_jobs :: "(string \<times> gotime) list"

definition srv_identity :: "Server \<Rightarrow> IDB" where
  "srv_identity s = EDB_identity (DDB_workbook (RDB_discussion (Srv_db s)))"

definition srv_set_identity :: "IDB \<Rightarrow> Server \<Rightarrow> Server" where
  "srv_set_identity i s =
     (let db = Srv_db s; d = RDB_discussion db; w = DDB_workbook d
      in s\<lparr>Srv_db := db\<lparr>RDB_discussion := d\<lparr>DDB_workbook := w\<lparr>EDB_identity := i\<rparr>\<rparr>\<rparr>\<rparr>)"

definition token_view :: "Server \<Rightarrow> Token_State" where
  "token_view s = \<lparr>TS_db = \<lparr>TDB_identity = srv_identity s, TDB_tokens = Srv_tokens s\<rparr>,
     TS_touched = Srv_touched s, TS_jobs = Srv_jobs s\<rparr>"

definition token_put :: "Token_State \<Rightarrow> Server \<Rightarrow> Server" where
  "token_put st s =
     (srv_set_identity (TDB_identity (TS_db st)) s)
       \<lparr>Srv_tokens := TDB_tokens (TS_db st), Srv_touched := TS_touched st, Srv_jobs := TS_jobs st\<rparr>"

section \<open>Requests\<close>

record specRoute =
  Route_OperationID :: string
  Route_PathParams :: "(string \<times> string) list"

record http_Request =
  Req_Method :: string
  Req_Path :: string
  Req_Route :: "specRoute option"
  Req_SessionCookie :: string
  Req_CSRFCookie :: string
  Req_CSRFHeader :: string
  Req_Authorization :: string

text \<open>A name that is not in the map reads as the empty string.\<close>

definition path_param :: "specRoute \<Rightarrow> string \<Rightarrow> string" where
  "path_param route name = (case map_of (Route_PathParams route) name of None \<Rightarrow> [] | Some v \<Rightarrow> v)"

text \<open>\<open>strings.TrimRight(path, "/")\<close> for a path longer than one.\<close>

definition routePath :: "http_Request \<Rightarrow> string" where
  "routePath r = (let path = Req_Path r in if length path > 1 then rev (dropWhile (\<lambda>c. c = CHR ''/'') (rev path)) else path)"

record Gate_env =
  Gate_auth :: Auth
  Gate_tokens :: Token_Manager
  Gate_requirements :: "string \<rightharpoonup> Requirement"
  Gate_mac :: "string \<Rightarrow> string"

section \<open>The caller (authn.go)\<close>

definition bearerScheme :: string where "bearerScheme = ''bearer''"

definition bearerToken :: "http_Request \<Rightarrow> string option" where
  "bearerToken r =
     (let header = Req_Authorization r; n = length bearerScheme; rest = drop n header
      in if length header < n \<or> ToLower (take n header) \<noteq> bearerScheme then None
         else if rest \<noteq> [] \<and> hd rest \<noteq> CHR '' '' then None
         else Some (TrimSpace rest))"

definition authenticate_cookie :: "Gate_env \<Rightarrow> (nat \<Rightarrow> gotime) \<Rightarrow> http_Request \<Rightarrow> Server \<Rightarrow> (error + Caller) \<times> Server" where
  "authenticate_cookie env clock r s =
     (case Authenticate (Gate_auth env) (clock 0) (clock 1) (Req_SessionCookie r) (srv_identity s) of
        (res, i) \<Rightarrow> (res, srv_set_identity i s))"

definition resolveCaller :: "Gate_env \<Rightarrow> (nat \<Rightarrow> gotime) \<Rightarrow> http_Request \<Rightarrow> Server \<Rightarrow> (error + Caller) \<times> Server" where
  "resolveCaller env clock r s =
     (case bearerToken r of
        None \<Rightarrow> authenticate_cookie env clock r s
      | Some presented \<Rightarrow>
          (case AuthenticateToken (Gate_tokens env) (clock 2) (clock 3) presented (token_view s) of
             (Inr subject, st) \<Rightarrow> (Inr subject, token_put st s)
           | (Inl err, st) \<Rightarrow>
               if \<not> errors_Is err ErrNoToken then (Inl err, token_put st s)
               else authenticate_cookie env clock r (token_put st s)))"

text \<open>An unusable credential is no caller; any other failure answers the request.\<close>

definition authenticate :: "Gate_env \<Rightarrow> (nat \<Rightarrow> gotime) \<Rightarrow> http_Request \<Rightarrow> Server \<Rightarrow> (error + Caller option) \<times> Server" where
  "authenticate env clock r s =
     (case resolveCaller env clock r s of
        (Inl err, s') \<Rightarrow>
          if errors_Is err ErrNoSession \<or> errors_Is err ErrNoToken then (Inr None, s') else (Inl err, s')
      | (Inr subject, s') \<Rightarrow> (Inr (Some subject), s'))"

section \<open>The double submit (csrf.go, session/csrf.go)\<close>

abbreviation BasePath :: string where "BasePath \<equiv> ''/api/v1''"
abbreviation mfaPathPrefix :: string where "mfaPathPrefix \<equiv> ''/auth/mfa''"
abbreviation samlACSPath :: string where "samlACSPath \<equiv> ''/auth/saml/acs''"

definition csrfSafeMethods :: "string list" where
  "csrfSafeMethods = [''GET'', ''HEAD'', ''OPTIONS'']"

definition csrfExemptRoutes :: "string list" where
  "csrfExemptRoutes =
     [''POST '' @ BasePath @ ''/auth/login'',
      ''POST '' @ BasePath @ mfaPathPrefix @ ''/totp/verify'',
      ''POST '' @ BasePath @ mfaPathPrefix @ ''/recovery/verify'',
      ''POST '' @ BasePath @ samlACSPath,
      ''POST '' @ BasePath @ ''/report-views/{token}/claim'',
      ''POST '' @ BasePath @ ''/report-views/{token}/password'',
      ''POST '' @ BasePath @ ''/auth/guest-register'']"

definition CSRFToken :: "Gate_env \<Rightarrow> string \<Rightarrow> string" where
  "CSRFToken env token = (if length token \<noteq> tokenLength then [] else Gate_mac env token)"

definition caller_method :: "Caller option \<Rightarrow> Method" where
  "caller_method caller = (case caller of None \<Rightarrow> MethodNone | Some c \<Rightarrow> Caller_Method c)"

definition csrfExempt :: "http_Request \<Rightarrow> Caller option \<Rightarrow> bool" where
  "csrfExempt r caller \<longleftrightarrow>
     Req_Method r \<in> set csrfSafeMethods \<or> caller_method caller \<noteq> MethodCookie \<or>
     Req_Method r @ '' '' @ routePath r \<in> set csrfExemptRoutes"

definition csrfMatches :: "string \<Rightarrow> string \<Rightarrow> string \<Rightarrow> bool" where
  "csrfMatches header cookie expected \<longleftrightarrow>
     header \<noteq> [] \<and> cookie \<noteq> [] \<and> expected \<noteq> [] \<and> header = cookie \<and> header = expected"

definition requireCSRF :: "Gate_env \<Rightarrow> http_Request \<Rightarrow> Caller option \<Rightarrow> error option" where
  "requireCSRF env r caller =
     (let expected = (if caller_method caller = MethodCookie then CSRFToken env (Req_SessionCookie r) else [])
      in if csrfExempt r caller then None
         else if \<not> csrfMatches (Req_CSRFHeader r) (Req_CSRFCookie r) expected
         then Some (Forbidden ''a state-changing request with no valid CSRF token'')
         else None)"

section \<open>The enrolment gate (mfagate.go)\<close>

definition enrolmentOnlyRoutes :: "string list" where
  "enrolmentOnlyRoutes =
     [''POST '' @ BasePath @ mfaPathPrefix @ ''/totp/enroll'', ''POST '' @ BasePath @ mfaPathPrefix @ ''/totp/confirm'',
      ''GET '' @ BasePath @ ''/auth/me'', ''POST '' @ BasePath @ ''/auth/logout'', ''POST '' @ BasePath @ ''/auth/login'',
      ''POST '' @ BasePath @ mfaPathPrefix @ ''/totp/verify'', ''POST '' @ BasePath @ mfaPathPrefix @ ''/recovery/verify'',
      ''GET '' @ BasePath @ ''/healthz'', ''GET '' @ BasePath @ ''/version'']"

definition requireMFAEnrolment :: "http_Request \<Rightarrow> Caller option \<Rightarrow> error option" where
  "requireMFAEnrolment r caller =
     (case caller of
        None \<Rightarrow> None
      | Some subject \<Rightarrow>
          (let route = Req_Method r @ '' '' @ routePath r
           in if \<not> Caller_MFAEnrolmentRequired subject then None
              else if route \<in> set enrolmentOnlyRoutes then None
              else Some (MFAEnrolmentRequired route)))"

section \<open>Facts about a resource (ownership.go)\<close>

record httpapi_ResourceRef =
  HRef_Type :: ResourceType
  HRef_ID :: string
  HRef_EngagementID :: string
  HRef_Kind :: string

record ResourceFacts =
  Facts_EngagementID :: string
  Facts_Blind :: bool
  Facts_Revealed :: bool

abbreviation rdb_workbook :: "RDB \<Rightarrow> EDB" where
  "rdb_workbook db \<equiv> DDB_workbook (RDB_discussion db)"

definition engagementFacts :: "string \<Rightarrow> RDB \<Rightarrow> error + ResourceFacts" where
  "engagementFacts eid db =
     (case Engagements_ByID eid (rdb_workbook db) of
        Inl err \<Rightarrow> Inl err
      | Inr eng \<Rightarrow> Inr \<lparr>Facts_EngagementID = Engagement_ID eng,
            Facts_Blind = (Engagement_Mode eng = EngagementModeBlind), Facts_Revealed = True\<rparr>)"

definition stepFacts :: "string \<Rightarrow> RDB \<Rightarrow> error + ResourceFacts" where
  "stepFacts stepID db =
     (case Steps_ByID stepID (rdb_workbook db) of
        Inl err \<Rightarrow> Inl err
      | Inr step \<Rightarrow>
          (case Scenarios_ByID (Step_ScenarioID step) (rdb_workbook db) of
             Inl err \<Rightarrow> Inl err
           | Inr sc \<Rightarrow>
               (case engagementFacts (Scenario_EngagementID sc) db of
                  Inl err \<Rightarrow> Inl err
                | Inr facts \<Rightarrow> Inr (facts\<lparr>Facts_Revealed := Step_RevealedAt step \<noteq> None\<rparr>))))"

definition executionByIDFacts :: "string \<Rightarrow> RDB \<Rightarrow> error + ResourceFacts" where
  "executionByIDFacts executionID db =
     (case Executions_ByID executionID (rdb_workbook db) of
        Inl err \<Rightarrow> Inl err
      | Inr exec \<Rightarrow> stepFacts (Execution_StepID exec) db)"

definition scenarioFacts :: "httpapi_ResourceRef \<Rightarrow> RDB \<Rightarrow> error + ResourceFacts" where
  "scenarioFacts ref db =
     (if HRef_ID ref = [] then engagementFacts (HRef_EngagementID ref) db
      else case Scenarios_ByID (HRef_ID ref) (rdb_workbook db) of
        Inl err \<Rightarrow> Inl err
      | Inr sc \<Rightarrow> engagementFacts (Scenario_EngagementID sc) db)"

definition executionFacts :: "httpapi_ResourceRef \<Rightarrow> RDB \<Rightarrow> error + ResourceFacts" where
  "executionFacts ref db =
     (if HRef_ID ref = [] then engagementFacts (HRef_EngagementID ref) db else executionByIDFacts (HRef_ID ref) db)"

definition commentFacts :: "httpapi_ResourceRef \<Rightarrow> RDB \<Rightarrow> error + ResourceFacts" where
  "commentFacts ref db =
     (if HRef_ID ref = [] then engagementFacts (HRef_EngagementID ref) db
      else case Comments_ByID (HRef_ID ref) (RDB_discussion db) of
        Inl err \<Rightarrow> Inl err
      | Inr c \<Rightarrow> executionByIDFacts (Comment_ExecutionID c) db)"

definition evidenceFacts :: "httpapi_ResourceRef \<Rightarrow> RDB \<Rightarrow> error + ResourceFacts" where
  "evidenceFacts ref db =
     (if HRef_Kind ref = ''execution'' then executionByIDFacts (HRef_ID ref) db
      else case Evidence_ByID (HRef_ID ref) (RDB_discussion db) of
        Inl err \<Rightarrow> Inl err
      | Inr ev \<Rightarrow>
          if Evidence_ExecutionID ev \<noteq> [] then executionByIDFacts (Evidence_ExecutionID ev) db
          else case Comments_ByID (Evidence_CommentID ev) (RDB_discussion db) of
            Inl err \<Rightarrow> Inl err
          | Inr c \<Rightarrow> executionByIDFacts (Comment_ExecutionID c) db)"

definition findingFacts :: "httpapi_ResourceRef \<Rightarrow> RDB \<Rightarrow> error + ResourceFacts" where
  "findingFacts ref db =
     (if HRef_ID ref = [] then engagementFacts (HRef_EngagementID ref) db
      else case Findings_ByID (HRef_ID ref) (RDB_discussion db) of
        Inl err \<Rightarrow> Inl err
      | Inr f \<Rightarrow> engagementFacts (Finding_EngagementID f) db)"

definition versionFacts :: "string \<Rightarrow> RDB \<Rightarrow> error + ResourceFacts" where
  "versionFacts vid db =
     (case Versions_ByID vid db of
        Inl err \<Rightarrow> Inl err
      | Inr v \<Rightarrow>
          (case Reports_ByID (Version_ReportID v) db of
             Inl err \<Rightarrow> Inl err
           | Inr r \<Rightarrow> engagementFacts (Report_EngagementID r) db))"

definition reportFacts :: "httpapi_ResourceRef \<Rightarrow> RDB \<Rightarrow> error + ResourceFacts" where
  "reportFacts ref db =
     (if HRef_Kind ref = [] \<or> HRef_Kind ref = ''report'' then
        (if HRef_ID ref = [] then engagementFacts (HRef_EngagementID ref) db
         else case Reports_ByID (HRef_ID ref) db of
           Inl err \<Rightarrow> Inl err
         | Inr r \<Rightarrow> engagementFacts (Report_EngagementID r) db)
      else if HRef_Kind ref = ''template'' then
        (case Templates_ByID (HRef_ID ref) db of
           Inl err \<Rightarrow> Inl err
         | Inr t \<Rightarrow> engagementFacts (Template_EngagementID t) db)
      else if HRef_Kind ref = ''version'' then versionFacts (HRef_ID ref) db
      else if HRef_Kind ref = ''share'' then
        (case Shares_ByID (HRef_ID ref) db of
           None \<Rightarrow> Inl (NotFound ''share'' (HRef_ID ref))
         | Some s \<Rightarrow> versionFacts (Share_VersionID s) db)
      else Inl (Api (Internal (ErrorsNew (''httpapi: unknown report kind '' @ Quote (HRef_Kind ref))))))"

definition resolve :: "httpapi_ResourceRef \<Rightarrow> RDB \<Rightarrow> error + ResourceFacts" where
  "resolve ref db =
     (let t = HRef_Type ref
      in if t = ResourceEngagement then engagementFacts (HRef_ID ref) db
         else if t = ResourceMember then engagementFacts (HRef_EngagementID ref) db
         else if t = ResourceScenario then scenarioFacts ref db
         else if t = ResourceExecution then executionFacts ref db
         else if t = ResourceComment then commentFacts ref db
         else if t = ResourceEvidence then evidenceFacts ref db
         else if t = ResourceFinding then findingFacts ref db
         else if t = ResourceReport then reportFacts ref db
         else Inl (Api (Internal (ErrorsNew (''httpapi: no ownership walk for resource type '' @ Quote t)))))"

text \<open>\<open>errors.Is(err, sql.ErrNoRows)\<close>.\<close>

fun is_no_rows :: "error \<Rightarrow> bool" where
  "is_no_rows SqlNoRows \<longleftrightarrow> True"
| "is_no_rows (ErrorfW _ e) \<longleftrightarrow> is_no_rows e"
| "is_no_rows (Api (ApiError _ _ _ (Some e) _)) \<longleftrightarrow> is_no_rows e"
| "is_no_rows (Api (ApiError _ _ _ None _)) \<longleftrightarrow> False"
| "is_no_rows (Sentinel _) \<longleftrightarrow> False"
| "is_no_rows (ErrorsNew _) \<longleftrightarrow> False"

definition Facts :: "httpapi_ResourceRef \<Rightarrow> RDB \<Rightarrow> error + ResourceFacts" where
  "Facts ref db =
     (case resolve ref db of
        Inl err \<Rightarrow> if is_no_rows err then Inl (NotFound (HRef_Type ref) (HRef_ID ref)) else Inl err
      | Inr found \<Rightarrow>
          if HRef_EngagementID ref \<noteq> [] \<and> HRef_EngagementID ref \<noteq> Facts_EngagementID found
          then Inl (NotFound (HRef_Type ref) (HRef_ID ref))
          else Inr found)"

section \<open>The decision (authorize.go)\<close>

record Authorization =
  Authorization_OperationID :: string
  Authorization_Subject :: Subject
  Authorization_Action :: Action
  Authorization_Resource :: Resource
  Authorization_Allowed :: bool
  Authorization_Reason :: string

definition zeroSubject :: Subject where
  "zeroSubject = \<lparr>Subject_UserID = [], Subject_PlatformRole = [], Subject_Memberships = [], Subject_Method = MethodNone,
     Subject_TokenScopes = [], Subject_TokenEngagementID = [], Subject_MFASatisfied = False\<rparr>"

definition zeroResource :: Resource where
  "zeroResource = \<lparr>Resource_Type = [], Resource_ID = [], Resource_EngagementID = [], Resource_EngagementBlind = False,
     Resource_Revealed = False\<rparr>"

definition policy_subject :: "Caller \<Rightarrow> string \<Rightarrow> EngagementRole \<Rightarrow> bool \<Rightarrow> Subject" where
  "policy_subject caller engagementID seat member =
     \<lparr>Subject_UserID = Caller_UserID caller, Subject_PlatformRole = Caller_PlatformRole caller,
      Subject_Memberships = (if member then [(engagementID, seat)] else []), Subject_Method = Caller_Method caller,
      Subject_TokenScopes = Caller_TokenScopes caller, Subject_TokenEngagementID = Caller_TokenEngagementID caller,
      Subject_MFASatisfied = Caller_MFASatisfied caller\<rparr>"

definition request_ref :: "Requirement \<Rightarrow> specRoute \<Rightarrow> httpapi_ResourceRef" where
  "request_ref requirement route =
     (let rr = Requirement_Resource requirement;
          ref = \<lparr>HRef_Type = Ref_Type rr, HRef_ID = path_param route (Ref_Param rr),
                 HRef_EngagementID = path_param route (Ref_Engagement rr), HRef_Kind = Ref_Kind rr\<rparr>
      in if HRef_ID ref = [] \<and> HRef_Type ref = ResourceEngagement then ref\<lparr>HRef_ID := HRef_EngagementID ref\<rparr> else ref)"

definition gate_facts :: "Requirement \<Rightarrow> specRoute \<Rightarrow> Caller \<Rightarrow> RDB \<Rightarrow> error + (Resource \<times> Subject)" where
  "gate_facts requirement route caller db =
     (let ref = request_ref requirement route
      in if \<not> EngagementScoped (HRef_Type ref)
         then Inr (zeroResource\<lparr>Resource_Type := HRef_Type ref, Resource_ID := HRef_ID ref\<rparr>,
                   policy_subject caller [] [] False)
         else case Facts ref db of
           Inl err \<Rightarrow> Inl err
         | Inr loaded \<Rightarrow>
             (let (seat, member) = Seat (Facts_EngagementID loaded) (Caller_UserID caller) (RDB_discussion db);
                  resource = \<lparr>Resource_Type = HRef_Type ref, Resource_ID = HRef_ID ref,
                    Resource_EngagementID = Facts_EngagementID loaded, Resource_EngagementBlind = Facts_Blind loaded,
                    Resource_Revealed = Facts_Revealed loaded\<rparr>
              in if \<not> member then Inr (resource, policy_subject caller [] [] False)
                 else Inr (resource, policy_subject caller (Facts_EngagementID loaded) seat True)))"

definition concealedID :: "Resource \<Rightarrow> string" where
  "concealedID resource = (if Resource_ID resource \<noteq> [] then Resource_ID resource else Resource_EngagementID resource)"

definition refuse :: "Requirement \<Rightarrow> Resource \<Rightarrow> Decision \<Rightarrow> error" where
  "refuse requirement resource decision =
     (if Decision_Conceal decision then NotFound (Resource_Type resource) (concealedID resource)
      else Forbidden (Action_String (Requirement_Action requirement) @ '' on '' @ Resource_Type resource @ '' '' @
             concealedID resource @ '': '' @ Decision_Reason decision))"

definition session_only_refusal :: "Requirement \<Rightarrow> Caller \<Rightarrow> bool" where
  "session_only_refusal requirement caller \<longleftrightarrow>
     Requirement_SessionOnly requirement \<and> Caller_Method caller = MethodServiceToken"

abbreviation session_only_reason :: string where
  "session_only_reason \<equiv> ''this operation accepts a session cookie only, not a service token''"

definition decide :: "Requirement \<Rightarrow> specRoute \<Rightarrow> Caller option \<Rightarrow> RDB \<Rightarrow> error + (Authorization \<times> error option)" where
  "decide requirement route caller db =
     (let authorization = \<lparr>Authorization_OperationID = Requirement_OperationID requirement,
            Authorization_Subject = zeroSubject, Authorization_Action = ActionUnknown,
            Authorization_Resource = zeroResource, Authorization_Allowed = False, Authorization_Reason = []\<rparr>
      in if Requirement_Public requirement
         then Inr (authorization\<lparr>Authorization_Allowed := True, Authorization_Reason :=
               ''the specification declares this operation public: '' @ Requirement_Because requirement\<rparr>, None)
         else case caller of
           None \<Rightarrow> Inl (Unauthenticated (Requirement_OperationID requirement @
                 '' requires a caller and the request carries no usable session''))
         | Some c \<Rightarrow>
             if session_only_refusal requirement c
             then Inr (authorization\<lparr>Authorization_Subject := policy_subject c [] [] False,
                     Authorization_Action := Requirement_Action requirement, Authorization_Reason := session_only_reason\<rparr>,
                   Some (Forbidden ''subscribe to events with a service token''))
             else if Requirement_Self requirement
             then Inr (authorization\<lparr>Authorization_Subject := policy_subject c [] [] False, Authorization_Allowed := True,
                     Authorization_Reason := ''the specification declares this operation self-service: '' @
                       Requirement_Because requirement\<rparr>, None)
             else case gate_facts requirement route c db of
               Inl err \<Rightarrow> Inl err
             | Inr (resource, subject) \<Rightarrow>
                 (let decision = Can subject (Requirement_Action requirement) resource;
                      authorization' = authorization\<lparr>Authorization_Subject := subject,
                        Authorization_Action := Requirement_Action requirement, Authorization_Resource := resource,
                        Authorization_Allowed := Decision_Allowed decision, Authorization_Reason := Decision_Reason decision\<rparr>
                  in if Decision_Allowed decision then Inr (authorization', None)
                     else Inr (authorization', Some (refuse requirement resource decision))))"

definition requirementFor :: "Gate_env \<Rightarrow> http_Request \<Rightarrow> error + (Requirement \<times> specRoute)" where
  "requirementFor env r =
     (case Req_Route r of
        None \<Rightarrow> Inl (Api (Internal (ErrorsNew
            ''the request carries no resolved operation, so the request validator did not run in front of it'')))
      | Some route \<Rightarrow>
          (case Gate_requirements env (Route_OperationID route) of
             None \<Rightarrow> Inl (Api (Internal (ErrorsNew (''no authorization mapping for the operation '' @
                 Quote (Route_OperationID route) @ '', which the specification router resolved to''))))
           | Some requirement \<Rightarrow> Inr (requirement, route)))"

definition authorize :: "Gate_env \<Rightarrow> http_Request \<Rightarrow> Caller option \<Rightarrow> RDB \<Rightarrow> error + Authorization" where
  "authorize env r caller db =
     (case requirementFor env r of
        Inl err \<Rightarrow> Inl err
      | Inr (requirement, route) \<Rightarrow>
          (case decide requirement route caller db of
             Inl err \<Rightarrow> Inl err
           | Inr (authorization, refusal) \<Rightarrow>
               if \<not> Authorization_Allowed authorization
               then Inl (case refusal of None \<Rightarrow> ErrorsNew [] | Some err \<Rightarrow> err)
               else Inr authorization))"

section \<open>The chain (server.go)\<close>

definition admit_request :: "Gate_env \<Rightarrow> (nat \<Rightarrow> gotime) \<Rightarrow> http_Request \<Rightarrow> Server \<Rightarrow>
    (error + (Authorization \<times> Caller option)) \<times> Server" where
  "admit_request env clock r s =
     (case authenticate env clock r s of
        (Inl err, s') \<Rightarrow> (Inl err, s')
      | (Inr caller, s') \<Rightarrow>
          (case requireCSRF env r caller of
             Some err \<Rightarrow> (Inl err, s')
           | None \<Rightarrow>
               (case requireMFAEnrolment r caller of
                  Some err \<Rightarrow> (Inl err, s')
                | None \<Rightarrow>
                    (case authorize env r caller (Srv_db s') of
                       Inl err \<Rightarrow> (Inl err, s')
                     | Inr authorization \<Rightarrow> (Inr (authorization, caller), s')))))"

end
