(* ===== verification/Gate_Props.thy ===== *)
theory Gate_Props
  imports Gate
begin

text \<open>
  What the way to a handler guarantees. First what a table of requirements is when the server starts
  with it; then whose row a fact is about; then what an admitted request has passed.
\<close>

section \<open>Requirements\<close>

text \<open>One of three things, and for an action everything the decision needs.\<close>

definition requirement_ok :: "Requirement \<Rightarrow> bool" where
  "requirement_ok req \<longleftrightarrow>
     (if Requirement_Public req \<or> Requirement_Self req
      then \<not> (Requirement_Public req \<and> Requirement_Self req) \<and> TrimSpace (Requirement_Because req) \<noteq> [] \<and>
        \<not> Requirement_SessionOnly req
      else \<exists>rule\<in>set rules. Rule_Action rule = Requirement_Action req \<and>
        Ref_Type (Requirement_Resource req) = Rule_Resource rule \<and>
        (EngagementScoped (Rule_Resource rule) \<longrightarrow>
           Ref_Engagement (Requirement_Resource req) \<noteq> [] \<or> Ref_Param (Requirement_Resource req) \<noteq> []) \<and>
        (\<not> EngagementScoped (Rule_Resource rule) \<longrightarrow> Ref_Engagement (Requirement_Resource req) = []))"

lemma resourceOf_row: "ParseAction name = Some a \<Longrightarrow> \<exists>rule\<in>set rules. Rule_Action rule = a \<and> resourceOf a = Rule_Resource rule"
  unfolding ParseAction_Some resourceOf_def
  by (auto split: option.splits simp: find_None_iff find_Some_iff)

lemma because_text: "because loc exts = Inr reason \<Longrightarrow> TrimSpace reason \<noteq> []"
  by (auto simp: because_def split: option.splits ext_value.splits if_splits)

lemma check_ref_None:
  assumes "check_ref loc item op action ref = None"
  shows "Ref_Type ref = resourceOf action \<and>
    (EngagementScoped (Ref_Type ref) \<longrightarrow> Ref_Engagement ref \<noteq> [] \<or> Ref_Param ref \<noteq> []) \<and>
    (\<not> EngagementScoped (Ref_Type ref) \<longrightarrow> Ref_Engagement ref = []) \<and>
    (Ref_Param ref \<noteq> [] \<longrightarrow> Ref_Param ref \<in> set (pathParameters item op)) \<and>
    (Ref_Engagement ref \<noteq> [] \<longrightarrow> Ref_Engagement ref \<in> set (pathParameters item op))"
  using assms by (auto simp: check_ref_def Let_def split: if_splits option.splits)

lemma parseResource_Inr: "parseResource loc item op action = Inr ref \<Longrightarrow> check_ref loc item op action ref = None"
  by (auto simp: parseResource_def Let_def split: option.splits ext_value.splits sum.splits)

lemma requirementOf_ok:
  assumes "requirementOf method path item op = Inr req"
  shows "requirement_ok req \<and> Requirement_OperationID req = Op_OperationID op"
proof -
  obtain loc public self where flags: "flag loc (Op_Extensions op) extPublic = Inr public"
      "flag loc (Op_Extensions op) extSelf = Inr self" "\<not> (public \<and> self)"
    and rest: "(case map_of (Op_Extensions op) extAction of
        Some raw \<Rightarrow> if public \<or> self then Inl (ActionAndExemption loc)
          else action_requirement loc item op raw \<lparr>Requirement_OperationID = Op_OperationID op,
            Requirement_Method = method, Requirement_Path = path, Requirement_Public = public, Requirement_Self = self,
            Requirement_Because = [], Requirement_Action = ActionUnknown,
            Requirement_Resource = noResource, Requirement_SessionOnly = False\<rparr>
      | None \<Rightarrow> if \<not> public \<and> \<not> self then Inl (NothingDeclared loc)
          else exempt_requirement loc item op \<lparr>Requirement_OperationID = Op_OperationID op,
            Requirement_Method = method, Requirement_Path = path, Requirement_Public = public, Requirement_Self = self,
            Requirement_Because = [], Requirement_Action = ActionUnknown,
            Requirement_Resource = noResource, Requirement_SessionOnly = False\<rparr>) = Inr req"
    using assms unfolding requirementOf_def Let_def
    by (auto split: if_splits option.splits sum.splits)
  show ?thesis
  proof (cases "map_of (Op_Extensions op) extAction")
    case None
    then show ?thesis using rest flags(3) because_text
      by (auto simp: exempt_requirement_def requirement_ok_def split: if_splits sum.splits)
  next
    case (Some raw)
    then obtain action ref where a: "parseAction loc raw = Inr action" "parseResource loc item op action = Inr ref"
        "req = \<lparr>Requirement_OperationID = Op_OperationID op, Requirement_Method = method, Requirement_Path = path,
          Requirement_Public = public, Requirement_Self = self, Requirement_Because = [], Requirement_Action = action,
          Requirement_Resource = ref, Requirement_SessionOnly = sessionOnlySecurity op\<rparr>" "\<not> public" "\<not> self"
      using rest by (auto simp: action_requirement_def split: if_splits sum.splits option.splits)
    then obtain name where "ParseAction name = Some action"
      by (auto simp: parseAction_def split: ext_value.splits option.splits)
    then show ?thesis
      using resourceOf_row check_ref_None [OF parseResource_Inr [OF a(2)]] a(3-5)
      by (fastforce simp: requirement_ok_def)
  qed
qed

definition op_name :: "string \<times> string \<times> Path_item \<times> Operation \<Rightarrow> string" where
  "op_name x = Op_OperationID (snd (snd (snd x)))"

lemma Requirements_loop_inv:
  assumes "Requirements_loop ops reqs problems = (reqs', problems')"
    and "problems \<noteq> [] \<or> op_name ` set seen \<subseteq> dom reqs" and "\<forall>req\<in>ran reqs. requirement_ok req"
  shows "(problems' \<noteq> [] \<or> op_name ` (set seen \<union> set ops) \<subseteq> dom reqs') \<and> (\<forall>req\<in>ran reqs'. requirement_ok req)"
  using assms
proof (induction ops reqs problems arbitrary: seen rule: Requirements_loop.induct)
  case (2 verb path item op rest reqs problems)
  let ?x = "(verb, path, item, op)"
  show ?case
  proof (cases "requirementOf verb path item op")
    case (Inl err)
    then show ?thesis using "2.IH"(1) [OF Inl, of "?x # seen"] "2.prems" by simp
  next
    case (Inr req)
    note ok = requirementOf_ok [OF Inr]
    let ?reqs = "reqs(Requirement_OperationID req \<mapsto> req)"
    have all: "\<forall>r\<in>ran ?reqs. requirement_ok r"
      using "2.prems"(3) ok by (auto simp: ran_def split: if_splits)
    have named: "problems \<noteq> [] \<or> op_name ` set (?x # seen) \<subseteq> dom ?reqs"
      using "2.prems"(2) ok by (auto simp: op_name_def)
    have loop: "Requirements_loop rest ?reqs problems = (reqs', problems')" using "2.prems"(1) Inr by simp
    show ?thesis using "2.IH"(2) [OF Inr loop named all] by auto
  qed
qed auto


section \<open>Whose row a fact is about\<close>

text \<open>The rows themselves, without the order the code reads them in.\<close>

definition step_home :: "RDB \<Rightarrow> string \<Rightarrow> string \<Rightarrow> bool \<Rightarrow> bool" where
  "step_home db sid e shown \<longleftrightarrow>
     (\<exists>st\<in>set (EDB_steps (rdb_workbook db)). \<exists>sc\<in>set (EDB_scenarios (rdb_workbook db)).
        Step_ID st = sid \<and> Scenario_ID sc = Step_ScenarioID st \<and> Scenario_EngagementID sc = e \<and>
        shown = (Step_RevealedAt st \<noteq> None))"

definition execution_home :: "RDB \<Rightarrow> string \<Rightarrow> string \<Rightarrow> bool \<Rightarrow> bool" where
  "execution_home db xid e shown \<longleftrightarrow>
     (\<exists>x\<in>set (EDB_executions (rdb_workbook db)). Execution_ID x = xid \<and> step_home db (Execution_StepID x) e shown)"

definition comment_home :: "RDB \<Rightarrow> string \<Rightarrow> string \<Rightarrow> bool \<Rightarrow> bool" where
  "comment_home db cid e shown \<longleftrightarrow>
     (\<exists>c\<in>set (DDB_comments (RDB_discussion db)). Comment_ID c = cid \<and> execution_home db (Comment_ExecutionID c) e shown)"

definition evidence_home :: "RDB \<Rightarrow> string \<Rightarrow> string \<Rightarrow> bool \<Rightarrow> bool" where
  "evidence_home db vid e shown \<longleftrightarrow>
     (\<exists>v\<in>set (DDB_evidence (RDB_discussion db)). Evidence_ID v = vid \<and>
        (if Evidence_ExecutionID v \<noteq> [] then execution_home db (Evidence_ExecutionID v) e shown
         else comment_home db (Evidence_CommentID v) e shown))"

definition report_home :: "RDB \<Rightarrow> string \<Rightarrow> string \<Rightarrow> bool" where
  "report_home db rid e \<longleftrightarrow> (\<exists>r\<in>set (RDB_reports db). Report_ID r = rid \<and> Report_EngagementID r = e)"

definition version_home :: "RDB \<Rightarrow> string \<Rightarrow> string \<Rightarrow> bool" where
  "version_home db vid e \<longleftrightarrow> (\<exists>v\<in>set (RDB_versions db). Version_ID v = vid \<and> report_home db (Version_ReportID v) e)"

definition share_home :: "RDB \<Rightarrow> string \<Rightarrow> string \<Rightarrow> bool" where
  "share_home db sid e \<longleftrightarrow> (\<exists>s\<in>set (RDB_shares db). Share_ID s = sid \<and> version_home db (Share_VersionID s) e)"

text \<open>The engagement a reference belongs to, and whether what it names has been revealed there.\<close>

definition belongs :: "RDB \<Rightarrow> httpapi_ResourceRef \<Rightarrow> string \<Rightarrow> bool \<Rightarrow> bool" where
  "belongs db ref e shown \<longleftrightarrow>
     (let t = HRef_Type ref; i = HRef_ID ref; here = (HRef_EngagementID ref = e \<and> shown) in
      if t = ResourceEngagement then i = e \<and> shown
      else if t = ResourceMember then here
      else if t = ResourceEvidence then
        (if HRef_Kind ref = ''execution'' then execution_home db i e shown else evidence_home db i e shown)
      else if t = ResourceReport \<and> HRef_Kind ref = ''template'' then
        (\<exists>x\<in>set (RDB_templates db). Template_ID x = i \<and> Template_EngagementID x = e) \<and> shown
      else if t = ResourceReport \<and> HRef_Kind ref = ''version'' then version_home db i e \<and> shown
      else if t = ResourceReport \<and> HRef_Kind ref = ''share'' then share_home db i e \<and> shown
      else if i = [] then here
      else if t = ResourceScenario then
        (\<exists>x\<in>set (EDB_scenarios (rdb_workbook db)). Scenario_ID x = i \<and> Scenario_EngagementID x = e) \<and> shown
      else if t = ResourceExecution then execution_home db i e shown
      else if t = ResourceComment then comment_home db i e shown
      else if t = ResourceFinding then
        (\<exists>x\<in>set (DDB_findings (RDB_discussion db)). Finding_ID x = i \<and> Finding_EngagementID x = e) \<and> shown
      else t = ResourceReport \<and> report_home db i e \<and> shown)"

text \<open>The engagement behind a fact is a row, and its mode the one reported.\<close>

definition facts_row :: "RDB \<Rightarrow> ResourceFacts \<Rightarrow> bool" where
  "facts_row db f \<longleftrightarrow> (\<exists>g\<in>set (RDB_engagements db). Engagement_ID g = Facts_EngagementID f \<and>
     Facts_Blind f = (Engagement_Mode g = EngagementModeBlind))"

lemma select1_row:
  assumes "select1 P rows = Some r"
  shows "r \<in> set rows" and "P r"
  using select1_Some [OF assms] by simp_all

lemma facts_row_revealed [simp]: "facts_row db (f\<lparr>Facts_Revealed := b\<rparr>) = facts_row db f"
  by (simp add: facts_row_def)

lemma engagementFacts_row:
  assumes "engagementFacts eid db = Inr f"
  shows "Facts_EngagementID f = eid \<and> Facts_Revealed f \<and> facts_row db f"
proof -
  obtain g where g: "select1 (\<lambda>x. Engagement_ID x = eid) (RDB_engagements db) = Some g"
      "f = \<lparr>Facts_EngagementID = Engagement_ID g, Facts_Blind = (Engagement_Mode g = EngagementModeBlind), Facts_Revealed = True\<rparr>"
    using assms by (auto simp: engagementFacts_def Engagements_ByID_def split: option.splits)
  then show ?thesis using select1_row [OF g(1)] by (auto simp: facts_row_def)
qed

lemma stepFacts_row:
  assumes "stepFacts sid db = Inr f"
  shows "step_home db sid (Facts_EngagementID f) (Facts_Revealed f) \<and> facts_row db f"
proof -
  obtain st sc g where st: "select1 (\<lambda>t. Step_ID t = sid) (EDB_steps (rdb_workbook db)) = Some st"
      "select1 (\<lambda>s. Scenario_ID s = Step_ScenarioID st) (EDB_scenarios (rdb_workbook db)) = Some sc"
      "engagementFacts (Scenario_EngagementID sc) db = Inr g" "f = g\<lparr>Facts_Revealed := Step_RevealedAt st \<noteq> None\<rparr>"
    using assms by (auto simp: stepFacts_def Steps_ByID_def Scenarios_ByID_def split: option.splits sum.splits)
  then have "step_home db sid (Facts_EngagementID f) (Facts_Revealed f)"
    using select1_row [OF st(1)] select1_row [OF st(2)] engagementFacts_row [OF st(3)]
    by (auto simp: step_home_def)
  moreover have "facts_row db f" using engagementFacts_row [OF st(3)] st(4) by simp
  ultimately show ?thesis ..
qed

lemma executionByIDFacts_row:
  assumes "executionByIDFacts xid db = Inr f"
  shows "execution_home db xid (Facts_EngagementID f) (Facts_Revealed f) \<and> facts_row db f"
proof -
  obtain x where x: "select1 (\<lambda>x. Execution_ID x = xid) (EDB_executions (rdb_workbook db)) = Some x"
      "stepFacts (Execution_StepID x) db = Inr f"
    using assms by (auto simp: executionByIDFacts_def Executions_ByID_def split: option.splits sum.splits)
  then show ?thesis using select1_row [OF x(1)] stepFacts_row [OF x(2)] by (auto simp: execution_home_def)
qed

lemma commentFacts_row:
  assumes "Comments_ByID cid (RDB_discussion db) = Inr c" "executionByIDFacts (Comment_ExecutionID c) db = Inr f"
  shows "comment_home db cid (Facts_EngagementID f) (Facts_Revealed f) \<and> facts_row db f"
  using assms(1) executionByIDFacts_row [OF assms(2)]
  by (auto simp: comment_home_def Comments_ByID_def split: option.splits dest: select1_row)

lemma evidenceFacts_row:
  assumes "evidenceFacts ref db = Inr f"
  shows "(if HRef_Kind ref = ''execution'' then execution_home db (HRef_ID ref) (Facts_EngagementID f) (Facts_Revealed f)
     else evidence_home db (HRef_ID ref) (Facts_EngagementID f) (Facts_Revealed f)) \<and> facts_row db f"
proof (cases "HRef_Kind ref = ''execution''")
  case True
  then show ?thesis using assms executionByIDFacts_row by (simp add: evidenceFacts_def)
next
  case False
  then obtain v where v: "select1 (\<lambda>v. Evidence_ID v = HRef_ID ref) (DDB_evidence (RDB_discussion db)) = Some v"
      "(if Evidence_ExecutionID v \<noteq> [] then executionByIDFacts (Evidence_ExecutionID v) db
        else case Comments_ByID (Evidence_CommentID v) (RDB_discussion db) of Inl err \<Rightarrow> Inl err
             | Inr c \<Rightarrow> executionByIDFacts (Comment_ExecutionID c) db) = Inr f"
    using assms by (auto simp: evidenceFacts_def Evidence_ByID_def split: option.splits sum.splits)
  then show ?thesis
    using False select1_row [OF v(1)] executionByIDFacts_row commentFacts_row
    by (fastforce simp: evidence_home_def split: if_splits sum.splits)
qed

lemma versionFacts_row:
  assumes "versionFacts vid db = Inr f"
  shows "version_home db vid (Facts_EngagementID f) \<and> Facts_Revealed f \<and> facts_row db f"
proof -
  obtain v r where v: "select1 (\<lambda>v. Version_ID v = vid) (RDB_versions db) = Some v"
      "select1 (\<lambda>r. Report_ID r = Version_ReportID v) (RDB_reports db) = Some r"
      "engagementFacts (Report_EngagementID r) db = Inr f"
    using assms by (auto simp: versionFacts_def Versions_ByID_def Reports_ByID_def split: option.splits sum.splits)
  then show ?thesis
    using select1_row [OF v(1)] select1_row [OF v(2)] engagementFacts_row [OF v(3)]
    by (auto simp: version_home_def report_home_def)
qed

lemma scenarioFacts_row:
  assumes "scenarioFacts ref db = Inr f"
  shows "(if HRef_ID ref = [] then Facts_EngagementID f = HRef_EngagementID ref
     else \<exists>x\<in>set (EDB_scenarios (rdb_workbook db)). Scenario_ID x = HRef_ID ref \<and> Scenario_EngagementID x = Facts_EngagementID f) \<and>
    Facts_Revealed f \<and> facts_row db f"
proof (cases "HRef_ID ref = []")
  case True
  then show ?thesis using assms engagementFacts_row by (simp add: scenarioFacts_def)
next
  case False
  then obtain x where x: "select1 (\<lambda>x. Scenario_ID x = HRef_ID ref) (EDB_scenarios (rdb_workbook db)) = Some x"
      "engagementFacts (Scenario_EngagementID x) db = Inr f"
    using assms by (auto simp: scenarioFacts_def Scenarios_ByID_def split: option.splits sum.splits)
  then show ?thesis using False select1_row [OF x(1)] engagementFacts_row [OF x(2)] by auto
qed

lemma findingFacts_row:
  assumes "findingFacts ref db = Inr f"
  shows "(if HRef_ID ref = [] then Facts_EngagementID f = HRef_EngagementID ref
     else \<exists>x\<in>set (DDB_findings (RDB_discussion db)). Finding_ID x = HRef_ID ref \<and> Finding_EngagementID x = Facts_EngagementID f) \<and>
    Facts_Revealed f \<and> facts_row db f"
proof (cases "HRef_ID ref = []")
  case True
  then show ?thesis using assms engagementFacts_row by (simp add: findingFacts_def)
next
  case False
  then obtain x where x: "select1 (\<lambda>x. Finding_ID x = HRef_ID ref) (DDB_findings (RDB_discussion db)) = Some x"
      "engagementFacts (Finding_EngagementID x) db = Inr f"
    using assms by (auto simp: findingFacts_def Findings_ByID_def split: option.splits sum.splits)
  then show ?thesis using False select1_row [OF x(1)] engagementFacts_row [OF x(2)] by auto
qed

lemma templateFacts_row:
  assumes "Templates_ByID i db = Inr t" "engagementFacts (Template_EngagementID t) db = Inr f"
  shows "(\<exists>x\<in>set (RDB_templates db). Template_ID x = i \<and> Template_EngagementID x = Facts_EngagementID f) \<and>
    Facts_Revealed f \<and> facts_row db f"
proof -
  have "select1 (\<lambda>x. Template_ID x = i) (RDB_templates db) = Some t"
    using assms(1) by (auto simp: Templates_ByID_def split: option.splits)
  then show ?thesis using select1_row [of "\<lambda>x. Template_ID x = i"] engagementFacts_row [OF assms(2)] by fastforce
qed

lemma plainReportFacts_row:
  assumes "Reports_ByID i db = Inr r" "engagementFacts (Report_EngagementID r) db = Inr f"
  shows "report_home db i (Facts_EngagementID f) \<and> Facts_Revealed f \<and> facts_row db f"
proof -
  have "select1 (\<lambda>x. Report_ID x = i) (RDB_reports db) = Some r"
    using assms(1) by (auto simp: Reports_ByID_def split: option.splits)
  then show ?thesis
    using select1_row [of "\<lambda>x. Report_ID x = i"] engagementFacts_row [OF assms(2)] by (fastforce simp: report_home_def)
qed

lemma shareFacts_row:
  assumes "Shares_ByID i db = Some s" "versionFacts (Share_VersionID s) db = Inr f"
  shows "share_home db i (Facts_EngagementID f) \<and> Facts_Revealed f \<and> facts_row db f"
  using select1_row [of "\<lambda>s. Share_ID s = i" "RDB_shares db" s] assms(1) versionFacts_row [OF assms(2)]
  by (fastforce simp: Shares_ByID_def share_home_def)

lemma reportFacts_row:
  assumes "reportFacts ref db = Inr f"
  shows "(if HRef_Kind ref = ''template'' then
       \<exists>x\<in>set (RDB_templates db). Template_ID x = HRef_ID ref \<and> Template_EngagementID x = Facts_EngagementID f
     else if HRef_Kind ref = ''version'' then version_home db (HRef_ID ref) (Facts_EngagementID f)
     else if HRef_Kind ref = ''share'' then share_home db (HRef_ID ref) (Facts_EngagementID f)
     else if HRef_ID ref = [] then Facts_EngagementID f = HRef_EngagementID ref
     else report_home db (HRef_ID ref) (Facts_EngagementID f)) \<and> Facts_Revealed f \<and> facts_row db f"
  using assms engagementFacts_row templateFacts_row versionFacts_row shareFacts_row plainReportFacts_row
  by (fastforce simp: reportFacts_def split: if_splits sum.splits option.splits)

lemma resolve_row:
  assumes "resolve ref db = Inr f"
  shows "belongs db ref (Facts_EngagementID f) (Facts_Revealed f) \<and> facts_row db f"
proof -
  let ?t = "HRef_Type ref"
  consider "?t = ResourceEngagement" | "?t = ResourceMember" | "?t = ResourceScenario" | "?t = ResourceExecution"
    | "?t = ResourceComment" | "?t = ResourceEvidence" | "?t = ResourceFinding" | "?t = ResourceReport"
    using assms by (auto simp: resolve_def Let_def split: if_splits)
  then show ?thesis
  proof cases
    case 3
    then show ?thesis using assms scenarioFacts_row [of ref db f] by (auto simp: resolve_def belongs_def split: if_splits)
  next
    case 4
    then show ?thesis
      using assms engagementFacts_row executionByIDFacts_row
      by (auto simp: resolve_def belongs_def executionFacts_def split: if_splits)
  next
    case 5
    then show ?thesis
      using assms engagementFacts_row commentFacts_row
      by (auto simp: resolve_def belongs_def commentFacts_def split: if_splits sum.splits)
  next
    case 6
    then show ?thesis using assms evidenceFacts_row [of ref db f] by (auto simp: resolve_def belongs_def split: if_splits)
  next
    case 7
    then show ?thesis using assms findingFacts_row [of ref db f] by (auto simp: resolve_def belongs_def split: if_splits)
  next
    case 8
    then show ?thesis using assms reportFacts_row [of ref db f] by (auto simp: resolve_def belongs_def split: if_splits)
  qed (use assms engagementFacts_row in \<open>auto simp: resolve_def belongs_def\<close>)
qed

lemma Facts_row:
  assumes "Facts ref db = Inr f"
  shows "belongs db ref (Facts_EngagementID f) (Facts_Revealed f) \<and> facts_row db f \<and>
    (HRef_EngagementID ref \<noteq> [] \<longrightarrow> HRef_EngagementID ref = Facts_EngagementID f)"
  using assms resolve_row [of ref db f] by (auto simp: Facts_def split: sum.splits if_splits)

section \<open>What an admitted request has passed\<close>

definition seated :: "RDB \<Rightarrow> string \<Rightarrow> string \<Rightarrow> EngagementRole \<Rightarrow> bool" where
  "seated db e userID role \<longleftrightarrow>
     (\<exists>m\<in>set (IDB_members (EDB_identity (rdb_workbook db))).
        Membership_EngagementID m = e \<and> Membership_UserID m = userID \<and> Membership_Role m = role)"

text \<open>What the table's row asks of a caller over the resource's own engagement.\<close>

definition entitled_in :: "Rule \<Rightarrow> httpapi_ResourceRef \<Rightarrow> Caller \<Rightarrow> RDB \<Rightarrow> bool" where
  "entitled_in rule ref c db \<longleftrightarrow>
     (\<exists>e shown. belongs db ref e shown \<and> (HRef_EngagementID ref \<noteq> [] \<longrightarrow> HRef_EngagementID ref = e) \<and>
        (Caller_Method c = MethodServiceToken \<longrightarrow> Caller_TokenEngagementID c \<in> {[], e}) \<and>
        (Caller_PlatformRole c \<in> set (Rule_Platform rule) \<or>
         (\<exists>role\<in>set (Rule_Engagement rule). seated db e (Caller_UserID c) role)) \<and>
        (Rule_Guard rule = GuardBlindMode \<and> fst (Seat e (Caller_UserID c) (RDB_discussion db)) = EngagementRoleBlue \<and>
         (\<forall>g\<in>set (RDB_engagements db). Engagement_ID g = e \<longrightarrow> Engagement_Mode g = EngagementModeBlind) \<longrightarrow> shown))"

definition entitled :: "Rule \<Rightarrow> httpapi_ResourceRef \<Rightarrow> Caller \<Rightarrow> RDB \<Rightarrow> bool" where
  "entitled rule ref c db \<longleftrightarrow>
     Caller_UserID c \<noteq> [] \<and> HRef_Type ref = Rule_Resource rule \<and>
     (Caller_Method c = MethodServiceToken \<longrightarrow>
        Rule_Guard rule \<noteq> GuardSessionOnly \<and> Rule_Token rule \<in> set (Caller_TokenScopes c)) \<and>
     (if EngagementScoped (Rule_Resource rule) then entitled_in rule ref c db
      else Caller_PlatformRole c \<in> set (Rule_Platform rule) \<and>
        (Caller_Method c = MethodServiceToken \<longrightarrow> Caller_TokenEngagementID c = []))"

lemma Seat_seated: "Seat e u db = (role, True) \<Longrightarrow>
    \<exists>m\<in>set (IDB_members (EDB_identity (DDB_workbook db))).
        Membership_EngagementID m = e \<and> Membership_UserID m = u \<and> Membership_Role m = role"
  by (auto simp: Seat_def split: option.splits dest: select1_row)

lemma gate_facts_entitled:
  assumes facts: "gate_facts requirement route c db = Inr (res, sub)"
    and allowed: "Decision_Allowed (Can sub action res)"
  shows "\<exists>rule\<in>set rules. Rule_Action rule = action \<and> entitled rule (request_ref requirement route) c db"
proof -
  let ?ref = "request_ref requirement route"
  obtain rule where rule: "rule \<in> set rules" "Rule_Action rule = action" and ok: "authenticated sub"
      "Resource_Type res = Rule_Resource rule"
      "EngagementScoped (Rule_Resource rule) \<longrightarrow> Resource_EngagementID res \<noteq> []"
      "role_holds sub rule res" "guard_passes sub rule res"
      "Subject_Method sub = MethodServiceToken \<longrightarrow> token_reaches sub rule res"
    using allowed unfolding Can_allowed_iff may_def by blast
  have "entitled rule ?ref c db"
  proof (cases "EngagementScoped (HRef_Type ?ref)")
    case False
    then have "res = zeroResource\<lparr>Resource_Type := HRef_Type ?ref, Resource_ID := HRef_ID ?ref\<rparr>"
        "sub = policy_subject c [] [] False"
      using facts by (auto simp: gate_facts_def Let_def)
    then show ?thesis using ok False
      by (auto simp: entitled_def policy_subject_def authenticated_def role_holds_def guard_passes_def token_reaches_def
          zeroResource_def)
  next
    case True
    then obtain f where f: "Facts ?ref db = Inr f"
      using facts by (auto simp: gate_facts_def Let_def split: sum.splits)
    let ?e = "Facts_EngagementID f"
    obtain seat member where seat: "Seat ?e (Caller_UserID c) (RDB_discussion db) = (seat, member)" by fastforce
    have res: "Resource_EngagementID res = ?e" "Resource_EngagementBlind res = Facts_Blind f"
        "Resource_Revealed res = Facts_Revealed f" "Resource_Type res = HRef_Type ?ref"
      and sub: "sub = (if member then policy_subject c ?e seat True else policy_subject c [] [] False)"
      using facts True f seat by (auto simp: gate_facts_def Let_def split: if_splits)
    have e: "?e \<noteq> []" using ok(2,3) res True by simp
    note row = Facts_row [OF f]
    have "entitled_in rule ?ref c db"
      unfolding entitled_in_def
    proof (intro exI [of _ ?e] exI [of _ "Facts_Revealed f"] conjI impI)
      show "belongs db ?ref ?e (Facts_Revealed f)" using row by blast
      show "HRef_EngagementID ?ref = ?e" if "HRef_EngagementID ?ref \<noteq> []" using row that by blast
      show "Caller_TokenEngagementID c \<in> {[], ?e}" if "Caller_Method c = MethodServiceToken"
        using ok(6) that sub res by (auto simp: token_reaches_def policy_subject_def split: if_splits)
      show "Caller_PlatformRole c \<in> set (Rule_Platform rule) \<or>
          (\<exists>role\<in>set (Rule_Engagement rule). seated db ?e (Caller_UserID c) role)"
        using ok(4) sub res e Seat_seated [of ?e "Caller_UserID c" "RDB_discussion db" seat] seat
        by (auto simp: role_holds_def policy_subject_def MembershipIn_def seated_def split: if_splits)
      show "Facts_Revealed f"
        if guard: "Rule_Guard rule = GuardBlindMode \<and> fst (Seat ?e (Caller_UserID c) (RDB_discussion db)) = EngagementRoleBlue \<and>
          (\<forall>g\<in>set (RDB_engagements db). Engagement_ID g = ?e \<longrightarrow> Engagement_Mode g = EngagementModeBlind)"
      proof -
        have blind: "Facts_Blind f" using row guard by (auto simp: facts_row_def)
        have "member" using guard seat by (auto simp: Seat_def split: option.splits)
        then have "fst (MembershipIn sub (Resource_EngagementID res)) = EngagementRoleBlue"
          using guard seat sub res e by (simp add: MembershipIn_def policy_subject_def)
        then show ?thesis using ok(5) guard blind res by (auto simp: guard_passes_def blind_to_def)
      qed
    qed
    then show ?thesis using ok True res sub
      by (auto simp: entitled_def authenticated_def policy_subject_def guard_passes_def token_reaches_def split: if_splits)
  qed
  then show ?thesis using rule by blast
qed

text \<open>What the last step asks, apart from the credential's own conditions.\<close>

definition permitted :: "Requirement \<Rightarrow> specRoute \<Rightarrow> Caller option \<Rightarrow> RDB \<Rightarrow> bool" where
  "permitted requirement route caller db \<longleftrightarrow>
     Requirement_Public requirement \<or>
     (\<exists>c. caller = Some c \<and>
        \<not> (Requirement_SessionOnly requirement \<and> Caller_Method c = MethodServiceToken) \<and>
        (Requirement_Self requirement \<or>
         (\<exists>rule\<in>set rules. Rule_Action rule = Requirement_Action requirement \<and>
            entitled rule (request_ref requirement route) c db)))"

lemma decide_permitted:
  assumes "decide requirement route caller db = Inr (a, refusal)" and "Authorization_Allowed a"
  shows "permitted requirement route caller db"
proof (cases "Requirement_Public requirement")
  case False
  then obtain c where c: "caller = Some c" using assms by (auto simp: decide_def Let_def split: option.splits)
  show ?thesis
  proof (cases "Requirement_Self requirement")
    case True
    then show ?thesis
      using assms False c by (auto simp: decide_def Let_def permitted_def session_only_refusal_def split: if_splits)
  next
    case no_self: False
    have unfenced: "\<not> session_only_refusal requirement c"
      using assms False c by (auto simp: decide_def Let_def)
    then obtain res sub where facts: "gate_facts requirement route c db = Inr (res, sub)"
      using assms False no_self c by (auto simp: decide_def Let_def split: sum.splits)
    then have "Decision_Allowed (Can sub (Requirement_Action requirement) res)"
      using assms False no_self c unfenced by (auto simp: decide_def Let_def split: if_splits)
    then show ?thesis
      using gate_facts_entitled [OF facts] c unfenced by (auto simp: permitted_def session_only_refusal_def)
  qed
qed (simp add: permitted_def)

text \<open>The checks in front of the decision, for the caller the credentials resolved to.\<close>

definition credential_ok :: "Gate_env \<Rightarrow> (nat \<Rightarrow> gotime) \<Rightarrow> http_Request \<Rightarrow> Server \<Rightarrow> Caller \<Rightarrow> bool" where
  "credential_ok env clock r s c \<longleftrightarrow>
     fst (resolveCaller env clock r s) = Inr c \<and>
     (Caller_Method c = MethodCookie \<and> Req_Method r \<notin> set csrfSafeMethods \<and>
        Req_Method r @ '' '' @ routePath r \<notin> set csrfExemptRoutes \<longrightarrow>
      length (Req_SessionCookie r) = tokenLength \<and> Req_CSRFHeader r = Gate_mac env (Req_SessionCookie r) \<and>
      Req_CSRFCookie r = Req_CSRFHeader r \<and> Req_CSRFHeader r \<noteq> []) \<and>
     (Caller_MFAEnrolmentRequired c \<longrightarrow> Req_Method r @ '' '' @ routePath r \<in> set enrolmentOnlyRoutes)"

lemma authenticate_Some:
  "authenticate env clock r s = (Inr (Some c), s') \<Longrightarrow> fst (resolveCaller env clock r s) = Inr c"
  by (auto simp: authenticate_def split: prod.splits sum.splits if_splits)

lemma requireCSRF_None:
  assumes "requireCSRF env r (Some c) = None" and "Caller_Method c = MethodCookie"
    and "Req_Method r \<notin> set csrfSafeMethods" and "Req_Method r @ '' '' @ routePath r \<notin> set csrfExemptRoutes"
  shows "length (Req_SessionCookie r) = tokenLength \<and> Req_CSRFHeader r = Gate_mac env (Req_SessionCookie r) \<and>
    Req_CSRFCookie r = Req_CSRFHeader r \<and> Req_CSRFHeader r \<noteq> []"
  using assms by (auto simp: requireCSRF_def Let_def csrfExempt_def caller_method_def csrfMatches_def CSRFToken_def split: if_splits)


section \<open>What a refusal tells\<close>

text \<open>The row an identifier of a type names, where the type and the row go by one name.\<close>

definition row_named :: "RDB \<Rightarrow> httpapi_ResourceRef \<Rightarrow> bool" where
  "row_named db ref \<longleftrightarrow>
     (let t = HRef_Type ref; i = HRef_ID ref in
      if t = ResourceEngagement then i \<in> Engagement_ID ` set (RDB_engagements db)
      else if t = ResourceMember then HRef_EngagementID ref \<in> Engagement_ID ` set (RDB_engagements db)
      else if t = ResourceScenario then i \<in> Scenario_ID ` set (EDB_scenarios (rdb_workbook db))
      else if t = ResourceExecution then i \<in> Execution_ID ` set (EDB_executions (rdb_workbook db))
      else if t = ResourceComment then i \<in> Comment_ID ` set (DDB_comments (RDB_discussion db))
      else if t = ResourceEvidence then i \<in> Evidence_ID ` set (DDB_evidence (RDB_discussion db))
      else if t = ResourceFinding then i \<in> Finding_ID ` set (DDB_findings (RDB_discussion db))
      else i \<in> Report_ID ` set (RDB_reports db))"

lemma select1_absent: "x \<notin> key ` set rows \<Longrightarrow> select1 (\<lambda>r. key r = x) rows = None"
  by (auto simp: select1_None)

lemma scoped_types:
  "EngagementScoped t \<longleftrightarrow> t \<in> {ResourceEngagement, ResourceMember, ResourceExecution, ResourceComment, ResourceFinding,
     ResourceEvidence, ResourceReport, ResourceScenario}"
  by (auto simp: EngagementScoped_def resourceOwners_def split: if_splits option.splits)

lemma missing_Facts:
  assumes "EngagementScoped (HRef_Type ref)" "HRef_ID ref \<noteq> []" "HRef_Kind ref \<in> {[], ''report''}" "\<not> row_named db ref"
  shows "\<exists>err i. Facts ref db = Inl err \<and> (err = NotFound (HRef_Type ref) i \<or> (\<exists>w. err = ErrorfW w (NotFound (HRef_Type ref) i)))"
  using assms
  by (auto simp: scoped_types row_named_def Facts_def resolve_def engagementFacts_def Engagements_ByID_def select1_absent
      scenarioFacts_def Scenarios_ByID_def executionFacts_def executionByIDFacts_def Executions_ByID_def commentFacts_def
      Comments_ByID_def evidenceFacts_def Evidence_ByID_def findingFacts_def Findings_ByID_def reportFacts_def
      Reports_ByID_def NotFound_def)


text \<open>
  The other kinds tell: a template, a version, a share and an execution named for its evidence are
  missing under their own name and concealed under the name of the type.
\<close>

theorem kinds_tell_existence:
  assumes "HRef_Type ref = ResourceReport" "HRef_Kind ref = ''template''" "HRef_ID ref \<notin> Template_ID ` set (RDB_templates db)"
    and "Decision_Conceal decision" and "Resource_Type resource = HRef_Type ref"
  shows "\<exists>err. Facts ref db = Inl err \<and>
    Problem_Detail (Translate spec err []) = Some ''no such template'' \<and>
    Problem_Detail (Translate spec (refuse requirement resource decision) []) = Some ''no such report''"
  using assms
  by (auto simp: Facts_def resolve_def reportFacts_def Templates_ByID_def select1_absent NotFound_def refuse_def Translate_def
      classify_def Let_def)

section \<open>Two rules that do not hold\<close>

text \<open>
  An operation on the own account never refuses a service token, whatever its security says: its
  requirement is returned before the security is read. The stream of events is such an operation.
\<close>

theorem self_takes_tokens:
  assumes "requirementOf method path item op = Inr req" and "Requirement_Self req"
    and "\<not> Requirement_Public req"
  shows "\<exists>a. decide req route (Some c) db = Inr (a, None) \<and> Authorization_Allowed a"
proof -
  have "\<not> Requirement_SessionOnly req" using requirementOf_ok [OF assms(1)] assms(2) by (simp add: requirement_ok_def)
  then show ?thesis using assms(2,3) by (simp add: decide_def Let_def session_only_refusal_def)
qed

text \<open>The two exemptions with a parameter in their path are looked up with the path of the request.\<close>

theorem claim_needs_csrf:
  assumes "Caller_Method c = MethodCookie" and "Req_Method r = ''POST''" and "CHR ''{'' \<notin> set (Req_Path r)"
    and "routePath r = BasePath @ ''/report-views/'' @ token @ tail" and "tail \<in> {''/claim'', ''/password''}"
    and "Req_CSRFHeader r = []"
  shows "requireCSRF env r (Some c) = Some (Forbidden ''a state-changing request with no valid CSRF token'')"
proof -
  have "CHR ''{'' \<notin> set (routePath r)"
    using assms(3) by (auto simp: routePath_def Let_def dest: set_dropWhileD)
  then have "CHR ''{'' \<notin> set (''POST '' @ routePath r)" by simp
  moreover have "\<exists>x. ''POST '' @ routePath r = ''POST /api/v1/report-views/'' @ x" using assms(4) by simp
  moreover have "\<forall>route\<in>set csrfExemptRoutes. CHR ''{'' \<in> set route \<or> (\<forall>x. route \<noteq> ''POST /api/v1/report-views/'' @ x)"
    by (simp add: csrfExemptRoutes_def)
  ultimately have "''POST '' @ routePath r \<notin> set csrfExemptRoutes" by metis
  then have "\<not> csrfExempt r (Some c)"
    using assms(1,2) by (auto simp: csrfExempt_def caller_method_def csrfSafeMethods_def)
  then show ?thesis using assms(1,6) by (simp add: requireCSRF_def Let_def caller_method_def csrfMatches_def)
qed

end
