(* ===== verification/Share_Props.thy ===== *)
theory Share_Props
  imports Shares
begin

text \<open>
  What share links promise. A run is over the database, the claims that have passed their checks and
  have still to write, and the identifiers and token hashes ever issued; the rules are the requests of
  share.go, and whatever else writes the database, which removes shares and grants at most. So the
  properties hold with other requests between the two parts of a claim.
\<close>

section \<open>What the operations do to shares and grants\<close>

lemma RDB_record_frame:
  assumes "RDB_record env e db = Inr db'"
  shows "RDB_shares db' = RDB_shares db \<and> RDB_grants db' = RDB_grants db \<and> RDB_versions db' = RDB_versions db"
  using assms by (auto simp: RDB_record_def split: if_splits sum.splits)

lemma RDB_recordAlone_frame:
  "RDB_shares (RDB_recordAlone env e db) = RDB_shares db" "RDB_grants (RDB_recordAlone env e db) = RDB_grants db"
  "RDB_versions (RDB_recordAlone env e db) = RDB_versions db"
  by (auto simp: RDB_recordAlone_def dest: RDB_record_frame split: sum.splits)

lemma token_share_iff:
  "token_share env clock token db = Inr s \<longleftrightarrow>
     Shares_ByTokenHash (Shr_hash env token) db = Some s \<and> Share_RevokedAt s = None \<and>
     (\<forall>t. Share_ExpiresAt s = Some t \<longrightarrow> clock \<le> t)"
  by (auto simp: token_share_def After_def not_less split: option.splits if_splits)

lemma Shares_ByTokenHash_Some:
  "Shares_ByTokenHash h db = Some s \<Longrightarrow> s \<in> set (RDB_shares db) \<and> Share_TokenHash s = h"
  using select1_Some by (fastforce simp: Shares_ByTokenHash_def)

lemma ClaimShare_check_Inr:
  assumes "ClaimShare_check env clock inp db = Inr s"
  shows "s \<in> set (RDB_shares db) \<and> Share_TokenHash s = Shr_hash env (ClaimShareInput_Token inp) \<and>
    password_gate env s (ClaimShareInput_Password inp) = None \<and>
    ByShareAndUser (Share_ID s) (ClaimShareInput_UserID inp) db = None \<and>
    Share_RevokedAt s = None \<and> (\<forall>t. Share_ExpiresAt s = Some t \<longrightarrow> clock \<le> t)"
  using assms Shares_ByTokenHash_Some
  by (fastforce simp: ClaimShare_check_def token_share_iff split: sum.splits option.splits)

lemma CreateShare_cases:
  assumes "CreateShare env raw salt newID clock inp db = (r, db')"
  shows "RDB_grants db' = RDB_grants db \<and>
    (RDB_shares db' = RDB_shares db \<or>
     (\<exists>s. RDB_shares db' = RDB_shares db @ [s] \<and> Share_ID s = newID \<and>
        Share_TokenHash s = Shr_hash env (hex_EncodeToString raw) \<and> newID \<notin> Share_ID ` set (RDB_shares db)))"
proof -
  have insert: "RDB_grants d = RDB_grants db \<and> (RDB_shares d = RDB_shares db \<or>
     (\<exists>s. RDB_shares d = RDB_shares db @ [s] \<and> Share_ID s = newID \<and> Share_TokenHash s = NewShare_TokenHash n \<and>
       newID \<notin> Share_ID ` set (RDB_shares db)))"
    if "Shares_Insert newID clock n db = (x, d)" for n x d
    using that by (auto simp: Shares_Insert_def Let_def insert_row_def split: if_splits sum.splits)
  show ?thesis
    using assms
    by (auto simp: CreateShare_def share_Generate_def Let_def dest!: insert RDB_record_frame
        split: sum.splits option.splits prod.splits)
qed

lemma live_grants_append:
  "live_grants i (db\<lparr>RDB_grants := RDB_grants db @ [g]\<rparr>) =
     live_grants i db + (if Grant_ShareID g = i \<and> Grant_RevokedAt g = None then 1 else 0)"
  by (simp add: live_grants_def count_where_def)

text \<open>A claim appends one live grant under the cap, or nothing.\<close>

lemma ClaimShare_write_cases:
  assumes "ClaimShare_write env newID clock inp s db = (r, db')"
  shows "RDB_shares db' = RDB_shares db \<and>
    (RDB_grants db' = RDB_grants db \<and> (\<exists>err. r = Inl err) \<or>
     (\<exists>g. RDB_grants db' = RDB_grants db @ [g] \<and> Grant_ShareID g = Share_ID s \<and>
        Grant_UserID g = Some (ClaimShareInput_UserID inp) \<and> Grant_RevokedAt g = None \<and>
        Share_ID s \<in> Share_ID ` set (RDB_shares db) \<and>
        (\<forall>m. Share_MaxGrants s = Some m \<longrightarrow> 0 < m \<longrightarrow> int (live_grants (Share_ID s) db) < m)))"
proof -
  let ?u = "Some (ClaimShareInput_UserID inp)"
  obtain x d where ins: "ClaimInsert newID clock (Share_ID s) ?u (Share_MaxGrants s) db = (x, d)" by fastforce
  have step: "RDB_shares d = RDB_shares db \<and>
    (if \<exists>g. x = Inr (Some g)
     then \<exists>g. RDB_grants d = RDB_grants db @ [g] \<and> Grant_ShareID g = Share_ID s \<and> Grant_UserID g = ?u \<and>
        Grant_RevokedAt g = None \<and> Share_ID s \<in> Share_ID ` set (RDB_shares db) \<and>
        (\<forall>m. Share_MaxGrants s = Some m \<longrightarrow> 0 < m \<longrightarrow> int (live_grants (Share_ID s) db) < m)
     else d = db)"
    using ins by (auto simp: ClaimInsert_def insert_row_def Let_def split: if_splits sum.splits option.splits)
  show ?thesis
  proof (cases "\<exists>g. x = Inr (Some g)")
    case True
    then obtain g where x: "x = Inr (Some g)" by blast
    have "RDB_shares db' = RDB_shares d \<and> RDB_grants db' = RDB_grants d"
      using assms ins x
      by (auto simp: ClaimShare_write_def dest!: RDB_record_frame split: sum.splits if_splits)
    then show ?thesis using step True by auto
  next
    case False
    then have "db' = d \<and> (\<exists>err. r = Inl err)"
      using assms ins by (auto simp: ClaimShare_write_def split: sum.splits option.splits)
    then show ?thesis using step False by auto
  qed
qed

lemma ClaimShare_write_ok:
  assumes "Share_ID s \<in> Share_ID ` set (RDB_shares db)" "newID \<notin> Grant_ID ` set (RDB_grants db)"
    and "\<And>m. Share_MaxGrants s = Some m \<Longrightarrow> 0 < m \<Longrightarrow> int (live_grants (Share_ID s) db) < m"
    and ver: "Versions_ByID (Share_VersionID s) db = Inr v"
  shows "\<exists>db' made. ClaimShare_write env newID clock inp s db =
      (Inr \<lparr>ClaimShareResult_Grant = made, ClaimShareResult_VersionID = Share_VersionID s,
            ClaimShareResult_ReportID = Version_ReportID v\<rparr>, db') \<and>
    RDB_shares db' = RDB_shares db \<and> RDB_versions db' = RDB_versions db \<and>
    RDB_grants db' = RDB_grants db @ [\<lparr>Grant_ID = newID, Grant_ShareID = Share_ID s,
      Grant_UserID = Some (ClaimShareInput_UserID inp), Grant_InviteCodeHash = None,
      Grant_ClaimedAt = Some (toStorage clock), Grant_RevokedAt = None, Grant_CreatedAt = toStorage clock\<rparr>]"
proof -
  let ?row = "\<lparr>Grant_ID = newID, Grant_ShareID = Share_ID s, Grant_UserID = Some (ClaimShareInput_UserID inp),
     Grant_InviteCodeHash = None, Grant_ClaimedAt = Some (toStorage clock), Grant_RevokedAt = None,
     Grant_CreatedAt = toStorage clock\<rparr>"
  let ?d = "db\<lparr>RDB_grants := RDB_grants db @ [?row]\<rparr>"
  have "\<not> (case Share_MaxGrants s of None \<Rightarrow> False | Some m \<Rightarrow> m > 0 \<and> int (live_grants (Share_ID s) db) \<ge> m)"
    using assms(3) by (fastforce split: option.splits)
  then obtain made where ins: "ClaimInsert newID clock (Share_ID s) (Some (ClaimShareInput_UserID inp)) (Share_MaxGrants s) db =
      (Inr (Some made), ?d)"
    using assms(1,2) by (auto simp: ClaimInsert_def Let_def insert_row_def)
  have rec: "\<exists>x. RDB_record env e ?d = Inr x" for e by (simp add: RDB_record_def EDB_record_def Log_Record_def)
  have same: "Versions_ByID (Share_VersionID s) x = Inr v" if "RDB_versions x = RDB_versions db" for x
    using ver that by (simp add: Versions_ByID_def)
  show ?thesis
  proof (cases "Svc_activity (Shr_service env)")
    case True
    obtain x where x: "RDB_record env (share_entry (ClaimShareInput_UserID inp) VerbReportShareClaimed
         ''report_share_grant'' (Grant_ID made)
         [(''share_id'', DString (Share_ID s)), (''version_id'', DString (Share_VersionID s)),
          (''report_id'', DString (Version_ReportID v))]) ?d = Inr x"
      using rec by blast
    then show ?thesis using RDB_record_frame [OF x] True by (simp add: ClaimShare_write_def ins same x)
  next
    case False
    then show ?thesis by (simp add: ClaimShare_write_def ins same)
  qed
qed

lemma update_where_member: "r' \<in> set (update_where P f rows) \<Longrightarrow> \<exists>r\<in>set rows. r' = r \<or> r' = f r"
  by (auto simp: update_where_def split: if_splits)

text \<open>Revocations set the stamp of rows and change nothing else.\<close>

definition grants_dimmed :: "ReportShareGrant list \<Rightarrow> ReportShareGrant list \<Rightarrow> bool" where
  "grants_dimmed = list_all2 (\<lambda>g g'. g' = g \<or> (\<exists>t. g' = g\<lparr>Grant_RevokedAt := Some t\<rparr>))"

lemma grants_dimmed_refl [intro]: "grants_dimmed gs gs"
  by (simp add: grants_dimmed_def list_all2_same)

lemma grants_dimmed_trans: "grants_dimmed a b \<Longrightarrow> grants_dimmed b c \<Longrightarrow> grants_dimmed a c"
  unfolding grants_dimmed_def by (rule list_all2_trans) auto

lemma Grants_Revoke_dims:
  assumes "Grants_Revoke gid clock db = (r, db')"
  shows "RDB_shares db' = RDB_shares db \<and> grants_dimmed (RDB_grants db) (RDB_grants db')"
  using assms
  by (auto simp: Grants_Revoke_def Let_def grants_dimmed_def update_where_def list_all2_map2 list_all2_same
      split: option.splits)

lemma revoke_grants_dims:
  "revoke_grants clock k gs db = (r, db') \<Longrightarrow>
     RDB_shares db' = RDB_shares db \<and> grants_dimmed (RDB_grants db) (RDB_grants db')"
proof (induction clock k gs db arbitrary: r db' rule: revoke_grants.induct)
  case (2 clock k g gs db)
  show ?case
  proof (cases "Grant_RevokedAt g = None")
    case live: True
    obtain x d where d: "Grants_Revoke (Grant_ID g) (clock k) db = (x, d)" by fastforce
    note dims = Grants_Revoke_dims [OF d]
    show ?thesis
    proof (cases x)
      case None
      then have "RDB_shares db' = RDB_shares d \<and> grants_dimmed (RDB_grants d) (RDB_grants db')"
        using "2.IH"(1) [OF live d [symmetric]] "2.prems" live d by simp
      then show ?thesis using dims grants_dimmed_trans by auto
    qed (use "2.prems" live d dims in auto)
  qed (use 2 in auto)
qed auto

lemma RevokeShare_cases:
  assumes "RevokeShare env clock shareID by_user db = (r, db')"
  shows "grants_dimmed (RDB_grants db) (RDB_grants db') \<and>
    (RDB_shares db' = RDB_shares db \<and> r \<noteq> None \<or>
     RDB_shares db' = update_where (\<lambda>s. Share_ID s = shareID \<and> Share_RevokedAt s = None)
       (\<lambda>s. s\<lparr>Share_RevokedAt := Some (toStorage (clock 0))\<rparr>) (RDB_shares db))"
proof -
  let ?stamp = "update_where (\<lambda>s. Share_ID s = shareID \<and> Share_RevokedAt s = None)
       (\<lambda>s. s\<lparr>Share_RevokedAt := Some (toStorage (clock 0))\<rparr>) (RDB_shares db)"
  obtain x d where d: "Shares_Revoke shareID (clock 0) db = (x, d)" by fastforce
  have stamped: "RDB_grants d = RDB_grants db \<and> (if x = None then RDB_shares d = ?stamp else d = db)"
    using d by (auto simp: Shares_Revoke_def Let_def split: option.splits)
  obtain y e where e: "revoke_grants clock 1 (Grants_ListByShare shareID d) d = (y, e)" by fastforce
  note dims = revoke_grants_dims [OF e]
  show ?thesis
    using assms d e stamped dims
    by (auto simp: RevokeShare_def RDB_recordAlone_frame split: option.splits if_splits)
qed

section \<open>Runs\<close>

type_synonym share_run = "RDB \<times> (ReportShare \<times> ClaimShareInput) list \<times> (string \<times> string) list"

inductive share_step :: "Share_env \<Rightarrow> share_run \<Rightarrow> share_run \<Rightarrow> bool" for env where
  create: "CreateShare env raw salt newID clock inp db = (r, db') \<Longrightarrow> newID \<notin> fst ` set used \<Longrightarrow>
     Shr_hash env (hex_EncodeToString raw) \<notin> snd ` set used \<Longrightarrow>
     share_step env (db, reads, used) (db', reads, (newID, Shr_hash env (hex_EncodeToString raw)) # used)"
| look: "ClaimShare_check env clock inp db = Inr s \<Longrightarrow> share_step env (db, reads, used) (db, (s, inp) # reads, used)"
| claim: "(s, inp) \<in> set reads \<Longrightarrow> ClaimShare_write env newID clock inp s db = (r, db') \<Longrightarrow>
     share_step env (db, reads, used) (db', reads, used)"
| revoke: "RevokeShare env clocks shareID by_user db = (r, db') \<Longrightarrow> share_step env (db, reads, used) (db', reads, used)"
| revoke_grant: "RevokeGrant clock grantID db = (r, db') \<Longrightarrow> share_step env (db, reads, used) (db', reads, used)"
| other: "RDB_shares db' = filter P (RDB_shares db) \<Longrightarrow> RDB_grants db' = filter Q (RDB_grants db) \<Longrightarrow>
     Grant_ShareID ` set (RDB_grants db') \<subseteq> Share_ID ` set (RDB_shares db') \<Longrightarrow>
     share_step env (db, reads, used) (db', reads, used)"

definition same_share :: "ReportShare \<Rightarrow> ReportShare \<Rightarrow> bool" where
  "same_share s s' \<longleftrightarrow> Share_TokenHash s' = Share_TokenHash s \<and> Share_PasswordHash s' = Share_PasswordHash s \<and>
     Share_MaxGrants s' = Share_MaxGrants s"

text \<open>A grant was claimed: somebody named the share's token and passed its password.\<close>

definition claimed_by :: "Share_env \<Rightarrow> (ReportShare \<times> ClaimShareInput) list \<Rightarrow> ReportShareGrant \<Rightarrow> bool" where
  "claimed_by env reads g \<longleftrightarrow>
     (\<exists>(s, inp)\<in>set reads. Share_ID s = Grant_ShareID g \<and> Grant_UserID g = Some (ClaimShareInput_UserID inp) \<and>
        Share_TokenHash s = Shr_hash env (ClaimShareInput_Token inp) \<and>
        password_gate env s (ClaimShareInput_Password inp) = None)"

definition shares_ok :: "Share_env \<Rightarrow> share_run \<Rightarrow> bool" where
  "shares_ok env = (\<lambda>(db, reads, used).
     distinct (map fst used) \<and> distinct (map snd used) \<and>
     distinct (map Share_ID (RDB_shares db)) \<and>
     (\<forall>s\<in>set (RDB_shares db). (Share_ID s, Share_TokenHash s) \<in> set used) \<and>
     (\<forall>(s, inp)\<in>set reads. (Share_ID s, Share_TokenHash s) \<in> set used \<and>
        Share_TokenHash s = Shr_hash env (ClaimShareInput_Token inp) \<and>
        password_gate env s (ClaimShareInput_Password inp) = None \<and>
        (\<forall>s'\<in>set (RDB_shares db). Share_ID s' = Share_ID s \<longrightarrow> same_share s s')) \<and>
     (\<forall>g\<in>set (RDB_grants db). Grant_ShareID g \<in> Share_ID ` set (RDB_shares db) \<and> claimed_by env reads g) \<and>
     (\<forall>s\<in>set (RDB_shares db). \<forall>m. Share_MaxGrants s = Some m \<longrightarrow> 0 < m \<longrightarrow>
        int (live_grants (Share_ID s) db) \<le> m))"

lemma shares_okD:
  assumes "shares_ok env (db, reads, used)"
  shows "distinct (map fst used)" "distinct (map snd used)" "distinct (map Share_ID (RDB_shares db))"
    and "s \<in> set (RDB_shares db) \<Longrightarrow> (Share_ID s, Share_TokenHash s) \<in> set used"
    and "(r, inp) \<in> set reads \<Longrightarrow> (Share_ID r, Share_TokenHash r) \<in> set used"
    and "(r, inp) \<in> set reads \<Longrightarrow> Share_TokenHash r = Shr_hash env (ClaimShareInput_Token inp)"
    and "(r, inp) \<in> set reads \<Longrightarrow> password_gate env r (ClaimShareInput_Password inp) = None"
    and "(r, inp) \<in> set reads \<Longrightarrow> s \<in> set (RDB_shares db) \<Longrightarrow> Share_ID s = Share_ID r \<Longrightarrow> same_share r s"
    and "g \<in> set (RDB_grants db) \<Longrightarrow> Grant_ShareID g \<in> Share_ID ` set (RDB_shares db)"
    and "g \<in> set (RDB_grants db) \<Longrightarrow> claimed_by env reads g"
    and "s \<in> set (RDB_shares db) \<Longrightarrow> Share_MaxGrants s = Some m \<Longrightarrow> 0 < m \<Longrightarrow> int (live_grants (Share_ID s) db) \<le> m"
  using assms unfolding shares_ok_def by auto

lemma live_grants_dimmed:
  "grants_dimmed gs gs' \<Longrightarrow>
     count_where (\<lambda>g. Grant_ShareID g = i \<and> Grant_RevokedAt g = None) gs' \<le>
     count_where (\<lambda>g. Grant_ShareID g = i \<and> Grant_RevokedAt g = None) gs"
  unfolding grants_dimmed_def count_where_def by (induction rule: list_all2_induct) auto

lemma live_grants_filtered:
  "count_where P (filter Q gs) \<le> count_where P gs"
  unfolding count_where_def by (induction gs) auto

lemma grants_dimmed_member:
  assumes "grants_dimmed gs gs'" "g' \<in> set gs'"
  shows "\<exists>g\<in>set gs. Grant_ShareID g' = Grant_ShareID g \<and> Grant_UserID g' = Grant_UserID g \<and>
    (Grant_RevokedAt g' = None \<longrightarrow> Grant_RevokedAt g = None)"
  using assms unfolding grants_dimmed_def by (fastforce simp: list_all2_conv_all_nth in_set_conv_nth)

lemma claimed_by_more: "claimed_by env reads g \<Longrightarrow> claimed_by env (r # reads) g"
  by (auto simp: claimed_by_def)

lemma claimed_by_dimmed:
  "claimed_by env reads g \<Longrightarrow> Grant_ShareID g' = Grant_ShareID g \<Longrightarrow> Grant_UserID g' = Grant_UserID g \<Longrightarrow>
     claimed_by env reads g'"
  by (simp add: claimed_by_def)

text \<open>Steps under which shares keep their rows but for the stamp, and grants are at most revoked or removed.\<close>

lemma shares_ok_shrink:
  assumes ok: "shares_ok env (db, reads, used)"
    and dist: "distinct (map Share_ID (RDB_shares db'))"
    and shares: "\<And>s'. s' \<in> set (RDB_shares db') \<Longrightarrow> \<exists>s\<in>set (RDB_shares db). Share_ID s' = Share_ID s \<and> same_share s s'"
    and grants: "\<And>g'. g' \<in> set (RDB_grants db') \<Longrightarrow>
      \<exists>g\<in>set (RDB_grants db). Grant_ShareID g' = Grant_ShareID g \<and> Grant_UserID g' = Grant_UserID g"
    and fk: "Grant_ShareID ` set (RDB_grants db') \<subseteq> Share_ID ` set (RDB_shares db')"
    and live: "\<And>i. live_grants i db' \<le> live_grants i db"
  shows "shares_ok env (db', reads, used)"
proof -
  have "claimed_by env reads g'" if g': "g' \<in> set (RDB_grants db')" for g'
  proof -
    obtain g where "g \<in> set (RDB_grants db)" "Grant_ShareID g' = Grant_ShareID g" "Grant_UserID g' = Grant_UserID g"
      using grants [OF g'] by blast
    then show ?thesis using ok claimed_by_dimmed by (fastforce simp: shares_ok_def)
  qed
  moreover have "int (live_grants (Share_ID s') db') \<le> m"
    if s': "s' \<in> set (RDB_shares db')" and m: "Share_MaxGrants s' = Some m" "0 < m" for s' m
  proof -
    obtain s where s: "s \<in> set (RDB_shares db)" "Share_ID s' = Share_ID s" "same_share s s'" using shares [OF s'] by blast
    then have "int (live_grants (Share_ID s) db) \<le> m" using ok m by (auto simp: shares_ok_def same_share_def)
    then show ?thesis using live [of "Share_ID s"] s(2) by simp
  qed
  moreover have "(Share_ID s', Share_TokenHash s') \<in> set used" if s': "s' \<in> set (RDB_shares db')" for s'
    using shares [OF s'] ok by (auto simp: shares_ok_def same_share_def)
  moreover have "same_share r s'" if r: "(r, inp) \<in> set reads" and s': "s' \<in> set (RDB_shares db')" "Share_ID s' = Share_ID r"
    for r inp s'
  proof -
    obtain s where s: "s \<in> set (RDB_shares db)" "Share_ID s' = Share_ID s" "same_share s s'" using shares [OF s'(1)] by blast
    then have "same_share r s" using ok r s'(2) by (fastforce simp: shares_ok_def)
    then show ?thesis using s(3) by (simp add: same_share_def)
  qed
  ultimately show ?thesis using ok dist fk by (auto simp: shares_ok_def image_subset_iff)
qed

lemma shares_ok_create:
  assumes ok: "shares_ok env (db, reads, used)"
    and db': "RDB_grants db' = RDB_grants db" "RDB_shares db' = RDB_shares db @ [s]"
    and fresh: "Share_ID s \<notin> fst ` set used" "Share_TokenHash s \<notin> snd ` set used"
  shows "shares_ok env (db', reads, (Share_ID s, Share_TokenHash s) # used)"
proof -
  have known: "Share_ID s' \<noteq> Share_ID s" if "(Share_ID s', Share_TokenHash s') \<in> set used" for s'
    using fresh(1) that by (metis fst_conv imageI)
  note row = shares_okD(4) [OF ok] and r_used = shares_okD(5) [OF ok] and home = shares_okD(9) [OF ok]
  have "Share_ID s \<notin> Share_ID ` set (RDB_shares db)" using row known by (metis imageE)
  then have "Grant_ShareID g \<noteq> Share_ID s" if "g \<in> set (RDB_grants db)" for g
    using home [OF that] by metis
  then have none: "live_grants (Share_ID s) db = 0" by (simp add: live_grants_def count_where_0)
  have live: "live_grants i db' = live_grants i db" for i using db' by (simp add: live_grants_def)
  have apart: "Share_ID s \<noteq> Share_ID r" if "(r, inp) \<in> set reads" for r inp
    using r_used [OF that] known by metis
  have "\<forall>(r, inp)\<in>set reads. \<forall>s'\<in>set (RDB_shares db'). Share_ID s' = Share_ID r \<longrightarrow> same_share r s'"
    using shares_okD(8) [OF ok] apart db'(2) by fastforce
  moreover have "\<forall>s'\<in>set (RDB_shares db'). \<forall>m. Share_MaxGrants s' = Some m \<longrightarrow> 0 < m \<longrightarrow>
      int (live_grants (Share_ID s') db') \<le> m"
    using shares_okD(11) [OF ok] none live db'(2) by auto
  ultimately show ?thesis
    unfolding shares_ok_def prod.case
    using shares_okD(1-7,9,10) [OF ok] fresh db' \<open>Share_ID s \<notin> Share_ID ` set (RDB_shares db)\<close>
    by (intro conjI ballI) (auto split: prod.splits)
qed

lemma shares_ok_claim:
  assumes ok: "shares_ok env (db, reads, used)" and read: "(s, inp) \<in> set reads"
    and w: "ClaimShare_write env newID clock inp s db = (r, db')"
  shows "shares_ok env (db', reads, used)"
proof (cases "RDB_grants db' = RDB_grants db")
  case True
  then show ?thesis
    using ClaimShare_write_cases [OF w] ok by (auto simp: shares_ok_def live_grants_def)
next
  case False
  then obtain g where g: "RDB_shares db' = RDB_shares db" "RDB_grants db' = RDB_grants db @ [g]"
      "Grant_ShareID g = Share_ID s" "Grant_UserID g = Some (ClaimShareInput_UserID inp)"
      "Share_ID s \<in> Share_ID ` set (RDB_shares db)"
      "\<forall>m. Share_MaxGrants s = Some m \<longrightarrow> 0 < m \<longrightarrow> int (live_grants (Share_ID s) db) < m"
    using ClaimShare_write_cases [OF w] by auto
  have live: "live_grants i db' \<le> live_grants i db + (if i = Share_ID s then 1 else 0)" for i
    using g by (simp add: live_grants_def count_where_def)
  have "int (live_grants (Share_ID s') db') \<le> m"
    if s': "s' \<in> set (RDB_shares db)" and m: "Share_MaxGrants s' = Some m" "0 < m" for s' m
  proof (cases "Share_ID s' = Share_ID s")
    case True
    then have "Share_MaxGrants s = Some m" using ok read s' m by (fastforce simp: shares_ok_def same_share_def)
    then show ?thesis using g(6) m(2) live [of "Share_ID s'"] True by fastforce
  next
    case other: False
    have "int (live_grants (Share_ID s') db) \<le> m" using ok s' m by (auto simp: shares_ok_def)
    then show ?thesis using live [of "Share_ID s'"] other by simp
  qed
  moreover have "claimed_by env reads g"
    using ok read g(3,4) by (fastforce simp: shares_ok_def claimed_by_def)
  ultimately show ?thesis using ok g by (auto simp: shares_ok_def)
qed

lemma share_step_ok:
  assumes step: "share_step env (db, reads, used) (db', reads', used')" and ok: "shares_ok env (db, reads, used)"
  shows "shares_ok env (db', reads', used')"
  using step
proof cases
  case (create raw salt newID clock inp r)
  then consider "RDB_shares db' = RDB_shares db"
    | s where "RDB_shares db' = RDB_shares db @ [s]" "Share_ID s = newID"
        "Share_TokenHash s = Shr_hash env (hex_EncodeToString raw)"
    using CreateShare_cases by metis
  then show ?thesis
  proof cases
    case 1
    have "shares_ok env (db', reads, used)"
      by (rule shares_ok_shrink [OF ok]) (use 1 create CreateShare_cases [OF create(3)] shares_okD(3,9) [OF ok] in
          \<open>auto simp: same_share_def live_grants_def\<close>)
    then show ?thesis using create by (auto simp: shares_ok_def)
  next
    case (2 s)
    then show ?thesis using shares_ok_create [OF ok, of db' s] create CreateShare_cases [OF create(3)] by simp
  qed
next
  case (look clock inp s)
  note c = ClaimShare_check_Inr [OF look(4)]
  have "claimed_by env reads' g" if "g \<in> set (RDB_grants db')" for g
    using shares_okD(10) [OF ok] that look claimed_by_more by metis
  moreover have "same_share s s'" if "s' \<in> set (RDB_shares db)" "Share_ID s' = Share_ID s" for s'
  proof -
    have "s' = s" using that c shares_okD(3) [OF ok] inj_onD [of Share_ID] by (auto simp: distinct_map)
    then show ?thesis by (simp add: same_share_def)
  qed
  ultimately show ?thesis using ok c look by (auto simp: shares_ok_def)
next
  case (claim s inp newID clock r)
  then show ?thesis using shares_ok_claim [OF ok] by simp
next
  case (revoke clocks shareID by_user r)
  note c = RevokeShare_cases [OF revoke(3)]
  have kept: "map Share_ID (RDB_shares db') = map Share_ID (RDB_shares db)" using c by (auto simp: table_simps)
  have "shares_ok env (db', reads, used)"
  proof (rule shares_ok_shrink [OF ok])
    show "distinct (map Share_ID (RDB_shares db'))" using kept shares_okD(3) [OF ok] by simp
    show "\<exists>s\<in>set (RDB_shares db). Share_ID s' = Share_ID s \<and> same_share s s'" if "s' \<in> set (RDB_shares db')" for s'
    proof (cases "RDB_shares db' = RDB_shares db")
      case False
      then have member: "s' \<in> set (update_where (\<lambda>s. Share_ID s = shareID \<and> Share_RevokedAt s = None)
          (\<lambda>s. s\<lparr>Share_RevokedAt := Some (toStorage (clocks 0))\<rparr>) (RDB_shares db))"
        using c that by simp
      then obtain x where "x \<in> set (RDB_shares db)" "s' = x \<or> s' = x\<lparr>Share_RevokedAt := Some (toStorage (clocks 0))\<rparr>"
        using update_where_member [OF member] by blast
      then show ?thesis by (intro bexI [of _ x]) (auto simp: same_share_def)
    qed (use that in \<open>auto simp: same_share_def\<close>)
    show "\<exists>g\<in>set (RDB_grants db). Grant_ShareID g' = Grant_ShareID g \<and> Grant_UserID g' = Grant_UserID g"
      if "g' \<in> set (RDB_grants db')" for g'
      using grants_dimmed_member that c by blast
    show "Grant_ShareID ` set (RDB_grants db') \<subseteq> Share_ID ` set (RDB_shares db')"
      using grants_dimmed_member c shares_okD(9) [OF ok] kept by (metis (no_types, lifting) image_subsetI list.set_map)
    show "live_grants i db' \<le> live_grants i db" for i using live_grants_dimmed c by (simp add: live_grants_def)
  qed
  then show ?thesis using revoke by simp
next
  case (revoke_grant clock grantID r)
  then have c: "RDB_shares db' = RDB_shares db" "grants_dimmed (RDB_grants db) (RDB_grants db')"
    using Grants_Revoke_dims by (auto simp: RevokeGrant_def)
  have "shares_ok env (db', reads, used)"
  proof (rule shares_ok_shrink [OF ok])
    show "\<exists>g\<in>set (RDB_grants db). Grant_ShareID g' = Grant_ShareID g \<and> Grant_UserID g' = Grant_UserID g"
      if "g' \<in> set (RDB_grants db')" for g'
      using grants_dimmed_member that c by blast
    show "Grant_ShareID ` set (RDB_grants db') \<subseteq> Share_ID ` set (RDB_shares db')"
      using grants_dimmed_member c shares_okD(9) [OF ok] by (metis image_subsetI)
    show "live_grants i db' \<le> live_grants i db" for i using live_grants_dimmed c by (simp add: live_grants_def)
  qed (use c shares_okD(3) [OF ok] in \<open>auto simp: same_share_def\<close>)
  then show ?thesis using revoke_grant by simp
next
  case (other P Q)
  have "shares_ok env (db', reads, used)"
    by (rule shares_ok_shrink [OF ok]) (use other shares_okD(3) [OF ok] live_grants_filtered in
        \<open>auto simp: same_share_def live_grants_def distinct_map_filter\<close>)
  then show ?thesis using other by simp
qed

lemma share_run_ok: "(share_step env)\<^sup>*\<^sup>* a b \<Longrightarrow> shares_ok env a \<Longrightarrow> shares_ok env b"
  by (induction rule: rtranclp_induct) (use share_step_ok prod_cases3 in metis)+

text \<open>A server on which nothing was ever shared.\<close>

definition unshared :: "RDB \<Rightarrow> bool" where
  "unshared db \<longleftrightarrow> RDB_shares db = [] \<and> RDB_grants db = []"

lemma unshared_ok: "unshared db \<Longrightarrow> shares_ok env (db, [], [])"
  by (simp add: unshared_def shares_ok_def)

section \<open>Properties\<close>

lemma canAccess_grant:
  assumes "canAccessSharedVersion caller s db"
  shows "\<exists>u g. caller = Some u \<and> u \<noteq> [] \<and> g \<in> set (RDB_grants db) \<and> Grant_ShareID g = Share_ID s \<and>
    Grant_UserID g = Some u \<and> Grant_RevokedAt g = None"
  using assms select1_Some
  by (fastforce simp: canAccessSharedVersion_def FindGrant_def ByShareAndUser_def split: option.splits)

lemma password_gate_same: "same_share r s \<Longrightarrow> password_gate env s pw = password_gate env r pw"
  by (simp add: password_gate_def same_share_def)


text \<open>
  C29. The cap of a share holds whatever runs at the same time: over any run, a share with a positive cap
  has at most that many live grants.
\<close>

theorem grants_capped:
  assumes "(share_step env)\<^sup>*\<^sup>* (db0, [], []) (db, reads, used)" and "unshared db0"
    and "s \<in> set (RDB_shares db)" and "Share_MaxGrants s = Some m" and "0 < m"
  shows "int (live_grants (Share_ID s) db) \<le> m"
  using shares_okD(11) [OF share_run_ok [OF assms(1) unshared_ok [OF assms(2)]]] assms(3-5) .

text \<open>No live share has the token hash any more, and none can come to have it.\<close>

definition dark :: "string \<Rightarrow> share_run \<Rightarrow> bool" where
  "dark h = (\<lambda>(db, reads, used). h \<in> snd ` set used \<and>
     (\<forall>s\<in>set (RDB_shares db). Share_TokenHash s = h \<longrightarrow> Share_RevokedAt s \<noteq> None))"

lemma dark_step:
  assumes "share_step env (db, reads, used) (db', reads', used')" and "dark h (db, reads, used)"
  shows "dark h (db', reads', used')"
  using assms(1)
proof cases
  case (create raw salt newID clock inp r)
  have "Shr_hash env (hex_EncodeToString raw) \<noteq> h" using create(5) assms(2) by (auto simp: dark_def)
  then show ?thesis using CreateShare_cases [OF create(3)] assms(2) create by (auto simp: dark_def)
next
  case (claim s inp newID clock r)
  then show ?thesis using ClaimShare_write_cases assms(2) by (auto simp: dark_def)
next
  case (revoke clocks shareID by_user r)
  then show ?thesis using RevokeShare_cases [OF revoke(3)] assms(2) by (auto simp: dark_def table_simps)
next
  case (revoke_grant clock grantID r)
  then show ?thesis using Grants_Revoke_dims assms(2) by (auto simp: dark_def RevokeGrant_def)
qed (use assms(2) in \<open>auto simp: dark_def\<close>)

lemma dark_run: "(share_step env)\<^sup>*\<^sup>* a b \<Longrightarrow> dark h a \<Longrightarrow> dark h b"
  by (induction rule: rtranclp_induct) (use dark_step prod_cases3 in metis)+

lemma dark_closed:
  assumes "dark h (db, reads, used)" and "Shr_hash env token = h"
  shows "token_share env clock token db = Inl (NotFound ''report_share'' ''token'')"
proof (cases "Shares_ByTokenHash h db")
  case None
  then show ?thesis using assms(2) by (simp add: token_share_def)
next
  case (Some s)
  then have "Share_RevokedAt s \<noteq> None" using assms(1) Shares_ByTokenHash_Some [OF Some] by (auto simp: dark_def)
  then show ?thesis using assms(2) Some by (simp add: token_share_def)
qed

text \<open>
  C30. Revoking a share is for good: once a revocation has succeeded, the link answers that there is no
  such share, to the page as to a claim, in every later state of any run, claims already under way
  included.
\<close>

theorem revoked_share_dark:
  assumes "(share_step env)\<^sup>*\<^sup>* (db0, [], []) (db, reads, used)" and "unshared db0"
    and "s \<in> set (RDB_shares db)" and "Share_TokenHash s = Shr_hash env token"
    and "RevokeShare env clocks (Share_ID s) by_user db = (None, db1)"
    and "(share_step env)\<^sup>*\<^sup>* (db1, reads, used) (db2, reads2, used2)"
  shows "GetReportShareHtml env clock caller token db2 = Inl (NotFound ''report_share'' ''token'') \<and>
    ClaimShare env newID clock clock' \<lparr>ClaimShareInput_Token = token, ClaimShareInput_Password = pw,
      ClaimShareInput_UserID = u\<rparr> db2 = (Inl (NotFound ''report_share'' ''token''), db2)"
proof -
  have ok: "shares_ok env (db, reads, used)" using share_run_ok [OF assms(1) unshared_ok [OF assms(2)]] .
  note used = shares_okD(4) [OF ok]
  have "Share_ID s' = Share_ID s" if "s' \<in> set (RDB_shares db)" "Share_TokenHash s' = Share_TokenHash s" for s'
    using used [OF that(1)] used [OF assms(3)] that(2) shares_okD(2) [OF ok]
    unfolding distinct_map by (metis inj_onD prod.sel fst_conv snd_conv)
  then have hit: "Share_ID s' = Share_ID s" if "s' \<in> set (RDB_shares db)" "Share_TokenHash s' = Shr_hash env token" for s'
    using that assms(4) by simp
  have known: "Shr_hash env token \<in> snd ` set used" using used [OF assms(3)] assms(4) by force
  have "RDB_shares db1 = update_where (\<lambda>x. Share_ID x = Share_ID s \<and> Share_RevokedAt x = None)
       (\<lambda>x. x\<lparr>Share_RevokedAt := Some (toStorage (clocks 0))\<rparr>) (RDB_shares db)"
    using RevokeShare_cases [OF assms(5)] by simp
  then have "dark (Shr_hash env token) (db1, reads, used)"
    using known hit by (auto simp: dark_def table_simps)
  then have "token_share env c token db2 = Inl (NotFound ''report_share'' ''token'')" for c
    using dark_closed dark_run [OF assms(6)] by metis
  then show ?thesis
    by (simp add: GetReportShareHtml_def GetShareVersion_def ClaimShare_def ClaimShare_check_def)
qed

end
