(* ===== verification/Share_Samples.thy ===== *)
theory Share_Samples
  imports Share_Props Workbook_Props
begin

text \<open>
  A concrete share: one report with one published version, a password, a cap of two. The properties of
  Share_Props at these requests, and two orders of requests the checks of a claim do not foresee.
\<close>

definition desk :: RDB where
  "desk = \<lparr>RDB_discussion = \<lparr>DDB_workbook = lab, DDB_comments = [], DDB_revisions = [], DDB_findings = [],
       DDB_history = [], DDB_finding_steps = [], DDB_blobs = [], DDB_evidence = []\<rparr>,
     RDB_reports = [\<lparr>Report_ID = ''r1'', Report_EngagementID = ''e1'', Report_Title = ''T'', Report_ClientName = None,
       Report_LogoBlobRef = None, Report_Colours = [], Report_CreatedBy = ''u1'', Report_CreatedAt = 0,
       Report_UpdatedBy = None, Report_UpdatedAt = 0\<rparr>],
     RDB_blocks = [],
     RDB_versions = [\<lparr>Version_ID = ''v1'', Version_ReportID = ''r1'', Version_Ordinal = 1, Version_Title = ''T'',
       Version_PublishedBy = ''u1'', Version_PublishedAt = 0, Version_IncludeEvidence = False,
       Version_BlindScope = ''full'', Version_BlocksJSON = ''[]'', Version_BrandingJSON = ''{}'',
       Version_HTML = ''<p>page</p>'', Version_ContentSHA256 = None, Version_PDFSHA256 = None\<rparr>],
     RDB_shares = [], RDB_grants = [], RDB_templates = [], RDB_template_blocks = []\<rparr>"

definition desk_env :: Share_env where
  "desk_env = \<lparr>Shr_service = lab_service, Shr_hash = (\<lambda>t. ''h'' @ t), Shr_cookie = (\<lambda>t. ''c'' @ t),
     Shr_argon2 = sample_argon2, Shr_testing = False, Shr_common = [], Shr_baseURL = ''https://b''\<rparr>"

definition desk_password :: string where "desk_password = ''open the desk now''"

definition desk_share :: CreateShareInput where
  "desk_share = \<lparr>CreateShareInput_VersionID = ''v1'', CreateShareInput_Password = Some desk_password,
     CreateShareInput_ExpiresAt = Some 9000000, CreateShareInput_CreatedBy = ''u1'', CreateShareInput_Label = None,
     CreateShareInput_MaxGrants = Some 2\<rparr>"

definition desk_claim :: ClaimShareInput where
  "desk_claim = \<lparr>ClaimShareInput_Token = ''07ff'', ClaimShareInput_Password = Some desk_password,
     ClaimShareInput_UserID = ''u2''\<rparr>"

definition desk_hash :: "string \<Rightarrow> string" where
  "desk_hash pw = hash_encode Production (replicate 16 1) (sample_argon2 pw (replicate 16 1) 3 65536 1 32)"

definition desk_row :: ReportShare where
  "desk_row = \<lparr>Share_ID = ''s1'', Share_VersionID = ''v1'', Share_TokenHash = ''h07ff'',
     Share_PasswordHash = Some (desk_hash desk_password), Share_ExpiresAt = Some 9000000, Share_RevokedAt = None,
     Share_CreatedBy = ''u1'', Share_CreatedAt = 5000, Share_Label = None, Share_MaxGrants = Some 2\<rparr>"

text \<open>After the share is made, after a claim, after the revocation.\<close>

definition desk1 :: RDB where
  "desk1 = snd (CreateShare desk_env [7, 255] (replicate 16 1) ''s1'' 5000 desk_share desk)"

definition desk2 :: RDB where
  "desk2 = snd (ClaimShare_write desk_env ''g1'' 6000 desk_claim desk_row desk1)"

definition desk3 :: RDB where
  "desk3 = snd (RevokeShare desk_env (\<lambda>k. 7000) ''s1'' ''u1'' desk2)"

lemma desk_Hash:
  "length pw \<le> MaxPlaintextBytes \<Longrightarrow>
     password_Hash sample_argon2 False (replicate 16 1) pw = Inr (desk_hash pw)"
  by (simp add: password_Hash_def Default_def Params_Hash_def Params_validate_def Production_def desk_hash_def
      MaxPlaintextBytes_def minStoredSaltBytes_def minStoredKeyBytes_def maxStoredBytes_def)

lemma desk_Verify: "password_Verify sample_argon2 False desk_password (desk_hash desk_password) = Inr (True, False)"
proof -
  have hash: "Params_Hash sample_argon2 Production (replicate 16 1) desk_password = Inr (desk_hash desk_password)"
    using desk_Hash by (simp add: password_Hash_def Default_def desk_password_def MaxPlaintextBytes_def)
  have len: "\<forall>pw s t m l k. length (sample_argon2 pw s t m l k) = unat k" by (simp add: sample_argon2_def)
  have salt: "length (replicate 16 (1 :: 8 word)) = unat (Params_SaltLength Production)" by (simp add: Production_def)
  show ?thesis
    unfolding password_Verify_def Default_def if_False verify_hash [OF hash salt len]
    by (simp add: Production_def maxStoredMemory_def strongerThan_def MaxPlaintextBytes_def desk_password_def Let_def)
qed

lemma desk_Validate: "password_Validate [] ''password'' desk_password = None"
  by code_simp

lemma desk_hex: "hex_EncodeToString [7, 255] = ''07ff''"
  by code_simp

lemma desk1_tables:
  "RDB_shares desk1 = [desk_row]" "RDB_grants desk1 = []" "RDB_versions desk1 = RDB_versions desk"
proof -
  have "RDB_shares desk1 = [desk_row] \<and> RDB_grants desk1 = [] \<and> RDB_versions desk1 = RDB_versions desk"
    using desk_Validate desk_Hash [of desk_password] desk_hex
    by (simp add: desk1_def CreateShare_def Versions_ByID_def desk_def table_simps share_Generate_def desk_env_def desk_share_def
        share_password_hash_def desk_password_def MaxPlaintextBytes_def Shares_Insert_def Let_def insert_row_def
        RDB_record_def EDB_record_def Log_Record_def desk_row_def toStorage_def Truncate_def Microsecond_def)
  then show "RDB_shares desk1 = [desk_row]" "RDB_grants desk1 = []" "RDB_versions desk1 = RDB_versions desk" by auto
qed

lemma desk1_check: "ClaimShare_check desk_env 6000 desk_claim desk1 = Inr desk_row"
  using desk_Verify
  by (simp add: ClaimShare_check_def token_share_def Shares_ByTokenHash_def desk1_tables table_simps desk_env_def desk_row_def
      desk_claim_def After_def password_gate_def desk_password_def check_share_password_def ByShareAndUser_def desk_hash_def
      hash_encode_def)

lemma desk_unshared: "unshared desk"
  by (simp add: unshared_def desk_def)

definition desk_issued :: "(string \<times> string) list" where "desk_issued = [(''s1'', ''h07ff'')]"

lemma desk_run1: "(share_step desk_env)\<^sup>*\<^sup>* (desk, [], []) (desk1, [(desk_row, desk_claim)], desk_issued)"
proof -
  have "\<exists>r. CreateShare desk_env [7, 255] (replicate 16 1) ''s1'' 5000 desk_share desk = (r, desk1)"
    unfolding desk1_def by (metis prod.collapse)
  then obtain r where "CreateShare desk_env [7, 255] (replicate 16 1) ''s1'' 5000 desk_share desk = (r, desk1)" ..
  from share_step.create [OF this, of "[]" "[]"]
  have "share_step desk_env (desk, [], []) (desk1, [], desk_issued)"
    by (simp add: desk_hex desk_issued_def) (simp add: desk_env_def)
  moreover have "share_step desk_env (desk1, [], desk_issued) (desk1, [(desk_row, desk_claim)], desk_issued)"
    by (rule share_step.look [OF desk1_check])
  ultimately show ?thesis by (rule converse_rtranclp_into_rtranclp [OF _ r_into_rtranclp])
qed

lemma desk_run2: "(share_step desk_env)\<^sup>*\<^sup>* (desk, [], []) (desk2, [(desk_row, desk_claim)], desk_issued)"
proof -
  have "\<exists>r. ClaimShare_write desk_env ''g1'' 6000 desk_claim desk_row desk1 = (r, desk2)"
    unfolding desk2_def by (metis prod.collapse)
  then obtain r where "ClaimShare_write desk_env ''g1'' 6000 desk_claim desk_row desk1 = (r, desk2)" ..
  then have "share_step desk_env (desk1, [(desk_row, desk_claim)], desk_issued) (desk2, [(desk_row, desk_claim)], desk_issued)"
    using share_step.claim by (metis list.set_intros(1))
  then show ?thesis by (rule rtranclp.rtrancl_into_rtrancl [OF desk_run1])
qed

definition desk_grant :: "string \<Rightarrow> gotime \<Rightarrow> ReportShareGrant" where
  "desk_grant gid t = \<lparr>Grant_ID = gid, Grant_ShareID = ''s1'', Grant_UserID = Some ''u2'', Grant_InviteCodeHash = None,
     Grant_ClaimedAt = Some t, Grant_RevokedAt = None, Grant_CreatedAt = t\<rparr>"

lemma desk_page: "Versions_ByID ''v1'' desk = Inr (hd (RDB_versions desk))"
  by (simp add: Versions_ByID_def desk_def table_simps)

lemma desk_write:
  assumes "Share_ID desk_row \<in> Share_ID ` set (RDB_shares db)" "gid \<notin> Grant_ID ` set (RDB_grants db)"
    and "live_grants ''s1'' db < 2" "RDB_versions db = RDB_versions desk"
  shows "RDB_shares (snd (ClaimShare_write desk_env gid t desk_claim desk_row db)) = RDB_shares db \<and>
    RDB_grants (snd (ClaimShare_write desk_env gid t desk_claim desk_row db)) = RDB_grants db @ [desk_grant gid (toStorage t)] \<and>
    RDB_versions (snd (ClaimShare_write desk_env gid t desk_claim desk_row db)) = RDB_versions desk"
proof -
  have ver: "Versions_ByID (Share_VersionID desk_row) db = Inr (hd (RDB_versions desk))"
    using desk_page assms(4) by (simp add: Versions_ByID_def desk_row_def)
  have cap: "int (live_grants (Share_ID desk_row) db) < m" if "Share_MaxGrants desk_row = Some m" for m
    using that assms(3) by (simp add: desk_row_def)
  show ?thesis
    using ClaimShare_write_ok [OF assms(1,2) cap ver, of desk_env t desk_claim] assms(4)
    by (auto simp: desk_grant_def desk_row_def desk_claim_def)
qed

lemma whole_micros: "toStorage 6000 = 6000" "toStorage 7000 = 7000" "toStorage 8000 = 8000"
  by (simp_all add: toStorage_def Truncate_def Microsecond_def)

lemma desk2_tables:
  "RDB_shares desk2 = [desk_row]" "RDB_grants desk2 = [desk_grant ''g1'' 6000]" "RDB_versions desk2 = RDB_versions desk"
  using desk_write [of desk1 "''g1''" 6000] unfolding desk2_def
  by (simp_all add: desk1_tables live_grants_def count_where_def whole_micros)

lemma desk2_html: "GetReportShareHtml desk_env 7000 (Some ''u2'') ''07ff'' desk2 = Inr ''<p>page</p>''"
  by (simp add: GetReportShareHtml_def GetShareVersion_def token_share_def Shares_ByTokenHash_def desk2_tables table_simps
      desk_row_def desk_env_def After_def Versions_ByID_def desk_def canAccessSharedVersion_def FindGrant_def
      ByShareAndUser_def desk_grant_def)


theorem grants_capped_witness: "live_grants ''s1'' desk2 = 1 \<and> int (live_grants ''s1'' desk2) \<le> 2"
proof -
  have "int (live_grants (Share_ID desk_row) desk2) \<le> 2"
    by (rule grants_capped [OF desk_run2 desk_unshared]) (simp_all add: desk2_tables desk_row_def)
  then show ?thesis by (simp add: desk_row_def live_grants_def count_where_def desk2_tables desk_grant_def)
qed

lemma desk2_revoke: "RevokeShare desk_env (\<lambda>k. 7000) ''s1'' ''u1'' desk2 = (None, desk3)"
proof -
  have "fst (RevokeShare desk_env (\<lambda>k. 7000) ''s1'' ''u1'' desk2) = None"
    by (simp add: RevokeShare_def Shares_ByID_def desk2_tables table_simps desk_row_def Shares_Revoke_def Let_def
        report_requireOneRow_def count_where_def Grants_ListByShare_def desk_grant_def Grants_Revoke_def)
  then show ?thesis unfolding desk3_def by (metis prod.collapse)
qed

theorem revoked_share_dark_witness:
  "GetReportShareHtml desk_env 8000 (Some ''u2'') ''07ff'' desk3 = Inl (NotFound ''report_share'' ''token'')"
proof -
  have "desk_row \<in> set (RDB_shares desk2)" "Share_TokenHash desk_row = Shr_hash desk_env ''07ff''"
    by (simp_all add: desk2_tables desk_row_def desk_env_def)
  moreover have "RevokeShare desk_env (\<lambda>k. 7000) (Share_ID desk_row) ''u1'' desk2 = (None, desk3)"
    using desk2_revoke by (simp add: desk_row_def)
  ultimately show ?thesis using revoked_share_dark [OF desk_run2 desk_unshared] by blast
qed

section \<open>Orders the checks of a claim do not foresee\<close>

text \<open>
  A claim that passed its checks before a revocation still writes a live grant on the revoked share,
  which the revocation's sweep over the grants has missed.
\<close>

theorem claim_after_revocation:
  "let revoked = snd (RevokeShare desk_env (\<lambda>k. 7000) ''s1'' ''u1'' desk1);
       claimed = snd (ClaimShare_write desk_env ''g1'' 8000 desk_claim desk_row revoked)
   in ClaimShare_check desk_env 6000 desk_claim desk1 = Inr desk_row \<and>
      (\<forall>s\<in>set (RDB_shares claimed). Share_RevokedAt s \<noteq> None) \<and> live_grants ''s1'' claimed = 1"
proof -
  let ?revoked = "snd (RevokeShare desk_env (\<lambda>k. 7000) ''s1'' ''u1'' desk1)"
  have r: "RDB_shares ?revoked = [desk_row\<lparr>Share_RevokedAt := Some 7000\<rparr>] \<and> RDB_grants ?revoked = [] \<and>
      RDB_versions ?revoked = RDB_versions desk"
    by (simp add: RevokeShare_def Shares_ByID_def desk1_tables table_simps desk_row_def Shares_Revoke_def Let_def
        report_requireOneRow_def count_where_def Grants_ListByShare_def RDB_recordAlone_frame update_where_def
        toStorage_def Truncate_def Microsecond_def)
  have "RDB_shares (snd (ClaimShare_write desk_env ''g1'' 8000 desk_claim desk_row ?revoked)) = RDB_shares ?revoked \<and>
    live_grants ''s1'' (snd (ClaimShare_write desk_env ''g1'' 8000 desk_claim desk_row ?revoked)) = 1"
    using desk_write [of ?revoked "''g1''" 8000] r
    by (simp add: live_grants_def count_where_def desk_grant_def desk_row_def)
  then show ?thesis using r desk1_check by (simp add: Let_def)
qed

text \<open>
  Two claims of one person that both pass their checks before either writes give that person two
  grants, and so use up the cap of two.
\<close>

theorem claimed_twice:
  "let twice = snd (ClaimShare_write desk_env ''g2'' 7000 desk_claim desk_row desk2)
   in ClaimShare_check desk_env 6000 desk_claim desk1 = Inr desk_row \<and>
      map Grant_UserID (RDB_grants twice) = [Some ''u2'', Some ''u2''] \<and> live_grants ''s1'' twice = 2"
proof -
  have "RDB_grants (snd (ClaimShare_write desk_env ''g2'' 7000 desk_claim desk_row desk2)) =
      [desk_grant ''g1'' 6000, desk_grant ''g2'' 7000]"
    using desk_write [of desk2 "''g2''" 7000]
    by (simp add: desk2_tables live_grants_def count_where_def desk_grant_def whole_micros)
  then show ?thesis using desk1_check by (simp add: Let_def live_grants_def count_where_def desk_grant_def)
qed

end
