(* ===== verification/Gate_Samples.thy ===== *)
theory Gate_Samples
  imports Gate_Props Sign_In_Samples Share_Samples
begin

text \<open>
  A small specification, a server with one seated member, and the properties of Gate_Props at its
  requests.
\<close>

section \<open>A specification\<close>

definition sample_doc :: "Path_item list" where
  "sample_doc =
     [\<lparr>Item_Path = ''/events'', Item_Parameters = [],
       Item_Operations = [(''GET'', \<lparr>Op_OperationID = ''subscribeEvents'',
         Op_Extensions = [(extSelf, ExtBool True), (extBecause, ExtString ''topics are checked'')],
         Op_Security = Some [[''cookieSession'']], Op_Parameters = []\<rparr>)]\<rparr>,
      \<lparr>Item_Path = ''/engagements/{engagementId}/scenarios'',
       Item_Parameters = [Some \<lparr>Param_In = ''path'', Param_Name = ''engagementId''\<rparr>],
       Item_Operations = [(''POST'', \<lparr>Op_OperationID = ''createScenario'',
         Op_Extensions = [(extAction, ExtString ''workbook.write''),
           (extResource, ExtMap [(resourceType, ExtString ResourceEngagement), (resourceEngagement, ExtString ''engagementId'')])],
         Op_Security = None, Op_Parameters = []\<rparr>)]\<rparr>]"

definition create_requirement :: Requirement where
  "create_requirement = \<lparr>Requirement_OperationID = ''createScenario'', Requirement_Method = ''POST'',
     Requirement_Path = ''/engagements/{engagementId}/scenarios'', Requirement_Public = False, Requirement_Self = False,
     Requirement_Because = [], Requirement_Action = ActionWorkbookWrite,
     Requirement_Resource = \<lparr>Ref_Type = ResourceEngagement, Ref_Param = [], Ref_Engagement = ''engagementId'', Ref_Kind = []\<rparr>,
     Requirement_SessionOnly = False\<rparr>"

definition events_requirement :: Requirement where
  "events_requirement = \<lparr>Requirement_OperationID = ''subscribeEvents'', Requirement_Method = ''GET'',
     Requirement_Path = ''/events'', Requirement_Public = False, Requirement_Self = True,
     Requirement_Because = ''topics are checked'', Requirement_Action = ActionUnknown,
     Requirement_Resource = noResource, Requirement_SessionOnly = False\<rparr>"

lemma sample_operations:
  "all_operations sample_doc = [(''POST'', ''/engagements/{engagementId}/scenarios'', sample_doc ! 1, snd (hd (Item_Operations (sample_doc ! 1)))),
     (''GET'', ''/events'', sample_doc ! 0, snd (hd (Item_Operations (sample_doc ! 0))))]"
  by code_simp

lemma sample_create: "requirementOf ''POST'' ''/engagements/{engagementId}/scenarios'' (sample_doc ! 1) (snd (hd (Item_Operations (sample_doc ! 1)))) =
    Inr create_requirement"
  by code_simp

lemma sample_events: "requirementOf ''GET'' ''/events'' (sample_doc ! 0) (snd (hd (Item_Operations (sample_doc ! 0)))) =
    Inr events_requirement"
  by code_simp

definition sample_requirements :: "string \<rightharpoonup> Requirement" where
  "sample_requirements = [''createScenario'' \<mapsto> create_requirement, ''subscribeEvents'' \<mapsto> events_requirement]"

lemma sample_accepted: "Requirements sample_doc = Inr sample_requirements"
proof -
  have "sample_doc \<noteq> []" by (simp add: sample_doc_def)
  moreover have "Requirement_OperationID create_requirement = ''createScenario''"
      "Requirement_OperationID events_requirement = ''subscribeEvents''"
    by (simp_all add: create_requirement_def events_requirement_def)
  then have "Requirements_loop (all_operations sample_doc) Map.empty [] = (sample_requirements, [])"
    unfolding sample_operations Requirements_loop.simps sample_create sample_events sum.case
    by (simp add: sample_requirements_def)
  ultimately show ?thesis by (simp add: Requirements_def)
qed


section \<open>A request\<close>

definition sample_seat :: Membership where
  "sample_seat = \<lparr>Membership_EngagementID = ''e1'', Membership_UserID = ''a'', Membership_Role = EngagementRoleRed,
     Membership_AddedBy = ''c'', Membership_AddedAt = 0\<rparr>"

definition seated_accounts :: IDB where
  "seated_accounts = password_accounts\<lparr>IDB_members := [sample_seat]\<rparr>"

definition sample_server :: Server where
  "sample_server = srv_set_identity seated_accounts \<lparr>Srv_db = desk, Srv_tokens = [], Srv_touched = [], Srv_jobs = []\<rparr>"

definition sample_gate :: Gate_env where
  "sample_gate = \<lparr>Gate_auth = sample_auth,
     Gate_tokens = \<lparr>TM_hash = (\<lambda>t. t), TM_activity = False, TM_maxLifetime = token_MaxLifetime, TM_formatTime = (\<lambda>t. []),
       TM_formatDuration = (\<lambda>d. [])\<rparr>,
     Gate_requirements = sample_requirements, Gate_mac = (\<lambda>t. ''m'' @ take 5 t)\<rparr>"

definition sample_post :: http_Request where
  "sample_post = \<lparr>Req_Method = ''POST'', Req_Path = ''/api/v1/engagements/e1/scenarios'',
     Req_Route = Some \<lparr>Route_OperationID = ''createScenario'', Route_PathParams = [(''engagementId'', ''e1'')]\<rparr>,
     Req_SessionCookie = replicate 43 CHR ''a'', Req_CSRFCookie = ''maaaaa'', Req_CSRFHeader = ''maaaaa'', Req_Authorization = []\<rparr>"

lemma sample_authenticates_cookie:
  "\<exists>c. Authenticate sample_auth 6000 6000 (replicate 43 CHR ''a'') seated_accounts = (Inr c, seated_accounts) \<and>
     Caller_UserID c = ''a'' \<and> Caller_Method c = MethodCookie \<and> \<not> Caller_MFAEnrolmentRequired c \<and>
     Caller_PlatformRole c = PlatformRoleMember"
proof -
  have "Resolve (Service_sessions sample_core) (replicate 43 CHR ''a'') 6000 6000 seated_accounts =
      (Inr (sample_row ''k1'' CHR ''a''), seated_accounts)"
    by (simp add: Resolve_def sample_core_def Sessions_ByTokenHash_def password_accounts_def seated_accounts_def sample_row_def
        table_simps usable_def Before_def Sub_def tokenLength_def TokenBytes_def touchInterval_def Minute_def Second_def
        minDuration_def maxDuration_def)
  moreover have "confineToEnrolment sample_member (sample_row ''k1'' CHR ''a'') seated_accounts = Inr False"
    by (simp add: confineToEnrolment_def sample_row_def Requires_def sample_member_def sample_account_def mfaPolicy_def DecodeMFAPolicy_def storedBool_def Settings_All_def
        seated_accounts_def password_accounts_def accounts_db_def table_simps)
  moreover have "Users_ByID ''a'' seated_accounts = Inr sample_member"
    by (simp add: Users_ByID_def seated_accounts_def password_accounts_def accounts_db_def sample_account_def sample_member_def table_simps)
  ultimately show ?thesis
    by (simp add: Authenticate_def sample_row_def) (simp add: subjectOf_def sample_member_def sample_account_def)
qed

text \<open>The rows of the server that a request for a scenario of the first engagement reads.\<close>

lemma sample_identity [simp]: "srv_identity sample_server = seated_accounts" "srv_set_identity seated_accounts sample_server = sample_server"
  by (simp_all add: srv_identity_def sample_server_def srv_set_identity_def Let_def)

lemma sample_decided:
  assumes "Caller_UserID c = ''a''" "Caller_Method c = MethodCookie" "Caller_PlatformRole c = PlatformRoleMember"
  shows "\<exists>a. decide create_requirement \<lparr>Route_OperationID = ''createScenario'', Route_PathParams = [(''engagementId'', ''e1'')]\<rparr>
      (Some c) (Srv_db sample_server) = Inr (a, None) \<and> Authorization_Allowed a"
proof -
  let ?route = "\<lparr>Route_OperationID = ''createScenario'', Route_PathParams = [(''engagementId'', ''e1'')]\<rparr>"
  have ref: "request_ref create_requirement ?route =
      \<lparr>HRef_Type = ResourceEngagement, HRef_ID = ''e1'', HRef_EngagementID = ''e1'', HRef_Kind = []\<rparr>"
    by (simp add: request_ref_def create_requirement_def path_param_def)
  have "Facts \<lparr>HRef_Type = ResourceEngagement, HRef_ID = ''e1'', HRef_EngagementID = ''e1'', HRef_Kind = []\<rparr> (Srv_db sample_server) =
      Inr \<lparr>Facts_EngagementID = ''e1'', Facts_Blind = True, Facts_Revealed = True\<rparr>"
    by (simp add: Facts_def resolve_def engagementFacts_def Engagements_ByID_def sample_server_def srv_set_identity_def desk_def
        lab_def lab_engagement_def table_simps)
  moreover have "Seat ''e1'' ''a'' (RDB_discussion (Srv_db sample_server)) = (EngagementRoleRed, True)"
    by (simp add: Seat_def sample_server_def srv_set_identity_def desk_def seated_accounts_def sample_seat_def table_simps)
  ultimately have "gate_facts create_requirement ?route c (Srv_db sample_server) =
      Inr (\<lparr>Resource_Type = ResourceEngagement, Resource_ID = ''e1'', Resource_EngagementID = ''e1'',
        Resource_EngagementBlind = True, Resource_Revealed = True\<rparr>, policy_subject c ''e1'' EngagementRoleRed True)"
    using assms by (simp add: gate_facts_def Let_def ref scoped_types)
  moreover have "Decision_Allowed (Can \<lparr>Subject_UserID = ''a'', Subject_PlatformRole = PlatformRoleMember,
      Subject_Memberships = [(''e1'', EngagementRoleRed)], Subject_Method = MethodCookie, Subject_TokenScopes = scopes,
      Subject_TokenEngagementID = te, Subject_MFASatisfied = m\<rparr> ActionWorkbookWrite
      \<lparr>Resource_Type = ResourceEngagement, Resource_ID = ''e1'', Resource_EngagementID = ''e1'',
        Resource_EngagementBlind = True, Resource_Revealed = True\<rparr>)" for scopes te m
    by code_simp
  ultimately show ?thesis
    using assms by (simp add: decide_def create_requirement_def policy_subject_def session_only_refusal_def Let_def)
qed

lemma sample_admitted: "\<exists>a c. admit_request sample_gate (\<lambda>_. 6000) sample_post sample_server = (Inr (a, Some c), sample_server) \<and>
    Caller_UserID c = ''a''"
proof -
  obtain c where c: "Authenticate sample_auth 6000 6000 (replicate 43 CHR ''a'') seated_accounts = (Inr c, seated_accounts)"
      "Caller_UserID c = ''a''" "Caller_Method c = MethodCookie" "\<not> Caller_MFAEnrolmentRequired c"
      "Caller_PlatformRole c = PlatformRoleMember"
    using sample_authenticates_cookie by blast
  have "authenticate sample_gate (\<lambda>_. 6000) sample_post sample_server = (Inr (Some c), sample_server)"
    using c(1) by (simp add: authenticate_def resolveCaller_def authenticate_cookie_def bearerToken_def bearerScheme_def
        sample_post_def sample_gate_def)
  moreover have "take 5 (replicate 43 CHR ''a'') = ''aaaaa''" by code_simp
  then have "requireCSRF sample_gate sample_post (Some c) = None"
    by (simp add: requireCSRF_def csrfMatches_def CSRFToken_def sample_post_def sample_gate_def caller_method_def c(3)
        tokenLength_def TokenBytes_def Let_def del: take_replicate)
  moreover have "requireMFAEnrolment sample_post (Some c) = None" using c(4) by (simp add: requireMFAEnrolment_def)
  moreover obtain a where "authorize sample_gate sample_post (Some c) (Srv_db sample_server) = Inr a"
    using sample_decided [OF c(2,3,5)]
    by (auto simp: authorize_def requirementFor_def sample_post_def sample_gate_def sample_requirements_def)
  ultimately show ?thesis using c(2) by (simp add: admit_request_def)
qed



end
