(* ===== verification/Hub.thy ===== *)
theory Hub
  imports Blind Apierr Go_Text
begin

text \<open>
  The event hub (internal/events/hub.go). Subscribers are objects that the hub, the publishers under way
  and the readers share, so they live in a store from addresses to objects, and a publication is taken
  apart into its snapshot and one delivery per target, as other operations run between them. A channel is
  the list of what is buffered. What a subscriber's transform looks up while it runs is the argument
  \<open>w\<close>. \<open>uuid.Parse\<close> is an argument.
\<close>

section \<open>Topics\<close>

abbreviation TopicContentJobs :: string where "TopicContentJobs \<equiv> ''content.jobs''"
abbreviation TopicEngagementPrefix :: string where "TopicEngagementPrefix \<equiv> ''engagement.''"

definition TopicContentJob :: "string \<Rightarrow> string" where
  "TopicContentJob jobID = TopicContentJobs @ ''.'' @ jobID"

definition EngagementTopic :: "string \<Rightarrow> string" where
  "EngagementTopic engagementID = TopicEngagementPrefix @ engagementID"

abbreviation TypeContentJobProgress :: string where "TypeContentJobProgress \<equiv> ''content.job.progress''"
abbreviation TypeContentJobTerminal :: string where "TypeContentJobTerminal \<equiv> ''content.job.terminal''"
abbreviation TypeStreamGap :: string where "TypeStreamGap \<equiv> ''stream.gap''"

abbreviation ErrUnknownTopic :: string where "ErrUnknownTopic \<equiv> ''events: unknown topic''"
abbreviation ErrNoTopics :: string where "ErrNoTopics \<equiv> ''events: no authorized topics''"
abbreviation ErrTooManySubscribers :: string where "ErrTooManySubscribers \<equiv> ''events: subscriber limit reached''"

definition knownTopic :: "(string \<Rightarrow> bool) \<Rightarrow> string \<Rightarrow> bool" where
  "knownTopic uuid_Parse topic \<longleftrightarrow>
     (if topic = TopicContentJobs then True
      else if HasPrefix topic (TopicContentJobs @ ''.'') then True
      else if HasPrefix topic TopicEngagementPrefix then uuid_Parse (TrimPrefix topic TopicEngagementPrefix)
      else False)"

section \<open>The hub\<close>

record 'w Subscription =
  Subscription_Topics :: "string list"
  Subscription_Allow :: "(Event \<Rightarrow> bool) option"
  Subscription_Modify :: "('w \<Rightarrow> Event \<Rightarrow> Event) option"

record 'w subscriber =
  subscriber_topics :: "string list"
  subscriber_allow :: "(Event \<Rightarrow> bool) option"
  subscriber_modify :: "('w \<Rightarrow> Event \<Rightarrow> Event) option"
  subscriber_ch :: "Event list"
  subscriber_closed :: bool
  subscriber_detached :: bool

record Hub_Options =
  Options_MaxSubscribers :: int
  Options_Buffer :: int
  Options_TopicAuthz :: "(string \<Rightarrow> error + bool) option"

abbreviation defaultMaxSubscribers :: int where "defaultMaxSubscribers \<equiv> 256"
abbreviation defaultBuffer :: int where "defaultBuffer \<equiv> 16"

record 'w Hub =
  Hub_maxSubs :: int
  Hub_buffer :: int
  Hub_topicOK :: "(string \<Rightarrow> error + bool) option"
  Hub_subs :: "nat list"
  Hub_heap :: "nat \<Rightarrow> 'w subscriber option"

definition NewHub :: "Hub_Options \<Rightarrow> 'w Hub" where
  "NewHub opts =
     \<lparr>Hub_maxSubs = (if Options_MaxSubscribers opts \<le> 0 then defaultMaxSubscribers else Options_MaxSubscribers opts),
      Hub_buffer = (if Options_Buffer opts \<le> 0 then defaultBuffer else Options_Buffer opts),
      Hub_topicOK = Options_TopicAuthz opts, Hub_subs = [], Hub_heap = (\<lambda>a. None)\<rparr>"

definition hub_set :: "nat \<Rightarrow> 'w subscriber \<Rightarrow> 'w Hub \<Rightarrow> 'w Hub" where
  "hub_set s sub h = h\<lparr>Hub_heap := (Hub_heap h)(s := Some sub)\<rparr>"

text \<open>The loop over the topics asked for; the set of the allowed ones is a list without repetition.\<close>

fun Subscribe_topics :: "(string \<Rightarrow> bool) \<Rightarrow> (string \<Rightarrow> error + bool) option \<Rightarrow> string list \<Rightarrow> string list \<Rightarrow>
    error + string list" where
  "Subscribe_topics uuid_Parse topicOK [] allowed = Inr allowed"
| "Subscribe_topics uuid_Parse topicOK (topic # topics) allowed =
     (if topic = [] then Inl (ErrorfW ''empty topic'' (Sentinel ErrUnknownTopic))
      else if \<not> knownTopic uuid_Parse topic then Inl (ErrorfW topic (Sentinel ErrUnknownTopic))
      else case topicOK of
        None \<Rightarrow> Subscribe_topics uuid_Parse topicOK topics (List.insert topic allowed)
      | Some ask \<Rightarrow>
          (case ask topic of
             Inl err \<Rightarrow> Inl err
           | Inr ok \<Rightarrow>
               if \<not> ok then Subscribe_topics uuid_Parse topicOK topics allowed
               else Subscribe_topics uuid_Parse topicOK topics (List.insert topic allowed)))"

text \<open>The address of the new object is an argument; the left of the result is the refusal.\<close>

definition Hub_Subscribe :: "(string \<Rightarrow> bool) \<Rightarrow> nat \<Rightarrow> 'w Subscription \<Rightarrow> 'w Hub \<Rightarrow> (error + nat) \<times> 'w Hub" where
  "Hub_Subscribe uuid_Parse s sub h =
     (if Subscription_Topics sub = [] then (Inl (Sentinel ErrNoTopics), h)
      else case Subscribe_topics uuid_Parse (Hub_topicOK h) (Subscription_Topics sub) [] of
        Inl err \<Rightarrow> (Inl err, h)
      | Inr allowed \<Rightarrow>
          if allowed = [] then (Inl (Sentinel ErrNoTopics), h)
          else if int (length (Hub_subs h)) \<ge> Hub_maxSubs h then (Inl (Sentinel ErrTooManySubscribers), h)
          else (Inr s, (hub_set s \<lparr>subscriber_topics = allowed, subscriber_allow = Subscription_Allow sub,
                  subscriber_modify = Subscription_Modify sub, subscriber_ch = [], subscriber_closed = False,
                  subscriber_detached = False\<rparr> h)\<lparr>Hub_subs := s # Hub_subs h\<rparr>))"

section \<open>Leaving\<close>

definition finishDetach :: "nat \<Rightarrow> 'w Hub \<Rightarrow> 'w Hub" where
  "finishDetach s h =
     (case Hub_heap h s of
        None \<Rightarrow> h
      | Some sub \<Rightarrow>
          if subscriber_detached sub then h
          else (hub_set s (sub\<lparr>subscriber_detached := True\<rparr>) h)\<lparr>Hub_subs := remove1 s (Hub_subs h)\<rparr>)"

definition close_channel :: "nat \<Rightarrow> 'w Hub \<Rightarrow> 'w Hub" where
  "close_channel s h =
     (case Hub_heap h s of None \<Rightarrow> h | Some sub \<Rightarrow> hub_set s (sub\<lparr>subscriber_closed := True\<rparr>) h)"

definition detach :: "nat \<Rightarrow> 'w Hub \<Rightarrow> 'w Hub" where
  "detach s h = finishDetach s (close_channel s h)"

section \<open>Publishing\<close>

text \<open>What is filled in: the topic, a missing identifier, a missing time.\<close>

definition published_event :: "string \<Rightarrow> Event \<Rightarrow> string \<Rightarrow> gotime \<Rightarrow> Event option" where
  "published_event topic evt freshID now =
     (let topic = (if topic = [] then Event_Topic evt else topic)
      in if topic = [] then None
         else Some (evt\<lparr>Event_Topic := topic,
                Event_ID := (if Event_ID evt = [] then freshID else Event_ID evt),
                Event_At := (if IsZero (Event_At evt) then now else Event_At evt)\<rparr>))"

definition publish_targets :: "string \<Rightarrow> 'w Hub \<Rightarrow> nat list" where
  "publish_targets topic h =
     filter (\<lambda>s. case Hub_heap h s of None \<Rightarrow> False | Some sub \<Rightarrow> topic \<in> set (subscriber_topics sub)) (Hub_subs h)"

text \<open>A full buffer closes the channel; the detachment runs later, on its own.\<close>

definition trySend :: "nat \<Rightarrow> Event \<Rightarrow> 'w Hub \<Rightarrow> 'w Hub" where
  "trySend s evt h =
     (case Hub_heap h s of
        None \<Rightarrow> h
      | Some sub \<Rightarrow>
          if subscriber_closed sub then h
          else if int (length (subscriber_ch sub)) < Hub_buffer h
          then hub_set s (sub\<lparr>subscriber_ch := subscriber_ch sub @ [evt]\<rparr>) h
          else hub_set s (sub\<lparr>subscriber_closed := True\<rparr>) h)"

definition candidate_for :: "'w \<Rightarrow> 'w subscriber \<Rightarrow> Event \<Rightarrow> Event option" where
  "candidate_for w sub evt =
     (if (case subscriber_allow sub of None \<Rightarrow> False | Some pass \<Rightarrow> \<not> pass evt) then None
      else Some (case subscriber_modify sub of None \<Rightarrow> evt | Some modify \<Rightarrow> modify w evt))"

definition deliver :: "'w \<Rightarrow> nat \<Rightarrow> Event \<Rightarrow> 'w Hub \<Rightarrow> 'w Hub" where
  "deliver w s evt h =
     (case Hub_heap h s of
        None \<Rightarrow> h
      | Some sub \<Rightarrow> (case candidate_for w sub evt of None \<Rightarrow> h | Some candidate \<Rightarrow> trySend s candidate h))"

text \<open>A publication with nothing between its steps.\<close>

definition Publish :: "'w \<Rightarrow> string \<Rightarrow> Event \<Rightarrow> string \<Rightarrow> gotime \<Rightarrow> 'w Hub \<Rightarrow> 'w Hub" where
  "Publish w topic evt freshID now h =
     (case published_event topic evt freshID now of
        None \<Rightarrow> h
      | Some evt' \<Rightarrow> fold (\<lambda>s. deliver w s evt') (publish_targets (Event_Topic evt') h) h)"

definition SubscriberCount :: "'w Hub \<Rightarrow> nat" where
  "SubscriberCount h = length (Hub_subs h)"

section \<open>Receiving\<close>

text \<open>What a reader of the channel gets: an event, the end, or None while it has to wait.\<close>

datatype received = Received Event | Ended

definition receive :: "nat \<Rightarrow> 'w Hub \<Rightarrow> (received \<times> 'w Hub) option" where
  "receive s h =
     (case Hub_heap h s of
        None \<Rightarrow> None
      | Some sub \<Rightarrow>
          (case subscriber_ch sub of
             evt # rest \<Rightarrow> Some (Received evt, hub_set s (sub\<lparr>subscriber_ch := rest\<rparr>) h)
           | [] \<Rightarrow> if subscriber_closed sub then Some (Ended, h) else None))"

end
