(* ===== verification/Hub_Props.thy ===== *)
theory Hub_Props
  imports Hub
begin

text \<open>
  What the hub keeps while publications, subscriptions, departures and readers run at the same time: its
  bounds, and that a reader loses nothing without being cut off. The configuration of the steps is
  the hub, the publications under way with the targets they have left, and two logs per subscriber: what was
  offered to it and what its reader took.
\<close>

section \<open>Steps\<close>

record 'w hub_config =
  HC_hub :: "'w Hub"
  HC_sending :: "(Event \<times> nat list) list"
  HC_offered :: "nat \<Rightarrow> Event list"
  HC_read :: "nat \<Rightarrow> Event list"

text \<open>What a delivery offers: the transformed event, when the filter lets it pass.\<close>

definition offer :: "'w \<Rightarrow> nat \<Rightarrow> Event \<Rightarrow> 'w Hub \<Rightarrow> Event list" where
  "offer w s evt h =
     (case Hub_heap h s of
        None \<Rightarrow> []
      | Some sub \<Rightarrow> (case candidate_for w sub evt of None \<Rightarrow> [] | Some c \<Rightarrow> [c]))"

inductive hub_step :: "(string \<Rightarrow> bool) \<Rightarrow> 'w hub_config \<Rightarrow> 'w hub_config \<Rightarrow> bool" for uuid_Parse where
  subscribe: "Hub_heap (HC_hub c) s = None \<Longrightarrow> Hub_Subscribe uuid_Parse s sub (HC_hub c) = (r, h') \<Longrightarrow>
    hub_step uuid_Parse c (c\<lparr>HC_hub := h'\<rparr>)"
| publish: "published_event topic evt freshID now = Some evt' \<Longrightarrow> distinct targets \<Longrightarrow>
    set targets = set (publish_targets (Event_Topic evt') (HC_hub c)) \<Longrightarrow>
    hub_step uuid_Parse c (c\<lparr>HC_sending := (evt', targets) # HC_sending c\<rparr>)"
| send: "HC_sending c = before @ (evt, s # targets) # after \<Longrightarrow>
    hub_step uuid_Parse c (c\<lparr>HC_hub := deliver w s evt (HC_hub c), HC_sending := before @ (evt, targets) # after,
      HC_offered := (HC_offered c)(s := HC_offered c s @ offer w s evt (HC_hub c))\<rparr>)"
| leave: "hub_step uuid_Parse c (c\<lparr>HC_hub := detach s (HC_hub c)\<rparr>)"
| finish: "Hub_heap (HC_hub c) s = Some sub \<Longrightarrow> subscriber_closed sub \<Longrightarrow>
    hub_step uuid_Parse c (c\<lparr>HC_hub := finishDetach s (HC_hub c)\<rparr>)"
| read: "receive s (HC_hub c) = Some (Received evt, h') \<Longrightarrow>
    hub_step uuid_Parse c (c\<lparr>HC_hub := h', HC_read := (HC_read c)(s := HC_read c s @ [evt])\<rparr>)"

definition hub_init :: "Hub_Options \<Rightarrow> 'w hub_config" where
  "hub_init opts = \<lparr>HC_hub = NewHub opts, HC_sending = [], HC_offered = (\<lambda>s. []), HC_read = (\<lambda>s. [])\<rparr>"

section \<open>The store of subscribers\<close>

named_theorems hub_simps

lemma hub_set_simps [hub_simps, simp]:
  "Hub_heap (hub_set s sub h) = (Hub_heap h)(s := Some sub)" "Hub_subs (hub_set s sub h) = Hub_subs h"
  "Hub_buffer (hub_set s sub h) = Hub_buffer h" "Hub_maxSubs (hub_set s sub h) = Hub_maxSubs h"
  "Hub_topicOK (hub_set s sub h) = Hub_topicOK h"
  by (simp_all add: hub_set_def)

lemma limits_kept [hub_simps]:
  "Hub_buffer (finishDetach s h) = Hub_buffer h" "Hub_maxSubs (finishDetach s h) = Hub_maxSubs h"
  "Hub_buffer (detach s h) = Hub_buffer h" "Hub_maxSubs (detach s h) = Hub_maxSubs h"
  "Hub_buffer (deliver w s evt h) = Hub_buffer h" "Hub_maxSubs (deliver w s evt h) = Hub_maxSubs h"
  "Hub_subs (deliver w s evt h) = Hub_subs h"
  by (auto simp: detach_def finishDetach_def close_channel_def deliver_def trySend_def split: option.splits)

lemma Subscribe_limits:
  assumes "Hub_Subscribe uuid_Parse s sub h = (r, h')"
  shows "Hub_buffer h' = Hub_buffer h \<and> Hub_maxSubs h' = Hub_maxSubs h"
  using assms by (auto simp: Hub_Subscribe_def split: if_splits sum.splits)

lemma receive_limits:
  assumes "receive s h = Some (x, h')"
  shows "Hub_buffer h' = Hub_buffer h \<and> Hub_maxSubs h' = Hub_maxSubs h \<and> Hub_subs h' = Hub_subs h"
  using assms by (auto simp: receive_def split: option.splits list.splits if_splits)

text \<open>
  The invariant of one configuration. Every registered address is an object, once, and not detached; a
  channel holds no more than the buffer; and for each subscriber what its reader took followed by what is
  buffered is a prefix of what was offered, all of it as long as the channel is open.
\<close>

definition sub_ok :: "int \<Rightarrow> Event list \<Rightarrow> Event list \<Rightarrow> 'w subscriber \<Rightarrow> bool" where
  "sub_ok buffer offered taken sub \<longleftrightarrow>
     int (length (subscriber_ch sub)) \<le> buffer \<and> (subscriber_detached sub \<longrightarrow> subscriber_closed sub) \<and>
     (\<exists>lost. offered = taken @ subscriber_ch sub @ lost \<and> (lost \<noteq> [] \<longrightarrow> subscriber_closed sub)) \<and>
     (\<forall>e\<in>set offered. \<exists>w evt. candidate_for w sub evt = Some e \<and> Event_Topic evt \<in> set (subscriber_topics sub))"

definition hub_ok :: "'w hub_config \<Rightarrow> bool" where
  "hub_ok c \<longleftrightarrow>
     0 < Hub_buffer (HC_hub c) \<and> int (length (Hub_subs (HC_hub c))) \<le> Hub_maxSubs (HC_hub c) \<and>
     distinct (Hub_subs (HC_hub c)) \<and>
     (\<forall>s. s \<in> set (Hub_subs (HC_hub c)) \<longleftrightarrow> (\<exists>sub. Hub_heap (HC_hub c) s = Some sub \<and> \<not> subscriber_detached sub)) \<and>
     (\<forall>s sub. Hub_heap (HC_hub c) s = Some sub \<longrightarrow>
        sub_ok (Hub_buffer (HC_hub c)) (HC_offered c s) (HC_read c s) sub) \<and>
     (\<forall>s. Hub_heap (HC_hub c) s = None \<longrightarrow> HC_offered c s = [] \<and> HC_read c s = []) \<and>
     (\<forall>(evt, targets)\<in>set (HC_sending c). \<forall>s\<in>set targets. \<exists>sub. Hub_heap (HC_hub c) s = Some sub \<and>
        Event_Topic evt \<in> set (subscriber_topics sub))"

section \<open>Every step keeps it\<close>

lemma hub_ok_init: "hub_ok (hub_init opts)"
  by (auto simp: hub_ok_def hub_init_def NewHub_def)

lemma Subscribe_cases:
  assumes "Hub_Subscribe uuid_Parse s sub h = (r, h')"
  obtains "h' = h" | allowed where "Subscribe_topics uuid_Parse (Hub_topicOK h) (Subscription_Topics sub) [] = Inr allowed" "allowed \<noteq> []"
    "int (length (Hub_subs h)) < Hub_maxSubs h" "r = Inr s"
    "h' = (hub_set s \<lparr>subscriber_topics = allowed, subscriber_allow = Subscription_Allow sub,
        subscriber_modify = Subscription_Modify sub, subscriber_ch = [], subscriber_closed = False,
        subscriber_detached = False\<rparr> h)\<lparr>Hub_subs := s # Hub_subs h\<rparr>"
  using assms by (auto simp: Hub_Subscribe_def split: if_splits sum.splits)

lemma hub_ok_subscribe:
  assumes "hub_ok c" "Hub_heap (HC_hub c) s = None" "Hub_Subscribe uuid_Parse s sub (HC_hub c) = (r, h')"
  shows "hub_ok (c\<lparr>HC_hub := h'\<rparr>)"
  using assms(3)
proof (cases rule: Subscribe_cases)
  case 2
  then show ?thesis using assms(1,2) by (fastforce simp: hub_ok_def sub_ok_def)
qed (use assms(1) in simp)

lemma hub_ok_publish:
  assumes "hub_ok c" "set targets = set (publish_targets (Event_Topic evt) (HC_hub c))"
  shows "hub_ok (c\<lparr>HC_sending := (evt, targets) # HC_sending c\<rparr>)"
proof -
  have "\<forall>s\<in>set targets. \<exists>sub. Hub_heap (HC_hub c) s = Some sub \<and> Event_Topic evt \<in> set (subscriber_topics sub)"
    using assms(2) by (auto simp: publish_targets_def split: option.splits)
  then show ?thesis using assms(1) by (simp add: hub_ok_def)
qed

lemma candidate_ch [simp]:
  "candidate_for w (sub\<lparr>subscriber_ch := ch\<rparr>) = candidate_for w sub"
  "candidate_for w (sub\<lparr>subscriber_closed := b\<rparr>) = candidate_for w sub"
  "candidate_for w (sub\<lparr>subscriber_detached := b\<rparr>) = candidate_for w sub"
  by (auto simp: candidate_for_def fun_eq_iff)

text \<open>One delivery, for the object it is about.\<close>

lemma sub_ok_deliver:
  assumes "sub_ok (Hub_buffer h) offered taken sub" "Hub_heap h s = Some sub" "Event_Topic evt \<in> set (subscriber_topics sub)"
  obtains sub' where "deliver w s evt h = h \<and> sub' = sub \<or> deliver w s evt h = hub_set s sub' h"
    "sub_ok (Hub_buffer h) (offered @ offer w s evt h) taken sub'" "subscriber_detached sub' = subscriber_detached sub"
    "subscriber_topics sub' = subscriber_topics sub"
proof (cases "candidate_for w sub evt")
  case None
  then show thesis using that [of sub] assms by (simp add: deliver_def offer_def)
next
  case (Some e)
  have offer: "offer w s evt h = [e]" using Some assms(2) by (simp add: offer_def)
  have mine: "\<forall>x\<in>set (offered @ [e]). \<exists>w evt. candidate_for w sub evt = Some x \<and> Event_Topic evt \<in> set (subscriber_topics sub)"
    using assms(1,3) Some by (auto simp: sub_ok_def)
  obtain lost where lost: "offered = taken @ subscriber_ch sub @ lost" "lost \<noteq> [] \<longrightarrow> subscriber_closed sub"
    using assms(1) by (auto simp: sub_ok_def)
  consider "subscriber_closed sub" | "\<not> subscriber_closed sub" "int (length (subscriber_ch sub)) < Hub_buffer h"
    | "\<not> subscriber_closed sub" "\<not> int (length (subscriber_ch sub)) < Hub_buffer h" by blast
  then show thesis
  proof cases
    case 1
    then show thesis using that [of sub] assms(1,2) Some offer mine lost by (auto simp: deliver_def trySend_def sub_ok_def)
  next
    case 2
    then show thesis
      using that [of "sub\<lparr>subscriber_ch := subscriber_ch sub @ [e]\<rparr>"] assms(1,2) Some offer mine lost
      by (auto simp: deliver_def trySend_def sub_ok_def)
  next
    case 3
    then show thesis
      using that [of "sub\<lparr>subscriber_closed := True\<rparr>"] assms(1,2) Some offer mine lost
      by (auto simp: deliver_def trySend_def sub_ok_def)
  qed
qed


lemma hub_ok_send:
  assumes ok: "hub_ok c" and sending: "HC_sending c = before @ (evt, s # targets) # after"
  shows "hub_ok (c\<lparr>HC_hub := deliver w s evt (HC_hub c), HC_sending := before @ (evt, targets) # after,
      HC_offered := (HC_offered c)(s := HC_offered c s @ offer w s evt (HC_hub c))\<rparr>)"
proof -
  let ?h = "HC_hub c"
  obtain sub where sub: "Hub_heap ?h s = Some sub" "Event_Topic evt \<in> set (subscriber_topics sub)"
    using ok sending by (auto simp: hub_ok_def)
  have sub_ok: "sub_ok (Hub_buffer ?h) (HC_offered c s) (HC_read c s) sub" using ok sub(1) by (simp add: hub_ok_def)
  obtain sub' where d: "deliver w s evt ?h = ?h \<and> sub' = sub \<or> deliver w s evt ?h = hub_set s sub' ?h"
      and sub': "sub_ok (Hub_buffer ?h) (HC_offered c s @ offer w s evt ?h) (HC_read c s) sub'"
        "subscriber_detached sub' = subscriber_detached sub" "subscriber_topics sub' = subscriber_topics sub"
    using sub_ok_deliver [OF sub_ok sub] by blast
  have heap: "Hub_heap (deliver w s evt ?h) = (Hub_heap ?h)(s := Some sub')" using d sub(1) by auto
  have sent: "\<forall>(e, ts)\<in>set (before @ (evt, targets) # after). \<forall>t\<in>set ts. \<exists>x. Hub_heap ?h t = Some x \<and>
      Event_Topic e \<in> set (subscriber_topics x)"
    using ok sending by (auto simp: hub_ok_def)
  then have "\<forall>(e, ts)\<in>set (before @ (evt, targets) # after). \<forall>t\<in>set ts. \<exists>x. Hub_heap (deliver w s evt ?h) t = Some x \<and>
      Event_Topic e \<in> set (subscriber_topics x)"
    using sub(1) sub'(3) unfolding heap by (fastforce split: if_splits)
  moreover have "\<forall>t. t \<in> set (Hub_subs ?h) \<longleftrightarrow> (\<exists>x. Hub_heap (deliver w s evt ?h) t = Some x \<and> \<not> subscriber_detached x)"
    using ok sub(1) sub'(2) unfolding heap by (auto simp: hub_ok_def)
  moreover have "\<forall>t x. Hub_heap (deliver w s evt ?h) t = Some x \<longrightarrow> sub_ok (Hub_buffer ?h)
      (((HC_offered c)(s := HC_offered c s @ offer w s evt ?h)) t) (HC_read c t) x"
    using ok sub'(1) unfolding heap by (auto simp: hub_ok_def)
  moreover have "\<forall>t. Hub_heap (deliver w s evt ?h) t = None \<longrightarrow>
      ((HC_offered c)(s := HC_offered c s @ offer w s evt ?h)) t = [] \<and> HC_read c t = []"
    using ok unfolding heap by (auto simp: hub_ok_def)
  ultimately show ?thesis using ok by (simp add: hub_ok_def limits_kept)
qed

text \<open>Closing and detaching.\<close>

lemma sub_ok_flags:
  "sub_ok b offered taken sub \<Longrightarrow> sub_ok b offered taken (sub\<lparr>subscriber_closed := True\<rparr>)"
  "sub_ok b offered taken sub \<Longrightarrow> subscriber_closed sub \<Longrightarrow> sub_ok b offered taken (sub\<lparr>subscriber_detached := True\<rparr>)"
  by (auto simp: sub_ok_def)

lemma hub_ok_close: "hub_ok c \<Longrightarrow> hub_ok (c\<lparr>HC_hub := close_channel s (HC_hub c)\<rparr>)"
  by (auto simp: hub_ok_def close_channel_def intro: sub_ok_flags split: option.splits) fastforce+

lemma hub_ok_finish:
  assumes ok: "hub_ok c" and closed: "\<forall>sub. Hub_heap (HC_hub c) s = Some sub \<longrightarrow> subscriber_closed sub"
  shows "hub_ok (c\<lparr>HC_hub := finishDetach s (HC_hub c)\<rparr>)"
proof (cases "Hub_heap (HC_hub c) s")
  case None
  then show ?thesis using ok by (simp add: finishDetach_def)
next
  case (Some sub)
  show ?thesis
  proof (cases "subscriber_detached sub")
    case True
    then show ?thesis using Some ok by (simp add: finishDetach_def)
  next
    case False
    let ?h = "finishDetach s (HC_hub c)"
    have h: "?h = (hub_set s (sub\<lparr>subscriber_detached := True\<rparr>) (HC_hub c))\<lparr>Hub_subs := remove1 s (Hub_subs (HC_hub c))\<rparr>"
      using Some False by (simp add: finishDetach_def)
    have "length (remove1 s (Hub_subs (HC_hub c))) \<le> length (Hub_subs (HC_hub c))" by (simp add: length_remove1)
    then have "int (length (Hub_subs ?h)) \<le> Hub_maxSubs ?h" using ok by (simp add: h hub_ok_def)
    moreover have "\<forall>t x. Hub_heap ?h t = Some x \<longrightarrow> sub_ok (Hub_buffer (HC_hub c)) (HC_offered c t) (HC_read c t) x"
      using ok Some closed by (auto simp: h hub_ok_def intro!: sub_ok_flags(2))
    moreover have "\<forall>t. t \<in> set (Hub_subs ?h) \<longleftrightarrow> (\<exists>x. Hub_heap ?h t = Some x \<and> \<not> subscriber_detached x)"
      using ok by (auto simp: h hub_ok_def)
    moreover have "\<forall>(e, ts)\<in>set (HC_sending c). \<forall>t\<in>set ts. \<exists>x. Hub_heap ?h t = Some x \<and> Event_Topic e \<in> set (subscriber_topics x)"
      using ok Some by (fastforce simp: h hub_ok_def split: if_splits)
    ultimately show ?thesis using ok by (auto simp: hub_ok_def h)
  qed
qed

lemma hub_ok_read:
  assumes ok: "hub_ok c" and got: "receive s (HC_hub c) = Some (Received evt, h')"
  shows "hub_ok (c\<lparr>HC_hub := h', HC_read := (HC_read c)(s := HC_read c s @ [evt])\<rparr>)"
proof -
  obtain sub rest where sub: "Hub_heap (HC_hub c) s = Some sub" "subscriber_ch sub = evt # rest"
      "h' = hub_set s (sub\<lparr>subscriber_ch := rest\<rparr>) (HC_hub c)"
    using got by (auto simp: receive_def split: option.splits list.splits if_splits)
  have "sub_ok (Hub_buffer (HC_hub c)) (HC_offered c s) (HC_read c s) sub" using ok sub(1) by (simp add: hub_ok_def)
  then have "sub_ok (Hub_buffer (HC_hub c)) (HC_offered c s) (HC_read c s @ [evt]) (sub\<lparr>subscriber_ch := rest\<rparr>)"
    using sub(2) by (auto simp: sub_ok_def)
  then show ?thesis using ok sub(1) by (fastforce simp: hub_ok_def sub(3) split: if_splits)
qed

lemma hub_ok_step:
  assumes "hub_step uuid_Parse c c'" "hub_ok c"
  shows "hub_ok c'"
  using assms
proof cases
  case (leave s)
  have "hub_ok (c\<lparr>HC_hub := close_channel s (HC_hub c)\<rparr>)" using assms(2) by (rule hub_ok_close)
  from hub_ok_finish [OF this, of s] show ?thesis
    using leave by (auto simp: detach_def close_channel_def split: option.splits)
next
  case (finish s sub)
  then show ?thesis using hub_ok_finish [OF assms(2), of s] by simp
qed (use assms(2) hub_ok_subscribe hub_ok_publish hub_ok_send hub_ok_read in auto)

lemma hub_run_ok:
  assumes "(hub_step uuid_Parse)\<^sup>*\<^sup>* c c'" "hub_ok c"
  shows "hub_ok c'"
  using assms by (induction rule: rtranclp_induct) (auto intro: hub_ok_step)

text \<open>
  C35. A reader of the event hub loses nothing without being cut off: however publications, subscriptions,
  departures and evictions interleave, the events a reader has taken from its channel are, in order, the
  first of those offered to it, followed by what is buffered; an event is missing behind them only when
  the channel has been closed, which the reader sees after the last one. Every event is on a topic of the
  subscription and has passed its filter, and buffers and subscribers stay within their limits.
\<close>

theorem hub_no_silent_loss:
  assumes "(hub_step uuid_Parse)\<^sup>*\<^sup>* (hub_init opts) c" and "Hub_heap (HC_hub c) s = Some sub"
  shows "(\<exists>lost. HC_offered c s = HC_read c s @ subscriber_ch sub @ lost \<and> (lost \<noteq> [] \<longrightarrow> subscriber_closed sub)) \<and>
    (\<forall>e\<in>set (HC_read c s). \<exists>w evt. candidate_for w sub evt = Some e \<and> Event_Topic evt \<in> set (subscriber_topics sub)) \<and>
    int (length (subscriber_ch sub)) \<le> Hub_buffer (HC_hub c) \<and> int (SubscriberCount (HC_hub c)) \<le> Hub_maxSubs (HC_hub c)"
proof -
  have "hub_ok c" using hub_run_ok [OF assms(1) hub_ok_init] .
  then have "sub_ok (Hub_buffer (HC_hub c)) (HC_offered c s) (HC_read c s) sub"
      "int (length (Hub_subs (HC_hub c))) \<le> Hub_maxSubs (HC_hub c)"
    using assms(2) by (simp_all add: hub_ok_def)
  then show ?thesis by (auto simp: sub_ok_def SubscriberCount_def)
qed

end
