(* ===== verification/Live.thy ===== *)
theory Live
  imports Hub Discussion Second_Factor
begin

text \<open>
  The activity log as rows (internal/store/activity/activity.go), its fan-out
  (\<open>Log.Record\<close> and \<open>Log.RecordAlone\<close> of internal/events/activity.go), the catch-up after a
  reconnect (internal/events/replay.go), the stream of events (internal/httpapi/events.go) and the
  list of an engagement's activity (internal/httpapi/activityhandlers.go). A stream is the list of the frames
  written to it. The encoding of a list cursor, \<open>uuid.Parse\<close>, clocks and identifiers are arguments.
\<close>

section \<open>Activity rows (store/activity)\<close>

record activity_Row =
  Row_ID :: string
  Row_Entry :: Entry
  Row_At :: gotime

definition activity_validate :: "Entry \<Rightarrow> error option" where
  "activity_validate e =
     (if TrimSpace (Entry_Verb e) = [] then Some (ErrorsNew ''activity: verb is required'')
      else if TrimSpace (Entry_ObjectType e) = [] then Some (ErrorsNew ''activity: object_type is required'')
      else if TrimSpace (Entry_ObjectID e) = [] then Some (ErrorsNew ''activity: object_id is required'')
      else None)"

text \<open>The row as it reads back; the column of identifiers is the primary key.\<close>

definition Entries_Insert :: "string \<Rightarrow> gotime \<Rightarrow> gotime \<Rightarrow> Entry \<Rightarrow> activity_Row list \<Rightarrow> (error + activity_Row) \<times> activity_Row list" where
  "Entries_Insert freshID now at e rows =
     (case activity_validate e of
        Some err \<Rightarrow> (Inl err, rows)
      | None \<Rightarrow>
          if freshID \<in> Row_ID ` set rows
          then (Inl (ErrorfW (''activity: insert '' @ Entry_Verb e) (ErrorsNew ''duplicate key'')), rows)
          else (let row = \<lparr>Row_ID = freshID, Row_Entry = e, Row_At = toStorage (if IsZero at then now else at)\<rparr>
                in (Inr row, rows @ [row])))"

record ListFilter =
  Filter_ScopePlatform :: bool
  Filter_ScopeEngagement :: string
  Filter_ActorID :: string
  Filter_Verb :: string
  Filter_ObjectType :: string
  Filter_ObjectID :: string
  Filter_Cursor :: string
  Filter_Limit :: int

definition filter_admits :: "ListFilter \<Rightarrow> activity_Row \<Rightarrow> bool" where
  "filter_admits f r \<longleftrightarrow>
     (if Filter_ScopePlatform f then Entry_EngagementID (Row_Entry r) = []
      else Entry_EngagementID (Row_Entry r) = Filter_ScopeEngagement f) \<and>
     (Filter_ActorID f \<noteq> [] \<longrightarrow> Entry_ActorID (Row_Entry r) = Filter_ActorID f) \<and>
     (Filter_Verb f \<noteq> [] \<longrightarrow> Entry_Verb (Row_Entry r) = Filter_Verb f) \<and>
     (Filter_ObjectType f \<noteq> [] \<longrightarrow> Entry_ObjectType (Row_Entry r) = Filter_ObjectType f) \<and>
     (Filter_ObjectID f \<noteq> [] \<longrightarrow> Entry_ObjectID (Row_Entry r) = Filter_ObjectID f)"

definition older :: "gotime \<times> string \<Rightarrow> activity_Row \<Rightarrow> bool" where
  "older c r \<longleftrightarrow> Row_At r < fst c \<or> Row_At r = fst c \<and> Row_ID r < snd c"

text \<open>Newest first: ascending by time and identifier, reversed.\<close>

definition newest_first :: "activity_Row list \<Rightarrow> activity_Row list" where
  "newest_first rows = rev (sort_key Row_At (sort_key Row_ID rows))"

definition list_limit :: "int \<Rightarrow> int" where
  "list_limit limit = (let limit = (if limit \<le> 0 then 50 else limit) in if limit > 200 then 200 else limit)"

definition list_page :: "(gotime \<times> string \<Rightarrow> string) \<Rightarrow> nat \<Rightarrow> activity_Row list \<Rightarrow> activity_Row list \<times> string" where
  "list_page encodeCursor limit found =
     (let rows = take (limit + 1) (newest_first found)
      in if length rows > limit
         then (take limit rows, let r = rows ! (limit - 1) in encodeCursor (toStorage (Row_At r), Row_ID r))
         else (rows, []))"

definition Entries_List :: "(string \<Rightarrow> (gotime \<times> string) option) \<Rightarrow> (gotime \<times> string \<Rightarrow> string) \<Rightarrow> ListFilter \<Rightarrow>
    activity_Row list \<Rightarrow> error + (activity_Row list \<times> string)" where
  "Entries_List decodeCursor encodeCursor f rows =
     (if Filter_ScopePlatform f = (Filter_ScopeEngagement f \<noteq> [])
      then Inl (ErrorsNew ''activity: List requires exactly one of ScopePlatform or ScopeEngagement'')
      else
       (let page = list_page encodeCursor (nat (list_limit (Filter_Limit f)))
        in if Filter_Cursor f = [] then Inr (page (filter (filter_admits f) rows))
           else case decodeCursor (Filter_Cursor f) of
             None \<Rightarrow> Inl (Validation [Field ''cursor'' ''is not a cursor this server issued''])
           | Some c \<Rightarrow> Inr (page (filter (\<lambda>r. filter_admits f r \<and> older c r) rows))))"

definition ReplayAfterCursor :: "string \<Rightarrow> string \<Rightarrow> int \<Rightarrow> activity_Row list \<Rightarrow> activity_Row list" where
  "ReplayAfterCursor engagementID cursor limit rows =
     take (nat limit) (sort_key Row_ID (filter (\<lambda>r. Entry_EngagementID (Row_Entry r) = engagementID \<and> cursor < Row_ID r) rows))"

section \<open>Fan-out (events/activity.go)\<close>

definition fanned_event :: "(string \<Rightarrow> error + bool) option \<Rightarrow> activity_Row \<Rightarrow> Event" where
  "fanned_event reveal row =
     (let e = Row_Entry row
      in \<lparr>Event_ID = Row_ID row, Event_Topic = EngagementTopic (Entry_EngagementID e), Event_Type = Entry_Verb e,
          Event_At = Row_At row, Event_Data = Some (buildEventData e (lookupRevealed reveal e))\<rparr>)"

text \<open>
  \<open>Record\<close> queues the fan-out of a row of an engagement behind the commit, \<open>RecordAlone\<close> runs it after its own
  transaction: what is left to be published after either.
\<close>

definition Log_Record_row :: "string \<Rightarrow> gotime \<Rightarrow> gotime \<Rightarrow> Entry \<Rightarrow> activity_Row list \<times> activity_Row list \<Rightarrow>
    error option \<times> (activity_Row list \<times> activity_Row list)" where
  "Log_Record_row freshID now at e st =
     (case st of (rows, due) \<Rightarrow>
       (case Entries_Insert freshID now at e rows of
          (Inl err, rows') \<Rightarrow> (Some err, (rows', due))
        | (Inr row, rows') \<Rightarrow> (None, (rows', if Entry_EngagementID e \<noteq> [] then due @ [row] else due))))"

section \<open>Catch-up (events/replay.go)\<close>

definition replay_event :: "string \<Rightarrow> activity_Row \<Rightarrow> Event" where
  "replay_event engagementID row =
     \<lparr>Event_ID = Row_ID row, Event_Topic = EngagementTopic engagementID, Event_Type = Entry_Verb (Row_Entry row),
      Event_At = Row_At row, Event_Data = Some (buildReplayData (Row_Entry row))\<rparr>"

definition ReplayAfter :: "string \<Rightarrow> string \<Rightarrow> int \<Rightarrow> activity_Row list \<Rightarrow> Event list \<times> bool" where
  "ReplayAfter engagementID cursor maxEvents rows =
     (if cursor = [] then ([], False)
      else if maxEvents \<le> 0 then ([], False)
      else
       (let found = ReplayAfterCursor engagementID cursor (maxEvents + 1) rows;
            truncated = int (length found) > maxEvents;
            kept = (if truncated then take (nat maxEvents) found else found)
        in (map (replay_event engagementID) kept, truncated)))"

definition NewGapEvent :: "string \<Rightarrow> string \<Rightarrow> gotime \<Rightarrow> Event" where
  "NewGapEvent engagementID reason now =
     \<lparr>Event_ID = [], Event_Topic = EngagementTopic engagementID, Event_Type = TypeStreamGap, Event_At = now,
      Event_Data = Some [(''engagementId'', DString engagementID), (''reason'', DString reason)]\<rparr>"

section \<open>Looking steps up (httpapi)\<close>

definition IsStepRevealed :: "DDB \<Rightarrow> string \<Rightarrow> error + bool" where
  "IsStepRevealed db stepID =
     (case Steps_ByID stepID (DDB_workbook db) of Inl err \<Rightarrow> Inl err | Inr step \<Rightarrow> Inr (Step_RevealedAt step \<noteq> None))"

definition execution_step :: "string \<Rightarrow> DDB \<Rightarrow> error + string" where
  "execution_step executionID db =
     (case Executions_ByID executionID (DDB_workbook db) of Inl err \<Rightarrow> Inl err | Inr exec \<Rightarrow> Inr (Execution_StepID exec))"

definition resolveActivityStepID :: "DDB \<Rightarrow> string \<Rightarrow> string \<Rightarrow> error + string" where
  "resolveActivityStepID db objectType objectID =
     (if objectType = ObjectStep then Inr objectID
      else if objectType = ObjectExecution then execution_step objectID db
      else if objectType = ObjectComment then
        (case Comments_ByID objectID db of Inl err \<Rightarrow> Inl err | Inr c \<Rightarrow> execution_step (Comment_ExecutionID c) db)
      else if objectType = ObjectEvidence then
        (case select1 (\<lambda>v. Evidence_ID v = objectID) (DDB_evidence db) of
           None \<Rightarrow> Inl SqlNoRows
         | Some v \<Rightarrow> if Evidence_ExecutionID v = [] then Inr [] else execution_step (Evidence_ExecutionID v) db)
      else Inr [])"

definition row_shown_to_blue :: "DDB \<Rightarrow> activity_Row \<Rightarrow> bool" where
  "row_shown_to_blue db row =
     (case resolveActivityStepID db (Entry_ObjectType (Row_Entry row)) (Entry_ObjectID (Row_Entry row)) of
        Inl err \<Rightarrow> True
      | Inr stepID \<Rightarrow>
          if stepID = [] then True
          else case IsStepRevealed db stepID of Inl err \<Rightarrow> True | Inr revealed \<Rightarrow> revealed)"

definition filterBlindActivity :: "Subject option \<Rightarrow> string \<Rightarrow> DDB \<Rightarrow> activity_Row list \<Rightarrow> error + activity_Row list" where
  "filterBlindActivity auth engagementID db rows =
     (case stepBlindScope auth engagementID db of
        Inl err \<Rightarrow> Inl err
      | Inr scope \<Rightarrow> if \<not> Withholds scope then Inr rows else Inr (filter (row_shown_to_blue db) rows))"

definition ListEngagementActivity :: "(string \<Rightarrow> (gotime \<times> string) option) \<Rightarrow> (gotime \<times> string \<Rightarrow> string) \<Rightarrow>
    Subject option \<Rightarrow> ListFilter \<Rightarrow> DDB \<Rightarrow> activity_Row list \<Rightarrow> error + (activity_Row list \<times> string)" where
  "ListEngagementActivity decodeCursor encodeCursor auth f db rows =
     (case Entries_List decodeCursor encodeCursor (f\<lparr>Filter_ScopePlatform := False\<rparr>) rows of
        Inl err \<Rightarrow> Inl err
      | Inr (found, cursor) \<Rightarrow>
          (case filterBlindActivity auth (Filter_ScopeEngagement f) db found of
             Inl err \<Rightarrow> Inl err
           | Inr shown \<Rightarrow> Inr (shown, cursor)))"

section \<open>The stream (httpapi/events.go)\<close>

type_synonym reveals = "string \<Rightarrow> error + bool"

definition content_topic :: "string \<Rightarrow> bool" where
  "content_topic topic \<longleftrightarrow> topic = TopicContentJobs \<or> HasPrefix topic (TopicContentJobs @ ''.'')"

definition topicAllowed :: "DDB \<Rightarrow> Caller \<Rightarrow> string \<Rightarrow> bool" where
  "topicAllowed db caller topic \<longleftrightarrow>
     (if Caller_PlatformRole caller = PlatformRoleAdmin then True
      else if topic = TopicContentJobs then False
      else if HasPrefix topic (TopicContentJobs @ ''.'') then False
      else case CutPrefix topic TopicEngagementPrefix of
        Some rest \<Rightarrow> snd (Seat rest (Caller_UserID caller) db)
      | None \<Rightarrow> True)"

definition blind_scopes :: "Subject option \<Rightarrow> DDB \<Rightarrow> string list \<Rightarrow> (string \<times> blind_Scope) list" where
  "blind_scopes auth db topics =
     concat (map (\<lambda>topic. case CutPrefix topic TopicEngagementPrefix of
        None \<Rightarrow> []
      | Some engID \<Rightarrow> (case stepBlindScope auth engID db of Inl err \<Rightarrow> [] | Inr scope \<Rightarrow> [(topic, scope)])) topics)"

definition allowFilter :: "(string \<times> blind_Scope) list \<Rightarrow> Event \<Rightarrow> bool" where
  "allowFilter scopes ev \<longleftrightarrow>
     (if content_topic (Event_Topic ev) then True
      else case map_of scopes (Event_Topic ev) of None \<Rightarrow> True | Some scope \<Rightarrow> VisibleActivity scope ev)"

definition modifyFilter :: "(string \<times> blind_Scope) list \<Rightarrow> reveals \<Rightarrow> Event \<Rightarrow> Event" where
  "modifyFilter scopes w ev =
     (if content_topic (Event_Topic ev) then ev
      else case map_of scopes (Event_Topic ev) of None \<Rightarrow> ev | Some scope \<Rightarrow> FilterPresenceEvent scope ev (Some w))"

text \<open>The refusals of the hub, answered.\<close>

definition subscribe_problem :: "(error \<Rightarrow> string) \<Rightarrow> error \<Rightarrow> error" where
  "subscribe_problem Error_text err =
     (if errors_Is err ErrUnknownTopic then Validation [Field ''topics'' (Error_text err)]
      else if errors_Is err ErrNoTopics then Validation [Field ''topics'' ''at least one topic is required'']
      else if errors_Is err ErrTooManySubscribers then Api (Internal (ErrorsNew ''event subscriber limit reached''))
      else Api (Internal (ErrorfW ''subscribe'' err)))"

record opened =
  Opened_sub :: nat
  Opened_topics :: "string list"
  Opened_scopes :: "(string \<times> blind_Scope) list"
  Opened_cursor :: string

definition SubscribeEvents :: "(string \<Rightarrow> bool) \<Rightarrow> (error \<Rightarrow> string) \<Rightarrow> nat \<Rightarrow> Subject option \<Rightarrow> Caller \<Rightarrow> string list \<Rightarrow> string \<Rightarrow>
    DDB \<Rightarrow> reveals Hub \<Rightarrow> (error + opened) \<times> reveals Hub" where
  "SubscribeEvents uuid_Parse Error_text s auth caller requestedTopics cursor db h =
     (let topics = filter (topicAllowed db caller) requestedTopics; scopes = blind_scopes auth db topics
      in case Hub_Subscribe uuid_Parse s \<lparr>Subscription_Topics = topics, Subscription_Allow = Some (allowFilter scopes),
            Subscription_Modify = Some (modifyFilter scopes)\<rparr> h of
           (Inl err, h') \<Rightarrow> (Inl (subscribe_problem Error_text err), h')
         | (Inr a, h') \<Rightarrow> (Inr \<lparr>Opened_sub = a, Opened_topics = topics, Opened_scopes = scopes, Opened_cursor = cursor\<rparr>, h'))"

datatype frame = Retry | Ping | Frame Event

text \<open>A map without an entry gives the scope that withholds nothing.\<close>

definition scope_of :: "(string \<times> blind_Scope) list \<Rightarrow> string \<Rightarrow> blind_Scope" where
  "scope_of scopes topic = (case map_of scopes topic of None \<Rightarrow> \<lparr>Scope_Blind = False, Scope_Seat = []\<rparr> | Some scope \<Rightarrow> scope)"

text \<open>The catch-up of one topic: what it writes.\<close>

definition replay_topic :: "int \<Rightarrow> gotime \<Rightarrow> DDB \<Rightarrow> activity_Row list \<Rightarrow> opened \<Rightarrow> string \<Rightarrow> frame list" where
  "replay_topic maxReplay now db rows o' topic =
     (if Opened_cursor o' = [] \<or> maxReplay \<le> 0 then []
      else case CutPrefix topic TopicEngagementPrefix of
        None \<Rightarrow> []
      | Some engID \<Rightarrow>
          (case ReplayAfter engID (Opened_cursor o') maxReplay rows of
             (evs, truncated) \<Rightarrow>
               map Frame (concat (map (\<lambda>ev. case VisibleReplay (scope_of (Opened_scopes o') topic) ev
                   (Some (resolveActivityStepID db)) (Some (IsStepRevealed db)) of None \<Rightarrow> [] | Some kept \<Rightarrow> [kept]) evs)) @
               (if truncated then [Frame (NewGapEvent engID ''replay truncated'' now)] else [])))"

text \<open>One turn of the live tail: a heartbeat, an event of the channel, or the end.\<close>

definition tail_turn :: "nat \<Rightarrow> reveals Hub \<Rightarrow> (frame option \<times> reveals Hub) option" where
  "tail_turn s h =
     (case receive s h of
        None \<Rightarrow> None
      | Some (Ended, h') \<Rightarrow> Some (None, h')
      | Some (Received ev, h') \<Rightarrow> Some (Some (Frame ev), h'))"

section \<open>Progress of content jobs\<close>

record ProgressEvent =
  Progress_JobID :: string
  Progress_Phase :: string
  Progress_Current :: int
  Progress_Total :: int
  Progress_Message :: string
  Progress_Status :: string

definition progress_type :: "string \<Rightarrow> string" where
  "progress_type status =
     (if status \<in> {''succeeded'', ''failed'', ''cancelled'', ''interrupted''} then TypeContentJobTerminal
      else TypeContentJobProgress)"

definition bridged :: "ProgressEvent \<Rightarrow> (string \<times> string \<times> json_object) list" where
  "bridged ev =
     (let data = [(''jobId'', DString (Progress_JobID ev))] @
            (if Progress_Phase ev = [] then [] else [(''phase'', DString (Progress_Phase ev))]) @
            [(''current'', DInt (Progress_Current ev)), (''total'', DInt (Progress_Total ev))] @
            (if Progress_Message ev = [] then [] else [(''message'', DString (Progress_Message ev))]) @
            [(''status'', DString (Progress_Status ev))]
      in [(TopicContentJobs, progress_type (Progress_Status ev), data),
          (TopicContentJob (Progress_JobID ev), progress_type (Progress_Status ev), data)])"

end
