(* ===== verification/Live_Props.thy ===== *)
theory Live_Props
  imports Hub_Props Live
begin

text \<open>
  One open stream among everything else the server does: rows are committed and fanned out, other readers
  come and go, the stream catches up and then follows its channel. No row is missed in between. Then
  what the filters of the two feeds of an engagement let through that they should not.
\<close>

section \<open>Steps around one stream\<close>

record live =
  L_db :: DDB
  L_rows :: "activity_Row list"
  L_due :: "activity_Row list"
  L_hub :: "reveals hub_config"
  L_opened :: opened
  L_todo :: "string list"
  L_out :: "frame list"

definition other_hub_step :: "(string \<Rightarrow> bool) \<Rightarrow> nat \<Rightarrow> reveals hub_config \<Rightarrow> reveals hub_config \<Rightarrow> bool" where
  "other_hub_step uuid_Parse s c c' \<longleftrightarrow> hub_step uuid_Parse c c' \<and> HC_read c' s = HC_read c s"

text \<open>Rows of the log are committed first and published later, in any order; the database behind the lookups changes freely.\<close>

inductive live_step :: "(string \<Rightarrow> bool) \<Rightarrow> int \<Rightarrow> live \<Rightarrow> live \<Rightarrow> bool" for uuid_Parse maxReplay where
  recorded: "freshID \<noteq> [] \<Longrightarrow> Log_Record_row freshID now at e (L_rows l, L_due l) = (r, (rows, due)) \<Longrightarrow>
    live_step uuid_Parse maxReplay l (l\<lparr>L_rows := rows, L_due := due\<rparr>)"
| fan_out: "row \<in> set (L_due l) \<Longrightarrow> published_event topic (fanned_event (Some w) row) freshID now = Some evt \<Longrightarrow>
    topic = EngagementTopic (Entry_EngagementID (Row_Entry row)) \<Longrightarrow> distinct targets \<Longrightarrow>
    set targets = set (publish_targets topic (HC_hub (L_hub l))) \<Longrightarrow>
    live_step uuid_Parse maxReplay l (l\<lparr>L_due := remove1 row (L_due l),
      L_hub := (L_hub l)\<lparr>HC_sending := (evt, targets) # HC_sending (L_hub l)\<rparr>\<rparr>)"
| hub: "other_hub_step uuid_Parse (Opened_sub (L_opened l)) (L_hub l) c \<Longrightarrow>
    live_step uuid_Parse maxReplay l (l\<lparr>L_hub := c\<rparr>)"
| database: "live_step uuid_Parse maxReplay l (l\<lparr>L_db := db\<rparr>)"
| catch_up: "L_todo l = topic # todo \<Longrightarrow>
    live_step uuid_Parse maxReplay l (l\<lparr>L_todo := todo,
      L_out := L_out l @ replay_topic maxReplay now (L_db l) (L_rows l) (L_opened l) topic\<rparr>)"
| tail: "L_todo l = [] \<Longrightarrow> tail_turn (Opened_sub (L_opened l)) (HC_hub (L_hub l)) = Some (Some (Frame ev), h') \<Longrightarrow>
    live_step uuid_Parse maxReplay l (l\<lparr>L_out := L_out l @ [Frame ev],
      L_hub := (L_hub l)\<lparr>HC_hub := h', HC_read := (HC_read (L_hub l))(Opened_sub (L_opened l) :=
        HC_read (L_hub l) (Opened_sub (L_opened l)) @ [ev])\<rparr>\<rparr>)"
| ping: "live_step uuid_Parse maxReplay l (l\<lparr>L_out := L_out l @ [Ping]\<rparr>)"

text \<open>The stream right after it has been opened on a hub in any state it can be in.\<close>

definition just_opened :: "(string \<Rightarrow> bool) \<Rightarrow> Hub_Options \<Rightarrow> live \<Rightarrow> bool" where
  "just_opened uuid_Parse opts l \<longleftrightarrow>
     (\<exists>c Error_text s auth caller topics cursor h'. (hub_step uuid_Parse)\<^sup>*\<^sup>* (hub_init opts) c \<and>
        Hub_heap (HC_hub c) s = None \<and>
        SubscribeEvents uuid_Parse Error_text s auth caller topics cursor (L_db l) (HC_hub c) = (Inr (L_opened l), h') \<and>
        L_hub l = c\<lparr>HC_hub := h'\<rparr> \<and> L_todo l = Opened_topics (L_opened l) \<and> L_out l = [Retry] \<and>
        (\<forall>r\<in>set (L_due l). Row_ID r \<noteq> []))"

definition unfiltered :: "opened \<Rightarrow> bool" where
  "unfiltered o' \<longleftrightarrow> (\<forall>(topic, scope)\<in>set (Opened_scopes o'). \<not> Withholds scope)"

section \<open>What the stream's own subscription offers\<close>

lemma unfiltered_scope: "unfiltered o' \<Longrightarrow> map_of (Opened_scopes o') t = Some scope \<Longrightarrow> \<not> Withholds scope"
  by (auto simp: unfiltered_def dest: map_of_SomeD)

lemma unfiltered_passes:
  assumes "unfiltered o'"
  shows "allowFilter (Opened_scopes o') ev" "modifyFilter (Opened_scopes o') w ev = ev"
    "VisibleReplay (scope_of (Opened_scopes o') topic) ev res look = Some ev"
proof -
  have no: "\<not> Withholds scope" if "map_of (Opened_scopes o') t = Some scope" for t scope
    using unfiltered_scope [OF assms that] .
  show "allowFilter (Opened_scopes o') ev"
    using no by (auto simp: allowFilter_def VisibleActivity_def visibleEventData_def split: option.splits)
  show "modifyFilter (Opened_scopes o') w ev = ev"
    using no by (auto simp: modifyFilter_def FilterPresenceEvent_def split: option.splits)
  show "VisibleReplay (scope_of (Opened_scopes o') topic) ev res look = Some ev"
    using no by (auto simp: VisibleReplay_def scope_of_def Withholds_def split: option.splits)
qed

definition own_sub :: "opened \<Rightarrow> reveals subscriber \<Rightarrow> bool" where
  "own_sub o' sub \<longleftrightarrow> subscriber_allow sub = Some (allowFilter (Opened_scopes o')) \<and>
     subscriber_modify sub = Some (modifyFilter (Opened_scopes o')) \<and> set (subscriber_topics sub) = set (Opened_topics o')"

lemma own_candidate: "own_sub o' sub \<Longrightarrow> unfiltered o' \<Longrightarrow> candidate_for w sub evt = Some evt"
  by (simp add: own_sub_def candidate_for_def unfiltered_passes)

text \<open>What one step of the hub leaves of a subscriber, of its log and of what is on its way to it.\<close>

definition same_sub :: "reveals subscriber \<Rightarrow> reveals subscriber \<Rightarrow> bool" where
  "same_sub sub sub' \<longleftrightarrow> subscriber_allow sub' = subscriber_allow sub \<and> subscriber_modify sub' = subscriber_modify sub \<and>
     subscriber_topics sub' = subscriber_topics sub \<and> (subscriber_closed sub \<longrightarrow> subscriber_closed sub')"

definition on_the_way :: "nat \<Rightarrow> string \<Rightarrow> reveals hub_config \<Rightarrow> bool" where
  "on_the_way s i c \<longleftrightarrow> (\<exists>(evt, targets)\<in>set (HC_sending c). Event_ID evt = i \<and> s \<in> set targets) \<or>
     i \<in> Event_ID ` set (HC_offered c s)"

lemma same_sub_refl [simp]: "same_sub sub sub"
  by (simp add: same_sub_def)

lemma finishDetach_sub:
  "Hub_heap h s = Some sub \<Longrightarrow> \<exists>sub'. Hub_heap (finishDetach a h) s = Some sub' \<and> same_sub sub sub'"
  by (auto simp: finishDetach_def same_sub_def split: option.splits)

lemma close_sub:
  "Hub_heap h s = Some sub \<Longrightarrow> \<exists>sub'. Hub_heap (close_channel a h) s = Some sub' \<and> same_sub sub sub'"
  by (auto simp: close_channel_def same_sub_def split: option.splits)

lemma same_sub_trans: "same_sub a b \<Longrightarrow> same_sub b c \<Longrightarrow> same_sub a c"
  by (simp add: same_sub_def)

lemma hub_step_sub:
  assumes "hub_step uuid_Parse c c'" "Hub_heap (HC_hub c) s = Some sub"
  shows "\<exists>sub'. Hub_heap (HC_hub c') s = Some sub' \<and> same_sub sub sub'"
  using assms
proof cases
  case (subscribe a x r h')
  then show ?thesis using assms(2) by (auto elim!: Subscribe_cases)
next
  case (send before evt a targets after w)
  then show ?thesis using assms(2)
    by (auto simp: deliver_def trySend_def same_sub_def split: option.splits)
next
  case (leave a)
  obtain x where x: "Hub_heap (close_channel a (HC_hub c)) s = Some x" "same_sub sub x" using close_sub [OF assms(2)] by blast
  then show ?thesis using leave finishDetach_sub [OF x(1), of a] same_sub_trans [OF x(2)] by (auto simp: detach_def)
next
  case (finish a x)
  then show ?thesis using finishDetach_sub [OF assms(2)] by simp
next
  case (read a evt h')
  then show ?thesis using assms(2)
    by (auto simp: receive_def same_sub_def split: option.splits list.splits if_splits)
qed (use assms(2) in auto)

lemma hub_step_way:
  assumes "hub_step uuid_Parse c c'" "on_the_way s i c" "Hub_heap (HC_hub c) s = Some sub"
    and passes: "\<And>w evt. candidate_for w sub evt = Some evt"
  shows "on_the_way s i c'"
  using assms(1)
proof cases
  case (send before evt a targets after w)
  consider "i \<in> Event_ID ` set (HC_offered c s)" | x ts where "(x, ts) \<in> set (before @ after)" "Event_ID x = i" "s \<in> set ts"
    | "Event_ID evt = i" "s = a" | "Event_ID evt = i" "s \<in> set targets"
    using assms(2) send by (auto simp: on_the_way_def)
  then show ?thesis
  proof cases
    case 3
    then show ?thesis using send assms(3) passes by (simp add: on_the_way_def offer_def)
  qed (use send in \<open>auto simp: on_the_way_def\<close>)
qed (use assms(2) in \<open>auto simp: on_the_way_def\<close>)

section \<open>No row is missed\<close>

definition row_topic :: "activity_Row \<Rightarrow> string" where
  "row_topic r = EngagementTopic (Entry_EngagementID (Row_Entry r))"

definition wanted :: "opened \<Rightarrow> activity_Row \<Rightarrow> bool" where
  "wanted o' r \<longleftrightarrow> Entry_EngagementID (Row_Entry r) \<noteq> [] \<and> row_topic r \<in> set (Opened_topics o') \<and> Opened_cursor o' < Row_ID r"

text \<open>The row, or the notice that rows were left out, has been written.\<close>

definition written :: "live \<Rightarrow> activity_Row \<Rightarrow> bool" where
  "written l r \<longleftrightarrow> (\<exists>ev. Frame ev \<in> set (L_out l) \<and>
     (Event_ID ev = Row_ID r \<or> Event_Type ev = TypeStreamGap \<and> Event_Topic ev = row_topic r))"

definition cut_off :: "live \<Rightarrow> bool" where
  "cut_off l \<longleftrightarrow> (\<exists>sub. Hub_heap (HC_hub (L_hub l)) (Opened_sub (L_opened l)) = Some sub \<and> subscriber_closed sub)"

definition accounted :: "live \<Rightarrow> activity_Row \<Rightarrow> bool" where
  "accounted l r \<longleftrightarrow> r \<in> set (L_due l) \<or> on_the_way (Opened_sub (L_opened l)) (Row_ID r) (L_hub l) \<or>
     row_topic r \<in> set (L_todo l) \<or> written l r \<or> cut_off l"

definition live_ok :: "live \<Rightarrow> bool" where
  "live_ok l \<longleftrightarrow> hub_ok (L_hub l) \<and> (\<forall>r\<in>set (L_due l). Row_ID r \<noteq> []) \<and>
     (\<exists>sub. Hub_heap (HC_hub (L_hub l)) (Opened_sub (L_opened l)) = Some sub \<and> own_sub (L_opened l) sub) \<and>
     (\<forall>ev\<in>set (HC_read (L_hub l) (Opened_sub (L_opened l))). Frame ev \<in> set (L_out l)) \<and>
     (\<forall>r\<in>set (L_rows l). wanted (L_opened l) r \<longrightarrow> accounted l r)"

lemma EngagementTopic_cut [simp]: "CutPrefix (EngagementTopic e) TopicEngagementPrefix = Some e"
  by (simp add: CutPrefix_def EngagementTopic_def HasPrefix_def)

text \<open>The catch-up writes every row there is, or the notice.\<close>

lemma replay_writes:
  assumes "unfiltered o'" "wanted o' r" "r \<in> set rows" "Opened_cursor o' \<noteq> []" "0 < maxReplay"
  shows "\<exists>ev. Frame ev \<in> set (replay_topic maxReplay now db rows o' (row_topic r)) \<and>
    (Event_ID ev = Row_ID r \<or> Event_Type ev = TypeStreamGap \<and> Event_Topic ev = row_topic r)"
proof -
  let ?e = "Entry_EngagementID (Row_Entry r)"
  let ?all = "sort_key Row_ID (filter (\<lambda>x. Entry_EngagementID (Row_Entry x) = ?e \<and> Opened_cursor o' < Row_ID x) rows)"
  let ?found = "take (nat (maxReplay + 1)) ?all"
  have mem: "r \<in> set ?all" using assms(2,3) by (simp add: wanted_def)
  have cut: "CutPrefix (row_topic r) TopicEngagementPrefix = Some ?e" by (simp add: row_topic_def)
  have flat: "concat (map (\<lambda>ev. [ev]) evs) = evs" for evs :: "Event list" by (induction evs) auto
  have out: "replay_topic maxReplay now db rows o' (row_topic r) =
      (case ReplayAfter ?e (Opened_cursor o') maxReplay rows of (evs, truncated) \<Rightarrow>
         map Frame evs @ (if truncated then [Frame (NewGapEvent ?e ''replay truncated'' now)] else []))"
    using assms(4,5) by (simp add: replay_topic_def cut unfiltered_passes(3) [OF assms(1)] flat split: prod.splits)
  show ?thesis
  proof (cases "int (length ?found) > maxReplay")
    case True
    then have "snd (ReplayAfter ?e (Opened_cursor o') maxReplay rows)"
      using assms(4,5) by (simp add: ReplayAfter_def ReplayAfterCursor_def Let_def)
    then have "Frame (NewGapEvent ?e ''replay truncated'' now) \<in> set (replay_topic maxReplay now db rows o' (row_topic r))"
      unfolding out by (simp add: case_prod_unfold)
    moreover have "Event_Type (NewGapEvent ?e ''replay truncated'' now) = TypeStreamGap"
        "Event_Topic (NewGapEvent ?e ''replay truncated'' now) = row_topic r"
      by (simp_all add: NewGapEvent_def row_topic_def)
    ultimately show ?thesis by blast
  next
    case False
    then have "length ?all \<le> nat (maxReplay + 1)" using assms(5) by auto
    then have "ReplayAfter ?e (Opened_cursor o') maxReplay rows = (map (replay_event ?e) ?all, False)"
      using False assms(4,5) by (simp add: ReplayAfter_def ReplayAfterCursor_def Let_def)
    then show ?thesis unfolding out using mem
      by (intro exI [of _ "replay_event ?e r"]) (auto simp: replay_event_def)
  qed
qed


text \<open>Nothing a step does takes a row out of account.\<close>

lemma accounted_mono:
  assumes "accounted l r" "L_opened l' = L_opened l"
    and "r \<in> set (L_due l) \<Longrightarrow> accounted l' r" "row_topic r \<in> set (L_todo l) \<Longrightarrow> accounted l' r"
    and "set (L_out l) \<subseteq> set (L_out l')"
    and "on_the_way (Opened_sub (L_opened l)) (Row_ID r) (L_hub l) \<Longrightarrow> on_the_way (Opened_sub (L_opened l)) (Row_ID r) (L_hub l')"
    and "cut_off l \<Longrightarrow> cut_off l'"
  shows "accounted l' r"
  using assms by (auto simp: accounted_def written_def)

lemma live_ok_hub:
  assumes ok: "live_ok l" and un: "unfiltered (L_opened l)" and step: "hub_step uuid_Parse (L_hub l) c"
    and reads: "HC_read c (Opened_sub (L_opened l)) = HC_read (L_hub l) (Opened_sub (L_opened l))"
  shows "live_ok (l\<lparr>L_hub := c\<rparr>)"
proof -
  let ?s = "Opened_sub (L_opened l)"
  obtain sub where sub: "Hub_heap (HC_hub (L_hub l)) ?s = Some sub" "own_sub (L_opened l) sub"
    using ok by (auto simp: live_ok_def)
  obtain sub' where sub': "Hub_heap (HC_hub c) ?s = Some sub'" "same_sub sub sub'"
    using hub_step_sub [OF step sub(1)] by blast
  have own: "own_sub (L_opened l) sub'" using sub(2) sub'(2) by (simp add: own_sub_def same_sub_def)
  have off: "cut_off (l\<lparr>L_hub := c\<rparr>)" if "cut_off l" using that sub(1) sub' by (auto simp: cut_off_def same_sub_def)
  have way: "on_the_way ?s i c" if "on_the_way ?s i (L_hub l)" for i
    using hub_step_way [OF step that sub(1)] own_candidate [OF sub(2) un] by blast
  have "accounted (l\<lparr>L_hub := c\<rparr>) r" if "r \<in> set (L_rows l)" "wanted (L_opened l) r" for r
    by (rule accounted_mono [of l]) (use ok that off way in \<open>auto simp: live_ok_def accounted_def\<close>)
  then show ?thesis using ok own sub'(1) reads hub_ok_step [OF step] by (simp add: live_ok_def)
qed

lemma live_ok_record:
  assumes ok: "live_ok l" and "freshID \<noteq> []"
    and run: "Log_Record_row freshID now at e (L_rows l, L_due l) = (res, (rows, due))"
  shows "live_ok (l\<lparr>L_rows := rows, L_due := due\<rparr>)"
proof -
  let ?l' = "l\<lparr>L_rows := rows, L_due := due\<rparr>"
  have rows: "rows = L_rows l \<and> due = L_due l \<or> (\<exists>row. rows = L_rows l @ [row] \<and> Row_ID row = freshID \<and>
      Entry_EngagementID (Row_Entry row) = Entry_EngagementID e \<and>
      due = (if Entry_EngagementID e \<noteq> [] then L_due l @ [row] else L_due l))"
    using run by (auto simp: Log_Record_row_def Entries_Insert_def Let_def split: option.splits if_splits prod.splits sum.splits)
  have old: "accounted ?l' r" if "accounted l r" for r
    by (rule accounted_mono [of l, OF that]) (use rows in \<open>auto simp: accounted_def cut_off_def\<close>)
  have "accounted ?l' r" if r: "r \<in> set rows" "wanted (L_opened l) r" for r
  proof (cases "r \<in> set (L_rows l)")
    case True
    then show ?thesis using old ok r(2) by (simp add: live_ok_def)
  next
    case False
    then have "r \<in> set due" using rows r by (auto simp: wanted_def)
    then show ?thesis by (simp add: accounted_def)
  qed
  then show ?thesis using ok rows assms(2) by (auto simp: live_ok_def split: if_splits)
qed

lemma published_fanned:
  assumes "published_event topic (fanned_event reveal row) freshID now = Some evt" "topic = row_topic row" "Row_ID row \<noteq> []"
  shows "Event_ID evt = Row_ID row \<and> Event_Topic evt = topic"
  using assms by (auto simp: published_event_def fanned_event_def Let_def row_topic_def split: if_splits)

lemma live_ok_fan_out:
  assumes ok: "live_ok l" and row: "row \<in> set (L_due l)"
    and evt: "published_event topic (fanned_event (Some w) row) freshID now = Some evt"
    and topic: "topic = row_topic row"
    and targets: "set targets = set (publish_targets topic (HC_hub (L_hub l)))"
  shows "live_ok (l\<lparr>L_due := remove1 row (L_due l), L_hub := (L_hub l)\<lparr>HC_sending := (evt, targets) # HC_sending (L_hub l)\<rparr>\<rparr>)"
    (is "live_ok ?l'")
proof -
  let ?s = "Opened_sub (L_opened l)"
  have "Row_ID row \<noteq> []" using ok row by (simp add: live_ok_def)
  then have e: "Event_ID evt = Row_ID row" "Event_Topic evt = topic" using published_fanned [OF evt topic] by auto
  obtain sub where sub: "Hub_heap (HC_hub (L_hub l)) ?s = Some sub" "own_sub (L_opened l) sub"
    using ok by (auto simp: live_ok_def)
  have hub: "hub_ok (HC_hub_update (\<lambda>_. HC_hub (L_hub l)) (L_hub l)\<lparr>HC_sending := (evt, targets) # HC_sending (L_hub l)\<rparr>)"
    using hub_ok_publish [of "L_hub l" targets evt] ok targets e(2) by (simp add: live_ok_def)
  have mine: "accounted ?l' row" if "wanted (L_opened l) row"
  proof (cases "subscriber_detached sub")
    case True
    then have "subscriber_closed sub" using ok sub(1) by (auto simp: live_ok_def hub_ok_def sub_ok_def)
    then show ?thesis using sub(1) by (simp add: accounted_def cut_off_def)
  next
    case False
    then have "?s \<in> set (Hub_subs (HC_hub (L_hub l)))" using ok sub(1) by (auto simp: live_ok_def hub_ok_def)
    then have "?s \<in> set targets" using that sub targets topic by (simp add: publish_targets_def wanted_def own_sub_def)
    then show ?thesis using e(1) by (simp add: accounted_def on_the_way_def)
  qed
  have "accounted ?l' r" if r: "r \<in> set (L_rows l)" "wanted (L_opened l) r" for r
  proof (rule accounted_mono [of l r])
    show "accounted l r" using ok r by (simp add: live_ok_def)
    show "accounted ?l' r" if "r \<in> set (L_due l)"
      using that mine r(2) by (cases "r = row") (auto simp: accounted_def)
    show "accounted ?l' r" if "row_topic r \<in> set (L_todo l)" using that by (simp add: accounted_def)
    show "on_the_way ?s (Row_ID r) (L_hub ?l')" if "on_the_way ?s (Row_ID r) (L_hub l)" using that by (auto simp: on_the_way_def)
  qed (simp_all add: cut_off_def)
  moreover have "\<forall>r\<in>set (L_due ?l'). Row_ID r \<noteq> []" using ok notin_set_remove1 by (force simp: live_ok_def)
  ultimately show ?thesis using ok sub hub by (simp add: live_ok_def)
qed


lemma live_ok_catch_up:
  assumes ok: "live_ok l" and un: "unfiltered (L_opened l)" and "0 < maxReplay" "Opened_cursor (L_opened l) \<noteq> []"
    and todo: "L_todo l = topic # todo"
  shows "live_ok (l\<lparr>L_todo := todo, L_out := L_out l @ replay_topic maxReplay now (L_db l) (L_rows l) (L_opened l) topic\<rparr>)"
    (is "live_ok ?l'")
proof -
  have "accounted ?l' r" if r: "r \<in> set (L_rows l)" "wanted (L_opened l) r" for r
  proof (rule accounted_mono [of l r])
    show "accounted l r" using ok r by (simp add: live_ok_def)
    show "accounted ?l' r" if "row_topic r \<in> set (L_todo l)"
    proof (cases "row_topic r = topic")
      case True
      then have "written ?l' r"
        using replay_writes [OF un r(2,1) assms(4,3), of now "L_db l"] by (auto simp: written_def)
      then show ?thesis by (simp add: accounted_def)
    next
      case False
      then show ?thesis using that todo by (simp add: accounted_def)
    qed
  qed (auto simp: cut_off_def accounted_def)
  then show ?thesis using ok by (auto simp: live_ok_def)
qed

lemma live_ok_tail:
  assumes ok: "live_ok l"
    and turn: "tail_turn (Opened_sub (L_opened l)) (HC_hub (L_hub l)) = Some (Some (Frame ev), h')"
  shows "live_ok (l\<lparr>L_out := L_out l @ [Frame ev], L_hub := (L_hub l)\<lparr>HC_hub := h',
      HC_read := (HC_read (L_hub l))(Opened_sub (L_opened l) := HC_read (L_hub l) (Opened_sub (L_opened l)) @ [ev])\<rparr>\<rparr>)"
    (is "live_ok ?l'")
proof -
  let ?s = "Opened_sub (L_opened l)"
  have got: "receive ?s (HC_hub (L_hub l)) = Some (Received ev, h')"
    using turn by (auto simp: tail_turn_def split: option.splits received.splits)
  obtain sub where sub: "Hub_heap (HC_hub (L_hub l)) ?s = Some sub" "own_sub (L_opened l) sub"
    using ok by (auto simp: live_ok_def)
  have h': "h' = hub_set ?s (sub\<lparr>subscriber_ch := tl (subscriber_ch sub)\<rparr>) (HC_hub (L_hub l))"
    using got sub(1) by (auto simp: receive_def split: list.splits if_splits)
  have "hub_ok (L_hub ?l')" using hub_ok_read [OF _ got] ok by (simp add: live_ok_def)
  moreover have "accounted ?l' r" if r: "r \<in> set (L_rows l)" "wanted (L_opened l) r" for r
    by (rule accounted_mono [of l r])
      (use ok r h' sub(1) in \<open>auto simp: live_ok_def on_the_way_def cut_off_def accounted_def\<close>)
  moreover have "own_sub (L_opened l) (sub\<lparr>subscriber_ch := tl (subscriber_ch sub)\<rparr>)" using sub(2) by (simp add: own_sub_def)
  ultimately show ?thesis using ok h' by (auto simp: live_ok_def)
qed

lemma live_ok_step:
  assumes "live_step uuid_Parse maxReplay l l'" "live_ok l" "unfiltered (L_opened l)" "0 < maxReplay" "Opened_cursor (L_opened l) \<noteq> []"
  shows "live_ok l' \<and> L_opened l' = L_opened l"
  using assms(1)
proof cases
  case (recorded freshID now at e r rows due)
  then show ?thesis using live_ok_record [OF assms(2), of freshID now at e r rows due] by simp
next
  case (fan_out row topic w freshID now evt targets)
  then show ?thesis using live_ok_fan_out [OF assms(2) fan_out(2,3)] by (simp add: row_topic_def)
next
  case (hub c)
  then show ?thesis using live_ok_hub [OF assms(2,3), of uuid_Parse c] by (simp add: other_hub_step_def)
next
  case (catch_up topic todo now)
  then show ?thesis using live_ok_catch_up [OF assms(2-5), of topic todo now] by simp
next
  case (tail ev h')
  then show ?thesis using live_ok_tail [OF assms(2)] by simp
qed (use assms(2) in \<open>auto simp: live_ok_def accounted_def written_def cut_off_def\<close>)

lemma Subscribe_topics_all:
  "Subscribe_topics uuid_Parse None topics allowed = Inr allowed' \<Longrightarrow> set allowed' = set allowed \<union> set topics"
  by (induction topics arbitrary: allowed) (auto split: if_splits)

lemma hub_step_topicOK: "hub_step uuid_Parse c c' \<Longrightarrow> Hub_topicOK (HC_hub c') = Hub_topicOK (HC_hub c)"
  by (induction rule: hub_step.induct)
    (auto simp: deliver_def trySend_def detach_def finishDetach_def close_channel_def receive_def
      elim!: Subscribe_cases split: option.splits list.splits if_splits)

lemma hub_run_topicOK: "(hub_step uuid_Parse)\<^sup>*\<^sup>* c c' \<Longrightarrow> Hub_topicOK (HC_hub c') = Hub_topicOK (HC_hub c)"
  by (induction rule: rtranclp_induct) (auto dest: hub_step_topicOK)

lemma live_ok_opened:
  assumes "just_opened uuid_Parse opts l" "Options_TopicAuthz opts = None"
  shows "live_ok l"
proof -
  obtain c Error_text s auth caller topics cursor h' where run: "(hub_step uuid_Parse)\<^sup>*\<^sup>* (hub_init opts) c"
    and fresh: "Hub_heap (HC_hub c) s = None"
    and sub: "SubscribeEvents uuid_Parse Error_text s auth caller topics cursor (L_db l) (HC_hub c) = (Inr (L_opened l), h')"
    and l: "L_hub l = c\<lparr>HC_hub := h'\<rparr>" "L_todo l = Opened_topics (L_opened l)" "\<forall>r\<in>set (L_due l). Row_ID r \<noteq> []"
    using assms(1) by (auto simp: just_opened_def)
  have c: "hub_ok c" "Hub_topicOK (HC_hub c) = None"
    using hub_run_ok [OF run hub_ok_init] hub_run_topicOK [OF run] assms(2) by (auto simp: hub_init_def NewHub_def)
  let ?topics = "filter (topicAllowed (L_db l) caller) topics"
  let ?scopes = "blind_scopes auth (L_db l) ?topics"
  let ?sub = "\<lparr>Subscription_Topics = ?topics, Subscription_Allow = Some (allowFilter ?scopes),
      Subscription_Modify = Some (modifyFilter ?scopes)\<rparr>"
  obtain a where a: "Hub_Subscribe uuid_Parse s ?sub (HC_hub c) = (Inr a, h')"
      "L_opened l = \<lparr>Opened_sub = a, Opened_topics = ?topics, Opened_scopes = ?scopes, Opened_cursor = cursor\<rparr>"
    using sub by (auto simp: SubscribeEvents_def Let_def split: prod.splits sum.splits)
  then obtain allowed where allowed: "Subscribe_topics uuid_Parse None ?topics [] = Inr allowed" "a = s"
      "h' = (hub_set s \<lparr>subscriber_topics = allowed, subscriber_allow = Some (allowFilter ?scopes),
        subscriber_modify = Some (modifyFilter ?scopes), subscriber_ch = [], subscriber_closed = False,
        subscriber_detached = False\<rparr> (HC_hub c))\<lparr>Hub_subs := s # Hub_subs (HC_hub c)\<rparr>"
    using c(2) by (auto simp: Hub_Subscribe_def split: if_splits sum.splits)
  have "set allowed = set ?topics" using Subscribe_topics_all [OF allowed(1)] by simp
  moreover have "hub_ok (L_hub l)" using hub_ok_subscribe [OF c(1) fresh a(1)] l(1) by simp
  moreover have "HC_read c s = []" using c(1) fresh by (simp add: hub_ok_def)
  ultimately show ?thesis using l a(2) allowed(2,3)
    by (auto simp: live_ok_def own_sub_def accounted_def wanted_def)
qed



section \<open>What blue is shown of a hidden step\<close>

text \<open>A piece of evidence on a comment has no execution, and is taken for no part of any step.\<close>

lemma comment_evidence_shown:
  assumes "select1 (\<lambda>v. Evidence_ID v = Entry_ObjectID (Row_Entry row)) (DDB_evidence db) = Some v"
    and "Entry_ObjectType (Row_Entry row) = ObjectEvidence" "Evidence_ExecutionID v = []"
  shows "row_shown_to_blue db row"
  using assms by (simp add: row_shown_to_blue_def resolveActivityStepID_def)

text \<open>A scope is computed when the stream is opened and never again: a filter is a function of the event alone.\<close>

lemma stale_scope:
  assumes "own_sub o' sub" "(hub_step uuid_Parse)\<^sup>*\<^sup>* c c'" "Hub_heap (HC_hub c) s = Some sub"
  shows "\<exists>sub'. Hub_heap (HC_hub c') s = Some sub' \<and> own_sub o' sub'"
  using assms(2,3)
proof (induction rule: rtranclp_induct)
  case (step c1 c2)
  then obtain x where x: "Hub_heap (HC_hub c1) s = Some x" "own_sub o' x" by blast
  then show ?case using hub_step_sub [OF step(2) x(1)] by (auto simp: own_sub_def same_sub_def)
qed (use assms(1) in simp)

lemma list_page_rows: "set (fst (list_page encode n rows)) \<subseteq> set rows"
  by (auto simp: list_page_def newest_first_def Let_def dest!: in_set_takeD)

lemma Entries_List_rows:
  assumes "Entries_List decode encode f rows = Inr (found, cursor)" "r \<in> set found"
  shows "r \<in> set rows \<and> filter_admits f r"
proof -
  let ?page = "\<lambda>P. list_page encode (nat (list_limit (Filter_Limit f))) (filter P rows)"
  have "?page (filter_admits f) = (found, cursor) \<or> (\<exists>c. ?page (\<lambda>r. filter_admits f r \<and> older c r) = (found, cursor))"
    using assms(1) by (auto simp: Entries_List_def Let_def split: if_splits option.splits)
  then show ?thesis
  proof (elim disjE exE)
    assume page: "?page (filter_admits f) = (found, cursor)"
    show ?thesis using list_page_rows [of encode "nat (list_limit (Filter_Limit f))" "filter (filter_admits f) rows"] assms(2)
      unfolding page by auto
  next
    fix c assume page: "?page (\<lambda>r. filter_admits f r \<and> older c r) = (found, cursor)"
    show ?thesis using list_page_rows [of encode "nat (list_limit (Filter_Limit f))" "filter (\<lambda>r. filter_admits f r \<and> older c r) rows"]
        assms(2) unfolding page by auto
  qed
qed


end
