(* ===== verification/Presence.thy ===== *)
theory Presence
  imports Hub Discussion Second_Factor
begin

text \<open>
  Who is in which engagement right now (internal/events/presence/presence.go) and its handlers
  (internal/httpapi/presencehandlers.go). The registry's map is the list of its entries in the order a
  loop over it happens to visit them; identifiers are keys, so they are distinct. The clock is read once
  per operation.
\<close>

section \<open>The registry\<close>

record presence_Focus =
  Focus_StepID :: string
  Focus_ExecutionID :: string

definition noFocus :: presence_Focus where
  "noFocus = \<lparr>Focus_StepID = [], Focus_ExecutionID = []\<rparr>"

record presence_Entry =
  PEntry_PresenceID :: string
  PEntry_UserID :: string
  PEntry_EngagementID :: string
  PEntry_SessionID :: string
  PEntry_DisplayName :: string
  PEntry_Focus :: presence_Focus
  PEntry_LastSeenAt :: gotime

record SnapshotEntry =
  Snap_UserID :: string
  Snap_DisplayName :: string
  Snap_LastSeenAt :: gotime
  Snap_TabCount :: nat
  Snap_Focus :: "presence_Focus option"

record presence_Options =
  POpt_HeartbeatTTL :: duration
  POpt_MaxPerEngagement :: int
  POpt_MaxGlobal :: int
  POpt_SweepInterval :: duration

abbreviation defaultHeartbeatTTL :: duration where "defaultHeartbeatTTL \<equiv> 45 * Second"
abbreviation defaultSweep :: duration where "defaultSweep \<equiv> 10 * Second"

record Registry =
  Reg_entries :: "presence_Entry list"
  Reg_opts :: presence_Options

definition New_Registry :: "presence_Options \<Rightarrow> Registry" where
  "New_Registry opts =
     (let opts = (if POpt_HeartbeatTTL opts \<le> 0 then opts\<lparr>POpt_HeartbeatTTL := defaultHeartbeatTTL\<rparr> else opts);
          opts = (if POpt_SweepInterval opts \<le> 0 then opts\<lparr>POpt_SweepInterval := defaultSweep\<rparr> else opts)
      in \<lparr>Reg_entries = [], Reg_opts = opts\<rparr>)"

definition countInEngagement :: "string \<Rightarrow> presence_Entry list \<Rightarrow> nat" where
  "countInEngagement engagementID entries = length (filter (\<lambda>e. PEntry_EngagementID e = engagementID) entries)"

definition drop_entry :: "string \<Rightarrow> presence_Entry list \<Rightarrow> presence_Entry list" where
  "drop_entry pid entries = filter (\<lambda>e. PEntry_PresenceID e \<noteq> pid) entries"

text \<open>The oldest of the entries looked at so far.\<close>

fun oldest_loop :: "presence_Entry list \<Rightarrow> presence_Entry option \<Rightarrow> presence_Entry option" where
  "oldest_loop [] best = best"
| "oldest_loop (e # rest) best =
     (case best of
        None \<Rightarrow> oldest_loop rest (Some e)
      | Some b \<Rightarrow> oldest_loop rest (if Before (PEntry_LastSeenAt e) (PEntry_LastSeenAt b) then Some e else Some b))"

definition evict :: "presence_Entry option \<Rightarrow> presence_Entry list \<Rightarrow> presence_Entry list" where
  "evict found entries = (case found of None \<Rightarrow> entries | Some e \<Rightarrow> drop_entry (PEntry_PresenceID e) entries)"

definition evictOldestInEngagement :: "string \<Rightarrow> presence_Entry list \<Rightarrow> presence_Entry list" where
  "evictOldestInEngagement engagementID entries =
     evict (oldest_loop (filter (\<lambda>e. PEntry_EngagementID e = engagementID) entries) None) entries"

definition evictOldestGlobal :: "presence_Entry list \<Rightarrow> presence_Entry list" where
  "evictOldestGlobal entries = evict (oldest_loop entries None) entries"

definition Heartbeat :: "gotime \<Rightarrow> presence_Entry \<Rightarrow> Registry \<Rightarrow> bool \<times> Registry" where
  "Heartbeat now e r =
     (let es = Reg_entries r;
          present = (PEntry_PresenceID e \<in> PEntry_PresenceID ` set es);
          per = POpt_MaxPerEngagement (Reg_opts r);
          glob = POpt_MaxGlobal (Reg_opts r);
          n = countInEngagement (PEntry_EngagementID e) es + (if present then 0 else 1);
          es1 = (if per > 0 \<and> int n > per then evictOldestInEngagement (PEntry_EngagementID e) es else es);
          m = length es1 + (if present then 0 else 1);
          es2 = (if glob > 0 \<and> int m > glob then evictOldestGlobal es1 else es1)
      in (\<not> present, r\<lparr>Reg_entries := e\<lparr>PEntry_LastSeenAt := now\<rparr> # drop_entry (PEntry_PresenceID e) es2\<rparr>))"

definition presence_Leave :: "string \<Rightarrow> Registry \<Rightarrow> bool \<times> Registry" where
  "presence_Leave pid r =
     (pid \<in> PEntry_PresenceID ` set (Reg_entries r), r\<lparr>Reg_entries := drop_entry pid (Reg_entries r)\<rparr>)"

definition LeaveUser :: "string \<Rightarrow> string \<Rightarrow> Registry \<Rightarrow> nat \<times> Registry" where
  "LeaveUser userID engagementID r =
     (let mine = (\<lambda>e. PEntry_UserID e = userID \<and> PEntry_EngagementID e = engagementID)
      in (length (filter mine (Reg_entries r)), r\<lparr>Reg_entries := filter (\<lambda>e. \<not> mine e) (Reg_entries r)\<rparr>))"

definition expired_entry :: "duration \<Rightarrow> gotime \<Rightarrow> presence_Entry \<Rightarrow> bool" where
  "expired_entry ttl now e \<longleftrightarrow> Sub now (PEntry_LastSeenAt e) > ttl"

definition presence_Sweep :: "gotime \<Rightarrow> Registry \<Rightarrow> nat \<times> Registry" where
  "presence_Sweep now r =
     (let old = expired_entry (POpt_HeartbeatTTL (Reg_opts r)) now
      in (length (filter old (Reg_entries r)), r\<lparr>Reg_entries := filter (\<lambda>e. \<not> old e) (Reg_entries r)\<rparr>))"

text \<open>The aggregate of one user: a snapshot entry under construction.\<close>

definition set_focus :: "presence_Focus \<Rightarrow> SnapshotEntry \<Rightarrow> SnapshotEntry" where
  "set_focus focus agg = (if focus \<noteq> noFocus then agg\<lparr>Snap_Focus := Some focus\<rparr> else agg)"

definition aggregate :: "presence_Entry \<Rightarrow> SnapshotEntry option \<Rightarrow> SnapshotEntry" where
  "aggregate e seen =
     (case seen of
        None \<Rightarrow> set_focus (PEntry_Focus e) \<lparr>Snap_UserID = PEntry_UserID e, Snap_DisplayName = PEntry_DisplayName e,
            Snap_LastSeenAt = PEntry_LastSeenAt e, Snap_TabCount = 1, Snap_Focus = None\<rparr>
      | Some agg \<Rightarrow>
          (let agg = agg\<lparr>Snap_TabCount := Snap_TabCount agg + 1\<rparr>
           in if After (PEntry_LastSeenAt e) (Snap_LastSeenAt agg)
              then set_focus (PEntry_Focus e) (agg\<lparr>Snap_LastSeenAt := PEntry_LastSeenAt e\<rparr>)
              else agg))"

fun Snapshot_loop :: "presence_Entry list \<Rightarrow> (string \<times> SnapshotEntry) list \<Rightarrow> (string \<times> SnapshotEntry) list" where
  "Snapshot_loop [] byUser = byUser"
| "Snapshot_loop (e # rest) byUser =
     Snapshot_loop rest (AList.update (PEntry_UserID e) (aggregate e (map_of byUser (PEntry_UserID e))) byUser)"

definition Snapshot :: "gotime \<Rightarrow> string \<Rightarrow> Registry \<Rightarrow> SnapshotEntry list \<times> Registry" where
  "Snapshot now engagementID r =
     (let old = expired_entry (POpt_HeartbeatTTL (Reg_opts r)) now;
          here = (\<lambda>e. PEntry_EngagementID e = engagementID)
      in (map snd (Snapshot_loop (filter (\<lambda>e. here e \<and> \<not> old e) (Reg_entries r)) []),
          r\<lparr>Reg_entries := filter (\<lambda>e. \<not> (here e \<and> old e)) (Reg_entries r)\<rparr>))"

section \<open>The handlers\<close>

definition presenceEventJSON :: "presence_Entry \<Rightarrow> json_object" where
  "presenceEventJSON e =
     [(''engagementId'', DString (PEntry_EngagementID e)), (''userId'', DString (PEntry_UserID e)),
      (''displayName'', DString (PEntry_DisplayName e)), (''stepId'', DString (Focus_StepID (PEntry_Focus e))),
      (''executionId'', DString (Focus_ExecutionID (PEntry_Focus e)))]"

definition presenceLeaveJSON :: "string \<Rightarrow> string \<Rightarrow> json_object" where
  "presenceLeaveJSON userID engagementID = [(''userId'', DString userID), (''engagementId'', DString engagementID)]"

text \<open>The event a handler publishes: topic, type and payload.\<close>

definition PutEngagementPresence :: "gotime \<Rightarrow> Caller \<Rightarrow> string \<Rightarrow> string \<Rightarrow> presence_Focus \<Rightarrow> Registry \<Rightarrow>
    (string \<times> string \<times> json_object) \<times> Registry" where
  "PutEngagementPresence now subject engagementID presenceID focus r =
     (let entry = \<lparr>PEntry_PresenceID = presenceID, PEntry_UserID = Caller_UserID subject, PEntry_EngagementID = engagementID,
            PEntry_SessionID = Caller_SessionID subject, PEntry_DisplayName = Caller_DisplayName subject, PEntry_Focus = focus,
            PEntry_LastSeenAt = 0\<rparr>
      in case Heartbeat now entry r of
           (joined, r') \<Rightarrow> ((EngagementTopic engagementID, if joined then TypePresenceJoin else TypePresenceUpdate,
               presenceEventJSON entry), r'))"

definition DeleteEngagementPresence :: "Caller \<Rightarrow> string \<Rightarrow> string option \<Rightarrow> Registry \<Rightarrow>
    (string \<times> string \<times> json_object) \<times> Registry" where
  "DeleteEngagementPresence subject engagementID presenceID r =
     ((EngagementTopic engagementID, TypePresenceLeave, presenceLeaveJSON (Caller_UserID subject) engagementID),
      (case presenceID of
         Some pid \<Rightarrow> snd (presence_Leave pid r)
       | None \<Rightarrow> snd (LeaveUser (Caller_UserID subject) engagementID r)))"

definition focus_target_visible :: "(string \<Rightarrow> error + bool) \<Rightarrow> string \<Rightarrow> bool" where
  "focus_target_visible lookup target \<longleftrightarrow> target \<noteq> [] \<and> lookup target = Inr True"

definition focusIsStripped :: "blind_Scope \<Rightarrow> presence_Focus option \<Rightarrow> (string \<Rightarrow> error + bool) \<Rightarrow> bool" where
  "focusIsStripped scope focus lookup \<longleftrightarrow>
     (if \<not> Withholds scope then False
      else case focus of
        None \<Rightarrow> False
      | Some f \<Rightarrow> \<not> (focus_target_visible lookup (Focus_StepID f) \<or> focus_target_visible lookup (Focus_ExecutionID f)))"

definition shown_entry :: "blind_Scope \<Rightarrow> (string \<Rightarrow> error + bool) \<Rightarrow> SnapshotEntry \<Rightarrow> SnapshotEntry" where
  "shown_entry scope lookup s =
     (if Snap_Focus s \<noteq> None \<and> \<not> focusIsStripped scope (Snap_Focus s) lookup then s else s\<lparr>Snap_Focus := None\<rparr>)"

definition GetEngagementPresence :: "gotime \<Rightarrow> Subject option \<Rightarrow> (string \<Rightarrow> error + bool) \<Rightarrow> string \<Rightarrow> DDB \<Rightarrow> Registry \<Rightarrow>
    SnapshotEntry list \<times> Registry" where
  "GetEngagementPresence now auth lookup engagementID db r =
     (let scope = (case stepBlindScope auth engagementID db of Inl err \<Rightarrow> \<lparr>Scope_Blind = False, Scope_Seat = []\<rparr> | Inr s \<Rightarrow> s)
      in case Snapshot now engagementID r of (snap, r') \<Rightarrow> (map (shown_entry scope lookup) snap, r'))"

end
