(* ===== verification/Presence_Props.thy ===== *)
theory Presence_Props
  imports Presence
begin

text \<open>
  The registry stays within its caps however heartbeats, departures, sweeps and readings follow one
  another; a snapshot shows each user once, with the number of live tabs and the latest heartbeat; what
  the handlers let a caller do to others.
\<close>

section \<open>Steps\<close>

text \<open>The order a loop visits the entries in may change at any time.\<close>

inductive registry_step :: "Registry \<Rightarrow> Registry \<Rightarrow> bool" where
  heartbeat: "registry_step r (snd (Heartbeat now e r))"
| leave: "registry_step r (snd (presence_Leave pid r))"
| leave_user: "registry_step r (snd (LeaveUser userID engagementID r))"
| sweep: "registry_step r (snd (presence_Sweep now r))"
| snapshot: "registry_step r (snd (Snapshot now engagementID r))"
| shuffle: "distinct (map PEntry_PresenceID es) \<Longrightarrow> set es = set (Reg_entries r) \<Longrightarrow> registry_step r (r\<lparr>Reg_entries := es\<rparr>)"

section \<open>Caps\<close>

definition registry_ok :: "Registry \<Rightarrow> bool" where
  "registry_ok r \<longleftrightarrow> distinct (map PEntry_PresenceID (Reg_entries r)) \<and>
     (0 < POpt_MaxGlobal (Reg_opts r) \<longrightarrow> int (length (Reg_entries r)) \<le> POpt_MaxGlobal (Reg_opts r)) \<and>
     (0 < POpt_MaxPerEngagement (Reg_opts r) \<longrightarrow>
        (\<forall>g. int (countInEngagement g (Reg_entries r)) \<le> POpt_MaxPerEngagement (Reg_opts r) + 1))"

lemma count_filter_le: "countInEngagement g (filter P es) \<le> countInEngagement g es"
  unfolding countInEngagement_def by (induction es) auto

lemma distinct_filter_ids: "distinct (map PEntry_PresenceID es) \<Longrightarrow> distinct (map PEntry_PresenceID (filter P es))"
  by (rule distinct_map_filter)

lemma registry_ok_filter:
  assumes "registry_ok r"
  shows "registry_ok (r\<lparr>Reg_entries := filter P (Reg_entries r)\<rparr>)"
proof -
  let ?es = "Reg_entries r"
  have "length (filter P ?es) \<le> length ?es" by simp
  then have "int (length (filter P ?es)) \<le> POpt_MaxGlobal (Reg_opts r)" if "0 < POpt_MaxGlobal (Reg_opts r)"
    using assms that by (simp add: registry_ok_def del: length_filter_le)
  moreover have "int (countInEngagement g (filter P ?es)) \<le> POpt_MaxPerEngagement (Reg_opts r) + 1"
    if "0 < POpt_MaxPerEngagement (Reg_opts r)" for g
  proof -
    have "int (countInEngagement g ?es) \<le> POpt_MaxPerEngagement (Reg_opts r) + 1" using assms that by (simp add: registry_ok_def)
    then show ?thesis using count_filter_le [of g P ?es] by linarith
  qed
  ultimately show ?thesis using assms by (simp add: registry_ok_def distinct_filter_ids)
qed

text \<open>Dropping an identifier that is there takes one entry away, where it is counted.\<close>

lemma drop_one:
  assumes "distinct (map PEntry_PresenceID es)" "x \<in> set es"
  shows "length (drop_entry (PEntry_PresenceID x) es) = length es - 1"
    and "countInEngagement (PEntry_EngagementID x) (drop_entry (PEntry_PresenceID x) es) = countInEngagement (PEntry_EngagementID x) es - 1"
proof -
  have only: "filter (\<lambda>e. PEntry_PresenceID e = PEntry_PresenceID x) es = [x]"
  proof -
    obtain a b where es: "es = a @ x # b" using split_list [OF assms(2)] by blast
    have "PEntry_PresenceID x \<notin> PEntry_PresenceID ` set a" "PEntry_PresenceID x \<notin> PEntry_PresenceID ` set b"
      using assms(1) by (simp_all add: es)
    then have "\<forall>e\<in>set a. PEntry_PresenceID e \<noteq> PEntry_PresenceID x" "\<forall>e\<in>set b. PEntry_PresenceID e \<noteq> PEntry_PresenceID x"
      by (metis image_eqI)+
    then show ?thesis by (simp add: es filter_empty_conv)
  qed
  have "length es = length (filter (\<lambda>e. PEntry_PresenceID e = PEntry_PresenceID x) es) + length (drop_entry (PEntry_PresenceID x) es)"
    unfolding drop_entry_def by (simp add: sum_length_filter_compl)
  then show "length (drop_entry (PEntry_PresenceID x) es) = length es - 1" using only by simp
  let ?mine = "filter (\<lambda>e. PEntry_EngagementID e = PEntry_EngagementID x) es"
  have "length ?mine = length (filter (\<lambda>e. PEntry_PresenceID e = PEntry_PresenceID x) ?mine) +
      length (filter (\<lambda>e. PEntry_PresenceID e \<noteq> PEntry_PresenceID x) ?mine)"
    by (simp only: sum_length_filter_compl)
  moreover have "filter (\<lambda>e. PEntry_PresenceID e = PEntry_PresenceID x) ?mine =
      filter (\<lambda>e. PEntry_EngagementID e = PEntry_EngagementID x) (filter (\<lambda>e. PEntry_PresenceID e = PEntry_PresenceID x) es)"
    by (simp add: conj_commute)
  moreover have "countInEngagement (PEntry_EngagementID x) (drop_entry (PEntry_PresenceID x) es) =
      length (filter (\<lambda>e. PEntry_PresenceID e \<noteq> PEntry_PresenceID x) ?mine)"
    by (simp add: countInEngagement_def drop_entry_def conj_commute)
  ultimately show "countInEngagement (PEntry_EngagementID x) (drop_entry (PEntry_PresenceID x) es) =
      countInEngagement (PEntry_EngagementID x) es - 1"
    unfolding only by (simp add: countInEngagement_def)
qed

lemma oldest_loop_mem: "oldest_loop es best = Some x \<Longrightarrow> x \<in> set es \<or> best = Some x"
  by (induction es best rule: oldest_loop.induct) (auto split: option.splits if_splits)

lemma oldest_loop_ex: "es \<noteq> [] \<or> best \<noteq> None \<Longrightarrow> \<exists>x. oldest_loop es best = Some x"
  by (induction es best rule: oldest_loop.induct) (auto split: option.splits)

lemma drop_entry_count: "countInEngagement g (drop_entry pid es) \<le> countInEngagement g es" "length (drop_entry pid es) \<le> length es"
  unfolding drop_entry_def by (rule count_filter_le) simp

lemma evict_global:
  assumes "distinct (map PEntry_PresenceID es)"
  shows "length (evictOldestGlobal es) = length es - 1" "countInEngagement g (evictOldestGlobal es) \<le> countInEngagement g es"
    "distinct (map PEntry_PresenceID (evictOldestGlobal es))"
proof -
  show "length (evictOldestGlobal es) = length es - 1"
  proof (cases "es = []")
    case False
    then obtain x where x: "oldest_loop es None = Some x" using oldest_loop_ex by blast
    then have "x \<in> set es" using oldest_loop_mem by fastforce
    then show ?thesis using drop_one(1) [OF assms] x by (simp add: evictOldestGlobal_def evict_def)
  qed (simp add: evictOldestGlobal_def evict_def)
  show "countInEngagement g (evictOldestGlobal es) \<le> countInEngagement g es" "distinct (map PEntry_PresenceID (evictOldestGlobal es))"
    using assms drop_entry_count(1)
    by (auto simp: evictOldestGlobal_def evict_def drop_entry_def distinct_filter_ids split: option.splits)
qed

lemma evict_engagement:
  assumes "distinct (map PEntry_PresenceID es)"
  shows "countInEngagement g (evictOldestInEngagement g es) = countInEngagement g es - 1"
    "countInEngagement g' (evictOldestInEngagement g es) \<le> countInEngagement g' es"
    "length (evictOldestInEngagement g es) \<le> length es"
    "distinct (map PEntry_PresenceID (evictOldestInEngagement g es))"
proof -
  let ?mine = "filter (\<lambda>e. PEntry_EngagementID e = g) es"
  show "countInEngagement g (evictOldestInEngagement g es) = countInEngagement g es - 1"
  proof (cases "?mine = []")
    case False
    then obtain x where x: "oldest_loop ?mine None = Some x" using oldest_loop_ex by blast
    then have "x \<in> set ?mine" using oldest_loop_mem by fastforce
    then show ?thesis using drop_one(2) [OF assms, of x] x by (simp add: evictOldestInEngagement_def evict_def)
  qed (simp add: evictOldestInEngagement_def evict_def countInEngagement_def)
  show "countInEngagement g' (evictOldestInEngagement g es) \<le> countInEngagement g' es"
    "length (evictOldestInEngagement g es) \<le> length es" "distinct (map PEntry_PresenceID (evictOldestInEngagement g es))"
    using assms drop_entry_count
    by (auto simp: evictOldestInEngagement_def evict_def drop_entry_def distinct_filter_ids split: option.splits)
qed

lemma evict_filters:
  "\<exists>Q. evictOldestGlobal es = filter Q es" "\<exists>Q. evictOldestInEngagement g es = filter Q es"
proof -
  have "\<exists>Q. evict found es = filter Q es" for found
    by (cases found) (auto simp: evict_def drop_entry_def intro: exI [of _ "\<lambda>e. True"])
  then show "\<exists>Q. evictOldestGlobal es = filter Q es" "\<exists>Q. evictOldestInEngagement g es = filter Q es"
    by (simp_all add: evictOldestGlobal_def evictOldestInEngagement_def)
qed

lemma drop_absent: "pid \<notin> PEntry_PresenceID ` set es \<Longrightarrow> drop_entry pid es = es"
  by (auto simp: drop_entry_def filter_id_conv)

lemma present_filter: "distinct (map PEntry_PresenceID es) \<Longrightarrow> pid \<in> PEntry_PresenceID ` set es \<Longrightarrow>
    length (drop_entry pid es) = length es - 1"
  using drop_one(1) by fastforce


text \<open>
  A heartbeat. One more than the cap of an engagement is possible: a heartbeat that moves to another
  engagement is no new entry, so the room it needs there is not asked for.
\<close>

lemma heartbeat_ok:
  assumes "registry_ok r"
  shows "registry_ok (snd (Heartbeat now e r))"
proof -
  let ?es = "Reg_entries r" and ?pid = "PEntry_PresenceID e" and ?g = "PEntry_EngagementID e"
  let ?per = "POpt_MaxPerEngagement (Reg_opts r)" and ?glob = "POpt_MaxGlobal (Reg_opts r)"
  let ?new = "if ?pid \<in> PEntry_PresenceID ` set ?es then 0 else 1 :: nat"
  define es1 where "es1 = (if ?per > 0 \<and> int (countInEngagement ?g ?es + ?new) > ?per then evictOldestInEngagement ?g ?es else ?es)"
  define es2 where "es2 = (if ?glob > 0 \<and> int (length es1 + ?new) > ?glob then evictOldestGlobal es1 else es1)"
  define es3 where "es3 = e\<lparr>PEntry_LastSeenAt := now\<rparr> # drop_entry ?pid es2"
  have r': "snd (Heartbeat now e r) = r\<lparr>Reg_entries := es3\<rparr>"
    by (simp add: Heartbeat_def es1_def es2_def es3_def Let_def)
  have d: "distinct (map PEntry_PresenceID ?es)" using assms by (simp add: registry_ok_def)
  have d1: "distinct (map PEntry_PresenceID es1)" using evict_engagement(4) [OF d] d by (simp add: es1_def)
  have d2: "distinct (map PEntry_PresenceID es2)" using evict_global(3) [OF d1] d1 by (simp add: es2_def)
  have l1: "length es1 \<le> length ?es" using evict_engagement(3) [OF d] by (simp add: es1_def)
  have c1: "countInEngagement g es1 \<le> countInEngagement g ?es" for g using evict_engagement(2) [OF d] by (simp add: es1_def)
  have c2: "countInEngagement g es2 \<le> countInEngagement g es1" for g using evict_global(2) [OF d1] by (simp add: es2_def)
  have "distinct (map PEntry_PresenceID es3)" using d2 by (auto simp: es3_def drop_entry_def distinct_filter_ids)
  moreover have "int (length es3) \<le> ?glob" if g: "0 < ?glob"
  proof (cases "?pid \<in> PEntry_PresenceID ` set es2")
    case True
    then have "length es3 = length es2" using present_filter [OF d2] by (cases es2) (auto simp: es3_def)
    moreover have "length es2 \<le> length es1" using evict_global(1) [OF d1] by (simp add: es2_def)
    ultimately show ?thesis using l1 assms g by (simp add: registry_ok_def)
  next
    case False
    then have l3: "length es3 = length es2 + 1" by (simp add: es3_def drop_absent)
    have "int (length ?es) \<le> ?glob" using assms g by (simp add: registry_ok_def)
    moreover have "length es2 + 1 \<le> length ?es \<or> int (length es2 + 1) \<le> ?glob"
    proof (cases "?pid \<in> PEntry_PresenceID ` set ?es")
      case there: True
      have all: "\<exists>Q. xs = filter Q xs" for xs :: "presence_Entry list" by (rule exI [of _ "\<lambda>e. True"]) simp
      have "\<exists>Q. es1 = filter Q ?es" using evict_filters(2) [of ?g ?es] all [of ?es] by (simp add: es1_def split: if_split)
      moreover have "\<exists>Q. es2 = filter Q es1" using evict_filters(1) [of es1] all [of es1] by (simp add: es2_def split: if_split)
      ultimately obtain Q1 Q2 where "es1 = filter Q1 ?es" "es2 = filter Q2 es1" by blast
      then have es2: "es2 = filter (\<lambda>e. Q1 e \<and> Q2 e) ?es" by (simp add: conj_commute)
      obtain x where x: "x \<in> set ?es" "PEntry_PresenceID x = ?pid" using there by auto
      have "\<not> (Q1 x \<and> Q2 x)"
      proof
        assume "Q1 x \<and> Q2 x"
        then have "x \<in> set es2" using x(1) by (simp add: es2)
        then show "False" using False x(2) by (metis image_eqI)
      qed
      then have "length es2 < length ?es" unfolding es2 using x(1) by (intro length_filter_less)
      then show ?thesis by simp
    next
      case absent: False
      then show ?thesis using evict_global(1) [OF d1] g l1 by (cases es1) (auto simp: es2_def)
    qed
    ultimately show ?thesis using l3 by linarith
  qed
  moreover have "int (countInEngagement g es3) \<le> ?per + 1" if p: "0 < ?per" for g
  proof -
    have old: "int (countInEngagement h ?es) \<le> ?per + 1" for h using assms p by (simp add: registry_ok_def)
    have two: "countInEngagement h (drop_entry ?pid es2) \<le> countInEngagement h es1" for h
      using drop_entry_count(1) [of h ?pid es2] c2 [of h] by linarith
    show ?thesis
    proof (cases "g = ?g")
      case True
      have "countInEngagement g es3 = 1 + countInEngagement g (drop_entry ?pid es2)" using True by (simp add: es3_def countInEngagement_def)
      moreover have "int (countInEngagement ?g es1) \<le> ?per"
      proof (cases "int (countInEngagement ?g ?es + ?new) > ?per")
        case True
        then have "countInEngagement ?g es1 = countInEngagement ?g ?es - 1"
          using evict_engagement(1) [OF d, of ?g] p by (simp add: es1_def)
        then show ?thesis using old [of ?g] p by linarith
      next
        case False
        then show ?thesis using c1 [of ?g] by linarith
      qed
      ultimately show ?thesis using two [of g] unfolding True by linarith
    next
      case False
      then have "countInEngagement g es3 = countInEngagement g (drop_entry ?pid es2)" by (auto simp: es3_def countInEngagement_def)
      then show ?thesis using two [of g] c1 [of g] old [of g] by linarith
    qed
  qed
  ultimately show ?thesis by (simp add: registry_ok_def r')
qed


lemma registry_ok_step:
  assumes "registry_step r r'" "registry_ok r"
  shows "registry_ok r' \<and> Reg_opts r' = Reg_opts r"
  using assms
proof cases
  case (heartbeat now e)
  then show ?thesis using heartbeat_ok [OF assms(2)] by (simp add: Heartbeat_def Let_def)
next
  case (leave pid)
  then show ?thesis using registry_ok_filter [OF assms(2)] by (simp add: presence_Leave_def drop_entry_def)
next
  case (leave_user userID engagementID)
  then show ?thesis using registry_ok_filter [OF assms(2)] by (simp add: LeaveUser_def Let_def)
next
  case (sweep now)
  then show ?thesis using registry_ok_filter [OF assms(2)] by (simp add: presence_Sweep_def Let_def)
next
  case (snapshot now engagementID)
  then show ?thesis using registry_ok_filter [OF assms(2)] by (simp add: Snapshot_def Let_def)
next
  case (shuffle es)
  have d: "distinct (map PEntry_PresenceID (Reg_entries r))" using assms(2) by (simp add: registry_ok_def)
  have "distinct es" "distinct (Reg_entries r)" using shuffle(2) d by (simp_all add: distinct_map)
  then have "length (filter P es) = length (filter P (Reg_entries r))" for P
    using shuffle(3) by (metis distinct_card distinct_filter set_filter)
  then have count: "countInEngagement g es = countInEngagement g (Reg_entries r)" for g unfolding countInEngagement_def .
  have "length es = length (Reg_entries r)" using \<open>distinct es\<close> \<open>distinct (Reg_entries r)\<close> shuffle(3) by (metis distinct_card)
  then show ?thesis using assms(2) shuffle count by (simp add: registry_ok_def)
qed


section \<open>Snapshots\<close>

definition live_tabs :: "duration \<Rightarrow> gotime \<Rightarrow> string \<Rightarrow> string \<Rightarrow> presence_Entry list \<Rightarrow> presence_Entry list" where
  "live_tabs ttl now engagementID userID es =
     filter (\<lambda>e. PEntry_EngagementID e = engagementID \<and> \<not> expired_entry ttl now e \<and> PEntry_UserID e = userID) es"

lemma set_focus_simps [simp]:
  "Snap_UserID (set_focus f a) = Snap_UserID a" "Snap_TabCount (set_focus f a) = Snap_TabCount a"
  "Snap_LastSeenAt (set_focus f a) = Snap_LastSeenAt a"
  by (simp_all add: set_focus_def)

text \<open>What the loop has built up for one user.\<close>

definition agg_ok :: "presence_Entry list \<Rightarrow> SnapshotEntry option \<Rightarrow> bool" where
  "agg_ok seen a \<longleftrightarrow> (case a of
     None \<Rightarrow> seen = []
   | Some s \<Rightarrow> seen \<noteq> [] \<and> Snap_TabCount s = length seen \<and>
       Snap_LastSeenAt s \<in> PEntry_LastSeenAt ` set seen \<and> (\<forall>e\<in>set seen. PEntry_LastSeenAt e \<le> Snap_LastSeenAt s) \<and>
       (\<forall>e\<in>set seen. PEntry_UserID e = Snap_UserID s))"

lemma aggregate_ok:
  assumes "agg_ok seen a" "\<forall>x\<in>set seen. PEntry_UserID x = PEntry_UserID e"
  shows "agg_ok (seen @ [e]) (Some (aggregate e a))"
  using assms by (auto simp: agg_ok_def aggregate_def Let_def After_def split: option.splits)

lemma Snapshot_loop_ok:
  assumes "\<forall>u. agg_ok (filter (\<lambda>e. PEntry_UserID e = u) seen) (map_of byUser u)" "distinct (map fst byUser)"
  shows "(\<forall>u. agg_ok (filter (\<lambda>e. PEntry_UserID e = u) (seen @ es)) (map_of (Snapshot_loop es byUser) u)) \<and>
    distinct (map fst (Snapshot_loop es byUser))"
  using assms
proof (induction es byUser arbitrary: seen rule: Snapshot_loop.induct)
  case (2 e rest byUser)
  let ?by = "AList.update (PEntry_UserID e) (aggregate e (map_of byUser (PEntry_UserID e))) byUser"
  have "agg_ok (filter (\<lambda>x. PEntry_UserID x = u) (seen @ [e])) (map_of ?by u)" for u
  proof (cases "u = PEntry_UserID e")
    case True
    have "agg_ok (filter (\<lambda>x. PEntry_UserID x = PEntry_UserID e) seen) (map_of byUser (PEntry_UserID e))" using "2.prems"(1) by blast
    then show ?thesis using True aggregate_ok by (simp add: update_conv')
  next
    case False
    then show ?thesis using "2.prems"(1) by (simp add: update_conv')
  qed
  moreover have "distinct (map fst ?by)" using "2.prems"(2) by (rule distinct_update)
  ultimately show ?case using "2.IH" [of "seen @ [e]"] by simp
qed simp

lemma agg_found:
  assumes "agg_ok seen (map_of L u)"
  shows "u \<in> fst ` set L \<longleftrightarrow> seen \<noteq> []"
proof (cases "map_of L u")
  case None
  then have "u \<notin> fst ` set L" by (simp add: map_of_eq_None_iff)
  then show ?thesis using assms None by (simp add: agg_ok_def)
next
  case (Some s)
  then have "u \<in> fst ` set L" by (force dest: map_of_SomeD)
  then show ?thesis using assms Some by (simp add: agg_ok_def)
qed

text \<open>
  C39. A snapshot tells who is there: it lists a user once, exactly when the user has a tab in the
  engagement that has been heard of within the time to live, with the number of such tabs and the
  time of the latest heartbeat among them.
\<close>

theorem snapshot_tells_who:
  assumes "Snapshot now engagementID r = (snap, r')"
  shows "distinct (map Snap_UserID snap) \<and>
    (\<forall>u. u \<in> Snap_UserID ` set snap \<longleftrightarrow> live_tabs (POpt_HeartbeatTTL (Reg_opts r)) now engagementID u (Reg_entries r) \<noteq> []) \<and>
    (\<forall>s\<in>set snap. let tabs = live_tabs (POpt_HeartbeatTTL (Reg_opts r)) now engagementID (Snap_UserID s) (Reg_entries r) in
       Snap_TabCount s = length tabs \<and> Snap_LastSeenAt s = Max (PEntry_LastSeenAt ` set tabs))"
proof -
  let ?ttl = "POpt_HeartbeatTTL (Reg_opts r)"
  let ?here = "filter (\<lambda>e. PEntry_EngagementID e = engagementID \<and> \<not> expired_entry ?ttl now e) (Reg_entries r)"
  let ?L = "Snapshot_loop ?here []"
  have snap: "snap = map snd ?L" using assms by (simp add: Snapshot_def Let_def)
  have tabs: "live_tabs ?ttl now engagementID u (Reg_entries r) = filter (\<lambda>e. PEntry_UserID e = u) ?here" for u
    by (simp add: live_tabs_def conj_ac)
  have loop: "agg_ok (filter (\<lambda>e. PEntry_UserID e = u) ?here) (map_of ?L u)" "distinct (map fst ?L)" for u
    using Snapshot_loop_ok [of "[]" "[]" ?here] by (simp_all add: agg_ok_def)
  have found: "agg_ok (filter (\<lambda>e. PEntry_UserID e = u) ?here) (Some s)" if "(u, s) \<in> set ?L" for u s
    using loop(1) [of u] map_of_is_SomeI [OF loop(2) that] by simp
  have key: "Snap_UserID s = u" if "(u, s) \<in> set ?L" for u s
    using found [OF that] by (auto simp: agg_ok_def filter_empty_conv)
  then have keys: "map Snap_UserID snap = map fst ?L" by (auto simp: snap)
  have "u \<in> set (map fst ?L) \<longleftrightarrow> filter (\<lambda>e. PEntry_UserID e = u) ?here \<noteq> []" for u
    using agg_found [OF loop(1)] by simp
  then have who: "u \<in> Snap_UserID ` set snap \<longleftrightarrow> live_tabs ?ttl now engagementID u (Reg_entries r) \<noteq> []" for u
    unfolding tabs set_map [symmetric] keys .
  have "Snap_TabCount s = length (live_tabs ?ttl now engagementID (Snap_UserID s) (Reg_entries r)) \<and>
      Snap_LastSeenAt s = Max (PEntry_LastSeenAt ` set (live_tabs ?ttl now engagementID (Snap_UserID s) (Reg_entries r)))"
    if "s \<in> set snap" for s
  proof -
    obtain u where u: "(u, s) \<in> set ?L" using \<open>s \<in> set snap\<close> by (auto simp: snap)
    let ?mine = "filter (\<lambda>e. PEntry_UserID e = u) ?here"
    have ok: "agg_ok ?mine (Some s)" using found [OF u] .
    then have "Max (PEntry_LastSeenAt ` set ?mine) = Snap_LastSeenAt s" by (intro Max_eqI) (auto simp: agg_ok_def)
    then show ?thesis using ok key [OF u] tabs by (simp add: agg_ok_def)
  qed
  then show ?thesis using keys loop(2) who by (simp add: Let_def)
qed

section \<open>Whose presence a caller ends\<close>

text \<open>Whoever names an identifier removes the entry, of whoever and wherever, and is the one reported to have left.\<close>

theorem anyone_ends_presence:
  "DeleteEngagementPresence subject engagementID (Some (PEntry_PresenceID e)) r = (published, r') \<Longrightarrow>
     e \<notin> set (Reg_entries r') \<and> published = (EngagementTopic engagementID, TypePresenceLeave,
       presenceLeaveJSON (Caller_UserID subject) engagementID)"
  by (auto simp: DeleteEngagementPresence_def presence_Leave_def drop_entry_def)

text \<open>A focus with one revealed target is shown whole.\<close>

theorem hidden_focus_shown:
  assumes "Snap_Focus s = Some \<lparr>Focus_StepID = shown, Focus_ExecutionID = hidden\<rparr>" "shown \<noteq> []" "lookup shown = Inr True"
  shows "shown_entry scope lookup s = s"
  using assms by (simp add: shown_entry_def focusIsStripped_def focus_target_visible_def)

end
