(* ===== verification/Live_Samples.thy ===== *)
theory Live_Samples
  imports Live_Props Presence_Props Share_Samples
begin

text \<open>
  A hub with one reader, a stream that catches up with one row, a blue reader of the activity of a blind
  engagement and two tabs of one user: the properties of Hub_Props, Live_Props and Presence_Props at work.
\<close>

section \<open>One reader\<close>

definition small_hub :: Hub_Options where
  "small_hub = \<lparr>Options_MaxSubscribers = 0, Options_Buffer = 1, Options_TopicAuthz = None\<rparr>"

definition job_event :: Event where
  "job_event = \<lparr>Event_ID = ''n1'', Event_Topic = TopicContentJobs, Event_Type = TypeContentJobProgress, Event_At = 5, Event_Data = Some []\<rparr>"

definition job_subscription :: "reveals Subscription" where
  "job_subscription = \<lparr>Subscription_Topics = [TopicContentJobs], Subscription_Allow = None, Subscription_Modify = None\<rparr>"

definition job_reader :: "reveals subscriber" where
  "job_reader = \<lparr>subscriber_topics = [TopicContentJobs], subscriber_allow = None, subscriber_modify = None, subscriber_ch = [],
     subscriber_closed = False, subscriber_detached = False\<rparr>"

definition one_reader :: "reveals hub_config" where
  "one_reader = (hub_init small_hub)\<lparr>HC_hub := (hub_set 0 job_reader (NewHub small_hub))\<lparr>Hub_subs := [0]\<rparr>\<rparr>"

lemma one_reader_run: "hub_step (\<lambda>_. True) (hub_init small_hub) one_reader"
proof -
  have "Hub_Subscribe (\<lambda>_. True) 0 job_subscription (NewHub small_hub) =
      (Inr 0, (hub_set 0 job_reader (NewHub small_hub))\<lparr>Hub_subs := [0]\<rparr>)"
    by (simp add: Hub_Subscribe_def job_subscription_def job_reader_def NewHub_def small_hub_def knownTopic_def)
  then show ?thesis
    using hub_step.subscribe [of "hub_init small_hub" 0 "\<lambda>_. True" job_subscription] by (simp add: one_reader_def hub_init_def NewHub_def)
qed

definition delivered :: "reveals hub_config" where
  "delivered = one_reader\<lparr>HC_hub := deliver (\<lambda>_. Inr True) 0 job_event (HC_hub one_reader), HC_sending := [(job_event, [])],
     HC_offered := (\<lambda>s. [])(0 := [job_event])\<rparr>"

lemma delivered_run: "(hub_step (\<lambda>_. True))\<^sup>*\<^sup>* (hub_init small_hub) delivered"
proof -
  have pub: "published_event TopicContentJobs job_event [] 0 = Some job_event"
    by (simp add: published_event_def job_event_def IsZero_def)
  have "set [0] = set (publish_targets (Event_Topic job_event) (HC_hub one_reader))"
    by (simp add: publish_targets_def one_reader_def job_reader_def job_event_def)
  from hub_step.publish [OF pub _ this] have "hub_step (\<lambda>_. True) one_reader (one_reader\<lparr>HC_sending := [(job_event, [0])]\<rparr>)"
    by (simp add: one_reader_def hub_init_def)
  moreover have "hub_step (\<lambda>_. True) (one_reader\<lparr>HC_sending := [(job_event, [0])]\<rparr>) delivered"
    using hub_step.send [of "one_reader\<lparr>HC_sending := [(job_event, [0])]\<rparr>" "[]" job_event 0 "[]" "[]" "\<lambda>_. True" "\<lambda>_. Inr True"]
    by (simp add: delivered_def one_reader_def hub_init_def offer_def candidate_for_def job_reader_def)
  ultimately show ?thesis using one_reader_run by (meson rtranclp.rtrancl_into_rtrancl rtranclp.rtrancl_refl)
qed

theorem hub_no_silent_loss_witness:
  "\<exists>sub. Hub_heap (HC_hub delivered) 0 = Some sub \<and> subscriber_ch sub = [job_event] \<and>
     HC_offered delivered 0 = HC_read delivered 0 @ subscriber_ch sub"
proof -
  obtain sub where sub: "Hub_heap (HC_hub delivered) 0 = Some sub" "subscriber_ch sub = [job_event]" "\<not> subscriber_closed sub"
    by (simp add: delivered_def one_reader_def deliver_def candidate_for_def trySend_def job_reader_def NewHub_def small_hub_def)
  then show ?thesis using hub_no_silent_loss [OF delivered_run sub(1)] by auto
qed


section \<open>A stream that catches up\<close>

definition desk_admin :: Caller where
  "desk_admin = \<lparr>Caller_UserID = ''u1'', Caller_Email = ''u1@lab'', Caller_DisplayName = ''U'', Caller_PlatformRole = PlatformRoleAdmin,
     Caller_Method = MethodCookie, Caller_SessionID = ''k1'', Caller_TokenID = [], Caller_TokenScopes = [],
     Caller_TokenEngagementID = [], Caller_MFASatisfied = True, Caller_MFAEnrolmentRequired = False\<rparr>"

definition desk_activity :: activity_Row where
  "desk_activity = \<lparr>Row_ID = ''b'', Row_Entry = \<lparr>Entry_EngagementID = ''e1'', Entry_ActorID = ''u1'', Entry_Verb = VerbStepRevealed,
     Entry_ObjectType = ObjectStep, Entry_ObjectID = ''t1'', Entry_ParentIDs = [], Entry_Delta = []\<rparr>, Row_At = 5\<rparr>"

definition desk_opened :: opened where
  "desk_opened = \<lparr>Opened_sub = 0, Opened_topics = [EngagementTopic ''e1''],
     Opened_scopes = [(EngagementTopic ''e1'', \<lparr>Scope_Blind = False, Scope_Seat = []\<rparr>)], Opened_cursor = ''a''\<rparr>"

definition desk_subscriber :: "reveals subscriber" where
  "desk_subscriber = \<lparr>subscriber_topics = [EngagementTopic ''e1''], subscriber_allow = Some (allowFilter (Opened_scopes desk_opened)),
     subscriber_modify = Some (modifyFilter (Opened_scopes desk_opened)), subscriber_ch = [],
     subscriber_closed = False, subscriber_detached = False\<rparr>"

definition desk_live :: live where
  "desk_live = \<lparr>L_db = RDB_discussion desk, L_rows = [desk_activity], L_due = [],
     L_hub = (hub_init small_hub)\<lparr>HC_hub := (hub_set 0 desk_subscriber (NewHub small_hub))\<lparr>Hub_subs := [0]\<rparr>\<rparr>,
     L_opened = desk_opened, L_todo = [EngagementTopic ''e1''], L_out = [Retry]\<rparr>"

lemma desk_topic: "EngagementTopic ''e1'' = ''engagement.e1''" "knownTopic (\<lambda>_. True) ''engagement.e1''"
  "CutPrefix ''engagement.e1'' TopicEngagementPrefix = Some ''e1''"
  by (simp_all add: EngagementTopic_def knownTopic_def HasPrefix_def CutPrefix_def)

lemma desk_just_opened: "just_opened (\<lambda>_. True) small_hub desk_live"
proof -
  have scopes: "blind_scopes None (RDB_discussion desk) [''engagement.e1''] = [(''engagement.e1'', \<lparr>Scope_Blind = False, Scope_Seat = []\<rparr>)]"
    by (simp add: blind_scopes_def desk_topic stepBlindScope_def Engagements_ByID_def desk_def lab_def lab_engagement_def table_simps)
  have admin: "topicAllowed (RDB_discussion desk) desk_admin t" for t by (simp add: topicAllowed_def desk_admin_def)
  have allowed: "Subscribe_topics (\<lambda>_. True) None [''engagement.e1''] [] = Inr [''engagement.e1'']"
    using desk_topic(2) by simp
  have sub: "Hub_Subscribe (\<lambda>_. True) 0 \<lparr>Subscription_Topics = [''engagement.e1''], Subscription_Allow = a, Subscription_Modify = m\<rparr>
      (NewHub small_hub) = (Inr 0, (hub_set 0 \<lparr>subscriber_topics = [''engagement.e1''], subscriber_allow = a, subscriber_modify = m,
        subscriber_ch = [], subscriber_closed = False, subscriber_detached = False\<rparr> (NewHub small_hub))\<lparr>Hub_subs := [0]\<rparr>)"
    for a and m :: "(reveals \<Rightarrow> Event \<Rightarrow> Event) option"
    unfolding Hub_Subscribe_def using allowed by (simp add: NewHub_def small_hub_def)
  have "SubscribeEvents (\<lambda>_. True) (\<lambda>_. []) 0 None desk_admin [EngagementTopic ''e1''] ''a'' (RDB_discussion desk) (NewHub small_hub) =
      (Inr desk_opened, (hub_set 0 desk_subscriber (NewHub small_hub))\<lparr>Hub_subs := [0]\<rparr>)"
    by (simp add: SubscribeEvents_def Let_def admin desk_topic(1) scopes sub desk_opened_def desk_subscriber_def)
  then show ?thesis unfolding just_opened_def
    by (intro exI [of _ "hub_init small_hub"] exI [of _ "\<lambda>_. []"] exI [of _ 0] exI [of _ None] exI [of _ desk_admin]
        exI [of _ "[EngagementTopic ''e1'']"] exI [of _ "''a''"] exI [of _ "(hub_set 0 desk_subscriber (NewHub small_hub))\<lparr>Hub_subs := [0]\<rparr>"])
      (simp add: desk_live_def hub_init_def NewHub_def desk_opened_def)
qed


section \<open>A blue reader\<close>

definition desk_blue :: Subject where
  "desk_blue = \<lparr>Subject_UserID = ''u3'', Subject_PlatformRole = PlatformRoleMember, Subject_Memberships = [(''e1'', EngagementRoleBlue)],
     Subject_Method = MethodCookie, Subject_TokenScopes = [], Subject_TokenEngagementID = [], Subject_MFASatisfied = True\<rparr>"

definition desk_filter :: ListFilter where
  "desk_filter = \<lparr>Filter_ScopePlatform = False, Filter_ScopeEngagement = ''e1'', Filter_ActorID = [], Filter_Verb = [],
     Filter_ObjectType = [], Filter_ObjectID = [], Filter_Cursor = [], Filter_Limit = 10\<rparr>"

lemma desk_step: "Step_ID (lab_step ''t1'' ''s1'' 1 (Some 5000)) = ''t1''"
  by (simp add: lab_step_def)


section \<open>Two tabs\<close>

definition tab :: "string \<Rightarrow> presence_Entry" where
  "tab pid = \<lparr>PEntry_PresenceID = pid, PEntry_UserID = ''u1'', PEntry_EngagementID = ''e1'', PEntry_SessionID = ''k1'',
     PEntry_DisplayName = ''U'', PEntry_Focus = noFocus, PEntry_LastSeenAt = 0\<rparr>"

definition tab_options :: presence_Options where
  "tab_options = \<lparr>POpt_HeartbeatTTL = 0, POpt_MaxPerEngagement = 1, POpt_MaxGlobal = 2, POpt_SweepInterval = 0\<rparr>"

definition tab_registry :: Registry where
  "tab_registry = snd (Heartbeat 7 (tab ''p1'') (New_Registry tab_options))"


theorem snapshot_tells_who_witness:
  "\<exists>s r'. Snapshot 8 ''e1'' tab_registry = ([s], r') \<and> Snap_TabCount s = 1 \<and> Snap_LastSeenAt s = 7"
proof -
  have run: "\<exists>s r'. Snapshot 8 ''e1'' tab_registry = ([s], r') \<and> Snap_UserID s = ''u1''"
    by (simp add: Snapshot_def tab_registry_def Heartbeat_def New_Registry_def tab_options_def tab_def noFocus_def drop_entry_def
        countInEngagement_def expired_entry_def Sub_def minDuration_def maxDuration_def Second_def aggregate_def set_focus_def Let_def)
  then obtain s r' where s: "Snapshot 8 ''e1'' tab_registry = ([s], r')" "Snap_UserID s = ''u1''" by blast
  have "live_tabs (POpt_HeartbeatTTL (Reg_opts tab_registry)) 8 ''e1'' ''u1'' (Reg_entries tab_registry) = [(tab ''p1'')\<lparr>PEntry_LastSeenAt := 7\<rparr>]"
    by (simp add: live_tabs_def tab_registry_def Heartbeat_def New_Registry_def tab_options_def tab_def drop_entry_def
        countInEngagement_def expired_entry_def Sub_def minDuration_def maxDuration_def Second_def Let_def)
  then show ?thesis using snapshot_tells_who [OF s(1)] s by (simp add: Let_def)
qed

end
