(* ===== verification/Fanout.thy ===== *)
theory Fanout
  imports Apierr
begin

text \<open>
  Write transactions and what runs behind their commit (internal/store/db.go \<open>Write\<close>,
  \<open>acquireWrite\<close>; internal/store/postcommit.go). The data, the callbacks and the body are arguments: a
  body answers with the data it would commit, with an error or by panicking, and pushes
  callbacks while it runs. What the driver answers to a checkout, a begin, a commit and a rollback is an
  argument too. What ran behind the commits is the log \<open>Store_ran\<close>; a callback that panics is recovered, so
  it cannot keep the next from running.
\<close>

abbreviation ErrClosed :: string where "ErrClosed \<equiv> ''store: database is closed''"

record ('d, 'c) Store_state =
  Store_data :: 'd
  Store_queue :: "'c list"
  Store_ran :: "'c list"

section \<open>The queue (postcommit.go)\<close>

definition Push :: "'c \<Rightarrow> ('d, 'c) Store_state \<Rightarrow> ('d, 'c) Store_state" where
  "Push fn s = s\<lparr>Store_queue := Store_queue s @ [fn]\<rparr>"

definition Flush :: "('d, 'c) Store_state \<Rightarrow> ('d, 'c) Store_state" where
  "Flush s = s\<lparr>Store_ran := Store_ran s @ Store_queue s, Store_queue := []\<rparr>"

definition Clear :: "('d, 'c) Store_state \<Rightarrow> ('d, 'c) Store_state" where
  "Clear s = s\<lparr>Store_queue := []\<rparr>"

definition RunPostCommit :: "'c list \<Rightarrow> ('d, 'c) Store_state \<Rightarrow> ('d, 'c) Store_state" where
  "RunPostCommit fns s = (if fns = [] then s else s\<lparr>Store_ran := Store_ran s @ fns\<rparr>)"

section \<open>The lock (db.go)\<close>

datatype lock_case = Locked | Closing | Cancelled error

text \<open>The context before the wait, whether the store is closing, what the wait chose, and the context after it.\<close>

definition acquireWrite :: "error option \<Rightarrow> bool \<Rightarrow> lock_case \<Rightarrow> error option \<Rightarrow> error option" where
  "acquireWrite ctx_before closing chosen ctx_after =
     (case ctx_before of
        Some err \<Rightarrow> Some err
      | None \<Rightarrow>
          if closing then Some (Sentinel ErrClosed)
          else (case chosen of
                  Closing \<Rightarrow> Some (Sentinel ErrClosed)
                | Cancelled err \<Rightarrow> Some err
                | Locked \<Rightarrow> (case ctx_after of Some err \<Rightarrow> Some err | None \<Rightarrow> None)))"

section \<open>A write\<close>

datatype 'd body_end = Returned 'd | Failed error | Panicked

text \<open>What \<open>Write\<close> ends with; a joined error has two parts.\<close>

datatype write_end = Committed | Refused error | RolledBack error | RolledBackBadly error error | Aborted

record driver =
  Drv_lock :: "error option"
  Drv_conn :: "error option"
  Drv_begin :: "error option"
  Drv_commit :: "error option"
  Drv_rollback :: "error option"

definition store_Write :: "driver \<Rightarrow> 'c list \<Rightarrow> ('d \<Rightarrow> 'd body_end \<times> 'c list) \<Rightarrow> ('d, 'c) Store_state \<Rightarrow>
    write_end \<times> ('d, 'c) Store_state" where
  "store_Write drv registered fn s =
     (case Drv_lock drv of
        Some err \<Rightarrow> (Refused err, s)
      | None \<Rightarrow>
      (case Drv_conn drv of
         Some err \<Rightarrow> (Refused (ErrorfW ''store: checkout write connection'' err), s)
       | None \<Rightarrow>
       (case Drv_begin drv of
          Some err \<Rightarrow> (Refused (ErrorfW ''store: begin write transaction'' err), s)
        | None \<Rightarrow>
          (case fn (Store_data s) of
             (res, pushed) \<Rightarrow>
               (let s1 = fold Push pushed s
                in case res of
                     Panicked \<Rightarrow> (Aborted, s1)
                   | Failed err \<Rightarrow>
                       (case Drv_rollback drv of
                          Some rbErr \<Rightarrow> (RolledBackBadly err (ErrorfW ''store: rollback'' rbErr), s1)
                        | None \<Rightarrow> (RolledBack err, Clear s1))
                   | Returned d \<Rightarrow>
                       (case Drv_commit drv of
                          Some err \<Rightarrow> (Refused (ErrorfW ''store: commit write transaction'' err), s1)
                        | None \<Rightarrow> (Committed, Flush (RunPostCommit registered (s1\<lparr>Store_data := d\<rparr>)))))))))"

section \<open>What runs belongs to what was committed\<close>

text \<open>A run of writes: for each what it ended with and the callbacks its body pushed.\<close>

fun run_writes :: "(driver \<times> 'c list \<times> ('d \<Rightarrow> 'd body_end \<times> 'c list)) list \<Rightarrow> ('d, 'c) Store_state \<Rightarrow>
    (write_end \<times> 'c list) list \<times> ('d, 'c) Store_state" where
  "run_writes [] s = ([], s)"
| "run_writes ((drv, registered, fn) # rest) s =
     (case store_Write drv registered fn s of
        (e, s1) \<Rightarrow> (case run_writes rest s1 of (ends, s2) \<Rightarrow> ((e, registered @ snd (fn (Store_data s))) # ends, s2)))"

definition clean_end :: "driver \<times> 'c list \<times> ('d \<Rightarrow> 'd body_end \<times> 'c list) \<Rightarrow> bool" where
  "clean_end w \<longleftrightarrow> (case w of (drv, registered, fn) \<Rightarrow>
     Drv_commit drv = None \<and> Drv_rollback drv = None \<and> (\<forall>d. fst (fn d) \<noteq> Panicked))"

lemma fold_Push: "fold Push fns s = s\<lparr>Store_queue := Store_queue s @ fns\<rparr>"
  by (induction fns arbitrary: s) (simp_all add: Push_def)

lemma clean_write:
  assumes "clean_end (drv, registered, fn)" "Store_queue s = []" "store_Write drv registered fn s = (e, s')"
  shows "Store_queue s' = [] \<and>
    Store_ran s' = Store_ran s @ (if e = Committed then registered @ snd (fn (Store_data s)) else []) \<and>
    Store_data s' = (if e = Committed then (case fst (fn (Store_data s)) of Returned d \<Rightarrow> d | _ \<Rightarrow> Store_data s) else Store_data s)"
proof -
  obtain res pushed where fn: "fn (Store_data s) = (res, pushed)" by (meson surj_pair)
  have "res \<noteq> Panicked" "Drv_commit drv = None" "Drv_rollback drv = None"
    using assms(1) fn unfolding clean_end_def by (simp_all, metis fst_conv)
  then show ?thesis
    using assms(2,3) fn
    by (auto simp: store_Write_def fold_Push Flush_def Clear_def RunPostCommit_def Let_def
        split: option.splits body_end.splits if_splits)
qed

text \<open>
  C40. Live readers hear of nothing that was not committed, and of everything that was, in order: over any
  run of write transactions in which no body panics and no commit or rollback fails in the
  driver, the callbacks that have run are exactly those of the transactions that committed, and none is left.
\<close>

theorem fanout_follows_commits:
  assumes "\<forall>w\<in>set ws. clean_end w" "Store_queue s = []" "run_writes ws s = (ends, s')"
  shows "Store_ran s' = Store_ran s @ concat (map snd (filter (\<lambda>e. fst e = Committed) ends)) \<and> Store_queue s' = []"
  using assms
proof (induction ws s arbitrary: ends rule: run_writes.induct)
  case (2 drv registered fn rest s)
  obtain e s1 where w: "store_Write drv registered fn s = (e, s1)" by (meson surj_pair)
  obtain ends' s2 where r: "run_writes rest s1 = (ends', s2)" by (meson surj_pair)
  have clean: "clean_end (drv, registered, fn)" using "2.prems"(1) by simp
  note one = clean_write [OF clean "2.prems"(2) w]
  have s': "s' = s2" and ends: "ends = (e, registered @ snd (fn (Store_data s))) # ends'" using "2.prems"(3) w r by auto
  have "Store_ran s2 = Store_ran s1 @ concat (map snd (filter (\<lambda>e. fst e = Committed) ends')) \<and> Store_queue s2 = []"
    using "2.IH" [OF w [symmetric], of ends'] "2.prems"(1) one r unfolding s' by simp
  then show ?case using one by (simp add: s' ends)
qed simp

text \<open>
  Without that, they do: the callbacks of a body whose commit failed, or that panicked, stay in the queue,
  and run behind the next transaction that commits.
\<close>

theorem lost_commit_is_published:
  assumes "Store_queue s = []" "fn (Store_data s) = (Returned d, [c])" "fn' (Store_data s) = (Returned d', [])"
    and "Drv_lock drv = None" "Drv_conn drv = None" "Drv_begin drv = None" "Drv_commit drv = Some err"
    and "Drv_lock drv' = None" "Drv_conn drv' = None" "Drv_begin drv' = None" "Drv_commit drv' = None"
  shows "\<exists>s1 s2. store_Write drv [] fn s = (Refused (ErrorfW ''store: commit write transaction'' err), s1) \<and>
    Store_data s1 = Store_data s \<and> store_Write drv' [] fn' s1 = (Committed, s2) \<and> Store_ran s2 = Store_ran s @ [c]"
  using assms by (simp add: store_Write_def Push_def Flush_def RunPostCommit_def)

section \<open>A sample\<close>

definition sample_driver :: driver where
  "sample_driver = \<lparr>Drv_lock = None, Drv_conn = None, Drv_begin = None, Drv_commit = None, Drv_rollback = None\<rparr>"

definition sample_writes :: "(driver \<times> string list \<times> (nat \<Rightarrow> nat body_end \<times> string list)) list" where
  "sample_writes = [(sample_driver, [], \<lambda>d. (Returned (d + 1), [''one''])),
     (sample_driver, [], \<lambda>d. (Failed SqlNoRows, [''two''])), (sample_driver, [], \<lambda>d. (Returned (d + 1), [''three'']))]"

definition sample_store :: "(nat, string) Store_state" where
  "sample_store = \<lparr>Store_data = 0, Store_queue = [], Store_ran = []\<rparr>"

theorem fanout_follows_commits_witness:
  "Store_ran (snd (run_writes sample_writes sample_store)) = [''one'', ''three''] \<and>
   map fst (fst (run_writes sample_writes sample_store)) = [Committed, RolledBack SqlNoRows, Committed]"
proof -
  obtain ends s' where run: "run_writes sample_writes sample_store = (ends, s')" by (meson surj_pair)
  have "\<forall>w\<in>set sample_writes. clean_end w" by (simp add: sample_writes_def clean_end_def sample_driver_def)
  from fanout_follows_commits [OF this _ run]
  have ran: "Store_ran s' = concat (map snd (filter (\<lambda>e. fst e = Committed) ends))" by (simp add: sample_store_def)
  have "ends = [(Committed, [''one'']), (RolledBack SqlNoRows, [''two'']), (Committed, [''three''])]"
    using run by (auto simp: sample_writes_def sample_store_def store_Write_def sample_driver_def Push_def Flush_def Clear_def
        RunPostCommit_def)
  then show ?thesis using ran run by simp
qed

end
