(* ===== verification/Content_Store.thy ===== *)
theory Content_Store
  imports Workbook_Store Go_Text
begin

text \<open>
  The registry of content libraries (internal/store/content): the paths below the content directory
  (path.go), the registered sources (sources.go), their versions (versions.go) and the jobs that fill
  them (jobs.go), as tables with the constraints of 0011_content.sql. There are no foreign keys in this
  schema. An absolute path is a string that begins with a slash; \<open>filepath.Clean\<close>, \<open>Join\<close> and \<open>Rel\<close>
  are written out over its segments. The object tables of a source (techniques, rules, plans) are
  kept as the table, the source and the version they name: no operation here reads more.
\<close>

section \<open>Paths (path.go)\<close>

abbreviation slash :: char where "slash \<equiv> CHR ''/''"

abbreviation RawRoot :: string where "RawRoot \<equiv> ''raw''"
abbreviation UploadRoot :: string where "UploadRoot \<equiv> ''uploads''"

text \<open>The segments a path names, and how Clean resolves the dots: a climb above a root stays there.\<close>

definition path_segs :: "string \<Rightarrow> string list" where
  "path_segs s = filter (\<lambda>x. x \<noteq> [] \<and> x \<noteq> ''.'') (Split s slash)"

fun clean_segs :: "bool \<Rightarrow> string list \<Rightarrow> string list \<Rightarrow> string list" where
  "clean_segs rooted acc [] = rev acc"
| "clean_segs rooted acc (x # xs) =
     (if x = ''..''
      then (case acc of
              [] \<Rightarrow> clean_segs rooted (if rooted then [] else [x]) xs
            | a # acc' \<Rightarrow> if a = ''..'' then clean_segs rooted (x # acc) xs else clean_segs rooted acc' xs)
      else clean_segs rooted (x # acc) xs)"

definition IsAbs :: "string \<Rightarrow> bool" where
  "IsAbs s \<longleftrightarrow> HasPrefix s [slash]"

definition path_Clean :: "string \<Rightarrow> string" where
  "path_Clean s =
     (let segs = clean_segs (IsAbs s) [] (path_segs s)
      in if IsAbs s then slash # Join segs [slash] else if segs = [] then ''.'' else Join segs [slash])"

definition path_Join :: "string list \<Rightarrow> string" where
  "path_Join parts =
     (let named = filter (\<lambda>p. p \<noteq> []) parts in if named = [] then [] else path_Clean (Join named [slash]))"

text \<open>What is left of the target below the base, and the climbs from the base to where they part.\<close>

fun rel_segs :: "string list \<Rightarrow> string list \<Rightarrow> string list" where
  "rel_segs (b # bs) (t # ts) = (if b = t then rel_segs bs ts else replicate (Suc (length bs)) ''..'' @ t # ts)"
| "rel_segs bs ts = replicate (length bs) ''..'' @ ts"

text \<open>\<open>filepath.Rel\<close>, as segments; None when only one of the two is absolute.\<close>

definition path_Rel :: "string \<Rightarrow> string \<Rightarrow> string list option" where
  "path_Rel base targ =
     (if IsAbs base \<noteq> IsAbs targ then None
      else Some (rel_segs (clean_segs (IsAbs base) [] (path_segs base)) (clean_segs (IsAbs targ) [] (path_segs targ))))"

definition climbs :: "string list \<Rightarrow> bool" where
  "climbs rel \<longleftrightarrow> rel \<noteq> [] \<and> hd rel = ''..''"

definition containsDotDot :: "string \<Rightarrow> bool" where
  "containsDotDot slashPath \<longleftrightarrow> ''..'' \<in> set (Split slashPath slash)"

definition checkPathSegment :: "string \<Rightarrow> string \<Rightarrow> error option" where
  "checkPathSegment name val =
     (if val = [] then Some (ErrorsNew (''content: '' @ name @ '' must not be empty''))
      else if slash \<in> set val \<or> CHR 0x5C \<in> set val \<or> Index val ''..'' \<noteq> None \<or> CHR 0x00 \<in> set val \<or>
              val = ''.'' \<or> val = ''..''
      then Some (ErrorsNew (''content: '' @ name @ '' '' @ Quote val @ '' is not a safe path segment''))
      else None)"

fun check_segments :: "(string \<times> string) list \<Rightarrow> error option" where
  "check_segments [] = None"
| "check_segments ((name, val) # rest) =
     (case checkPathSegment name val of Some err \<Rightarrow> Some err | None \<Rightarrow> check_segments rest)"

definition RawRel :: "string \<Rightarrow> string \<Rightarrow> string \<Rightarrow> error + string" where
  "RawRel sourceID version sha256 =
     (case check_segments [(''source id'', sourceID), (''version'', version), (''sha256'', sha256)] of
        Some err \<Rightarrow> Inl err
      | None \<Rightarrow> Inr (path_Join [RawRoot, sourceID, version, sha256]))"

definition CleanRel :: "string \<Rightarrow> error + string" where
  "CleanRel rel =
     (if rel = [] then Inl (ErrorsNew ''content: raw path must not be empty'')
      else if CHR 0x00 \<in> set rel then Inl (ErrorsNew ''content: raw path must not contain NUL'')
      else if CHR 0x5C \<in> set rel
      then Inl (ErrorsNew (''content: raw path must use '' @ [CHR 0x27] @ ''/'' @ [CHR 0x27] @ '' separators, got '' @ Quote rel))
      else if IsAbs rel then Inl (ErrorsNew (''content: raw path must be relative, got '' @ Quote rel))
      else if containsDotDot rel then Inl (ErrorsNew (''content: raw path must not contain '' @ Quote ''..'' @ '': '' @ Quote rel))
      else
       (let clean = path_Clean rel
        in if clean = ''.'' \<or> clean = ''..'' \<or> HasPrefix clean ''../''
           then Inl (ErrorsNew (''content: raw path '' @ Quote rel @ '' is not under the content data root''))
           else if IsAbs clean then Inl (ErrorsNew (''content: raw path must be relative, got '' @ Quote rel))
           else Inr clean))"

definition Paths_Abs :: "string \<Rightarrow> string \<Rightarrow> error + string" where
  "Paths_Abs root rel =
     (case CleanRel rel of
        Inl err \<Rightarrow> Inl err
      | Inr clean \<Rightarrow>
         (let abs_path = path_Join [root, clean]
          in case path_Rel root abs_path of
               None \<Rightarrow> Inl (ErrorfW (''content: resolve '' @ Quote rel) (ErrorsNew ''Rel: can't make target relative to base''))
             | Some relToRoot \<Rightarrow>
                 if climbs relToRoot
                 then Inl (ErrorsNew (''content: path '' @ Quote rel @ '' escapes content data root '' @ Quote root))
                 else Inr abs_path))"

section \<open>Rows\<close>

type_synonym content_Kind = string

abbreviation KindAttack :: content_Kind where "KindAttack \<equiv> ''attack''"
abbreviation KindAtomic :: content_Kind where "KindAtomic \<equiv> ''atomic''"
abbreviation KindSigma :: content_Kind where "KindSigma \<equiv> ''sigma''"
abbreviation KindCTID :: content_Kind where "KindCTID \<equiv> ''ctid''"
abbreviation KindCustom :: content_Kind where "KindCustom \<equiv> ''custom''"

abbreviation VersionCurrent :: string where "VersionCurrent \<equiv> ''current''"
abbreviation SourceIDCustom :: string where "SourceIDCustom \<equiv> ''01900000-0000-7000-8000-000000000005''"

type_synonym SourceStatus = string

abbreviation SourceStatusIdle :: SourceStatus where "SourceStatusIdle \<equiv> ''idle''"
abbreviation SourceStatusSyncing :: SourceStatus where "SourceStatusSyncing \<equiv> ''syncing''"
abbreviation SourceStatusError :: SourceStatus where "SourceStatusError \<equiv> ''error''"

type_synonym VersionStatus = string

abbreviation VersionStatusPending :: VersionStatus where "VersionStatusPending \<equiv> ''pending''"
abbreviation VersionStatusReady :: VersionStatus where "VersionStatusReady \<equiv> ''ready''"
abbreviation VersionStatusError :: VersionStatus where "VersionStatusError \<equiv> ''error''"

type_synonym JobKind = string

abbreviation JobKindSync :: JobKind where "JobKindSync \<equiv> ''sync''"
abbreviation JobKindReprocess :: JobKind where "JobKindReprocess \<equiv> ''reprocess''"
abbreviation JobKindBundleImport :: JobKind where "JobKindBundleImport \<equiv> ''bundle_import''"
abbreviation JobKindV1Import :: JobKind where "JobKindV1Import \<equiv> ''v1_import''"

type_synonym JobStatus = string

abbreviation JobStatusQueued :: JobStatus where "JobStatusQueued \<equiv> ''queued''"
abbreviation JobStatusRunning :: JobStatus where "JobStatusRunning \<equiv> ''running''"
abbreviation JobStatusCancelling :: JobStatus where "JobStatusCancelling \<equiv> ''cancelling''"
abbreviation JobStatusCancelled :: JobStatus where "JobStatusCancelled \<equiv> ''cancelled''"
abbreviation JobStatusSucceeded :: JobStatus where "JobStatusSucceeded \<equiv> ''succeeded''"
abbreviation JobStatusFailed :: JobStatus where "JobStatusFailed \<equiv> ''failed''"
abbreviation JobStatusInterrupted :: JobStatus where "JobStatusInterrupted \<equiv> ''interrupted''"

record Source =
  Source_ID :: string
  Source_Kind :: content_Kind
  Source_Name :: string
  Source_URL :: string
  Source_Ref :: string
  Source_Enabled :: bool
  Source_Status :: SourceStatus
  Source_LastSyncedAt :: gotime
  Source_ItemCount :: int
  Source_Error :: string
  Source_LicenseSPDX :: string
  Source_LicenseName :: string
  Source_LicenseURL :: string
  Source_Attribution :: string
  Source_CreatedAt :: gotime
  Source_UpdatedAt :: gotime

record SourceVersion =
  SVersion_ID :: string
  SVersion_SourceID :: string
  SVersion_Version :: string
  SVersion_Status :: VersionStatus
  SVersion_ItemCount :: int
  SVersion_SyncedAt :: gotime
  SVersion_Error :: string
  SVersion_RawSHA256 :: string
  SVersion_RawPath :: string
  SVersion_RawBytes :: int
  SVersion_CreatedAt :: gotime
  SVersion_UpdatedAt :: gotime

text \<open>The checkpoint of a job: the fields its writers put into the JSON column; \<open>{}\<close> has none of them.\<close>

record Checkpoint =
  CP_skip_fetch :: bool
  CP_bundle_path :: string
  CP_bundle_sha256 :: string
  CP_cleanup_upload :: bool
  CP_format :: string
  CP_fail_fast :: bool
  CP_filename :: string

definition no_checkpoint :: Checkpoint where
  "no_checkpoint = \<lparr>CP_skip_fetch = False, CP_bundle_path = [], CP_bundle_sha256 = [], CP_cleanup_upload = False,
     CP_format = [], CP_fail_fast = False, CP_filename = []\<rparr>"

record Job =
  Job_ID :: string
  Job_SourceID :: string
  Job_Version :: string
  Job_Kind :: JobKind
  Job_Status :: JobStatus
  Job_Phase :: string
  Job_ProgressCurrent :: int
  Job_ProgressTotal :: int
  Job_Message :: string
  Job_Error :: string
  Job_CreatedBy :: string
  Job_CreatedAt :: gotime
  Job_StartedAt :: gotime
  Job_FinishedAt :: gotime
  Job_Checkpoint :: Checkpoint

record CDB =
  CDB_sources :: "Source list"
  CDB_versions :: "SourceVersion list"
  CDB_jobs :: "Job list"
  CDB_objects :: "(string \<times> string \<times> string) list"

definition content_requireOneRow :: "nat \<Rightarrow> string \<Rightarrow> string \<Rightarrow> error option" where
  "content_requireOneRow n res rid =
     (if n = 0 then Some (NotFound res rid)
      else if n \<noteq> 1 then Some (ErrorsNew (''content: '' @ res @ '' '' @ rid @ '': expected 1 row, got '' @ Itoa (int n)))
      else None)"

definition requireSource :: "string \<Rightarrow> CDB \<Rightarrow> error option" where
  "requireSource sourceID db =
     (if sourceID \<in> set (map Source_ID (CDB_sources db)) then None else Some (NotFound ''content_source'' sourceID))"

section \<open>Sources (sources.go)\<close>

definition source_checks :: "Source \<Rightarrow> bool" where
  "source_checks s \<longleftrightarrow> Source_Kind s \<in> {KindAttack, KindAtomic, KindSigma, KindCTID, KindCustom} \<and>
     Source_Status s \<in> {SourceStatusIdle, SourceStatusSyncing, SourceStatusError} \<and> 0 \<le> Source_ItemCount s"

record NewSource =
  NewSource_Kind :: content_Kind
  NewSource_Name :: string
  NewSource_URL :: string
  NewSource_Ref :: string
  NewSource_Enabled :: bool
  NewSource_Status :: SourceStatus
  NewSource_LicenseSPDX :: string
  NewSource_LicenseName :: string
  NewSource_LicenseURL :: string
  NewSource_Attribution :: string

definition Sources_ByID :: "string \<Rightarrow> CDB \<Rightarrow> error + Source" where
  "Sources_ByID sid db =
     (case select1 (\<lambda>s. Source_ID s = sid) (CDB_sources db) of
        None \<Rightarrow> Inl (NotFound ''content_source'' sid) | Some s \<Rightarrow> Inr s)"

definition Sources_ByKind :: "content_Kind \<Rightarrow> CDB \<Rightarrow> error + Source" where
  "Sources_ByKind kind db =
     (case select1 (\<lambda>s. Source_Kind s = kind) (CDB_sources db) of
        None \<Rightarrow> Inl (NotFound ''content_source'' kind) | Some s \<Rightarrow> Inr s)"

definition Sources_Create :: "string \<Rightarrow> gotime \<Rightarrow> NewSource \<Rightarrow> CDB after list \<Rightarrow> CDB \<Rightarrow> (error + Source) \<times> CDB" where
  "Sources_Create newID ts inp after db =
     (let s = \<lparr>Source_ID = newID, Source_Kind = NewSource_Kind inp, Source_Name = NewSource_Name inp,
            Source_URL = NewSource_URL inp, Source_Ref = NewSource_Ref inp, Source_Enabled = NewSource_Enabled inp,
            Source_Status = (if NewSource_Status inp = [] then SourceStatusIdle else NewSource_Status inp),
            Source_LastSyncedAt = 0, Source_ItemCount = 0, Source_Error = [],
            Source_LicenseSPDX = NewSource_LicenseSPDX inp, Source_LicenseName = NewSource_LicenseName inp,
            Source_LicenseURL = NewSource_LicenseURL inp, Source_Attribution = NewSource_Attribution inp,
            Source_CreatedAt = toStorage ts, Source_UpdatedAt = toStorage ts\<rparr>
      in write_tx
           (if Source_Kind s \<in> set (map Source_Kind (CDB_sources db))
            then Inl (Conflict (''a content source of kind '' @ Quote (Source_Kind s) @ '' already exists''))
            else if \<not> source_checks s
            then Inl (ErrorfW ''content: insert source'' (constraintError ''content_source''))
            else case insert_row Source_ID s (CDB_sources db) of
                   Inl err \<Rightarrow> Inl (Conflict (''a content source of kind '' @ Quote (Source_Kind s) @ '' already exists''))
                 | Inr rows \<Rightarrow>
                     (case runAfter newID after (db\<lparr>CDB_sources := rows\<rparr>) of
                        Inl err \<Rightarrow> Inl err | Inr db' \<Rightarrow> Inr (s, db'))) db)"

text \<open>One UPDATE keyed on the identifier, inside a write transaction, with its hooks.\<close>

definition update_source :: "string \<Rightarrow> string \<Rightarrow> (Source \<Rightarrow> Source) \<Rightarrow> CDB after list \<Rightarrow> CDB \<Rightarrow> error option \<times> CDB" where
  "update_source what sid f after db =
     (let hit = (\<lambda>s. Source_ID s = sid);
          rows = update_where hit f (CDB_sources db)
      in if \<exists>s\<in>set (filter hit (CDB_sources db)). \<not> source_checks (f s)
         then (Some (ErrorfW (what @ sid) (constraintError ''content_source'')), db)
         else case content_requireOneRow (count_where hit (CDB_sources db)) ''content_source'' sid of
                Some err \<Rightarrow> (Some err, db)
              | None \<Rightarrow>
                  (case runAfter sid after (db\<lparr>CDB_sources := rows\<rparr>) of
                     Inl err \<Rightarrow> (Some err, db) | Inr db' \<Rightarrow> (None, db')))"

definition after_source :: "string \<Rightarrow> error option \<times> CDB \<Rightarrow> (error + Source) \<times> CDB" where
  "after_source sid r = (case r of (Some err, db) \<Rightarrow> (Inl err, db) | (None, db) \<Rightarrow> (Sources_ByID sid db, db))"

definition SetEnabled :: "gotime \<Rightarrow> string \<Rightarrow> bool \<Rightarrow> CDB after list \<Rightarrow> CDB \<Rightarrow> (error + Source) \<times> CDB" where
  "SetEnabled ts sid enabled after db =
     after_source sid (update_source ''content: set enabled on '' sid
       (\<lambda>s. s\<lparr>Source_Enabled := enabled, Source_UpdatedAt := toStorage ts\<rparr>) after db)"

definition UpdateMeta :: "gotime \<Rightarrow> Source \<Rightarrow> CDB after list \<Rightarrow> CDB \<Rightarrow> (error + Source) \<times> CDB" where
  "UpdateMeta ts m after db =
     after_source (Source_ID m) (update_source ''content: update source '' (Source_ID m)
       (\<lambda>s. s\<lparr>Source_Name := Source_Name m, Source_URL := Source_URL m, Source_Ref := Source_Ref m,
          Source_LicenseSPDX := Source_LicenseSPDX m, Source_LicenseName := Source_LicenseName m,
          Source_LicenseURL := Source_LicenseURL m, Source_Attribution := Source_Attribution m,
          Source_UpdatedAt := toStorage ts\<rparr>) after db)"

definition SetSyncState :: "gotime \<Rightarrow> string \<Rightarrow> SourceStatus \<Rightarrow> int \<Rightarrow> string \<Rightarrow> gotime \<Rightarrow> CDB \<Rightarrow> error option \<times> CDB" where
  "SetSyncState ts sid status itemCount errMsg syncedAt db =
     update_source ''content: set sync state on '' sid
       (\<lambda>s. s\<lparr>Source_Status := status, Source_ItemCount := itemCount, Source_Error := errMsg,
          Source_LastSyncedAt := (if IsZero syncedAt then Source_LastSyncedAt s else toStorage syncedAt),
          Source_UpdatedAt := toStorage ts\<rparr>) [] db"

definition ResetSyncing :: "gotime \<Rightarrow> string \<Rightarrow> CDB \<Rightarrow> nat \<times> CDB" where
  "ResetSyncing ts errMsg db =
     (let msg = (if errMsg = [] then ''process restarted while a sync was in flight'' else errMsg);
          hit = (\<lambda>s. Source_Status s = SourceStatusSyncing)
      in (count_where hit (CDB_sources db),
          db\<lparr>CDB_sources := update_where hit (\<lambda>s. s\<lparr>Source_Status := SourceStatusIdle,
            Source_Error := (if Source_Error s = [] then msg else Source_Error s), Source_UpdatedAt := toStorage ts\<rparr>)
            (CDB_sources db)\<rparr>))"

text \<open>The object tables that name a source; jobs and versions go after them.\<close>

definition sourceSubtreeTables :: "string list" where
  "sourceSubtreeTables =
     [''content_technique_tactic'', ''content_technique_mitigation'', ''content_tactic'', ''content_technique'',
      ''content_mitigation'', ''content_group'', ''content_software'', ''content_data_source'',
      ''content_procedure_template'', ''content_detection_rule_ref'', ''content_emulation_plan_step'',
      ''content_emulation_plan'', ''content_note'']"

definition source_row_gone :: "string \<Rightarrow> CDB after list \<Rightarrow> CDB \<Rightarrow> error + (unit \<times> CDB)" where
  "source_row_gone sid after db =
     (let hit = (\<lambda>s. Source_ID s = sid)
      in case content_requireOneRow (count_where hit (CDB_sources db)) ''content_source'' sid of
           Some err \<Rightarrow> Inl err
         | None \<Rightarrow>
             (case runAfter sid after (db\<lparr>CDB_sources := delete_where hit (CDB_sources db)\<rparr>) of
                Inl err \<Rightarrow> Inl err | Inr db' \<Rightarrow> Inr ((), db')))"

definition Sources_Delete :: "string \<Rightarrow> CDB after list \<Rightarrow> CDB \<Rightarrow> (error + unit) \<times> CDB" where
  "Sources_Delete sid after db = write_tx (source_row_gone sid after db) db"

definition clear_subtree :: "string \<Rightarrow> CDB \<Rightarrow> CDB" where
  "clear_subtree sid db =
     db\<lparr>CDB_objects := filter (\<lambda>(table, src, ver). \<not> (table \<in> set sourceSubtreeTables \<and> src = sid)) (CDB_objects db),
        CDB_jobs := delete_where (\<lambda>j. Job_SourceID j = sid) (CDB_jobs db),
        CDB_versions := delete_where (\<lambda>v. SVersion_SourceID v = sid) (CDB_versions db)\<rparr>"

definition DeleteCascade :: "string \<Rightarrow> CDB after list \<Rightarrow> CDB \<Rightarrow> (error + unit) \<times> CDB" where
  "DeleteCascade sid after db =
     write_tx (case requireSource sid db of
                 Some err \<Rightarrow> Inl err | None \<Rightarrow> source_row_gone sid after (clear_subtree sid db)) db"

section \<open>Versions (versions.go)\<close>

definition version_checks :: "SourceVersion \<Rightarrow> bool" where
  "version_checks v \<longleftrightarrow> SVersion_Status v \<in> {VersionStatusPending, VersionStatusReady, VersionStatusError} \<and>
     0 \<le> SVersion_ItemCount v \<and> 0 \<le> SVersion_RawBytes v"

definition SVersions_ByID :: "string \<Rightarrow> CDB \<Rightarrow> error + SourceVersion" where
  "SVersions_ByID vid db =
     (case select1 (\<lambda>v. SVersion_ID v = vid) (CDB_versions db) of
        None \<Rightarrow> Inl (NotFound ''content_source_version'' vid) | Some v \<Rightarrow> Inr v)"

definition BySourceVersion :: "string \<Rightarrow> string \<Rightarrow> CDB \<Rightarrow> error + SourceVersion" where
  "BySourceVersion sourceID version db =
     (case select1 (\<lambda>v. SVersion_SourceID v = sourceID \<and> SVersion_Version v = version) (CDB_versions db) of
        None \<Rightarrow> Inl (NotFound ''content_source_version'' (sourceID @ ''/'' @ version)) | Some v \<Rightarrow> Inr v)"

definition ListBySource :: "string \<Rightarrow> CDB \<Rightarrow> SourceVersion list" where
  "ListBySource sourceID db =
     sort_key SVersion_Version (sort_key SVersion_ID (filter (\<lambda>v. SVersion_SourceID v = sourceID) (CDB_versions db)))"

text \<open>A primary or natural key that is taken reads as a conflict; the status is checked by the schema.\<close>

definition SVersions_Create :: "string \<Rightarrow> gotime \<Rightarrow> string \<Rightarrow> string \<Rightarrow> VersionStatus \<Rightarrow> CDB \<Rightarrow>
    (error + SourceVersion) \<times> CDB" where
  "SVersions_Create newID ts sourceID version status db =
     (let v = \<lparr>SVersion_ID = newID, SVersion_SourceID = sourceID, SVersion_Version = version,
            SVersion_Status = (if status = [] then VersionStatusPending else status), SVersion_ItemCount = 0,
            SVersion_SyncedAt = 0, SVersion_Error = [], SVersion_RawSHA256 = [], SVersion_RawPath = [],
            SVersion_RawBytes = 0, SVersion_CreatedAt = toStorage ts, SVersion_UpdatedAt = toStorage ts\<rparr>
      in write_tx
           (case requireSource sourceID db of
              Some err \<Rightarrow> Inl err
            | None \<Rightarrow>
                if newID \<in> set (map SVersion_ID (CDB_versions db)) \<or>
                   (sourceID, version) \<in> set (map (\<lambda>v. (SVersion_SourceID v, SVersion_Version v)) (CDB_versions db))
                then Inl (Conflict (''version '' @ Quote version @ '' already exists for source '' @ sourceID))
                else if \<not> version_checks v
                then Inl (ErrorfW ''content: insert version'' (constraintError ''content_source_version''))
                else Inr (v, db\<lparr>CDB_versions := CDB_versions db @ [v]\<rparr>)) db)"

definition update_version :: "string \<Rightarrow> string \<Rightarrow> (SourceVersion \<Rightarrow> SourceVersion) \<Rightarrow> CDB \<Rightarrow> error option \<times> CDB" where
  "update_version what vid f db =
     (let hit = (\<lambda>v. SVersion_ID v = vid)
      in if \<exists>v\<in>set (filter hit (CDB_versions db)). \<not> version_checks (f v)
         then (Some (ErrorfW (what @ vid) (constraintError ''content_source_version'')), db)
         else case content_requireOneRow (count_where hit (CDB_versions db)) ''content_source_version'' vid of
                Some err \<Rightarrow> (Some err, db)
              | None \<Rightarrow> (None, db\<lparr>CDB_versions := update_where hit f (CDB_versions db)\<rparr>))"

definition SetRaw :: "string \<Rightarrow> gotime \<Rightarrow> string \<Rightarrow> string \<Rightarrow> string \<Rightarrow> int \<Rightarrow> CDB \<Rightarrow> (error + SourceVersion) \<times> CDB" where
  "SetRaw root ts vid relPath sha256 bytes db =
     (case CleanRel relPath of
        Inl err \<Rightarrow> (Inl err, db)
      | Inr clean \<Rightarrow>
          (case (if root \<noteq> [] then Paths_Abs root clean else Inr []) of
             Inl err \<Rightarrow> (Inl err, db)
           | Inr _ \<Rightarrow>
               if bytes < 0 then (Inl (ErrorsNew ''content: raw_bytes must be non-negative''), db)
               else
                case update_version ''content: set raw on version '' vid
                       (\<lambda>v. v\<lparr>SVersion_RawPath := clean, SVersion_RawSHA256 := sha256, SVersion_RawBytes := bytes,
                          SVersion_UpdatedAt := toStorage ts\<rparr>) db of
                  (Some err, db') \<Rightarrow> (Inl err, db')
                | (None, db') \<Rightarrow> (SVersions_ByID vid db', db')))"

definition SetState :: "gotime \<Rightarrow> string \<Rightarrow> VersionStatus \<Rightarrow> int \<Rightarrow> string \<Rightarrow> gotime \<Rightarrow> CDB \<Rightarrow> error option \<times> CDB" where
  "SetState ts vid status itemCount errMsg syncedAt db =
     update_version ''content: set state on version '' vid
       (\<lambda>v. v\<lparr>SVersion_Status := status, SVersion_ItemCount := itemCount, SVersion_Error := errMsg,
          SVersion_SyncedAt := (if IsZero syncedAt then SVersion_SyncedAt v else toStorage syncedAt),
          SVersion_UpdatedAt := toStorage ts\<rparr>) db"

definition SVersions_Delete :: "string \<Rightarrow> CDB \<Rightarrow> error option \<times> CDB" where
  "SVersions_Delete vid db =
     (let hit = (\<lambda>v. SVersion_ID v = vid)
      in case content_requireOneRow (count_where hit (CDB_versions db)) ''content_source_version'' vid of
           Some err \<Rightarrow> (Some err, db)
         | None \<Rightarrow> (None, db\<lparr>CDB_versions := delete_where hit (CDB_versions db)\<rparr>))"

section \<open>Jobs (jobs.go)\<close>

record NewJob =
  NewJob_SourceID :: string
  NewJob_Version :: string
  NewJob_Kind :: JobKind
  NewJob_CreatedBy :: string

definition job_checks :: "Job \<Rightarrow> bool" where
  "job_checks j \<longleftrightarrow>
     Job_Kind j \<in> {JobKindSync, JobKindReprocess, JobKindBundleImport, JobKindV1Import} \<and>
     Job_Status j \<in> {JobStatusQueued, JobStatusRunning, JobStatusCancelling, JobStatusCancelled, JobStatusSucceeded,
       JobStatusFailed, JobStatusInterrupted} \<and>
     0 \<le> Job_ProgressCurrent j \<and> 0 \<le> Job_ProgressTotal j"

definition Jobs_ByID :: "string \<Rightarrow> CDB \<Rightarrow> error + Job" where
  "Jobs_ByID jid db =
     (case select1 (\<lambda>j. Job_ID j = jid) (CDB_jobs db) of
        None \<Rightarrow> Inl (NotFound ''content_sync_job'' jid) | Some j \<Rightarrow> Inr j)"

definition Jobs_Create :: "string \<Rightarrow> gotime \<Rightarrow> NewJob \<Rightarrow> CDB \<Rightarrow> (error + Job) \<times> CDB" where
  "Jobs_Create newID ts inp db =
     (let j = \<lparr>Job_ID = newID, Job_SourceID = NewJob_SourceID inp, Job_Version = NewJob_Version inp,
            Job_Kind = NewJob_Kind inp, Job_Status = JobStatusQueued, Job_Phase = [], Job_ProgressCurrent = 0,
            Job_ProgressTotal = 0, Job_Message = [], Job_Error = [], Job_CreatedBy = NewJob_CreatedBy inp,
            Job_CreatedAt = toStorage ts, Job_StartedAt = 0, Job_FinishedAt = 0, Job_Checkpoint = no_checkpoint\<rparr>
      in write_tx
           (case requireSource (NewJob_SourceID inp) db of
              Some err \<Rightarrow> Inl err
            | None \<Rightarrow>
                if \<not> job_checks j then Inl (ErrorfW ''content: insert job'' (constraintError ''content_sync_job''))
                else case insert_row Job_ID j (CDB_jobs db) of
                       Inl err \<Rightarrow> Inl (ErrorfW ''content: insert job'' err)
                     | Inr rows \<Rightarrow> Inr (j, db\<lparr>CDB_jobs := rows\<rparr>)) db)"

text \<open>Oldest first, by creation time and then identifier.\<close>

definition oldest_first :: "Job list \<Rightarrow> Job list" where
  "oldest_first js = sort_key Job_CreatedAt (sort_key Job_ID js)"

definition first_of :: "'a list \<Rightarrow> 'a option" where
  "first_of xs = (case xs of [] \<Rightarrow> None | x # _ \<Rightarrow> Some x)"

definition job_active :: "Job \<Rightarrow> bool" where
  "job_active j \<longleftrightarrow> Job_Status j \<in> {JobStatusQueued, JobStatusRunning, JobStatusCancelling}"

definition FindActive :: "CDB \<Rightarrow> Job option" where
  "FindActive db = first_of (oldest_first (filter job_active (CDB_jobs db)))"

definition NextQueued :: "CDB \<Rightarrow> Job option" where
  "NextQueued db = first_of (oldest_first (filter (\<lambda>j. Job_Status j = JobStatusQueued) (CDB_jobs db)))"

record JobFilter =
  JF_SourceID :: string
  JF_Status :: JobStatus
  JF_Limit :: int

definition job_limit :: "int \<Rightarrow> int" where
  "job_limit n = (let limit = (if n \<le> 0 then 50 else n) in if limit > 200 then 200 else limit)"

definition Jobs_List :: "JobFilter \<Rightarrow> CDB \<Rightarrow> Job list" where
  "Jobs_List f db =
     take (nat (job_limit (JF_Limit f))) (rev (oldest_first
       (filter (\<lambda>j. (JF_SourceID f \<noteq> [] \<longrightarrow> Job_SourceID j = JF_SourceID f) \<and>
                    (JF_Status f \<noteq> [] \<longrightarrow> Job_Status j = JF_Status f)) (CDB_jobs db))))"

record JobUpdate =
  JU_Status :: JobStatus
  JU_Phase :: string
  JU_ProgressCurrent :: int
  JU_ProgressTotal :: int
  JU_Message :: string
  JU_Error :: string
  JU_Checkpoint :: "Checkpoint option"
  JU_StartedAt :: gotime
  JU_FinishedAt :: gotime

definition job_sets :: "JobUpdate \<Rightarrow> Job \<Rightarrow> Job" where
  "job_sets u j =
     j\<lparr>Job_Status := JU_Status u, Job_Phase := JU_Phase u, Job_ProgressCurrent := JU_ProgressCurrent u,
       Job_ProgressTotal := JU_ProgressTotal u, Job_Message := JU_Message u, Job_Error := JU_Error u,
       Job_Checkpoint := (case JU_Checkpoint u of None \<Rightarrow> Job_Checkpoint j | Some c \<Rightarrow> c),
       Job_StartedAt := (if IsZero (JU_StartedAt u) then Job_StartedAt j else toStorage (JU_StartedAt u)),
       Job_FinishedAt := (if IsZero (JU_FinishedAt u) then Job_FinishedAt j else toStorage (JU_FinishedAt u))\<rparr>"

definition Jobs_Update :: "string \<Rightarrow> JobUpdate \<Rightarrow> CDB \<Rightarrow> (error + Job) \<times> CDB" where
  "Jobs_Update jid u db =
     (let hit = (\<lambda>j. Job_ID j = jid)
      in if \<exists>j\<in>set (filter hit (CDB_jobs db)). \<not> job_checks (job_sets u j)
         then (Inl (ErrorfW (''content: update job '' @ jid) (constraintError ''content_sync_job'')), db)
         else case content_requireOneRow (count_where hit (CDB_jobs db)) ''content_sync_job'' jid of
                Some err \<Rightarrow> (Inl err, db)
              | None \<Rightarrow>
                 (let db' = db\<lparr>CDB_jobs := update_where hit (job_sets u) (CDB_jobs db)\<rparr> in (Jobs_ByID jid db', db')))"

definition InterruptInFlight :: "gotime \<Rightarrow> string \<Rightarrow> CDB \<Rightarrow> nat \<times> CDB" where
  "InterruptInFlight ts message db =
     (let msg = (if message = [] then ''process restarted while job was in flight'' else message);
          hit = (\<lambda>j. Job_Status j = JobStatusRunning \<or> Job_Status j = JobStatusCancelling)
      in (count_where hit (CDB_jobs db),
          db\<lparr>CDB_jobs := update_where hit (\<lambda>j. j\<lparr>Job_Status := JobStatusInterrupted,
            Job_Error := (if Job_Error j = [] then msg else Job_Error j), Job_Message := msg,
            Job_FinishedAt := (if IsZero (Job_FinishedAt j) then toStorage ts else Job_FinishedAt j)\<rparr>)
            (CDB_jobs db)\<rparr>))"

end
