(* ===== verification/Content_Runner.thy ===== *)
theory Content_Runner
  imports Content_Store Live
begin

text \<open>
  The worker that fills the content libraries (internal/content: runner.go, bundle.go, import_job.go): one
  job at a time from a queue that is meant to hold one, started, cancelled and reconciled at boot by
  requests, with its progress on the job row and fanned out to subscribers. An adapter (what fetches,
  parses and applies one kind of content) and the import of custom content are arguments: functions on the
  bytes, whose writes are those of the object tables. Files are named by their absolute paths. The clock is
  read once per operation: readings a moment apart are taken for the same instant.

  The worker and the requests share the store without a lock around a read and the write that follows it,
  so the operations are cut where the code lets go: \<open>StartSync\<close> into its checks, the insertion, the
  checkpoint and the mark on the source; \<open>Cancel\<close> into its reading and its write; a run into its picking,
  claiming, arming, working and ending.
\<close>

section \<open>State\<close>

abbreviation PhaseFetch :: string where "PhaseFetch \<equiv> ''fetch''"
abbreviation PhaseParse :: string where "PhaseParse \<equiv> ''parse''"
abbreviation PhaseNormalize :: string where "PhaseNormalize \<equiv> ''normalize''"
abbreviation PhaseApply :: string where "PhaseApply \<equiv> ''apply''"
abbreviation PhaseFinalize :: string where "PhaseFinalize \<equiv> ''finalize''"

abbreviation VerbContentSyncStarted :: Verb where "VerbContentSyncStarted \<equiv> ''content.sync.started''"
abbreviation VerbContentSyncFinished :: Verb where "VerbContentSyncFinished \<equiv> ''content.sync.finished''"
abbreviation VerbContentSyncFailed :: Verb where "VerbContentSyncFailed \<equiv> ''content.sync.failed''"
abbreviation VerbContentSyncCancelled :: Verb where "VerbContentSyncCancelled \<equiv> ''content.sync.cancelled''"
abbreviation VerbContentImportFinished :: Verb where "VerbContentImportFinished \<equiv> ''content.import.finished''"
abbreviation ObjectContentSyncJob :: string where "ObjectContentSyncJob \<equiv> ''content_sync_job''"

abbreviation ctxCanceled :: string where "ctxCanceled \<equiv> ''context canceled''"
abbreviation ctxDeadline :: string where "ctxDeadline \<equiv> ''context deadline exceeded''"

type_synonym objects = "(string \<times> string \<times> string) list"

text \<open>
  The runner with what it shares: the tables, the files, the activity it recorded, the buffer of each
  subscriber with its capacity, the job whose context is armed, how that context ended, the wake signal.
\<close>

record Runner_state =
  RS_db :: CDB
  RS_files :: "(string \<times> string) list"
  RS_activity :: "Entry list"
  RS_subs :: "(nat \<times> ProgressEvent list) list"
  RS_runJobID :: "string option"
  RS_ended :: "error option"
  RS_wake :: bool

record Bundle =
  Bundle_Bytes :: string
  Bundle_Path :: string
  Bundle_SHA256 :: string
  Bundle_Size :: int
  Bundle_Version :: string

text \<open>What applying does: batches on the object tables and reports of progress, in order, and its error.\<close>

datatype apply_act = Batch "objects \<Rightarrow> error + objects" | Tick string int int string

record ('ast, 'obj) Adapter =
  Adapter_Fetch :: "Source \<Rightarrow> string \<Rightarrow> int \<Rightarrow> error + Bundle"
  Adapter_Parse :: "Bundle \<Rightarrow> error + 'ast"
  Adapter_Normalize :: "'ast \<Rightarrow> error + 'obj list"
  Adapter_Apply :: "'obj list \<Rightarrow> string \<Rightarrow> string \<Rightarrow> nat \<Rightarrow> apply_act list \<times> error option"

record v1_report =
  V1_summary :: string
  V1_written :: int
  V1_format :: string

record ('ast, 'obj) Runner_env =
  Run_root :: string
  Run_adapters :: "(content_Kind \<times> ('ast, 'obj) Adapter) list"
  Run_custom :: "(Checkpoint \<Rightarrow> string \<Rightarrow> objects \<Rightarrow> (error + v1_report) \<times> objects) option"
  Run_countCustom :: "objects \<Rightarrow> int"
  Run_maxBytes :: int
  Run_writeBatch :: nat
  Run_sha256 :: "string \<Rightarrow> string"
  Run_itemCount :: "'obj list \<Rightarrow> int"
  Run_successMessage :: "'obj list \<Rightarrow> string"
  Run_activity :: bool
  Run_show :: "error \<Rightarrow> string"

section \<open>Progress and activity\<close>

text \<open>A subscriber whose buffer is full misses the tick.\<close>

definition runner_publish :: "ProgressEvent \<Rightarrow> Runner_state \<Rightarrow> Runner_state" where
  "runner_publish ev s =
     s\<lparr>RS_subs := map (\<lambda>(room, buffered). (room, if length buffered < room then buffered @ [ev] else buffered)) (RS_subs s)\<rparr>"

definition progress_event :: "string \<Rightarrow> string \<Rightarrow> int \<Rightarrow> int \<Rightarrow> string \<Rightarrow> JobStatus \<Rightarrow> ProgressEvent" where
  "progress_event jid phase current tot message status =
     \<lparr>Progress_JobID = jid, Progress_Phase = phase, Progress_Current = current, Progress_Total = tot, Progress_Message = message, Progress_Status = status\<rparr>"

definition runner_recordAlone :: "('ast, 'obj) Runner_env \<Rightarrow> string \<Rightarrow> Verb \<Rightarrow> string \<Rightarrow> (string \<times> delta_value) list \<Rightarrow>
    Runner_state \<Rightarrow> Runner_state" where
  "runner_recordAlone env actorID verb jid delta s =
     (if \<not> Run_activity env then s
      else s\<lparr>RS_activity := RS_activity s @ [\<lparr>Entry_EngagementID = [], Entry_ActorID = actorID, Entry_Verb = verb,
          Entry_ObjectType = ObjectContentSyncJob, Entry_ObjectID = jid, Entry_ParentIDs = [], Entry_Delta = Delta delta\<rparr>]\<rparr>)"

definition job_write :: "string \<Rightarrow> JobUpdate \<Rightarrow> Runner_state \<Rightarrow> (error + Job) \<times> Runner_state" where
  "job_write jid u s = (case Jobs_Update jid u (RS_db s) of (r, db) \<Rightarrow> (r, s\<lparr>RS_db := db\<rparr>))"

definition source_write :: "gotime \<Rightarrow> string \<Rightarrow> SourceStatus \<Rightarrow> int \<Rightarrow> string \<Rightarrow> gotime \<Rightarrow> Runner_state \<Rightarrow>
    error option \<times> Runner_state" where
  "source_write ts sid status itemCount errMsg syncedAt s =
     (case SetSyncState ts sid status itemCount errMsg syncedAt (RS_db s) of (r, db) \<Rightarrow> (r, s\<lparr>RS_db := db\<rparr>))"

definition job_update :: "JobStatus \<Rightarrow> string \<Rightarrow> int \<Rightarrow> int \<Rightarrow> string \<Rightarrow> JobUpdate" where
  "job_update status phase current tot message =
     \<lparr>JU_Status = status, JU_Phase = phase, JU_ProgressCurrent = current, JU_ProgressTotal = tot,
       JU_Message = message, JU_Error = [], JU_Checkpoint = None, JU_StartedAt = 0, JU_FinishedAt = 0\<rparr>"

section \<open>Uploads (bundle.go)\<close>

definition under_root :: "string \<Rightarrow> string \<Rightarrow> bool" where
  "under_root root clean \<longleftrightarrow> (case path_Rel root clean of None \<Rightarrow> False | Some rel \<Rightarrow> \<not> climbs rel)"

definition requirePathUnderRoot :: "string \<Rightarrow> string \<Rightarrow> error option" where
  "requirePathUnderRoot root abs_path =
     (if root = [] then Some (ErrorsNew ''content: content data root is empty'')
      else
       (let clean = path_Clean abs_path
        in if \<not> IsAbs clean then Some (Validation [Field ''file'' ''bundle path must be absolute''])
           else if \<not> under_root root clean
           then Some (Validation [Field ''file'' ''bundle path must sit under the content data directory''])
           else None))"

definition removeUpload :: "string \<Rightarrow> string \<Rightarrow> (string \<times> string) list \<Rightarrow> (string \<times> string) list" where
  "removeUpload root abs_path files =
     (if abs_path = [] \<or> root = [] then files
      else if \<not> under_root (path_Join [root, UploadRoot]) (path_Clean abs_path) then files
      else AList.delete (path_Clean abs_path) files)"

definition cleanupJobUpload :: "string \<Rightarrow> Job \<Rightarrow> Runner_state \<Rightarrow> Runner_state" where
  "cleanupJobUpload root job s =
     (let cp = Job_Checkpoint job
      in if \<not> CP_cleanup_upload cp \<or> CP_bundle_path cp = [] then s
         else s\<lparr>RS_files := removeUpload root (CP_bundle_path cp) (RS_files s)\<rparr>)"

text \<open>The last element of a path, without its trailing slashes.\<close>

definition path_Base :: "string \<Rightarrow> string" where
  "path_Base s =
     (if s = [] then ''.''
      else
       (let stripped = rev (dropWhile (\<lambda>c. c = slash) (rev s))
        in if stripped = [] then [slash] else last (Split stripped slash)))"

text \<open>Names are taken to be valid UTF-8: a character beyond ASCII is one underscore, for its first byte.\<close>

fun hint_loop :: "string \<Rightarrow> string \<Rightarrow> string" where
  "hint_loop [] b = b"
| "hint_loop (c # rest) b =
     (if 0x80 \<le> (of_char c :: nat) \<and> (of_char c :: nat) < 0xC0 then hint_loop rest b
      else
       (let b' = b @ [if (CHR ''a'' \<le> c \<and> c \<le> CHR ''z'') \<or> (CHR ''A'' \<le> c \<and> c \<le> CHR ''Z'') \<or>
                         (CHR ''0'' \<le> c \<and> c \<le> CHR ''9'') \<or> c \<in> {CHR ''-'', CHR ''_'', CHR ''.''}
                      then c else CHR ''_'']
        in if length b' \<ge> 48 then b' else hint_loop rest b'))"

definition sanitizeUploadHint :: "string \<Rightarrow> string" where
  "sanitizeUploadHint name =
     (let name = path_Base (TrimSpace name)
      in if name = [] \<or> name = ''.'' \<or> name = [slash] then [] else hint_loop name [])"

datatype spool_error = SpoolTooLarge int int | SpoolErr error

text \<open>A body that breaks off below the limit fails the copy; what was spooled is removed on every error.\<close>

definition SpoolUpload :: "('ast, 'obj) Runner_env \<Rightarrow> string \<Rightarrow> string option \<Rightarrow> bool \<Rightarrow> string \<Rightarrow> Runner_state \<Rightarrow>
    (spool_error + string \<times> string \<times> int) \<times> Runner_state" where
  "SpoolUpload env uuid src broken filename s =
     (case src of
        None \<Rightarrow> (Inl (SpoolErr (Validation [Field ''file'' ''is required''])), s)
      | Some body \<Rightarrow>
          if Run_root env = [] then (Inl (SpoolErr (ErrorsNew ''content: spool: content data root is empty'')), s)
          else
           (let hint = sanitizeUploadHint filename;
                base = (if hint \<noteq> [] then uuid @ ''-'' @ hint else uuid);
                final = path_Join [path_Join [Run_root env, UploadRoot], base];
                got = take (nat (Run_maxBytes env + 1)) body
            in if broken \<and> int (length body) \<le> Run_maxBytes env
               then (Inl (SpoolErr (ErrorfW ''content: spool: write'' (ErrorsNew ''unexpected EOF''))), s)
               else if int (length got) > Run_maxBytes env
               then (Inl (SpoolTooLarge (Run_maxBytes env) (int (length got))), s)
               else if got = [] then (Inl (SpoolErr (Validation [Field ''file'' ''must not be empty''])), s)
               else (Inr (final, Run_sha256 env got, int (length got)),
                     s\<lparr>RS_files := AList.update final got (RS_files s)\<rparr>)))"

section \<open>Enqueueing (runner.go)\<close>

record StartSyncRequest =
  Start_SourceID :: string
  Start_Version :: string
  Start_Kind :: JobKind
  Start_BundlePath :: string
  Start_BundleSHA256 :: string
  Start_CleanupUpload :: bool

definition slot_taken :: "Job \<Rightarrow> error" where
  "slot_taken active = Conflict (''a content job is already active (jobId: '' @ Job_ID active @ '')'')"

definition start_checkpoint :: "StartSyncRequest \<Rightarrow> Checkpoint option" where
  "start_checkpoint req =
     (if Start_BundlePath req = [] then None
      else Some (no_checkpoint\<lparr>CP_bundle_path := Start_BundlePath req, CP_bundle_sha256 := Start_BundleSHA256 req,
             CP_skip_fetch := True, CP_cleanup_upload := Start_CleanupUpload req\<rparr>))"

text \<open>The checks, which read: the source to enqueue for, and the kind of the job.\<close>

definition StartSync_check :: "('ast, 'obj) Runner_env \<Rightarrow> StartSyncRequest \<Rightarrow> Runner_state \<Rightarrow> error + Source \<times> JobKind" where
  "StartSync_check env req s =
     (if Start_SourceID req = [] then Inl (Validation [Field ''sourceId'' ''is required''])
      else case Sources_ByID (Start_SourceID req) (RS_db s) of
        Inl err \<Rightarrow> Inl err
      | Inr src \<Rightarrow>
          if Source_Kind src = KindCustom \<and> Start_BundlePath req = []
          then Inl (Conflict ''the custom source is not synced from upstream; author content through the custom API'')
          else if map_of (Run_adapters env) (Source_Kind src) = None
          then Inl (Conflict (''no adapter registered for content kind '' @ Quote (Source_Kind src)))
          else case FindActive (RS_db s) of
                 Some active \<Rightarrow> Inl (slot_taken active)
               | None \<Rightarrow>
                   (case (if Start_BundlePath req \<noteq> [] then requirePathUnderRoot (Run_root env) (Start_BundlePath req)
                          else None) of
                      Some err \<Rightarrow> Inl err
                    | None \<Rightarrow> Inr (src, if Start_Kind req = [] then JobKindSync else Start_Kind req)))"

definition StartSync_insert :: "string \<Rightarrow> gotime \<Rightarrow> string \<Rightarrow> StartSyncRequest \<Rightarrow> Source \<Rightarrow> JobKind \<Rightarrow>
    Runner_state \<Rightarrow> (error + Job) \<times> Runner_state" where
  "StartSync_insert newID ts actorID req src kind s =
     (case Jobs_Create newID ts \<lparr>NewJob_SourceID = Source_ID src, NewJob_Version = Start_Version req,
             NewJob_Kind = kind, NewJob_CreatedBy = actorID\<rparr> (RS_db s) of
        (r, db) \<Rightarrow> (r, s\<lparr>RS_db := db\<rparr>))"

text \<open>The checkpoint goes onto the row in a write of its own, with the status the row was inserted with.\<close>

definition checkpoint_write :: "Job \<Rightarrow> Checkpoint \<Rightarrow> Runner_state \<Rightarrow> (error + Job) \<times> Runner_state" where
  "checkpoint_write job cp s =
     job_write (Job_ID job) ((job_update (Job_Status job) (Job_Phase job) 0 0 (Job_Message job))\<lparr>JU_Checkpoint := Some cp\<rparr>) s"

definition StartSync_mark :: "('ast, 'obj) Runner_env \<Rightarrow> gotime \<Rightarrow> string \<Rightarrow> StartSyncRequest \<Rightarrow> Source \<Rightarrow> JobKind \<Rightarrow>
    Job \<Rightarrow> Runner_state \<Rightarrow> (error + Job) \<times> Runner_state" where
  "StartSync_mark env ts actorID req src kind job s =
     (case source_write ts (Source_ID src) SourceStatusSyncing (Source_ItemCount src) [] 0 s of
        (Some err, s) \<Rightarrow> (Inl err, s)
      | (None, s) \<Rightarrow>
          (Inr job,
           (runner_recordAlone env actorID VerbContentSyncStarted (Job_ID job)
              [(''source_id'', DString (Source_ID src)), (''kind'', DString kind), (''version'', DString (Start_Version req))]
              s)\<lparr>RS_wake := True\<rparr>))"

definition StartSync :: "('ast, 'obj) Runner_env \<Rightarrow> string \<Rightarrow> gotime \<Rightarrow> string \<Rightarrow> StartSyncRequest \<Rightarrow> Runner_state \<Rightarrow>
    (error + Job) \<times> Runner_state" where
  "StartSync env newID ts actorID req s =
     (case StartSync_check env req s of
        Inl err \<Rightarrow> (Inl err, s)
      | Inr (src, kind) \<Rightarrow>
          (case StartSync_insert newID ts actorID req src kind s of
             (Inl err, s) \<Rightarrow> (Inl err, s)
           | (Inr job, s) \<Rightarrow>
               (case start_checkpoint req of
                  None \<Rightarrow> StartSync_mark env ts actorID req src kind job s
                | Some cp \<Rightarrow>
                    (case checkpoint_write job cp s of
                       (Inl err, s) \<Rightarrow> (Inl err, s)
                     | (Inr job, s) \<Rightarrow> StartSync_mark env ts actorID req src kind job s))))"

text \<open>An upload that was spooled goes again when it cannot be enqueued.\<close>

definition drop_upload :: "('ast, 'obj) Runner_env \<Rightarrow> string \<Rightarrow> Runner_state \<Rightarrow> Runner_state" where
  "drop_upload env path s = s\<lparr>RS_files := removeUpload (Run_root env) path (RS_files s)\<rparr>"

definition StartBundleImport :: "('ast, 'obj) Runner_env \<Rightarrow> string \<Rightarrow> gotime \<Rightarrow> string \<Rightarrow> string \<Rightarrow> string \<Rightarrow> string \<Rightarrow>
    string \<Rightarrow> Runner_state \<Rightarrow> (error + Job) \<times> Runner_state" where
  "StartBundleImport env newID ts actorID sourceID version path sha s =
     (if path = [] then (Inl (Validation [Field ''file'' ''is required'']), s)
      else case requirePathUnderRoot (Run_root env) path of
        Some err \<Rightarrow> (Inl err, drop_upload env path s)
      | None \<Rightarrow>
          (case StartSync env newID ts actorID
                  \<lparr>Start_SourceID = sourceID, Start_Version = version, Start_Kind = JobKindBundleImport,
                    Start_BundlePath = path, Start_BundleSHA256 = sha, Start_CleanupUpload = True\<rparr> s of
             (Inl err, s) \<Rightarrow> (Inl err, drop_upload env path s)
           | (Inr job, s) \<Rightarrow> (Inr job, s)))"

definition no_snapshot :: "string \<Rightarrow> string \<Rightarrow> error" where
  "no_snapshot sourceID version =
     Conflict (''no raw snapshot exists for source '' @ sourceID @ '' version '' @ Quote version @
       ''; sync or upload a bundle first'')"

definition StartReprocess :: "('ast, 'obj) Runner_env \<Rightarrow> string \<Rightarrow> gotime \<Rightarrow> string \<Rightarrow> string \<Rightarrow> string \<Rightarrow>
    Runner_state \<Rightarrow> (error + Job) \<times> Runner_state" where
  "StartReprocess env newID ts actorID sourceID reqVersion s =
     (if sourceID = [] then (Inl (Validation [Field ''sourceId'' ''is required'']), s)
      else case Sources_ByID sourceID (RS_db s) of
        Inl err \<Rightarrow> (Inl err, s)
      | Inr src \<Rightarrow>
         (let trimmed = TrimSpace reqVersion
          in if trimmed = [] \<and> Source_Kind src = KindAttack
             then (Inl (Validation [Field ''version'' ''is required to reprocess an ATT&CK source'']), s)
             else
              (let version = (if trimmed = [] then VersionCurrent else trimmed)
               in case BySourceVersion (Source_ID src) version (RS_db s) of
                    Inl err \<Rightarrow> (Inl (if errors_Is err ErrNotFound then no_snapshot (Source_ID src) version else err), s)
                  | Inr ver \<Rightarrow>
                      if SVersion_RawPath ver = [] \<or> SVersion_RawSHA256 ver = []
                      then (Inl (no_snapshot (Source_ID src) version), s)
                      else case Paths_Abs (Run_root env) (SVersion_RawPath ver) of
                             Inl err \<Rightarrow> (Inl (Conflict (''raw snapshot path for source '' @ Source_ID src @ '' version '' @
                               Quote version @ '' is invalid: '' @ Run_show env err)), s)
                           | Inr abs_path \<Rightarrow>
                               if map_of (RS_files s) abs_path = None
                               then (Inl (Conflict (''raw snapshot file for source '' @ Source_ID src @ '' version '' @
                                 Quote version @ '' is missing on disk; sync or upload a bundle first'')), s)
                               else StartSync env newID ts actorID
                                      \<lparr>Start_SourceID = Source_ID src, Start_Version = version,
                                        Start_Kind = JobKindReprocess, Start_BundlePath = abs_path,
                                        Start_BundleSHA256 = SVersion_RawSHA256 ver, Start_CleanupUpload = False\<rparr> s)))"

text \<open>An import of custom content takes the same slot, without an adapter.\<close>

definition StartV1Import :: "('ast, 'obj) Runner_env \<Rightarrow> string \<Rightarrow> gotime \<Rightarrow> string \<Rightarrow> Checkpoint \<Rightarrow> Runner_state \<Rightarrow>
    (error + Job) \<times> Runner_state" where
  "StartV1Import env newID ts actorID req s =
     (let path = CP_bundle_path req; refuse = (\<lambda>err s. (Inl err, drop_upload env path s))
      in if Run_custom env = None
         then refuse (ErrorsNew ''content: runner: custom service is required for v1_import'') s
         else if path = [] then (Inl (Validation [Field ''file'' ''is required'']), s)
         else case requirePathUnderRoot (Run_root env) path of
           Some err \<Rightarrow> refuse err s
         | None \<Rightarrow>
             (case FindActive (RS_db s) of
                Some active \<Rightarrow> refuse (slot_taken active) s
              | None \<Rightarrow>
                  (case Jobs_Create newID ts \<lparr>NewJob_SourceID = SourceIDCustom, NewJob_Version = VersionCurrent,
                          NewJob_Kind = JobKindV1Import, NewJob_CreatedBy = actorID\<rparr> (RS_db s) of
                     (Inl err, db) \<Rightarrow> refuse err (s\<lparr>RS_db := db\<rparr>)
                   | (Inr job, db) \<Rightarrow>
                       (case checkpoint_write job (req\<lparr>CP_skip_fetch := True, CP_cleanup_upload := True\<rparr>) (s\<lparr>RS_db := db\<rparr>) of
                          (Inl err, s) \<Rightarrow> refuse err s
                        | (Inr job, s) \<Rightarrow>
                            (case Sources_ByID SourceIDCustom (RS_db s) of
                               Inl err \<Rightarrow> refuse err s
                             | Inr src \<Rightarrow>
                                 (case source_write ts (Source_ID src) SourceStatusSyncing (Source_ItemCount src) [] 0 s of
                                    (Some err, s) \<Rightarrow> refuse err s
                                  | (None, s) \<Rightarrow>
                                      (Inr job,
                                       (runner_recordAlone env actorID VerbContentSyncStarted (Job_ID job)
                                          [(''source_id'', DString (Source_ID src)), (''kind'', DString JobKindV1Import),
                                           (''format'', DString (CP_format req))] s)\<lparr>RS_wake := True\<rparr>)))))))"

section \<open>Cancelling\<close>

definition job_final :: "JobStatus \<Rightarrow> bool" where
  "job_final status \<longleftrightarrow>
     status \<in> {JobStatusSucceeded, JobStatusFailed, JobStatusCancelled, JobStatusInterrupted}"

text \<open>What Cancel writes for the row it has read.\<close>

definition Cancel_write :: "('ast, 'obj) Runner_env \<Rightarrow> gotime \<Rightarrow> string \<Rightarrow> Job \<Rightarrow> Runner_state \<Rightarrow>
    (error + Job) \<times> Runner_state" where
  "Cancel_write env ts actorID job s =
     (if job_final (Job_Status job)
      then (Inl (Conflict (''job '' @ Job_ID job @ '' is already '' @ Job_Status job)), s)
      else if Job_Status job = JobStatusCancelling then (Inr job, s)
      else if Job_Status job = JobStatusQueued
      then (case job_write (Job_ID job)
                   ((job_update JobStatusCancelled (Job_Phase job) 0 0 ''cancelled before start'')\<lparr>JU_FinishedAt := ts\<rparr>) s of
              (Inl err, s) \<Rightarrow> (Inl err, s)
            | (Inr job, s) \<Rightarrow>
               (let s = (case Sources_ByID (Job_SourceID job) (RS_db s) of
                           Inl _ \<Rightarrow> s
                         | Inr src \<Rightarrow> snd (source_write ts (Source_ID src) SourceStatusIdle (Source_ItemCount src) [] 0 s));
                    s = runner_recordAlone env actorID VerbContentSyncCancelled (Job_ID job)
                          [(''source_id'', DString (Job_SourceID job))] s;
                    s = runner_publish (progress_event (Job_ID job) (Job_Phase job) 0 0 ''cancelled before start''
                          JobStatusCancelled) s
                in (Inr job, cleanupJobUpload (Run_root env) job s)))
      else if Job_Status job = JobStatusRunning
      then (case job_write (Job_ID job)
                   (job_update JobStatusCancelling (Job_Phase job) (Job_ProgressCurrent job) (Job_ProgressTotal job)
                      ''cancellation requested'') s of
              (Inl err, s) \<Rightarrow> (Inl err, s)
            | (Inr job, s) \<Rightarrow>
                (Inr job, if RS_runJobID s = Some (Job_ID job) \<and> RS_ended s = None
                          then s\<lparr>RS_ended := Some (Sentinel ctxCanceled)\<rparr> else s))
      else (Inl (Conflict (''job '' @ Job_ID job @ '' cannot be cancelled from status '' @ Job_Status job)), s))"

definition runner_Cancel :: "('ast, 'obj) Runner_env \<Rightarrow> gotime \<Rightarrow> string \<Rightarrow> string \<Rightarrow> Runner_state \<Rightarrow>
    (error + Job) \<times> Runner_state" where
  "runner_Cancel env ts actorID jobID s =
     (case Jobs_ByID jobID (RS_db s) of Inl err \<Rightarrow> (Inl err, s) | Inr job \<Rightarrow> Cancel_write env ts actorID job s)"

section \<open>Boot\<close>

definition runner_Boot :: "gotime \<Rightarrow> Runner_state \<Rightarrow> Runner_state" where
  "runner_Boot ts s =
     s\<lparr>RS_db := snd (ResetSyncing ts ''process restarted while job was in flight''
         (snd (InterruptInFlight ts ''process restarted while job was in flight'' (RS_db s))))\<rparr>"

section \<open>How a job ends\<close>

record pipelineResult =
  PR_version :: string
  PR_count :: int
  PR_message :: string

definition mark_version_error :: "gotime \<Rightarrow> string \<Rightarrow> string \<Rightarrow> string \<Rightarrow> Runner_state \<Rightarrow> Runner_state" where
  "mark_version_error ts sourceID verToken msg s =
     (if verToken = [] then s
      else case BySourceVersion sourceID verToken (RS_db s) of
        Inl _ \<Rightarrow> s
      | Inr ver \<Rightarrow>
          s\<lparr>RS_db := snd (SetState ts (SVersion_ID ver) VersionStatusError (SVersion_ItemCount ver) msg 0 (RS_db s))\<rparr>)"

text \<open>The errors of an ending, joined; none is nil.\<close>

definition failJob :: "('ast, 'obj) Runner_env \<Rightarrow> gotime \<Rightarrow> Job \<Rightarrow> string \<Rightarrow> error \<Rightarrow> Runner_state \<Rightarrow>
    error list \<times> Runner_state" where
  "failJob env ts job version cause s =
     (let s = cleanupJobUpload (Run_root env) job s; msg = Run_show env cause
      in case job_write (Job_ID job) ((job_update JobStatusFailed (Job_Phase job) 0 0 ''failed'')
                \<lparr>JU_Error := msg, JU_FinishedAt := ts\<rparr>) s of
           (Inl err, s) \<Rightarrow> ([cause, err], s)
         | (Inr _, s) \<Rightarrow>
            (let s = (case Sources_ByID (Job_SourceID job) (RS_db s) of
                        Inl _ \<Rightarrow> s
                      | Inr src \<Rightarrow> snd (source_write ts (Source_ID src) SourceStatusError (Source_ItemCount src) msg 0 s));
                 s = mark_version_error ts (Job_SourceID job) (if version = [] then Job_Version job else version) msg s;
                 s = runner_recordAlone env (Job_CreatedBy job) VerbContentSyncFailed (Job_ID job)
                       [(''source_id'', DString (Job_SourceID job)), (''error'', DString msg)] s
             in ([], runner_publish (progress_event (Job_ID job) (Job_Phase job) 0 0 msg JobStatusFailed) s)))"

definition cancelJob :: "('ast, 'obj) Runner_env \<Rightarrow> gotime \<Rightarrow> Job \<Rightarrow> Source \<Rightarrow> Runner_state \<Rightarrow>
    error list \<times> Runner_state" where
  "cancelJob env ts job src s =
     (let s = cleanupJobUpload (Run_root env) job s
      in case job_write (Job_ID job) ((job_update JobStatusCancelled (Job_Phase job) (Job_ProgressCurrent job)
                (Job_ProgressTotal job) ''cancelled'')\<lparr>JU_FinishedAt := ts\<rparr>) s of
           (Inl err, s) \<Rightarrow> ([err], s)
         | (Inr _, s) \<Rightarrow>
            (let s = snd (source_write ts (Source_ID src) SourceStatusIdle (Source_ItemCount src) [] 0 s);
                 s = runner_recordAlone env (Job_CreatedBy job) VerbContentSyncCancelled (Job_ID job)
                       [(''source_id'', DString (Source_ID src))] s
             in ([], runner_publish (progress_event (Job_ID job) (Job_Phase job) 0 0 ''cancelled'' JobStatusCancelled) s)))"

definition succeeded_count :: "string \<Rightarrow> string \<Rightarrow> int \<Rightarrow> CDB \<Rightarrow> int" where
  "succeeded_count sourceID version count db =
     (case BySourceVersion sourceID version db of
        Inl _ \<Rightarrow> count | Inr ver \<Rightarrow> if SVersion_ItemCount ver > 0 then SVersion_ItemCount ver else count)"

definition succeedJob :: "('ast, 'obj) Runner_env \<Rightarrow> gotime \<Rightarrow> Job \<Rightarrow> Source \<Rightarrow> pipelineResult \<Rightarrow> Runner_state \<Rightarrow>
    error list \<times> Runner_state" where
  "succeedJob env ts job src result s =
     (let s = cleanupJobUpload (Run_root env) job s;
          version = (if PR_version result \<noteq> [] then PR_version result
                     else if Job_Version job \<noteq> [] then Job_Version job else VersionCurrent);
          itemCount = succeeded_count (Source_ID src) version (PR_count result) (RS_db s);
          msg = (if PR_message result \<noteq> [] then PR_message result else ''succeeded'')
      in case job_write (Job_ID job) ((job_update JobStatusSucceeded PhaseFinalize 1 1 msg)\<lparr>JU_FinishedAt := ts\<rparr>) s of
           (Inl err, s) \<Rightarrow> ([err], s)
         | (Inr _, s) \<Rightarrow>
            (case source_write ts (Source_ID src) SourceStatusIdle itemCount [] ts s of
               (Some err, s) \<Rightarrow> ([err], s)
             | (None, s) \<Rightarrow>
                 ([], runner_publish (progress_event (Job_ID job) PhaseFinalize 1 1 msg JobStatusSucceeded)
                    (runner_recordAlone env (Job_CreatedBy job) VerbContentSyncFinished (Job_ID job)
                      [(''source_id'', DString (Source_ID src)), (''version'', DString version),
                       (''item_count'', DInt itemCount)] s))))"

section \<open>Reports of progress\<close>

text \<open>The status a report writes: that of the row, where somebody has asked for an end or it has ended.\<close>

definition report_status :: "string \<Rightarrow> Runner_state \<Rightarrow> JobStatus" where
  "report_status jid s =
     (if RS_ended s \<noteq> None then JobStatusRunning
      else case Jobs_ByID jid (RS_db s) of
        Inl _ \<Rightarrow> JobStatusRunning
      | Inr cur \<Rightarrow> if Job_Status cur = JobStatusCancelling \<or> job_final (Job_Status cur) then Job_Status cur
                   else JobStatusRunning)"

text \<open>Under a context that has ended neither the reading nor the write happens; the tick still goes out.\<close>

definition report_write :: "string \<Rightarrow> JobStatus \<Rightarrow> string \<Rightarrow> int \<Rightarrow> int \<Rightarrow> string \<Rightarrow> Runner_state \<Rightarrow> Runner_state" where
  "report_write jid status phase current tot message s =
     runner_publish (progress_event jid phase current tot message status)
       (if RS_ended s \<noteq> None then s else snd (job_write jid (job_update status phase current tot message) s))"

definition Report_progress :: "string \<Rightarrow> string \<Rightarrow> int \<Rightarrow> int \<Rightarrow> string \<Rightarrow> Runner_state \<Rightarrow> Runner_state" where
  "Report_progress jid phase current tot message s =
     report_write jid (report_status jid s) phase current tot message s"

section \<open>The pipeline\<close>

definition read_bundle :: "string \<Rightarrow> Runner_state \<Rightarrow> error + string" where
  "read_bundle path s =
     (case RS_ended s of
        Some err \<Rightarrow> Inl err
      | None \<Rightarrow>
          if path = [] then Inl (ErrorsNew ''content: FileSource: empty path'')
          else if Index path ''..'' \<noteq> None
          then Inl (ErrorsNew (''content: FileSource: path '' @ Quote path @ '' must not contain '' @ Quote ''..''))
          else case map_of (RS_files s) (path_Clean path) of
                 None \<Rightarrow> Inl (ErrorfW (''content: open '' @ path) (ErrorsNew ''no such file or directory''))
               | Some bytes \<Rightarrow> Inr bytes)"

definition ensureVersion :: "string \<Rightarrow> gotime \<Rightarrow> string \<Rightarrow> string \<Rightarrow> Runner_state \<Rightarrow> error option \<times> Runner_state" where
  "ensureVersion newID ts sourceID version s =
     (case (case RS_ended s of Some err \<Rightarrow> Inl err | None \<Rightarrow> BySourceVersion sourceID version (RS_db s)) of
        Inr _ \<Rightarrow> (None, s)
      | Inl err \<Rightarrow>
          if \<not> errors_Is err ErrNotFound then (Some err, s)
          else case SVersions_Create newID ts sourceID version VersionStatusPending (RS_db s) of
                 (Inl err, db) \<Rightarrow> (if errors_Is err ErrConflict then None else Some err, s\<lparr>RS_db := db\<rparr>)
               | (Inr _, db) \<Rightarrow> (None, s\<lparr>RS_db := db\<rparr>))"

text \<open>The file first, under its digest; then the version row that points to it; the one before goes.\<close>

definition finalizeSuccess :: "('ast, 'obj) Runner_env \<Rightarrow> gotime \<Rightarrow> string \<Rightarrow> Bundle \<Rightarrow> int \<Rightarrow> Runner_state \<Rightarrow>
    error option \<times> Runner_state" where
  "finalizeSuccess env ts sourceID bundle itemCount s =
     (case RawRel sourceID (Bundle_Version bundle) (Bundle_SHA256 bundle) of
        Inl err \<Rightarrow> (Some err, s)
      | Inr rel \<Rightarrow>
          (case Paths_Abs (Run_root env) rel of
             Inl err \<Rightarrow> (Some err, s)
           | Inr abs_path \<Rightarrow>
              (let s = s\<lparr>RS_files := AList.update abs_path (Bundle_Bytes bundle) (RS_files s)\<rparr>
               in case (case RS_ended s of Some err \<Rightarrow> Inl err
                          | None \<Rightarrow> BySourceVersion sourceID (Bundle_Version bundle) (RS_db s)) of
                    Inl err \<Rightarrow> (Some err, s)
                  | Inr ver \<Rightarrow>
                     (let s = (if SVersion_RawPath ver \<noteq> [] \<and> SVersion_RawPath ver \<noteq> rel
                               then case Paths_Abs (Run_root env) (SVersion_RawPath ver) of
                                      Inl _ \<Rightarrow> s
                                    | Inr old \<Rightarrow> s\<lparr>RS_files := AList.delete old (RS_files s)\<rparr>
                               else s)
                      in case SetRaw (Run_root env) ts (SVersion_ID ver) rel (Bundle_SHA256 bundle) (Bundle_Size bundle) (RS_db s) of
                           (Inl err, db) \<Rightarrow> (Some err, s\<lparr>RS_db := db\<rparr>)
                         | (Inr _, db) \<Rightarrow>
                            (case SetState ts (SVersion_ID ver) VersionStatusReady itemCount [] ts db of
                               (r, db) \<Rightarrow> (r, s\<lparr>RS_db := db\<rparr>))))))"

text \<open>A batch is one write transaction under the context of the run.\<close>

fun apply_loop :: "string \<Rightarrow> apply_act list \<Rightarrow> Runner_state \<Rightarrow> error option \<times> Runner_state" where
  "apply_loop jid [] s = (None, s)"
| "apply_loop jid (Tick phase current tot message # acts) s =
     apply_loop jid acts (Report_progress jid phase current tot message s)"
| "apply_loop jid (Batch f # acts) s =
     (case RS_ended s of
        Some err \<Rightarrow> (Some err, s)
      | None \<Rightarrow>
          (case f (CDB_objects (RS_db s)) of
             Inl err \<Rightarrow> (Some err, s)
           | Inr objs \<Rightarrow> apply_loop jid acts (s\<lparr>RS_db := (RS_db s)\<lparr>CDB_objects := objs\<rparr>\<rparr>)))"

text \<open>Up to the bytes: a bundle that was put there before, or one that is fetched.\<close>

definition obtain_bundle :: "('ast, 'obj) Runner_env \<Rightarrow> ('ast, 'obj) Adapter \<Rightarrow> Source \<Rightarrow> Job \<Rightarrow> Runner_state \<Rightarrow>
    (error + Bundle) \<times> Runner_state" where
  "obtain_bundle env adapter src job s =
     (let cp = Job_Checkpoint job; jid = Job_ID job
      in if CP_skip_fetch cp \<and> CP_bundle_path cp \<noteq> []
         then (let s = Report_progress jid PhaseFetch 0 1 ''using pre-seated bundle'' s
               in case read_bundle (CP_bundle_path cp) s of
                    Inl err \<Rightarrow> (Inl err, s)
                  | Inr raw \<Rightarrow>
                      (Inr \<lparr>Bundle_Bytes = raw, Bundle_Path = CP_bundle_path cp, Bundle_SHA256 = CP_bundle_sha256 cp,
                         Bundle_Size = int (length raw),
                         Bundle_Version = (if Job_Version job = [] then VersionCurrent else Job_Version job)\<rparr>,
                       Report_progress jid PhaseFetch 1 1 ''bundle loaded'' s))
         else (let s = Report_progress jid PhaseFetch 0 1 ''fetching'' s
               in case Adapter_Fetch adapter src (Job_Version job) (Run_maxBytes env) of
                    Inl err \<Rightarrow> (Inl err, s)
                  | Inr bundle \<Rightarrow> (Inr bundle, Report_progress jid PhaseFetch 1 1 ''fetch complete'' s)))"

definition complete_bundle :: "('ast, 'obj) Runner_env \<Rightarrow> Bundle \<Rightarrow> Runner_state \<Rightarrow> error + Bundle" where
  "complete_bundle env bundle s =
     (case (if Bundle_Bytes bundle = [] \<and> Bundle_Path bundle \<noteq> [] then read_bundle (Bundle_Path bundle) s
            else Inr (Bundle_Bytes bundle)) of
        Inl err \<Rightarrow> Inl err
      | Inr raw \<Rightarrow>
          if raw = [] then Inl (ErrorsNew ''bundle has no bytes'')
          else Inr (bundle\<lparr>Bundle_Bytes := raw,
                 Bundle_SHA256 := (if Bundle_SHA256 bundle = [] then Run_sha256 env raw else Bundle_SHA256 bundle),
                 Bundle_Size := int (length raw)\<rparr>))"

text \<open>From the bytes to the tables; out is what is known of the run when it stops.\<close>

definition install_bundle :: "('ast, 'obj) Runner_env \<Rightarrow> ('ast, 'obj) Adapter \<Rightarrow> string \<Rightarrow> gotime \<Rightarrow> Source \<Rightarrow> string \<Rightarrow>
    Bundle \<Rightarrow> pipelineResult \<Rightarrow> Runner_state \<Rightarrow> (pipelineResult \<times> error option) \<times> Runner_state" where
  "install_bundle env adapter newID ts src jid bundle out s =
     (let s = Report_progress jid PhaseParse 0 1 ''parsing'' s
      in case Adapter_Parse adapter bundle of
           Inl err \<Rightarrow> ((out, Some err), s)
         | Inr ast \<Rightarrow>
            (let s = Report_progress jid PhaseParse 1 1 ''parse complete'' s;
                 s = Report_progress jid PhaseNormalize 0 1 ''normalizing'' s
             in case Adapter_Normalize adapter ast of
                  Inl err \<Rightarrow> ((out, Some err), s)
                | Inr objs \<Rightarrow>
                   (let s = Report_progress jid PhaseNormalize 1 1 (Itoa (int (length objs)) @ '' objects'') s;
                        out = out\<lparr>PR_count := Run_itemCount env objs, PR_message := Run_successMessage env objs\<rparr>
                    in case ensureVersion newID ts (Source_ID src) (Bundle_Version bundle) s of
                         (Some err, s) \<Rightarrow> ((out, Some err), s)
                       | (None, s) \<Rightarrow>
                          (let s = Report_progress jid PhaseApply 0 (PR_count out) ''applying'' s;
                               plan = Adapter_Apply adapter objs (Source_ID src) (Bundle_Version bundle) (Run_writeBatch env)
                           in case apply_loop jid (fst plan) s of
                                (Some err, s) \<Rightarrow> ((out, Some err), s)
                              | (None, s) \<Rightarrow>
                                  (case snd plan of
                                     Some err \<Rightarrow> ((out, Some err), s)
                                   | None \<Rightarrow>
                                      (let s = Report_progress jid PhaseFinalize 0 1 ''persisting raw snapshot'' s
                                       in case finalizeSuccess env ts (Source_ID src) bundle (PR_count out) s of
                                            (Some err, s) \<Rightarrow> ((out, Some err), s)
                                          | (None, s) \<Rightarrow>
                                              ((out, None), Report_progress jid PhaseFinalize 1 1 ''done'' s)))))))"

definition runPipeline :: "('ast, 'obj) Runner_env \<Rightarrow> ('ast, 'obj) Adapter \<Rightarrow> string \<Rightarrow> gotime \<Rightarrow> Source \<Rightarrow> Job \<Rightarrow>
    Runner_state \<Rightarrow> (pipelineResult \<times> error option) \<times> Runner_state" where
  "runPipeline env adapter newID ts src job s =
     (let out = \<lparr>PR_version = [], PR_count = 0, PR_message = []\<rparr>
      in case obtain_bundle env adapter src job s of
           (Inl err, s) \<Rightarrow> ((out, Some err), s)
         | (Inr bundle, s) \<Rightarrow>
            (let bundle = (if Source_Kind src \<noteq> KindAttack then bundle\<lparr>Bundle_Version := VersionCurrent\<rparr> else bundle)
             in if Bundle_Version bundle = []
                then ((out, Some (ErrorsNew ''adapter returned bundle with empty version'')), s)
                else
                 (let out = out\<lparr>PR_version := Bundle_Version bundle\<rparr>
                  in case complete_bundle env bundle s of
                       Inl err \<Rightarrow> ((out, Some err), s)
                     | Inr bundle \<Rightarrow> install_bundle env adapter newID ts src (Job_ID job) bundle out s)))"

section \<open>A run\<close>

text \<open>Claiming: the job as it was picked, its source and the adapter for it; the row turns to running.\<close>

datatype ('ast, 'obj) claimed = NotClaimed "error list" | Claimed Job Source "('ast, 'obj) Adapter"

definition claim :: "('ast, 'obj) Runner_env \<Rightarrow> gotime \<Rightarrow> Job \<Rightarrow> Runner_state \<Rightarrow>
    ('ast, 'obj) claimed \<times> Runner_state" where
  "claim env ts job s =
     (case Sources_ByID (Job_SourceID job) (RS_db s) of
        Inl err \<Rightarrow> (case failJob env ts job [] (ErrorfW ''load source'' err) s of (errs, s) \<Rightarrow> (NotClaimed errs, s))
      | Inr src \<Rightarrow>
          (case map_of (Run_adapters env) (Source_Kind src) of
             None \<Rightarrow>
               (case failJob env ts job [] (ErrorsNew (''no adapter for kind '' @ Quote (Source_Kind src))) s of
                  (errs, s) \<Rightarrow> (NotClaimed errs, s))
           | Some adapter \<Rightarrow>
               (case job_write (Job_ID job) ((job_update JobStatusRunning PhaseFetch 0 0 ''starting'')\<lparr>JU_StartedAt := ts\<rparr>) s of
                  (Inl err, s) \<Rightarrow> (NotClaimed [err], s)
                | (Inr job, s) \<Rightarrow> (Claimed job src adapter, s))))"

definition arm :: "Job \<Rightarrow> Runner_state \<Rightarrow> Runner_state" where
  "arm job s = s\<lparr>RS_runJobID := Some (Job_ID job), RS_ended := None\<rparr>"

definition disarm :: "Runner_state \<Rightarrow> Runner_state" where
  "disarm s = s\<lparr>RS_runJobID := None\<rparr>"

text \<open>The choice of the ending, on the row as it is read after the pipeline.\<close>

definition conclude :: "('ast, 'obj) Runner_env \<Rightarrow> gotime \<Rightarrow> Source \<Rightarrow> pipelineResult \<Rightarrow> error option \<Rightarrow> Job \<Rightarrow>
    Runner_state \<Rightarrow> error list \<times> Runner_state" where
  "conclude env ts src result runErr current s =
     (let current = (if PR_version result \<noteq> [] then current\<lparr>Job_Version := PR_version result\<rparr> else current)
      in case runErr of
           None \<Rightarrow> succeedJob env ts current src result s
         | Some err \<Rightarrow>
             if errors_Is err ctxDeadline \<or> RS_ended s = Some (Sentinel ctxDeadline)
             then failJob env ts current (PR_version result) (ErrorsNew ''job exceeded timeout'') s
             else if errors_Is err ctxCanceled \<or> Job_Status current = JobStatusCancelling
             then cancelJob env ts current src s
             else failJob env ts current (PR_version result) err s)"

text \<open>The import of custom content: its own file reading, its own success.\<close>

definition v1_source :: "Job \<Rightarrow> Runner_state \<Rightarrow> Source" where
  "v1_source job s =
     (case Sources_ByID (Job_SourceID job) (RS_db s) of
        Inr src \<Rightarrow> src
      | Inl _ \<Rightarrow> \<lparr>Source_ID = SourceIDCustom, Source_Kind = [], Source_Name = [], Source_URL = [], Source_Ref = [],
          Source_Enabled = False, Source_Status = [], Source_LastSyncedAt = 0, Source_ItemCount = 0, Source_Error = [],
          Source_LicenseSPDX = [], Source_LicenseName = [], Source_LicenseURL = [], Source_Attribution = [],
          Source_CreatedAt = 0, Source_UpdatedAt = 0\<rparr>)"

definition v1_success :: "('ast, 'obj) Runner_env \<Rightarrow> gotime \<Rightarrow> Job \<Rightarrow> v1_report \<Rightarrow> Runner_state \<Rightarrow>
    error list \<times> Runner_state" where
  "v1_success env ts job report s =
     (let s = Report_progress (Job_ID job) PhaseApply 1 1 (V1_summary report) s;
          s = cleanupJobUpload (Run_root env) job s
      in case job_write (Job_ID job)
                ((job_update JobStatusSucceeded PhaseFinalize 1 1 (V1_summary report))\<lparr>JU_FinishedAt := ts\<rparr>) s of
           (Inl err, s) \<Rightarrow> ([err], s)
         | (Inr _, s) \<Rightarrow>
            (case source_write ts SourceIDCustom SourceStatusIdle (Run_countCustom env (CDB_objects (RS_db s))) [] ts s of
               (Some err, s) \<Rightarrow> ([err], s)
             | (None, s) \<Rightarrow>
                 ([], runner_publish (progress_event (Job_ID job) PhaseFinalize 1 1 (V1_summary report) JobStatusSucceeded)
                    (runner_recordAlone env (Job_CreatedBy job) VerbContentImportFinished (Job_ID job)
                      [(''source_id'', DString SourceIDCustom), (''format'', DString (V1_format report))] s))))"

text \<open>One run without anything between its steps. The deferred removal of the upload closes every way out.\<close>

definition execute_import :: "('ast, 'obj) Runner_env \<Rightarrow> gotime \<Rightarrow> Job \<Rightarrow> Runner_state \<Rightarrow> error list \<times> Runner_state" where
  "execute_import env ts job s =
     (case Run_custom env of
        None \<Rightarrow> failJob env ts job VersionCurrent (ErrorsNew ''v1_import: custom service is not configured'') s
      | Some custom \<Rightarrow>
         (let src = v1_source job s
          in case job_write (Job_ID job)
                    ((job_update JobStatusRunning PhaseParse 0 0 ''importing v1 custom content'')\<lparr>JU_StartedAt := ts\<rparr>) s of
               (Inl err, s) \<Rightarrow> ([err], s)
             | (Inr job, s) \<Rightarrow>
                (let s = arm job s; path = CP_bundle_path (Job_Checkpoint job);
                     (errs, s) =
                       (if path = []
                        then failJob env ts job VersionCurrent (ErrorsNew ''v1_import: missing bundle_path in checkpoint'') s
                        else case map_of (RS_files s) (path_Clean path) of
                          None \<Rightarrow> failJob env ts job VersionCurrent
                                    (ErrorfW ''v1_import: read upload'' (ErrorsNew ''no such file or directory'')) s
                        | Some raw \<Rightarrow>
                           (let s = Report_progress (Job_ID job) PhaseParse 0 1 ''parsing'' s
                            in case custom (Job_Checkpoint job) raw (CDB_objects (RS_db s)) of
                                 (r, objs) \<Rightarrow>
                                  (let s = s\<lparr>RS_db := (RS_db s)\<lparr>CDB_objects := objs\<rparr>\<rparr>
                                   in case Jobs_ByID (Job_ID job) (RS_db s) of
                                        Inl err \<Rightarrow> ([err], s)
                                      | Inr current \<Rightarrow>
                                          (case r of
                                             Inr report \<Rightarrow> v1_success env ts job report s
                                           | Inl err \<Rightarrow>
                                               conclude env ts src \<lparr>PR_version = VersionCurrent, PR_count = 0, PR_message = []\<rparr>
                                                 (Some err) current s))))
                 in (errs, disarm s))))"

definition execute_sync :: "('ast, 'obj) Runner_env \<Rightarrow> string \<Rightarrow> gotime \<Rightarrow> Job \<Rightarrow> Runner_state \<Rightarrow>
    error list \<times> Runner_state" where
  "execute_sync env newID ts job s =
     (case claim env ts job s of
        (NotClaimed errs, s) \<Rightarrow> (errs, s)
      | (Claimed job src adapter, s) \<Rightarrow>
          (case runPipeline env adapter newID ts src job (arm job s) of
             ((result, runErr), s) \<Rightarrow>
               (case Jobs_ByID (Job_ID job) (RS_db s) of
                  Inl err \<Rightarrow> ([err], disarm s)
                | Inr current \<Rightarrow>
                    (case conclude env ts src result runErr current s of (errs, s) \<Rightarrow> (errs, disarm s)))))"

definition runner_execute :: "('ast, 'obj) Runner_env \<Rightarrow> string \<Rightarrow> gotime \<Rightarrow> Job \<Rightarrow> Runner_state \<Rightarrow>
    error list \<times> Runner_state" where
  "runner_execute env newID ts job s =
     (case (if Job_Kind job = JobKindV1Import then execute_import env ts job s else execute_sync env newID ts job s) of
        (errs, s) \<Rightarrow> (errs, cleanupJobUpload (Run_root env) job s))"

definition runner_tick :: "('ast, 'obj) Runner_env \<Rightarrow> string \<Rightarrow> gotime \<Rightarrow> Runner_state \<Rightarrow> error list \<times> Runner_state" where
  "runner_tick env newID ts s =
     (case NextQueued (RS_db s) of None \<Rightarrow> ([], s) | Some job \<Rightarrow> runner_execute env newID ts job s)"

end
