(* ===== verification/Content_Props.thy ===== *)
theory Content_Props
  imports Content_Runner
begin

text \<open>
  What holds of the jobs while the worker and the requests run at the same time. The configuration of the
  steps is the shared state and where the worker stands; a request is one step, a run of the worker is cut
  at every access to the store. The last section shows what becomes of a request that is itself cut between
  its reading and its write.
\<close>

section \<open>Rows of the job table\<close>

definition jobs_ok :: "Runner_state \<Rightarrow> bool" where
  "jobs_ok s \<longleftrightarrow> distinct (map Job_ID (CDB_jobs (RS_db s))) \<and> (\<forall>j\<in>set (CDB_jobs (RS_db s)). job_checks j)"

definition job_row :: "Runner_state \<Rightarrow> string \<Rightarrow> Job option" where
  "job_row s jid = select1 (\<lambda>j. Job_ID j = jid) (CDB_jobs (RS_db s))"

definition job_status :: "Runner_state \<Rightarrow> string \<Rightarrow> JobStatus option" where
  "job_status s jid = map_option Job_Status (job_row s jid)"

lemma Jobs_ByID_row: "Jobs_ByID jid (RS_db s) = (case job_row s jid of None \<Rightarrow> Inl (NotFound ''content_sync_job'' jid) | Some j \<Rightarrow> Inr j)"
  by (simp add: Jobs_ByID_def job_row_def)

lemma job_row_id: "job_row s jid = Some j \<Longrightarrow> Job_ID j = jid \<and> j \<in> set (CDB_jobs (RS_db s))"
  by (auto simp: job_row_def dest: select1_Some)

lemma job_row_checks: "jobs_ok s \<Longrightarrow> job_row s jid = Some j \<Longrightarrow> job_checks j"
  by (auto simp: jobs_ok_def dest: job_row_id)

lemma job_row_in: "jobs_ok s \<Longrightarrow> j \<in> set (CDB_jobs (RS_db s)) \<Longrightarrow> job_row s (Job_ID j) = Some j"
  by (auto simp: jobs_ok_def job_row_def select1_key)

lemma job_row_update [simp]:
  "job_row (s\<lparr>RS_files := x\<rparr>) = job_row s" "job_row (s\<lparr>RS_activity := y\<rparr>) = job_row s" "job_row (s\<lparr>RS_subs := z\<rparr>) = job_row s"
  "job_row (s\<lparr>RS_runJobID := u\<rparr>) = job_row s" "job_row (s\<lparr>RS_ended := v\<rparr>) = job_row s" "job_row (s\<lparr>RS_wake := w\<rparr>) = job_row s"
  by (simp_all add: job_row_def fun_eq_iff)

lemma jobs_ok_update [simp]:
  "jobs_ok (s\<lparr>RS_files := x\<rparr>) = jobs_ok s" "jobs_ok (s\<lparr>RS_activity := y\<rparr>) = jobs_ok s" "jobs_ok (s\<lparr>RS_subs := z\<rparr>) = jobs_ok s"
  "jobs_ok (s\<lparr>RS_runJobID := u\<rparr>) = jobs_ok s" "jobs_ok (s\<lparr>RS_ended := v\<rparr>) = jobs_ok s" "jobs_ok (s\<lparr>RS_wake := w\<rparr>) = jobs_ok s"
  by (simp_all add: jobs_ok_def)

text \<open>Two states with the same jobs.\<close>

definition same_jobs :: "Runner_state \<Rightarrow> Runner_state \<Rightarrow> bool" where
  "same_jobs s s' \<longleftrightarrow> CDB_jobs (RS_db s') = CDB_jobs (RS_db s)"

lemma same_jobsD: "same_jobs s s' \<Longrightarrow> job_row s' = job_row s \<and> jobs_ok s' = jobs_ok s"
  by (simp add: same_jobs_def job_row_def jobs_ok_def fun_eq_iff)

lemma same_jobs_refl [simp]: "same_jobs s s"
  by (simp add: same_jobs_def)

lemma same_jobs_trans [trans]: "same_jobs s s' \<Longrightarrow> same_jobs s' s'' \<Longrightarrow> same_jobs s s''"
  by (simp add: same_jobs_def)

named_theorems jobs_frame \<open>operations that leave the job table alone\<close>

lemma frame_runner [jobs_frame, simp]:
  "CDB_jobs (RS_db (runner_publish ev s)) = CDB_jobs (RS_db s)"
  "CDB_jobs (RS_db (runner_recordAlone env a v o' d s)) = CDB_jobs (RS_db s)"
  "CDB_jobs (RS_db (cleanupJobUpload root job s)) = CDB_jobs (RS_db s)"
  by (simp_all add: runner_publish_def runner_recordAlone_def cleanupJobUpload_def Let_def)

lemma update_source_frame: "update_source what sid f [] db = (r, db') \<Longrightarrow> CDB_jobs db' = CDB_jobs db \<and> CDB_versions db' = CDB_versions db"
  by (auto simp: update_source_def Let_def split: if_splits option.splits)

lemma source_write_frame [jobs_frame]: "source_write ts sid st n e t s = (r, s') \<Longrightarrow> CDB_jobs (RS_db s') = CDB_jobs (RS_db s)"
  by (auto simp: source_write_def SetSyncState_def dest: update_source_frame split: prod.splits)

lemma source_write_snd_frame [jobs_frame, simp]: "CDB_jobs (RS_db (snd (source_write ts sid st n e t s))) = CDB_jobs (RS_db s)"
  by (metis source_write_frame prod.collapse)

lemma update_version_frame: "CDB_jobs (snd (update_version what vid f db)) = CDB_jobs db \<and> CDB_sources (snd (update_version what vid f db)) = CDB_sources db"
  by (auto simp: update_version_def Let_def split: option.splits)

lemma update_version_keeps: "update_version what vid f db = (r, db') \<Longrightarrow> CDB_jobs db' = CDB_jobs db \<and> CDB_sources db' = CDB_sources db"
  using update_version_frame [of what vid f db] by simp

lemma mark_version_frame [jobs_frame, simp]:
  "CDB_jobs (RS_db (mark_version_error ts sid tok msg s)) = CDB_jobs (RS_db s)"
  "CDB_sources (RS_db (mark_version_error ts sid tok msg s)) = CDB_sources (RS_db s)"
  by (auto simp: mark_version_error_def SetState_def update_version_frame split: sum.splits)

text \<open>A write to one row: refused with nothing changed, or that row and no other.\<close>

definition wrote :: "string \<Rightarrow> JobUpdate \<Rightarrow> Runner_state \<Rightarrow> Runner_state \<Rightarrow> bool" where
  "wrote jid u s s' \<longleftrightarrow>
     jobs_ok s' \<and> (\<exists>j. job_row s jid = Some j \<and> job_row s' = (job_row s)(jid \<mapsto> job_sets u j)) \<and>
     RS_db s' = (RS_db s)\<lparr>CDB_jobs := CDB_jobs (RS_db s')\<rparr> \<and> s' = s\<lparr>RS_db := RS_db s'\<rparr>"

lemma job_sets_id [simp]: "Job_ID (job_sets u j) = Job_ID j" "Job_Kind (job_sets u j) = Job_Kind j"
    "Job_Status (job_sets u j) = JU_Status u" "Job_SourceID (job_sets u j) = Job_SourceID j"
  by (simp_all add: job_sets_def)

lemma job_row_of: "job_row s jid = select1 (\<lambda>j. Job_ID j = jid) (CDB_jobs (RS_db s))"
  by (simp add: job_row_def)

lemma job_write_cases:
  assumes "job_write jid u s = (r, s')" "jobs_ok s"
  obtains err where "r = Inl err" "s' = s" "job_row s jid = None \<or> (\<exists>j. job_row s jid = Some j \<and> \<not> job_checks (job_sets u j))"
    | j where "job_row s jid = Some j" "r = Inr (job_sets u j)" "wrote jid u s s'"
proof (cases "job_row s jid")
  case None
  then have none: "\<forall>j\<in>set (CDB_jobs (RS_db s)). Job_ID j \<noteq> jid" by (simp add: job_row_def select1_None)
  then have "count_where (\<lambda>j. Job_ID j = jid) (CDB_jobs (RS_db s)) = 0" by (simp add: count_where_0)
  then have "Jobs_Update jid u (RS_db s) = (Inl (NotFound ''content_sync_job'' jid), RS_db s)"
    using none by (auto simp: Jobs_Update_def Let_def content_requireOneRow_def)
  then have "r = Inl (NotFound ''content_sync_job'' jid) \<and> s' = s" using assms(1) by (simp add: job_write_def)
  then show ?thesis using that(1) None by blast
next
  case (Some j)
  have dist: "distinct (map Job_ID (CDB_jobs (RS_db s)))" using assms(2) by (simp add: jobs_ok_def)
  have j: "j \<in> set (CDB_jobs (RS_db s))" "Job_ID j = jid" using job_row_id [OF Some] by auto
  have hits: "x = j" if "x \<in> set (CDB_jobs (RS_db s))" "Job_ID x = jid" for x
    using that j dist by (metis distinct_map inj_onD)
  show ?thesis
  proof (cases "job_checks (job_sets u j)")
    case False
    then have "\<exists>x\<in>set (filter (\<lambda>j. Job_ID j = jid) (CDB_jobs (RS_db s))). \<not> job_checks (job_sets u x)" using j by auto
    then have "Jobs_Update jid u (RS_db s) =
        (Inl (ErrorfW (''content: update job '' @ jid) (constraintError ''content_sync_job'')), RS_db s)"
      unfolding Jobs_Update_def Let_def by (rule if_P)
    then obtain err where "Jobs_Update jid u (RS_db s) = (Inl err, RS_db s)" by blast
    then have "r = Inl err \<and> s' = s" using assms(1) by (simp add: job_write_def)
    then show ?thesis using that(1) Some False by blast
  next
    case True
    have one: "count_where (\<lambda>j. Job_ID j = jid) (CDB_jobs (RS_db s)) = 1"
      using count_where_1 [OF dist j(1)] j(2) by simp
    let ?db = "(RS_db s)\<lparr>CDB_jobs := update_where (\<lambda>j. Job_ID j = jid) (job_sets u) (CDB_jobs (RS_db s))\<rparr>"
    have okb: "\<not> (\<exists>x\<in>set (filter (\<lambda>j. Job_ID j = jid) (CDB_jobs (RS_db s))). \<not> job_checks (job_sets u x))"
      using hits True by auto
    have "Jobs_Update jid u (RS_db s) = (Jobs_ByID jid ?db, ?db)"
      unfolding Jobs_Update_def Let_def if_not_P [OF okb] by (simp add: content_requireOneRow_def one)
    then have w: "r = Jobs_ByID jid ?db" "s' = s\<lparr>RS_db := ?db\<rparr>"
      using assms(1) by (simp_all add: job_write_def)
    have row: "job_row s' k = (if k = jid then Some (job_sets u j) else job_row s k)" for k
    proof -
      have "job_row s' k = map_option (\<lambda>x. if Job_ID x = jid then job_sets u x else x) (job_row s k)"
        by (simp add: job_row_of w(2) select1_update_where)
      then show ?thesis using Some job_row_id by (cases "job_row s k") auto
    qed
    have "jobs_ok s'"
      using assms(2) hits True by (auto simp: jobs_ok_def w(2) table_simps)
    then have "wrote jid u s s'"
      using Some row by (auto simp: wrote_def w(2) fun_eq_iff)
    moreover have "r = Inr (job_sets u j)"
      using row [of jid] w Jobs_ByID_row [of jid s'] by simp
    ultimately show ?thesis using that(2) Some by blast
  qed
qed

lemma wrote_status:
  assumes "wrote jid u s s'"
  shows "job_status s' k = (if k = jid then Some (JU_Status u) else job_status s k)" "jobs_ok s'"
    "RS_runJobID s' = RS_runJobID s" "RS_ended s' = RS_ended s" "RS_files s' = RS_files s"
    "CDB_sources (RS_db s') = CDB_sources (RS_db s)" "CDB_versions (RS_db s') = CDB_versions (RS_db s)"
proof -
  have s: "s' = s\<lparr>RS_db := RS_db s'\<rparr>" "RS_db s' = (RS_db s)\<lparr>CDB_jobs := CDB_jobs (RS_db s')\<rparr>" using assms by (simp_all add: wrote_def)
  show "jobs_ok s'" "job_status s' k = (if k = jid then Some (JU_Status u) else job_status s k)"
    using assms by (auto simp: wrote_def job_status_def)
  show "RS_runJobID s' = RS_runJobID s" "RS_ended s' = RS_ended s" "RS_files s' = RS_files s"
    by (subst s(1), simp)+
  show "CDB_sources (RS_db s') = CDB_sources (RS_db s)" "CDB_versions (RS_db s') = CDB_versions (RS_db s)"
    by (subst s(2), simp)+
qed

section \<open>Endings\<close>

text \<open>After an ending the row is final, and no other row has changed.\<close>

definition closes :: "string \<Rightarrow> Runner_state \<Rightarrow> Runner_state \<Rightarrow> bool" where
  "closes jid s s' \<longleftrightarrow> jobs_ok s' \<and> (\<forall>k. k \<noteq> jid \<longrightarrow> job_status s' k = job_status s k) \<and>
     (\<exists>status. job_status s' jid = Some status \<and> job_final status)"

lemma same_jobs_status: "same_jobs s s' \<Longrightarrow> job_status s' = job_status s"
  by (simp add: same_jobsD job_status_def fun_eq_iff)

lemma wrote_closes:
  assumes "same_jobs s s0" "wrote jid u s0 s1" "same_jobs s1 s2" "job_final (JU_Status u)"
  shows "closes jid s s2"
  using assms wrote_status [OF assms(2)] by (auto simp: closes_def same_jobs_status same_jobsD)

lemma job_final_known: "job_final st \<Longrightarrow> st \<in> {JobStatusQueued, JobStatusRunning, JobStatusCancelling, JobStatusCancelled,
    JobStatusSucceeded, JobStatusFailed, JobStatusInterrupted}"
  by (auto simp: job_final_def)

lemma job_checks_sets:
  assumes "job_checks j" "0 \<le> JU_ProgressCurrent u" "0 \<le> JU_ProgressTotal u"
    "JU_Status u \<in> {JobStatusQueued, JobStatusRunning, JobStatusCancelling, JobStatusCancelled,
       JobStatusSucceeded, JobStatusFailed, JobStatusInterrupted}"
  shows "job_checks (job_sets u j)"
  using assms by (simp add: job_checks_def job_sets_def)

text \<open>A write that the schema accepts, to a row that is there, takes place.\<close>

lemma job_write_ok:
  assumes "job_write jid u s = (r, s')" "jobs_ok s" "job_row s jid = Some j"
    "0 \<le> JU_ProgressCurrent u" "0 \<le> JU_ProgressTotal u"
    "JU_Status u \<in> {JobStatusQueued, JobStatusRunning, JobStatusCancelling, JobStatusCancelled,
       JobStatusSucceeded, JobStatusFailed, JobStatusInterrupted}"
  shows "r = Inr (job_sets u j) \<and> wrote jid u s s'"
proof -
  have "job_checks (job_sets u j)" using job_checks_sets [OF job_row_checks [OF assms(2,3)]] assms(4-6) by blast
  then show ?thesis using job_write_cases [OF assms(1,2)] assms(3) by fastforce
qed

lemma job_update_simps [simp]:
  "JU_Status (job_update st ph c t m) = st" "JU_Phase (job_update st ph c t m) = ph"
  "JU_ProgressCurrent (job_update st ph c t m) = c" "JU_ProgressTotal (job_update st ph c t m) = t"
  "JU_Message (job_update st ph c t m) = m" "JU_Error (job_update st ph c t m) = []"
  "JU_Checkpoint (job_update st ph c t m) = None" "JU_StartedAt (job_update st ph c t m) = 0"
  "JU_FinishedAt (job_update st ph c t m) = 0"
  by (simp_all add: job_update_def)

lemma cleanup_same [simp]: "same_jobs s (cleanupJobUpload root job s)"
  by (simp add: same_jobs_def)

lemma failJob_closes:
  assumes "failJob env ts job version cause s = (errs, s')" "jobs_ok s" "job_row s (Job_ID job) = Some j"
  shows "closes (Job_ID job) s s'"
proof -
  let ?s0 = "cleanupJobUpload (Run_root env) job s"
  let ?u = "(job_update JobStatusFailed (Job_Phase job) 0 0 ''failed'')\<lparr>JU_Error := Run_show env cause, JU_FinishedAt := ts\<rparr>"
  obtain r s1 where w: "job_write (Job_ID job) ?u ?s0 = (r, s1)" by fastforce
  have row: "job_row ?s0 (Job_ID job) = Some j" "jobs_ok ?s0" using assms(2,3) by (simp_all add: same_jobsD [OF cleanup_same])
  have ok: "r = Inr (job_sets ?u j) \<and> wrote (Job_ID job) ?u ?s0 s1"
    using job_write_ok [OF w row(2,1)] by simp
  have same: "same_jobs s1 s'"
    using assms(1) ok by (auto simp: failJob_def Let_def w same_jobs_def split: sum.splits)
  show ?thesis by (rule wrote_closes [OF cleanup_same conjunct2 [OF ok] same]) (simp add: job_final_def)
qed

lemma cancelJob_closes:
  assumes "cancelJob env ts job src s = (errs, s')" "jobs_ok s" "job_row s (Job_ID job) = Some j"
    "0 \<le> Job_ProgressCurrent job" "0 \<le> Job_ProgressTotal job"
  shows "closes (Job_ID job) s s'"
proof -
  let ?s0 = "cleanupJobUpload (Run_root env) job s"
  let ?u = "(job_update JobStatusCancelled (Job_Phase job) (Job_ProgressCurrent job) (Job_ProgressTotal job) ''cancelled'')
      \<lparr>JU_FinishedAt := ts\<rparr>"
  obtain r s1 where w: "job_write (Job_ID job) ?u ?s0 = (r, s1)" by fastforce
  have row: "job_row ?s0 (Job_ID job) = Some j" "jobs_ok ?s0" using assms(2,3) by (simp_all add: same_jobsD [OF cleanup_same])
  have ok: "r = Inr (job_sets ?u j) \<and> wrote (Job_ID job) ?u ?s0 s1"
    using job_write_ok [OF w row(2,1)] assms(4,5) by simp
  have same: "same_jobs s1 s'"
    using assms(1) ok by (auto simp: cancelJob_def Let_def w same_jobs_def)
  show ?thesis by (rule wrote_closes [OF cleanup_same conjunct2 [OF ok] same]) (simp add: job_final_def)
qed

lemma succeedJob_closes:
  assumes "succeedJob env ts job src result s = (errs, s')" "jobs_ok s" "job_row s (Job_ID job) = Some j"
  shows "closes (Job_ID job) s s'"
proof -
  let ?s0 = "cleanupJobUpload (Run_root env) job s"
  let ?u = "(job_update JobStatusSucceeded PhaseFinalize 1 1 (if PR_message result \<noteq> [] then PR_message result else ''succeeded''))
      \<lparr>JU_FinishedAt := ts\<rparr>"
  obtain r s1 where w: "job_write (Job_ID job) ?u ?s0 = (r, s1)" by fastforce
  have row: "job_row ?s0 (Job_ID job) = Some j" "jobs_ok ?s0" using assms(2,3) by (simp_all add: same_jobsD [OF cleanup_same])
  have ok: "r = Inr (job_sets ?u j) \<and> wrote (Job_ID job) ?u ?s0 s1"
    using job_write_ok [OF w row(2,1)] by simp
  have same: "same_jobs s1 s'"
    using assms(1) ok
    by (auto simp: succeedJob_def Let_def w same_jobs_def dest: source_write_frame split: prod.splits option.splits)
  show ?thesis by (rule wrote_closes [OF cleanup_same conjunct2 [OF ok] same]) (simp add: job_final_def)
qed

text \<open>The row the ending was decided on may be older than the one it is written over.\<close>

lemma conclude_closes:
  assumes "conclude env ts src result runErr current s = (errs, s')" "jobs_ok s" "job_row s (Job_ID current) = Some j"
    "job_checks current"
  shows "closes (Job_ID current) s s'"
proof -
  have "0 \<le> Job_ProgressCurrent current" "0 \<le> Job_ProgressTotal current" using assms(4) by (simp_all add: job_checks_def)
  then show ?thesis
    using assms failJob_closes cancelJob_closes succeedJob_closes
    by (fastforce simp: conclude_def Let_def split: option.splits if_splits)
qed

section \<open>Working\<close>

text \<open>
  What a run does to the shared state between its claim and its ending: a report, or a change to files,
  versions and objects. The pipeline is a sequence of such steps.
\<close>

inductive work_step :: "string \<Rightarrow> Runner_state \<Rightarrow> Runner_state \<Rightarrow> bool" for jid where
  report: "work_step jid s (Report_progress jid phase current tot message s)"
| install: "CDB_jobs (RS_db s') = CDB_jobs (RS_db s) \<Longrightarrow> CDB_sources (RS_db s') = CDB_sources (RS_db s) \<Longrightarrow>
    RS_runJobID s' = RS_runJobID s \<Longrightarrow> RS_ended s' = RS_ended s \<Longrightarrow> work_step jid s s'"

abbreviation work_steps :: "string \<Rightarrow> Runner_state \<Rightarrow> Runner_state \<Rightarrow> bool" where
  "work_steps jid \<equiv> (work_step jid)\<^sup>*\<^sup>*"

lemma work_report [intro]: "work_steps jid s s' \<Longrightarrow> work_steps jid s (Report_progress jid phase current tot message s')"
  using work_step.report rtranclp.rtrancl_into_rtrancl by metis

lemma work_install:
  assumes "work_steps jid s s1" "CDB_jobs (RS_db s') = CDB_jobs (RS_db s1)" "CDB_sources (RS_db s') = CDB_sources (RS_db s1)"
    "RS_runJobID s' = RS_runJobID s1" "RS_ended s' = RS_ended s1"
  shows "work_steps jid s s'"
  using assms(1) work_step.install [OF assms(2-5)] by (rule rtranclp.rtrancl_into_rtrancl)

text \<open>A report leaves a row that somebody wants ended as it is, and another one running.\<close>

lemma Report_status:
  assumes "jobs_ok s" "job_status s jid = Some st" "st = JobStatusRunning \<or> st = JobStatusCancelling"
  shows "jobs_ok (Report_progress jid phase current tot message s) \<and>
    job_status (Report_progress jid phase current tot message s) = job_status s \<and>
    CDB_sources (RS_db (Report_progress jid phase current tot message s)) = CDB_sources (RS_db s)"
proof -
  let ?status = "report_status jid s" and ?s' = "Report_progress jid phase current tot message s"
  obtain j where j: "job_row s jid = Some j" "Job_Status j = st" using assms(2) by (auto simp: job_status_def)
  show ?thesis
  proof (cases "RS_ended s")
    case (Some err)
    then have "CDB_jobs (RS_db ?s') = CDB_jobs (RS_db s)" "CDB_sources (RS_db ?s') = CDB_sources (RS_db s)"
      by (simp_all add: Report_progress_def report_write_def runner_publish_def)
    then show ?thesis using assms(1) by (simp add: jobs_ok_def job_status_def job_row_def fun_eq_iff)
  next
    case None
    have status: "?status = st"
      using None j assms(3) by (auto simp: report_status_def Jobs_ByID_row job_final_def)
    obtain r s1 where w: "job_write jid (job_update ?status phase current tot message) s = (r, s1)" by fastforce
    have s': "?s' = runner_publish (progress_event jid phase current tot message ?status) s1"
      using None w by (simp add: Report_progress_def report_write_def)
    have "jobs_ok s1 \<and> job_status s1 = job_status s \<and> CDB_sources (RS_db s1) = CDB_sources (RS_db s)"
    proof (rule job_write_cases [OF w assms(1)])
      assume "s1 = s" then show ?thesis using assms(1) by simp
    next
      fix j' assume "wrote jid (job_update ?status phase current tot message) s s1"
      note wr = wrote_status [OF this]
      have "job_status s1 k = job_status s k" for k using wr(1) [of k] status assms(2) by simp
      then show ?thesis using wr(2,6) by (simp add: fun_eq_iff)
    qed
    then show ?thesis by (simp add: s' runner_publish_def job_status_def [abs_def])
  qed
qed

lemma work_step_status:
  assumes "work_step jid s s'" "jobs_ok s" "job_status s jid \<in> {Some JobStatusRunning, Some JobStatusCancelling}"
  shows "jobs_ok s' \<and> job_status s' = job_status s \<and> CDB_sources (RS_db s') = CDB_sources (RS_db s)"
  using assms
proof cases
  case (report phase current tot message)
  then show ?thesis using Report_status assms(2,3) by blast
next
  case install
  then show ?thesis using assms(2) by (simp add: jobs_ok_def job_status_def job_row_def fun_eq_iff)
qed

lemma work_steps_status:
  assumes "work_steps jid s s'" "jobs_ok s" "job_status s jid \<in> {Some JobStatusRunning, Some JobStatusCancelling}"
  shows "jobs_ok s' \<and> job_status s' = job_status s \<and> CDB_sources (RS_db s') = CDB_sources (RS_db s)"
  using assms by (induction rule: rtranclp_induct) (use work_step_status in auto)

text \<open>The pipeline is made of them.\<close>

definition same_runs :: "Runner_state \<Rightarrow> Runner_state \<Rightarrow> bool" where
  "same_runs s s' \<longleftrightarrow> CDB_jobs (RS_db s') = CDB_jobs (RS_db s) \<and> CDB_sources (RS_db s') = CDB_sources (RS_db s) \<and>
     RS_runJobID s' = RS_runJobID s \<and> RS_ended s' = RS_ended s"

lemma work_same: "work_steps jid s s1 \<Longrightarrow> same_runs s1 s' \<Longrightarrow> work_steps jid s s'"
  by (simp add: same_runs_def work_install)

lemma ensureVersion_same: "ensureVersion newID ts sid ver s = (r, s') \<Longrightarrow> same_runs s s'"
  by (auto simp: same_runs_def ensureVersion_def SVersions_Create_def write_tx_def Let_def
      split: sum.splits option.splits if_splits prod.splits)

lemma SetRaw_frame: "SetRaw root ts vid rel sha n db = (r, db') \<Longrightarrow> CDB_jobs db' = CDB_jobs db \<and> CDB_sources db' = CDB_sources db"
  by (auto simp: SetRaw_def dest: update_version_keeps split: sum.splits option.splits if_splits prod.splits)

lemma SetState_frame: "SetState ts vid st n e t db = (r, db') \<Longrightarrow> CDB_jobs db' = CDB_jobs db \<and> CDB_sources db' = CDB_sources db"
  by (simp add: SetState_def update_version_keeps)

lemma finalizeSuccess_same: "finalizeSuccess env ts sid b n s = (r, s') \<Longrightarrow> same_runs s s'"
  by (auto simp: same_runs_def finalizeSuccess_def Let_def dest!: SetRaw_frame SetState_frame
      split: sum.splits option.splits if_splits prod.splits)

lemma apply_loop_steps: "apply_loop jid acts s1 = (r, s') \<Longrightarrow> work_steps jid s s1 \<Longrightarrow> work_steps jid s s'"
proof (induction jid acts s1 rule: apply_loop.induct)
  case (2 jid phase current tot message acts s1)
  then show ?case using work_report by simp
next
  case (3 jid f acts s1)
  show ?case
  proof (cases "RS_ended s1 = None \<and> (\<exists>objs. f (CDB_objects (RS_db s1)) = Inr objs)")
    case True
    then obtain objs where objs: "RS_ended s1 = None" "f (CDB_objects (RS_db s1)) = Inr objs" by blast
    have "work_steps jid s (s1\<lparr>RS_db := (RS_db s1)\<lparr>CDB_objects := objs\<rparr>\<rparr>)"
      using work_same [OF 3(3)] by (simp add: same_runs_def)
    then show ?thesis using 3 objs by simp
  next
    case False
    then show ?thesis using 3(2,3) by (auto split: option.splits sum.splits)
  qed
qed simp

lemma obtain_bundle_steps: "obtain_bundle env adapter src job s1 = (r, s') \<Longrightarrow> work_steps (Job_ID job) s s1 \<Longrightarrow> work_steps (Job_ID job) s s'"
  by (auto simp: obtain_bundle_def Let_def split: if_splits sum.splits)

lemma install_bundle_steps:
  assumes "install_bundle env adapter newID ts src jid b out s1 = (r, s')" "work_steps jid s s1"
  shows "work_steps jid s s'"
proof -
  let ?s2 = "Report_progress jid PhaseParse 0 1 ''parsing'' s1"
  have s2: "work_steps jid s ?s2" using assms(2) by blast
  show ?thesis
  proof (cases "Adapter_Parse adapter b")
    case (Inl err)
    then show ?thesis using assms(1) s2 by (simp add: install_bundle_def Let_def)
  next
    case (Inr ast)
    note parsed = this
    let ?s3 = "Report_progress jid PhaseNormalize 0 1 ''normalizing'' (Report_progress jid PhaseParse 1 1 ''parse complete'' ?s2)"
    have s3: "work_steps jid s ?s3" using s2 by blast
    show ?thesis
    proof (cases "Adapter_Normalize adapter ast")
      case (Inl err)
      then show ?thesis using assms(1) parsed s3 by (simp add: install_bundle_def Let_def)
    next
      case (Inr objs)
      let ?s4 = "Report_progress jid PhaseNormalize 1 1 (Itoa (int (length objs)) @ '' objects'') ?s3"
      obtain e s5 where v: "ensureVersion newID ts (Source_ID src) (Bundle_Version b) ?s4 = (e, s5)" by fastforce
      have s5: "work_steps jid s s5" using s3 work_same [OF _ ensureVersion_same [OF v]] by blast
      let ?n = "Run_itemCount env objs"
      let ?s6 = "Report_progress jid PhaseApply 0 ?n ''applying'' s5"
      obtain e' s7 where a: "apply_loop jid (fst (Adapter_Apply adapter objs (Source_ID src) (Bundle_Version b) (Run_writeBatch env))) ?s6 = (e', s7)"
        by fastforce
      have s7: "work_steps jid s s7" using apply_loop_steps [OF a] s5 by blast
      let ?s8 = "Report_progress jid PhaseFinalize 0 1 ''persisting raw snapshot'' s7"
      obtain e'' s9 where f: "finalizeSuccess env ts (Source_ID src) b ?n ?s8 = (e'', s9)" by fastforce
      have s9: "work_steps jid s s9" using s7 work_same [OF _ finalizeSuccess_same [OF f]] by blast
      show ?thesis
        using assms(1) parsed Inr s5 s7 s9
        by (auto simp: install_bundle_def Let_def v a f split: option.splits)
    qed
  qed
qed

lemma runPipeline_steps:
  assumes "runPipeline env adapter newID ts src job s = (r, s')"
  shows "work_steps (Job_ID job) s s'"
proof -
  obtain b s1 where o: "obtain_bundle env adapter src job s = (b, s1)" by fastforce
  have s1: "work_steps (Job_ID job) s s1" using obtain_bundle_steps [OF o] by blast
  show ?thesis
    using assms s1 install_bundle_steps [OF _ s1]
    by (cases r) (auto simp: runPipeline_def Let_def o split: sum.splits if_splits)
qed

end
