(* ===== verification/Content_Slot.thy ===== *)
theory Content_Slot
  imports Content_Props
begin

text \<open>
  The single slot of the job runner. The steps are those of Content_Props put together: requests, the
  deadline, the worker's picking, claiming, arming, working, reading back and ending, a crash and the boot
  after it. The invariant says which jobs can be queued or in flight, and where the worker is then.
\<close>

section \<open>Requests\<close>

datatype content_request =
    ReqSync StartSyncRequest | ReqBundle string string string string | ReqReprocess string string
  | ReqV1 Checkpoint | ReqCancel string

definition content_answer :: "('ast, 'obj) Runner_env \<Rightarrow> string \<Rightarrow> gotime \<Rightarrow> string \<Rightarrow> content_request \<Rightarrow> Runner_state \<Rightarrow>
    (error + Job) \<times> Runner_state" where
  "content_answer env newID ts actorID req s =
     (case req of
        ReqSync r \<Rightarrow> StartSync env newID ts actorID r s
      | ReqBundle sourceID version path sha \<Rightarrow> StartBundleImport env newID ts actorID sourceID version path sha s
      | ReqReprocess sourceID version \<Rightarrow> StartReprocess env newID ts actorID sourceID version s
      | ReqV1 cp \<Rightarrow> StartV1Import env newID ts actorID cp s
      | ReqCancel jobID \<Rightarrow> runner_Cancel env ts actorID jobID s)"

definition status_active :: "JobStatus option \<Rightarrow> bool" where
  "status_active st \<longleftrightarrow> st \<in> {Some JobStatusQueued, Some JobStatusRunning, Some JobStatusCancelling}"

definition status_inflight :: "JobStatus option \<Rightarrow> bool" where
  "status_inflight st \<longleftrightarrow> st \<in> {Some JobStatusRunning, Some JobStatusCancelling}"

text \<open>What a request does to the statuses: nothing; one more, queued, when none was active; one cancelled.\<close>

definition request_effect :: "Runner_state \<Rightarrow> Runner_state \<Rightarrow> bool" where
  "request_effect s s' \<longleftrightarrow> jobs_ok s' \<and>
     (job_status s' = job_status s \<or>
      (\<exists>k. job_status s k = None \<and> (\<forall>a. \<not> status_active (job_status s a)) \<and>
         job_status s' = (job_status s)(k \<mapsto> JobStatusQueued)) \<or>
      (\<exists>k. job_status s k = Some JobStatusQueued \<and> job_status s' = (job_status s)(k \<mapsto> JobStatusCancelled)) \<or>
      (\<exists>k. job_status s k = Some JobStatusRunning \<and> job_status s' = (job_status s)(k \<mapsto> JobStatusCancelling)))"

lemma effect_same: "jobs_ok s \<Longrightarrow> same_jobs s s' \<Longrightarrow> request_effect s s'"
  by (simp add: request_effect_def same_jobs_status same_jobsD)

lemma effect_later: "request_effect s s' \<Longrightarrow> same_jobs s' s'' \<Longrightarrow> request_effect s s''"
  by (auto simp: request_effect_def same_jobs_status same_jobsD)

lemma first_of_None: "first_of xs = None \<longleftrightarrow> xs = []"
  by (simp add: first_of_def split: list.splits)

lemma oldest_first_set [simp]: "set (oldest_first js) = set js"
  by (simp add: oldest_first_def)

lemma oldest_first_Nil [simp]: "oldest_first js = [] \<longleftrightarrow> js = []"
  by (metis oldest_first_set set_empty)

lemma first_of_in: "first_of xs = Some x \<Longrightarrow> x \<in> set xs"
  by (auto simp: first_of_def split: list.splits)

lemma NextQueued_in: "NextQueued db = Some j \<Longrightarrow> j \<in> set (CDB_jobs db) \<and> Job_Status j = JobStatusQueued"
  using first_of_in [of "oldest_first (filter (\<lambda>j. Job_Status j = JobStatusQueued) (CDB_jobs db))" j] by (simp add: NextQueued_def)

lemma no_active:
  assumes "FindActive (RS_db s) = None"
  shows "\<not> status_active (job_status s a)"
proof -
  have "\<forall>j\<in>set (CDB_jobs (RS_db s)). \<not> job_active j"
    using assms by (simp add: FindActive_def first_of_None filter_empty_conv)
  then show ?thesis
    by (cases "job_row s a") (auto simp: job_status_def status_active_def job_active_def dest: job_row_id)
qed

lemma Jobs_Create_row:
  assumes "Jobs_Create newID ts inp (RS_db s) = (Inr j, db)" "jobs_ok s"
  shows "jobs_ok (s\<lparr>RS_db := db\<rparr>)" "job_status s newID = None" "job_row (s\<lparr>RS_db := db\<rparr>) = (job_row s)(newID \<mapsto> j)"
    "Job_ID j = newID" "Job_Status j = JobStatusQueued" "CDB_sources db = CDB_sources (RS_db s)"
    "job_status (s\<lparr>RS_db := db\<rparr>) = (job_status s)(newID \<mapsto> JobStatusQueued)"
proof -
  have j: "Job_ID j = newID" "Job_Status j = JobStatusQueued" "job_checks j"
      and new: "newID \<notin> Job_ID ` set (CDB_jobs (RS_db s))" and db: "db = (RS_db s)\<lparr>CDB_jobs := CDB_jobs (RS_db s) @ [j]\<rparr>"
    using assms(1) by (auto simp: Jobs_Create_def Let_def insert_row_def write_tx_def split: option.splits if_splits)
  show "jobs_ok (s\<lparr>RS_db := db\<rparr>)" using assms(2) j new db by (auto simp: jobs_ok_def)
  have none: "job_row s newID = None" using new by (force simp: job_row_def select1_None)
  then show "job_status s newID = None" by (simp add: job_status_def)
  show row: "job_row (s\<lparr>RS_db := db\<rparr>) = (job_row s)(newID \<mapsto> j)"
    using none j by (auto simp: job_row_def fun_eq_iff db select1_append table_simps split: option.splits)
  then show "job_status (s\<lparr>RS_db := db\<rparr>) = (job_status s)(newID \<mapsto> JobStatusQueued)"
    using j by (simp add: job_status_def fun_eq_iff)
qed (use assms(1) in \<open>auto simp: Jobs_Create_def Let_def insert_row_def write_tx_def split: option.splits if_splits\<close>)

lemma Jobs_Create_refused: "Jobs_Create newID ts inp db = (Inl err, db') \<Longrightarrow> db' = db"
  by (auto simp: Jobs_Create_def Let_def insert_row_def write_tx_def split: option.splits if_splits)

text \<open>The row as inserted, and then with its checkpoint, is queued.\<close>

lemma checkpoint_write_queued:
  assumes "checkpoint_write j cp s = (r, s')" "jobs_ok s" "job_row s (Job_ID j) = Some j" "Job_Status j = JobStatusQueued"
  shows "jobs_ok s' \<and> job_status s' = job_status s \<and> (\<exists>j'. r = Inr j')"
proof -
  let ?u = "(job_update (Job_Status j) (Job_Phase j) 0 0 (Job_Message j))\<lparr>JU_Checkpoint := Some cp\<rparr>"
  have w: "job_write (Job_ID j) ?u s = (r, s')" using assms(1) by (simp add: checkpoint_write_def)
  have ok: "r = Inr (job_sets ?u j) \<and> wrote (Job_ID j) ?u s s'" using job_write_ok [OF w assms(2,3)] assms(4) by simp
  have "job_status s' k = job_status s k" for k
    using wrote_status(1) [OF conjunct2 [OF ok], of k] assms(3,4) by (simp add: job_status_def)
  then show ?thesis using ok wrote_status(2) by (auto simp: fun_eq_iff)
qed

lemma StartSync_mark_same: "StartSync_mark env ts actorID req src kind job s = (r, s') \<Longrightarrow> same_jobs s s'"
  by (auto simp: StartSync_mark_def same_jobs_def dest: source_write_frame split: prod.splits option.splits)

lemma StartSync_effect:
  assumes "StartSync env newID ts actorID req s = (r, s')" "jobs_ok s"
  shows "request_effect s s'"
proof (cases "StartSync_check env req s")
  case (Inl err)
  then show ?thesis using assms by (auto simp: StartSync_def intro: effect_same)
next
  case (Inr c)
  obtain src kind where c: "c = (src, kind)" by fastforce
  have "FindActive (RS_db s) = None"
    using Inr by (auto simp: StartSync_check_def split: if_splits sum.splits option.splits)
  then have none: "\<forall>a. \<not> status_active (job_status s a)" by (simp add: no_active)
  let ?inp = "\<lparr>NewJob_SourceID = Source_ID src, NewJob_Version = Start_Version req, NewJob_Kind = kind, NewJob_CreatedBy = actorID\<rparr>"
  obtain r1 db where created: "Jobs_Create newID ts ?inp (RS_db s) = (r1, db)" by fastforce
  show ?thesis
  proof (cases r1)
    case (Inl err)
    then have "db = RS_db s" using created Jobs_Create_refused by blast
    then show ?thesis
      using assms Inr c created Inl by (auto simp: StartSync_def StartSync_insert_def intro: effect_same)
  next
    case (Inr j)
    note row = Jobs_Create_row [OF created [unfolded Inr] assms(2)]
    let ?s1 = "s\<lparr>RS_db := db\<rparr>"
    have e: "request_effect s ?s1" using row none by (auto simp: request_effect_def)
    have cp: "request_effect s s2" if "checkpoint_write j cp ?s1 = (r2, s2)" for cp r2 s2
      using checkpoint_write_queued [OF that row(1)] row e by (auto simp: request_effect_def)
    show ?thesis
      using assms(1) \<open>StartSync_check env req s = Inr c\<close> c created Inr e cp effect_later StartSync_mark_same
      by (auto simp: StartSync_def StartSync_insert_def split: option.splits sum.splits prod.splits) blast+
  qed
qed

lemma drop_upload_same [simp]: "same_jobs s (drop_upload env path s)"
  by (simp add: drop_upload_def same_jobs_def)

lemma StartBundleImport_effect:
  assumes "StartBundleImport env newID ts actorID sourceID version path sha s = (r, s')" "jobs_ok s"
  shows "request_effect s s'"
proof -
  have "request_effect s s1 \<and> request_effect s (drop_upload env path s1)"
    if "StartSync env newID ts actorID req s = (r1, s1)" for req r1 s1
    using StartSync_effect [OF that assms(2)] effect_later drop_upload_same by blast
  then show ?thesis
    using assms effect_same [OF assms(2)]
    by (auto simp: StartBundleImport_def split: if_splits option.splits sum.splits prod.splits)
qed

lemma StartReprocess_effect:
  assumes "StartReprocess env newID ts actorID sourceID version s = (r, s')" "jobs_ok s"
  shows "request_effect s s'"
  using assms effect_same [OF assms(2)] StartSync_effect [OF _ assms(2)]
  by (auto simp: StartReprocess_def Let_def split: if_splits option.splits sum.splits)

lemma StartV1Import_effect:
  assumes "StartV1Import env newID ts actorID req s = (r, s')" "jobs_ok s"
  shows "request_effect s s'"
proof (cases "Run_custom env = None \<or> CP_bundle_path req = [] \<or> requirePathUnderRoot (Run_root env) (CP_bundle_path req) \<noteq> None \<or>
    FindActive (RS_db s) \<noteq> None")
  case True
  then have "same_jobs s s'" using assms(1) by (auto simp: StartV1Import_def Let_def split: if_splits option.splits)
  then show ?thesis using effect_same assms(2) by blast
next
  case False
  then have none: "\<forall>a. \<not> status_active (job_status s a)" by (simp add: no_active)
  let ?inp = "\<lparr>NewJob_SourceID = SourceIDCustom, NewJob_Version = VersionCurrent, NewJob_Kind = JobKindV1Import, NewJob_CreatedBy = actorID\<rparr>"
  let ?cp = "req\<lparr>CP_skip_fetch := True, CP_cleanup_upload := True\<rparr>"
  obtain r1 db where created: "Jobs_Create newID ts ?inp (RS_db s) = (r1, db)" by fastforce
  show ?thesis
  proof (cases r1)
    case (Inl err)
    then have "db = RS_db s" using created Jobs_Create_refused by blast
    then have "same_jobs s s'" using assms(1) False created Inl by (auto simp: StartV1Import_def Let_def)
    then show ?thesis using effect_same assms(2) by blast
  next
    case (Inr j)
    note row = Jobs_Create_row [OF created [unfolded Inr] assms(2)]
    let ?s1 = "s\<lparr>RS_db := db\<rparr>"
    have e: "request_effect s ?s1" using row none by (auto simp: request_effect_def)
    obtain r2 s2 where cp: "checkpoint_write j ?cp ?s1 = (r2, s2)" by fastforce
    have "jobs_ok s2 \<and> job_status s2 = job_status ?s1 \<and> (\<exists>j'. r2 = Inr j')"
      using checkpoint_write_queued [OF cp row(1)] row by simp
    then obtain j' where r2: "r2 = Inr j'" and e2: "request_effect s s2" using e by (auto simp: request_effect_def)
    have "same_jobs s2 s'"
      using assms(1) False created Inr cp r2
      by (auto simp: StartV1Import_def Let_def same_jobs_def drop_upload_def dest: source_write_frame
          split: sum.splits prod.splits option.splits)
    then show ?thesis using effect_later [OF e2] by blast
  qed
qed

text \<open>Cancelling changes the row it has just read.\<close>

lemma Cancel_effect:
  assumes "runner_Cancel env ts actorID jobID s = (r, s')" "jobs_ok s"
  shows "request_effect s s'"
proof (cases "job_row s jobID")
  case None
  then show ?thesis using assms by (auto simp: runner_Cancel_def Jobs_ByID_row intro: effect_same)
next
  case (Some j)
  have jid: "Job_ID j = jobID" and checks: "0 \<le> Job_ProgressCurrent j" "0 \<le> Job_ProgressTotal j"
    using job_row_id [OF Some] job_row_checks [OF assms(2) Some] by (auto simp: job_checks_def)
  have status: "job_status s jobID = Some (Job_Status j)" using Some by (simp add: job_status_def)
  have cancel: "Cancel_write env ts actorID j s = (r, s')" using assms(1) Some by (simp add: runner_Cancel_def Jobs_ByID_row)
  consider "Job_Status j = JobStatusQueued" | "Job_Status j = JobStatusRunning"
    | "Job_Status j \<noteq> JobStatusQueued" "Job_Status j \<noteq> JobStatusRunning" by blast
  then show ?thesis
  proof cases
    case 1
    let ?u = "(job_update JobStatusCancelled (Job_Phase j) 0 0 ''cancelled before start'')\<lparr>JU_FinishedAt := ts\<rparr>"
    obtain r1 s1 where w: "job_write jobID ?u s = (r1, s1)" by fastforce
    have ok: "r1 = Inr (job_sets ?u j) \<and> wrote jobID ?u s s1" using job_write_ok [OF w assms(2) Some] by simp
    have "job_status s1 = (job_status s)(jobID \<mapsto> JobStatusCancelled)" "jobs_ok s1"
      using wrote_status(1,2) [OF conjunct2 [OF ok]] by (auto simp: fun_eq_iff)
    then have e: "request_effect s s1" using status 1 by (auto simp: request_effect_def)
    have "same_jobs s1 s'"
      using cancel 1 w ok jid by (auto simp: Cancel_write_def Let_def job_final_def same_jobs_def split: sum.splits)
    then show ?thesis using effect_later [OF e] by blast
  next
    case 2
    let ?u = "job_update JobStatusCancelling (Job_Phase j) (Job_ProgressCurrent j) (Job_ProgressTotal j) ''cancellation requested''"
    obtain r1 s1 where w: "job_write jobID ?u s = (r1, s1)" by fastforce
    have ok: "r1 = Inr (job_sets ?u j) \<and> wrote jobID ?u s s1" using job_write_ok [OF w assms(2) Some] checks by simp
    have "job_status s1 = (job_status s)(jobID \<mapsto> JobStatusCancelling)" "jobs_ok s1"
      using wrote_status(1,2) [OF conjunct2 [OF ok]] by (auto simp: fun_eq_iff)
    then have e: "request_effect s s1" using status 2 by (auto simp: request_effect_def)
    have "same_jobs s1 s'"
      using cancel 2 w ok jid by (auto simp: Cancel_write_def Let_def job_final_def same_jobs_def split: if_splits)
    then show ?thesis using effect_later [OF e] by blast
  next
    case 3
    then have "s' = s" using cancel by (auto simp: Cancel_write_def split: if_splits)
    then show ?thesis using assms(2) by (simp add: effect_same)
  qed
qed

lemma answer_effect:
  assumes "content_answer env newID ts actorID req s = (r, s')" "jobs_ok s"
  shows "request_effect s s'"
  using assms StartSync_effect StartBundleImport_effect StartReprocess_effect StartV1Import_effect Cancel_effect
  by (cases req) (auto simp: content_answer_def)

section \<open>The steps\<close>

datatype worker = Idle | Picked Job | Holding Job Job Source | Ending Job Job Source pipelineResult "error option" | Down

inductive runner_step :: "('ast, 'obj) Runner_env \<Rightarrow> Runner_state \<times> worker \<Rightarrow> Runner_state \<times> worker \<Rightarrow> bool" for env where
  answer: "w \<noteq> Down \<Longrightarrow> content_answer env newID ts actorID req s = (r, s') \<Longrightarrow> runner_step env (s, w) (s', w)"
| deadline: "RS_runJobID s \<noteq> None \<Longrightarrow> RS_ended s = None \<Longrightarrow>
    runner_step env (s, w) (s\<lparr>RS_ended := Some (Sentinel ctxDeadline)\<rparr>, w)"
| pick: "NextQueued (RS_db s) = Some job \<Longrightarrow> runner_step env (s, Idle) (s, Picked job)"
| claim: "Job_Kind job \<noteq> JobKindV1Import \<Longrightarrow> claim env ts job s = (Claimed job' src adapter, s') \<Longrightarrow>
    runner_step env (s, Picked job) (s', Holding job job' src)"
| not_claimed: "Job_Kind job \<noteq> JobKindV1Import \<Longrightarrow> claim env ts job s = (NotClaimed errs, s') \<Longrightarrow>
    runner_step env (s, Picked job) (cleanupJobUpload (Run_root env) job s', Idle)"
| claim_import: "Job_Kind job = JobKindV1Import \<Longrightarrow> Run_custom env \<noteq> None \<Longrightarrow> job_write (Job_ID job)
      ((job_update JobStatusRunning PhaseParse 0 0 ''importing v1 custom content'')\<lparr>JU_StartedAt := ts\<rparr>) s = (Inr job', s') \<Longrightarrow>
    runner_step env (s, Picked job) (s', Holding job job' (v1_source job s))"
| no_import: "Job_Kind job = JobKindV1Import \<Longrightarrow> Run_custom env = None \<Longrightarrow>
    failJob env ts job VersionCurrent (ErrorsNew ''v1_import: custom service is not configured'') s = (errs, s') \<Longrightarrow>
    runner_step env (s, Picked job) (cleanupJobUpload (Run_root env) job s', Idle)"
| arm: "runner_step env (s, Holding picked job src) (arm job s, Holding picked job src)"
| work: "work_step (Job_ID job) s s' \<Longrightarrow> runner_step env (s, Holding picked job src) (s', Holding picked job src)"
| import_fails: "failJob env ts job VersionCurrent cause s = (errs, s') \<Longrightarrow>
    runner_step env (s, Holding picked job src) (cleanupJobUpload (Run_root env) picked (disarm s'), Idle)"
| import_succeeds: "v1_success env ts job report s = (errs, s') \<Longrightarrow>
    runner_step env (s, Holding picked job src) (cleanupJobUpload (Run_root env) picked (disarm s'), Idle)"
| read_back: "Jobs_ByID (Job_ID job) (RS_db s) = Inr current \<Longrightarrow>
    runner_step env (s, Holding picked job src) (s, Ending picked current src result runErr)"
| conclude: "conclude env ts src result runErr current s = (errs, s') \<Longrightarrow>
    runner_step env (s, Ending picked current src result runErr) (cleanupJobUpload (Run_root env) picked (disarm s'), Idle)"
| crash: "s' = s \<or> s' = cleanupJobUpload (Run_root env) job s \<Longrightarrow>
    runner_step env (s, w) (s'\<lparr>RS_runJobID := None, RS_ended := None\<rparr>, Down)"
| boot: "runner_step env (s, Down) (runner_Boot ts s, Idle)"

section \<open>The slot\<close>

definition one_queued :: "Runner_state \<Rightarrow> bool" where
  "one_queued s \<longleftrightarrow>
     (\<forall>a b. job_status s a = Some JobStatusQueued \<longrightarrow> job_status s b = Some JobStatusQueued \<longrightarrow> a = b)"

definition in_flight_is :: "Runner_state \<Rightarrow> string option \<Rightarrow> bool" where
  "in_flight_is s who \<longleftrightarrow> (\<forall>a. status_inflight (job_status s a) \<longleftrightarrow> who = Some a)"

definition slot_inv :: "Runner_state \<times> worker \<Rightarrow> bool" where
  "slot_inv c \<longleftrightarrow> jobs_ok (fst c) \<and> one_queued (fst c) \<and>
     (case snd c of
        Idle \<Rightarrow> in_flight_is (fst c) None
      | Picked job \<Rightarrow> in_flight_is (fst c) None \<and>
          job_status (fst c) (Job_ID job) \<in> {Some JobStatusQueued, Some JobStatusCancelled}
      | Holding picked job src \<Rightarrow> in_flight_is (fst c) (Some (Job_ID job))
      | Ending picked current src result runErr \<Rightarrow> in_flight_is (fst c) (Some (Job_ID current)) \<and> job_checks current
      | Down \<Rightarrow> (\<exists>who. in_flight_is (fst c) who))"

lemma slot_inv_cong:
  "job_status s' = job_status s \<Longrightarrow> jobs_ok s' = jobs_ok s \<Longrightarrow> slot_inv (s', w) = slot_inv (s, w)"
  by (simp add: slot_inv_def one_queued_def in_flight_is_def cong: worker.case_cong)

lemma slot_inv_same: "same_jobs s s' \<Longrightarrow> slot_inv (s', w) = slot_inv (s, w)"
  by (rule slot_inv_cong) (simp_all add: same_jobs_status same_jobsD)

lemma status_inflight_simps [simp]:
  "status_inflight (Some JobStatusRunning)" "status_inflight (Some JobStatusCancelling)"
  "\<not> status_inflight (Some JobStatusQueued)" "\<not> status_inflight (Some JobStatusCancelled)" "\<not> status_inflight None"
  by (simp_all add: status_inflight_def)

lemma slot_inv_mono:
  assumes "slot_inv (s, w)" "jobs_ok s'" "\<And>a. status_inflight (job_status s' a) = status_inflight (job_status s a)"
    "\<And>a. job_status s' a = Some JobStatusQueued \<Longrightarrow> job_status s a = Some JobStatusQueued"
    "\<And>a. job_status s a \<in> {Some JobStatusQueued, Some JobStatusCancelled} \<Longrightarrow>
      job_status s' a \<in> {Some JobStatusQueued, Some JobStatusCancelled}"
  shows "slot_inv (s', w)"
proof -
  have "one_queued s'" using assms(1,4) by (simp add: slot_inv_def one_queued_def)
  moreover have "in_flight_is s' = in_flight_is s" using assms(3) by (simp add: in_flight_is_def fun_eq_iff)
  ultimately show ?thesis using assms(1,2,5) by (cases w) (simp_all add: slot_inv_def)
qed

lemma slot_inv_request:
  assumes "request_effect s s'" "slot_inv (s, w)" "w \<noteq> Down"
  shows "slot_inv (s', w)"
proof -
  have ok': "jobs_ok s'" using assms(1) by (simp add: request_effect_def)
  consider "job_status s' = job_status s"
    | k where "job_status s k = None" "\<forall>a. \<not> status_active (job_status s a)" "job_status s' = (job_status s)(k \<mapsto> JobStatusQueued)"
    | k where "job_status s k = Some JobStatusQueued" "job_status s' = (job_status s)(k \<mapsto> JobStatusCancelled)"
    | k where "job_status s k = Some JobStatusRunning" "job_status s' = (job_status s)(k \<mapsto> JobStatusCancelling)"
    using assms(1) by (auto simp: request_effect_def)
  then show ?thesis
  proof cases
    case 1
    then show ?thesis using slot_inv_mono [OF assms(2) ok'] by simp
  next
    case (2 k)
    have idle: "\<not> status_inflight (job_status s a)" "job_status s a \<noteq> Some JobStatusQueued" for a
      using 2(2) by (auto simp: status_active_def status_inflight_def)
    have "one_queued s'" using idle(2) by (simp add: one_queued_def 2(3))
    moreover have "status_inflight (job_status s' a) = status_inflight (job_status s a)" for a
      using idle(1) by (simp add: 2(3))
    then have "in_flight_is s' = in_flight_is s" by (simp add: in_flight_is_def fun_eq_iff)
    moreover have "job_status s a \<in> {Some JobStatusQueued, Some JobStatusCancelled} \<Longrightarrow>
        job_status s' a \<in> {Some JobStatusQueued, Some JobStatusCancelled}" for a
      by (simp add: 2(3))
    ultimately show ?thesis using assms(2) ok' by (cases w) (simp_all add: slot_inv_def)
  next
    case (3 k)
    show ?thesis by (rule slot_inv_mono [OF assms(2) ok']) (simp_all add: 3 split: if_splits)
  next
    case (4 k)
    show ?thesis by (rule slot_inv_mono [OF assms(2) ok']) (use 4(1) in \<open>auto simp: 4(2) split: if_splits\<close>)
  qed
qed

text \<open>The worker's steps.\<close>

lemma in_flight_wrote:
  assumes "wrote jid u s s'" "in_flight_is s None \<or> in_flight_is s (Some jid)"
  shows "status_inflight (Some (JU_Status u)) \<Longrightarrow> in_flight_is s' (Some jid)"
    "\<not> status_inflight (Some (JU_Status u)) \<Longrightarrow> in_flight_is s' None"
  using assms(2) wrote_status(1) [OF assms(1)] by (auto simp: in_flight_is_def)

lemma one_queued_mono: "one_queued s \<Longrightarrow> (\<And>a. job_status s' a = Some JobStatusQueued \<Longrightarrow> job_status s a = Some JobStatusQueued) \<Longrightarrow> one_queued s'"
  by (simp add: one_queued_def)

lemma final_not_active: "job_final st \<Longrightarrow> \<not> status_active (Some st)"
  by (auto simp: job_final_def status_active_def)

text \<open>An ending leaves the slot empty.\<close>

lemma slot_inv_closes:
  assumes "closes jid s s1" "slot_inv (s, w)" "same_jobs s1 s'" "in_flight_is s None \<or> in_flight_is s (Some jid)"
  shows "slot_inv (s', Idle)"
proof -
  obtain st where st: "job_status s1 jid = Some st" "job_final st" using assms(1) by (auto simp: closes_def)
  have other: "job_status s1 k = job_status s k" if "k \<noteq> jid" for k using assms(1) that by (simp add: closes_def)
  have st': "st \<noteq> JobStatusQueued" "\<not> status_inflight (Some st)" using st(2) by (auto simp: job_final_def status_inflight_def)
  have q: "one_queued s" using assms(2) by (simp add: slot_inv_def)
  have "one_queued s1" by (rule one_queued_mono [OF q]) (metis other st(1) st'(1) option.inject)
  moreover have "\<not> status_inflight (job_status s1 a)" for a
    using assms(4) other st(1) st'(2) by (cases "a = jid") (auto simp: in_flight_is_def)
  ultimately have "slot_inv (s1, Idle)" using assms(1) by (simp add: slot_inv_def in_flight_is_def closes_def)
  then show ?thesis using slot_inv_same [OF assms(3)] by simp
qed

lemma claim_cases:
  assumes "claim env ts job s = (c, s')" "jobs_ok s" "job_row s (Job_ID job) = Some j"
  obtains errs where "c = NotClaimed errs" "closes (Job_ID job) s s'"
    | job' src adapter u where "c = Claimed job' src adapter" "wrote (Job_ID job) u s s'" "JU_Status u = JobStatusRunning"
        "Job_ID job' = Job_ID job" "job_row s' (Job_ID job) = Some job'"
        "Sources_ByID (Job_SourceID job) (RS_db s) = Inr src" "Job_SourceID job' = Job_SourceID j"
proof -
  let ?u = "(job_update JobStatusRunning PhaseFetch 0 0 ''starting'')\<lparr>JU_StartedAt := ts\<rparr>"
  obtain r1 s1 where w: "job_write (Job_ID job) ?u s = (r1, s1)" by fastforce
  have ok: "r1 = Inr (job_sets ?u j) \<and> wrote (Job_ID job) ?u s s1" using job_write_ok [OF w assms(2,3)] by simp
  have jid: "Job_ID j = Job_ID job" using job_row_id [OF assms(3)] by simp
  show thesis
  proof (cases "Sources_ByID (Job_SourceID job) (RS_db s)")
    case (Inl err)
    obtain errs s2 where f: "failJob env ts job [] (ErrorfW ''load source'' err) s = (errs, s2)" by fastforce
    show ?thesis using that(1) [of errs] failJob_closes [OF f assms(2,3)] assms(1) Inl f by (simp add: claim_def)
  next
    case (Inr src)
    show ?thesis
    proof (cases "map_of (Run_adapters env) (Source_Kind src)")
      case None
      obtain errs s2 where f: "failJob env ts job [] (ErrorsNew (''no adapter for kind '' @ Quote (Source_Kind src))) s = (errs, s2)"
        by fastforce
      show ?thesis using that(1) [of errs] failJob_closes [OF f assms(2,3)] assms(1) Inr None f by (simp add: claim_def)
    next
      case (Some adapter)
      have c: "c = Claimed (job_sets ?u j) src adapter" "s' = s1"
        using assms(1) Inr Some w ok by (simp_all add: claim_def)
      have "job_row s1 (Job_ID job) = Some (job_sets ?u j)" using ok assms(3) by (auto simp: wrote_def)
      then show ?thesis using that(2) [OF c(1), of ?u] ok c(2) jid Inr by simp
    qed
  qed
qed

lemma status_row: "job_status s k = Some st \<Longrightarrow> \<exists>j. job_row s k = Some j \<and> Job_Status j = st"
  by (auto simp: job_status_def)

lemma picked_row:
  assumes "slot_inv (s, Picked job)"
  obtains j where "job_row s (Job_ID job) = Some j" "jobs_ok s" "in_flight_is s None"
  using assms by (auto simp: slot_inv_def dest!: status_row)

lemma in_flight_row: "in_flight_is s (Some jid) \<Longrightarrow> \<exists>j. job_row s jid = Some j \<and> job_status s jid \<in> {Some JobStatusRunning, Some JobStatusCancelling}"
  by (auto simp: in_flight_is_def status_inflight_def job_status_def)

lemma in_flight_final: "in_flight_is s' who \<Longrightarrow> same_jobs s s' \<Longrightarrow> in_flight_is s who"
  by (simp add: in_flight_is_def same_jobs_status)

lemma v1_success_closes:
  assumes "v1_success env ts job report s = (errs, s')" "jobs_ok s"
    "job_status s (Job_ID job) \<in> {Some JobStatusRunning, Some JobStatusCancelling}"
  shows "closes (Job_ID job) s s'"
proof -
  let ?s0 = "Report_progress (Job_ID job) PhaseApply 1 1 (V1_summary report) s"
  have s0: "jobs_ok ?s0" "job_status ?s0 = job_status s" using Report_status [OF assms(2)] assms(3) by auto
  let ?s1 = "cleanupJobUpload (Run_root env) job ?s0"
  let ?u = "(job_update JobStatusSucceeded PhaseFinalize 1 1 (V1_summary report))\<lparr>JU_FinishedAt := ts\<rparr>"
  obtain r s2 where w: "job_write (Job_ID job) ?u ?s1 = (r, s2)" by fastforce
  have "same_jobs ?s0 ?s1" by simp
  from same_jobsD [OF this] have "job_row ?s1 = job_row ?s0" "jobs_ok ?s1" using s0(1) by simp_all
  moreover obtain j where "job_row ?s0 (Job_ID job) = Some j"
    using s0(2) assms(3) status_row [of ?s0] by fastforce
  ultimately have row: "job_row ?s1 (Job_ID job) = Some j" "jobs_ok ?s1" by simp_all
  have ok: "r = Inr (job_sets ?u j) \<and> wrote (Job_ID job) ?u ?s1 s2" using job_write_ok [OF w row(2,1)] by simp
  have same: "same_jobs s2 s'"
    using assms(1) ok by (auto simp: v1_success_def Let_def w same_jobs_def dest: source_write_frame split: prod.splits option.splits)
  have "closes (Job_ID job) ?s0 s'"
    by (rule wrote_closes [OF cleanup_same conjunct2 [OF ok] same]) (simp add: job_final_def)
  then show ?thesis using s0 by (simp add: closes_def)
qed

lemma Boot_status:
  "job_status (runner_Boot ts s) k = map_option (\<lambda>st. if status_inflight (Some st) then JobStatusInterrupted else st) (job_status s k)"
  "jobs_ok s \<Longrightarrow> jobs_ok (runner_Boot ts s)"
proof -
  let ?hit = "\<lambda>j. Job_Status j = JobStatusRunning \<or> Job_Status j = JobStatusCancelling"
  let ?f = "\<lambda>j. j\<lparr>Job_Status := JobStatusInterrupted,
            Job_Error := (if Job_Error j = [] then ''process restarted while job was in flight'' else Job_Error j),
            Job_Message := ''process restarted while job was in flight'',
            Job_FinishedAt := (if IsZero (Job_FinishedAt j) then toStorage ts else Job_FinishedAt j)\<rparr>"
  have jobs: "CDB_jobs (RS_db (runner_Boot ts s)) = update_where ?hit ?f (CDB_jobs (RS_db s))"
    by (simp add: runner_Boot_def ResetSyncing_def InterruptInFlight_def Let_def)
  have "job_row (runner_Boot ts s) k = map_option (\<lambda>j. if ?hit j then ?f j else j) (job_row s k)"
    by (simp add: job_row_of jobs select1_update_where)
  then show "job_status (runner_Boot ts s) k = map_option (\<lambda>st. if status_inflight (Some st) then JobStatusInterrupted else st) (job_status s k)"
    by (cases "job_row s k") (auto simp: job_status_def status_inflight_def)
  show "jobs_ok s \<Longrightarrow> jobs_ok (runner_Boot ts s)"
    by (auto simp: jobs_ok_def jobs map_update_where set_update_where job_checks_def)
qed

lemma same_disarm [simp]: "same_jobs s (disarm s)" "same_jobs s (arm job s)"
  by (simp_all add: same_jobs_def disarm_def arm_def)

lemma same_after: "same_jobs s (cleanupJobUpload root job (disarm s))"
  by (rule same_jobs_trans [OF same_disarm(1) cleanup_same])

lemma slot_inv_step:
  assumes "runner_step env c c'" "slot_inv c"
  shows "slot_inv c'"
  using assms
proof cases
  case (answer w newID ts actorID req s r s')
  then have "slot_inv (s, w)" "jobs_ok s" using assms(2) by (simp_all add: slot_inv_def)
  then show ?thesis using slot_inv_request [OF answer_effect [OF answer(4)]] answer(2,3) by blast
next
  case (deadline s w)
  have "same_jobs s (s\<lparr>RS_ended := Some (Sentinel ctxDeadline)\<rparr>)" by (simp add: same_jobs_def)
  then show ?thesis using slot_inv_same assms(2) deadline by blast
next
  case (pick s job)
  have "job \<in> set (CDB_jobs (RS_db s)) \<and> Job_Status job = JobStatusQueued"
    using NextQueued_in [OF pick(3)] .
  moreover have "jobs_ok s" using assms(2) pick by (simp add: slot_inv_def)
  ultimately have "job_status s (Job_ID job) = Some JobStatusQueued" using job_row_in by (simp add: job_status_def)
  then show ?thesis using assms(2) pick by (simp add: slot_inv_def)
next
  case (claim job ts s job' src adapter s')
  have inv: "slot_inv (s, Picked job)" using assms(2) claim by simp
  obtain j where j: "job_row s (Job_ID job) = Some j" "jobs_ok s" "in_flight_is s None" using picked_row [OF inv] .
  from claim_cases [OF claim(4) j(2,1)] obtain u where u: "wrote (Job_ID job) u s s'" "JU_Status u = JobStatusRunning" "Job_ID job' = Job_ID job"
    by (metis claimed.distinct(1) claimed.inject(2))
  have "one_queued s" using inv by (simp add: slot_inv_def)
  then have "one_queued s'" by (rule one_queued_mono) (use wrote_status(1) [OF u(1)] u(2) in \<open>auto split: if_splits\<close>)
  then show ?thesis using claim(2) wrote_status(2) [OF u(1)] in_flight_wrote(1) [OF u(1)] j(3) u(2,3) by (simp add: slot_inv_def)
next
  case (not_claimed job ts s errs s')
  have inv: "slot_inv (s, Picked job)" using assms(2) not_claimed by simp
  obtain j where j: "job_row s (Job_ID job) = Some j" "jobs_ok s" "in_flight_is s None" using picked_row [OF inv] .
  have "closes (Job_ID job) s s'" using claim_cases [OF not_claimed(4) j(2,1)] by blast
  then show ?thesis using not_claimed(2) slot_inv_closes [OF _ inv cleanup_same] j(3) by blast
next
  case (claim_import job ts s job' s')
  have inv: "slot_inv (s, Picked job)" using assms(2) claim_import by simp
  obtain j where j: "job_row s (Job_ID job) = Some j" "jobs_ok s" "in_flight_is s None" using picked_row [OF inv] .
  let ?u = "(job_update JobStatusRunning PhaseParse 0 0 ''importing v1 custom content'')\<lparr>JU_StartedAt := ts\<rparr>"
  have ok: "Inr job' = Inr (job_sets ?u j) \<and> wrote (Job_ID job) ?u s s'" using job_write_ok [OF claim_import(5) j(2,1)] by simp
  then have u: "wrote (Job_ID job) ?u s s'" "Job_ID job' = Job_ID job" using job_row_id [OF j(1)] by auto
  have "one_queued s" using inv by (simp add: slot_inv_def)
  then have "one_queued s'" by (rule one_queued_mono) (use wrote_status(1) [OF u(1)] in \<open>auto split: if_splits\<close>)
  then show ?thesis using claim_import(2) wrote_status(2) [OF u(1)] in_flight_wrote(1) [OF u(1)] j(3) u(2) by (simp add: slot_inv_def)
next
  case (no_import job ts s errs s')
  have inv: "slot_inv (s, Picked job)" using assms(2) no_import by simp
  obtain j where j: "job_row s (Job_ID job) = Some j" "jobs_ok s" "in_flight_is s None" using picked_row [OF inv] .
  show ?thesis using no_import(2) slot_inv_closes [OF failJob_closes [OF no_import(5) j(2,1)] inv cleanup_same] j(3) by blast
next
  case (arm s picked job src)
  then show ?thesis using slot_inv_same [OF same_disarm(2)] assms(2) by simp
next
  case (work job s s' picked src)
  have "in_flight_is s (Some (Job_ID job))" "jobs_ok s" using assms(2) work by (simp_all add: slot_inv_def)
  then have "jobs_ok s' \<and> job_status s' = job_status s" using work_step_status [OF work(3)] in_flight_row by blast
  then show ?thesis using slot_inv_cong assms(2) work \<open>jobs_ok s\<close> by metis
next
  case (import_fails ts job cause s errs s' picked src)
  have held: "in_flight_is s (Some (Job_ID job))" "jobs_ok s" using assms(2) import_fails by (simp_all add: slot_inv_def)
  then obtain j where "job_row s (Job_ID job) = Some j" using in_flight_row by blast
  then show ?thesis
    using import_fails slot_inv_closes [OF failJob_closes [OF import_fails(3) held(2)] _ same_after] assms(2) held(1) by blast
next
  case (import_succeeds ts job report s errs s' picked src)
  have held: "in_flight_is s (Some (Job_ID job))" "jobs_ok s" using assms(2) import_succeeds by (simp_all add: slot_inv_def)
  then show ?thesis
    using import_succeeds slot_inv_closes [OF v1_success_closes [OF import_succeeds(3) held(2)] _ same_after] assms(2) in_flight_row
    by blast
next
  case (read_back job s current picked src result runErr)
  have "job_row s (Job_ID job) = Some current" using read_back(3) by (simp add: Jobs_ByID_row split: option.splits)
  then have "Job_ID current = Job_ID job" "job_checks current"
    using job_row_id job_row_checks assms(2) read_back by (auto simp: slot_inv_def)
  then show ?thesis using assms(2) read_back by (simp add: slot_inv_def)
next
  case (conclude ts src result runErr current s errs s' picked)
  have held: "in_flight_is s (Some (Job_ID current))" "jobs_ok s" "job_checks current" using assms(2) conclude by (simp_all add: slot_inv_def)
  then obtain j where "job_row s (Job_ID current) = Some j" using in_flight_row by blast
  then show ?thesis
    using conclude slot_inv_closes [OF conclude_closes [OF conclude(3) held(2) _ held(3)] _ same_after] assms(2) held(1) by blast
next
  case (crash s' s job w)
  have same: "same_jobs s (s'\<lparr>RS_runJobID := None, RS_ended := None\<rparr>)" using crash(3) by (auto simp: same_jobs_def)
  have "\<exists>who. in_flight_is s who" using assms(2) crash(1) by (cases w) (auto simp: slot_inv_def)
  then have "slot_inv (s, Down)" using assms(2) crash(1) by (simp add: slot_inv_def)
  then show ?thesis using slot_inv_same [OF same] crash(2) by simp
next
  case (boot s ts)
  have "one_queued s" "jobs_ok s" using assms(2) boot by (simp_all add: slot_inv_def)
  moreover have "one_queued (runner_Boot ts s)"
    by (rule one_queued_mono [OF \<open>one_queued s\<close>]) (auto simp: Boot_status(1) split: if_splits)
  moreover have "\<not> status_inflight (job_status (runner_Boot ts s) a)" for a
    by (cases "job_status s a") (auto simp: Boot_status(1) status_inflight_def)
  ultimately show ?thesis using boot Boot_status(2) by (simp add: slot_inv_def in_flight_is_def)
qed

lemma slot_inv_run:
  assumes "(runner_step env)\<^sup>*\<^sup>* c c'" "slot_inv c"
  shows "slot_inv c'"
  using assms by (induction rule: rtranclp_induct) (auto intro: slot_inv_step)

text \<open>A run of the worker with nothing in between is a run of the steps.\<close>

lemma arm_work_steps: "work_steps (Job_ID job) s s' \<Longrightarrow>
    (runner_step env)\<^sup>*\<^sup>* (s, Holding picked job src) (s', Holding picked job src)"
  by (induction rule: rtranclp_induct) (auto intro: runner_step.work rtranclp.rtrancl_into_rtrancl)

lemma sync_is_run:
  assumes "runner_execute env newID ts job s = (errs, s')" "Job_Kind job \<noteq> JobKindV1Import" "slot_inv (s, Picked job)"
  shows "(runner_step env)\<^sup>*\<^sup>* (s, Picked job) (s', Idle)"
proof -
  obtain c s1 where c: "claim env ts job s = (c, s1)" by fastforce
  show ?thesis
  proof (cases c)
    case (NotClaimed e)
    then have "s' = cleanupJobUpload (Run_root env) job s1"
      using assms(1,2) c by (simp add: runner_execute_def execute_sync_def)
    then show ?thesis using runner_step.not_claimed [OF assms(2) c [unfolded NotClaimed]] by blast
  next
    case (Claimed job' src adapter)
    have claimed: "runner_step env (s, Picked job) (s1, Holding job job' src)"
      using runner_step.claim [OF assms(2) c [unfolded Claimed]] .
    obtain result runErr s2 where p: "runPipeline env adapter newID ts src job' (arm job' s1) = ((result, runErr), s2)"
      by (metis prod.collapse)
    have worked: "(runner_step env)\<^sup>*\<^sup>* (s, Picked job) (s2, Holding job job' src)"
      using claimed runner_step.arm arm_work_steps [OF runPipeline_steps [OF p]]
      by (meson converse_rtranclp_into_rtranclp)
    have "slot_inv (s2, Holding job job' src)" using slot_inv_run [OF worked assms(3)] .
    then obtain current where cur: "Jobs_ByID (Job_ID job') (RS_db s2) = Inr current"
      using in_flight_row by (fastforce simp: slot_inv_def Jobs_ByID_row)
    obtain e s3 where e: "conclude env ts src result runErr current s2 = (e, s3)" by fastforce
    have "s' = cleanupJobUpload (Run_root env) job (disarm s3)"
      using assms(1,2) c Claimed p cur e by (simp add: runner_execute_def execute_sync_def)
    then show ?thesis
      using worked runner_step.read_back [OF cur] runner_step.conclude [OF e]
      by (meson rtranclp.rtrancl_into_rtrancl)
  qed
qed


end
