(* ===== verification/Content_Paths.thy ===== *)
theory Content_Paths
  imports Content_Runner
begin

text \<open>
  Paths below the content directory. A cleaned absolute path is determined by its segments, and the tests
  of path.go and bundle.go say that those of the directory are its first: what is built from a stored
  relative path lies below the directory, and an upload is removed only below its uploads.
\<close>

section \<open>Cutting and joining at slashes\<close>

lemma dropWhile_shorter: "dropWhile P s = c # rest \<Longrightarrow> length rest < length s"
  using length_dropWhile_le [of P s] by simp

lemma split_cuts_free: "length s \<le> k \<Longrightarrow> x \<in> set (split_cuts sep k s) \<Longrightarrow> sep \<notin> set x"
proof (induction k arbitrary: s)
  case (Suc k)
  show ?case
  proof (cases "dropWhile (\<lambda>c. c \<noteq> sep) s")
    case Nil
    then have "split_cuts sep (Suc k) s = [s]" by (rule split_cuts_end)
    then show ?thesis using Suc.prems(2) Nil by (auto simp: dropWhile_eq_Nil_conv simp del: split_cuts.simps)
  next
    case (Cons c rest)
    then have "length rest < length s" by (rule dropWhile_shorter)
    then have "length rest \<le> k" using Suc.prems(1) by simp
    then show ?thesis using Suc.prems(2) Cons Suc.IH [of rest] by (auto dest: set_takeWhileD)
  qed
qed simp

lemma split_cuts_enough: "length s \<le> k \<Longrightarrow> split_cuts sep k s = split_cuts sep (length s) s"
proof (induction "length s" arbitrary: s k rule: less_induct)
  case less
  show ?case
  proof (cases "dropWhile (\<lambda>c. c \<noteq> sep) s")
    case Nil
    then have "split_cuts sep n s = [s]" for n by (rule split_cuts_end)
    then show ?thesis by (simp only:)
  next
    case (Cons c rest)
    then have rest: "length rest < length s" by (rule dropWhile_shorter)
    then obtain n where n: "length s = Suc n" by (metis less_imp_Suc_add)
    obtain k' where k: "k = Suc k'" using less(2) n by (metis Suc_le_D)
    have "split_cuts sep k' rest = split_cuts sep (length rest) rest" 
      by (rule less(1) [OF rest]) (use less(2) rest n k in simp)
    moreover have "split_cuts sep n rest = split_cuts sep (length rest) rest"
      by (rule less(1) [OF rest]) (use rest n in simp)
    ultimately show ?thesis using Cons n k by simp
  qed
qed

lemma Split_parts: "x \<in> set (Split s sep) \<Longrightarrow> sep \<notin> set x"
  unfolding Split_def using split_cuts_free [of s "length s"] by blast

lemma Split_one: "sep \<notin> set s \<Longrightarrow> Split s sep = [s]"
  by (simp add: Split_def split_cuts_one)

lemma Split_cons: "sep \<notin> set p \<Longrightarrow> Split (p @ sep # rest) sep = p # Split rest sep"
proof -
  assume "sep \<notin> set p"
  then have "Split (p @ sep # rest) sep = p # split_cuts sep (length p + length rest) rest"
    using split_cuts_cons [of sep p "length p + length rest" rest] by (simp add: Split_def)
  then show ?thesis using split_cuts_enough [of rest "length p + length rest"] by (simp add: Split_def)
qed

lemma Split_append: "Split (a @ sep # b) sep = Split a sep @ Split b sep"
proof (induction "length a" arbitrary: a rule: less_induct)
  case less
  show ?case
  proof (cases "sep \<in> set a")
    case True
    then obtain p a' where a: "a = p @ sep # a'" "sep \<notin> set p" using split_list_first by metis
    then have "Split (a' @ sep # b) sep = Split a' sep @ Split b sep" using less by simp
    then show ?thesis using a Split_cons [of sep p] by simp
  next
    case False
    then show ?thesis by (simp add: Split_cons Split_one)
  qed
qed

section \<open>Segments\<close>

definition proper_seg :: "string \<Rightarrow> bool" where
  "proper_seg x \<longleftrightarrow> x \<noteq> [] \<and> x \<noteq> ''.'' \<and> slash \<notin> set x"

lemma path_segs_proper: "x \<in> set (path_segs s) \<Longrightarrow> proper_seg x"
  by (auto simp: path_segs_def proper_seg_def dest: Split_parts)

lemma path_segs_append: "path_segs (a @ slash # b) = path_segs a @ path_segs b"
  by (simp add: path_segs_def Split_append)

lemma path_segs_Nil [simp]: "path_segs [] = []"
  by (simp add: path_segs_def Split_def)

lemma path_segs_Cons [simp]: "path_segs (slash # b) = path_segs b"
  using path_segs_append [of "[]"] by simp

lemma path_segs_one: "proper_seg x \<Longrightarrow> path_segs x = [x]"
  by (auto simp: path_segs_def proper_seg_def Split_one)

lemma path_segs_Join: "\<forall>x\<in>set xs. proper_seg x \<Longrightarrow> path_segs (Join xs [slash]) = xs"
  by (induction xs "[slash]" rule: Join.induct) (simp_all add: path_segs_one path_segs_append)

lemma clean_segs_plain: "''..'' \<notin> set xs \<Longrightarrow> clean_segs rooted acc xs = rev acc @ xs"
  by (induction xs arbitrary: acc) auto

lemma clean_segs_append: "clean_segs rooted acc (xs @ ys) = clean_segs rooted (rev (clean_segs rooted acc xs)) ys"
proof (induction rooted acc xs rule: clean_segs.induct)
  case (2 rooted acc x xs)
  note IH = 2
  consider "x \<noteq> ''..''" | "x = ''..''" "acc = []" | a acc' where "x = ''..''" "acc = a # acc'" by (cases acc) auto
  then show ?case
  proof cases
    case 1
    then show ?thesis using IH by simp
  next
    case 2
    then show ?thesis using IH by (cases rooted) simp_all
  next
    case (3 a acc')
    then show ?thesis using IH by (cases "a = ''..''") simp_all
  qed
qed simp

lemma clean_segs_rooted: "''..'' \<notin> set acc \<Longrightarrow> ''..'' \<notin> set (clean_segs True acc xs)"
proof (induction xs arbitrary: acc)
  case (Cons x xs)
  then show ?case by (cases acc; cases "x = ''..''") auto
qed simp

lemma clean_segs_set: "set (clean_segs rooted acc xs) \<subseteq> set acc \<union> set xs"
proof (induction rooted acc xs rule: clean_segs.induct)
  case (2 rooted acc x xs)
  then show ?case by (cases acc; cases "x = ''..''"; cases "hd acc = ''..''"; cases rooted) auto
qed simp

text \<open>The segments of an absolute path.\<close>

definition abs_segs :: "string \<Rightarrow> string list" where
  "abs_segs p = clean_segs True [] (path_segs p)"

lemma abs_segs_proper: "x \<in> set (abs_segs p) \<Longrightarrow> proper_seg x \<and> x \<noteq> ''..''"
  using clean_segs_set [of True "[]" "path_segs p"] clean_segs_rooted [of "[]" "path_segs p"] path_segs_proper
  by (auto simp: abs_segs_def)

lemma IsAbs_Cons [simp]: "IsAbs (slash # s)"
  by (simp add: IsAbs_def HasPrefix_def)

lemma IsAbs_iff: "IsAbs p \<longleftrightarrow> (\<exists>s. p = slash # s)"
  by (auto simp: IsAbs_def HasPrefix_iff)

lemma path_Clean_abs: "IsAbs p \<Longrightarrow> path_Clean p = slash # Join (abs_segs p) [slash]"
  by (simp add: path_Clean_def abs_segs_def Let_def)

lemma path_segs_abs [simp]: "path_segs (slash # Join (abs_segs p) [slash]) = abs_segs p"
  using path_segs_Join abs_segs_proper by simp

lemma abs_segs_again [simp]: "abs_segs (slash # Join (abs_segs p) [slash]) = abs_segs p"
proof -
  have "''..'' \<notin> set (abs_segs p)" using abs_segs_proper by blast
  then show ?thesis
    using clean_segs_plain [of "abs_segs p" True "[]"] path_segs_abs [of p] by (simp add: abs_segs_def [of "slash # _"])
qed

lemma abs_segs_Clean [simp]: "IsAbs p \<Longrightarrow> abs_segs (path_Clean p) = abs_segs p" "IsAbs p \<Longrightarrow> IsAbs (path_Clean p)"
  by (simp_all add: path_Clean_abs)

lemma climbs_rel: "''..'' \<notin> set ts \<Longrightarrow> climbs (rel_segs bs ts) \<longleftrightarrow> \<not> (\<exists>zs. ts = bs @ zs)"
  by (induction bs ts rule: rel_segs.induct) (auto simp: climbs_def neq_Nil_conv)

lemma under_root_iff:
  assumes "IsAbs root" "IsAbs p"
  shows "under_root root p \<longleftrightarrow> (\<exists>zs. abs_segs p = abs_segs root @ zs)"
proof -
  have "''..'' \<notin> set (abs_segs p)" using abs_segs_proper by blast
  then show ?thesis using climbs_rel assms by (simp add: under_root_def path_Rel_def abs_segs_def)
qed

section \<open>What is built from a relative path\<close>

lemma path_segs_Clean_rel:
  assumes "\<not> IsAbs r" "\<not> containsDotDot r" "path_segs r \<noteq> []"
  shows "path_Clean r = Join (path_segs r) [slash]" "path_segs (path_Clean r) = path_segs r"
proof -
  have "''..'' \<notin> set (path_segs r)" using assms(2) by (auto simp: containsDotDot_def path_segs_def)
  then show c: "path_Clean r = Join (path_segs r) [slash]" using assms(1,3) by (simp add: path_Clean_def clean_segs_plain)
  show "path_segs (path_Clean r) = path_segs r" unfolding c using path_segs_Join path_segs_proper by blast
qed

lemma CleanRel_cases:
  assumes "CleanRel r = Inr clean"
  shows "clean = path_Clean r" "\<not> IsAbs r" "\<not> containsDotDot r" "path_segs r \<noteq> []" "r \<noteq> []" "CHR 0x00 \<notin> set r" "CHR 0x5C \<notin> set r"
proof -
  show a: "clean = path_Clean r" "\<not> IsAbs r" "\<not> containsDotDot r" "r \<noteq> []" "CHR 0x00 \<notin> set r" "CHR 0x5C \<notin> set r"
    using assms by (auto simp: CleanRel_def Let_def split: if_splits)
  show "path_segs r \<noteq> []"
  proof
    assume "path_segs r = []"
    then have "path_Clean r = ''.''" using a(2) by (simp add: path_Clean_def)
    then show False using assms by (auto simp: CleanRel_def Let_def split: if_splits)
  qed
qed

lemma path_Join_two: "a \<noteq> [] \<Longrightarrow> b \<noteq> [] \<Longrightarrow> path_Join [a, b] = path_Clean (a @ slash # b)"
  by (simp add: path_Join_def)

lemma Join_not_Nil: "xs \<noteq> [] \<Longrightarrow> \<forall>x\<in>set xs. x \<noteq> [] \<Longrightarrow> Join xs sep \<noteq> []"
  by (induction xs sep rule: Join.induct) auto

lemma Paths_Abs_form:
  assumes "IsAbs root" "CleanRel r = Inr clean"
  shows "Paths_Abs root r = Inr (slash # Join (abs_segs root @ path_segs r) [slash])"
    "abs_segs (slash # Join (abs_segs root @ path_segs r) [slash]) = abs_segs root @ path_segs r"
proof -
  note c = CleanRel_cases [OF assms(2)]
  have dots: "''..'' \<notin> set (path_segs r)" using c(3) by (auto simp: containsDotDot_def path_segs_def)
  have clean: "clean \<noteq> []" "path_segs clean = path_segs r"
    using path_segs_Clean_rel [OF c(2-4)] c(1,4) by auto
  obtain s where root: "root = slash # s" using assms(1) by (auto simp: IsAbs_iff)
  let ?p = "root @ slash # clean"
  have abs_p: "IsAbs ?p" by (simp add: root)
  have segs: "abs_segs ?p = abs_segs root @ path_segs r"
    using clean_segs_append [of True "[]" "path_segs root" "path_segs r"] clean_segs_plain [OF dots]
    by (simp add: abs_segs_def path_segs_append clean(2))
  have join: "path_Join [root, clean] = slash # Join (abs_segs root @ path_segs r) [slash]"
    using path_Join_two [of root clean] clean(1) root path_Clean_abs [OF abs_p] segs by simp
  have again: "abs_segs (path_Join [root, clean]) = abs_segs root @ path_segs r"
    using abs_segs_again [of ?p] segs join by simp
  then have "under_root root (path_Join [root, clean])" using under_root_iff assms(1) join by simp
  then show "Paths_Abs root r = Inr (slash # Join (abs_segs root @ path_segs r) [slash])"
    using assms(2) join by (auto simp: Paths_Abs_def Let_def under_root_def split: option.splits)
  show "abs_segs (slash # Join (abs_segs root @ path_segs r) [slash]) = abs_segs root @ path_segs r"
    using again join by simp
qed

text \<open>A cleaned relative path is its own clean form, and names the same file.\<close>

lemma CleanRel_again:
  assumes "CleanRel r = Inr clean"
  shows "CleanRel clean = Inr clean" "path_segs clean = path_segs r"
proof -
  note c = CleanRel_cases [OF assms]
  note j = path_segs_Clean_rel [OF c(2-4)]
  show segs: "path_segs clean = path_segs r" using j(2) c(1) by simp
  have proper: "\<forall>x\<in>set (path_segs r). proper_seg x" using path_segs_proper by blast
  have dots: "''..'' \<notin> set (path_segs r)" using c(3) by (auto simp: containsDotDot_def path_segs_def)
  have split: "Split clean slash = path_segs r"
  proof -
    have "Split (Join xs [slash]) slash = xs" if "\<forall>x\<in>set xs. proper_seg x" "xs \<noteq> []" for xs
      using that by (induction xs "[slash]" rule: Join.induct) (auto simp: Split_one Split_cons proper_seg_def)
    then show ?thesis using proper c(1,4) j(1) by simp
  qed
  have chars: "set (Join xs [slash]) \<subseteq> insert slash (\<Union>x\<in>set xs. set x)" for xs
    by (induction xs "[slash]" rule: Join.induct) auto
  have seg_chars: "set x \<subseteq> set r" if "x \<in> set (path_segs r)" for x
  proof -
    have sub: "set y \<subseteq> set t" if "y \<in> set (split_cuts sep k t)" for y sep k t
      using that
    proof (induction k arbitrary: t)
      case (Suc k)
      show ?case
      proof (cases "dropWhile (\<lambda>c. c \<noteq> sep) t")
        case (Cons c rest)
        then have "set rest \<subseteq> set t" by (metis set_dropWhileD set_subset_Cons subset_iff)
        then show ?thesis using Suc Cons by (auto dest: set_takeWhileD)
      next
        case Nil
        then have "split_cuts sep (Suc k) t = [t]" by (rule split_cuts_end)
        then show ?thesis using Suc.prems by (simp del: split_cuts.simps)
      qed
    qed auto
    have "x \<in> set (split_cuts slash (length r) r)" using that by (simp add: path_segs_def Split_def)
    then show ?thesis by (rule sub)
  qed
  have plain: "CHR 0x00 \<notin> set clean" "CHR 0x5C \<notin> set clean"
    using chars [of "path_segs r"] seg_chars c(1,6,7) j(1) by auto
  have nonempty: "clean \<noteq> []" using j c(1,4) by auto
  have rel: "\<not> IsAbs clean"
  proof
    assume "IsAbs clean"
    then obtain t where "clean = slash # t" by (auto simp: IsAbs_iff)
    then have "Split clean slash = [] # Split t slash" using Split_cons [of slash "[]"] by simp
    then show False using split proper by (auto simp: proper_seg_def)
  qed
  have nodots: "\<not> containsDotDot clean" using split dots by (simp add: containsDotDot_def)
  have "path_Clean clean = clean"
    using path_segs_Clean_rel(1) [OF rel nodots] segs c(1,4) j(1) by simp
  moreover have "\<not> (clean = ''.'' \<or> clean = ''..'' \<or> HasPrefix clean ''../'')"
    using assms c(1) by (auto simp: CleanRel_def Let_def split: if_splits)
  ultimately show "CleanRel clean = Inr clean"
    using nonempty plain rel nodots by (simp add: CleanRel_def)
qed

end
