(* ===== verification/Content_Ends.thy ===== *)
theory Content_Ends
  imports Content_Slot Content_Paths
begin

text \<open>
  What a job leaves behind: files below the content directory only, a snapshot that reads back as the bytes
  that were applied, a final row with a source that is not left syncing. Then what happens to requests that
  are cut between their reading and their write, which the steps of Content_Slot leave out.
\<close>

section \<open>Files\<close>

lemma Join_head: "xs \<noteq> [] \<Longrightarrow> hd xs \<noteq> [] \<Longrightarrow> \<exists>rest. Join xs sep = hd (hd xs) # rest"
  by (induction xs sep rule: Join.induct) (auto simp: neq_Nil_conv)

lemma IsAbs_Clean: "IsAbs (path_Clean p) \<longleftrightarrow> IsAbs p"
proof (cases "IsAbs p")
  case False
  let ?xs = "clean_segs False [] (path_segs p)"
  have "\<not> IsAbs (Join ?xs [slash])" if "?xs \<noteq> []"
  proof -
    have "hd ?xs \<in> set (path_segs p)" using clean_segs_set [of False "[]" "path_segs p"] hd_in_set [OF that] by auto
    then have "proper_seg (hd ?xs)" by (rule path_segs_proper)
    then have "hd ?xs \<noteq> []" "hd (hd ?xs) \<noteq> slash" by (auto simp: proper_seg_def) (metis hd_in_set)
    then show ?thesis using Join_head [OF that, of "[slash]"] by (auto simp: IsAbs_iff)
  qed
  then show ?thesis using False by (auto simp: path_Clean_def Let_def IsAbs_iff)
qed simp

lemma uploads_segs:
  assumes "IsAbs root"
  shows "IsAbs (path_Join [root, UploadRoot]) \<and> abs_segs (path_Join [root, UploadRoot]) = abs_segs root @ [UploadRoot]"
proof -
  obtain t where root: "root = slash # t" using assms by (auto simp: IsAbs_iff)
  let ?p = "root @ slash # UploadRoot"
  have "IsAbs ?p" by (simp add: root)
  moreover have "path_segs UploadRoot = [UploadRoot]" by (rule path_segs_one) (simp add: proper_seg_def)
  then have "abs_segs ?p = abs_segs root @ [UploadRoot]"
    using clean_segs_append [of True "[]" "path_segs root" "[UploadRoot]"] by (simp add: abs_segs_def path_segs_append)
  ultimately show ?thesis using path_Join_two [of root UploadRoot] by (simp add: root)
qed

text \<open>
  C34. The content runner keeps to its directory. A stored relative path is resolved to a place strictly
  below the content directory or refused; a bundle is accepted for a job exactly when its path is absolute
  and lies in the directory once its dots are resolved; and whatever path a removal is asked for, the only
  files that can disappear are those below the directory's uploads.
\<close>

theorem content_files_inside:
  assumes "IsAbs root"
  shows "(\<forall>rel p. Paths_Abs root rel = Inr p \<longrightarrow> (\<exists>zs. zs \<noteq> [] \<and> abs_segs p = abs_segs root @ zs)) \<and>
    (\<forall>path. requirePathUnderRoot root path = None \<longleftrightarrow> IsAbs path \<and> (\<exists>zs. abs_segs path = abs_segs root @ zs)) \<and>
    (\<forall>path files q. map_of (removeUpload root path files) q \<noteq> map_of files q \<longrightarrow>
       (\<exists>zs. abs_segs q = abs_segs root @ UploadRoot # zs))"
proof (intro conjI allI impI)
  fix rel p assume p: "Paths_Abs root rel = Inr p"
  then obtain clean where c: "CleanRel rel = Inr clean" by (auto simp: Paths_Abs_def split: sum.splits)
  show "\<exists>zs. zs \<noteq> [] \<and> abs_segs p = abs_segs root @ zs"
    using Paths_Abs_form [OF assms c] CleanRel_cases(4) [OF c] p by auto
next
  fix path
  show "requirePathUnderRoot root path = None \<longleftrightarrow> IsAbs path \<and> (\<exists>zs. abs_segs path = abs_segs root @ zs)"
  proof -
    have "root \<noteq> []" using assms by (auto simp: IsAbs_iff)
    then show ?thesis
      using under_root_iff [OF assms, of "path_Clean path"] by (cases "IsAbs path") (simp_all add: requirePathUnderRoot_def Let_def IsAbs_Clean)
  qed
next
  fix path files q assume q: "map_of (removeUpload root path files) q \<noteq> map_of files q"
  let ?up = "path_Join [root, UploadRoot]"
  have del: "path \<noteq> []" "under_root ?up (path_Clean path)" "q = path_Clean path"
    using q by (auto simp: removeUpload_def delete_conv split: if_splits)
  then have "IsAbs (path_Clean path)"
    using uploads_segs [OF assms] by (auto simp: under_root_def path_Rel_def split: option.splits if_splits)
  then show "\<exists>zs. abs_segs q = abs_segs root @ UploadRoot # zs"
    using under_root_iff uploads_segs [OF assms] del(2,3) by auto
qed

section \<open>Snapshots\<close>

lemma BySourceVersion_key:
  "BySourceVersion sid ver db = (case select1 (\<lambda>v. (SVersion_SourceID v, SVersion_Version v) = (sid, ver)) (CDB_versions db) of
     None \<Rightarrow> Inl (NotFound ''content_source_version'' (sid @ ''/'' @ ver)) | Some v \<Rightarrow> Inr v)"
  by (simp add: BySourceVersion_def)

text \<open>An update by identifier reaches the row that was found by its natural key.\<close>

lemma update_version_reaches:
  assumes "update_version what vid f db = (None, db')" "BySourceVersion sid ver db = Inr v" "SVersion_ID v = vid"
    "\<And>v. SVersion_SourceID (f v) = SVersion_SourceID v \<and> SVersion_Version (f v) = SVersion_Version v"
  shows "BySourceVersion sid ver db' = Inr (f v)"
proof -
  have db': "db' = db\<lparr>CDB_versions := update_where (\<lambda>v. SVersion_ID v = vid) f (CDB_versions db)\<rparr>"
    using assms(1) by (auto simp: update_version_def Let_def split: if_splits option.splits)
  have v: "select1 (\<lambda>v. (SVersion_SourceID v, SVersion_Version v) = (sid, ver)) (CDB_versions db) = Some v"
    using assms(2) by (simp add: BySourceVersion_key split: option.splits)
  have rows: "CDB_versions db' = update_where (\<lambda>v. SVersion_ID v = vid) f (CDB_versions db)" by (simp add: db')
  have "select1 (\<lambda>v. (SVersion_SourceID v, SVersion_Version v) = (sid, ver)) (CDB_versions db') =
      map_option (\<lambda>v. if SVersion_ID v = vid then f v else v)
        (select1 (\<lambda>v. (SVersion_SourceID v, SVersion_Version v) = (sid, ver)) (CDB_versions db))"
    unfolding rows by (rule select1_update_where) (simp add: assms(4))
  then show ?thesis using v assms(3) by (simp add: BySourceVersion_key)
qed

lemma RawRel_form:
  assumes "RawRel sid ver sha = Inr rel"
  shows "rel = Join [RawRoot, sid, ver, sha] [slash]" "path_segs rel = [RawRoot, sid, ver, sha]"
proof -
  have ok: "checkPathSegment n x = None \<Longrightarrow> proper_seg x \<and> x \<noteq> ''..''" for n x
    by (auto simp: checkPathSegment_def proper_seg_def split: if_splits)
  let ?xs = "[RawRoot, sid, ver, sha]"
  have segs: "proper_seg sid \<and> sid \<noteq> ''..''" "proper_seg ver \<and> ver \<noteq> ''..''" "proper_seg sha \<and> sha \<noteq> ''..''"
      and rel: "rel = path_Join ?xs"
    using assms ok by (auto simp: RawRel_def split: option.splits)
  have proper: "\<forall>x\<in>set ?xs. proper_seg x" "''..'' \<notin> set ?xs" using segs by (auto simp: proper_seg_def)
  have named: "filter (\<lambda>p. p \<noteq> []) ?xs = ?xs" using segs by (auto simp: proper_seg_def)
  have "\<not> IsAbs (Join ?xs [slash])" by (simp add: IsAbs_iff)
  then have "path_Clean (Join ?xs [slash]) = Join ?xs [slash]"
    unfolding path_Clean_def Let_def path_segs_Join [OF proper(1)] clean_segs_plain [OF proper(2)] by simp
  then show r: "rel = Join ?xs [slash]" unfolding rel path_Join_def named Let_def by simp
  show "path_segs rel = ?xs" unfolding r by (rule path_segs_Join [OF proper(1)])
qed

text \<open>Two snapshots in one file have one name.\<close>

lemma snapshot_names:
  assumes "IsAbs root" "CleanRel raw = Inr raw" "RawRel sid v sha = Inr rel" "CleanRel rel = Inr clean"
    "Paths_Abs root raw = Inr p" "Paths_Abs root rel = Inr p"
  shows "raw = rel"
proof -
  have "abs_segs root @ path_segs raw = abs_segs root @ path_segs rel"
    using Paths_Abs_form [OF assms(1,2)] Paths_Abs_form [OF assms(1,4)] assms(5,6) by (metis sum.inject(2))
  then have segs: "path_segs raw = path_segs rel" by simp
  note c = CleanRel_cases [OF assms(2)]
  have "raw = Join (path_segs rel) [slash]" using path_segs_Clean_rel(1) [OF c(2-4)] c(1) segs by simp
  moreover have "rel = Join (path_segs rel) [slash]" using RawRel_form [OF assms(3)] by simp
  ultimately show ?thesis by simp
qed

text \<open>
  C33. A successful run can be read back. Once the runner has finished a version, its row says that it is
  ready, with the count and the digest of the bundle, and its stored path leads to a file below the content
  directory that holds exactly the bytes that were parsed and applied: the removal of the snapshot before it
  does not take the new one.
\<close>

theorem snapshot_read_back:
  assumes "finalizeSuccess env ts sid bundle n s = (None, s')" "IsAbs (Run_root env)"
    "\<forall>v\<in>set (CDB_versions (RS_db s)). SVersion_RawPath v = [] \<or> CleanRel (SVersion_RawPath v) = Inr (SVersion_RawPath v)"
  shows "\<exists>ver p. BySourceVersion sid (Bundle_Version bundle) (RS_db s') = Inr ver \<and> SVersion_Status ver = VersionStatusReady \<and>
    SVersion_ItemCount ver = n \<and> SVersion_RawSHA256 ver = Bundle_SHA256 bundle \<and>
    Paths_Abs (Run_root env) (SVersion_RawPath ver) = Inr p \<and> map_of (RS_files s') p = Some (Bundle_Bytes bundle)"
proof -
  let ?root = "Run_root env"
  obtain rel where rel: "RawRel sid (Bundle_Version bundle) (Bundle_SHA256 bundle) = Inr rel"
    using assms(1) by (auto simp: finalizeSuccess_def split: sum.splits)
  obtain p where p: "Paths_Abs ?root rel = Inr p"
    using assms(1) rel by (auto simp: finalizeSuccess_def split: sum.splits)
  obtain clean where clean: "CleanRel rel = Inr clean" using p by (auto simp: Paths_Abs_def split: sum.splits)
  note form = Paths_Abs_form [OF assms(2) clean]
  have pf: "p = slash # Join (abs_segs ?root @ path_segs rel) [slash]" using form(1) p by simp
  obtain ver where ver: "BySourceVersion sid (Bundle_Version bundle) (RS_db s) = Inr ver"
    using assms(1) rel p by (auto simp: finalizeSuccess_def Let_def split: sum.splits option.splits)
  define files where "files = AList.update p (Bundle_Bytes bundle) (RS_files s)"
  define kept where "kept = (if SVersion_RawPath ver \<noteq> [] \<and> SVersion_RawPath ver \<noteq> rel
      then case Paths_Abs ?root (SVersion_RawPath ver) of Inl _ \<Rightarrow> files | Inr old \<Rightarrow> AList.delete old files else files)"
  obtain r1 db1 where raw: "SetRaw ?root ts (SVersion_ID ver) rel (Bundle_SHA256 bundle) (Bundle_Size bundle) (RS_db s) = (r1, db1)"
    by fastforce
  have step: "(case r1 of Inl err \<Rightarrow> (Some err, db1) | Inr _ \<Rightarrow> SetState ts (SVersion_ID ver) VersionStatusReady n [] ts db1) = (None, RS_db s')
      \<and> RS_files s' = kept"
    using assms(1) rel p ver raw unfolding kept_def files_def
    by (auto simp: finalizeSuccess_def Let_def split: sum.splits option.splits prod.splits if_splits)
  then obtain v1 where r1: "r1 = Inr v1" and state: "SetState ts (SVersion_ID ver) VersionStatusReady n [] ts db1 = (None, RS_db s')"
    by (auto split: sum.splits)
  have "BySourceVersion sid (Bundle_Version bundle) db1 = Inr (ver\<lparr>SVersion_RawPath := clean, SVersion_RawSHA256 := Bundle_SHA256 bundle,
      SVersion_RawBytes := Bundle_Size bundle, SVersion_UpdatedAt := toStorage ts\<rparr>)"
    using raw clean r1 update_version_reaches [OF _ ver refl]
    by (auto simp: SetRaw_def split: sum.splits option.splits if_splits prod.splits)
  from update_version_reaches [OF state [unfolded SetState_def] this]
  obtain new where new: "BySourceVersion sid (Bundle_Version bundle) (RS_db s') = Inr new" "SVersion_Status new = VersionStatusReady"
      "SVersion_ItemCount new = n" "SVersion_RawSHA256 new = Bundle_SHA256 bundle" "SVersion_RawPath new = clean"
    by (fastforce)
  have "Paths_Abs ?root clean = Inr p"
    using Paths_Abs_form(1) [OF assms(2) CleanRel_again(1) [OF clean]] CleanRel_again(2) [OF clean] pf by simp
  moreover have "map_of kept p = Some (Bundle_Bytes bundle)"
  proof -
    have "ver \<in> set (CDB_versions (RS_db s))"
      using ver by (auto simp: BySourceVersion_def dest: select1_Some split: option.splits)
    then have "old \<noteq> p" if old: "SVersion_RawPath ver \<noteq> []" "SVersion_RawPath ver \<noteq> rel" "Paths_Abs ?root (SVersion_RawPath ver) = Inr old" for old
      using snapshot_names [OF assms(2) _ rel clean _ p] assms(3) old by blast
    then show ?thesis by (auto simp: kept_def files_def delete_conv update_conv split: sum.splits)
  qed
  ultimately show ?thesis using new step by auto
qed

section \<open>The end of a run\<close>

text \<open>No write moves a job to another source.\<close>

definition job_source :: "Runner_state \<Rightarrow> string \<Rightarrow> string option" where
  "job_source s jid = map_option Job_SourceID (job_row s jid)"

lemma job_source_row:
  assumes "job_source s' = job_source s" "job_row s jid = Some j"
  shows "\<exists>j'. job_row s' jid = Some j' \<and> Job_SourceID j' = Job_SourceID j"
proof -
  have "map_option Job_SourceID (job_row s' jid) = map_option Job_SourceID (job_row s jid)"
    using fun_cong [OF assms(1), of jid] unfolding job_source_def .
  then show ?thesis unfolding assms(2) by simp
qed

lemma job_write_source:
  assumes "job_write jid u s = (r, s')" "jobs_ok s"
  shows "jobs_ok s' \<and> job_source s' = job_source s \<and> CDB_sources (RS_db s') = CDB_sources (RS_db s)"
  using assms
proof (cases rule: job_write_cases)
  case (2 j)
  then show ?thesis using wrote_status(2,6) [OF 2(3)] by (auto simp: wrote_def job_source_def fun_eq_iff)
qed (use assms in auto)

lemma Report_source:
  assumes "jobs_ok s"
  shows "jobs_ok (Report_progress jid ph c t m s) \<and> job_source (Report_progress jid ph c t m s) = job_source s \<and>
    CDB_sources (RS_db (Report_progress jid ph c t m s)) = CDB_sources (RS_db s)"
proof -
  obtain r s1 where w: "job_write jid (job_update (report_status jid s) ph c t m) s = (r, s1)" by fastforce
  then show ?thesis using job_write_source [OF w assms] assms
    by (auto simp: Report_progress_def report_write_def runner_publish_def job_source_def fun_eq_iff)
qed

lemma work_step_source:
  "work_step jid s s' \<Longrightarrow> jobs_ok s \<Longrightarrow> jobs_ok s' \<and> job_source s' = job_source s \<and> CDB_sources (RS_db s') = CDB_sources (RS_db s)"
proof (induction rule: work_step.induct)
  case (report s phase current tot message)
  then show ?case by (rule Report_source)
next
  case (install s' s)
  then show ?case by (simp add: jobs_ok_def job_source_def job_row_def fun_eq_iff)
qed

lemma work_steps_source:
  "work_steps jid s s' \<Longrightarrow> jobs_ok s \<Longrightarrow> jobs_ok s' \<and> job_source s' = job_source s \<and> CDB_sources (RS_db s') = CDB_sources (RS_db s)"
  by (induction rule: rtranclp_induct) (use work_step_source in auto)

definition sources_ok :: "Runner_state \<Rightarrow> bool" where
  "sources_ok s \<longleftrightarrow> distinct (map Source_ID (CDB_sources (RS_db s))) \<and> (\<forall>x\<in>set (CDB_sources (RS_db s)). source_checks x)"

text \<open>The source has the status, where it has a row.\<close>

definition source_is :: "SourceStatus set \<Rightarrow> string \<Rightarrow> Runner_state \<Rightarrow> bool" where
  "source_is sts sid s \<longleftrightarrow> (\<forall>x\<in>set (CDB_sources (RS_db s)). Source_ID x = sid \<longrightarrow> Source_Status x \<in> sts)"

lemma update_source_hit:
  assumes "count_where (\<lambda>x. Source_ID x = sid) (CDB_sources db) = 1"
    "\<forall>x\<in>set (CDB_sources db). source_checks (f x)"
  shows "update_source what sid f [] db = (None, db\<lparr>CDB_sources := update_where (\<lambda>x. Source_ID x = sid) f (CDB_sources db)\<rparr>)"
proof -
  have "(\<exists>s\<in>set (filter (\<lambda>x. Source_ID x = sid) (CDB_sources db)). \<not> source_checks (f s)) = False" using assms(2) by auto
  then show ?thesis unfolding update_source_def Let_def by (simp only: if_False assms(1)) (simp add: content_requireOneRow_def)
qed

lemma source_write_hits:
  assumes "source_write ts sid st n e t s = (r, s')" "SetSyncState ts sid st n e t (RS_db s) = (None, (RS_db s)\<lparr>CDB_sources := rows\<rparr>)"
  shows "r = None" "CDB_sources (RS_db s') = rows"
  using assms by (auto simp: source_write_def)

lemma update_where_all:
  assumes "y \<in> set (update_where P f rows)" "\<And>z. Q (f z)" "\<not> P y \<Longrightarrow> Q y"
  shows "Q y"
  using assms by (auto simp: update_where_def split: if_splits)

lemma source_write_marks:
  assumes "source_write ts sid st n e t s = (r, s')" "sources_ok s" "st \<in> {SourceStatusIdle, SourceStatusSyncing, SourceStatusError}" "0 \<le> n"
  shows "source_is {st} sid s' \<and> (r = None \<or> sid \<notin> Source_ID ` set (CDB_sources (RS_db s)))"
proof (cases "sid \<in> Source_ID ` set (CDB_sources (RS_db s))")
  case True
  then obtain x where x: "x \<in> set (CDB_sources (RS_db s))" "Source_ID x = sid" by blast
  have one: "count_where (\<lambda>x. Source_ID x = sid) (CDB_sources (RS_db s)) = 1"
    using count_where_1 [of Source_ID, OF _ x(1)] x(2) assms(2) by (simp add: sources_ok_def)
  let ?f = "\<lambda>x. x\<lparr>Source_Status := st, Source_ItemCount := n, Source_Error := e,
      Source_LastSyncedAt := (if IsZero t then Source_LastSyncedAt x else toStorage t), Source_UpdatedAt := toStorage ts\<rparr>"
  have "\<forall>x\<in>set (CDB_sources (RS_db s)). source_checks (?f x)" using assms(2-4) by (simp add: sources_ok_def source_checks_def)
  note hit = update_source_hit [OF one this]
  have "SetSyncState ts sid st n e t (RS_db s) =
      (None, (RS_db s)\<lparr>CDB_sources := update_where (\<lambda>x. Source_ID x = sid) ?f (CDB_sources (RS_db s))\<rparr>)"
    unfolding SetSyncState_def by (rule hit)
  note hits = source_write_hits [OF assms(1) this]
  have "Source_Status y = st" if "y \<in> set (CDB_sources (RS_db s'))" "Source_ID y = sid" for y
    by (rule update_where_all [OF that(1) [unfolded hits(2)]]) (use that(2) in simp_all)
  then have "source_is {st} sid s'" by (simp add: source_is_def)
  then show ?thesis using hits(1) by blast
next
  case False
  then have none: "\<And>x. x \<in> set (CDB_sources (RS_db s)) \<Longrightarrow> Source_ID x \<noteq> sid" by blast
  then have "count_where (\<lambda>x. Source_ID x = sid) (CDB_sources (RS_db s)) = 0" by (auto simp: count_where_0)
  then have "RS_db s' = RS_db s"
    using assms(1) by (auto simp: source_write_def SetSyncState_def update_source_def Let_def content_requireOneRow_def split: if_splits)
  then show ?thesis using False none by (auto simp: source_is_def)
qed

lemma source_is_mono: "source_is A sid s \<Longrightarrow> A \<subseteq> B \<Longrightarrow> CDB_sources (RS_db s') = CDB_sources (RS_db s) \<Longrightarrow> source_is B sid s'"
  by (auto simp: source_is_def)

lemma sources_frame [simp]:
  "CDB_sources (RS_db (runner_publish ev s)) = CDB_sources (RS_db s)"
  "CDB_sources (RS_db (runner_recordAlone env a v o' d s)) = CDB_sources (RS_db s)"
  "CDB_sources (RS_db (cleanupJobUpload root job s)) = CDB_sources (RS_db s)"
  "CDB_sources (RS_db (disarm s)) = CDB_sources (RS_db s)" "CDB_sources (RS_db (arm job s)) = CDB_sources (RS_db s)"
  by (simp_all add: runner_publish_def runner_recordAlone_def cleanupJobUpload_def Let_def disarm_def arm_def)

lemma sources_ok_cong: "CDB_sources (RS_db s') = CDB_sources (RS_db s) \<Longrightarrow> sources_ok s' = sources_ok s"
  by (simp add: sources_ok_def)

lemma Sources_ByID_in: "Sources_ByID sid (RS_db s) = Inr x \<Longrightarrow> x \<in> set (CDB_sources (RS_db s)) \<and> Source_ID x = sid"
  by (auto simp: Sources_ByID_def dest: select1_Some split: option.splits)

lemma Sources_ByID_none: "Sources_ByID sid (RS_db s) = Inl err \<Longrightarrow> source_is A sid s"
  by (auto simp: Sources_ByID_def source_is_def select1_None split: option.splits)

lemma source_count: "sources_ok s \<Longrightarrow> Sources_ByID sid (RS_db s) = Inr x \<Longrightarrow> 0 \<le> Source_ItemCount x"
  by (auto simp: sources_ok_def source_checks_def dest: Sources_ByID_in)

lemma failJob_marks:
  assumes "failJob env ts job version cause s = (errs, s')" "jobs_ok s" "sources_ok s" "job_row s (Job_ID job) = Some j"
  shows "source_is {SourceStatusError} (Job_SourceID job) s'"
proof -
  let ?s0 = "cleanupJobUpload (Run_root env) job s"
  let ?u = "(job_update JobStatusFailed (Job_Phase job) 0 0 ''failed'')\<lparr>JU_Error := Run_show env cause, JU_FinishedAt := ts\<rparr>"
  obtain r s1 where w: "job_write (Job_ID job) ?u ?s0 = (r, s1)" by fastforce
  have s0: "job_row ?s0 = job_row s" "jobs_ok ?s0" using assms(2) same_jobsD [OF cleanup_same [of s]] by auto
  obtain x where r: "r = Inr x" using job_write_ok [OF w s0(2)] assms(4) s0(1) by simp
  have src1: "CDB_sources (RS_db s1) = CDB_sources (RS_db s)" using job_write_source [OF w s0(2)] by simp
  have ok1: "sources_ok s1" using sources_ok_cong [OF src1] assms(3) by simp
  show ?thesis
  proof (cases "Sources_ByID (Job_SourceID job) (RS_db s1)")
    case (Inl err)
    then have "CDB_sources (RS_db s') = CDB_sources (RS_db s1)" using assms(1) w r by (auto simp: failJob_def Let_def)
    then show ?thesis using Sources_ByID_none [OF Inl] source_is_mono by blast
  next
    case (Inr src)
    obtain r2 s2 where sw: "source_write ts (Source_ID src) SourceStatusError (Source_ItemCount src) (Run_show env cause) 0 s1 = (r2, s2)"
      by fastforce
    have "CDB_sources (RS_db s') = CDB_sources (RS_db s2)" using assms(1) w r Inr sw by (auto simp: failJob_def Let_def)
    moreover have "source_is {SourceStatusError} (Source_ID src) s2" using source_write_marks [OF sw ok1] source_count [OF ok1 Inr] by simp
    ultimately show ?thesis using Sources_ByID_in [OF Inr] source_is_mono by (metis order_refl)
  qed
qed

lemma cancelJob_marks:
  assumes "cancelJob env ts job src s = (errs, s')" "jobs_ok s" "sources_ok s" "job_row s (Job_ID job) = Some j"
    "0 \<le> Source_ItemCount src" "job_checks job"
  shows "source_is {SourceStatusIdle} (Source_ID src) s'"
proof -
  let ?s0 = "cleanupJobUpload (Run_root env) job s"
  let ?u = "(job_update JobStatusCancelled (Job_Phase job) (Job_ProgressCurrent job) (Job_ProgressTotal job) ''cancelled'')
      \<lparr>JU_FinishedAt := ts\<rparr>"
  obtain r s1 where w: "job_write (Job_ID job) ?u ?s0 = (r, s1)" by fastforce
  have s0: "job_row ?s0 = job_row s" "jobs_ok ?s0" using assms(2) same_jobsD [OF cleanup_same [of s]] by auto
  obtain x where r: "r = Inr x" using job_write_ok [OF w s0(2)] assms(4,6) s0(1) by (auto simp: job_checks_def)
  have ok1: "sources_ok s1" using job_write_source [OF w s0(2)] sources_ok_cong [of s1 s] assms(3) by simp
  obtain r2 s2 where sw: "source_write ts (Source_ID src) SourceStatusIdle (Source_ItemCount src) [] 0 s1 = (r2, s2)" by fastforce
  have "CDB_sources (RS_db s') = CDB_sources (RS_db s2)" using assms(1) w r sw by (auto simp: cancelJob_def Let_def)
  then show ?thesis using source_write_marks [OF sw ok1] assms(5) source_is_mono by (metis (no_types, lifting) insertCI order_refl)
qed

lemma succeedJob_marks:
  assumes "succeedJob env ts job src result s = (errs, s')" "jobs_ok s" "sources_ok s" "job_row s (Job_ID job) = Some j" "0 \<le> PR_count result"
  shows "source_is {SourceStatusIdle} (Source_ID src) s'"
proof -
  let ?s0 = "cleanupJobUpload (Run_root env) job s"
  let ?u = "(job_update JobStatusSucceeded PhaseFinalize 1 1 (if PR_message result \<noteq> [] then PR_message result else ''succeeded''))
      \<lparr>JU_FinishedAt := ts\<rparr>"
  let ?ver = "if PR_version result \<noteq> [] then PR_version result else if Job_Version job \<noteq> [] then Job_Version job else VersionCurrent"
  let ?n = "succeeded_count (Source_ID src) ?ver (PR_count result) (RS_db ?s0)"
  obtain r s1 where w: "job_write (Job_ID job) ?u ?s0 = (r, s1)" by fastforce
  have s0: "job_row ?s0 = job_row s" "jobs_ok ?s0" using assms(2) same_jobsD [OF cleanup_same [of s]] by auto
  obtain x where r: "r = Inr x" using job_write_ok [OF w s0(2)] assms(4) s0(1) by simp
  have ok1: "sources_ok s1" using job_write_source [OF w s0(2)] sources_ok_cong [of s1 s] assms(3) by simp
  obtain r2 s2 where sw: "source_write ts (Source_ID src) SourceStatusIdle ?n [] ts s1 = (r2, s2)" by fastforce
  have "0 \<le> ?n" using assms(5) by (auto simp: succeeded_count_def split: sum.splits)
  then have "source_is {SourceStatusIdle} (Source_ID src) s2" using source_write_marks [OF sw ok1] by simp
  moreover have "CDB_sources (RS_db s') = CDB_sources (RS_db s2)"
    using assms(1) w r sw by (auto simp: succeedJob_def Let_def split: option.splits)
  ultimately show ?thesis using source_is_mono by blast
qed

lemma conclude_marks:
  assumes "conclude env ts src result runErr current s = (errs, s')" "jobs_ok s" "sources_ok s" "job_row s (Job_ID current) = Some current"
    "0 \<le> PR_count result" "0 \<le> Source_ItemCount src" "Job_SourceID current = Source_ID src"
  shows "source_is {SourceStatusIdle, SourceStatusError} (Source_ID src) s'"
proof -
  let ?c = "if PR_version result \<noteq> [] then current\<lparr>Job_Version := PR_version result\<rparr> else current"
  have c: "Job_ID ?c = Job_ID current" "Job_SourceID ?c = Source_ID src" "job_checks ?c" "Job_Status ?c = Job_Status current"
    using job_row_checks [OF assms(2,4)] assms(7) by (auto simp: job_checks_def)
  have row: "job_row s (Job_ID ?c) = Some current" using assms(4) c(1) by simp
  have "(\<exists>r. succeedJob env ts ?c src result s = (errs, s')) \<or> cancelJob env ts ?c src s = (errs, s') \<or>
      (\<exists>v e. failJob env ts ?c v e s = (errs, s'))"
    using assms(1) by (auto simp: conclude_def Let_def split: option.splits if_splits)
  then have "source_is {SourceStatusIdle} (Source_ID src) s' \<or> source_is {SourceStatusError} (Source_ID src) s'"
    using succeedJob_marks [OF _ assms(2,3) row assms(5)] cancelJob_marks [OF _ assms(2,3) row assms(6) c(3)]
      failJob_marks [OF _ assms(2,3) row] c(2) by metis
  then show ?thesis by (auto simp: source_is_def)
qed

lemma v1_success_marks:
  assumes "v1_success env ts job report s = (errs, s')" "jobs_ok s" "sources_ok s" "job_row s (Job_ID job) = Some j"
    "\<forall>objs. 0 \<le> Run_countCustom env objs"
  shows "source_is {SourceStatusIdle} SourceIDCustom s'"
proof -
  let ?s0 = "Report_progress (Job_ID job) PhaseApply 1 1 (V1_summary report) s"
  let ?s1 = "cleanupJobUpload (Run_root env) job ?s0"
  let ?u = "(job_update JobStatusSucceeded PhaseFinalize 1 1 (V1_summary report))\<lparr>JU_FinishedAt := ts\<rparr>"
  obtain r s2 where w: "job_write (Job_ID job) ?u ?s1 = (r, s2)" by fastforce
  have s0: "jobs_ok ?s0" "job_source ?s0 = job_source s" "sources_ok ?s0"
    using Report_source [OF assms(2)] sources_ok_cong assms(3) by blast+
  obtain j0 where "job_row ?s0 (Job_ID job) = Some j0" using job_source_row [OF s0(2) assms(4)] by blast
  then have s1: "job_row ?s1 (Job_ID job) = Some j0" "jobs_ok ?s1" using s0(1) same_jobsD [OF cleanup_same [of ?s0]] by auto
  obtain x where r: "r = Inr x" using job_write_ok [OF w s1(2,1)] by simp
  have ok2: "sources_ok s2" using job_write_source [OF w s1(2)] sources_ok_cong [of s2 ?s0] s0(3) by simp
  let ?n = "Run_countCustom env (CDB_objects (RS_db s2))"
  obtain r2 s3 where sw: "source_write ts SourceIDCustom SourceStatusIdle ?n [] ts s2 = (r2, s3)" by fastforce
  have "source_is {SourceStatusIdle} SourceIDCustom s3" using source_write_marks [OF sw ok2] assms(5) by simp
  moreover have "CDB_sources (RS_db s') = CDB_sources (RS_db s3)"
    using assms(1) w r sw by (auto simp: v1_success_def Let_def split: option.splits)
  ultimately show ?thesis using source_is_mono by blast
qed

text \<open>While a run holds its job, the row stays, and with it the other jobs and the sources.\<close>

lemma run_keeps:
  assumes "work_steps jid s1 s2" "jobs_ok s1" "job_row s1 jid = Some j" "Job_Status j = JobStatusRunning"
  obtains current where "job_row s2 jid = Some current" "Job_SourceID current = Job_SourceID j" "jobs_ok s2"
    "job_status s2 = job_status s1" "CDB_sources (RS_db s2) = CDB_sources (RS_db s1)"
proof -
  have "job_status s1 jid \<in> {Some JobStatusRunning, Some JobStatusCancelling}" using assms(3,4) by (simp add: job_status_def)
  note st = work_steps_status [OF assms(1,2) this] and src = work_steps_source [OF assms(1,2)]
  obtain current where "job_row s2 jid = Some current" "Job_SourceID current = Job_SourceID j"
    using job_source_row [OF conjunct1 [OF conjunct2 [OF src]] assms(3)] by blast
  then show ?thesis by (rule that) (use st in blast)+
qed

lemma closes_since: "closes jid s2 s' \<Longrightarrow> (\<And>k. k \<noteq> jid \<Longrightarrow> job_status s2 k = job_status s k) \<Longrightarrow> closes jid s s'"
  by (simp add: closes_def)

lemma closes_disarm: "closes jid s s' \<Longrightarrow> closes jid s (disarm s')"
  using same_jobsD [OF same_disarm(1) [of s']] same_jobs_status [OF same_disarm(1) [of s']] by (simp add: closes_def)

lemma source_is_cong: "CDB_sources (RS_db s') = CDB_sources (RS_db s) \<Longrightarrow> source_is A sid s' = source_is A sid s"
  by (simp add: source_is_def)

lemma install_bundle_count:
  assumes "install_bundle env adapter newID ts src jid b out s = ((result, e), s')" "0 \<le> PR_count out"
    "\<forall>objs. 0 \<le> Run_itemCount env objs"
  shows "0 \<le> PR_count result"
  using assms by (auto simp: install_bundle_def Let_def split: sum.splits option.splits prod.splits)

lemma runPipeline_count:
  assumes "runPipeline env adapter newID ts src job s = ((result, e), s')" "\<forall>objs. 0 \<le> Run_itemCount env objs"
  shows "0 \<le> PR_count result"
  using assms install_bundle_count [OF _ _ assms(2)]
  by (fastforce simp: runPipeline_def Let_def split: sum.splits prod.splits if_splits)

text \<open>A run that is not an import of custom content.\<close>

lemma claim_refused_marks:
  assumes "claim env ts job s = (NotClaimed errs, s')" "jobs_ok s" "sources_ok s" "job_row s (Job_ID job) = Some job"
  shows "source_is {SourceStatusError} (Job_SourceID job) s'"
proof -
  have "\<exists>r. job_write (Job_ID job) ((job_update JobStatusRunning PhaseFetch 0 0 ''starting'')\<lparr>JU_StartedAt := ts\<rparr>) s = r" by blast
  then obtain r s1 where w: "job_write (Job_ID job) ((job_update JobStatusRunning PhaseFetch 0 0 ''starting'')\<lparr>JU_StartedAt := ts\<rparr>) s = (r, s1)"
    by fastforce
  have "\<exists>x. r = Inr x" using job_write_ok [OF w assms(2,4)] by simp
  then have "\<exists>cause. failJob env ts job [] cause s = (errs, s')"
    using assms(1) w by (auto simp: claim_def split: sum.splits option.splits prod.splits)
  then show ?thesis using failJob_marks [OF _ assms(2-4)] by blast
qed

lemma execute_sync_ends:
  assumes "execute_sync env newID ts job s = (errs, s')" "jobs_ok s" "sources_ok s" "job_row s (Job_ID job) = Some job"
    "\<forall>objs. 0 \<le> Run_itemCount env objs"
  shows "closes (Job_ID job) s s' \<and> source_is {SourceStatusIdle, SourceStatusError} (Job_SourceID job) s'"
proof -
  obtain c s1 where c: "claim env ts job s = (c, s1)" by fastforce
  show ?thesis
  proof (cases rule: claim_cases [OF c assms(2,4)])
    case (1 e)
    then have "s' = s1" using assms(1) c by (simp add: execute_sync_def)
    moreover have "source_is {SourceStatusError} (Job_SourceID job) s1"
      using claim_refused_marks [OF c [unfolded 1(1)] assms(2-4)] .
    ultimately show ?thesis using 1(2) by (auto simp: source_is_def)
  next
    case (2 job' src adapter u)
    obtain result runErr s2 where p: "runPipeline env adapter newID ts src job' (arm job' s1) = ((result, runErr), s2)"
      by (metis prod.collapse)
    note w = wrote_status [OF 2(2)]
    have armed: "jobs_ok (arm job' s1)" "job_row (arm job' s1) = job_row s1" "job_status (arm job' s1) = job_status s1"
      using same_jobsD [OF same_disarm(2) [of s1 job']] w(2) by (simp_all add: job_status_def [abs_def])
    have running: "Job_Status job' = JobStatusRunning" using w(1) [of "Job_ID job"] 2(3,5) by (simp add: job_status_def)
    have row: "job_row (arm job' s1) (Job_ID job) = Some job'" using armed(2) 2(5) by simp
    have steps: "work_steps (Job_ID job) (arm job' s1) s2" using runPipeline_steps [OF p] 2(4) by simp
    obtain current where cur: "job_row s2 (Job_ID job) = Some current" "Job_SourceID current = Job_SourceID job'"
        "jobs_ok s2" "job_status s2 = job_status (arm job' s1)" "CDB_sources (RS_db s2) = CDB_sources (RS_db (arm job' s1))"
      by (rule run_keeps [OF steps armed(1) row running])
    have src2: "CDB_sources (RS_db s2) = CDB_sources (RS_db s)" using cur(5) w(6) by simp
    then have ok2: "sources_ok s2" using sources_ok_cong assms(3) by blast
    have jid: "Job_ID current = Job_ID job" using job_row_id [OF cur(1)] by simp
    obtain e s3 where e: "conclude env ts src result runErr current s2 = (e, s3)" by fastforce
    have s': "s' = disarm s3"
      using assms(1) c 2(1,4) p cur(1) e by (simp add: execute_sync_def Jobs_ByID_row)
    have row2: "job_row s2 (Job_ID current) = Some current" using cur(1) jid by simp
    have "closes (Job_ID job) s2 s3" using conclude_closes [OF e cur(3) row2 job_row_checks [OF cur(3) row2]] jid by simp
    then have "closes (Job_ID job) s s3" by (rule closes_since) (simp add: cur(4) armed(3) w(1))
    moreover have sid: "Source_ID src = Job_SourceID job" using Sources_ByID_in [OF 2(6)] by simp
    have "source_is {SourceStatusIdle, SourceStatusError} (Source_ID src) s3"
      by (rule conclude_marks [OF e cur(3) ok2 row2 runPipeline_count [OF p assms(5)] source_count [OF assms(3) 2(6)]])
        (simp add: cur(2) 2(7) sid)
    ultimately show ?thesis using closes_disarm source_is_cong [OF sources_frame(4)] sid s' by simp
  qed
qed

text \<open>An import of custom content.\<close>

lemma v1_source_is:
  "sources_ok s \<Longrightarrow> Job_SourceID job = SourceIDCustom \<Longrightarrow>
    Source_ID (v1_source job s) = SourceIDCustom \<and> 0 \<le> Source_ItemCount (v1_source job s)"
  by (auto simp: v1_source_def split: sum.splits dest: Sources_ByID_in source_count)

lemma execute_import_ends:
  assumes "execute_import env ts job s = (errs, s')" "jobs_ok s" "sources_ok s" "job_row s (Job_ID job) = Some job"
    "\<forall>objs. 0 \<le> Run_countCustom env objs" "Job_SourceID job = SourceIDCustom"
  shows "closes (Job_ID job) s s' \<and> source_is {SourceStatusIdle, SourceStatusError} SourceIDCustom s'"
proof (cases "Run_custom env")
  case None
  then have f: "failJob env ts job VersionCurrent (ErrorsNew ''v1_import: custom service is not configured'') s = (errs, s')"
    using assms(1) by (simp add: execute_import_def)
  show ?thesis using failJob_closes [OF f assms(2,4)] failJob_marks [OF f assms(2-4)] assms(6) by (auto simp: source_is_def)
next
  case (Some custom)
  let ?u = "(job_update JobStatusRunning PhaseParse 0 0 ''importing v1 custom content'')\<lparr>JU_StartedAt := ts\<rparr>"
  obtain r s1 where w: "job_write (Job_ID job) ?u s = (r, s1)" by fastforce
  define job' where "job' = job_sets ?u job"
  have r: "r = Inr job'" "wrote (Job_ID job) ?u s s1" using job_write_ok [OF w assms(2,4)] by (simp_all add: job'_def)
  have job': "Job_ID job' = Job_ID job" "Job_SourceID job' = Job_SourceID job" "Job_Status job' = JobStatusRunning"
    by (simp_all add: job'_def)
  note wr = wrote_status [OF r(2)]
  let ?s2 = "arm job' s1"
  have armed: "jobs_ok ?s2" "job_row ?s2 = job_row s1" "job_status ?s2 = job_status s1"
    using same_jobsD [OF same_disarm(2) [of s1 job']] wr(2) by (simp_all add: job_status_def [abs_def])
  have "job_row s1 (Job_ID job) = Some job'" using r(2) assms(4) by (auto simp: wrote_def job'_def)
  then have row: "job_row ?s2 (Job_ID job') = Some job'" using armed(2) job'(1) by simp
  have ok2: "sources_ok ?s2" using sources_ok_cong [of ?s2 s] wr(6) assms(3) by simp
  define ends :: "error list \<times> Runner_state \<Rightarrow> bool" where
    "ends = (\<lambda>(e, t). closes (Job_ID job) ?s2 t \<and> source_is {SourceStatusIdle, SourceStatusError} SourceIDCustom t)"
  have fails: "ends (failJob env ts job' VersionCurrent cause ?s2)" for cause
  proof -
    obtain e t where f: "failJob env ts job' VersionCurrent cause ?s2 = (e, t)" by fastforce
    then show ?thesis using failJob_closes [OF f armed(1) row] failJob_marks [OF f armed(1) ok2 row] job' assms(6)
      by (auto simp: ends_def source_is_def)
  qed
  let ?s3 = "Report_progress (Job_ID job') PhaseParse 0 1 ''parsing'' ?s2"
  define after where "after = (\<lambda>raw. case custom (Job_Checkpoint job') raw (CDB_objects (RS_db ?s3)) of
     (r, objs) \<Rightarrow> (let t = ?s3\<lparr>RS_db := (RS_db ?s3)\<lparr>CDB_objects := objs\<rparr>\<rparr>
       in case Jobs_ByID (Job_ID job') (RS_db t) of Inl err \<Rightarrow> ([err], t)
          | Inr current \<Rightarrow> (case r of Inr report \<Rightarrow> v1_success env ts job' report t
             | Inl err \<Rightarrow> conclude env ts (v1_source job s)
                 \<lparr>PR_version = VersionCurrent, PR_count = 0, PR_message = []\<rparr> (Some err) current t)))"
  have body: "ends (after raw)" for raw
  proof -
    obtain res objs where res: "custom (Job_Checkpoint job') raw (CDB_objects (RS_db ?s3)) = (res, objs)" by fastforce
    define t where "t = ?s3\<lparr>RS_db := (RS_db ?s3)\<lparr>CDB_objects := objs\<rparr>\<rparr>"
    have "work_steps (Job_ID job') ?s2 ?s3" by blast
    then have steps: "work_steps (Job_ID job') ?s2 t" by (rule work_same) (simp add: t_def same_runs_def)
    obtain current where cur: "job_row t (Job_ID job') = Some current" "Job_SourceID current = Job_SourceID job'"
        "jobs_ok t" "job_status t = job_status ?s2" "CDB_sources (RS_db t) = CDB_sources (RS_db ?s2)"
      by (rule run_keeps [OF steps armed(1) row job'(3)])
    have okt: "sources_ok t" using sources_ok_cong [OF cur(5)] ok2 by simp
    have jid: "Job_ID current = Job_ID job'" using job_row_id [OF cur(1)] by simp
    then have rowt: "job_row t (Job_ID current) = Some current" using cur(1) by simp
    have after: "after raw = (case res of Inr report \<Rightarrow> v1_success env ts job' report t
             | Inl err \<Rightarrow> conclude env ts (v1_source job s)
                 \<lparr>PR_version = VersionCurrent, PR_count = 0, PR_message = []\<rparr> (Some err) current t)"
      unfolding after_def res by (simp add: t_def [symmetric] Jobs_ByID_row cur(1))
    show ?thesis
    proof (cases res)
      case (Inl err)
      obtain e u where c: "conclude env ts (v1_source job s) \<lparr>PR_version = VersionCurrent, PR_count = 0, PR_message = []\<rparr>
          (Some err) current t = (e, u)" by fastforce
      have "closes (Job_ID job) t u" using conclude_closes [OF c cur(3) rowt job_row_checks [OF cur(3) rowt]] jid job'(1) by simp
      moreover have "source_is {SourceStatusIdle, SourceStatusError} (Source_ID (v1_source job s)) u"
        by (rule conclude_marks [OF c cur(3) okt rowt]) (use v1_source_is [OF assms(3,6)] cur(2) job'(2) assms(6) in simp_all)
      ultimately show ?thesis using after c Inl v1_source_is [OF assms(3,6)] cur(4) by (simp add: ends_def closes_def)
    next
      case (Inr report)
      obtain e u where v: "v1_success env ts job' report t = (e, u)" by fastforce
      have "job_status t (Job_ID job') \<in> {Some JobStatusRunning, Some JobStatusCancelling}"
        using row job'(3) by (simp add: cur(4)) (simp add: job_status_def)
      then have "closes (Job_ID job) t u" using v1_success_closes [OF v cur(3)] job'(1) by simp
      moreover have "source_is {SourceStatusIdle} SourceIDCustom u" by (rule v1_success_marks [OF v cur(3) okt cur(1) assms(5)])
      ultimately show ?thesis using after v Inr cur(4) by (auto simp: ends_def closes_def source_is_def)
    qed
  qed
  have "\<exists>e t. ends (e, t) \<and> s' = disarm t"
  proof (cases "CP_bundle_path (Job_Checkpoint job') = []")
    case True
    obtain e t where f: "failJob env ts job' VersionCurrent (ErrorsNew ''v1_import: missing bundle_path in checkpoint'') ?s2 = (e, t)"
      by fastforce
    then have "s' = disarm t" using assms(1) Some w r(1) True by (simp add: execute_import_def)
    then show ?thesis using fails f by metis
  next
    case False
    show ?thesis
    proof (cases "map_of (RS_files ?s2) (path_Clean (CP_bundle_path (Job_Checkpoint job')))")
      case None
      obtain e t where f: "failJob env ts job' VersionCurrent
          (ErrorfW ''v1_import: read upload'' (ErrorsNew ''no such file or directory'')) ?s2 = (e, t)" by fastforce
      then have "s' = disarm t" using assms(1) Some w r(1) False None by (simp add: execute_import_def)
      then show ?thesis using fails f by metis
    next
      case found: (Some raw)
      obtain e t where f: "after raw = (e, t)" by fastforce
      then have "s' = disarm t" using assms(1) Some w r(1) False found
        by (simp add: execute_import_def after_def Let_def split: prod.splits)
      then show ?thesis using body f by metis
    qed
  qed
  then obtain e t where t: "ends (e, t)" "s' = disarm t" by blast
  then have "closes (Job_ID job) s t" using armed(3) wr(1) by (auto simp: ends_def intro: closes_since)
  then show ?thesis using t closes_disarm source_is_cong [OF sources_frame(4)] by (simp add: ends_def)
qed

lemma upload_gone:
  assumes "IsAbs root" "CP_cleanup_upload (Job_Checkpoint job)" "CP_bundle_path (Job_Checkpoint job) = path" "IsAbs path"
    "abs_segs path = abs_segs root @ UploadRoot # zs"
  shows "map_of (RS_files (cleanupJobUpload root job s)) (path_Clean path) = None"
proof -
  have "path \<noteq> []" "root \<noteq> []" using assms(1,4) by (auto simp: IsAbs_iff)
  moreover have "under_root (path_Join [root, UploadRoot]) (path_Clean path)"
    using under_root_iff [of "path_Join [root, UploadRoot]" "path_Clean path"] uploads_segs [OF assms(1)] assms(4,5) by simp
  ultimately show ?thesis using assms(2,3) by (simp add: cleanupJobUpload_def removeUpload_def delete_conv)
qed

text \<open>
  C32. Every job that is picked comes to an end. One turn of the worker, with nothing in between, leaves the job
  it picked succeeded, failed, cancelled or interrupted, whatever the adapter, the network and the imported file
  do, touches the status of no other job, never leaves the job's source syncing, and removes the file that was
  uploaded for it.
\<close>

theorem tick_ends_job:
  assumes "runner_tick env newID ts s = (errs, s')" "NextQueued (RS_db s) = Some job" "jobs_ok s" "sources_ok s"
    "\<forall>objs. 0 \<le> Run_itemCount env objs" "\<forall>objs. 0 \<le> Run_countCustom env objs"
    "Job_Kind job = JobKindV1Import \<longrightarrow> Job_SourceID job = SourceIDCustom"
  shows "(\<exists>j. job_row s' (Job_ID job) = Some j \<and> job_final (Job_Status j)) \<and>
    (\<forall>k. k \<noteq> Job_ID job \<longrightarrow> job_status s' k = job_status s k) \<and>
    source_is {SourceStatusIdle, SourceStatusError} (Job_SourceID job) s' \<and>
    (\<forall>path zs. IsAbs (Run_root env) \<and> CP_cleanup_upload (Job_Checkpoint job) \<and> CP_bundle_path (Job_Checkpoint job) = path \<and>
       IsAbs path \<and> abs_segs path = abs_segs (Run_root env) @ UploadRoot # zs \<longrightarrow> map_of (RS_files s') (path_Clean path) = None)"
proof -
  have row: "job_row s (Job_ID job) = Some job" using NextQueued_in [OF assms(2)] job_row_in [OF assms(3)] by blast
  obtain e s1 where x: "(if Job_Kind job = JobKindV1Import then execute_import env ts job s else execute_sync env newID ts job s) = (e, s1)"
    by fastforce
  have s': "s' = cleanupJobUpload (Run_root env) job s1" using assms(1,2) x by (simp add: runner_tick_def runner_execute_def)
  have "closes (Job_ID job) s s1 \<and> source_is {SourceStatusIdle, SourceStatusError} (Job_SourceID job) s1"
    using x execute_sync_ends [OF _ assms(3,4) row assms(5)] execute_import_ends [OF _ assms(3,4) row assms(6)] assms(7)
    by (simp split: if_splits)
  then have ends: "closes (Job_ID job) s s1" "source_is {SourceStatusIdle, SourceStatusError} (Job_SourceID job) s1" by blast+
  have "CDB_sources (RS_db s') = CDB_sources (RS_db s1)" unfolding s' by (rule sources_frame(3))
  from source_is_cong [OF this] ends(2) have src: "source_is {SourceStatusIdle, SourceStatusError} (Job_SourceID job) s'" by simp
  have st: "job_status s' = job_status s1" unfolding s' by (rule same_jobs_status [OF cleanup_same])
  obtain st where final: "job_status s' (Job_ID job) = Some st" "job_final st" using ends(1) st unfolding closes_def by metis
  obtain j where "job_row s' (Job_ID job) = Some j" "Job_Status j = st" using status_row [OF final(1)] by blast
  moreover have "\<forall>k. k \<noteq> Job_ID job \<longrightarrow> job_status s' k = job_status s k" using ends(1) st unfolding closes_def by metis
  moreover have "map_of (RS_files s') (path_Clean path) = None" if "IsAbs (Run_root env)" "CP_cleanup_upload (Job_Checkpoint job)"
      "CP_bundle_path (Job_Checkpoint job) = path" "IsAbs path" "abs_segs path = abs_segs (Run_root env) @ UploadRoot # zs" for path zs
    unfolding s' by (rule upload_gone [OF that])
  ultimately show ?thesis using src final(2) by metis
qed

section \<open>Requests cut between their reading and their write\<close>

text \<open>
  No lock and no guard in the statement holds the row between the two. Two requests that both find no active job
  both enqueue one; a checkpoint is written with the status the row was inserted with, whatever it has become.
\<close>

lemma two_checks_two_queued:
  assumes "StartSync_check env req1 s = Inr (src1, kind1)" "StartSync_check env req2 s = Inr (src2, kind2)" "jobs_ok s"
    "StartSync_insert id1 ts1 a1 req1 src1 kind1 s = (Inr j1, s1)" "StartSync_insert id2 ts2 a2 req2 src2 kind2 s1 = (Inr j2, s2)"
  shows "Job_ID j1 \<noteq> Job_ID j2 \<and> job_status s2 (Job_ID j1) = Some JobStatusQueued \<and> job_status s2 (Job_ID j2) = Some JobStatusQueued"
proof -
  obtain db1 db2 where c: "Jobs_Create id1 ts1 \<lparr>NewJob_SourceID = Source_ID src1, NewJob_Version = Start_Version req1,
             NewJob_Kind = kind1, NewJob_CreatedBy = a1\<rparr> (RS_db s) = (Inr j1, db1)" "s1 = s\<lparr>RS_db := db1\<rparr>"
      "Jobs_Create id2 ts2 \<lparr>NewJob_SourceID = Source_ID src2, NewJob_Version = Start_Version req2,
             NewJob_Kind = kind2, NewJob_CreatedBy = a2\<rparr> (RS_db s1) = (Inr j2, db2)" "s2 = s1\<lparr>RS_db := db2\<rparr>"
    using assms(4,5) by (auto simp: StartSync_insert_def split: prod.splits)
  note first = Jobs_Create_row [OF c(1) assms(3)]
  note second = Jobs_Create_row [OF c(3) first(1) [folded c(2)]]
  have "job_status s1 id1 = Some JobStatusQueued" using first(7) c(2) by simp
  moreover have "id1 \<noteq> id2" using second(2) calculation by auto
  ultimately show ?thesis using first(4) second(4,7) c(4) by simp
qed

lemma checkpoint_requeues:
  assumes "checkpoint_write job cp s = (r, s')" "Job_Status job = JobStatusQueued" "jobs_ok s" "job_row s (Job_ID job) = Some j"
  shows "job_status s' (Job_ID job) = Some JobStatusQueued"
proof -
  let ?u = "(job_update (Job_Status job) (Job_Phase job) 0 0 (Job_Message job))\<lparr>JU_Checkpoint := Some cp\<rparr>"
  have w: "job_write (Job_ID job) ?u s = (r, s')" using assms(1) by (simp add: checkpoint_write_def)
  have "wrote (Job_ID job) ?u s s'" using job_write_ok [OF w assms(3,4)] assms(2) by simp
  from wrote_status(1) [OF this] show ?thesis using assms(2) by simp
qed

text \<open>A job that is cancelled after it was picked and before it is claimed runs all the same.\<close>

lemma cancelled_job_claimed:
  assumes "runner_Cancel env ts a (Job_ID job) s = (Inr cancelled, s1)" "NextQueued (RS_db s) = Some job" "jobs_ok s"
    "claim env ts' job s1 = (Claimed job' src adapter, s2)"
  shows "job_status s1 (Job_ID job) = Some JobStatusCancelled \<and> job_status s2 (Job_ID job) = Some JobStatusRunning"
proof -
  have q: "job \<in> set (CDB_jobs (RS_db s))" "Job_Status job = JobStatusQueued" using NextQueued_in [OF assms(2)] by simp_all
  then have row: "job_row s (Job_ID job) = Some job" using job_row_in [OF assms(3)] by blast
  let ?u = "(job_update JobStatusCancelled (Job_Phase job) 0 0 ''cancelled before start'')\<lparr>JU_FinishedAt := ts\<rparr>"
  obtain r0 s0 where w: "job_write (Job_ID job) ?u s = (r0, s0)" by fastforce
  have ok: "r0 = Inr (job_sets ?u job) \<and> wrote (Job_ID job) ?u s s0" using job_write_ok [OF w assms(3) row] by simp
  note st = wrote_status(1) [OF conjunct2 [OF ok], of "Job_ID job"] and ok0 = wrote_status(2) [OF conjunct2 [OF ok]]
  have c: "Cancel_write env ts a job s = (Inr cancelled, s1)" using assms(1) row by (simp add: runner_Cancel_def Jobs_ByID_row)
  have "same_jobs s0 s1"
    using c w ok q(2) by (auto simp: Cancel_write_def job_final_def Let_def same_jobs_def split: sum.splits)
  then have s1: "job_status s1 (Job_ID job) = Some JobStatusCancelled" "jobs_ok s1"
    using st ok0 same_jobs_status same_jobsD by simp_all
  obtain j where "job_row s1 (Job_ID job) = Some j" using status_row [OF s1(1)] by blast
  from claim_cases [OF assms(4) s1(2) this] obtain u where "wrote (Job_ID job) u s1 s2" "JU_Status u = JobStatusRunning"
    by (metis claimed.distinct(1))
  then show ?thesis using s1(1) wrote_status(1) by simp
qed

text \<open>
  A cancellation that has read a running job and writes after the job's end leaves a row that nobody works on and
  nobody may cancel, and that refuses every later request: the slot is taken until the next boot.
\<close>

lemma late_cancel_takes_slot:
  assumes "Cancel_write env ts a job s = (r, s')" "Job_Status job = JobStatusRunning" "job_checks job" "jobs_ok s"
    "job_row s (Job_ID job) = Some j"
  shows "job_status s' (Job_ID job) = Some JobStatusCancelling"
    "StartSync_check env req s' = Inr ok \<Longrightarrow> False"
    "\<exists>j'. runner_Cancel env ts2 a2 (Job_ID job) s' = (Inr j', s')"
proof -
  let ?u = "job_update JobStatusCancelling (Job_Phase job) (Job_ProgressCurrent job) (Job_ProgressTotal job) ''cancellation requested''"
  obtain r0 s0 where w: "job_write (Job_ID job) ?u s = (r0, s0)" by fastforce
  have ok: "r0 = Inr (job_sets ?u j) \<and> wrote (Job_ID job) ?u s s0"
    using job_write_ok [OF w assms(4,5)] assms(3) by (simp add: job_checks_def)
  have same: "same_jobs s0 s'" using assms(1,2) w ok by (auto simp: Cancel_write_def job_final_def same_jobs_def)
  then show st: "job_status s' (Job_ID job) = Some JobStatusCancelling"
    using wrote_status(1) [OF conjunct2 [OF ok]] same_jobs_status by simp
  then have "status_active (job_status s' (Job_ID job))" by (simp add: status_active_def)
  then have "FindActive (RS_db s') \<noteq> None" using no_active by blast
  then show "StartSync_check env req s' = Inr ok \<Longrightarrow> False"
    by (auto simp: StartSync_check_def split: sum.splits if_splits)
  obtain j' where "job_row s' (Job_ID job) = Some j'" "Job_Status j' = JobStatusCancelling" using status_row [OF st] by blast
  then show "\<exists>j'. runner_Cancel env ts2 a2 (Job_ID job) s' = (Inr j', s')"
    by (simp add: runner_Cancel_def Jobs_ByID_row Cancel_write_def job_final_def)
qed

end
