(* ===== verification/Content_Samples.thy ===== *)
theory Content_Samples
  imports Content_Ends
begin

text \<open>
  A runner with one source, one queued import of an uploaded bundle and an adapter for it: the properties of
  Content_Slot and Content_Ends at work.
\<close>

definition attack_source :: Source where
  "attack_source = \<lparr>Source_ID = ''src1'', Source_Kind = KindAttack, Source_Name = ''ATT&CK'', Source_URL = [], Source_Ref = [],
     Source_Enabled = True, Source_Status = SourceStatusSyncing, Source_LastSyncedAt = 0, Source_ItemCount = 3, Source_Error = [],
     Source_LicenseSPDX = [], Source_LicenseName = [], Source_LicenseURL = [], Source_Attribution = [],
     Source_CreatedAt = 1, Source_UpdatedAt = 1\<rparr>"

definition attack_version :: SourceVersion where
  "attack_version = \<lparr>SVersion_ID = ''ver1'', SVersion_SourceID = ''src1'', SVersion_Version = ''17.1'', SVersion_Status = VersionStatusPending,
     SVersion_ItemCount = 0, SVersion_SyncedAt = 0, SVersion_Error = [], SVersion_RawSHA256 = ''0f'', SVersion_RawPath = ''raw/src1/17.1/0f'',
     SVersion_RawBytes = 2, SVersion_CreatedAt = 1, SVersion_UpdatedAt = 1\<rparr>"

definition attack_job :: Job where
  "attack_job = \<lparr>Job_ID = ''job1'', Job_SourceID = ''src1'', Job_Version = ''17.1'', Job_Kind = JobKindBundleImport,
     Job_Status = JobStatusQueued, Job_Phase = [], Job_ProgressCurrent = 0, Job_ProgressTotal = 0, Job_Message = [], Job_Error = [],
     Job_CreatedBy = ''alice'', Job_CreatedAt = 5, Job_StartedAt = 0, Job_FinishedAt = 0,
     Job_Checkpoint = no_checkpoint\<lparr>CP_skip_fetch := True, CP_bundle_path := ''/data/content/uploads/b1'', CP_cleanup_upload := True\<rparr>\<rparr>"

definition attack_state :: Runner_state where
  "attack_state = \<lparr>RS_db = \<lparr>CDB_sources = [attack_source], CDB_versions = [attack_version], CDB_jobs = [attack_job], CDB_objects = []\<rparr>,
     RS_files = [(''/data/content/uploads/b1'', ''xyz''), (''/data/content/raw/src1/17.1/0f'', ''xy'')], RS_activity = [], RS_subs = [],
     RS_runJobID = None, RS_ended = None, RS_wake = False\<rparr>"

definition attack_adapter :: "(string, string) Adapter" where
  "attack_adapter = \<lparr>Adapter_Fetch = (\<lambda>_ _ _. Inl (ErrorsNew ''offline'')), Adapter_Parse = (\<lambda>b. Inr (Bundle_Bytes b)),
     Adapter_Normalize = (\<lambda>ast. Inr [ast]), Adapter_Apply = (\<lambda>_ _ _ _. ([Tick PhaseApply 1 1 ''applied''], None))\<rparr>"

definition attack_env :: "(string, string) Runner_env" where
  "attack_env = \<lparr>Run_root = ''/data/content'', Run_adapters = [(KindAttack, attack_adapter)], Run_custom = None,
     Run_countCustom = (\<lambda>_. 0), Run_maxBytes = 100, Run_writeBatch = 10, Run_sha256 = (\<lambda>_. ''1e''),
     Run_itemCount = (\<lambda>objs. int (length objs)), Run_successMessage = (\<lambda>_. []), Run_activity = False, Run_show = (\<lambda>_. ''failed'')\<rparr>"

lemma attack_next: "NextQueued (RS_db attack_state) = Some attack_job"
  by (simp add: NextQueued_def oldest_first_def first_of_def attack_state_def attack_job_def)

lemma attack_ok: "jobs_ok attack_state" "sources_ok attack_state"
  by (simp_all add: jobs_ok_def sources_ok_def attack_state_def attack_job_def attack_source_def job_checks_def source_checks_def)

theorem tick_ends_job_witness:
  "\<exists>errs s'. runner_tick attack_env ''v2'' 9 attack_state = (errs, s') \<and>
     (\<exists>j. job_row s' ''job1'' = Some j \<and> job_final (Job_Status j)) \<and>
     source_is {SourceStatusIdle, SourceStatusError} ''src1'' s' \<and> map_of (RS_files s') ''/data/content/uploads/b1'' = None"
proof -
  obtain errs s' where t: "runner_tick attack_env ''v2'' 9 attack_state = (errs, s')" by fastforce
  have "path_Clean ''/data/content/uploads/b1'' = ''/data/content/uploads/b1''" by code_simp
  moreover have "abs_segs ''/data/content/uploads/b1'' = abs_segs ''/data/content'' @ UploadRoot # [''b1'']" by code_simp
  moreover have "IsAbs ''/data/content/uploads/b1''" "IsAbs ''/data/content''" by code_simp+
  ultimately show ?thesis
    using tick_ends_job [OF t attack_next attack_ok] t by (auto simp: attack_job_def attack_env_def)
qed

theorem content_files_inside_witness:
  "requirePathUnderRoot ''/data/content'' ''/data/content/raw/../../secret'' \<noteq> None \<and>
   requirePathUnderRoot ''/data/content'' ''/data/content/raw/../uploads/b1'' = None \<and>
   map_of (removeUpload ''/data/content'' ''/data/content/uploads/../raw/b1'' [(''/data/content/raw/b1'', ''x'')]) ''/data/content/raw/b1'' = Some ''x''"
proof -
  have "IsAbs ''/data/content''" by code_simp
  note inside = content_files_inside [OF this]
  have segs: "abs_segs ''/data/content'' = [''data'', ''content'']" "abs_segs ''/data/content/raw/../../secret'' = [''data'', ''secret'']"
    "abs_segs ''/data/content/raw/../uploads/b1'' = [''data'', ''content'', ''uploads'', ''b1'']"
    "abs_segs ''/data/content/raw/b1'' = [''data'', ''content'', ''raw'', ''b1'']" "IsAbs ''/data/content/raw/../uploads/b1''"
    by code_simp+
  have "\<not> (\<exists>zs. abs_segs ''/data/content/raw/b1'' = abs_segs ''/data/content'' @ UploadRoot # zs)" unfolding segs by simp
  then have "map_of (removeUpload ''/data/content'' ''/data/content/uploads/../raw/b1'' [(''/data/content/raw/b1'', ''x'')]) ''/data/content/raw/b1'' =
      map_of [(''/data/content/raw/b1'', ''x'')] ''/data/content/raw/b1''"
    using inside by blast
  moreover have "requirePathUnderRoot ''/data/content'' ''/data/content/raw/../../secret'' \<noteq> None"
    using inside segs by simp
  moreover have "requirePathUnderRoot ''/data/content'' ''/data/content/raw/../uploads/b1'' = None"
    using inside segs by simp
  ultimately show ?thesis by simp
qed

definition attack_bundle :: Bundle where
  "attack_bundle = \<lparr>Bundle_Bytes = ''xyz'', Bundle_Path = ''/data/content/uploads/b1'', Bundle_SHA256 = ''1e'', Bundle_Size = 3,
     Bundle_Version = ''17.1''\<rparr>"

theorem snapshot_read_back_witness:
  "\<exists>s' ver p. finalizeSuccess attack_env 9 ''src1'' attack_bundle 1 attack_state = (None, s') \<and>
     BySourceVersion ''src1'' ''17.1'' (RS_db s') = Inr ver \<and> SVersion_Status ver = VersionStatusReady \<and>
     Paths_Abs ''/data/content'' (SVersion_RawPath ver) = Inr p \<and> map_of (RS_files s') p = Some ''xyz''"
proof -
  have "fst (finalizeSuccess attack_env 9 ''src1'' attack_bundle 1 attack_state) = None" by code_simp
  then obtain s' where f: "finalizeSuccess attack_env 9 ''src1'' attack_bundle 1 attack_state = (None, s')" by (metis prod.collapse)
  have "IsAbs (Run_root attack_env)" by code_simp
  moreover have "\<forall>v\<in>set (CDB_versions (RS_db attack_state)). SVersion_RawPath v = [] \<or> CleanRel (SVersion_RawPath v) = Inr (SVersion_RawPath v)"
    by code_simp
  ultimately show ?thesis using snapshot_read_back [OF f] f by (auto simp: attack_bundle_def attack_env_def)
qed

section \<open>A boot, a pick and a claim\<close>

definition booted :: Runner_state where
  "booted = runner_Boot 8 attack_state"

definition claimed_run :: Runner_state where
  "claimed_run = snd (claim attack_env 9 attack_job booted)"

lemma booted_next: "NextQueued (RS_db booted) = Some attack_job"
  by code_simp


end
